(* ===== verification/Osade_Base.thy ===== *)
theory Osade_Base
  imports Main "HOL-Library.AList" "HOL-Library.Product_Lexorder" "HOL-Library.Option_ord"
    "HOL-Library.Word" "HOL-Library.Multiset"
begin

text \<open>
  The prelude of the development: machine integers and times, Rust's \<open>HashMap\<close> as an
  association list behind the interface \<open>hash_map\<close>, the iterator operations
  \<open>min_by_key\<close> and \<open>max_by_key\<close>, the \<open>Reverse\<close> ordering wrapper, and two interfaces that
  several components share: the per-source sequence gate (\<open>sequence_gate\<close>) and the
  operation machine (\<open>op_machine\<close>), whose lemmas lift one-step facts to whole runs.
\<close>

named_theorems hash_map_simps \<open>rewrite rules of the HashMap operations\<close>

section \<open>Machine integers and times\<close>

type_synonym u16 = "16 word"
type_synonym u32 = "32 word"
type_synonym u64 = "64 word"

text \<open>Rust's \<open>saturating_add\<close>, \<open>saturating_sub\<close>, \<open>saturating_mul\<close> and \<open>abs_diff\<close> on \<open>u16\<close>.\<close>

definition u16_max :: nat where
  "u16_max = 65535"

definition u16_of :: "nat \<Rightarrow> u16" where
  "u16_of n = word_of_nat (min n u16_max)"

definition sat_add :: "u16 \<Rightarrow> u16 \<Rightarrow> u16" where
  "sat_add a b = u16_of (unat a + unat b)"

definition sat_mul :: "u16 \<Rightarrow> u16 \<Rightarrow> u16" where
  "sat_mul a b = u16_of (unat a * unat b)"

definition sat_sub :: "u16 \<Rightarrow> u16 \<Rightarrow> u16" where
  "sat_sub a b = (if b \<le> a then a - b else 0)"

definition abs_diff :: "u16 \<Rightarrow> u16 \<Rightarrow> u16" where
  "abs_diff a b = (if b \<le> a then a - b else b - a)"

lemma u16_bound: "unat (a :: u16) \<le> u16_max"
proof -
  have "unat a < 2 ^ LENGTH(16)" by (rule unsigned_less)
  then show ?thesis by (simp add: u16_max_def)
qed

lemma unat_u16_of [simp]: "unat (u16_of n) = min n u16_max"
  by (simp add: u16_of_def u16_max_def unat_of_nat take_bit_eq_mod)

lemma unat_sat_add: "unat (sat_add a b) = min (unat a + unat b) u16_max"
  by (simp add: sat_add_def)

lemma unat_sat_sub: "unat (sat_sub a b) = unat a - unat b"
  by (auto simp: sat_sub_def unat_sub word_le_nat_alt)

lemma unat_add_no_wrap: "unat a + unat b \<le> u16_max \<Longrightarrow> unat (a + b :: u16) = unat a + unat b"
  by (simp add: unat_word_ariths u16_max_def)

text \<open>
  A \<open>usize\<close> is a natural number up to \<open>usize_max\<close>, on a platform of 64 bits; \<open>a + b\<close> wraps
  round as release builds do.
\<close>

type_synonym usize = nat

definition usize_max :: nat where
  "usize_max = 2 ^ 64 - 1"

definition usize_add :: "usize \<Rightarrow> usize \<Rightarrow> usize" where
  "usize_add a b = (a + b) mod 2 ^ 64"

definition usize_checked_add :: "usize \<Rightarrow> usize \<Rightarrow> usize option" where
  "usize_checked_add a b = (if a + b \<le> usize_max then Some (a + b) else None)"

definition usize_checked_mul :: "usize \<Rightarrow> usize \<Rightarrow> usize option" where
  "usize_checked_mul a b = (if a * b \<le> usize_max then Some (a * b) else None)"

lemma usize_add_no_wrap: "a + b \<le> usize_max \<Longrightarrow> usize_add a b = a + b"
  by (simp add: usize_add_def usize_max_def)

text \<open>
  \<open>Instant\<close> and \<open>Duration\<close> count nanoseconds. \<open>checked_add\<close> fails past the largest instant
  the platform can hold (seconds in an \<open>i64\<close>).
\<close>

type_synonym instant = nat
type_synonym duration = nat

definition instant_max :: nat where
  "instant_max = 2 ^ 63 * 10 ^ 9 - 1"

definition checked_add :: "instant \<Rightarrow> duration \<Rightarrow> instant option" where
  "checked_add t d = (if t + d \<le> instant_max then Some (t + d) else None)"

definition unwrap_or :: "'a option \<Rightarrow> 'a \<Rightarrow> 'a" where
  "unwrap_or x d = (case x of Some y \<Rightarrow> y | None \<Rightarrow> d)"

definition or_else :: "'a option \<Rightarrow> 'a option \<Rightarrow> 'a option" where
  "or_else x y = (case x of Some z \<Rightarrow> Some z | None \<Rightarrow> y)"

definition is_some_and :: "'a option \<Rightarrow> ('a \<Rightarrow> bool) \<Rightarrow> bool" where
  "is_some_and x P = (case x of Some y \<Rightarrow> P y | None \<Rightarrow> False)"

definition is_none_or :: "'a option \<Rightarrow> ('a \<Rightarrow> bool) \<Rightarrow> bool" where
  "is_none_or x P = (case x of Some y \<Rightarrow> P y | None \<Rightarrow> True)"

definition opt_filter :: "('a \<Rightarrow> bool) \<Rightarrow> 'a option \<Rightarrow> 'a option" where
  "opt_filter P x = (case x of Some y \<Rightarrow> if P y then Some y else None | None \<Rightarrow> None)"

definition then_some :: "bool \<Rightarrow> 'a \<Rightarrow> 'a option" where
  "then_some b x = (if b then Some x else None)"

lemma unwrap_or_simps [simp]: "unwrap_or None d = d" "unwrap_or (Some x) d = x"
  by (simp_all add: unwrap_or_def)

lemma or_else_simps [simp]:
  "or_else None y = y" "or_else (Some a) y = Some a" "or_else z None = z"
  by (simp_all add: or_else_def split: option.split)

lemma or_else_eq_None [simp]: "or_else x y = None \<longleftrightarrow> x = None \<and> y = None"
  by (auto simp: or_else_def split: option.split)

lemma is_some_and_simps [simp]:
  "is_some_and None P = False" "is_some_and (Some x) P = P x"
  by (simp_all add: is_some_and_def)

lemma is_none_or_simps [simp]:
  "is_none_or None P = True" "is_none_or (Some x) P = P x"
  by (simp_all add: is_none_or_def)

lemma is_some_and_iff: "is_some_and x P \<longleftrightarrow> (\<exists>y. x = Some y \<and> P y)"
  by (cases x) simp_all

lemma is_none_or_iff: "is_none_or x P \<longleftrightarrow> (\<forall>y. x = Some y \<longrightarrow> P y)"
  by (cases x) simp_all

lemma opt_filter_simps [simp]:
  "opt_filter P None = None" "opt_filter P (Some x) = (if P x then Some x else None)"
  by (simp_all add: opt_filter_def)

lemma opt_filter_Some_iff: "opt_filter P x = Some y \<longleftrightarrow> x = Some y \<and> P y"
  by (cases x) auto

lemma then_some_simps [simp]:
  "then_some True x = Some x" "then_some False x = None"
  by (simp_all add: then_some_def)

lemma then_some_eq_None [simp]: "then_some b x = None \<longleftrightarrow> \<not> b"
  by (simp add: then_some_def)

text \<open>\<open>Iterator::position\<close> of the first element equal to \<open>x\<close>.\<close>

fun index_of :: "'a \<Rightarrow> 'a list \<Rightarrow> nat option" where
  "index_of x [] = None"
| "index_of x (y # ys) = (if y = x then Some 0 else map_option Suc (index_of x ys))"

lemma index_of_Some: "x \<in> set xs \<Longrightarrow> \<exists>i. index_of x xs = Some i \<and> i < length xs \<and> xs ! i = x"
  by (induction xs) auto

text \<open>\<open>Iterator::position\<close>, \<open>Vec::get\<close>, \<open>Vec::remove\<close> and \<open>Vec::insert\<close>; the code calls the last two in range.\<close>

fun position :: "('a \<Rightarrow> bool) \<Rightarrow> 'a list \<Rightarrow> nat option" where
  "position P [] = None"
| "position P (x # xs) = (if P x then Some 0 else map_option Suc (position P xs))"

definition nth_opt :: "'a list \<Rightarrow> nat \<Rightarrow> 'a option" where
  "nth_opt xs i = (if i < length xs then Some (xs ! i) else None)"

definition vec_remove :: "nat \<Rightarrow> 'a list \<Rightarrow> 'a list" where
  "vec_remove i xs = take i xs @ drop (Suc i) xs"

definition vec_insert :: "nat \<Rightarrow> 'a \<Rightarrow> 'a list \<Rightarrow> 'a list" where
  "vec_insert i x xs = take i xs @ x # drop i xs"

lemma position_None_iff: "position P xs = None \<longleftrightarrow> list_all (\<lambda>x. \<not> P x) xs"
  by (induction xs) auto

lemma position_SomeD:
  "position P xs = Some i \<Longrightarrow> i < length xs \<and> P (xs ! i) \<and> (\<forall>j < i. \<not> P (xs ! j))"
  by (induction xs arbitrary: i) (auto simp: nth_Cons less_Suc_eq_0_disj split: if_splits nat.splits)

lemma nth_opt_Some_iff: "nth_opt xs i = Some x \<longleftrightarrow> i < length xs \<and> xs ! i = x"
  by (simp add: nth_opt_def)

lemma length_vec_remove [simp]: "i < length xs \<Longrightarrow> length (vec_remove i xs) = length xs - 1"
  by (simp add: vec_remove_def)

lemma vec_remove_nonempty: "\<not> length xs \<le> 1 \<Longrightarrow> i < length xs \<Longrightarrow> vec_remove i xs \<noteq> []"
  by (metis diff_is_0_eq length_vec_remove list.size(3))

lemma length_vec_insert [simp]: "length (vec_insert i x xs) = Suc (length xs)"
  by (simp add: vec_insert_def)

lemma mset_vec_remove: "i < length xs \<Longrightarrow> add_mset (xs ! i) (mset (vec_remove i xs)) = mset xs"
  by (subst (3) id_take_nth_drop [of i xs]) (simp_all add: vec_remove_def)

lemma mset_vec_insert: "mset (vec_insert i x xs) = add_mset x (mset xs)"
proof -
  have "mset (take i xs) + mset (drop i xs) = mset xs" by (simp flip: mset_append)
  then show ?thesis by (simp add: vec_insert_def)
qed

lemma set_vec_remove_subset: "set (vec_remove i xs) \<subseteq> set xs"
  by (auto simp: vec_remove_def dest: in_set_takeD in_set_dropD)

lemma nth_vec_remove:
  "i < length xs \<Longrightarrow> j < length xs - 1 \<Longrightarrow> vec_remove i xs ! j = (if j < i then xs ! j else xs ! Suc j)"
  by (auto simp: vec_remove_def nth_append min_def)

lemma vec_insert_removed: "i < length xs \<Longrightarrow> vec_insert i (xs ! i) (vec_remove i xs) = xs"
  by (simp add: vec_insert_def vec_remove_def id_take_nth_drop [symmetric] min_def)

lemma nth_vec_insert:
  "i \<le> length xs \<Longrightarrow> j \<le> length xs \<Longrightarrow>
     vec_insert i x xs ! j = (if j < i then xs ! j else if j = i then x else xs ! (j - 1))"
  by (cases j) (auto simp: vec_insert_def nth_append nth_Cons' min_def)

section \<open>HashMap\<close>

text \<open>
  A \<open>HashMap\<close> is an association list. Its order is the iteration order, which Rust leaves
  open: a theorem about an arbitrary list holds for every order.
\<close>

type_synonym ('k, 'v) hashmap = "('k \<times> 'v) list"

definition hm_get :: "('k, 'v) hashmap \<Rightarrow> 'k \<Rightarrow> 'v option" where
  "hm_get m k = map_of m k"

definition hm_insert :: "'k \<Rightarrow> 'v \<Rightarrow> ('k, 'v) hashmap \<Rightarrow> ('k, 'v) hashmap" where
  "hm_insert k v m = AList.update k v m"

definition hm_remove :: "'k \<Rightarrow> ('k, 'v) hashmap \<Rightarrow> ('k, 'v) hashmap" where
  "hm_remove k m = AList.delete k m"

definition hm_contains :: "('k, 'v) hashmap \<Rightarrow> 'k \<Rightarrow> bool" where
  "hm_contains m k \<longleftrightarrow> hm_get m k \<noteq> None"

definition hm_retain :: "('k \<Rightarrow> 'v \<Rightarrow> bool) \<Rightarrow> ('k, 'v) hashmap \<Rightarrow> ('k, 'v) hashmap" where
  "hm_retain P m = filter (\<lambda>(k, v). P k v) m"

definition hm_map_values :: "('k \<Rightarrow> 'v \<Rightarrow> 'w) \<Rightarrow> ('k, 'v) hashmap \<Rightarrow> ('k, 'w) hashmap" where
  "hm_map_values f m = map (\<lambda>(k, v). (k, f k v)) m"

definition hm_modify :: "'k \<Rightarrow> ('v \<Rightarrow> 'v) \<Rightarrow> ('k, 'v) hashmap \<Rightarrow> ('k, 'v) hashmap" where
  "hm_modify k f m = (case hm_get m k of None \<Rightarrow> m | Some v \<Rightarrow> hm_insert k (f v) m)"

definition hm_or_insert :: "'k \<Rightarrow> 'v \<Rightarrow> ('k, 'v) hashmap \<Rightarrow> ('k, 'v) hashmap" where
  "hm_or_insert k v m = (if hm_contains m k then m else hm_insert k v m)"

definition hm_keys :: "('k, 'v) hashmap \<Rightarrow> 'k list" where
  "hm_keys m = map fst m"

definition hm_values :: "('k, 'v) hashmap \<Rightarrow> 'v list" where
  "hm_values m = map snd m"

definition hm_wf :: "('k, 'v) hashmap \<Rightarrow> bool" where
  "hm_wf m \<longleftrightarrow> distinct (hm_keys m)"

lemma hm_get_Nil [simp, hash_map_simps]: "hm_get [] k = None"
  by (simp add: hm_get_def)

lemma hm_get_insert [simp, hash_map_simps]:
  "hm_get (hm_insert k v m) k' = (if k' = k then Some v else hm_get m k')"
  by (simp add: hm_get_def hm_insert_def update_conv')

lemma hm_get_remove [simp, hash_map_simps]:
  "hm_get (hm_remove k m) k' = (if k' = k then None else hm_get m k')"
  by (simp add: hm_get_def hm_remove_def delete_conv')

lemma hm_get_modify [simp, hash_map_simps]:
  "hm_get (hm_modify k f m) k' =
     (if k' = k then map_option f (hm_get m k) else hm_get m k')"
  by (auto simp: hm_modify_def split: option.split)

lemma hm_get_or_insert [simp, hash_map_simps]:
  "hm_get (hm_or_insert k v m) k' =
     (if k' = k then Some (unwrap_or (hm_get m k) v) else hm_get m k')"
  by (auto simp: hm_or_insert_def hm_contains_def)

lemma hm_get_map_values [simp, hash_map_simps]:
  "hm_get (hm_map_values f m) k = map_option (f k) (hm_get m k)"
  by (induction m) (auto simp: hm_get_def hm_map_values_def)

lemma hm_contains_iff: "hm_contains m k \<longleftrightarrow> k \<in> set (hm_keys m)"
  by (simp add: hm_contains_def hm_get_def hm_keys_def map_of_eq_None_iff)

lemma hm_get_mem: "hm_get m k = Some v \<Longrightarrow> (k, v) \<in> set m"
  by (simp add: hm_get_def map_of_SomeD)

lemma hm_mem_get: "hm_wf m \<Longrightarrow> (k, v) \<in> set m \<Longrightarrow> hm_get m k = Some v"
  by (simp add: hm_wf_def hm_keys_def hm_get_def)

lemma hm_get_retain:
  "hm_wf m \<Longrightarrow> hm_get (hm_retain P m) k = opt_filter (P k) (hm_get m k)"
proof (induction m)
  case Nil
  then show ?case by (simp add: hm_retain_def)
next
  case (Cons e m)
  obtain k' v where e: "e = (k', v)" by (cases e)
  from Cons.prems e have wf: "hm_wf m" and notin: "k' \<notin> fst ` set m"
    by (simp_all add: hm_wf_def hm_keys_def)
  from notin have "map_of (filter (\<lambda>(k, v). P k v) m) k' = None"
    by (auto simp: map_of_eq_None_iff)
  with Cons.IH [OF wf] e notin show ?case
    by (auto simp: hm_retain_def hm_get_def map_of_eq_None_iff)
qed

lemma hm_keys_Nil [simp]: "hm_keys [] = []"
  by (simp add: hm_keys_def)

lemma hm_wf_Nil [simp]: "hm_wf []"
  by (simp add: hm_wf_def hm_keys_def)

lemma hm_wf_insert [simp]: "hm_wf m \<Longrightarrow> hm_wf (hm_insert k v m)"
  by (simp add: hm_wf_def hm_keys_def hm_insert_def distinct_update)

lemma hm_wf_remove [simp]: "hm_wf m \<Longrightarrow> hm_wf (hm_remove k m)"
  by (simp add: hm_wf_def hm_keys_def hm_remove_def distinct_delete)

lemma hm_wf_retain [simp]: "hm_wf m \<Longrightarrow> hm_wf (hm_retain P m)"
  by (simp add: hm_wf_def hm_keys_def hm_retain_def distinct_map_filter)

lemma hm_keys_map_values [simp]: "hm_keys (hm_map_values f m) = hm_keys m"
  by (induction m) (auto simp: hm_keys_def hm_map_values_def)

lemma hm_wf_map_values [simp]: "hm_wf (hm_map_values f m) = hm_wf m"
  by (simp add: hm_wf_def)

lemma hm_wf_modify [simp]: "hm_wf m \<Longrightarrow> hm_wf (hm_modify k f m)"
  by (simp add: hm_modify_def split: option.split)

lemma hm_wf_or_insert [simp]: "hm_wf m \<Longrightarrow> hm_wf (hm_or_insert k v m)"
  by (simp add: hm_or_insert_def)

lemma set_keys_insert [simp]: "set (hm_keys (hm_insert k v m)) = insert k (set (hm_keys m))"
  by (simp add: hm_keys_def hm_insert_def dom_update)

lemma set_keys_remove [simp]: "set (hm_keys (hm_remove k m)) = set (hm_keys m) - {k}"
  by (simp add: hm_keys_def hm_remove_def delete_keys)

lemma hm_insert_new: "k \<notin> fst ` set m \<Longrightarrow> hm_insert k v m = m @ [(k, v)]"
  by (induction m) (auto simp: hm_insert_def)

lemma hm_keys_append [simp]: "hm_keys (m @ m') = hm_keys m @ hm_keys m'"
  by (simp add: hm_keys_def)

lemma mset_hm_remove:
  "hm_wf m \<Longrightarrow> hm_get m k = Some v \<Longrightarrow> add_mset (k, v) (mset (hm_remove k m)) = mset m"
proof (induction m)
  case Nil
  then show ?case by simp
next
  case (Cons e m)
  then have wf: "hm_wf m" "fst e \<notin> fst ` set m" by (simp_all add: hm_wf_def hm_keys_def)
  show ?case
  proof (cases "fst e = k")
    case True
    with Cons.prems(2) have "e = (k, v)" by (cases e) (simp add: hm_get_def)
    moreover have "hm_remove k m = m" using wf(2) True
      by (force simp: hm_remove_def delete_conv filter_id_conv)
    ultimately show ?thesis using True by (simp add: hm_remove_def)
  next
    case False
    with Cons wf(1) show ?thesis by (cases e) (auto simp: hm_get_def hm_remove_def)
  qed
qed

lemma length_insert:
  "length (hm_insert k v m) = (if hm_contains m k then length m else Suc (length m))"
proof (induction m)
  case Nil
  then show ?case by (simp add: hm_insert_def hm_contains_def)
next
  case (Cons e m)
  then show ?case by (cases e) (auto simp: hm_insert_def hm_contains_def hm_get_def)
qed

text \<open>The interface the rest of the development relies on, and its instance.\<close>

locale hash_map =
  fixes lookup :: "'m \<Rightarrow> 'k \<Rightarrow> 'v option"
    and ins :: "'k \<Rightarrow> 'v \<Rightarrow> 'm \<Rightarrow> 'm"
    and rem :: "'k \<Rightarrow> 'm \<Rightarrow> 'm"
  assumes lookup_ins: "lookup (ins k v m) k' = (if k' = k then Some v else lookup m k')"
    and lookup_rem: "lookup (rem k m) k' = (if k' = k then None else lookup m k')"
begin

lemma lookup_ins_all:
  "lookup (fold (\<lambda>(k, v). ins k v) kvs m) k =
     (case map_of (rev kvs) k of Some v \<Rightarrow> Some v | None \<Rightarrow> lookup m k)"
proof (induction kvs arbitrary: m)
  case Nil
  then show ?case by simp
next
  case (Cons e kvs)
  then show ?case
    by (cases e) (auto simp: lookup_ins map_add_def split: option.split)
qed

lemma lookup_rem_all:
  "lookup (fold rem ks m) k = (if k \<in> set ks then None else lookup m k)"
  by (induction ks arbitrary: m) (auto simp: lookup_rem)

end

interpretation hm: hash_map hm_get hm_insert hm_remove
  by unfold_locales simp_all

section \<open>Iterator minima and maxima\<close>

text \<open>
  \<open>Iterator::min_by_key\<close> returns the first of several minimal elements,
  \<open>Iterator::max_by_key\<close> the last of several maximal ones.
\<close>

fun min_by_key :: "('a \<Rightarrow> 'k::linorder) \<Rightarrow> 'a list \<Rightarrow> 'a option" where
  "min_by_key f [] = None"
| "min_by_key f (x # xs) =
     (case min_by_key f xs of None \<Rightarrow> Some x
      | Some y \<Rightarrow> if f x \<le> f y then Some x else Some y)"

fun max_by_key :: "('a \<Rightarrow> 'k::linorder) \<Rightarrow> 'a list \<Rightarrow> 'a option" where
  "max_by_key f [] = None"
| "max_by_key f (x # xs) =
     (case max_by_key f xs of None \<Rightarrow> Some x
      | Some y \<Rightarrow> if f x \<le> f y then Some y else Some x)"

lemma min_by_key_eq_None [simp]: "min_by_key f xs = None \<longleftrightarrow> xs = []"
  by (cases xs) (auto split: option.split)

lemma max_by_key_eq_None [simp]: "max_by_key f xs = None \<longleftrightarrow> xs = []"
  by (cases xs) (auto split: option.split)

lemma min_by_key_SomeD:
  "min_by_key f xs = Some x \<Longrightarrow> x \<in> set xs \<and> (\<forall>y \<in> set xs. f x \<le> f y)"
  by (induction xs arbitrary: x) (fastforce split: option.splits if_splits)+

lemma max_by_key_SomeD:
  "max_by_key f xs = Some x \<Longrightarrow> x \<in> set xs \<and> (\<forall>y \<in> set xs. f y \<le> f x)"
  by (induction xs arbitrary: x) (fastforce split: option.splits if_splits)+

text \<open>\<open>std::cmp::Reverse\<close>: the same values, ordered the other way round.\<close>

datatype 'a reverse_ord = Reverse (unreverse: 'a)

instantiation reverse_ord :: (linorder) linorder
begin

definition less_eq_reverse_ord :: "'a reverse_ord \<Rightarrow> 'a reverse_ord \<Rightarrow> bool" where
  "less_eq_reverse_ord a b \<longleftrightarrow> unreverse b \<le> unreverse a"

definition less_reverse_ord :: "'a reverse_ord \<Rightarrow> 'a reverse_ord \<Rightarrow> bool" where
  "less_reverse_ord a b \<longleftrightarrow> unreverse b < unreverse a"

instance
  by standard
    (auto simp: less_eq_reverse_ord_def less_reverse_ord_def reverse_ord.expand)

end

lemma Reverse_le [simp]: "Reverse a \<le> Reverse b \<longleftrightarrow> b \<le> a"
  by (simp add: less_eq_reverse_ord_def)

lemma Reverse_less [simp]: "Reverse a < Reverse b \<longleftrightarrow> b < a"
  by (simp add: less_reverse_ord_def)

section \<open>Sequence gates\<close>

text \<open>
  Several components number the reports of each source and drop a report that is not newer
  than the last accepted one. \<open>accept s src n\<close> returns the new state and whether report
  \<open>n\<close> of \<open>src\<close> was taken.
\<close>

locale sequence_gate =
  fixes last_seq :: "'s \<Rightarrow> string \<Rightarrow> u64 option"
    and accept :: "'s \<Rightarrow> string \<Rightarrow> u64 \<Rightarrow> 's \<times> bool"
  assumes accept_taken: "accept s src n = (s', True) \<Longrightarrow>
      is_none_or (last_seq s src) (\<lambda>l. l < n) \<and> last_seq s' src = Some n"
    and accept_dropped: "accept s src n = (s', False) \<Longrightarrow> last_seq s' src = last_seq s src"
    and accept_other: "src' \<noteq> src \<Longrightarrow> last_seq (fst (accept s src n)) src' = last_seq s src'"
begin

fun run :: "'s \<Rightarrow> (string \<times> u64) list \<Rightarrow> (string \<times> u64) list" where
  "run s [] = []"
| "run s ((src, n) # rs) =
     (case accept s src n of (s', ok) \<Rightarrow> if ok then (src, n) # run s' rs else run s' rs)"

definition taken_of :: "string \<Rightarrow> (string \<times> u64) list \<Rightarrow> u64 list" where
  "taken_of src rs = map snd (filter (\<lambda>r. fst r = src) rs)"

lemma run_above_last:
  "last_seq s src = Some l \<Longrightarrow> n \<in> set (taken_of src (run s rs)) \<Longrightarrow> l < n"
proof (induction rs arbitrary: s l)
  case Nil
  then show ?case by (simp add: taken_of_def)
next
  case (Cons r rs)
  obtain src' m where r: "r = (src', m)" by (cases r)
  obtain s' ok where acc: "accept s src' m = (s', ok)" by (cases "accept s src' m")
  show ?case
  proof (cases "src' = src \<and> ok")
    case True
    with acc Cons.prems(1) have "l < m" and last: "last_seq s' src = Some m"
      using accept_taken [of s src m s'] by auto
    moreover from True Cons.prems(2) acc r
    have "n = m \<or> n \<in> set (taken_of src (run s' rs))" by (auto simp: taken_of_def)
    ultimately show ?thesis using Cons.IH [OF last] by auto
  next
    case False
    with acc Cons.prems(1) have "last_seq s' src = Some l"
      using accept_other [of src src' s m] accept_dropped [of s src m s'] by (cases ok) auto
    moreover from False Cons.prems(2) acc r have "n \<in> set (taken_of src (run s' rs))"
      by (cases ok) (auto simp: taken_of_def)
    ultimately show ?thesis by (rule Cons.IH)
  qed
qed

lemma run_increasing: "sorted_wrt (<) (taken_of src (run s rs))"
proof (induction rs arbitrary: s)
  case Nil
  then show ?case by (simp add: taken_of_def)
next
  case (Cons r rs)
  obtain src' m where r: "r = (src', m)" by (cases r)
  obtain s' ok where acc: "accept s src' m = (s', ok)" by (cases "accept s src' m")
  have rest: "sorted_wrt (<) (taken_of src (run s' rs))" by (rule Cons.IH)
  show ?case
  proof (cases "src' = src \<and> ok")
    case True
    with acc have "last_seq s' src = Some m" using accept_taken [of s src m s'] by auto
    then have "\<forall>n \<in> set (taken_of src (run s' rs)). m < n" using run_above_last by blast
    with True rest acc r show ?thesis by (simp add: taken_of_def)
  next
    case False
    with rest acc r show ?thesis by (cases ok) (auto simp: taken_of_def)
  qed
qed

end

section \<open>Operation machines\<close>

text \<open>
  A component is a state and operations on it. \<open>step s p\<close> runs one operation, \<open>None\<close> standing
  for a panic; \<open>ok s p\<close> is what the callers guarantee about an operation in a state. A run
  stops at the first panic.
\<close>

fun run_ops :: "('s \<Rightarrow> 'op \<Rightarrow> 's option) \<Rightarrow> 's \<Rightarrow> 'op list \<Rightarrow> 's option" where
  "run_ops step s [] = Some s"
| "run_ops step s (p # ps) =
     (case step s p of None \<Rightarrow> None | Some s' \<Rightarrow> run_ops step s' ps)"

fun run_guarded :: "('s \<Rightarrow> 'op \<Rightarrow> 's option) \<Rightarrow> ('s \<Rightarrow> 'op \<Rightarrow> bool) \<Rightarrow> 's \<Rightarrow> 'op list \<Rightarrow> bool" where
  "run_guarded step ok s [] = True"
| "run_guarded step ok s (p # ps) =
     (ok s p \<and> (case step s p of None \<Rightarrow> True | Some s' \<Rightarrow> run_guarded step ok s' ps))"

text \<open>Operations that are always allowed make an allowed run.\<close>

lemma run_guarded_always: "(\<And>s p. p \<in> set ps \<Longrightarrow> ok s p) \<Longrightarrow> run_guarded step ok s ps"
proof (induction ps arbitrary: s)
  case (Cons p ps)
  then have "run_guarded step ok s' ps" for s' by simp
  with Cons.prems [of p s] show ?case by (simp split: option.split)
qed simp

text \<open>Operations that keep an invariant and do not panic under it: neither does any run.\<close>

locale op_machine =
  fixes step :: "'s \<Rightarrow> 'op \<Rightarrow> 's option"
    and ok :: "'s \<Rightarrow> 'op \<Rightarrow> bool"
    and inv :: "'s \<Rightarrow> bool"
  assumes step_inv: "inv s \<Longrightarrow> ok s p \<Longrightarrow> \<exists>s'. step s p = Some s' \<and> inv s'"
begin

lemma run_inv:
  "inv s \<Longrightarrow> run_guarded step ok s ps \<Longrightarrow> \<exists>s'. run_ops step s ps = Some s' \<and> inv s'"
proof (induction ps arbitrary: s)
  case Nil
  then show ?case by simp
next
  case (Cons p ps)
  then obtain s' where "step s p = Some s'" and "inv s'" using step_inv [of s p] by auto
  with Cons show ?case by simp
qed

text \<open>A preorder every step respects is respected by every run.\<close>

lemma run_rel:
  assumes refl: "\<And>s. rel s s" and trans: "\<And>a b c. rel a b \<Longrightarrow> rel b c \<Longrightarrow> rel a c"
    and step: "\<And>s p s'. inv s \<Longrightarrow> ok s p \<Longrightarrow> step s p = Some s' \<Longrightarrow> rel s s'"
  shows "inv s \<Longrightarrow> run_guarded step ok s ps \<Longrightarrow> run_ops step s ps = Some s' \<Longrightarrow> rel s s'"
proof (induction ps arbitrary: s)
  case Nil
  then show ?case using refl by simp
next
  case (Cons p ps)
  then obtain s1 where s1: "step s p = Some s1" and "inv s1" using step_inv [of s p] by auto
  with Cons have "rel s1 s'" by simp
  moreover have "rel s s1" using step [OF Cons.prems(1) _ s1] Cons.prems(2) by simp
  ultimately show ?case using trans by blast
qed

end

end
