(* ===== verification/Float32.thy ===== *)
theory Float32
  imports Osade_Base Complex_Main "HOL-Library.Log_Nat"
begin

text \<open>
  The IEEE binary32 arithmetic the layout code uses on split ratios. A finite value is the
  rational it denotes (the two zeros are one value: no operation of the layout tells them
  apart); every arithmetic result and every decimal literal is rounded to nearest, ties to
  even, with gradual underflow and overflow to an infinity, as Rust's \<open>f32\<close> does.
\<close>

datatype f32 = NaN | Inf bool | Fin rat

text \<open>The argument of \<open>Inf\<close> is the sign: \<open>True\<close> for minus infinity.\<close>

section \<open>Rounding a rational to binary32\<close>

definition round_half_even :: "rat \<Rightarrow> int" where
  "round_half_even x =
     (let f = \<lfloor>x\<rfloor>; d = x - of_int f
      in if d < 1 / 2 then f else if 1 / 2 < d then f + 1 else if even f then f else f + 1)"

text \<open>The exponent of the largest power of two not above a positive rational.\<close>

definition log2_floor :: "rat \<Rightarrow> int" where
  "log2_floor x =
     (let (p, q) = quotient_of x; e = bitlen p - bitlen q
      in if 2 powi e \<le> x then e else e - 1)"

text \<open>24 bits of significand, least exponent \<open>-149\<close>.\<close>

definition ulp_exp :: "rat \<Rightarrow> int" where
  "ulp_exp x = max (-149) (log2_floor x - 23)"

definition f32_of_rat :: "rat \<Rightarrow> f32" where
  "f32_of_rat x =
     (if x = 0 then Fin 0
      else let k = ulp_exp \<bar>x\<bar>;
               r = of_int (round_half_even (\<bar>x\<bar> / 2 powi k)) * 2 powi k
           in if 2 ^ 128 \<le> r then Inf (x < 0) else Fin (if x < 0 then - r else r))"

section \<open>Operations\<close>

definition f32_is_finite :: "f32 \<Rightarrow> bool" where
  "f32_is_finite x = (case x of Fin _ \<Rightarrow> True | _ \<Rightarrow> False)"

fun f32_neg :: "f32 \<Rightarrow> f32" where
  "f32_neg NaN = NaN"
| "f32_neg (Inf s) = Inf (\<not> s)"
| "f32_neg (Fin r) = Fin (- r)"

fun f32_add :: "f32 \<Rightarrow> f32 \<Rightarrow> f32" where
  "f32_add (Fin a) (Fin b) = f32_of_rat (a + b)"
| "f32_add (Inf s) (Inf t) = (if s = t then Inf s else NaN)"
| "f32_add (Inf s) (Fin _) = Inf s"
| "f32_add (Fin _) (Inf s) = Inf s"
| "f32_add NaN _ = NaN"
| "f32_add _ NaN = NaN"

fun f32_mul :: "f32 \<Rightarrow> f32 \<Rightarrow> f32" where
  "f32_mul (Fin a) (Fin b) = f32_of_rat (a * b)"
| "f32_mul (Inf s) (Inf t) = Inf (s \<noteq> t)"
| "f32_mul (Inf s) (Fin b) = (if b = 0 then NaN else Inf (s \<noteq> (b < 0)))"
| "f32_mul (Fin a) (Inf t) = (if a = 0 then NaN else Inf (t \<noteq> (a < 0)))"
| "f32_mul NaN _ = NaN"
| "f32_mul _ NaN = NaN"

text \<open>Comparisons with \<open>NaN\<close> are false, \<open>NaN == NaN\<close> too.\<close>

fun f32_lt :: "f32 \<Rightarrow> f32 \<Rightarrow> bool" where
  "f32_lt (Fin a) (Fin b) = (a < b)"
| "f32_lt (Inf s) (Inf t) = (s \<and> \<not> t)"
| "f32_lt (Inf s) (Fin _) = s"
| "f32_lt (Fin _) (Inf t) = (\<not> t)"
| "f32_lt NaN _ = False"
| "f32_lt _ NaN = False"

definition f32_eq :: "f32 \<Rightarrow> f32 \<Rightarrow> bool" where
  "f32_eq x y \<longleftrightarrow> x = y \<and> x \<noteq> NaN"

definition f32_clamp :: "f32 \<Rightarrow> f32 \<Rightarrow> f32 \<Rightarrow> f32" where
  "f32_clamp x lo hi =
     (let y = (if f32_lt x lo then lo else x) in if f32_lt hi y then hi else y)"

text \<open>\<open>f32::round\<close> rounds halves away from zero; \<open>as u16\<close> saturates and maps \<open>NaN\<close> to 0.\<close>

definition round_half_away :: "rat \<Rightarrow> int" where
  "round_half_away r = (if 0 \<le> r then \<lfloor>r + 1 / 2\<rfloor> else - \<lfloor>- r + 1 / 2\<rfloor>)"

fun f32_round :: "f32 \<Rightarrow> f32" where
  "f32_round NaN = NaN"
| "f32_round (Inf s) = Inf s"
| "f32_round (Fin r) = Fin (of_int (round_half_away r))"

fun f32_as_u16 :: "f32 \<Rightarrow> u16" where
  "f32_as_u16 NaN = 0"
| "f32_as_u16 (Inf s) = (if s then 0 else u16_of u16_max)"
| "f32_as_u16 (Fin r) =
     u16_of (nat (if 0 \<le> r then \<lfloor>r\<rfloor> else 0))"

definition f32_of_u16 :: "u16 \<Rightarrow> f32" where
  "f32_of_u16 n = Fin (of_nat (unat n))"

section \<open>Facts about rounding\<close>

lemma round_half_even_floor: "\<lfloor>x\<rfloor> \<le> round_half_even x"
  by (auto simp: round_half_even_def Let_def)

lemma round_half_even_int [simp]: "round_half_even (of_int n) = n"
  by (simp add: round_half_even_def)

lemma round_half_even_le_int:
  assumes "x \<le> of_int n" shows "round_half_even x \<le> n"
proof (cases "x = of_int n")
  case True
  then show ?thesis by simp
next
  case False
  with assms have "x < of_int n" by simp
  then have "\<lfloor>x\<rfloor> < n" by (simp add: floor_less_iff)
  then show ?thesis by (auto simp: round_half_even_def Let_def)
qed

lemma log2_floor_less:
  assumes "0 < x" and "x < 2 ^ n" shows "log2_floor x < int n"
proof -
  obtain p q where pq: "quotient_of x = (p, q)" by (cases "quotient_of x")
  then have q: "0 < q" and x: "x = of_int p / of_int q"
    by (simp_all add: quotient_of_denom_pos quotient_of_div)
  from assms(1) x q have p: "0 < p" by (simp add: zero_less_divide_iff)
  define e where "e = bitlen p - bitlen q"
  have bq: "q < 2 ^ nat (bitlen q)" and bp: "2 ^ nat (bitlen p - 1) \<le> p"
    using bitlen_bounds [OF q] bitlen_bounds [OF p] by simp_all
  have "1 \<le> bitlen p" and "0 \<le> bitlen q"
    using bitlen_bounds [OF p] p bitlen_nonneg by (auto simp: bitlen_alt_def)
  then have pw: "(2 :: rat) powi (e - 1) = 2 ^ nat (bitlen p - 1) / 2 ^ nat (bitlen q)"
    by (simp add: e_def power_int_def field_simps power_add [symmetric] nat_add_distrib
        nat_diff_distrib power_diff_power_eq)
  have "(of_int (2 ^ nat (bitlen p - 1)) :: rat) \<le> of_int p"
    using bp by (simp only: of_int_le_iff)
  moreover have "(of_int q :: rat) \<le> of_int (2 ^ nat (bitlen q))"
    using bq by (simp only: of_int_le_iff)
  ultimately have "(2 :: rat) ^ nat (bitlen p - 1) / 2 ^ nat (bitlen q) \<le> of_int p / of_int q"
    by (intro frac_le) (use p q in simp_all)
  with pw x have low: "2 powi (e - 1) \<le> x" by simp
  have "2 powi (log2_floor x) \<le> x"
    using low by (simp add: log2_floor_def pq e_def [symmetric])
  with assms(2) have "(2 :: rat) powi (log2_floor x) < 2 powi (int n)"
    by (simp add: power_int_def)
  then have "\<not> int n \<le> log2_floor x"
    using power_int_increasing [of "int n" "log2_floor x" "2 :: rat"] by auto
  then show ?thesis by simp
qed


text \<open>
  The fact the layout needs: a rational between 0 and an integer below \<open>2 ^ 24\<close> rounds to a
  finite value that is still between the two.
\<close>

lemma f32_of_rat_between:
  assumes "0 \<le> x" and "x \<le> of_nat n" and "n < 2 ^ 24"
  shows "\<exists>r. f32_of_rat x = Fin r \<and> 0 \<le> r \<and> r \<le> of_nat n"
proof (cases "x = 0")
  case True
  then show ?thesis by (simp add: f32_of_rat_def)
next
  case False
  with assms(1) have x: "0 < x" by simp
  define k where "k = ulp_exp x"
  define m where "m = round_half_even (x / 2 powi k)"
  have "x < 2 ^ 24"
  proof -
    have "(of_nat n :: rat) < of_nat (2 ^ 24)" using assms(3) by (simp only: of_nat_less_iff)
    with assms(2) show ?thesis by simp
  qed
  with x have "log2_floor x < int 24" by (rule log2_floor_less)
  then have k: "k \<le> 0" by (simp add: k_def ulp_exp_def)
  have pos: "(0 :: rat) < 2 powi k" by (simp add: zero_less_power_int)
  have inv: "of_nat n / 2 powi k = (of_int (int n * 2 ^ nat (- k)) :: rat)"
    using k by (simp add: power_int_def field_simps)
  have "0 \<le> m"
  proof -
    have "0 \<le> \<lfloor>x / 2 powi k\<rfloor>" using x pos by (simp add: zero_le_floor)
    also have "\<dots> \<le> m" unfolding m_def by (rule round_half_even_floor)
    finally show ?thesis .
  qed
  have "x / 2 powi k \<le> of_nat n / 2 powi k" using assms(2) pos by (simp add: divide_right_mono)
  then have "m \<le> int n * 2 ^ nat (- k)" unfolding m_def inv by (rule round_half_even_le_int)
  then have "(of_int m :: rat) \<le> of_nat n / 2 powi k" unfolding inv by (simp only: of_int_le_iff)
  with pos have upper: "of_int m * 2 powi k \<le> (of_nat n :: rat)" by (simp add: field_simps)
  moreover have "(of_nat n :: rat) < 2 ^ 128"
  proof -
    have "(of_nat n :: rat) < of_nat (2 ^ 24)" using assms(3) by (simp only: of_nat_less_iff)
    also have "\<dots> < 2 ^ 128" by simp
    finally show ?thesis .
  qed
  moreover have "0 \<le> of_int m * (2 powi k :: rat)" using \<open>0 \<le> m\<close> pos by simp
  ultimately show ?thesis
    using x by (simp add: f32_of_rat_def Let_def k_def [symmetric] m_def [symmetric])
qed

lemma f32_clamp_bounds:
  assumes "lo \<le> hi"
  shows "f32_clamp (Fin x) (Fin lo) (Fin hi) = Fin (max lo (min x hi))"
  using assms by (auto simp: f32_clamp_def max_def min_def)

lemma f32_clamp_inf:
  assumes "lo \<le> hi"
  shows "f32_clamp (Inf s) (Fin lo) (Fin hi) = Fin (if s then lo else hi)"
  using assms by (auto simp: f32_clamp_def)

lemma f32_clamp_NaN [simp]: "f32_clamp NaN lo hi = NaN"
  by (cases hi) (simp_all add: f32_clamp_def)

lemma round_half_away_between:
  assumes "0 \<le> r" and "r \<le> of_nat n"
  shows "0 \<le> round_half_away r \<and> round_half_away r \<le> int n"
proof -
  have "\<lfloor>r + 1 / 2\<rfloor> \<le> \<lfloor>of_nat n + 1 / 2 :: rat\<rfloor>" using assms(2) by (intro floor_mono) simp
  also have "\<dots> = int n" by (simp add: floor_eq_iff)
  finally show ?thesis using assms(1) by (simp add: round_half_away_def zero_le_floor)
qed

text \<open>\<open>(n as f32 * ratio).round() as u16\<close> stays within \<open>0..=n\<close> for a ratio in \<open>0..=1\<close>.\<close>

lemma f32_scale_bound:
  assumes "0 \<le> q" and "q \<le> 1"
  shows "unat (f32_as_u16 (f32_round (f32_mul (f32_of_u16 n) (Fin q)))) \<le> unat n"
proof -
  define m where "m = unat n"
  have n: "m < 2 ^ 24" "m \<le> u16_max" using u16_bound [of n] by (simp_all add: m_def u16_max_def)
  have "of_nat m * q \<le> of_nat m * 1" by (rule mult_left_mono) (use assms in simp_all)
  then have "\<exists>r. f32_of_rat (of_nat m * q) = Fin r \<and> 0 \<le> r \<and> r \<le> of_nat m"
    by (intro f32_of_rat_between) (use n assms in simp_all)
  then obtain r where r: "f32_of_rat (of_nat m * q) = Fin r" "0 \<le> r" "r \<le> of_nat m"
    by blast
  have conv: "f32_of_u16 n = Fin (of_nat m)" by (simp only: f32_of_u16_def m_def)
  from round_half_away_between [OF r(2,3)] r(1) show ?thesis
    unfolding conv m_def [symmetric] by (simp add: min_def nat_le_iff)
qed

end
