(* ===== verification/Layout.thy ===== *)
theory Layout
  imports Float32
begin

text \<open>
  The BSP tiling layout (\<open>layout.rs\<close>): the tree of splits, the focused pane and its history,
  the rectangles of the panes and split borders, splitting, inserting, closing, swapping and
  resizing panes, and directional navigation. \<open>PaneId::alloc\<close> reads a global counter: it is an
  argument and a result of the operations that allocate. The constructor \<open>Rect::new\<close> belongs
  to ratatui: it is the parameter \<open>rn\<close>, with its documented behaviour as the hypothesis
  \<open>rect_new_documented\<close>.
\<close>

section \<open>Data\<close>

type_synonym pane_id = u32

definition pane_id_alloc :: "u32 \<Rightarrow> pane_id \<times> u32" where
  "pane_id_alloc nxt = (nxt, nxt + 1)"

record rect =
  rx :: u16
  ry :: u16
  rwidth :: u16
  rheight :: u16

type_synonym rect_ctor = "u16 \<Rightarrow> u16 \<Rightarrow> u16 \<Rightarrow> u16 \<Rightarrow> rect"

datatype direction = Horizontal | Vertical

text \<open>ratatui's \<open>Borders\<close> is a set of four bits; \<open>Borders::NONE\<close> is the empty one.\<close>

type_synonym borders = "8 word"

record pane_info =
  pi_id :: pane_id
  pi_rect :: rect
  pi_inner_rect :: rect
  pi_scrollbar_rect :: "rect option"
  pi_borders :: borders
  pi_is_focused :: bool

record split_border =
  sb_pos :: u16
  sb_direction :: direction
  sb_ratio :: f32
  sb_area :: rect
  sb_path :: "bool list"

datatype nav_direction = NavLeft | NavRight | NavUp | NavDown

datatype node = Pane pane_id | Split direction f32 node node

record tile_layout =
  tl_root :: node
  tl_focus :: pane_id
  tl_prev_focus :: "pane_id option"

section \<open>Tree operations\<close>

fun count_panes :: "node \<Rightarrow> nat" where
  "count_panes (Pane _) = 1"
| "count_panes (Split _ _ f s) = count_panes f + count_panes s"

fun collect_ids :: "node \<Rightarrow> pane_id list" where
  "collect_ids (Pane i) = [i]"
| "collect_ids (Split _ _ f s) = collect_ids f @ collect_ids s"

definition ratio_lo :: f32 where
  "ratio_lo = f32_of_rat (1 / 10)"

definition ratio_hi :: f32 where
  "ratio_hi = f32_of_rat (9 / 10)"

definition ratio_half :: f32 where
  "ratio_half = f32_of_rat (1 / 2)"

definition valid_split_ratio :: "f32 \<Rightarrow> f32" where
  "valid_split_ratio r = (if f32_is_finite r then f32_clamp r ratio_lo ratio_hi else ratio_half)"

definition split_rect :: "rect_ctor \<Rightarrow> rect \<Rightarrow> direction \<Rightarrow> f32 \<Rightarrow> rect \<times> rect" where
  "split_rect rn area dir ratio =
     (case dir of
        Horizontal \<Rightarrow>
          let first_w = f32_as_u16 (f32_round (f32_mul (f32_of_u16 (rwidth area)) ratio));
              second_w = sat_sub (rwidth area) first_w
          in (rn (rx area) (ry area) first_w (rheight area),
              rn (rx area + first_w) (ry area) second_w (rheight area))
      | Vertical \<Rightarrow>
          let first_h = f32_as_u16 (f32_round (f32_mul (f32_of_u16 (rheight area)) ratio));
              second_h = sat_sub (rheight area) first_h
          in (rn (rx area) (ry area) (rwidth area) first_h,
              rn (rx area) (ry area + first_h) (rwidth area) second_h))"

fun collect_panes :: "rect_ctor \<Rightarrow> node \<Rightarrow> rect \<Rightarrow> pane_id \<Rightarrow> pane_info list" where
  "collect_panes rn (Pane i) area foc =
     [\<lparr>pi_id = i, pi_rect = area, pi_inner_rect = area, pi_scrollbar_rect = None,
       pi_borders = 0, pi_is_focused = (i = foc)\<rparr>]"
| "collect_panes rn (Split dir ratio f s) area foc =
     (let (a, b) = split_rect rn area dir ratio
      in collect_panes rn f a foc @ collect_panes rn s b foc)"

fun collect_splits :: "rect_ctor \<Rightarrow> node \<Rightarrow> rect \<Rightarrow> bool list \<Rightarrow> split_border list" where
  "collect_splits rn (Pane _) area path = []"
| "collect_splits rn (Split dir ratio f s) area path =
     (let (a, b) = split_rect rn area dir ratio;
          pos = (case dir of Horizontal \<Rightarrow> rx a + rwidth a | Vertical \<Rightarrow> ry a + rheight a)
      in \<lparr>sb_pos = pos, sb_direction = dir, sb_ratio = ratio, sb_area = area, sb_path = path\<rparr>
         # collect_splits rn f a (path @ [False]) @ collect_splits rn s b (path @ [True]))"

fun split_ratios_from :: "node \<Rightarrow> bool list \<Rightarrow> (bool list \<times> f32) list" where
  "split_ratios_from (Pane _) path = []"
| "split_ratios_from (Split _ ratio f s) path =
     (path, ratio) # split_ratios_from f (path @ [False]) @ split_ratios_from s (path @ [True])"

definition split_ratios :: "node \<Rightarrow> (bool list \<times> f32) list" where
  "split_ratios n = split_ratios_from n []"

text \<open>\<open>Vec<(Vec<bool>, f32)>\<close> equality compares the ratios as floats.\<close>

definition ratios_eq :: "(bool list \<times> f32) list \<Rightarrow> (bool list \<times> f32) list \<Rightarrow> bool" where
  "ratios_eq xs ys = list_all2 (\<lambda>(p, r) (q, t). p = q \<and> f32_eq r t) xs ys"

fun swap_pane_ids :: "node \<Rightarrow> pane_id \<Rightarrow> pane_id \<Rightarrow> node" where
  "swap_pane_ids (Pane i) a b = Pane (if i = a then b else if i = b then a else i)"
| "swap_pane_ids (Split d r f s) a b = Split d r (swap_pane_ids f a b) (swap_pane_ids s a b)"

fun split_at :: "node \<Rightarrow> pane_id \<Rightarrow> direction \<Rightarrow> pane_id \<Rightarrow> f32 \<Rightarrow> node" where
  "split_at (Pane i) target dir new_id ratio =
     (if i = target then Split dir ratio (Pane i) (Pane new_id) else Pane i)"
| "split_at (Split d r f s) target dir new_id ratio =
     Split d r (split_at f target dir new_id ratio) (split_at s target dir new_id ratio)"

fun remove_pane :: "node \<Rightarrow> pane_id \<Rightarrow> node option" where
  "remove_pane (Pane i) target = (if i = target then None else Some (Pane i))"
| "remove_pane (Split d r f s) target =
     (case (remove_pane f target, remove_pane s target) of
        (None, Some s') \<Rightarrow> Some s'
      | (Some f', None) \<Rightarrow> Some f'
      | (Some f', Some s') \<Rightarrow> Some (Split d r f' s')
      | (None, None) \<Rightarrow> None)"

fun node_set_ratio_at :: "node \<Rightarrow> bool list \<Rightarrow> f32 \<Rightarrow> node \<times> bool" where
  "node_set_ratio_at (Pane i) path ratio = (Pane i, False)"
| "node_set_ratio_at (Split d r f s) [] ratio = (Split d ratio f s, True)"
| "node_set_ratio_at (Split d r f s) (True # path) ratio =
     (let (s', ok) = node_set_ratio_at s path ratio in (Split d r f s', ok))"
| "node_set_ratio_at (Split d r f s) (False # path) ratio =
     (let (f', ok) = node_set_ratio_at f path ratio in (Split d r f' s, ok))"

fun get_ratio_at :: "node \<Rightarrow> bool list \<Rightarrow> f32 option" where
  "get_ratio_at (Pane i) path = None"
| "get_ratio_at (Split d r f s) [] = Some r"
| "get_ratio_at (Split d r f s) (True # path) = get_ratio_at s path"
| "get_ratio_at (Split d r f s) (False # path) = get_ratio_at f path"

section \<open>Directional navigation\<close>

definition ranges_overlap :: "u16 \<Rightarrow> u16 \<Rightarrow> u16 \<Rightarrow> u16 \<Rightarrow> bool" where
  "ranges_overlap a_start a_len b_start b_len \<longleftrightarrow>
     a_start < b_start + b_len \<and> b_start < a_start + a_len"

definition range_overlap_amount :: "u16 \<Rightarrow> u16 \<Rightarrow> u16 \<Rightarrow> u16 \<Rightarrow> u16" where
  "range_overlap_amount a_start a_len b_start b_len =
     (let a_end = sat_add a_start a_len; b_end = sat_add b_start b_len
      in sat_sub (min a_end b_end) (max a_start b_start))"

definition range_center_distance :: "u16 \<Rightarrow> u16 \<Rightarrow> u16 \<Rightarrow> u16 \<Rightarrow> u16" where
  "range_center_distance a_start a_len b_start b_len =
     (let a_center = sat_add (sat_mul a_start 2) a_len; b_center = sat_add (sat_mul b_start 2) b_len
      in abs_diff a_center b_center)"

definition on_side :: "nav_direction \<Rightarrow> rect \<Rightarrow> rect \<Rightarrow> bool" where
  "on_side d fr r =
     (case d of
        NavLeft \<Rightarrow> rx r + rwidth r \<le> rx fr \<and> ranges_overlap (ry r) (rheight r) (ry fr) (rheight fr)
      | NavRight \<Rightarrow> rx fr + rwidth fr \<le> rx r \<and> ranges_overlap (ry r) (rheight r) (ry fr) (rheight fr)
      | NavUp \<Rightarrow> ry r + rheight r \<le> ry fr \<and> ranges_overlap (rx r) (rwidth r) (rx fr) (rwidth fr)
      | NavDown \<Rightarrow> ry fr + rheight fr \<le> ry r \<and> ranges_overlap (rx r) (rwidth r) (rx fr) (rwidth fr))"

definition edge_distance :: "nav_direction \<Rightarrow> rect \<Rightarrow> rect \<Rightarrow> u16" where
  "edge_distance d fr r =
     (case d of
        NavLeft \<Rightarrow> sat_sub (rx fr) (rx r + rwidth r)
      | NavRight \<Rightarrow> sat_sub (rx r) (rx fr + rwidth fr)
      | NavUp \<Rightarrow> sat_sub (ry fr) (ry r + rheight r)
      | NavDown \<Rightarrow> sat_sub (ry r) (ry fr + rheight fr))"

definition nav_key ::
  "nav_direction \<Rightarrow> rect \<Rightarrow> nat \<times> pane_info \<Rightarrow> u16 \<times> u16 reverse_ord \<times> u16 \<times> nat" where
  "nav_key d fr = (\<lambda>(index, p).
     let r = pi_rect p;
         overlap = (if d = NavLeft \<or> d = NavRight
                    then range_overlap_amount (ry r) (rheight r) (ry fr) (rheight fr)
                    else range_overlap_amount (rx r) (rwidth r) (rx fr) (rwidth fr));
         center = (if d = NavLeft \<or> d = NavRight
                   then range_center_distance (ry r) (rheight r) (ry fr) (rheight fr)
                   else range_center_distance (rx r) (rwidth r) (rx fr) (rwidth fr))
     in (edge_distance d fr r, Reverse overlap, center, index))"

definition find_in_direction :: "pane_info \<Rightarrow> nav_direction \<Rightarrow> pane_info list \<Rightarrow> pane_id option" where
  "find_in_direction focused d panes =
     (let fr = pi_rect focused;
          cands = filter (\<lambda>(_, p). on_side d fr (pi_rect p))
                    (filter (\<lambda>(_, p). pi_id p \<noteq> pi_id focused) (enumerate 0 panes))
      in map_option (\<lambda>(_, p). pi_id p) (min_by_key (nav_key d fr) cands))"

definition opposite_direction :: "nav_direction \<Rightarrow> nav_direction" where
  "opposite_direction d =
     (case d of NavLeft \<Rightarrow> NavRight | NavRight \<Rightarrow> NavLeft | NavUp \<Rightarrow> NavDown | NavDown \<Rightarrow> NavUp)"

text \<open>\<open>(a as i32 - b as i32).unsigned_abs()\<close>: no overflow on \<open>u16\<close> operands.\<close>

definition i32_distance :: "u16 \<Rightarrow> u16 \<Rightarrow> nat" where
  "i32_distance a b = nat \<bar>int (unat a) - int (unat b)\<bar>"

definition split_edge_distance :: "split_border \<Rightarrow> rect \<Rightarrow> nav_direction \<Rightarrow> nat" where
  "split_edge_distance b fr d =
     (case d of
        NavLeft \<Rightarrow> i32_distance (sb_pos b) (rx fr)
      | NavRight \<Rightarrow> i32_distance (sb_pos b) (rx fr + rwidth fr)
      | NavUp \<Rightarrow> i32_distance (sb_pos b) (ry fr)
      | NavDown \<Rightarrow> i32_distance (sb_pos b) (ry fr + rheight fr))"

definition split_on_requested_edge :: "split_border \<Rightarrow> rect \<Rightarrow> nav_direction \<Rightarrow> bool" where
  "split_on_requested_edge b fr d \<longleftrightarrow> split_edge_distance b fr d \<le> 1"

definition split_area_overlaps_focused_pane :: "split_border \<Rightarrow> rect \<Rightarrow> nav_direction \<Rightarrow> bool" where
  "split_area_overlaps_focused_pane b fr d =
     (if d = NavLeft \<or> d = NavRight
      then ranges_overlap (ry (sb_area b)) (rheight (sb_area b)) (ry fr) (rheight fr)
      else ranges_overlap (rx (sb_area b)) (rwidth (sb_area b)) (rx fr) (rwidth fr))"

definition nearest_resize_split ::
  "split_border list \<Rightarrow> direction \<Rightarrow> rect \<Rightarrow> nav_direction \<Rightarrow> split_border option" where
  "nearest_resize_split splits target_dir fr d =
     min_by_key (\<lambda>b. split_edge_distance b fr d)
       (filter (\<lambda>b. split_on_requested_edge b fr d)
         (filter (\<lambda>b. split_area_overlaps_focused_pane b fr d)
           (filter (\<lambda>b. sb_direction b = target_dir) splits)))"

section \<open>The layout and its operations\<close>

definition tl_pane_ids :: "tile_layout \<Rightarrow> pane_id list" where
  "tl_pane_ids l = collect_ids (tl_root l)"

definition tl_pane_count :: "tile_layout \<Rightarrow> nat" where
  "tl_pane_count l = count_panes (tl_root l)"

definition tl_panes :: "rect_ctor \<Rightarrow> tile_layout \<Rightarrow> rect \<Rightarrow> pane_info list" where
  "tl_panes rn l area = collect_panes rn (tl_root l) area (tl_focus l)"

definition tl_splits :: "rect_ctor \<Rightarrow> tile_layout \<Rightarrow> rect \<Rightarrow> split_border list" where
  "tl_splits rn l area = collect_splits rn (tl_root l) area []"

definition tl_new :: "u32 \<Rightarrow> tile_layout \<times> pane_id \<times> u32" where
  "tl_new nxt =
     (let (root_id, nxt') = pane_id_alloc nxt
      in (\<lparr>tl_root = Pane root_id, tl_focus = root_id, tl_prev_focus = None\<rparr>, root_id, nxt'))"

definition from_saved :: "node \<Rightarrow> pane_id \<Rightarrow> tile_layout" where
  "from_saved n foc = \<lparr>tl_root = n, tl_focus = foc, tl_prev_focus = None\<rparr>"

definition set_focus :: "pane_id \<Rightarrow> tile_layout \<Rightarrow> tile_layout" where
  "set_focus i l =
     (if i \<noteq> tl_focus l then l\<lparr>tl_prev_focus := Some (tl_focus l), tl_focus := i\<rparr> else l)"

definition split_pane ::
  "pane_id \<Rightarrow> direction \<Rightarrow> f32 \<Rightarrow> tile_layout \<Rightarrow> u32 \<Rightarrow> tile_layout \<times> pane_id option \<times> u32" where
  "split_pane target dir ratio l nxt =
     (if target \<notin> set (tl_pane_ids l) then (l, None, nxt)
      else let (new_id, nxt') = pane_id_alloc nxt
           in (l\<lparr>tl_root := split_at (tl_root l) target dir new_id (valid_split_ratio ratio)\<rparr>,
               Some new_id, nxt'))"

definition insert_pane_near ::
  "pane_id \<Rightarrow> pane_id \<Rightarrow> direction \<Rightarrow> f32 \<Rightarrow> bool \<Rightarrow> tile_layout \<Rightarrow> tile_layout \<times> bool" where
  "insert_pane_near target moved dir ratio do_focus l =
     (if target = moved then (l, False)
      else let ids = tl_pane_ids l
           in if target \<notin> set ids \<or> moved \<in> set ids then (l, False)
              else let l' = l\<lparr>tl_root := split_at (tl_root l) target dir moved (valid_split_ratio ratio)\<rparr>
                   in (if do_focus then set_focus moved l' else l', True))"

text \<open>
  \<open>iter().position(..).unwrap()\<close> panics when the focused pane is not in the layout: the result
  is \<open>None\<close>. The \<open>unwrap\<close> also panics in \<open>ids[pos - 1]\<close> only for a single pane, which the
  guard excludes.
\<close>

definition close_focused :: "tile_layout \<Rightarrow> (tile_layout \<times> bool) option" where
  "close_focused l =
     (if tl_pane_count l \<le> 1 then Some (l, False)
      else let target = tl_focus l; ids = tl_pane_ids l
           in case index_of target ids of
                None \<Rightarrow> None
              | Some pos \<Rightarrow>
                  let ordered = (if pos + 1 < length ids then ids ! (pos + 1) else ids ! (pos - 1));
                      new_focus = (case tl_prev_focus l of
                                     Some prev \<Rightarrow> if prev \<noteq> target \<and> prev \<in> set ids then prev else ordered
                                   | None \<Rightarrow> ordered)
                  in case remove_pane (tl_root l) target of
                       Some new_root \<Rightarrow>
                         Some (l\<lparr>tl_root := new_root, tl_focus := new_focus, tl_prev_focus := None\<rparr>, True)
                     | None \<Rightarrow> Some (l\<lparr>tl_root := Pane 0\<rparr>, False))"

definition close_pane :: "pane_id \<Rightarrow> tile_layout \<Rightarrow> (tile_layout \<times> bool) option" where
  "close_pane i l =
     (if tl_focus l = i then close_focused l
      else if tl_pane_count l \<le> 1 \<or> i \<notin> set (tl_pane_ids l) then Some (l, False)
      else case remove_pane (tl_root l) i of
             None \<Rightarrow> Some (l\<lparr>tl_root := Pane 0\<rparr>, False)
           | Some new_root \<Rightarrow>
               let l' = l\<lparr>tl_root := new_root\<rparr>
               in Some (if tl_prev_focus l' = Some i then l'\<lparr>tl_prev_focus := None\<rparr> else l', True))"

definition focus_pane :: "pane_id \<Rightarrow> tile_layout \<Rightarrow> tile_layout" where
  "focus_pane i l = (if i \<in> set (tl_pane_ids l) then set_focus i l else l)"

definition swap_panes :: "pane_id \<Rightarrow> pane_id \<Rightarrow> tile_layout \<Rightarrow> tile_layout \<times> bool" where
  "swap_panes a b l =
     (if a = b then (l, False)
      else let ids = tl_pane_ids l
           in if a \<notin> set ids \<or> b \<notin> set ids then (l, False)
              else (l\<lparr>tl_root := swap_pane_ids (tl_root l) a b\<rparr>, True))"

definition set_ratio_at :: "bool list \<Rightarrow> f32 \<Rightarrow> tile_layout \<Rightarrow> tile_layout \<times> bool" where
  "set_ratio_at path ratio l =
     (let (root', ok) = node_set_ratio_at (tl_root l) path (f32_clamp ratio ratio_lo ratio_hi)
      in (l\<lparr>tl_root := root'\<rparr>, ok))"

definition resize_focused ::
  "rect_ctor \<Rightarrow> nav_direction \<Rightarrow> f32 \<Rightarrow> rect \<Rightarrow> tile_layout \<Rightarrow> tile_layout" where
  "resize_focused rn nav delta area l =
     (case find pi_is_focused (tl_panes rn l area) of
        None \<Rightarrow> l
      | Some focused \<Rightarrow>
          let fr = pi_rect focused;
              splits = tl_splits rn l area;
              target_dir = (if nav = NavLeft \<or> nav = NavRight then Horizontal else Vertical);
              grows = (nav = NavRight \<or> nav = NavDown);
              best = or_else (nearest_resize_split splits target_dir fr nav)
                       (nearest_resize_split splits target_dir fr (opposite_direction nav))
          in case best of
               None \<Rightarrow> l
             | Some b \<Rightarrow>
                 let current_ratio = unwrap_or (get_ratio_at (tl_root l) (sb_path b)) ratio_half;
                     adj = (if grows then delta else f32_neg delta)
                 in fst (set_ratio_at (sb_path b) (f32_add current_ratio adj) l))"

definition resize_pane ::
  "rect_ctor \<Rightarrow> pane_id \<Rightarrow> nav_direction \<Rightarrow> f32 \<Rightarrow> rect \<Rightarrow> tile_layout \<Rightarrow> tile_layout \<times> bool" where
  "resize_pane rn i nav delta area l =
     (if i \<notin> set (tl_pane_ids l) then (l, False)
      else let before = split_ratios (tl_root l);
               previous_focus = tl_focus l;
               l1 = resize_focused rn nav delta area (l\<lparr>tl_focus := i\<rparr>);
               l2 = l1\<lparr>tl_focus := previous_focus\<rparr>
           in (l2, \<not> ratios_eq (split_ratios (tl_root l2)) before))"

end
