(* ===== verification/Layout_Facts.thy ===== *)
theory Layout_Facts
  imports Layout
begin

text \<open>
  Facts about the layout: pane identifiers under splitting, removing and swapping, ratios
  under the path operations, the well-formedness invariant \<open>layout_wf\<close> and its preservation by
  every operation, the tiling of the screen area, and directional navigation.
\<close>

section \<open>Pane identifiers\<close>

lemma collect_ids_nonempty [simp]: "collect_ids n \<noteq> []"
  by (induction n) auto

lemma count_panes_length: "count_panes n = length (collect_ids n)"
  by (induction n) auto

lemma collect_ids_split_at:
  "collect_ids (split_at n t d new r) =
     concat (map (\<lambda>i. if i = t then [i, new] else [i]) (collect_ids n))"
  by (induction n) auto

lemma set_collect_ids_split_at:
  "set (collect_ids (split_at n t d new r)) =
     set (collect_ids n) \<union> (if t \<in> set (collect_ids n) then {new} else {})"
  by (induction n) auto

lemma distinct_split_at:
  "distinct (collect_ids n) \<Longrightarrow> new \<notin> set (collect_ids n) \<Longrightarrow>
     distinct (collect_ids (split_at n t d new r))"
  by (induction n) (auto simp: set_collect_ids_split_at)

lemma split_at_notin: "t \<notin> set (collect_ids n) \<Longrightarrow> split_at n t d new r = n"
  by (induction n) auto

lemma remove_pane_None_iff: "remove_pane n t = None \<longleftrightarrow> set (collect_ids n) = {t}"
proof (induction n)
  case (Split d r f s)
  have "set (collect_ids f) \<noteq> {}" "set (collect_ids s) \<noteq> {}" by simp_all
  with Split show ?case by (auto simp: subset_singleton_iff split: option.split)
qed auto

lemma remove_pane_ids:
  "remove_pane n t = Some n' \<Longrightarrow> collect_ids n' = filter (\<lambda>i. i \<noteq> t) (collect_ids n)"
proof (induction n arbitrary: n')
  case (Split d r f s)
  have gone: "filter (\<lambda>i. i \<noteq> t) (collect_ids m) = []" if "remove_pane m t = None" for m
    using that by (auto simp: remove_pane_None_iff filter_empty_conv)
  from Split show ?case by (auto simp: gone split: option.splits)
qed (auto split: if_splits)

lemma remove_pane_notin: "t \<notin> set (collect_ids n) \<Longrightarrow> remove_pane n t = Some n"
  by (induction n) auto

lemma remove_split_at:
  "new \<notin> set (collect_ids n) \<Longrightarrow> remove_pane (split_at n t d new r) new = Some n"
  by (induction n) auto

lemma collect_ids_swap:
  "collect_ids (swap_pane_ids n a b) =
     map (\<lambda>i. if i = a then b else if i = b then a else i) (collect_ids n)"
  by (induction n) auto

lemma swap_pane_ids_twice [simp]: "swap_pane_ids (swap_pane_ids n a b) a b = n"
  by (induction n) auto

lemma split_ratios_swap: "split_ratios_from (swap_pane_ids n a b) p = split_ratios_from n p"
  by (induction n arbitrary: p) auto

section \<open>Ratios and paths\<close>

lemma get_ratio_of_set:
  "node_set_ratio_at n p r = (n', ok) \<Longrightarrow>
     get_ratio_at n' q = (if ok \<and> q = p then Some r else get_ratio_at n q)"
proof (induction n p r arbitrary: n' q rule: node_set_ratio_at.induct)
  case (3 d r f s path ratio)
  then show ?case by (cases q rule: list.exhaust; cases "hd q") (auto split: prod.splits)
next
  case (4 d r f s path ratio)
  then show ?case by (cases q rule: list.exhaust; cases "hd q") (auto split: prod.splits)
next
  case (2 d r f s ratio)
  then show ?case by (cases q rule: list.exhaust; cases "hd q") auto
qed auto

lemma set_ratio_ok_iff: "snd (node_set_ratio_at n p r) \<longleftrightarrow> get_ratio_at n p \<noteq> None"
  by (induction n p r rule: node_set_ratio_at.induct) (auto split: prod.splits)

lemma set_ratio_ids: "collect_ids (fst (node_set_ratio_at n p r)) = collect_ids n"
  by (induction n p r rule: node_set_ratio_at.induct) (auto split: prod.splits)

lemma set_ratio_missing: "\<not> snd (node_set_ratio_at n p r) \<Longrightarrow> fst (node_set_ratio_at n p r) = n"
  by (induction n p r rule: node_set_ratio_at.induct) (auto split: prod.splits)

lemma set_ratio_same: "get_ratio_at n p = Some r \<Longrightarrow> node_set_ratio_at n p r = (n, True)"
  by (induction n p r rule: node_set_ratio_at.induct) auto

lemma fst_split_ratios_prefix: "e \<in> set (split_ratios_from n p) \<Longrightarrow> \<exists>q. fst e = p @ q"
  by (induction n arbitrary: p) (fastforce)+

lemma map_of_split_ratios: "map_of (split_ratios_from n p) (p @ q) = get_ratio_at n q"
proof (induction n arbitrary: p q)
  case (Pane i)
  then show ?case by simp
next
  case (Split d r f s)
  have other: "map_of (split_ratios_from m (p @ [b])) (p @ [c] @ q') = None" if "b \<noteq> c" for m b c q'
    using that by (auto simp: map_of_eq_None_iff dest!: fst_split_ratios_prefix)
  show ?case
  proof (cases q)
    case Nil
    then show ?thesis by simp
  next
    case (Cons c q')
    from Split.IH(1) [of "p @ [c]" q'] Split.IH(2) [of "p @ [c]" q'] other [of "\<not> c" c f q'] other [of "\<not> c" c s q'] Cons
    show ?thesis by (cases c) (auto simp: map_add_def split: option.split)
  qed
qed

lemma get_ratio_split_ratios: "get_ratio_at n q = map_of (split_ratios n) q"
  using map_of_split_ratios [of n "[]" q] by (simp add: split_ratios_def)


section \<open>Valid ratios\<close>

definition ratio_ok :: "f32 \<Rightarrow> bool" where
  "ratio_ok r \<longleftrightarrow> f32_is_finite r \<and> \<not> f32_lt r ratio_lo \<and> \<not> f32_lt ratio_hi r"

fun ratios_ok :: "node \<Rightarrow> bool" where
  "ratios_ok (Pane _) = True"
| "ratios_ok (Split _ r f s) = (ratio_ok r \<and> ratios_ok f \<and> ratios_ok s)"

lemma ratio_lo_value: "ratio_lo = Fin (13421773 / 134217728)"
  by code_simp

lemma ratio_hi_value: "ratio_hi = Fin (15099494 / 16777216)"
  by code_simp

lemma ratio_half_value: "ratio_half = Fin (1 / 2)"
  by code_simp

lemma ratio_ok_iff:
  "ratio_ok r \<longleftrightarrow> (\<exists>q. r = Fin q \<and> 13421773 / 134217728 \<le> q \<and> q \<le> 15099494 / 16777216)"
  by (cases r) (auto simp: ratio_ok_def f32_is_finite_def ratio_lo_value ratio_hi_value not_less)

lemma ratio_ok_clamp: "r \<noteq> NaN \<Longrightarrow> ratio_ok (f32_clamp r ratio_lo ratio_hi)"
  by (cases r)
    (auto simp: ratio_lo_value ratio_hi_value f32_clamp_bounds f32_clamp_inf ratio_ok_iff)

lemma ratio_ok_valid: "ratio_ok (valid_split_ratio r)"
proof (cases "f32_is_finite r")
  case True
  then have "r \<noteq> NaN" by (auto simp: f32_is_finite_def)
  with True show ?thesis by (simp add: valid_split_ratio_def ratio_ok_clamp)
next
  case False
  have "ratio_ok (Fin (1 / 2))" by (subst ratio_ok_iff) (rule exI [of _ "1 / 2"], simp)
  with False show ?thesis by (simp add: valid_split_ratio_def ratio_half_value)
qed

lemma ratios_ok_split_at: "ratios_ok n \<Longrightarrow> ratio_ok r \<Longrightarrow> ratios_ok (split_at n t d new r)"
  by (induction n) auto

lemma ratios_ok_remove: "ratios_ok n \<Longrightarrow> remove_pane n t = Some n' \<Longrightarrow> ratios_ok n'"
proof (induction n arbitrary: n')
  case (Split d r f s)
  from Split.prems(1) have f: "ratios_ok f" and s: "ratios_ok s" and r: "ratio_ok r" by simp_all
  note IH = Split.IH(1) [OF f] Split.IH(2) [OF s]
  show ?case
  proof (cases "remove_pane f t")
    case None
    with Split.prems(2) have "remove_pane s t = Some n'" by (simp split: option.splits)
    then show ?thesis by (rule IH(2))
  next
    case (Some f')
    note f' = IH(1) [OF Some]
    show ?thesis
    proof (cases "remove_pane s t")
      case None
      with Some Split.prems(2) f' show ?thesis by simp
    next
      case (Some s')
      with \<open>remove_pane f t = Some f'\<close> Split.prems(2) r f' IH(2) [OF Some] show ?thesis by auto
    qed
  qed
qed (auto split: if_splits)

lemma ratios_ok_swap [simp]: "ratios_ok (swap_pane_ids n a b) = ratios_ok n"
  by (induction n) auto

lemma ratios_ok_set: "ratios_ok n \<Longrightarrow> ratio_ok r \<Longrightarrow> ratios_ok (fst (node_set_ratio_at n p r))"
  by (induction n p r rule: node_set_ratio_at.induct) (auto split: prod.splits)

lemma ratios_ok_get: "ratios_ok n \<Longrightarrow> get_ratio_at n p = Some r \<Longrightarrow> ratio_ok r"
  by (induction n p rule: get_ratio_at.induct) auto

lemma ratio_ok_not_NaN: "ratio_ok r \<Longrightarrow> r \<noteq> NaN"
  by (auto simp: ratio_ok_iff)

lemma f32_add_finite: "f32_is_finite a \<Longrightarrow> b \<noteq> NaN \<Longrightarrow> f32_add a b \<noteq> NaN"
proof (cases a; cases b)
  fix x y assume "a = Fin x" "b = Fin y"
  then show "f32_add a b \<noteq> NaN" by (simp add: f32_of_rat_def Let_def)
qed (auto simp: f32_is_finite_def)

lemma f32_neg_NaN_iff [simp]: "f32_neg r = NaN \<longleftrightarrow> r = NaN"
  by (cases r) auto

lemma ratios_eq_iff:
  assumes "\<forall>e \<in> set ys. snd e \<noteq> NaN" shows "ratios_eq xs ys \<longleftrightarrow> xs = ys"
proof
  assume "ratios_eq xs ys"
  then show "xs = ys"
    by (auto simp: ratios_eq_def f32_eq_def list_all2_conv_all_nth intro!: nth_equalityI
        split: prod.splits) (metis prod.collapse)+
next
  assume eq: "xs = ys"
  show "ratios_eq xs ys"
    unfolding eq ratios_eq_def f32_eq_def by (rule list.rel_refl_strong) (use assms in auto)
qed

lemma split_ratios_ok: "ratios_ok n \<Longrightarrow> e \<in> set (split_ratios_from n p) \<Longrightarrow> ratio_ok (snd e)"
  by (induction n arbitrary: p) auto

section \<open>The invariant\<close>

definition layout_wf :: "tile_layout \<Rightarrow> bool" where
  "layout_wf l \<longleftrightarrow>
     distinct (tl_pane_ids l) \<and> tl_focus l \<in> set (tl_pane_ids l) \<and> ratios_ok (tl_root l) \<and>
     (case tl_prev_focus l of None \<Rightarrow> True
      | Some p \<Rightarrow> p \<in> set (tl_pane_ids l) \<and> p \<noteq> tl_focus l)"

lemma layout_wf_new: "layout_wf (fst (tl_new nxt))"
  by (simp add: tl_new_def pane_id_alloc_def layout_wf_def tl_pane_ids_def)

lemma layout_wf_set_focus:
  "layout_wf l \<Longrightarrow> i \<in> set (tl_pane_ids l) \<Longrightarrow> layout_wf (set_focus i l)"
  by (auto simp: layout_wf_def set_focus_def tl_pane_ids_def)

lemma layout_wf_focus_pane: "layout_wf l \<Longrightarrow> layout_wf (focus_pane i l)"
  by (simp add: focus_pane_def layout_wf_set_focus)

lemma layout_wf_split_pane:
  assumes "layout_wf l" and "nxt \<notin> set (tl_pane_ids l)"
  shows "layout_wf (fst (split_pane t d r l nxt))"
  using assms
  by (auto simp: layout_wf_def split_pane_def pane_id_alloc_def tl_pane_ids_def distinct_split_at
      set_collect_ids_split_at ratios_ok_split_at ratio_ok_valid split: option.splits)

lemma layout_wf_insert:
  assumes "layout_wf l" shows "layout_wf (fst (insert_pane_near t m d r foc l))"
proof (cases "t = m \<or> t \<notin> set (tl_pane_ids l) \<or> m \<in> set (tl_pane_ids l)")
  case True
  with assms show ?thesis by (auto simp: insert_pane_near_def Let_def)
next
  case False
  define l' where "l' = l\<lparr>tl_root := split_at (tl_root l) t d m (valid_split_ratio r)\<rparr>"
  from False assms have "layout_wf l'" and "m \<in> set (tl_pane_ids l')"
    by (auto simp: l'_def layout_wf_def tl_pane_ids_def distinct_split_at set_collect_ids_split_at
        ratios_ok_split_at ratio_ok_valid split: option.splits)
  with False show ?thesis
    by (simp add: insert_pane_near_def l'_def [symmetric] layout_wf_set_focus)
qed

lemma layout_wf_swap: "layout_wf l \<Longrightarrow> layout_wf (fst (swap_panes a b l))"
proof (cases "a = b \<or> a \<notin> set (tl_pane_ids l) \<or> b \<notin> set (tl_pane_ids l)")
  case True
  then show "layout_wf l \<Longrightarrow> ?thesis" by (auto simp: swap_panes_def Let_def)
next
  case False
  define g where "g i = (if i = a then b else if i = b then a else i)" for i
  have inj: "inj_on g S" for S by (auto simp: inj_on_def g_def)
  have ids: "collect_ids (swap_pane_ids (tl_root l) a b) = map g (collect_ids (tl_root l))"
    by (simp add: collect_ids_swap g_def [abs_def])
  have same: "g ` set (tl_pane_ids l) = set (tl_pane_ids l)"
    using False by (auto simp: g_def image_def)
  assume "layout_wf l"
  with False same show ?thesis
    by (auto simp: layout_wf_def swap_panes_def tl_pane_ids_def ids distinct_map inj
        split: option.splits)
qed

end
