(* ===== verification/Layout_Machine.thy ===== *)
theory Layout_Machine
  imports Layout_Facts
begin

text \<open>
  The layout as an operation machine: closing, ratio changes and resizing keep the invariant
  and never panic, and so does every sequence of operations whose arguments satisfy
  \<open>layout_op_ok\<close>.
\<close>

section \<open>Closing\<close>

lemma layout_wf_remove:
  assumes wf: "layout_wf l" and rem: "remove_pane (tl_root l) t = Some n"
    and foc: "foc \<in> set (tl_pane_ids l)" "foc \<noteq> t"
    and prev: "case prev of None \<Rightarrow> True | Some p \<Rightarrow> p \<in> set (tl_pane_ids l) \<and> p \<noteq> t \<and> p \<noteq> foc"
  shows "layout_wf (l\<lparr>tl_root := n, tl_focus := foc, tl_prev_focus := prev\<rparr>)"
proof -
  from wf have "ratios_ok n" using rem by (auto simp: layout_wf_def intro: ratios_ok_remove)
  with assms show ?thesis
    by (auto simp: layout_wf_def tl_pane_ids_def remove_pane_ids [OF rem] split: option.splits)
qed

lemma not_alone_remove:
  assumes "layout_wf l" and "\<not> tl_pane_count l \<le> 1"
  shows "\<exists>n. remove_pane (tl_root l) t = Some n"
proof (rule ccontr)
  assume "\<nexists>n. remove_pane (tl_root l) t = Some n"
  then have "set (collect_ids (tl_root l)) = {t}" by (simp add: remove_pane_None_iff)
  moreover have "distinct (collect_ids (tl_root l))"
    using assms(1) by (simp add: layout_wf_def tl_pane_ids_def)
  ultimately have "length (collect_ids (tl_root l)) = 1"
    using distinct_card by fastforce
  with assms(2) show False by (simp add: tl_pane_count_def count_panes_length)
qed

text \<open>The pane \<open>close_focused\<close> moves to when there is no usable history: the next in order.\<close>

definition ordered_neighbour :: "pane_id list \<Rightarrow> nat \<Rightarrow> pane_id" where
  "ordered_neighbour ids pos =
     (if pos + 1 < length ids then ids ! (pos + 1) else ids ! (pos - 1))"

lemma ordered_neighbour_other:
  assumes "distinct ids" and "pos < length ids" and "1 < length ids"
  shows "ordered_neighbour ids pos \<in> set ids \<and> ordered_neighbour ids pos \<noteq> ids ! pos"
  using assms by (auto simp: ordered_neighbour_def nth_eq_iff_index_eq)

text \<open>What closing the focused pane does to a well-formed layout with several panes.\<close>

lemma close_focused_spec:
  assumes wf: "layout_wf l" and many: "\<not> tl_pane_count l \<le> 1"
  shows "\<exists>n pos. remove_pane (tl_root l) (tl_focus l) = Some n \<and>
     index_of (tl_focus l) (tl_pane_ids l) = Some pos \<and>
     close_focused l = Some (l\<lparr>tl_root := n,
       tl_focus := unwrap_or (tl_prev_focus l) (ordered_neighbour (tl_pane_ids l) pos),
       tl_prev_focus := None\<rparr>, True)"
proof -
  obtain n where n: "remove_pane (tl_root l) (tl_focus l) = Some n"
    using not_alone_remove [OF wf many] by blast
  from wf have "tl_focus l \<in> set (tl_pane_ids l)" by (simp add: layout_wf_def)
  then obtain pos where pos: "index_of (tl_focus l) (tl_pane_ids l) = Some pos"
    using index_of_Some by metis
  from wf have prev: "prev \<noteq> tl_focus l \<and> prev \<in> set (tl_pane_ids l)"
    if "tl_prev_focus l = Some prev" for prev
    using that by (simp add: layout_wf_def)
  show ?thesis
  proof (intro exI conjI)
    show "close_focused l = Some (l\<lparr>tl_root := n,
       tl_focus := unwrap_or (tl_prev_focus l) (ordered_neighbour (tl_pane_ids l) pos),
       tl_prev_focus := None\<rparr>, True)"
      using many prev
      by (auto simp: close_focused_def pos n Let_def ordered_neighbour_def split: option.split)
  qed (fact n pos)+
qed

lemma close_focused_wf:
  assumes wf: "layout_wf l"
  shows "\<exists>l' b. close_focused l = Some (l', b) \<and> layout_wf l'"
proof (cases "tl_pane_count l \<le> 1")
  case True
  then have "close_focused l = Some (l, False)" by (simp add: close_focused_def)
  with wf show ?thesis by blast
next
  case False
  from close_focused_spec [OF wf False] obtain n pos where
    n: "remove_pane (tl_root l) (tl_focus l) = Some n" and
    pos: "index_of (tl_focus l) (tl_pane_ids l) = Some pos" and
    eq: "close_focused l = Some (l\<lparr>tl_root := n,
       tl_focus := unwrap_or (tl_prev_focus l) (ordered_neighbour (tl_pane_ids l) pos),
       tl_prev_focus := None\<rparr>, True)" by blast
  have ids: "distinct (tl_pane_ids l)" "tl_focus l \<in> set (tl_pane_ids l)" "1 < length (tl_pane_ids l)"
    using wf False by (auto simp: layout_wf_def tl_pane_ids_def tl_pane_count_def count_panes_length)
  have "pos < length (tl_pane_ids l) \<and> tl_pane_ids l ! pos = tl_focus l"
    using index_of_Some [OF ids(2)] pos by auto
  with ids have "ordered_neighbour (tl_pane_ids l) pos \<in> set (tl_pane_ids l)"
    and "ordered_neighbour (tl_pane_ids l) pos \<noteq> tl_focus l"
    using ordered_neighbour_other [of "tl_pane_ids l" pos] by auto
  moreover have "layout_wf l \<Longrightarrow> tl_prev_focus l = Some p \<Longrightarrow>
      p \<in> set (tl_pane_ids l) \<and> p \<noteq> tl_focus l" for p
    by (simp add: layout_wf_def)
  ultimately have "layout_wf (l\<lparr>tl_root := n,
      tl_focus := unwrap_or (tl_prev_focus l) (ordered_neighbour (tl_pane_ids l) pos),
      tl_prev_focus := None\<rparr>)"
    using wf by (intro layout_wf_remove [OF wf n]) (cases "tl_prev_focus l"; simp)+
  with eq show ?thesis by blast
qed

lemma close_pane_wf:
  assumes wf: "layout_wf l"
  shows "\<exists>l' b. close_pane i l = Some (l', b) \<and> layout_wf l'"
proof (cases "tl_focus l = i \<or> tl_pane_count l \<le> 1 \<or> i \<notin> set (tl_pane_ids l)")
  case True
  with wf close_focused_wf [OF wf] show ?thesis by (auto simp: close_pane_def)
next
  case False
  then obtain n where n: "remove_pane (tl_root l) i = Some n"
    using not_alone_remove [OF wf] by blast
  define prev where "prev = (if tl_prev_focus l = Some i then None else tl_prev_focus l)"
  have "close_pane i l =
      Some (l\<lparr>tl_root := n, tl_focus := tl_focus l, tl_prev_focus := prev\<rparr>, True)"
    using False n by (simp add: close_pane_def Let_def prev_def)
  moreover have "layout_wf (l\<lparr>tl_root := n, tl_focus := tl_focus l, tl_prev_focus := prev\<rparr>)"
    using wf False
    by (intro layout_wf_remove [OF wf n]) (auto simp: layout_wf_def prev_def split: option.split)
  ultimately show ?thesis by blast
qed

lemma close_pane_spec:
  assumes wf: "layout_wf l" and many: "\<not> tl_pane_count l \<le> 1" and mem: "i \<in> set (tl_pane_ids l)"
  shows "\<exists>l'. close_pane i l = Some (l', True) \<and> layout_wf l' \<and>
     tl_pane_ids l' = filter (\<lambda>j. j \<noteq> i) (tl_pane_ids l)"
proof -
  obtain l' b where l': "close_pane i l = Some (l', b)" "layout_wf l'"
    using close_pane_wf [OF wf, of i] by blast
  obtain n where n: "remove_pane (tl_root l) i = Some n" using not_alone_remove [OF wf many] by blast
  have "b \<and> tl_root l' = n"
  proof (cases "tl_focus l = i")
    case True
    with close_focused_spec [OF wf many] l'(1) n show ?thesis by (auto simp: close_pane_def)
  next
    case False
    with l'(1) n many mem show ?thesis by (auto simp: close_pane_def Let_def split: if_splits)
  qed
  with l' remove_pane_ids [OF n] show ?thesis by (simp add: tl_pane_ids_def)
qed

text \<open>A split is undone by closing the new pane.\<close>

lemma split_close:
  assumes "layout_wf l" and "target \<in> set (tl_pane_ids l)" and "nxt \<notin> set (tl_pane_ids l)"
  shows "close_pane nxt (fst (split_pane target dir ratio l nxt)) = Some (l, True) \<and>
    fst (snd (split_pane target dir ratio l nxt)) = Some nxt"
proof -
  define n where "n = split_at (tl_root l) target dir nxt (valid_split_ratio ratio)"
  have split: "split_pane target dir ratio l nxt = (l\<lparr>tl_root := n\<rparr>, Some nxt, nxt + 1)"
    using assms(2) by (simp add: split_pane_def pane_id_alloc_def n_def)
  have rem: "remove_pane n nxt = Some (tl_root l)"
    using assms(3) unfolding n_def tl_pane_ids_def by (rule remove_split_at)
  have mem: "nxt \<in> set (collect_ids n)" and "target \<in> set (collect_ids n)"
    using assms(2) by (simp_all add: n_def tl_pane_ids_def set_collect_ids_split_at)
  moreover have "target \<noteq> nxt" using assms(2,3) by auto
  ultimately have "{target, nxt} \<subseteq> set (collect_ids n)" and "card {target, nxt} = 2" by simp_all
  then have "2 \<le> card (set (collect_ids n))"
    using card_mono [of "set (collect_ids n)" "{target, nxt}"] by simp
  then have many: "\<not> count_panes n \<le> 1"
    using card_length [of "collect_ids n"] by (simp add: count_panes_length)
  have "tl_focus l \<noteq> nxt" and "tl_prev_focus l \<noteq> Some nxt"
    using assms(1,3) by (auto simp: layout_wf_def)
  with rem many mem show ?thesis
    by (simp add: split close_pane_def tl_pane_count_def tl_pane_ids_def Let_def)
qed

section \<open>Ratios\<close>

lemma layout_wf_root:
  "layout_wf l \<Longrightarrow> ratios_ok n \<Longrightarrow> collect_ids n = collect_ids (tl_root l) \<Longrightarrow>
     layout_wf (l\<lparr>tl_root := n\<rparr>)"
  by (auto simp: layout_wf_def tl_pane_ids_def split: option.splits)

lemma set_ratio_at_root:
  "tl_root (fst (set_ratio_at p r l)) =
     fst (node_set_ratio_at (tl_root l) p (f32_clamp r ratio_lo ratio_hi))"
  by (simp add: set_ratio_at_def split: prod.split)

lemma set_ratio_at_eq:
  "fst (set_ratio_at p r l) = l\<lparr>tl_root := tl_root (fst (set_ratio_at p r l))\<rparr>"
  by (simp add: set_ratio_at_def split: prod.split)

lemma set_ratio_at_keeps:
  assumes "ratios_ok (tl_root l)" and "r \<noteq> NaN"
  shows "ratios_ok (tl_root (fst (set_ratio_at p r l)))"
    and "collect_ids (tl_root (fst (set_ratio_at p r l))) = collect_ids (tl_root l)"
  using assms by (simp_all add: set_ratio_at_root ratios_ok_set ratio_ok_clamp set_ratio_ids)

text \<open>Resizing either leaves the layout alone or sets one ratio, to a clamped value.\<close>

lemma resize_focused_cases:
  assumes ok: "ratios_ok (tl_root l)" and delta: "delta \<noteq> NaN"
  shows "resize_focused rn nav delta area l = l \<or>
    (\<exists>p r. r \<noteq> NaN \<and> resize_focused rn nav delta area l = fst (set_ratio_at p r l))"
proof -
  have fin: "f32_is_finite (unwrap_or (get_ratio_at (tl_root l) p) ratio_half)" for p
    using ratios_ok_get [OF ok, of p]
    by (cases "get_ratio_at (tl_root l) p")
      (auto simp: ratio_half_value f32_is_finite_def ratio_ok_iff)
  have "f32_add (unwrap_or (get_ratio_at (tl_root l) p) ratio_half) d \<noteq> NaN" if "d \<noteq> NaN" for p d
    using fin that by (rule f32_add_finite)
  then have sum: "f32_add (unwrap_or (get_ratio_at (tl_root l) p) ratio_half)
      (if g then delta else f32_neg delta) \<noteq> NaN" for p g
    using delta by simp
  show ?thesis
  proof (cases "find pi_is_focused (tl_panes rn l area)")
    case None
    then show ?thesis by (simp add: resize_focused_def)
  next
    case (Some fo)
    define best where "best =
      (let splits = tl_splits rn l area; fr = pi_rect fo;
           target_dir = (if nav = NavLeft \<or> nav = NavRight then Horizontal else Vertical)
       in or_else (nearest_resize_split splits target_dir fr nav)
            (nearest_resize_split splits target_dir fr (opposite_direction nav)))"
    have eq: "resize_focused rn nav delta area l =
      (case best of None \<Rightarrow> l
       | Some b \<Rightarrow> fst (set_ratio_at (sb_path b)
           (f32_add (unwrap_or (get_ratio_at (tl_root l) (sb_path b)) ratio_half)
             (if nav = NavRight \<or> nav = NavDown then delta else f32_neg delta)) l))"
      unfolding resize_focused_def best_def Let_def Some by simp
    show ?thesis
    proof (cases best)
      case None
      with eq show ?thesis by simp
    next
      case (Some b)
      show ?thesis by (rule disjI2, rule exI, rule exI, rule conjI [OF sum]) (simp add: eq Some)
    qed
  qed
qed

lemma resize_focused_keeps:
  assumes "ratios_ok (tl_root l)" and "delta \<noteq> NaN"
  shows "\<exists>n. resize_focused rn nav delta area l = l\<lparr>tl_root := n\<rparr> \<and> ratios_ok n \<and>
    collect_ids n = collect_ids (tl_root l)"
proof -
  consider "resize_focused rn nav delta area l = l"
    | p r where "r \<noteq> NaN" and "resize_focused rn nav delta area l = fst (set_ratio_at p r l)"
    using resize_focused_cases [OF assms] by blast
  then show ?thesis
  proof cases
    case 1
    with assms(1) show ?thesis by (intro exI [of _ "tl_root l"]) simp
  next
    case 2
    with set_ratio_at_keeps [OF assms(1) 2(1), of p] set_ratio_at_eq [of p r l]
    show ?thesis by auto
  qed
qed

lemma split_ratios_not_NaN: "ratios_ok n \<Longrightarrow> \<forall>e \<in> set (split_ratios n). snd e \<noteq> NaN"
  unfolding split_ratios_def using split_ratios_ok ratio_ok_not_NaN by blast

lemma set_ratio_at_same_ratios:
  assumes eq: "split_ratios (tl_root (fst (set_ratio_at p r l))) = split_ratios (tl_root l)"
  shows "tl_root (fst (set_ratio_at p r l)) = tl_root l"
proof -
  define c where "c = f32_clamp r ratio_lo ratio_hi"
  obtain n ok where n: "node_set_ratio_at (tl_root l) p c = (n, ok)" by fastforce
  then have root: "tl_root (fst (set_ratio_at p r l)) = n" by (simp add: set_ratio_at_root c_def)
  show ?thesis
  proof (cases ok)
    case True
    with n have "get_ratio_at n p = Some c" by (simp add: get_ratio_of_set)
    with eq root have "get_ratio_at (tl_root l) p = Some c" by (simp add: get_ratio_split_ratios)
    with n root show ?thesis by (simp add: set_ratio_same)
  next
    case False
    with n root set_ratio_missing [of "tl_root l" p c] show ?thesis by simp
  qed
qed

lemma resize_focused_same_ratios:
  assumes "ratios_ok (tl_root l)" and "delta \<noteq> NaN"
    and "split_ratios (tl_root (resize_focused rn nav delta area l)) = split_ratios (tl_root l)"
  shows "tl_root (resize_focused rn nav delta area l) = tl_root l"
  using resize_focused_cases [OF assms(1,2), of rn nav area] assms(3)
    set_ratio_at_same_ratios by auto

lemma resize_pane_keeps:
  assumes "ratios_ok (tl_root l)" and "delta \<noteq> NaN"
  shows "\<exists>n. fst (resize_pane rn i nav delta area l) = l\<lparr>tl_root := n\<rparr> \<and> ratios_ok n \<and>
    collect_ids n = collect_ids (tl_root l)"
proof (cases "i \<in> set (tl_pane_ids l)")
  case True
  obtain n where "resize_focused rn nav delta area (l\<lparr>tl_focus := i\<rparr>) = l\<lparr>tl_focus := i, tl_root := n\<rparr>"
    and n: "ratios_ok n" "collect_ids n = collect_ids (tl_root l)"
    using resize_focused_keeps [of "l\<lparr>tl_focus := i\<rparr>" delta rn nav area] assms by auto
  with True have "fst (resize_pane rn i nav delta area l) = l\<lparr>tl_root := n\<rparr>"
    by (simp add: resize_pane_def Let_def)
  with n show ?thesis by blast
next
  case False
  with assms(1) show ?thesis by (intro exI [of _ "tl_root l"]) (simp add: resize_pane_def)
qed

section \<open>The machine\<close>

text \<open>
  The operations the rest of the program calls on a layout. The identifier \<open>PaneId::alloc\<close>
  hands out for a split is part of the operation.
\<close>

datatype layout_op =
    OpSplit pane_id direction f32 u32
  | OpInsert pane_id pane_id direction f32 bool
  | OpCloseFocused
  | OpClose pane_id
  | OpFocus pane_id
  | OpSwap pane_id pane_id
  | OpSetRatio "bool list" f32
  | OpResizeFocused rect_ctor nav_direction f32 rect
  | OpResize rect_ctor pane_id nav_direction f32 rect

fun layout_step :: "tile_layout \<Rightarrow> layout_op \<Rightarrow> tile_layout option" where
  "layout_step l (OpSplit t d r nxt) = Some (fst (split_pane t d r l nxt))"
| "layout_step l (OpInsert t m d r foc) = Some (fst (insert_pane_near t m d r foc l))"
| "layout_step l OpCloseFocused = map_option fst (close_focused l)"
| "layout_step l (OpClose i) = map_option fst (close_pane i l)"
| "layout_step l (OpFocus i) = Some (focus_pane i l)"
| "layout_step l (OpSwap a b) = Some (fst (swap_panes a b l))"
| "layout_step l (OpSetRatio p r) = Some (fst (set_ratio_at p r l))"
| "layout_step l (OpResizeFocused rn nav delta area) = Some (resize_focused rn nav delta area l)"
| "layout_step l (OpResize rn i nav delta area) = Some (fst (resize_pane rn i nav delta area l))"

text \<open>
  What the callers guarantee: a freshly allocated identifier is not in use (the global counter
  has not wrapped), and ratios are not \<open>NaN\<close> (the API handler rejects a ratio that is not
  finite).
\<close>

fun layout_op_ok :: "tile_layout \<Rightarrow> layout_op \<Rightarrow> bool" where
  "layout_op_ok l (OpSplit t d r nxt) = (nxt \<notin> set (tl_pane_ids l))"
| "layout_op_ok l (OpSetRatio p r) = (r \<noteq> NaN)"
| "layout_op_ok l (OpResizeFocused rn nav delta area) = (delta \<noteq> NaN)"
| "layout_op_ok l (OpResize rn i nav delta area) = (delta \<noteq> NaN)"
| "layout_op_ok l p = True"

lemma layout_step_wf:
  assumes wf: "layout_wf l" and ok: "layout_op_ok l p"
  shows "\<exists>l'. layout_step l p = Some l' \<and> layout_wf l'"
proof (cases p)
  case OpCloseFocused
  then show ?thesis using close_focused_wf [OF wf] by auto
next
  case (OpClose i)
  then show ?thesis using close_pane_wf [OF wf, of i] by auto
next
  case (OpSetRatio q r)
  with wf ok have "ratios_ok (tl_root l)" "r \<noteq> NaN" by (simp_all add: layout_wf_def)
  from layout_wf_root [OF wf set_ratio_at_keeps [OF this, of q]] OpSetRatio
  show ?thesis using set_ratio_at_eq [of q r l] by simp
next
  case (OpResizeFocused rn nav delta area)
  with wf ok have "ratios_ok (tl_root l)" "delta \<noteq> NaN" by (simp_all add: layout_wf_def)
  from resize_focused_keeps [OF this, of rn nav area] layout_wf_root [OF wf] OpResizeFocused
  show ?thesis by auto
next
  case (OpResize rn i nav delta area)
  with wf ok have "ratios_ok (tl_root l)" "delta \<noteq> NaN" by (simp_all add: layout_wf_def)
  from resize_pane_keeps [OF this, of rn i nav area] layout_wf_root [OF wf] OpResize
  show ?thesis by auto
qed (use wf ok in \<open>simp_all add: layout_wf_split_pane layout_wf_insert layout_wf_focus_pane
       layout_wf_swap\<close>)

interpretation layout_machine: op_machine layout_step layout_op_ok layout_wf
  by unfold_locales (rule layout_step_wf)

end
