(* ===== verification/Layout_Tiling.thy ===== *)
theory Layout_Tiling
  imports Layout_Machine
begin

text \<open>
  The geometry of the layout: splitting a rectangle partitions its cells, so the panes tile the
  screen area; the split borders name the splits of the tree; directional navigation returns a
  nearest pane on the requested side.
\<close>

section \<open>Rectangles\<close>

definition rect_fits :: "rect \<Rightarrow> bool" where
  "rect_fits r \<longleftrightarrow>
     unat (rx r) + unat (rwidth r) \<le> u16_max \<and> unat (ry r) + unat (rheight r) \<le> u16_max"

definition in_rect :: "rect \<Rightarrow> nat \<Rightarrow> nat \<Rightarrow> bool" where
  "in_rect r cx cy \<longleftrightarrow>
     unat (rx r) \<le> cx \<and> cx < unat (rx r) + unat (rwidth r) \<and>
     unat (ry r) \<le> cy \<and> cy < unat (ry r) + unat (rheight r)"

text \<open>
  ratatui documents that \<open>Rect::new\<close> keeps its arguments, limiting width and height so that
  both bounds stay within \<open>u16\<close>. The layout relies on the case where nothing is limited.
\<close>

definition rect_new_documented :: "rect_ctor \<Rightarrow> bool" where
  "rect_new_documented rn \<longleftrightarrow>
     (\<forall>x y w h. rect_fits \<lparr>rx = x, ry = y, rwidth = w, rheight = h\<rparr> \<longrightarrow>
        rn x y w h = \<lparr>rx = x, ry = y, rwidth = w, rheight = h\<rparr>)"

text \<open>A constructor with the documented behaviour, for the witnesses.\<close>

definition rect_new_limited :: rect_ctor where
  "rect_new_limited x y w h =
     \<lparr>rx = x, ry = y, rwidth = min w (65535 - x), rheight = min h (65535 - y)\<rparr>"

lemma rect_new_limited_documented: "rect_new_documented rect_new_limited"
proof -
  have "min w (65535 - x) = w" if "unat x + unat w \<le> u16_max" for x w :: u16
  proof -
    have "unat (65535 - x) = 65535 - unat x"
      using u16_bound [of x] by (subst unat_sub) (auto simp: word_le_nat_alt u16_max_def)
    with that have "w \<le> 65535 - x" by (simp add: word_le_nat_alt u16_max_def)
    then show ?thesis by (simp add: min_def)
  qed
  then show ?thesis by (simp add: rect_new_documented_def rect_new_limited_def rect_fits_def)
qed

text \<open>The length of the first part: the scaled length, never more than the whole.\<close>

definition first_part :: "u16 \<Rightarrow> f32 \<Rightarrow> u16" where
  "first_part n ratio = f32_as_u16 (f32_round (f32_mul (f32_of_u16 n) ratio))"

lemma first_part_le: "ratio_ok ratio \<Longrightarrow> unat (first_part n ratio) \<le> unat n"
  by (auto simp: first_part_def ratio_ok_iff intro!: f32_scale_bound)

lemma split_rect_cut:
  assumes rn: "rect_new_documented rn" and area: "rect_fits area" and ratio: "ratio_ok ratio"
    and ab: "split_rect rn area dir ratio = (a, b)"
  shows "rect_fits a \<and> rect_fits b \<and>
    (if dir = Horizontal
     then let w = first_part (rwidth area) ratio
          in a = area\<lparr>rwidth := w\<rparr> \<and> b = area\<lparr>rx := rx area + w, rwidth := rwidth area - w\<rparr>
     else let h = first_part (rheight area) ratio
          in a = area\<lparr>rheight := h\<rparr> \<and> b = area\<lparr>ry := ry area + h, rheight := rheight area - h\<rparr>)"
proof -
  have cut: "unat (first_part n ratio) \<le> unat n" for n by (rule first_part_le [OF ratio])
  have len: "unat (n - first_part n ratio) = unat n - unat (first_part n ratio)"
    and sat: "sat_sub n (first_part n ratio) = n - first_part n ratio" for n
    using cut [of n] by (simp_all add: unat_sub sat_sub_def word_le_nat_alt)
  have pos: "unat (p + first_part n ratio) = unat p + unat (first_part n ratio)"
    if "unat p + unat n \<le> u16_max" for p n
    using that cut [of n] by (intro unat_add_no_wrap) linarith
  show ?thesis
  proof (cases dir)
    case Horizontal
    have "rect_fits (area\<lparr>rwidth := first_part (rwidth area) ratio\<rparr>)"
      and "rect_fits (area\<lparr>rx := rx area + first_part (rwidth area) ratio,
             rwidth := rwidth area - first_part (rwidth area) ratio\<rparr>)"
      using area cut [of "rwidth area"] by (auto simp: rect_fits_def pos len)
    with ab Horizontal rn show ?thesis
      by (cases area)
        (simp add: split_rect_def first_part_def [symmetric] Let_def sat rect_new_documented_def)
  next
    case Vertical
    have "rect_fits (area\<lparr>rheight := first_part (rheight area) ratio\<rparr>)"
      and "rect_fits (area\<lparr>ry := ry area + first_part (rheight area) ratio,
             rheight := rheight area - first_part (rheight area) ratio\<rparr>)"
      using area cut [of "rheight area"] by (auto simp: rect_fits_def pos len)
    with ab Vertical rn show ?thesis
      by (cases area)
        (simp add: split_rect_def first_part_def [symmetric] Let_def sat rect_new_documented_def)
  qed
qed

lemma split_rect_cells:
  assumes "rect_new_documented rn" and "rect_fits area" and "ratio_ok ratio"
    and "split_rect rn area dir ratio = (a, b)"
  shows "(if in_rect a cx cy then 1 else 0) + (if in_rect b cx cy then 1 else 0) =
    (if in_rect area cx cy then 1 else (0 :: nat))"
proof -
  note cut = split_rect_cut [OF assms]
  have len: "unat (n - first_part n ratio) = unat n - unat (first_part n ratio)"
    and le: "unat (first_part n ratio) \<le> unat n" for n
    using first_part_le [OF assms(3), of n] by (simp_all add: unat_sub word_le_nat_alt)
  have pos: "unat (p + first_part n ratio) = unat p + unat (first_part n ratio)"
    if "unat p + unat n \<le> u16_max" for p n
    using that le [of n] by (intro unat_add_no_wrap) linarith
  show ?thesis
    using cut assms(2) le [of "rwidth area"] le [of "rheight area"]
    by (auto simp: in_rect_def len pos rect_fits_def Let_def split: if_splits)
qed

section \<open>Panes tile the area\<close>

lemma collect_panes_ids: "map pi_id (collect_panes rn n area foc) = collect_ids n"
  by (induction n arbitrary: area) (auto split: prod.split)

lemma collect_panes_cells:
  assumes rn: "rect_new_documented rn" and "rect_fits area" and "ratios_ok n"
  shows "length (filter (\<lambda>p. in_rect (pi_rect p) cx cy) (collect_panes rn n area foc)) =
    (if in_rect area cx cy then 1 else 0)"
  using assms(2,3)
proof (induction n arbitrary: area)
  case (Pane i)
  then show ?case by simp
next
  case (Split d r f s)
  obtain a b where ab: "split_rect rn area d r = (a, b)" by (cases "split_rect rn area d r")
  from Split.prems have ratio: "ratio_ok r" and ok: "ratios_ok f" "ratios_ok s" by simp_all
  note cut = split_rect_cut [OF rn Split.prems(1) ratio ab]
  note cells = split_rect_cells [OF rn Split.prems(1) ratio ab, of cx cy]
  from cut have fits: "rect_fits a" "rect_fits b" by simp_all
  show ?case
    using Split.IH(1) [OF fits(1) ok(1)] Split.IH(2) [OF fits(2) ok(2)] cells by (simp add: ab)
qed

lemma collect_splits_ratios:
  "map (\<lambda>b. (sb_path b, sb_ratio b)) (collect_splits rn n area path) = split_ratios_from n path"
  by (induction n arbitrary: area path) (auto split: prod.split)

section \<open>Navigation\<close>

lemma find_in_direction_SomeD:
  assumes "find_in_direction focused d panes = Some i"
  shows "\<exists>k < length panes. pi_id (panes ! k) = i \<and> i \<noteq> pi_id focused \<and>
    on_side d (pi_rect focused) (pi_rect (panes ! k)) \<and>
    (\<forall>j < length panes. pi_id (panes ! j) \<noteq> pi_id focused \<and>
       on_side d (pi_rect focused) (pi_rect (panes ! j)) \<longrightarrow>
       nav_key d (pi_rect focused) (k, panes ! k) \<le> nav_key d (pi_rect focused) (j, panes ! j))"
proof -
  define cands where "cands =
    filter (\<lambda>(_, p). on_side d (pi_rect focused) (pi_rect p))
      (filter (\<lambda>(_, p). pi_id p \<noteq> pi_id focused) (enumerate 0 panes))"
  have mem: "(k, p) \<in> set cands \<longleftrightarrow> k < length panes \<and> p = panes ! k \<and>
      pi_id p \<noteq> pi_id focused \<and> on_side d (pi_rect focused) (pi_rect p)" for k p
    by (auto simp: cands_def in_set_enumerate_eq)
  have "find_in_direction focused d panes =
      map_option (\<lambda>(_, p). pi_id p) (min_by_key (nav_key d (pi_rect focused)) cands)"
    by (simp only: find_in_direction_def Let_def cands_def)
  with assms obtain k p where best: "min_by_key (nav_key d (pi_rect focused)) cands = Some (k, p)"
    and i: "i = pi_id p"
    by auto
  from min_by_key_SomeD [OF best] have "(k, p) \<in> set cands"
    and least: "\<forall>e \<in> set cands. nav_key d (pi_rect focused) (k, p) \<le> nav_key d (pi_rect focused) e"
    by simp_all
  with i show ?thesis by (auto simp: mem)
qed

lemma find_in_direction_None_iff:
  "find_in_direction focused d panes = None \<longleftrightarrow>
     (\<forall>p \<in> set panes. pi_id p \<noteq> pi_id focused \<longrightarrow> \<not> on_side d (pi_rect focused) (pi_rect p))"
proof -
  have "(\<exists>k. (k, p) \<in> set (enumerate 0 panes)) \<longleftrightarrow> p \<in> set panes" for p
    by (force simp: in_set_enumerate_eq in_set_conv_nth [of p panes])
  then show ?thesis
    by (simp only: find_in_direction_def Let_def option.map_disc_iff min_by_key_eq_None
        filter_empty_conv) fastforce
qed

lemma nav_key_edge: "nav_key d fr a \<le> nav_key d fr b \<Longrightarrow>
    edge_distance d fr (pi_rect (snd a)) \<le> edge_distance d fr (pi_rect (snd b))"
  by (auto simp: nav_key_def Let_def less_eq_prod_def split: prod.splits if_splits)

end
