(* ===== verification/Layout_Properties.thy ===== *)
theory Layout_Properties
  imports Layout_Tiling
begin

text \<open>
  The properties of the layout component, each with a witness on a small concrete layout.
\<close>

section \<open>A concrete layout for the witnesses\<close>

definition demo_layout :: tile_layout where
  "demo_layout = \<lparr>tl_root = Split Horizontal (Fin (1 / 2)) (Pane 1) (Split Vertical (Fin (1 / 4)) (Pane 2) (Pane 3)),
     tl_focus = 2, tl_prev_focus = Some 3\<rparr>"

definition demo_area :: rect where
  "demo_area = \<lparr>rx = 0, ry = 0, rwidth = 100, rheight = 40\<rparr>"

lemma demo_ratios_ok: "ratios_ok (tl_root demo_layout)"
  by (simp add: demo_layout_def ratio_ok_def f32_is_finite_def ratio_lo_value ratio_hi_value)

lemma demo_layout_wf: "layout_wf demo_layout"
  using demo_ratios_ok unfolding layout_wf_def tl_pane_ids_def by (simp add: demo_layout_def)

lemma demo_area_fits: "rect_fits demo_area"
  by (simp add: rect_fits_def demo_area_def u16_max_def)

section \<open>Properties\<close>

text \<open>
  C4: the panes tile the screen. For an area that fits into \<open>u16\<close> coordinates and valid split
  ratios, every cell of the area lies in exactly one pane's rectangle and no cell outside the
  area lies in any; the rectangles come in the order of \<open>pane_ids\<close>.
\<close>

theorem panes_tile_area:
  assumes "rect_new_documented rn" and "rect_fits area" and "ratios_ok (tl_root l)"
  shows "length (filter (\<lambda>p. in_rect (pi_rect p) cx cy) (tl_panes rn l area)) =
      (if in_rect area cx cy then 1 else 0) \<and>
    map pi_id (tl_panes rn l area) = tl_pane_ids l"
  by (simp add: tl_panes_def tl_pane_ids_def collect_panes_cells [OF assms] collect_panes_ids)

theorem panes_tile_area_witness:
  "length (filter (\<lambda>p. in_rect (pi_rect p) 70 9) (tl_panes rect_new_limited demo_layout demo_area)) = 1"
  using panes_tile_area [OF rect_new_limited_documented demo_area_fits demo_ratios_ok, of 70 9]
  by (simp add: demo_area_def in_rect_def)

text \<open>
  C22: no sequence of layout operations whose callers keep their guarantees (fresh pane ids,
  ratios that are not \<open>NaN\<close>) panics, and it keeps the invariant: pane ids are distinct, the
  focused pane is in the tree, the remembered previous pane is another pane of the tree, and
  all split ratios lie in the allowed range.
\<close>

theorem layout_run_wf:
  assumes "layout_wf l" and "run_guarded layout_step layout_op_ok l ops"
  shows "\<exists>l'. run_ops layout_step l ops = Some l' \<and> layout_wf l'"
  by (rule layout_machine.run_inv [OF assms])

theorem layout_run_wf_witness:
  "\<exists>l'. run_ops layout_step demo_layout [OpSwap 1 3, OpCloseFocused, OpClose 3] = Some l' \<and> layout_wf l'"
proof (rule layout_run_wf)
  show "layout_wf demo_layout" by (rule demo_layout_wf)
  show "run_guarded layout_step layout_op_ok demo_layout [OpSwap 1 3, OpCloseFocused, OpClose 3]"
    by (simp split: option.split)
qed

text \<open>
  closing the pane a split has just created gives back the layout from before the split,
  focus and focus history included.
\<close>

lemma split_then_close:
  assumes "layout_wf l" and "target \<in> set (tl_pane_ids l)" and "nxt \<notin> set (tl_pane_ids l)"
  shows "close_pane nxt (fst (split_pane target dir ratio l nxt)) = Some (l, True) \<and>
    fst (snd (split_pane target dir ratio l nxt)) = Some nxt"
  using split_close [OF assms] .

lemma split_then_close_witness:
  "close_pane 7 (fst (split_pane 1 Vertical (Fin (1 / 2)) demo_layout 7)) = Some (demo_layout, True)"
  using split_then_close [OF demo_layout_wf, of 1 7 Vertical "Fin (1 / 2)"]
  by (simp add: demo_layout_def tl_pane_ids_def)

text \<open>
  closing the focused pane of a layout with several panes removes exactly that pane, keeps
  the order of the others, and returns the focus to the pane it came from when there is one,
  to a neighbour of the closed pane otherwise; the history is used up.
\<close>

lemma close_focused_refocuses:
  assumes "layout_wf l" and "\<not> tl_pane_count l \<le> 1"
  shows "\<exists>l' pos. close_focused l = Some (l', True) \<and>
    tl_pane_ids l' = filter (\<lambda>i. i \<noteq> tl_focus l) (tl_pane_ids l) \<and>
    index_of (tl_focus l) (tl_pane_ids l) = Some pos \<and>
    tl_focus l' = unwrap_or (tl_prev_focus l) (ordered_neighbour (tl_pane_ids l) pos) \<and>
    tl_prev_focus l' = None"
proof -
  from close_focused_spec [OF assms] obtain n pos where
    n: "remove_pane (tl_root l) (tl_focus l) = Some n" and
    rest: "index_of (tl_focus l) (tl_pane_ids l) = Some pos"
      "close_focused l = Some (l\<lparr>tl_root := n,
         tl_focus := unwrap_or (tl_prev_focus l) (ordered_neighbour (tl_pane_ids l) pos),
         tl_prev_focus := None\<rparr>, True)" by blast
  with remove_pane_ids [OF n] show ?thesis by (auto simp: tl_pane_ids_def)
qed

lemma close_focused_refocuses_witness:
  "\<exists>l'. close_focused demo_layout = Some (l', True) \<and> tl_pane_ids l' = [1, 3] \<and> tl_focus l' = 3"
  using close_focused_refocuses [OF demo_layout_wf]
  by (auto simp: demo_layout_def tl_pane_count_def tl_pane_ids_def)

text \<open>
  swapping two panes keeps every split, ratio and rectangle and exchanges only the two
  pane ids; swapping them again gives the layout back.
\<close>

lemma swap_panes_exchanges:
  assumes "a \<noteq> b" and "a \<in> set (tl_pane_ids l)" and "b \<in> set (tl_pane_ids l)"
  shows "\<exists>l'. swap_panes a b l = (l', True) \<and> swap_panes a b l' = (l, True) \<and>
    split_ratios (tl_root l') = split_ratios (tl_root l) \<and>
    map pi_rect (tl_panes rn l' area) = map pi_rect (tl_panes rn l area) \<and>
    tl_pane_ids l' = map (\<lambda>i. if i = a then b else if i = b then a else i) (tl_pane_ids l)"
proof -
  have rects: "map pi_rect (collect_panes rn (swap_pane_ids n a b) r foc) =
      map pi_rect (collect_panes rn n r foc)" for n r foc
    by (induction n arbitrary: r) (auto split: prod.split)
  show ?thesis
    using assms
    by (intro exI [of _ "l\<lparr>tl_root := swap_pane_ids (tl_root l) a b\<rparr>"])
      (auto simp: swap_panes_def tl_pane_ids_def collect_ids_swap split_ratios_def
        split_ratios_swap tl_panes_def rects image_iff)
qed

lemma swap_panes_exchanges_witness:
  "\<exists>l'. swap_panes 1 3 demo_layout = (l', True) \<and> tl_pane_ids l' = [3, 2, 1]"
  using swap_panes_exchanges [of 1 3 demo_layout rect_new_limited demo_area]
  by (auto simp: demo_layout_def tl_pane_ids_def)

text \<open>
  setting the ratio at a path succeeds exactly when a split is there, stores the clamped
  ratio, and changes no other split and no pane; where there is no split nothing changes.
\<close>

lemma set_ratio_at_path:
  "snd (set_ratio_at p r l) = (get_ratio_at (tl_root l) p \<noteq> None) \<and>
   get_ratio_at (tl_root (fst (set_ratio_at p r l))) q =
     (if snd (set_ratio_at p r l) \<and> q = p then Some (f32_clamp r ratio_lo ratio_hi)
      else get_ratio_at (tl_root l) q) \<and>
   tl_pane_ids (fst (set_ratio_at p r l)) = tl_pane_ids l \<and>
   tl_focus (fst (set_ratio_at p r l)) = tl_focus l"
proof -
  define c where "c = f32_clamp r ratio_lo ratio_hi"
  obtain n ok where n: "node_set_ratio_at (tl_root l) p c = (n, ok)" by fastforce
  have "set_ratio_at p r l = (l\<lparr>tl_root := n\<rparr>, ok)" by (simp add: set_ratio_at_def c_def [symmetric] n)
  then show ?thesis
    using get_ratio_of_set [OF n, of q] set_ratio_ok_iff [of "tl_root l" p c]
      set_ratio_ids [of "tl_root l" p c] n
    by (simp add: tl_pane_ids_def c_def)
qed

text \<open>
  resizing a pane reports a change exactly when the tree changed, and never touches pane
  ids, focus or focus history.
\<close>

lemma resize_pane_reports_change:
  assumes "ratios_ok (tl_root l)" and "delta \<noteq> NaN"
  shows "(snd (resize_pane rn i nav delta area l) \<longleftrightarrow>
      tl_root (fst (resize_pane rn i nav delta area l)) \<noteq> tl_root l) \<and>
    (\<exists>n. fst (resize_pane rn i nav delta area l) = l\<lparr>tl_root := n\<rparr> \<and>
      collect_ids n = tl_pane_ids l)"
proof (intro conjI)
  show "\<exists>n. fst (resize_pane rn i nav delta area l) = l\<lparr>tl_root := n\<rparr> \<and> collect_ids n = tl_pane_ids l"
    using resize_pane_keeps [OF assms, of rn i nav area] by (auto simp: tl_pane_ids_def)
  show "snd (resize_pane rn i nav delta area l) \<longleftrightarrow>
      tl_root (fst (resize_pane rn i nav delta area l)) \<noteq> tl_root l"
  proof (cases "i \<in> set (tl_pane_ids l)")
    case True
    define l1 where "l1 = resize_focused rn nav delta area (l\<lparr>tl_focus := i\<rparr>)"
    have "split_ratios (tl_root l1) = split_ratios (tl_root l) \<longleftrightarrow> tl_root l1 = tl_root l"
      using resize_focused_same_ratios [of "l\<lparr>tl_focus := i\<rparr>" delta rn nav area] assms
      by (auto simp: l1_def)
    with True show ?thesis
      by (simp add: resize_pane_def Let_def l1_def [symmetric]
          ratios_eq_iff [OF split_ratios_not_NaN [OF assms(1)]])
  qed (simp add: resize_pane_def)
qed

lemma resize_pane_reports_change_witness:
  "snd (resize_pane rect_new_limited 1 NavRight (Fin (1 / 8)) demo_area demo_layout) \<longleftrightarrow>
    tl_root (fst (resize_pane rect_new_limited 1 NavRight (Fin (1 / 8)) demo_area demo_layout)) \<noteq>
      tl_root demo_layout"
  using resize_pane_reports_change [OF demo_ratios_ok,
      of "Fin (1 / 8)" rect_new_limited 1 NavRight demo_area] by simp

text \<open>
  The panes directional navigation may choose from: the other panes wholly on the requested
  side that overlap the focused one across it.
\<close>

definition navigation_targets :: "pane_info \<Rightarrow> nav_direction \<Rightarrow> pane_info list \<Rightarrow> pane_info list" where
  "navigation_targets focused d panes =
     filter (\<lambda>p. pi_id p \<noteq> pi_id focused \<and> on_side d (pi_rect focused) (pi_rect p)) panes"

text \<open>
  directional navigation returns a pane only if it is another pane that lies wholly on the
  requested side and overlaps the focused one across it, and among those one with the least
  edge distance; it returns none exactly when there is no such pane.
\<close>

lemma find_in_direction_nearest:
  "case find_in_direction focused d panes of
     None \<Rightarrow> navigation_targets focused d panes = []
   | Some i \<Rightarrow> \<exists>p \<in> set (navigation_targets focused d panes). pi_id p = i \<and>
       list_all (\<lambda>q. edge_distance d (pi_rect focused) (pi_rect p) \<le>
           edge_distance d (pi_rect focused) (pi_rect q)) (navigation_targets focused d panes)"
proof (cases "find_in_direction focused d panes")
  case None
  from this [unfolded find_in_direction_None_iff] show ?thesis
    by (auto simp: None navigation_targets_def filter_empty_conv)
next
  case (Some i)
  from find_in_direction_SomeD [OF this] obtain k where
    k: "k < length panes" "pi_id (panes ! k) = i" "i \<noteq> pi_id focused"
      "on_side d (pi_rect focused) (pi_rect (panes ! k))" and
    least: "\<And>j. j < length panes \<Longrightarrow> pi_id (panes ! j) \<noteq> pi_id focused \<Longrightarrow>
      on_side d (pi_rect focused) (pi_rect (panes ! j)) \<Longrightarrow>
      nav_key d (pi_rect focused) (k, panes ! k) \<le> nav_key d (pi_rect focused) (j, panes ! j)"
    by blast
  have "edge_distance d (pi_rect focused) (pi_rect (panes ! k)) \<le>
      edge_distance d (pi_rect focused) (pi_rect q)"
    if "q \<in> set (navigation_targets focused d panes)" for q
    using that least nav_key_edge by (fastforce simp: navigation_targets_def in_set_conv_nth)
  moreover have "panes ! k \<in> set (navigation_targets focused d panes)"
    using k by (simp add: navigation_targets_def)
  ultimately show ?thesis using Some k by (auto simp: list_all_iff)
qed

text \<open>
  the split borders used for mouse resizing list every split of the tree once, with the
  path under which \<open>set_ratio_at\<close> finds it and its current ratio.
\<close>

lemma splits_name_the_tree:
  "map (\<lambda>b. (sb_path b, sb_ratio b)) (tl_splits rn l area) = split_ratios (tl_root l) \<and>
   get_ratio_at (tl_root l) p = map_of (split_ratios (tl_root l)) p"
  by (simp add: tl_splits_def collect_splits_ratios split_ratios_def [symmetric]
      get_ratio_split_ratios [symmetric])

end
