(* ===== verification/Rust_Str.thy ===== *)
theory Rust_Str
  imports Osade_Base
begin

text \<open>
  Rust's \<open>str\<close> as the list of its UTF-8 bytes, with the operations the modelled code uses:
  trimming of Unicode white space, ASCII classes, control characters, prefixes, suffixes,
  splitting and case folding, printing and parsing decimal numbers (\<open>format!\<close>, \<open>str::parse\<close>),
  cutting at a character (\<open>split_once\<close>, \<open>strip_suffix\<close>), and the characters of a UTF-8 string
  (\<open>chars\<close>, \<open>char::encode_utf8\<close>). A \<open>char\<close> of Rust is its scalar value, a natural number.
\<close>

section \<open>Bytes\<close>

definition byte :: "char \<Rightarrow> nat" where
  "byte c = of_char c"

definition is_ascii_digit :: "char \<Rightarrow> bool" where
  "is_ascii_digit c \<longleftrightarrow> 48 \<le> byte c \<and> byte c \<le> 57"

definition ascii_lower :: "char \<Rightarrow> char" where
  "ascii_lower c = (if 65 \<le> byte c \<and> byte c \<le> 90 then char_of (byte c + 32) else c)"

definition eq_ignore_ascii_case :: "string \<Rightarrow> string \<Rightarrow> bool" where
  "eq_ignore_ascii_case s t \<longleftrightarrow> map ascii_lower s = map ascii_lower t"

section \<open>White space\<close>

text \<open>
  The number of bytes of the white-space character a string starts with, 0 if it starts with
  another character: the code points with the Unicode property \<open>White_Space\<close>.
\<close>

fun ws_len_bytes :: "nat list \<Rightarrow> nat" where
  "ws_len_bytes [] = 0"
| "ws_len_bytes (a # bs) =
     (if 9 \<le> a \<and> a \<le> 13 \<or> a = 32 then 1
      else case bs of [] \<Rightarrow> 0
      | b # cs \<Rightarrow>
          if a = 0xC2 \<and> (b = 0x85 \<or> b = 0xA0) then 2
          else case cs of [] \<Rightarrow> 0
          | c # _ \<Rightarrow>
              if a = 0xE1 \<and> b = 0x9A \<and> c = 0x80 \<or>
                 a = 0xE2 \<and> b = 0x80 \<and> (0x80 \<le> c \<and> c \<le> 0x8A \<or> c = 0xA8 \<or> c = 0xA9 \<or> c = 0xAF) \<or>
                 a = 0xE2 \<and> b = 0x81 \<and> c = 0x9F \<or>
                 a = 0xE3 \<and> b = 0x80 \<and> c = 0x80
              then 3 else 0)"

definition ws_len :: "string \<Rightarrow> nat" where
  "ws_len s = ws_len_bytes (map byte (take 3 s))"

text \<open>The same for the character a string ends with; the argument is the reversed string.\<close>

definition ws_len_end :: "string \<Rightarrow> nat" where
  "ws_len_end r =
     (if ws_len (rev (take 1 r)) = 1 then 1
      else if 2 \<le> length r \<and> ws_len (rev (take 2 r)) = 2 then 2
      else if 3 \<le> length r \<and> ws_len (rev (take 3 r)) = 3 then 3 else 0)"

lemma ws_len_Nil [simp]: "ws_len [] = 0"
  by (simp add: ws_len_def)

lemma ws_len_end_Nil [simp]: "ws_len_end [] = 0"
  by (simp add: ws_len_end_def)

function trim_start :: "string \<Rightarrow> string" where
  "trim_start s = (if ws_len s = 0 then s else trim_start (drop (ws_len s) s))"
  by pat_completeness auto
termination
proof (relation "measure length")
  fix s :: string
  assume "ws_len s \<noteq> 0"
  then show "(drop (ws_len s) s, s) \<in> measure length" by (cases s) auto
qed simp

function trim_end_rev :: "string \<Rightarrow> string" where
  "trim_end_rev r = (if ws_len_end r = 0 then r else trim_end_rev (drop (ws_len_end r) r))"
  by pat_completeness auto
termination
proof (relation "measure length")
  fix r :: string
  assume "ws_len_end r \<noteq> 0"
  then show "(drop (ws_len_end r) r, r) \<in> measure length" by (cases r) auto
qed simp

declare trim_start.simps [simp del] trim_end_rev.simps [simp del]

definition trim_end :: "string \<Rightarrow> string" where
  "trim_end s = rev (trim_end_rev (rev s))"

definition trim :: "string \<Rightarrow> string" where
  "trim s = trim_end (trim_start s)"

section \<open>Control characters\<close>

text \<open>
  \<open>chars().any(char::is_control)\<close> on well-formed UTF-8: the C0 controls and DEL are one byte,
  the C1 controls U+0080 to U+009F are \<open>C2 80\<close> to \<open>C2 9F\<close>, and \<open>C2\<close> only starts a character.
\<close>

fun has_control :: "string \<Rightarrow> bool" where
  "has_control [] = False"
| "has_control (a # s) =
     (byte a < 32 \<or> byte a = 127 \<or>
      byte a = 0xC2 \<and> (case s of [] \<Rightarrow> False | b # _ \<Rightarrow> 0x80 \<le> byte b \<and> byte b \<le> 0x9F) \<or>
      has_control s)"

section \<open>Prefixes, suffixes and splitting\<close>

definition starts_with :: "string \<Rightarrow> string \<Rightarrow> bool" where
  "starts_with s p \<longleftrightarrow> take (length p) s = p"

definition ends_with :: "string \<Rightarrow> string \<Rightarrow> bool" where
  "ends_with s p \<longleftrightarrow> length p \<le> length s \<and> drop (length s - length p) s = p"

definition strip_prefix :: "string \<Rightarrow> string \<Rightarrow> string option" where
  "strip_prefix s p = then_some (starts_with s p) (drop (length p) s)"

fun split_on :: "(char \<Rightarrow> bool) \<Rightarrow> string \<Rightarrow> string list" where
  "split_on P [] = [[]]"
| "split_on P (c # s) =
     (if P c then [] # split_on P s
      else case split_on P s of [] \<Rightarrow> [[c]] | w # ws \<Rightarrow> (c # w) # ws)"

lemma ends_with_self [simp]: "ends_with v v"
  by (simp add: ends_with_def)

lemma ends_with_append [simp]: "ends_with (p @ v) v"
  by (simp add: ends_with_def)

lemma ends_with_Cons: "ends_with s v \<Longrightarrow> ends_with (c # s) v"
  by (auto simp: ends_with_def Suc_diff_le)

lemma split_on_nonempty [simp]: "split_on P s \<noteq> []"
  by (induction s) (auto split: list.split)

lemma split_on_none: "\<forall>c \<in> set s. \<not> P c \<Longrightarrow> split_on P s = [s]"
  by (induction s) auto

section \<open>Case folding\<close>

text \<open>
  \<open>to_lowercase\<close>. The characters outside ASCII whose lower case holds an ASCII letter are the
  Kelvin sign (U+212A, lower case \<open>k\<close>) and the dotted capital I (U+0130, lower case \<open>i\<close> and a
  combining dot). Every other character outside ASCII lowers to characters outside ASCII; it
  is left as it is, since the code only compares lowered names with ASCII names.
\<close>

fun to_lowercase :: "string \<Rightarrow> string" where
  "to_lowercase [] = []"
| "to_lowercase (a # s) =
     (case s of
        b # c # t \<Rightarrow>
          if byte a = 0xE2 \<and> byte b = 0x84 \<and> byte c = 0xAA then CHR ''k'' # to_lowercase t
          else if byte a = 0xC4 \<and> byte b = 0xB0
          then [CHR ''i'', char_of (0xCC :: nat), char_of (0x87 :: nat)] @ to_lowercase (c # t)
          else ascii_lower a # to_lowercase s
      | [b] \<Rightarrow>
          if byte a = 0xC4 \<and> byte b = 0xB0
          then [CHR ''i'', char_of (0xCC :: nat), char_of (0x87 :: nat)]
          else ascii_lower a # to_lowercase s
      | [] \<Rightarrow> [ascii_lower a])"

lemma to_lowercase_ascii: "\<forall>c \<in> set s. byte c < 128 \<Longrightarrow> to_lowercase s = map ascii_lower s"
  by (induction s rule: to_lowercase.induct) (auto split: list.split)

section \<open>Plain names\<close>

text \<open>Lower-case ASCII words: trimming, case folding and splitting leave them alone.\<close>

definition plain :: "string \<Rightarrow> bool" where
  "plain s \<longleftrightarrow> list_all (\<lambda>c. 97 \<le> byte c \<and> byte c \<le> 122) s"

lemma ws_len_bytes_high: "\<forall>b \<in> set bs. 97 \<le> b \<and> b \<le> 122 \<Longrightarrow> ws_len_bytes bs = 0"
  by (cases bs) (auto split: list.split)

lemma ws_len_plain: "plain s \<Longrightarrow> ws_len s = 0"
  unfolding ws_len_def by (rule ws_len_bytes_high) (auto simp: plain_def list_all_iff dest: in_set_takeD)

lemma plain_rev [simp]: "plain (rev s) = plain s"
  by (simp add: plain_def)

lemma plain_take: "plain s \<Longrightarrow> plain (take n s)"
  by (auto simp: plain_def list_all_iff dest: in_set_takeD)

lemma trim_plain [simp]: "plain s \<Longrightarrow> trim s = s"
proof -
  assume s: "plain s"
  have start: "trim_start s = s" by (subst trim_start.simps) (simp add: ws_len_plain s)
  have "ws_len_end (rev s) = 0"
    by (simp add: ws_len_end_def ws_len_plain plain_take s)
  then have "trim_end_rev (rev s) = rev s" by (subst trim_end_rev.simps) simp
  with start show ?thesis by (simp add: trim_def trim_end_def)
qed

lemma to_lowercase_plain [simp]: "plain s \<Longrightarrow> to_lowercase s = s"
proof -
  assume "plain s"
  then have "\<forall>c \<in> set s. byte c < 128" and "map ascii_lower s = s"
    by (auto simp: plain_def list_all_iff ascii_lower_def intro!: map_idI)
  then show ?thesis by (simp add: to_lowercase_ascii)
qed

lemma plain_drop: "plain s \<Longrightarrow> plain (drop n s)"
  by (auto simp: plain_def list_all_iff dest: in_set_dropD)

lemma ends_with_not_plain: "plain s \<Longrightarrow> \<not> plain p \<Longrightarrow> \<not> ends_with s p"
  using plain_drop [of s "length s - length p"] by (auto simp: ends_with_def)

section \<open>Decimal numbers\<close>

function decimal :: "nat \<Rightarrow> string" where
  "decimal n = (if n < 10 then [char_of (48 + n)] else decimal (n div 10) @ [char_of (48 + n mod 10)])"
  by auto
termination by (relation "measure id") auto

declare decimal.simps [simp del]

definition digits_value :: "string \<Rightarrow> nat" where
  "digits_value ds = foldl (\<lambda>n c. 10 * n + (byte c - 48)) 0 ds"

text \<open>\<open>str::parse\<close> of an unsigned integer: an optional plus, digits, and no overflow.\<close>

definition parse_uint :: "nat \<Rightarrow> string \<Rightarrow> nat option" where
  "parse_uint limit s =
     (let ds = (case s of [] \<Rightarrow> [] | c # t \<Rightarrow> if c = CHR ''+'' then t else s)
      in if ds = [] \<or> \<not> list_all is_ascii_digit ds then None
         else opt_filter (\<lambda>n. n \<le> limit) (Some (digits_value ds)))"

lemma byte_digit: "k < 10 \<Longrightarrow> byte (char_of (48 + k)) = 48 + k"
  by (simp add: byte_def)

lemma decimal_nonempty [simp]: "decimal n \<noteq> []"
  by (subst decimal.simps) simp

lemma decimal_digits [simp]: "list_all is_ascii_digit (decimal n)"
proof (induction n rule: decimal.induct)
  case (1 n)
  then show ?case
    by (subst decimal.simps) (auto simp: is_ascii_digit_def [of "char_of k" for k] byte_digit)
qed

lemma digits_value_decimal [simp]: "digits_value (decimal n) = n"
proof (induction n rule: decimal.induct)
  case (1 n)
  then show ?case
    by (subst decimal.simps) (auto simp: digits_value_def byte_digit)
qed

lemma decimal_members: "c \<in> set (decimal n) \<Longrightarrow> is_ascii_digit c"
  using decimal_digits [of n] by (simp add: list_all_iff)

lemma digit_range: "is_ascii_digit c \<longleftrightarrow> byte c \<in> {48..57}"
  by (simp add: is_ascii_digit_def)

lemma parse_uint_digits:
  assumes "ds \<noteq> []" and "list_all is_ascii_digit ds"
  shows "parse_uint limit ds = (if digits_value ds \<le> limit then Some (digits_value ds) else None)"
proof -
  obtain c t where ds: "ds = c # t" using assms(1) by (cases ds) auto
  have "c \<noteq> CHR ''+''" using assms(2) by (auto simp: ds is_ascii_digit_def byte_def)
  then show ?thesis using assms by (simp add: parse_uint_def ds Let_def opt_filter_def)
qed

lemma parse_uint_decimal [simp]: "n \<le> limit \<Longrightarrow> parse_uint limit (decimal n) = Some n"
  by (simp add: parse_uint_digits)

section \<open>Cutting strings\<close>

definition strip_suffix :: "string \<Rightarrow> string \<Rightarrow> string option" where
  "strip_suffix s p = then_some (ends_with s p) (take (length s - length p) s)"

fun split_once :: "char \<Rightarrow> string \<Rightarrow> (string \<times> string) option" where
  "split_once d [] = None"
| "split_once d (c # s) = (if c = d then Some ([], s) else map_option (\<lambda>(a, b). (c # a, b)) (split_once d s))"

lemma strip_prefix_append [simp]: "strip_prefix (p @ s) p = Some s"
  by (simp add: strip_prefix_def starts_with_def then_some_def)

lemma strip_suffix_append [simp]: "strip_suffix (s @ p) p = Some s"
  by (simp add: strip_suffix_def then_some_def)

lemma strip_suffix_last: "strip_suffix (s @ [c]) [d] = (if c = d then Some s else None)"
  by (simp add: strip_suffix_def ends_with_def then_some_def)

lemma split_once_append: "d \<notin> set a \<Longrightarrow> split_once d (a @ d # b) = Some (a, b)"
  by (induction a) auto

lemma split_once_none: "d \<notin> set s \<Longrightarrow> split_once d s = None"
  by (induction s) auto

lemma split_on_append:
  "\<forall>c \<in> set a. \<not> P c \<Longrightarrow> P d \<Longrightarrow> split_on P (a @ d # b) = a # split_on P b"
  by (induction a) auto

section \<open>Characters\<close>

definition is_scalar :: "nat \<Rightarrow> bool" where
  "is_scalar c \<longleftrightarrow> c < 0xD800 \<or> 0xE000 \<le> c \<and> c \<le> 0x10FFFF"

text \<open>\<open>char::from_u32\<close>.\<close>

definition char_from_u32 :: "nat \<Rightarrow> nat option" where
  "char_from_u32 c = then_some (is_scalar c) c"

definition encode_utf8 :: "nat \<Rightarrow> string" where
  "encode_utf8 c =
     (if c < 0x80 then [char_of c]
      else if c < 0x800 then [char_of (0xC0 + c div 64), char_of (0x80 + c mod 64)]
      else if c < 0x10000
      then [char_of (0xE0 + c div 4096), char_of (0x80 + c div 64 mod 64), char_of (0x80 + c mod 64)]
      else [char_of (0xF0 + c div 262144), char_of (0x80 + c div 4096 mod 64),
            char_of (0x80 + c div 64 mod 64), char_of (0x80 + c mod 64)])"

text \<open>The characters of a string, which is valid UTF-8.\<close>

fun utf8_chars :: "string \<Rightarrow> nat list" where
  "utf8_chars [] = []"
| "utf8_chars (a # s) =
     (if byte a < 0x80 then byte a # utf8_chars s
      else if byte a < 0xE0
      then case s of
          b # t \<Rightarrow> ((byte a - 0xC0) * 64 + (byte b - 0x80)) # utf8_chars t
        | _ \<Rightarrow> []
      else if byte a < 0xF0
      then case s of
          b # c # t \<Rightarrow> ((byte a - 0xE0) * 4096 + (byte b - 0x80) * 64 + (byte c - 0x80)) # utf8_chars t
        | _ \<Rightarrow> []
      else case s of
          b # c # d # t \<Rightarrow>
            ((byte a - 0xF0) * 262144 + (byte b - 0x80) * 4096 + (byte c - 0x80) * 64 + (byte d - 0x80)) # utf8_chars t
        | _ \<Rightarrow> [])"

lemma byte_char_of: "n < 256 \<Longrightarrow> byte (char_of n) = n"
  by (simp add: byte_def)

lemma utf8_roundtrip: "is_scalar c \<Longrightarrow> utf8_chars (encode_utf8 c @ s) = c # utf8_chars s"
proof -
  assume "is_scalar c"
  then have c: "c < 0x110000" by (auto simp: is_scalar_def)
  have two: "c div 64 * 64 + c mod 64 = c" by simp
  have d1: "c div 4096 = c div 64 div 64" and d2: "c div 262144 = c div 64 div 64 div 64"
    by (simp_all add: div_mult2_eq [symmetric])
  have three: "c div 4096 * 4096 + (c div 64 mod 64) * 64 + c mod 64 = c"
    unfolding d1 using div_mult_mod_eq [of "c div 64" 64] div_mult_mod_eq [of c 64] by linarith
  have four: "c div 262144 * 262144 + (c div 4096 mod 64) * 4096 + (c div 64 mod 64) * 64 + c mod 64 = c"
  proof -
    have "c div 262144 * 64 + c div 4096 mod 64 = c div 4096"
      unfolding d1 d2 by simp
    then have "c div 262144 * 262144 + (c div 4096 mod 64) * 4096 = c div 4096 * 4096" by simp
    with three show ?thesis by simp
  qed
  have two_bytes: "utf8_chars (char_of (0xC0 + p) # char_of (0x80 + q) # s) = (p * 64 + q) # utf8_chars s"
    if "p < 32" "q < 64" for p q
    using that by (simp add: byte_char_of)
  have three_bytes: "utf8_chars (char_of (0xE0 + p) # char_of (0x80 + q) # char_of (0x80 + r) # s) =
      (p * 4096 + q * 64 + r) # utf8_chars s" if "p < 16" "q < 64" "r < 64" for p q r
    using that by (simp add: byte_char_of)
  have four_bytes: "utf8_chars (char_of (0xF0 + m) # char_of (0x80 + p) # char_of (0x80 + q) # char_of (0x80 + r) # s) =
      (m * 262144 + p * 4096 + q * 64 + r) # utf8_chars s" if "m < 5" "p < 64" "q < 64" "r < 64" for m p q r
    using that by (simp add: byte_char_of)
  have mods: "n mod 64 < 64" for n :: nat by simp
  consider "c < 0x80" | "0x80 \<le> c" "c < 0x800" | "0x800 \<le> c" "c < 0x10000" | "0x10000 \<le> c" by linarith
  then show ?thesis
  proof cases
    case 1
    then show ?thesis by (simp add: encode_utf8_def byte_char_of)
  next
    case 2
    then have "c div 64 < 32" by simp
    from two_bytes [OF this mods, of c] show ?thesis using 2 unfolding two by (simp add: encode_utf8_def)
  next
    case 3
    then have "c div 4096 < 16" by simp
    from three_bytes [OF this mods mods, of "c div 64" c] show ?thesis
      using 3 unfolding three by (simp add: encode_utf8_def)
  next
    case 4
    have "c div 262144 < 5" using c by simp
    from four_bytes [OF this mods mods mods, of "c div 4096" "c div 64" c] show ?thesis
      using 4 unfolding four by (simp add: encode_utf8_def)
  qed
qed

lemma utf8_ascii: "\<forall>c \<in> set s. byte c < 0x80 \<Longrightarrow> utf8_chars s = map byte s"
  by (induction s) auto

end
