(* ===== verification/Agents.thy ===== *)
theory Agents
  imports Rust_Str
begin

text \<open>
  The coding agents the program knows (\<open>detect/mod.rs\<close>): their labels and executables, the
  lookup of an agent from a label, a process name or a path, and the tables that say which
  hook integrations carry full lifecycle authority and which only report a session identity.
\<close>

section \<open>Agents and states\<close>

datatype agent_state = Idle | Working | Blocked | Unknown

record agent_detection =
  ad_state :: agent_state
  ad_skip_state_update :: bool
  ad_visible_idle :: bool
  ad_visible_blocker :: bool
  ad_visible_working :: bool

datatype agent =
    Pi | Claude | Codex | Gemini | Cursor | Devin | Antigravity | Cline | Omp | Mastracode
  | OpenCode | GithubCopilot | Kimi | Kiro | Droid | Amp | Grok | Hermes | Kilo | Qodercli
  | Qwen | Maki | Muse

definition agent_ALL :: "agent list" where
  "agent_ALL = [Pi, Claude, Codex, Gemini, Cursor, Devin, Antigravity, Cline, Omp, Mastracode,
     OpenCode, GithubCopilot, Kimi, Kiro, Droid, Amp, Grok, Hermes, Kilo, Qodercli, Qwen, Maki, Muse]"

definition SCREEN_MANIFEST_AGENTS :: "agent list" where
  "SCREEN_MANIFEST_AGENTS = [Pi, Claude, Codex, Gemini, Cursor, Devin, Antigravity, Cline,
     OpenCode, GithubCopilot, Kimi, Kiro, Droid, Amp, Grok, Hermes, Kilo, Qodercli, Qwen, Maki, Muse]"

fun agent_label :: "agent \<Rightarrow> string" where
  "agent_label Pi = ''pi''"
| "agent_label Claude = ''claude''"
| "agent_label Codex = ''codex''"
| "agent_label Gemini = ''gemini''"
| "agent_label Cursor = ''cursor''"
| "agent_label Devin = ''devin''"
| "agent_label Antigravity = ''agy''"
| "agent_label Cline = ''cline''"
| "agent_label Omp = ''omp''"
| "agent_label Mastracode = ''mastracode''"
| "agent_label OpenCode = ''opencode''"
| "agent_label GithubCopilot = ''copilot''"
| "agent_label Kimi = ''kimi''"
| "agent_label Kiro = ''kiro''"
| "agent_label Droid = ''droid''"
| "agent_label Amp = ''amp''"
| "agent_label Grok = ''grok''"
| "agent_label Hermes = ''hermes''"
| "agent_label Kilo = ''kilo''"
| "agent_label Qodercli = ''qodercli''"
| "agent_label Qwen = ''qwen''"
| "agent_label Maki = ''maki''"
| "agent_label Muse = ''muse''"

text \<open>\<open>windows\<close> is the build's \<open>cfg!(windows)\<close>.\<close>

fun interactive_agent_executable :: "bool \<Rightarrow> agent \<Rightarrow> string" where
  "interactive_agent_executable windows Cursor =
     (if windows then ''cursor-agent.cmd'' else ''cursor-agent'')"
| "interactive_agent_executable windows Kiro = ''kiro-cli''"
| "interactive_agent_executable windows a = agent_label a"

section \<open>Lookup\<close>

definition is_path_sep :: "char \<Rightarrow> bool" where
  "is_path_sep c \<longleftrightarrow> c = CHR ''/'' \<or> c = CHR 0x5C"

definition path_basename :: "string \<Rightarrow> string" where
  "path_basename path =
     (case filter (\<lambda>w. w \<noteq> []) (split_on is_path_sep path) of [] \<Rightarrow> path | ws \<Rightarrow> last ws)"

text \<open>The arms of the \<open>match\<close> in \<open>lookup_agent\<close>, in order.\<close>

definition agent_names :: "(string \<times> agent) list" where
  "agent_names =
     [(''pi'', Pi), (''claude'', Claude), (''claude-code'', Claude), (''codex'', Codex),
      (''gemini'', Gemini), (''cursor'', Cursor), (''cursor-agent'', Cursor),
      (''devin'', Devin), (''devin-cli'', Devin), (''devin cli'', Devin),
      (''agy'', Antigravity), (''antigravity'', Antigravity), (''antigravity-cli'', Antigravity),
      (''cline'', Cline), (''omp'', Omp),
      (''mastracode'', Mastracode), (''mastra-code'', Mastracode), (''mastra code'', Mastracode),
      (''opencode'', OpenCode), (''opencode2'', OpenCode), (''open-code'', OpenCode),
      (''copilot'', GithubCopilot), (''github-copilot'', GithubCopilot), (''ghcs'', GithubCopilot),
      (''kimi'', Kimi), (''kimi-code'', Kimi), (''kimi code'', Kimi),
      (''kiro'', Kiro), (''kiro-cli'', Kiro), (''droid'', Droid),
      (''amp'', Amp), (''amp-local'', Amp), (''grok'', Grok), (''grok-build'', Grok),
      (''hermes'', Hermes), (''hermes-agent'', Hermes),
      (''kilo'', Kilo), (''kilo-code'', Kilo), (''kilo code'', Kilo),
      (''qodercli'', Qodercli), (''qoderclicn'', Qodercli), (''qoder'', Qodercli), (''qodercn'', Qodercli),
      (''qwen'', Qwen), (''qwen-code'', Qwen), (''qwen code'', Qwen),
      (''maki'', Maki), (''muse'', Muse), (''muse-code'', Muse), (''muse-cli'', Muse)]"

definition is_muse_versioned_binary :: "string \<Rightarrow> bool" where
  "is_muse_versioned_binary name =
     is_some_and (strip_prefix (path_basename name) ''muse-bin-'')
       (\<lambda>rest. case rest of [] \<Rightarrow> False | c # _ \<Rightarrow> is_ascii_digit c)"

definition lookup_agent :: "string \<Rightarrow> agent option" where
  "lookup_agent name =
     (let name = path_basename name
      in case map_of agent_names name of
           Some a \<Rightarrow> Some a
         | None \<Rightarrow> if is_muse_versioned_binary name then Some Muse else None)"

definition parse_canonical_agent_label :: "string \<Rightarrow> agent option" where
  "parse_canonical_agent_label label =
     (case lookup_agent label of None \<Rightarrow> None
      | Some a \<Rightarrow> then_some (agent_label a = label) a)"

text \<open>At most one of the known suffixes is removed.\<close>

fun strip_first_suffix :: "string list \<Rightarrow> string \<Rightarrow> string" where
  "strip_first_suffix [] name = name"
| "strip_first_suffix (sfx # sfxs) name =
     (if ends_with name sfx then take (length name - length sfx) name
      else strip_first_suffix sfxs name)"

definition normalized_agent_lookup_name :: "string \<Rightarrow> string" where
  "normalized_agent_lookup_name name =
     strip_first_suffix [''.exe'', ''.cmd'', ''.bat'', ''.ps1'', ''.js''] (to_lowercase (trim name))"

definition parse_agent_label :: "string \<Rightarrow> agent option" where
  "parse_agent_label s =
     (let name = normalized_agent_lookup_name s
      in or_else (parse_canonical_agent_label name) (lookup_agent name))"

definition identify_agent :: "string \<Rightarrow> agent option" where
  "identify_agent process_name = parse_agent_label process_name"

section \<open>Hook integrations\<close>

definition full_lifecycle_hook_authority :: "string \<Rightarrow> string \<Rightarrow> bool" where
  "full_lifecycle_hook_authority source label \<longleftrightarrow>
     (source, label) \<in> set [(''osade:pi'', ''pi''), (''osade:omp'', ''omp''),
       (''osade:mastracode'', ''mastracode''), (''osade:opencode'', ''opencode''),
       (''osade:kilo'', ''kilo''), (''osade:kimi'', ''kimi'')]"

definition session_identity_only_integration :: "string \<Rightarrow> string \<Rightarrow> bool" where
  "session_identity_only_integration source label \<longleftrightarrow>
     (source, label) \<in> set [(''osade:hermes'', ''hermes''), (''osade:qwen'', ''qwen''),
       (''osade:antigravity_cli'', ''agy'')]"

section \<open>Facts\<close>

lemma agent_ALL_complete: "a \<in> set agent_ALL"
  by (cases a) (simp_all add: agent_ALL_def)

lemma agent_labels_distinct: "distinct (map agent_label agent_ALL)"
  by (simp add: agent_ALL_def)

lemma agent_label_inj: "agent_label a = agent_label b \<Longrightarrow> a = b"
  using agent_labels_distinct agent_ALL_complete by (auto simp: distinct_map inj_on_def)

lemma plain_agent_label [simp]: "plain (agent_label a)"
  by (cases a) (simp_all add: plain_def byte_def)

lemma normalized_plain: "plain s \<Longrightarrow> normalized_agent_lookup_name s = s"
  by (simp add: normalized_agent_lookup_name_def ends_with_not_plain plain_def byte_def)

lemma path_basename_plain: "plain s \<Longrightarrow> path_basename s = s"
proof -
  assume s: "plain s"
  have "\<not> is_path_sep c" if "c \<in> set s" for c
    using s that by (auto simp: plain_def list_all_iff is_path_sep_def byte_def)
  then show ?thesis by (simp add: path_basename_def split_on_none)
qed

lemma agent_names_labels: "map_of agent_names (agent_label a) = Some a"
  by (cases a) (simp_all add: agent_names_def)

lemma lookup_agent_label [simp]: "lookup_agent (agent_label a) = Some a"
  by (simp add: lookup_agent_def path_basename_plain agent_names_labels)

lemma parse_canonical_iff: "parse_canonical_agent_label l = Some a \<longleftrightarrow> l = agent_label a"
  by (auto simp: parse_canonical_agent_label_def then_some_def split: option.splits if_splits)

lemma parse_agent_label_of_label [simp]: "parse_agent_label (agent_label a) = Some a"
  using parse_canonical_iff [of "agent_label a" a]
  by (simp add: parse_agent_label_def normalized_plain)

lemma full_lifecycle_parses:
  assumes "full_lifecycle_hook_authority source label"
  shows "\<exists>a. parse_agent_label label = Some a \<and> label = agent_label a"
proof -
  from assms have "label \<in> agent_label ` set [Pi, Omp, Mastracode, OpenCode, Kilo, Kimi]"
    by (auto simp: full_lifecycle_hook_authority_def)
  then obtain a where "label = agent_label a" by blast
  then show ?thesis by simp
qed

lemma full_lifecycle_not_identity_only:
  "full_lifecycle_hook_authority source label \<Longrightarrow> \<not> session_identity_only_integration source label"
  by (auto simp: full_lifecycle_hook_authority_def session_identity_only_integration_def)

end
