(* ===== verification/Agent_Sessions.thy ===== *)
theory Agent_Sessions
  imports Agents
begin

text \<open>
  Resumable agent sessions (\<open>agent_resume.rs\<close>): references to an agent's own session by
  identifier or by path, their validation, the table of official integrations, and the command
  line that resumes a session. The build modelled is the one for Unix (\<open>windows = False\<close> in
  the witnesses): an absolute path starts with a slash.
\<close>

datatype session_ref_kind = RefId | RefPath

record session_ref =
  sr_kind :: session_ref_kind
  sr_value :: string

record resume_plan =
  rp_agent :: string
  rp_argv :: "string list"
  rp_dedupe_key :: string

record persisted_session =
  ps_source :: string
  ps_agent :: string
  ps_session_ref :: session_ref

definition MAX_SESSION_ID_LEN :: nat where
  "MAX_SESSION_ID_LEN = 512"

definition MAX_SESSION_PATH_LEN :: nat where
  "MAX_SESSION_PATH_LEN = 4096"

definition valid_session_id :: "string \<Rightarrow> bool" where
  "valid_session_id v \<longleftrightarrow> v \<noteq> [] \<and> length v \<le> MAX_SESSION_ID_LEN \<and> \<not> has_control v"

definition path_is_absolute :: "string \<Rightarrow> bool" where
  "path_is_absolute v \<longleftrightarrow> starts_with v ''/''"

definition valid_session_path :: "string \<Rightarrow> bool" where
  "valid_session_path v \<longleftrightarrow>
     v \<noteq> [] \<and> length v \<le> MAX_SESSION_PATH_LEN \<and> \<not> has_control v \<and> path_is_absolute v"

definition session_ref_id :: "string \<Rightarrow> session_ref option" where
  "session_ref_id v = then_some (valid_session_id v) \<lparr>sr_kind = RefId, sr_value = v\<rparr>"

definition session_ref_path :: "string \<Rightarrow> session_ref option" where
  "session_ref_path v = then_some (valid_session_path v) \<lparr>sr_kind = RefPath, sr_value = v\<rparr>"

definition official_agent_sources :: "(string \<times> string) list" where
  "official_agent_sources =
     [(''osade:claude'', ''claude''), (''osade:codex'', ''codex''), (''osade:copilot'', ''copilot''),
      (''osade:devin'', ''devin''), (''osade:droid'', ''droid''), (''osade:kimi'', ''kimi''),
      (''osade:omp'', ''omp''), (''osade:mastracode'', ''mastracode''), (''osade:pi'', ''pi''),
      (''osade:hermes'', ''hermes''), (''osade:opencode'', ''opencode''),
      (''osade:qodercli'', ''qodercli''), (''osade:qwen'', ''qwen''), (''osade:kilo'', ''kilo''),
      (''osade:cursor'', ''cursor''), (''osade:antigravity_cli'', ''agy''), (''osade:grok'', ''grok'')]"

definition is_official_agent_source :: "string \<Rightarrow> string \<Rightarrow> bool" where
  "is_official_agent_source source agent \<longleftrightarrow> (source, agent) \<in> set official_agent_sources"

definition is_reserved_native_state_source :: "string \<Rightarrow> string \<Rightarrow> bool" where
  "is_reserved_native_state_source source agent \<longleftrightarrow>
     (source, agent) \<in> set
       [(''osade:claude'', ''claude''), (''osade:codex'', ''codex''), (''osade:copilot'', ''copilot''),
        (''osade:devin'', ''devin''), (''osade:droid'', ''droid''), (''osade:qodercli'', ''qodercli''),
        (''osade:qwen'', ''qwen''), (''osade:cursor'', ''cursor''), (''osade:grok'', ''grok'')]"

definition session_ref_from_report ::
  "string \<Rightarrow> string \<Rightarrow> string option \<Rightarrow> string option \<Rightarrow> session_ref option" where
  "session_ref_from_report source agent agent_session_id agent_session_path =
     (if \<not> is_official_agent_source source agent then None
      else if agent = ''pi'' \<or> agent = ''omp''
      then or_else (Option.bind agent_session_path session_ref_path)
             (Option.bind agent_session_id session_ref_id)
      else Option.bind agent_session_id session_ref_id)"

definition normalize_session_start_source :: "string option \<Rightarrow> string option" where
  "normalize_session_start_source v =
     (case map_option trim v of
        Some s \<Rightarrow> then_some (s \<in> set [''startup'', ''resume'', ''clear'', ''compact'', ''branch'',
                     ''new'', ''fork'', ''select'']) s
      | None \<Rightarrow> None)"

definition session_ref_from_snapshot ::
  "string \<Rightarrow> string \<Rightarrow> session_ref_kind \<Rightarrow> string \<Rightarrow> persisted_session option" where
  "session_ref_from_snapshot source agent kind v =
     (if \<not> is_official_agent_source source agent then None
      else map_option (\<lambda>r. \<lparr>ps_source = source, ps_agent = agent, ps_session_ref = r\<rparr>)
             (case kind of
                RefPath \<Rightarrow> if agent = ''pi'' \<or> agent = ''omp'' then session_ref_path v else None
              | RefId \<Rightarrow> session_ref_id v))"

text \<open>The separator of the key is the byte 0; kinds are printed by their names.\<close>

fun kind_debug :: "session_ref_kind \<Rightarrow> string" where
  "kind_debug RefId = ''Id''"
| "kind_debug RefPath = ''Path''"

definition dedupe_key :: "string \<Rightarrow> string \<Rightarrow> session_ref \<Rightarrow> string" where
  "dedupe_key source agent r =
     source @ [CHR 0x00] @ agent @ [CHR 0x00] @ kind_debug (sr_kind r) @ [CHR 0x00] @ sr_value r"

text \<open>The command line that resumes a session: the arms of the \<open>match\<close> in \<open>plan\<close>, in order.\<close>

definition resume_argv :: "bool \<Rightarrow> string \<Rightarrow> string \<Rightarrow> session_ref \<Rightarrow> string list option" where
  "resume_argv windows source agent r =
     (let v = sr_value r; by_id = (sr_kind r = RefId); key = (source, agent)
      in if key = (''osade:claude'', ''claude'') \<and> by_id then Some [''claude'', ''--resume'', v]
      else if key = (''osade:codex'', ''codex'') \<and> by_id then Some [''codex'', ''resume'', v]
      else if key = (''osade:copilot'', ''copilot'') \<and> by_id then Some [''copilot'', ''--resume='' @ v]
      else if key = (''osade:devin'', ''devin'') \<and> by_id then Some [''devin'', ''--resume'', v]
      else if key = (''osade:droid'', ''droid'') \<and> by_id then Some [''droid'', ''--resume'', v]
      else if key = (''osade:kimi'', ''kimi'') \<and> by_id then Some [''kimi'', ''--session'', v]
      else if key = (''osade:mastracode'', ''mastracode'') \<and> by_id then Some [''mastracode'', ''--thread'', v]
      else if key = (''osade:pi'', ''pi'') then Some [''pi'', ''--session'', v]
      else if key = (''osade:omp'', ''omp'') then Some [''omp'', ''--resume='' @ v]
      else if key = (''osade:hermes'', ''hermes'') \<and> by_id then Some [''hermes'', ''--resume'', v]
      else if key = (''osade:opencode'', ''opencode'') \<and> by_id then Some [''opencode'', ''--session'', v]
      else if key = (''osade:qodercli'', ''qodercli'') \<and> by_id then Some [''qodercli'', ''--resume'', v]
      else if key = (''osade:qwen'', ''qwen'') \<and> by_id then Some [''qwen'', ''--resume'', v]
      else if key = (''osade:kilo'', ''kilo'') \<and> by_id then Some [''kilo'', ''--session'', v]
      else if key = (''osade:cursor'', ''cursor'') \<and> by_id
      then Some [if windows then ''cursor-agent.cmd'' else ''cursor-agent'', ''--resume'', v]
      else if key = (''osade:antigravity_cli'', ''agy'') \<and> by_id then Some [''agy'', ''--conversation'', v]
      else if key = (''osade:grok'', ''grok'') \<and> by_id then Some [''grok'', ''--resume'', v]
      else None)"

definition plan :: "bool \<Rightarrow> string \<Rightarrow> string \<Rightarrow> session_ref \<Rightarrow> resume_plan option" where
  "plan windows source agent r =
     (if \<not> is_official_agent_source source agent then None
      else map_option (\<lambda>argv. \<lparr>rp_agent = agent, rp_argv = argv, rp_dedupe_key = dedupe_key source agent r\<rparr>)
             (resume_argv windows source agent r))"

section \<open>Facts\<close>

lemma official_no_nul:
  "is_official_agent_source source agent \<Longrightarrow> CHR 0x00 \<notin> set source \<and> CHR 0x00 \<notin> set agent"
  by (auto simp: is_official_agent_source_def official_agent_sources_def)

lemma append_sep_inj:
  "c \<notin> set xs \<Longrightarrow> c \<notin> set ys \<Longrightarrow> xs @ c # us = ys @ c # vs \<longleftrightarrow> xs = ys \<and> us = vs"
  by (auto simp: append_eq_append_conv2 Cons_eq_append_conv append_eq_Cons_conv)

lemma kind_debug_no_nul: "CHR 0x00 \<notin> set (kind_debug k)"
  by (cases k) auto

lemma kind_debug_inj: "kind_debug j = kind_debug k \<Longrightarrow> j = k"
  by (cases j; cases k) auto

lemma dedupe_key_inj:
  assumes "is_official_agent_source s a" and "is_official_agent_source s' a'"
    and "dedupe_key s a r = dedupe_key s' a' r'"
  shows "s = s' \<and> a = a' \<and> r = r'"
  using official_no_nul [OF assms(1)] official_no_nul [OF assms(2)] assms(3) kind_debug_no_nul
  by (auto simp: dedupe_key_def append_sep_inj intro: session_ref.equality dest!: kind_debug_inj)

lemma resume_argv_by_id:
  "is_official_agent_source s a \<Longrightarrow> sr_kind r = RefId \<Longrightarrow> \<exists>argv. resume_argv w s a r = Some argv"
  by (auto simp: is_official_agent_source_def official_agent_sources_def resume_argv_def)

lemma official_plan_by_id:
  "is_official_agent_source s a \<Longrightarrow> sr_kind r = RefId \<Longrightarrow> plan w s a r \<noteq> None"
  using resume_argv_by_id [of s a r w] by (auto simp: plan_def)

lemma official_plan_by_path:
  "agent = ''pi'' \<or> agent = ''omp'' \<Longrightarrow> is_official_agent_source s agent \<Longrightarrow> plan w s agent r \<noteq> None"
  by (auto simp: plan_def is_official_agent_source_def official_agent_sources_def resume_argv_def)

lemma resume_argv_last:
  assumes "is_official_agent_source s a" and "resume_argv w s a r = Some argv"
  shows "ends_with (last argv) (sr_value r)"
proof -
  have omp: "ends_with (''--resume='' @ sr_value r) (sr_value r)" by (rule ends_with_append)
  from assms omp show ?thesis
    by (auto simp: is_official_agent_source_def official_agent_sources_def resume_argv_def
        Let_def split: if_splits)
qed

lemma snapshot_cases:
  assumes "session_ref_from_snapshot source agent kind v = Some ps"
  shows "is_official_agent_source source agent \<and> \<not> has_control v \<and>
    (kind = RefId \<or> agent = ''pi'' \<or> agent = ''omp'') \<and>
    ps = \<lparr>ps_source = source, ps_agent = agent, ps_session_ref = \<lparr>sr_kind = kind, sr_value = v\<rparr>\<rparr>"
  using assms
  by (auto simp: session_ref_from_snapshot_def session_ref_id_def session_ref_path_def
      valid_session_id_def valid_session_path_def then_some_def
      split: session_ref_kind.splits if_splits)

section \<open>Properties\<close>

text \<open>
  labels and lookup agree. Every agent is found again from its label, labels of different
  agents differ, and the canonical parse accepts exactly the labels.
\<close>

lemma agent_labels_roundtrip:
  "parse_agent_label (agent_label a) = Some a \<and>
   (agent_label a = agent_label b \<longleftrightarrow> a = b) \<and>
   (parse_canonical_agent_label l = Some a \<longleftrightarrow> l = agent_label a)"
  using agent_label_inj by (auto simp: parse_canonical_iff)

text \<open>
  a session taken from a saved snapshot always has a resume plan, for the same agent; its
  command line ends in an argument that carries the validated session value.
\<close>

lemma snapshot_session_resumable:
  assumes "session_ref_from_snapshot source agent kind v = Some ps"
  shows "\<exists>p. plan w (ps_source ps) (ps_agent ps) (ps_session_ref ps) = Some p \<and>
    rp_agent p = agent \<and> ends_with (last (rp_argv p)) v \<and> \<not> has_control v \<and>
    ps = \<lparr>ps_source = source, ps_agent = agent, ps_session_ref = \<lparr>sr_kind = kind, sr_value = v\<rparr>\<rparr>"
proof -
  note ps = snapshot_cases [OF assms]
  define r where "r = \<lparr>sr_kind = kind, sr_value = v\<rparr>"
  from ps have "plan w source agent r \<noteq> None"
    using official_plan_by_id [of source agent r w] official_plan_by_path [of agent source w r]
    by (auto simp: r_def)
  then obtain p where p: "plan w source agent r = Some p" by blast
  with ps have "resume_argv w source agent r = Some (rp_argv p)" and "rp_agent p = agent"
    by (auto simp: plan_def)
  with ps p resume_argv_last [of source agent w r] show ?thesis by (simp add: r_def)
qed

lemma snapshot_session_resumable_witness:
  "\<exists>p. plan False ''osade:omp'' ''omp'' \<lparr>sr_kind = RefPath, sr_value = ''/s''\<rparr> = Some p \<and> rp_agent p = ''omp''"
proof -
  have "session_ref_from_snapshot ''osade:omp'' ''omp'' RefPath ''/s'' =
    Some \<lparr>ps_source = ''osade:omp'', ps_agent = ''omp'', ps_session_ref = \<lparr>sr_kind = RefPath, sr_value = ''/s''\<rparr>\<rparr>"
    by code_simp
  from snapshot_session_resumable [OF this, of False] show ?thesis by auto
qed

text \<open>
  two sessions with resume plans have the same deduplication key only if they are the same
  session of the same integration.
\<close>

lemma dedupe_key_identifies_session:
  assumes "plan w s a r = Some p" and "plan w s' a' r' = Some p'"
    and "rp_dedupe_key p = rp_dedupe_key p'"
  shows "s = s' \<and> a = a' \<and> r = r' \<and> p = p'"
proof -
  from assms have "dedupe_key s a r = dedupe_key s' a' r'"
    and off: "is_official_agent_source s a" "is_official_agent_source s' a'"
    by (auto simp: plan_def split: if_splits)
  with dedupe_key_inj [OF off, of r r'] have "s = s' \<and> a = a' \<and> r = r'" by simp
  with assms(1,2) show ?thesis by simp
qed

lemma dedupe_key_identifies_session_witness:
  "\<exists>p. plan False ''osade:pi'' ''pi'' \<lparr>sr_kind = RefId, sr_value = ''a''\<rparr> = Some p \<and>
     p = the (plan False ''osade:pi'' ''pi'' \<lparr>sr_kind = RefId, sr_value = ''a''\<rparr>)"
proof -
  have p: "plan False ''osade:pi'' ''pi'' \<lparr>sr_kind = RefId, sr_value = ''a''\<rparr> =
      Some \<lparr>rp_agent = ''pi'', rp_argv = [''pi'', ''--session'', ''a''],
        rp_dedupe_key = dedupe_key ''osade:pi'' ''pi'' \<lparr>sr_kind = RefId, sr_value = ''a''\<rparr>\<rparr>"
    by (simp add: plan_def is_official_agent_source_def official_agent_sources_def resume_argv_def)
  from dedupe_key_identifies_session [OF p p refl] p show ?thesis by simp
qed

end
