(* ===== verification/Metadata_Tokens.thy ===== *)
theory Metadata_Tokens
  imports Osade_Base
begin

text \<open>
  Metadata tokens (\<open>metadata_tokens.rs\<close>): key/value pairs with an optional expiry, patched and
  expired by the server, and the per-source sequence numbers that order the reports.
\<close>

record metadata_token =
  mt_value :: string
  mt_expires_at :: "instant option"

type_synonym metadata_tokens = "(string, metadata_token) hashmap"

type_synonym sequences = "(string, u64) hashmap"

definition MAX_SEQUENCE_SOURCES :: nat where
  "MAX_SEQUENCE_SOURCES = 32"

definition sequence_is_fresh :: "sequences \<Rightarrow> string \<Rightarrow> u64 option \<Rightarrow> bool" where
  "sequence_is_fresh sequences source seq =
     is_none_or seq (\<lambda>n. is_none_or (hm_get sequences source) (\<lambda>last. last < n))"

text \<open>\<open>Result<bool, ()>\<close>: \<open>Inl ()\<close> is the error that the table of sources is full.\<close>

definition accept_sequence ::
  "sequences \<Rightarrow> string \<Rightarrow> u64 option \<Rightarrow> sequences \<times> (unit + bool)" where
  "accept_sequence sequences source seq =
     (case seq of
        None \<Rightarrow> (sequences, Inr True)
      | Some n \<Rightarrow>
          if \<not> sequence_is_fresh sequences source (Some n) then (sequences, Inr False)
          else if \<not> hm_contains sequences source \<and> MAX_SEQUENCE_SOURCES \<le> length sequences
          then (sequences, Inl ())
          else (hm_insert source n sequences, Inr True))"

text \<open>One entry of the patch: \<open>None\<close> removes the key.\<close>

fun tokens_patch_entry ::
  "instant option \<Rightarrow> string \<times> string option \<Rightarrow> metadata_tokens \<times> bool \<Rightarrow> metadata_tokens \<times> bool" where
  "tokens_patch_entry expires_at (key, Some v) (entries, changed) =
     (let token = \<lparr>mt_value = v, mt_expires_at = expires_at\<rparr>
      in if hm_get entries key \<noteq> Some token then (hm_insert key token entries, True)
         else (entries, changed))"
| "tokens_patch_entry expires_at (key, None) (entries, changed) =
     (hm_remove key entries, changed \<or> hm_contains entries key)"

definition tokens_patch ::
  "metadata_tokens \<Rightarrow> (string, string option) hashmap \<Rightarrow> duration option \<Rightarrow> instant \<Rightarrow>
    metadata_tokens \<times> bool" where
  "tokens_patch entries patch ttl now =
     (let expires_at = Option.bind ttl (checked_add now)
      in fold (tokens_patch_entry expires_at) patch (entries, False))"

definition tokens_values :: "metadata_tokens \<Rightarrow> (string, string) hashmap" where
  "tokens_values entries = hm_map_values (\<lambda>_ t. mt_value t) entries"

text \<open>A \<open>HashSet\<close> of keys is a list without repetitions.\<close>

definition key_count_after_patch :: "metadata_tokens \<Rightarrow> (string, string option) hashmap \<Rightarrow> nat" where
  "key_count_after_patch entries patch =
     length (fold (\<lambda>(key, v) keys. if v \<noteq> None then List.insert key keys else removeAll key keys)
       patch (hm_keys (tokens_values entries)))"

definition option_min :: "instant list \<Rightarrow> instant option" where
  "option_min xs = min_by_key id xs"

definition tokens_next_expiry :: "metadata_tokens \<Rightarrow> instant option" where
  "tokens_next_expiry entries = option_min (List.map_filter mt_expires_at (hm_values entries))"

definition tokens_expire_at :: "metadata_tokens \<Rightarrow> instant \<Rightarrow> metadata_tokens \<times> bool" where
  "tokens_expire_at entries now =
     (let entries' = hm_retain (\<lambda>_ t. is_none_or (mt_expires_at t) (\<lambda>deadline. now < deadline)) entries
      in (entries', length entries' \<noteq> length entries))"

section \<open>The sequence gate\<close>

definition take_sequence :: "sequences \<Rightarrow> string \<Rightarrow> u64 \<Rightarrow> sequences \<times> bool" where
  "take_sequence s src n =
     (let (s', r) = accept_sequence s src (Some n) in (s', r = Inr True))"

interpretation token_gate: sequence_gate hm_get take_sequence
  by unfold_locales
    (auto simp: take_sequence_def accept_sequence_def sequence_is_fresh_def split: if_splits)

lemma accept_sequence_bounded:
  "length s \<le> MAX_SEQUENCE_SOURCES \<Longrightarrow>
     length (fst (accept_sequence s src seq)) \<le> MAX_SEQUENCE_SOURCES"
  by (auto simp: accept_sequence_def length_insert split: option.split)

section \<open>Patching and expiry\<close>

definition patch_keys :: "string list \<Rightarrow> (string, string option) hashmap \<Rightarrow> string list" where
  "patch_keys keys patch =
     fold (\<lambda>(key, v) keys. if v \<noteq> None then List.insert key keys else removeAll key keys) patch keys"

lemma patch_keys_Nil [simp]: "patch_keys keys [] = keys"
  by (simp add: patch_keys_def)

lemma patch_keys_Cons [simp]:
  "patch_keys keys ((k, v) # patch) =
     patch_keys (if v \<noteq> None then List.insert k keys else removeAll k keys) patch"
  by (simp add: patch_keys_def)

lemma distinct_patch_keys: "distinct keys \<Longrightarrow> distinct (patch_keys keys patch)"
  by (induction patch arbitrary: keys) (auto simp: distinct_removeAll split: if_splits)

lemma patch_entry_keys:
  "set (hm_keys (fst (tokens_patch_entry ex (k, v) (es, c)))) =
     set (if v \<noteq> None then List.insert k (hm_keys es) else removeAll k (hm_keys es))"
  by (cases v) (auto simp: Let_def hm_contains_iff [symmetric] hm_contains_def)

lemma patch_entry_wf: "hm_wf es \<Longrightarrow> hm_wf (fst (tokens_patch_entry ex e (es, c)))"
  by (cases e; cases "snd e") (auto simp: Let_def)

lemma tokens_patch_fold:
  assumes "hm_wf es" and "set (hm_keys es) = set keys"
  shows "hm_wf (fst (fold (tokens_patch_entry ex) patch (es, c))) \<and>
    set (hm_keys (fst (fold (tokens_patch_entry ex) patch (es, c)))) = set (patch_keys keys patch)"
  using assms
proof (induction patch arbitrary: es c keys)
  case Nil
  then show ?case by simp
next
  case (Cons e patch)
  obtain k v where e: "e = (k, v)" by (cases e)
  obtain es' c' where st: "tokens_patch_entry ex e (es, c) = (es', c')" by fastforce
  have "hm_wf es'" using patch_entry_wf [OF Cons.prems(1), of ex e c] st by simp
  moreover have "set (hm_keys es') =
      set (if v \<noteq> None then List.insert k keys else removeAll k keys)"
    using patch_entry_keys [of ex k v es c] st e Cons.prems(2) by (auto split: if_splits)
  ultimately show ?case using Cons.IH [of es' _ c'] e st by simp
qed

lemma wf_length_keys: "hm_wf es \<Longrightarrow> length es = card (set (hm_keys es))"
  by (metis distinct_card hm_keys_def hm_wf_def length_map)

section \<open>Properties\<close>

text \<open>
  The reports one source gets through the sequence gate have strictly increasing numbers,
  whatever is sent by it and by other sources in between: no report is applied twice or out of
  order.
\<close>

lemma token_sequences_increase:
  "sorted_wrt (<) (token_gate.taken_of src (token_gate.run sequences reports))"
  by (rule token_gate.run_increasing)

text \<open>
  The key count the server checks before a patch is the number of tokens the patch leaves.
\<close>

lemma key_count_predicts_patch:
  assumes "hm_wf tokens"
  shows "key_count_after_patch tokens patch = length (fst (tokens_patch tokens patch ttl now))"
proof -
  have keys: "hm_keys (tokens_values tokens) = hm_keys tokens" by (simp add: tokens_values_def)
  have "distinct (hm_keys tokens)" using assms by (simp add: hm_wf_def)
  then have "distinct (patch_keys (hm_keys tokens) patch)" by (rule distinct_patch_keys)
  moreover have "key_count_after_patch tokens patch = length (patch_keys (hm_keys tokens) patch)"
    by (simp only: key_count_after_patch_def patch_keys_def keys)
  ultimately show ?thesis
    using tokens_patch_fold [OF assms refl, of "Option.bind ttl (checked_add now)" patch False]
    by (simp add: tokens_patch_def wf_length_keys distinct_card)
qed

lemma key_count_predicts_patch_witness:
  "key_count_after_patch [(''a'', \<lparr>mt_value = ''1'', mt_expires_at = None\<rparr>)]
     [(''a'', None), (''b'', Some ''2''), (''c'', Some ''3'')] = 2"
  using key_count_predicts_patch [of "[(''a'', \<lparr>mt_value = ''1'', mt_expires_at = None\<rparr>)]"
      "[(''a'', None), (''b'', Some ''2''), (''c'', Some ''3'')]" None 0]
  by (simp add: hm_wf_def hm_keys_def hm_get_def tokens_patch_def hm_insert_def hm_remove_def Let_def)

text \<open>
  expiry removes exactly the tokens whose deadline has passed: afterwards every live token
  still has its value, no remaining deadline is due, and the next expiry lies in the future.
\<close>

lemma tokens_expire_exactly:
  assumes "hm_wf tokens"
  shows "hm_get (fst (tokens_expire_at tokens now)) k =
      opt_filter (\<lambda>t. is_none_or (mt_expires_at t) (\<lambda>d. now < d)) (hm_get tokens k) \<and>
    is_none_or (tokens_next_expiry (fst (tokens_expire_at tokens now))) (\<lambda>d. now < d)"
proof
  show "hm_get (fst (tokens_expire_at tokens now)) k =
      opt_filter (\<lambda>t. is_none_or (mt_expires_at t) (\<lambda>d. now < d)) (hm_get tokens k)"
    by (simp add: tokens_expire_at_def Let_def hm_get_retain [OF assms])
  show "is_none_or (tokens_next_expiry (fst (tokens_expire_at tokens now))) (\<lambda>d. now < d)"
    by (auto simp: tokens_expire_at_def Let_def tokens_next_expiry_def option_min_def
        is_none_or_iff hm_retain_def hm_values_def List.map_filter_def
        dest!: min_by_key_SomeD)
qed

lemma tokens_expire_exactly_witness:
  "hm_get (fst (tokens_expire_at [(''a'', \<lparr>mt_value = ''1'', mt_expires_at = Some 5\<rparr>)] 5)) ''a'' = None"
  using tokens_expire_exactly [of "[(''a'', \<lparr>mt_value = ''1'', mt_expires_at = Some 5\<rparr>)]" 5 "''a''"]
  by (simp add: hm_wf_def hm_keys_def hm_get_def)

end
