(* ===== verification/Terminal_Types.thy ===== *)
theory Terminal_Types
  imports Agent_Sessions Metadata_Tokens
begin

text \<open>
  The data of a server-owned terminal (\<open>terminal/state.rs\<close>, \<open>terminal/metadata.rs\<close>,
  \<open>terminal/title.rs\<close>) and its small accessors. A \<open>HashSet\<close> is a list without repetitions.
\<close>

section \<open>Records\<close>

record hook_authority =
  ha_source :: string
  ha_agent_label :: string
  ha_state :: agent_state
  ha_message :: "string option"
  ha_reported_at :: instant
  ha_session_ref :: "session_ref option"

record pending_report =
  pr_authority :: hook_authority
  pr_seq :: u64

datatype suppression_reason = HookClear | ProcessExit

record suppressed_report =
  su_agent_label :: string
  su_session_ref :: "session_ref option"
  su_observed_at :: instant
  su_reason :: suppression_reason
  su_replacement_session_ref :: "session_ref option"
  su_pending_replacement_report :: "pending_report option"

text \<open>The argument of \<open>RouteAccept\<close> is \<open>reanchor_sequence\<close>.\<close>

datatype report_route = RouteAccept bool | RouteIgnore

record stale_session =
  ss_agent_label :: string
  ss_session_ref :: session_ref

text \<open>The arguments of \<open>PhasePending\<close>: \<open>ready_after\<close>, \<open>deadline\<close>, \<open>observed_expected\<close>.\<close>

datatype managed_phase = PhasePending "instant option" instant bool | PhaseBlocked | PhaseActive

record managed_agent =
  ma_kind :: agent
  ma_phase :: managed_phase

record agent_metadata =
  am_source :: string
  am_agent_label :: "string option"
  am_applies_to_source :: "string option"
  am_title :: "string option"
  am_display_agent :: "string option"
  am_state_labels :: "(string, string) hashmap"
  am_reported_at :: instant
  am_title_reported_at :: "instant option"
  am_display_agent_reported_at :: "instant option"
  am_state_label_reported_at :: "(string, instant) hashmap"
  am_ttl :: "duration option"
  am_expiry_event_pending :: bool

record agent_metadata_report =
  mr_source :: string
  mr_agent_label :: "string option"
  mr_applies_to_source :: "string option"
  mr_title :: "string option"
  mr_display_agent :: "string option"
  mr_state_labels :: "(string, string) hashmap"
  mr_clear_title :: bool
  mr_clear_display_agent :: bool
  mr_clear_state_labels :: bool
  mr_ttl :: "duration option"
  mr_seq :: "u64 option"

record effective_presentation =
  ep_title :: "string option"
  ep_display_agent :: "string option"
  ep_state_labels :: "(string, string) hashmap"

record effective_state_change =
  ec_previous_agent_label :: "string option"
  ec_previous_known_agent :: "agent option"
  ec_previous_state :: agent_state
  ec_previous_presentation :: effective_presentation
  ec_agent_label :: "string option"
  ec_known_agent :: "agent option"
  ec_state :: agent_state
  ec_presentation :: effective_presentation

record title_change =
  tc_raw_changed :: bool
  tc_stripped_changed :: bool

record state_mutation =
  sm_effective_state_change :: "effective_state_change option"
  sm_session_ref_changed :: bool
  sm_agent_released :: bool

record agent_name_owner =
  no_agent_label :: string
  no_session_ref :: "session_ref option"

record recent_process_exit =
  re_agent :: agent
  re_observed_at :: instant

record terminal_state =
  ts_id :: string
  ts_cwd :: string
  ts_detected_agent :: "agent option"
  ts_fallback_state :: agent_state
  ts_fallback_visible_blocker :: bool
  ts_fallback_observed_at :: "instant option"
  ts_hook_authority :: "hook_authority option"
  ts_agent_metadata :: "(string, agent_metadata) hashmap"
  ts_metadata_tokens :: metadata_tokens
  ts_persisted_agent_session :: "persisted_session option"
  ts_terminal_title :: "string option"
  ts_manual_label :: "string option"
  ts_agent_name :: "string option"
  ts_agent_name_owner :: "agent_name_owner option"
  ts_managed_agent :: "managed_agent option"
  ts_hook_report_sequences :: sequences
  ts_suppressed :: "(string, suppressed_report) hashmap"
  ts_stale_sessions :: "(string, stale_session list) hashmap"
  ts_metadata_report_sequences :: sequences
  ts_metadata_report_agents :: "(string, agent) hashmap"
  ts_metadata_token_sequence_sources :: "string list"
  ts_state :: agent_state
  ts_last_agent_state_change_seq :: "u64 option"
  ts_revision :: u64
  ts_launch_argv :: "string list option"
  ts_respawn_shell_on_exit :: bool
  ts_recent_agent_process_exit :: "recent_process_exit option"
  ts_agent_process_acquisition_pending :: bool
  ts_pending_agent_resume_plan :: "resume_plan option"

definition ts_new :: "string \<Rightarrow> string \<Rightarrow> terminal_state" where
  "ts_new i dir =
     \<lparr>ts_id = i, ts_cwd = dir, ts_detected_agent = None, ts_fallback_state = Unknown,
      ts_fallback_visible_blocker = False, ts_fallback_observed_at = None,
      ts_hook_authority = None, ts_agent_metadata = [], ts_metadata_tokens = [],
      ts_persisted_agent_session = None, ts_terminal_title = None, ts_manual_label = None,
      ts_agent_name = None, ts_agent_name_owner = None, ts_managed_agent = None,
      ts_hook_report_sequences = [], ts_suppressed = [], ts_stale_sessions = [],
      ts_metadata_report_sequences = [], ts_metadata_report_agents = [],
      ts_metadata_token_sequence_sources = [], ts_state = Unknown,
      ts_last_agent_state_change_seq = None, ts_revision = 0, ts_launch_argv = None,
      ts_respawn_shell_on_exit = False, ts_recent_agent_process_exit = None,
      ts_agent_process_acquisition_pending = False, ts_pending_agent_resume_plan = None\<rparr>"

section \<open>Titles and labels\<close>

text \<open>The number of bytes of the character a non-empty well-formed string starts with.\<close>

definition first_char_len :: "string \<Rightarrow> nat" where
  "first_char_len s =
     (case s of [] \<Rightarrow> 0
      | c # _ \<Rightarrow> if byte c < 0x80 then 1 else if byte c < 0xE0 then 2
                else if byte c < 0xF0 then 3 else 4)"

text \<open>The UTF-8 encodings of the characters of \<open>CLAUDE_ACTIVITY_GLYPHS\<close>.\<close>

definition CLAUDE_ACTIVITY_GLYPHS :: "nat list list" where
  "CLAUDE_ACTIVITY_GLYPHS =
     [[0xC2, 0xB7], [0xE2, 0x9C, 0xA2], [0xE2, 0x9C, 0xB3], [0xE2, 0x9C, 0xB6],
      [0xE2, 0x9C, 0xBB], [0xE2, 0x9C, 0xBD], [0xE2, 0x97, 0x90], [0xE2, 0x97, 0x93],
      [0xE2, 0x97, 0x91], [0xE2, 0x97, 0x92]]"

text \<open>A braille pattern (U+2800 to U+28FF) is \<open>E2 A0..A3 80..BF\<close>.\<close>

definition is_activity_glyph :: "nat list \<Rightarrow> bool" where
  "is_activity_glyph g \<longleftrightarrow>
     (case g of [a, b, c] \<Rightarrow> a = 0xE2 \<and> 0xA0 \<le> b \<and> b \<le> 0xA3 | _ \<Rightarrow> False) \<or>
     g \<in> set CLAUDE_ACTIVITY_GLYPHS"

text \<open>\<open>terminal_title_for_presentation\<close> is the identity outside Windows.\<close>

definition terminal_title_for_presentation :: "bool \<Rightarrow> string \<Rightarrow> string" where
  "terminal_title_for_presentation windows title =
     (if windows then unwrap_or (strip_prefix title ''Administrator: '') title else title)"

definition stripped_terminal_title :: "bool \<Rightarrow> string \<Rightarrow> string option" where
  "stripped_terminal_title windows title =
     (let title = trim (terminal_title_for_presentation windows title)
      in if title = [] then None
         else let n = first_char_len title;
                  after_first = drop n title;
                  recognized = is_activity_glyph (map byte (take n title));
                  stripped = (if recognized \<and> (after_first = [] \<or> ws_len after_first \<noteq> 0)
                              then trim after_first else title)
              in then_some (stripped \<noteq> []) stripped)"

definition terminal_title_stripped :: "bool \<Rightarrow> terminal_state \<Rightarrow> string option" where
  "terminal_title_stripped windows t =
     Option.bind (ts_terminal_title t) (stripped_terminal_title windows)"

definition set_terminal_title ::
  "bool \<Rightarrow> string option \<Rightarrow> terminal_state \<Rightarrow> terminal_state \<times> title_change" where
  "set_terminal_title windows title t =
     (if ts_terminal_title t = title
      then (t, \<lparr>tc_raw_changed = False, tc_stripped_changed = False\<rparr>)
      else let previous_stripped = terminal_title_stripped windows t;
               t1 = t\<lparr>ts_terminal_title := title\<rparr>;
               stripped_changed = (previous_stripped \<noteq> terminal_title_stripped windows t1);
               t2 = (if stripped_changed then t1\<lparr>ts_revision := ts_revision t1 + 1\<rparr> else t1)
           in (t2, \<lparr>tc_raw_changed = True, tc_stripped_changed = stripped_changed\<rparr>))"

definition with_launch_argv :: "string list \<Rightarrow> terminal_state \<Rightarrow> terminal_state" where
  "with_launch_argv argv t = t\<lparr>ts_launch_argv := Some argv\<rparr>"

definition with_respawn_shell_on_exit :: "terminal_state \<Rightarrow> terminal_state" where
  "with_respawn_shell_on_exit t = t\<lparr>ts_respawn_shell_on_exit := True\<rparr>"

definition with_pending_agent_resume_plan :: "resume_plan \<Rightarrow> terminal_state \<Rightarrow> terminal_state" where
  "with_pending_agent_resume_plan p t = t\<lparr>ts_pending_agent_resume_plan := Some p\<rparr>"

definition agent_process_exited_within :: "instant \<Rightarrow> duration \<Rightarrow> terminal_state \<Rightarrow> bool" where
  "agent_process_exited_within now max_age t =
     is_some_and (ts_recent_agent_process_exit t) (\<lambda>e. now - re_observed_at e \<le> max_age)"

definition set_manual_label :: "string \<Rightarrow> terminal_state \<Rightarrow> terminal_state" where
  "set_manual_label label t =
     (let label = trim label in t\<lparr>ts_manual_label := then_some (label \<noteq> []) label\<rparr>)"

definition clear_manual_label :: "terminal_state \<Rightarrow> terminal_state" where
  "clear_manual_label t = t\<lparr>ts_manual_label := None\<rparr>"

definition clear_agent_name :: "terminal_state \<Rightarrow> terminal_state" where
  "clear_agent_name t =
     t\<lparr>ts_agent_name := None, ts_agent_name_owner := None, ts_managed_agent := None\<rparr>"

definition set_persisted_agent_session :: "persisted_session \<Rightarrow> terminal_state \<Rightarrow> terminal_state" where
  "set_persisted_agent_session s t = t\<lparr>ts_persisted_agent_session := Some s\<rparr>"

end
