(* ===== verification/Terminal_View.thy ===== *)
theory Terminal_View
  imports Terminal_Types "HOL-Library.Option_ord"
begin

text \<open>
  What a terminal shows (\<open>terminal/state.rs\<close>, \<open>terminal/metadata.rs\<close>): which agent label and
  state are effective, arbitrated between the hook authority and the screen detection, and
  which metadata is presented. \<open>recompute_effective_state\<close> ends every operation that may
  change them.
\<close>

section \<open>HashMap equality\<close>

text \<open>\<open>PartialEq\<close> of \<open>HashMap\<close>: same length, and every entry of the one is in the other.\<close>

definition hm_eq :: "('k, 'v) hashmap \<Rightarrow> ('k, 'v) hashmap \<Rightarrow> bool" where
  "hm_eq m m' \<longleftrightarrow> length m = length m' \<and> list_all (\<lambda>(k, v). hm_get m' k = Some v) m"

lemma hm_eq_refl: "hm_wf m \<Longrightarrow> hm_eq m m"
  by (auto simp: hm_eq_def list_all_iff hm_mem_get)

lemma hm_eq_get:
  assumes "hm_wf m" and "hm_wf m'" and "hm_eq m m'"
  shows "hm_get m k = hm_get m' k"
proof -
  have sub: "set m \<subseteq> set m'"
    using assms(3) by (auto simp: hm_eq_def list_all_iff dest: hm_get_mem)
  have "distinct m" "distinct m'"
    using assms(1,2) by (auto simp: hm_wf_def hm_keys_def distinct_map)
  then have "card (set m) = card (set m')"
    using assms(3) by (simp add: hm_eq_def distinct_card)
  with sub have eq: "set m = set m'" by (simp add: card_subset_eq)
  show ?thesis
  proof (cases "hm_get m k")
    case (Some v)
    with assms(2) eq show ?thesis by (metis hm_get_mem hm_mem_get)
  next
    case None
    show ?thesis
    proof (cases "hm_get m' k")
      case (Some v)
      with assms(1) eq None show ?thesis by (metis hm_get_mem hm_mem_get option.distinct(1))
    qed (simp add: None)
  qed
qed

definition presentation_eq :: "effective_presentation \<Rightarrow> effective_presentation \<Rightarrow> bool" where
  "presentation_eq p q \<longleftrightarrow>
     ep_title p = ep_title q \<and> ep_display_agent p = ep_display_agent q \<and>
     hm_eq (ep_state_labels p) (ep_state_labels q)"

section \<open>Effective agent\<close>

definition hook_authority_is_effective :: "terminal_state \<Rightarrow> hook_authority \<Rightarrow> bool" where
  "hook_authority_is_effective t h \<longleftrightarrow>
     \<not> full_lifecycle_hook_authority (ha_source h) (ha_agent_label h) \<or>
     is_none_or (parse_agent_label (ha_agent_label h))
       (\<lambda>a. ts_detected_agent t = Some a \<and> ts_recent_agent_process_exit t = None)"

definition effective_agent_label :: "terminal_state \<Rightarrow> string option" where
  "effective_agent_label t =
     or_else
       (map_option ha_agent_label (opt_filter (hook_authority_is_effective t) (ts_hook_authority t)))
       (if ts_recent_agent_process_exit t = None
        then map_option agent_label (ts_detected_agent t) else None)"

definition effective_known_agent :: "terminal_state \<Rightarrow> agent option" where
  "effective_known_agent t = Option.bind (effective_agent_label t) parse_agent_label"

definition live_full_lifecycle_hook_authority :: "terminal_state \<Rightarrow> bool" where
  "live_full_lifecycle_hook_authority t =
     is_some_and (ts_hook_authority t)
       (\<lambda>h. hook_authority_is_effective t h \<and>
            full_lifecycle_hook_authority (ha_source h) (ha_agent_label h))"

definition full_lifecycle_hook_authority_active :: "terminal_state \<Rightarrow> bool" where
  "full_lifecycle_hook_authority_active t = live_full_lifecycle_hook_authority t"

definition hook_authority_not_newer_than :: "terminal_state \<Rightarrow> instant \<Rightarrow> bool" where
  "hook_authority_not_newer_than t observed_at =
     is_none_or (ts_hook_authority t) (\<lambda>h. ha_reported_at h \<le> observed_at)"

definition fallback_not_older_than_hook :: "terminal_state \<Rightarrow> bool" where
  "fallback_not_older_than_hook t =
     is_none_or (ts_hook_authority t)
       (\<lambda>h. is_some_and (ts_fallback_observed_at t) (\<lambda>at. ha_reported_at h \<le> at))"

definition visible_blocker_overrides_hook :: "terminal_state \<Rightarrow> bool" where
  "visible_blocker_overrides_hook t =
     (if live_full_lifecycle_hook_authority t then False
      else ts_fallback_visible_blocker t \<and> fallback_not_older_than_hook t \<and>
           is_some_and (ts_hook_authority t)
             (\<lambda>h. ha_state h \<noteq> Blocked \<and> parse_agent_label (ha_agent_label h) = ts_detected_agent t))"

text \<open>The first \<open>let\<close> of \<open>recompute_effective_state\<close>.\<close>

definition arbitrated_state :: "terminal_state \<Rightarrow> agent_state" where
  "arbitrated_state t =
     (if visible_blocker_overrides_hook t then Blocked
      else unwrap_or
        (map_option ha_state (opt_filter (hook_authority_is_effective t) (ts_hook_authority t)))
        (ts_fallback_state t))"

section \<open>Metadata\<close>

definition metadata_guards_match :: "terminal_state \<Rightarrow> string option \<Rightarrow> string option \<Rightarrow> bool" where
  "metadata_guards_match t label applies_to_source =
     (if is_some_and label (\<lambda>l. effective_agent_label t \<noteq> Some l) then False
      else \<not> is_some_and applies_to_source
             (\<lambda>src. is_none_or (ts_hook_authority t) (\<lambda>h. ha_source h \<noteq> src)))"

definition agent_metadata_matches_guards :: "terminal_state \<Rightarrow> agent_metadata \<Rightarrow> bool" where
  "agent_metadata_matches_guards t m =
     metadata_guards_match t (am_agent_label m) (am_applies_to_source m)"

definition agent_metadata_expiry :: "agent_metadata \<Rightarrow> instant option" where
  "agent_metadata_expiry m =
     map_option (\<lambda>ttl. unwrap_or (checked_add (am_reported_at m) ttl) (am_reported_at m)) (am_ttl m)"

definition agent_metadata_is_expired :: "agent_metadata \<Rightarrow> instant \<Rightarrow> bool" where
  "agent_metadata_is_expired m now = is_some_and (agent_metadata_expiry m) (\<lambda>deadline. deadline \<le> now)"

definition agent_metadata_is_valid :: "terminal_state \<Rightarrow> agent_metadata \<Rightarrow> instant \<Rightarrow> bool \<Rightarrow> bool" where
  "agent_metadata_is_valid t m now enforce_ttl =
     (if am_title m = None \<and> am_display_agent m = None \<and> am_state_labels m = [] then False
      else if enforce_ttl \<and> agent_metadata_is_expired m now then False
      else agent_metadata_matches_guards t m)"

definition agent_metadata_is_visible_ignoring_ttl :: "terminal_state \<Rightarrow> agent_metadata \<Rightarrow> bool" where
  "agent_metadata_is_visible_ignoring_ttl t m \<longleftrightarrow>
     (am_title m \<noteq> None \<or> am_display_agent m \<noteq> None \<or> am_state_labels m \<noteq> []) \<and>
     agent_metadata_matches_guards t m"

definition valid_agent_metadata :: "terminal_state \<Rightarrow> instant \<Rightarrow> bool \<Rightarrow> agent_metadata list" where
  "valid_agent_metadata t now enforce_ttl =
     filter (\<lambda>m. agent_metadata_is_valid t m now enforce_ttl) (hm_values (ts_agent_metadata t))"

definition newest_metadata_title :: "terminal_state \<Rightarrow> instant \<Rightarrow> bool \<Rightarrow> string option" where
  "newest_metadata_title t now enforce_ttl =
     Option.bind
       (max_by_key am_title_reported_at
         (filter (\<lambda>m. am_title m \<noteq> None) (valid_agent_metadata t now enforce_ttl)))
       am_title"

definition newest_metadata_display_agent :: "terminal_state \<Rightarrow> instant \<Rightarrow> bool \<Rightarrow> string option" where
  "newest_metadata_display_agent t now enforce_ttl =
     Option.bind
       (max_by_key am_display_agent_reported_at
         (filter (\<lambda>m. am_display_agent m \<noteq> None) (valid_agent_metadata t now enforce_ttl)))
       am_display_agent"

text \<open>\<open>sort_by_key\<close> is stable, and collecting into a map keeps the last label of a state.\<close>

definition timed_labels :: "agent_metadata \<Rightarrow> (instant \<times> string \<times> string) list" where
  "timed_labels m =
     List.map_filter
       (\<lambda>(st, label). map_option (\<lambda>at. (at, st, label)) (hm_get (am_state_label_reported_at m) st))
       (am_state_labels m)"

definition effective_metadata_state_labels ::
  "terminal_state \<Rightarrow> instant \<Rightarrow> bool \<Rightarrow> (string, string) hashmap" where
  "effective_metadata_state_labels t now enforce_ttl =
     (let labels = concat (map timed_labels (valid_agent_metadata t now enforce_ttl))
      in fold (\<lambda>(_, st, label). hm_insert st label) (sort_key fst labels) [])"

definition effective_presentation_for_state_at_with_ttl ::
  "terminal_state \<Rightarrow> instant \<Rightarrow> bool \<Rightarrow> effective_presentation" where
  "effective_presentation_for_state_at_with_ttl t now enforce_ttl =
     \<lparr>ep_title = newest_metadata_title t now enforce_ttl,
      ep_display_agent = newest_metadata_display_agent t now enforce_ttl,
      ep_state_labels = effective_metadata_state_labels t now enforce_ttl\<rparr>"

text \<open>The argument \<open>state\<close> of the next two is not used by the code.\<close>

definition effective_presentation_for_state_at :: "terminal_state \<Rightarrow> instant \<Rightarrow> effective_presentation" where
  "effective_presentation_for_state_at t now = effective_presentation_for_state_at_with_ttl t now True"

definition effective_presentation_for_state_at_ignoring_ttl ::
  "terminal_state \<Rightarrow> instant \<Rightarrow> effective_presentation" where
  "effective_presentation_for_state_at_ignoring_ttl t now =
     effective_presentation_for_state_at_with_ttl t now False"

definition effective_title :: "terminal_state \<Rightarrow> instant \<Rightarrow> string option" where
  "effective_title t clk = ep_title (effective_presentation_for_state_at t clk)"

definition effective_display_agent :: "terminal_state \<Rightarrow> instant \<Rightarrow> string option" where
  "effective_display_agent t clk = ep_display_agent (effective_presentation_for_state_at t clk)"

definition clear_expiry_pending_for_hidden_metadata :: "terminal_state \<Rightarrow> terminal_state" where
  "clear_expiry_pending_for_hidden_metadata t =
     (let hidden_sources = map fst
            (filter (\<lambda>(_, m). am_expiry_event_pending m \<and> \<not> agent_metadata_is_visible_ignoring_ttl t m)
              (ts_agent_metadata t))
      in t\<lparr>ts_agent_metadata :=
             fold (\<lambda>src. hm_modify src (\<lambda>m. m\<lparr>am_expiry_event_pending := False\<rparr>))
               hidden_sources (ts_agent_metadata t)\<rparr>)"

section \<open>Recomputation\<close>

text \<open>
  What an operation saves before it changes the terminal: label, agent, state, presentation.
\<close>

record previous_view =
  pv_agent_label :: "string option"
  pv_known_agent :: "agent option"
  pv_state :: agent_state
  pv_presentation :: effective_presentation

definition previous_view :: "terminal_state \<Rightarrow> instant \<Rightarrow> previous_view" where
  "previous_view t now =
     \<lparr>pv_agent_label = effective_agent_label t, pv_known_agent = effective_known_agent t,
      pv_state = ts_state t, pv_presentation = effective_presentation_for_state_at t now\<rparr>"

definition recompute_effective_state ::
  "terminal_state \<Rightarrow> previous_view \<Rightarrow> instant \<Rightarrow> terminal_state \<times> effective_state_change option" where
  "recompute_effective_state t prev now =
     (let new_state = arbitrated_state t;
          label = effective_agent_label t;
          known = effective_known_agent t;
          presentation = effective_presentation_for_state_at t now;
          t1 = clear_expiry_pending_for_hidden_metadata t
      in if pv_agent_label prev = label \<and> pv_state prev = new_state \<and>
            presentation_eq (pv_presentation prev) presentation
         then (t1, None)
         else (t1\<lparr>ts_state := new_state\<rparr>,
               Some \<lparr>ec_previous_agent_label = pv_agent_label prev,
                     ec_previous_known_agent = pv_known_agent prev,
                     ec_previous_state = pv_state prev,
                     ec_previous_presentation = pv_presentation prev,
                     ec_agent_label = label, ec_known_agent = known,
                     ec_state = new_state, ec_presentation = presentation\<rparr>))"

definition unchanged_effective_state_change_at :: "terminal_state \<Rightarrow> instant \<Rightarrow> effective_state_change" where
  "unchanged_effective_state_change_at t now =
     (let label = effective_agent_label t;
          known = effective_known_agent t;
          presentation = effective_presentation_for_state_at t now
      in \<lparr>ec_previous_agent_label = label, ec_previous_known_agent = known,
          ec_previous_state = ts_state t, ec_previous_presentation = presentation,
          ec_agent_label = label, ec_known_agent = known,
          ec_state = ts_state t, ec_presentation = presentation\<rparr>)"

definition is_agent_terminal :: "terminal_state \<Rightarrow> bool" where
  "is_agent_terminal t \<longleftrightarrow> ts_agent_name t \<noteq> None \<or> effective_agent_label t \<noteq> None"

definition border_label :: "terminal_state \<Rightarrow> instant \<Rightarrow> bool \<Rightarrow> string option" where
  "border_label t clk show_agent_labels =
     or_else (effective_title t clk)
       (or_else (ts_manual_label t)
         (if show_agent_labels
          then or_else (effective_display_agent t clk) (effective_agent_label t) else None))"

section \<open>Facts\<close>

text \<open>The fields the arbitration reads, and the state it decides.\<close>

definition arbitration_inputs ::
  "terminal_state \<Rightarrow> agent option \<times> recent_process_exit option \<times> hook_authority option \<times>
    agent_state \<times> bool \<times> instant option" where
  "arbitration_inputs t =
     (ts_detected_agent t, ts_recent_agent_process_exit t, ts_hook_authority t,
      ts_fallback_state t, ts_fallback_visible_blocker t, ts_fallback_observed_at t)"

lemma arbitration_inputs_determine:
  assumes "arbitration_inputs t = arbitration_inputs t'"
  shows "arbitrated_state t = arbitrated_state t'"
    and "effective_agent_label t = effective_agent_label t'"
    and "effective_known_agent t = effective_known_agent t'"
    and "live_full_lifecycle_hook_authority t = live_full_lifecycle_hook_authority t'"
proof -
  have eff: "hook_authority_is_effective t = hook_authority_is_effective t'"
    using assms by (auto simp: arbitration_inputs_def hook_authority_is_effective_def fun_eq_iff)
  show lab: "effective_agent_label t = effective_agent_label t'"
    using assms eff by (simp add: arbitration_inputs_def effective_agent_label_def)
  then show "effective_known_agent t = effective_known_agent t'"
    by (simp add: effective_known_agent_def)
  show live: "live_full_lifecycle_hook_authority t = live_full_lifecycle_hook_authority t'"
    using assms eff by (simp add: arbitration_inputs_def live_full_lifecycle_hook_authority_def)
  show "arbitrated_state t = arbitrated_state t'"
    using assms eff live
    by (simp add: arbitration_inputs_def arbitrated_state_def visible_blocker_overrides_hook_def
        fallback_not_older_than_hook_def)
qed

lemma fold_modify_wf: "hm_wf m \<Longrightarrow> hm_wf (fold (\<lambda>k. hm_modify k f) ks m)"
  by (induction ks arbitrary: m) simp_all

lemma clear_expiry_pending_fields [simp]:
  "arbitration_inputs (clear_expiry_pending_for_hidden_metadata t) = arbitration_inputs t"
  "ts_state (clear_expiry_pending_for_hidden_metadata t) = ts_state t"
  by (simp_all add: clear_expiry_pending_for_hidden_metadata_def arbitration_inputs_def)

lemma arbitration_inputs_state [simp]:
  "arbitration_inputs (t\<lparr>ts_state := s\<rparr>) = arbitration_inputs t"
  "arbitration_inputs (t\<lparr>ts_agent_metadata := m\<rparr>) = arbitration_inputs t"
  by (simp_all add: arbitration_inputs_def)

lemma recompute_state:
  assumes "pv_state prev = ts_state t"
  shows "ts_state (fst (recompute_effective_state t prev now)) = arbitrated_state t"
  using assms by (simp add: recompute_effective_state_def Let_def)

lemma recompute_inputs [simp]:
  "arbitration_inputs (fst (recompute_effective_state t prev now)) = arbitration_inputs t"
  by (simp add: recompute_effective_state_def Let_def)

lemma recompute_consistent:
  assumes "pv_state prev = ts_state t"
  shows "ts_state (fst (recompute_effective_state t prev now)) =
    arbitrated_state (fst (recompute_effective_state t prev now))"
  using recompute_state [OF assms] arbitration_inputs_determine(1) [OF recompute_inputs]
  by simp

end
