(* ===== verification/Terminal_Hooks.thy ===== *)
theory Terminal_Hooks
  imports Terminal_View
begin

text \<open>
  Hook reports and agent sessions (\<open>terminal/state.rs\<close>): which report of an integration is
  believed, how a report of an exited or replaced session is kept out, and what a report
  changes. Where the code reads the clock itself, the reading is an argument: \<open>now\<close> for the
  one the operation keeps, \<open>clk\<close> for a later one.
\<close>

section \<open>Stale sessions\<close>

definition full_lifecycle_hook_report_matches_stale_session ::
  "terminal_state \<Rightarrow> string \<Rightarrow> string \<Rightarrow> session_ref option \<Rightarrow> bool" where
  "full_lifecycle_hook_report_matches_stale_session t source label r =
     (if \<not> full_lifecycle_hook_authority source label then False
      else is_some_and (hm_get (ts_stale_sessions t) source)
        (\<lambda>stale. is_some_and r (\<lambda>incoming.
           list_ex (\<lambda>s. ss_agent_label s = label \<and> incoming = ss_session_ref s) stale)))"

definition full_lifecycle_hook_report_has_fresh_session_after_stale_session ::
  "terminal_state \<Rightarrow> string \<Rightarrow> string \<Rightarrow> session_ref option \<Rightarrow> bool" where
  "full_lifecycle_hook_report_has_fresh_session_after_stale_session t source label r =
     (if \<not> full_lifecycle_hook_authority source label then False
      else is_some_and (hm_get (ts_stale_sessions t) source)
        (\<lambda>stale. list_ex (\<lambda>s. ss_agent_label s = label) stale \<and>
           is_some_and r (\<lambda>incoming.
             list_all (\<lambda>s. ss_agent_label s \<noteq> label \<or> incoming \<noteq> ss_session_ref s) stale)))"

definition remember_stale_full_lifecycle_hook_session ::
  "string \<Rightarrow> string \<Rightarrow> session_ref \<Rightarrow> terminal_state \<Rightarrow> terminal_state" where
  "remember_stale_full_lifecycle_hook_session source label r t =
     (let stale_session = \<lparr>ss_agent_label = label, ss_session_ref = r\<rparr>;
          known = unwrap_or (hm_get (ts_stale_sessions t) source) [];
          known' = (if list_ex (\<lambda>existing. existing = stale_session) known then known
                    else known @ [stale_session])
      in t\<lparr>ts_stale_sessions := hm_insert source known' (ts_stale_sessions t)\<rparr>)"

definition forget_stale_full_lifecycle_hook_session ::
  "string \<Rightarrow> string \<Rightarrow> session_ref \<Rightarrow> terminal_state \<Rightarrow> terminal_state" where
  "forget_stale_full_lifecycle_hook_session source label r t =
     (case hm_get (ts_stale_sessions t) source of
        None \<Rightarrow> t
      | Some stale \<Rightarrow>
          let stale' = filter (\<lambda>s. ss_agent_label s \<noteq> label \<or> ss_session_ref s \<noteq> r) stale
          in if stale' = [] then t\<lparr>ts_stale_sessions := hm_remove source (ts_stale_sessions t)\<rparr>
             else t\<lparr>ts_stale_sessions := hm_insert source stale' (ts_stale_sessions t)\<rparr>)"

section \<open>Suppression\<close>

definition suppress_full_lifecycle_hook_report_with_session_ref ::
  "string \<Rightarrow> string \<Rightarrow> session_ref option \<Rightarrow> suppression_reason \<Rightarrow> instant \<Rightarrow> terminal_state \<Rightarrow> terminal_state" where
  "suppress_full_lifecycle_hook_report_with_session_ref source label r reason at t =
     t\<lparr>ts_suppressed := hm_insert source
         \<lparr>su_agent_label = label, su_session_ref = r, su_observed_at = at, su_reason = reason,
          su_replacement_session_ref = None, su_pending_replacement_report = None\<rparr>
         (ts_suppressed t)\<rparr>"

definition suppress_current_full_lifecycle_hook_authority ::
  "suppression_reason \<Rightarrow> instant \<Rightarrow> terminal_state \<Rightarrow> terminal_state" where
  "suppress_current_full_lifecycle_hook_authority reason clk t =
     (case ts_hook_authority t of
        None \<Rightarrow> t
      | Some h \<Rightarrow>
          if full_lifecycle_hook_authority (ha_source h) (ha_agent_label h)
          then suppress_full_lifecycle_hook_report_with_session_ref
                 (ha_source h) (ha_agent_label h) (ha_session_ref h) reason clk t
          else t)"

definition suppress_full_lifecycle_hook_report ::
  "string \<Rightarrow> string \<Rightarrow> suppression_reason \<Rightarrow> instant \<Rightarrow> terminal_state \<Rightarrow> terminal_state" where
  "suppress_full_lifecycle_hook_report source label reason clk t =
     (if full_lifecycle_hook_authority source label
      then suppress_full_lifecycle_hook_report_with_session_ref source label
             (Option.bind (ts_hook_authority t) ha_session_ref) reason clk t
      else t)"

section \<open>Conflicts and identity\<close>

definition hook_authority_conflicts_with_detected_agent :: "terminal_state \<Rightarrow> agent option \<Rightarrow> bool" where
  "hook_authority_conflicts_with_detected_agent t detected =
     (case detected of
        None \<Rightarrow> False
      | Some a \<Rightarrow> is_some_and (ts_hook_authority t)
          (\<lambda>h. is_some_and (parse_agent_label (ha_agent_label h)) (\<lambda>hook_agent. hook_agent \<noteq> a)))"

definition should_ignore_detected_state_under_full_lifecycle_hook ::
  "terminal_state \<Rightarrow> agent option \<Rightarrow> bool \<Rightarrow> bool" where
  "should_ignore_detected_state_under_full_lifecycle_hook t detected process_exited \<longleftrightarrow>
     live_full_lifecycle_hook_authority t \<and> \<not> process_exited \<and>
     \<not> hook_authority_conflicts_with_detected_agent t detected"

definition persisted_agent_session_matches :: "terminal_state \<Rightarrow> string \<Rightarrow> string \<Rightarrow> bool" where
  "persisted_agent_session_matches t source label =
     is_some_and (ts_persisted_agent_session t) (\<lambda>s. ps_source s = source \<and> ps_agent s = label)"

definition detected_state_observed_before_release_suppression ::
  "terminal_state \<Rightarrow> agent option \<Rightarrow> instant \<Rightarrow> bool" where
  "detected_state_observed_before_release_suppression t detected at =
     (case detected of
        None \<Rightarrow> False
      | Some a \<Rightarrow> list_ex (\<lambda>su. parse_agent_label (su_agent_label su) = Some a \<and> at \<le> su_observed_at su)
          (hm_values (ts_suppressed t)))"

text \<open>The session a terminal would be saved with: source, agent label, and reference.\<close>

definition current_session_identity_for_persistence ::
  "terminal_state \<Rightarrow> (string \<times> string \<times> session_ref_kind \<times> string) option" where
  "current_session_identity_for_persistence t =
     (case Option.bind (ts_hook_authority t)
             (\<lambda>h. map_option (\<lambda>r. (ha_source h, ha_agent_label h, sr_kind r, sr_value r)) (ha_session_ref h)) of
        Some i \<Rightarrow> Some i
      | None \<Rightarrow> map_option
          (\<lambda>s. (ps_source s, ps_agent s, sr_kind (ps_session_ref s), sr_value (ps_session_ref s)))
          (ts_persisted_agent_session t))"

definition current_session_owner_conflicts :: "terminal_state \<Rightarrow> string \<Rightarrow> string \<Rightarrow> bool" where
  "current_session_owner_conflicts t source label =
     is_some_and (current_session_identity_for_persistence t)
       (\<lambda>(src, l, _, _). src \<noteq> source \<or> l \<noteq> label)"

definition session_report_allows_session_replacement :: "string \<Rightarrow> string \<Rightarrow> string option \<Rightarrow> bool" where
  "session_report_allows_session_replacement source label start =
     (let key = (source, label);
          start_in = (\<lambda>ws. is_some_and start (\<lambda>s. s \<in> set ws))
      in key = (''osade:claude'', ''claude'') \<and> start_in [''clear'', ''resume'', ''compact''] \<or>
         key = (''osade:codex'', ''codex'') \<and> start_in [''startup'', ''clear'', ''resume'', ''compact''] \<or>
         key = (''osade:mastracode'', ''mastracode'') \<and> start_in [''startup''] \<or>
         key = (''osade:hermes'', ''hermes'') \<and> start_in [''startup'', ''new'', ''resume''] \<or>
         key = (''osade:opencode'', ''opencode'') \<and> start_in [''select''] \<or>
         key = (''osade:pi'', ''pi'') \<and> start_in [''new'', ''resume'', ''fork''] \<or>
         key = (''osade:omp'', ''omp'') \<and> start_in [''startup'', ''new'', ''resume'', ''fork''] \<or>
         key = (''osade:qwen'', ''qwen'') \<and>
           start_in [''startup'', ''clear'', ''resume'', ''compact'', ''branch''] \<or>
         key = (''osade:antigravity_cli'', ''agy'') \<and> start = None)"

definition session_start_source_is_recognized :: "string option \<Rightarrow> bool" where
  "session_start_source_is_recognized start =
     is_some_and start (\<lambda>s. s \<in> set [''startup'', ''clear'', ''resume'', ''compact'', ''new'',
       ''fork'', ''select''])"

definition is_unsequenced_opencode_selection ::
  "string \<Rightarrow> string \<Rightarrow> string option \<Rightarrow> u64 option \<Rightarrow> bool" where
  "is_unsequenced_opencode_selection source label start seq \<longleftrightarrow>
     source = ''osade:opencode'' \<and> label = ''opencode'' \<and> start = Some ''select'' \<and> seq = None"

definition conflicting_same_owner_session_ref ::
  "terminal_state \<Rightarrow> string \<Rightarrow> string \<Rightarrow> session_ref \<Rightarrow> string option \<Rightarrow> session_ref option" where
  "conflicting_same_owner_session_ref t source label r start =
     Option.bind (current_session_identity_for_persistence t)
       (\<lambda>(src, l, kind, v).
          then_some (src = source \<and> l = label \<and> kind = RefId \<and> sr_kind r = RefId \<and> v \<noteq> sr_value r \<and>
              \<not> session_report_allows_session_replacement source label start)
            \<lparr>sr_kind = kind, sr_value = v\<rparr>)"

definition lifecycle_hook_report_replaces_persisted_session ::
  "terminal_state \<Rightarrow> string \<Rightarrow> string \<Rightarrow> session_ref \<Rightarrow> bool" where
  "lifecycle_hook_report_replaces_persisted_session t source label r \<longleftrightarrow>
     ts_hook_authority t = None \<and> (source, label) = (''osade:mastracode'', ''mastracode'') \<and>
     is_some_and (ts_persisted_agent_session t)
       (\<lambda>s. ps_source s = source \<and> ps_agent s = label \<and> sr_kind (ps_session_ref s) = RefId \<and>
            sr_kind r = RefId \<and> sr_value (ps_session_ref s) \<noteq> sr_value r)"

definition live_full_lifecycle_hook_authority_conflicts_with_session ::
  "terminal_state \<Rightarrow> string \<Rightarrow> string \<Rightarrow> session_ref option \<Rightarrow> bool" where
  "live_full_lifecycle_hook_authority_conflicts_with_session t source label r =
     (case ts_hook_authority t of
        None \<Rightarrow> False
      | Some h \<Rightarrow>
          if \<not> full_lifecycle_hook_authority (ha_source h) (ha_agent_label h) then False
          else if ha_source h \<noteq> source \<or> ha_agent_label h \<noteq> label then False
          else is_some_and (ha_session_ref h)
                 (\<lambda>current. is_some_and r (\<lambda>incoming. current \<noteq> incoming)))"

definition same_owner_full_lifecycle_hook_authority_session_ref ::
  "terminal_state \<Rightarrow> string \<Rightarrow> string \<Rightarrow> session_ref \<Rightarrow> session_ref option" where
  "same_owner_full_lifecycle_hook_authority_session_ref t source label r =
     (case ts_hook_authority t of
        None \<Rightarrow> None
      | Some h \<Rightarrow>
          if \<not> full_lifecycle_hook_authority (ha_source h) (ha_agent_label h) \<or>
             ha_source h \<noteq> source \<or> ha_agent_label h \<noteq> label
          then None
          else opt_filter (\<lambda>current. current \<noteq> r) (ha_session_ref h))"

definition known_agent_label_conflicts_with_detected_agent :: "terminal_state \<Rightarrow> string \<Rightarrow> bool" where
  "known_agent_label_conflicts_with_detected_agent t label =
     (case ts_detected_agent t of
        None \<Rightarrow> False
      | Some a \<Rightarrow> is_some_and (parse_agent_label label) (\<lambda>hook_agent. hook_agent \<noteq> a))"

text \<open>Whether a session has a plan does not depend on the platform.\<close>

definition foreground_agent_confirms_session_owner ::
  "terminal_state \<Rightarrow> string \<Rightarrow> string \<Rightarrow> session_ref \<Rightarrow> bool" where
  "foreground_agent_confirms_session_owner t source label r =
     (case ts_detected_agent t of
        None \<Rightarrow> False
      | Some a \<Rightarrow> parse_agent_label label = Some a \<and> plan False source label r \<noteq> None)"

definition foreground_agent_confirms_different_owner_takeover ::
  "terminal_state \<Rightarrow> string \<Rightarrow> string \<Rightarrow> session_ref \<Rightarrow> string option \<Rightarrow> bool" where
  "foreground_agent_confirms_different_owner_takeover t source label r start \<longleftrightarrow>
     session_start_source_is_recognized start \<and> foreground_agent_confirms_session_owner t source label r"

definition foreground_agent_confirms_hook_authority_takeover ::
  "terminal_state \<Rightarrow> string \<Rightarrow> string \<Rightarrow> session_ref option \<Rightarrow> bool" where
  "foreground_agent_confirms_hook_authority_takeover t source label r =
     is_some_and r (foreground_agent_confirms_session_owner t source label)"

section \<open>Agent names\<close>

definition reconcile_agent_name_owner ::
  "string \<Rightarrow> session_ref option \<Rightarrow> terminal_state \<Rightarrow> terminal_state" where
  "reconcile_agent_name_owner label r t =
     (if ts_agent_name t = None then t
      else if is_some_and (ts_managed_agent t) (\<lambda>ma. parse_agent_label label = Some (ma_kind ma)) then t
      else case ts_agent_name_owner t of
          Some owner \<Rightarrow>
            if no_agent_label owner \<noteq> label \<or>
               is_some_and (no_session_ref owner) (\<lambda>c. is_some_and r (\<lambda>i. c \<noteq> i))
            then t\<lparr>ts_agent_name := None, ts_agent_name_owner := None\<rparr>
            else if no_session_ref owner = None \<and> r \<noteq> None
            then t\<lparr>ts_agent_name_owner := Some (owner\<lparr>no_session_ref := r\<rparr>)\<rparr>
            else t
        | None \<Rightarrow> t\<lparr>ts_agent_name_owner := Some \<lparr>no_agent_label = label, no_session_ref = r\<rparr>\<rparr>)"

section \<open>Sequences\<close>

definition accept_hook_report :: "string \<Rightarrow> u64 option \<Rightarrow> terminal_state \<Rightarrow> terminal_state \<times> bool" where
  "accept_hook_report source seq t =
     (case seq of
        None \<Rightarrow> (t, \<not> hm_contains (ts_hook_report_sequences t) source)
      | Some n \<Rightarrow>
          if is_some_and (hm_get (ts_hook_report_sequences t) source) (\<lambda>last. n \<le> last) then (t, False)
          else (t\<lparr>ts_hook_report_sequences := hm_insert source n (ts_hook_report_sequences t)\<rparr>, True))"

definition forget_hook_sequence :: "string \<Rightarrow> terminal_state \<Rightarrow> terminal_state" where
  "forget_hook_sequence source t =
     t\<lparr>ts_hook_report_sequences := hm_remove source (ts_hook_report_sequences t)\<rparr>"

section \<open>Routing\<close>

definition agent_process_present :: "terminal_state \<Rightarrow> string \<Rightarrow> bool" where
  "agent_process_present t label =
     (let known = parse_agent_label label
      in known \<noteq> None \<and> ts_detected_agent t = known \<and> ts_recent_agent_process_exit t = None)"

definition anchored_session_ref :: "terminal_state \<Rightarrow> string \<Rightarrow> string \<Rightarrow> session_ref option" where
  "anchored_session_ref t source label =
     or_else
       (Option.bind (opt_filter (\<lambda>h. ha_source h = source \<and> ha_agent_label h = label) (ts_hook_authority t))
         ha_session_ref)
       (map_option ps_session_ref
         (opt_filter (\<lambda>s. ps_source s = source \<and> ps_agent s = label) (ts_persisted_agent_session t)))"

text \<open>The tail of \<open>route_full_lifecycle_hook_report\<close>: the report waits for its process.\<close>

definition keep_pending_report ::
  "string \<Rightarrow> string \<Rightarrow> agent_state \<Rightarrow> string option \<Rightarrow> session_ref \<Rightarrow> u64 \<Rightarrow> instant \<Rightarrow>
    terminal_state \<Rightarrow> terminal_state" where
  "keep_pending_report source label st message r n at t =
     (let previous_ref = map_option ps_session_ref
            (opt_filter (\<lambda>s. ps_source s = source \<and> ps_agent s = label) (ts_persisted_agent_session t));
          su = unwrap_or (hm_get (ts_suppressed t) source)
            \<lparr>su_agent_label = label, su_session_ref = previous_ref, su_observed_at = at,
             su_reason = ProcessExit, su_replacement_session_ref = None,
             su_pending_replacement_report = None\<rparr>;
          replace_pending = is_none_or (su_pending_replacement_report su) (\<lambda>p. pr_seq p < n);
          su' = (if replace_pending
                 then su\<lparr>su_pending_replacement_report := Some
                   \<lparr>pr_authority = \<lparr>ha_source = source, ha_agent_label = label, ha_state = st,
                      ha_message = message, ha_reported_at = at, ha_session_ref = Some r\<rparr>,
                    pr_seq = n\<rparr>\<rparr>
                 else su)
      in t\<lparr>ts_suppressed := hm_insert source su' (ts_suppressed t)\<rparr>)"

definition route_full_lifecycle_hook_report ::
  "string \<Rightarrow> string \<Rightarrow> agent_state \<Rightarrow> string option \<Rightarrow> session_ref option \<Rightarrow> u64 option \<Rightarrow> instant \<Rightarrow>
    terminal_state \<Rightarrow> terminal_state \<times> report_route" where
  "route_full_lifecycle_hook_report source label st message r seq at t =
     (if \<not> full_lifecycle_hook_authority source label then (t, RouteAccept False)
      else if full_lifecycle_hook_report_matches_stale_session t source label r then (t, RouteIgnore)
      else
        let process_present = agent_process_present t label;
            anchored_ref = anchored_session_ref t source label;
            session_anchored = is_some_and anchored_ref (\<lambda>a. is_none_or r (\<lambda>i. i = a));
            opencode_cross_talk = (source, label) = (''osade:opencode'', ''opencode'') \<and> process_present \<and>
              is_some_and anchored_ref (\<lambda>a. is_some_and r (\<lambda>i. a \<noteq> i));
            waiting =
              (if process_present \<and> session_anchored \<and> \<not> hm_contains (ts_suppressed t) source
               then (t, RouteAccept
                 (full_lifecycle_hook_report_has_fresh_session_after_stale_session t source label r))
               else case (r, seq) of
                   (Some ref, Some n) \<Rightarrow>
                     if is_some_and (hm_get (ts_hook_report_sequences t) source) (\<lambda>previous. n \<le> previous)
                     then (t, RouteIgnore)
                     else (keep_pending_report source label st message ref n at t, RouteIgnore)
                 | _ \<Rightarrow> (t, RouteIgnore))
        in if opencode_cross_talk then (t, RouteIgnore)
           else case hm_get (ts_suppressed t) source of
               Some su \<Rightarrow>
                 if su_agent_label su \<noteq> label then (t, RouteIgnore)
                 else if su_reason su = HookClear
                 then (t, if is_some_and (su_session_ref su) (\<lambda>p. is_some_and r (\<lambda>i. p \<noteq> i))
                          then RouteAccept True else RouteIgnore)
                 else waiting
             | None \<Rightarrow> waiting)"

end
