(* ===== verification/Terminal_Reports.thy ===== *)
theory Terminal_Reports
  imports Terminal_Hooks
begin

text \<open>
  The operations that integrations call on a terminal (\<open>terminal/state.rs\<close>): a state report, a
  session report, clearing the authority and releasing the agent. Each returns the terminal
  and, as \<open>Option<TerminalStateMutation>\<close>, what changed; \<open>None\<close> means the report was not taken.
\<close>

section \<open>Lifting suppression\<close>

text \<open>
  What the closure of \<open>retain\<close> does with an entry: keep it, or drop it, remembering a stale
  session, a validated replacement, or both.
\<close>

datatype suppression_outcome =
    KeepSuppressed
  | DropSuppressed "stale_session option" "(string \<times> session_ref \<times> pending_report option) option"

definition lift_suppression_entry ::
  "sequences \<Rightarrow> agent \<Rightarrow> string \<Rightarrow> suppressed_report \<Rightarrow> suppression_outcome" where
  "lift_suppression_entry sequences detected source su =
     (let stale = (\<lambda>r. \<lparr>ss_agent_label = su_agent_label su, ss_session_ref = r\<rparr>)
      in if parse_agent_label (su_agent_label su) \<noteq> Some detected then KeepSuppressed
         else if su_reason su = ProcessExit
         then case su_replacement_session_ref su of
             None \<Rightarrow> KeepSuppressed
           | Some r \<Rightarrow>
               let exited = opt_filter (\<lambda>e. e \<noteq> r) (su_session_ref su);
                   start_seq = hm_get sequences source;
                   pending = opt_filter
                     (\<lambda>p. ha_session_ref (pr_authority p) = Some r \<and> is_none_or start_seq (\<lambda>n. n < pr_seq p))
                     (su_pending_replacement_report su)
               in DropSuppressed (map_option stale exited) (Some (su_agent_label su, r, pending))
         else DropSuppressed (map_option stale (su_session_ref su)) None)"

definition outcome_stale :: "string \<times> suppression_outcome \<Rightarrow> (string \<times> stale_session) list" where
  "outcome_stale e =
     (case e of (source, DropSuppressed (Some s) _) \<Rightarrow> [(source, s)] | _ \<Rightarrow> [])"

definition outcome_validated ::
  "string \<times> suppression_outcome \<Rightarrow> (string \<times> string \<times> session_ref \<times> pending_report option) list" where
  "outcome_validated e =
     (case e of (source, DropSuppressed _ (Some v)) \<Rightarrow> [(source, v)] | _ \<Rightarrow> [])"

text \<open>The body of the last loop: the validated session becomes the terminal's session.\<close>

definition adopt_validated_session ::
  "string \<times> string \<times> session_ref \<times> pending_report option \<Rightarrow> terminal_state \<Rightarrow> terminal_state" where
  "adopt_validated_session v t =
     (case v of (source, label, r, pending) \<Rightarrow>
        let t1 = forget_stale_full_lifecycle_hook_session source label r t;
            t2 = reconcile_agent_name_owner label (Some r) t1;
            t3 = t2\<lparr>ts_persisted_agent_session :=
              Some \<lparr>ps_source = source, ps_agent = label, ps_session_ref = r\<rparr>\<rparr>
        in case pending of
             None \<Rightarrow> t3
           | Some p \<Rightarrow> t3\<lparr>ts_hook_report_sequences := hm_insert source (pr_seq p) (ts_hook_report_sequences t3),
                         ts_hook_authority := Some (pr_authority p)\<rparr>)"

definition clear_full_lifecycle_hook_suppression_for_detected_agent ::
  "agent option \<Rightarrow> agent option \<Rightarrow> terminal_state \<Rightarrow> terminal_state" where
  "clear_full_lifecycle_hook_suppression_for_detected_agent previous_detected detected t =
     (case detected of
        None \<Rightarrow> t
      | Some a \<Rightarrow>
          if previous_detected = Some a then t
          else
            let label = agent_label a;
                lift = (\<lambda>(source, su). (source, lift_suppression_entry (ts_hook_report_sequences t) a source su));
                outcomes = map lift (ts_suppressed t);
                stale = concat (map outcome_stale outcomes);
                validated = concat (map outcome_validated outcomes);
                t1 = t\<lparr>ts_suppressed := filter (\<lambda>e. snd (lift e) = KeepSuppressed) (ts_suppressed t)\<rparr>;
                t2 = fold (\<lambda>(source, s). remember_stale_full_lifecycle_hook_session source
                       (ss_agent_label s) (ss_session_ref s)) stale t1;
                t3 = t2\<lparr>ts_hook_report_sequences := hm_retain
                       (\<lambda>source _. list_ex (\<lambda>v. fst v = source) validated \<or>
                         \<not> full_lifecycle_hook_authority source label)
                       (ts_hook_report_sequences t2)\<rparr>
            in fold adopt_validated_session validated t3)"

section \<open>State reports\<close>

definition finish_mutation ::
  "previous_view \<Rightarrow> instant \<Rightarrow> bool \<Rightarrow> bool \<Rightarrow> terminal_state \<Rightarrow> terminal_state \<times> state_mutation" where
  "finish_mutation prev now ref_changed released t =
     (let (t', change) = recompute_effective_state t prev now
      in (t', \<lparr>sm_effective_state_change = change, sm_session_ref_changed = ref_changed,
              sm_agent_released = released\<rparr>))"

definition some_mutation :: "terminal_state \<times> state_mutation \<Rightarrow> terminal_state \<times> state_mutation option" where
  "some_mutation r = (case r of (t, mu) \<Rightarrow> (t, Some mu))"

text \<open>The second half of \<open>set_hook_authority_at\<close>: the report has been accepted.\<close>

definition install_hook_authority ::
  "string \<Rightarrow> string \<Rightarrow> agent_state \<Rightarrow> string option \<Rightarrow> session_ref option \<Rightarrow> bool \<Rightarrow> bool \<Rightarrow>
    instant \<Rightarrow> instant \<Rightarrow> terminal_state \<Rightarrow> terminal_state \<times> state_mutation" where
  "install_hook_authority source label st message r takeover reanchor now clk t =
     (let prev = previous_view t now;
          previous_session = current_session_identity_for_persistence t;
          t1 = reconcile_agent_name_owner label r t;
          t2 = (if takeover then suppress_current_full_lifecycle_hook_authority HookClear clk t1 else t1);
          t3 = (if r \<noteq> None \<or> reanchor
                then case hm_get (ts_suppressed t2) source of
                    None \<Rightarrow> t2
                  | Some su \<Rightarrow>
                      let t' = t2\<lparr>ts_suppressed := hm_remove source (ts_suppressed t2)\<rparr>
                      in case su_session_ref su of
                           None \<Rightarrow> t'
                         | Some sr \<Rightarrow> remember_stale_full_lifecycle_hook_session source
                             (su_agent_label su) sr t'
                else t2);
          t4 = t3\<lparr>ts_persisted_agent_session := None,
                  ts_hook_authority := Some \<lparr>ha_source = source, ha_agent_label = label, ha_state = st,
                    ha_message = message, ha_reported_at = now, ha_session_ref = r\<rparr>\<rparr>
      in finish_mutation prev now (previous_session \<noteq> current_session_identity_for_persistence t4) False t4)"

text \<open>The reference a report is taken with: that of the running session where it conflicts.\<close>

definition settle_session_ref ::
  "terminal_state \<Rightarrow> string \<Rightarrow> string \<Rightarrow> session_ref option \<Rightarrow> session_ref option" where
  "settle_session_ref t source label r =
     map_option (\<lambda>r. if lifecycle_hook_report_replaces_persisted_session t source label r then r
       else unwrap_or (conflicting_same_owner_session_ref t source label r None) r) r"

definition set_hook_authority_at ::
  "string \<Rightarrow> string \<Rightarrow> agent_state \<Rightarrow> string option \<Rightarrow> session_ref option \<Rightarrow> u64 option \<Rightarrow>
    instant \<Rightarrow> instant \<Rightarrow> terminal_state \<Rightarrow> terminal_state \<times> state_mutation option" where
  "set_hook_authority_at source label st message r seq now clk t =
     (if session_identity_only_integration source label then (t, None)
      else if \<not> full_lifecycle_hook_authority source label \<and>
        is_some_and (ts_recent_agent_process_exit t) (\<lambda>e. parse_agent_label label = Some (re_agent e))
      then (t, None)
      else case route_full_lifecycle_hook_report source label st message r seq now t of
          (t1, RouteIgnore) \<Rightarrow> (t1, None)
        | (t1, RouteAccept reanchor) \<Rightarrow>
            if known_agent_label_conflicts_with_detected_agent t1 label then (t1, None)
            else
              let owner_conflicts = current_session_owner_conflicts t1 source label;
                  takeover = (owner_conflicts \<and>
                    foreground_agent_confirms_hook_authority_takeover t1 source label r)
              in if owner_conflicts \<and> \<not> takeover then (t1, None)
                 else
                   let r = settle_session_ref t1 source label r
                   in if live_full_lifecycle_hook_authority_conflicts_with_session t1 source label r
                      then (t1, None)
                      else case accept_hook_report source seq
                             (if reanchor then forget_hook_sequence source t1 else t1) of
                          (t2, False) \<Rightarrow> (t2, None)
                        | (t2, True) \<Rightarrow> some_mutation
                            (install_hook_authority source label st message r takeover reanchor now clk t2))"

definition set_hook_authority_with_session_ref where
  "set_hook_authority_with_session_ref source label st message r seq now clk t =
     set_hook_authority_at source label st message r seq now clk t"

section \<open>Session reports\<close>

text \<open>An unsequenced selection whose process is not there: it waits as the replacement.\<close>

definition keep_selected_session ::
  "string \<Rightarrow> string \<Rightarrow> session_ref \<Rightarrow> instant \<Rightarrow> terminal_state \<Rightarrow> terminal_state" where
  "keep_selected_session source label r clk t =
     (let su = unwrap_or (hm_get (ts_suppressed t) source)
            \<lparr>su_agent_label = label, su_session_ref = anchored_session_ref t source label,
             su_observed_at = clk, su_reason = ProcessExit, su_replacement_session_ref = None,
             su_pending_replacement_report = None\<rparr>
      in t\<lparr>ts_suppressed := hm_insert source
             (su\<lparr>su_replacement_session_ref := Some r, su_pending_replacement_report := None\<rparr>)
             (ts_suppressed t)\<rparr>)"

text \<open>A session start of a process that is not confirmed: the session waits for it.\<close>

definition keep_started_session ::
  "string \<Rightarrow> string \<Rightarrow> session_ref \<Rightarrow> u64 \<Rightarrow> instant \<Rightarrow> terminal_state \<Rightarrow> terminal_state" where
  "keep_started_session source label r n now t =
     (let su = unwrap_or (hm_get (ts_suppressed t) source)
            \<lparr>su_agent_label = label, su_session_ref = None, su_observed_at = now,
             su_reason = ProcessExit, su_replacement_session_ref = None,
             su_pending_replacement_report = None\<rparr>;
          su' = (if su_replacement_session_ref su \<noteq> Some r
                 then let su1 = (if is_some_and (su_pending_replacement_report su)
                                     (\<lambda>p. ha_session_ref (pr_authority p) \<noteq> Some r)
                                 then su\<lparr>su_pending_replacement_report := None\<rparr> else su)
                      in su1\<lparr>su_replacement_session_ref := Some r\<rparr>
                 else su)
      in t\<lparr>ts_suppressed := hm_insert source su' (ts_suppressed t),
           ts_hook_report_sequences := hm_insert source n (ts_hook_report_sequences t)\<rparr>)"

text \<open>The last part of \<open>set_agent_session_ref_for_session_start\<close>: the session is taken.\<close>

definition take_agent_session ::
  "string \<Rightarrow> string \<Rightarrow> session_ref \<Rightarrow> bool \<Rightarrow> bool \<Rightarrow> session_ref option \<Rightarrow> instant \<Rightarrow> instant \<Rightarrow>
    terminal_state \<Rightarrow> terminal_state \<times> state_mutation" where
  "take_agent_session source label r replacement_allowed takeover replaced now clk t =
     (let prev = previous_view t now;
          previous_session = current_session_identity_for_persistence t;
          t1 = (if replacement_allowed \<or> takeover
                then forget_stale_full_lifecycle_hook_session source label r t else t);
          t2 = (case replaced of
                  Some old \<Rightarrow> (remember_stale_full_lifecycle_hook_session source label old t1)
                    \<lparr>ts_hook_authority := None\<rparr>
                | None \<Rightarrow>
                    if takeover
                    then (suppress_current_full_lifecycle_hook_authority HookClear clk t1)
                      \<lparr>ts_hook_authority := None\<rparr>
                    else t1);
          t3 = reconcile_agent_name_owner label (Some r) t2;
          t4 = t3\<lparr>ts_persisted_agent_session :=
            Some \<lparr>ps_source = source, ps_agent = label, ps_session_ref = r\<rparr>\<rparr>
      in finish_mutation prev now (previous_session \<noteq> current_session_identity_for_persistence t4) False t4)"

text \<open>The guards between an accepted session report and its effect.\<close>

definition offer_agent_session ::
  "string \<Rightarrow> string \<Rightarrow> session_ref \<Rightarrow> string option \<Rightarrow> bool \<Rightarrow> instant \<Rightarrow> instant \<Rightarrow>
    terminal_state \<Rightarrow> terminal_state \<times> state_mutation option" where
  "offer_agent_session source label r start process_present now clk t =
     (if known_agent_label_conflicts_with_detected_agent t label then (t, None)
      else
        let replacement_allowed = session_report_allows_session_replacement source label start;
            replacing_identity_only = (session_identity_only_integration source label \<and>
              replacement_allowed \<and>
              is_some_and (current_session_identity_for_persistence t)
                (\<lambda>(src, l, kind, v). src = source \<and> l = label \<and> kind = RefId \<and>
                  sr_kind r = RefId \<and> v \<noteq> sr_value r))
        in if replacing_identity_only \<and> \<not> process_present then (t, None)
           else
             let owner_conflicts = current_session_owner_conflicts t source label;
                 takeover = (owner_conflicts \<and>
                   foreground_agent_confirms_different_owner_takeover t source label r start)
             in if owner_conflicts \<and> \<not> takeover then (t, None)
                else if conflicting_same_owner_session_ref t source label r start \<noteq> None then (t, None)
                else
                  let replaced = same_owner_full_lifecycle_hook_authority_session_ref t source label r
                  in if replaced \<noteq> None \<and> \<not> replacement_allowed then (t, None)
                     else some_mutation
                       (take_agent_session source label r replacement_allowed takeover replaced now clk t))"

definition set_agent_session_ref_for_session_start ::
  "string \<Rightarrow> string \<Rightarrow> session_ref option \<Rightarrow> u64 option \<Rightarrow> string option \<Rightarrow> instant \<Rightarrow> instant \<Rightarrow>
    terminal_state \<Rightarrow> terminal_state \<times> state_mutation option" where
  "set_agent_session_ref_for_session_start source label r seq start now clk t =
     (case r of None \<Rightarrow> (t, None)
      | Some r \<Rightarrow>
          let known = parse_agent_label label;
              process_present = agent_process_present t label;
              full_lifecycle = full_lifecycle_hook_authority source label;
              generation_gated = is_some_and (hm_get (ts_suppressed t) source)
                (\<lambda>su. su_agent_label su = label \<and> su_reason su \<noteq> HookClear);
              session_anchored = (is_some_and (ts_hook_authority t)
                  (\<lambda>h. ha_source h = source \<and> ha_agent_label h = label \<and> ha_session_ref h \<noteq> None) \<or>
                persisted_agent_session_matches t source label);
              unsequenced = is_unsequenced_opencode_selection source label start seq;
              can_reconcile = (unsequenced \<and> process_present)
          in if \<not> can_reconcile \<and> full_lifecycle \<and> unsequenced
             then (keep_selected_session source label r clk t, None)
             else
               let t1 = (if can_reconcile then t\<lparr>ts_suppressed := hm_remove source (ts_suppressed t)\<rparr> else t)
               in if full_lifecycle \<and> \<not> can_reconcile \<and>
                    (\<not> process_present \<or> generation_gated \<or> \<not> session_anchored)
                  then
                    if \<not> session_start_source_is_recognized start then (t1, None)
                    else case seq of None \<Rightarrow> (t1, None)
                      | Some n \<Rightarrow>
                          if is_some_and (hm_get (ts_hook_report_sequences t1) source) (\<lambda>previous. n \<le> previous)
                          then (t1, None)
                          else
                            let prev = previous_view t1 now;
                                previous_session = current_session_identity_for_persistence t1;
                                t2 = keep_started_session source label r n now t1
                            in if process_present
                               then let t3 = clear_full_lifecycle_hook_suppression_for_detected_agent None known t2
                                    in some_mutation (finish_mutation prev now
                                      (previous_session \<noteq> current_session_identity_for_persistence t3) False t3)
                               else (t2, None)
                  else
                    let (t2, accepted) = (if unsequenced then (t1, True) else accept_hook_report source seq t1)
                    in if \<not> accepted then (t2, None)
                       else offer_agent_session source label r start process_present now clk t2)"

definition set_agent_session_ref ::
  "string \<Rightarrow> string \<Rightarrow> session_ref option \<Rightarrow> u64 option \<Rightarrow> instant \<Rightarrow> instant \<Rightarrow>
    terminal_state \<Rightarrow> terminal_state \<times> state_mutation option" where
  "set_agent_session_ref source label r seq now clk t =
     set_agent_session_ref_for_session_start source label r seq None now clk t"

section \<open>Clearing and releasing\<close>

definition clear_hook_authority_with_mutation ::
  "string option \<Rightarrow> u64 option \<Rightarrow> instant \<Rightarrow> instant \<Rightarrow> terminal_state \<Rightarrow>
    terminal_state \<times> state_mutation option" where
  "clear_hook_authority_with_mutation source seq now clk t =
     (let sequence_source = or_else source (map_option ha_source (ts_hook_authority t));
          should_clear = is_some_and (ts_hook_authority t) (\<lambda>h. is_none_or source (\<lambda>s. ha_source h = s))
      in if \<not> should_clear then (t, None)
         else
           let (t1, accepted) = (case sequence_source of Some s \<Rightarrow> accept_hook_report s seq t | None \<Rightarrow> (t, True))
           in if \<not> accepted then (t1, None)
              else
                let prev = previous_view t1 now;
                    previous_session = current_session_identity_for_persistence t1;
                    t2 = (suppress_current_full_lifecycle_hook_authority HookClear clk t1)
                      \<lparr>ts_hook_authority := None, ts_persisted_agent_session := None\<rparr>
                in some_mutation (finish_mutation prev now (previous_session \<noteq> None) False t2))"

definition release_agent_with_mutation ::
  "string \<Rightarrow> string \<Rightarrow> u64 option \<Rightarrow> instant \<Rightarrow> instant \<Rightarrow> terminal_state \<Rightarrow>
    terminal_state \<times> state_mutation option" where
  "release_agent_with_mutation source label seq now clk t =
     (if is_some_and (ts_hook_authority t) (\<lambda>h. ha_agent_label h \<noteq> label \<or> ha_source h \<noteq> source)
      then (t, None)
      else if effective_agent_label t \<noteq> Some label \<and> \<not> persisted_agent_session_matches t source label
      then (t, None)
      else
        let (t1, accepted) = accept_hook_report source seq t
        in if \<not> accepted then (t1, None)
           else
             let preserve_foreign = is_some_and (ts_persisted_agent_session t1)
                   (\<lambda>s. ps_source s \<noteq> source \<or> ps_agent s \<noteq> label);
                 process_owns_agent = is_some_and (parse_agent_label label)
                   (\<lambda>a. ts_detected_agent t1 = Some a \<and> ts_recent_agent_process_exit t1 = None);
                 prev = previous_view t1 now;
                 previous_session = current_session_identity_for_persistence t1;
                 t2 = suppress_full_lifecycle_hook_report source label HookClear clk t1;
                 t3 = (if process_owns_agent then t2
                       else clear_agent_name (t2\<lparr>ts_detected_agent := None, ts_fallback_state := Unknown,
                         ts_fallback_visible_blocker := False, ts_fallback_observed_at := None\<rparr>));
                 t4 = t3\<lparr>ts_hook_authority := None\<rparr>;
                 t5 = (if preserve_foreign then t4 else t4\<lparr>ts_persisted_agent_session := None\<rparr>)
             in some_mutation (finish_mutation prev now
                  (previous_session \<noteq> current_session_identity_for_persistence t5)
                  (\<not> process_owns_agent) t5))"

end
