(* ===== verification/Terminal_Detect.thy ===== *)
theory Terminal_Detect
  imports Terminal_Reports
begin

text \<open>
  Detection of agents from the screen and the process table (\<open>terminal/state.rs\<close>): the
  detected agent and its state, the exit of its process, and what the exit clears.
\<close>

section \<open>Process exit\<close>

text \<open>
  The body of the loop over the suppressed reports for an entry of the exited agent: the
  session the entry stands for becomes the one that has just exited.
\<close>

definition exit_suppression_applies :: "agent option \<Rightarrow> suppressed_report \<Rightarrow> bool" where
  "exit_suppression_applies a su \<longleftrightarrow>
     \<not> (parse_agent_label (su_agent_label su) \<noteq> a \<or> su_reason su = HookClear)"

definition exited_session_ref :: "suppressed_report \<Rightarrow> session_ref option" where
  "exited_session_ref su =
     or_else (su_replacement_session_ref su)
       (or_else (Option.bind (su_pending_replacement_report su) (\<lambda>p. ha_session_ref (pr_authority p)))
         (su_session_ref su))"

definition exit_suppression_stale :: "suppressed_report \<Rightarrow> session_ref option" where
  "exit_suppression_stale su =
     (case (su_session_ref su, exited_session_ref su) of
        (Some previous, Some exited) \<Rightarrow> then_some (previous \<noteq> exited) previous
      | _ \<Rightarrow> None)"

definition exit_suppression_entry :: "instant \<Rightarrow> suppressed_report \<Rightarrow> suppressed_report" where
  "exit_suppression_entry now su =
     su\<lparr>su_session_ref := exited_session_ref su, su_replacement_session_ref := None,
        su_pending_replacement_report := None, su_observed_at := now\<rparr>"

definition exit_suppressions :: "agent option \<Rightarrow> instant \<Rightarrow> terminal_state \<Rightarrow> terminal_state" where
  "exit_suppressions a now t =
     (let entries = filter (\<lambda>(_, su). exit_suppression_applies a su) (ts_suppressed t);
          reset_sources = map fst entries;
          stale_sessions = concat (map (\<lambda>(source, su).
            case exit_suppression_stale su of
              None \<Rightarrow> [] | Some r \<Rightarrow> [(source, su_agent_label su, r)]) entries);
          t1 = t\<lparr>ts_suppressed := hm_map_values
            (\<lambda>_ su. if exit_suppression_applies a su then exit_suppression_entry now su else su)
            (ts_suppressed t)\<rparr>;
          t2 = fold (\<lambda>(source, label, r). remember_stale_full_lifecycle_hook_session source label r)
                 stale_sessions t1
      in fold forget_hook_sequence reset_sources t2)"

text \<open>\<open>official_session\<close>: source, label and reference of the session that exited.\<close>

definition exited_official_session ::
  "agent option \<Rightarrow> terminal_state \<Rightarrow> (string \<times> string \<times> session_ref option) option" where
  "exited_official_session a t =
     or_else
       (map_option (\<lambda>h. (ha_source h, ha_agent_label h, ha_session_ref h))
         (opt_filter (\<lambda>h. is_official_agent_source (ha_source h) (ha_agent_label h) \<and>
             parse_agent_label (ha_agent_label h) = a) (ts_hook_authority t)))
       (Option.bind (ts_persisted_agent_session t)
         (\<lambda>s. then_some (is_official_agent_source (ps_source s) (ps_agent s) \<and>
                parse_agent_label (ps_agent s) = a)
              (ps_source s, ps_agent s, Some (ps_session_ref s))))"

definition exit_official_session :: "agent option \<Rightarrow> instant \<Rightarrow> terminal_state \<Rightarrow> terminal_state" where
  "exit_official_session a now t =
     (case exited_official_session a t of
        None \<Rightarrow> t
      | Some (source, label, r) \<Rightarrow>
          suppress_full_lifecycle_hook_report_with_session_ref source label r ProcessExit now
            (forget_hook_sequence source t))"

definition exit_authority :: "agent option \<Rightarrow> bool \<Rightarrow> terminal_state \<Rightarrow> terminal_state" where
  "exit_authority a newer_custom t =
     (case Option.bind (ts_hook_authority t)
             (\<lambda>h. then_some (parse_agent_label (ha_agent_label h) = a \<and> \<not> newer_custom) (ha_source h)) of
        None \<Rightarrow> t
      | Some source \<Rightarrow> (forget_hook_sequence source t)\<lparr>ts_hook_authority := None\<rparr>)"

definition exit_persisted_session :: "agent option \<Rightarrow> bool \<Rightarrow> terminal_state \<Rightarrow> terminal_state" where
  "exit_persisted_session a newer_custom t =
     (if \<not> newer_custom \<and>
         is_some_and (ts_persisted_agent_session t) (\<lambda>s. parse_agent_label (ps_agent s) = a)
      then t\<lparr>ts_persisted_agent_session := None\<rparr> else t)"

text \<open>Which metadata an exit clears.\<close>

definition exit_clears_metadata :: "agent \<Rightarrow> instant \<Rightarrow> agent_metadata \<Rightarrow> bool" where
  "exit_clears_metadata a now m =
     (let label = agent_label a;
          official = (is_official_agent_source (am_source m) label \<or>
            is_some_and (am_applies_to_source m) (\<lambda>src. is_official_agent_source src label));
          matches = (am_agent_label m = Some label \<or> official)
      in matches \<and> (official \<or> am_reported_at m \<le> now))"

definition forget_metadata_source :: "string \<Rightarrow> terminal_state \<Rightarrow> terminal_state" where
  "forget_metadata_source source t =
     t\<lparr>ts_metadata_report_sequences := hm_remove source (ts_metadata_report_sequences t),
       ts_metadata_report_agents := hm_remove source (ts_metadata_report_agents t),
       ts_metadata_token_sequence_sources := removeAll source (ts_metadata_token_sequence_sources t)\<rparr>"

definition forget_metadata_generation :: "string \<Rightarrow> terminal_state \<Rightarrow> terminal_state" where
  "forget_metadata_generation source t =
     t\<lparr>ts_metadata_report_sequences := hm_remove source (ts_metadata_report_sequences t),
       ts_metadata_token_sequence_sources := removeAll source (ts_metadata_token_sequence_sources t)\<rparr>"

definition exit_metadata :: "agent option \<Rightarrow> instant \<Rightarrow> terminal_state \<Rightarrow> terminal_state" where
  "exit_metadata a now t =
     (case a of
        None \<Rightarrow> t
      | Some a \<Rightarrow>
          let cleared = map fst (filter (\<lambda>(_, m). exit_clears_metadata a now m) (ts_agent_metadata t));
              t1 = t\<lparr>ts_agent_metadata :=
                hm_retain (\<lambda>_ m. \<not> exit_clears_metadata a now m) (ts_agent_metadata t)\<rparr>;
              t2 = fold forget_metadata_source cleared t1;
              exited = map fst (filter (\<lambda>(_, owner). owner = a) (ts_metadata_report_agents t2));
              t3 = t2\<lparr>ts_metadata_report_agents :=
                hm_retain (\<lambda>_ owner. owner \<noteq> a) (ts_metadata_report_agents t2)\<rparr>
          in fold forget_metadata_generation exited t3)"

text \<open>The block under \<open>if process_exited\<close>.\<close>

definition exit_agent_process :: "agent option \<Rightarrow> bool \<Rightarrow> instant \<Rightarrow> terminal_state \<Rightarrow> terminal_state" where
  "exit_agent_process a newer_custom now t =
     exit_metadata a now (exit_persisted_session a newer_custom (exit_authority a newer_custom
       (exit_official_session a now (exit_suppressions a now t))))"

section \<open>Detection\<close>

text \<open>
  The last \<open>if\<close> before the release: an authority of another agent than the detected one is
  dropped, its session is kept.
\<close>

definition drop_replaced_authority ::
  "agent option \<Rightarrow> agent option \<Rightarrow> instant \<Rightarrow> instant \<Rightarrow> terminal_state \<Rightarrow> terminal_state" where
  "drop_replaced_authority previous_detected a now clk t =
     (if hook_authority_not_newer_than t now \<and>
         (hook_authority_conflicts_with_detected_agent t a \<or>
          previous_detected \<noteq> None \<and> a \<noteq> previous_detected \<and>
          is_some_and (ts_hook_authority t) (\<lambda>h. parse_agent_label (ha_agent_label h) = previous_detected))
      then
        let durable = Option.bind (ts_hook_authority t)
              (\<lambda>h. map_option (\<lambda>r. \<lparr>ps_source = ha_source h, ps_agent = ha_agent_label h, ps_session_ref = r\<rparr>)
                (ha_session_ref h))
        in (suppress_current_full_lifecycle_hook_authority HookClear clk t)
             \<lparr>ts_hook_authority := None, ts_persisted_agent_session := durable\<rparr>
      else t)"

definition newer_custom_authority :: "agent option \<Rightarrow> bool \<Rightarrow> instant \<Rightarrow> terminal_state \<Rightarrow> bool" where
  "newer_custom_authority a process_exited now t \<longleftrightarrow>
     process_exited \<and>
     is_some_and (ts_hook_authority t)
       (\<lambda>h. parse_agent_label (ha_agent_label h) = a \<and>
            \<not> is_official_agent_source (ha_source h) (ha_agent_label h) \<and> now < ha_reported_at h)"

definition apply_detected_state ::
  "agent option \<Rightarrow> agent_state \<Rightarrow> bool \<Rightarrow> bool \<Rightarrow> bool \<Rightarrow> instant \<Rightarrow> instant \<Rightarrow>
    terminal_state \<Rightarrow> terminal_state" where
  "apply_detected_state a fallback visible_blocker process_exited agent_released now clk t =
     (let previous_detected = ts_detected_agent t;
          newer_custom = newer_custom_authority a process_exited now t;
          replacement_process_detected = (\<not> process_exited \<and> a \<noteq> None \<and>
            is_some_and (ts_recent_agent_process_exit t) (\<lambda>e. Some (re_agent e) = a \<and> re_observed_at e < now));
          t1 = t\<lparr>ts_detected_agent := a\<rparr>;
          t2 = (case a of None \<Rightarrow> t1 | Some ag \<Rightarrow> reconcile_agent_name_owner (agent_label ag) None t1);
          t3 = (if \<not> process_exited
                then clear_full_lifecycle_hook_suppression_for_detected_agent
                       (if replacement_process_detected then None else previous_detected) a t2
                else t2);
          t4 = t3\<lparr>ts_fallback_state := fallback,
                  ts_fallback_visible_blocker := (visible_blocker \<and> fallback = Blocked),
                  ts_fallback_observed_at := Some now\<rparr>;
          t5 = (if process_exited
                then case a of None \<Rightarrow> t4
                  | Some ag \<Rightarrow> t4\<lparr>ts_recent_agent_process_exit :=
                      Some \<lparr>re_agent = ag, re_observed_at = now\<rparr>\<rparr>
                else if a \<noteq> None then t4\<lparr>ts_recent_agent_process_exit := None\<rparr> else t4);
          t6 = (if process_exited then exit_agent_process a newer_custom now t5 else t5);
          t7 = drop_replaced_authority previous_detected a now clk t6
      in if agent_released then clear_agent_name t7 else t7)"

definition set_detected_state_with_screen_signals_at ::
  "agent option \<Rightarrow> agent_state \<Rightarrow> bool \<Rightarrow> bool \<Rightarrow> bool \<Rightarrow> bool \<Rightarrow> instant \<Rightarrow> instant \<Rightarrow>
    terminal_state \<Rightarrow> terminal_state \<times> state_mutation" where
  "set_detected_state_with_screen_signals_at a fallback visible_blocker visible_idle visible_working
     process_exited now clk t =
     (let prev = previous_view t now;
          previous_session = current_session_identity_for_persistence t;
          newer_custom = newer_custom_authority a process_exited now t;
          agent_released = (process_exited \<and> \<not> newer_custom \<and>
            (effective_agent_label t \<noteq> None \<or> ts_agent_name t \<noteq> None));
          finish = (\<lambda>t'. finish_mutation prev now
            (previous_session \<noteq> current_session_identity_for_persistence t'))
      in if should_ignore_detected_state_under_full_lifecycle_hook t a process_exited
         then
           let t1 = (if Option.bind (ts_hook_authority t) (\<lambda>h. parse_agent_label (ha_agent_label h)) = a
                     then t\<lparr>ts_detected_agent := a\<rparr> else t)
           in finish t1 False t1
         else if \<not> process_exited \<and> detected_state_observed_before_release_suppression t a now
         then finish t False t
         else
           let t1 = apply_detected_state a fallback visible_blocker process_exited agent_released now clk t
           in finish t1 agent_released t1)"

definition set_detected_agent_process_at ::
  "agent \<Rightarrow> instant \<Rightarrow> instant \<Rightarrow> terminal_state \<Rightarrow> terminal_state \<times> state_mutation" where
  "set_detected_agent_process_at a now clk t =
     (let starts_acquisition =
            (\<not> should_ignore_detected_state_under_full_lifecycle_hook t (Some a) False \<and>
             \<not> detected_state_observed_before_release_suppression t (Some a) now);
          (t1, mutation) =
            set_detected_state_with_screen_signals_at (Some a) Unknown False False False False now clk t
      in (if starts_acquisition then t1\<lparr>ts_agent_process_acquisition_pending := True\<rparr> else t1, mutation))"

definition finish_agent_process_acquisition :: "terminal_state \<Rightarrow> terminal_state \<times> bool" where
  "finish_agent_process_acquisition t =
     (let reached_idle = (ts_agent_process_acquisition_pending t \<and> ts_state t = Idle);
          suppress_completion = (reached_idle \<and> ts_recent_agent_process_exit t = None)
      in (if reached_idle then t\<lparr>ts_agent_process_acquisition_pending := False\<rparr> else t,
          suppress_completion))"

end
