(* ===== verification/Terminal_Managed.thy ===== *)
theory Terminal_Managed
  imports Terminal_Reports
begin

text \<open>
  Named and managed agents (\<open>terminal/state.rs\<close>). An agent the server starts goes from
  \<open>PhasePending\<close> to \<open>PhaseActive\<close>, possibly through \<open>PhaseBlocked\<close>, or its name is cleared: when
  its process exits, when another agent shows up, when it disappears, or at the deadline.
\<close>

definition set_agent_name :: "string \<Rightarrow> terminal_state \<Rightarrow> terminal_state" where
  "set_agent_name name t =
     (let t1 = t\<lparr>ts_agent_name := then_some (name \<noteq> []) name\<rparr>
      in t1\<lparr>ts_agent_name_owner :=
           Option.bind (ts_agent_name t1) (\<lambda>_.
             or_else (map_option (\<lambda>h. \<lparr>no_agent_label = ha_agent_label h, no_session_ref = ha_session_ref h\<rparr>)
                 (ts_hook_authority t1))
               (or_else (map_option (\<lambda>s. \<lparr>no_agent_label = ps_agent s, no_session_ref = Some (ps_session_ref s)\<rparr>)
                   (ts_persisted_agent_session t1))
                 (map_option (\<lambda>l. \<lparr>no_agent_label = l, no_session_ref = None\<rparr>)
                   (effective_agent_label t1))))\<rparr>)"

definition begin_managed_agent ::
  "string \<Rightarrow> agent \<Rightarrow> instant \<Rightarrow> duration \<Rightarrow> duration \<Rightarrow> terminal_state \<Rightarrow> terminal_state" where
  "begin_managed_agent name kind now settle_delay timeout t =
     (set_agent_name name t)
       \<lparr>ts_agent_name_owner := Some \<lparr>no_agent_label = agent_label kind, no_session_ref = None\<rparr>,
        ts_managed_agent := Some \<lparr>ma_kind = kind, ma_phase =
          PhasePending (Some (unwrap_or (checked_add now settle_delay) now))
            (unwrap_or (checked_add now timeout) now) False\<rparr>\<rparr>"

definition restore_managed_agent :: "string \<Rightarrow> agent \<Rightarrow> terminal_state \<Rightarrow> terminal_state" where
  "restore_managed_agent name kind t =
     (set_agent_name name t)
       \<lparr>ts_agent_name_owner := Some \<lparr>no_agent_label = agent_label kind, no_session_ref = None\<rparr>,
        ts_managed_agent := Some \<lparr>ma_kind = kind, ma_phase = PhaseActive\<rparr>\<rparr>"

fun is_pending :: "managed_phase \<Rightarrow> bool" where
  "is_pending (PhasePending _ _ _) = True"
| "is_pending _ = False"

definition managed_agent_launch_pending :: "terminal_state \<Rightarrow> bool" where
  "managed_agent_launch_pending t =
     is_some_and (ts_managed_agent t) (\<lambda>ma. is_pending (ma_phase ma) \<or> ma_phase ma = PhaseBlocked)"

definition managed_agent_interactive_ready :: "terminal_state \<Rightarrow> bool" where
  "managed_agent_interactive_ready t = is_some_and (ts_managed_agent t) (\<lambda>ma. ma_phase ma = PhaseActive)"

definition managed_agent_kind :: "terminal_state \<Rightarrow> agent option" where
  "managed_agent_kind t = map_option ma_kind (ts_managed_agent t)"

definition next_managed_agent_deadline :: "terminal_state \<Rightarrow> instant option" where
  "next_managed_agent_deadline t =
     Option.bind (ts_managed_agent t) (\<lambda>ma.
       case ma_phase ma of
         PhasePending ready_after deadline _ \<Rightarrow> Some (min (unwrap_or ready_after deadline) deadline)
       | _ \<Rightarrow> None)"

definition set_managed_phase :: "agent \<Rightarrow> managed_phase \<Rightarrow> terminal_state \<Rightarrow> terminal_state" where
  "set_managed_phase kind phase t = t\<lparr>ts_managed_agent := Some \<lparr>ma_kind = kind, ma_phase = phase\<rparr>\<rparr>"

text \<open>The block of \<open>reconcile_managed_agent_at\<close> for a pending agent.\<close>

definition reconcile_pending ::
  "agent \<Rightarrow> instant option \<Rightarrow> instant \<Rightarrow> bool \<Rightarrow> bool \<Rightarrow> instant \<Rightarrow> terminal_state \<Rightarrow> terminal_state \<times> bool" where
  "reconcile_pending kind ready_after deadline previous_observed observed now t =
     (let known = effective_known_agent t;
          keep_observing = (if observed \<noteq> previous_observed
            then (set_managed_phase kind (PhasePending ready_after deadline observed) t, True)
            else (t, False))
      in if known = Some kind \<and> ts_state t = Blocked then (set_managed_phase kind PhaseBlocked t, True)
         else if deadline \<le> now then (clear_agent_name t, True)
         else if is_none_or ready_after (\<lambda>r. r \<le> now)
         then if known = Some kind \<and> ts_state t = Idle then (set_managed_phase kind PhaseActive t, True)
              else if ready_after \<noteq> None
              then (set_managed_phase kind (PhasePending None deadline observed) t, True)
              else keep_observing
         else keep_observing)"

definition reconcile_managed_agent_at :: "instant \<Rightarrow> bool \<Rightarrow> terminal_state \<Rightarrow> terminal_state \<times> bool" where
  "reconcile_managed_agent_at now process_exited t =
     (case ts_managed_agent t of
        None \<Rightarrow> (t, False)
      | Some ma \<Rightarrow>
          let kind = ma_kind ma;
              known = effective_known_agent t;
              observed = (case ma_phase ma of
                  PhasePending _ _ seen \<Rightarrow> seen \<or> known = Some kind
                | _ \<Rightarrow> False);
              clear = (process_exited \<or> is_some_and known (\<lambda>a. a \<noteq> kind) \<or>
                is_pending (ma_phase ma) \<and> observed \<and> known = None)
          in if clear then (clear_agent_name t, True)
             else case ma_phase ma of
                 PhaseBlocked \<Rightarrow>
                   if known = Some kind \<and> ts_state t = Idle then (set_managed_phase kind PhaseActive t, True)
                   else (t, False)
               | PhasePending ready_after deadline previous_observed \<Rightarrow>
                   reconcile_pending kind ready_after deadline previous_observed observed now t
               | PhaseActive \<Rightarrow> (t, False))"

definition clear_agent_runtime_identity_after_respawn :: "terminal_state \<Rightarrow> terminal_state" where
  "clear_agent_runtime_identity_after_respawn t =
     clear_agent_name (t\<lparr>ts_detected_agent := None, ts_fallback_state := Unknown,
       ts_fallback_visible_blocker := False, ts_fallback_observed_at := None, ts_hook_authority := None,
       ts_persisted_agent_session := None, ts_agent_metadata := [], ts_metadata_report_agents := [],
       ts_suppressed := [], ts_stale_sessions := [], ts_state := Unknown,
       ts_last_agent_state_change_seq := None, ts_launch_argv := None,
       ts_respawn_shell_on_exit := False, ts_recent_agent_process_exit := None,
       ts_agent_process_acquisition_pending := False, ts_pending_agent_resume_plan := None\<rparr>)"

end
