(* ===== verification/Terminal_Metadata.thy ===== *)
theory Terminal_Metadata
  imports Terminal_Reports
begin

text \<open>
  Metadata reports (\<open>terminal/metadata.rs\<close>): titles, display names and state labels that
  integrations attach to a terminal, guarded by agent and source, ordered by sequence numbers
  and expiring.
\<close>

definition metadata_report_sequence_is_fresh :: "terminal_state \<Rightarrow> string \<Rightarrow> u64 option \<Rightarrow> bool" where
  "metadata_report_sequence_is_fresh t source seq =
     sequence_is_fresh (ts_metadata_report_sequences t) source seq"

definition metadata_report_agent :: "string \<Rightarrow> string option \<Rightarrow> string option \<Rightarrow> agent option" where
  "metadata_report_agent source label applies_to_source =
     or_else (Option.bind label parse_agent_label)
       (List.find (\<lambda>a. is_official_agent_source source (agent_label a) \<or>
          is_some_and applies_to_source (\<lambda>src. is_official_agent_source src (agent_label a))) agent_ALL)"

definition metadata_report_blocked_by_process_exit ::
  "terminal_state \<Rightarrow> string \<Rightarrow> string option \<Rightarrow> string option \<Rightarrow> bool" where
  "metadata_report_blocked_by_process_exit t source label applies_to_source =
     (case ts_recent_agent_process_exit t of
        None \<Rightarrow> False
      | Some e \<Rightarrow>
          let exited_label = agent_label (re_agent e)
          in Option.bind label parse_agent_label = Some (re_agent e) \<or>
             is_official_agent_source source exited_label \<or>
             is_some_and applies_to_source (\<lambda>src. is_official_agent_source src exited_label))"

text \<open>\<open>Result<bool, ()>\<close>: \<open>Inl ()\<close> is the error that the set of token sources is full.\<close>

definition accept_metadata_report ::
  "string \<Rightarrow> u64 option \<Rightarrow> bool \<Rightarrow> agent option \<Rightarrow> terminal_state \<Rightarrow> terminal_state \<times> (unit + bool)" where
  "accept_metadata_report source seq includes_tokens a t =
     (case seq of
        None \<Rightarrow> (t, Inr True)
      | Some n \<Rightarrow>
          if \<not> metadata_report_sequence_is_fresh t source (Some n) then (t, Inr False)
          else if includes_tokens \<and> source \<notin> set (ts_metadata_token_sequence_sources t) \<and>
            MAX_SEQUENCE_SOURCES \<le> length (ts_metadata_token_sequence_sources t)
          then (t, Inl ())
          else
            let t1 = t\<lparr>ts_metadata_report_sequences := hm_insert source n (ts_metadata_report_sequences t)\<rparr>;
                t2 = (case a of None \<Rightarrow> t1
                  | Some ag \<Rightarrow> t1\<lparr>ts_metadata_report_agents := hm_insert source ag (ts_metadata_report_agents t1)\<rparr>);
                t3 = (if includes_tokens
                  then t2\<lparr>ts_metadata_token_sequence_sources :=
                    List.insert source (ts_metadata_token_sequence_sources t2)\<rparr>
                  else t2)
            in (t3, Inr True))"

section \<open>Reports\<close>

definition set_or :: "'a option \<Rightarrow> ('a \<Rightarrow> 'm \<Rightarrow> 'm) \<Rightarrow> 'm \<Rightarrow> 'm" where
  "set_or x f m = (case x of None \<Rightarrow> m | Some y \<Rightarrow> f y m)"

text \<open>The branch of a report that clears fields: it edits the metadata in place.\<close>

definition patch_agent_metadata :: "agent_metadata_report \<Rightarrow> instant \<Rightarrow> agent_metadata \<Rightarrow> agent_metadata" where
  "patch_agent_metadata rep now m =
     (let has_set_fields = (mr_title rep \<noteq> None \<or> mr_display_agent rep \<noteq> None \<or> mr_state_labels rep \<noteq> []);
          m1 = (if mr_clear_title rep then m\<lparr>am_title := None, am_title_reported_at := None\<rparr> else m);
          m2 = (if mr_clear_display_agent rep
                then m1\<lparr>am_display_agent := None, am_display_agent_reported_at := None\<rparr> else m1);
          m3 = (if mr_clear_state_labels rep
                then m2\<lparr>am_state_labels := [], am_state_label_reported_at := []\<rparr> else m2);
          m4 = set_or (mr_agent_label rep) (\<lambda>l m. m\<lparr>am_agent_label := Some l\<rparr>) m3;
          m5 = set_or (mr_applies_to_source rep) (\<lambda>s m. m\<lparr>am_applies_to_source := Some s\<rparr>) m4;
          m6 = set_or (mr_title rep) (\<lambda>s m. m\<lparr>am_title := Some s, am_title_reported_at := Some now\<rparr>) m5;
          m7 = set_or (mr_display_agent rep)
                 (\<lambda>s m. m\<lparr>am_display_agent := Some s, am_display_agent_reported_at := Some now\<rparr>) m6;
          m8 = fold (\<lambda>(st, label) m. m\<lparr>am_state_labels := hm_insert st label (am_state_labels m),
                      am_state_label_reported_at := hm_insert st now (am_state_label_reported_at m)\<rparr>)
                 (mr_state_labels rep) m7
      in if has_set_fields \<or> mr_ttl rep \<noteq> None
         then m8\<lparr>am_reported_at := now, am_ttl := mr_ttl rep, am_expiry_event_pending := False\<rparr>
         else m8)"

text \<open>The metadata an in-place edit starts from when the source has none.\<close>

definition blank_agent_metadata :: "agent_metadata_report \<Rightarrow> instant \<Rightarrow> agent_metadata" where
  "blank_agent_metadata rep now =
     \<lparr>am_source = mr_source rep, am_agent_label = mr_agent_label rep,
      am_applies_to_source = mr_applies_to_source rep, am_title = None, am_display_agent = None,
      am_state_labels = [], am_reported_at = now, am_title_reported_at = None,
      am_display_agent_reported_at = None, am_state_label_reported_at = [], am_ttl = mr_ttl rep,
      am_expiry_event_pending = False\<rparr>"

text \<open>The other branch: the report replaces the metadata of its source.\<close>

definition reported_agent_metadata :: "agent_metadata_report \<Rightarrow> instant \<Rightarrow> agent_metadata" where
  "reported_agent_metadata rep now =
     \<lparr>am_source = mr_source rep, am_agent_label = mr_agent_label rep,
      am_applies_to_source = mr_applies_to_source rep, am_title = mr_title rep,
      am_display_agent = mr_display_agent rep, am_state_labels = mr_state_labels rep,
      am_reported_at = now, am_title_reported_at = map_option (\<lambda>_. now) (mr_title rep),
      am_display_agent_reported_at = map_option (\<lambda>_. now) (mr_display_agent rep),
      am_state_label_reported_at = hm_map_values (\<lambda>_ _. now) (mr_state_labels rep),
      am_ttl = mr_ttl rep, am_expiry_event_pending = False\<rparr>"

definition store_agent_metadata :: "agent_metadata_report \<Rightarrow> instant \<Rightarrow> terminal_state \<Rightarrow> terminal_state" where
  "store_agent_metadata rep now t =
     (let source = mr_source rep;
          metadata = ts_agent_metadata t;
          m = (if mr_clear_title rep \<or> mr_clear_display_agent rep \<or> mr_clear_state_labels rep
               then patch_agent_metadata rep now
                      (unwrap_or (hm_get metadata source) (blank_agent_metadata rep now))
               else reported_agent_metadata rep now);
          t1 = t\<lparr>ts_agent_metadata := hm_insert source m metadata\<rparr>
      in if mr_ttl rep \<noteq> None \<and>
           is_some_and (hm_get (ts_agent_metadata t1) source) (agent_metadata_is_visible_ignoring_ttl t1)
         then t1\<lparr>ts_agent_metadata :=
                hm_modify source (\<lambda>m. m\<lparr>am_expiry_event_pending := True\<rparr>) (ts_agent_metadata t1)\<rparr>
         else t1)"

definition set_agent_metadata ::
  "agent_metadata_report \<Rightarrow> instant \<Rightarrow> terminal_state \<Rightarrow> terminal_state \<times> state_mutation option" where
  "set_agent_metadata rep now t =
     (let source = mr_source rep
      in if metadata_report_blocked_by_process_exit t source (mr_agent_label rep) (mr_applies_to_source rep)
         then (t, None)
         else
           let report_agent = metadata_report_agent source (mr_agent_label rep) (mr_applies_to_source rep);
               (t1, r) = accept_metadata_report source (mr_seq rep) False report_agent t
           in if r \<noteq> Inr True then (t1, None)
              else
                let t2 = (if is_some_and (hm_get (ts_agent_metadata t1) source)
                               (\<lambda>m. agent_metadata_is_expired m now)
                          then t1\<lparr>ts_agent_metadata := hm_remove source (ts_agent_metadata t1)\<rparr> else t1);
                    prev = previous_view t2 now;
                    t3 = store_agent_metadata rep now t2;
                    (t4, change) = recompute_effective_state t3 prev now;
                    t5 = (if change \<noteq> None then clear_expiry_pending_for_hidden_metadata t4 else t4)
                in (t5, Some \<lparr>sm_effective_state_change = change, sm_session_ref_changed = False,
                              sm_agent_released = False\<rparr>))"

section \<open>Expiry\<close>

definition next_agent_metadata_expiry :: "terminal_state \<Rightarrow> instant \<Rightarrow> instant option" where
  "next_agent_metadata_expiry t clk =
     option_min
       (filter (\<lambda>deadline. clk < deadline \<or>
            list_ex (\<lambda>m. am_expiry_event_pending m \<and> agent_metadata_matches_guards t m \<and>
              agent_metadata_expiry m = Some deadline) (hm_values (ts_agent_metadata t)))
         (List.map_filter agent_metadata_expiry
           (filter (agent_metadata_matches_guards t) (hm_values (ts_agent_metadata t)))))"

definition expire_agent_metadata_at ::
  "instant \<Rightarrow> instant \<Rightarrow> terminal_state \<Rightarrow> terminal_state \<times> state_mutation option" where
  "expire_agent_metadata_at scheduled_deadline now t =
     (let due = List.map_filter (\<lambda>(source, m).
            Option.bind (agent_metadata_expiry m)
              (\<lambda>deadline. then_some (deadline \<le> now) (source, deadline))) (ts_agent_metadata t);
          (expired, stale) = partition (\<lambda>(_, deadline). scheduled_deadline \<le> deadline) due;
          expired_sources = map fst expired;
          stale_sources = map fst stale;
          remove = (\<lambda>sources t. fold (\<lambda>source t. t\<lparr>ts_agent_metadata := hm_remove source (ts_agent_metadata t)\<rparr>)
            sources t);
          t1 = remove stale_sources t
      in if expired_sources = [] then (t1, None)
         else
           let prev = \<lparr>pv_agent_label = effective_agent_label t1, pv_known_agent = effective_known_agent t1,
                 pv_state = ts_state t1,
                 pv_presentation = effective_presentation_for_state_at_ignoring_ttl t1 now\<rparr>;
               t2 = remove expired_sources t1
           in some_mutation (finish_mutation prev now False False t2))"

end
