(* ===== verification/Terminal_Facts.thy ===== *)
theory Terminal_Facts
  imports Terminal_Detect Terminal_Managed Terminal_Metadata
begin

text \<open>
  The well-formedness of a terminal and its preservation by every step of its operations. The
  lemmas come in two kinds: \<open>..._wf\<close> keeps the well-formedness, \<open>..._frame\<close> says which of the
  fields the arbitration reads are left alone.
\<close>

section \<open>Well-formedness\<close>

definition hm_all :: "('k \<Rightarrow> 'v \<Rightarrow> bool) \<Rightarrow> ('k, 'v) hashmap \<Rightarrow> bool" where
  "hm_all P m \<longleftrightarrow> list_all (\<lambda>(k, v). P k v) m"

lemma hm_all_Nil [simp]: "hm_all P []"
  by (simp add: hm_all_def)

lemma hm_all_insert [simp]: "hm_all P m \<Longrightarrow> P k v \<Longrightarrow> hm_all P (hm_insert k v m)"
  by (induction m) (auto simp: hm_all_def hm_insert_def)

lemma hm_all_remove [simp]: "hm_all P m \<Longrightarrow> hm_all P (hm_remove k m)"
  by (induction m) (auto simp: hm_all_def hm_remove_def AList.delete_eq)

lemma hm_all_retain [simp]: "hm_all P m \<Longrightarrow> hm_all P (hm_retain Q m)"
  by (auto simp: hm_all_def hm_retain_def list_all_iff)

lemma hm_all_filter [simp]: "hm_all P m \<Longrightarrow> hm_all P (filter Q m)"
  by (auto simp: hm_all_def list_all_iff)

lemma hm_all_get: "hm_all P m \<Longrightarrow> hm_get m k = Some v \<Longrightarrow> P k v"
  by (auto simp: hm_all_def list_all_iff dest: hm_get_mem)

lemma hm_all_modify:
  assumes "hm_all P m" and "\<And>v. P k v \<Longrightarrow> P k (f v)"
  shows "hm_all P (hm_modify k f m)"
proof (cases "hm_get m k")
  case None
  with assms(1) show ?thesis by (simp add: hm_modify_def)
next
  case (Some v)
  then have "P k (f v)" using assms(2) hm_all_get [OF assms(1)] by blast
  with Some assms(1) show ?thesis by (simp add: hm_modify_def)
qed

lemma hm_all_map_values: "hm_all P m \<Longrightarrow> (\<And>k v. P k v \<Longrightarrow> Q k (f k v)) \<Longrightarrow> hm_all Q (hm_map_values f m)"
  by (auto simp: hm_all_def hm_map_values_def list_all_iff)

lemma hm_wf_filter [simp]: "hm_wf m \<Longrightarrow> hm_wf (filter Q m)"
  by (simp add: hm_wf_def hm_keys_def distinct_map_filter)

text \<open>Metadata is stored under its source, and each field it has a value for has a time.\<close>

definition metadata_ok :: "string \<Rightarrow> agent_metadata \<Rightarrow> bool" where
  "metadata_ok source m \<longleftrightarrow>
     am_source m = source \<and> hm_wf (am_state_labels m) \<and> hm_wf (am_state_label_reported_at m) \<and>
     set (hm_keys (am_state_labels m)) = set (hm_keys (am_state_label_reported_at m)) \<and>
     (am_title m = None \<longleftrightarrow> am_title_reported_at m = None) \<and>
     (am_display_agent m = None \<longleftrightarrow> am_display_agent_reported_at m = None)"

text \<open>
  Only official integrations are suppressed. A report that waits behind a suppression is one of
  a full-lifecycle integration, for the source and the label of the entry, and names a session.
\<close>

definition suppressed_ok :: "string \<Rightarrow> suppressed_report \<Rightarrow> bool" where
  "suppressed_ok source su \<longleftrightarrow>
     is_official_agent_source source (su_agent_label su) \<and>
     is_none_or (su_pending_replacement_report su)
       (\<lambda>p. ha_source (pr_authority p) = source \<and> ha_agent_label (pr_authority p) = su_agent_label su \<and>
            full_lifecycle_hook_authority source (su_agent_label su) \<and>
            ha_session_ref (pr_authority p) \<noteq> None)"

definition authority_ok :: "hook_authority \<Rightarrow> bool" where
  "authority_ok h \<longleftrightarrow> \<not> session_identity_only_integration (ha_source h) (ha_agent_label h)"

definition stale_ok :: "string \<Rightarrow> stale_session list \<Rightarrow> bool" where
  "stale_ok source ss \<longleftrightarrow> ss \<noteq> [] \<and> distinct ss"

definition terminal_wf :: "terminal_state \<Rightarrow> bool" where
  "terminal_wf t \<longleftrightarrow>
     hm_wf (ts_agent_metadata t) \<and> hm_all metadata_ok (ts_agent_metadata t) \<and>
     hm_wf (ts_hook_report_sequences t) \<and>
     hm_wf (ts_suppressed t) \<and> hm_all suppressed_ok (ts_suppressed t) \<and>
     hm_wf (ts_stale_sessions t) \<and> hm_all stale_ok (ts_stale_sessions t) \<and>
     hm_wf (ts_metadata_report_sequences t) \<and> hm_wf (ts_metadata_report_agents t) \<and>
     distinct (ts_metadata_token_sequence_sources t) \<and>
     length (ts_metadata_token_sequence_sources t) \<le> MAX_SEQUENCE_SOURCES \<and>
     is_none_or (ts_hook_authority t) authority_ok \<and>
     (ts_fallback_visible_blocker t \<longrightarrow> ts_fallback_state t = Blocked)"

definition terminal_inv :: "terminal_state \<Rightarrow> bool" where
  "terminal_inv t \<longleftrightarrow> terminal_wf t \<and> ts_state t = arbitrated_state t"

lemma full_lifecycle_official:
  "full_lifecycle_hook_authority s l \<Longrightarrow> is_official_agent_source s l"
  by (auto simp: full_lifecycle_hook_authority_def is_official_agent_source_def official_agent_sources_def)

lemma terminal_new_inv: "terminal_inv (ts_new i dir)"
  by (simp add: terminal_inv_def terminal_wf_def ts_new_def arbitrated_state_def
      visible_blocker_overrides_hook_def)

section \<open>Small steps\<close>

lemma reconcile_owner_frame [simp]:
  "arbitration_inputs (reconcile_agent_name_owner l r t) = arbitration_inputs t"
  "ts_state (reconcile_agent_name_owner l r t) = ts_state t"
  by (simp_all add: reconcile_agent_name_owner_def arbitration_inputs_def split: option.split)

lemma reconcile_owner_wf [simp]:
  "terminal_wf (reconcile_agent_name_owner l r t) = terminal_wf t"
  by (simp add: reconcile_agent_name_owner_def terminal_wf_def split: option.split)

lemma clear_agent_name_frame [simp]:
  "arbitration_inputs (clear_agent_name t) = arbitration_inputs t"
  "ts_state (clear_agent_name t) = ts_state t" "terminal_wf (clear_agent_name t) = terminal_wf t"
  by (simp_all add: clear_agent_name_def arbitration_inputs_def terminal_wf_def)

lemma remember_stale_frame [simp]:
  "arbitration_inputs (remember_stale_full_lifecycle_hook_session s l r t) = arbitration_inputs t"
  "ts_state (remember_stale_full_lifecycle_hook_session s l r t) = ts_state t"
  by (simp_all add: remember_stale_full_lifecycle_hook_session_def Let_def arbitration_inputs_def)

lemma remember_stale_wf [simp]:
  assumes "terminal_wf t"
  shows "terminal_wf (remember_stale_full_lifecycle_hook_session s l r t)"
proof -
  let ?x = "\<lparr>ss_agent_label = l, ss_session_ref = r\<rparr>"
  let ?known = "unwrap_or (hm_get (ts_stale_sessions t) s) []"
  have "distinct ?known"
    using assms hm_all_get [of stale_ok "ts_stale_sessions t" s]
    by (cases "hm_get (ts_stale_sessions t) s") (auto simp: terminal_wf_def stale_ok_def)
  then have "stale_ok s (if list_ex (\<lambda>e. e = ?x) ?known then ?known else ?known @ [?x])"
    by (auto simp: stale_ok_def list_ex_iff)
  with assms show ?thesis
    by (simp add: remember_stale_full_lifecycle_hook_session_def Let_def terminal_wf_def)
qed

lemma forget_stale_frame [simp]:
  "arbitration_inputs (forget_stale_full_lifecycle_hook_session s l r t) = arbitration_inputs t"
  "ts_state (forget_stale_full_lifecycle_hook_session s l r t) = ts_state t"
  by (simp_all add: forget_stale_full_lifecycle_hook_session_def Let_def arbitration_inputs_def
      split: option.split)

lemma forget_stale_wf [simp]:
  assumes "terminal_wf t"
  shows "terminal_wf (forget_stale_full_lifecycle_hook_session s l r t)"
proof (cases "hm_get (ts_stale_sessions t) s")
  case None
  with assms show ?thesis by (simp add: forget_stale_full_lifecycle_hook_session_def)
next
  case (Some stale)
  let ?rest = "filter (\<lambda>x. ss_agent_label x \<noteq> l \<or> ss_session_ref x \<noteq> r) stale"
  from assms Some have "stale_ok s stale"
    using hm_all_get [of stale_ok "ts_stale_sessions t" s] by (auto simp: terminal_wf_def)
  then have "?rest \<noteq> [] \<Longrightarrow> stale_ok s ?rest" by (simp add: stale_ok_def)
  with Some assms show ?thesis
    by (simp add: forget_stale_full_lifecycle_hook_session_def Let_def terminal_wf_def)
qed

lemma suppress_ref_frame [simp]:
  "arbitration_inputs (suppress_full_lifecycle_hook_report_with_session_ref s l r re at t) = arbitration_inputs t"
  "ts_state (suppress_full_lifecycle_hook_report_with_session_ref s l r re at t) = ts_state t"
  by (simp_all add: suppress_full_lifecycle_hook_report_with_session_ref_def arbitration_inputs_def)

lemma suppress_ref_wf [simp]:
  "terminal_wf t \<Longrightarrow> is_official_agent_source s l \<Longrightarrow> terminal_wf (suppress_full_lifecycle_hook_report_with_session_ref s l r re at t)"
  by (simp add: suppress_full_lifecycle_hook_report_with_session_ref_def terminal_wf_def
      suppressed_ok_def)

lemma suppress_current_frame [simp]:
  "arbitration_inputs (suppress_current_full_lifecycle_hook_authority re clk t) = arbitration_inputs t"
  "ts_state (suppress_current_full_lifecycle_hook_authority re clk t) = ts_state t"
  by (simp_all add: suppress_current_full_lifecycle_hook_authority_def split: option.split)

lemma suppress_current_wf [simp]:
  "terminal_wf t \<Longrightarrow> terminal_wf (suppress_current_full_lifecycle_hook_authority re clk t)"
  by (simp add: suppress_current_full_lifecycle_hook_authority_def full_lifecycle_official
      split: option.split)

lemma suppress_report_frame [simp]:
  "arbitration_inputs (suppress_full_lifecycle_hook_report s l re clk t) = arbitration_inputs t"
  "ts_state (suppress_full_lifecycle_hook_report s l re clk t) = ts_state t"
  by (simp_all add: suppress_full_lifecycle_hook_report_def)

lemma suppress_report_wf [simp]:
  "terminal_wf t \<Longrightarrow> terminal_wf (suppress_full_lifecycle_hook_report s l re clk t)"
  by (simp add: suppress_full_lifecycle_hook_report_def full_lifecycle_official)

lemma forget_sequence_frame [simp]:
  "arbitration_inputs (forget_hook_sequence s t) = arbitration_inputs t"
  "ts_state (forget_hook_sequence s t) = ts_state t"
  "terminal_wf t \<Longrightarrow> terminal_wf (forget_hook_sequence s t)"
  by (simp_all add: forget_hook_sequence_def arbitration_inputs_def terminal_wf_def)

lemma accept_hook_report_frame [simp]:
  "arbitration_inputs (fst (accept_hook_report s n t)) = arbitration_inputs t"
  "ts_state (fst (accept_hook_report s n t)) = ts_state t"
  "terminal_wf t \<Longrightarrow> terminal_wf (fst (accept_hook_report s n t))"
  by (simp_all add: accept_hook_report_def arbitration_inputs_def terminal_wf_def split: option.split)

lemma keep_pending_frame [simp]:
  "arbitration_inputs (keep_pending_report s l st msg r n at t) = arbitration_inputs t"
  "ts_state (keep_pending_report s l st msg r n at t) = ts_state t"
  by (simp_all add: keep_pending_report_def Let_def arbitration_inputs_def)

lemma keep_pending_wf:
  assumes "terminal_wf t" and "full_lifecycle_hook_authority s l"
    and "is_none_or (hm_get (ts_suppressed t) s) (\<lambda>su. su_agent_label su = l)"
  shows "terminal_wf (keep_pending_report s l st msg r n at t)"
  using assms hm_all_get [of suppressed_ok "ts_suppressed t" s]
  by (cases "hm_get (ts_suppressed t) s")
    (auto simp: keep_pending_report_def Let_def terminal_wf_def suppressed_ok_def full_lifecycle_official)

lemma keep_selected_frame [simp]:
  "arbitration_inputs (keep_selected_session s l r clk t) = arbitration_inputs t"
  "ts_state (keep_selected_session s l r clk t) = ts_state t"
  by (simp_all add: keep_selected_session_def Let_def arbitration_inputs_def)

lemma keep_selected_wf [simp]:
  assumes "terminal_wf t" and "full_lifecycle_hook_authority s l"
  shows "terminal_wf (keep_selected_session s l r clk t)"
  using assms hm_all_get [of suppressed_ok "ts_suppressed t" s]
  by (cases "hm_get (ts_suppressed t) s")
    (auto simp: keep_selected_session_def Let_def terminal_wf_def suppressed_ok_def full_lifecycle_official)

lemma keep_started_frame [simp]:
  "arbitration_inputs (keep_started_session s l r n now t) = arbitration_inputs t"
  "ts_state (keep_started_session s l r n now t) = ts_state t"
  by (simp_all add: keep_started_session_def Let_def arbitration_inputs_def)

lemma keep_started_wf [simp]:
  assumes "terminal_wf t" and "full_lifecycle_hook_authority s l"
  shows "terminal_wf (keep_started_session s l r n now t)"
  using assms hm_all_get [of suppressed_ok "ts_suppressed t" s]
  by (cases "hm_get (ts_suppressed t) s")
    (auto simp: keep_started_session_def Let_def terminal_wf_def suppressed_ok_def full_lifecycle_official)

lemma remove_suppressed_frame [simp]:
  "arbitration_inputs (t\<lparr>ts_suppressed := m\<rparr>) = arbitration_inputs t"
  "terminal_wf t \<Longrightarrow> terminal_wf (t\<lparr>ts_suppressed := hm_remove s (ts_suppressed t)\<rparr>)"
  by (simp_all add: arbitration_inputs_def terminal_wf_def)

text \<open>Fields that the well-formedness does not constrain, or only by a predicate of their own.\<close>

lemma terminal_wf_free [simp]:
  "terminal_wf (t\<lparr>ts_state := st\<rparr>) = terminal_wf t"
  "terminal_wf (t\<lparr>ts_detected_agent := a\<rparr>) = terminal_wf t"
  "terminal_wf (t\<lparr>ts_persisted_agent_session := p\<rparr>) = terminal_wf t"
  "terminal_wf (t\<lparr>ts_recent_agent_process_exit := e\<rparr>) = terminal_wf t"
  "terminal_wf (t\<lparr>ts_agent_process_acquisition_pending := b\<rparr>) = terminal_wf t"
  "terminal_wf (t\<lparr>ts_managed_agent := ma\<rparr>) = terminal_wf t"
  "terminal_wf (t\<lparr>ts_agent_name := n\<rparr>) = terminal_wf t"
  "terminal_wf (t\<lparr>ts_agent_name_owner := ow\<rparr>) = terminal_wf t"
  by (simp_all add: terminal_wf_def)

lemma terminal_wf_authority [simp]:
  "terminal_wf t \<Longrightarrow> is_none_or h authority_ok \<Longrightarrow> terminal_wf (t\<lparr>ts_hook_authority := h\<rparr>)"
  by (simp add: terminal_wf_def)

lemma arbitration_inputs_free [simp]:
  "arbitration_inputs (t\<lparr>ts_persisted_agent_session := p\<rparr>) = arbitration_inputs t"
  "arbitration_inputs (t\<lparr>ts_managed_agent := ma\<rparr>) = arbitration_inputs t"
  "arbitration_inputs (t\<lparr>ts_agent_name := n\<rparr>) = arbitration_inputs t"
  "arbitration_inputs (t\<lparr>ts_agent_name_owner := ow\<rparr>) = arbitration_inputs t"
  "arbitration_inputs (t\<lparr>ts_agent_process_acquisition_pending := b\<rparr>) = arbitration_inputs t"
  by (simp_all add: arbitration_inputs_def)

section \<open>Recomputation\<close>

lemma fold_modify_all:
  assumes "\<And>k v. P k v \<Longrightarrow> P k (f v)"
  shows "hm_all P m \<Longrightarrow> hm_all P (fold (\<lambda>k. hm_modify k f) ks m)"
proof (induction ks arbitrary: m)
  case (Cons k ks)
  then show ?case using hm_all_modify [of P m k f] assms by simp
qed simp

lemma clear_expiry_pending_wf [simp]:
  assumes "terminal_wf t"
  shows "terminal_wf (clear_expiry_pending_for_hidden_metadata t)"
proof -
  have "metadata_ok k (m\<lparr>am_expiry_event_pending := False\<rparr>)" if "metadata_ok k m" for k m
    using that by (simp add: metadata_ok_def)
  from fold_modify_all [of metadata_ok, OF this] assms show ?thesis
    by (simp add: clear_expiry_pending_for_hidden_metadata_def terminal_wf_def fold_modify_wf)
qed

lemma recompute_wf [simp]:
  "terminal_wf t \<Longrightarrow> terminal_wf (fst (recompute_effective_state t prev now))"
  by (simp add: recompute_effective_state_def Let_def)

lemma finish_mutation_inv:
  assumes "terminal_wf t" and "pv_state prev = ts_state t"
  shows "terminal_inv (fst (finish_mutation prev now c re t))"
  using assms recompute_consistent [of prev t now]
  by (simp add: finish_mutation_def terminal_inv_def split_beta Let_def)

lemma previous_view_state [simp]: "pv_state (previous_view t now) = ts_state t"
  by (simp add: previous_view_def)

text \<open>A step that leaves the arbitration's fields and the state alone keeps the invariant.\<close>

lemma terminal_inv_frame:
  assumes "terminal_inv t" and "terminal_wf t'"
    and "arbitration_inputs t' = arbitration_inputs t" and "ts_state t' = ts_state t"
  shows "terminal_inv t'"
  using assms arbitration_inputs_determine(1) [of t' t] by (simp add: terminal_inv_def)

lemma fst_some_mutation [simp]: "fst (some_mutation r) = fst r"
  by (simp add: some_mutation_def split_beta)

end
