(* ===== verification/Terminal_Machine.thy ===== *)
theory Terminal_Machine
  imports Terminal_Facts
begin

text \<open>
  The terminal as a machine: its public operations, one step per call, and the invariant every
  step keeps. The invariant says that the terminal is well-formed and that its stored state is
  the one the arbitration of its inputs gives.
\<close>

section \<open>Hook reports\<close>

lemma route_frame [simp]:
  "arbitration_inputs (fst (route_full_lifecycle_hook_report s l st msg r n at t)) = arbitration_inputs t"
  "ts_state (fst (route_full_lifecycle_hook_report s l st msg r n at t)) = ts_state t"
  by (auto simp: route_full_lifecycle_hook_report_def Let_def split: option.split)

lemma route_wf [simp]:
  assumes "terminal_wf t"
  shows "terminal_wf (fst (route_full_lifecycle_hook_report s l st msg r n at t))"
  using assms keep_pending_wf [OF assms, of s l]
  by (auto simp: route_full_lifecycle_hook_report_def Let_def split: option.split)

lemma install_hook_authority_inv:
  assumes "terminal_wf t" and "\<not> session_identity_only_integration s l"
  shows "terminal_inv (fst (install_hook_authority s l st msg r takeover reanchor now clk t))"
proof -
  have ok: "authority_ok \<lparr>ha_source = s, ha_agent_label = l, ha_state = st, ha_message = msg,
      ha_reported_at = now, ha_session_ref = r\<rparr>"
    using assms(2) by (simp add: authority_ok_def)
  show ?thesis
    unfolding install_hook_authority_def Let_def
    by (rule finish_mutation_inv)
      (use assms(1) ok in \<open>auto split: option.split\<close>)
qed

lemma set_hook_authority_inv [simp]:
  assumes "terminal_inv t"
  shows "terminal_inv (fst (set_hook_authority_at s l st msg r n now clk t))"
proof (cases "session_identity_only_integration s l")
  case True
  with assms show ?thesis by (simp add: set_hook_authority_at_def)
next
  case False
  obtain t1 ro where route: "route_full_lifecycle_hook_report s l st msg r n now t = (t1, ro)"
    by (cases "route_full_lifecycle_hook_report s l st msg r n now t")
  have wf: "terminal_wf t" using assms by (simp add: terminal_inv_def)
  from route route_wf [OF wf, of s l st msg r n now] route_frame [of s l st msg r n now t]
  have t1: "terminal_wf t1" "arbitration_inputs t1 = arbitration_inputs t" "ts_state t1 = ts_state t"
    by simp_all
  with assms have inv1: "terminal_inv t1" by (blast intro: terminal_inv_frame)
  have inner: "terminal_inv (fst (case accept_hook_report s n (if b then forget_hook_sequence s t1 else t1) of
      (t2, False) \<Rightarrow> (t2, None)
    | (t2, True) \<Rightarrow> some_mutation (install_hook_authority s l st msg r' tk b now clk t2)))" for b r' tk
  proof -
    let ?t = "if b then forget_hook_sequence s t1 else t1"
    have t: "terminal_wf ?t" "arbitration_inputs ?t = arbitration_inputs t1" "ts_state ?t = ts_state t1"
      using t1 by simp_all
    obtain t2 ok where acc: "accept_hook_report s n ?t = (t2, ok)"
      by (cases "accept_hook_report s n ?t")
    with t accept_hook_report_frame [where s = s and n = n and t = ?t]
    have t2: "terminal_wf t2" "arbitration_inputs t2 = arbitration_inputs t1" "ts_state t2 = ts_state t1"
      by simp_all
    with inv1 have "terminal_inv t2" by (blast intro: terminal_inv_frame)
    with acc t2(1) False show ?thesis by (cases ok) (simp_all add: install_hook_authority_inv)
  qed
  from False route inv1 assms inner show ?thesis
    by (cases ro) (simp_all add: set_hook_authority_at_def Let_def)
qed

section \<open>Lifting suppression\<close>

definition validated_ok :: "string \<times> string \<times> session_ref \<times> pending_report option \<Rightarrow> bool" where
  "validated_ok v \<longleftrightarrow> (case v of (_, _, _, p) \<Rightarrow> is_none_or p (\<lambda>p. authority_ok (pr_authority p)))"

lemma adopt_validated_wf:
  "terminal_wf t \<Longrightarrow> validated_ok v \<Longrightarrow>
     terminal_wf (adopt_validated_session v t) \<and> ts_state (adopt_validated_session v t) = ts_state t"
proof -
  assume t: "terminal_wf t" and v: "validated_ok v"
  obtain s l r p where [simp]: "v = (s, l, r, p)" by (cases v)
  let ?t = "(reconcile_agent_name_owner l (Some r) (forget_stale_full_lifecycle_hook_session s l r t))
    \<lparr>ts_persisted_agent_session := Some \<lparr>ps_source = s, ps_agent = l, ps_session_ref = r\<rparr>\<rparr>"
  have wf: "terminal_wf ?t" and st: "ts_state ?t = ts_state t" using t by simp_all
  have "terminal_wf (?t\<lparr>ts_hook_report_sequences := hm_insert s n (ts_hook_report_sequences ?t),
      ts_hook_authority := Some h\<rparr>)" if "authority_ok h" for n h
    using wf that by (simp add: terminal_wf_def)
  with wf st v show ?thesis
    by (cases p) (simp_all add: adopt_validated_session_def Let_def validated_ok_def)
qed

lemma fold_adopt_wf:
  "terminal_wf t \<Longrightarrow> list_all validated_ok vs \<Longrightarrow>
     terminal_wf (fold adopt_validated_session vs t) \<and>
     ts_state (fold adopt_validated_session vs t) = ts_state t"
  by (induction vs arbitrary: t) (simp_all add: adopt_validated_wf)

lemma fold_remember_wf:
  "terminal_wf t \<Longrightarrow>
     terminal_wf (fold (\<lambda>(s, x). remember_stale_full_lifecycle_hook_session s (ss_agent_label x)
       (ss_session_ref x)) xs t) \<and>
     ts_state (fold (\<lambda>(s, x). remember_stale_full_lifecycle_hook_session s (ss_agent_label x)
       (ss_session_ref x)) xs t) = ts_state t"
  by (induction xs arbitrary: t) (simp_all add: split_beta)

lemma lifted_validated_ok:
  assumes "suppressed_ok s su" and "v \<in> set (outcome_validated (s, lift_suppression_entry sq a s su))"
  shows "validated_ok v"
proof -
  have "is_none_or (su_pending_replacement_report su) (\<lambda>p. authority_ok (pr_authority p))"
    using assms(1) by (cases "su_pending_replacement_report su")
      (auto simp: suppressed_ok_def authority_ok_def full_lifecycle_not_identity_only)
  then have "is_none_or (opt_filter Q (su_pending_replacement_report su))
      (\<lambda>p. authority_ok (pr_authority p))" for Q
    by (cases "su_pending_replacement_report su") simp_all
  with assms(2) show ?thesis
    by (auto simp: outcome_validated_def lift_suppression_entry_def Let_def validated_ok_def
        split: suppression_outcome.splits option.splits if_splits)
qed

lemma clear_suppression_wf:
  assumes "terminal_wf t"
  shows "terminal_wf (clear_full_lifecycle_hook_suppression_for_detected_agent p a t) \<and>
    ts_state (clear_full_lifecycle_hook_suppression_for_detected_agent p a t) = ts_state t"
proof (cases a)
  case None
  with assms show ?thesis by (simp add: clear_full_lifecycle_hook_suppression_for_detected_agent_def)
next
  case [simp]: (Some ag)
  show ?thesis
  proof (cases "p = Some ag")
    case True
    with assms show ?thesis by (simp add: clear_full_lifecycle_hook_suppression_for_detected_agent_def)
  next
    case False
    define lift where "lift = (\<lambda>(source, su).
      (source, lift_suppression_entry (ts_hook_report_sequences t) ag source su))"
    define stale where "stale = concat (map outcome_stale (map lift (ts_suppressed t)))"
    define validated where "validated = concat (map outcome_validated (map lift (ts_suppressed t)))"
    define t1 where "t1 = t\<lparr>ts_suppressed := filter (\<lambda>e. snd (lift e) = KeepSuppressed) (ts_suppressed t)\<rparr>"
    define t2 where "t2 = fold (\<lambda>(s, x). remember_stale_full_lifecycle_hook_session s (ss_agent_label x)
       (ss_session_ref x)) stale t1"
    define t3 where "t3 = t2\<lparr>ts_hook_report_sequences := hm_retain
       (\<lambda>source _. list_ex (\<lambda>v. fst v = source) validated \<or>
         \<not> full_lifecycle_hook_authority source (agent_label ag)) (ts_hook_report_sequences t2)\<rparr>"
    have "hm_all suppressed_ok (ts_suppressed t)" using assms by (simp add: terminal_wf_def)
    then have "list_all validated_ok validated"
      using lifted_validated_ok
      by (fastforce simp: list_all_iff validated_def hm_all_def lift_def)
    moreover have "terminal_wf t1" "ts_state t1 = ts_state t"
      using assms by (simp_all add: t1_def terminal_wf_def)
    then have "terminal_wf t2" "ts_state t2 = ts_state t"
      using fold_remember_wf [of t1 stale] by (simp_all add: t2_def)
    then have "terminal_wf t3" "ts_state t3 = ts_state t"
      by (simp_all add: t3_def terminal_wf_def)
    ultimately have "terminal_wf (fold adopt_validated_session validated t3) \<and>
        ts_state (fold adopt_validated_session validated t3) = ts_state t"
      using fold_adopt_wf [of t3 validated] by simp
    with False show ?thesis
      by (simp add: clear_full_lifecycle_hook_suppression_for_detected_agent_def Let_def
          lift_def t1_def t2_def t3_def stale_def validated_def)
  qed
qed

section \<open>Session reports\<close>

lemma take_agent_session_inv:
  assumes "terminal_wf t"
  shows "terminal_inv (fst (take_agent_session s l r allowed takeover replaced now clk t))"
  unfolding take_agent_session_def Let_def
  by (rule finish_mutation_inv) (use assms in \<open>auto split: option.split\<close>)

lemma offer_agent_session_inv:
  assumes "terminal_inv t"
  shows "terminal_inv (fst (offer_agent_session s l r start present now clk t))"
proof -
  have "terminal_wf t" using assms by (simp add: terminal_inv_def)
  with assms show ?thesis
    by (simp add: offer_agent_session_def Let_def take_agent_session_inv)
qed

lemma set_agent_session_ref_inv [simp]:
  assumes "terminal_inv t"
  shows "terminal_inv (fst (set_agent_session_ref_for_session_start s l r n start now clk t))"
proof (cases r)
  case None
  with assms show ?thesis by (simp add: set_agent_session_ref_for_session_start_def)
next
  case [simp]: (Some ref)
  have wf: "terminal_wf t" using assms by (simp add: terminal_inv_def)
  define t1 where "t1 = (if is_unsequenced_opencode_selection s l start n \<and> agent_process_present t l
    then t\<lparr>ts_suppressed := hm_remove s (ts_suppressed t)\<rparr> else t)"
  have t1: "terminal_wf t1" "ts_state t1 = ts_state t" "arbitration_inputs t1 = arbitration_inputs t"
    using wf by (simp_all add: t1_def)
  then have inv1: "terminal_inv t1" using assms by (blast intro: terminal_inv_frame)
  have selected: "terminal_inv (keep_selected_session s l ref clk t)"
    if "full_lifecycle_hook_authority s l"
    using assms wf that by (auto intro: terminal_inv_frame)
  have started: "terminal_inv (keep_started_session s l ref m now t1)"
    if "full_lifecycle_hook_authority s l" for m
    using inv1 t1(1) that by (auto intro: terminal_inv_frame)
  have lifted: "terminal_inv (fst (finish_mutation (previous_view t1 now) now c False
      (clear_full_lifecycle_hook_suppression_for_detected_agent None k (keep_started_session s l ref m now t1))))"
    if "full_lifecycle_hook_authority s l" for c k m
    using that clear_suppression_wf [of "keep_started_session s l ref m now t1" None k] t1(1)
    by (intro finish_mutation_inv) simp_all
  obtain t2 ok where acc: "accept_hook_report s n t1 = (t2, ok)" by (cases "accept_hook_report s n t1")
  with t1 accept_hook_report_frame [where s = s and n = n and t = t1] inv1 have inv2: "terminal_inv t2"
    by (auto intro: terminal_inv_frame)
  show ?thesis
    unfolding set_agent_session_ref_for_session_start_def
    using selected started lifted inv1 inv2 acc offer_agent_session_inv [OF inv1]
      offer_agent_session_inv [OF inv2]
    by (auto simp: Let_def t1_def [symmetric] split: option.split)
qed

section \<open>Clearing and releasing\<close>

lemma clear_hook_authority_inv [simp]:
  assumes "terminal_inv t"
  shows "terminal_inv (fst (clear_hook_authority_with_mutation s n now clk t))"
proof -
  have wf: "terminal_wf t" using assms by (simp add: terminal_inv_def)
  have fin: "terminal_inv (fst (finish_mutation (previous_view u now) now c False
      (suppress_current_full_lifecycle_hook_authority HookClear clk u
        \<lparr>ts_hook_authority := None, ts_persisted_agent_session := None\<rparr>)))" if "terminal_wf u" for u c
    using that by (intro finish_mutation_inv) simp_all
  have acc: "terminal_inv (fst (accept_hook_report x n t))" "terminal_wf (fst (accept_hook_report x n t))" for x
    using assms wf by (auto intro: terminal_inv_frame)
  show ?thesis
    using assms wf fin acc
    by (auto simp: clear_hook_authority_with_mutation_def Let_def split_beta split: option.split)
qed

lemma release_agent_inv [simp]:
  assumes "terminal_inv t"
  shows "terminal_inv (fst (release_agent_with_mutation s l n now clk t))"
proof -
  have wf: "terminal_wf t" using assms by (simp add: terminal_inv_def)
  have forgotten: "terminal_wf (u\<lparr>ts_detected_agent := None, ts_fallback_state := Unknown,
      ts_fallback_visible_blocker := False, ts_fallback_observed_at := None\<rparr>)" if "terminal_wf u" for u
    using that by (simp add: terminal_wf_def)
  have acc: "terminal_inv (fst (accept_hook_report s n t))" "terminal_wf (fst (accept_hook_report s n t))"
    using assms wf by (auto intro: terminal_inv_frame)
  show ?thesis
    unfolding release_agent_with_mutation_def Let_def split_beta
    using assms acc
    by (auto intro!: finish_mutation_inv simp: forgotten)
qed

end
