(* ===== verification/Terminal_Ops.thy ===== *)
theory Terminal_Ops
  imports Terminal_Machine
begin

text \<open>
  Detection, managed agents and metadata keep the invariant of a terminal, and the machine of
  all its operations with the interpretation of \<open>op_machine\<close>.
\<close>

section \<open>Process exit\<close>

lemma fold_forget_sequence [simp]:
  "terminal_wf t \<Longrightarrow> terminal_wf (fold forget_hook_sequence ss t)"
  "ts_state (fold forget_hook_sequence ss u) = ts_state u"
proof -
  show "terminal_wf t \<Longrightarrow> terminal_wf (fold forget_hook_sequence ss t)"
    by (induction ss arbitrary: t) simp_all
  show "ts_state (fold forget_hook_sequence ss u) = ts_state u"
    by (induction ss arbitrary: u) simp_all
qed

lemma fold_remember_triples [simp]:
  "terminal_wf t \<Longrightarrow>
     terminal_wf (fold (\<lambda>(s, l, r). remember_stale_full_lifecycle_hook_session s l r) xs t)"
  "ts_state (fold (\<lambda>(s, l, r). remember_stale_full_lifecycle_hook_session s l r) xs u) = ts_state u"
proof -
  show "terminal_wf t \<Longrightarrow>
      terminal_wf (fold (\<lambda>(s, l, r). remember_stale_full_lifecycle_hook_session s l r) xs t)"
    by (induction xs arbitrary: t) (simp_all add: split_beta)
  show "ts_state (fold (\<lambda>(s, l, r). remember_stale_full_lifecycle_hook_session s l r) xs u) = ts_state u"
    by (induction xs arbitrary: u) (simp_all add: split_beta)
qed

lemma length_removeAll_le: "length xs \<le> n \<Longrightarrow> length (removeAll x xs) \<le> n"
  unfolding removeAll_filter_not_eq by (rule le_trans [OF length_filter_le])

lemma fold_forget_metadata_source [simp]:
  "terminal_wf t \<Longrightarrow> terminal_wf (fold forget_metadata_source ss t)"
  "ts_state (fold forget_metadata_source ss u) = ts_state u"
proof -
  show "terminal_wf t \<Longrightarrow> terminal_wf (fold forget_metadata_source ss t)"
  proof (induction ss arbitrary: t)
    case (Cons s ss)
    then have "terminal_wf (forget_metadata_source s t)"
      by (simp add: forget_metadata_source_def terminal_wf_def distinct_removeAll length_removeAll_le)
    with Cons.IH show ?case by simp
  qed simp
  show "ts_state (fold forget_metadata_source ss u) = ts_state u"
    by (induction ss arbitrary: u) (simp_all add: forget_metadata_source_def)
qed

lemma fold_forget_metadata_generation [simp]:
  "terminal_wf t \<Longrightarrow> terminal_wf (fold forget_metadata_generation ss t)"
  "ts_state (fold forget_metadata_generation ss u) = ts_state u"
proof -
  show "terminal_wf t \<Longrightarrow> terminal_wf (fold forget_metadata_generation ss t)"
  proof (induction ss arbitrary: t)
    case (Cons s ss)
    then have "terminal_wf (forget_metadata_generation s t)"
      by (simp add: forget_metadata_generation_def terminal_wf_def distinct_removeAll length_removeAll_le)
    with Cons.IH show ?case by simp
  qed simp
  show "ts_state (fold forget_metadata_generation ss u) = ts_state u"
    by (induction ss arbitrary: u) (simp_all add: forget_metadata_generation_def)
qed

lemma exit_suppressions_wf [simp]:
  assumes "terminal_wf t"
  shows "terminal_wf (exit_suppressions a now t)" and "ts_state (exit_suppressions a now t) = ts_state t"
proof -
  have "hm_all suppressed_ok (hm_map_values
      (\<lambda>_ su. if exit_suppression_applies a su then exit_suppression_entry now su else su) (ts_suppressed t))"
    by (rule hm_all_map_values [of suppressed_ok])
      (use assms in \<open>auto simp: terminal_wf_def suppressed_ok_def exit_suppression_entry_def\<close>)
  with assms have "terminal_wf (t\<lparr>ts_suppressed := hm_map_values
      (\<lambda>_ su. if exit_suppression_applies a su then exit_suppression_entry now su else su) (ts_suppressed t)\<rparr>)"
    by (simp add: terminal_wf_def)
  then show "terminal_wf (exit_suppressions a now t)"
    by (simp add: exit_suppressions_def Let_def)
  show "ts_state (exit_suppressions a now t) = ts_state t"
    by (simp add: exit_suppressions_def Let_def)
qed

lemma exited_official_session_official:
  "exited_official_session a t = Some (s, l, r) \<Longrightarrow> is_official_agent_source s l"
  by (cases "ts_hook_authority t"; cases "ts_persisted_agent_session t")
    (auto simp: exited_official_session_def then_some_def split: if_splits)

lemma exit_official_session_wf [simp]:
  "terminal_wf t \<Longrightarrow> terminal_wf (exit_official_session a now t)"
  "ts_state (exit_official_session a now u) = ts_state u"
  by (auto simp: exit_official_session_def exited_official_session_official split: option.split)

lemma exit_authority_wf [simp]:
  "terminal_wf t \<Longrightarrow> terminal_wf (exit_authority a nc t)"
  "ts_state (exit_authority a nc u) = ts_state u"
  by (simp_all add: exit_authority_def split: option.split)

lemma exit_persisted_wf [simp]:
  "terminal_wf t \<Longrightarrow> terminal_wf (exit_persisted_session a nc t)"
  "ts_state (exit_persisted_session a nc u) = ts_state u"
  by (simp_all add: exit_persisted_session_def)

lemma exit_metadata_wf [simp]:
  assumes "terminal_wf t"
  shows "terminal_wf (exit_metadata a now t)" and "ts_state (exit_metadata a now t) = ts_state t"
proof -
  have retain: "terminal_wf (u\<lparr>ts_agent_metadata := hm_retain P (ts_agent_metadata u)\<rparr>)"
      "terminal_wf (u\<lparr>ts_metadata_report_agents := hm_retain Q (ts_metadata_report_agents u)\<rparr>)"
    if "terminal_wf u" for u P Q
    using that by (simp_all add: terminal_wf_def)
  with assms show "terminal_wf (exit_metadata a now t)"
    by (auto simp: exit_metadata_def Let_def split: option.split)
  show "ts_state (exit_metadata a now t) = ts_state t"
    by (simp add: exit_metadata_def Let_def split: option.split)
qed

lemma exit_agent_process_wf [simp]:
  assumes "terminal_wf t"
  shows "terminal_wf (exit_agent_process a nc now t)" and "ts_state (exit_agent_process a nc now t) = ts_state t"
  using assms by (simp_all add: exit_agent_process_def)

section \<open>Detection\<close>

lemma drop_replaced_wf [simp]:
  "terminal_wf t \<Longrightarrow> terminal_wf (drop_replaced_authority p a now clk t)"
  "ts_state (drop_replaced_authority p a now clk u) = ts_state u"
  by (simp_all add: drop_replaced_authority_def Let_def)

lemma apply_detected_state_wf:
  assumes "terminal_wf t"
  shows "terminal_wf (apply_detected_state a fb vb ex rel now clk t)"
    and "ts_state (apply_detected_state a fb vb ex rel now clk t) = ts_state t"
proof -
  have fallback: "terminal_wf (u\<lparr>ts_fallback_state := fb, ts_fallback_visible_blocker := (vb \<and> fb = Blocked),
      ts_fallback_observed_at := Some now\<rparr>)" if "terminal_wf u" for u
    using that by (simp add: terminal_wf_def)
  have owner: "terminal_wf (case a of None \<Rightarrow> t\<lparr>ts_detected_agent := a\<rparr>
      | Some ag \<Rightarrow> reconcile_agent_name_owner (agent_label ag) None (t\<lparr>ts_detected_agent := a\<rparr>))"
    "ts_state (case a of None \<Rightarrow> t\<lparr>ts_detected_agent := a\<rparr>
      | Some ag \<Rightarrow> reconcile_agent_name_owner (agent_label ag) None (t\<lparr>ts_detected_agent := a\<rparr>)) = ts_state t"
    using assms by (simp_all split: option.split)
  show "terminal_wf (apply_detected_state a fb vb ex rel now clk t)"
    unfolding apply_detected_state_def Let_def
    using owner(1) clear_suppression_wf [OF owner(1)] fallback
    by (auto split: option.split)
  show "ts_state (apply_detected_state a fb vb ex rel now clk t) = ts_state t"
    unfolding apply_detected_state_def Let_def
    using owner clear_suppression_wf [OF owner(1)] fallback
    by (auto split: option.split)
qed

lemma set_detected_state_inv [simp]:
  assumes "terminal_inv t"
  shows "terminal_inv (fst (set_detected_state_with_screen_signals_at a fb vb vi vw ex now clk t))"
proof -
  have "terminal_wf t" using assms by (simp add: terminal_inv_def)
  then show ?thesis
    unfolding set_detected_state_with_screen_signals_at_def Let_def
    by (auto intro!: finish_mutation_inv simp: apply_detected_state_wf)
qed

lemma terminal_inv_frame_fields:
  "terminal_inv (t\<lparr>ts_agent_process_acquisition_pending := b\<rparr>) = terminal_inv t"
  "terminal_inv (t\<lparr>ts_persisted_agent_session := p\<rparr>) = terminal_inv t"
  "terminal_inv (t\<lparr>ts_managed_agent := ma\<rparr>) = terminal_inv t"
  "terminal_inv (t\<lparr>ts_agent_name_owner := ow\<rparr>) = terminal_inv t"
  "terminal_inv (t\<lparr>ts_agent_name := nm\<rparr>) = terminal_inv t"
  using arbitration_inputs_free [where t = t, THEN arbitration_inputs_determine(1)]
  by (simp_all add: terminal_inv_def)

lemma set_detected_process_inv [simp]:
  assumes "terminal_inv t"
  shows "terminal_inv (fst (set_detected_agent_process_at a now clk t))"
  using assms by (simp add: set_detected_agent_process_at_def Let_def split_beta terminal_inv_frame_fields)

lemma finish_acquisition_inv [simp]:
  "terminal_inv t \<Longrightarrow> terminal_inv (fst (finish_agent_process_acquisition t))"
  by (simp add: finish_agent_process_acquisition_def Let_def terminal_inv_frame_fields)

section \<open>Names and managed agents\<close>

lemma clear_agent_name_inv [simp]: "terminal_inv (clear_agent_name t) = terminal_inv t"
  using arbitration_inputs_determine(1) [OF clear_agent_name_frame(1), of t]
  by (simp add: terminal_inv_def)

lemma set_agent_name_inv [simp]: "terminal_inv (set_agent_name n t) = terminal_inv t"
  by (simp add: set_agent_name_def Let_def terminal_inv_frame_fields)

lemma begin_managed_inv [simp]: "terminal_inv (begin_managed_agent n k now d to t) = terminal_inv t"
  by (simp add: begin_managed_agent_def terminal_inv_frame_fields)

lemma restore_managed_inv [simp]: "terminal_inv (restore_managed_agent n k t) = terminal_inv t"
  by (simp add: restore_managed_agent_def terminal_inv_frame_fields)

lemma set_managed_phase_inv [simp]: "terminal_inv (set_managed_phase k ph t) = terminal_inv t"
  by (simp add: set_managed_phase_def terminal_inv_frame_fields)

lemma reconcile_managed_inv [simp]:
  "terminal_inv (fst (reconcile_managed_agent_at now ex t)) = terminal_inv t"
  by (auto simp: reconcile_managed_agent_at_def reconcile_pending_def Let_def
      split: option.split managed_phase.split)

lemma respawn_inv [simp]:
  "terminal_inv t \<Longrightarrow> terminal_inv (clear_agent_runtime_identity_after_respawn t)"
  by (simp add: clear_agent_runtime_identity_after_respawn_def)
    (simp add: terminal_inv_def terminal_wf_def arbitrated_state_def visible_blocker_overrides_hook_def)

section \<open>Metadata\<close>

lemma accept_metadata_frame [simp]:
  "arbitration_inputs (fst (accept_metadata_report s n tok a t)) = arbitration_inputs t"
  "ts_state (fst (accept_metadata_report s n tok a t)) = ts_state t"
  by (auto simp: accept_metadata_report_def Let_def arbitration_inputs_def split: option.split)

lemma accept_metadata_wf [simp]:
  assumes "terminal_wf t"
  shows "terminal_wf (fst (accept_metadata_report s n tok a t))"
  using assms
  by (auto simp: accept_metadata_report_def Let_def terminal_wf_def List.insert_def
      split: option.split)

lemma patch_labels_ok:
  "metadata_ok s m \<Longrightarrow>
     metadata_ok s (fold (\<lambda>(st, label) m. m\<lparr>am_state_labels := hm_insert st label (am_state_labels m),
       am_state_label_reported_at := hm_insert st now (am_state_label_reported_at m)\<rparr>) labels m)"
proof (induction labels arbitrary: m)
  case (Cons e labels)
  obtain st label where "e = (st, label)" by (cases e)
  moreover have "metadata_ok s (m\<lparr>am_state_labels := hm_insert st label (am_state_labels m),
       am_state_label_reported_at := hm_insert st now (am_state_label_reported_at m)\<rparr>)"
    using Cons.prems by (simp add: metadata_ok_def)
  ultimately show ?case using Cons.IH by simp
qed simp

lemma patch_metadata_ok:
  assumes "metadata_ok s m"
  shows "metadata_ok s (patch_agent_metadata rep now m)"
proof -
  define m3 where "m3 = (let m1 = (if mr_clear_title rep then m\<lparr>am_title := None, am_title_reported_at := None\<rparr> else m);
          m2 = (if mr_clear_display_agent rep
                then m1\<lparr>am_display_agent := None, am_display_agent_reported_at := None\<rparr> else m1)
      in (if mr_clear_state_labels rep
                then m2\<lparr>am_state_labels := [], am_state_label_reported_at := []\<rparr> else m2))"
  have m3: "metadata_ok s m3" using assms by (simp add: m3_def Let_def metadata_ok_def)
  define m7 where "m7 = set_or (mr_display_agent rep)
      (\<lambda>x m. m\<lparr>am_display_agent := Some x, am_display_agent_reported_at := Some now\<rparr>)
      (set_or (mr_title rep) (\<lambda>x m. m\<lparr>am_title := Some x, am_title_reported_at := Some now\<rparr>)
        (set_or (mr_applies_to_source rep) (\<lambda>x m. m\<lparr>am_applies_to_source := Some x\<rparr>)
          (set_or (mr_agent_label rep) (\<lambda>l m. m\<lparr>am_agent_label := Some l\<rparr>) m3)))"
  have label: "metadata_ok s (set_or x (\<lambda>l m. m\<lparr>am_agent_label := Some l\<rparr>) k)"
    and applies: "metadata_ok s (set_or x (\<lambda>l m. m\<lparr>am_applies_to_source := Some l\<rparr>) k)"
    and title: "metadata_ok s (set_or x (\<lambda>x m. m\<lparr>am_title := Some x, am_title_reported_at := Some now\<rparr>) k)"
    and display: "metadata_ok s (set_or x (\<lambda>x m. m\<lparr>am_display_agent := Some x,
      am_display_agent_reported_at := Some now\<rparr>) k)" if "metadata_ok s k" for x k
    using that by (cases x; simp add: set_or_def metadata_ok_def)+
  have "metadata_ok s m7"
    unfolding m7_def by (rule display, rule title, rule applies, rule label, rule m3)
  note m8 = patch_labels_ok [OF this, of now "mr_state_labels rep"]
  then show ?thesis
    unfolding patch_agent_metadata_def Let_def m7_def [unfolded m3_def Let_def, symmetric]
    by (auto simp: metadata_ok_def)
qed

lemma store_metadata_wf:
  assumes "terminal_wf t" and "hm_wf (mr_state_labels rep)"
  shows "terminal_wf (store_agent_metadata rep now t)"
    and "ts_state (store_agent_metadata rep now t) = ts_state t"
proof -
  let ?s = "mr_source rep"
  let ?old = "unwrap_or (hm_get (ts_agent_metadata t) ?s) (blank_agent_metadata rep now)"
  have "metadata_ok ?s ?old"
    using assms(1) hm_all_get [of metadata_ok "ts_agent_metadata t" ?s]
    by (cases "hm_get (ts_agent_metadata t) ?s")
      (auto simp: blank_agent_metadata_def metadata_ok_def terminal_wf_def)
  then have "metadata_ok ?s (patch_agent_metadata rep now ?old)" by (rule patch_metadata_ok)
  moreover have "metadata_ok ?s (reported_agent_metadata rep now)"
    using assms(2) by (simp add: reported_agent_metadata_def metadata_ok_def)
  ultimately have ins: "terminal_wf (t\<lparr>ts_agent_metadata := hm_insert ?s
      (if mr_clear_title rep \<or> mr_clear_display_agent rep \<or> mr_clear_state_labels rep
       then patch_agent_metadata rep now ?old else reported_agent_metadata rep now) (ts_agent_metadata t)\<rparr>)"
    (is "terminal_wf ?t1")
    using assms(1) by (simp add: terminal_wf_def)
  have "hm_all metadata_ok (hm_modify ?s (\<lambda>m. m\<lparr>am_expiry_event_pending := True\<rparr>) (ts_agent_metadata ?t1))"
    by (rule hm_all_modify) (use ins in \<open>auto simp: terminal_wf_def metadata_ok_def\<close>)
  with ins have "terminal_wf (?t1\<lparr>ts_agent_metadata :=
      hm_modify ?s (\<lambda>m. m\<lparr>am_expiry_event_pending := True\<rparr>) (ts_agent_metadata ?t1)\<rparr>)"
    by (simp add: terminal_wf_def)
  with ins show "terminal_wf (store_agent_metadata rep now t)"
    unfolding store_agent_metadata_def Let_def by simp
  show "ts_state (store_agent_metadata rep now t) = ts_state t"
    by (simp add: store_agent_metadata_def Let_def)
qed

lemma recompute_inv:
  assumes "terminal_wf t" and "pv_state prev = ts_state t"
  shows "terminal_inv (fst (recompute_effective_state t prev now))"
  using assms recompute_consistent [of prev t now] by (simp add: terminal_inv_def)

lemma clear_expiry_pending_inv [simp]:
  assumes "terminal_inv t"
  shows "terminal_inv (clear_expiry_pending_for_hidden_metadata t)"
proof (rule terminal_inv_frame [OF assms])
  show "terminal_wf (clear_expiry_pending_for_hidden_metadata t)"
    using assms by (simp add: terminal_inv_def)
qed simp_all

lemma set_agent_metadata_inv [simp]:
  assumes "terminal_inv t" and "hm_wf (mr_state_labels rep)"
  shows "terminal_inv (fst (set_agent_metadata rep now t))"
proof -
  have wf: "terminal_wf t" using assms(1) by (simp add: terminal_inv_def)
  have acc: "terminal_wf (fst (accept_metadata_report s n tok a t))"
    "terminal_inv (fst (accept_metadata_report s n tok a t))" for s n tok a
    using wf assms(1) by (auto intro: terminal_inv_frame)
  have removed: "terminal_wf (u\<lparr>ts_agent_metadata := hm_remove s (ts_agent_metadata u)\<rparr>)"
    if "terminal_wf u" for u s
    using that by (simp add: terminal_wf_def)
  have stored: "terminal_inv (fst (recompute_effective_state (store_agent_metadata rep now u)
      (previous_view u now) now))" if "terminal_wf u" for u
    using store_metadata_wf [OF that assms(2)] by (intro recompute_inv) simp_all
  show ?thesis
    unfolding set_agent_metadata_def Let_def split_beta
    using assms(1) acc removed stored by auto
qed

lemma fold_remove_metadata [simp]:
  "terminal_wf t \<Longrightarrow> terminal_wf (fold (\<lambda>s t. t\<lparr>ts_agent_metadata := hm_remove s (ts_agent_metadata t)\<rparr>) ss t)"
  "ts_state (fold (\<lambda>s t. t\<lparr>ts_agent_metadata := hm_remove s (ts_agent_metadata t)\<rparr>) ss u) = ts_state u"
  "arbitration_inputs (fold (\<lambda>s t. t\<lparr>ts_agent_metadata := hm_remove s (ts_agent_metadata t)\<rparr>) ss v) =
     arbitration_inputs v"
proof -
  show "terminal_wf t \<Longrightarrow>
      terminal_wf (fold (\<lambda>s t. t\<lparr>ts_agent_metadata := hm_remove s (ts_agent_metadata t)\<rparr>) ss t)"
    by (induction ss arbitrary: t) (simp_all add: terminal_wf_def)
  show "ts_state (fold (\<lambda>s t. t\<lparr>ts_agent_metadata := hm_remove s (ts_agent_metadata t)\<rparr>) ss u) = ts_state u"
    by (induction ss arbitrary: u) simp_all
  show "arbitration_inputs (fold (\<lambda>s t. t\<lparr>ts_agent_metadata := hm_remove s (ts_agent_metadata t)\<rparr>) ss v) =
      arbitration_inputs v"
    by (induction ss arbitrary: v) simp_all
qed

lemma expire_metadata_inv [simp]:
  assumes "terminal_inv t"
  shows "terminal_inv (fst (expire_agent_metadata_at dl now t))"
proof -
  have wf: "terminal_wf t" using assms by (simp add: terminal_inv_def)
  have removed: "terminal_inv (fold (\<lambda>s t. t\<lparr>ts_agent_metadata := hm_remove s (ts_agent_metadata t)\<rparr>) ss t)" for ss
    using assms wf by (auto intro: terminal_inv_frame)
  show ?thesis
    unfolding expire_agent_metadata_at_def Let_def split_beta
    using removed wf by (auto intro!: finish_mutation_inv)
qed

end
