(* ===== verification/Terminal_Calls.thy ===== *)
theory Terminal_Calls
  imports Terminal_Ops
begin

text \<open>
  The calls on a terminal as data, the machine of its operations with the interpretation of
  \<open>op_machine\<close>, the two sequence gates, and what the mutation a call returns says about the
  terminal before and after it.
\<close>

section \<open>The machine\<close>

text \<open>The calls that return a mutation; the instants are the clock readings of the call.\<close>

datatype terminal_call =
    Detect "agent option" agent_state bool bool bool bool instant instant
  | DetectProcess agent instant instant
  | HookReport string string agent_state "string option" "session_ref option" "u64 option" instant instant
  | SessionReport string string "session_ref option" "u64 option" "string option" instant instant
  | ClearHook "string option" "u64 option" instant instant
  | ReleaseAgent string string "u64 option" instant instant
  | MetadataReport agent_metadata_report instant
  | ExpireMetadata instant instant

fun perform_call :: "terminal_call \<Rightarrow> terminal_state \<Rightarrow> terminal_state \<times> state_mutation option" where
  "perform_call (Detect a fb vb vi vw ex now clk) t =
     some_mutation (set_detected_state_with_screen_signals_at a fb vb vi vw ex now clk t)"
| "perform_call (DetectProcess a now clk) t = some_mutation (set_detected_agent_process_at a now clk t)"
| "perform_call (HookReport s l st msg r n now clk) t = set_hook_authority_at s l st msg r n now clk t"
| "perform_call (SessionReport s l r n start now clk) t =
     set_agent_session_ref_for_session_start s l r n start now clk t"
| "perform_call (ClearHook s n now clk) t = clear_hook_authority_with_mutation s n now clk t"
| "perform_call (ReleaseAgent s l n now clk) t = release_agent_with_mutation s l n now clk t"
| "perform_call (MetadataReport rep now) t = set_agent_metadata rep now t"
| "perform_call (ExpireMetadata deadline now) t = expire_agent_metadata_at deadline now t"

datatype terminal_op =
    Call terminal_call
  | FinishAcquisition
  | AcceptMetadata string "u64 option" bool "agent option"
  | Title bool "string option"
  | ManualLabel string
  | ClearManualLabel
  | AgentName string
  | ClearAgentName
  | BeginManaged string agent instant duration duration
  | ReconcileManaged instant bool
  | RestoreManaged string agent
  | Respawn
  | RestoreSession persisted_session

fun terminal_step :: "terminal_state \<Rightarrow> terminal_op \<Rightarrow> terminal_state option" where
  "terminal_step t (Call c) = Some (fst (perform_call c t))"
| "terminal_step t FinishAcquisition = Some (fst (finish_agent_process_acquisition t))"
| "terminal_step t (AcceptMetadata s n tok a) = Some (fst (accept_metadata_report s n tok a t))"
| "terminal_step t (Title w s) = Some (fst (set_terminal_title w s t))"
| "terminal_step t (ManualLabel s) = Some (set_manual_label s t)"
| "terminal_step t ClearManualLabel = Some (clear_manual_label t)"
| "terminal_step t (AgentName s) = Some (set_agent_name s t)"
| "terminal_step t ClearAgentName = Some (clear_agent_name t)"
| "terminal_step t (BeginManaged s k now d to) = Some (begin_managed_agent s k now d to t)"
| "terminal_step t (ReconcileManaged now ex) = Some (fst (reconcile_managed_agent_at now ex t))"
| "terminal_step t (RestoreManaged s k) = Some (restore_managed_agent s k t)"
| "terminal_step t Respawn = Some (clear_agent_runtime_identity_after_respawn t)"
| "terminal_step t (RestoreSession p) = Some (set_persisted_agent_session p t)"

text \<open>The labels of a metadata report are a map: no state occurs twice.\<close>

fun terminal_op_ok :: "terminal_state \<Rightarrow> terminal_op \<Rightarrow> bool" where
  "terminal_op_ok t (Call (MetadataReport rep now)) = hm_wf (mr_state_labels rep)"
| "terminal_op_ok t p = True"

lemma title_inv [simp]: "terminal_inv (fst (set_terminal_title w s t)) = terminal_inv t"
  by (simp add: set_terminal_title_def Let_def terminal_inv_def terminal_wf_def
      arbitration_inputs_def
      arbitration_inputs_determine(1) [of "t\<lparr>ts_terminal_title := s, ts_revision := n\<rparr>" t for n]
      arbitration_inputs_determine(1) [of "t\<lparr>ts_terminal_title := s\<rparr>" t])

lemma manual_label_inv [simp]:
  "terminal_inv (set_manual_label s t) = terminal_inv t"
  "terminal_inv (clear_manual_label t) = terminal_inv t"
  by (simp_all add: set_manual_label_def clear_manual_label_def Let_def terminal_inv_def
      terminal_wf_def arbitration_inputs_def
      arbitration_inputs_determine(1) [of "t\<lparr>ts_manual_label := x\<rparr>" t for x])

lemma accept_metadata_inv [simp]:
  "terminal_inv t \<Longrightarrow> terminal_inv (fst (accept_metadata_report s n tok a t))"
  by (rule terminal_inv_frame) (auto simp: terminal_inv_def)

lemma perform_call_inv:
  "terminal_inv t \<Longrightarrow> terminal_op_ok t (Call c) \<Longrightarrow> terminal_inv (fst (perform_call c t))"
  by (cases c) simp_all

lemma terminal_step_inv:
  "terminal_inv t \<Longrightarrow> terminal_op_ok t p \<Longrightarrow> \<exists>t'. terminal_step t p = Some t' \<and> terminal_inv t'"
  by (cases p) (simp_all add: perform_call_inv set_persisted_agent_session_def terminal_inv_frame_fields)

interpretation terminal_machine: op_machine terminal_step terminal_op_ok terminal_inv
  by unfold_locales (rule terminal_step_inv)

section \<open>Sequence gates\<close>

definition hook_last_seq :: "terminal_state \<Rightarrow> string \<Rightarrow> u64 option" where
  "hook_last_seq t s = hm_get (ts_hook_report_sequences t) s"

definition take_hook_report :: "terminal_state \<Rightarrow> string \<Rightarrow> u64 \<Rightarrow> terminal_state \<times> bool" where
  "take_hook_report t s n = accept_hook_report s (Some n) t"

interpretation hook_gate: sequence_gate hook_last_seq take_hook_report
  by unfold_locales
    (auto simp: hook_last_seq_def take_hook_report_def accept_hook_report_def is_none_or_iff
      is_some_and_iff split: if_splits)

definition metadata_last_seq :: "terminal_state \<Rightarrow> string \<Rightarrow> u64 option" where
  "metadata_last_seq t s = hm_get (ts_metadata_report_sequences t) s"

definition take_metadata_report :: "bool \<Rightarrow> agent option \<Rightarrow> terminal_state \<Rightarrow> string \<Rightarrow> u64 \<Rightarrow> terminal_state \<times> bool" where
  "take_metadata_report tok a t s n =
     (let (t', r) = accept_metadata_report s (Some n) tok a t in (t', r = Inr True))"

interpretation metadata_gate: sequence_gate metadata_last_seq "take_metadata_report tok a"
  by unfold_locales
    (auto simp: metadata_last_seq_def take_metadata_report_def accept_metadata_report_def
      metadata_report_sequence_is_fresh_def sequence_is_fresh_def Let_def split: if_splits option.splits)

end
