(* ===== verification/Terminal_Mutations.thy ===== *)
theory Terminal_Mutations
  imports Terminal_Calls
begin

text \<open>
  What the mutation a call returns says about the terminal before and after the call, and that
  a call that returns none has not changed what the terminal shows.
\<close>

section \<open>Specification\<close>

definition change_reported :: "terminal_state \<Rightarrow> terminal_state \<Rightarrow> effective_state_change option \<Rightarrow> bool" where
  "change_reported t t' change \<longleftrightarrow>
     (case change of
        None \<Rightarrow> ts_state t' = ts_state t \<and> effective_agent_label t' = effective_agent_label t
      | Some c \<Rightarrow>
          ec_previous_state c = ts_state t \<and> ec_state c = ts_state t' \<and>
          ec_previous_agent_label c = effective_agent_label t \<and>
          ec_agent_label c = effective_agent_label t' \<and>
          ec_previous_known_agent c = effective_known_agent t \<and>
          ec_known_agent c = effective_known_agent t')"

definition mutation_reports :: "terminal_state \<Rightarrow> terminal_state \<Rightarrow> state_mutation \<Rightarrow> bool" where
  "mutation_reports t t' mu \<longleftrightarrow>
     change_reported t t' (sm_effective_state_change mu) \<and>
     (sm_session_ref_changed mu \<longleftrightarrow>
        current_session_identity_for_persistence t' \<noteq> current_session_identity_for_persistence t) \<and>
     (sm_agent_released mu \<longrightarrow> ts_agent_name t' = None \<and> ts_managed_agent t' = None)"

text \<open>What a terminal shows is a function of these fields.\<close>

definition shown_core ::
  "terminal_state \<Rightarrow> (agent option \<times> recent_process_exit option \<times> hook_authority option \<times>
    agent_state \<times> bool \<times> instant option) \<times> persisted_session option \<times> agent_state" where
  "shown_core t = (arbitration_inputs t, ts_persisted_agent_session t, ts_state t)"

definition call_reported :: "terminal_state \<Rightarrow> terminal_state \<times> state_mutation option \<Rightarrow> bool" where
  "call_reported t r \<longleftrightarrow>
     (case r of (t', None) \<Rightarrow> shown_core t' = shown_core t
      | (t', Some mu) \<Rightarrow> mutation_reports t t' mu)"

section \<open>Frames\<close>

lemma shown_core_determines:
  assumes "shown_core t = shown_core t'"
  shows "effective_agent_label t = effective_agent_label t'"
    and "effective_known_agent t = effective_known_agent t'"
    and "current_session_identity_for_persistence t = current_session_identity_for_persistence t'"
    and "ts_state t = ts_state t'"
proof -
  from assms have i: "arbitration_inputs t = arbitration_inputs t'"
    and p: "ts_persisted_agent_session t = ts_persisted_agent_session t'"
    and s: "ts_state t = ts_state t'"
    by (simp_all add: shown_core_def)
  show "effective_agent_label t = effective_agent_label t'"
    "effective_known_agent t = effective_known_agent t'"
    by (rule arbitration_inputs_determine [OF i])+
  show "current_session_identity_for_persistence t = current_session_identity_for_persistence t'"
    using i p by (simp add: arbitration_inputs_def current_session_identity_for_persistence_def
        cong: option.case_cong)
  show "ts_state t = ts_state t'" by (rule s)
qed

lemma persisted_frame [simp]:
  "ts_persisted_agent_session (fst (accept_hook_report s n t)) = ts_persisted_agent_session t"
  "ts_persisted_agent_session (forget_hook_sequence s t) = ts_persisted_agent_session t"
  "ts_persisted_agent_session (keep_pending_report s l st msg r m at t) = ts_persisted_agent_session t"
  "ts_persisted_agent_session (keep_selected_session s l r clk t) = ts_persisted_agent_session t"
  "ts_persisted_agent_session (keep_started_session s l r m now t) = ts_persisted_agent_session t"
  "ts_persisted_agent_session (fst (accept_metadata_report s n tok a t)) = ts_persisted_agent_session t"
  "ts_persisted_agent_session (clear_expiry_pending_for_hidden_metadata t) = ts_persisted_agent_session t"
  by (auto simp: accept_hook_report_def forget_hook_sequence_def keep_pending_report_def
      keep_selected_session_def keep_started_session_def accept_metadata_report_def
      clear_expiry_pending_for_hidden_metadata_def Let_def split: option.split)

lemma persisted_route [simp]:
  "ts_persisted_agent_session (fst (route_full_lifecycle_hook_report s l st msg r n at t)) =
     ts_persisted_agent_session t"
  by (auto simp: route_full_lifecycle_hook_report_def Let_def split: option.split)

lemma shown_core_frame [simp]:
  "shown_core (fst (accept_hook_report s n t)) = shown_core t"
  "shown_core (forget_hook_sequence s t) = shown_core t"
  "shown_core (keep_selected_session s l r clk t) = shown_core t"
  "shown_core (keep_started_session s l r m now t) = shown_core t"
  "shown_core (fst (accept_metadata_report s n tok a t)) = shown_core t"
  "shown_core (fst (route_full_lifecycle_hook_report s l st msg ro n at t)) = shown_core t"
  "shown_core (t\<lparr>ts_suppressed := x\<rparr>) = shown_core t"
  "shown_core (t\<lparr>ts_agent_metadata := md\<rparr>) = shown_core t"
  "shown_core (clear_expiry_pending_for_hidden_metadata t) = shown_core t"
  by (simp_all add: shown_core_def)

section \<open>The end of a call\<close>

lemma recompute_fields:
  "ts_hook_authority (fst (recompute_effective_state t prev now)) = ts_hook_authority t"
  "ts_persisted_agent_session (fst (recompute_effective_state t prev now)) = ts_persisted_agent_session t"
  "ts_agent_name (fst (recompute_effective_state t prev now)) = ts_agent_name t"
  "ts_managed_agent (fst (recompute_effective_state t prev now)) = ts_managed_agent t"
  by (simp_all add: recompute_effective_state_def clear_expiry_pending_for_hidden_metadata_def Let_def)

lemma recompute_reports:
  assumes "pv_agent_label prev = effective_agent_label t0"
    and "pv_known_agent prev = effective_known_agent t0"
    and "pv_state prev = ts_state t0" and "ts_state t1 = ts_state t0"
    and "recompute_effective_state t1 prev now = (t', change)"
  shows "change_reported t0 t' change"
proof -
  have "arbitration_inputs t' = arbitration_inputs t1"
    using recompute_inputs [of t1 prev now] assms(5) by simp
  note arb = arbitration_inputs_determine [OF this]
  have st: "ts_state t' = arbitrated_state t1"
    using recompute_state [of prev t1 now] assms(3,4,5) by simp
  show ?thesis
    using assms st arb
    by (auto simp: change_reported_def recompute_effective_state_def Let_def split: if_splits)
qed

lemma finish_reports:
  assumes "pv_agent_label prev = effective_agent_label t0"
    and "pv_known_agent prev = effective_known_agent t0"
    and "pv_state prev = ts_state t0" and "ts_state t1 = ts_state t0"
    and "c \<longleftrightarrow> current_session_identity_for_persistence t1 \<noteq> current_session_identity_for_persistence t0"
    and "rel \<Longrightarrow> ts_agent_name t1 = None \<and> ts_managed_agent t1 = None"
  shows "call_reported t0 (some_mutation (finish_mutation prev now c rel t1))"
proof -
  obtain t' change where rc: "recompute_effective_state t1 prev now = (t', change)"
    by (cases "recompute_effective_state t1 prev now")
  from recompute_fields [of t1 prev now] rc
  have "current_session_identity_for_persistence t' = current_session_identity_for_persistence t1"
    "ts_agent_name t' = ts_agent_name t1" "ts_managed_agent t' = ts_managed_agent t1"
    by (simp_all add: current_session_identity_for_persistence_def cong: option.case_cong)
  with rc recompute_reports [OF assms(1-4) rc] assms(5,6) show ?thesis
    by (simp add: call_reported_def finish_mutation_def some_mutation_def mutation_reports_def)
qed

lemma finish_reports_view:
  assumes "shown_core t0 = shown_core u" and "ts_state t1 = ts_state u"
    and "c \<longleftrightarrow> current_session_identity_for_persistence u \<noteq> current_session_identity_for_persistence t1"
    and "rel \<Longrightarrow> ts_agent_name t1 = None \<and> ts_managed_agent t1 = None"
  shows "call_reported t0 (some_mutation (finish_mutation (previous_view u now) now c rel t1))"
  by (rule finish_reports)
    (use assms shown_core_determines [OF assms(1)] in \<open>auto simp: previous_view_def\<close>)

lemma call_reported_None [simp]: "call_reported t (t', None) \<longleftrightarrow> shown_core t' = shown_core t"
  by (simp add: call_reported_def)

section \<open>The calls\<close>

lemma install_reports:
  assumes "shown_core t0 = shown_core u" and "terminal_wf u"
  shows "call_reported t0 (some_mutation (install_hook_authority s l st msg r tk ra now clk u))"
  unfolding install_hook_authority_def Let_def
  by (rule finish_reports_view) (use assms in \<open>auto split: option.split\<close>)

lemma hook_report_reports:
  assumes "terminal_inv t"
  shows "call_reported t (set_hook_authority_at s l st msg r n now clk t)"
proof -
  obtain t1 ro where route: "route_full_lifecycle_hook_report s l st msg r n now t = (t1, ro)"
    by (cases "route_full_lifecycle_hook_report s l st msg r n now t")
  have wf: "terminal_wf t" using assms by (simp add: terminal_inv_def)
  from route route_wf [OF wf, of s l st msg r n now] shown_core_frame(6) [of s l st msg r n now t]
  have t1: "terminal_wf t1" "shown_core t1 = shown_core t" by simp_all
  have inner: "call_reported t (case accept_hook_report s n (if b then forget_hook_sequence s t1 else t1) of
      (t2, False) \<Rightarrow> (t2, None)
    | (t2, True) \<Rightarrow> some_mutation (install_hook_authority s l st msg r' tk b now clk t2))" for b r' tk
  proof -
    let ?t = "if b then forget_hook_sequence s t1 else t1"
    have t: "terminal_wf ?t" "shown_core ?t = shown_core t" using t1 by simp_all
    obtain t2 ok where acc: "accept_hook_report s n ?t = (t2, ok)" by (cases "accept_hook_report s n ?t")
    with t accept_hook_report_frame(3) [of ?t s n] shown_core_frame(1) [of s n ?t]
    have t2: "terminal_wf t2" "shown_core t = shown_core t2" by simp_all
    with acc install_reports [OF t2(2,1)] show ?thesis by (cases ok) simp_all
  qed
  with route t1 show ?thesis
    by (cases ro) (simp_all add: set_hook_authority_at_def Let_def)
qed

lemma take_session_reports:
  assumes "shown_core t0 = shown_core u"
  shows "call_reported t0 (some_mutation (take_agent_session s l r al tk re now clk u))"
  unfolding take_agent_session_def Let_def
  by (rule finish_reports_view) (use assms in \<open>auto split: option.split\<close>)

lemma offer_session_reports:
  assumes "shown_core t0 = shown_core u"
  shows "call_reported t0 (offer_agent_session s l r start pp now clk u)"
  using assms take_session_reports [OF assms] by (simp add: offer_agent_session_def Let_def)

lemma session_report_reports:
  assumes "terminal_inv t"
  shows "call_reported t (set_agent_session_ref_for_session_start s l r n start now clk t)"
proof (cases r)
  case None
  then show ?thesis by (simp add: set_agent_session_ref_for_session_start_def)
next
  case [simp]: (Some ref)
  have wf: "terminal_wf t" using assms by (simp add: terminal_inv_def)
  define t1 where "t1 = (if is_unsequenced_opencode_selection s l start n \<and> agent_process_present t l
    then t\<lparr>ts_suppressed := hm_remove s (ts_suppressed t)\<rparr> else t)"
  have t1: "terminal_wf t1" "shown_core t = shown_core t1" using wf by (simp_all add: t1_def)
  have lifted: "call_reported t (some_mutation (finish_mutation (previous_view t1 now) now
      (current_session_identity_for_persistence t1 \<noteq> current_session_identity_for_persistence
        (clear_full_lifecycle_hook_suppression_for_detected_agent None k (keep_started_session s l ref m now t1)))
      False (clear_full_lifecycle_hook_suppression_for_detected_agent None k (keep_started_session s l ref m now t1))))"
    if "full_lifecycle_hook_authority s l" for k m
    using that clear_suppression_wf [of "keep_started_session s l ref m now t1" None k] t1
    by (intro finish_reports_view) simp_all
  obtain t2 ok where acc: "accept_hook_report s n t1 = (t2, ok)" by (cases "accept_hook_report s n t1")
  with t1 shown_core_frame(1) [of s n t1] have t2: "shown_core t = shown_core t2" by simp
  show ?thesis
    unfolding set_agent_session_ref_for_session_start_def
    using lifted t1(2) t2 acc offer_session_reports [OF t1(2)] offer_session_reports [OF t2]
    by (auto simp: Let_def t1_def [symmetric] split: option.split)
qed

lemma clear_hook_reports:
  "call_reported t (clear_hook_authority_with_mutation s n now clk t)"
proof -
  have fin: "call_reported t (some_mutation (finish_mutation (previous_view u now) now
      (current_session_identity_for_persistence u \<noteq> None) False
      (suppress_current_full_lifecycle_hook_authority HookClear clk u
        \<lparr>ts_hook_authority := None, ts_persisted_agent_session := None\<rparr>)))"
    if "shown_core t = shown_core u" for u
    using that by (intro finish_reports_view)
      (simp_all add: current_session_identity_for_persistence_def)
  show ?thesis
    unfolding clear_hook_authority_with_mutation_def Let_def split_beta
    using fin by (auto split: option.split)
qed

lemma release_reports:
  "call_reported t (release_agent_with_mutation s l n now clk t)"
  unfolding release_agent_with_mutation_def Let_def split_beta
  by (auto intro!: finish_reports_view simp: clear_agent_name_def)

lemma identity_detected_agent [simp]:
  "current_session_identity_for_persistence (t\<lparr>ts_detected_agent := a\<rparr>) =
     current_session_identity_for_persistence t"
  by (simp add: current_session_identity_for_persistence_def cong: option.case_cong)

lemma mutation_reports_core:
  assumes "shown_core u = shown_core t'"
  shows "change_reported t u change = change_reported t t' change"
  using shown_core_determines [OF assms] by (simp add: change_reported_def cong: option.case_cong)

lemma detect_reports:
  assumes "terminal_inv t"
  shows "call_reported t (some_mutation (set_detected_state_with_screen_signals_at a fb vb vi vw ex now clk t))"
proof -
  have wf: "terminal_wf t" using assms by (simp add: terminal_inv_def)
  have cleared: "ts_agent_name (apply_detected_state a fb vb ex True now clk t) = None \<and>
      ts_managed_agent (apply_detected_state a fb vb ex True now clk t) = None"
    by (simp add: apply_detected_state_def Let_def clear_agent_name_def)
  have applied: "call_reported t (some_mutation (finish_mutation (previous_view t now) now
      (current_session_identity_for_persistence t \<noteq> current_session_identity_for_persistence
        (apply_detected_state a fb vb ex rel now clk t)) rel (apply_detected_state a fb vb ex rel now clk t)))" for rel
    by (rule finish_reports_view) (use cleared apply_detected_state_wf(2) [OF wf] in auto)
  have kept: "call_reported t (some_mutation (finish_mutation (previous_view t now) now False False u))"
    if "u = t \<or> u = t\<lparr>ts_detected_agent := a\<rparr>" for u
    by (rule finish_reports_view) (use that in auto)
  show ?thesis
    unfolding set_detected_state_with_screen_signals_at_def Let_def
    using applied kept by simp
qed

lemma detect_process_reports:
  assumes "terminal_inv t"
  shows "call_reported t (some_mutation (set_detected_agent_process_at a now clk t))"
proof -
  let ?d = "set_detected_state_with_screen_signals_at (Some a) Unknown False False False False now clk t"
  obtain t1 mu where d: "?d = (t1, mu)" by (cases ?d)
  have "mutation_reports t (t1\<lparr>ts_agent_process_acquisition_pending := b\<rparr>) mu = mutation_reports t t1 mu" for b
    using mutation_reports_core [of "t1\<lparr>ts_agent_process_acquisition_pending := b\<rparr>" t1]
      shown_core_determines(3) [of "t1\<lparr>ts_agent_process_acquisition_pending := b\<rparr>" t1]
    by (simp add: mutation_reports_def shown_core_def arbitration_inputs_def)
  with detect_reports [OF assms, of "Some a" Unknown False False False False now clk] d show ?thesis
    by (simp add: set_detected_agent_process_at_def call_reported_def some_mutation_def)
qed

lemma metadata_report_reports:
  assumes "terminal_inv t" and "hm_wf (mr_state_labels rep)"
  shows "call_reported t (set_agent_metadata rep now t)"
proof -
  have stored: "call_reported t (let (t4, change) = recompute_effective_state (store_agent_metadata rep now u)
          (previous_view u now) now;
        t5 = (if change \<noteq> None then clear_expiry_pending_for_hidden_metadata t4 else t4)
      in (t5, Some \<lparr>sm_effective_state_change = change, sm_session_ref_changed = False,
                    sm_agent_released = False\<rparr>))"
    if "shown_core t = shown_core u" for u
  proof -
    let ?u = "store_agent_metadata rep now u"
    have u: "shown_core ?u = shown_core u" by (simp add: store_agent_metadata_def Let_def)
    obtain t4 change where rc: "recompute_effective_state ?u (previous_view u now) now = (t4, change)"
      by (cases "recompute_effective_state ?u (previous_view u now) now")
    have "change_reported t t4 change"
      by (rule recompute_reports [OF _ _ _ _ rc])
        (use shown_core_determines [OF that] shown_core_determines(4) [OF u] in \<open>simp_all add: previous_view_def\<close>)
    then have ch: "change_reported t (if change \<noteq> None then clear_expiry_pending_for_hidden_metadata t4 else t4) change"
      using mutation_reports_core [OF shown_core_frame(9), of t t4] by (cases change) simp_all
    have "current_session_identity_for_persistence t4 = current_session_identity_for_persistence t"
      using recompute_fields(1,2) [of ?u "previous_view u now" now] rc
        shown_core_determines(3) [OF trans [OF u that [symmetric]]]
      by (simp add: current_session_identity_for_persistence_def cong: option.case_cong)
    with ch rc show ?thesis
      using shown_core_determines(3) [OF shown_core_frame(9), of t4]
      by (simp add: call_reported_def mutation_reports_def)
  qed
  show ?thesis
    unfolding set_agent_metadata_def Let_def split_beta
    using stored [unfolded Let_def split_beta] by simp
qed

lemma expire_reports:
  "call_reported t (expire_agent_metadata_at deadline now t)"
proof -
  let ?remove = "\<lambda>ss (t::terminal_state). fold (\<lambda>s t. t\<lparr>ts_agent_metadata := hm_remove s (ts_agent_metadata t)\<rparr>) ss t"
  have core: "shown_core (?remove ss u) = shown_core u" for ss u
    by (induction ss arbitrary: u) simp_all
  have "call_reported t (some_mutation (finish_mutation
      \<lparr>pv_agent_label = effective_agent_label (?remove xs t), pv_known_agent = effective_known_agent (?remove xs t),
       pv_state = ts_state (?remove xs t),
       pv_presentation = effective_presentation_for_state_at_ignoring_ttl (?remove xs t) now\<rparr>
      now False False (?remove ys (?remove xs t))))" for xs ys
    by (rule finish_reports)
      (use shown_core_determines [OF core, of xs t] shown_core_determines [OF core, of ys "?remove xs t"]
       in simp_all)
  then show ?thesis
    unfolding expire_agent_metadata_at_def Let_def split_beta
    using core by simp
qed

lemma perform_call_reported:
  assumes "terminal_inv t" and "terminal_op_ok t (Call c)"
  shows "call_reported t (perform_call c t)"
  using assms
  by (cases c) (simp_all add: detect_reports detect_process_reports hook_report_reports
      session_report_reports clear_hook_reports release_reports metadata_report_reports expire_reports)

end
