(* ===== verification/Managed_Properties.thy ===== *)
theory Managed_Properties
  imports Terminal_Mutations
begin

text \<open>
  Managed agents: an abstract transition relation that \<open>reconcile_managed_agent_at\<close> implements,
  and the properties of launches that follow from it.
\<close>

section \<open>The transition relation\<close>

text \<open>
  One reconciliation sees the time, whether the process exited, the agent that is effective and
  its state.
\<close>

type_synonym observation = "instant \<times> bool \<times> agent option \<times> agent_state"

inductive managed_step :: "managed_agent option \<Rightarrow> observation \<Rightarrow> managed_agent option \<Rightarrow> bool" where
  unmanaged: "managed_step None ob None"
| exited: "managed_step (Some ma) (now, True, known, st) None"
| replaced: "known = Some a \<Longrightarrow> a \<noteq> ma_kind ma \<Longrightarrow> managed_step (Some ma) (now, ex, known, st) None"
| vanished: "ma_phase ma = PhasePending r d True \<Longrightarrow> managed_step (Some ma) (now, ex, None, st) None"
| expired: "ma_phase ma = PhasePending r d seen \<Longrightarrow> d \<le> now \<Longrightarrow> \<not> (known = Some (ma_kind ma) \<and> st = Blocked) \<Longrightarrow>
    managed_step (Some ma) (now, ex, known, st) None"
| blocked: "ma_phase ma = PhasePending r d seen \<Longrightarrow> known = Some (ma_kind ma) \<Longrightarrow>
    managed_step (Some ma) (now, False, known, Blocked) (Some \<lparr>ma_kind = ma_kind ma, ma_phase = PhaseBlocked\<rparr>)"
| settled: "ma_phase ma = PhasePending r d seen \<Longrightarrow> now < d \<Longrightarrow> is_none_or r (\<lambda>r. r \<le> now) \<Longrightarrow>
    known = Some (ma_kind ma) \<Longrightarrow>
    managed_step (Some ma) (now, False, known, Idle) (Some \<lparr>ma_kind = ma_kind ma, ma_phase = PhaseActive\<rparr>)"
| unblocked: "ma_phase ma = PhaseBlocked \<Longrightarrow> known = Some (ma_kind ma) \<Longrightarrow>
    managed_step (Some ma) (now, False, known, Idle) (Some \<lparr>ma_kind = ma_kind ma, ma_phase = PhaseActive\<rparr>)"
| waiting: "ma_phase ma = PhasePending r d seen \<Longrightarrow> now < d \<Longrightarrow> is_none_or known (\<lambda>a. a = ma_kind ma) \<Longrightarrow>
    \<not> (seen \<and> known = None) \<Longrightarrow>
    \<not> (known = Some (ma_kind ma) \<and> st = Blocked) \<Longrightarrow>
    \<not> (is_none_or r (\<lambda>r. r \<le> now) \<and> known = Some (ma_kind ma) \<and> st = Idle) \<Longrightarrow>
    managed_step (Some ma) (now, False, known, st) (Some \<lparr>ma_kind = ma_kind ma,
      ma_phase = PhasePending (if is_none_or r (\<lambda>r. r \<le> now) then None else r) d
        (seen \<or> known = Some (ma_kind ma))\<rparr>)"
| staying: "\<not> is_pending (ma_phase ma) \<Longrightarrow> is_none_or known (\<lambda>a. a = ma_kind ma) \<Longrightarrow>
    \<not> (ma_phase ma = PhaseBlocked \<and> known = Some (ma_kind ma) \<and> st = Idle) \<Longrightarrow>
    managed_step (Some ma) (now, False, known, st) (Some ma)"

inductive_cases managed_step_NoneE: "managed_step None ob m'"
inductive_cases managed_step_SomeE: "managed_step (Some ma) ob m'"

lemma managed_agent_eta [simp]: "\<lparr>ma_kind = ma_kind ma, ma_phase = ma_phase ma\<rparr> = ma"
  by (cases ma) simp

lemma set_managed_phase_managed [simp]:
  "ts_managed_agent (set_managed_phase k ph t) = Some \<lparr>ma_kind = k, ma_phase = ph\<rparr>"
  by (simp add: set_managed_phase_def)

lemma clear_agent_name_managed [simp]: "ts_managed_agent (clear_agent_name t) = None"
  by (simp add: clear_agent_name_def)

lemma reconcile_pending_step:
  assumes m: "ts_managed_agent t = Some ma" and ph: "ma_phase ma = PhasePending r d seen"
    and seen': "seen' = (seen \<or> effective_known_agent t = Some (ma_kind ma))"
    and own: "is_none_or (effective_known_agent t) (\<lambda>a. a = ma_kind ma)"
    and there: "\<not> (seen \<and> effective_known_agent t = None)"
  shows "managed_step (Some ma) (now, False, effective_known_agent t, ts_state t)
    (ts_managed_agent (fst (reconcile_pending (ma_kind ma) r d seen seen' now t)))"
proof -
  let ?mine = "effective_known_agent t = Some (ma_kind ma)" and ?due = "is_none_or r (\<lambda>r. r \<le> now)"
  have eta: "ma = \<lparr>ma_kind = ma_kind ma, ma_phase = PhasePending r d seen\<rparr>" using ph by (cases ma) simp
  consider (blocked) "?mine" "ts_state t = Blocked"
    | (expired) "\<not> (?mine \<and> ts_state t = Blocked)" "d \<le> now"
    | (settled) "?mine" "ts_state t = Idle" "now < d" "?due"
    | (waiting) "\<not> (?mine \<and> ts_state t = Blocked)" "now < d" "\<not> (?due \<and> ?mine \<and> ts_state t = Idle)"
    by (cases "d \<le> now") auto
  then show ?thesis
  proof cases
    case blocked
    with managed_step.blocked [OF ph, of "effective_known_agent t" now] show ?thesis
      by (simp add: reconcile_pending_def Let_def)
  next
    case expired
    then have "ts_managed_agent (fst (reconcile_pending (ma_kind ma) r d seen seen' now t)) = None"
      by (auto simp: reconcile_pending_def Let_def)
    then show ?thesis using managed_step.expired [OF ph expired(2,1)] by simp
  next
    case settled
    with managed_step.settled [OF ph settled(3,4), of "effective_known_agent t"] show ?thesis
      by (simp add: reconcile_pending_def Let_def)
  next
    case waiting
    have "ts_managed_agent (fst (reconcile_pending (ma_kind ma) r d seen seen' now t)) =
        Some \<lparr>ma_kind = ma_kind ma, ma_phase = PhasePending (if ?due then None else r) d seen'\<rparr>"
      using waiting m eta by (cases r) (auto simp: reconcile_pending_def Let_def not_le)
    then show ?thesis using managed_step.waiting [OF ph waiting(2) own there waiting(1,3)] by (simp add: seen')
  qed
qed

lemma reconcile_step:
  "managed_step (ts_managed_agent t) (now, ex, effective_known_agent t, ts_state t)
     (ts_managed_agent (fst (reconcile_managed_agent_at now ex t)))"
proof (cases "ts_managed_agent t")
  case None
  then show ?thesis by (simp add: reconcile_managed_agent_at_def unmanaged)
next
  case [simp]: (Some ma)
  show ?thesis
  proof (cases "ex \<or> is_some_and (effective_known_agent t) (\<lambda>a. a \<noteq> ma_kind ma)")
    case True
    then show ?thesis
      using exited [of ma now "effective_known_agent t" "ts_state t"] replaced [of "effective_known_agent t" _ ma]
      by (auto simp: reconcile_managed_agent_at_def Let_def is_some_and_iff)
  next
    case False
    then have live: "\<not> ex" "\<not> is_some_and (effective_known_agent t) (\<lambda>a. a \<noteq> ma_kind ma)" by simp_all
    show ?thesis
    proof (cases "ma_phase ma")
      case (PhasePending r d seen)
      have own: "is_none_or (effective_known_agent t) (\<lambda>a. a = ma_kind ma)"
        using live(2) by (cases "effective_known_agent t") simp_all
      note pending = reconcile_pending_step [OF Some PhasePending refl own, of now]
      show ?thesis
      proof (cases "seen \<and> effective_known_agent t = None")
        case True
        with live PhasePending vanished [of ma r d now False] show ?thesis
          by (simp add: reconcile_managed_agent_at_def Let_def)
      next
        case False
        with live PhasePending pending show ?thesis
          by (auto simp: reconcile_managed_agent_at_def Let_def)
      qed
    next
      case PhaseBlocked
      with live staying [of ma "effective_known_agent t" "ts_state t" now]
        unblocked [OF PhaseBlocked, of "effective_known_agent t" now] show ?thesis
        by (cases "effective_known_agent t") (auto simp: reconcile_managed_agent_at_def Let_def)
    next
      case PhaseActive
      with live staying [of ma "effective_known_agent t" "ts_state t" now] show ?thesis
        by (cases "effective_known_agent t") (auto simp: reconcile_managed_agent_at_def Let_def)
    qed
  qed
qed

section \<open>Runs of reconciliations\<close>

text \<open>
  Between two reconciliations the rest of the terminal may change in any way: each observation
  brings the terminal it happens in.
\<close>

fun reconcile_run ::
  "managed_agent option \<Rightarrow> (instant \<times> bool \<times> terminal_state) list \<Rightarrow> managed_agent option" where
  "reconcile_run m [] = m"
| "reconcile_run m ((now, ex, t) # obs) =
     reconcile_run (ts_managed_agent (fst (reconcile_managed_agent_at now ex (t\<lparr>ts_managed_agent := m\<rparr>)))) obs"

lemma effective_known_agent_managed [simp]:
  "effective_known_agent (t\<lparr>ts_managed_agent := m\<rparr>) = effective_known_agent t"
  using arbitration_inputs_determine(3) [OF arbitration_inputs_free(2)] .

lemma reconcile_run_step:
  "managed_step m (now, ex, effective_known_agent t, ts_state t)
     (ts_managed_agent (fst (reconcile_managed_agent_at now ex (t\<lparr>ts_managed_agent := m\<rparr>))))"
  using reconcile_step [of "t\<lparr>ts_managed_agent := m\<rparr>" now ex] by simp

section \<open>Idempotence\<close>

text \<open>A phase that a reconciliation with the same evidence leaves as it is.\<close>

definition phase_settled :: "instant \<Rightarrow> agent option \<Rightarrow> agent_state \<Rightarrow> agent \<Rightarrow> managed_phase \<Rightarrow> bool" where
  "phase_settled now known st kind ph =
     (case ph of
        PhaseActive \<Rightarrow> True
      | PhaseBlocked \<Rightarrow> \<not> (known = Some kind \<and> st = Idle)
      | PhasePending r d seen \<Rightarrow>
          now < d \<and> (known = Some kind \<longrightarrow> seen \<and> st \<noteq> Blocked) \<and>
          (seen \<longrightarrow> known \<noteq> None) \<and>
          (is_none_or r (\<lambda>x. x \<le> now) \<longrightarrow> r = None \<and> \<not> (known = Some kind \<and> st = Idle)))"

lemma set_managed_phase_frame [simp]:
  "effective_known_agent (set_managed_phase k ph t) = effective_known_agent t"
  "ts_state (set_managed_phase k ph t) = ts_state t"
  by (simp_all add: set_managed_phase_def)

lemma settled_phase_kept:
  assumes "\<not> is_some_and (effective_known_agent t) (\<lambda>a. a \<noteq> k)"
    and "phase_settled now (effective_known_agent t) (ts_state t) k ph"
  shows "reconcile_managed_agent_at now False (set_managed_phase k ph t) = (set_managed_phase k ph t, False)"
proof (cases ph)
  case (PhasePending r d seen)
  with assms show ?thesis
    by (cases "effective_known_agent t"; cases r)
      (auto simp: reconcile_managed_agent_at_def reconcile_pending_def Let_def phase_settled_def)
qed (use assms in \<open>simp_all add: reconcile_managed_agent_at_def Let_def phase_settled_def\<close>)

lemma reconcile_pending_settled:
  assumes "\<not> is_some_and (effective_known_agent t) (\<lambda>a. a \<noteq> k)"
    and seen': "seen' = (seen \<or> effective_known_agent t = Some k)"
    and "\<not> (seen' \<and> effective_known_agent t = None)"
  shows "fst (reconcile_pending k r d seen seen' now t) = clear_agent_name t \<or>
    reconcile_pending k r d seen seen' now t = (t, False) \<or>
    (\<exists>ph. fst (reconcile_pending k r d seen seen' now t) = set_managed_phase k ph t \<and>
      phase_settled now (effective_known_agent t) (ts_state t) k ph)"
    (is "?clear \<or> ?same \<or> ?phase")
proof -
  have phase: ?phase if "fst (reconcile_pending k r d seen seen' now t) = set_managed_phase k ph t"
    "phase_settled now (effective_known_agent t) (ts_state t) k ph" for ph
    using that by blast
  let ?mine = "effective_known_agent t = Some k"
  show ?thesis
  proof (cases "?mine \<and> ts_state t = Blocked")
    case True
    then have ?phase by (intro phase [of PhaseBlocked]) (simp_all add: reconcile_pending_def Let_def phase_settled_def)
    then show ?thesis by simp
  next
    case not_blocked: False
    show ?thesis
    proof (cases "d \<le> now")
      case True
      with not_blocked have ?clear by (auto simp: reconcile_pending_def Let_def)
      then show ?thesis by simp
    next
      case early: False
      show ?thesis
      proof (cases "is_none_or r (\<lambda>x. x \<le> now)")
        case True
        show ?thesis
        proof (cases "?mine \<and> ts_state t = Idle")
          case True
          with \<open>is_none_or r _\<close> early have ?phase
            by (intro phase [of PhaseActive]) (simp_all add: reconcile_pending_def Let_def phase_settled_def)
          then show ?thesis by simp
        next
          case False
          with assms not_blocked early have "phase_settled now (effective_known_agent t) (ts_state t) k (PhasePending None d seen')"
            by (auto simp: phase_settled_def)
          moreover have "fst (reconcile_pending k r d seen seen' now t) =
              set_managed_phase k (PhasePending None d seen') t \<or> ?same"
            using False \<open>is_none_or r _\<close> not_blocked early
            by (cases r) (auto simp: reconcile_pending_def Let_def)
          ultimately show ?thesis using phase by blast
        qed
      next
        case False
        with assms not_blocked early have "phase_settled now (effective_known_agent t) (ts_state t) k (PhasePending r d seen')"
          by (auto simp: phase_settled_def)
        moreover have "fst (reconcile_pending k r d seen seen' now t) =
            set_managed_phase k (PhasePending r d seen') t \<or> ?same"
          using False not_blocked early by (auto simp: reconcile_pending_def Let_def)
        ultimately show ?thesis using phase by blast
      qed
    qed
  qed
qed

lemma reconcile_phase_settled:
  assumes "ts_managed_agent t = Some ma"
  shows "fst (reconcile_managed_agent_at now ex t) = clear_agent_name t \<or>
    reconcile_managed_agent_at now ex t = (t, False) \<or>
    (\<exists>ph. fst (reconcile_managed_agent_at now ex t) = set_managed_phase (ma_kind ma) ph t \<and> \<not> ex \<and>
      \<not> is_some_and (effective_known_agent t) (\<lambda>a. a \<noteq> ma_kind ma) \<and>
      phase_settled now (effective_known_agent t) (ts_state t) (ma_kind ma) ph)"
proof (cases "ex \<or> is_some_and (effective_known_agent t) (\<lambda>a. a \<noteq> ma_kind ma)")
  case True
  with assms show ?thesis by (auto simp: reconcile_managed_agent_at_def Let_def)
next
  case False
  then have live: "\<not> ex" "\<not> is_some_and (effective_known_agent t) (\<lambda>a. a \<noteq> ma_kind ma)" by simp_all
  show ?thesis
  proof (cases "ma_phase ma")
    case (PhasePending r d seen)
    let ?seen = "seen \<or> effective_known_agent t = Some (ma_kind ma)"
    show ?thesis
    proof (cases "?seen \<and> effective_known_agent t = None")
      case True
      then have "seen" "effective_known_agent t = None" by auto
      with assms live PhasePending show ?thesis by (simp add: reconcile_managed_agent_at_def Let_def)
    next
      case False
      then have "reconcile_managed_agent_at now ex t = reconcile_pending (ma_kind ma) r d seen ?seen now t"
        using assms live PhasePending by (auto simp: reconcile_managed_agent_at_def Let_def)
      with reconcile_pending_settled [OF live(2) refl False, of r d now] live show ?thesis by simp
    qed
  next
    case PhaseBlocked
    show ?thesis
    proof (cases "effective_known_agent t = Some (ma_kind ma) \<and> ts_state t = Idle")
      case True
      with assms live PhaseBlocked
      have "fst (reconcile_managed_agent_at now ex t) = set_managed_phase (ma_kind ma) PhaseActive t"
        by (simp add: reconcile_managed_agent_at_def Let_def)
      moreover have "phase_settled now (effective_known_agent t) (ts_state t) (ma_kind ma) PhaseActive"
        by (simp add: phase_settled_def)
      ultimately show ?thesis using live by blast
    next
      case False
      with assms live PhaseBlocked have "reconcile_managed_agent_at now ex t = (t, False)"
        by (auto simp: reconcile_managed_agent_at_def Let_def)
      then show ?thesis by simp
    qed
  next
    case PhaseActive
    with assms live show ?thesis by (simp add: reconcile_managed_agent_at_def Let_def)
  qed
qed

section \<open>How a launch ends\<close>

text \<open>An observation of the launched agent, alive and effective, in a state.\<close>

fun observed_in :: "agent_state \<Rightarrow> agent \<Rightarrow> instant \<times> bool \<times> terminal_state \<Rightarrow> bool" where
  "observed_in st k (now, exited, t) \<longleftrightarrow> \<not> exited \<and> effective_known_agent t = Some k \<and> ts_state t = st"

text \<open>The agent was seen blocked, and has not been seen idle since.\<close>

fun blocked_since :: "agent \<Rightarrow> (instant \<times> bool \<times> terminal_state) list \<Rightarrow> bool" where
  "blocked_since k [] = False"
| "blocked_since k (ob # obs) =
     (blocked_since k obs \<or> observed_in Blocked k ob \<and> list_all (\<lambda>ob. \<not> observed_in Idle k ob) obs)"

definition ended_as :: "managed_agent \<Rightarrow> (instant \<times> bool \<times> terminal_state) list \<Rightarrow> managed_agent \<Rightarrow> bool" where
  "ended_as ma obs ma' \<longleftrightarrow> ma_kind ma' = ma_kind ma \<and>
     (ma_phase ma = PhaseActive \<and> ma_phase ma' = PhaseActive \<or>
      ma_phase ma' = PhaseActive \<and> list_ex (observed_in Idle (ma_kind ma)) obs \<or>
      ma_phase ma' = PhaseBlocked \<and>
        (blocked_since (ma_kind ma) obs \<or>
         ma_phase ma = PhaseBlocked \<and> list_all (\<lambda>ob. \<not> observed_in Idle (ma_kind ma) ob) obs) \<or>
      (\<exists>r d seen r' seen'. ma_phase ma = PhasePending r d seen \<and> ma_phase ma' = PhasePending r' d seen' \<and>
        list_all (\<lambda>(now, _, _). now < d) obs))"

lemma reconcile_run_gone: "reconcile_run None obs = None"
  by (induction obs) (auto simp: reconcile_managed_agent_at_def)

lemma ended_step:
  assumes "managed_step (Some ma) (now, ex, effective_known_agent t, ts_state t) (Some mb)"
    and "ended_as mb obs ma'"
  shows "ended_as ma ((now, ex, t) # obs) ma'"
  using assms
  by (cases rule: managed_step.cases) (auto simp: ended_as_def)

lemma reconcile_run_ended: "reconcile_run (Some ma) obs = Some ma' \<Longrightarrow> ended_as ma obs ma'"
proof (induction obs arbitrary: ma)
  case Nil
  then show ?case by (cases "ma_phase ma") (auto simp: ended_as_def)
next
  case (Cons ob obs)
  obtain now ex t where ob: "ob = (now, ex, t)" by (cases ob)
  let ?m = "ts_managed_agent (fst (reconcile_managed_agent_at now ex (t\<lparr>ts_managed_agent := Some ma\<rparr>)))"
  obtain mb where mb: "?m = Some mb" using Cons.prems ob by (cases ?m) (auto simp: reconcile_run_gone)
  with Cons ob have "ended_as mb obs ma'" by simp
  with ended_step [of ma now ex t mb] reconcile_run_step [of "Some ma" now ex t] mb ob show ?case by simp
qed

section \<open>Properties\<close>

text \<open>
  C23: every launch is decided by its deadline. Whatever else happens to the terminal, once a
  reconciliation runs at or after the deadline, either the agent is no longer managed, or it is of the
  kind that was launched and its phase has been earned: it is active, and some reconciliation saw it
  alive, effective and idle; or it is blocked, some reconciliation saw it alive, effective and blocked,
  and none has seen it idle since. A blocked launch counts as pending until the user answers; a launch
  that was seen neither idle nor blocked is given up.
\<close>

theorem launch_decided_by_deadline:
  assumes "ma_phase ma = PhasePending r d seen" and "list_ex (\<lambda>(now, _, _). d \<le> now) obs"
  shows "is_none_or (reconcile_run (Some ma) obs) (\<lambda>ma'. ma_kind ma' = ma_kind ma \<and>
    (ma_phase ma' = PhaseActive \<and> list_ex (observed_in Idle (ma_kind ma)) obs \<or>
     ma_phase ma' = PhaseBlocked \<and> blocked_since (ma_kind ma) obs))"
proof (cases "reconcile_run (Some ma) obs")
  case (Some ma')
  have "\<not> list_all (\<lambda>(now, _, _). now < d) obs"
    using assms(2) by (fastforce simp: list_ex_iff list_all_iff)
  with reconcile_run_ended [OF Some] assms(1) Some show ?thesis by (auto simp: ended_as_def)
qed simp

theorem launch_decided_by_deadline_witness:
  "is_none_or (reconcile_run (Some \<lparr>ma_kind = Pi, ma_phase = PhasePending None 10 False\<rparr>)
      [(3, False, ts_new [] []), (12, False, ts_new [] [])]) (\<lambda>ma'. False)"
proof -
  let ?obs = "[(3, False, ts_new [] []), (12, False, ts_new [] [])]"
  have "effective_known_agent (ts_new [] []) = None"
    by (simp add: effective_known_agent_def effective_agent_label_def ts_new_def)
  then show ?thesis
    using launch_decided_by_deadline [of "\<lparr>ma_kind = Pi, ma_phase = PhasePending None 10 False\<rparr>" None 10 False ?obs]
    by simp
qed

text \<open>
  an agent becomes interactively ready only through a reconciliation in which it was the
  effective agent of the terminal, was idle, and had not exited.
\<close>

lemma ready_only_after_idle:
  assumes "reconcile_run (Some ma) obs = Some ma'" and "ma_phase ma' = PhaseActive"
    and "ma_phase ma \<noteq> PhaseActive"
  shows "list_ex (\<lambda>(now, ex, t). \<not> ex \<and> effective_known_agent t = Some (ma_kind ma) \<and> ts_state t = Idle) obs"
  using assms(1,3)
proof (induction obs arbitrary: ma)
  case Nil
  with assms(2) show ?case by simp
next
  case (Cons ob obs)
  obtain now ex t where ob: "ob = (now, ex, t)" by (cases ob)
  let ?m = "ts_managed_agent (fst (reconcile_managed_agent_at now ex (t\<lparr>ts_managed_agent := Some ma\<rparr>)))"
  have gone: "reconcile_run None xs = None" for xs
    by (induction xs) (auto simp: reconcile_managed_agent_at_def)
  with Cons.prems(1) ob obtain mb where mb: "?m = Some mb" by (cases ?m) auto
  from reconcile_run_step [of "Some ma" now ex t] mb
  have "managed_step (Some ma) (now, ex, effective_known_agent t, ts_state t) (Some mb)" by simp
  then have "ma_kind mb = ma_kind ma \<and> (ma_phase mb \<noteq> PhaseActive \<or>
      \<not> ex \<and> effective_known_agent t = Some (ma_kind ma) \<and> ts_state t = Idle)"
    using Cons.prems(2) by (cases rule: managed_step.cases) auto
  with Cons.IH [of mb] Cons.prems(1) mb ob show ?case by auto
qed

lemma ready_only_after_idle_witness:
  "list_ex (\<lambda>(now, ex, t). \<not> ex \<and> effective_known_agent t = Some Pi \<and> ts_state t = Idle)
     [(5, False, (ts_new [] [])\<lparr>ts_detected_agent := Some Pi, ts_state := Idle\<rparr>)]"
proof -
  let ?t = "(ts_new [] [])\<lparr>ts_detected_agent := Some Pi, ts_state := Idle\<rparr>"
  let ?ma = "\<lparr>ma_kind = Pi, ma_phase = PhasePending None 10 False\<rparr>"
  have known: "effective_known_agent ?t = Some Pi"
    using parse_agent_label_of_label [of Pi]
    by (simp add: effective_known_agent_def effective_agent_label_def ts_new_def)
  then have known': "effective_known_agent (?t\<lparr>ts_managed_agent := m\<rparr>) = Some Pi" for m
    using effective_known_agent_managed [where t = ?t and m = m] by simp
  have "reconcile_run (Some ?ma) [(5, False, ?t)] = Some \<lparr>ma_kind = Pi, ma_phase = PhaseActive\<rparr>"
    using known' [of "Some ?ma"]
    by (simp add: reconcile_managed_agent_at_def reconcile_pending_def Let_def)
  from ready_only_after_idle [OF this] show ?thesis by simp
qed

text \<open>
  reconciliation never leaves a timer that is already due, so the server's timer loop does
  not spin: after a reconciliation the next managed deadline, if there is one, lies in the future.
\<close>

lemma managed_deadline_advances:
  "is_none_or (next_managed_agent_deadline (fst (reconcile_managed_agent_at now ex t))) (\<lambda>d. now < d)"
proof (cases "ts_managed_agent (fst (reconcile_managed_agent_at now ex t))")
  case None
  then show ?thesis by (simp add: next_managed_agent_deadline_def)
next
  case (Some ma')
  from reconcile_step [of t now ex] this
  have "managed_step (ts_managed_agent t) (now, ex, effective_known_agent t, ts_state t) (Some ma')" by simp
  then show ?thesis
    using Some
    by (cases rule: managed_step.cases)
      (auto simp: next_managed_agent_deadline_def is_none_or_iff unwrap_or_def
        split: managed_phase.split option.split)
qed

text \<open>
  a second reconciliation at the same time and with the same evidence does nothing and
  reports no change.
\<close>

lemma reconcile_idempotent:
  "reconcile_managed_agent_at now ex (fst (reconcile_managed_agent_at now ex t)) =
     (fst (reconcile_managed_agent_at now ex t), False)"
proof -
  have cleared: "reconcile_managed_agent_at now ex (clear_agent_name u) = (clear_agent_name u, False)" for u
    by (simp add: reconcile_managed_agent_at_def)
  show ?thesis
  proof (cases "ts_managed_agent t")
    case None
    then show ?thesis by (simp add: reconcile_managed_agent_at_def)
  next
    case (Some ma)
    consider (clear) "fst (reconcile_managed_agent_at now ex t) = clear_agent_name t"
      | (same) "reconcile_managed_agent_at now ex t = (t, False)"
      | (phase) ph where "fst (reconcile_managed_agent_at now ex t) = set_managed_phase (ma_kind ma) ph t"
          "\<not> ex" "\<not> is_some_and (effective_known_agent t) (\<lambda>a. a \<noteq> ma_kind ma)"
          "phase_settled now (effective_known_agent t) (ts_state t) (ma_kind ma) ph"
      using Some reconcile_phase_settled [OF Some, of now ex] by blast
    then show ?thesis
    proof cases
      case phase
      then show ?thesis by (simp add: settled_phase_kept)
    qed (simp_all add: cleared)
  qed
qed

text \<open>
  C24: reconciliation settles. A second reconciliation at the same time and with the same evidence does
  nothing and reports no change, and the next deadline of the managed agent, if there is one, lies in
  the future, so that the server's timer loop does not spin.
\<close>

theorem reconciliation_settles:
  "reconcile_managed_agent_at now ex (fst (reconcile_managed_agent_at now ex t)) =
     (fst (reconcile_managed_agent_at now ex t), False) \<and>
   is_none_or (next_managed_agent_deadline (fst (reconcile_managed_agent_at now ex t))) (\<lambda>d. now < d)"
  using reconcile_idempotent managed_deadline_advances by blast

end
