(* ===== verification/Terminal_Properties.thy ===== *)
theory Terminal_Properties
  imports Terminal_Mutations
begin

text \<open>
  What the terminal promises its callers: consistency of the stored state in every run, faithful
  mutations, ordering of reports, and how clearing, exiting and live authorities are respected.
\<close>

section \<open>Frames\<close>

lemma reconcile_owner_fields [simp]:
  "ts_suppressed (reconcile_agent_name_owner l r t) = ts_suppressed t"
  "ts_stale_sessions (reconcile_agent_name_owner l r t) = ts_stale_sessions t"
  "ts_hook_report_sequences (reconcile_agent_name_owner l r t) = ts_hook_report_sequences t"
  "ts_hook_authority (reconcile_agent_name_owner l r t) = ts_hook_authority t"
  "ts_detected_agent (reconcile_agent_name_owner l r t) = ts_detected_agent t"
  "ts_recent_agent_process_exit (reconcile_agent_name_owner l r t) = ts_recent_agent_process_exit t"
  "ts_persisted_agent_session (reconcile_agent_name_owner l r t) = ts_persisted_agent_session t"
  by (simp_all add: reconcile_agent_name_owner_def split: option.split)

lemma reconcile_owner_name: "ts_agent_name t = None \<Longrightarrow> reconcile_agent_name_owner l r t = t"
  by (simp add: reconcile_agent_name_owner_def)

lemma remember_stale_fields [simp]:
  "ts_suppressed (remember_stale_full_lifecycle_hook_session s l r t) = ts_suppressed t"
  "ts_hook_report_sequences (remember_stale_full_lifecycle_hook_session s l r t) = ts_hook_report_sequences t"
  "ts_hook_authority (remember_stale_full_lifecycle_hook_session s l r t) = ts_hook_authority t"
  "ts_persisted_agent_session (remember_stale_full_lifecycle_hook_session s l r t) = ts_persisted_agent_session t"
  "ts_agent_name (remember_stale_full_lifecycle_hook_session s l r t) = ts_agent_name t"
  "ts_detected_agent (remember_stale_full_lifecycle_hook_session s l r t) = ts_detected_agent t"
  "ts_recent_agent_process_exit (remember_stale_full_lifecycle_hook_session s l r t) =
     ts_recent_agent_process_exit t"
  by (simp_all add: remember_stale_full_lifecycle_hook_session_def Let_def)

lemma remember_stale_member:
  "\<exists>ss. hm_get (ts_stale_sessions (remember_stale_full_lifecycle_hook_session s l r t)) s = Some ss \<and>
     \<lparr>ss_agent_label = l, ss_session_ref = r\<rparr> \<in> set ss"
  by (auto simp: remember_stale_full_lifecycle_hook_session_def Let_def list_ex_iff)

lemma suppress_current_fields [simp]:
  "ts_stale_sessions (suppress_current_full_lifecycle_hook_authority re clk t) = ts_stale_sessions t"
  "ts_hook_report_sequences (suppress_current_full_lifecycle_hook_authority re clk t) = ts_hook_report_sequences t"
  "ts_hook_authority (suppress_current_full_lifecycle_hook_authority re clk t) = ts_hook_authority t"
  "ts_persisted_agent_session (suppress_current_full_lifecycle_hook_authority re clk t) =
     ts_persisted_agent_session t"
  "ts_agent_name (suppress_current_full_lifecycle_hook_authority re clk t) = ts_agent_name t"
  "ts_detected_agent (suppress_current_full_lifecycle_hook_authority re clk t) = ts_detected_agent t"
  "ts_recent_agent_process_exit (suppress_current_full_lifecycle_hook_authority re clk t) =
     ts_recent_agent_process_exit t"
  by (simp_all add: suppress_current_full_lifecycle_hook_authority_def
      suppress_full_lifecycle_hook_report_with_session_ref_def split: option.split)

lemma finish_mutation_fields [simp]:
  "ts_suppressed (fst (finish_mutation prev now c re t)) = ts_suppressed t"
  "ts_stale_sessions (fst (finish_mutation prev now c re t)) = ts_stale_sessions t"
  "ts_hook_report_sequences (fst (finish_mutation prev now c re t)) = ts_hook_report_sequences t"
  "ts_hook_authority (fst (finish_mutation prev now c re t)) = ts_hook_authority t"
  "ts_persisted_agent_session (fst (finish_mutation prev now c re t)) = ts_persisted_agent_session t"
  "ts_agent_name (fst (finish_mutation prev now c re t)) = ts_agent_name t"
  "ts_detected_agent (fst (finish_mutation prev now c re t)) = ts_detected_agent t"
  "ts_recent_agent_process_exit (fst (finish_mutation prev now c re t)) = ts_recent_agent_process_exit t"
  by (simp_all add: finish_mutation_def recompute_effective_state_def Let_def split_beta
      clear_expiry_pending_for_hidden_metadata_def)

lemma accept_hook_report_fields [simp]:
  "ts_suppressed (fst (accept_hook_report s n t)) = ts_suppressed t"
  "ts_stale_sessions (fst (accept_hook_report s n t)) = ts_stale_sessions t"
  "ts_hook_authority (fst (accept_hook_report s n t)) = ts_hook_authority t"
  by (simp_all add: accept_hook_report_def split: option.split)

lemma accept_hook_report_seq:
  "accept_hook_report s (Some k) t = (t', True) \<Longrightarrow> hm_get (ts_hook_report_sequences t') s = Some k"
  by (auto simp: accept_hook_report_def split: if_splits)

lemma ignored_report:
  "full_lifecycle_hook_authority s l \<Longrightarrow>
     route_full_lifecycle_hook_report s l st msg r n now t = (t', RouteIgnore) \<Longrightarrow>
     set_hook_authority_at s l st msg r n now clk t = (t', None)"
  by (simp add: set_hook_authority_at_def full_lifecycle_not_identity_only)

lemma set_hook_authority_takenE:
  assumes "set_hook_authority_at s l st msg r n now clk t = (t', Some mu)"
  obtains t1 reanchor takeover t2 r' where
    "route_full_lifecycle_hook_report s l st msg r n now t = (t1, RouteAccept reanchor)"
    "accept_hook_report s n (if reanchor then forget_hook_sequence s t1 else t1) = (t2, True)"
    "r' = settle_session_ref t1 s l r"
    "t' = fst (install_hook_authority s l st msg r' takeover reanchor now clk t2)"
proof -
  obtain t1 ro where route: "route_full_lifecycle_hook_report s l st msg r n now t = (t1, ro)"
    by (cases "route_full_lifecycle_hook_report s l st msg r n now t")
  with assms obtain re where ro: "ro = RouteAccept re"
    by (cases ro) (auto simp: set_hook_authority_at_def split: if_splits)
  obtain t2 ok where acc: "accept_hook_report s n (if re then forget_hook_sequence s t1 else t1) = (t2, ok)"
    by (cases "accept_hook_report s n (if re then forget_hook_sequence s t1 else t1)")
  from assms route ro acc have ok: ok
    by (cases ok) (auto simp: set_hook_authority_at_def Let_def split: if_splits)
  define tk where "tk = (current_session_owner_conflicts t1 s l \<and>
    foreground_agent_confirms_hook_authority_takeover t1 s l r)"
  from assms route ro acc ok have "some_mutation (install_hook_authority s l st msg
      (settle_session_ref t1 s l r) tk re now clk t2) = (t', Some mu)"
    by (simp add: set_hook_authority_at_def Let_def tk_def split: if_splits)
  then have "t' = fst (install_hook_authority s l st msg (settle_session_ref t1 s l r) tk re now clk t2)"
    by (auto simp: some_mutation_def split: prod.splits)
  then show ?thesis using that [of t1 re t2 _ tk] route ro acc ok by simp
qed

lemma clear_hook_authority_takenE:
  assumes "clear_hook_authority_with_mutation src seq now clk t = (t', Some mu)"
  obtains u prev c where "ts_hook_authority u = ts_hook_authority t"
    "t' = fst (finish_mutation prev now c False
      (suppress_current_full_lifecycle_hook_authority HookClear clk u
        \<lparr>ts_hook_authority := None, ts_persisted_agent_session := None\<rparr>))"
proof -
  define seq_src where "seq_src = or_else src (map_option ha_source (ts_hook_authority t))"
  obtain u ok where acc: "(case seq_src of Some s \<Rightarrow> accept_hook_report s seq t | None \<Rightarrow> (t, True)) = (u, ok)"
    by (cases "case seq_src of Some s \<Rightarrow> accept_hook_report s seq t | None \<Rightarrow> (t, True)")
  have same: "ts_hook_authority u = ts_hook_authority t"
  proof (cases seq_src)
    case None
    with acc show ?thesis by simp
  next
    case (Some s)
    with acc have "u = fst (accept_hook_report s seq t)" by simp
    then show ?thesis by simp
  qed
  from assms acc have "some_mutation (finish_mutation (previous_view u now) now
      (current_session_identity_for_persistence u \<noteq> None) False
      (suppress_current_full_lifecycle_hook_authority HookClear clk u
        \<lparr>ts_hook_authority := None, ts_persisted_agent_session := None\<rparr>)) = (t', Some mu)"
    by (simp add: clear_hook_authority_with_mutation_def Let_def seq_src_def [symmetric] split: if_splits)
  then have "t' = fst (finish_mutation (previous_view u now) now
      (current_session_identity_for_persistence u \<noteq> None) False
      (suppress_current_full_lifecycle_hook_authority HookClear clk u
        \<lparr>ts_hook_authority := None, ts_persisted_agent_session := None\<rparr>))"
    by (auto simp: some_mutation_def split: prod.splits)
  with same that show ?thesis by blast
qed

text \<open>The reports of a sequence that are taken, in order.\<close>

fun taken_hook_reports :: "terminal_state \<Rightarrow> (string \<times> u64) list \<Rightarrow> (string \<times> u64) list" where
  "taken_hook_reports t [] = []"
| "taken_hook_reports t ((s, n) # rs) =
     (case accept_hook_report s (Some n) t of
        (t', True) \<Rightarrow> (s, n) # taken_hook_reports t' rs
      | (t', False) \<Rightarrow> taken_hook_reports t' rs)"

lemma taken_hook_reports_run: "taken_hook_reports t rs = hook_gate.run t rs"
  by (induction rs arbitrary: t) (auto simp: take_hook_report_def [symmetric] split: prod.split bool.split)

section \<open>Properties\<close>

text \<open>
  C1: in every run of terminal operations from a new terminal nothing panics, the terminal stays
  well-formed (its maps have no duplicate keys, at most 32 token sources, every value of its
  metadata has a time, suppression is for official integrations only), and the stored state is
  the one the arbitration between hook authority and screen detection decides.
\<close>

theorem terminal_run_consistent:
  assumes "run_guarded terminal_step terminal_op_ok (ts_new i dir) ps"
  shows "\<exists>t. run_ops terminal_step (ts_new i dir) ps = Some t \<and> terminal_wf t \<and>
    ts_state t = arbitrated_state t"
  using terminal_machine.run_inv [OF terminal_new_inv assms] by (simp add: terminal_inv_def)

theorem terminal_run_consistent_witness:
  "\<exists>t. run_ops terminal_step (ts_new ''1'' ''/'')
      [Call (DetectProcess Pi 1 1), Call (HookReport ''osade:pi'' ''pi'' Working None None (Some 1) 2 2),
       ReconcileManaged 3 False, Call (Detect (Some Pi) Unknown False False False True 4 4)] = Some t \<and>
    terminal_wf t \<and> ts_state t = arbitrated_state t"
  by (rule terminal_run_consistent) simp

text \<open>
  C21: the mutation a call returns is faithful. It carries the old and the new label, agent and
  state, it is empty only if label and state are as before, its session flag is set exactly when
  the session to be saved has changed, and a released agent has lost its name.
\<close>

theorem mutation_faithful:
  assumes "terminal_inv t" and "terminal_op_ok t (Call c)" and "perform_call c t = (t', Some mu)"
  shows "mutation_reports t t' mu"
  using perform_call_reported [OF assms(1,2)] assms(3) by (simp add: call_reported_def)

theorem mutation_faithful_witness:
  "\<exists>t' mu. perform_call (Detect (Some Pi) Idle False False False False 1 1) (ts_new [] []) = (t', Some mu) \<and>
     mutation_reports (ts_new [] []) t' mu"
proof -
  let ?c = "Detect (Some Pi) Idle False False False False 1 1"
  obtain t' mu where c: "perform_call ?c (ts_new [] []) = (t', Some mu)"
    by (cases "set_detected_state_with_screen_signals_at (Some Pi) Idle False False False False 1 1 (ts_new [] [])")
      (simp add: some_mutation_def)
  from mutation_faithful [OF terminal_new_inv _ c] have "mutation_reports (ts_new [] []) t' mu" by simp
  with c show ?thesis by blast
qed

text \<open>
  a call that returns no mutation has changed nothing that is shown or saved: detection,
  authority, effective label and state, and the session are as before.
\<close>

lemma refused_call_is_invisible:
  assumes "terminal_inv t" and "terminal_op_ok t (Call c)" and "perform_call c t = (t', None)"
  shows "ts_state t' = ts_state t \<and> effective_agent_label t' = effective_agent_label t \<and>
    ts_hook_authority t' = ts_hook_authority t \<and> ts_detected_agent t' = ts_detected_agent t \<and>
    current_session_identity_for_persistence t' = current_session_identity_for_persistence t"
proof -
  have "shown_core t' = shown_core t" using perform_call_reported [OF assms(1,2)] assms(3) by simp
  with shown_core_determines [OF this] show ?thesis by (simp add: shown_core_def arbitration_inputs_def)
qed

lemma refused_call_is_invisible_witness:
  "effective_agent_label (fst (perform_call (HookReport ''osade:qwen'' ''qwen'' Idle None None None 1 1) (ts_new [] []))) =
     effective_agent_label (ts_new [] [])"
proof -
  have "perform_call (HookReport ''osade:qwen'' ''qwen'' Idle None None None 1 1) (ts_new [] []) =
      (ts_new [] [], None)"
    by (simp add: set_hook_authority_at_def session_identity_only_integration_def)
  from refused_call_is_invisible [OF terminal_new_inv _ this] this show ?thesis by simp
qed

text \<open>
  the reports taken from one integration have strictly increasing sequence numbers, whatever
  is interleaved from other integrations: a replayed or late report is never taken.
\<close>

lemma hook_reports_increase:
  "sorted_wrt (<) (map snd (filter (\<lambda>r. fst r = src) (taken_hook_reports t rs)))"
  using hook_gate.run_increasing [of src t rs] by (simp add: hook_gate.taken_of_def taken_hook_reports_run)

text \<open>
  C6: a cleared full-lifecycle authority stays cleared. After the authority of a full-lifecycle
  integration has been cleared, a report of the integration without a session or for the cleared session
  changes nothing, so that any number of them changes nothing.
\<close>

theorem cleared_authority_stays_cleared:
  assumes "ts_hook_authority t = Some h"
    and "full_lifecycle_hook_authority (ha_source h) (ha_agent_label h)"
    and "clear_hook_authority_with_mutation src seq now clk t = (t', Some mu)"
    and "r = None \<or> r = ha_session_ref h"
  shows "set_hook_authority_at (ha_source h) (ha_agent_label h) st msg r n now' clk' t' = (t', None)"
proof -
  from clear_hook_authority_takenE [OF assms(3)] assms(1) obtain u prev c
    where u: "ts_hook_authority u = Some h"
    and t': "t' = fst (finish_mutation prev now c False
      (suppress_current_full_lifecycle_hook_authority HookClear clk u
        \<lparr>ts_hook_authority := None, ts_persisted_agent_session := None\<rparr>))" by metis
  from u assms(2) have sup: "hm_get (ts_suppressed t') (ha_source h) = Some \<lparr>su_agent_label = ha_agent_label h,
      su_session_ref = ha_session_ref h, su_observed_at = clk, su_reason = HookClear,
      su_replacement_session_ref = None, su_pending_replacement_report = None\<rparr>"
    by (simp add: t' suppress_current_full_lifecycle_hook_authority_def
        suppress_full_lifecycle_hook_report_with_session_ref_def)
  have "route_full_lifecycle_hook_report (ha_source h) (ha_agent_label h) st msg r n now' t' = (t', RouteIgnore)"
    using assms(2,4) sup
    by (auto simp: route_full_lifecycle_hook_report_def Let_def is_some_and_iff)
  with assms(2) show ?thesis by (rule ignored_report)
qed

text \<open>The concrete authority the witnesses use: a running session of pi.\<close>

definition pi_session :: session_ref where
  "pi_session = \<lparr>sr_kind = RefId, sr_value = ''a''\<rparr>"

definition pi_authority :: hook_authority where
  "pi_authority = \<lparr>ha_source = ''osade:pi'', ha_agent_label = ''pi'', ha_state = Working, ha_message = None,
     ha_reported_at = 1, ha_session_ref = Some pi_session\<rparr>"

definition pi_terminal :: terminal_state where
  "pi_terminal = (ts_new [] [])\<lparr>ts_detected_agent := Some Pi, ts_hook_authority := Some pi_authority,
     ts_state := Working\<rparr>"

lemma pi_full_lifecycle: "full_lifecycle_hook_authority ''osade:pi'' ''pi''"
  by (simp add: full_lifecycle_hook_authority_def)

lemma pi_official: "is_official_agent_source ''osade:pi'' ''pi''"
  by (rule full_lifecycle_official [OF pi_full_lifecycle])

lemma pi_parses: "parse_agent_label ''pi'' = Some Pi"
  using parse_agent_label_of_label [of Pi] by simp

theorem cleared_authority_stays_cleared_witness:
  "\<exists>t' mu. clear_hook_authority_with_mutation None None 2 2 pi_terminal = (t', Some mu) \<and>
     set_hook_authority_at ''osade:pi'' ''pi'' Idle None (Some pi_session) (Some 9) 3 3 t' = (t', None)"
proof -
  have auth: "ts_hook_authority pi_terminal = Some pi_authority" by (simp add: pi_terminal_def)
  have "\<exists>t' mu. clear_hook_authority_with_mutation None None 2 2 pi_terminal = (t', Some mu)"
    by (simp add: clear_hook_authority_with_mutation_def Let_def auth accept_hook_report_def
        some_mutation_def split_beta)
      (simp add: pi_terminal_def ts_new_def hm_contains_def)
  then obtain t' mu where c: "clear_hook_authority_with_mutation None None 2 2 pi_terminal = (t', Some mu)"
    by blast
  from cleared_authority_stays_cleared [OF auth _ c, of "Some pi_session" Idle None "Some 9" 3 3]
  have "set_hook_authority_at ''osade:pi'' ''pi'' Idle None (Some pi_session) (Some 9) 3 3 t' = (t', None)"
    by (simp add: pi_authority_def pi_full_lifecycle)
  with c show ?thesis by blast
qed

definition pi_cleared :: terminal_state where
  "pi_cleared = (ts_new [] [])\<lparr>ts_detected_agent := Some Pi, ts_suppressed := [(''osade:pi'',
     \<lparr>su_agent_label = ''pi'', su_session_ref = Some pi_session, su_observed_at = 1, su_reason = HookClear,
      su_replacement_session_ref = None, su_pending_replacement_report = None\<rparr>)]\<rparr>"

text \<open>
  C5: a live authority of a full-lifecycle integration is not overruled by the screen. As long as
  the process has not exited and no other agent is detected, whatever detection reports leaves
  detection, authority and session alone, and the state is the one the integration reported.
\<close>

theorem live_authority_ignores_screen:
  assumes "terminal_inv t" and "ts_hook_authority t = Some h"
    and "live_full_lifecycle_hook_authority t" and "\<not> hook_authority_conflicts_with_detected_agent t a"
    and "set_detected_state_with_screen_signals_at a fb vb vi vw False now clk t = (t', mu)"
  shows "ts_state t' = ha_state h \<and> ts_hook_authority t' = Some h \<and>
    ts_detected_agent t' = ts_detected_agent t \<and> ts_fallback_state t' = ts_fallback_state t \<and>
    effective_agent_label t' = Some (ha_agent_label h) \<and>
    ts_persisted_agent_session t' = ts_persisted_agent_session t \<and> \<not> sm_agent_released mu"
proof -
  from assms(2,3) have eff: "hook_authority_is_effective t h"
    and fl: "full_lifecycle_hook_authority (ha_source h) (ha_agent_label h)"
    by (simp_all add: live_full_lifecycle_hook_authority_def)
  from full_lifecycle_parses [OF fl] obtain b where b: "parse_agent_label (ha_agent_label h) = Some b" by blast
  with eff fl have det: "ts_detected_agent t = Some b" by (simp add: hook_authority_is_effective_def)
  have ignore: "should_ignore_detected_state_under_full_lifecycle_hook t a False"
    using assms(3,4) by (simp add: should_ignore_detected_state_under_full_lifecycle_hook_def)
  have same: "(if Some b = a then t\<lparr>ts_detected_agent := a\<rparr> else t) = t"
    using det by auto
  obtain prev c where t': "(t', mu) = finish_mutation prev now c False t" and prev: "pv_state prev = ts_state t"
    using assms(2,5) ignore same b
    by (simp add: set_detected_state_with_screen_signals_at_def Let_def) (metis previous_view_state)
  then have t'_eq: "t' = fst (finish_mutation prev now c False t)" and mu: "\<not> sm_agent_released mu"
    by (metis fst_conv, auto simp: finish_mutation_def split_beta)
  have "arbitration_inputs t' = arbitration_inputs t"
    by (simp add: t'_eq finish_mutation_def split_beta)
  note arb = arbitration_inputs_determine [OF this]
  have "arbitrated_state t = ha_state h"
    using assms(2,3) eff by (simp add: arbitrated_state_def visible_blocker_overrides_hook_def)
  moreover have "ts_state t' = arbitrated_state t'"
    using finish_mutation_inv [of t prev now c False] assms(1) prev
    by (simp add: terminal_inv_def t'_eq)
  moreover have "effective_agent_label t = Some (ha_agent_label h)"
    using assms(2) eff by (simp add: effective_agent_label_def)
  moreover have "ts_fallback_state t' = ts_fallback_state t"
    using \<open>arbitration_inputs t' = arbitration_inputs t\<close> by (simp add: arbitration_inputs_def)
  ultimately show ?thesis using arb mu assms(2) by (simp add: t'_eq)
qed

lemma pi_effective: "hook_authority_is_effective pi_terminal pi_authority"
  by (simp add: hook_authority_is_effective_def pi_authority_def pi_terminal_def ts_new_def pi_parses)

lemma pi_terminal_inv: "terminal_inv pi_terminal"
proof -
  have "live_full_lifecycle_hook_authority pi_terminal"
    using pi_effective pi_full_lifecycle
    by (simp add: live_full_lifecycle_hook_authority_def pi_terminal_def pi_authority_def)
  then have "arbitrated_state pi_terminal = Working"
    using pi_effective
    by (simp add: arbitrated_state_def visible_blocker_overrides_hook_def pi_terminal_def pi_authority_def)
  moreover have "authority_ok pi_authority"
    by (simp add: authority_ok_def pi_authority_def session_identity_only_integration_def)
  then have "terminal_wf pi_terminal"
    using terminal_new_inv [of "[]" "[]"] by (simp add: pi_terminal_def terminal_inv_def)
  ultimately show ?thesis by (simp add: terminal_inv_def pi_terminal_def)
qed

theorem live_authority_ignores_screen_witness:
  "ts_state (fst (set_detected_state_with_screen_signals_at None Blocked True False False False 5 5 pi_terminal)) = Working"
proof -
  obtain t' mu where d: "set_detected_state_with_screen_signals_at None Blocked True False False False 5 5 pi_terminal
      = (t', mu)" by (cases "set_detected_state_with_screen_signals_at None Blocked True False False False 5 5 pi_terminal")
  have live: "live_full_lifecycle_hook_authority pi_terminal"
    using pi_effective pi_full_lifecycle
    by (simp add: live_full_lifecycle_hook_authority_def pi_terminal_def pi_authority_def)
  have auth: "ts_hook_authority pi_terminal = Some pi_authority" by (simp add: pi_terminal_def)
  from live_authority_ignores_screen [OF pi_terminal_inv auth live _ d] show ?thesis
    by (simp add: d hook_authority_conflicts_with_detected_agent_def pi_authority_def)
qed

text \<open>
  a taken state report takes effect. It becomes the authority, with the session of the report
  or of the conflicting running session, its number is on record, the saved session gives way to
  it, and its state is the terminal's state as soon as the authority is effective and no newer
  screen blocker overrides it.
\<close>

lemma taken_hook_report_takes_effect:
  assumes "terminal_inv t" and "set_hook_authority_at s l st msg r n now clk t = (t', Some mu)"
  shows "\<exists>r'. ts_hook_authority t' = Some \<lparr>ha_source = s, ha_agent_label = l, ha_state = st, ha_message = msg,
        ha_reported_at = now, ha_session_ref = r'\<rparr> \<and>
      (r' = None \<longleftrightarrow> r = None) \<and> ts_persisted_agent_session t' = None \<and>
      is_none_or n (\<lambda>k. hm_get (ts_hook_report_sequences t') s = Some k) \<and>
      ts_state t' = (if visible_blocker_overrides_hook t' then Blocked
        else if hook_authority_is_effective t' (the (ts_hook_authority t')) then st else ts_fallback_state t')"
proof -
  from assms(2) obtain t1 re tk t2 r' where
    acc: "accept_hook_report s n (if re then forget_hook_sequence s t1 else t1) = (t2, True)"
    and r': "r' = settle_session_ref t1 s l r"
    and t': "t' = fst (install_hook_authority s l st msg r' tk re now clk t2)"
    by (rule set_hook_authority_takenE)
  have auth: "ts_hook_authority t' = Some \<lparr>ha_source = s, ha_agent_label = l, ha_state = st, ha_message = msg,
      ha_reported_at = now, ha_session_ref = r'\<rparr>" and gone: "ts_persisted_agent_session t' = None"
    by (simp_all add: t' install_hook_authority_def Let_def)
  have seqs: "ts_hook_report_sequences t' = ts_hook_report_sequences t2"
    by (simp add: t' install_hook_authority_def Let_def split: option.split)
  have "is_none_or n (\<lambda>k. hm_get (ts_hook_report_sequences t') s = Some k)"
    using acc accept_hook_report_seq [of s _ _ t2] by (cases n) (simp_all add: seqs)
  moreover have "terminal_inv t'"
    using set_hook_authority_inv [OF assms(1), of s l st msg r n now clk] assms(2) by simp
  moreover have "r' = None \<longleftrightarrow> r = None" by (simp add: r' settle_session_ref_def)
  ultimately show ?thesis using auth gone by (simp add: terminal_inv_def arbitrated_state_def)
qed

lemma taken_hook_report_takes_effect_witness:
  "\<exists>t' mu. set_hook_authority_at ''custom'' ''pi'' Idle None None (Some 4) 6 6 (ts_new [] []) = (t', Some mu) \<and>
     hm_get (ts_hook_report_sequences t') ''custom'' = Some 4"
proof -
  have "\<exists>t' mu. set_hook_authority_at ''custom'' ''pi'' Idle None None (Some 4) 6 6 (ts_new [] []) = (t', Some mu)"
    by (simp add: set_hook_authority_at_def session_identity_only_integration_def full_lifecycle_hook_authority_def
        route_full_lifecycle_hook_report_def known_agent_label_conflicts_with_detected_agent_def
        current_session_owner_conflicts_def current_session_identity_for_persistence_def settle_session_ref_def
        live_full_lifecycle_hook_authority_conflicts_with_session_def accept_hook_report_def Let_def
        some_mutation_def split_beta ts_new_def)
  then obtain t' mu where e: "set_hook_authority_at ''custom'' ''pi'' Idle None None (Some 4) 6 6 (ts_new [] []) =
      (t', Some mu)" by blast
  from taken_hook_report_takes_effect [OF terminal_new_inv e] e show ?thesis by auto
qed

end
