(* ===== verification/Exit_Properties.thy ===== *)
theory Exit_Properties
  imports Terminal_Properties
begin

text \<open>
  The exit of an agent's process: what the terminal forgets, what it keeps out afterwards, and
  which counters start again.
\<close>

section \<open>Frames of the exit\<close>

lemma fold_frame: "(\<And>x t. F (f x t) = F t) \<Longrightarrow> F (fold f xs t) = F t"
  by (induction xs arbitrary: t) simp_all

text \<open>The fields the stages of an exit hand on unchanged.\<close>

definition exit_frame ::
  "terminal_state \<Rightarrow> agent option \<times> recent_process_exit option \<times> string option" where
  "exit_frame t = (ts_detected_agent t, ts_recent_agent_process_exit t, ts_agent_name t)"

definition identity_frame ::
  "terminal_state \<Rightarrow> hook_authority option \<times> persisted_session option" where
  "identity_frame t = (ts_hook_authority t, ts_persisted_agent_session t)"

definition metadata_frame ::
  "terminal_state \<Rightarrow> (string, agent_metadata) hashmap \<times> sequences \<times> (string, agent) hashmap" where
  "metadata_frame t =
     (ts_agent_metadata t, ts_metadata_report_sequences t, ts_metadata_report_agents t)"

lemma remember_stale_exit_frames [simp]:
  "exit_frame (remember_stale_full_lifecycle_hook_session s l r t) = exit_frame t"
  "identity_frame (remember_stale_full_lifecycle_hook_session s l r t) = identity_frame t"
  "metadata_frame (remember_stale_full_lifecycle_hook_session s l r t) = metadata_frame t"
  by (simp_all add: exit_frame_def identity_frame_def metadata_frame_def
      remember_stale_full_lifecycle_hook_session_def Let_def)

lemma forget_sequence_exit_frames [simp]:
  "exit_frame (forget_hook_sequence s t) = exit_frame t"
  "identity_frame (forget_hook_sequence s t) = identity_frame t"
  "metadata_frame (forget_hook_sequence s t) = metadata_frame t"
  "ts_suppressed (forget_hook_sequence s t) = ts_suppressed t"
  by (simp_all add: exit_frame_def identity_frame_def metadata_frame_def forget_hook_sequence_def)

lemma fold_exit_frames:
  "exit_frame (fold forget_hook_sequence ss t) = exit_frame t"
  "identity_frame (fold forget_hook_sequence ss t) = identity_frame t"
  "metadata_frame (fold forget_hook_sequence ss t) = metadata_frame t"
  "exit_frame (fold (\<lambda>(s, l, r). remember_stale_full_lifecycle_hook_session s l r) xs t) = exit_frame t"
  "identity_frame (fold (\<lambda>(s, l, r). remember_stale_full_lifecycle_hook_session s l r) xs t) = identity_frame t"
  "metadata_frame (fold (\<lambda>(s, l, r). remember_stale_full_lifecycle_hook_session s l r) xs t) = metadata_frame t"
  by (rule fold_frame, simp add: split_beta)+

lemma exit_suppressions_frames [simp]:
  "exit_frame (exit_suppressions a now t) = exit_frame t"
  "identity_frame (exit_suppressions a now t) = identity_frame t"
  "metadata_frame (exit_suppressions a now t) = metadata_frame t"
proof -
  define u where "u = t\<lparr>ts_suppressed := hm_map_values
      (\<lambda>_ su. if exit_suppression_applies a su then exit_suppression_entry now su else su) (ts_suppressed t)\<rparr>"
  have u: "exit_frame u = exit_frame t" "identity_frame u = identity_frame t" "metadata_frame u = metadata_frame t"
    by (simp_all add: u_def exit_frame_def identity_frame_def metadata_frame_def)
  show "exit_frame (exit_suppressions a now t) = exit_frame t"
    "identity_frame (exit_suppressions a now t) = identity_frame t"
    "metadata_frame (exit_suppressions a now t) = metadata_frame t"
    unfolding exit_suppressions_def Let_def u_def [symmetric] using u
    by (simp_all only: fold_exit_frames)
qed

lemma exit_official_frames [simp]:
  "exit_frame (exit_official_session a now t) = exit_frame t"
  "identity_frame (exit_official_session a now t) = identity_frame t"
  "metadata_frame (exit_official_session a now t) = metadata_frame t"
  by (auto simp: exit_official_session_def suppress_full_lifecycle_hook_report_with_session_ref_def
      exit_frame_def identity_frame_def metadata_frame_def forget_hook_sequence_def split: option.split)

lemma exit_authority_frames [simp]:
  "exit_frame (exit_authority a nc t) = exit_frame t"
  "metadata_frame (exit_authority a nc t) = metadata_frame t"
  "ts_suppressed (exit_authority a nc t) = ts_suppressed t"
  "ts_persisted_agent_session (exit_authority a nc t) = ts_persisted_agent_session t"
  by (auto simp: exit_authority_def exit_frame_def metadata_frame_def forget_hook_sequence_def
      split: option.split)

lemma exit_authority_clears:
  "\<not> nc \<Longrightarrow> is_none_or (ts_hook_authority (exit_authority a nc t)) (\<lambda>h. parse_agent_label (ha_agent_label h) \<noteq> a)"
  by (cases "ts_hook_authority t") (auto simp: exit_authority_def then_some_def split: option.split)

lemma exit_persisted_frames [simp]:
  "exit_frame (exit_persisted_session a nc t) = exit_frame t"
  "metadata_frame (exit_persisted_session a nc t) = metadata_frame t"
  "ts_suppressed (exit_persisted_session a nc t) = ts_suppressed t"
  "ts_hook_authority (exit_persisted_session a nc t) = ts_hook_authority t"
  by (simp_all add: exit_persisted_session_def exit_frame_def metadata_frame_def)

lemma exit_persisted_clears:
  "\<not> nc \<Longrightarrow> is_none_or (ts_persisted_agent_session (exit_persisted_session a nc t))
     (\<lambda>s. parse_agent_label (ps_agent s) \<noteq> a)"
  by (cases "ts_persisted_agent_session t") (auto simp: exit_persisted_session_def)

lemma forget_metadata_frames [simp]:
  "exit_frame (forget_metadata_source s t) = exit_frame t"
  "identity_frame (forget_metadata_source s t) = identity_frame t"
  "ts_suppressed (forget_metadata_source s t) = ts_suppressed t"
  "ts_agent_metadata (forget_metadata_source s t) = ts_agent_metadata t"
  "exit_frame (forget_metadata_generation s t) = exit_frame t"
  "identity_frame (forget_metadata_generation s t) = identity_frame t"
  "ts_suppressed (forget_metadata_generation s t) = ts_suppressed t"
  "ts_agent_metadata (forget_metadata_generation s t) = ts_agent_metadata t"
  "ts_metadata_report_agents (forget_metadata_generation s t) = ts_metadata_report_agents t"
  by (simp_all add: forget_metadata_source_def forget_metadata_generation_def exit_frame_def
      identity_frame_def)

lemma fold_forget_metadata_frames [simp]:
  "exit_frame (fold forget_metadata_source ss t) = exit_frame t"
  "identity_frame (fold forget_metadata_source ss t) = identity_frame t"
  "ts_suppressed (fold forget_metadata_source ss t) = ts_suppressed t"
  "ts_agent_metadata (fold forget_metadata_source ss t) = ts_agent_metadata t"
  "exit_frame (fold forget_metadata_generation ss t) = exit_frame t"
  "identity_frame (fold forget_metadata_generation ss t) = identity_frame t"
  "ts_suppressed (fold forget_metadata_generation ss t) = ts_suppressed t"
  "ts_agent_metadata (fold forget_metadata_generation ss t) = ts_agent_metadata t"
  "ts_metadata_report_agents (fold forget_metadata_generation ss t) = ts_metadata_report_agents t"
  by (rule fold_frame, simp)+

lemma fold_forget_metadata_maps:
  "hm_get (ts_metadata_report_sequences (fold forget_metadata_source ss t)) k =
     (if k \<in> set ss then None else hm_get (ts_metadata_report_sequences t) k)"
  "hm_get (ts_metadata_report_agents (fold forget_metadata_source ss u)) k =
     (if k \<in> set ss then None else hm_get (ts_metadata_report_agents u) k)"
  "hm_get (ts_metadata_report_sequences (fold forget_metadata_generation ss v)) k =
     (if k \<in> set ss then None else hm_get (ts_metadata_report_sequences v) k)"
  by (induction ss arbitrary: t u v) (simp_all add: forget_metadata_source_def forget_metadata_generation_def)

lemma exit_metadata_frames [simp]:
  "exit_frame (exit_metadata a now t) = exit_frame t"
  "identity_frame (exit_metadata a now t) = identity_frame t"
  "ts_suppressed (exit_metadata a now t) = ts_suppressed t"
proof -
  have retain: "exit_frame (u\<lparr>ts_agent_metadata := x\<rparr>) = exit_frame u"
    "identity_frame (u\<lparr>ts_agent_metadata := x\<rparr>) = identity_frame u"
    "exit_frame (u\<lparr>ts_metadata_report_agents := y\<rparr>) = exit_frame u"
    "identity_frame (u\<lparr>ts_metadata_report_agents := y\<rparr>) = identity_frame u" for u :: terminal_state and x y
    by (simp_all add: exit_frame_def identity_frame_def)
  show "exit_frame (exit_metadata a now t) = exit_frame t"
    "identity_frame (exit_metadata a now t) = identity_frame t"
    "ts_suppressed (exit_metadata a now t) = ts_suppressed t"
    by (simp_all add: exit_metadata_def Let_def retain split: option.split)
qed

lemma exit_metadata_clears:
  "list_all (\<lambda>(_, m). \<not> exit_clears_metadata a now m) (ts_agent_metadata (exit_metadata (Some a) now t)) \<and>
   list_all (\<lambda>(_, owner). owner \<noteq> a) (ts_metadata_report_agents (exit_metadata (Some a) now t))"
  by (auto simp: exit_metadata_def Let_def list_all_iff hm_retain_def)

lemma exit_metadata_restarts:
  assumes "hm_get (ts_metadata_report_agents t) s = Some a"
  shows "hm_get (ts_metadata_report_sequences (exit_metadata (Some a) now t)) s = None"
proof -
  define cleared where "cleared = map fst (filter (\<lambda>(_, m). exit_clears_metadata a now m) (ts_agent_metadata t))"
  define t2 where "t2 = fold forget_metadata_source cleared (t\<lparr>ts_agent_metadata :=
      hm_retain (\<lambda>_ m. \<not> exit_clears_metadata a now m) (ts_agent_metadata t)\<rparr>)"
  define exited where "exited = map fst (filter (\<lambda>(_, owner). owner = a) (ts_metadata_report_agents t2))"
  have "s \<in> set exited" if "s \<notin> set cleared"
  proof -
    from that assms have "hm_get (ts_metadata_report_agents t2) s = Some a"
      by (simp add: t2_def fold_forget_metadata_maps)
    from hm_get_mem [OF this] show ?thesis by (force simp: exited_def)
  qed
  moreover have "hm_get (ts_metadata_report_sequences t2) s = None" if "s \<in> set cleared"
    using that by (simp add: t2_def fold_forget_metadata_maps)
  ultimately show ?thesis
    by (auto simp: exit_metadata_def Let_def cleared_def [symmetric] t2_def [symmetric]
        exited_def [symmetric] fold_forget_metadata_maps)
qed

section \<open>The whole exit\<close>

text \<open>The terminal an exit starts from: the agent is detected, the screen's state is noted.\<close>

definition exit_start ::
  "agent \<Rightarrow> agent_state \<Rightarrow> bool \<Rightarrow> instant \<Rightarrow> terminal_state \<Rightarrow> terminal_state" where
  "exit_start a fb vb now t =
     (reconcile_agent_name_owner (agent_label a) None (t\<lparr>ts_detected_agent := Some a\<rparr>))
       \<lparr>ts_fallback_state := fb, ts_fallback_visible_blocker := (vb \<and> fb = Blocked),
        ts_fallback_observed_at := Some now,
        ts_recent_agent_process_exit := Some \<lparr>re_agent = a, re_observed_at = now\<rparr>\<rparr>"

lemma exit_start_fields [simp]:
  "ts_hook_authority (exit_start a fb vb now t) = ts_hook_authority t"
  "ts_persisted_agent_session (exit_start a fb vb now t) = ts_persisted_agent_session t"
  "ts_suppressed (exit_start a fb vb now t) = ts_suppressed t"
  "ts_recent_agent_process_exit (exit_start a fb vb now t) = Some \<lparr>re_agent = a, re_observed_at = now\<rparr>"
  "metadata_frame (exit_start a fb vb now t) = metadata_frame t"
  "ts_agent_name t = None \<Longrightarrow> ts_agent_name (exit_start a fb vb now t) = None"
  by (auto simp: exit_start_def metadata_frame_def reconcile_agent_name_owner_def split: option.split)

lemma apply_exit:
  "apply_detected_state (Some a) fb vb True rel now clk t =
     (let t7 = drop_replaced_authority (ts_detected_agent t) (Some a) now clk
        (exit_agent_process (Some a) (newer_custom_authority (Some a) True now t) now (exit_start a fb vb now t))
      in if rel then clear_agent_name t7 else t7)"
  by (simp add: apply_detected_state_def exit_start_def Let_def)

lemma detect_exit:
  assumes "\<not> newer_custom_authority (Some a) True now t"
  obtains c prev rel where
    "set_detected_state_with_screen_signals_at (Some a) fb vb vi vw True now clk t =
       finish_mutation prev now c rel (apply_detected_state (Some a) fb vb True rel now clk t)"
    "rel \<longleftrightarrow> effective_agent_label t \<noteq> None \<or> ts_agent_name t \<noteq> None"
  using assms that
  by (simp add: set_detected_state_with_screen_signals_at_def Let_def
      should_ignore_detected_state_under_full_lifecycle_hook_def)

lemma drop_replaced_frames [simp]:
  "exit_frame (drop_replaced_authority p a now clk t) = exit_frame t"
  "metadata_frame (drop_replaced_authority p a now clk t) = metadata_frame t"
  by (simp_all add: drop_replaced_authority_def exit_frame_def metadata_frame_def Let_def
      suppress_current_full_lifecycle_hook_authority_def
      suppress_full_lifecycle_hook_report_with_session_ref_def split: option.split)

lemma drop_replaced_keeps:
  assumes "is_none_or (ts_hook_authority t) (\<lambda>h. parse_agent_label (ha_agent_label h) \<noteq> a)"
    and "is_none_or (ts_persisted_agent_session t) (\<lambda>s. parse_agent_label (ps_agent s) \<noteq> a)"
  shows "is_none_or (ts_hook_authority (drop_replaced_authority p a now clk t))
      (\<lambda>h. parse_agent_label (ha_agent_label h) \<noteq> a) \<and>
    is_none_or (ts_persisted_agent_session (drop_replaced_authority p a now clk t))
      (\<lambda>s. parse_agent_label (ps_agent s) \<noteq> a)"
proof (cases "ts_hook_authority t")
  case None
  with assms show ?thesis
    by (cases a) (auto simp: drop_replaced_authority_def hook_authority_conflicts_with_detected_agent_def)
next
  case (Some h)
  with assms show ?thesis
    by (cases "ha_session_ref h") (auto simp: drop_replaced_authority_def Let_def)
qed

lemma exit_agent_process_clears:
  assumes "\<not> nc"
  shows "is_none_or (ts_hook_authority (exit_agent_process a nc now t)) (\<lambda>h. parse_agent_label (ha_agent_label h) \<noteq> a) \<and>
    is_none_or (ts_persisted_agent_session (exit_agent_process a nc now t)) (\<lambda>s. parse_agent_label (ps_agent s) \<noteq> a)"
proof -
  define u where "u = exit_persisted_session a nc (exit_authority a nc (exit_official_session a now (exit_suppressions a now t)))"
  have "identity_frame (exit_agent_process a nc now t) = identity_frame u"
    by (simp add: exit_agent_process_def u_def)
  then have "ts_hook_authority (exit_agent_process a nc now t) = ts_hook_authority u"
    "ts_persisted_agent_session (exit_agent_process a nc now t) = ts_persisted_agent_session u"
    by (simp_all add: identity_frame_def)
  then show ?thesis
    using exit_authority_clears [OF assms] exit_persisted_clears [OF assms] by (simp add: u_def)
qed

lemma exit_agent_process_frame: "exit_frame (exit_agent_process a nc now t) = exit_frame t"
  by (simp add: exit_agent_process_def)

lemma exit_agent_process_metadata:
  "list_all (\<lambda>(_, m). \<not> exit_clears_metadata a now m) (ts_agent_metadata (exit_agent_process (Some a) nc now t)) \<and>
   list_all (\<lambda>(_, owner). owner \<noteq> a) (ts_metadata_report_agents (exit_agent_process (Some a) nc now t))"
  by (simp only: exit_agent_process_def exit_metadata_clears simp_thms)

lemma exit_agent_process_restarts:
  assumes "hm_get (ts_metadata_report_agents t) s = Some a"
  shows "hm_get (ts_metadata_report_sequences (exit_agent_process (Some a) nc now t)) s = None"
proof -
  define u where "u = exit_persisted_session (Some a) nc (exit_authority (Some a) nc
    (exit_official_session (Some a) now (exit_suppressions (Some a) now t)))"
  have "metadata_frame u = metadata_frame t" by (simp add: u_def)
  then have "ts_metadata_report_agents u = ts_metadata_report_agents t" by (simp add: metadata_frame_def)
  with assms exit_metadata_restarts [of u s a now] show ?thesis
    by (simp add: exit_agent_process_def u_def)
qed

lemma clear_agent_name_frames [simp]:
  "ts_hook_authority (clear_agent_name t) = ts_hook_authority t"
  "ts_persisted_agent_session (clear_agent_name t) = ts_persisted_agent_session t"
  "ts_recent_agent_process_exit (clear_agent_name t) = ts_recent_agent_process_exit t"
  "ts_suppressed (clear_agent_name t) = ts_suppressed t"
  "ts_agent_name (clear_agent_name t) = None"
  "metadata_frame (clear_agent_name t) = metadata_frame t"
  by (simp_all add: clear_agent_name_def metadata_frame_def)

lemma finish_mutation_metadata:
  "ts_metadata_report_sequences (fst (finish_mutation prev now c re t)) = ts_metadata_report_sequences t"
  by (simp add: finish_mutation_def recompute_effective_state_def Let_def split_beta
      clear_expiry_pending_for_hidden_metadata_def)

lemma exit_result:
  assumes "\<not> newer_custom_authority (Some a) True now t"
    and "set_detected_state_with_screen_signals_at (Some a) fb vb vi vw True now clk t = (t', mu)"
  obtains u where "ts_hook_authority t' = ts_hook_authority u"
    "ts_persisted_agent_session t' = ts_persisted_agent_session u"
    "ts_suppressed t' = ts_suppressed u"
    "ts_metadata_report_sequences t' = ts_metadata_report_sequences u"
    "u = drop_replaced_authority (ts_detected_agent t) (Some a) now clk
       (exit_agent_process (Some a) False now (exit_start a fb vb now t))"
    "ts_recent_agent_process_exit t' = Some \<lparr>re_agent = a, re_observed_at = now\<rparr>"
    "ts_agent_name t' = None"
proof -
  define u where "u = drop_replaced_authority (ts_detected_agent t) (Some a) now clk
       (exit_agent_process (Some a) False now (exit_start a fb vb now t))"
  from detect_exit [OF assms(1), of fb vb vi vw clk] assms(2) obtain c prev rel where
    d: "(t', mu) = finish_mutation prev now c rel (apply_detected_state (Some a) fb vb True rel now clk t)"
    and rel: "rel \<longleftrightarrow> effective_agent_label t \<noteq> None \<or> ts_agent_name t \<noteq> None" by metis
  have ap: "apply_detected_state (Some a) fb vb True rel now clk t = (if rel then clear_agent_name u else u)"
    using assms(1) by (simp add: apply_exit u_def)
  have t': "t' = fst (finish_mutation prev now c rel (if rel then clear_agent_name u else u))"
    using d ap by (metis fst_conv)
  have fr: "exit_frame u = exit_frame (exit_start a fb vb now t)"
    by (simp add: u_def exit_agent_process_frame)
  then have "ts_recent_agent_process_exit u = Some \<lparr>re_agent = a, re_observed_at = now\<rparr>"
    and nm: "ts_agent_name u = ts_agent_name (exit_start a fb vb now t)"
    by (simp_all add: exit_frame_def)
  moreover have "ts_agent_name u = None" if "\<not> rel"
    using that rel nm by simp
  moreover have "ts_metadata_report_sequences (clear_agent_name u) = ts_metadata_report_sequences u"
    by (simp add: clear_agent_name_def)
  ultimately show ?thesis
    using that [OF _ _ _ _ u_def] by (cases rel) (simp_all add: t' finish_mutation_metadata)
qed

lemma exit_forgets_agent_facts:
  assumes "\<not> newer_custom_authority (Some a) True now t"
    and "set_detected_state_with_screen_signals_at (Some a) fb vb vi vw True now clk t = (t', mu)"
  shows "is_none_or (ts_hook_authority t') (\<lambda>h. parse_agent_label (ha_agent_label h) \<noteq> Some a) \<and>
    is_none_or (ts_persisted_agent_session t') (\<lambda>s. parse_agent_label (ps_agent s) \<noteq> Some a) \<and>
    effective_known_agent t' \<noteq> Some a \<and> ts_agent_name t' = None \<and>
    ts_recent_agent_process_exit t' = Some \<lparr>re_agent = a, re_observed_at = now\<rparr>"
proof -
  from exit_result [OF assms] obtain u where
    u: "ts_hook_authority t' = ts_hook_authority u" "ts_persisted_agent_session t' = ts_persisted_agent_session u"
      "u = drop_replaced_authority (ts_detected_agent t) (Some a) now clk
         (exit_agent_process (Some a) False now (exit_start a fb vb now t))"
    and re: "ts_recent_agent_process_exit t' = Some \<lparr>re_agent = a, re_observed_at = now\<rparr>"
    and nm: "ts_agent_name t' = None" by metis
  from exit_agent_process_clears [of False "Some a" now "exit_start a fb vb now t"]
  have gone: "is_none_or (ts_hook_authority t') (\<lambda>h. parse_agent_label (ha_agent_label h) \<noteq> Some a)"
    "is_none_or (ts_persisted_agent_session t') (\<lambda>s. parse_agent_label (ps_agent s) \<noteq> Some a)"
    unfolding u(1,2) using drop_replaced_keeps [of _ "Some a"] by (simp_all add: u(3))
  have "effective_known_agent t' \<noteq> Some a"
    using gone(1) re
    by (cases "ts_hook_authority t'") (auto simp: effective_known_agent_def effective_agent_label_def)
  with gone re nm show ?thesis by simp
qed

lemma exit_suppresses_session:
  assumes "ts_hook_authority t = Some h"
    and "is_official_agent_source (ha_source h) (ha_agent_label h)"
    and "parse_agent_label (ha_agent_label h) = Some a"
    and "u = drop_replaced_authority prev (Some a) now clk
       (exit_agent_process (Some a) False now (exit_start a fb vb now t))"
  shows "hm_get (ts_suppressed u) (ha_source h) = Some \<lparr>su_agent_label = ha_agent_label h,
      su_session_ref = ha_session_ref h, su_observed_at = now, su_reason = ProcessExit,
      su_replacement_session_ref = None, su_pending_replacement_report = None\<rparr>"
proof -
  let ?s = "exit_suppressions (Some a) now (exit_start a fb vb now t)"
  let ?e = "exit_agent_process (Some a) False now (exit_start a fb vb now t)"
  have "identity_frame ?s = identity_frame (exit_start a fb vb now t)" by simp
  then have hook: "ts_hook_authority ?s = Some h" using assms(1) by (simp add: identity_frame_def)
  have session: "exited_official_session (Some a) ?s = Some (ha_source h, ha_agent_label h, ha_session_ref h)"
    using hook assms(2,3) by (simp add: exited_official_session_def)
  have entry: "hm_get (ts_suppressed ?e) (ha_source h) = Some \<lparr>su_agent_label = ha_agent_label h,
      su_session_ref = ha_session_ref h, su_observed_at = now, su_reason = ProcessExit,
      su_replacement_session_ref = None, su_pending_replacement_report = None\<rparr>"
    by (simp add: exit_agent_process_def exit_official_session_def [of _ _ ?s] session
        suppress_full_lifecycle_hook_report_with_session_ref_def)
  have "ts_hook_authority (exit_official_session (Some a) now ?s) = Some h"
    using hook exit_official_frames(2) [of "Some a" now ?s] by (simp add: identity_frame_def)
  then have "ts_hook_authority (exit_authority (Some a) False (exit_official_session (Some a) now ?s)) = None"
    using assms(3) by (simp add: exit_authority_def)
  moreover have "identity_frame ?e = identity_frame (exit_persisted_session (Some a) False
      (exit_authority (Some a) False (exit_official_session (Some a) now ?s)))"
    by (simp add: exit_agent_process_def)
  ultimately have "ts_hook_authority ?e = None" by (simp add: identity_frame_def)
  then have "ts_suppressed u = ts_suppressed ?e"
    by (simp add: assms(4) drop_replaced_authority_def Let_def suppress_current_full_lifecycle_hook_authority_def)
  with entry show ?thesis by simp
qed

section \<open>Properties\<close>

text \<open>
  when the process of an agent exits, the terminal forgets the agent. No authority and no
  session of the agent remain, it is not the effective agent, the terminal has lost the agent's
  name, and the exit is on record. A newer report of a custom integration is the exception.
\<close>

lemma exit_forgets_agent:
  assumes "\<not> newer_custom_authority (Some a) True now t"
    and "set_detected_state_with_screen_signals_at (Some a) fb vb vi vw True now clk t = (t', mu)"
  shows "is_none_or (ts_hook_authority t') (\<lambda>h. parse_agent_label (ha_agent_label h) \<noteq> Some a) \<and>
    is_none_or (ts_persisted_agent_session t') (\<lambda>s. parse_agent_label (ps_agent s) \<noteq> Some a) \<and>
    effective_known_agent t' \<noteq> Some a \<and> ts_agent_name t' = None \<and>
    ts_recent_agent_process_exit t' = Some \<lparr>re_agent = a, re_observed_at = now\<rparr>"
  by (rule exit_forgets_agent_facts [OF assms])

lemma exit_forgets_agent_witness:
  "effective_known_agent (fst (set_detected_state_with_screen_signals_at (Some Pi) Unknown False False False True 7 7
     pi_terminal)) \<noteq> Some Pi"
proof -
  obtain t' mu where d: "set_detected_state_with_screen_signals_at (Some Pi) Unknown False False False True 7 7 pi_terminal
      = (t', mu)"
    by (cases "set_detected_state_with_screen_signals_at (Some Pi) Unknown False False False True 7 7 pi_terminal")
  have "\<not> newer_custom_authority (Some Pi) True 7 pi_terminal"
    using pi_official by (simp add: newer_custom_authority_def pi_terminal_def pi_authority_def)
  from exit_forgets_agent [OF this d] show ?thesis by (simp add: d)
qed

text \<open>
  after the exit of an agent the numbering of its metadata reports starts again: every report
  of a source the agent owned is fresh, and no source is owned by it any more.
\<close>

lemma exit_restarts_metadata_numbering:
  assumes "\<not> newer_custom_authority (Some a) True now t"
    and "set_detected_state_with_screen_signals_at (Some a) fb vb vi vw True now clk t = (t', mu)"
    and "hm_get (ts_metadata_report_agents t) s = Some a"
  shows "metadata_report_sequence_is_fresh t' s n"
proof -
  from exit_result [OF assms(1,2)] obtain u where
    seqs: "ts_metadata_report_sequences t' = ts_metadata_report_sequences u"
    and u: "u = drop_replaced_authority (ts_detected_agent t) (Some a) now clk
         (exit_agent_process (Some a) False now (exit_start a fb vb now t))" by metis
  have "metadata_frame u = metadata_frame (exit_agent_process (Some a) False now (exit_start a fb vb now t))"
    by (simp add: u)
  moreover have "ts_metadata_report_agents (exit_start a fb vb now t) = ts_metadata_report_agents t"
    using exit_start_fields(5) [of a fb vb now t] by (simp add: metadata_frame_def)
  ultimately have "hm_get (ts_metadata_report_sequences t') s = None"
    using assms(3) exit_agent_process_restarts [of "exit_start a fb vb now t" s a False now] seqs
    by (simp add: metadata_frame_def)
  then show ?thesis
    by (simp add: metadata_report_sequence_is_fresh_def sequence_is_fresh_def is_none_or_def split: option.split)
qed

lemma exit_restarts_metadata_numbering_witness:
  "metadata_report_sequence_is_fresh (fst (set_detected_state_with_screen_signals_at (Some Pi) Unknown False False False True 7 7
     ((ts_new [] [])\<lparr>ts_metadata_report_agents := [(''m'', Pi)], ts_metadata_report_sequences := [(''m'', 40)]\<rparr>)))
     ''m'' (Some 1)"
proof -
  let ?t = "(ts_new [] [])\<lparr>ts_metadata_report_agents := [(''m'', Pi)], ts_metadata_report_sequences := [(''m'', 40)]\<rparr>"
  obtain t' mu where d: "set_detected_state_with_screen_signals_at (Some Pi) Unknown False False False True 7 7 ?t
      = (t', mu)"
    by (cases "set_detected_state_with_screen_signals_at (Some Pi) Unknown False False False True 7 7 ?t")
  have "\<not> newer_custom_authority (Some Pi) True 7 ?t" by (simp add: newer_custom_authority_def ts_new_def)
  moreover have "hm_get (ts_metadata_report_agents ?t) ''m'' = Some Pi" by (simp add: hm_get_def)
  ultimately show ?thesis using exit_restarts_metadata_numbering [OF _ d] by (simp add: d)
qed

end
