(* ===== verification/Hook_Runs.thy ===== *)
theory Hook_Runs
  imports Exit_Properties
begin

text \<open>
  What stays out over whole runs of a terminal's operations: the reports of an integration whose
  process has exited, and the reports of a session that has been replaced. Each is an invariant
  of the machine restricted to the operations that do not let it in again, as an interpretation
  of \<open>op_machine\<close>.
\<close>

section \<open>What reports are judged by\<close>

text \<open>The fields that decide how a report is routed; most operations hand them on.\<close>

definition hook_view ::
  "terminal_state \<Rightarrow> hook_authority option \<times> (string, suppressed_report) hashmap \<times>
     (string, stale_session list) hashmap \<times> persisted_session option \<times> recent_process_exit option" where
  "hook_view t = (ts_hook_authority t, ts_suppressed t, ts_stale_sessions t, ts_persisted_agent_session t,
     ts_recent_agent_process_exit t)"

lemma hook_view_owner [simp]: "hook_view (reconcile_agent_name_owner l r t) = hook_view t"
  by (simp add: hook_view_def)

lemma hook_view_finish [simp]: "hook_view (fst (finish_mutation prev now c re t)) = hook_view t"
  by (simp add: hook_view_def)

lemma hook_view_accept [simp]: "hook_view (fst (accept_hook_report s n t)) = hook_view t"
  by (simp add: hook_view_def accept_hook_report_def split: option.split)

lemma hook_view_forget_sequence [simp]: "hook_view (forget_hook_sequence s t) = hook_view t"
  by (simp add: hook_view_def forget_hook_sequence_def)

lemma hook_view_name [simp]:
  "hook_view (clear_agent_name t) = hook_view t"
  "hook_view (set_agent_name n t) = hook_view t"
  "hook_view (begin_managed_agent n k now d to t) = hook_view t"
  "hook_view (restore_managed_agent n k t) = hook_view t"
  "hook_view (set_managed_phase k ph t) = hook_view t"
  by (simp_all add: hook_view_def clear_agent_name_def set_agent_name_def Let_def begin_managed_agent_def
      restore_managed_agent_def set_managed_phase_def)

lemma hook_view_reconcile_managed [simp]:
  "hook_view (fst (reconcile_managed_agent_at now ex t)) = hook_view t"
  by (auto simp: reconcile_managed_agent_at_def reconcile_pending_def Let_def
      split: option.split managed_phase.split)

lemma hook_view_title [simp]:
  "hook_view (fst (set_terminal_title w title t)) = hook_view t"
  "hook_view (set_manual_label label t) = hook_view t"
  "hook_view (clear_manual_label t) = hook_view t"
  "hook_view (fst (finish_agent_process_acquisition t)) = hook_view t"
  by (simp_all add: hook_view_def set_terminal_title_def set_manual_label_def clear_manual_label_def
      finish_agent_process_acquisition_def Let_def)

lemma hook_view_recompute [simp]: "hook_view (fst (recompute_effective_state t prev now)) = hook_view t"
  by (simp add: hook_view_def recompute_effective_state_def clear_expiry_pending_for_hidden_metadata_def Let_def)

lemma hook_view_expiry_pending [simp]: "hook_view (clear_expiry_pending_for_hidden_metadata t) = hook_view t"
  by (simp add: hook_view_def clear_expiry_pending_for_hidden_metadata_def)

lemma hook_view_metadata [simp]: "hook_view (t\<lparr>ts_agent_metadata := m\<rparr>) = hook_view t"
  by (simp add: hook_view_def)

lemma hook_view_accept_metadata [simp]: "hook_view (fst (accept_metadata_report s n tok a t)) = hook_view t"
  by (auto simp: hook_view_def accept_metadata_report_def Let_def split: option.split)

lemma hook_view_store_metadata [simp]: "hook_view (store_agent_metadata rep now t) = hook_view t"
  by (simp add: store_agent_metadata_def Let_def)

lemma hook_view_set_metadata [simp]: "hook_view (fst (set_agent_metadata rep now t)) = hook_view t"
  by (simp add: set_agent_metadata_def Let_def split_beta)

lemma hook_view_fold_metadata [simp]:
  "hook_view (fold (\<lambda>s t. t\<lparr>ts_agent_metadata := hm_remove s (ts_agent_metadata t)\<rparr>) ss t) = hook_view t"
  by (induction ss arbitrary: t) simp_all

lemma hook_view_expire [simp]: "hook_view (fst (expire_agent_metadata_at dl now t)) = hook_view t"
  by (simp add: expire_agent_metadata_at_def Let_def split_beta some_mutation_def)

section \<open>Sessions that stay stale\<close>

text \<open>
  The terminal counts \<open>old\<close> as a stale session of the integration, and no exited or cleared
  report waits to be replaced by it.
\<close>

definition stale_session_of :: "string \<Rightarrow> string \<Rightarrow> session_ref \<Rightarrow> terminal_state \<Rightarrow> bool" where
  "stale_session_of s l old t \<longleftrightarrow>
     is_some_and (hm_get (ts_stale_sessions t) s)
       (\<lambda>known. \<lparr>ss_agent_label = l, ss_session_ref = old\<rparr> \<in> set known)"

definition not_replacing :: "string \<Rightarrow> session_ref \<Rightarrow> string \<Rightarrow> suppressed_report \<Rightarrow> bool" where
  "not_replacing s old k su \<longleftrightarrow> k = s \<longrightarrow> su_replacement_session_ref su \<noteq> Some old"

definition kept_out :: "string \<Rightarrow> string \<Rightarrow> session_ref \<Rightarrow> terminal_state \<Rightarrow> bool" where
  "kept_out s l old t \<longleftrightarrow> stale_session_of s l old t \<and> hm_all (not_replacing s old) (ts_suppressed t)"

lemma kept_out_view: "hook_view t = hook_view t' \<Longrightarrow> kept_out s l old t = kept_out s l old t'"
  by (simp add: hook_view_def kept_out_def stale_session_of_def)

lemma kept_out_frames [simp]:
  "kept_out s l old (reconcile_agent_name_owner k r t) = kept_out s l old t"
  "kept_out s l old (fst (finish_mutation prev now c re t)) = kept_out s l old t"
  "kept_out s l old (fst (accept_hook_report src n t)) = kept_out s l old t"
  "kept_out s l old (forget_hook_sequence src t) = kept_out s l old t"
  "kept_out s l old (clear_agent_name t) = kept_out s l old t"
  "kept_out s l old (t\<lparr>ts_hook_authority := ha\<rparr>) = kept_out s l old t"
  "kept_out s l old (t\<lparr>ts_persisted_agent_session := ps\<rparr>) = kept_out s l old t"
  "kept_out s l old (t\<lparr>ts_hook_report_sequences := sq\<rparr>) = kept_out s l old t"
  "kept_out s l old (t\<lparr>ts_detected_agent := a\<rparr>) = kept_out s l old t"
  "kept_out s l old (t\<lparr>ts_fallback_state := fs\<rparr>) = kept_out s l old t"
  "kept_out s l old (t\<lparr>ts_fallback_visible_blocker := fb\<rparr>) = kept_out s l old t"
  "kept_out s l old (t\<lparr>ts_fallback_observed_at := fo\<rparr>) = kept_out s l old t"
  "kept_out s l old (t\<lparr>ts_recent_agent_process_exit := ex\<rparr>) = kept_out s l old t"
  "kept_out s l old (t\<lparr>ts_agent_process_acquisition_pending := pe\<rparr>) = kept_out s l old t"
proof -
  show "kept_out s l old (reconcile_agent_name_owner k r t) = kept_out s l old t"
    "kept_out s l old (fst (finish_mutation prev now c re t)) = kept_out s l old t"
    "kept_out s l old (fst (accept_hook_report src n t)) = kept_out s l old t"
    "kept_out s l old (forget_hook_sequence src t) = kept_out s l old t"
    "kept_out s l old (clear_agent_name t) = kept_out s l old t"
    by (rule kept_out_view, simp)+
qed (simp_all add: kept_out_def stale_session_of_def)

lemma kept_out_suppressed:
  "kept_out s l old t \<Longrightarrow> hm_all (not_replacing s old) m \<Longrightarrow> kept_out s l old (t\<lparr>ts_suppressed := m\<rparr>)"
  by (simp add: kept_out_def stale_session_of_def)

lemma kept_out_all: "kept_out s l old t \<Longrightarrow> hm_all (not_replacing s old) (ts_suppressed t)"
  by (simp add: kept_out_def)

lemma kept_out_remember [simp]:
  assumes "kept_out s l old t"
  shows "kept_out s l old (remember_stale_full_lifecycle_hook_session k x r t)"
  using assms
  by (cases "hm_get (ts_stale_sessions t) k")
    (auto simp: kept_out_def stale_session_of_def remember_stale_full_lifecycle_hook_session_def Let_def
      is_some_and_iff)

lemma kept_out_forget:
  assumes "kept_out s l old t" and "k \<noteq> s \<or> r \<noteq> old"
  shows "kept_out s l old (forget_stale_full_lifecycle_hook_session k x r t)"
proof (cases "hm_get (ts_stale_sessions t) k")
  case None
  with assms(1) show ?thesis by (simp add: forget_stale_full_lifecycle_hook_session_def)
next
  case (Some stale)
  define left where "left = filter (\<lambda>e. ss_agent_label e \<noteq> x \<or> ss_session_ref e \<noteq> r) stale"
  have eq: "forget_stale_full_lifecycle_hook_session k x r t =
      (if left = [] then t\<lparr>ts_stale_sessions := hm_remove k (ts_stale_sessions t)\<rparr>
       else t\<lparr>ts_stale_sessions := hm_insert k left (ts_stale_sessions t)\<rparr>)"
    using Some by (simp add: forget_stale_full_lifecycle_hook_session_def Let_def left_def)
  have "\<lparr>ss_agent_label = l, ss_session_ref = old\<rparr> \<in> set left" if "k = s"
    using that assms Some by (simp add: left_def kept_out_def stale_session_of_def)
  with assms(1) Some show ?thesis
    unfolding eq by (cases "k = s"; cases left) (simp_all add: kept_out_def stale_session_of_def)
qed

lemma kept_out_suppress [simp]:
  assumes "kept_out s l old t"
  shows "kept_out s l old (suppress_full_lifecycle_hook_report_with_session_ref k x r re now t)"
    and "kept_out s l old (suppress_current_full_lifecycle_hook_authority re now t)"
    and "kept_out s l old (suppress_full_lifecycle_hook_report k x re now t)"
proof -
  have "kept_out s l old (suppress_full_lifecycle_hook_report_with_session_ref k x r re now t)" for k x r
    unfolding suppress_full_lifecycle_hook_report_with_session_ref_def
    by (rule kept_out_suppressed) (use assms in \<open>auto simp: kept_out_def not_replacing_def\<close>)
  with assms show "kept_out s l old (suppress_full_lifecycle_hook_report_with_session_ref k x r re now t)"
    "kept_out s l old (suppress_current_full_lifecycle_hook_authority re now t)"
    "kept_out s l old (suppress_full_lifecycle_hook_report k x re now t)"
    by (simp_all add: suppress_current_full_lifecycle_hook_authority_def
        suppress_full_lifecycle_hook_report_def split: option.split)
qed

lemma kept_out_entry:
  assumes "kept_out s l old t" and "su_replacement_session_ref d \<noteq> Some old"
  shows "not_replacing s old k (unwrap_or (hm_get (ts_suppressed t) k) d)"
  using assms hm_all_get [OF kept_out_all [OF assms(1)], of k]
  by (cases "hm_get (ts_suppressed t) k") (simp_all add: not_replacing_def)

lemma kept_out_pending [simp]:
  assumes "kept_out s l old t"
  shows "kept_out s l old (keep_pending_report k x st msg r n at t)"
  unfolding keep_pending_report_def Let_def
  by (rule kept_out_suppressed [OF assms], rule hm_all_insert [OF kept_out_all [OF assms]])
    (use kept_out_entry [OF assms] in \<open>auto simp: not_replacing_def\<close>)

lemma kept_out_selected:
  assumes "kept_out s l old t" and "k \<noteq> s \<or> r \<noteq> old"
  shows "kept_out s l old (keep_selected_session k x r clk t)"
  unfolding keep_selected_session_def Let_def
  by (rule kept_out_suppressed [OF assms(1)], rule hm_all_insert [OF kept_out_all [OF assms(1)]])
    (use assms(2) in \<open>auto simp: not_replacing_def\<close>)

lemma kept_out_started:
  assumes "kept_out s l old t" and "k \<noteq> s \<or> r \<noteq> old"
  shows "kept_out s l old (keep_started_session k x r n now t)"
proof -
  have "kept_out s l old (t\<lparr>ts_suppressed := hm_insert k su (ts_suppressed t)\<rparr>)"
    if "su_replacement_session_ref su = Some r" for su
    by (rule kept_out_suppressed [OF assms(1)], rule hm_all_insert [OF kept_out_all [OF assms(1)]])
      (use assms(2) that in \<open>auto simp: not_replacing_def\<close>)
  with assms(1) show ?thesis
    by (simp add: keep_started_session_def Let_def kept_out_def stale_session_of_def)
qed

subsection \<open>Reports\<close>

lemma kept_out_route [simp]:
  assumes "kept_out s l old t"
  shows "kept_out s l old (fst (route_full_lifecycle_hook_report k x st msg r n at t))"
  using assms by (auto simp: route_full_lifecycle_hook_report_def Let_def split: option.split)

lemma kept_out_install [simp]:
  assumes "kept_out s l old t"
  shows "kept_out s l old (fst (install_hook_authority k x st msg r takeover reanchor now clk t))"
proof -
  define t2 where "t2 = (let t1 = reconcile_agent_name_owner x r t
    in if takeover then suppress_current_full_lifecycle_hook_authority HookClear clk t1 else t1)"
  have t2: "kept_out s l old t2" using assms by (simp add: t2_def Let_def)
  have "kept_out s l old (t2\<lparr>ts_suppressed := hm_remove k (ts_suppressed t2)\<rparr>)"
    using t2 by (intro kept_out_suppressed) (simp_all add: kept_out_def)
  with t2 show ?thesis
    unfolding install_hook_authority_def Let_def t2_def [unfolded Let_def, symmetric]
    by (simp split: option.split)
qed

lemma kept_out_hook_report [simp]:
  assumes "kept_out s l old t"
  shows "kept_out s l old (fst (set_hook_authority_at k x st msg r n now clk t))"
proof -
  obtain t1 ro where route: "route_full_lifecycle_hook_report k x st msg r n now t = (t1, ro)"
    by (cases "route_full_lifecycle_hook_report k x st msg r n now t")
  with kept_out_route [OF assms, of k x st msg r n now] have t1: "kept_out s l old t1" by simp
  have inner: "kept_out s l old (fst (case accept_hook_report k n (if b then forget_hook_sequence k t1 else t1) of
      (t2, False) \<Rightarrow> (t2, None)
    | (t2, True) \<Rightarrow> some_mutation (install_hook_authority k x st msg r' tk b now clk t2)))" for b r' tk
  proof -
    obtain t2 ok where acc: "accept_hook_report k n (if b then forget_hook_sequence k t1 else t1) = (t2, ok)"
      by (cases "accept_hook_report k n (if b then forget_hook_sequence k t1 else t1)")
    then have "kept_out s l old t2"
      using t1 kept_out_frames(3) [of s l old k n "if b then forget_hook_sequence k t1 else t1"]
      by (simp split: if_splits)
    with acc show ?thesis by (cases ok) simp_all
  qed
  from route t1 assms inner show ?thesis
    by (cases ro) (simp_all add: set_hook_authority_at_def Let_def)
qed

lemma kept_out_clear [simp]:
  assumes "kept_out s l old t"
  shows "kept_out s l old (fst (clear_hook_authority_with_mutation src n now clk t))"
  using assms
  by (auto simp: clear_hook_authority_with_mutation_def Let_def split_beta split: option.split)

lemma kept_out_release [simp]:
  assumes "kept_out s l old t"
  shows "kept_out s l old (fst (release_agent_with_mutation k x n now clk t))"
  using assms by (simp add: release_agent_with_mutation_def Let_def split_beta)

subsection \<open>Lifted suppressions\<close>

lemma kept_out_adopt:
  assumes "kept_out s l old t" and "case v of (k, _, r, _) \<Rightarrow> k \<noteq> s \<or> r \<noteq> old"
  shows "kept_out s l old (adopt_validated_session v t)"
proof -
  obtain k x r p where v: "v = (k, x, r, p)" by (cases v)
  with assms have "kept_out s l old (forget_stale_full_lifecycle_hook_session k x r t)"
    by (simp add: kept_out_forget)
  then show ?thesis by (simp add: v adopt_validated_session_def Let_def split: option.split)
qed

lemma kept_out_fold_adopt:
  "kept_out s l old t \<Longrightarrow> list_all (\<lambda>(k, _, r, _). k \<noteq> s \<or> r \<noteq> old) vs \<Longrightarrow>
     kept_out s l old (fold adopt_validated_session vs t)"
proof (induction vs arbitrary: t)
  case (Cons v vs)
  then have "kept_out s l old (adopt_validated_session v t)" by (intro kept_out_adopt) auto
  with Cons show ?case by simp
qed simp

lemma kept_out_fold_remember:
  "kept_out s l old t \<Longrightarrow>
     kept_out s l old (fold (\<lambda>(k, x). remember_stale_full_lifecycle_hook_session k (ss_agent_label x)
       (ss_session_ref x)) xs t)"
  "kept_out s l old t \<Longrightarrow>
     kept_out s l old (fold (\<lambda>(k, x, r). remember_stale_full_lifecycle_hook_session k x r) ys t)"
  by (induction xs arbitrary: t, simp_all add: split_beta) (induction ys arbitrary: t, simp_all add: split_beta)

lemma lifted_not_replacing:
  assumes "not_replacing s old k su" and "(k, x, r, p) \<in> set (outcome_validated (k, lift_suppression_entry sq a k su))"
  shows "k \<noteq> s \<or> r \<noteq> old"
  using assms
  by (auto simp: outcome_validated_def lift_suppression_entry_def Let_def not_replacing_def
      split: suppression_outcome.splits option.splits if_splits)

lemma kept_out_lift [simp]:
  assumes "kept_out s l old t"
  shows "kept_out s l old (clear_full_lifecycle_hook_suppression_for_detected_agent p a t)"
proof (cases "a = None \<or> p = a")
  case True
  with assms show ?thesis
    by (auto simp: clear_full_lifecycle_hook_suppression_for_detected_agent_def split: option.split)
next
  case False
  then obtain ag where a: "a = Some ag" by (cases a) auto
  define lift where "lift = (\<lambda>(source, su).
      (source, lift_suppression_entry (ts_hook_report_sequences t) ag source su))"
  define stale where "stale = concat (map outcome_stale (map lift (ts_suppressed t)))"
  define validated where "validated = concat (map outcome_validated (map lift (ts_suppressed t)))"
  define t2 where "t2 = fold (\<lambda>(k, x). remember_stale_full_lifecycle_hook_session k (ss_agent_label x)
       (ss_session_ref x)) stale
       (t\<lparr>ts_suppressed := filter (\<lambda>e. snd (lift e) = KeepSuppressed) (ts_suppressed t)\<rparr>)"
  have "list_all (\<lambda>(k, _, r, _). k \<noteq> s \<or> r \<noteq> old) validated"
    using kept_out_all [OF assms] lifted_not_replacing
    by (fastforce simp: list_all_iff validated_def hm_all_def lift_def outcome_validated_def
        split: suppression_outcome.splits option.splits)
  moreover have "kept_out s l old t2"
    unfolding t2_def using assms
    by (intro kept_out_fold_remember kept_out_suppressed) (simp_all add: kept_out_all)
  ultimately have "kept_out s l old (fold adopt_validated_session validated (t2\<lparr>ts_hook_report_sequences := sq\<rparr>))" for sq
    by (simp add: kept_out_fold_adopt)
  with False a show ?thesis
    by (simp add: clear_full_lifecycle_hook_suppression_for_detected_agent_def Let_def
        lift_def t2_def stale_def validated_def)
qed

subsection \<open>Session reports\<close>

lemma kept_out_take:
  assumes "kept_out s l old t" and "k \<noteq> s \<or> r \<noteq> old"
  shows "kept_out s l old (fst (take_agent_session k x r allowed takeover replaced now clk t))"
  using assms kept_out_forget [OF assms]
  by (simp add: take_agent_session_def Let_def split: option.split)

lemma kept_out_session_report:
  assumes "kept_out s l old t" and "k \<noteq> s \<or> r \<noteq> Some old"
  shows "kept_out s l old (fst (set_agent_session_ref_for_session_start k x r n start now clk t))"
proof (cases r)
  case None
  with assms show ?thesis by (simp add: set_agent_session_ref_for_session_start_def)
next
  case (Some ref)
  with assms have new: "k \<noteq> s \<or> ref \<noteq> old" by simp
  define t1 where "t1 = (if is_unsequenced_opencode_selection k x start n \<and> agent_process_present t x
    then t\<lparr>ts_suppressed := hm_remove k (ts_suppressed t)\<rparr> else t)"
  have t1: "kept_out s l old t1"
    using assms(1) by (simp add: t1_def kept_out_suppressed kept_out_all)
  obtain t2 ok where acc: "accept_hook_report k n t1 = (t2, ok)" by (cases "accept_hook_report k n t1")
  with t1 kept_out_frames(3) [of s l old k n t1] have t2: "kept_out s l old t2" by simp
  have offered: "kept_out s l old (fst (offer_agent_session k x ref start present now clk u))"
    if "kept_out s l old u" for u present
    using that kept_out_take [OF that new] by (simp add: offer_agent_session_def Let_def)
  have started: "kept_out s l old (keep_started_session k x ref m now t1)" for m
    by (rule kept_out_started [OF t1 new])
  show ?thesis
    unfolding set_agent_session_ref_for_session_start_def Some
    using kept_out_selected [OF assms(1) new] started t1 t2 acc offered
    by (auto simp: Let_def t1_def [symmetric] split: option.split)
qed

subsection \<open>Detection\<close>

lemma kept_out_exit_suppressions [simp]:
  assumes "kept_out s l old t"
  shows "kept_out s l old (exit_suppressions a now t)"
proof -
  have seqs: "kept_out s l old (fold forget_hook_sequence ss u) = kept_out s l old u" for ss u
    by (induction ss arbitrary: u) simp_all
  have "hm_all (not_replacing s old) (hm_map_values
      (\<lambda>_ su. if exit_suppression_applies a su then exit_suppression_entry now su else su) (ts_suppressed t))"
    by (rule hm_all_map_values [OF kept_out_all [OF assms]])
      (simp add: not_replacing_def exit_suppression_entry_def)
  then show ?thesis
    unfolding exit_suppressions_def Let_def seqs
    by (intro kept_out_fold_remember kept_out_suppressed assms)
qed

lemma kept_out_exit [simp]:
  assumes "kept_out s l old t"
  shows "kept_out s l old (exit_agent_process a nc now t)"
proof -
  have source: "kept_out s l old (fold forget_metadata_source ss u) = kept_out s l old u" for ss u
    by (rule fold_frame) (simp add: forget_metadata_source_def kept_out_def stale_session_of_def)
  have generation: "kept_out s l old (fold forget_metadata_generation ss u) = kept_out s l old u" for ss u
    by (rule fold_frame) (simp add: forget_metadata_generation_def kept_out_def stale_session_of_def)
  have metadata: "kept_out s l old (u\<lparr>ts_agent_metadata := m\<rparr>) = kept_out s l old u"
    "kept_out s l old (u\<lparr>ts_metadata_report_agents := ag\<rparr>) = kept_out s l old u" for u m ag
    by (simp_all add: kept_out_def stale_session_of_def)
  have stages: "kept_out s l old (exit_official_session a now u)" "kept_out s l old (exit_authority a nc u)"
    "kept_out s l old (exit_persisted_session a nc u)" "kept_out s l old (exit_metadata a now u)"
    if "kept_out s l old u" for u
    using that
    by (simp_all add: exit_official_session_def exit_authority_def exit_persisted_session_def
        exit_metadata_def Let_def source generation metadata split: option.split)
  show ?thesis unfolding exit_agent_process_def by (intro stages kept_out_exit_suppressions assms)
qed

lemma kept_out_apply_detected [simp]:
  assumes "kept_out s l old t"
  shows "kept_out s l old (apply_detected_state a fb vb ex rel now clk t)"
proof -
  have drop: "kept_out s l old (drop_replaced_authority p a now clk u)" if "kept_out s l old u" for p u
    using that by (simp add: drop_replaced_authority_def Let_def)
  show ?thesis
    using assms by (simp add: apply_detected_state_def Let_def drop split: option.split)
qed

lemma kept_out_detect [simp]:
  assumes "kept_out s l old t"
  shows "kept_out s l old (fst (set_detected_state_with_screen_signals_at a fb vb vi vw ex now clk t))"
  using assms by (simp add: set_detected_state_with_screen_signals_at_def Let_def)

lemma kept_out_detect_process [simp]:
  assumes "kept_out s l old t"
  shows "kept_out s l old (fst (set_detected_agent_process_at a now clk t))"
  using assms by (simp add: set_detected_agent_process_at_def Let_def split_beta)

subsection \<open>Runs\<close>

text \<open>The operations that may bring a session back: a session report that names it, a respawn.\<close>

fun readmits_session :: "string \<Rightarrow> session_ref \<Rightarrow> terminal_op \<Rightarrow> bool" where
  "readmits_session s old (Call (SessionReport k _ r _ _ _ _)) \<longleftrightarrow> k = s \<and> r = Some old"
| "readmits_session s old Respawn \<longleftrightarrow> True"
| "readmits_session s old _ \<longleftrightarrow> False"

lemma kept_out_step:
  assumes "kept_out s l old t" and "\<not> readmits_session s old p"
  shows "\<exists>t'. terminal_step t p = Some t' \<and> kept_out s l old t'"
proof -
  have call: "kept_out s l old (fst (perform_call c t))" if "\<not> readmits_session s old (Call c)" for c
  proof (cases c)
    case (SessionReport k x r n start now clk)
    with that have "k \<noteq> s \<or> r \<noteq> Some old" by simp
    with kept_out_session_report [OF assms(1) this] SessionReport show ?thesis by simp
  next
    case (MetadataReport rep now)
    with assms(1) show ?thesis by (simp add: kept_out_view [OF hook_view_set_metadata])
  next
    case (ExpireMetadata dl now)
    with assms(1) show ?thesis by (simp add: kept_out_view [OF hook_view_expire])
  qed (use assms(1) in simp_all)
  show ?thesis
  proof (cases p)
    case (Call c)
    with call assms(2) show ?thesis by simp
  next
    case (RestoreSession ps)
    with assms(1) show ?thesis by (simp add: set_persisted_agent_session_def)
  next
    case Respawn
    with assms(2) show ?thesis by simp
  qed (use assms(1) in \<open>simp_all add: kept_out_view [OF hook_view_title(1)] kept_out_view [OF hook_view_title(2)]
    kept_out_view [OF hook_view_title(3)] kept_out_view [OF hook_view_title(4)]
    kept_out_view [OF hook_view_name(2)] kept_out_view [OF hook_view_name(3)] kept_out_view [OF hook_view_name(4)]
    kept_out_view [OF hook_view_reconcile_managed] kept_out_view [OF hook_view_accept_metadata]\<close>)
qed

interpretation stale_run: op_machine terminal_step "\<lambda>_ p. \<not> readmits_session s old p" "kept_out s l old"
  for s l old
  by unfold_locales (rule kept_out_step)

lemma kept_out_ignored:
  assumes "full_lifecycle_hook_authority s l" and "kept_out s l old t"
  shows "set_hook_authority_at s l st msg (Some old) n now clk t = (t, None)"
proof -
  have "full_lifecycle_hook_report_matches_stale_session t s l (Some old)"
    using assms by (cases "hm_get (ts_stale_sessions t) s")
      (force simp: full_lifecycle_hook_report_matches_stale_session_def list_ex_iff kept_out_def
        stale_session_of_def)+
  then have "route_full_lifecycle_hook_report s l st msg (Some old) n now t = (t, RouteIgnore)"
    using assms(1) by (simp add: route_full_lifecycle_hook_report_def)
  with assms(1) show ?thesis by (rule ignored_report)
qed

lemma not_replacing_removed: "hm_all (not_replacing s old) (hm_remove s m)"
  by (auto simp: hm_all_def list_all_iff hm_remove_def AList.delete_eq not_replacing_def)

lemma remembered_stale:
  "is_some_and (hm_get (ts_stale_sessions (remember_stale_full_lifecycle_hook_session s l old t)) s)
     (\<lambda>known. \<lparr>ss_agent_label = l, ss_session_ref = old\<rparr> \<in> set known)"
  using remember_stale_member [of s l old t] by (auto simp: is_some_and_iff)


section \<open>Agents that stay shut out\<close>

text \<open>
  The terminal knows of no process, and nothing on it stands for the integration: no authority,
  no session to be saved, and no cleared report that a new session could replace.
\<close>

definition shut_out :: "string \<Rightarrow> string \<Rightarrow> terminal_state \<Rightarrow> bool" where
  "shut_out s l t \<longleftrightarrow>
     ts_recent_agent_process_exit t \<noteq> None \<and>
     is_none_or (hm_get (ts_suppressed t) s) (\<lambda>su. su_agent_label su = l \<longrightarrow> su_reason su \<noteq> HookClear) \<and>
     is_none_or (ts_hook_authority t) (\<lambda>h. \<not> (ha_source h = s \<and> ha_agent_label h = l)) \<and>
     is_none_or (ts_persisted_agent_session t) (\<lambda>p. \<not> (ps_source p = s \<and> ps_agent p = l))"

lemma shut_out_view: "hook_view t = hook_view t' \<Longrightarrow> shut_out s l t = shut_out s l t'"
  by (simp add: hook_view_def shut_out_def)

lemma shut_out_frames [simp]:
  "shut_out s l (reconcile_agent_name_owner k r t) = shut_out s l t"
  "shut_out s l (fst (finish_mutation prev now c re t)) = shut_out s l t"
  "shut_out s l (fst (accept_hook_report src n t)) = shut_out s l t"
  "shut_out s l (forget_hook_sequence src t) = shut_out s l t"
  "shut_out s l (clear_agent_name t) = shut_out s l t"
  "shut_out s l (remember_stale_full_lifecycle_hook_session k x q t) = shut_out s l t"
  "shut_out s l (t\<lparr>ts_hook_report_sequences := sq\<rparr>) = shut_out s l t"
  "shut_out s l (t\<lparr>ts_detected_agent := a\<rparr>) = shut_out s l t"
  "shut_out s l (t\<lparr>ts_fallback_state := fs\<rparr>) = shut_out s l t"
  "shut_out s l (t\<lparr>ts_fallback_visible_blocker := fb\<rparr>) = shut_out s l t"
  "shut_out s l (t\<lparr>ts_fallback_observed_at := fo\<rparr>) = shut_out s l t"
  "shut_out s l t \<Longrightarrow> shut_out s l (t\<lparr>ts_recent_agent_process_exit := Some ex\<rparr>)"
  "shut_out s l t \<Longrightarrow> shut_out s l (t\<lparr>ts_hook_authority := None\<rparr>)"
  "shut_out s l t \<Longrightarrow> shut_out s l (t\<lparr>ts_persisted_agent_session := None\<rparr>)"
proof -
  show "shut_out s l (reconcile_agent_name_owner k r t) = shut_out s l t"
    "shut_out s l (fst (finish_mutation prev now c re t)) = shut_out s l t"
    "shut_out s l (fst (accept_hook_report src n t)) = shut_out s l t"
    "shut_out s l (forget_hook_sequence src t) = shut_out s l t"
    "shut_out s l (clear_agent_name t) = shut_out s l t"
    by (rule shut_out_view, simp)+
qed (simp_all add: shut_out_def)

lemma full_lifecycle_source:
  "full_lifecycle_hook_authority s l \<Longrightarrow> full_lifecycle_hook_authority s l' \<Longrightarrow> l = l'"
  by (auto simp: full_lifecycle_hook_authority_def)

lemma shut_out_suppressed:
  "shut_out s l t \<Longrightarrow> (k = s \<Longrightarrow> su_agent_label su = l \<Longrightarrow> su_reason su \<noteq> HookClear) \<Longrightarrow>
     shut_out s l (t\<lparr>ts_suppressed := hm_insert k su (ts_suppressed t)\<rparr>)"
  by (cases "k = s") (simp_all add: shut_out_def)

lemma shut_out_unsuppressed [simp]:
  "shut_out s l t \<Longrightarrow> shut_out s l (t\<lparr>ts_suppressed := hm_remove k (ts_suppressed t)\<rparr>)"
  by (cases "k = s") (simp_all add: shut_out_def)

lemma shut_out_absent:
  assumes "full_lifecycle_hook_authority s l" and "shut_out s l t"
  shows "\<not> agent_process_present t l" and "ts_hook_authority t = None \<Longrightarrow> effective_agent_label t \<noteq> Some l"
    and "\<not> persisted_agent_session_matches t s l"
    and "ts_hook_authority t = Some h \<Longrightarrow> full_lifecycle_hook_authority (ha_source h) (ha_agent_label h) \<Longrightarrow>
      ha_source h \<noteq> s"
proof -
  show "\<not> agent_process_present t l"
    using assms(2) by (simp add: shut_out_def agent_process_present_def Let_def)
  show "effective_agent_label t \<noteq> Some l" if "ts_hook_authority t = None"
    using assms(2) that by (auto simp: shut_out_def effective_agent_label_def)
  show "\<not> persisted_agent_session_matches t s l"
    using assms(2) by (cases "ts_persisted_agent_session t")
      (simp_all add: shut_out_def persisted_agent_session_matches_def)
  show "ha_source h \<noteq> s" if "ts_hook_authority t = Some h" "full_lifecycle_hook_authority (ha_source h) (ha_agent_label h)"
    using that assms(2) full_lifecycle_source [OF assms(1), of "ha_agent_label h"] by (auto simp: shut_out_def)
qed

lemma shut_out_suppress_exited [simp]:
  "shut_out s l t \<Longrightarrow> shut_out s l (suppress_full_lifecycle_hook_report_with_session_ref k x r ProcessExit now t)"
  by (cases "k = s") (simp_all add: suppress_full_lifecycle_hook_report_with_session_ref_def shut_out_def)

lemma shut_out_suppress_current [simp]:
  assumes "full_lifecycle_hook_authority s l" and "shut_out s l t"
  shows "shut_out s l (suppress_current_full_lifecycle_hook_authority re now t)"
  using shut_out_absent(4) [OF assms] assms(2)
  by (auto simp: suppress_current_full_lifecycle_hook_authority_def
      suppress_full_lifecycle_hook_report_with_session_ref_def intro!: shut_out_suppressed split: option.split)

lemma shut_out_pending [simp]:
  assumes "shut_out s l t"
  shows "shut_out s l (keep_pending_report k x st msg r n at t)"
  unfolding keep_pending_report_def Let_def
  by (rule shut_out_suppressed [OF assms]) (use assms in \<open>cases "hm_get (ts_suppressed t) k"; auto simp: shut_out_def split: if_splits\<close>)

lemma shut_out_selected [simp]:
  assumes "shut_out s l t"
  shows "shut_out s l (keep_selected_session k x r clk t)"
  unfolding keep_selected_session_def Let_def
  by (rule shut_out_suppressed [OF assms]) (use assms in \<open>cases "hm_get (ts_suppressed t) k"; auto simp: shut_out_def split: if_splits\<close>)

lemma shut_out_started [simp]:
  assumes "shut_out s l t"
  shows "shut_out s l (keep_started_session k x r n now t)"
proof -
  have seqs: "shut_out s l (u\<lparr>ts_suppressed := m, ts_hook_report_sequences := sq\<rparr>) = shut_out s l (u\<lparr>ts_suppressed := m\<rparr>)"
    for u m sq by (simp add: shut_out_def)
  show ?thesis
    unfolding keep_started_session_def Let_def seqs
    by (rule shut_out_suppressed [OF assms]) (use assms in \<open>cases "hm_get (ts_suppressed t) k"; auto simp: shut_out_def split: if_splits\<close>)
qed

subsection \<open>Operations\<close>

lemma shut_out_route:
  assumes "full_lifecycle_hook_authority s l" and "shut_out s l t"
  shows "shut_out s l (fst (route_full_lifecycle_hook_report k x st msg r n at t))"
    and "snd (route_full_lifecycle_hook_report s l st msg r n at t) = RouteIgnore"
proof -
  show "shut_out s l (fst (route_full_lifecycle_hook_report k x st msg r n at t))"
    using assms by (auto simp: route_full_lifecycle_hook_report_def Let_def split: option.split)
  have "su_reason su \<noteq> HookClear" if "hm_get (ts_suppressed t) s = Some su" "su_agent_label su = l" for su
    using that assms(2) by (simp add: shut_out_def)
  then show "snd (route_full_lifecycle_hook_report s l st msg r n at t) = RouteIgnore"
    using assms(1) shut_out_absent(1) [OF assms]
    by (auto simp: route_full_lifecycle_hook_report_def Let_def split: option.split)
qed

lemma shut_out_refused:
  assumes "full_lifecycle_hook_authority s l" and "shut_out s l t"
  shows "snd (set_hook_authority_at s l st msg r n now clk t) = None"
  using shut_out_route(2) [OF assms] ignored_report [OF assms(1)] by (metis prod.collapse snd_conv)

lemma shut_out_install:
  assumes "full_lifecycle_hook_authority s l" and "shut_out s l t" and "k \<noteq> s \<or> x \<noteq> l"
  shows "shut_out s l (fst (install_hook_authority k x st msg r takeover reanchor now clk t))"
proof -
  have installed: "shut_out s l (u\<lparr>ts_persisted_agent_session := None, ts_hook_authority := Some
      \<lparr>ha_source = k, ha_agent_label = x, ha_state = st, ha_message = msg, ha_reported_at = now, ha_session_ref = r\<rparr>\<rparr>)"
    if "shut_out s l u" for u
    using that assms(3) by (auto simp: shut_out_def)
  define t2 where "t2 = (let t1 = reconcile_agent_name_owner x r t
    in if takeover then suppress_current_full_lifecycle_hook_authority HookClear clk t1 else t1)"
  have t2: "shut_out s l t2" using assms(1,2) by (simp add: t2_def Let_def)
  then have "shut_out s l (t2\<lparr>ts_suppressed := hm_remove k (ts_suppressed t2)\<rparr>)" by simp
  with t2 show ?thesis
    unfolding install_hook_authority_def Let_def t2_def [unfolded Let_def, symmetric] shut_out_frames
    by (intro installed) (simp split: option.split)
qed

lemma shut_out_hook_report:
  assumes "full_lifecycle_hook_authority s l" and "shut_out s l t"
  shows "shut_out s l (fst (set_hook_authority_at k x st msg r n now clk t))"
proof (cases "k = s \<and> x = l")
  case True
  obtain t1 where route: "route_full_lifecycle_hook_report s l st msg r n now t = (t1, RouteIgnore)"
    using shut_out_route(2) [OF assms] by (metis prod.collapse)
  with shut_out_route(1) [OF assms, of s l st msg r n now] ignored_report [OF assms(1) route] True
  show ?thesis by simp
next
  case False
  obtain t1 ro where route: "route_full_lifecycle_hook_report k x st msg r n now t = (t1, ro)"
    by (cases "route_full_lifecycle_hook_report k x st msg r n now t")
  with shut_out_route(1) [OF assms, of k x st msg r n now] have t1: "shut_out s l t1" by simp
  have inner: "shut_out s l (fst (case accept_hook_report k n (if b then forget_hook_sequence k t1 else t1) of
      (t2, False) \<Rightarrow> (t2, None)
    | (t2, True) \<Rightarrow> some_mutation (install_hook_authority k x st msg r' tk b now clk t2)))" for b r' tk
  proof -
    obtain t2 ok where acc: "accept_hook_report k n (if b then forget_hook_sequence k t1 else t1) = (t2, ok)"
      by (cases "accept_hook_report k n (if b then forget_hook_sequence k t1 else t1)")
    then have "shut_out s l t2"
      using t1 shut_out_frames(3) [of s l k n "if b then forget_hook_sequence k t1 else t1"]
      by (simp split: if_splits)
    with acc False show ?thesis by (cases ok) (simp_all add: shut_out_install [OF assms(1)])
  qed
  from route t1 assms inner show ?thesis
    by (cases ro) (simp_all add: set_hook_authority_at_def Let_def)
qed

lemma shut_out_clear:
  assumes "full_lifecycle_hook_authority s l" and "shut_out s l t"
  shows "shut_out s l (fst (clear_hook_authority_with_mutation src n now clk t))"
  using assms
  by (auto simp: clear_hook_authority_with_mutation_def Let_def split_beta split: option.split)

lemma shut_out_release:
  assumes "full_lifecycle_hook_authority s l" and "shut_out s l t"
  shows "shut_out s l (fst (release_agent_with_mutation k x n now clk t))"
proof (cases "k = s \<and> full_lifecycle_hook_authority k x")
  case True
  then have "x = l" using full_lifecycle_source [OF assms(1)] by blast
  with True have "release_agent_with_mutation k x n now clk t = (t, None)"
    using shut_out_absent [OF assms] assms(2)
    by (cases "ts_hook_authority t") (auto simp: release_agent_with_mutation_def shut_out_def)
  with assms(2) show ?thesis by simp
next
  case False
  have suppressed: "shut_out s l (suppress_full_lifecycle_hook_report k x re clk u)" if "shut_out s l u" for re u
    using that False
    by (auto simp: suppress_full_lifecycle_hook_report_def
        suppress_full_lifecycle_hook_report_with_session_ref_def intro!: shut_out_suppressed)
  show ?thesis
    using assms(2) by (simp add: release_agent_with_mutation_def Let_def split_beta suppressed)
qed


lemma shut_out_session_report:
  assumes "full_lifecycle_hook_authority s l" and "shut_out s l t"
  shows "shut_out s l (fst (set_agent_session_ref_for_session_start k x r n start now clk t))"
proof (cases r)
  case None
  with assms show ?thesis by (simp add: set_agent_session_ref_for_session_start_def)
next
  case (Some ref)
  have absent: "\<not> agent_process_present t x"
    using assms(2) by (simp add: shut_out_def agent_process_present_def Let_def)
  have taken: "shut_out s l (fst (take_agent_session k x ref allowed takeover replaced now clk u))"
    if "shut_out s l u" "k \<noteq> s \<or> x \<noteq> l" for allowed takeover replaced u
  proof -
    have forgotten: "shut_out s l (forget_stale_full_lifecycle_hook_session k x ref u)"
      using that(1) by (simp add: forget_stale_full_lifecycle_hook_session_def Let_def shut_out_def split: option.split)
    have installed: "shut_out s l (v\<lparr>ts_persisted_agent_session := Some \<lparr>ps_source = k, ps_agent = x, ps_session_ref = ref\<rparr>\<rparr>)"
      if "shut_out s l v" for v
      using that \<open>k \<noteq> s \<or> x \<noteq> l\<close> by (auto simp: shut_out_def)
    show ?thesis
      unfolding take_agent_session_def Let_def shut_out_frames
      by (intro installed) (use assms(1) that(1) forgotten in \<open>simp split: option.split\<close>)
  qed
  then have offered: "shut_out s l (fst (offer_agent_session k x ref start present now clk u))"
    if "shut_out s l u" "k \<noteq> s \<or> x \<noteq> l" for u present
    using that by (simp add: offer_agent_session_def Let_def)
  obtain t2 ok where acc: "accept_hook_report k n t = (t2, ok)" by (cases "accept_hook_report k n t")
  with assms(2) shut_out_frames(3) [of s l k n t] have t2: "shut_out s l t2" by simp
  have other: "k \<noteq> s \<or> x \<noteq> l" if "\<not> full_lifecycle_hook_authority k x" using that assms(1) by auto
  show ?thesis
    unfolding set_agent_session_ref_for_session_start_def Some
    using absent acc t2 assms(2) offered other
    by (auto simp: Let_def split: option.split)
qed

subsection \<open>Detection\<close>

lemma exit_suppressions_suppressed:
  "ts_suppressed (exit_suppressions a now t) = hm_map_values
     (\<lambda>_ su. if exit_suppression_applies a su then exit_suppression_entry now su else su) (ts_suppressed t)"
proof -
  have forget: "ts_suppressed (fold forget_hook_sequence ss u) = ts_suppressed u" for ss u
    by (rule fold_frame) simp
  have remember: "ts_suppressed (fold (\<lambda>(s, l, r). remember_stale_full_lifecycle_hook_session s l r) xs u) =
      ts_suppressed u" for xs u
    by (rule fold_frame) (simp add: split_beta)
  show ?thesis by (simp add: exit_suppressions_def Let_def forget remember)
qed

lemma shut_out_exit:
  assumes "shut_out s l t"
  shows "shut_out s l (exit_agent_process a nc now t)"
proof -
  let ?t1 = "exit_suppressions a now t"
  have t1: "identity_frame ?t1 = identity_frame t" "exit_frame ?t1 = exit_frame t" by simp_all
  with assms have "shut_out s l ?t1"
    by (cases "hm_get (ts_suppressed t) s")
      (simp_all add: shut_out_def identity_frame_def exit_frame_def exit_suppressions_suppressed exit_suppression_entry_def)
  moreover have stages: "shut_out s l (exit_official_session a now u)" "shut_out s l (exit_authority a nc u)"
    "shut_out s l (exit_persisted_session a nc u)" "shut_out s l (exit_metadata a now u)"
    if "shut_out s l u" for u
  proof -
    show "shut_out s l (exit_official_session a now u)"
      using that by (simp add: exit_official_session_def split: option.split)
    show "shut_out s l (exit_authority a nc u)" "shut_out s l (exit_persisted_session a nc u)"
      using that by (simp_all add: exit_authority_def exit_persisted_session_def split: option.split)
    have "identity_frame (exit_metadata a now u) = identity_frame u" "exit_frame (exit_metadata a now u) = exit_frame u"
      by simp_all
    with that show "shut_out s l (exit_metadata a now u)"
      by (simp add: shut_out_def identity_frame_def exit_frame_def)
  qed
  ultimately show ?thesis unfolding exit_agent_process_def by (intro stages)
qed

lemma shut_out_drop:
  assumes "full_lifecycle_hook_authority s l" and "shut_out s l t"
  shows "shut_out s l (drop_replaced_authority p a now clk t)"
proof -
  have dropped: "shut_out s l (u\<lparr>ts_hook_authority := None, ts_persisted_agent_session := d\<rparr>)"
    if "shut_out s l u" "is_none_or d (\<lambda>p. \<not> (ps_source p = s \<and> ps_agent p = l))" for u d
    using that by (simp add: shut_out_def)
  have "is_none_or (Option.bind (ts_hook_authority t)
      (\<lambda>h. map_option (\<lambda>r. \<lparr>ps_source = ha_source h, ps_agent = ha_agent_label h, ps_session_ref = r\<rparr>)
        (ha_session_ref h))) (\<lambda>p. \<not> (ps_source p = s \<and> ps_agent p = l))"
    using assms(2)
    by (cases "ts_hook_authority t"; cases "Option.bind (ts_hook_authority t) ha_session_ref")
      (auto simp: shut_out_def)
  then show ?thesis
    unfolding drop_replaced_authority_def Let_def using assms dropped by simp
qed

lemma shut_out_detect:
  assumes "full_lifecycle_hook_authority s l" and "shut_out s l t" and "a = None \<or> ex"
  shows "shut_out s l (fst (set_detected_state_with_screen_signals_at a fb vb vi vw ex now clk t))"
proof -
  have "shut_out s l (apply_detected_state a fb vb ex rel now clk t)" for rel
    unfolding apply_detected_state_def Let_def
    using assms shut_out_exit shut_out_drop [OF assms(1)]
    by (auto simp: clear_full_lifecycle_hook_suppression_for_detected_agent_def split: option.split)
  with assms(2) show ?thesis
    by (simp add: set_detected_state_with_screen_signals_at_def Let_def)
qed


subsection \<open>Runs\<close>

text \<open>
  The operations after which an agent may report again: a live process is detected, the pane is
  given a new process, or the terminal is restored with the integration's session.
\<close>

fun readmits_agent :: "string \<Rightarrow> string \<Rightarrow> terminal_op \<Rightarrow> bool" where
  "readmits_agent s l (Call (Detect a _ _ _ _ exited _ _)) \<longleftrightarrow> a \<noteq> None \<and> \<not> exited"
| "readmits_agent s l (Call (DetectProcess _ _ _)) \<longleftrightarrow> True"
| "readmits_agent s l Respawn \<longleftrightarrow> True"
| "readmits_agent s l (RestoreSession p) \<longleftrightarrow> ps_source p = s \<and> ps_agent p = l"
| "readmits_agent s l _ \<longleftrightarrow> False"

lemma shut_out_step:
  assumes "full_lifecycle_hook_authority s l \<and> shut_out s l t" and "\<not> readmits_agent s l p"
  shows "\<exists>t'. terminal_step t p = Some t' \<and> full_lifecycle_hook_authority s l \<and> shut_out s l t'"
proof -
  from assms(1) have fl: "full_lifecycle_hook_authority s l" and t: "shut_out s l t" by simp_all
  have call: "shut_out s l (fst (perform_call c t))" if "\<not> readmits_agent s l (Call c)" for c
  proof (cases c)
    case (MetadataReport rep now)
    with t show ?thesis by (simp add: shut_out_view [OF hook_view_set_metadata])
  next
    case (ExpireMetadata dl now)
    with t show ?thesis by (simp add: shut_out_view [OF hook_view_expire])
  qed (use that shut_out_detect [OF fl t] shut_out_hook_report [OF fl t] shut_out_session_report [OF fl t]
      shut_out_clear [OF fl t] shut_out_release [OF fl t] in auto)
  show ?thesis
  proof (cases p)
    case (Call c)
    with call fl assms(2) show ?thesis by simp
  next
    case (RestoreSession ps)
    with assms(2) t fl show ?thesis by (simp add: set_persisted_agent_session_def shut_out_def)
  next
    case Respawn
    with assms(2) show ?thesis by simp
  qed (use t fl in \<open>simp_all add: shut_out_view [OF hook_view_title(1)] shut_out_view [OF hook_view_title(2)]
    shut_out_view [OF hook_view_title(3)] shut_out_view [OF hook_view_title(4)]
    shut_out_view [OF hook_view_name(2)] shut_out_view [OF hook_view_name(3)] shut_out_view [OF hook_view_name(4)]
    shut_out_view [OF hook_view_reconcile_managed] shut_out_view [OF hook_view_accept_metadata]\<close>)
qed

interpretation shut_out_run: op_machine terminal_step "\<lambda>_ p. \<not> readmits_agent s l p"
  "\<lambda>t. full_lifecycle_hook_authority s l \<and> shut_out s l t" for s l
  by unfold_locales (rule shut_out_step)

lemma exit_shuts_out:
  assumes "ts_hook_authority t = Some h"
    and "full_lifecycle_hook_authority (ha_source h) (ha_agent_label h)"
    and "parse_agent_label (ha_agent_label h) = Some a"
    and "set_detected_state_with_screen_signals_at (Some a) fb vb vi vw True now clk t = (t', mu)"
  shows "shut_out (ha_source h) (ha_agent_label h) t' \<and> effective_agent_label t' \<noteq> Some (ha_agent_label h)"
proof -
  have off: "is_official_agent_source (ha_source h) (ha_agent_label h)"
    by (rule full_lifecycle_official [OF assms(2)])
  then have nc: "\<not> newer_custom_authority (Some a) True now t"
    using assms(1) by (simp add: newer_custom_authority_def)
  note forgets = exit_forgets_agent_facts [OF nc assms(4)]
  from exit_result [OF nc assms(4)] obtain u where
    sup: "ts_suppressed t' = ts_suppressed u"
    and u: "u = drop_replaced_authority (ts_detected_agent t) (Some a) now clk
         (exit_agent_process (Some a) False now (exit_start a fb vb now t))" by metis
  have "is_none_or (ts_hook_authority t') (\<lambda>k. \<not> (ha_source k = ha_source h \<and> ha_agent_label k = ha_agent_label h))"
    "is_none_or (ts_persisted_agent_session t') (\<lambda>p. \<not> (ps_source p = ha_source h \<and> ps_agent p = ha_agent_label h))"
    using forgets assms(3) by (auto simp: is_none_or_iff)
  moreover have "effective_agent_label t' \<noteq> Some (ha_agent_label h)"
    using forgets assms(3) by (auto simp: effective_known_agent_def)
  ultimately show ?thesis
    using exit_suppresses_session [OF assms(1) off assms(3) u] sup forgets by (simp add: shut_out_def)
qed


section \<open>Properties\<close>

text \<open>
  C3: late reports of an exited process are kept out. Once the process behind a full-lifecycle
  authority has exited, the agent is not the effective one, and however the terminal is used
  afterwards, no report of that integration is taken and none becomes its authority, of whatever
  session, until a live process is detected, the pane is given a new process or the terminal is
  restored with the integration's session.
\<close>

theorem late_reports_kept_out_after_exit:
  assumes "ts_hook_authority t = Some h"
    and "full_lifecycle_hook_authority (ha_source h) (ha_agent_label h)"
    and "parse_agent_label (ha_agent_label h) = Some a"
    and "set_detected_state_with_screen_signals_at (Some a) fb vb vi vw True now clk t = (t', mu)"
    and "\<forall>p\<in>set ps. \<not> readmits_agent (ha_source h) (ha_agent_label h) p"
  shows "effective_agent_label t' \<noteq> Some (ha_agent_label h) \<and>
    (\<exists>t''. run_ops terminal_step t' ps = Some t'' \<and>
      snd (set_hook_authority_at (ha_source h) (ha_agent_label h) st msg r n now' clk' t'') = None \<and>
      is_none_or (ts_hook_authority t'')
        (\<lambda>k. (ha_source k, ha_agent_label k) \<noteq> (ha_source h, ha_agent_label h)))"
proof -
  let ?s = "ha_source h" and ?l = "ha_agent_label h"
  have "run_guarded terminal_step (\<lambda>_ p. \<not> readmits_agent ?s ?l p) t' ps"
    by (rule run_guarded_always) (use assms(5) in blast)
  moreover have "full_lifecycle_hook_authority ?s ?l \<and> shut_out ?s ?l t'"
    using assms(2) exit_shuts_out [OF assms(1-4)] by simp
  ultimately obtain t'' where t'': "run_ops terminal_step t' ps = Some t''" "shut_out ?s ?l t''"
    using shut_out_run.run_inv by blast
  then have "is_none_or (ts_hook_authority t'') (\<lambda>k. (ha_source k, ha_agent_label k) \<noteq> (?s, ?l))"
    by (simp add: shut_out_def)
  with t'' exit_shuts_out [OF assms(1-4)] shut_out_refused [OF assms(2)] show ?thesis by blast
qed

theorem late_reports_kept_out_after_exit_witness:
  "\<exists>t. run_ops terminal_step
      (fst (set_detected_state_with_screen_signals_at (Some Pi) Unknown False False False True 7 7 pi_terminal))
      [Call (HookReport ''osade:pi'' ''pi'' Working None (Some pi_session) (Some 98) 8 8),
       Call (SessionReport ''osade:pi'' ''pi'' (Some pi_session) (Some 99) (Some ''resume'') 9 9),
       Call (Detect None Unknown False False False False 10 10)] = Some t \<and>
    snd (set_hook_authority_at ''osade:pi'' ''pi'' Working None (Some pi_session) (Some 100) 11 11 t) = None"
proof -
  let ?ps = "[Call (HookReport ''osade:pi'' ''pi'' Working None (Some pi_session) (Some 98) 8 8),
       Call (SessionReport ''osade:pi'' ''pi'' (Some pi_session) (Some 99) (Some ''resume'') 9 9),
       Call (Detect None Unknown False False False False 10 10)]"
  obtain t' mu where d: "set_detected_state_with_screen_signals_at (Some Pi) Unknown False False False True 7 7 pi_terminal
      = (t', mu)"
    by (cases "set_detected_state_with_screen_signals_at (Some Pi) Unknown False False False True 7 7 pi_terminal")
  have auth: "ts_hook_authority pi_terminal = Some pi_authority" by (simp add: pi_terminal_def)
  have h: "ha_source pi_authority = ''osade:pi''" "ha_agent_label pi_authority = ''pi''"
    by (simp_all add: pi_authority_def)
  from late_reports_kept_out_after_exit [OF auth _ _ d, of ?ps Working None "Some pi_session" "Some 100" 11 11]
  have "\<exists>t. run_ops terminal_step t' ?ps = Some t \<and>
      snd (set_hook_authority_at ''osade:pi'' ''pi'' Working None (Some pi_session) (Some 100) 11 11 t) = None"
    unfolding h using pi_full_lifecycle pi_parses by fastforce
  then show ?thesis by (simp only: d fst_conv)
qed

text \<open>
  C7: a replaced session stays out until it is resumed. When a report of a new session has taken
  over from a suppressed one, the two sessions differ, and however the terminal is used
  afterwards, a report of the old session changes nothing, with whatever sequence number it
  comes, until a session report of the integration names the old session or the pane is given a
  new process.
\<close>

theorem replaced_session_stays_out:
  assumes "full_lifecycle_hook_authority s l" and "ts_hook_authority t = None"
    and "hm_get (ts_suppressed t) s = Some su" and "su_session_ref su = Some old"
    and "set_hook_authority_at s l st msg (Some r) n now clk t = (t', Some mu)"
    and "\<forall>p\<in>set ps. \<not> readmits_session s old p"
  shows "r \<noteq> old \<and> (\<exists>t''. run_ops terminal_step t' ps = Some t'' \<and>
    set_hook_authority_at s l st2 msg2 (Some old) n2 now2 clk2 t'' = (t'', None))"
proof -
  from assms(5) obtain t1 re tk t2 r' where
    route: "route_full_lifecycle_hook_report s l st msg (Some r) n now t = (t1, RouteAccept re)"
    and acc: "accept_hook_report s n (if re then forget_hook_sequence s t1 else t1) = (t2, True)"
    and r': "r' = settle_session_ref t1 s l (Some r)"
    and t': "t' = fst (install_hook_authority s l st msg r' tk re now clk t2)"
    by (rule set_hook_authority_takenE)
  from route assms(1,3,4) have "t1 = t" and label: "su_agent_label su = l" and new: "r \<noteq> old"
    by (auto simp: route_full_lifecycle_hook_report_def Let_def hm_contains_def split: if_splits option.splits)
  moreover have "t2 = fst (accept_hook_report s n (if re then forget_hook_sequence s t1 else t1))"
    using acc by simp
  ultimately have t2: "ts_suppressed t2 = ts_suppressed t" "ts_hook_authority t2 = None"
    using assms(2) by (simp_all add: forget_hook_sequence_def)
  have "r' \<noteq> None" by (simp add: r' settle_session_ref_def)
  then have "kept_out s l old t'"
    using remembered_stale [of s l old] assms(3,4) t2 label not_replacing_removed [of s old]
    by (auto simp: kept_out_def stale_session_of_def t' install_hook_authority_def Let_def
        suppress_current_full_lifecycle_hook_authority_def)
  moreover have "run_guarded terminal_step (\<lambda>_ p. \<not> readmits_session s old p) t' ps"
    by (rule run_guarded_always) (use assms(6) in blast)
  ultimately obtain t'' where "run_ops terminal_step t' ps = Some t''" "kept_out s l old t''"
    using stale_run.run_inv by blast
  with new kept_out_ignored [OF assms(1)] show ?thesis by blast
qed

theorem replaced_session_stays_out_witness:
  "\<exists>t' mu t''. set_hook_authority_at ''osade:pi'' ''pi'' Idle None (Some (pi_session\<lparr>sr_value := ''b''\<rparr>)) (Some 2) 2 2 pi_cleared
       = (t', Some mu) \<and>
     run_ops terminal_step t' [Call (ClearHook None None 3 3), Call (DetectProcess Claude 4 4),
       Call (DetectProcess Pi 5 5)] = Some t'' \<and>
     set_hook_authority_at ''osade:pi'' ''pi'' Working None (Some pi_session) (Some 9) 6 6 t'' = (t'', None)"
proof -
  let ?r = "pi_session\<lparr>sr_value := ''b''\<rparr>"
  have neq: "pi_session \<noteq> ?r" by (simp add: pi_session_def)
  have fields: "ts_hook_authority pi_cleared = None" "ts_persisted_agent_session pi_cleared = None"
    "ts_detected_agent pi_cleared = Some Pi" "ts_stale_sessions pi_cleared = []"
    and sup: "hm_get (ts_suppressed pi_cleared) ''osade:pi'' = Some \<lparr>su_agent_label = ''pi'',
      su_session_ref = Some pi_session, su_observed_at = 1, su_reason = HookClear,
      su_replacement_session_ref = None, su_pending_replacement_report = None\<rparr>"
    by (simp_all add: pi_cleared_def ts_new_def hm_get_def)
  have route: "route_full_lifecycle_hook_report ''osade:pi'' ''pi'' Idle None (Some ?r) (Some 2) 2 pi_cleared =
      (pi_cleared, RouteAccept True)"
    using neq fields sup
    by (simp add: route_full_lifecycle_hook_report_def Let_def pi_full_lifecycle anchored_session_ref_def
        full_lifecycle_hook_report_matches_stale_session_def)
  have "\<exists>t' mu. set_hook_authority_at ''osade:pi'' ''pi'' Idle None (Some ?r) (Some 2) 2 2 pi_cleared = (t', Some mu)"
    using fields pi_parses
    by (simp add: set_hook_authority_at_def route pi_full_lifecycle full_lifecycle_not_identity_only
        known_agent_label_conflicts_with_detected_agent_def current_session_owner_conflicts_def
        current_session_identity_for_persistence_def Let_def
        live_full_lifecycle_hook_authority_conflicts_with_session_def accept_hook_report_def
        forget_hook_sequence_def some_mutation_def split_beta)
  then obtain t' mu where taken: "set_hook_authority_at ''osade:pi'' ''pi'' Idle None (Some ?r) (Some 2) 2 2 pi_cleared =
      (t', Some mu)" by blast
  let ?ps = "[Call (ClearHook None None 3 3), Call (DetectProcess Claude 4 4), Call (DetectProcess Pi 5 5)]"
  have ps: "\<forall>p\<in>set ?ps. \<not> readmits_session ''osade:pi'' pi_session p" by simp
  from replaced_session_stays_out [OF pi_full_lifecycle fields(1) sup _ taken ps, of Working None "Some 9" 6 6]
  have "\<exists>t''. run_ops terminal_step t' ?ps = Some t'' \<and>
      set_hook_authority_at ''osade:pi'' ''pi'' Working None (Some pi_session) (Some 9) 6 6 t'' = (t'', None)"
    by simp
  with taken show ?thesis by blast
qed

end
