(* ===== verification/Restart_Properties.thy ===== *)
theory Restart_Properties
  imports Hook_Runs
begin

text \<open>
  The restart of an agent: a session start and a first report that arrive before the new process
  is detected wait behind the suppression, and take effect when it is.
\<close>

section \<open>One suppressed entry per agent\<close>

lemma official_label:
  assumes "is_official_agent_source s l"
  shows "\<exists>a. l = agent_label a \<and> parse_agent_label l = Some a"
proof -
  from assms have "l \<in> agent_label ` set [Claude, Codex, GithubCopilot, Devin, Droid, Kimi, Omp, Mastracode,
      Pi, Hermes, OpenCode, Qodercli, Qwen, Kilo, Cursor, Antigravity, Grok]"
    by (auto simp: is_official_agent_source_def official_agent_sources_def)
  then obtain a where "l = agent_label a" by blast
  then show ?thesis by simp
qed

lemma official_source_unique:
  "is_official_agent_source s l \<Longrightarrow> is_official_agent_source s' l \<Longrightarrow> s = s'"
  by (auto simp: is_official_agent_source_def official_agent_sources_def)

lemma official_unique:
  assumes "is_official_agent_source s l" and "is_official_agent_source s' l'"
    and "parse_agent_label l = parse_agent_label l'"
  shows "s = s' \<and> l = l'"
proof -
  from official_label [OF assms(1)] official_label [OF assms(2)] assms(3) have "l = l'" by auto
  with assms official_source_unique show ?thesis by blast
qed

lemma concat_map_single:
  assumes "hm_wf m" and "hm_get m s = Some v" and "\<And>k x. (k, x) \<in> set m \<Longrightarrow> k \<noteq> s \<Longrightarrow> f (k, x) = []"
  shows "concat (map f m) = f (s, v)"
  using assms
proof (induction m)
  case (Cons e m)
  obtain k x where e: "e = (k, x)" by (cases e)
  show ?case
  proof (cases "k = s")
    case True
    with Cons.prems e have notin: "s \<notin> fst ` set m" and x: "x = v"
      by (auto simp: hm_wf_def hm_keys_def hm_get_def)
    have "f y = []" if "y \<in> set m" for y
    proof -
      obtain k' x' where y: "y = (k', x')" by (cases y)
      from that notin y have "k' \<noteq> s" by force
      with Cons.prems(3) [of k' x'] that y show ?thesis by simp
    qed
    then have "concat (map f m) = []" by simp
    with True x e show ?thesis by simp
  next
    case False
    with Cons.prems e have "hm_wf m" "hm_get m s = Some v" "f e = []"
      by (auto simp: hm_wf_def hm_keys_def hm_get_def)
    with Cons.IH Cons.prems(3) show ?thesis by simp
  qed
qed simp

section \<open>Lifting the suppression of the restarted agent\<close>

lemma lift_restarted:
  assumes "terminal_wf t" and "hm_get (ts_suppressed t) s = Some su" and "su_agent_label su = l"
    and "parse_agent_label l = Some a" and "su_reason su = ProcessExit"
    and "su_replacement_session_ref su = Some r" and "su_pending_replacement_report su = Some p"
    and "ha_session_ref (pr_authority p) = Some r"
    and "is_none_or (hm_get (ts_hook_report_sequences t) s) (\<lambda>n. n < pr_seq p)"
  obtains u where "clear_full_lifecycle_hook_suppression_for_detected_agent None (Some a) t =
    adopt_validated_session (s, l, r, Some p) u"
proof -
  define lift where "lift = (\<lambda>(source, su).
    (source, lift_suppression_entry (ts_hook_report_sequences t) a source su))"
  have ok: "suppressed_ok k x" if "(k, x) \<in> set (ts_suppressed t)" for k x
    using assms(1) that by (auto simp: terminal_wf_def hm_all_def list_all_iff)
  have mine: "is_official_agent_source s l"
    using ok [OF hm_get_mem [OF assms(2)]] assms(3) by (simp add: suppressed_ok_def)
  have other: "lift (k, x) = (k, KeepSuppressed)" if "(k, x) \<in> set (ts_suppressed t)" "k \<noteq> s" for k x
  proof -
    have "is_official_agent_source k (su_agent_label x)" using ok [OF that(1)] by (simp add: suppressed_ok_def)
    with official_unique [OF this mine] that(2) assms(4) have "parse_agent_label (su_agent_label x) \<noteq> Some a"
      by auto
    then show ?thesis by (simp add: lift_def lift_suppression_entry_def)
  qed
  have here: "outcome_validated (lift (s, su)) = [(s, l, r, Some p)]"
    using assms by (simp add: lift_def lift_suppression_entry_def outcome_validated_def)
  have wf: "hm_wf (ts_suppressed t)" using assms(1) by (simp add: terminal_wf_def)
  have "concat (map (\<lambda>e. outcome_validated (lift e)) (ts_suppressed t)) = outcome_validated (lift (s, su))"
    by (rule concat_map_single [OF wf assms(2)]) (simp add: other outcome_validated_def)
  with here have "concat (map outcome_validated (map lift (ts_suppressed t))) = [(s, l, r, Some p)]"
    by (simp add: comp_def)
  then show ?thesis
    using that by (simp add: clear_full_lifecycle_hook_suppression_for_detected_agent_def Let_def
        lift_def [symmetric])
qed

lemma adopt_validated_fields:
  "ts_hook_authority (adopt_validated_session (s, l, r, Some p) u) = Some (pr_authority p)"
  "ts_persisted_agent_session (adopt_validated_session (s, l, r, Some p) u) =
     Some \<lparr>ps_source = s, ps_agent = l, ps_session_ref = r\<rparr>"
  by (simp_all add: adopt_validated_session_def Let_def)

section \<open>The three steps\<close>

lemma restart_start:
  assumes "full_lifecycle_hook_authority s l" and "ts_recent_agent_process_exit t \<noteq> None"
    and "session_start_source_is_recognized start"
    and "is_none_or (hm_get (ts_hook_report_sequences t) s) (\<lambda>p. p < n)"
  shows "set_agent_session_ref_for_session_start s l (Some r) (Some n) start now clk t =
    (keep_started_session s l r n now t, None)"
  using assms
  by (cases "hm_get (ts_hook_report_sequences t) s")
    (auto simp: set_agent_session_ref_for_session_start_def Let_def agent_process_present_def
      is_unsequenced_opencode_selection_def)

lemma restart_report:
  assumes "full_lifecycle_hook_authority s l" and "ts_recent_agent_process_exit t \<noteq> None"
    and "\<not> full_lifecycle_hook_report_matches_stale_session t s l (Some r)"
    and "hm_get (ts_suppressed t) s = Some su" and "su_agent_label su = l" and "su_reason su = ProcessExit"
    and "hm_get (ts_hook_report_sequences t) s = Some n" and "n < m"
  shows "set_hook_authority_at s l st msg (Some r) (Some m) now clk t =
    (keep_pending_report s l st msg r m now t, None)"
proof (rule ignored_report [OF assms(1)])
  show "route_full_lifecycle_hook_report s l st msg (Some r) (Some m) now t =
      (keep_pending_report s l st msg r m now t, RouteIgnore)"
    using assms by (auto simp: route_full_lifecycle_hook_report_def Let_def agent_process_present_def
        hm_contains_def)
qed

lemma restart_detect:
  assumes "terminal_inv t" and "hm_get (ts_suppressed t) s = Some su" and "su_agent_label su = l"
    and "parse_agent_label l = Some a" and "su_reason su = ProcessExit"
    and "su_replacement_session_ref su = Some r" and "su_pending_replacement_report su = Some p"
    and "ha_session_ref (pr_authority p) = Some r" and "ha_agent_label (pr_authority p) = l"
    and "is_none_or (hm_get (ts_hook_report_sequences t) s) (\<lambda>n. n < pr_seq p)"
    and "ts_hook_authority t = None"
    and "ts_recent_agent_process_exit t = Some \<lparr>re_agent = a, re_observed_at = at\<rparr>" and "at < now"
    and "\<not> detected_state_observed_before_release_suppression t (Some a) now"
    and "set_detected_agent_process_at a now clk t = (t', mu)"
  shows "ts_hook_authority t' = Some (pr_authority p) \<and>
    ts_persisted_agent_session t' = Some \<lparr>ps_source = s, ps_agent = l, ps_session_ref = r\<rparr> \<and>
    ts_detected_agent t' = Some a \<and> ts_recent_agent_process_exit t' = None"
proof -
  let ?t2 = "reconcile_agent_name_owner (agent_label a) None (t\<lparr>ts_detected_agent := Some a\<rparr>)"
  have wf: "terminal_wf ?t2" using assms(1) by (simp add: terminal_inv_def)
  have "hm_get (ts_suppressed ?t2) s = Some su"
    "is_none_or (hm_get (ts_hook_report_sequences ?t2) s) (\<lambda>n. n < pr_seq p)"
    using assms(2,10) by simp_all
  from lift_restarted [OF wf this(1) assms(3-8) this(2)] obtain u where
    lifted: "clear_full_lifecycle_hook_suppression_for_detected_agent None (Some a) ?t2 =
      adopt_validated_session (s, l, r, Some p) u" .
  let ?t5 = "(adopt_validated_session (s, l, r, Some p) u)\<lparr>ts_fallback_state := Unknown,
    ts_fallback_visible_blocker := False, ts_fallback_observed_at := Some now, ts_recent_agent_process_exit := None\<rparr>"
  have keep: "drop_replaced_authority prev (Some a) now clk ?t5 = ?t5" for prev
    using assms(4,9) by (auto simp: drop_replaced_authority_def hook_authority_conflicts_with_detected_agent_def
        adopt_validated_fields)
  have applied: "apply_detected_state (Some a) Unknown False False False now clk t = ?t5"
    using assms(12,13) keep by (simp add: apply_detected_state_def Let_def lifted)
  have det: "ts_detected_agent ?t5 = Some a"
  proof -
    have "ts_detected_agent (clear_full_lifecycle_hook_suppression_for_detected_agent None (Some a) ?t2) =
        ts_detected_agent ?t2"
    proof -
      have adopt: "ts_detected_agent (adopt_validated_session v w) = ts_detected_agent w" for v w
        by (simp add: adopt_validated_session_def Let_def forget_stale_full_lifecycle_hook_session_def
            split: prod.split option.split)
      show ?thesis
        by (simp add: clear_full_lifecycle_hook_suppression_for_detected_agent_def Let_def
            fold_frame [of ts_detected_agent adopt_validated_session, OF adopt]
            fold_frame [of ts_detected_agent "\<lambda>(source, s). remember_stale_full_lifecycle_hook_session source
              (ss_agent_label s) (ss_session_ref s)"] split_beta)
    qed
    with lifted show ?thesis by simp
  qed
  have live: "\<not> should_ignore_detected_state_under_full_lifecycle_hook t (Some a) False"
    using assms(11) by (simp add: should_ignore_detected_state_under_full_lifecycle_hook_def
        live_full_lifecycle_hook_authority_def)
  have "\<exists>prev c. t' = (fst (finish_mutation prev now c False ?t5))\<lparr>ts_agent_process_acquisition_pending := True\<rparr>"
    using assms(14,15) live applied
    by (auto simp: set_detected_agent_process_at_def set_detected_state_with_screen_signals_at_def
        Let_def split_beta)
  then show ?thesis using det by (auto simp: adopt_validated_fields)
qed

text \<open>What waits behind the suppression once the new session has started and reported.\<close>

definition waiting_report :: "string \<Rightarrow> string \<Rightarrow> agent_state \<Rightarrow> string option \<Rightarrow> session_ref \<Rightarrow> u64 \<Rightarrow> instant \<Rightarrow> pending_report" where
  "waiting_report s l st msg r m at = \<lparr>pr_authority = \<lparr>ha_source = s, ha_agent_label = l, ha_state = st,
     ha_message = msg, ha_reported_at = at, ha_session_ref = Some r\<rparr>, pr_seq = m\<rparr>"

definition waiting_entry :: "suppressed_report \<Rightarrow> session_ref \<Rightarrow> pending_report \<Rightarrow> suppressed_report" where
  "waiting_entry su r p = su\<lparr>su_replacement_session_ref := Some r, su_pending_replacement_report := Some p\<rparr>"

lemma restart_waits:
  assumes fl: "full_lifecycle_hook_authority s l"
    and sup: "hm_get (ts_suppressed t) s = Some su" "su_agent_label su = l" "su_reason su = ProcessExit"
      "su_pending_replacement_report su = None"
    and gone: "ts_hook_authority t = None" "ts_recent_agent_process_exit t \<noteq> None"
    and fresh: "\<not> full_lifecycle_hook_report_matches_stale_session t s l (Some r)"
      "session_start_source_is_recognized start"
      "is_none_or (hm_get (ts_hook_report_sequences t) s) (\<lambda>p. p < n)" "n < m"
    and steps: "set_agent_session_ref_for_session_start s l (Some r) (Some n) start now1 clk1 t = (t1, mu1)"
      "set_hook_authority_at s l st msg (Some r) (Some m) now2 clk2 t1 = (t2, mu2)"
  shows "mu1 = None \<and> mu2 = None"
    and "\<exists>x. ts_suppressed t2 = hm_insert s (waiting_entry su r (waiting_report s l st msg r m now2))
        (hm_insert s x (ts_suppressed t)) \<and> su_observed_at x = su_observed_at su \<and> su_agent_label x = l"
    and "ts_recent_agent_process_exit t2 = ts_recent_agent_process_exit t \<and> ts_hook_authority t2 = None \<and>
      hm_get (ts_hook_report_sequences t2) s = Some n"
proof -
  have t1: "t1 = keep_started_session s l r n now1 t" "mu1 = None"
    using restart_start [OF fl gone(2) fresh(2,3), of r now1 clk1] steps(1) by simp_all
  let ?su1 = "su\<lparr>su_replacement_session_ref := Some r\<rparr>"
  have sup1: "ts_suppressed t1 = hm_insert s ?su1 (ts_suppressed t)"
  proof (cases "su_replacement_session_ref su = Some r")
    case True
    then have eq: "?su1 = su" by (cases su) simp
    have "ts_suppressed t1 = hm_insert s su (ts_suppressed t)"
      using True sup by (simp add: t1 keep_started_session_def Let_def)
    then show ?thesis by (simp only: eq)
  next
    case False
    with sup show ?thesis by (simp add: t1 keep_started_session_def Let_def)
  qed
  have f1: "ts_recent_agent_process_exit t1 = ts_recent_agent_process_exit t"
    "ts_hook_authority t1 = None" "hm_get (ts_hook_report_sequences t1) s = Some n"
    "ts_stale_sessions t1 = ts_stale_sessions t"
    using gone by (simp_all add: t1 keep_started_session_def Let_def)
  have "full_lifecycle_hook_report_matches_stale_session t1 s l (Some r) =
      full_lifecycle_hook_report_matches_stale_session t s l (Some r)"
    by (simp only: full_lifecycle_hook_report_matches_stale_session_def f1(4))
  with fresh(1) have t2: "t2 = keep_pending_report s l st msg r m now2 t1" "mu2 = None"
    using restart_report [OF fl _ _ _ _ _ f1(3) fresh(4), of r ?su1 st msg now2 clk2] gone(2) f1(1) sup sup1 steps(2)
    by simp_all
  show "mu1 = None \<and> mu2 = None" using t1 t2 by simp
  show "ts_recent_agent_process_exit t2 = ts_recent_agent_process_exit t \<and> ts_hook_authority t2 = None \<and>
      hm_get (ts_hook_report_sequences t2) s = Some n"
    using f1 by (simp add: t2 keep_pending_report_def Let_def)
  have "ts_suppressed t2 = hm_insert s (waiting_entry su r (waiting_report s l st msg r m now2)) (ts_suppressed t1)"
    using sup sup1 by (simp add: t2 keep_pending_report_def Let_def waiting_entry_def waiting_report_def)
  with sup sup1 show "\<exists>x. ts_suppressed t2 = hm_insert s (waiting_entry su r (waiting_report s l st msg r m now2))
        (hm_insert s x (ts_suppressed t)) \<and> su_observed_at x = su_observed_at su \<and> su_agent_label x = l"
    by (intro exI [of _ ?su1]) simp
qed

lemma seen_iff:
  "detected_state_observed_before_release_suppression t (Some a) now \<longleftrightarrow>
     \<not> hm_all (\<lambda>_ x. \<not> (parse_agent_label (su_agent_label x) = Some a \<and> now \<le> su_observed_at x)) (ts_suppressed t)"
  by (auto simp: detected_state_observed_before_release_suppression_def hm_all_def list_all_iff
      list_ex_iff hm_values_def split_beta)

lemma authority_in_force:
  assumes "terminal_inv t" and "ts_hook_authority t = Some h"
    and "full_lifecycle_hook_authority (ha_source h) (ha_agent_label h)"
    and "parse_agent_label (ha_agent_label h) = Some a"
    and "ts_detected_agent t = Some a" and "ts_recent_agent_process_exit t = None"
  shows "ts_state t = ha_state h" and "effective_agent_label t = Some (ha_agent_label h)"
proof -
  have "hook_authority_is_effective t h" using assms(4-6) by (simp add: hook_authority_is_effective_def)
  with assms show "ts_state t = ha_state h" "effective_agent_label t = Some (ha_agent_label h)"
    by (simp_all add: terminal_inv_def arbitrated_state_def visible_blocker_overrides_hook_def
        live_full_lifecycle_hook_authority_def effective_agent_label_def)
qed

section \<open>Properties\<close>

text \<open>
  C2: a restarted agent is taken over by its new session. After the exit of an agent, a session
  start and then a report of the new session arrive, and only then is the new process detected:
  the first two change nothing that is shown, and the detection installs the report with its
  session, its state, and the agent as the effective one.
\<close>

theorem restarted_agent_takes_effect:
  assumes inv: "terminal_inv t" and fl: "full_lifecycle_hook_authority s l"
    and a: "parse_agent_label l = Some a"
    and sup: "hm_get (ts_suppressed t) s = Some su" "su_agent_label su = l" "su_reason su = ProcessExit"
      "su_pending_replacement_report su = None"
    and gone: "ts_hook_authority t = None"
      "ts_recent_agent_process_exit t = Some \<lparr>re_agent = a, re_observed_at = at\<rparr>" "at < now3"
      "\<not> detected_state_observed_before_release_suppression t (Some a) now3"
    and fresh: "\<not> full_lifecycle_hook_report_matches_stale_session t s l (Some r)"
      "session_start_source_is_recognized start"
      "is_none_or (hm_get (ts_hook_report_sequences t) s) (\<lambda>p. p < n)" "n < m"
    and steps: "set_agent_session_ref_for_session_start s l (Some r) (Some n) start now1 clk1 t = (t1, mu1)"
      "set_hook_authority_at s l st msg (Some r) (Some m) now2 clk2 t1 = (t2, mu2)"
      "set_detected_agent_process_at a now3 clk3 t2 = (t3, mu3)"
  shows "mu1 = None \<and> mu2 = None \<and>
    ts_hook_authority t3 = Some \<lparr>ha_source = s, ha_agent_label = l, ha_state = st, ha_message = msg,
      ha_reported_at = now2, ha_session_ref = Some r\<rparr> \<and>
    ts_persisted_agent_session t3 = Some \<lparr>ps_source = s, ps_agent = l, ps_session_ref = r\<rparr> \<and>
    ts_state t3 = st \<and> effective_agent_label t3 = Some l"
proof -
  let ?p = "waiting_report s l st msg r m now2"
  have re: "ts_recent_agent_process_exit t \<noteq> None" using gone(2) by simp
  note waits = restart_waits [OF fl sup gone(1) re fresh steps(1,2)]
  from waits(2) obtain x where sup2: "ts_suppressed t2 = hm_insert s (waiting_entry su r ?p) (hm_insert s x (ts_suppressed t))"
    and x: "su_observed_at x = su_observed_at su" "su_agent_label x = l" by blast
  have "terminal_inv t1"
    using set_agent_session_ref_inv [OF inv, of s l "Some r" "Some n" start now1 clk1] steps(1) by simp
  from set_hook_authority_inv [OF this, of s l st msg "Some r" "Some m" now2 clk2] steps(2)
  have inv2: "terminal_inv t2" by simp
  define Q where "Q = (\<lambda>(_::string) (x::suppressed_report).
    \<not> (parse_agent_label (su_agent_label x) = Some a \<and> now3 \<le> su_observed_at x))"
  have seen: "detected_state_observed_before_release_suppression u (Some a) now3 \<longleftrightarrow> \<not> hm_all Q (ts_suppressed u)" for u
    by (simp only: seen_iff Q_def)
  have all: "hm_all Q (ts_suppressed t)" using gone(4) seen by simp
  from hm_all_get [OF this sup(1)] have "Q s x" "Q s (waiting_entry su r ?p)"
    by (simp_all add: Q_def x sup waiting_entry_def)
  with all sup2 have unseen: "\<not> detected_state_observed_before_release_suppression t2 (Some a) now3"
    using seen by simp
  have det: "ts_hook_authority t3 = Some (pr_authority ?p) \<and>
      ts_persisted_agent_session t3 = Some \<lparr>ps_source = s, ps_agent = l, ps_session_ref = r\<rparr> \<and>
      ts_detected_agent t3 = Some a \<and> ts_recent_agent_process_exit t3 = None"
    by (rule restart_detect [OF inv2 _ _ a _ _ _ _ _ _ _ _ gone(3) unseen steps(3), where su = "waiting_entry su r ?p"])
      (use sup sup2 waits(3) gone(2) fresh(4) in \<open>simp_all add: waiting_entry_def waiting_report_def\<close>)
  moreover have "terminal_inv t3"
    using set_detected_process_inv [OF inv2, of a now3 clk3] steps(3) by simp
  ultimately show ?thesis
    using waits(1) authority_in_force [of t3 "pr_authority ?p" a] fl a by (simp add: waiting_report_def)
qed

definition pi_exited :: terminal_state where
  "pi_exited = (ts_new [] [])\<lparr>ts_recent_agent_process_exit := Some \<lparr>re_agent = Pi, re_observed_at = 5\<rparr>,
     ts_suppressed := [(''osade:pi'',
       \<lparr>su_agent_label = ''pi'', su_session_ref = Some pi_session, su_observed_at = 5, su_reason = ProcessExit,
        su_replacement_session_ref = None, su_pending_replacement_report = None\<rparr>)]\<rparr>"

lemma pi_exited_inv: "terminal_inv pi_exited"
  using pi_official
  by (simp add: pi_exited_def terminal_inv_def terminal_wf_def ts_new_def hm_wf_def hm_keys_def
      hm_all_def suppressed_ok_def arbitrated_state_def visible_blocker_overrides_hook_def)

theorem restarted_agent_takes_effect_witness:
  "ts_state (fst (set_detected_agent_process_at Pi 9 9
     (fst (set_hook_authority_at ''osade:pi'' ''pi'' Working None (Some (pi_session\<lparr>sr_value := ''b''\<rparr>)) (Some 2) 7 7
       (fst (set_agent_session_ref_for_session_start ''osade:pi'' ''pi'' (Some (pi_session\<lparr>sr_value := ''b''\<rparr>))
         (Some 1) (Some ''new'') 6 6 pi_exited)))))) = Working"
proof -
  let ?r = "pi_session\<lparr>sr_value := ''b''\<rparr>"
  obtain t1 mu1 where s1: "set_agent_session_ref_for_session_start ''osade:pi'' ''pi'' (Some ?r) (Some 1) (Some ''new'') 6 6
      pi_exited = (t1, mu1)" by (metis surj_pair)
  obtain t2 mu2 where s2: "set_hook_authority_at ''osade:pi'' ''pi'' Working None (Some ?r) (Some 2) 7 7 t1 = (t2, mu2)"
    by (metis surj_pair)
  obtain t3 mu3 where s3: "set_detected_agent_process_at Pi 9 9 t2 = (t3, mu3)" by (metis surj_pair)
  have sup: "hm_get (ts_suppressed pi_exited) ''osade:pi'' = Some \<lparr>su_agent_label = ''pi'', su_session_ref = Some pi_session,
      su_observed_at = 5, su_reason = ProcessExit, su_replacement_session_ref = None,
      su_pending_replacement_report = None\<rparr>"
    by (simp add: pi_exited_def hm_get_def)
  have gone: "ts_hook_authority pi_exited = None"
    "ts_recent_agent_process_exit pi_exited = Some \<lparr>re_agent = Pi, re_observed_at = 5\<rparr>"
    "\<not> detected_state_observed_before_release_suppression pi_exited (Some Pi) 9"
    "\<not> full_lifecycle_hook_report_matches_stale_session pi_exited ''osade:pi'' ''pi'' (Some ?r)"
    "is_none_or (hm_get (ts_hook_report_sequences pi_exited) ''osade:pi'') (\<lambda>p. p < 1)"
    by (simp_all add: pi_exited_def ts_new_def detected_state_observed_before_release_suppression_def
        hm_values_def full_lifecycle_hook_report_matches_stale_session_def)
  have start: "session_start_source_is_recognized (Some ''new'')"
    by (simp add: session_start_source_is_recognized_def)
  from restarted_agent_takes_effect [OF pi_exited_inv pi_full_lifecycle pi_parses sup _ _ _ gone(1,2) _ gone(3,4) start
      gone(5) _ s1 s2 s3] show ?thesis
    by (simp add: s1 s2 s3)
qed

end
