(* ===== verification/Metadata_Properties.thy ===== *)
theory Metadata_Properties
  imports Terminal_Mutations
begin

text \<open>
  Metadata: which title is presented, when it expires, and when the server has to look again.
\<close>

section \<open>Metadata up to its pending flag\<close>

text \<open>The flag \<open>expiry_event_pending\<close> is bookkeeping: it never changes what is presented.\<close>

definition settled :: "agent_metadata \<Rightarrow> agent_metadata" where
  "settled m = m\<lparr>am_expiry_event_pending := False\<rparr>"

lemma settled_fields [simp]:
  "am_title (settled m) = am_title m" "am_title_reported_at (settled m) = am_title_reported_at m"
  "agent_metadata_expiry (settled m) = agent_metadata_expiry m"
  "agent_metadata_is_expired (settled m) now = agent_metadata_is_expired m now"
  "agent_metadata_is_valid t (settled m) now e = agent_metadata_is_valid t m now e"
  by (simp_all add: settled_def agent_metadata_expiry_def agent_metadata_is_expired_def
      agent_metadata_is_valid_def agent_metadata_matches_guards_def)

lemma fold_settle:
  "map_option settled (hm_get (fold (\<lambda>k. hm_modify k (\<lambda>m. m\<lparr>am_expiry_event_pending := False\<rparr>)) ks m) s) =
     map_option settled (hm_get m s)"
proof (induction ks arbitrary: m)
  case (Cons k ks)
  have "map_option settled (map_option (\<lambda>m. m\<lparr>am_expiry_event_pending := False\<rparr>) x) = map_option settled x" for x
    by (cases x) (simp_all add: settled_def)
  with Cons.IH show ?case by auto
qed simp

lemma clear_expiry_pending_settled [simp]:
  "map_option settled (hm_get (ts_agent_metadata (clear_expiry_pending_for_hidden_metadata t)) s) =
     map_option settled (hm_get (ts_agent_metadata t) s)"
  by (simp add: clear_expiry_pending_for_hidden_metadata_def Let_def fold_settle)

lemma recompute_settled [simp]:
  "map_option settled (hm_get (ts_agent_metadata (fst (recompute_effective_state t prev now))) s) =
     map_option settled (hm_get (ts_agent_metadata t) s)"
  by (simp add: recompute_effective_state_def Let_def)

lemma finish_settled [simp]:
  "map_option settled (hm_get (ts_agent_metadata (fst (finish_mutation prev now c re t))) s) =
     map_option settled (hm_get (ts_agent_metadata t) s)"
  by (simp add: finish_mutation_def split_beta)

section \<open>Expiry\<close>

lemma fold_remove_get:
  "hm_get (ts_agent_metadata (fold (\<lambda>s t. t\<lparr>ts_agent_metadata := hm_remove s (ts_agent_metadata t)\<rparr>) ss t)) s =
     (if s \<in> set ss then None else hm_get (ts_agent_metadata t) s)"
  by (induction ss arbitrary: t) simp_all

definition due_entries :: "instant \<Rightarrow> terminal_state \<Rightarrow> (string \<times> instant) list" where
  "due_entries now t = List.map_filter (\<lambda>(source, m).
     Option.bind (agent_metadata_expiry m) (\<lambda>deadline. then_some (deadline \<le> now) (source, deadline)))
     (ts_agent_metadata t)"

lemma due_entries_iff:
  "(s, d) \<in> set (due_entries now t) \<longleftrightarrow>
     (\<exists>m. (s, m) \<in> set (ts_agent_metadata t) \<and> agent_metadata_expiry m = Some d \<and> d \<le> now)"
  by (force simp: due_entries_def map_filter_def then_some_def bind_eq_Some_conv split: if_splits)

lemma expire_get:
  assumes "terminal_wf t" and "expire_agent_metadata_at dl now t = (t', mu)"
  shows "map_option settled (hm_get (ts_agent_metadata t') s) =
    map_option settled (opt_filter (\<lambda>m. \<not> agent_metadata_is_expired m now) (hm_get (ts_agent_metadata t) s))"
    and "mu = None \<longleftrightarrow> filter (\<lambda>(_, d). dl \<le> d) (due_entries now t) = []"
proof -
  let ?remove = "\<lambda>ss (t::terminal_state). fold (\<lambda>s t. t\<lparr>ts_agent_metadata := hm_remove s (ts_agent_metadata t)\<rparr>) ss t"
  define expired where "expired = filter (\<lambda>(_, d). dl \<le> d) (due_entries now t)"
  define stale where "stale = filter (Not \<circ> (\<lambda>(_, d). dl \<le> d)) (due_entries now t)"
  have part: "partition (\<lambda>(_, d). dl \<le> d) (due_entries now t) = (expired, stale)"
    by (simp add: expired_def stale_def)
  have both: "set expired \<union> set stale = set (due_entries now t)"
    by (auto simp: expired_def stale_def)
  have "\<exists>prev. t' = (if expired = [] then ?remove (map fst stale) t
      else fst (finish_mutation prev now False False (?remove (map fst expired) (?remove (map fst stale) t)))) \<and>
      (mu = None \<longleftrightarrow> expired = [])"
    using assms(2)
    by (cases "expired = []")
      (auto simp: expire_agent_metadata_at_def Let_def due_entries_def [symmetric] part some_mutation_def
        split_beta simp del: partition_filter_conv)
  then obtain prev where t': "t' = (if expired = [] then ?remove (map fst stale) t
      else fst (finish_mutation prev now False False (?remove (map fst expired) (?remove (map fst stale) t))))"
    and mu: "mu = None \<longleftrightarrow> expired = []" by blast
  from mu show "mu = None \<longleftrightarrow> filter (\<lambda>(_, d). dl \<le> d) (due_entries now t) = []"
    by (simp add: expired_def)
  have "s \<in> fst ` set (due_entries now t) \<longleftrightarrow>
      is_some_and (hm_get (ts_agent_metadata t) s) (\<lambda>m. agent_metadata_is_expired m now)"
  proof
    assume "s \<in> fst ` set (due_entries now t)"
    then obtain d m where "(s, m) \<in> set (ts_agent_metadata t)" "agent_metadata_expiry m = Some d" "d \<le> now"
      by (auto simp: due_entries_iff)
    moreover have "hm_wf (ts_agent_metadata t)" using assms(1) by (simp add: terminal_wf_def)
    ultimately show "is_some_and (hm_get (ts_agent_metadata t) s) (\<lambda>m. agent_metadata_is_expired m now)"
      by (simp add: hm_mem_get agent_metadata_is_expired_def)
  next
    assume "is_some_and (hm_get (ts_agent_metadata t) s) (\<lambda>m. agent_metadata_is_expired m now)"
    then obtain m d where "hm_get (ts_agent_metadata t) s = Some m" "agent_metadata_expiry m = Some d" "d \<le> now"
      by (auto simp: is_some_and_iff agent_metadata_is_expired_def)
    then have "(s, d) \<in> set (due_entries now t)" by (auto simp: due_entries_iff dest: hm_get_mem)
    then show "s \<in> fst ` set (due_entries now t)" by force
  qed
  then have del: "s \<in> fst ` set expired \<or> s \<in> fst ` set stale \<longleftrightarrow>
      is_some_and (hm_get (ts_agent_metadata t) s) (\<lambda>m. agent_metadata_is_expired m now)"
    using both by (metis Un_iff image_Un)
  define u where "u = ?remove (map fst expired) (?remove (map fst stale) t)"
  have "map_option settled (hm_get (ts_agent_metadata t') s) = map_option settled (hm_get (ts_agent_metadata u) s)"
  proof (cases "expired = []")
    case False
    then show ?thesis by (simp only: t' if_False finish_settled u_def)
  qed (simp add: t' u_def)
  moreover have "hm_get (ts_agent_metadata u) s =
      (if s \<in> fst ` set expired \<or> s \<in> fst ` set stale then None else hm_get (ts_agent_metadata t) s)"
    by (simp add: u_def fold_remove_get)
  ultimately have "map_option settled (hm_get (ts_agent_metadata t') s) = map_option settled
      (if s \<in> fst ` set expired \<or> s \<in> fst ` set stale then None else hm_get (ts_agent_metadata t) s)"
    by simp
  with del show "map_option settled (hm_get (ts_agent_metadata t') s) =
    map_option settled (opt_filter (\<lambda>m. \<not> agent_metadata_is_expired m now) (hm_get (ts_agent_metadata t) s))"
    by (cases "hm_get (ts_agent_metadata t) s") simp_all
qed

lemma map_filter_mem: "y \<in> set (List.map_filter f xs) \<longleftrightarrow> (\<exists>x \<in> set xs. f x = Some y)"
  by (force simp: map_filter_def)

section \<open>Reports\<close>

lemma guards_determined:
  "arbitration_inputs t = arbitration_inputs u \<Longrightarrow> metadata_guards_match t l s = metadata_guards_match u l s"
  using arbitration_inputs_determine(2) [of t u]
  by (simp add: metadata_guards_match_def arbitration_inputs_def)

lemma accept_metadata_metadata [simp]:
  "ts_agent_metadata (fst (accept_metadata_report s n tok a t)) = ts_agent_metadata t"
  by (auto simp: accept_metadata_report_def Let_def split: option.split)

text \<open>A taken report without clear flags: its metadata replaces that of its source.\<close>

lemma set_metadata_taken:
  assumes "set_agent_metadata rep now t = (t', Some mu)"
    and "\<not> (mr_clear_title rep \<or> mr_clear_display_agent rep \<or> mr_clear_state_labels rep)"
  shows "map_option settled (hm_get (ts_agent_metadata t') (mr_source rep)) = Some (settled (reported_agent_metadata rep now))"
    and "k \<noteq> mr_source rep \<Longrightarrow>
      map_option settled (hm_get (ts_agent_metadata t') k) = map_option settled (hm_get (ts_agent_metadata t) k)"
    and "arbitration_inputs t' = arbitration_inputs t"
proof -
  let ?s = "mr_source rep"
  obtain t1 r where acc: "accept_metadata_report ?s (mr_seq rep) False
      (metadata_report_agent ?s (mr_agent_label rep) (mr_applies_to_source rep)) t = (t1, r)"
    by (metis surj_pair)
  define t2 where "t2 = (if is_some_and (hm_get (ts_agent_metadata t1) ?s) (\<lambda>m. agent_metadata_is_expired m now)
    then t1\<lparr>ts_agent_metadata := hm_remove ?s (ts_agent_metadata t1)\<rparr> else t1)"
  define t3 where "t3 = store_agent_metadata rep now t2"
  obtain t4 change where rc: "recompute_effective_state t3 (previous_view t2 now) now = (t4, change)"
    by (metis surj_pair)
  from assms(1) acc have t': "t' = (if change \<noteq> None then clear_expiry_pending_for_hidden_metadata t4 else t4)"
    by (auto simp: set_agent_metadata_def Let_def t2_def [symmetric] t3_def [symmetric] rc split: if_splits)
  have t1: "t1 = fst (accept_metadata_report ?s (mr_seq rep) False
      (metadata_report_agent ?s (mr_agent_label rep) (mr_applies_to_source rep)) t)"
    using acc by simp
  have t4: "t4 = fst (recompute_effective_state t3 (previous_view t2 now) now)" using rc by simp
  have settle: "map_option settled (hm_get (ts_agent_metadata t') x) = map_option settled (hm_get (ts_agent_metadata t3) x)" for x
  proof (cases "change = None")
    case True
    then show ?thesis by (simp add: t' t4)
  next
    case False
    then have "map_option settled (hm_get (ts_agent_metadata t') x) = map_option settled (hm_get (ts_agent_metadata t4) x)"
      by (simp add: t' del: option.map_sel)
    then show ?thesis by (simp add: t4)
  qed
  have "settled (m\<lparr>am_expiry_event_pending := True\<rparr>) = settled m" for m by (simp add: settled_def)
  then show "map_option settled (hm_get (ts_agent_metadata t') ?s) = Some (settled (reported_agent_metadata rep now))"
    using assms(2) by (simp add: settle t3_def store_agent_metadata_def Let_def)
  show "k \<noteq> ?s \<Longrightarrow> map_option settled (hm_get (ts_agent_metadata t') k) = map_option settled (hm_get (ts_agent_metadata t) k)"
    by (simp add: settle t3_def store_agent_metadata_def Let_def t2_def t1)
  have "arbitration_inputs t3 = arbitration_inputs t1"
    by (simp add: t3_def store_agent_metadata_def Let_def t2_def)
  then show "arbitration_inputs t' = arbitration_inputs t" by (simp add: t' t4 t1)
qed

text \<open>The metadata a taken report with a title leaves: valid, with the newest title.\<close>

lemma taken_title_valid:
  assumes "set_agent_metadata rep now t = (t', Some mu)"
    and "\<not> (mr_clear_title rep \<or> mr_clear_display_agent rep \<or> mr_clear_state_labels rep)"
    and "mr_title rep = Some s"
    and "metadata_guards_match t (mr_agent_label rep) (mr_applies_to_source rep)"
    and "is_none_or (mr_ttl rep) (\<lambda>ttl. 0 < ttl \<and> now + ttl \<le> instant_max)"
  obtains m where "hm_get (ts_agent_metadata t') (mr_source rep) = Some m" "am_title m = Some s"
    "am_title_reported_at m = Some now" "agent_metadata_is_valid t' m now True"
proof -
  let ?new = "reported_agent_metadata rep now"
  note taken = set_metadata_taken [OF assms(1,2)]
  from taken(1) obtain m where m: "hm_get (ts_agent_metadata t') (mr_source rep) = Some m" "settled m = settled ?new"
    by (cases "hm_get (ts_agent_metadata t') (mr_source rep)") auto
  have title: "am_title m = Some s" "am_title_reported_at m = Some now"
    using arg_cong [OF m(2), of am_title] arg_cong [OF m(2), of am_title_reported_at] assms(3)
    by (simp_all add: reported_agent_metadata_def)
  have fresh: "\<not> agent_metadata_is_expired ?new now"
    using assms(5) by (cases "mr_ttl rep") (auto simp: agent_metadata_is_expired_def agent_metadata_expiry_def
        reported_agent_metadata_def checked_add_def)
  have "metadata_guards_match t' (am_agent_label ?new) (am_applies_to_source ?new)"
    using assms(4) guards_determined [OF taken(3)] by (simp add: reported_agent_metadata_def)
  then have "agent_metadata_is_valid t' ?new now True"
    using assms(3) fresh
    by (simp add: agent_metadata_is_valid_def agent_metadata_matches_guards_def)
      (simp add: reported_agent_metadata_def)
  then have "agent_metadata_is_valid t' m now True" using m(2) by (metis settled_fields(5))
  with m(1) title show ?thesis by (rule that)
qed

section \<open>Properties\<close>

text \<open>
  expiring metadata removes exactly the entries whose time is up and keeps every other, up to
  the flag that an expiry event is pending. It reports a mutation exactly when an entry expired
  that was not due before the deadline the timer was set for.
\<close>

lemma expiry_removes_exactly_expired:
  assumes "terminal_wf t" and "expire_agent_metadata_at dl now t = (t', mu)"
  shows "map_option settled (hm_get (ts_agent_metadata t') s) =
      map_option settled (opt_filter (\<lambda>m. \<not> agent_metadata_is_expired m now) (hm_get (ts_agent_metadata t) s)) \<and>
    (mu = None \<longleftrightarrow> filter (\<lambda>(_, d). dl \<le> d) (due_entries now t) = [])"
  using expire_get [OF assms] by blast

text \<open>A terminal with one title that expires at 15 and one that does not expire.\<close>

definition titled :: "string \<Rightarrow> duration option \<Rightarrow> agent_metadata" where
  "titled s ttl = \<lparr>am_source = s, am_agent_label = None, am_applies_to_source = None, am_title = Some s,
     am_display_agent = None, am_state_labels = [], am_reported_at = 5, am_title_reported_at = Some 5,
     am_display_agent_reported_at = None, am_state_label_reported_at = [], am_ttl = ttl,
     am_expiry_event_pending = False\<rparr>"

definition titled_terminal :: terminal_state where
  "titled_terminal = (ts_new [] [])\<lparr>ts_agent_metadata := [(''x'', titled ''x'' (Some 10)), (''y'', titled ''y'' None)]\<rparr>"

lemma titled_wf: "terminal_wf titled_terminal"
  using terminal_new_inv [of "[]" "[]"]
  by (simp add: titled_terminal_def titled_def terminal_inv_def terminal_wf_def hm_wf_def hm_keys_def
      hm_all_def metadata_ok_def)

lemma expiry_removes_exactly_expired_witness:
  "map_option settled (hm_get (ts_agent_metadata (fst (expire_agent_metadata_at 15 20 titled_terminal))) ''x'') = None"
proof -
  obtain t' mu where e: "expire_agent_metadata_at 15 20 titled_terminal = (t', mu)" by (metis surj_pair)
  have "hm_get (ts_agent_metadata titled_terminal) ''x'' = Some (titled ''x'' (Some 10))"
    by (simp add: titled_terminal_def hm_get_def)
  moreover have "agent_metadata_is_expired (titled ''x'' (Some 10)) 20"
    by (simp add: titled_def agent_metadata_is_expired_def agent_metadata_expiry_def checked_add_def instant_max_def)
  ultimately show ?thesis using expiry_removes_exactly_expired [OF titled_wf e, of "''x''"] by (simp add: e)
qed

text \<open>
  after an expiry the next one lies in the future, at whatever time the server asks for it, so
  the timer of metadata expiry does not fire twice for the same moment.
\<close>

lemma next_expiry_in_future:
  assumes "terminal_wf t" and "expire_agent_metadata_at dl now t = (t', mu)"
  shows "is_none_or (next_agent_metadata_expiry t' clk) (\<lambda>d. now < d)"
proof (cases "next_agent_metadata_expiry t' clk")
  case None
  then show ?thesis by simp
next
  case (Some d)
  then have "\<exists>m \<in> set (hm_values (ts_agent_metadata t')). agent_metadata_expiry m = Some d"
    by (auto simp: next_agent_metadata_expiry_def option_min_def map_filter_mem dest!: min_by_key_SomeD)
  then obtain s m where m: "(s, m) \<in> set (ts_agent_metadata t')" and d: "agent_metadata_expiry m = Some d"
    by (auto simp: hm_values_def)
  have "terminal_wf t'"
  proof -
    let ?remove = "\<lambda>ss (t::terminal_state). fold (\<lambda>s t. t\<lparr>ts_agent_metadata := hm_remove s (ts_agent_metadata t)\<rparr>) ss t"
    have "terminal_wf (fst (expire_agent_metadata_at dl now t))"
      unfolding expire_agent_metadata_at_def Let_def split_beta
      using assms(1) by (simp add: finish_mutation_def split_beta)
    with assms(2) show ?thesis by simp
  qed
  then have "hm_get (ts_agent_metadata t') s = Some m" using m by (simp add: terminal_wf_def hm_mem_get)
  with expire_get(1) [OF assms, of s] obtain m0 where
    "\<not> agent_metadata_is_expired m0 now" "settled m = settled m0"
    by (cases "opt_filter (\<lambda>m. \<not> agent_metadata_is_expired m now) (hm_get (ts_agent_metadata t) s)")
      (auto simp: opt_filter_Some_iff)
  then have "\<not> agent_metadata_is_expired m now"
    by (metis settled_fields(4))
  with d Some show ?thesis by (simp add: agent_metadata_is_expired_def)
qed

lemma next_expiry_in_future_witness:
  "is_none_or (next_agent_metadata_expiry (fst (expire_agent_metadata_at 3 7 titled_terminal)) 7) (\<lambda>d. 7 < d)"
proof -
  obtain t' mu where e: "expire_agent_metadata_at 3 7 titled_terminal = (t', mu)" by (metis surj_pair)
  from next_expiry_in_future [OF titled_wf e, of 7] show ?thesis by (simp add: e)
qed

text \<open>
  the presented title is the newest valid one. If none is presented, no valid metadata has a
  title; otherwise it is the title of valid metadata whose title was reported last.
\<close>

lemma presented_title_is_newest:
  "case ep_title (effective_presentation_for_state_at t now) of
     None \<Rightarrow> list_all (\<lambda>m. am_title m = None) (valid_agent_metadata t now True)
   | Some s \<Rightarrow> list_ex (\<lambda>m. am_title m = Some s \<and>
       list_all (\<lambda>m'. am_title_reported_at m' \<le> am_title_reported_at m)
         (filter (\<lambda>m'. am_title m' \<noteq> None) (valid_agent_metadata t now True)))
       (valid_agent_metadata t now True)"
proof -
  let ?ms = "filter (\<lambda>m'. am_title m' \<noteq> None) (valid_agent_metadata t now True)"
  have title: "ep_title (effective_presentation_for_state_at t now) =
      Option.bind (max_by_key am_title_reported_at ?ms) am_title"
    by (simp add: effective_presentation_for_state_at_def effective_presentation_for_state_at_with_ttl_def
        newest_metadata_title_def)
  show ?thesis
  proof (cases "max_by_key am_title_reported_at ?ms")
    case None
    then have "?ms = []" by simp
    then show ?thesis using None title by (auto simp: list_all_iff filter_empty_conv)
  next
    case (Some m)
    from max_by_key_SomeD [OF this] have m: "m \<in> set ?ms"
      and max: "\<forall>m' \<in> set ?ms. am_title_reported_at m' \<le> am_title_reported_at m" by simp_all
    from m obtain s where s: "am_title m = Some s" by auto
    with Some title have "ep_title (effective_presentation_for_state_at t now) = Some s" by simp
    with m s max show ?thesis by (auto simp: list_ex_iff list_all_iff)
  qed
qed

text \<open>
  a taken title is presented at once. If a report with a title is taken, its guards match, it
  does not expire immediately, and every other title was reported earlier, then the terminal
  presents it.
\<close>

lemma reported_title_is_presented:
  assumes "terminal_inv t" and "hm_wf (mr_state_labels rep)"
    and "set_agent_metadata rep now t = (t', Some mu)"
    and "\<not> (mr_clear_title rep \<or> mr_clear_display_agent rep \<or> mr_clear_state_labels rep)"
    and "mr_title rep = Some s"
    and "metadata_guards_match t (mr_agent_label rep) (mr_applies_to_source rep)"
    and "is_none_or (mr_ttl rep) (\<lambda>ttl. 0 < ttl \<and> now + ttl \<le> instant_max)"
    and "list_all (\<lambda>(_, m). am_title_reported_at m < Some now) (ts_agent_metadata t)"
  shows "ep_title (effective_presentation_for_state_at t' now) = Some s"
proof -
  let ?ms = "filter (\<lambda>m. am_title m \<noteq> None) (valid_agent_metadata t' now True)"
  have wf: "hm_wf (ts_agent_metadata t')"
    using set_agent_metadata_inv [OF assms(1,2), of now] assms(3) by (simp add: terminal_inv_def terminal_wf_def)
  obtain m0 where m0: "hm_get (ts_agent_metadata t') (mr_source rep) = Some m0" "am_title m0 = Some s"
    "am_title_reported_at m0 = Some now" "agent_metadata_is_valid t' m0 now True"
    using taken_title_valid [OF assms(3-7)] .
  have mem: "m0 \<in> set ?ms"
    using m0 hm_get_mem [OF m0(1)] by (force simp: valid_agent_metadata_def hm_values_def)
  then have "?ms \<noteq> []" by (metis empty_iff list.set(1))
  then obtain m where max: "max_by_key am_title_reported_at ?ms = Some m"
    using max_by_key_eq_None [of am_title_reported_at ?ms] by (cases "max_by_key am_title_reported_at ?ms") blast+
  from max_by_key_SomeD [OF max] mem m0(3) have le: "Some now \<le> am_title_reported_at m" and m: "m \<in> set ?ms"
    by auto
  then obtain k where k: "(k, m) \<in> set (ts_agent_metadata t')"
    by (auto simp: valid_agent_metadata_def hm_values_def)
  have "k = mr_source rep"
  proof (rule ccontr)
    assume ne: "k \<noteq> mr_source rep"
    from hm_mem_get [OF wf k] set_metadata_taken(2) [OF assms(3,4) ne] obtain m1 where
      "hm_get (ts_agent_metadata t) k = Some m1" "settled m = settled m1"
      by (cases "hm_get (ts_agent_metadata t) k") auto
    then have "am_title_reported_at m < Some now"
      using assms(8) hm_get_mem by (metis (mono_tags, lifting) case_prodD list_all_iff settled_fields(2))
    with le show False by simp
  qed
  with hm_mem_get [OF wf k] m0(1) have "m = m0" by simp
  with max m0 show ?thesis
    by (simp add: effective_presentation_for_state_at_def effective_presentation_for_state_at_with_ttl_def
        newest_metadata_title_def)
qed

definition title_report :: agent_metadata_report where
  "title_report = \<lparr>mr_source = ''z'', mr_agent_label = None, mr_applies_to_source = None, mr_title = Some ''hello'',
     mr_display_agent = None, mr_state_labels = [], mr_clear_title = False, mr_clear_display_agent = False,
     mr_clear_state_labels = False, mr_ttl = None, mr_seq = None\<rparr>"

lemma reported_title_is_presented_witness:
  "ep_title (effective_presentation_for_state_at (fst (set_agent_metadata title_report 9 titled_terminal)) 9) = Some ''hello''"
proof -
  have "\<exists>t' mu. set_agent_metadata title_report 9 titled_terminal = (t', Some mu)"
    by (simp add: set_agent_metadata_def title_report_def accept_metadata_report_def Let_def split_beta
        metadata_report_blocked_by_process_exit_def titled_terminal_def ts_new_def)
  then obtain t' mu where e: "set_agent_metadata title_report 9 titled_terminal = (t', Some mu)" by blast
  have inv: "terminal_inv titled_terminal"
    using titled_wf by (simp add: terminal_inv_def titled_terminal_def ts_new_def arbitrated_state_def
        visible_blocker_overrides_hook_def)
  have "ep_title (effective_presentation_for_state_at t' 9) = Some ''hello''"
    using reported_title_is_presented [OF inv _ e, of "''hello''"]
    by (simp add: title_report_def metadata_guards_match_def titled_terminal_def titled_def)
  then show ?thesis by (simp add: e)
qed

end
