(* ===== verification/Public_Ids.thy ===== *)
theory Public_Ids
  imports Rust_Str
begin

text \<open>
  The names the program gives to its objects (\<open>workspace.rs\<close>, \<open>terminal/id.rs\<close>): public numbers
  in bijective base 32, the ids of workspaces, tabs and panes built from them, the counter of
  workspace ids and how a restored session reserves it, and terminal ids.
\<close>

section \<open>Public numbers\<close>

definition PUBLIC_ID_ALPHABET :: string where
  "PUBLIC_ID_ALPHABET = ''123456789ABCDEFGHJKMNPQRSTVWXYZ0''"

function encode_loop :: "usize \<Rightarrow> string \<Rightarrow> string" where
  "encode_loop value encoded =
     (if 0 < value
      then let digit = (value - 1) mod length PUBLIC_ID_ALPHABET
           in encode_loop ((value - 1) div length PUBLIC_ID_ALPHABET)
                (encoded @ [PUBLIC_ID_ALPHABET ! digit])
      else encoded)"
  by pat_completeness auto
termination
proof (relation "measure fst", goal_cases)
  case 1
  show ?case by simp
next
  case (2 v e d)
  have "(v - 1) div length PUBLIC_ID_ALPHABET \<le> v - 1" by simp
  with 2 have "(v - 1) div length PUBLIC_ID_ALPHABET < v" by linarith
  then show ?case by simp
qed

declare encode_loop.simps [simp del]

definition encode_public_number :: "usize \<Rightarrow> string" where
  "encode_public_number value = (if value = 0 then ''0'' else rev (encode_loop value []))"

fun decode_from :: "usize \<Rightarrow> string \<Rightarrow> usize option" where
  "decode_from decoded [] = Some decoded"
| "decode_from decoded (ch # chs) =
     Option.bind (index_of ch PUBLIC_ID_ALPHABET) (\<lambda>digit.
     Option.bind (usize_checked_mul decoded (length PUBLIC_ID_ALPHABET)) (\<lambda>scaled.
     Option.bind (usize_checked_add scaled (digit + 1)) (\<lambda>decoded'.
       decode_from decoded' chs)))"

definition decode_public_number :: "string \<Rightarrow> usize option" where
  "decode_public_number value = decode_from 0 value"

definition public_workspace_number :: "string \<Rightarrow> usize option" where
  "public_workspace_number i = Option.bind (strip_prefix i ''w'') decode_public_number"

definition public_pane_id_for_number :: "string \<Rightarrow> usize \<Rightarrow> string" where
  "public_pane_id_for_number workspace_id n = workspace_id @ '':p'' @ encode_public_number n"

definition public_tab_id_for_number :: "string \<Rightarrow> usize \<Rightarrow> string" where
  "public_tab_id_for_number workspace_id n = workspace_id @ '':t'' @ encode_public_number n"

section \<open>The counter of workspace ids\<close>

text \<open>\<open>NEXT_WORKSPACE_ID\<close> is an argument and a result; \<open>fetch_add\<close> wraps.\<close>

definition generate_workspace_id :: "usize \<Rightarrow> string \<times> usize" where
  "generate_workspace_id counter = (''w'' @ encode_public_number counter, usize_add counter 1)"

text \<open>
  The loop of \<open>compare_exchange_weak\<close> leaves the counter at the larger of its value and
  \<open>next\<close>.
\<close>

definition reserve_workspace_ids :: "string list \<Rightarrow> usize \<Rightarrow> usize" where
  "reserve_workspace_ids ids counter =
     (case Option.bind (max_by_key (\<lambda>n. n) (List.map_filter public_workspace_number ids))
             (\<lambda>m. usize_checked_add m 1) of
        None \<Rightarrow> counter
      | Some nxt \<Rightarrow> if counter < nxt then nxt else counter)"

section \<open>Terminal ids\<close>

definition HEX_DIGITS :: string where
  "HEX_DIGITS = ''0123456789abcdef''"

text \<open>The format \<open>{:x}\<close> of an unsigned integer.\<close>

function lower_hex :: "nat \<Rightarrow> string" where
  "lower_hex n = (if n < 16 then [HEX_DIGITS ! n]
     else lower_hex (n div 16) @ [HEX_DIGITS ! (n mod 16)])"
  by pat_completeness auto
termination by (relation "measure id") auto

declare lower_hex.simps [simp del]

text \<open>\<open>NEXT_TERMINAL_ID\<close> is an argument and a result; \<open>micros\<close> is the reading of the clock.\<close>

definition terminal_id_alloc :: "nat \<Rightarrow> usize \<Rightarrow> string \<times> usize" where
  "terminal_id_alloc micros counter =
     (''term_'' @ lower_hex micros @ lower_hex counter, usize_add counter 1)"

section \<open>Facts\<close>

lemma alphabet_length [simp]: "length PUBLIC_ID_ALPHABET = 32"
  by (simp add: PUBLIC_ID_ALPHABET_def)

lemma index_of_nth: "distinct xs \<Longrightarrow> i < length xs \<Longrightarrow> index_of (xs ! i) xs = Some i"
  by (induction xs arbitrary: i) (auto simp: nth_Cons split: nat.splits)

lemma index_of_SomeD: "index_of x xs = Some i \<Longrightarrow> i < length xs \<and> xs ! i = x"
  by (induction xs arbitrary: i) (auto split: if_splits)

lemma index_of_alphabet: "d < 32 \<Longrightarrow> index_of (PUBLIC_ID_ALPHABET ! d) PUBLIC_ID_ALPHABET = Some d"
  by (rule index_of_nth) (simp_all add: PUBLIC_ID_ALPHABET_def)

fun encode_digits :: "nat \<Rightarrow> string" where
  "encode_digits 0 = []"
| "encode_digits (Suc v) = encode_digits (v div 32) @ [PUBLIC_ID_ALPHABET ! (v mod 32)]"

lemma encode_loop_digits: "rev (encode_loop v enc) = encode_digits v @ rev enc"
proof (induction v arbitrary: enc rule: encode_digits.induct)
  case 1
  show ?case by (simp add: encode_loop.simps)
next
  case (2 v)
  then show ?case by (subst encode_loop.simps) (simp add: Let_def)
qed

lemma encode_public_digits: "0 < n \<Longrightarrow> encode_public_number n = encode_digits n"
  by (simp add: encode_public_number_def encode_loop_digits)

lemma decode_from_append:
  "decode_from d (xs @ ys) = Option.bind (decode_from d xs) (\<lambda>d'. decode_from d' ys)"
  by (induction xs arbitrary: d) (simp_all cong: Option.bind_cong)

lemma decode_encode_digits: "n \<le> usize_max \<Longrightarrow> decode_from 0 (encode_digits n) = Some n"
proof (induction n rule: encode_digits.induct)
  case 1
  show ?case by simp
next
  case (2 v)
  have "v div 32 * 32 + (v mod 32 + 1) = Suc v" by simp
  moreover have "v div 32 \<le> usize_max" and "v div 32 * 32 \<le> usize_max" using 2 by simp_all
  ultimately show ?case using 2
    by (simp add: decode_from_append index_of_alphabet usize_checked_mul_def usize_checked_add_def)
qed

lemma decode_fromD: "decode_from 0 s = Some n \<Longrightarrow> encode_digits n = s"
proof (induction s arbitrary: n rule: rev_induct)
  case Nil
  then show ?case by simp
next
  case (snoc c s)
  from snoc.prems obtain m d where m: "decode_from 0 s = Some m"
    and d: "index_of c PUBLIC_ID_ALPHABET = Some d" and n: "n = Suc (m * 32 + d)"
    by (auto simp: decode_from_append bind_eq_Some_conv usize_checked_mul_def
        usize_checked_add_def split: if_splits)
  from index_of_SomeD [OF d] have "d < 32" and "PUBLIC_ID_ALPHABET ! d = c" by simp_all
  with snoc.IH [OF m] n show ?case by simp
qed

lemma encode_digits_inj: "encode_digits m = encode_digits n \<Longrightarrow> m = n"
proof (induction m arbitrary: n rule: encode_digits.induct)
  case 1
  then show ?case by (cases n) simp_all
next
  case (2 v)
  then obtain w where n: "n = Suc w" by (cases n) simp_all
  have "encode_digits (v div 32) = encode_digits (w div 32)"
    and dig: "PUBLIC_ID_ALPHABET ! (v mod 32) = PUBLIC_ID_ALPHABET ! (w mod 32)"
    using "2.prems" by (simp_all add: n)
  then have "v div 32 = w div 32" using "2.IH" by blast
  moreover have "v mod 32 < 32" "w mod 32 < 32" by simp_all
  then have "v mod 32 = w mod 32" using index_of_alphabet dig by (metis option.inject)
  ultimately have "v = w" using div_mult_mod_eq [of v 32] div_mult_mod_eq [of w 32] by metis
  then show ?case by (simp add: n)
qed

lemma lower_hex_eq: "lower_hex m = lower_hex n \<Longrightarrow> m = n"
proof (induction m arbitrary: n rule: lower_hex.induct)
  case (1 m)
  have dig: "HEX_DIGITS ! i = HEX_DIGITS ! j \<longleftrightarrow> i = j" if "i < 16" "j < 16" for i j
    using that by (intro nth_eq_iff_index_eq) (simp_all add: HEX_DIGITS_def)
  have nonempty: "lower_hex k \<noteq> []" "[] \<noteq> lower_hex k" for k
    by (subst lower_hex.simps, simp)+
  show ?case
  proof (cases "m < 16 \<or> n < 16")
    case True
    with 1(2) show ?thesis
      by (auto simp: lower_hex.simps [of m] lower_hex.simps [of n] dig nonempty split: if_splits)
  next
    case False
    with 1(2) have "lower_hex (m div 16) = lower_hex (n div 16)" and "m mod 16 = n mod 16"
      by (auto simp: lower_hex.simps [of m] lower_hex.simps [of n] dig)
    with 1(1) False have "m div 16 = n div 16" by simp
    with \<open>m mod 16 = n mod 16\<close> show ?thesis by (metis div_mult_mod_eq)
  qed
qed

end
