(* ===== verification/Session_Snapshot.thy ===== *)
theory Session_Snapshot
  imports Public_Ids Layout Terminal_Managed
begin

text \<open>
  Saved sessions (\<open>persist/snapshot.rs\<close>): the snapshot of a session, its workspaces, tabs, layouts
  and panes, how it is captured from the live workspaces, and the conversion of workspaces saved in
  the legacy format. The tabs and workspaces themselves are the records of \<open>workspace/tab.rs\<close> and
  \<open>workspace.rs\<close>, without their channel handles. Serialization (\<open>serde_json\<close>) is not modelled;
  the working directory a runtime reports is a parameter.
\<close>

section \<open>Workspaces and tabs\<close>

record pane_state =
  pn_attached_terminal_id :: string
  pn_seen :: bool
  pn_right_click_passthrough :: bool

definition pane_state_new :: "string \<Rightarrow> pane_state" where
  "pane_state_new terminal_id =
     \<lparr>pn_attached_terminal_id = terminal_id, pn_seen = True, pn_right_click_passthrough = False\<rparr>"

record tab =
  tb_custom_name :: "string option"
  tb_number :: usize
  tb_root_pane :: pane_id
  tb_layout :: tile_layout
  tb_panes :: "(pane_id, pane_state) hashmap"
  tb_zoomed :: bool

record worktree_space =
  sp_key :: string
  sp_label :: string
  sp_repo_root :: string
  sp_checkout_path :: string
  sp_is_linked_worktree :: bool

record git_space =
  gs_key :: string
  gs_checkout_key :: string
  gs_repo_name :: string
  gs_repo_root :: string
  gs_is_linked_worktree :: bool

record workspace =
  ws_id :: string
  ws_custom_name :: "string option"
  ws_identity_cwd :: string
  ws_cached_identity_cwd :: string
  ws_cached_auto_label :: string
  ws_cached_git_status_key :: string
  ws_cached_git_branch :: "string option"
  ws_cached_git_ahead_behind :: "(usize \<times> usize) option"
  ws_cached_git_space :: "git_space option"
  ws_worktree_space :: "worktree_space option"
  ws_metadata_tokens :: metadata_tokens
  ws_metadata_token_sequences :: sequences
  ws_public_pane_numbers :: "(pane_id, usize) hashmap"
  ws_next_public_pane_number :: usize
  ws_next_public_tab_number :: usize
  ws_tabs :: "tab list"
  ws_active_tab :: usize

section \<open>Snapshots\<close>

definition SNAPSHOT_VERSION :: u32 where
  "SNAPSHOT_VERSION = 3"

datatype direction_snapshot = HorizontalSnapshot | VerticalSnapshot

datatype layout_snapshot =
    PaneSnapshot u32
  | SplitSnapshot direction_snapshot f32 layout_snapshot layout_snapshot

record pane_agent_session =
  pa_source :: string
  pa_agent :: string
  pa_kind :: session_ref_kind
  pa_value :: string

record pane_snapshot =
  sn_cwd :: string
  sn_label :: "string option"
  sn_agent_name :: "string option"
  sn_managed_agent_kind :: "string option"
  sn_agent_session :: "pane_agent_session option"
  sn_launch_argv :: "string list option"

record tab_snapshot =
  st_custom_name :: "string option"
  st_layout :: layout_snapshot
  st_panes :: "(u32, pane_snapshot) hashmap"
  st_zoomed :: bool
  st_focused :: "u32 option"
  st_root_pane :: "u32 option"

record workspace_snapshot =
  sw_id :: "string option"
  sw_custom_name :: "string option"
  sw_identity_cwd :: string
  sw_worktree_space :: "worktree_space option"
  sw_public_pane_numbers :: "(u32, usize) hashmap"
  sw_next_public_pane_number :: usize
  sw_public_tab_numbers :: "usize list"
  sw_next_public_tab_number :: usize
  sw_tabs :: "tab_snapshot list"
  sw_active_tab :: usize

record session_snapshot =
  se_version :: u32
  se_workspaces :: "workspace_snapshot list"
  se_active :: "usize option"
  se_selected :: usize
  se_sidebar_width :: "u16 option"
  se_sidebar_section_split :: "f32 option"
  se_collapsed_space_keys :: "string set"

record legacy_workspace_snapshot =
  lg_custom_name :: "string option"
  lg_layout :: layout_snapshot
  lg_panes :: "(u32, pane_snapshot) hashmap"
  lg_zoomed :: bool
  lg_focused :: "u32 option"
  lg_root_pane :: "u32 option"

section \<open>Capturing\<close>

text \<open>\<open>PaneId::raw\<close> is the number itself.\<close>

fun capture_node :: "node \<Rightarrow> layout_snapshot" where
  "capture_node (Pane i) = PaneSnapshot i"
| "capture_node (Split direction ratio first second) =
     SplitSnapshot
       (case direction of Horizontal \<Rightarrow> HorizontalSnapshot | Vertical \<Rightarrow> VerticalSnapshot)
       ratio (capture_node first) (capture_node second)"

text \<open>
  \<open>runtime_cwd\<close> is the directory the runtime of a terminal reports; \<open>current_dir\<close> is the process's
  own, when it can be read.
\<close>

definition cwd_for_pane ::
  "(string \<Rightarrow> string option) \<Rightarrow> (string, terminal_state) hashmap \<Rightarrow> tab \<Rightarrow> pane_id \<Rightarrow> string option" where
  "cwd_for_pane runtime_cwd terminals tb i =
     Option.bind (map_option pn_attached_terminal_id (hm_get (tb_panes tb) i)) (\<lambda>terminal_id.
       or_else (runtime_cwd terminal_id) (map_option ts_cwd (hm_get terminals terminal_id)))"

definition resolved_identity_cwd_from ::
  "(string \<Rightarrow> string option) \<Rightarrow> (string, terminal_state) hashmap \<Rightarrow> workspace \<Rightarrow> string option" where
  "resolved_identity_cwd_from runtime_cwd terminals ws =
     or_else
       (case ws_tabs ws of
          [] \<Rightarrow> None
        | tb # _ \<Rightarrow> cwd_for_pane runtime_cwd terminals tb (tb_root_pane tb))
       (Some (ws_identity_cwd ws))"

definition current_dir_or_root :: "string option \<Rightarrow> string" where
  "current_dir_or_root current_dir = unwrap_or current_dir ''/''"

text \<open>The session saved with a pane: the authority's own, else the one remembered.\<close>

definition captured_agent_session :: "terminal_state \<Rightarrow> pane_agent_session option" where
  "captured_agent_session t =
     (let remembered = map_option (\<lambda>s. \<lparr>pa_source = ps_source s, pa_agent = ps_agent s,
            pa_kind = sr_kind (ps_session_ref s), pa_value = sr_value (ps_session_ref s)\<rparr>)
          (ts_persisted_agent_session t)
      in case ts_hook_authority t of
           None \<Rightarrow> remembered
         | Some h \<Rightarrow>
             (case ha_session_ref h of
                None \<Rightarrow> remembered
              | Some r \<Rightarrow> Some \<lparr>pa_source = ha_source h, pa_agent = ha_agent_label h,
                  pa_kind = sr_kind r, pa_value = sr_value r\<rparr>))"

definition capture_pane ::
  "(string \<Rightarrow> string option) \<Rightarrow> string option \<Rightarrow> (string, terminal_state) hashmap \<Rightarrow> tab \<Rightarrow>
    pane_id \<Rightarrow> pane_snapshot" where
  "capture_pane runtime_cwd current_dir terminals tb i =
     (let terminal = Option.bind (hm_get (tb_panes tb) i)
            (\<lambda>pane. hm_get terminals (pn_attached_terminal_id pane));
          settled = opt_filter (\<lambda>t. \<not> managed_agent_launch_pending t) terminal
      in \<lparr>sn_cwd = unwrap_or (cwd_for_pane runtime_cwd terminals tb i) (current_dir_or_root current_dir),
          sn_label = Option.bind terminal ts_manual_label,
          sn_agent_name = Option.bind settled ts_agent_name,
          sn_managed_agent_kind = Option.bind settled (\<lambda>t. map_option agent_label (managed_agent_kind t)),
          sn_agent_session = Option.bind terminal captured_agent_session,
          sn_launch_argv = Option.bind terminal ts_launch_argv\<rparr>)"

definition capture_tab ::
  "(string \<Rightarrow> string option) \<Rightarrow> string option \<Rightarrow> (string, terminal_state) hashmap \<Rightarrow> tab \<Rightarrow>
    tab_snapshot" where
  "capture_tab runtime_cwd current_dir terminals tb =
     \<lparr>st_custom_name = tb_custom_name tb,
      st_layout = capture_node (tl_root (tb_layout tb)),
      st_panes = fold (\<lambda>i. hm_insert i (capture_pane runtime_cwd current_dir terminals tb i))
        (hm_keys (tb_panes tb)) [],
      st_zoomed = tb_zoomed tb,
      st_focused = Some (tl_focus (tb_layout tb)),
      st_root_pane = Some (tb_root_pane tb)\<rparr>"

definition capture_workspace ::
  "(string \<Rightarrow> string option) \<Rightarrow> string option \<Rightarrow> (string, terminal_state) hashmap \<Rightarrow> workspace \<Rightarrow>
    workspace_snapshot" where
  "capture_workspace runtime_cwd current_dir terminals ws =
     \<lparr>sw_id = Some (ws_id ws),
      sw_custom_name = ws_custom_name ws,
      sw_identity_cwd =
        unwrap_or (resolved_identity_cwd_from runtime_cwd terminals ws) (ws_identity_cwd ws),
      sw_worktree_space = ws_worktree_space ws,
      sw_public_pane_numbers =
        fold (\<lambda>(i, n). hm_insert i n) (ws_public_pane_numbers ws) [],
      sw_next_public_pane_number = ws_next_public_pane_number ws,
      sw_public_tab_numbers = map tb_number (ws_tabs ws),
      sw_next_public_tab_number = ws_next_public_tab_number ws,
      sw_tabs = map (capture_tab runtime_cwd current_dir terminals) (ws_tabs ws),
      sw_active_tab = ws_active_tab ws\<rparr>"

definition capture ::
  "(string \<Rightarrow> string option) \<Rightarrow> string option \<Rightarrow> workspace list \<Rightarrow> (string, terminal_state) hashmap \<Rightarrow>
    usize option \<Rightarrow> usize \<Rightarrow> session_snapshot" where
  "capture runtime_cwd current_dir workspaces terminals active selected =
     \<lparr>se_version = SNAPSHOT_VERSION,
      se_workspaces = map (capture_workspace runtime_cwd current_dir terminals) workspaces,
      se_active = active, se_selected = selected, se_sidebar_width = None,
      se_sidebar_section_split = None, se_collapsed_space_keys = {}\<rparr>"

section \<open>Legacy workspaces\<close>

fun first_pane_id_in_layout :: "layout_snapshot \<Rightarrow> u32 option" where
  "first_pane_id_in_layout (PaneSnapshot i) = Some i"
| "first_pane_id_in_layout (SplitSnapshot _ _ first second) =
     or_else (first_pane_id_in_layout first) (first_pane_id_in_layout second)"

definition legacy_identity_cwd :: "string option \<Rightarrow> legacy_workspace_snapshot \<Rightarrow> string" where
  "legacy_identity_cwd current_dir snap =
     (let cwd_of = (\<lambda>i. map_option sn_cwd (hm_get (lg_panes snap) i));
          first = first_pane_id_in_layout (lg_layout snap);
          root_pane = or_else (lg_root_pane snap) first
      in unwrap_or
           (or_else (Option.bind root_pane cwd_of)
             (or_else (Option.bind first cwd_of)
               (Option.bind (min_by_key (\<lambda>i. i) (hm_keys (lg_panes snap))) cwd_of)))
           (current_dir_or_root current_dir))"

definition migrate_legacy_workspace ::
  "string option \<Rightarrow> legacy_workspace_snapshot \<Rightarrow> workspace_snapshot" where
  "migrate_legacy_workspace current_dir snap =
     \<lparr>sw_id = None, sw_custom_name = lg_custom_name snap,
      sw_identity_cwd = legacy_identity_cwd current_dir snap, sw_worktree_space = None,
      sw_public_pane_numbers = [], sw_next_public_pane_number = 0, sw_public_tab_numbers = [],
      sw_next_public_tab_number = 0,
      sw_tabs = [\<lparr>st_custom_name = None, st_layout = lg_layout snap, st_panes = lg_panes snap,
        st_zoomed = lg_zoomed snap, st_focused = lg_focused snap, st_root_pane = lg_root_pane snap\<rparr>],
      sw_active_tab = 0\<rparr>"

end
