(* ===== verification/Tabs.thy ===== *)
theory Tabs
  imports Session_Snapshot
begin

text \<open>
  Tabs (\<open>workspace/tab.rs\<close>): creating a tab with its first pane, splitting, detaching, taking and
  inserting panes. Starting a runtime is a parameter; the global counters of pane, terminal and
  workspace ids are threaded through. A panic of the layout is \<open>None\<close>.
\<close>

section \<open>The surroundings\<close>

datatype spawn_command = SpawnDefault | SpawnShell string | SpawnArgv "string list"

text \<open>What a new process learns about the pane it runs in (\<open>pane.rs\<close>).\<close>

datatype launch_identity = Inherit | Managed string string string | OmitPane

record launch_env =
  le_extra :: "(string \<times> string) list"
  le_identity :: launch_identity

definition launch_env_default :: launch_env where
  "launch_env_default = \<lparr>le_extra = [], le_identity = Inherit\<rparr>"

definition from_extra :: "(string \<times> string) list \<Rightarrow> launch_env" where
  "from_extra extra = \<lparr>le_extra = extra, le_identity = Inherit\<rparr>"

definition with_identity :: "string \<Rightarrow> string \<Rightarrow> string \<Rightarrow> launch_env \<Rightarrow> launch_env" where
  "with_identity workspace_id tab_id pane_id env =
     env\<lparr>le_identity := Managed workspace_id tab_id pane_id\<rparr>"

record id_counters =
  ic_next_pane :: u32
  ic_next_terminal :: usize
  ic_next_workspace :: usize

text \<open>
  \<open>ho_spawn\<close> stands for \<open>TerminalRuntime::spawn\<close>, \<open>spawn_shell_command\<close> and
  \<open>spawn_argv_command\<close> with their sizes, themes and channels; \<open>ho_micros\<close> is the reading of the
  clock when a terminal id is made. The git fields are the metadata of a directory.
\<close>

record ('e, 'rt) host =
  ho_spawn :: "pane_id \<Rightarrow> string \<Rightarrow> spawn_command \<Rightarrow> launch_env \<Rightarrow> 'e + 'rt"
  ho_micros :: "usize \<Rightarrow> nat"
  ho_current_dir :: "string option"
  ho_git_space :: "string \<Rightarrow> git_space option"
  ho_git_label :: "string \<Rightarrow> git_space option \<Rightarrow> string"
  ho_git_status_key :: "string \<Rightarrow> git_space option \<Rightarrow> string"
  ho_git_branch :: "string \<Rightarrow> string option"

definition host_terminal_id :: "('e, 'rt) host \<Rightarrow> id_counters \<Rightarrow> string \<times> id_counters" where
  "host_terminal_id host ctr =
     (let (terminal_id, nxt) = terminal_id_alloc (ho_micros host (ic_next_terminal ctr)) (ic_next_terminal ctr)
      in (terminal_id, ctr\<lparr>ic_next_terminal := nxt\<rparr>))"

record moved_pane =
  mp_pane_id :: pane_id
  mp_pane_state :: pane_state

record 'rt new_pane =
  np_pane_id :: pane_id
  np_terminal :: terminal_state
  np_runtime :: 'rt

datatype 'e split_error = TargetNotInLayout | SpawnFailed 'e

section \<open>Creating\<close>

definition tab_new_with_runtime ::
  "('e, 'rt) host \<Rightarrow> usize \<Rightarrow> string \<Rightarrow> launch_env \<Rightarrow> string list option \<Rightarrow> id_counters \<Rightarrow>
    ('e + tab \<times> terminal_state \<times> 'rt) \<times> id_counters" where
  "tab_new_with_runtime host number initial_cwd env argv ctr =
     (let (layout, root_id, nxt) = tl_new (ic_next_pane ctr);
          ctr1 = ctr\<lparr>ic_next_pane := nxt\<rparr>
      in case ho_spawn host root_id initial_cwd
             (case argv of Some a \<Rightarrow> SpawnArgv a | None \<Rightarrow> SpawnDefault) env of
           Inl e \<Rightarrow> (Inl e, ctr1)
         | Inr runtime \<Rightarrow>
             let (terminal_id, ctr2) = host_terminal_id host ctr1;
                 terminal = (case argv of
                     Some a \<Rightarrow> with_launch_argv a (ts_new terminal_id initial_cwd)
                   | None \<Rightarrow> ts_new terminal_id initial_cwd)
             in (Inr (\<lparr>tb_custom_name = None, tb_number = number, tb_root_pane = root_id,
                      tb_layout = layout, tb_panes = hm_insert root_id (pane_state_new terminal_id) [],
                      tb_zoomed = False\<rparr>, terminal, runtime), ctr2))"

definition tab_new ::
  "('e, 'rt) host \<Rightarrow> usize \<Rightarrow> string \<Rightarrow> launch_env \<Rightarrow> id_counters \<Rightarrow>
    ('e + tab \<times> terminal_state \<times> 'rt) \<times> id_counters" where
  "tab_new host number initial_cwd env ctr = tab_new_with_runtime host number initial_cwd env None ctr"

definition tab_new_argv_command ::
  "('e, 'rt) host \<Rightarrow> usize \<Rightarrow> string \<Rightarrow> string list \<Rightarrow> launch_env \<Rightarrow> id_counters \<Rightarrow>
    ('e + tab \<times> terminal_state \<times> 'rt) \<times> id_counters" where
  "tab_new_argv_command host number initial_cwd argv env ctr =
     tab_new_with_runtime host number initial_cwd env (Some argv) ctr"

definition tab_from_existing_pane :: "usize \<Rightarrow> string option \<Rightarrow> moved_pane \<Rightarrow> tab" where
  "tab_from_existing_pane number custom_name moved =
     \<lparr>tb_custom_name = custom_name, tb_number = number, tb_root_pane = mp_pane_id moved,
      tb_layout = from_saved (Pane (mp_pane_id moved)) (mp_pane_id moved),
      tb_panes = hm_insert (mp_pane_id moved) (mp_pane_state moved) [], tb_zoomed = False\<rparr>"

definition tab_is_auto_named :: "tab \<Rightarrow> bool" where
  "tab_is_auto_named tb \<longleftrightarrow> tb_custom_name tb = None"

definition tab_set_custom_name :: "string \<Rightarrow> tab \<Rightarrow> tab" where
  "tab_set_custom_name name tb = tb\<lparr>tb_custom_name := Some name\<rparr>"

definition tab_terminal_id :: "tab \<Rightarrow> pane_id \<Rightarrow> string option" where
  "tab_terminal_id tb i = map_option pn_attached_terminal_id (hm_get (tb_panes tb) i)"

section \<open>Splitting\<close>

text \<open>When the runtime does not start, the new pane is closed again.\<close>

definition tab_split_pane_with_runtime ::
  "('e, 'rt) host \<Rightarrow> pane_id \<Rightarrow> bool \<Rightarrow> direction \<Rightarrow> f32 option \<Rightarrow> string option \<Rightarrow> launch_env \<Rightarrow>
    spawn_command \<Rightarrow> tab \<Rightarrow> id_counters \<Rightarrow>
    (tab \<times> ('e split_error + 'rt new_pane) \<times> id_counters) option" where
  "tab_split_pane_with_runtime host target focus_new_pane direction ratio cwd env command tb ctr =
     (case split_pane target direction (unwrap_or ratio ratio_half) (tb_layout tb) (ic_next_pane ctr) of
        (layout, None, nxt) \<Rightarrow>
          Some (tb\<lparr>tb_layout := layout\<rparr>, Inl TargetNotInLayout, ctr\<lparr>ic_next_pane := nxt\<rparr>)
      | (layout, Some new_id, nxt) \<Rightarrow>
          let ctr1 = ctr\<lparr>ic_next_pane := nxt\<rparr>;
              actual_cwd = unwrap_or cwd (current_dir_or_root (ho_current_dir host))
          in case ho_spawn host new_id actual_cwd command env of
               Inl e \<Rightarrow> map_option (\<lambda>(closed, _). (tb\<lparr>tb_layout := closed\<rparr>, Inl (SpawnFailed e), ctr1))
                 (close_pane new_id layout)
             | Inr runtime \<Rightarrow>
                 let (terminal_id, ctr2) = host_terminal_id host ctr1;
                     terminal = (case command of
                         SpawnArgv a \<Rightarrow> with_launch_argv a (ts_new terminal_id actual_cwd)
                       | _ \<Rightarrow> ts_new terminal_id actual_cwd)
                 in Some (tb\<lparr>tb_layout := (if focus_new_pane then focus_pane new_id layout else layout),
                            tb_panes := hm_insert new_id (pane_state_new terminal_id) (tb_panes tb),
                            tb_zoomed := False\<rparr>,
                          Inr \<lparr>np_pane_id = new_id, np_terminal = terminal, np_runtime = runtime\<rparr>, ctr2))"

definition tab_split_focused_command ::
  "('e, 'rt) host \<Rightarrow> direction \<Rightarrow> string option \<Rightarrow> string \<Rightarrow> launch_env \<Rightarrow> tab \<Rightarrow> id_counters \<Rightarrow>
    (tab \<times> ('e split_error + 'rt new_pane) \<times> id_counters) option" where
  "tab_split_focused_command host direction cwd command env tb ctr =
     tab_split_pane_with_runtime host (tl_focus (tb_layout tb)) True direction None cwd env
       (SpawnShell command) tb ctr"

definition tab_split_pane_shell ::
  "('e, 'rt) host \<Rightarrow> pane_id \<Rightarrow> bool \<Rightarrow> direction \<Rightarrow> f32 option \<Rightarrow> string option \<Rightarrow> launch_env \<Rightarrow>
    tab \<Rightarrow> id_counters \<Rightarrow> (tab \<times> ('e split_error + 'rt new_pane) \<times> id_counters) option" where
  "tab_split_pane_shell host target focus_new_pane direction ratio cwd env tb ctr =
     tab_split_pane_with_runtime host target focus_new_pane direction ratio cwd env SpawnDefault tb ctr"

definition tab_split_pane_argv ::
  "('e, 'rt) host \<Rightarrow> pane_id \<Rightarrow> bool \<Rightarrow> direction \<Rightarrow> f32 option \<Rightarrow> string option \<Rightarrow> string list \<Rightarrow>
    launch_env \<Rightarrow> tab \<Rightarrow> id_counters \<Rightarrow>
    (tab \<times> ('e split_error + 'rt new_pane) \<times> id_counters) option" where
  "tab_split_pane_argv host target focus_new_pane direction ratio cwd argv env tb ctr =
     tab_split_pane_with_runtime host target focus_new_pane direction ratio cwd env (SpawnArgv argv) tb ctr"

section \<open>Closing and moving\<close>

definition promoted_root_if_needed :: "tab \<Rightarrow> pane_id \<Rightarrow> pane_id option" where
  "promoted_root_if_needed tb closing =
     (if tb_root_pane tb \<noteq> closing then None
      else find (\<lambda>i. i \<noteq> closing) (tl_pane_ids (tb_layout tb)))"

definition detach_pane :: "pane_id \<Rightarrow> tab \<Rightarrow> (tab \<times> (pane_id \<times> string) option) option" where
  "detach_pane i tb =
     (if tl_pane_count (tb_layout tb) \<le> 1 then Some (tb, None)
      else let next_root = promoted_root_if_needed tb i
           in Option.bind (close_pane i (tb_layout tb)) (\<lambda>(layout, _).
                let tb1 = tb\<lparr>tb_layout := layout\<rparr>
                in case hm_get (tb_panes tb) i of
                     None \<Rightarrow> Some (tb1, None)
                   | Some pane \<Rightarrow>
                       Some (tb1\<lparr>tb_panes := hm_remove i (tb_panes tb), tb_zoomed := False,
                                 tb_root_pane := unwrap_or next_root (tb_root_pane tb)\<rparr>,
                             Some (i, pn_attached_terminal_id pane))))"

definition tab_close_pane :: "pane_id \<Rightarrow> tab \<Rightarrow> (tab \<times> (pane_id \<times> string) option) option" where
  "tab_close_pane i tb = detach_pane i tb"

definition tab_remove_pane :: "pane_id \<Rightarrow> tab \<Rightarrow> (tab \<times> (pane_id \<times> string) option) option" where
  "tab_remove_pane i tb = detach_pane i tb"

definition tab_take_pane_for_move :: "pane_id \<Rightarrow> tab \<Rightarrow> (tab \<times> moved_pane option) option" where
  "tab_take_pane_for_move i tb =
     (if \<not> hm_contains (tb_panes tb) i then Some (tb, None)
      else map_option (\<lambda>tb1.
          case hm_get (tb_panes tb1) i of
            None \<Rightarrow> (tb1, None)
          | Some pane \<Rightarrow> (tb1\<lparr>tb_panes := hm_remove i (tb_panes tb1), tb_zoomed := False\<rparr>,
                          Some \<lparr>mp_pane_id = i, mp_pane_state = pane\<rparr>))
        (if 1 < tl_pane_count (tb_layout tb)
         then let next_root = promoted_root_if_needed tb i
              in map_option (\<lambda>(layout, _). tb\<lparr>tb_layout := layout,
                     tb_root_pane := unwrap_or next_root (tb_root_pane tb)\<rparr>)
                   (close_pane i (tb_layout tb))
         else Some tb))"

definition tab_insert_existing_pane ::
  "pane_id \<Rightarrow> moved_pane \<Rightarrow> direction \<Rightarrow> f32 \<Rightarrow> bool \<Rightarrow> tab \<Rightarrow> tab \<times> (moved_pane + pane_id)" where
  "tab_insert_existing_pane target moved direction ratio do_focus tb =
     (case insert_pane_near target (mp_pane_id moved) direction ratio do_focus (tb_layout tb) of
        (layout, False) \<Rightarrow> (tb\<lparr>tb_layout := layout\<rparr>, Inl moved)
      | (layout, True) \<Rightarrow>
          (tb\<lparr>tb_layout := layout, tb_panes := hm_insert (mp_pane_id moved) (mp_pane_state moved) (tb_panes tb),
              tb_zoomed := False\<rparr>, Inr (mp_pane_id moved)))"

end
