(* ===== verification/Session_Restore.thy ===== *)
theory Session_Restore
  imports Tabs Terminal_Detect
begin

text \<open>
  Restoring a saved session (\<open>persist/restore.rs\<close>), in the Unix build: layouts get fresh pane ids
  and lose the panes that could not be restored, each pane gets a terminal, agent sessions are
  resumed at most once, and public numbers are kept. The world outside is the record
  \<open>restore_env\<close> (files, the environment, clocks, git, and the two ways to obtain a runtime); the
  global counters, the set of resumed sessions and the runtimes still to be imported are threaded
  through as \<open>restore_state\<close>.
\<close>

section \<open>The environment and the state\<close>

record pane_history =
  ph_ansi :: string
  ph_lines :: usize

type_synonym tab_history = "(u32, pane_history) hashmap"
type_synonym workspace_history = "tab_history list"

text \<open>
  \<open>re_import\<close> is \<open>TerminalRuntime::from_handoff_fd\<close> and \<open>re_spawn\<close> is
  \<open>spawn_with_initial_history\<close>, with \<open>None\<close> for an error; \<open>re_now\<close> and \<open>re_clk\<close> are the readings of
  the clock when the agent of a pane is set, \<open>re_micros\<close> the one of \<open>TerminalId::alloc\<close>.
\<close>

record ('im, 'rt) restore_env =
  re_exists :: "string \<Rightarrow> bool"
  re_home :: "string option"
  re_current_dir :: "string option"
  re_resume_agents :: bool
  re_now :: "pane_id \<Rightarrow> instant"
  re_clk :: "pane_id \<Rightarrow> instant"
  re_micros :: "usize \<Rightarrow> nat"
  re_import :: "pane_id \<Rightarrow> 'im \<Rightarrow> 'rt option"
  re_spawn :: "pane_id \<Rightarrow> string \<Rightarrow> launch_env \<Rightarrow> string option \<Rightarrow> 'rt option"
  re_git_space :: "string \<Rightarrow> git_space option"
  re_git_label :: "string \<Rightarrow> git_space option \<Rightarrow> string"
  re_git_status_key :: "string \<Rightarrow> git_space option \<Rightarrow> string"
  re_git_branch :: "string \<Rightarrow> string option"

record 'im restore_state =
  rs_next_pane :: u32
  rs_next_terminal :: usize
  rs_next_workspace :: usize
  rs_resumed :: "string set"
  rs_imports :: "(u32, 'im) hashmap"

section \<open>Layouts\<close>

text \<open>The global counter of pane ids is the first component of the state of \<open>remap_inner\<close>.\<close>

fun remap_inner ::
  "layout_snapshot \<Rightarrow> u32 \<Rightarrow> (u32, pane_id) hashmap \<Rightarrow> node \<times> u32 \<times> (u32, pane_id) hashmap" where
  "remap_inner (PaneSnapshot old_id) nxt id_map =
     (let (new_id, nxt') = pane_id_alloc nxt
      in (Pane new_id, nxt', hm_insert old_id new_id id_map))"
| "remap_inner (SplitSnapshot direction ratio first second) nxt id_map =
     (let (first_node, nxt1, id_map1) = remap_inner first nxt id_map;
          (second_node, nxt2, id_map2) = remap_inner second nxt1 id_map1
      in (Split (case direction of HorizontalSnapshot \<Rightarrow> Horizontal | VerticalSnapshot \<Rightarrow> Vertical)
            ratio first_node second_node, nxt2, id_map2))"

definition restore_node_remapped ::
  "layout_snapshot \<Rightarrow> u32 \<Rightarrow> node \<times> u32 \<times> (u32, pane_id) hashmap" where
  "restore_node_remapped snap nxt = remap_inner snap nxt []"

fun collect_ids_inner :: "node \<Rightarrow> pane_id list \<Rightarrow> pane_id list" where
  "collect_ids_inner (Pane i) ids = ids @ [i]"
| "collect_ids_inner (Split _ _ first second) ids =
     collect_ids_inner second (collect_ids_inner first ids)"

definition collect_pane_ids :: "node \<Rightarrow> pane_id list" where
  "collect_pane_ids n = collect_ids_inner n []"

fun collect_layout_snapshot_pane_ids :: "layout_snapshot \<Rightarrow> u32 list \<Rightarrow> u32 list" where
  "collect_layout_snapshot_pane_ids (PaneSnapshot i) ids = ids @ [i]"
| "collect_layout_snapshot_pane_ids (SplitSnapshot _ _ first second) ids =
     collect_layout_snapshot_pane_ids second (collect_layout_snapshot_pane_ids first ids)"

fun prune_restored_node :: "node \<Rightarrow> pane_id set \<Rightarrow> node option" where
  "prune_restored_node (Pane i) surviving = then_some (i \<in> surviving) (Pane i)"
| "prune_restored_node (Split direction ratio first second) surviving =
     (case (prune_restored_node first surviving, prune_restored_node second surviving) of
        (Some f, Some s) \<Rightarrow> Some (Split direction ratio f s)
      | (Some remaining, None) \<Rightarrow> Some remaining
      | (None, Some remaining) \<Rightarrow> Some remaining
      | (None, None) \<Rightarrow> None)"

definition resolve_restored_pane ::
  "u32 option \<Rightarrow> (u32, pane_id) hashmap \<Rightarrow> pane_id set \<Rightarrow> pane_id list \<Rightarrow> pane_id option" where
  "resolve_restored_pane saved_old_id id_map surviving pane_ids =
     or_else
       (opt_filter (\<lambda>i. i \<in> surviving) (Option.bind saved_old_id (hm_get id_map)))
       (case pane_ids of [] \<Rightarrow> None | i # _ \<Rightarrow> Some i)"

section \<open>Agent sessions\<close>

record pane_startup =
  pu_restore_plan :: "resume_plan option"
  pu_initial_history :: "string option"
  pu_duplicate :: bool
  pu_reserved :: "string option"

definition persisted_agent_session_from_snapshot ::
  "pane_agent_session \<Rightarrow> persisted_session option" where
  "persisted_agent_session_from_snapshot s =
     session_ref_from_snapshot (pa_source s) (pa_agent s) (pa_kind s) (pa_value s)"

definition restore_plan_for_snapshot :: "pane_agent_session \<Rightarrow> bool \<Rightarrow> resume_plan option" where
  "restore_plan_for_snapshot s resume_agents_on_restore =
     (if \<not> resume_agents_on_restore then None
      else Option.bind (persisted_agent_session_from_snapshot s)
             (\<lambda>p. plan False (pa_source s) (pa_agent s) (ps_session_ref p)))"

definition restored_terminal_agent_session ::
  "pane_agent_session option \<Rightarrow> bool \<Rightarrow> persisted_session option" where
  "restored_terminal_agent_session s duplicate_agent_session =
     (if duplicate_agent_session then None
      else Option.bind s persisted_agent_session_from_snapshot)"

definition pane_restore_startup ::
  "pane_agent_session option \<Rightarrow> pane_history option \<Rightarrow> bool \<Rightarrow> string set \<Rightarrow>
    pane_startup \<times> string set" where
  "pane_restore_startup session history enabled resumed =
     (let restore_plan = Option.bind session (\<lambda>s. restore_plan_for_snapshot s enabled);
          has_native_agent_restore = (restore_plan \<noteq> None);
          fresh_key = opt_filter (\<lambda>k. k \<notin> resumed) (map_option rp_dedupe_key restore_plan);
          duplicate = is_some_and restore_plan (\<lambda>p. rp_dedupe_key p \<in> resumed)
      in (\<lparr>pu_restore_plan = (if duplicate then None else restore_plan),
           pu_initial_history =
             (if has_native_agent_restore then None else map_option ph_ansi history),
           pu_duplicate = duplicate, pu_reserved = fresh_key\<rparr>,
          (case fresh_key of None \<Rightarrow> resumed | Some k \<Rightarrow> insert k resumed)))"

section \<open>Panes\<close>

text \<open>What the panes of one tab are restored from.\<close>

record tab_context =
  tc_panes :: "(u32, pane_snapshot) hashmap"
  tc_history :: "tab_history option"
  tc_number :: usize
  tc_workspace_id :: string
  tc_old_ids :: "(pane_id, u32) hashmap"
  tc_public_ids :: "(u32, string) hashmap"

text \<open>The panes restored so far, with their terminals and runtimes.\<close>

record 'rt restored_panes =
  rd_panes :: "(pane_id, pane_state) hashmap"
  rd_terminals :: "terminal_state list"
  rd_runtimes :: "(string, 'rt) hashmap"
  rd_failed_imports :: usize

definition restored_cwd :: "('im, 'rt) restore_env \<Rightarrow> string \<Rightarrow> string" where
  "restored_cwd env saved_cwd =
     (if re_exists env saved_cwd then saved_cwd
      else let home = unwrap_or (re_home env) ''/''
           in if re_exists env home then home else ''/'')"

definition restore_label :: "string option \<Rightarrow> terminal_state \<Rightarrow> terminal_state" where
  "restore_label label t = (case label of None \<Rightarrow> t | Some l \<Rightarrow> set_manual_label l t)"

definition restore_session :: "persisted_session option \<Rightarrow> terminal_state \<Rightarrow> terminal_state" where
  "restore_session s t = (case s of None \<Rightarrow> t | Some p \<Rightarrow> set_persisted_agent_session p t)"

definition restore_detected_agent ::
  "agent option \<Rightarrow> instant \<Rightarrow> instant \<Rightarrow> terminal_state \<Rightarrow> terminal_state" where
  "restore_detected_agent a now clk t =
     (case a of None \<Rightarrow> t
      | Some ag \<Rightarrow> fst (set_detected_state_with_screen_signals_at (Some ag) Idle
          False False False False now clk t))"

definition pending_resume_terminal ::
  "string \<Rightarrow> string \<Rightarrow> resume_plan \<Rightarrow> string option \<Rightarrow> persisted_session option \<Rightarrow> string option \<Rightarrow>
    agent option \<Rightarrow> agent option \<Rightarrow> instant \<Rightarrow> instant \<Rightarrow> terminal_state" where
  "pending_resume_terminal terminal_id cwd p label session agent_name managed detected now clk =
     (let t = restore_session session (restore_label label
            (with_pending_agent_resume_plan p (ts_new terminal_id cwd)))
      in restore_detected_agent detected now clk
           (case (agent_name, managed) of
              (Some n, Some a) \<Rightarrow> restore_managed_agent n a t
            | (Some _, None) \<Rightarrow> t
            | (None, _) \<Rightarrow> t))"

definition running_terminal ::
  "string \<Rightarrow> string \<Rightarrow> bool \<Rightarrow> string list option \<Rightarrow> string option \<Rightarrow> persisted_session option \<Rightarrow>
    string option \<Rightarrow> agent option \<Rightarrow> agent option \<Rightarrow> instant \<Rightarrow> instant \<Rightarrow> terminal_state" where
  "running_terminal terminal_id cwd was_imported launch_argv label session agent_name managed
     detected now clk =
     (let t0 = ts_new terminal_id cwd;
          t1 = (case launch_argv of
                  Some argv \<Rightarrow> if was_imported
                    then with_respawn_shell_on_exit (with_launch_argv argv t0) else t0
                | None \<Rightarrow> t0);
          t = restore_session session (restore_label label t1)
      in restore_detected_agent detected now clk
           (case (agent_name, managed) of
              (Some n, Some a) \<Rightarrow> if was_imported then restore_managed_agent n a t else t
            | (Some n, None) \<Rightarrow> if was_imported then set_agent_name n t else t
            | (None, _) \<Rightarrow> t))"

definition pane_launch_env :: "tab_context \<Rightarrow> u32 option \<Rightarrow> launch_env" where
  "pane_launch_env ctx old_id =
     (case Option.bind old_id (hm_get (tc_public_ids ctx)) of
        None \<Rightarrow> launch_env_default
      | Some public_id \<Rightarrow>
          with_identity (tc_workspace_id ctx)
            (public_tab_id_for_number (tc_workspace_id ctx) (tc_number ctx)) public_id
            (from_extra []))"

definition alloc_terminal ::
  "('im, 'rt) restore_env \<Rightarrow> 'im restore_state \<Rightarrow> string \<times> 'im restore_state" where
  "alloc_terminal env st =
     (let (terminal_id, nxt) =
            terminal_id_alloc (re_micros env (rs_next_terminal st)) (rs_next_terminal st)
      in (terminal_id, st\<lparr>rs_next_terminal := nxt\<rparr>))"

definition add_pane ::
  "pane_id \<Rightarrow> terminal_state \<Rightarrow> 'rt option \<Rightarrow> 'rt restored_panes \<Rightarrow> 'rt restored_panes" where
  "add_pane i t runtime rd =
     rd\<lparr>rd_panes := hm_insert i (pane_state_new (ts_id t)) (rd_panes rd),
        rd_terminals := rd_terminals rd @ [t],
        rd_runtimes := (case runtime of None \<Rightarrow> rd_runtimes rd
          | Some r \<Rightarrow> hm_insert (ts_id t) r (rd_runtimes rd))\<rparr>"

definition pane_cwd :: "('im, 'rt) restore_env \<Rightarrow> pane_snapshot option \<Rightarrow> string" where
  "pane_cwd env saved_pane =
     restored_cwd env (case saved_pane of Some p \<Rightarrow> sn_cwd p
       | None \<Rightarrow> current_dir_or_root (re_current_dir env))"

definition saved_managed_agent :: "pane_snapshot option \<Rightarrow> agent option" where
  "saved_managed_agent saved_pane =
     Option.bind (Option.bind saved_pane sn_managed_agent_kind) parse_canonical_agent_label"

text \<open>A pane that waits to resume its agent: no runtime is started.\<close>

definition restore_pending_pane ::
  "('im, 'rt) restore_env \<Rightarrow> pane_id \<Rightarrow> pane_snapshot option \<Rightarrow> resume_plan \<Rightarrow>
    persisted_session option \<Rightarrow> 'im restore_state \<Rightarrow> 'rt restored_panes \<Rightarrow>
    'im restore_state \<times> 'rt restored_panes" where
  "restore_pending_pane env i saved_pane p session st rd =
     (let (terminal_id, st') = alloc_terminal env st
      in (st', add_pane i (pending_resume_terminal terminal_id (pane_cwd env saved_pane) p
            (Option.bind saved_pane sn_label) session (Option.bind saved_pane sn_agent_name)
            (saved_managed_agent saved_pane) (parse_agent_label (rp_agent p))
            (re_now env i) (re_clk env i)) None rd))"

text \<open>A pane whose runtime is imported or started; on failure its reservation is rolled back.\<close>

definition restore_live_pane ::
  "('im, 'rt) restore_env \<Rightarrow> tab_context \<Rightarrow> pane_id \<Rightarrow> u32 option \<Rightarrow> pane_snapshot option \<Rightarrow>
    'im option \<Rightarrow> pane_startup \<Rightarrow> persisted_session option \<Rightarrow> 'im restore_state \<Rightarrow>
    'rt restored_panes \<Rightarrow> 'im restore_state \<times> 'rt restored_panes" where
  "restore_live_pane env ctx i old_id saved_pane imported startup session st rd =
     (case (case imported of
              Some im \<Rightarrow> re_import env i im
            | None \<Rightarrow> re_spawn env i (pane_cwd env saved_pane) (pane_launch_env ctx old_id)
                (pu_initial_history startup)) of
        Some runtime \<Rightarrow>
          let (terminal_id, st') = alloc_terminal env st
          in (st', add_pane i (running_terminal terminal_id (pane_cwd env saved_pane)
                (imported \<noteq> None) (Option.bind saved_pane sn_launch_argv)
                (Option.bind saved_pane sn_label) session (Option.bind saved_pane sn_agent_name)
                (saved_managed_agent saved_pane)
                (Option.bind (pu_restore_plan startup) (\<lambda>p. parse_agent_label (rp_agent p)))
                (re_now env i) (re_clk env i)) (Some runtime) rd)
      | None \<Rightarrow>
          (st\<lparr>rs_resumed := (case pu_reserved startup of None \<Rightarrow> rs_resumed st
              | Some key \<Rightarrow> rs_resumed st - {key})\<rparr>,
           if imported \<noteq> None
           then rd\<lparr>rd_failed_imports := usize_add (rd_failed_imports rd) 1\<rparr> else rd))"

text \<open>The body of the loop over the panes of a tab.\<close>

definition restore_pane ::
  "('im, 'rt) restore_env \<Rightarrow> tab_context \<Rightarrow> pane_id \<Rightarrow> 'im restore_state \<times> 'rt restored_panes \<Rightarrow>
    'im restore_state \<times> 'rt restored_panes" where
  "restore_pane env ctx i = (\<lambda>(st, rd).
     let old_id = hm_get (tc_old_ids ctx) i;
         saved_pane = Option.bind old_id (hm_get (tc_panes ctx));
         session = Option.bind saved_pane sn_agent_session;
         history = Option.bind old_id (\<lambda>oid. Option.bind (tc_history ctx) (\<lambda>h. hm_get h oid));
         (startup, resumed) = pane_restore_startup session history (re_resume_agents env) (rs_resumed st);
         restored_session = restored_terminal_agent_session session (pu_duplicate startup);
         imported = Option.bind old_id (hm_get (rs_imports st));
         imports = (case old_id of None \<Rightarrow> rs_imports st | Some oid \<Rightarrow> hm_remove oid (rs_imports st));
         st1 = st\<lparr>rs_resumed := resumed, rs_imports := imports\<rparr>
     in case (imported, pu_restore_plan startup) of
          (None, Some p) \<Rightarrow> restore_pending_pane env i saved_pane p restored_session st1 rd
        | _ \<Rightarrow> restore_live_pane env ctx i old_id saved_pane imported startup restored_session st1 rd)"

section \<open>Tabs\<close>

record 'rt restored_tab =
  rt_tab :: tab
  rt_terminals :: "terminal_state list"
  rt_runtimes :: "(string, 'rt) hashmap"
  rt_old_ids :: "(pane_id, u32) hashmap"

definition reverse_id_map :: "(u32, pane_id) hashmap \<Rightarrow> (pane_id, u32) hashmap" where
  "reverse_id_map id_map = fold (\<lambda>(old_id, new_id). hm_insert new_id old_id) id_map []"

text \<open>The end of \<open>restore_tab\<close>: the layout without the panes that are missing.\<close>

definition finish_tab ::
  "tab_snapshot \<Rightarrow> usize \<Rightarrow> node \<Rightarrow> (u32, pane_id) hashmap \<Rightarrow> 'rt restored_panes \<Rightarrow>
    'rt restored_tab option" where
  "finish_tab snap number n id_map rd =
     (if rd_panes rd = [] then None
      else let surviving = set (hm_keys (rd_panes rd))
           in Option.bind (prune_restored_node n surviving) (\<lambda>pruned.
                let pane_ids = collect_pane_ids pruned
                in Option.bind (resolve_restored_pane (st_focused snap) id_map surviving pane_ids) (\<lambda>foc.
                   Option.bind (resolve_restored_pane (st_root_pane snap) id_map surviving pane_ids) (\<lambda>root.
                     Some \<lparr>rt_tab = \<lparr>tb_custom_name = st_custom_name snap, tb_number = number,
                             tb_root_pane = root, tb_layout = from_saved pruned foc,
                             tb_panes = rd_panes rd, tb_zoomed = st_zoomed snap\<rparr>,
                           rt_terminals = rd_terminals rd, rt_runtimes = rd_runtimes rd,
                           rt_old_ids = reverse_id_map id_map\<rparr>))))"

definition restore_tab ::
  "('im, 'rt) restore_env \<Rightarrow> tab_snapshot \<Rightarrow> tab_history option \<Rightarrow> usize \<Rightarrow> string \<Rightarrow>
    (u32, string) hashmap \<Rightarrow> 'im restore_state \<Rightarrow>
    ('rt restored_tab option \<times> usize) \<times> 'im restore_state" where
  "restore_tab env snap history number workspace_id public_ids st =
     (let (n, nxt, id_map) = restore_node_remapped (st_layout snap) (rs_next_pane st);
          ctx = \<lparr>tc_panes = st_panes snap, tc_history = history, tc_number = number,
                 tc_workspace_id = workspace_id, tc_old_ids = reverse_id_map id_map,
                 tc_public_ids = public_ids\<rparr>;
          (st', rd) = fold (restore_pane env ctx) (collect_pane_ids n)
            (st\<lparr>rs_next_pane := nxt\<rparr>,
             \<lparr>rd_panes = [], rd_terminals = [], rd_runtimes = [], rd_failed_imports = 0\<rparr>)
      in ((finish_tab snap number n id_map rd, rd_failed_imports rd), st'))"

end
