(* ===== verification/Workspace_Restore.thy ===== *)
theory Workspace_Restore
  imports Session_Restore
begin

text \<open>
  Restoring workspaces and whole sessions (\<open>persist/restore.rs\<close>): the public numbers of tabs and
  panes, the workspaces of a session one after the other, and the strict variant that a handoff
  between servers uses.
\<close>

section \<open>Public numbers\<close>

text \<open>One more than the largest number in use, or 1; \<open>reserved\<close> is the saved next number.\<close>

definition next_public_number :: "usize list \<Rightarrow> usize \<Rightarrow> usize" where
  "next_public_number used reserved =
     max (unwrap_or (Option.bind (max_by_key (\<lambda>n. n) used) (\<lambda>m. usize_checked_add m 1)) 1) reserved"

definition number_pane ::
  "u32 \<Rightarrow> (u32, usize) hashmap \<times> usize \<Rightarrow> (u32, usize) hashmap \<times> usize" where
  "number_pane old_raw = (\<lambda>(numbers, nxt).
     if hm_contains numbers old_raw then (numbers, nxt)
     else (hm_insert old_raw nxt numbers, usize_add nxt 1))"

definition migrated_public_pane_numbers_by_old_raw ::
  "workspace_snapshot \<Rightarrow> usize \<Rightarrow> (u32, usize) hashmap \<times> usize" where
  "migrated_public_pane_numbers_by_old_raw snap nxt =
     fold (\<lambda>tb. fold number_pane (collect_layout_snapshot_pane_ids (st_layout tb) []))
       (sw_tabs snap) (sw_public_pane_numbers snap, nxt)"

text \<open>The public number of a restored pane, and the next number after it.\<close>

definition publish_pane ::
  "(u32, usize) hashmap \<Rightarrow> (pane_id, u32) hashmap \<Rightarrow> pane_id \<Rightarrow>
    (pane_id, usize) hashmap \<times> usize \<Rightarrow> (pane_id, usize) hashmap \<times> usize" where
  "publish_pane by_old_raw old_ids i = (\<lambda>(numbers, nxt).
     let (n, nxt') = (case hm_get by_old_raw (unwrap_or (hm_get old_ids i) i) of
            Some n \<Rightarrow> (n, nxt)
          | None \<Rightarrow> (nxt, usize_add nxt 1))
     in (hm_insert i n numbers, max nxt' (usize_add n 1)))"

section \<open>Workspaces\<close>

definition restored_worktree_space_membership ::
  "('im, 'rt) restore_env \<Rightarrow> worktree_space option \<Rightarrow> worktree_space option" where
  "restored_worktree_space_membership env space =
     opt_filter (\<lambda>s. re_exists env (sp_checkout_path s) \<and>
         is_some_and (re_git_space env (sp_checkout_path s)) (\<lambda>current. gs_key current = sp_key s))
       space"

text \<open>What the loop over the tabs of a workspace accumulates.\<close>

record 'rt workspace_build =
  wb_tabs :: "tab list"
  wb_terminals :: "terminal_state list"
  wb_runtimes :: "(string, 'rt) hashmap"
  wb_numbers :: "(pane_id, usize) hashmap"
  wb_next_pane :: usize
  wb_next_tab :: usize
  wb_failed_imports :: usize

definition hm_extend :: "('k, 'v) hashmap \<Rightarrow> ('k, 'v) hashmap \<Rightarrow> ('k, 'v) hashmap" where
  "hm_extend kvs m = fold (\<lambda>(k, v). hm_insert k v) kvs m"

definition add_tab ::
  "(u32, usize) hashmap \<Rightarrow> usize option \<Rightarrow> 'rt restored_tab \<Rightarrow> 'rt workspace_build \<Rightarrow>
    'rt workspace_build" where
  "add_tab by_old_raw public_tab_number r wb =
     (let tb = (case public_tab_number of None \<Rightarrow> rt_tab r
                | Some n \<Rightarrow> (rt_tab r)\<lparr>tb_number := n\<rparr>);
          (numbers, nxt) = fold (publish_pane by_old_raw (rt_old_ids r)) (tl_pane_ids (tb_layout tb))
            (wb_numbers wb, wb_next_pane wb)
      in wb\<lparr>wb_tabs := wb_tabs wb @ [tb], wb_terminals := wb_terminals wb @ rt_terminals r,
            wb_runtimes := hm_extend (rt_runtimes r) (wb_runtimes wb),
            wb_numbers := numbers, wb_next_pane := nxt,
            wb_next_tab := max (wb_next_tab wb) (usize_add (tb_number tb) 1)\<rparr>)"

definition restore_numbered_tab ::
  "('im, 'rt) restore_env \<Rightarrow> workspace_snapshot \<Rightarrow> workspace_history option \<Rightarrow> string \<Rightarrow>
    (u32, usize) hashmap \<Rightarrow> (u32, string) hashmap \<Rightarrow> nat \<times> tab_snapshot \<Rightarrow>
    'rt workspace_build \<times> 'im restore_state \<Rightarrow> 'rt workspace_build \<times> 'im restore_state" where
  "restore_numbered_tab env snap history workspace_id by_old_raw public_ids = (\<lambda>(idx, tab_snap) (wb, st).
     let ((restored, failed), st') =
           restore_tab env tab_snap (Option.bind history (\<lambda>h. nth_opt h idx))
             (unwrap_or (nth_opt (sw_public_tab_numbers snap) idx) (usize_add idx 1))
             workspace_id public_ids st;
         wb1 = wb\<lparr>wb_failed_imports := usize_add (wb_failed_imports wb) failed\<rparr>
     in (case restored of None \<Rightarrow> wb1
         | Some r \<Rightarrow> add_tab by_old_raw (nth_opt (sw_public_tab_numbers snap) idx) r wb1, st'))"

record 'rt restored_workspace =
  rw_workspace :: workspace
  rw_terminals :: "terminal_state list"
  rw_runtimes :: "(string, 'rt) hashmap"

definition built_workspace ::
  "('im, 'rt) restore_env \<Rightarrow> workspace_snapshot \<Rightarrow> string \<Rightarrow> 'rt workspace_build \<Rightarrow>
    'rt restored_workspace option" where
  "built_workspace env snap workspace_id wb =
     (if wb_tabs wb = [] then None
      else let space = re_git_space env (sw_identity_cwd snap)
           in Some \<lparr>rw_workspace =
               \<lparr>ws_id = workspace_id, ws_custom_name = sw_custom_name snap,
                ws_identity_cwd = sw_identity_cwd snap,
                ws_cached_identity_cwd = sw_identity_cwd snap,
                ws_cached_auto_label = re_git_label env (sw_identity_cwd snap) space,
                ws_cached_git_status_key = re_git_status_key env (sw_identity_cwd snap) space,
                ws_cached_git_branch = re_git_branch env (sw_identity_cwd snap),
                ws_cached_git_ahead_behind = None, ws_cached_git_space = space,
                ws_worktree_space = restored_worktree_space_membership env (sw_worktree_space snap),
                ws_metadata_tokens = [], ws_metadata_token_sequences = [],
                ws_public_pane_numbers = wb_numbers wb, ws_next_public_pane_number = wb_next_pane wb,
                ws_next_public_tab_number = wb_next_tab wb, ws_tabs = wb_tabs wb,
                ws_active_tab = min (sw_active_tab snap) (length (wb_tabs wb) - 1)\<rparr>,
               rw_terminals = wb_terminals wb, rw_runtimes = wb_runtimes wb\<rparr>)"

definition restore_workspace ::
  "('im, 'rt) restore_env \<Rightarrow> workspace_snapshot \<Rightarrow> workspace_history option \<Rightarrow> 'im restore_state \<Rightarrow>
    ('rt restored_workspace option \<times> usize) \<times> 'im restore_state" where
  "restore_workspace env snap history st =
     (let (workspace_id, st0) = (case sw_id snap of
            Some i \<Rightarrow> (i, st)
          | None \<Rightarrow> let (i, c) = generate_workspace_id (rs_next_workspace st)
                    in (i, st\<lparr>rs_next_workspace := c\<rparr>));
          (by_old_raw, next_pane) = migrated_public_pane_numbers_by_old_raw snap
            (next_public_number (hm_values (sw_public_pane_numbers snap)) (sw_next_public_pane_number snap));
          public_ids = hm_map_values (\<lambda>_ n. public_pane_id_for_number workspace_id n) by_old_raw;
          wb0 = \<lparr>wb_tabs = [], wb_terminals = [], wb_runtimes = [], wb_numbers = [],
                 wb_next_pane = next_pane,
                 wb_next_tab = next_public_number (sw_public_tab_numbers snap) (sw_next_public_tab_number snap),
                 wb_failed_imports = 0\<rparr>;
          (wb, st') = fold (restore_numbered_tab env snap history workspace_id by_old_raw public_ids)
            (enumerate 0 (sw_tabs snap)) (wb0, st0)
      in ((built_workspace env snap workspace_id wb, wb_failed_imports wb), st'))"

section \<open>Sessions\<close>

record 'rt restored_session =
  rx_workspaces :: "workspace list"
  rx_terminals :: "(string, terminal_state) hashmap"
  rx_runtimes :: "(string, 'rt) hashmap"

definition restore_numbered_workspace ::
  "('im, 'rt) restore_env \<Rightarrow> workspace_history list option \<Rightarrow> nat \<times> workspace_snapshot \<Rightarrow>
    ('rt restored_session \<times> usize) \<times> 'im restore_state \<Rightarrow>
    ('rt restored_session \<times> usize) \<times> 'im restore_state" where
  "restore_numbered_workspace env history = (\<lambda>(idx, ws_snap) ((rx, failed), st).
     let ((restored, ws_failed), st') =
           restore_workspace env ws_snap (Option.bind history (\<lambda>h. nth_opt h idx)) st
     in ((case restored of None \<Rightarrow> rx
          | Some r \<Rightarrow>
              rx\<lparr>rx_workspaces := rx_workspaces rx @ [rw_workspace r],
                 rx_terminals := fold (\<lambda>t. hm_insert (ts_id t) t) (rw_terminals r) (rx_terminals rx),
                 rx_runtimes := hm_extend (rw_runtimes r) (rx_runtimes rx)\<rparr>,
          usize_add failed ws_failed), st'))"

text \<open>The set of resumed sessions starts empty; the counters and the imports are given.\<close>

definition restore_with_imports_and_failures ::
  "('im, 'rt) restore_env \<Rightarrow> session_snapshot \<Rightarrow> workspace_history list option \<Rightarrow>
    'im restore_state \<Rightarrow> ('rt restored_session \<times> usize) \<times> 'im restore_state" where
  "restore_with_imports_and_failures env snapshot history st =
     (let ((rx, failed), st') =
            fold (restore_numbered_workspace env history) (enumerate 0 (se_workspaces snapshot))
              ((\<lparr>rx_workspaces = [], rx_terminals = [], rx_runtimes = []\<rparr>, 0), st\<lparr>rs_resumed := {}\<rparr>)
      in ((rx, failed), st'\<lparr>rs_next_workspace :=
            reserve_workspace_ids (map ws_id (rx_workspaces rx)) (rs_next_workspace st')\<rparr>))"

definition restore_with_imports ::
  "('im, 'rt) restore_env \<Rightarrow> session_snapshot \<Rightarrow> workspace_history list option \<Rightarrow>
    'im restore_state \<Rightarrow> 'rt restored_session \<times> 'im restore_state" where
  "restore_with_imports env snapshot history st =
     (let ((rx, failed), st') = restore_with_imports_and_failures env snapshot history st
      in (rx, st'))"

definition restore ::
  "('im, 'rt) restore_env \<Rightarrow> session_snapshot \<Rightarrow> workspace_history list option \<Rightarrow>
    'im restore_state \<Rightarrow> 'rt restored_session \<times> 'im restore_state" where
  "restore env snapshot history st =
     restore_with_imports env snapshot history (st\<lparr>rs_imports := []\<rparr>)"

datatype handoff_error = FailedImports usize | UnconsumedImports usize

definition restore_with_imports_strict ::
  "('im, 'rt) restore_env \<Rightarrow> session_snapshot \<Rightarrow> workspace_history list option \<Rightarrow>
    'im restore_state \<Rightarrow> (handoff_error + 'rt restored_session) \<times> 'im restore_state" where
  "restore_with_imports_strict env snapshot history st =
     (let ((rx, failed), st') = restore_with_imports_and_failures env snapshot history st
      in (if 0 < failed then Inl (FailedImports failed)
          else if rs_imports st' \<noteq> [] then Inl (UnconsumedImports (length (rs_imports st')))
          else Inr rx, st'))"

definition restore_handoff ::
  "('im, 'rt) restore_env \<Rightarrow> session_snapshot \<Rightarrow> 'im restore_state \<Rightarrow>
    (handoff_error + 'rt restored_session) \<times> 'im restore_state" where
  "restore_handoff env snapshot st =
     restore_with_imports_strict (env\<lparr>re_resume_agents := True\<rparr>) snapshot None st"

text \<open>The new pane of each old one whose number changed, where the two layouts line up.\<close>

definition handoff_pane_aliases ::
  "session_snapshot \<Rightarrow> workspace list \<Rightarrow> (u32, pane_id) hashmap" where
  "handoff_pane_aliases snapshot workspaces =
     fold (\<lambda>(ws_snap, ws).
         fold (\<lambda>(tab_snap, tb).
             fold (\<lambda>(old_id, new_id) aliases.
                 if old_id \<noteq> new_id then hm_insert old_id new_id aliases else aliases)
               (zip (collect_layout_snapshot_pane_ids (st_layout tab_snap) []) (tl_pane_ids (tb_layout tb))))
           (zip (sw_tabs ws_snap) (ws_tabs ws)))
       (zip (se_workspaces snapshot) workspaces) []"

end
