(* ===== verification/Restore_Facts.thy ===== *)
theory Restore_Facts
  imports Workspace_Restore Terminal_Calls Layout_Facts
begin

text \<open>
  Facts about restoring: the fresh ids of a remapped layout, pruning, the terminals of restored
  panes, the set of resumed sessions, and public numbers.
\<close>

section \<open>Pane ids of layouts\<close>

fun snapshot_ids :: "layout_snapshot \<Rightarrow> u32 list" where
  "snapshot_ids (PaneSnapshot i) = [i]"
| "snapshot_ids (SplitSnapshot _ _ f s) = snapshot_ids f @ snapshot_ids s"

fun snapshot_ratios_ok :: "layout_snapshot \<Rightarrow> bool" where
  "snapshot_ratios_ok (PaneSnapshot _) = True"
| "snapshot_ratios_ok (SplitSnapshot _ r f s) \<longleftrightarrow>
     ratio_ok r \<and> snapshot_ratios_ok f \<and> snapshot_ratios_ok s"

text \<open>A saved layout with its panes renamed.\<close>

fun rename_panes :: "(u32 \<Rightarrow> u32) \<Rightarrow> layout_snapshot \<Rightarrow> layout_snapshot" where
  "rename_panes g (PaneSnapshot i) = PaneSnapshot (g i)"
| "rename_panes g (SplitSnapshot d r f s) = SplitSnapshot d r (rename_panes g f) (rename_panes g s)"

lemma collect_layout_ids: "collect_layout_snapshot_pane_ids s ids = ids @ snapshot_ids s"
  by (induction s arbitrary: ids) simp_all

lemma collect_inner_ids: "collect_ids_inner n ids = ids @ collect_ids n"
  by (induction n arbitrary: ids) simp_all

lemma collect_pane_ids_eq [simp]: "collect_pane_ids n = collect_ids n"
  by (simp add: collect_pane_ids_def collect_inner_ids)

lemma snapshot_ids_capture [simp]: "snapshot_ids (capture_node n) = collect_ids n"
  by (induction n) simp_all

lemma snapshot_ratios_capture [simp]: "snapshot_ratios_ok (capture_node n) = ratios_ok n"
  by (induction n) simp_all

lemma snapshot_ids_nonempty [simp]: "snapshot_ids s \<noteq> []"
  by (induction s) simp_all

lemma rename_cong: "(\<And>i. i \<in> set (snapshot_ids s) \<Longrightarrow> g i = h i) \<Longrightarrow> rename_panes g s = rename_panes h s"
  by (induction s) simp_all

lemma rename_rename: "rename_panes g (rename_panes h s) = rename_panes (g \<circ> h) s"
  by (induction s) simp_all

lemma rename_id: "(\<And>i. i \<in> set (snapshot_ids s) \<Longrightarrow> g i = i) \<Longrightarrow> rename_panes g s = s"
  by (induction s) simp_all

lemma snapshot_ids_rename [simp]: "snapshot_ids (rename_panes g s) = map g (snapshot_ids s)"
  by (induction s) simp_all

section \<open>Remapping\<close>

definition fresh_ids :: "u32 \<Rightarrow> nat \<Rightarrow> pane_id list" where
  "fresh_ids nxt k = map (\<lambda>i. nxt + word_of_nat i) [0..<k]"

lemma fresh_ids_add: "fresh_ids nxt (j + k) = fresh_ids nxt j @ fresh_ids (nxt + word_of_nat j) k"
  by (induction k) (simp_all add: fresh_ids_def algebra_simps)

lemma length_fresh_ids [simp]: "length (fresh_ids nxt k) = k"
  by (simp add: fresh_ids_def)

lemma unat_fresh: "unat (nxt :: u32) + k \<le> 2 ^ 32 \<Longrightarrow> i < k \<Longrightarrow> unat (nxt + word_of_nat i) = unat nxt + i"
  by (simp add: unat_word_ariths unat_of_nat)

lemma distinct_fresh_ids: "unat nxt + k \<le> 2 ^ 32 \<Longrightarrow> distinct (fresh_ids nxt k)"
  unfolding fresh_ids_def distinct_map
proof (intro conjI inj_onI)
  fix x y assume b: "unat nxt + k \<le> 2 ^ 32" "x \<in> set [0..<k]" "y \<in> set [0..<k]"
    and eq: "nxt + word_of_nat x = nxt + word_of_nat y"
  from eq have "unat (nxt + word_of_nat x) = unat (nxt + word_of_nat y)" by simp
  with b show "x = y" by (simp add: unat_fresh)
qed simp

lemma set_fresh_ids:
  "unat nxt + k \<le> 2 ^ 32 \<Longrightarrow> i \<in> set (fresh_ids nxt k) \<Longrightarrow> unat nxt \<le> unat i \<and> unat i < unat nxt + k"
  by (auto simp: fresh_ids_def unat_fresh)

definition insert_all :: "('k \<times> 'v) list \<Rightarrow> ('k, 'v) hashmap \<Rightarrow> ('k, 'v) hashmap" where
  "insert_all kvs m = fold (\<lambda>(k, v). hm_insert k v) kvs m"

lemma hm_get_insert_all:
  "hm_get (insert_all kvs m) k = (case map_of (rev kvs) k of Some v \<Rightarrow> Some v | None \<Rightarrow> hm_get m k)"
  by (simp add: insert_all_def hm.lookup_ins_all)

lemma insert_all_append: "insert_all (xs @ ys) m = insert_all ys (insert_all xs m)"
  by (simp add: insert_all_def)

lemma hm_wf_insert_all: "hm_wf m \<Longrightarrow> hm_wf (insert_all kvs m)"
  by (induction kvs arbitrary: m) (auto simp: insert_all_def)

lemma remap_inner_eq:
  "remap_inner s nxt m = (n, nxt', m') \<Longrightarrow>
     collect_ids n = fresh_ids nxt (length (snapshot_ids s)) \<and>
     nxt' = nxt + word_of_nat (length (snapshot_ids s)) \<and>
     m' = insert_all (zip (snapshot_ids s) (collect_ids n)) m \<and>
     ratios_ok n = snapshot_ratios_ok s"
proof (induction s arbitrary: nxt m n nxt' m')
  case (PaneSnapshot i)
  then show ?case by (auto simp: pane_id_alloc_def fresh_ids_def insert_all_def)
next
  case (SplitSnapshot d r f s)
  obtain n1 k1 m1 where 1: "remap_inner f nxt m = (n1, k1, m1)" by (cases "remap_inner f nxt m")
  obtain n2 k2 m2 where 2: "remap_inner s k1 m1 = (n2, k2, m2)" by (cases "remap_inner s k1 m1")
  note f = SplitSnapshot.IH(1) [OF 1] and s = SplitSnapshot.IH(2) [OF 2]
  from f s SplitSnapshot.prems 1 2 show ?case
    by (auto simp: fresh_ids_add insert_all_append algebra_simps)
qed

lemma remap_shape:
  assumes "remap_inner s nxt m = (n, nxt', m')" and "distinct (snapshot_ids s)"
    and "\<And>o' i. (o', i) \<in> set (zip (snapshot_ids s) (collect_ids n)) \<Longrightarrow> g i = o'"
  shows "rename_panes g (capture_node n) = s"
  using assms
proof (induction s arbitrary: nxt m n nxt' m')
  case (PaneSnapshot i)
  then show ?case by (auto simp: pane_id_alloc_def)
next
  case (SplitSnapshot d r f s)
  obtain n1 k1 m1 where 1: "remap_inner f nxt m = (n1, k1, m1)" by (cases "remap_inner f nxt m")
  obtain n2 k2 m2 where 2: "remap_inner s k1 m1 = (n2, k2, m2)" by (cases "remap_inner s k1 m1")
  from SplitSnapshot.prems(1) 1 2
  have n: "n = Split (case d of HorizontalSnapshot \<Rightarrow> Horizontal | VerticalSnapshot \<Rightarrow> Vertical) r n1 n2"
    by simp
  have len: "length (snapshot_ids f) = length (collect_ids n1)"
    using remap_inner_eq [OF 1] by simp
  have "rename_panes g (capture_node n1) = f" "rename_panes g (capture_node n2) = s"
    using SplitSnapshot.IH(1) [OF 1] SplitSnapshot.IH(2) [OF 2] SplitSnapshot.prems(2,3) len n
    by simp_all
  with n show ?case by (simp split: direction_snapshot.split)
qed

section \<open>Pruning\<close>

lemma prune_spec:
  "(case prune_restored_node n S of
      None \<Rightarrow> filter (\<lambda>i. i \<in> S) (collect_ids n) = []
    | Some n' \<Rightarrow> collect_ids n' = filter (\<lambda>i. i \<in> S) (collect_ids n) \<and>
        (ratios_ok n \<longrightarrow> ratios_ok n'))"
  by (induction n) (auto split: option.splits)

lemma prune_ids:
  "prune_restored_node n S = Some n' \<Longrightarrow> collect_ids n' = filter (\<lambda>i. i \<in> S) (collect_ids n)"
  using prune_spec [where n = n and S = S] by simp

lemma prune_ratios: "prune_restored_node n S = Some n' \<Longrightarrow> ratios_ok n \<Longrightarrow> ratios_ok n'"
  using prune_spec [where n = n and S = S] by simp

lemma prune_all: "set (collect_ids n) \<subseteq> S \<Longrightarrow> prune_restored_node n S = Some n"
  by (induction n) auto

lemma resolve_mem:
  assumes "resolve_restored_pane o' id_map S ids = Some i"
    and "\<And>j. hm_get id_map (the o') = Some j \<Longrightarrow> j \<in> S \<Longrightarrow> j \<in> set ids"
  shows "i \<in> set ids"
  using assms
  by (cases o') (auto simp: resolve_restored_pane_def or_else_def opt_filter_def bind_eq_Some_conv
      split: option.splits list.splits if_splits)

lemma hm_get_insert_all_mem:
  "hm_get (insert_all kvs []) k = Some v \<Longrightarrow> (k, v) \<in> set kvs"
  by (auto simp: hm_get_insert_all split: option.splits dest: map_of_SomeD)

section \<open>Restored terminals\<close>

text \<open>What holds of a terminal that has just been created.\<close>

definition quiet :: "terminal_state \<Rightarrow> bool" where
  "quiet t \<longleftrightarrow> ts_hook_authority t = None \<and> ts_suppressed t = [] \<and> ts_agent_metadata t = [] \<and>
     ts_recent_agent_process_exit t = None"

lemma quiet_new [simp]: "quiet (ts_new i d)"
  by (simp add: quiet_def ts_new_def)

lemma new_fields [simp]:
  "ts_id (ts_new i d) = i" "ts_persisted_agent_session (ts_new i d) = None"
  "ts_pending_agent_resume_plan (ts_new i d) = None" "ts_cwd (ts_new i d) = d"
  by (simp_all add: ts_new_def)

lemma restore_label_fields [simp]:
  "quiet (restore_label l t) = quiet t"
  "ts_id (restore_label l t) = ts_id t"
  "ts_persisted_agent_session (restore_label l t) = ts_persisted_agent_session t"
  "ts_pending_agent_resume_plan (restore_label l t) = ts_pending_agent_resume_plan t"
  "terminal_inv (restore_label l t) = terminal_inv t"
  by (cases l; simp add: restore_label_def; simp add: set_manual_label_def Let_def quiet_def)+

lemma restore_session_fields [simp]:
  "quiet (restore_session s t) = quiet t"
  "ts_id (restore_session s t) = ts_id t"
  "ts_persisted_agent_session (restore_session s t) = or_else s (ts_persisted_agent_session t)"
  "ts_pending_agent_resume_plan (restore_session s t) = ts_pending_agent_resume_plan t"
  "terminal_inv (restore_session s t) = terminal_inv t"
  by (cases s; simp add: restore_session_def set_persisted_agent_session_def quiet_def
      terminal_inv_frame_fields)+

lemma name_fields [simp]:
  "quiet (set_agent_name n t) = quiet t" "quiet (restore_managed_agent n k t) = quiet t"
  "ts_id (set_agent_name n t) = ts_id t" "ts_id (restore_managed_agent n k t) = ts_id t"
  "ts_persisted_agent_session (set_agent_name n t) = ts_persisted_agent_session t"
  "ts_persisted_agent_session (restore_managed_agent n k t) = ts_persisted_agent_session t"
  "ts_pending_agent_resume_plan (set_agent_name n t) = ts_pending_agent_resume_plan t"
  "ts_pending_agent_resume_plan (restore_managed_agent n k t) = ts_pending_agent_resume_plan t"
  by (simp_all add: set_agent_name_def restore_managed_agent_def Let_def quiet_def)

lemma recompute_keeps:
  "ts_id (fst (recompute_effective_state p pv now)) = ts_id p"
  "ts_persisted_agent_session (fst (recompute_effective_state p pv now)) = ts_persisted_agent_session p"
  "ts_pending_agent_resume_plan (fst (recompute_effective_state p pv now)) =
     ts_pending_agent_resume_plan p"
  "ts_detected_agent (fst (recompute_effective_state p pv now)) = ts_detected_agent p"
  "ts_hook_authority (fst (recompute_effective_state p pv now)) = ts_hook_authority p"
  "ts_fallback_state (fst (recompute_effective_state p pv now)) = ts_fallback_state p"
  "ts_fallback_visible_blocker (fst (recompute_effective_state p pv now)) =
     ts_fallback_visible_blocker p"
  by (simp_all add: recompute_effective_state_def clear_expiry_pending_for_hidden_metadata_def Let_def)

lemma reconcile_owner_keeps:
  "ts_id (reconcile_agent_name_owner l r t) = ts_id t"
  "ts_pending_agent_resume_plan (reconcile_agent_name_owner l r t) = ts_pending_agent_resume_plan t"
  "ts_persisted_agent_session (reconcile_agent_name_owner l r t) = ts_persisted_agent_session t"
  "ts_hook_authority (reconcile_agent_name_owner l r t) = ts_hook_authority t"
  "ts_suppressed (reconcile_agent_name_owner l r t) = ts_suppressed t"
  "ts_detected_agent (reconcile_agent_name_owner l r t) = ts_detected_agent t"
  by (simp_all add: reconcile_agent_name_owner_def split: option.split)

lemma clear_suppression_quiet:
  assumes "ts_suppressed t = []"
  shows "\<exists>sq. clear_full_lifecycle_hook_suppression_for_detected_agent pa a t =
     t\<lparr>ts_hook_report_sequences := sq\<rparr>"
proof (cases "a = None \<or> pa = a")
  case True
  then have "clear_full_lifecycle_hook_suppression_for_detected_agent pa a t =
      t\<lparr>ts_hook_report_sequences := ts_hook_report_sequences t\<rparr>"
    by (auto simp: clear_full_lifecycle_hook_suppression_for_detected_agent_def split: option.split)
  then show ?thesis by (rule exI)
next
  case False
  from assms have t: "t\<lparr>ts_suppressed := []\<rparr> = t" by simp
  from False obtain ag where a: "a = Some ag" "pa \<noteq> Some ag" by (cases a) auto
  have "clear_full_lifecycle_hook_suppression_for_detected_agent pa a t =
      t\<lparr>ts_hook_report_sequences := hm_retain
        (\<lambda>source _. \<not> full_lifecycle_hook_authority source (agent_label ag))
        (ts_hook_report_sequences t)\<rparr>"
    using a
    by (simp add: clear_full_lifecycle_hook_suppression_for_detected_agent_def Let_def assms t
        del: not_None_eq)
  then show ?thesis by (rule exI)
qed

lemma apply_detected_quiet:
  assumes q: "quiet t"
    and p: "p = apply_detected_state (Some a) Idle False False False now clk t"
  shows "ts_id p = ts_id t \<and> ts_persisted_agent_session p = ts_persisted_agent_session t \<and>
    ts_pending_agent_resume_plan p = ts_pending_agent_resume_plan t \<and>
    ts_detected_agent p = Some a \<and> ts_fallback_state p = Idle \<and>
    \<not> ts_fallback_visible_blocker p \<and> ts_hook_authority p = None"
proof -
  define t2 where "t2 = reconcile_agent_name_owner (agent_label a) None (t\<lparr>ts_detected_agent := Some a\<rparr>)"
  have "ts_suppressed t2 = []" and h2: "ts_hook_authority t2 = None"
    using q by (simp_all add: t2_def reconcile_owner_keeps quiet_def)
  from clear_suppression_quiet [OF this(1), of "ts_detected_agent t" "Some a"] obtain sq where
    sq: "clear_full_lifecycle_hook_suppression_for_detected_agent (ts_detected_agent t) (Some a) t2 =
      t2\<lparr>ts_hook_report_sequences := sq\<rparr>" by blast
  have "p = t2\<lparr>ts_hook_report_sequences := sq, ts_fallback_state := Idle,
      ts_fallback_visible_blocker := False, ts_fallback_observed_at := Some now,
      ts_recent_agent_process_exit := None\<rparr>"
    using q h2 sq
    by (simp add: p apply_detected_state_def Let_def quiet_def t2_def [symmetric]
        newer_custom_authority_def drop_replaced_authority_def
        hook_authority_conflicts_with_detected_agent_def)
  then show ?thesis using h2 by (simp add: t2_def reconcile_owner_keeps)
qed

lemma detect_quiet:
  assumes q: "quiet t" and inv: "terminal_inv t"
    and t': "t' = restore_detected_agent (Some a) now clk t"
  shows "ts_id t' = ts_id t" and "ts_persisted_agent_session t' = ts_persisted_agent_session t"
    and "ts_pending_agent_resume_plan t' = ts_pending_agent_resume_plan t"
    and "ts_detected_agent t' = Some a" and "ts_state t' = Idle" and "terminal_inv t'"
    and "ts_hook_authority t' = None"
proof -
  define p where "p = apply_detected_state (Some a) Idle False False False now clk t"
  note p = apply_detected_quiet [OF q p_def]
  from q have r: "t' = fst (recompute_effective_state p (previous_view t now) now)"
    by (simp add: t' restore_detected_agent_def set_detected_state_with_screen_signals_at_def
        should_ignore_detected_state_under_full_lifecycle_hook_def quiet_def
        live_full_lifecycle_hook_authority_def hm_values_def
        detected_state_observed_before_release_suppression_def Let_def finish_mutation_def p_def
        split_beta)
  from inv show i: "terminal_inv t'"
    by (simp add: t' restore_detected_agent_def)
  show "ts_id t' = ts_id t" "ts_persisted_agent_session t' = ts_persisted_agent_session t"
    "ts_pending_agent_resume_plan t' = ts_pending_agent_resume_plan t"
    "ts_detected_agent t' = Some a" and h: "ts_hook_authority t' = None"
    using p by (simp_all add: r recompute_keeps)
  have "ts_fallback_state t' = Idle" "\<not> ts_fallback_visible_blocker t'"
    using p by (simp_all add: r recompute_keeps)
  with h have "arbitrated_state t' = Idle"
    by (simp add: arbitrated_state_def visible_blocker_overrides_hook_def)
  with i show "ts_state t' = Idle" by (simp add: terminal_inv_def)
qed

text \<open>The terminals of restored panes.\<close>

definition restored_ok :: "terminal_state \<Rightarrow> bool" where
  "restored_ok t \<longleftrightarrow> terminal_inv t \<and> ts_hook_authority t = None \<and>
     (\<forall>p a. ts_pending_agent_resume_plan t = Some p \<longrightarrow> parse_agent_label (rp_agent p) = Some a \<longrightarrow>
        ts_detected_agent t = Some a \<and> ts_state t = Idle)"

lemma restore_detected_keeps:
  assumes "quiet t" and "terminal_inv t"
    and "\<And>p. ts_pending_agent_resume_plan t = Some p \<Longrightarrow> a = parse_agent_label (rp_agent p)"
  shows "ts_id (restore_detected_agent a now clk t) = ts_id t"
    and "ts_persisted_agent_session (restore_detected_agent a now clk t) = ts_persisted_agent_session t"
    and "ts_pending_agent_resume_plan (restore_detected_agent a now clk t) =
      ts_pending_agent_resume_plan t"
    and "restored_ok (restore_detected_agent a now clk t)"
proof -
  show "ts_id (restore_detected_agent a now clk t) = ts_id t"
    "ts_persisted_agent_session (restore_detected_agent a now clk t) = ts_persisted_agent_session t"
    "ts_pending_agent_resume_plan (restore_detected_agent a now clk t) = ts_pending_agent_resume_plan t"
    using assms(1,2) by (cases a; simp add: detect_quiet [OF _ _ refl]; simp add: restore_detected_agent_def)+
  show "restored_ok (restore_detected_agent a now clk t)"
  proof (cases a)
    case None
    with assms show ?thesis by (auto simp: restored_ok_def restore_detected_agent_def quiet_def)
  next
    case (Some ag)
    with assms(3) show ?thesis
      using detect_quiet [OF assms(1,2) refl, of ag now clk] by (auto simp: restored_ok_def)
  qed
qed

lemma plan_fields [simp]:
  "quiet (with_pending_agent_resume_plan p t) = quiet t"
  "ts_id (with_pending_agent_resume_plan p t) = ts_id t"
  "ts_persisted_agent_session (with_pending_agent_resume_plan p t) = ts_persisted_agent_session t"
  "ts_pending_agent_resume_plan (with_pending_agent_resume_plan p t) = Some p"
  by (simp_all add: with_pending_agent_resume_plan_def quiet_def)

lemma launch_fields [simp]:
  "quiet (with_respawn_shell_on_exit t) = quiet t" "quiet (with_launch_argv v t) = quiet t"
  "ts_id (with_respawn_shell_on_exit t) = ts_id t" "ts_id (with_launch_argv v t) = ts_id t"
  "ts_persisted_agent_session (with_respawn_shell_on_exit t) = ts_persisted_agent_session t"
  "ts_persisted_agent_session (with_launch_argv v t) = ts_persisted_agent_session t"
  "ts_pending_agent_resume_plan (with_respawn_shell_on_exit t) = ts_pending_agent_resume_plan t"
  "ts_pending_agent_resume_plan (with_launch_argv v t) = ts_pending_agent_resume_plan t"
  by (simp_all add: with_respawn_shell_on_exit_def with_launch_argv_def quiet_def)

lemma start_fields_inv [simp]:
  "terminal_inv (with_pending_agent_resume_plan p t) = terminal_inv t"
  "terminal_inv (with_respawn_shell_on_exit t) = terminal_inv t"
  "terminal_inv (with_launch_argv v t) = terminal_inv t"
proof -
  have "arbitration_inputs (with_pending_agent_resume_plan p t) = arbitration_inputs t"
    "arbitration_inputs (with_respawn_shell_on_exit t) = arbitration_inputs t"
    "arbitration_inputs (with_launch_argv v t) = arbitration_inputs t"
    by (simp_all add: arbitration_inputs_def with_pending_agent_resume_plan_def
        with_respawn_shell_on_exit_def with_launch_argv_def)
  note arb = this [THEN arbitration_inputs_determine(1)]
  have wf: "terminal_wf (with_pending_agent_resume_plan p t) = terminal_wf t"
    "terminal_wf (with_respawn_shell_on_exit t) = terminal_wf t"
    "terminal_wf (with_launch_argv v t) = terminal_wf t"
    by (simp_all add: terminal_wf_def with_pending_agent_resume_plan_def
        with_respawn_shell_on_exit_def with_launch_argv_def)
  have st: "ts_state (with_pending_agent_resume_plan p t) = ts_state t"
    "ts_state (with_respawn_shell_on_exit t) = ts_state t"
    "ts_state (with_launch_argv v t) = ts_state t"
    by (simp_all add: with_pending_agent_resume_plan_def with_respawn_shell_on_exit_def
        with_launch_argv_def)
  show "terminal_inv (with_pending_agent_resume_plan p t) = terminal_inv t"
    "terminal_inv (with_respawn_shell_on_exit t) = terminal_inv t"
    "terminal_inv (with_launch_argv v t) = terminal_inv t"
    by (simp_all only: terminal_inv_def arb wf st)
qed

lemma pending_resume_terminal_facts:
  assumes "d = parse_agent_label (rp_agent p)"
  shows "ts_id (pending_resume_terminal i cwd p l s nm mg d now clk) = i"
    and "ts_persisted_agent_session (pending_resume_terminal i cwd p l s nm mg d now clk) = s"
    and "ts_pending_agent_resume_plan (pending_resume_terminal i cwd p l s nm mg d now clk) = Some p"
    and "restored_ok (pending_resume_terminal i cwd p l s nm mg d now clk)"
proof -
  define t where "t = restore_session s (restore_label l
    (with_pending_agent_resume_plan p (ts_new i cwd)))"
  define t' where "t' = (case (nm, mg) of (Some n, Some a) \<Rightarrow> restore_managed_agent n a t
    | (Some _, None) \<Rightarrow> t | (None, _) \<Rightarrow> t)"
  have t': "quiet t'" "terminal_inv t'" "ts_id t' = i" "ts_persisted_agent_session t' = s"
    "ts_pending_agent_resume_plan t' = Some p"
    by (simp_all add: t'_def t_def terminal_new_inv split: option.split)
  have "pending_resume_terminal i cwd p l s nm mg d now clk = restore_detected_agent d now clk t'"
    unfolding pending_resume_terminal_def Let_def t'_def t_def ..
  with t' assms show "ts_id (pending_resume_terminal i cwd p l s nm mg d now clk) = i"
    "ts_persisted_agent_session (pending_resume_terminal i cwd p l s nm mg d now clk) = s"
    "ts_pending_agent_resume_plan (pending_resume_terminal i cwd p l s nm mg d now clk) = Some p"
    "restored_ok (pending_resume_terminal i cwd p l s nm mg d now clk)"
    using restore_detected_keeps [of t' d now clk] by simp_all
qed

lemma running_terminal_facts:
  shows "ts_id (running_terminal i cwd im av l s nm mg d now clk) = i"
    and "ts_persisted_agent_session (running_terminal i cwd im av l s nm mg d now clk) = s"
    and "ts_pending_agent_resume_plan (running_terminal i cwd im av l s nm mg d now clk) = None"
    and "restored_ok (running_terminal i cwd im av l s nm mg d now clk)"
proof -
  define t1 where "t1 = (case av of Some argv \<Rightarrow> if im
      then with_respawn_shell_on_exit (with_launch_argv argv (ts_new i cwd)) else ts_new i cwd
    | None \<Rightarrow> ts_new i cwd)"
  define t where "t = restore_session s (restore_label l t1)"
  define t' where "t' = (case (nm, mg) of
      (Some n, Some a) \<Rightarrow> if im then restore_managed_agent n a t else t
    | (Some n, None) \<Rightarrow> if im then set_agent_name n t else t
    | (None, _) \<Rightarrow> t)"
  have t1: "quiet t1" "terminal_inv t1" "ts_id t1 = i" "ts_persisted_agent_session t1 = None"
    "ts_pending_agent_resume_plan t1 = None"
    by (simp_all add: t1_def terminal_new_inv split: option.split)
  then have t': "quiet t'" "terminal_inv t'" "ts_id t' = i" "ts_persisted_agent_session t' = s"
    "ts_pending_agent_resume_plan t' = None"
    by (simp_all add: t'_def t_def split: option.split)
  have "running_terminal i cwd im av l s nm mg d now clk = restore_detected_agent d now clk t'"
    unfolding running_terminal_def Let_def t'_def t_def t1_def ..
  with t' show "ts_id (running_terminal i cwd im av l s nm mg d now clk) = i"
    "ts_persisted_agent_session (running_terminal i cwd im av l s nm mg d now clk) = s"
    "ts_pending_agent_resume_plan (running_terminal i cwd im av l s nm mg d now clk) = None"
    "restored_ok (running_terminal i cwd im av l s nm mg d now clk)"
    using restore_detected_keeps [of t' d now clk] by simp_all
qed

end
