(* ===== verification/Restore_Panes.thy ===== *)
theory Restore_Panes
  imports Restore_Facts "HOL-Library.Sublist"
begin

text \<open>
  What restoring a pane does to the state and to the panes restored so far, and what the loop over
  the panes of a tab adds up to.
\<close>

section \<open>One pane\<close>

text \<open>The session saved for a pane.\<close>

definition saved_session :: "tab_context \<Rightarrow> pane_id \<Rightarrow> pane_agent_session option" where
  "saved_session ctx i =
     Option.bind (Option.bind (hm_get (tc_old_ids ctx) i) (hm_get (tc_panes ctx))) sn_agent_session"

text \<open>The counters a pane leaves alone.\<close>

definition same_counters :: "'im restore_state \<Rightarrow> 'im restore_state \<Rightarrow> bool" where
  "same_counters st st' \<longleftrightarrow>
     rs_next_pane st' = rs_next_pane st \<and> rs_next_workspace st' = rs_next_workspace st"

definition pane_skipped ::
  "'im restore_state \<Rightarrow> 'rt restored_panes \<Rightarrow> 'im restore_state \<Rightarrow> 'rt restored_panes \<Rightarrow> bool" where
  "pane_skipped st rd st' rd' \<longleftrightarrow>
     same_counters st st' \<and> rs_next_terminal st' = rs_next_terminal st \<and>
     rs_resumed st' = rs_resumed st \<and> rd_panes rd' = rd_panes rd \<and>
     rd_terminals rd' = rd_terminals rd \<and> rd_runtimes rd' = rd_runtimes rd"

text \<open>
  A terminal that waits to resume its agent carries the saved plan and session, and its session was
  not resumed before; every other terminal has a runtime.
\<close>

definition resumes_fresh ::
  "('im, 'rt) restore_env \<Rightarrow> pane_agent_session option \<Rightarrow> string set \<Rightarrow> string set \<Rightarrow> terminal_state \<Rightarrow>
    'rt option \<Rightarrow> bool" where
  "resumes_fresh env session resumed resumed' t rt \<longleftrightarrow>
     (case ts_pending_agent_resume_plan t of
        None \<Rightarrow> rt \<noteq> None
      | Some p \<Rightarrow> rt = None \<and>
          Option.bind session (\<lambda>s. restore_plan_for_snapshot s (re_resume_agents env)) = Some p \<and>
          ts_persisted_agent_session t = Option.bind session persisted_agent_session_from_snapshot \<and>
          rp_dedupe_key p \<notin> resumed \<and> rp_dedupe_key p \<in> resumed')"

definition pane_added ::
  "('im, 'rt) restore_env \<Rightarrow> tab_context \<Rightarrow> pane_id \<Rightarrow> 'im restore_state \<Rightarrow> 'rt restored_panes \<Rightarrow>
    'im restore_state \<Rightarrow> 'rt restored_panes \<Rightarrow> bool" where
  "pane_added env ctx i st rd st' rd' \<longleftrightarrow>
     (\<exists>t rt. restored_ok t \<and>
        (ts_id t, rs_next_terminal st') =
          terminal_id_alloc (re_micros env (rs_next_terminal st)) (rs_next_terminal st) \<and>
        same_counters st st' \<and> rd' = add_pane i t rt rd \<and> rs_resumed st \<subseteq> rs_resumed st' \<and>
        resumes_fresh env (saved_session ctx i) (rs_resumed st) (rs_resumed st') t rt)"

lemma startup_facts:
  assumes "pane_restore_startup session history enabled resumed = (startup, resumed')"
  defines "p \<equiv> Option.bind session (\<lambda>s. restore_plan_for_snapshot s enabled)"
  shows "pu_restore_plan startup = opt_filter (\<lambda>p. rp_dedupe_key p \<notin> resumed) p"
    and "pu_duplicate startup \<longleftrightarrow> is_some_and p (\<lambda>p. rp_dedupe_key p \<in> resumed)"
    and "pu_reserved startup = map_option rp_dedupe_key (pu_restore_plan startup)"
    and "resumed' = resumed \<union> set_option (pu_reserved startup)"
  using assms(1) unfolding p_def
  by (auto simp: pane_restore_startup_def Let_def opt_filter_def is_some_and_def
      split: option.splits if_splits)

lemma alloc_terminal_spec:
  assumes "alloc_terminal env st = (tid, st')"
  shows "(tid, rs_next_terminal st') =
      terminal_id_alloc (re_micros env (rs_next_terminal st)) (rs_next_terminal st)"
    and "same_counters st st'" and "rs_resumed st' = rs_resumed st" and "rs_imports st' = rs_imports st"
  using assms
  by (auto simp: alloc_terminal_def same_counters_def split: prod.splits)

lemma restore_pending_facts:
  assumes "restore_pending_pane env i saved p session st rd = (st', rd')"
  obtains t where "restored_ok t" and "rd' = add_pane i t None rd"
    and "(ts_id t, rs_next_terminal st') =
      terminal_id_alloc (re_micros env (rs_next_terminal st)) (rs_next_terminal st)"
    and "same_counters st st'" and "rs_resumed st' = rs_resumed st"
    and "ts_pending_agent_resume_plan t = Some p" and "ts_persisted_agent_session t = session"
proof -
  obtain tid st2 where al: "alloc_terminal env st = (tid, st2)" by (cases "alloc_terminal env st")
  define t where "t = pending_resume_terminal tid (pane_cwd env saved) p (Option.bind saved sn_label)
    session (Option.bind saved sn_agent_name) (saved_managed_agent saved)
    (parse_agent_label (rp_agent p)) (re_now env i) (re_clk env i)"
  have "st' = st2" and "rd' = add_pane i t None rd"
    using assms by (simp_all add: restore_pending_pane_def al t_def)
  then show ?thesis
    using that [of t] alloc_terminal_spec [OF al]
    by (simp add: t_def pending_resume_terminal_facts)
qed

lemma restore_live_facts:
  assumes "restore_live_pane env ctx i old_id saved imported startup session st rd = (st', rd')"
  shows "(\<exists>t rt. restored_ok t \<and> rd' = add_pane i t (Some rt) rd \<and>
      (ts_id t, rs_next_terminal st') =
        terminal_id_alloc (re_micros env (rs_next_terminal st)) (rs_next_terminal st) \<and>
      same_counters st st' \<and> rs_resumed st' = rs_resumed st \<and>
      ts_pending_agent_resume_plan t = None) \<or>
    (same_counters st st' \<and> rs_next_terminal st' = rs_next_terminal st \<and>
     rs_resumed st' = rs_resumed st - set_option (pu_reserved startup) \<and>
     rd_panes rd' = rd_panes rd \<and> rd_terminals rd' = rd_terminals rd \<and> rd_runtimes rd' = rd_runtimes rd)"
proof (cases "case imported of Some im \<Rightarrow> re_import env i im
    | None \<Rightarrow> re_spawn env i (pane_cwd env saved) (pane_launch_env ctx old_id) (pu_initial_history startup)")
  case None
  with assms show ?thesis
    by (auto simp: restore_live_pane_def same_counters_def split: option.splits)
next
  case (Some rt)
  obtain tid st2 where al: "alloc_terminal env st = (tid, st2)" by (cases "alloc_terminal env st")
  define t where "t = running_terminal tid (pane_cwd env saved) (imported \<noteq> None)
    (Option.bind saved sn_launch_argv) (Option.bind saved sn_label) session
    (Option.bind saved sn_agent_name) (saved_managed_agent saved)
    (Option.bind (pu_restore_plan startup) (\<lambda>p. parse_agent_label (rp_agent p)))
    (re_now env i) (re_clk env i)"
  have "st' = st2" and "rd' = add_pane i t (Some rt) rd"
    using assms Some by (simp_all add: restore_live_pane_def al t_def)
  then show ?thesis
    using alloc_terminal_spec [OF al] by (auto simp: t_def running_terminal_facts intro!: exI [of _ t] exI [of _ rt])
qed

lemma restore_pane_cases:
  assumes "restore_pane env ctx i (st, rd) = (st', rd')"
  shows "pane_skipped st rd st' rd' \<or> pane_added env ctx i st rd st' rd'"
proof -
  define saved where "saved = Option.bind (hm_get (tc_old_ids ctx) i) (hm_get (tc_panes ctx))"
  define session where "session = saved_session ctx i"
  define history where "history = Option.bind (hm_get (tc_old_ids ctx) i)
    (\<lambda>oid. Option.bind (tc_history ctx) (\<lambda>h. hm_get h oid))"
  obtain startup resumed where start:
    "pane_restore_startup session history (re_resume_agents env) (rs_resumed st) = (startup, resumed)"
    by (cases "pane_restore_startup session history (re_resume_agents env) (rs_resumed st)")
  note su = startup_facts [OF start]
  define imported where "imported = Option.bind (hm_get (tc_old_ids ctx) i) (hm_get (rs_imports st))"
  define ims where "ims = (case hm_get (tc_old_ids ctx) i of None \<Rightarrow> rs_imports st
    | Some oid \<Rightarrow> hm_remove oid (rs_imports st))"
  define st1 where "st1 = st\<lparr>rs_resumed := resumed, rs_imports := ims\<rparr>"
  define rs where "rs = restored_terminal_agent_session session (pu_duplicate startup)"
  have st1: "same_counters st st1" "rs_next_terminal st1 = rs_next_terminal st" "rs_resumed st1 = resumed"
    by (simp_all add: st1_def same_counters_def)
  have step: "restore_pane env ctx i (st, rd) =
     (case (imported, pu_restore_plan startup) of
        (None, Some p) \<Rightarrow> restore_pending_pane env i saved p rs st1 rd
      | _ \<Rightarrow> restore_live_pane env ctx i (hm_get (tc_old_ids ctx) i) saved imported startup rs st1 rd)"
    using start
    unfolding restore_pane_def Let_def imported_def ims_def st1_def rs_def saved_def session_def
      saved_session_def history_def
    by simp
  show ?thesis
  proof (cases "imported = None \<and> pu_restore_plan startup \<noteq> None")
    case True
    then obtain p where p: "pu_restore_plan startup = Some p" by blast
    with True assms step have "restore_pending_pane env i saved p rs st1 rd = (st', rd')" by simp
    then obtain t where t: "restored_ok t" "rd' = add_pane i t None rd"
      "(ts_id t, rs_next_terminal st') =
        terminal_id_alloc (re_micros env (rs_next_terminal st1)) (rs_next_terminal st1)"
      "same_counters st1 st'" "rs_resumed st' = rs_resumed st1"
      "ts_pending_agent_resume_plan t = Some p" "ts_persisted_agent_session t = rs"
      by (rule restore_pending_facts)
    from p have plan:
      "Option.bind session (\<lambda>s. restore_plan_for_snapshot s (re_resume_agents env)) = Some p"
      and fresh1: "rp_dedupe_key p \<notin> rs_resumed st"
      unfolding su(1) opt_filter_Some_iff by blast+
    have "\<not> pu_duplicate startup" unfolding su(2) plan using fresh1 by simp
    moreover have "resumed = rs_resumed st \<union> {rp_dedupe_key p}" using su(3,4) p by simp
    ultimately have fresh: "rp_dedupe_key p \<notin> rs_resumed st" "rp_dedupe_key p \<in> resumed"
      "rs_resumed st \<subseteq> resumed" "\<not> pu_duplicate startup" using fresh1 by auto
    note fresh = fresh plan
    have "pane_added env ctx i st rd st' rd'"
      unfolding pane_added_def
      using t fresh st1
      by (intro exI [of _ t] exI [of _ None])
        (auto simp: resumes_fresh_def session_def [symmetric] rs_def restored_terminal_agent_session_def
          same_counters_def)
    then show ?thesis by blast
  next
    case False
    with assms step have live: "restore_live_pane env ctx i (hm_get (tc_old_ids ctx) i) saved imported
        startup rs st1 rd = (st', rd')"
      by (auto split: option.splits)
    have "set_option (pu_reserved startup) \<inter> rs_resumed st = {}"
      by (auto simp: su(3) su(1) opt_filter_Some_iff)
    then have "resumed - set_option (pu_reserved startup) = rs_resumed st"
      using su(4) by auto
    moreover have "rs_resumed st \<subseteq> resumed" using su(4) by simp
    ultimately have old: "rs_resumed st1 - set_option (pu_reserved startup) = rs_resumed st"
      "rs_resumed st \<subseteq> rs_resumed st1" using st1 by simp_all
    from restore_live_facts [OF live] show ?thesis
    proof (elim disjE exE conjE)
      fix t rt
      assume t: "restored_ok t" "rd' = add_pane i t (Some rt) rd"
        "(ts_id t, rs_next_terminal st') =
          terminal_id_alloc (re_micros env (rs_next_terminal st1)) (rs_next_terminal st1)"
        "same_counters st1 st'" "rs_resumed st' = rs_resumed st1"
        "ts_pending_agent_resume_plan t = None"
      have "resumes_fresh env (saved_session ctx i) (rs_resumed st) (rs_resumed st') t (Some rt)"
        using t(6) by (simp add: resumes_fresh_def)
      moreover have "same_counters st st'" using t(4) st1(1) by (simp add: same_counters_def)
      ultimately have "pane_added env ctx i st rd st' rd'"
        unfolding pane_added_def using t old st1(2)
        by (intro exI [of _ t] exI [of _ "Some rt"] conjI) simp_all
      then show ?thesis ..
    next
      assume "same_counters st1 st'" "rs_next_terminal st' = rs_next_terminal st1"
        "rs_resumed st' = rs_resumed st1 - set_option (pu_reserved startup)"
        "rd_panes rd' = rd_panes rd" "rd_terminals rd' = rd_terminals rd"
        "rd_runtimes rd' = rd_runtimes rd"
      with old st1 have "pane_skipped st rd st' rd'"
        by (simp add: pane_skipped_def same_counters_def)
      then show ?thesis ..
    qed
  qed
qed

section \<open>The panes of a tab\<close>

definition pending_keys :: "terminal_state list \<Rightarrow> string list" where
  "pending_keys ts = List.map_filter (\<lambda>t. map_option rp_dedupe_key (ts_pending_agent_resume_plan t)) ts"

lemma pending_keys_simps [simp]:
  "pending_keys [] = []"
  "pending_keys (xs @ ys) = pending_keys xs @ pending_keys ys"
  "pending_keys [t] = (case ts_pending_agent_resume_plan t of None \<Rightarrow> [] | Some p \<Rightarrow> [rp_dedupe_key p])"
  by (simp_all add: pending_keys_def map_filter_def split: option.split)

definition term_ids :: "('im, 'rt) restore_env \<Rightarrow> usize \<Rightarrow> nat \<Rightarrow> string list" where
  "term_ids env n k =
     map (\<lambda>j. fst (terminal_id_alloc (re_micros env (usize_add n j)) (usize_add n j))) [0..<k]"

lemma usize_add_le [simp]: "usize_add a b \<le> usize_max"
proof -
  have "(a + b) mod 2 ^ 64 < 2 ^ 64" by simp
  then show ?thesis by (simp add: usize_add_def usize_max_def)
qed

lemma usize_add_assoc: "usize_add (usize_add n j) k = usize_add n (j + k)"
  by (simp add: usize_add_def mod_simps add.assoc)

lemma usize_add_0: "n \<le> usize_max \<Longrightarrow> usize_add n 0 = n"
  by (simp add: usize_add_no_wrap)

lemma term_ids_add: "term_ids env n (j + k) = term_ids env n j @ term_ids env (usize_add n j) k"
  by (induction k) (simp_all add: term_ids_def usize_add_assoc)

text \<open>
  What restoring a part of a session that holds \<open>k\<close> panes does: the panes \<open>ids\<close> and terminals \<open>ts\<close>
  are restored, with fresh ids, and no resumed session is resumed again.
\<close>

definition progress ::
  "('im, 'rt) restore_env \<Rightarrow> nat \<Rightarrow> 'im restore_state \<Rightarrow> pane_id list \<Rightarrow> terminal_state list \<Rightarrow>
    'im restore_state \<Rightarrow> bool" where
  "progress env k st ids ts st' \<longleftrightarrow>
     length ids = length ts \<and> (\<forall>t \<in> set ts. restored_ok t) \<and>
     subseq ids (fresh_ids (rs_next_pane st) k) \<and>
     rs_next_pane st' = rs_next_pane st + word_of_nat k \<and>
     map ts_id ts = term_ids env (rs_next_terminal st) (length ts) \<and>
     rs_next_terminal st' = usize_add (rs_next_terminal st) (length ts) \<and>
     distinct (pending_keys ts) \<and> set (pending_keys ts) \<subseteq> rs_resumed st' - rs_resumed st \<and>
     rs_resumed st \<subseteq> rs_resumed st'"

lemma progress_refl: "rs_next_terminal st \<le> usize_max \<Longrightarrow> progress env 0 st [] [] st"
  by (simp add: progress_def term_ids_def usize_add_0 fresh_ids_def)

lemma progress_trans:
  assumes "progress env j st ids ts st'" and "progress env k st' ids' ts' st''"
  shows "progress env (j + k) st (ids @ ids') (ts @ ts') st''"
  using assms
  by (auto simp: progress_def term_ids_add fresh_ids_add usize_add_assoc list_emb_append_mono)

lemma progress_terminal: "progress env k st ids ts st' \<Longrightarrow> rs_next_terminal st' \<le> usize_max"
  by (simp add: progress_def)

text \<open>The panes restored so far are the ones of \<open>ids\<close>, in order, attached to the terminals \<open>ts\<close>.\<close>

definition panes_of :: "pane_id list \<Rightarrow> terminal_state list \<Rightarrow> (pane_id, pane_state) hashmap" where
  "panes_of ids ts = zip ids (map (\<lambda>t. pane_state_new (ts_id t)) ts)"

lemma panes_of_append:
  "length ids = length ts \<Longrightarrow> i \<notin> set ids \<Longrightarrow>
     hm_insert i (pane_state_new (ts_id t)) (panes_of ids ts) = panes_of (ids @ [i]) (ts @ [t])"
  by (subst hm_insert_new) (auto simp: panes_of_def set_zip)

lemma hm_keys_panes_of [simp]: "length ids = length ts \<Longrightarrow> hm_keys (panes_of ids ts) = ids"
  by (simp add: panes_of_def hm_keys_def)

text \<open>What a part of the loop over the panes does: \<open>new\<close> panes with the terminals \<open>ts\<close> are added.\<close>

definition loop_ok ::
  "('im, 'rt) restore_env \<Rightarrow> 'im restore_state \<Rightarrow> 'rt restored_panes \<Rightarrow> pane_id list \<Rightarrow>
    terminal_state list \<Rightarrow> 'im restore_state \<Rightarrow> 'rt restored_panes \<Rightarrow> bool" where
  "loop_ok env st rd new ts st' rd' \<longleftrightarrow>
     length new = length ts \<and> rd_terminals rd' = rd_terminals rd @ ts \<and>
     rd_panes rd' = rd_panes rd @ panes_of new ts \<and> (\<forall>t \<in> set ts. restored_ok t) \<and>
     same_counters st st' \<and>
     map ts_id ts = term_ids env (rs_next_terminal st) (length ts) \<and>
     rs_next_terminal st' = usize_add (rs_next_terminal st) (length ts) \<and>
     distinct (pending_keys ts) \<and> set (pending_keys ts) \<subseteq> rs_resumed st' - rs_resumed st \<and>
     rs_resumed st \<subseteq> rs_resumed st'"

lemma loop_ok_trans:
  assumes "loop_ok env st rd xs ts st1 rd1" and "loop_ok env st1 rd1 ys us st2 rd2"
  shows "loop_ok env st rd (xs @ ys) (ts @ us) st2 rd2"
  using assms
  by (auto simp: loop_ok_def same_counters_def term_ids_add usize_add_assoc panes_of_def)

lemma loop_ok_skipped:
  "pane_skipped st rd st' rd' \<Longrightarrow> rs_next_terminal st \<le> usize_max \<Longrightarrow> loop_ok env st rd [] [] st' rd'"
  by (simp add: loop_ok_def pane_skipped_def term_ids_def usize_add_0 panes_of_def)

lemma loop_ok_added:
  assumes added: "pane_added env ctx i st rd st' rd'"
    and new: "i \<notin> set (hm_keys (rd_panes rd))" and "rs_next_terminal st \<le> usize_max"
  shows "\<exists>t. loop_ok env st rd [i] [t] st' rd'"
proof -
  from added obtain t rt where t: "restored_ok t"
    "(ts_id t, rs_next_terminal st') =
      terminal_id_alloc (re_micros env (rs_next_terminal st)) (rs_next_terminal st)"
    "same_counters st st'" "rd' = add_pane i t rt rd" "rs_resumed st \<subseteq> rs_resumed st'"
    "resumes_fresh env (saved_session ctx i) (rs_resumed st) (rs_resumed st') t rt"
    unfolding pane_added_def by blast
  have "rd_panes rd' = rd_panes rd @ panes_of [i] [t]"
    using new by (simp add: t(4) add_pane_def panes_of_def hm_insert_new hm_keys_def)
  moreover have "map ts_id [t] = term_ids env (rs_next_terminal st) 1"
    and "rs_next_terminal st' = usize_add (rs_next_terminal st) 1"
    using t(2) assms(3) by (simp_all add: terminal_id_alloc_def term_ids_def usize_add_0)
  moreover have "set (pending_keys [t]) \<subseteq> rs_resumed st' - rs_resumed st"
    and "distinct (pending_keys [t])"
    using t(6) by (auto simp: resumes_fresh_def split: option.splits)
  ultimately have "loop_ok env st rd [i] [t] st' rd'"
    using t(1,3,4,5) by (simp add: loop_ok_def add_pane_def)
  then show ?thesis ..
qed

lemma restore_panes_fold:
  assumes "fold (restore_pane env ctx) ids (st, rd) = (st', rd')"
    and "distinct ids" and "set ids \<inter> set (hm_keys (rd_panes rd)) = {}"
    and "rs_next_terminal st \<le> usize_max"
  shows "\<exists>new ts. subseq new ids \<and> loop_ok env st rd new ts st' rd'"
  using assms
proof (induction ids arbitrary: st rd)
  case Nil
  then show ?case
    by (auto intro!: exI [of _ "[]"] loop_ok_skipped simp: pane_skipped_def same_counters_def)
next
  case (Cons i ids)
  obtain st1 rd1 where step: "restore_pane env ctx i (st, rd) = (st1, rd1)"
    by (cases "restore_pane env ctx i (st, rd)")
  with Cons.prems(1) have rest: "fold (restore_pane env ctx) ids (st1, rd1) = (st', rd')" by simp
  have "i \<notin> set (hm_keys (rd_panes rd))" using Cons.prems(3) by simp
  with restore_pane_cases [OF step] Cons.prems(4) obtain new1 ts1
    where one: "loop_ok env st rd new1 ts1 st1 rd1" and new1: "subseq new1 [i]"
    using loop_ok_added loop_ok_skipped by (metis list_emb_Nil subseq_order.refl)
  have "set (hm_keys (rd_panes rd1)) \<subseteq> insert i (set (hm_keys (rd_panes rd)))"
    using one by (auto simp: loop_ok_def dest: list_emb_set [OF new1])
  with Cons.prems have "distinct ids" "set ids \<inter> set (hm_keys (rd_panes rd1)) = {}"
    "rs_next_terminal st1 \<le> usize_max"
    using one by (auto simp: loop_ok_def)
  from Cons.IH [OF rest this] obtain new ts
    where "subseq new ids" "loop_ok env st1 rd1 new ts st' rd'" by blast
  then have "loop_ok env st rd (new1 @ new) (ts1 @ ts) st' rd'" "subseq (new1 @ new) ([i] @ ids)"
    using loop_ok_trans [OF one] new1 list_emb_append_mono by blast+
  then show ?case by auto
qed

end
