(* ===== verification/Restore_Sessions.thy ===== *)
theory Restore_Sessions
  imports Restore_Panes
begin

text \<open>
  Restored tabs, workspaces and sessions: what a restored tab looks like, and that the fresh ids
  and the set of resumed sessions are threaded through the whole session.
\<close>

section \<open>Tabs\<close>

text \<open>
  A restored tab: its panes are those of its layout, each attached to its own terminal; the focused
  pane and the root pane are among them.
\<close>

definition tab_ok :: "tab_snapshot \<Rightarrow> tab \<Rightarrow> terminal_state list \<Rightarrow> bool" where
  "tab_ok snap tb ts \<longleftrightarrow>
     length (tl_pane_ids (tb_layout tb)) = length ts \<and>
     tb_panes tb = panes_of (tl_pane_ids (tb_layout tb)) ts \<and>
     tb_root_pane tb \<in> set (tl_pane_ids (tb_layout tb)) \<and>
     tl_focus (tb_layout tb) \<in> set (tl_pane_ids (tb_layout tb)) \<and>
     tl_prev_focus (tb_layout tb) = None \<and>
     (snapshot_ratios_ok (st_layout snap) \<longrightarrow> ratios_ok (tl_root (tb_layout tb)))"

lemma tab_ok_number [simp]: "tab_ok snap (tb\<lparr>tb_number := n\<rparr>) ts = tab_ok snap tb ts"
  by (simp add: tab_ok_def)

lemma tab_ok_layout_wf:
  "tab_ok snap tb ts \<Longrightarrow> snapshot_ratios_ok (st_layout snap) \<Longrightarrow> distinct (tl_pane_ids (tb_layout tb)) \<Longrightarrow>
     layout_wf (tb_layout tb)"
  by (simp add: tab_ok_def layout_wf_def)

lemma subseq_filter_set: "subseq xs ys \<Longrightarrow> distinct ys \<Longrightarrow> filter (\<lambda>x. x \<in> set xs) ys = xs"
proof (induction rule: list_emb.induct)
  case (list_emb_Nil ys)
  then show ?case by simp
next
  case (list_emb_Cons xs ys y)
  then have "y \<notin> set xs" using list_emb_set [OF list_emb_Cons.hyps] by force
  with list_emb_Cons show ?case by simp
next
  case (list_emb_Cons2 x y xs ys)
  then have "filter (\<lambda>z. z = y \<or> z \<in> set xs) ys = filter (\<lambda>z. z \<in> set xs) ys"
    by (intro filter_cong) auto
  with list_emb_Cons2 show ?case by simp
qed

lemma resolve_surviving:
  "resolve_restored_pane o' m (set ids) ids = Some i \<Longrightarrow> i \<in> set ids"
  by (auto simp: resolve_restored_pane_def or_else_def opt_filter_def
      split: option.splits list.splits if_splits)

lemma resolve_some: "ids \<noteq> [] \<Longrightarrow> resolve_restored_pane o' m surv ids \<noteq> None"
  by (cases ids) (auto simp: resolve_restored_pane_def)

lemma finish_tab_spec:
  assumes panes: "rd_panes rd = panes_of new ts" "length new = length ts" "rd_terminals rd = ts"
    and sub: "subseq new (collect_ids n)" and dist: "distinct (collect_ids n)"
    and rat: "ratios_ok n = snapshot_ratios_ok (st_layout snap)"
  shows "case finish_tab snap num n m rd of
      None \<Rightarrow> new = []
    | Some r \<Rightarrow> tab_ok snap (rt_tab r) ts \<and> rt_terminals r = ts \<and>
        tl_pane_ids (tb_layout (rt_tab r)) = new \<and> rt_old_ids r = reverse_id_map m"
proof (cases "new = []")
  case True
  with panes show ?thesis by (simp add: finish_tab_def panes_of_def)
next
  case False
  have kept: "filter (\<lambda>i. i \<in> set new) (collect_ids n) = new" using sub dist by (rule subseq_filter_set)
  with False obtain n' where n': "prune_restored_node n (set new) = Some n'"
    using prune_spec [where n = n and S = "set new"] by (auto split: option.splits)
  have ids: "collect_ids n' = new" using prune_ids [OF n'] kept by simp
  from False obtain foc root where
    r: "resolve_restored_pane (st_focused snap) m (set new) new = Some foc"
      "resolve_restored_pane (st_root_pane snap) m (set new) new = Some root"
    using resolve_some by (metis option.exhaust)
  have "rd_panes rd \<noteq> []" using False panes by (auto simp: panes_of_def zip_eq_Nil_iff)
  with panes have "finish_tab snap num n m rd =
    Some \<lparr>rt_tab = \<lparr>tb_custom_name = st_custom_name snap, tb_number = num, tb_root_pane = root,
        tb_layout = from_saved n' foc, tb_panes = panes_of new ts, tb_zoomed = st_zoomed snap\<rparr>,
      rt_terminals = ts, rt_runtimes = rd_runtimes rd, rt_old_ids = reverse_id_map m\<rparr>"
    by (simp add: finish_tab_def Let_def n' ids r)
  with r [THEN resolve_surviving] panes(2) ids rat prune_ratios [OF n'] show ?thesis
    by (simp add: tab_ok_def from_saved_def tl_pane_ids_def)
qed

definition tab_panes :: "tab_snapshot \<Rightarrow> nat" where
  "tab_panes snap = length (snapshot_ids (st_layout snap))"

lemma restore_tab_progress:
  fixes env :: "('im, 'rt) restore_env"
  assumes res: "restore_tab env snap hist num ws pub st = ((res, failed), st')"
    and tmax: "rs_next_terminal st \<le> usize_max"
    and room: "unat (rs_next_pane st) + tab_panes snap \<le> 2 ^ 32"
  shows "case res of
      None \<Rightarrow> progress env (tab_panes snap) st [] [] st'
    | Some r \<Rightarrow> tab_ok snap (rt_tab r) (rt_terminals r) \<and>
        progress env (tab_panes snap) st (tl_pane_ids (tb_layout (rt_tab r))) (rt_terminals r) st' \<and>
        (\<exists>n nxt m. restore_node_remapped (st_layout snap) (rs_next_pane st) = (n, nxt, m) \<and>
           rt_old_ids r = reverse_id_map m)"
proof -
  obtain n nxt m where map: "restore_node_remapped (st_layout snap) (rs_next_pane st) = (n, nxt, m)"
    by (cases "restore_node_remapped (st_layout snap) (rs_next_pane st)")
  note rm = remap_inner_eq [OF map [unfolded restore_node_remapped_def]]
  define ctx where "ctx = \<lparr>tc_panes = st_panes snap, tc_history = hist, tc_number = num,
    tc_workspace_id = ws, tc_old_ids = reverse_id_map m, tc_public_ids = pub\<rparr>"
  define st0 where "st0 = st\<lparr>rs_next_pane := nxt\<rparr>"
  define rd0 :: "'rt restored_panes"
    where "rd0 = \<lparr>rd_panes = [], rd_terminals = [], rd_runtimes = [], rd_failed_imports = 0\<rparr>"
  obtain st1 rd where loop: "fold (restore_pane env ctx) (collect_ids n) (st0, rd0) = (st1, rd)"
    by (cases "fold (restore_pane env ctx) (collect_ids n) (st0, rd0)")
  have out: "res = finish_tab snap num n m rd" "st' = st1"
    using res loop by (simp_all add: restore_tab_def map Let_def ctx_def st0_def rd0_def)
  have dist: "distinct (collect_ids n)"
    using rm room distinct_fresh_ids by (auto simp: tab_panes_def)
  from restore_panes_fold [OF loop dist] tmax obtain new ts
    where sub: "subseq new (collect_ids n)" and ok: "loop_ok env st0 rd0 new ts st1 rd"
    by (auto simp: st0_def rd0_def)
  have panes: "rd_panes rd = panes_of new ts" "length new = length ts" "rd_terminals rd = ts"
    using ok by (simp_all add: loop_ok_def rd0_def)
  have prog: "progress env (tab_panes snap) st new ts st'"
    using ok rm sub by (simp add: progress_def loop_ok_def same_counters_def st0_def out tab_panes_def)
  from finish_tab_spec [OF panes sub dist, where snap = snap and num = num and m = m] rm prog map show ?thesis
    using panes(2) by (auto simp: out split: option.splits)
qed

section \<open>Workspaces\<close>

abbreviation tabs_ids :: "tab list \<Rightarrow> pane_id list" where
  "tabs_ids tbs \<equiv> concat (map (\<lambda>tb. tl_pane_ids (tb_layout tb)) tbs)"

lemma panes_of_Nil [simp]: "panes_of [] [] = []"
  by (simp add: panes_of_def)

lemma panes_of_app:
  "length xs = length ts \<Longrightarrow> panes_of (xs @ ys) (ts @ us) = panes_of xs ts @ panes_of ys us"
  by (simp add: panes_of_def)

text \<open>The panes of the tabs, in order, are attached to the terminals \<open>ts\<close>, in order.\<close>

definition tabs_ok :: "tab_snapshot list \<Rightarrow> tab list \<Rightarrow> terminal_state list \<Rightarrow> bool" where
  "tabs_ok snaps tbs ts \<longleftrightarrow>
     (\<forall>tb \<in> set tbs. \<exists>snap \<in> set snaps. \<exists>us. tab_ok snap tb us) \<and>
     length (tabs_ids tbs) = length ts \<and> concat (map tb_panes tbs) = panes_of (tabs_ids tbs) ts"

lemma tabs_ok_Nil [simp]: "tabs_ok snaps [] []"
  by (simp add: tabs_ok_def)

lemma tabs_ok_append:
  "tabs_ok snaps tbs ts \<Longrightarrow> tabs_ok snaps' tbs' ts' \<Longrightarrow> tabs_ok (snaps @ snaps') (tbs @ tbs') (ts @ ts')"
  unfolding tabs_ok_def by (simp add: panes_of_app ball_Un bex_Un)

lemmas tabs_ok_Cons = tabs_ok_append [of "[snap]" for snap, simplified append_Cons append_Nil]

definition snapshot_panes :: "tab_snapshot list \<Rightarrow> nat" where
  "snapshot_panes snaps = sum_list (map tab_panes snaps)"

lemma snapshot_panes_simps [simp]:
  "snapshot_panes [] = 0" "snapshot_panes (s # ss) = tab_panes s + snapshot_panes ss"
  "snapshot_panes (xs @ ys) = snapshot_panes xs + snapshot_panes ys"
  by (simp_all add: snapshot_panes_def)

lemma progress_next_pane:
  assumes "progress env k st ids ts st'" and "unat (rs_next_pane st) + k + j \<le> 2 ^ 32"
  shows "unat (rs_next_pane st') + j \<le> 2 ^ 32"
proof (cases "j = 0")
  case True
  have "unat (rs_next_pane st') < 2 ^ LENGTH(32)" by (rule unsigned_less)
  with True show ?thesis by simp
next
  case False
  then have "unat (rs_next_pane st + word_of_nat k) = unat (rs_next_pane st) + k"
    using assms(2) by (intro unat_fresh [where k = "Suc k"]) simp_all
  with assms show ?thesis by (simp add: progress_def)
qed

lemma tab_panes_pos: "0 < tab_panes snap"
  by (simp add: tab_panes_def)

lemma restore_numbered_tab_progress:
  assumes step: "restore_numbered_tab env sw hist ws by_old pub (idx, snap) (wb, st) = (wb', st')"
    and tmax: "rs_next_terminal st \<le> usize_max"
    and room: "unat (rs_next_pane st) + tab_panes snap \<le> 2 ^ 32"
  shows "\<exists>tbs ts. wb_tabs wb' = wb_tabs wb @ tbs \<and> wb_terminals wb' = wb_terminals wb @ ts \<and>
     progress env (tab_panes snap) st (tabs_ids tbs) ts st' \<and> tabs_ok [snap] tbs ts"
proof -
  define h where "h = Option.bind hist (\<lambda>h. nth_opt h idx)"
  define num where "num = unwrap_or (nth_opt (sw_public_tab_numbers sw) idx) (usize_add idx 1)"
  obtain res failed st1 where tab: "restore_tab env snap h num ws pub st = ((res, failed), st1)"
    by (cases "restore_tab env snap h num ws pub st") auto
  note spec = restore_tab_progress [OF tab tmax room]
  show ?thesis
  proof (cases res)
    case None
    with step tab spec show ?thesis
      by (auto simp: restore_numbered_tab_def h_def num_def Let_def intro!: exI [of _ "[]"])
  next
    case (Some r)
    define tb where "tb = (case nth_opt (sw_public_tab_numbers sw) idx of None \<Rightarrow> rt_tab r
      | Some n \<Rightarrow> (rt_tab r)\<lparr>tb_number := n\<rparr>)"
    have lay: "tb_layout tb = tb_layout (rt_tab r)" by (simp add: tb_def split: option.split)
    from step tab Some have "wb_tabs wb' = wb_tabs wb @ [tb]"
      "wb_terminals wb' = wb_terminals wb @ rt_terminals r" "st' = st1"
      by (auto simp: restore_numbered_tab_def h_def num_def Let_def add_tab_def tb_def
          split: prod.splits)
    moreover have "tabs_ok [snap] [tb] (rt_terminals r)"
      using spec Some by (auto simp: tabs_ok_def tb_def tab_ok_def split: option.splits)
    ultimately show ?thesis
      using spec Some lay
      by (intro exI [of _ "[tb]"] exI [of _ "rt_terminals r"]) auto
  qed
qed

lemma restore_tabs_progress:
  assumes "fold (restore_numbered_tab env sw hist ws by_old pub) itabs (wb, st) = (wb', st')"
    and "rs_next_terminal st \<le> usize_max"
    and "unat (rs_next_pane st) + snapshot_panes (map snd itabs) \<le> 2 ^ 32"
  shows "\<exists>tbs ts. wb_tabs wb' = wb_tabs wb @ tbs \<and> wb_terminals wb' = wb_terminals wb @ ts \<and>
     progress env (snapshot_panes (map snd itabs)) st (tabs_ids tbs) ts st' \<and>
     tabs_ok (map snd itabs) tbs ts"
  using assms
proof (induction itabs arbitrary: wb st)
  case Nil
  then show ?case by (auto intro!: exI [of _ "[]"] progress_refl)
next
  case (Cons it itabs)
  obtain idx snap where it: "it = (idx, snap)" by (cases it)
  obtain wb1 st1 where step: "restore_numbered_tab env sw hist ws by_old pub (idx, snap) (wb, st) = (wb1, st1)"
    by (cases "restore_numbered_tab env sw hist ws by_old pub (idx, snap) (wb, st)")
  have rest: "fold (restore_numbered_tab env sw hist ws by_old pub) itabs (wb1, st1) = (wb', st')"
    using Cons.prems(1) step it by simp
  have "unat (rs_next_pane st) + tab_panes snap \<le> 2 ^ 32" using Cons.prems(3) it by simp
  from restore_numbered_tab_progress [OF step Cons.prems(2) this] obtain tbs1 ts1
    where one: "wb_tabs wb1 = wb_tabs wb @ tbs1" "wb_terminals wb1 = wb_terminals wb @ ts1"
      "progress env (tab_panes snap) st (tabs_ids tbs1) ts1 st1" "tabs_ok [snap] tbs1 ts1" by blast
  have "unat (rs_next_pane st1) + snapshot_panes (map snd itabs) \<le> 2 ^ 32"
    using progress_next_pane [OF one(3)] Cons.prems(3) it by simp
  from Cons.IH [OF rest progress_terminal [OF one(3)] this] obtain tbs ts
    where "wb_tabs wb' = wb_tabs wb1 @ tbs" "wb_terminals wb' = wb_terminals wb1 @ ts"
      "progress env (snapshot_panes (map snd itabs)) st1 (tabs_ids tbs) ts st'"
      "tabs_ok (map snd itabs) tbs ts" by blast
  with one it show ?case
    using progress_trans [OF one(3)] tabs_ok_Cons [OF one(4)]
    by (intro exI [of _ "tbs1 @ tbs"] exI [of _ "ts1 @ ts"]) auto
qed

lemma progress_only_counters:
  "progress env k (st\<lparr>rs_next_workspace := c\<rparr>) ids ts st' = progress env k st ids ts st'"
  "progress env k st ids ts (st'\<lparr>rs_next_workspace := c\<rparr>) = progress env k st ids ts st'"
  by (simp_all add: progress_def)

definition workspace_ok :: "workspace_snapshot \<Rightarrow> workspace \<Rightarrow> terminal_state list \<Rightarrow> bool" where
  "workspace_ok sw ws ts \<longleftrightarrow>
     tabs_ok (sw_tabs sw) (ws_tabs ws) ts \<and> ws_active_tab ws < length (ws_tabs ws)"

abbreviation workspace_ids :: "workspace \<Rightarrow> pane_id list" where
  "workspace_ids ws \<equiv> tabs_ids (ws_tabs ws)"

definition workspace_panes :: "workspace_snapshot \<Rightarrow> nat" where
  "workspace_panes sw = snapshot_panes (sw_tabs sw)"

lemma progress_no_panes: "progress env k st [] ts st' \<Longrightarrow> ts = []"
  by (simp add: progress_def)

lemma restore_workspace_progress:
  fixes env :: "('im, 'rt) restore_env"
  assumes res: "restore_workspace env sw hist st = ((res, failed), st')"
    and tmax: "rs_next_terminal st \<le> usize_max"
    and room: "unat (rs_next_pane st) + workspace_panes sw \<le> 2 ^ 32"
  shows "case res of
      None \<Rightarrow> progress env (workspace_panes sw) st [] [] st'
    | Some r \<Rightarrow> workspace_ok sw (rw_workspace r) (rw_terminals r) \<and>
        progress env (workspace_panes sw) st (workspace_ids (rw_workspace r)) (rw_terminals r) st'"
proof -
  obtain wid st0 where w: "(case sw_id sw of Some i \<Rightarrow> (i, st)
      | None \<Rightarrow> let (i, c) = generate_workspace_id (rs_next_workspace st)
                in (i, st\<lparr>rs_next_workspace := c\<rparr>)) = (wid, st0)"
    by (cases "case sw_id sw of Some i \<Rightarrow> (i, st)
      | None \<Rightarrow> let (i, c) = generate_workspace_id (rs_next_workspace st)
                in (i, st\<lparr>rs_next_workspace := c\<rparr>)")
  then obtain c where st0: "st0 = st\<lparr>rs_next_workspace := c\<rparr>"
    by (cases "sw_id sw") (auto split: prod.splits intro: that [of "rs_next_workspace st"])
  obtain by_old next_pane where mig: "migrated_public_pane_numbers_by_old_raw sw
      (next_public_number (hm_values (sw_public_pane_numbers sw)) (sw_next_public_pane_number sw))
      = (by_old, next_pane)" by fastforce
  define wb0 :: "'rt workspace_build" where "wb0 = \<lparr>wb_tabs = [], wb_terminals = [], wb_runtimes = [],
    wb_numbers = [], wb_next_pane = next_pane,
    wb_next_tab = next_public_number (sw_public_tab_numbers sw) (sw_next_public_tab_number sw),
    wb_failed_imports = 0\<rparr>"
  define pub where "pub = hm_map_values (\<lambda>_ n. public_pane_id_for_number wid n) by_old"
  obtain wb st1 where loop: "fold (restore_numbered_tab env sw hist wid by_old pub)
      (enumerate 0 (sw_tabs sw)) (wb0, st0) = (wb, st1)" by fastforce
  have out: "res = built_workspace env sw wid wb" "st' = st1"
    using res loop w mig by (auto simp: restore_workspace_def Let_def wb0_def pub_def)
  have "unat (rs_next_pane st0) + snapshot_panes (map snd (enumerate 0 (sw_tabs sw))) \<le> 2 ^ 32"
    "rs_next_terminal st0 \<le> usize_max"
    using room tmax by (simp_all add: st0 workspace_panes_def)
  from restore_tabs_progress [OF loop this(2,1)] obtain tbs ts
    where t: "wb_tabs wb = tbs" "wb_terminals wb = ts"
      "progress env (workspace_panes sw) st (tabs_ids tbs) ts st'" "tabs_ok (sw_tabs sw) tbs ts"
    by (auto simp: wb0_def st0 out progress_only_counters workspace_panes_def)
  show ?thesis
  proof (cases "tbs = []")
    case True
    with t(3) have pr: "progress env (workspace_panes sw) st [] ts st'" by simp
    then have "ts = []" by (rule progress_no_panes)
    with pr True t(1) show ?thesis by (simp add: out built_workspace_def)
  next
    case False
    then have "min (sw_active_tab sw) (length tbs - 1) < length tbs" by (cases tbs) auto
    with False t show ?thesis by (simp add: out built_workspace_def Let_def workspace_ok_def)
  qed
qed

section \<open>Sessions\<close>

definition session_panes :: "workspace_snapshot list \<Rightarrow> nat" where
  "session_panes snaps = sum_list (map workspace_panes snaps)"

abbreviation session_ids :: "workspace list \<Rightarrow> pane_id list" where
  "session_ids wss \<equiv> concat (map workspace_ids wss)"

abbreviation session_tab_panes :: "workspace list \<Rightarrow> (pane_id, pane_state) hashmap" where
  "session_tab_panes wss \<equiv> concat (map (\<lambda>ws. concat (map tb_panes (ws_tabs ws))) wss)"

definition workspaces_ok :: "workspace_snapshot list \<Rightarrow> workspace list \<Rightarrow> terminal_state list \<Rightarrow> bool" where
  "workspaces_ok snaps wss ts \<longleftrightarrow>
     (\<forall>ws \<in> set wss. \<exists>sw \<in> set snaps. \<exists>us. workspace_ok sw ws us) \<and>
     length (session_ids wss) = length ts \<and> session_tab_panes wss = panes_of (session_ids wss) ts"

lemma workspaces_ok_append:
  "workspaces_ok snaps wss ts \<Longrightarrow> workspaces_ok snaps' wss' ts' \<Longrightarrow>
     workspaces_ok (snaps @ snaps') (wss @ wss') (ts @ ts')"
  unfolding workspaces_ok_def by (simp add: panes_of_app ball_Un bex_Un)

lemmas workspaces_ok_Cons =
  workspaces_ok_append [of "[sw]" for sw, simplified append_Cons append_Nil]

lemma workspaces_ok_single: "workspace_ok sw ws ts \<Longrightarrow> workspaces_ok [sw] [ws] ts"
  by (auto simp: workspaces_ok_def workspace_ok_def tabs_ok_def)

text \<open>What restoring workspaces adds to the restored session.\<close>

definition session_extends ::
  "'rt restored_session \<Rightarrow> workspace list \<Rightarrow> terminal_state list \<Rightarrow> 'rt restored_session \<Rightarrow> bool" where
  "session_extends acc wss ts acc' \<longleftrightarrow>
     rx_workspaces acc' = rx_workspaces acc @ wss \<and>
     rx_terminals acc' = fold (\<lambda>t. hm_insert (ts_id t) t) ts (rx_terminals acc)"

lemma restore_numbered_workspace_progress:
  assumes step: "restore_numbered_workspace env hist (idx, sw) ((acc, f), st) = ((acc', f'), st')"
    and "rs_next_terminal st \<le> usize_max"
    and "unat (rs_next_pane st) + workspace_panes sw \<le> 2 ^ 32"
  shows "\<exists>wss ts. session_extends acc wss ts acc' \<and>
     progress env (workspace_panes sw) st (session_ids wss) ts st' \<and> workspaces_ok [sw] wss ts"
proof -
  define h where "h = Option.bind hist (\<lambda>h. nth_opt h idx)"
  obtain res failed st1 where w: "restore_workspace env sw h st = ((res, failed), st1)"
    by (cases "restore_workspace env sw h st") auto
  note spec = restore_workspace_progress [OF w assms(2,3)]
  show ?thesis
  proof (cases res)
    case None
    with step w spec show ?thesis
      by (intro exI [of _ "[]"])
        (auto simp: restore_numbered_workspace_def h_def session_extends_def workspaces_ok_def)
  next
    case (Some r)
    with step w have "st' = st1" "session_extends acc [rw_workspace r] (rw_terminals r) acc'"
      by (auto simp: restore_numbered_workspace_def h_def session_extends_def)
    with spec Some show ?thesis
      by (intro exI [of _ "[rw_workspace r]"] exI [of _ "rw_terminals r"])
        (auto intro: workspaces_ok_single)
  qed
qed

lemma session_extends_trans:
  "session_extends acc wss ts acc1 \<Longrightarrow> session_extends acc1 wss' ts' acc2 \<Longrightarrow>
     session_extends acc (wss @ wss') (ts @ ts') acc2"
  by (simp add: session_extends_def)

lemma restore_workspaces_progress:
  assumes "fold (restore_numbered_workspace env hist) isws ((acc, f), st) = ((acc', f'), st')"
    and "rs_next_terminal st \<le> usize_max"
    and "unat (rs_next_pane st) + session_panes (map snd isws) \<le> 2 ^ 32"
  shows "\<exists>wss ts. session_extends acc wss ts acc' \<and>
     progress env (session_panes (map snd isws)) st (session_ids wss) ts st' \<and>
     workspaces_ok (map snd isws) wss ts"
  using assms
proof (induction isws arbitrary: acc f st)
  case Nil
  then show ?case
    by (auto intro!: exI [of _ "[]"] progress_refl
        simp: session_extends_def session_panes_def workspaces_ok_def)
next
  case (Cons it isws)
  obtain idx sw where it: "it = (idx, sw)" by (cases it)
  obtain acc1 f1 st1 where step: "restore_numbered_workspace env hist (idx, sw) ((acc, f), st) = ((acc1, f1), st1)"
    by (cases "restore_numbered_workspace env hist (idx, sw) ((acc, f), st)") auto
  have rest: "fold (restore_numbered_workspace env hist) isws ((acc1, f1), st1) = ((acc', f'), st')"
    using Cons.prems(1) step it by simp
  have sum: "session_panes (sw # map snd isws) = workspace_panes sw + session_panes (map snd isws)"
    by (simp add: session_panes_def)
  then have "unat (rs_next_pane st) + workspace_panes sw \<le> 2 ^ 32" using Cons.prems(3) it by simp
  from restore_numbered_workspace_progress [OF step Cons.prems(2) this] obtain wss1 ts1
    where one: "session_extends acc wss1 ts1 acc1"
      "progress env (workspace_panes sw) st (session_ids wss1) ts1 st1" "workspaces_ok [sw] wss1 ts1"
    by blast
  have "unat (rs_next_pane st1) + session_panes (map snd isws) \<le> 2 ^ 32"
    using progress_next_pane [OF one(2)] Cons.prems(3) sum it by simp
  from Cons.IH [OF rest progress_terminal [OF one(2)] this] obtain wss ts
    where "session_extends acc1 wss ts acc'"
      "progress env (session_panes (map snd isws)) st1 (session_ids wss) ts st'"
      "workspaces_ok (map snd isws) wss ts" by blast
  then show ?case
    using session_extends_trans [OF one(1)] progress_trans [OF one(2)] workspaces_ok_Cons [OF one(3)]
    by (intro exI [of _ "wss1 @ wss"] exI [of _ "ts1 @ ts"]) (simp add: sum it)
qed

lemma restore_all_progress:
  assumes res: "restore_with_imports_and_failures env snapshot hist st = ((out, failed), st')"
    and "rs_next_terminal st \<le> usize_max"
    and "unat (rs_next_pane st) + session_panes (se_workspaces snapshot) \<le> 2 ^ 32"
  obtains ts where "rx_terminals out = fold (\<lambda>t. hm_insert (ts_id t) t) ts []"
    and "progress env (session_panes (se_workspaces snapshot)) (st\<lparr>rs_resumed := {}\<rparr>)
      (session_ids (rx_workspaces out)) ts st'"
    and "workspaces_ok (se_workspaces snapshot) (rx_workspaces out) ts"
proof -
  obtain out0 f st1 where loop: "fold (restore_numbered_workspace env hist)
      (enumerate 0 (se_workspaces snapshot))
      ((\<lparr>rx_workspaces = [], rx_terminals = [], rx_runtimes = []\<rparr>, 0), st\<lparr>rs_resumed := {}\<rparr>)
      = ((out0, f), st1)" by (metis prod.exhaust)
  have "rs_next_terminal (st\<lparr>rs_resumed := {}\<rparr>) \<le> usize_max"
    "unat (rs_next_pane (st\<lparr>rs_resumed := {}\<rparr>)) +
       session_panes (map snd (enumerate 0 (se_workspaces snapshot))) \<le> 2 ^ 32"
    using assms(2,3) by simp_all
  from restore_workspaces_progress [OF loop this] obtain wss ts
    where "session_extends \<lparr>rx_workspaces = [], rx_terminals = [], rx_runtimes = []\<rparr> wss ts out0"
      "progress env (session_panes (se_workspaces snapshot)) (st\<lparr>rs_resumed := {}\<rparr>) (session_ids wss) ts st1"
      "workspaces_ok (se_workspaces snapshot) wss ts" by auto
  moreover from res loop have "out = out0"
    "st' = st1\<lparr>rs_next_workspace :=
       reserve_workspace_ids (map ws_id (rx_workspaces out0)) (rs_next_workspace st1)\<rparr>"
    by (auto simp add: restore_with_imports_and_failures_def)
  ultimately show ?thesis
    by (intro that [of ts]) (simp_all add: session_extends_def progress_only_counters)
qed

section \<open>Terminal ids\<close>

text \<open>The readings of the clock all have the same number of hexadecimal digits.\<close>

definition clock_steady :: "('im, 'rt) restore_env \<Rightarrow> bool" where
  "clock_steady env \<longleftrightarrow> (\<exists>d. \<forall>n. length (lower_hex (re_micros env n)) = d)"

lemma usize_add_inj: "i < 2 ^ 64 \<Longrightarrow> j < 2 ^ 64 \<Longrightarrow> usize_add n i = usize_add n j \<Longrightarrow> i = j"
proof (induction i j rule: linorder_wlog)
  case (le i j)
  then have "2 ^ 64 dvd n + j - (n + i)"
    unfolding usize_add_def using mod_eq_dvd_iff_nat [of "n + i" "n + j" "2 ^ 64"] by simp
  then have "2 ^ 64 dvd j - i" by simp
  moreover have "j - i < 2 ^ 64" using le by simp
  ultimately show ?case using le(1) dvd_imp_le [of "2 ^ 64" "j - i"] by fastforce
next
  case (sym i j)
  then show ?case by simp
qed

lemma distinct_term_ids:
  assumes "clock_steady env" and "k \<le> 2 ^ 64"
  shows "distinct (term_ids env n k)"
  unfolding term_ids_def distinct_map
proof (intro conjI inj_onI)
  fix i j assume ij: "i \<in> set [0..<k]" "j \<in> set [0..<k]"
    and eq: "fst (terminal_id_alloc (re_micros env (usize_add n i)) (usize_add n i)) =
      fst (terminal_id_alloc (re_micros env (usize_add n j)) (usize_add n j))"
  have "length (lower_hex (re_micros env (usize_add n i))) =
      length (lower_hex (re_micros env (usize_add n j)))"
    using assms(1) unfolding clock_steady_def by metis
  with eq have "lower_hex (usize_add n i) = lower_hex (usize_add n j)"
    unfolding terminal_id_alloc_def fst_conv same_append_eq using append_eq_append_conv by blast
  then have same: "usize_add n i = usize_add n j" by (rule lower_hex_eq)
  have "i < k" "j < k" using ij by simp_all
  with assms(2) have "i < 2 ^ 64" "j < 2 ^ 64" by linarith+
  with same show "i = j" by (rule usize_add_inj [rotated -1])
qed simp

lemma terminals_by_id:
  "hm_get (fold (\<lambda>t. hm_insert (ts_id t) t) ts m) i =
     (case map_of (rev (map (\<lambda>t. (ts_id t, t)) ts)) i of Some t \<Rightarrow> Some t | None \<Rightarrow> hm_get m i)"
  using hm.lookup_ins_all [of "map (\<lambda>t. (ts_id t, t)) ts" m i]
  by (simp add: fold_map comp_def)

lemma terminals_get:
  assumes "distinct (map ts_id ts)"
  shows "hm_get (fold (\<lambda>t. hm_insert (ts_id t) t) ts []) i = Some t \<longleftrightarrow> t \<in> set ts \<and> ts_id t = i"
proof -
  have "distinct (map fst (rev (map (\<lambda>t. (ts_id t, t)) ts)))"
    using assms by (simp add: comp_def flip: rev_map)
  then have "map_of (rev (map (\<lambda>t. (ts_id t, t)) ts)) i = Some t \<longleftrightarrow> t \<in> set ts \<and> ts_id t = i"
    by (auto simp: map_of_eq_Some_iff)
  then show ?thesis
    by (cases "map_of (rev (map (\<lambda>t. (ts_id t, t)) ts)) i") (simp_all add: terminals_by_id)
qed

lemma distinct_subseq_fresh:
  "subseq ids (fresh_ids nxt k) \<Longrightarrow> unat nxt + k \<le> 2 ^ 32 \<Longrightarrow> distinct ids"
  using distinct_fresh_ids [of nxt k] subseq_filter_set [of ids "fresh_ids nxt k"]
  by (metis distinct_filter)

end
