(* ===== verification/Restore_Roundtrip.thy ===== *)
theory Restore_Roundtrip
  imports Restore_Sessions
begin

text \<open>
  A tab that is captured and restored comes back: when every pane gets its runtime, the layout is the
  same up to the renaming of the panes, which the map of old ids undoes.
\<close>

definition spawns :: "('im, 'rt) restore_env \<Rightarrow> bool" where
  "spawns env \<longleftrightarrow> (\<forall>i cwd launch history. re_spawn env i cwd launch history \<noteq> None)"

lemma hm_remove_Nil [simp]: "hm_remove k [] = []"
  by (simp add: hm_remove_def)

lemma hm_keys_add_pane: "set (hm_keys (rd_panes (add_pane i t rt rd))) = insert i (set (hm_keys (rd_panes rd)))"
  by (simp add: add_pane_def)

lemma restore_pane_key:
  assumes "restore_pane env ctx i (st, rd) = (st', rd')" and "spawns env" and "rs_imports st = []"
  shows "set (hm_keys (rd_panes rd')) = insert i (set (hm_keys (rd_panes rd))) \<and> rs_imports st' = []"
proof -
  have spawn: "\<exists>rt. re_spawn env j c l h = Some rt" for j c l h
    using assms(2) by (auto simp: spawns_def)
  have live: "set (hm_keys (rd_panes rd2)) = insert i (set (hm_keys (rd_panes rd))) \<and> rs_imports st2 = []"
    if "restore_live_pane env ctx i o' sv None su s st1 rd = (st2, rd2)" "rs_imports st1 = []"
    for o' sv su s st1 st2 rd2
    using that spawn [of i "pane_cwd env sv" "pane_launch_env ctx o'" "pu_initial_history su"]
    by (auto simp: restore_live_pane_def alloc_terminal_def hm_keys_add_pane split: prod.splits)
  have pending: "set (hm_keys (rd_panes rd2)) = insert i (set (hm_keys (rd_panes rd))) \<and> rs_imports st2 = []"
    if "restore_pending_pane env i sv p s st1 rd = (st2, rd2)" "rs_imports st1 = []"
    for sv p s st1 st2 rd2
    using that by (auto simp: restore_pending_pane_def alloc_terminal_def hm_keys_add_pane split: prod.splits)
  show ?thesis
    using assms(1,3)
    by (auto simp: restore_pane_def Let_def split: prod.splits option.splits dest!: live pending)
qed

lemma restore_panes_keys:
  assumes "fold (restore_pane env ctx) ids (st, rd) = (st', rd')" and "spawns env" and "rs_imports st = []"
  shows "set (hm_keys (rd_panes rd')) = set ids \<union> set (hm_keys (rd_panes rd))"
  using assms
proof (induction ids arbitrary: st rd)
  case Nil
  then show ?case by simp
next
  case (Cons i ids)
  obtain st1 rd1 where step: "restore_pane env ctx i (st, rd) = (st1, rd1)"
    by (cases "restore_pane env ctx i (st, rd)")
  from restore_pane_key [OF step Cons.prems(2,3)] Cons.IH [of st1 rd1] Cons.prems step
  show ?case by auto
qed

lemma insert_all_distinct: "distinct (map fst (m @ kvs)) \<Longrightarrow> insert_all kvs m = m @ kvs"
  by (induction kvs arbitrary: m) (auto simp: insert_all_def hm_insert_new)

lemma reverse_fold:
  "length olds = length ids \<Longrightarrow>
     fold (\<lambda>(old_id, new_id). hm_insert new_id old_id) (zip olds ids) m = insert_all (zip ids olds) m"
  by (induction olds ids arbitrary: m rule: list_induct2) (simp_all add: insert_all_def)

lemma reverse_zip:
  assumes "distinct olds" and "distinct ids" and "length olds = length ids"
  shows "reverse_id_map (insert_all (zip olds ids) []) = zip ids olds"
proof -
  have "insert_all (zip olds ids) [] = zip olds ids"
    using insert_all_distinct [of "[]" "zip olds ids"] assms by simp
  moreover have "reverse_id_map (zip olds ids) = insert_all (zip ids olds) []"
    unfolding reverse_id_map_def using assms(3) by (rule reverse_fold)
  ultimately show ?thesis
    using insert_all_distinct [of "[]" "zip ids olds"] assms by simp
qed

text \<open>The map of old ids sends each fresh id back to the old one.\<close>

lemma remap_old_ids:
  assumes map: "restore_node_remapped (capture_node n) nxt = (n', nxt', m)"
    and olds: "distinct (collect_ids n)" and room: "unat nxt + length (collect_ids n) \<le> 2 ^ 32"
  shows "reverse_id_map m = zip (collect_ids n') (collect_ids n)"
    and "m = zip (collect_ids n) (collect_ids n')" and "distinct (collect_ids n')"
    and "length (collect_ids n') = length (collect_ids n)"
    and "rename_panes (\<lambda>i. the (hm_get (reverse_id_map m) i)) (capture_node n') = capture_node n"
proof -
  note rm = remap_inner_eq [OF map [unfolded restore_node_remapped_def], simplified]
  show dist: "distinct (collect_ids n')" using rm room distinct_fresh_ids by auto
  show len: "length (collect_ids n') = length (collect_ids n)" using rm by simp
  show rev: "reverse_id_map m = zip (collect_ids n') (collect_ids n)"
    using rm reverse_zip [OF olds dist] len by simp
  show "m = zip (collect_ids n) (collect_ids n')"
    using rm insert_all_distinct [of "[]" "zip (collect_ids n) (collect_ids n')"] olds len by simp
  have "the (hm_get (reverse_id_map m) i) = o'" if "(o', i) \<in> set (zip (collect_ids n) (collect_ids n'))" for o' i
  proof -
    have "(i, o') \<in> set (zip (collect_ids n') (collect_ids n))"
      using that by (auto simp: set_zip)
    then have "hm_get (reverse_id_map m) i = Some o'"
      using dist len by (intro hm_mem_get) (simp_all add: rev hm_wf_def hm_keys_def)
    then show ?thesis by simp
  qed
  then show "rename_panes (\<lambda>i. the (hm_get (reverse_id_map m) i)) (capture_node n') = capture_node n"
    using olds by (intro remap_shape [OF map [unfolded restore_node_remapped_def]]) simp_all
qed

text \<open>A saved pane of the layout resolves to the pane that replaces it.\<close>

lemma resolve_zip:
  assumes "o' \<in> set olds" and "distinct olds" and "distinct ids" and "length ids = length olds"
  shows "\<exists>i. resolve_restored_pane (Some o') (zip olds ids) (set ids) xs = Some i \<and>
     hm_get (zip ids olds) i = Some o'"
proof -
  from assms(1) obtain k where k: "k < length olds" "olds ! k = o'" by (auto simp: in_set_conv_nth)
  then have m: "(o', ids ! k) \<in> set (zip olds ids)" "(ids ! k, o') \<in> set (zip ids olds)"
    using assms(4) by (auto simp: set_zip)
  then have "hm_get (zip olds ids) o' = Some (ids ! k)" "hm_get (zip ids olds) (ids ! k) = Some o'"
    using assms by (auto intro!: hm_mem_get simp: hm_wf_def hm_keys_def)
  moreover have "ids ! k \<in> set ids" using k assms(4) by simp
  ultimately show ?thesis by (simp add: resolve_restored_pane_def)
qed

lemma capture_tab_fields [simp]:
  "st_layout (capture_tab rc cd terminals tb) = capture_node (tl_root (tb_layout tb))"
  "st_focused (capture_tab rc cd terminals tb) = Some (tl_focus (tb_layout tb))"
  "st_root_pane (capture_tab rc cd terminals tb) = Some (tb_root_pane tb)"
  "st_custom_name (capture_tab rc cd terminals tb) = tb_custom_name tb"
  "st_zoomed (capture_tab rc cd terminals tb) = tb_zoomed tb"
  by (simp_all add: capture_tab_def)

text \<open>A tab of which every pane is restored keeps its whole layout.\<close>

lemma finish_whole_tab:
  assumes keys: "set (hm_keys (rd_panes rd)) = set (collect_ids n)"
    and f: "resolve_restored_pane (st_focused snap) m (set (collect_ids n)) (collect_ids n) = Some foc"
    and r: "resolve_restored_pane (st_root_pane snap) m (set (collect_ids n)) (collect_ids n) = Some rootp"
  shows "finish_tab snap num n m rd = Some
    \<lparr>rt_tab = \<lparr>tb_custom_name = st_custom_name snap, tb_number = num, tb_root_pane = rootp,
       tb_layout = from_saved n foc, tb_panes = rd_panes rd, tb_zoomed = st_zoomed snap\<rparr>,
     rt_terminals = rd_terminals rd, rt_runtimes = rd_runtimes rd, rt_old_ids = reverse_id_map m\<rparr>"
proof -
  have "rd_panes rd \<noteq> []" using keys by (auto simp: hm_keys_def)
  moreover have "prune_restored_node n (set (hm_keys (rd_panes rd))) = Some n"
    using keys by (intro prune_all) simp
  ultimately show ?thesis by (simp add: finish_tab_def Let_def keys f r)
qed

lemma restored_tab_facts:
  fixes env :: "('im, 'rt) restore_env"
  assumes res: "restore_tab env (capture_tab rc cd terminals tb) hist num ws pub st = ((res, failed), st')"
    and wf: "layout_wf (tb_layout tb)" and root: "tb_root_pane tb \<in> set (tl_pane_ids (tb_layout tb))"
    and spawn: "spawns env" "rs_imports st = []"
    and room: "unat (rs_next_pane st) + length (tl_pane_ids (tb_layout tb)) \<le> 2 ^ 32"
  shows "\<exists>r. res = Some r \<and>
    rename_panes (\<lambda>i. the (hm_get (rt_old_ids r) i)) (capture_node (tl_root (tb_layout (rt_tab r)))) =
      capture_node (tl_root (tb_layout tb)) \<and>
    hm_get (rt_old_ids r) (tl_focus (tb_layout (rt_tab r))) = Some (tl_focus (tb_layout tb)) \<and>
    hm_get (rt_old_ids r) (tb_root_pane (rt_tab r)) = Some (tb_root_pane tb) \<and>
    tb_custom_name (rt_tab r) = tb_custom_name tb \<and> tb_zoomed (rt_tab r) = tb_zoomed tb"
proof -
  define snap where "snap = capture_tab rc cd terminals tb"
  define olds where "olds = collect_ids (tl_root (tb_layout tb))"
  obtain n nxt m where map: "restore_node_remapped (st_layout snap) (rs_next_pane st) = (n, nxt, m)"
    by (cases "restore_node_remapped (st_layout snap) (rs_next_pane st)")
  have in_olds: "tl_focus (tb_layout tb) \<in> set olds" "tb_root_pane tb \<in> set olds" "distinct olds"
    using wf root by (simp_all add: layout_wf_def tl_pane_ids_def olds_def)
  note old = remap_old_ids [of "tl_root (tb_layout tb)", folded olds_def,
      OF map [unfolded snap_def capture_tab_fields] in_olds(3)]
  have "unat (rs_next_pane st) + length olds \<le> 2 ^ 32" using room by (simp add: olds_def tl_pane_ids_def)
  note old = old [OF this]
  define ctx where "ctx = \<lparr>tc_panes = st_panes snap, tc_history = hist, tc_number = num,
    tc_workspace_id = ws, tc_old_ids = reverse_id_map m, tc_public_ids = pub\<rparr>"
  define rd0 :: "'rt restored_panes"
    where "rd0 = \<lparr>rd_panes = [], rd_terminals = [], rd_runtimes = [], rd_failed_imports = 0\<rparr>"
  obtain st1 rd where loop:
    "fold (restore_pane env ctx) (collect_ids n) (st\<lparr>rs_next_pane := nxt\<rparr>, rd0) = (st1, rd)"
    by (cases "fold (restore_pane env ctx) (collect_ids n) (st\<lparr>rs_next_pane := nxt\<rparr>, rd0)")
  have out: "res = finish_tab snap num n m rd"
    using res loop map by (simp add: restore_tab_def Let_def ctx_def rd0_def snap_def)
  have keys: "set (hm_keys (rd_panes rd)) = set (collect_ids n)"
    using restore_panes_keys [OF loop spawn(1)] spawn(2) by (simp add: rd0_def)
  have resolved: "\<exists>i. resolve_restored_pane (Some x) m (set (collect_ids n)) (collect_ids n) = Some i \<and>
      hm_get (reverse_id_map m) i = Some x" if "x \<in> set olds" for x
    using resolve_zip [OF that in_olds(3) old(3,4), folded old(1,2)] .
  from resolved [OF in_olds(1)] obtain foc where
    foc: "resolve_restored_pane (Some (tl_focus (tb_layout tb))) m (set (collect_ids n)) (collect_ids n) = Some foc"
      "hm_get (reverse_id_map m) foc = Some (tl_focus (tb_layout tb))" by (elim exE conjE)
  from resolved [OF in_olds(2)] obtain rp where
    rp: "resolve_restored_pane (Some (tb_root_pane tb)) m (set (collect_ids n)) (collect_ids n) = Some rp"
      "hm_get (reverse_id_map m) rp = Some (tb_root_pane tb)" by (elim exE conjE)
  have "res = Some \<lparr>rt_tab = \<lparr>tb_custom_name = tb_custom_name tb, tb_number = num, tb_root_pane = rp,
       tb_layout = from_saved n foc, tb_panes = rd_panes rd, tb_zoomed = tb_zoomed tb\<rparr>,
     rt_terminals = rd_terminals rd, rt_runtimes = rd_runtimes rd, rt_old_ids = reverse_id_map m\<rparr>"
    unfolding out snap_def
    using finish_whole_tab [where snap = "capture_tab rc cd terminals tb" and num = num,
        unfolded capture_tab_fields, OF keys foc(1) rp(1)] .
  then show ?thesis using foc(2) rp(2) old(5) by (simp add: from_saved_def)
qed

end
