(* ===== verification/Restore_Numbers.thy ===== *)
theory Restore_Numbers
  imports Restore_Roundtrip
begin

text \<open>
  The public numbers of restored panes: the numbers saved with a workspace are completed for the
  panes that have none, and every restored pane takes the number of the pane it replaces.
\<close>

section \<open>Completing the saved numbers\<close>

text \<open>Numbers are given once and lie below the next number.\<close>

definition numbers_ok :: "('k, usize) hashmap \<Rightarrow> usize \<Rightarrow> bool" where
  "numbers_ok numbers nxt \<longleftrightarrow>
     hm_wf numbers \<and> distinct (hm_values numbers) \<and> list_all (\<lambda>n. n < nxt) (hm_values numbers)"

lemma numbers_ok_new:
  assumes "numbers_ok numbers nxt" and "k \<notin> set (hm_keys numbers)" and "n < nxt'" and "nxt \<le> nxt'"
    and "n \<notin> set (hm_values numbers)"
  shows "numbers_ok (hm_insert k n numbers) nxt'"
proof -
  have "hm_insert k n numbers = numbers @ [(k, n)]"
    using assms(2) by (intro hm_insert_new) (simp add: hm_keys_def)
  then show ?thesis
    using assms by (auto simp: numbers_ok_def hm_wf_def hm_keys_def hm_values_def list_all_iff)
qed

lemma numbers_ok_inj:
  assumes "numbers_ok numbers nxt" and "hm_get numbers k = Some n" and "hm_get numbers k' = Some n"
  shows "k = k'"
proof -
  from assms have "(k, n) \<in> set numbers" "(k', n) \<in> set numbers" by (auto dest: hm_get_mem)
  moreover have "distinct (map snd numbers)" using assms(1) by (simp add: numbers_ok_def hm_values_def)
  ultimately show ?thesis by (fastforce simp: distinct_map inj_on_def)
qed

lemma numbers_ok_less: "numbers_ok numbers nxt \<Longrightarrow> hm_get numbers k = Some n \<Longrightarrow> n < nxt"
  by (auto simp: numbers_ok_def list_all_iff hm_values_def dest!: hm_get_mem)

lemma number_panes_ok:
  assumes "fold number_pane olds (numbers, nxt) = (numbers', nxt')" and "numbers_ok numbers nxt"
    and "nxt + length olds \<le> usize_max"
  shows "numbers_ok numbers' nxt' \<and> nxt' \<le> nxt + length olds \<and>
    set (hm_keys numbers') = set (hm_keys numbers) \<union> set olds \<and>
    (\<forall>k n. hm_get numbers k = Some n \<longrightarrow> hm_get numbers' k = Some n)"
  using assms
proof (induction olds arbitrary: numbers nxt)
  case Nil
  then show ?case by simp
next
  case (Cons k olds)
  show ?case
  proof (cases "hm_contains numbers k")
    case True
    then have "number_pane k (numbers, nxt) = (numbers, nxt)" by (simp add: number_pane_def)
    with Cons.IH [of numbers nxt] Cons.prems True show ?thesis by (fastforce simp: hm_contains_iff)
  next
    case False
    have step: "number_pane k (numbers, nxt) = (hm_insert k nxt numbers, Suc nxt)"
      using False Cons.prems(3) by (simp add: number_pane_def usize_add_no_wrap)
    have "nxt \<notin> set (hm_values numbers)"
      using Cons.prems(2) by (auto simp: numbers_ok_def list_all_iff)
    with Cons.prems(2) False have "numbers_ok (hm_insert k nxt numbers) (Suc nxt)"
      by (intro numbers_ok_new) (auto simp: hm_contains_iff)
    from Cons.IH [OF _ this] Cons.prems(1,3) step
    have "numbers_ok numbers' nxt' \<and> nxt' \<le> Suc nxt + length olds \<and>
      set (hm_keys numbers') = set (hm_keys (hm_insert k nxt numbers)) \<union> set olds \<and>
      (\<forall>j n. hm_get (hm_insert k nxt numbers) j = Some n \<longrightarrow> hm_get numbers' j = Some n)"
      by simp
    moreover have "hm_get (hm_insert k nxt numbers) j = Some n" if "hm_get numbers j = Some n" for j n
      using that False by (auto simp: hm_contains_def)
    ultimately show ?thesis by auto
  qed
qed

definition saved_ids :: "workspace_snapshot \<Rightarrow> u32 list" where
  "saved_ids sw = concat (map (\<lambda>snap. snapshot_ids (st_layout snap)) (sw_tabs sw))"

lemma migrated_is_fold:
  "migrated_public_pane_numbers_by_old_raw sw nxt =
     fold number_pane (saved_ids sw) (sw_public_pane_numbers sw, nxt)"
proof -
  have "fold (\<lambda>tb. fold number_pane (collect_layout_snapshot_pane_ids (st_layout tb) [])) snaps acc =
      fold number_pane (concat (map (\<lambda>snap. snapshot_ids (st_layout snap)) snaps)) acc" for snaps acc
    by (induction snaps arbitrary: acc) (simp_all add: collect_layout_ids)
  then show ?thesis by (simp add: migrated_public_pane_numbers_by_old_raw_def saved_ids_def)
qed

lemma length_saved_ids: "length (saved_ids sw) = workspace_panes sw"
  by (simp add: saved_ids_def workspace_panes_def snapshot_panes_def tab_panes_def [abs_def]
      length_concat comp_def)

text \<open>The next number is past every number in use.\<close>

lemma next_public_number_above:
  assumes "n \<in> set used" and "list_all (\<lambda>n. n < usize_max) used"
  shows "n < next_public_number used reserved"
proof -
  obtain m where m: "max_by_key (\<lambda>n. n) used = Some m"
    using assms(1) by (cases "max_by_key (\<lambda>n. n) used") auto
  from max_by_key_SomeD [OF m] assms have "m \<in> set used" "n \<le> m" by auto
  moreover have "m < usize_max" using assms(2) calculation(1) by (simp add: list_all_iff)
  ultimately show ?thesis by (simp add: next_public_number_def m usize_checked_add_def)
qed

section \<open>The numbers of restored panes\<close>

text \<open>Every saved pane in \<open>olds\<close> has a number that can be followed by another.\<close>

definition numbered :: "(u32, usize) hashmap \<Rightarrow> u32 list \<Rightarrow> bool" where
  "numbered by olds \<longleftrightarrow> list_all (\<lambda>oid. is_some_and (hm_get by oid) (\<lambda>n. n < usize_max)) olds"

definition number_of :: "(u32, usize) hashmap \<Rightarrow> u32 \<Rightarrow> usize" where
  "number_of by oid = the (hm_get by oid)"

lemma numbered_get: "numbered by olds \<Longrightarrow> oid \<in> set olds \<Longrightarrow>
    hm_get by oid = Some (number_of by oid) \<and> number_of by oid < usize_max"
  by (auto simp: numbered_def number_of_def list_all_iff is_some_and_iff)

lemma numbered_subseq: "subseq xs ys \<Longrightarrow> numbered by ys \<Longrightarrow> numbered by xs"
  by (auto simp: numbered_def list_all_iff dest: list_emb_set)

lemma publish_fold:
  assumes "fold (publish_pane by old) ids (numbers, nxt) = (numbers', nxt')"
    and "distinct ids" and "set ids \<inter> set (hm_keys numbers) = {}"
    and "map (hm_get old) ids = map Some olds" and "numbered by olds"
  shows "numbers' = numbers @ zip ids (map (number_of by) olds) \<and> nxt \<le> nxt' \<and>
    list_all (\<lambda>oid. number_of by oid < nxt') olds"
  using assms
proof (induction ids arbitrary: numbers nxt olds)
  case Nil
  then show ?case by simp
next
  case (Cons i ids)
  obtain oid olds' where o: "olds = oid # olds'" "hm_get old i = Some oid" "map (hm_get old) ids = map Some olds'"
    using Cons.prems(4) by (cases olds) auto
  have n: "hm_get by oid = Some (number_of by oid)" "number_of by oid < usize_max"
    using numbered_get [OF Cons.prems(5)] o(1) by simp_all
  have new: "hm_insert i (number_of by oid) numbers = numbers @ [(i, number_of by oid)]"
    using Cons.prems(3) by (intro hm_insert_new) (auto simp: hm_keys_def)
  have step: "publish_pane by old i (numbers, nxt) =
      (numbers @ [(i, number_of by oid)], max nxt (Suc (number_of by oid)))"
    using o(2) n new by (simp add: publish_pane_def usize_add_no_wrap)
  have "numbered by olds'" using Cons.prems(5) o(1) by (simp add: numbered_def)
  moreover have "set ids \<inter> set (hm_keys (numbers @ [(i, number_of by oid)])) = {}"
    using Cons.prems(2,3) by (auto simp: hm_keys_def)
  ultimately show ?case
    using Cons.IH [of "numbers @ [(i, number_of by oid)]" "max nxt (Suc (number_of by oid))" olds'] Cons.prems(1,2) step o(1,3) by auto
qed

text \<open>The saved panes that the panes of a restored tab replace.\<close>

lemma tab_olds:
  assumes map: "restore_node_remapped (st_layout snap) nxt = (n, nxt', m)"
    and dist: "distinct (snapshot_ids (st_layout snap))" and room: "unat nxt + tab_panes snap \<le> 2 ^ 32"
    and sub: "subseq ids (fresh_ids nxt (tab_panes snap))"
  shows "\<exists>olds. map (hm_get (reverse_id_map m)) ids = map Some olds \<and>
    subseq olds (snapshot_ids (st_layout snap))"
proof -
  note rm = remap_inner_eq [OF map [unfolded restore_node_remapped_def]]
  have ids: "collect_ids n = fresh_ids nxt (tab_panes snap)" using rm by (simp add: tab_panes_def)
  have d: "distinct (collect_ids n)" using ids room distinct_fresh_ids by simp
  have len: "length (collect_ids n) = length (snapshot_ids (st_layout snap))" using rm by simp
  have rev: "reverse_id_map m = zip (collect_ids n) (snapshot_ids (st_layout snap))"
    using rm reverse_zip [OF dist d] len by simp
  have "map (hm_get (reverse_id_map m)) (collect_ids n) = map Some (snapshot_ids (st_layout snap))"
    using d len by (intro nth_equalityI) (simp_all add: rev hm_get_def map_of_zip_nth)
  then have "subseq (map (hm_get (reverse_id_map m)) ids) (map Some (snapshot_ids (st_layout snap)))"
    using subseq_map [OF sub [folded ids]] by metis
  then obtain N where
    "map (hm_get (reverse_id_map m)) ids = map Some (nths (snapshot_ids (st_layout snap)) N)"
    by (auto simp: subseq_conv_nths nths_map)
  then show ?thesis by (intro exI [of _ "nths (snapshot_ids (st_layout snap)) N"]) (auto simp: subseq_conv_nths)
qed

text \<open>
  What restoring tabs with the saved panes \<open>src\<close> does to the numbers: each new pane takes the number
  of the saved pane it replaces.
\<close>

definition tabs_numbered ::
  "(u32, usize) hashmap \<Rightarrow> u32 list \<Rightarrow> 'im restore_state \<Rightarrow> 'rt workspace_build \<Rightarrow>
    'im restore_state \<Rightarrow> 'rt workspace_build \<Rightarrow> bool" where
  "tabs_numbered by src st wb st' wb' \<longleftrightarrow>
     (\<exists>tbs olds. wb_tabs wb' = wb_tabs wb @ tbs \<and> length olds = length (tabs_ids tbs) \<and>
        wb_numbers wb' = wb_numbers wb @ zip (tabs_ids tbs) (map (number_of by) olds) \<and>
        wb_next_pane wb \<le> wb_next_pane wb' \<and> subseq olds src \<and>
        list_all (\<lambda>oid. number_of by oid < wb_next_pane wb') olds \<and>
        subseq (tabs_ids tbs) (fresh_ids (rs_next_pane st) (length src))) \<and>
     rs_next_pane st' = rs_next_pane st + word_of_nat (length src) \<and>
     rs_next_terminal st' \<le> usize_max"

lemma tabs_numbered_refl: "rs_next_terminal st \<le> usize_max \<Longrightarrow> tabs_numbered by [] st wb st wb"
  by (auto simp: tabs_numbered_def fresh_ids_def intro!: exI [of _ "[]"])

lemma tabs_numbered_trans:
  assumes "tabs_numbered by xs st wb st1 wb1" and "tabs_numbered by ys st1 wb1 st2 wb2"
  shows "tabs_numbered by (xs @ ys) st wb st2 wb2"
proof -
  from assms(1) obtain tbs olds where 1: "wb_tabs wb1 = wb_tabs wb @ tbs" "length olds = length (tabs_ids tbs)"
      "wb_numbers wb1 = wb_numbers wb @ zip (tabs_ids tbs) (map (number_of by) olds)"
      "wb_next_pane wb \<le> wb_next_pane wb1" "subseq olds xs"
      "list_all (\<lambda>oid. number_of by oid < wb_next_pane wb1) olds"
      "subseq (tabs_ids tbs) (fresh_ids (rs_next_pane st) (length xs))"
      and st1: "rs_next_pane st1 = rs_next_pane st + word_of_nat (length xs)"
    unfolding tabs_numbered_def by blast
  from assms(2) obtain tbs' olds' where 2: "wb_tabs wb2 = wb_tabs wb1 @ tbs'"
      "length olds' = length (tabs_ids tbs')"
      "wb_numbers wb2 = wb_numbers wb1 @ zip (tabs_ids tbs') (map (number_of by) olds')"
      "wb_next_pane wb1 \<le> wb_next_pane wb2" "subseq olds' ys"
      "list_all (\<lambda>oid. number_of by oid < wb_next_pane wb2) olds'"
      "subseq (tabs_ids tbs') (fresh_ids (rs_next_pane st1) (length ys))"
    unfolding tabs_numbered_def by blast
  have "list_all (\<lambda>oid. number_of by oid < wb_next_pane wb2) olds"
    using 1(6) 2(4) by (fastforce simp: list_all_iff)
  then show ?thesis
    using 1 2 st1 assms(2) unfolding tabs_numbered_def
    by (intro conjI exI [of _ "tbs @ tbs'"] exI [of _ "olds @ olds'"])
      (auto simp: fresh_ids_add list_emb_append_mono)
qed

definition keys_below :: "u32 \<Rightarrow> (pane_id, usize) hashmap \<Rightarrow> bool" where
  "keys_below nxt numbers \<longleftrightarrow> list_all (\<lambda>i. unat i < unat nxt) (hm_keys numbers)"

lemma restore_tab_numbered:
  assumes step: "restore_numbered_tab env sw hist ws by pub (idx, snap) (wb, st) = (wb', st')"
    and tmax: "rs_next_terminal st \<le> usize_max"
    and room: "unat (rs_next_pane st) + tab_panes snap \<le> 2 ^ 32"
    and dist: "distinct (snapshot_ids (st_layout snap))" and num: "numbered by (snapshot_ids (st_layout snap))"
    and below: "keys_below (rs_next_pane st) (wb_numbers wb)"
  shows "tabs_numbered by (snapshot_ids (st_layout snap)) st wb st' wb'"
proof -
  define h where "h = Option.bind hist (\<lambda>h. nth_opt h idx)"
  define num where "num = unwrap_or (nth_opt (sw_public_tab_numbers sw) idx) (usize_add idx 1)"
  obtain res failed st1 where tab: "restore_tab env snap h num ws pub st = ((res, failed), st1)"
    by (cases "restore_tab env snap h num ws pub st") auto
  note spec = restore_tab_progress [OF tab tmax room]
  show ?thesis
  proof (cases res)
    case None
    with step tab spec show ?thesis
      by (auto simp: restore_numbered_tab_def h_def num_def tabs_numbered_def progress_def
          tab_panes_def intro!: exI [of _ "[]"])
  next
    case (Some r)
    define ids where "ids = tl_pane_ids (tb_layout (rt_tab r))"
    define tb where "tb = (case nth_opt (sw_public_tab_numbers sw) idx of None \<Rightarrow> rt_tab r
      | Some n \<Rightarrow> (rt_tab r)\<lparr>tb_number := n\<rparr>)"
    have lay: "tl_pane_ids (tb_layout tb) = ids" by (simp add: tb_def ids_def split: option.split)
    from spec Some obtain n nxt m where pr: "progress env (tab_panes snap) st ids (rt_terminals r) st1"
      and map: "restore_node_remapped (st_layout snap) (rs_next_pane st) = (n, nxt, m)"
      and old: "rt_old_ids r = reverse_id_map m" by (auto simp: ids_def)
    have sub: "subseq ids (fresh_ids (rs_next_pane st) (tab_panes snap))"
      using pr by (simp add: progress_def)
    from tab_olds [OF map dist room sub] obtain olds
      where olds: "map (hm_get (rt_old_ids r)) ids = map Some olds" "subseq olds (snapshot_ids (st_layout snap))"
      unfolding old by blast
    obtain numbers nxt' where pub: "fold (publish_pane by (rt_old_ids r)) ids (wb_numbers wb, wb_next_pane wb)
        = (numbers, nxt')" by fastforce
    have above: "unat (rs_next_pane st) \<le> unat i" if "i \<in> set ids" for i
      using list_emb_set [OF sub that] set_fresh_ids [OF room] by blast
    have "unat i < unat (rs_next_pane st)" if "i \<in> set (hm_keys (wb_numbers wb))" for i
      using below that by (simp add: keys_below_def list_all_iff)
    with above have "set ids \<inter> set (hm_keys (wb_numbers wb)) = {}" by force
    note pf = publish_fold [OF pub distinct_subseq_fresh [OF sub room] this olds(1)
        numbered_subseq [OF olds(2) num]]
    have "length olds = length ids" using olds(1) by (metis length_map)
    moreover have wb': "wb' = add_tab by (nth_opt (sw_public_tab_numbers sw) idx) r
        (wb\<lparr>wb_failed_imports := usize_add (wb_failed_imports wb) failed\<rparr>)" and "st' = st1"
      using step tab Some by (simp_all add: restore_numbered_tab_def h_def num_def)
    moreover have "wb_tabs wb' = wb_tabs wb @ [tb]" "wb_numbers wb' = numbers" "wb_next_pane wb' = nxt'"
      unfolding wb' add_tab_def Let_def tb_def [symmetric] lay by (simp_all add: pub)
    ultimately show ?thesis
      using pf olds(2) sub pr lay unfolding tabs_numbered_def
      by (intro conjI exI [of _ "[tb]"] exI [of _ olds]) (auto simp: progress_def tab_panes_def)
  qed
qed

lemma tabs_numbered_below:
  assumes num: "tabs_numbered by src st wb st' wb'" and below: "keys_below (rs_next_pane st) (wb_numbers wb)"
    and room: "unat (rs_next_pane st) + length src < 2 ^ 32"
  shows "keys_below (rs_next_pane st') (wb_numbers wb')"
    and "unat (rs_next_pane st') = unat (rs_next_pane st) + length src"
proof -
  from num obtain tbs olds where t: "length olds = length (tabs_ids tbs)"
      "wb_numbers wb' = wb_numbers wb @ zip (tabs_ids tbs) (map (number_of by) olds)"
      "subseq (tabs_ids tbs) (fresh_ids (rs_next_pane st) (length src))"
      "rs_next_pane st' = rs_next_pane st + word_of_nat (length src)"
    unfolding tabs_numbered_def by blast
  have "unat (rs_next_pane st) + Suc (length src) \<le> 2 ^ 32" using room by simp
  from unat_fresh [OF this] t(4)
  show nxt: "unat (rs_next_pane st') = unat (rs_next_pane st) + length src" by simp
  have "unat i < unat (rs_next_pane st')" if "i \<in> set (tabs_ids tbs)" for i
    using list_emb_set [OF t(3) that] set_fresh_ids [of "rs_next_pane st" "length src"] room nxt by force
  moreover have "hm_keys (wb_numbers wb') = hm_keys (wb_numbers wb) @ tabs_ids tbs"
    using t(1,2) by (simp add: hm_keys_def)
  ultimately show "keys_below (rs_next_pane st') (wb_numbers wb')"
    using below nxt by (fastforce simp: keys_below_def list_all_iff)
qed

abbreviation tabs_src :: "tab_snapshot list \<Rightarrow> u32 list" where
  "tabs_src snaps \<equiv> concat (map (\<lambda>snap. snapshot_ids (st_layout snap)) snaps)"

lemma restore_tabs_numbered:
  assumes "fold (restore_numbered_tab env sw hist ws by pub) itabs (wb, st) = (wb', st')"
    and "rs_next_terminal st \<le> usize_max"
    and "unat (rs_next_pane st) + length (tabs_src (map snd itabs)) < 2 ^ 32"
    and "distinct (tabs_src (map snd itabs))" and "numbered by (tabs_src (map snd itabs))"
    and "keys_below (rs_next_pane st) (wb_numbers wb)"
  shows "tabs_numbered by (tabs_src (map snd itabs)) st wb st' wb'"
  using assms
proof (induction itabs arbitrary: wb st)
  case Nil
  then show ?case by (auto intro: tabs_numbered_refl)
next
  case (Cons it itabs)
  obtain idx snap where it: "it = (idx, snap)" by (cases it)
  obtain wb1 st1 where step: "restore_numbered_tab env sw hist ws by pub (idx, snap) (wb, st) = (wb1, st1)"
    by (cases "restore_numbered_tab env sw hist ws by pub (idx, snap) (wb, st)")
  have rest: "fold (restore_numbered_tab env sw hist ws by pub) itabs (wb1, st1) = (wb', st')"
    using Cons.prems(1) step it by simp
  have "unat (rs_next_pane st) + tab_panes snap \<le> 2 ^ 32"
    and d: "distinct (snapshot_ids (st_layout snap))" "numbered by (snapshot_ids (st_layout snap))"
    and room1: "unat (rs_next_pane st) + length (snapshot_ids (st_layout snap)) < 2 ^ 32"
    using Cons.prems(3-5) it by (auto simp: tab_panes_def numbered_def)
  note one = restore_tab_numbered [OF step Cons.prems(2) this(1) d Cons.prems(6)]
  note next1 = tabs_numbered_below [OF one Cons.prems(6) room1]
  have "rs_next_terminal st1 \<le> usize_max" using one by (simp add: tabs_numbered_def)
  moreover have "unat (rs_next_pane st1) + length (tabs_src (map snd itabs)) < 2 ^ 32"
    using Cons.prems(3) next1(2) it by simp
  moreover have "distinct (tabs_src (map snd itabs))" "numbered by (tabs_src (map snd itabs))"
    using Cons.prems(4,5) it by (auto simp: numbered_def)
  ultimately have "tabs_numbered by (tabs_src (map snd itabs)) st1 wb1 st' wb'"
    using next1(1) by (intro Cons.IH [OF rest])
  from tabs_numbered_trans [OF one this] show ?case by (simp add: it)
qed

section \<open>Workspaces\<close>

text \<open>
  The saved numbers are used once, none is the largest \<open>usize\<close>, and there is room for a number for
  every pane of the workspace.
\<close>

definition saved_numbers_ok :: "workspace_snapshot \<Rightarrow> bool" where
  "saved_numbers_ok sw \<longleftrightarrow>
     hm_wf (sw_public_pane_numbers sw) \<and> distinct (hm_values (sw_public_pane_numbers sw)) \<and>
     list_all (\<lambda>n. n < usize_max) (hm_values (sw_public_pane_numbers sw)) \<and>
     next_public_number (hm_values (sw_public_pane_numbers sw)) (sw_next_public_pane_number sw) +
       workspace_panes sw \<le> usize_max"

lemma completed_numbers:
  assumes ok: "saved_numbers_ok sw"
    and mig: "migrated_public_pane_numbers_by_old_raw sw
      (next_public_number (hm_values (sw_public_pane_numbers sw)) (sw_next_public_pane_number sw)) = (by, nxt)"
  shows "numbers_ok by nxt" and "numbered by (saved_ids sw)"
    and "hm_get (sw_public_pane_numbers sw) k = Some n \<Longrightarrow> hm_get by k = Some n"
proof -
  let ?start = "next_public_number (hm_values (sw_public_pane_numbers sw)) (sw_next_public_pane_number sw)"
  have "numbers_ok (sw_public_pane_numbers sw) ?start"
    using ok next_public_number_above [where used = "hm_values (sw_public_pane_numbers sw)"]
    by (auto simp: numbers_ok_def saved_numbers_ok_def list_all_iff)
  moreover have "?start + length (saved_ids sw) \<le> usize_max"
    using ok by (simp add: saved_numbers_ok_def length_saved_ids)
  ultimately have f: "numbers_ok by nxt" "nxt \<le> ?start + length (saved_ids sw)"
    "set (hm_keys by) = set (hm_keys (sw_public_pane_numbers sw)) \<union> set (saved_ids sw)"
    "\<forall>k n. hm_get (sw_public_pane_numbers sw) k = Some n \<longrightarrow> hm_get by k = Some n"
    using number_panes_ok [OF mig [unfolded migrated_is_fold]] by simp_all
  show "numbers_ok by nxt" by (fact f(1))
  show "hm_get (sw_public_pane_numbers sw) k = Some n \<Longrightarrow> hm_get by k = Some n" using f(4) by blast
  show "numbered by (saved_ids sw)"
    unfolding numbered_def list_all_iff
  proof
    fix oid assume "oid \<in> set (saved_ids sw)"
    then have "hm_contains by oid" using f(3) by (simp add: hm_contains_iff)
    then obtain n where n: "hm_get by oid = Some n" by (auto simp: hm_contains_def)
    have "n < usize_max"
      using numbers_ok_less [OF f(1) n] f(2) ok by (simp add: saved_numbers_ok_def length_saved_ids)
    with n show "is_some_and (hm_get by oid) (\<lambda>n. n < usize_max)" by simp
  qed
qed

lemma workspace_numbers:
  fixes env :: "('im, 'rt) restore_env"
  assumes res: "restore_workspace env sw hist st = ((Some r, failed), st')"
    and tmax: "rs_next_terminal st \<le> usize_max"
    and room: "unat (rs_next_pane st) + workspace_panes sw < 2 ^ 32"
    and dist: "distinct (saved_ids sw)" and ok: "saved_numbers_ok sw"
  shows "\<exists>bn nxt olds. numbers_ok bn nxt \<and> numbered bn (saved_ids sw) \<and>
    (\<forall>k n. hm_get (sw_public_pane_numbers sw) k = Some n \<longrightarrow> hm_get bn k = Some n) \<and>
    subseq olds (saved_ids sw) \<and> length olds = length (workspace_ids (rw_workspace r)) \<and>
    ws_public_pane_numbers (rw_workspace r) = zip (workspace_ids (rw_workspace r)) (map (number_of bn) olds) \<and>
    list_all (\<lambda>oid. number_of bn oid < ws_next_public_pane_number (rw_workspace r)) olds"
proof -
  obtain wid st0 where w: "(case sw_id sw of Some i \<Rightarrow> (i, st)
      | None \<Rightarrow> let (i, c) = generate_workspace_id (rs_next_workspace st)
                in (i, st\<lparr>rs_next_workspace := c\<rparr>)) = (wid, st0)" by fastforce
  then have st0: "rs_next_pane st0 = rs_next_pane st" "rs_next_terminal st0 = rs_next_terminal st"
    by (cases "sw_id sw"; auto split: prod.splits)+
  obtain bn nxt where mig: "migrated_public_pane_numbers_by_old_raw sw
      (next_public_number (hm_values (sw_public_pane_numbers sw)) (sw_next_public_pane_number sw))
      = (bn, nxt)" by fastforce
  note full = completed_numbers [OF ok mig]
  define wb0 :: "'rt workspace_build" where "wb0 = \<lparr>wb_tabs = [], wb_terminals = [], wb_runtimes = [],
    wb_numbers = [], wb_next_pane = nxt,
    wb_next_tab = next_public_number (sw_public_tab_numbers sw) (sw_next_public_tab_number sw),
    wb_failed_imports = 0\<rparr>"
  define pub where "pub = hm_map_values (\<lambda>_ n. public_pane_id_for_number wid n) bn"
  obtain wb st1 where loop: "fold (restore_numbered_tab env sw hist wid bn pub)
      (enumerate 0 (sw_tabs sw)) (wb0, st0) = (wb, st1)" by fastforce
  have out: "built_workspace env sw wid wb = Some r"
    using res loop w mig by (auto simp: restore_workspace_def Let_def wb0_def pub_def)
  have src: "tabs_src (map snd (enumerate 0 (sw_tabs sw))) = saved_ids sw" by (simp add: saved_ids_def)
  have "tabs_numbered bn (saved_ids sw) st0 wb0 st1 wb"
    using restore_tabs_numbered [OF loop, unfolded src] tmax room dist full(2)
    by (simp add: st0 wb0_def keys_below_def length_saved_ids)
  then obtain olds where "length olds = length (tabs_ids (wb_tabs wb))"
      "wb_numbers wb = zip (tabs_ids (wb_tabs wb)) (map (number_of bn) olds)" "subseq olds (saved_ids sw)"
      "list_all (\<lambda>oid. number_of bn oid < wb_next_pane wb) olds"
    by (auto simp: tabs_numbered_def wb0_def)
  moreover have "ws_tabs (rw_workspace r) = wb_tabs wb" "ws_public_pane_numbers (rw_workspace r) = wb_numbers wb"
    "ws_next_public_pane_number (rw_workspace r) = wb_next_pane wb"
    using out by (auto simp: built_workspace_def Let_def split: if_splits)
  ultimately show ?thesis
    using full by (intro exI [of _ "bn"] exI [of _ nxt] exI [of _ olds]) simp
qed

end
