(* ===== verification/Restore_Properties.thy ===== *)
theory Restore_Properties
  imports Restore_Numbers
begin

text \<open>
  The properties of saved and restored sessions: a restored session is consistent, no agent session
  is resumed twice, a tab survives a restart, public numbers are kept, and an agent's session
  survives being saved and restored.
\<close>

section \<open>A concrete session\<close>

text \<open>
  A machine on which every directory exists, every shell starts and the clock stands still; a session
  with one tab of two panes that run the same agent session.
\<close>

definition demo_env :: "(nat, nat) restore_env" where
  "demo_env = \<lparr>re_exists = (\<lambda>_. True), re_home = None, re_current_dir = None,
     re_resume_agents = True, re_now = (\<lambda>_. 7), re_clk = (\<lambda>_. 7), re_micros = (\<lambda>_. 500),
     re_import = (\<lambda>_ im. Some im), re_spawn = (\<lambda>_ _ _ _. Some 0), re_git_space = (\<lambda>_. None),
     re_git_label = (\<lambda>_ _. []), re_git_status_key = (\<lambda>dir _. dir), re_git_branch = (\<lambda>_. None)\<rparr>"

definition demo_state :: "nat restore_state" where
  "demo_state = \<lparr>rs_next_pane = 1, rs_next_terminal = 5, rs_next_workspace = 1, rs_resumed = {},
     rs_imports = []\<rparr>"

definition demo_agent_session :: pane_agent_session where
  "demo_agent_session = \<lparr>pa_source = ''osade:pi'', pa_agent = ''pi'', pa_kind = RefId, pa_value = ''s''\<rparr>"

definition demo_pane :: pane_snapshot where
  "demo_pane = \<lparr>sn_cwd = ''/'', sn_label = None, sn_agent_name = None, sn_managed_agent_kind = None,
     sn_agent_session = Some demo_agent_session, sn_launch_argv = None\<rparr>"

definition demo_tabs :: "tab_snapshot list" where
  "demo_tabs =
     [\<lparr>st_custom_name = None, st_layout = SplitSnapshot HorizontalSnapshot ratio_half (PaneSnapshot 8) (PaneSnapshot 9),
       st_panes = [(8, demo_pane), (9, demo_pane)], st_zoomed = False, st_focused = Some 9, st_root_pane = Some 8\<rparr>]"

definition demo_workspace :: workspace_snapshot where
  "demo_workspace = \<lparr>sw_id = Some ''w1'', sw_custom_name = None, sw_identity_cwd = ''/'',
     sw_worktree_space = None, sw_public_pane_numbers = [(8, 3)], sw_next_public_pane_number = 2,
     sw_public_tab_numbers = [2], sw_next_public_tab_number = 3, sw_tabs = demo_tabs, sw_active_tab = 1\<rparr>"

definition demo_session :: session_snapshot where
  "demo_session = \<lparr>se_version = 3, se_workspaces = [demo_workspace], se_active = None, se_selected = 0,
     se_sidebar_width = None, se_sidebar_section_split = None, se_collapsed_space_keys = {}\<rparr>"

text \<open>The first pane waits to resume the agent, the second one gets a shell.\<close>

definition demo_ref :: session_ref where
  "demo_ref = \<lparr>sr_kind = RefId, sr_value = ''s''\<rparr>"
definition demo_plan :: resume_plan where
  "demo_plan = \<lparr>rp_agent = ''pi'', rp_argv = [''pi'', ''--session'', ''s''],
     rp_dedupe_key = dedupe_key ''osade:pi'' ''pi'' demo_ref\<rparr>"

lemma demo_persisted: "persisted_agent_session_from_snapshot demo_agent_session =
   Some \<lparr>ps_source = ''osade:pi'', ps_agent = ''pi'', ps_session_ref = demo_ref\<rparr>"
  by code_simp
lemma demo_plan_eq: "restore_plan_for_snapshot demo_agent_session True = Some demo_plan"
  by (simp add: restore_plan_for_snapshot_def demo_persisted, simp add: demo_agent_session_def
    plan_def is_official_agent_source_def official_agent_sources_def resume_argv_def demo_plan_def demo_ref_def)

lemma demo_hex: "lower_hex 500 = ''1f4''" "lower_hex 5 = ''5''" "lower_hex 6 = ''6''"
  by (simp_all add: lower_hex.simps HEX_DIGITS_def)

definition demo_first :: terminal_state where
  "demo_first = pending_resume_terminal ''term_1f45'' ''/'' demo_plan None
    (Some \<lparr>ps_source = ''osade:pi'', ps_agent = ''pi'', ps_session_ref = demo_ref\<rparr>) None None (Some Pi) 7 7"
lemma demo_parse: "parse_agent_label ''pi'' = Some Pi" by code_simp

definition demo_second :: terminal_state where
  "demo_second = running_terminal ''term_1f46'' ''/'' False None None None None None None 7 7"

lemmas demo_pane_simps = restore_pane_def demo_pane_def demo_env_def pane_restore_startup_def
  demo_plan_eq restore_pending_pane_def restore_live_pane_def alloc_terminal_def terminal_id_alloc_def
  demo_hex usize_add_def restored_terminal_agent_session_def demo_persisted pane_cwd_def
  restored_cwd_def saved_managed_agent_def hm_remove_def

lemma demo_first_pane:
  assumes "hm_get (tc_old_ids ctx) i = Some o'" and "hm_get (tc_panes ctx) o' = Some demo_pane"
    and "rs_resumed st = {}" and "rs_next_terminal st = 5" and "rs_imports st = []"
  shows "restore_pane demo_env ctx i (st, rd) =
    (st\<lparr>rs_resumed := {rp_dedupe_key demo_plan}, rs_imports := [], rs_next_terminal := 6\<rparr>,
     add_pane i demo_first None rd)"
  using assms by (simp add: demo_pane_simps demo_first_def demo_plan_def demo_parse)

lemma demo_second_pane:
  assumes "hm_get (tc_old_ids ctx) i = Some o'" and "hm_get (tc_panes ctx) o' = Some demo_pane"
    and "rs_resumed st = {rp_dedupe_key demo_plan}" and "rs_next_terminal st = 6" and "rs_imports st = []"
  shows "restore_pane demo_env ctx i (st, rd) =
    (st\<lparr>rs_imports := [], rs_next_terminal := 7\<rparr>, add_pane i demo_second (Some 0) rd)"
  using assms by (simp add: demo_pane_simps demo_second_def)

lemma demo_ids: "ts_id demo_first = ''term_1f45''" "ts_id demo_second = ''term_1f46''"
  by (simp_all add: demo_first_def demo_second_def pending_resume_terminal_facts running_terminal_facts
      demo_plan_def demo_parse)

lemmas demo_session_simps = restore_with_imports_def restore_with_imports_and_failures_def
  demo_session_def restore_numbered_workspace_def restore_workspace_def demo_workspace_def demo_tabs_def
  restore_numbered_tab_def restore_tab_def restore_node_remapped_def pane_id_alloc_def demo_state_def
  demo_first_pane demo_second_pane hm_insert_def hm_get_def reverse_id_map_def
  migrated_public_pane_numbers_by_old_raw_def number_pane_def hm_contains_def finish_tab_def add_pane_def
  demo_ids pane_state_new_def resolve_restored_pane_def add_tab_def nth_opt_def publish_pane_def
  tl_pane_ids_def from_saved_def built_workspace_def hm_extend_def usize_add_def hm_keys_def hm_values_def
  next_public_number_def usize_checked_add_def usize_max_def

lemma demo_restored:
  "rx_terminals (fst (restore_with_imports demo_env demo_session None demo_state)) =
     [(''term_1f45'', demo_first), (''term_1f46'', demo_second)]"
  "map ws_public_pane_numbers (rx_workspaces (fst (restore_with_imports demo_env demo_session None demo_state))) =
     [[(1, 3), (2, 4)]]"
  by (simp_all add: demo_session_simps Let_def)

section \<open>Sessions\<close>

text \<open>Every split of the saved session has a ratio in the range the layout operations keep.\<close>

definition saved_ratios_ok :: "session_snapshot \<Rightarrow> bool" where
  "saved_ratios_ok snapshot \<longleftrightarrow>
     list_all (\<lambda>sw. list_all (\<lambda>snap. snapshot_ratios_ok (st_layout snap)) (sw_tabs sw)) (se_workspaces snapshot)"

text \<open>A tab whose panes are those of its well-formed layout.\<close>

definition tab_consistent :: "tab \<Rightarrow> bool" where
  "tab_consistent tb \<longleftrightarrow> layout_wf (tb_layout tb) \<and>
     hm_keys (tb_panes tb) = tl_pane_ids (tb_layout tb) \<and>
     tb_root_pane tb \<in> set (tl_pane_ids (tb_layout tb))"

lemma tab_ok_consistent:
  "tab_ok snap tb us \<Longrightarrow> snapshot_ratios_ok (st_layout snap) \<Longrightarrow> distinct (tl_pane_ids (tb_layout tb)) \<Longrightarrow>
     tab_consistent tb"
  by (auto simp: tab_consistent_def tab_ok_def layout_wf_def)

lemma restore_to_all:
  "restore_with_imports env snapshot hist st = (out, st') \<Longrightarrow>
     \<exists>failed. restore_with_imports_and_failures env snapshot hist st = ((out, failed), st')"
  by (auto simp: restore_with_imports_def split: prod.splits)

lemma session_room:
  assumes "progress env k st ids ts st'" and "unat (rs_next_pane st) + k \<le> 2 ^ 32" and "clock_steady env"
  shows "distinct ids" and "distinct (map ts_id ts)"
proof -
  show "distinct ids" using assms(1,2) distinct_subseq_fresh by (auto simp: progress_def)
  have "length ids \<le> k" using assms(1) list_emb_length by (fastforce simp: progress_def)
  moreover have "k \<le> 2 ^ 64" using assms(2) by simp
  ultimately have "length ts \<le> 2 ^ 64" using assms(1) by (simp add: progress_def)
  then show "distinct (map ts_id ts)"
    using assms(1,3) distinct_term_ids by (auto simp: progress_def)
qed

definition session_consistent :: "'rt restored_session \<Rightarrow> bool" where
  "session_consistent out \<longleftrightarrow>
     distinct (session_ids (rx_workspaces out)) \<and>
     list_all (\<lambda>ws. ws_active_tab ws < length (ws_tabs ws) \<and> list_all tab_consistent (ws_tabs ws))
       (rx_workspaces out) \<and>
     distinct (map (\<lambda>e. pn_attached_terminal_id (snd e)) (session_tab_panes (rx_workspaces out))) \<and>
     list_all (\<lambda>e. is_some_and (hm_get (rx_terminals out) (pn_attached_terminal_id (snd e)))
         (\<lambda>t. ts_id t = pn_attached_terminal_id (snd e) \<and> terminal_inv t \<and> ts_hook_authority t = None))
       (session_tab_panes (rx_workspaces out))"

lemma attached_panes_of:
  "length ids = length ts \<Longrightarrow>
     map (\<lambda>e. pn_attached_terminal_id (snd e)) (panes_of ids ts) = map ts_id ts"
  by (induction ids ts rule: list_induct2) (simp_all add: panes_of_def pane_state_new_def)

lemma distinct_concat_mem: "distinct (concat (map f xs)) \<Longrightarrow> x \<in> set xs \<Longrightarrow> distinct (f x)"
  by (auto simp: distinct_concat_iff)

lemma workspaces_consistent:
  assumes ok: "workspaces_ok (se_workspaces snapshot) wss ts" and rat: "saved_ratios_ok snapshot"
    and dist: "distinct (session_ids wss)"
  shows "list_all (\<lambda>ws. ws_active_tab ws < length (ws_tabs ws) \<and> list_all tab_consistent (ws_tabs ws)) wss"
  unfolding list_all_iff
proof (intro ballI conjI)
  fix ws assume ws: "ws \<in> set wss"
  with ok obtain sw us where sw: "sw \<in> set (se_workspaces snapshot)" "workspace_ok sw ws us"
    unfolding workspaces_ok_def by blast
  then show "ws_active_tab ws < length (ws_tabs ws)" by (simp add: workspace_ok_def)
  fix tb assume tb: "tb \<in> set (ws_tabs ws)"
  with sw(2) obtain snap vs where "snap \<in> set (sw_tabs sw)" "tab_ok snap tb vs"
    unfolding workspace_ok_def tabs_ok_def by blast
  moreover have "snapshot_ratios_ok (st_layout snap)"
    using rat sw(1) calculation(1) by (auto simp: saved_ratios_ok_def list_all_iff)
  moreover have "distinct (tl_pane_ids (tb_layout tb))"
    using distinct_concat_mem [OF distinct_concat_mem [OF dist ws] tb] .
  ultimately show "tab_consistent tb" by (blast intro: tab_ok_consistent)
qed

text \<open>
  C8: a restored session is consistent. All panes of all tabs have different ids, freshly drawn:
  they lie in the block of ids the counter of panes has moved over, one id for each saved pane, so
  that they clash with no pane allocated before and none allocated afterwards; every tab has a well-formed layout whose panes are exactly the panes the tab keeps, with its root pane among
  them, and every workspace an active tab; every pane is attached to a terminal of its own, which
  is in the session, satisfies the invariant of terminals and has no hook authority.
\<close>

theorem restored_session_consistent:
  assumes res: "restore_with_imports env snapshot hist st = (out, st')"
    and start: "rs_next_terminal st \<le> usize_max" and clock: "clock_steady env"
    and rat: "saved_ratios_ok snapshot"
    and room: "unat (rs_next_pane st) + session_panes (se_workspaces snapshot) \<le> 2 ^ 32"
  shows "session_consistent out \<and>
    list_all (\<lambda>i. unat (rs_next_pane st) \<le> unat i \<and>
        unat i < unat (rs_next_pane st) + session_panes (se_workspaces snapshot)) (session_ids (rx_workspaces out)) \<and>
    rs_next_pane st' = rs_next_pane st + word_of_nat (session_panes (se_workspaces snapshot))"
proof -
  from restore_to_all [OF res] obtain failed where
    all: "restore_with_imports_and_failures env snapshot hist st = ((out, failed), st')" ..
  from restore_all_progress [OF all start room] obtain ts
    where ts: "rx_terminals out = fold (\<lambda>t. hm_insert (ts_id t) t) ts []"
      and pr: "progress env (session_panes (se_workspaces snapshot)) (st\<lparr>rs_resumed := {}\<rparr>)
        (session_ids (rx_workspaces out)) ts st'"
      and ok: "workspaces_ok (se_workspaces snapshot) (rx_workspaces out) ts" .
  from room have "unat (rs_next_pane (st\<lparr>rs_resumed := {}\<rparr>)) +
    session_panes (se_workspaces snapshot) \<le> 2 ^ 32" by simp
  note dist = session_room [OF pr this clock]
  from ok have len: "length (session_ids (rx_workspaces out)) = length ts"
    and panes: "session_tab_panes (rx_workspaces out) = panes_of (session_ids (rx_workspaces out)) ts"
    by (auto simp: workspaces_ok_def)
  have "restored_ok t" if "t \<in> set ts" for t using pr that by (auto simp: progress_def)
  then have "is_some_and (hm_get (rx_terminals out) (ts_id t))
      (\<lambda>t'. ts_id t' = ts_id t \<and> terminal_inv t' \<and> ts_hook_authority t' = None)" if "t \<in> set ts" for t
    using that terminals_get [OF dist(2), of "ts_id t" t] by (simp add: ts restored_ok_def)
  then have "list_all (\<lambda>e. is_some_and (hm_get (rx_terminals out) (pn_attached_terminal_id (snd e)))
      (\<lambda>t. ts_id t = pn_attached_terminal_id (snd e) \<and> terminal_inv t \<and> ts_hook_authority t = None))
      (session_tab_panes (rx_workspaces out))"
    unfolding panes using len
    by (auto simp: list_all_iff panes_of_def pane_state_new_def dest!: set_zip_rightD)
  then have "session_consistent out"
    unfolding session_consistent_def panes attached_panes_of [OF len]
    using dist workspaces_consistent [OF ok rat dist(1)] by blast
  moreover have "set (session_ids (rx_workspaces out)) \<subseteq>
      set (fresh_ids (rs_next_pane st) (session_panes (se_workspaces snapshot)))"
  proof
    fix i assume i: "i \<in> set (session_ids (rx_workspaces out))"
    have "subseq (session_ids (rx_workspaces out)) (fresh_ids (rs_next_pane st) (session_panes (se_workspaces snapshot)))"
      using pr by (simp add: progress_def)
    then show "i \<in> set (fresh_ids (rs_next_pane st) (session_panes (se_workspaces snapshot)))"
      by (rule list_emb_set [OF _ i]) simp
  qed
  then have "list_all (\<lambda>i. unat (rs_next_pane st) \<le> unat i \<and>
      unat i < unat (rs_next_pane st) + session_panes (se_workspaces snapshot)) (session_ids (rx_workspaces out))"
    unfolding list_all_iff using set_fresh_ids [OF room] by blast
  moreover have "rs_next_pane st' = rs_next_pane st + word_of_nat (session_panes (se_workspaces snapshot))"
    using pr by (simp add: progress_def)
  ultimately show ?thesis by blast
qed

lemma demo_clock: "clock_steady demo_env"
  by (simp add: clock_steady_def demo_env_def)

lemma ratio_half_ok: "ratio_ok ratio_half"
  by (auto simp: ratio_ok_iff ratio_half_value intro!: exI [of _ "1 / 2"])

lemma demo_ratios: "saved_ratios_ok demo_session"
  by (simp add: saved_ratios_ok_def demo_session_def demo_workspace_def demo_tabs_def ratio_half_ok)

lemma demo_room: "unat (rs_next_pane demo_state) + session_panes (se_workspaces demo_session) \<le> 2 ^ 32"
  by (simp add: demo_state_def demo_session_def session_panes_def workspace_panes_def demo_workspace_def
      demo_tabs_def tab_panes_def)

lemma demo_start: "rs_next_terminal demo_state \<le> usize_max"
  by (simp add: demo_state_def usize_max_def)

theorem restored_session_consistent_witness:
  "session_consistent (fst (restore_with_imports demo_env demo_session None demo_state))"
proof -
  obtain out st' where r: "restore_with_imports demo_env demo_session None demo_state = (out, st')"
    by (cases "restore_with_imports demo_env demo_session None demo_state")
  from restored_session_consistent [OF r demo_start demo_clock demo_ratios demo_room] r
  show ?thesis by simp
qed

section \<open>Agent sessions\<close>

lemma pending_keys_mem:
  "t \<in> set ts \<Longrightarrow> ts_pending_agent_resume_plan t = Some p \<Longrightarrow> rp_dedupe_key p \<in> set (pending_keys ts)"
  by (force simp: pending_keys_def map_filter_def)

lemma pending_keys_distinct:
  assumes "distinct (pending_keys ts)" and "t \<in> set ts" and "t' \<in> set ts"
    and "ts_pending_agent_resume_plan t = Some p" and "ts_pending_agent_resume_plan t' = Some p'"
    and "rp_dedupe_key p = rp_dedupe_key p'"
  shows "t = t'"
  using assms
proof (induction ts)
  case Nil
  then show ?case by simp
next
  case (Cons u us)
  have keys: "pending_keys (u # us) = pending_keys [u] @ pending_keys us"
    using pending_keys_simps(2) [of "[u]" us] by (simp del: pending_keys_simps)
  have "distinct (pending_keys us)" using Cons.prems(1) unfolding keys by simp
  moreover have "v \<in> set us \<Longrightarrow> ts_pending_agent_resume_plan v = Some q \<Longrightarrow>
      ts_pending_agent_resume_plan u = Some q' \<Longrightarrow> rp_dedupe_key q \<noteq> rp_dedupe_key q'" for v q q'
    using Cons.prems(1) pending_keys_mem [of v us q] unfolding keys by auto
  ultimately show ?case using Cons.IH Cons.prems by (metis set_ConsD)
qed

text \<open>
  C9: no agent session is resumed twice. In a restored session, two terminals that wait to resume an
  agent with the same deduplication key are the same terminal, however often the session was
  saved; and each such terminal shows its agent as detected and idle.
\<close>

theorem sessions_resumed_once:
  assumes res: "restore_with_imports env snapshot hist st = (out, st')"
    and start: "rs_next_terminal st \<le> usize_max" and clock: "clock_steady env"
    and room: "unat (rs_next_pane st) + session_panes (se_workspaces snapshot) \<le> 2 ^ 32"
    and t: "hm_get (rx_terminals out) i = Some t" "ts_pending_agent_resume_plan t = Some p"
    and t': "hm_get (rx_terminals out) j = Some t'" "ts_pending_agent_resume_plan t' = Some p'"
    and key: "rp_dedupe_key p = rp_dedupe_key p'"
  shows "i = j \<and> t = t' \<and>
    is_none_or (parse_agent_label (rp_agent p)) (\<lambda>a. ts_detected_agent t = Some a \<and> ts_state t = Idle)"
proof -
  from restore_to_all [OF res] obtain failed where
    all: "restore_with_imports_and_failures env snapshot hist st = ((out, failed), st')" ..
  from restore_all_progress [OF all start room] obtain ts
    where ts: "rx_terminals out = fold (\<lambda>t. hm_insert (ts_id t) t) ts []"
      and pr: "progress env (session_panes (se_workspaces snapshot)) (st\<lparr>rs_resumed := {}\<rparr>)
        (session_ids (rx_workspaces out)) ts st'" by blast
  from room have "unat (rs_next_pane (st\<lparr>rs_resumed := {}\<rparr>)) +
    session_panes (se_workspaces snapshot) \<le> 2 ^ 32" by simp
  note dist = session_room(2) [OF pr this clock]
  have mem: "t \<in> set ts" "ts_id t = i" "t' \<in> set ts" "ts_id t' = j"
    using t(1) t'(1) terminals_get [OF dist] by (simp_all add: ts)
  moreover have "distinct (pending_keys ts)" and "restored_ok t"
    using pr mem(1) by (auto simp: progress_def)
  ultimately show ?thesis
    using pending_keys_distinct [of ts t t' p p'] t(2) t'(2) key
    by (auto simp: restored_ok_def is_none_or_iff)
qed



theorem sessions_resumed_once_witness:
  "ts_pending_agent_resume_plan demo_first = Some demo_plan \<and> ts_state demo_first = Idle"
proof -
  obtain out st' where r: "restore_with_imports demo_env demo_session None demo_state = (out, st')"
    by (cases "restore_with_imports demo_env demo_session None demo_state")
  have g: "hm_get (rx_terminals out) ''term_1f45'' = Some demo_first"
    using demo_restored(1) by (simp add: r hm_get_def)
  have p: "ts_pending_agent_resume_plan demo_first = Some demo_plan"
    by (simp add: demo_first_def pending_resume_terminal_facts demo_plan_def demo_parse)
  from sessions_resumed_once [OF r demo_start demo_clock demo_room g p g p refl] p
  show ?thesis by (simp add: demo_plan_def demo_parse)
qed

text \<open>
  an agent's session survives a restart. The session saved with a pane is the one its terminal has
  again after the pane is restored with resuming enabled: a capture of the new terminal saves the
  same session, the terminal waits with the plan that resumes it and shows its agent as idle, and no
  runtime is started.
\<close>

lemma agent_session_survives:
  assumes step: "restore_pane env ctx i (st, rd) = (st', rd')"
    and old: "hm_get (tc_old_ids ctx) i = Some o'"
    and saved: "hm_get (tc_panes ctx) o' = Some (capture_pane rc cd terminals tb o')"
    and pane: "hm_get (tb_panes tb) o' = Some pane"
      "hm_get terminals (pn_attached_terminal_id pane) = Some t" "captured_agent_session t = Some s"
    and valid: "persisted_agent_session_from_snapshot s = Some ps" and on: "re_resume_agents env"
    and fresh: "dedupe_key (pa_source s) (pa_agent s) (ps_session_ref ps) \<notin> rs_resumed st"
    and own: "hm_get (rs_imports st) o' = None"
  shows "\<exists>t' p. rd_terminals rd' = rd_terminals rd @ [t'] \<and> rd_runtimes rd' = rd_runtimes rd \<and>
    captured_agent_session t' = Some s \<and> ts_pending_agent_resume_plan t' = Some p \<and>
    plan False (pa_source s) (pa_agent s) (ps_session_ref ps) = Some p \<and>
    is_none_or (parse_agent_label (pa_agent s)) (\<lambda>a. ts_detected_agent t' = Some a \<and> ts_state t' = Idle)"
proof -
  have ps: "is_official_agent_source (pa_source s) (pa_agent s)"
    "pa_kind s = RefId \<or> pa_agent s = ''pi'' \<or> pa_agent s = ''omp''"
    "ps = \<lparr>ps_source = pa_source s, ps_agent = pa_agent s,
       ps_session_ref = \<lparr>sr_kind = pa_kind s, sr_value = pa_value s\<rparr>\<rparr>"
    using snapshot_cases [OF valid [unfolded persisted_agent_session_from_snapshot_def]] by simp_all
  then have "plan False (pa_source s) (pa_agent s) (ps_session_ref ps) \<noteq> None"
    using official_plan_by_id official_plan_by_path by fastforce
  then obtain p where p: "plan False (pa_source s) (pa_agent s) (ps_session_ref ps) = Some p" by blast
  then have key: "rp_dedupe_key p \<notin> rs_resumed st" and agent: "rp_agent p = pa_agent s"
    using fresh by (auto simp: plan_def split: if_splits)
  have "sn_agent_session (capture_pane rc cd terminals tb o') = Some s"
    using pane by (simp add: capture_pane_def Let_def)
  then have "restore_pending_pane env i (Some (capture_pane rc cd terminals tb o')) p (Some ps)
      (st\<lparr>rs_resumed := insert (rp_dedupe_key p) (rs_resumed st),
         rs_imports := hm_remove o' (rs_imports st)\<rparr>) rd = (st', rd')"
    using step old saved on valid p key own
    by (simp add: restore_pane_def pane_restore_startup_def restore_plan_for_snapshot_def
        restored_terminal_agent_session_def Let_def)
  from restore_pending_facts [OF this] obtain t' where t': "restored_ok t'"
    "rd' = add_pane i t' None rd" "ts_pending_agent_resume_plan t' = Some p"
    "ts_persisted_agent_session t' = Some ps" by metis
  have "captured_agent_session t' = Some s"
    using t' ps(3) by (simp add: captured_agent_session_def restored_ok_def)
  then show ?thesis
    using t' p agent by (auto simp: add_pane_def restored_ok_def is_none_or_iff)
qed

definition demo_terminal :: terminal_state where
  "demo_terminal = set_persisted_agent_session
     \<lparr>ps_source = ''osade:pi'', ps_agent = ''pi'', ps_session_ref = demo_ref\<rparr> (ts_new ''t'' ''/'')"

definition demo_tab :: tab where
  "demo_tab = \<lparr>tb_custom_name = Some ''work'', tb_number = 1, tb_root_pane = 8,
     tb_layout = \<lparr>tl_root = Split Horizontal ratio_half (Pane 8) (Pane 9), tl_focus = 9, tl_prev_focus = Some 8\<rparr>,
     tb_panes = [(8, pane_state_new ''t''), (9, pane_state_new ''u'')], tb_zoomed = False\<rparr>"

definition demo_context :: tab_context where
  "demo_context = \<lparr>tc_panes = st_panes (capture_tab (\<lambda>_. None) None [(''t'', demo_terminal)] demo_tab),
     tc_history = None, tc_number = 1, tc_workspace_id = ''w1'', tc_old_ids = [(1, 8), (2, 9)], tc_public_ids = []\<rparr>"

lemma demo_context_gets:
  "hm_get (tc_old_ids demo_context) 1 = Some 8"
  "hm_get (tc_panes demo_context) 8 = Some (capture_pane (\<lambda>_. None) None [(''t'', demo_terminal)] demo_tab 8)"
  by (simp_all add: demo_context_def capture_tab_def demo_tab_def hm_get_def hm_keys_def hm_insert_def)

lemma demo_tab_gets:
  "hm_get (tb_panes demo_tab) 8 = Some (pane_state_new ''t'')"
  "hm_get [(''t'', demo_terminal)] (pn_attached_terminal_id (pane_state_new ''t'')) = Some demo_terminal"
  "captured_agent_session demo_terminal = Some demo_agent_session"
  by (simp_all add: demo_tab_def hm_get_def pane_state_new_def captured_agent_session_def demo_terminal_def
      set_persisted_agent_session_def ts_new_def demo_agent_session_def demo_ref_def)

lemma agent_session_survives_witness:
  "\<exists>t' st' rd'. restore_pane demo_env demo_context 1 (demo_state,
      \<lparr>rd_panes = [], rd_terminals = [], rd_runtimes = [], rd_failed_imports = 0\<rparr>) = (st', rd') \<and>
    rd_terminals rd' = [t'] \<and> captured_agent_session t' = Some demo_agent_session \<and> ts_state t' = Idle"
proof -
  define rd :: "nat restored_panes"
    where "rd = \<lparr>rd_panes = [], rd_terminals = [], rd_runtimes = [], rd_failed_imports = 0\<rparr>"
  obtain st' rd' where r: "restore_pane demo_env demo_context 1 (demo_state, rd) = (st', rd')"
    by (cases "restore_pane demo_env demo_context 1 (demo_state, rd)")
  have "re_resume_agents demo_env" by (simp add: demo_env_def)
  moreover have "dedupe_key (pa_source demo_agent_session) (pa_agent demo_agent_session)
      (ps_session_ref \<lparr>ps_source = ''osade:pi'', ps_agent = ''pi'', ps_session_ref = demo_ref\<rparr>)
      \<notin> rs_resumed demo_state" and "hm_get (rs_imports demo_state) 8 = None"
    by (simp_all add: demo_state_def)
  ultimately show ?thesis
    using agent_session_survives [OF r demo_context_gets demo_tab_gets demo_persisted] r
    by (auto simp: rd_def demo_agent_session_def demo_parse)
qed

section \<open>Layouts\<close>

text \<open>
  C10: a tab survives a restart. When a captured tab with a well-formed layout is restored and every
  pane gets its runtime, the map of old ids turns the new layout into the old one: the same splits,
  directions, ratios and panes, the same focused pane and the same root pane.
\<close>

theorem tab_survives_restart:
  assumes "restore_tab env (capture_tab rc cd terminals tb) hist num ws pub st = ((res, failed), st')"
    and "layout_wf (tb_layout tb)" and "tb_root_pane tb \<in> set (tl_pane_ids (tb_layout tb))"
    and "spawns env" and "rs_imports st = []"
    and "unat (rs_next_pane st) + length (tl_pane_ids (tb_layout tb)) \<le> 2 ^ 32"
  shows "\<exists>r. res = Some r \<and>
    rename_panes (\<lambda>i. the (hm_get (rt_old_ids r) i)) (capture_node (tl_root (tb_layout (rt_tab r)))) =
      capture_node (tl_root (tb_layout tb)) \<and>
    hm_get (rt_old_ids r) (tl_focus (tb_layout (rt_tab r))) = Some (tl_focus (tb_layout tb)) \<and>
    hm_get (rt_old_ids r) (tb_root_pane (rt_tab r)) = Some (tb_root_pane tb) \<and>
    tb_custom_name (rt_tab r) = tb_custom_name tb \<and> tb_zoomed (rt_tab r) = tb_zoomed tb"
  using restored_tab_facts [OF assms] .

lemma demo_spawns: "spawns demo_env"
  by (simp add: spawns_def demo_env_def)

theorem tab_survives_restart_witness:
  "\<exists>r. fst (fst (restore_tab demo_env (capture_tab (\<lambda>_. None) None [] demo_tab) None 1 ''w1'' [] demo_state)) = Some r \<and>
     hm_get (rt_old_ids r) (tl_focus (tb_layout (rt_tab r))) = Some 9"
proof -
  obtain res failed st' where r: "restore_tab demo_env (capture_tab (\<lambda>_. None) None [] demo_tab) None 1 ''w1''
      [] demo_state = ((res, failed), st')" by (metis prod.exhaust)
  have "layout_wf (tb_layout demo_tab)" "tb_root_pane demo_tab \<in> set (tl_pane_ids (tb_layout demo_tab))"
    "unat (rs_next_pane demo_state) + length (tl_pane_ids (tb_layout demo_tab)) \<le> 2 ^ 32"
    by (simp_all add: demo_tab_def layout_wf_def tl_pane_ids_def ratio_half_ok demo_state_def)
  moreover have "rs_imports demo_state = []" by (simp add: demo_state_def)
  ultimately obtain t where "res = Some t"
    "hm_get (rt_old_ids t) (tl_focus (tb_layout (rt_tab t))) = Some (tl_focus (tb_layout demo_tab))"
    using tab_survives_restart [OF r _ _ demo_spawns] by blast
  moreover have "tl_focus (tb_layout demo_tab) = 9" by (simp add: demo_tab_def)
  ultimately show ?thesis unfolding r fst_conv by simp
qed

section \<open>Public numbers\<close>

text \<open>
  C11: the public numbers of panes survive a restart. In a restored workspace every pane has a public
  number, no two panes share one, and each is below the next number to be given out; the panes stand
  for saved panes in their order, and a pane whose number was saved has that number again.
\<close>

theorem public_pane_numbers_kept:
  assumes res: "restore_workspace env sw hist st = ((Some r, failed), st')"
    and start: "rs_next_terminal st \<le> usize_max"
    and room: "unat (rs_next_pane st) + workspace_panes sw < 2 ^ 32"
    and saved: "distinct (saved_ids sw)" "saved_numbers_ok sw"
  shows "hm_keys (ws_public_pane_numbers (rw_workspace r)) = workspace_ids (rw_workspace r) \<and>
    distinct (hm_values (ws_public_pane_numbers (rw_workspace r))) \<and>
    list_all (\<lambda>n. n < ws_next_public_pane_number (rw_workspace r))
      (hm_values (ws_public_pane_numbers (rw_workspace r))) \<and>
    (\<exists>olds. subseq olds (saved_ids sw) \<and>
      list_all2 (\<lambda>i n. is_none_or (hm_get (sw_public_pane_numbers sw) i) (\<lambda>m. n = m)) olds
        (hm_values (ws_public_pane_numbers (rw_workspace r))))"
proof -
  from workspace_numbers [OF assms] obtain bn nxt olds where bn: "numbers_ok bn nxt" "numbered bn (saved_ids sw)"
    and keep: "\<forall>k n. hm_get (sw_public_pane_numbers sw) k = Some n \<longrightarrow> hm_get bn k = Some n"
    and olds: "subseq olds (saved_ids sw)" "length olds = length (workspace_ids (rw_workspace r))"
    and pub: "ws_public_pane_numbers (rw_workspace r) =
      zip (workspace_ids (rw_workspace r)) (map (number_of bn) olds)"
    and below: "list_all (\<lambda>oid. number_of bn oid < ws_next_public_pane_number (rw_workspace r)) olds"
    by blast
  have "hm_keys (ws_public_pane_numbers (rw_workspace r)) = workspace_ids (rw_workspace r)"
    and vals: "hm_values (ws_public_pane_numbers (rw_workspace r)) = map (number_of bn) olds"
    using olds(2) by (simp_all add: pub hm_keys_def hm_values_def)
  moreover have get: "hm_get bn i = Some (number_of bn i)" if "i \<in> set olds" for i
    using numbered_get [OF numbered_subseq [OF olds(1) bn(2)] that] by blast
  have "inj_on (number_of bn) (set olds)"
    using numbers_ok_inj [OF bn(1)] get by (auto intro!: inj_onI)
  moreover have "distinct olds" using subseq_filter_set [OF olds(1) saved(1)] saved(1) by (metis distinct_filter)
  moreover have "is_none_or (hm_get (sw_public_pane_numbers sw) i) (\<lambda>m. number_of bn i = m)"
    if "i \<in> set olds" for i using keep get [OF that] by (auto simp: is_none_or_iff)
  ultimately show ?thesis
    using below olds(1) by (auto simp: vals distinct_map list_all_iff list_all2_conv_all_nth intro!: exI [of _ olds])
qed

lemma demo_numbers:
  "map_option (\<lambda>r. hm_values (ws_public_pane_numbers (rw_workspace r)))
     (fst (fst (restore_workspace demo_env demo_workspace None demo_state))) = Some [3, 4]"
  by (simp add: demo_session_simps Let_def)

theorem public_pane_numbers_kept_witness:
  "\<exists>r. fst (fst (restore_workspace demo_env demo_workspace None demo_state)) = Some r \<and>
     hm_values (ws_public_pane_numbers (rw_workspace r)) = [3, 4] \<and>
     3 < ws_next_public_pane_number (rw_workspace r)"
proof -
  obtain res failed st' where r: "restore_workspace demo_env demo_workspace None demo_state = ((res, failed), st')"
    by (metis prod.exhaust)
  then obtain t where t: "res = Some t" "hm_values (ws_public_pane_numbers (rw_workspace t)) = [3, 4]"
    using demo_numbers by auto
  have "unat (rs_next_pane demo_state) + workspace_panes demo_workspace < 2 ^ 32"
    by (simp add: demo_state_def workspace_panes_def demo_workspace_def demo_tabs_def tab_panes_def)
  moreover have "distinct (saved_ids demo_workspace)" "saved_numbers_ok demo_workspace"
    by (simp_all add: saved_ids_def saved_numbers_ok_def demo_workspace_def demo_tabs_def hm_wf_def hm_keys_def
        hm_values_def next_public_number_def workspace_panes_def tab_panes_def usize_checked_add_def usize_max_def)
  ultimately show ?thesis
    using public_pane_numbers_kept [OF r [unfolded t(1)] demo_start] t unfolding r by simp
qed

text \<open>
  public numbers are read back. Reading a written number gives the number, and a text that is
  read as a positive number is the one that is written for it: every public number that a
  workspace or pane can have has exactly one name, so different numbers name different panes.
\<close>

lemma public_numbers_roundtrip:
  assumes "0 < n" and "n \<le> usize_max"
  shows "decode_public_number (encode_public_number n) = Some n \<and>
    (decode_public_number s = Some n \<longrightarrow> s = encode_public_number n) \<and>
    public_workspace_number (fst (generate_workspace_id n)) = Some n \<and>
    (0 < m \<and> public_pane_id_for_number w m = public_pane_id_for_number w n \<longrightarrow> m = n)"
proof -
  have rt: "decode_public_number (encode_public_number n) = Some n"
    using assms by (simp add: encode_public_digits decode_public_number_def decode_encode_digits)
  moreover have "decode_public_number s = Some n \<Longrightarrow> s = encode_public_number n"
    using assms decode_fromD by (simp add: encode_public_digits decode_public_number_def)
  moreover have "public_workspace_number (fst (generate_workspace_id n)) = Some n"
    using rt by (simp add: public_workspace_number_def generate_workspace_id_def strip_prefix_def
        starts_with_def)
  moreover have "m = n" if "0 < m" "public_pane_id_for_number w m = public_pane_id_for_number w n"
    using that assms encode_digits_inj by (simp add: public_pane_id_for_number_def encode_public_digits)
  ultimately show ?thesis by blast
qed

lemma public_numbers_roundtrip_witness:
  "encode_public_number 33 = ''11'' \<and> decode_public_number ''11'' = Some 33"
proof -
  have "decode_public_number ''11'' = Some 33"
    by (simp add: decode_public_number_def PUBLIC_ID_ALPHABET_def usize_checked_mul_def
        usize_checked_add_def usize_max_def)
  with public_numbers_roundtrip [of 33 "''11''"] show ?thesis by (auto simp: usize_max_def)
qed

end
