(* ===== verification/Workspaces.thy ===== *)
theory Workspaces
  imports Tabs
begin

text \<open>
  Workspaces (\<open>workspace.rs\<close>): the tabs of a workspace, its active tab, and the public numbers of
  its tabs and panes. Operations that may reach a panic of the layout return an option; a panic
  for a workspace without tabs (\<open>expect\<close>) is \<open>None\<close> as well.
\<close>

section \<open>Lookup\<close>

definition active_tab :: "workspace \<Rightarrow> tab option" where
  "active_tab ws = nth_opt (ws_tabs ws) (ws_active_tab ws)"

definition find_tab_index_for_pane :: "workspace \<Rightarrow> pane_id \<Rightarrow> nat option" where
  "find_tab_index_for_pane ws i = position (\<lambda>tb. hm_contains (tb_panes tb) i) (ws_tabs ws)"

fun find_map :: "('a \<Rightarrow> 'b option) \<Rightarrow> 'a list \<Rightarrow> 'b option" where
  "find_map f [] = None"
| "find_map f (x # xs) = (case f x of Some y \<Rightarrow> Some y | None \<Rightarrow> find_map f xs)"

definition ws_pane_state :: "workspace \<Rightarrow> pane_id \<Rightarrow> pane_state option" where
  "ws_pane_state ws i = find_map (\<lambda>tb. hm_get (tb_panes tb) i) (ws_tabs ws)"

definition ws_terminal_id :: "workspace \<Rightarrow> pane_id \<Rightarrow> string option" where
  "ws_terminal_id ws i = find_map (\<lambda>tb. tab_terminal_id tb i) (ws_tabs ws)"

definition focused_pane_id :: "workspace \<Rightarrow> pane_id option" where
  "focused_pane_id ws = map_option (\<lambda>tb. tl_focus (tb_layout tb)) (active_tab ws)"

definition public_pane_number :: "workspace \<Rightarrow> pane_id \<Rightarrow> usize option" where
  "public_pane_number ws i = hm_get (ws_public_pane_numbers ws) i"

definition public_tab_number :: "workspace \<Rightarrow> nat \<Rightarrow> usize option" where
  "public_tab_number ws tab_idx = map_option tb_number (nth_opt (ws_tabs ws) tab_idx)"

section \<open>Public numbers\<close>

definition register_new_pane_with_number :: "pane_id \<Rightarrow> usize \<Rightarrow> workspace \<Rightarrow> workspace" where
  "register_new_pane_with_number i number ws =
     ws\<lparr>ws_public_pane_numbers := hm_insert i number (ws_public_pane_numbers ws),
        ws_next_public_pane_number := max (ws_next_public_pane_number ws) (usize_add number 1)\<rparr>"

definition unregister_pane :: "pane_id \<Rightarrow> workspace \<Rightarrow> workspace" where
  "unregister_pane i ws = ws\<lparr>ws_public_pane_numbers := hm_remove i (ws_public_pane_numbers ws)\<rparr>"

definition unregister_moved_pane :: "pane_id \<Rightarrow> workspace \<Rightarrow> workspace" where
  "unregister_moved_pane i ws = unregister_pane i ws"

definition launch_env_for_new_pane ::
  "workspace \<Rightarrow> usize \<Rightarrow> usize \<Rightarrow> (string \<times> string) list \<Rightarrow> launch_env" where
  "launch_env_for_new_pane ws tab_number pane_number extra_env =
     with_identity (ws_id ws) (public_tab_id_for_number (ws_id ws) tab_number)
       (public_pane_id_for_number (ws_id ws) pane_number) (from_extra extra_env)"

definition ws_set_custom_name :: "string \<Rightarrow> workspace \<Rightarrow> workspace" where
  "ws_set_custom_name name ws = ws\<lparr>ws_custom_name := Some name\<rparr>"

section \<open>Creating a workspace\<close>

text \<open>The part both constructors share: one tab with one pane, both with number 1.\<close>

definition fresh_workspace ::
  "('e, 'rt) host \<Rightarrow> string \<Rightarrow> string option \<Rightarrow> string \<Rightarrow> tab \<Rightarrow> workspace" where
  "fresh_workspace host i label cwd tb =
     (let space = ho_git_space host cwd
      in \<lparr>ws_id = i, ws_custom_name = label, ws_identity_cwd = cwd, ws_cached_identity_cwd = cwd,
          ws_cached_auto_label = ho_git_label host cwd space,
          ws_cached_git_status_key = ho_git_status_key host cwd space,
          ws_cached_git_branch = ho_git_branch host cwd, ws_cached_git_ahead_behind = None,
          ws_cached_git_space = space, ws_worktree_space = None, ws_metadata_tokens = [],
          ws_metadata_token_sequences = [],
          ws_public_pane_numbers = hm_insert (tb_root_pane tb) 1 [],
          ws_next_public_pane_number = 2, ws_next_public_tab_number = 2, ws_tabs = [tb],
          ws_active_tab = 0\<rparr>)"

definition counted_workspace_id :: "id_counters \<Rightarrow> string \<times> id_counters" where
  "counted_workspace_id ctr =
     (let (i, nxt) = generate_workspace_id (ic_next_workspace ctr)
      in (i, ctr\<lparr>ic_next_workspace := nxt\<rparr>))"

definition ws_from_existing_pane ::
  "('e, 'rt) host \<Rightarrow> string option \<Rightarrow> string option \<Rightarrow> string \<Rightarrow> moved_pane \<Rightarrow> id_counters \<Rightarrow>
    workspace \<times> id_counters" where
  "ws_from_existing_pane host label tab_label identity_cwd moved ctr =
     (let (i, ctr1) = counted_workspace_id ctr;
          tb = tab_from_existing_pane 1 tab_label moved
      in (fresh_workspace host i label identity_cwd tb, ctr1))"

definition ws_new_with_tab ::
  "('e, 'rt) host \<Rightarrow> string \<Rightarrow> string list option \<Rightarrow> (string \<times> string) list \<Rightarrow> id_counters \<Rightarrow>
    ('e + workspace \<times> terminal_state \<times> 'rt) \<times> id_counters" where
  "ws_new_with_tab host initial_cwd argv extra_env ctr =
     (let (i, ctr1) = counted_workspace_id ctr;
          env = with_identity i (public_tab_id_for_number i 1) (public_pane_id_for_number i 1)
            (from_extra extra_env);
          (made, ctr2) = (case argv of
              Some a \<Rightarrow> tab_new_argv_command host 1 initial_cwd a env ctr1
            | None \<Rightarrow> tab_new host 1 initial_cwd env ctr1)
      in case made of
           Inl e \<Rightarrow> (Inl e, ctr2)
         | Inr (tb, terminal, runtime) \<Rightarrow>
             (Inr (fresh_workspace host i None initial_cwd tb, terminal, runtime), ctr2))"

definition ws_new ::
  "('e, 'rt) host \<Rightarrow> string \<Rightarrow> id_counters \<Rightarrow>
    ('e + workspace \<times> terminal_state \<times> 'rt) \<times> id_counters" where
  "ws_new host initial_cwd ctr = ws_new_with_tab host initial_cwd None [] ctr"

definition ws_new_with_extra_env ::
  "('e, 'rt) host \<Rightarrow> string \<Rightarrow> (string \<times> string) list \<Rightarrow> id_counters \<Rightarrow>
    ('e + workspace \<times> terminal_state \<times> 'rt) \<times> id_counters" where
  "ws_new_with_extra_env host initial_cwd extra_env ctr =
     (if extra_env = [] then ws_new host initial_cwd ctr
      else ws_new_with_tab host initial_cwd None extra_env ctr)"

section \<open>Tabs of a workspace\<close>

definition see_all :: "tab \<Rightarrow> tab" where
  "see_all tb = tb\<lparr>tb_panes := hm_map_values (\<lambda>_ pane. pane\<lparr>pn_seen := True\<rparr>) (tb_panes tb)\<rparr>"

definition switch_tab :: "nat \<Rightarrow> workspace \<Rightarrow> workspace" where
  "switch_tab idx ws =
     (if idx < length (ws_tabs ws)
      then ws\<lparr>ws_active_tab := idx, ws_tabs := (ws_tabs ws)[idx := see_all (ws_tabs ws ! idx)]\<rparr>
      else ws)"

definition create_tab_with_runtime ::
  "('e, 'rt) host \<Rightarrow> string \<Rightarrow> string list option \<Rightarrow> (string \<times> string) list \<Rightarrow> workspace \<Rightarrow>
    id_counters \<Rightarrow> (workspace \<times> ('e + nat \<times> terminal_state \<times> 'rt) \<times> id_counters) option" where
  "create_tab_with_runtime host cwd argv extra_env ws ctr =
     (let number = ws_next_public_tab_number ws;
          ws1 = ws\<lparr>ws_next_public_tab_number := usize_add number 1\<rparr>;
          pane_number = ws_next_public_pane_number ws1;
          env = launch_env_for_new_pane ws1 number pane_number extra_env
      in case active_tab ws1 of
           None \<Rightarrow> None
         | Some _ \<Rightarrow>
             let (made, ctr1) = (case argv of
                     Some a \<Rightarrow> tab_new_argv_command host number cwd a env ctr
                   | None \<Rightarrow> tab_new host number cwd env ctr)
             in case made of
                  Inl e \<Rightarrow> Some (ws1, Inl e, ctr1)
                | Inr (tb, terminal, runtime) \<Rightarrow>
                    let ws2 = register_new_pane_with_number (tb_root_pane tb) pane_number ws1;
                        ws3 = ws2\<lparr>ws_tabs := ws_tabs ws2 @ [tb]\<rparr>
                    in Some (ws3, Inr (length (ws_tabs ws3) - 1, terminal, runtime), ctr1))"

definition create_tab ::
  "('e, 'rt) host \<Rightarrow> string \<Rightarrow> (string \<times> string) list \<Rightarrow> workspace \<Rightarrow> id_counters \<Rightarrow>
    (workspace \<times> ('e + nat \<times> terminal_state \<times> 'rt) \<times> id_counters) option" where
  "create_tab host cwd extra_env ws ctr = create_tab_with_runtime host cwd None extra_env ws ctr"

definition create_tab_argv_command ::
  "('e, 'rt) host \<Rightarrow> string \<Rightarrow> string list \<Rightarrow> (string \<times> string) list \<Rightarrow> workspace \<Rightarrow> id_counters \<Rightarrow>
    (workspace \<times> ('e + nat \<times> terminal_state \<times> 'rt) \<times> id_counters) option" where
  "create_tab_argv_command host cwd argv extra_env ws ctr =
     create_tab_with_runtime host cwd (Some argv) extra_env ws ctr"

text \<open>The active tab after the tab at \<open>removed_idx\<close> is gone.\<close>

definition adjust_active_tab_after_removal :: "nat \<Rightarrow> workspace \<Rightarrow> workspace" where
  "adjust_active_tab_after_removal removed_idx ws =
     (if ws_tabs ws = [] then ws\<lparr>ws_active_tab := 0\<rparr>
      else if length (ws_tabs ws) \<le> ws_active_tab ws then ws\<lparr>ws_active_tab := length (ws_tabs ws) - 1\<rparr>
      else if removed_idx \<le> ws_active_tab ws \<and> 0 < ws_active_tab ws
        then ws\<lparr>ws_active_tab := ws_active_tab ws - 1\<rparr>
      else ws)"

definition close_tab :: "nat \<Rightarrow> workspace \<Rightarrow> workspace \<times> bool" where
  "close_tab idx ws =
     (if length (ws_tabs ws) \<le> 1 \<or> length (ws_tabs ws) \<le> idx then (ws, False)
      else let tb = ws_tabs ws ! idx;
               ws1 = fold unregister_pane (hm_keys (tb_panes tb)) (ws\<lparr>ws_tabs := vec_remove idx (ws_tabs ws)\<rparr>)
           in (if length (ws_tabs ws1) \<le> ws_active_tab ws1
               then ws1\<lparr>ws_active_tab := length (ws_tabs ws1) - 1\<rparr>
               else if idx \<le> ws_active_tab ws1 \<and> 0 < ws_active_tab ws1
                 then ws1\<lparr>ws_active_tab := ws_active_tab ws1 - 1\<rparr>
               else ws1, True))"

definition move_tab :: "nat \<Rightarrow> nat \<Rightarrow> workspace \<Rightarrow> workspace \<times> bool" where
  "move_tab source_idx insert_idx ws =
     (if length (ws_tabs ws) \<le> source_idx \<or> length (ws_tabs ws) < insert_idx then (ws, False)
      else let target_idx = min (if source_idx < insert_idx then insert_idx - 1 else insert_idx)
                 (length (ws_tabs ws) - 1)
           in if source_idx = target_idx then (ws, False)
              else let active_root_pane = map_option tb_root_pane (active_tab ws);
                       tabs = vec_insert target_idx (ws_tabs ws ! source_idx)
                         (vec_remove source_idx (ws_tabs ws))
                   in (ws\<lparr>ws_tabs := tabs,
                          ws_active_tab := unwrap_or
                            (Option.bind active_root_pane (\<lambda>r. position (\<lambda>tb. tb_root_pane tb = r) tabs))
                            target_idx\<rparr>, True))"

section \<open>Splitting panes\<close>

definition ws_split_focused_command ::
  "('e, 'rt) host \<Rightarrow> direction \<Rightarrow> string option \<Rightarrow> string \<Rightarrow> (string \<times> string) list \<Rightarrow> workspace \<Rightarrow>
    id_counters \<Rightarrow> (workspace \<times> ('e split_error + 'rt new_pane) \<times> id_counters) option" where
  "ws_split_focused_command host direction cwd command extra_env ws ctr =
     Option.bind (active_tab ws) (\<lambda>tb.
       let pane_number = ws_next_public_pane_number ws;
           env = launch_env_for_new_pane ws (tb_number tb) pane_number extra_env
       in map_option (\<lambda>(tb', res, ctr').
            let ws1 = ws\<lparr>ws_tabs := (ws_tabs ws)[ws_active_tab ws := tb']\<rparr>
            in case res of
                 Inl e \<Rightarrow> (ws1, Inl e, ctr')
               | Inr new_pane \<Rightarrow>
                   (register_new_pane_with_number (np_pane_id new_pane) pane_number ws1, Inr new_pane, ctr'))
            (tab_split_focused_command host direction cwd command env tb ctr))"

text \<open>The outer option is a panic, the inner one a pane that is not in the workspace.\<close>

definition ws_split_pane_with_runtime ::
  "('e, 'rt) host \<Rightarrow> pane_id \<Rightarrow> direction \<Rightarrow> f32 option \<Rightarrow> string option \<Rightarrow> (string \<times> string) list \<Rightarrow>
    bool \<Rightarrow> string list option \<Rightarrow> workspace \<Rightarrow> id_counters \<Rightarrow>
    (workspace \<times> ('e split_error + nat \<times> 'rt new_pane) option \<times> id_counters) option" where
  "ws_split_pane_with_runtime host i direction ratio cwd extra_env focus_new_pane argv ws ctr =
     (case find_tab_index_for_pane ws i of
        None \<Rightarrow> Some (ws, None, ctr)
      | Some tab_idx \<Rightarrow>
          let pane_number = ws_next_public_pane_number ws;
              tb = ws_tabs ws ! tab_idx;
              env = launch_env_for_new_pane ws (tb_number tb) pane_number extra_env
          in map_option (\<lambda>(tb', res, ctr').
               let ws1 = ws\<lparr>ws_tabs := (ws_tabs ws)[tab_idx := tb']\<rparr>
               in case res of
                    Inl e \<Rightarrow> (ws1, Some (Inl e), ctr')
                  | Inr new_pane \<Rightarrow>
                      (register_new_pane_with_number (np_pane_id new_pane) pane_number ws1,
                       Some (Inr (tab_idx, new_pane)), ctr'))
               (case argv of
                  Some a \<Rightarrow> tab_split_pane_argv host i focus_new_pane direction ratio cwd a env tb ctr
                | None \<Rightarrow> tab_split_pane_shell host i focus_new_pane direction ratio cwd env tb ctr))"

section \<open>Removing panes\<close>

text \<open>Returns \<open>True\<close> when the workspace should close; it is unchanged then.\<close>

definition ws_remove_pane :: "pane_id \<Rightarrow> workspace \<Rightarrow> (workspace \<times> bool) option" where
  "ws_remove_pane i ws =
     (case find_tab_index_for_pane ws i of
        None \<Rightarrow> Some (ws, False)
      | Some tab_idx \<Rightarrow>
          if tl_pane_count (tb_layout (ws_tabs ws ! tab_idx)) \<le> 1 then
            if length (ws_tabs ws) \<le> 1 then Some (ws, True)
            else let ws1 = unregister_pane i (ws\<lparr>ws_tabs := vec_remove tab_idx (ws_tabs ws)\<rparr>)
                 in Some (if length (ws_tabs ws1) \<le> ws_active_tab ws1
                          then ws1\<lparr>ws_active_tab := length (ws_tabs ws1) - 1\<rparr>
                          else if tab_idx \<le> ws_active_tab ws1 \<and> 0 < ws_active_tab ws1
                            then ws1\<lparr>ws_active_tab := ws_active_tab ws1 - 1\<rparr>
                          else ws1, False)
          else map_option (\<lambda>(tb, removed).
                 let ws1 = ws\<lparr>ws_tabs := (ws_tabs ws)[tab_idx := tb]\<rparr>
                 in (case removed of None \<Rightarrow> ws1 | Some (j, _) \<Rightarrow> unregister_pane j ws1, False))
               (tab_remove_pane i (ws_tabs ws ! tab_idx)))"

definition ws_close_pane :: "pane_id \<Rightarrow> workspace \<Rightarrow> (workspace \<times> bool) option" where
  "ws_close_pane i ws =
     (case find_tab_index_for_pane ws i of
        None \<Rightarrow> Some (ws, False)
      | Some tab_idx \<Rightarrow>
          if tl_pane_count (tb_layout (ws_tabs ws ! tab_idx)) \<le> 1 then
            if length (ws_tabs ws) \<le> 1 then Some (ws, True)
            else let ws1 = unregister_pane i (ws\<lparr>ws_tabs := vec_remove tab_idx (ws_tabs ws)\<rparr>)
                 in Some (if length (ws_tabs ws1) \<le> ws_active_tab ws1
                          then ws1\<lparr>ws_active_tab := length (ws_tabs ws1) - 1\<rparr>
                          else if tab_idx \<le> ws_active_tab ws1 \<and> 0 < ws_active_tab ws1
                            then ws1\<lparr>ws_active_tab := ws_active_tab ws1 - 1\<rparr>
                          else ws1, False)
          else map_option (\<lambda>(tb, removed).
                 let ws1 = ws\<lparr>ws_tabs := (ws_tabs ws)[tab_idx := tb]\<rparr>
                 in (case removed of None \<Rightarrow> ws1 | Some (j, _) \<Rightarrow> unregister_pane j ws1, False))
               (tab_close_pane i (ws_tabs ws ! tab_idx)))"

section \<open>Moving panes\<close>

record taken_pane =
  tp_moved :: moved_pane
  tp_removed_tab_idx :: "nat option"
  tp_workspace_empty :: bool

definition ws_take_pane_for_move :: "pane_id \<Rightarrow> workspace \<Rightarrow> (workspace \<times> taken_pane option) option" where
  "ws_take_pane_for_move i ws =
     (case find_tab_index_for_pane ws i of
        None \<Rightarrow> Some (ws, None)
      | Some tab_idx \<Rightarrow>
          let tb = ws_tabs ws ! tab_idx
          in if tl_pane_count (tb_layout tb) \<le> 1 then
               let ws1 = ws\<lparr>ws_tabs := vec_remove tab_idx (ws_tabs ws)\<rparr>
               in map_option (\<lambda>(_, moved).
                    case moved of
                      None \<Rightarrow> (ws1, None)
                    | Some mp \<Rightarrow>
                        let ws2 = adjust_active_tab_after_removal tab_idx ws1
                        in (ws2, Some \<lparr>tp_moved = mp, tp_removed_tab_idx = Some tab_idx,
                                       tp_workspace_empty = (ws_tabs ws2 = [])\<rparr>))
                    (tab_take_pane_for_move i tb)
             else map_option (\<lambda>(tb', moved).
                    (ws\<lparr>ws_tabs := (ws_tabs ws)[tab_idx := tb']\<rparr>,
                     map_option (\<lambda>mp. \<lparr>tp_moved = mp, tp_removed_tab_idx = None,
                       tp_workspace_empty = False\<rparr>) moved))
                    (tab_take_pane_for_move i tb))"

definition insert_moved_pane_into_tab ::
  "nat \<Rightarrow> pane_id \<Rightarrow> moved_pane \<Rightarrow> direction \<Rightarrow> f32 \<Rightarrow> bool \<Rightarrow> workspace \<Rightarrow>
    workspace \<times> (moved_pane + pane_id)" where
  "insert_moved_pane_into_tab tab_idx target moved direction ratio do_focus ws =
     (case nth_opt (ws_tabs ws) tab_idx of
        None \<Rightarrow> (ws, Inl moved)
      | Some tb \<Rightarrow>
          let (tb', res) = tab_insert_existing_pane target moved direction ratio do_focus tb;
              ws1 = ws\<lparr>ws_tabs := (ws_tabs ws)[tab_idx := tb']\<rparr>
          in case res of
               Inl m \<Rightarrow> (ws1, Inl m)
             | Inr i \<Rightarrow>
                 (if hm_contains (ws_public_pane_numbers ws1) i then ws1
                  else register_new_pane_with_number i (ws_next_public_pane_number ws1) ws1, Inr i))"

definition create_tab_from_existing_pane ::
  "moved_pane \<Rightarrow> string option \<Rightarrow> workspace \<Rightarrow> workspace \<times> nat" where
  "create_tab_from_existing_pane moved label ws =
     (let number = ws_next_public_tab_number ws;
          ws1 = ws\<lparr>ws_next_public_tab_number := usize_add number 1\<rparr>;
          tb = tab_from_existing_pane number label moved;
          ws2 = (if hm_contains (ws_public_pane_numbers ws1) (mp_pane_id moved) then ws1
                 else register_new_pane_with_number (mp_pane_id moved) (ws_next_public_pane_number ws1) ws1);
          ws3 = ws2\<lparr>ws_tabs := ws_tabs ws2 @ [tb]\<rparr>
      in (ws3, length (ws_tabs ws3) - 1))"

end
