(* ===== verification/Workspace_Facts.thy ===== *)
theory Workspace_Facts
  imports Workspaces Layout_Machine
begin

text \<open>
  The invariant of a workspace, which is what the program's own consistency check for tests
  (\<open>assert_invariants_for_test\<close>) asserts, and that the operations on tabs and public numbers keep
  their parts of it.
\<close>

section \<open>The invariant\<close>

definition tab_inv :: "tab \<Rightarrow> bool" where
  "tab_inv tb \<longleftrightarrow> layout_wf (tb_layout tb) \<and> hm_wf (tb_panes tb) \<and>
     set (hm_keys (tb_panes tb)) = set (tl_pane_ids (tb_layout tb)) \<and>
     tb_root_pane tb \<in> set (tl_pane_ids (tb_layout tb))"

text \<open>All panes of the tabs, with their states.\<close>

definition tab_entries :: "tab list \<Rightarrow> (pane_id \<times> pane_state) list" where
  "tab_entries tabs = concat (map tb_panes tabs)"

definition entry_terminal :: "pane_id \<times> pane_state \<Rightarrow> string" where
  "entry_terminal e = pn_attached_terminal_id (snd e)"

definition entries_ok :: "(pane_id \<times> pane_state) list \<Rightarrow> bool" where
  "entries_ok es \<longleftrightarrow> distinct (map fst es) \<and> distinct (map entry_terminal es)"

text \<open>Public numbers are positive, given once and below the next number.\<close>

definition public_ok :: "('k, usize) hashmap \<Rightarrow> usize \<Rightarrow> 'k set \<Rightarrow> bool" where
  "public_ok numbers nxt ks \<longleftrightarrow>
     hm_wf numbers \<and> distinct (hm_values numbers) \<and> 0 < nxt \<and>
     list_all (\<lambda>n. 0 < n \<and> n < nxt) (hm_values numbers) \<and> set (hm_keys numbers) = ks"

definition tab_numbers_ok :: "tab list \<Rightarrow> usize \<Rightarrow> bool" where
  "tab_numbers_ok tabs nxt \<longleftrightarrow>
     distinct (map tb_number tabs) \<and> 0 < nxt \<and> list_all (\<lambda>tb. 0 < tb_number tb \<and> tb_number tb < nxt) tabs"

text \<open>
  A workspace whose panes in \<open>ks\<close> have been taken out, for a move, but still own their public
  numbers; it may have no tab left.
\<close>

definition workspace_wf :: "pane_id set \<Rightarrow> workspace \<Rightarrow> bool" where
  "workspace_wf ks ws \<longleftrightarrow>
     list_all tab_inv (ws_tabs ws) \<and> entries_ok (tab_entries (ws_tabs ws)) \<and>
     tab_numbers_ok (ws_tabs ws) (ws_next_public_tab_number ws) \<and>
     public_ok (ws_public_pane_numbers ws) (ws_next_public_pane_number ws)
       (fst ` set (tab_entries (ws_tabs ws)) \<union> ks) \<and>
     fst ` set (tab_entries (ws_tabs ws)) \<inter> ks = {} \<and>
     (if ws_tabs ws = [] then ws_active_tab ws = 0 else ws_active_tab ws < length (ws_tabs ws))"

definition workspace_inv :: "workspace \<Rightarrow> bool" where
  "workspace_inv ws \<longleftrightarrow> ws_tabs ws \<noteq> [] \<and> workspace_wf {} ws"

section \<open>Lists of tabs\<close>

lemma tab_entries_simps [simp]:
  "tab_entries [] = []" "tab_entries (tb # tabs) = tb_panes tb @ tab_entries tabs"
  "tab_entries (tabs @ tabs') = tab_entries tabs @ tab_entries tabs'"
  by (simp_all add: tab_entries_def)

lemma tab_entries_mset: "mset (tab_entries tabs) = \<Sum>\<^sub># (image_mset (mset \<circ> tb_panes) (mset tabs))"
  by (induction tabs) simp_all

lemma tab_entries_cong: "mset tabs = mset tabs' \<Longrightarrow> mset (tab_entries tabs) = mset (tab_entries tabs')"
  by (simp add: tab_entries_mset)

lemma entries_update:
  assumes "i < length tabs"
  shows "mset (tab_entries (tabs[i := tb])) + mset (tb_panes (tabs ! i)) =
    mset (tab_entries tabs) + mset (tb_panes tb)"
proof -
  have "tabs = take i tabs @ tabs ! i # drop (Suc i) tabs" using assms by (rule id_take_nth_drop)
  then have "tab_entries tabs = tab_entries (take i tabs) @ tb_panes (tabs ! i) @ tab_entries (drop (Suc i) tabs)"
    by (metis tab_entries_simps(2,3))
  moreover have "tabs[i := tb] = take i tabs @ tb # drop (Suc i) tabs"
    using assms by (rule upd_conv_take_nth_drop)
  ultimately show ?thesis by simp
qed

lemma entries_remove:
  "i < length tabs \<Longrightarrow> mset (tab_entries (vec_remove i tabs)) + mset (tb_panes (tabs ! i)) = mset (tab_entries tabs)"
  using tab_entries_cong [of "tabs ! i # vec_remove i tabs" tabs] mset_vec_remove [of i tabs]
  by (simp add: ac_simps)

lemma tab_entries_member: "tb \<in> set tabs \<Longrightarrow> set (tb_panes tb) \<subseteq> set (tab_entries tabs)"
  by (auto simp: tab_entries_def)

section \<open>Entries\<close>

lemma entries_ok_cong: "mset es = mset es' \<Longrightarrow> entries_ok es = entries_ok es'"
  unfolding entries_ok_def
  by (metis mset_eq_imp_distinct_iff mset_map)

lemma entries_ok_add:
  "mset es = add_mset e (mset es') \<Longrightarrow> entries_ok es \<longleftrightarrow>
     entries_ok es' \<and> fst e \<notin> fst ` set es' \<and> entry_terminal e \<notin> entry_terminal ` set es'"
  using entries_ok_cong [of es "e # es'"] by (auto simp: entries_ok_def)

lemma entries_ok_sub:
  assumes "mset es + mset rest = mset es'" and "entries_ok es'"
  shows "entries_ok es"
proof -
  have "entries_ok (es @ rest)" using assms entries_ok_cong [of "es @ rest" es'] by simp
  then show ?thesis by (simp add: entries_ok_def)
qed

lemma entries_ok_terminals:
  "map fst es' = map fst es \<Longrightarrow> map entry_terminal es' = map entry_terminal es \<Longrightarrow>
     entries_ok es' = entries_ok es"
  by (simp add: entries_ok_def)

section \<open>Public numbers\<close>

lemma public_ok_register:
  assumes "public_ok numbers nxt ks" and "i \<notin> ks" and "nxt < usize_max"
  shows "public_ok (hm_insert i nxt numbers) (max nxt (usize_add nxt 1)) (insert i ks)"
proof -
  have "hm_insert i nxt numbers = numbers @ [(i, nxt)]"
    using assms(1,2) by (intro hm_insert_new) (auto simp: public_ok_def hm_keys_def)
  moreover have "usize_add nxt 1 = nxt + 1" using assms(3) by (simp add: usize_add_no_wrap)
  ultimately show ?thesis
    using assms by (fastforce simp: public_ok_def hm_wf_def hm_keys_def hm_values_def list_all_iff)
qed

lemma public_ok_remove: "public_ok numbers nxt ks \<Longrightarrow> public_ok (hm_remove i numbers) nxt (ks - {i})"
proof -
  assume ok: "public_ok numbers nxt ks"
  have eq: "hm_remove i numbers = filter (\<lambda>e. fst e \<noteq> i) numbers"
    by (auto simp: hm_remove_def AList.delete_eq intro!: filter_cong)
  have "distinct (hm_values (hm_remove i numbers))"
    using ok unfolding eq by (simp add: public_ok_def hm_values_def distinct_map_filter)
  moreover have "set (hm_values (hm_remove i numbers)) \<subseteq> set (hm_values numbers)"
    unfolding eq by (auto simp: hm_values_def)
  ultimately show ?thesis using ok by (fastforce simp: public_ok_def list_all_iff)
qed

lemma public_ok_inj:
  assumes "public_ok numbers nxt ks" and "hm_get numbers i = Some n" and "hm_get numbers j = Some n"
  shows "i = j"
proof -
  from assms have "(i, n) \<in> set numbers" "(j, n) \<in> set numbers" by (auto dest: hm_get_mem)
  moreover have "distinct (map snd numbers)" using assms(1) by (simp add: public_ok_def hm_values_def)
  ultimately show ?thesis by (fastforce simp: distinct_map inj_on_def)
qed

lemma tab_numbers_cong: "mset tabs = mset tabs' \<Longrightarrow> tab_numbers_ok tabs nxt = tab_numbers_ok tabs' nxt"
  unfolding tab_numbers_ok_def list_all_iff
  by (metis mset_eq_imp_distinct_iff mset_map set_mset_mset)

lemma tab_numbers_update:
  assumes "tab_numbers_ok tabs nxt" and "i < length tabs" and "tb_number tb = tb_number (tabs ! i)"
  shows "tab_numbers_ok (tabs[i := tb]) nxt"
proof -
  have "map tb_number (tabs[i := tb]) = map tb_number tabs"
    using assms(2,3) list_update_id [of "map tb_number tabs" i] by (simp add: map_update)
  with assms show ?thesis by (simp add: tab_numbers_ok_def list_all_length nth_list_update)
qed

lemma tab_numbers_remove: "tab_numbers_ok tabs nxt \<Longrightarrow> tab_numbers_ok (vec_remove i tabs) nxt"
proof -
  assume ok: "tab_numbers_ok tabs nxt"
  have "distinct (take i xs @ drop (Suc i) xs)" if "distinct xs" for xs :: "usize list"
    using distinct_take [OF that, of i] distinct_drop [OF that, of "Suc i"]
      set_take_disj_set_drop_if_distinct [OF that, of i "Suc i"] by simp
  from this [of "map tb_number tabs"] have "distinct (map tb_number (vec_remove i tabs))"
    using ok by (simp add: tab_numbers_ok_def vec_remove_def take_map drop_map)
  with ok show ?thesis using set_vec_remove_subset [of i tabs]
    by (auto simp: tab_numbers_ok_def list_all_iff)
qed

lemma tab_numbers_append:
  "tab_numbers_ok tabs nxt \<Longrightarrow> nxt < usize_max \<Longrightarrow> tb_number tb = nxt \<Longrightarrow>
     tab_numbers_ok (tabs @ [tb]) (usize_add nxt 1)"
  by (auto simp: tab_numbers_ok_def usize_add_no_wrap list_all_iff)

end
