(* ===== verification/Tab_Facts.thy ===== *)
theory Tab_Facts
  imports Workspace_Facts
begin

text \<open>
  What the operations on one tab do: the tab invariant is kept, and its panes gain or lose exactly
  one entry. A split whose runtime does not start leaves the tab as it was.
\<close>

lemma tab_layout_same [simp]: "tb\<lparr>tb_layout := tb_layout tb\<rparr> = tb"
  by (cases tb) simp

definition next_terminal_id :: "('e, 'rt) host \<Rightarrow> id_counters \<Rightarrow> string" where
  "next_terminal_id host ctr = fst (host_terminal_id host ctr)"

lemma next_terminal_id_pane [simp]: "next_terminal_id host (ctr\<lparr>ic_next_pane := n\<rparr>) = next_terminal_id host ctr"
  by (simp add: next_terminal_id_def host_terminal_id_def split: prod.split)

lemma host_terminal_id_eq:
  "host_terminal_id host ctr = (i, ctr') \<Longrightarrow>
     i = next_terminal_id host ctr \<and> ic_next_pane ctr' = ic_next_pane ctr"
  by (auto simp: next_terminal_id_def host_terminal_id_def split: prod.splits)

lemma tab_from_existing_inv: "tab_inv (tab_from_existing_pane n name moved)"
  by (simp add: tab_inv_def tab_from_existing_pane_def from_saved_def layout_wf_def tl_pane_ids_def
      hm_insert_def hm_wf_def hm_keys_def)

lemma tab_from_existing_facts [simp]:
  "tb_panes (tab_from_existing_pane n name moved) = [(mp_pane_id moved, mp_pane_state moved)]"
  "tb_number (tab_from_existing_pane n name moved) = n"
  "tb_root_pane (tab_from_existing_pane n name moved) = mp_pane_id moved"
  by (simp_all add: tab_from_existing_pane_def hm_insert_def)

lemma tab_new_facts:
  assumes "tab_new_with_runtime host n cwd env argv ctr = (Inr (tb, t, rt), ctr')"
  shows "tab_inv tb" and "tb_number tb = n" and "tb_root_pane tb = ic_next_pane ctr"
    and "tb_panes tb = [(ic_next_pane ctr, pane_state_new (next_terminal_id host ctr))]"
  using assms host_terminal_id_eq [of host "ctr\<lparr>ic_next_pane := ic_next_pane ctr + 1\<rparr>"]
  by (auto simp: tab_new_with_runtime_def tl_new_def pane_id_alloc_def tab_inv_def layout_wf_def
      tl_pane_ids_def hm_insert_def hm_wf_def hm_keys_def Let_def split: sum.splits prod.splits)

lemma tab_new_counter:
  "tab_new_with_runtime host n cwd env argv ctr = (res, ctr') \<Longrightarrow> ic_next_pane ctr' = ic_next_pane ctr + 1"
  by (auto simp: tab_new_with_runtime_def tl_new_def pane_id_alloc_def Let_def dest!: host_terminal_id_eq
      split: sum.splits prod.splits)

lemma see_all_facts:
  "tab_inv tb \<Longrightarrow> tab_inv (see_all tb)" "tb_number (see_all tb) = tb_number tb"
  "map fst (tb_panes (see_all tb)) = map fst (tb_panes tb)"
  "map entry_terminal (tb_panes (see_all tb)) = map entry_terminal (tb_panes tb)"
  by (auto simp: tab_inv_def see_all_def hm_map_values_def entry_terminal_def hm_wf_def hm_keys_def comp_def
      case_prod_unfold)

section \<open>Splitting\<close>

lemma split_pane_cases:
  "split_pane target dir r l nxt =
     (if target \<in> set (tl_pane_ids l)
      then (l\<lparr>tl_root := split_at (tl_root l) target dir nxt (valid_split_ratio r)\<rparr>, Some nxt, nxt + 1)
      else (l, None, nxt))"
  by (simp add: split_pane_def pane_id_alloc_def)

lemma focus_pane_ids [simp]: "tl_pane_ids (focus_pane i l) = tl_pane_ids l"
  by (simp add: focus_pane_def set_focus_def tl_pane_ids_def)

definition split_ok :: "('e, 'rt) host \<Rightarrow> tab \<Rightarrow> id_counters \<Rightarrow> tab \<Rightarrow> 'e split_error + 'rt new_pane \<Rightarrow>
    id_counters \<Rightarrow> bool" where
  "split_ok host tb ctr tb' res ctr' \<longleftrightarrow>
     (case res of
        Inl _ \<Rightarrow> tb' = tb \<and> (ic_next_pane ctr' = ic_next_pane ctr \<or> ic_next_pane ctr' = ic_next_pane ctr + 1)
      | Inr np \<Rightarrow> ic_next_pane ctr' = ic_next_pane ctr + 1 \<and> np_pane_id np = ic_next_pane ctr \<and> tab_inv tb' \<and> tb_number tb' = tb_number tb \<and>
          tb_root_pane tb' = tb_root_pane tb \<and>
          tb_panes tb' = tb_panes tb @ [(ic_next_pane ctr, pane_state_new (next_terminal_id host ctr))])"

lemma tab_split_facts:
  assumes inv: "tab_inv tb" and fresh: "ic_next_pane ctr \<notin> set (hm_keys (tb_panes tb))"
  shows "\<exists>tb' res ctr'. tab_split_pane_with_runtime host target foc dir ratio cwd env cmd tb ctr =
    Some (tb', res, ctr') \<and> split_ok host tb ctr tb' res ctr'"
proof (cases "target \<in> set (tl_pane_ids (tb_layout tb))")
  case False
  then show ?thesis
    by (simp add: tab_split_pane_with_runtime_def split_pane_cases split_ok_def)
next
  case True
  define r where "r = unwrap_or ratio ratio_half"
  define l where "l = fst (split_pane target dir r (tb_layout tb) (ic_next_pane ctr))"
  define ctr1 where "ctr1 = ctr\<lparr>ic_next_pane := ic_next_pane ctr + 1\<rparr>"
  have wf: "layout_wf (tb_layout tb)" and new: "ic_next_pane ctr \<notin> set (tl_pane_ids (tb_layout tb))"
    using inv fresh by (simp_all add: tab_inv_def)
  have sp: "split_pane target dir (unwrap_or ratio ratio_half) (tb_layout tb) (ic_next_pane ctr) =
      (l, Some (ic_next_pane ctr), ic_next_pane ctr + 1)"
    using True by (simp add: l_def r_def split_pane_cases)
  have lwf: "layout_wf l" unfolding l_def by (rule layout_wf_split_pane [OF wf new])
  have ids: "set (tl_pane_ids l) = insert (ic_next_pane ctr) (set (tl_pane_ids (tb_layout tb)))"
    using True by (simp add: l_def split_pane_cases tl_pane_ids_def set_collect_ids_split_at)
  have undo: "close_pane (ic_next_pane ctr) l = Some (tb_layout tb, True)"
    using split_close [OF wf True new] by (simp add: l_def)
  show ?thesis
  proof (cases "ho_spawn host (ic_next_pane ctr) (unwrap_or cwd (current_dir_or_root (ho_current_dir host))) cmd env")
    case (Inl e)
    then show ?thesis by (simp add: tab_split_pane_with_runtime_def sp undo split_ok_def)
  next
    case (Inr rt)
    obtain tid ctr2 where tid: "host_terminal_id host ctr1 = (tid, ctr2)" by fastforce
    then have "tid = next_terminal_id host ctr" and "ic_next_pane ctr2 = ic_next_pane ctr + 1"
      using host_terminal_id_eq by (fastforce simp: ctr1_def)+
    moreover have "hm_insert (ic_next_pane ctr) p (tb_panes tb) = tb_panes tb @ [(ic_next_pane ctr, p)]" for p
      using fresh by (intro hm_insert_new) (simp add: hm_keys_def)
    moreover have "tab_inv (tb\<lparr>tb_layout := if foc then focus_pane (ic_next_pane ctr) l else l,
        tb_panes := tb_panes tb @ [(ic_next_pane ctr, p)], tb_zoomed := False\<rparr>)" for p
      using inv lwf ids fresh
      by (auto simp: tab_inv_def layout_wf_focus_pane hm_wf_def hm_keys_def)
    ultimately show ?thesis
      using Inr tid
      by (auto simp: tab_split_pane_with_runtime_def sp split_ok_def ctr1_def Let_def)
  qed
qed

section \<open>Detaching\<close>

lemma promoted_root:
  assumes inv: "tab_inv tb" and many: "\<not> tl_pane_count (tb_layout tb) \<le> 1"
  shows "unwrap_or (promoted_root_if_needed tb i) (tb_root_pane tb) \<in> set (tl_pane_ids (tb_layout tb)) - {i}"
proof (cases "tb_root_pane tb = i")
  case False
  with inv show ?thesis by (simp add: promoted_root_if_needed_def tab_inv_def)
next
  case True
  have d: "distinct (tl_pane_ids (tb_layout tb))" using inv by (simp add: tab_inv_def layout_wf_def)
  have "\<not> set (tl_pane_ids (tb_layout tb)) \<subseteq> {i}"
  proof
    assume "set (tl_pane_ids (tb_layout tb)) \<subseteq> {i}"
    then have "card (set (tl_pane_ids (tb_layout tb))) \<le> 1" using card_mono [of "{i}"] by fastforce
    with d many show False
      by (simp add: distinct_card tl_pane_count_def tl_pane_ids_def count_panes_length)
  qed
  then have "find (\<lambda>k. k \<noteq> i) (tl_pane_ids (tb_layout tb)) \<noteq> None" by (auto simp: find_None_iff)
  then obtain j where f: "find (\<lambda>k. k \<noteq> i) (tl_pane_ids (tb_layout tb)) = Some j" by blast
  then have "j \<in> set (tl_pane_ids (tb_layout tb)) - {i}" by (auto simp: find_Some_iff)
  with True f show ?thesis by (simp add: promoted_root_if_needed_def)
qed

lemma tab_layout_closed:
  assumes inv: "tab_inv tb" and many: "\<not> tl_pane_count (tb_layout tb) \<le> 1"
    and get: "hm_get (tb_panes tb) i = Some pane"
  shows "\<exists>l. close_pane i (tb_layout tb) = Some (l, True) \<and>
    tab_inv (tb\<lparr>tb_layout := l, tb_panes := hm_remove i (tb_panes tb), tb_zoomed := False,
      tb_root_pane := unwrap_or (promoted_root_if_needed tb i) (tb_root_pane tb)\<rparr>)"
proof -
  have "i \<in> set (tl_pane_ids (tb_layout tb))"
    using inv get hm_get_mem [of "tb_panes tb" i pane] by (force simp: tab_inv_def hm_keys_def)
  then obtain l where "close_pane i (tb_layout tb) = Some (l, True)" "layout_wf l"
    "tl_pane_ids l = filter (\<lambda>j. j \<noteq> i) (tl_pane_ids (tb_layout tb))"
    using close_pane_spec [of "tb_layout tb" i] inv many by (auto simp: tab_inv_def)
  with promoted_root [OF inv many, of i] inv show ?thesis by (auto simp: tab_inv_def)
qed

lemma detach_facts:
  assumes inv: "tab_inv tb" and many: "\<not> tl_pane_count (tb_layout tb) \<le> 1"
    and get: "hm_get (tb_panes tb) i = Some pane"
  shows "\<exists>tb'. detach_pane i tb = Some (tb', Some (i, pn_attached_terminal_id pane)) \<and> tab_inv tb' \<and>
    tb_panes tb' = hm_remove i (tb_panes tb) \<and> tb_number tb' = tb_number tb \<and>
    tb_root_pane tb' = unwrap_or (promoted_root_if_needed tb i) (tb_root_pane tb)"
proof -
  from tab_layout_closed [OF assms] obtain l where "close_pane i (tb_layout tb) = Some (l, True)"
    "tab_inv (tb\<lparr>tb_layout := l, tb_panes := hm_remove i (tb_panes tb), tb_zoomed := False,
      tb_root_pane := unwrap_or (promoted_root_if_needed tb i) (tb_root_pane tb)\<rparr>)" by blast
  with many get show ?thesis by (simp add: detach_pane_def)
qed

lemma take_facts:
  assumes inv: "tab_inv tb" and get: "hm_get (tb_panes tb) i = Some pane"
  shows "\<exists>tb'. tab_take_pane_for_move i tb = Some (tb', Some \<lparr>mp_pane_id = i, mp_pane_state = pane\<rparr>) \<and>
    tb_panes tb' = hm_remove i (tb_panes tb) \<and> tb_number tb' = tb_number tb \<and>
    (\<not> tl_pane_count (tb_layout tb) \<le> 1 \<longrightarrow> tab_inv tb')"
proof -
  have c: "hm_contains (tb_panes tb) i" using get by (simp add: hm_contains_def)
  show ?thesis
  proof (cases "tl_pane_count (tb_layout tb) \<le> 1")
    case True
    with c get show ?thesis by (simp add: tab_take_pane_for_move_def)
  next
    case False
    from tab_layout_closed [OF inv False get] obtain l where l: "close_pane i (tb_layout tb) = Some (l, True)"
      "tab_inv (tb\<lparr>tb_layout := l, tb_panes := hm_remove i (tb_panes tb), tb_zoomed := False,
        tb_root_pane := unwrap_or (promoted_root_if_needed tb i) (tb_root_pane tb)\<rparr>)" by blast
    then show ?thesis using False c get by (simp add: tab_take_pane_for_move_def tab_inv_def)
  qed
qed

section \<open>Inserting\<close>

lemma insert_facts:
  assumes inv: "tab_inv tb" and new: "mp_pane_id moved \<notin> set (hm_keys (tb_panes tb))"
    and res: "tab_insert_existing_pane target moved dir ratio foc tb = (tb', res)"
  shows "case res of
      Inl m \<Rightarrow> tb' = tb \<and> m = moved \<and> target \<notin> set (tl_pane_ids (tb_layout tb))
    | Inr i \<Rightarrow> i = mp_pane_id moved \<and> tab_inv tb' \<and> tb_number tb' = tb_number tb \<and>
        target \<in> set (tl_pane_ids (tb_layout tb)) \<and>
        tb_panes tb' = tb_panes tb @ [(mp_pane_id moved, mp_pane_state moved)]"
proof (cases "target \<in> set (tl_pane_ids (tb_layout tb))")
  case False
  then have "insert_pane_near target (mp_pane_id moved) dir ratio foc (tb_layout tb) = (tb_layout tb, False)"
    by (simp add: insert_pane_near_def Let_def)
  with res False show ?thesis by (auto simp: tab_insert_existing_pane_def)
next
  case True
  have wf: "layout_wf (tb_layout tb)" and n: "mp_pane_id moved \<notin> set (tl_pane_ids (tb_layout tb))"
    using inv new by (simp_all add: tab_inv_def)
  obtain l ok where l: "insert_pane_near target (mp_pane_id moved) dir ratio foc (tb_layout tb) = (l, ok)"
    by fastforce
  have "target \<noteq> mp_pane_id moved" using True n by auto
  then have ok: "ok" and ids: "set (tl_pane_ids l) = insert (mp_pane_id moved) (set (tl_pane_ids (tb_layout tb)))"
    using l True n
    by (auto simp: insert_pane_near_def Let_def set_focus_def tl_pane_ids_def set_collect_ids_split_at
        split: if_splits)
  have "layout_wf l" using layout_wf_insert [OF wf, of target "mp_pane_id moved" dir ratio foc] l by simp
  moreover have "hm_insert (mp_pane_id moved) p (tb_panes tb) = tb_panes tb @ [(mp_pane_id moved, p)]" for p
    using new by (intro hm_insert_new) (simp add: hm_keys_def)
  ultimately show ?thesis
    using res l ok ids inv new True
    by (auto simp: tab_insert_existing_pane_def tab_inv_def hm_wf_def hm_keys_def)
qed

end
