(* ===== verification/Workspace_Machine.thy ===== *)
theory Workspace_Machine
  imports Tab_Facts
begin

text \<open>
  The operations of a workspace keep its invariant: first the steps they are made of (a tab gains or
  loses a pane, a tab is removed or added, a number is given or withdrawn), then the operations,
  then the machine of all of them.
\<close>

abbreviation live_entries :: "workspace \<Rightarrow> (pane_id \<times> pane_state) list" where
  "live_entries ws \<equiv> tab_entries (ws_tabs ws)"

abbreviation live_panes :: "workspace \<Rightarrow> pane_id set" where
  "live_panes ws \<equiv> fst ` set (live_entries ws)"

section \<open>Steps\<close>

lemma workspace_wfD:
  assumes "workspace_wf ks ws"
  shows "list_all tab_inv (ws_tabs ws)" and "entries_ok (live_entries ws)"
    and "tab_numbers_ok (ws_tabs ws) (ws_next_public_tab_number ws)"
    and "public_ok (ws_public_pane_numbers ws) (ws_next_public_pane_number ws) (live_panes ws \<union> ks)"
    and "live_panes ws \<inter> ks = {}"
    and "i < length (ws_tabs ws) \<Longrightarrow> ws_active_tab ws < length (ws_tabs ws)"
  using assms by (auto simp: workspace_wf_def split: if_splits)

lemma set_entries_mset: "mset es = mset es' \<Longrightarrow> set es = set es'"
  by (rule mset_eq_setD)

lemma list_all_update: "list_all P xs \<Longrightarrow> P y \<Longrightarrow> list_all P (xs[i := y])"
  by (metis list_all_iff set_update_subset_insert subsetD insertE)

text \<open>A tab gains a pane.\<close>

lemma gained_entries:
  assumes "i < length tabs" and "tb_panes tb = tb_panes (tabs ! i) @ [e]"
  shows "mset (tab_entries (tabs[i := tb])) = add_mset e (mset (tab_entries tabs))"
  using entries_update [OF assms(1), of tb] assms(2) by simp

lemma gain_pane:
  assumes wf: "workspace_wf ks ws" and i: "i < length (ws_tabs ws)" and inv: "tab_inv tb"
    and num: "tb_number tb = tb_number (ws_tabs ws ! i)"
    and gain: "tb_panes tb = tb_panes (ws_tabs ws ! i) @ [(p, st)]"
    and new: "p \<notin> live_panes ws" "pn_attached_terminal_id st \<notin> entry_terminal ` set (live_entries ws)"
  shows "mset (live_entries (ws\<lparr>ws_tabs := (ws_tabs ws)[i := tb]\<rparr>)) = add_mset (p, st) (mset (live_entries ws))"
    and "p \<in> ks \<Longrightarrow> workspace_wf (ks - {p}) (ws\<lparr>ws_tabs := (ws_tabs ws)[i := tb]\<rparr>)"
    and "p \<notin> ks \<Longrightarrow> ws_next_public_pane_number ws < usize_max \<Longrightarrow>
      workspace_wf ks (register_new_pane_with_number p (ws_next_public_pane_number ws)
        (ws\<lparr>ws_tabs := (ws_tabs ws)[i := tb]\<rparr>))"
proof -
  note d = workspace_wfD [OF wf]
  have m: "mset (tab_entries ((ws_tabs ws)[i := tb])) = add_mset (p, st) (mset (live_entries ws))"
    using gained_entries [OF i gain] .
  then show "mset (live_entries (ws\<lparr>ws_tabs := (ws_tabs ws)[i := tb]\<rparr>)) = add_mset (p, st) (mset (live_entries ws))"
    by simp
  from m have ok: "entries_ok (tab_entries ((ws_tabs ws)[i := tb]))"
    using d(2) new by (simp add: entries_ok_add entry_terminal_def)
  have s: "set (tab_entries ((ws_tabs ws)[i := tb])) = insert (p, st) (set (live_entries ws))"
    using m set_entries_mset [of "tab_entries ((ws_tabs ws)[i := tb])" "(p, st) # live_entries ws"] by simp
  have t: "list_all tab_inv ((ws_tabs ws)[i := tb])"
    "tab_numbers_ok ((ws_tabs ws)[i := tb]) (ws_next_public_tab_number ws)"
    "ws_tabs ws \<noteq> []" "ws_active_tab ws < length (ws_tabs ws)"
    using d(1) inv i tab_numbers_update [OF d(3) i num] d(6) [OF i] by (auto intro: list_all_update)
  show "workspace_wf (ks - {p}) (ws\<lparr>ws_tabs := (ws_tabs ws)[i := tb]\<rparr>)" if "p \<in> ks"
  proof -
    have "insert p (live_panes ws) \<union> (ks - {p}) = live_panes ws \<union> ks" using that by auto
    then show ?thesis using d(4,5) ok t new(1) by (auto simp: workspace_wf_def s)
  qed
  show "workspace_wf ks (register_new_pane_with_number p (ws_next_public_pane_number ws)
        (ws\<lparr>ws_tabs := (ws_tabs ws)[i := tb]\<rparr>))" if "p \<notin> ks" "ws_next_public_pane_number ws < usize_max"
    using public_ok_register [OF d(4) _ that(2), of p] that(1) new(1) d(5) ok t
    by (simp add: workspace_wf_def s register_new_pane_with_number_def)
qed

text \<open>A tab loses a pane, which still owns its number; then the number is withdrawn.\<close>

lemma lost_entries:
  assumes "i < length tabs" and "add_mset e (mset (tb_panes tb)) = mset (tb_panes (tabs ! i))"
  shows "add_mset e (mset (tab_entries (tabs[i := tb]))) = mset (tab_entries tabs)"
proof -
  have "add_mset e (mset (tab_entries (tabs[i := tb]))) + mset (tb_panes tb) =
      mset (tab_entries tabs) + mset (tb_panes tb)"
    using entries_update [OF assms(1), of tb] by (simp flip: assms(2))
  then show ?thesis by (rule add_right_imp_eq)
qed

lemma lose_pane:
  assumes wf: "workspace_wf ks ws" and i: "i < length (ws_tabs ws)" and inv: "tab_inv tb"
    and num: "tb_number tb = tb_number (ws_tabs ws ! i)"
    and lose: "add_mset (p, st) (mset (tb_panes tb)) = mset (tb_panes (ws_tabs ws ! i))"
  shows "workspace_wf (insert p ks) (ws\<lparr>ws_tabs := (ws_tabs ws)[i := tb]\<rparr>)"
    and "live_panes (ws\<lparr>ws_tabs := (ws_tabs ws)[i := tb]\<rparr>) = live_panes ws - {p}"
proof -
  note d = workspace_wfD [OF wf]
  have m: "mset (live_entries ws) = add_mset (p, st) (mset (tab_entries ((ws_tabs ws)[i := tb])))"
    using lost_entries [OF i lose] by simp
  have ok: "entries_ok (tab_entries ((ws_tabs ws)[i := tb]))"
    and new: "p \<notin> fst ` set (tab_entries ((ws_tabs ws)[i := tb]))"
    using d(2) entries_ok_add [OF m] by auto
  have s: "set (live_entries ws) = insert (p, st) (set (tab_entries ((ws_tabs ws)[i := tb])))"
    using m set_entries_mset [of "live_entries ws" "(p, st) # tab_entries ((ws_tabs ws)[i := tb])"] by simp
  show "live_panes (ws\<lparr>ws_tabs := (ws_tabs ws)[i := tb]\<rparr>) = live_panes ws - {p}"
    using s new by auto
  have "list_all tab_inv ((ws_tabs ws)[i := tb])"
    "tab_numbers_ok ((ws_tabs ws)[i := tb]) (ws_next_public_tab_number ws)"
    "ws_tabs ws \<noteq> []" "ws_active_tab ws < length (ws_tabs ws)"
    using d(1) inv i tab_numbers_update [OF d(3) i num] d(6) [OF i] by (auto intro: list_all_update)
  then show "workspace_wf (insert p ks) (ws\<lparr>ws_tabs := (ws_tabs ws)[i := tb]\<rparr>)"
    using d(4,5) ok new s by (auto simp: workspace_wf_def)
qed

lemma unregister_simps [simp]:
  "ws_tabs (unregister_pane p ws) = ws_tabs ws" "ws_active_tab (unregister_pane p ws) = ws_active_tab ws"
  "ws_next_public_tab_number (unregister_pane p ws) = ws_next_public_tab_number ws"
  "ws_next_public_pane_number (unregister_pane p ws) = ws_next_public_pane_number ws"
  by (simp_all add: unregister_pane_def)

lemma unregister_wf:
  assumes "workspace_wf ks ws" and "p \<notin> live_panes ws"
  shows "workspace_wf (ks - {p}) (unregister_pane p ws)"
proof -
  note d = workspace_wfD [OF assms(1)]
  have "(live_panes ws \<union> ks) - {p} = live_panes ws \<union> (ks - {p})" using assms(2) by auto
  with public_ok_remove [OF d(4), of p] d assms(1) show ?thesis
    by (auto simp: workspace_wf_def unregister_pane_def)
qed

lemma unregister_all_wf:
  "workspace_wf ks ws \<Longrightarrow> set ps \<inter> live_panes ws = {} \<Longrightarrow>
     workspace_wf (ks - set ps) (fold unregister_pane ps ws) \<and> ws_tabs (fold unregister_pane ps ws) = ws_tabs ws \<and>
     ws_active_tab (fold unregister_pane ps ws) = ws_active_tab ws"
proof (induction ps arbitrary: ks ws)
  case Nil
  then show ?case by simp
next
  case (Cons p ps)
  from Cons.prems unregister_wf [of ks ws p] have "workspace_wf (ks - {p}) (unregister_pane p ws)" by simp
  from Cons.IH [OF this] Cons.prems show ?case by (simp add: set_diff_eq Diff_insert2 [of ks p "set ps"])
qed

text \<open>A tab is removed, with the panes it has.\<close>

definition drop_tab :: "nat \<Rightarrow> workspace \<Rightarrow> workspace" where
  "drop_tab i ws = adjust_active_tab_after_removal i (ws\<lparr>ws_tabs := vec_remove i (ws_tabs ws)\<rparr>)"

lemma adjust_simps [simp]:
  "ws_tabs (adjust_active_tab_after_removal i ws) = ws_tabs ws"
  "ws_next_public_tab_number (adjust_active_tab_after_removal i ws) = ws_next_public_tab_number ws"
  "ws_next_public_pane_number (adjust_active_tab_after_removal i ws) = ws_next_public_pane_number ws"
  "ws_public_pane_numbers (adjust_active_tab_after_removal i ws) = ws_public_pane_numbers ws"
  by (simp_all add: adjust_active_tab_after_removal_def)

lemma drop_tab_active:
  assumes "i < length (ws_tabs ws)" and "ws_active_tab ws < length (ws_tabs ws)"
  shows "ws_active_tab (drop_tab i ws) =
    (if i \<le> ws_active_tab ws \<and> 0 < ws_active_tab ws then ws_active_tab ws - 1 else ws_active_tab ws)"
  using assms by (cases "ws_tabs ws") (auto simp: drop_tab_def adjust_active_tab_after_removal_def vec_remove_def)

lemma drop_tab_wf:
  assumes wf: "workspace_wf ks ws" and i: "i < length (ws_tabs ws)"
  shows "workspace_wf (fst ` set (tb_panes (ws_tabs ws ! i)) \<union> ks) (drop_tab i ws)"
    and "live_panes (drop_tab i ws) = live_panes ws - fst ` set (tb_panes (ws_tabs ws ! i))"
    and "ws_tabs (drop_tab i ws) = vec_remove i (ws_tabs ws)"
proof -
  note d = workspace_wfD [OF wf]
  show tabs: "ws_tabs (drop_tab i ws) = vec_remove i (ws_tabs ws)" by (simp add: drop_tab_def)
  define es where "es = tb_panes (ws_tabs ws ! i)"
  have m: "mset (tab_entries (vec_remove i (ws_tabs ws))) + mset es = mset (live_entries ws)"
    using entries_remove [OF i] by (simp add: es_def)
  then have "entries_ok (tab_entries (vec_remove i (ws_tabs ws)) @ es)"
    using d(2) entries_ok_cong [of "tab_entries (vec_remove i (ws_tabs ws)) @ es" "live_entries ws"] by simp
  then have ok: "entries_ok (tab_entries (vec_remove i (ws_tabs ws)))"
    and dis: "fst ` set (tab_entries (vec_remove i (ws_tabs ws))) \<inter> fst ` set es = {}"
    by (auto simp: entries_ok_def)
  have s: "set (live_entries ws) = set (tab_entries (vec_remove i (ws_tabs ws))) \<union> set es"
    using m set_entries_mset [of "tab_entries (vec_remove i (ws_tabs ws)) @ es" "live_entries ws"] by simp
  show "live_panes (drop_tab i ws) = live_panes ws - fst ` set (tb_panes (ws_tabs ws ! i))"
    using s dis by (auto simp: tabs es_def)
  note act = d(6) [OF i]
  have len: "length (vec_remove i (ws_tabs ws)) = length (ws_tabs ws) - 1" using i by simp
  have "if vec_remove i (ws_tabs ws) = [] then ws_active_tab (drop_tab i ws) = 0
     else ws_active_tab (drop_tab i ws) < length (vec_remove i (ws_tabs ws))"
    unfolding drop_tab_active [OF i act] using act len i
    by (cases "vec_remove i (ws_tabs ws)") auto
  then have a: "if ws_tabs (drop_tab i ws) = [] then ws_active_tab (drop_tab i ws) = 0
     else ws_active_tab (drop_tab i ws) < length (ws_tabs (drop_tab i ws))" by (simp add: tabs)
  have l: "list_all tab_inv (vec_remove i (ws_tabs ws))"
    using d(1) set_vec_remove_subset [of i "ws_tabs ws"] by (auto simp: list_all_iff)
  have p: "fst ` set (tab_entries (vec_remove i (ws_tabs ws))) \<union> (fst ` set es \<union> ks) = live_panes ws \<union> ks"
    using s by auto
  have "fst ` set (tab_entries (vec_remove i (ws_tabs ws))) \<inter> (fst ` set es \<union> ks) = {}"
    using dis d(5) s by auto
  with a l p ok tab_numbers_remove [OF d(3), of i] d(4)
  show "workspace_wf (fst ` set (tb_panes (ws_tabs ws ! i)) \<union> ks) (drop_tab i ws)"
    unfolding workspace_wf_def es_def [symmetric] tabs by (simp add: drop_tab_def)
qed

text \<open>A tab with one pane is added.\<close>

lemma append_tab_wf:
  assumes wf: "workspace_wf ks ws" and inv: "tab_inv tb"
    and num: "tb_number tb = ws_next_public_tab_number ws" "ws_next_public_tab_number ws < usize_max"
    and panes: "tb_panes tb = [(p, st)]"
    and new: "p \<notin> live_panes ws" "pn_attached_terminal_id st \<notin> entry_terminal ` set (live_entries ws)"
    and tabs: "ws_tabs ws' = ws_tabs ws @ [tb]"
      "ws_next_public_tab_number ws' = usize_add (ws_next_public_tab_number ws) 1"
      "ws_active_tab ws' = ws_active_tab ws"
    and nums: "ws_public_pane_numbers ws' = ws_public_pane_numbers ws \<and> p \<in> ks \<and> ks' = ks - {p} \<and>
          ws_next_public_pane_number ws' = ws_next_public_pane_number ws \<or>
        ws_public_pane_numbers ws' = hm_insert p (ws_next_public_pane_number ws) (ws_public_pane_numbers ws) \<and>
          ws_next_public_pane_number ws' =
            max (ws_next_public_pane_number ws) (usize_add (ws_next_public_pane_number ws) 1) \<and>
          p \<notin> ks \<and> ks' = ks \<and> ws_next_public_pane_number ws < usize_max"
  shows "workspace_wf ks' ws'" and "live_entries ws' = live_entries ws @ [(p, st)]"
proof -
  note d = workspace_wfD [OF wf]
  show es: "live_entries ws' = live_entries ws @ [(p, st)]" by (simp add: tabs(1) panes)
  have ok: "entries_ok (live_entries ws')" using d(2) new by (auto simp: es entries_ok_def entry_terminal_def)
  have act: "ws_active_tab ws < Suc (length (ws_tabs ws))"
    using wf by (auto simp: workspace_wf_def split: if_splits)
  have "public_ok (ws_public_pane_numbers ws') (ws_next_public_pane_number ws') (insert p (live_panes ws) \<union> ks')"
    using nums
  proof
    assume a: "ws_public_pane_numbers ws' = ws_public_pane_numbers ws \<and> p \<in> ks \<and> ks' = ks - {p} \<and>
          ws_next_public_pane_number ws' = ws_next_public_pane_number ws"
    then have "insert p (live_panes ws) \<union> ks' = live_panes ws \<union> ks" by auto
    with a d(4) show ?thesis by simp
  next
    assume a: "ws_public_pane_numbers ws' = hm_insert p (ws_next_public_pane_number ws) (ws_public_pane_numbers ws) \<and>
          ws_next_public_pane_number ws' =
            max (ws_next_public_pane_number ws) (usize_add (ws_next_public_pane_number ws) 1) \<and>
          p \<notin> ks \<and> ks' = ks \<and> ws_next_public_pane_number ws < usize_max"
    with public_ok_register [OF d(4), of p] new(1) show ?thesis by simp
  qed
  moreover have "insert p (live_panes ws) \<inter> ks' = {}" using nums d(5) by auto
  ultimately show "workspace_wf ks' ws'"
    using d(1) inv ok act tab_numbers_append [OF d(3) num(2) num(1)]
    unfolding workspace_wf_def es by (simp add: tabs)
qed

lemma bumped_tab_number_wf:
  assumes "workspace_wf ks ws" and "ws_next_public_tab_number ws < usize_max"
  shows "workspace_wf ks (ws\<lparr>ws_next_public_tab_number := usize_add (ws_next_public_tab_number ws) 1\<rparr>)"
  using assms by (auto simp: workspace_wf_def tab_numbers_ok_def usize_add_no_wrap list_all_iff)

end
