(* ===== verification/Workspace_Ops.thy ===== *)
theory Workspace_Ops
  imports Workspace_Machine
begin

text \<open>
  Every operation of a workspace keeps its invariant and does not panic, and the machine of all of
  them as an interpretation of \<open>op_machine\<close>.
\<close>

section \<open>What an operation does to the panes\<close>

text \<open>The panes an operation leaves are old ones and at most the one whose id was just allocated.\<close>

definition pane_progress :: "id_counters \<Rightarrow> id_counters \<Rightarrow> pane_id set \<Rightarrow> pane_id set \<Rightarrow> bool" where
  "pane_progress ctr ctr' old new \<longleftrightarrow>
     ic_next_pane ctr' = ic_next_pane ctr \<and> new \<subseteq> old \<or>
     ic_next_pane ctr' = ic_next_pane ctr + 1 \<and> new \<subseteq> insert (ic_next_pane ctr) old"

lemma pane_progress_refl: "new \<subseteq> old \<Longrightarrow> pane_progress ctr ctr old new"
  by (simp add: pane_progress_def)

text \<open>
  The public numbers an operation leaves are old ones and at most the next number, given to the pane
  or tab that is new.
\<close>

definition numbers_step :: "id_counters \<Rightarrow> workspace \<Rightarrow> workspace \<Rightarrow> bool" where
  "numbers_step ctr ws ws' \<longleftrightarrow>
     ws_next_public_pane_number ws \<le> ws_next_public_pane_number ws' \<and>
     ws_next_public_tab_number ws \<le> ws_next_public_tab_number ws' \<and>
     (\<forall>i n. hm_get (ws_public_pane_numbers ws') i = Some n \<longrightarrow>
        hm_get (ws_public_pane_numbers ws) i = Some n \<or>
        n = ws_next_public_pane_number ws \<and> i = ic_next_pane ctr) \<and>
     tb_number ` set (ws_tabs ws') \<subseteq> insert (ws_next_public_tab_number ws) (tb_number ` set (ws_tabs ws))"

lemma numbers_step_same:
  "ws_public_pane_numbers ws' = ws_public_pane_numbers ws \<Longrightarrow>
     ws_next_public_pane_number ws' = ws_next_public_pane_number ws \<Longrightarrow>
     ws_next_public_tab_number ws' = ws_next_public_tab_number ws \<Longrightarrow>
     tb_number ` set (ws_tabs ws') \<subseteq> tb_number ` set (ws_tabs ws) \<Longrightarrow> numbers_step ctr ws ws'"
  by (auto simp: numbers_step_def)

lemma numbers_step_refl [simp]: "numbers_step ctr ws ws"
  by (simp add: numbers_step_same)

lemma numbers_of_update:
  assumes "i < length tabs" and "tb_number tb = tb_number (tabs ! i)"
  shows "tb_number ` set (tabs[i := tb]) \<subseteq> tb_number ` set tabs"
proof -
  have "map tb_number (tabs[i := tb]) = map tb_number tabs"
    using assms list_update_id [of "map tb_number tabs" i] by (simp add: map_update)
  then have "set (map tb_number (tabs[i := tb])) = set (map tb_number tabs)" by (rule arg_cong)
  then show ?thesis by simp
qed

lemma numbers_step_removed:
  assumes "numbers_step ctr ws ws'"
    and "ws_public_pane_numbers ws'' = fold hm_remove ps (ws_public_pane_numbers ws')"
    and "ws_next_public_pane_number ws'' = ws_next_public_pane_number ws'"
    and "ws_next_public_tab_number ws'' = ws_next_public_tab_number ws'"
    and "ws_tabs ws'' = ws_tabs ws'"
  shows "numbers_step ctr ws ws''"
  using assms by (auto simp: numbers_step_def hm.lookup_rem_all split: if_splits)

lemma drop_tab_numbers: "numbers_step ctr ws (drop_tab k ws)"
  using set_vec_remove_subset [of k "ws_tabs ws"] by (intro numbers_step_same) (auto simp: drop_tab_def)

lemma set_tab_numbers:
  "k < length (ws_tabs ws) \<Longrightarrow> tb_number tb = tb_number (ws_tabs ws ! k) \<Longrightarrow>
     numbers_step ctr ws (ws\<lparr>ws_tabs := (ws_tabs ws)[k := tb]\<rparr>)"
  using numbers_of_update [of k "ws_tabs ws" tb] by (intro numbers_step_same) simp_all

text \<open>The ids the counters would hand out next are not in use.\<close>

definition fresh_for :: "('e, 'rt) host \<Rightarrow> id_counters \<Rightarrow> pane_id set \<Rightarrow> workspace \<Rightarrow> bool" where
  "fresh_for host ctr ks ws \<longleftrightarrow>
     ic_next_pane ctr \<notin> live_panes ws \<and> ic_next_pane ctr \<notin> ks \<and>
     next_terminal_id host ctr \<notin> entry_terminal ` set (live_entries ws)"

definition numbers_left :: "workspace \<Rightarrow> bool" where
  "numbers_left ws \<longleftrightarrow> ws_next_public_pane_number ws < usize_max \<and> ws_next_public_tab_number ws < usize_max"

lemma find_tab_SomeD:
  assumes "find_tab_index_for_pane ws i = Some k" and "workspace_wf ks ws"
  shows "k < length (ws_tabs ws)" and "tab_inv (ws_tabs ws ! k)"
    and "\<exists>pane. hm_get (tb_panes (ws_tabs ws ! k)) i = Some pane"
proof -
  have "k < length (ws_tabs ws) \<and> hm_contains (tb_panes (ws_tabs ws ! k)) i"
    using assms(1) position_SomeD unfolding find_tab_index_for_pane_def by fastforce
  then show "k < length (ws_tabs ws)" "\<exists>pane. hm_get (tb_panes (ws_tabs ws ! k)) i = Some pane"
    "tab_inv (ws_tabs ws ! k)"
    using workspace_wfD(1) [OF assms(2)] by (auto simp: hm_contains_def list_all_length)
qed

lemma find_tab_None: "find_tab_index_for_pane ws i = None \<longleftrightarrow> i \<notin> live_panes ws"
  by (auto simp: find_tab_index_for_pane_def position_None_iff list_all_iff hm_contains_iff hm_keys_def
      tab_entries_def)

lemma tab_keys_live: "k < length (ws_tabs ws) \<Longrightarrow> p \<notin> live_panes ws \<Longrightarrow> p \<notin> set (hm_keys (tb_panes (ws_tabs ws ! k)))"
  using tab_entries_member [of "ws_tabs ws ! k" "ws_tabs ws"] by (force simp: hm_keys_def)

section \<open>Switching and moving tabs\<close>

lemma see_all_entries:
  assumes "i < length tabs"
  shows "map fst (tab_entries (tabs[i := see_all (tabs ! i)])) = map fst (tab_entries tabs)"
    and "map entry_terminal (tab_entries (tabs[i := see_all (tabs ! i)])) = map entry_terminal (tab_entries tabs)"
proof -
  have "tabs = take i tabs @ tabs ! i # drop (Suc i) tabs" using assms by (rule id_take_nth_drop)
  then have es: "tab_entries tabs =
      tab_entries (take i tabs) @ tb_panes (tabs ! i) @ tab_entries (drop (Suc i) tabs)"
    by (metis tab_entries_simps(2,3))
  have us: "tab_entries (tabs[i := see_all (tabs ! i)]) =
      tab_entries (take i tabs) @ tb_panes (see_all (tabs ! i)) @ tab_entries (drop (Suc i) tabs)"
    using assms by (simp add: upd_conv_take_nth_drop)
  show "map fst (tab_entries (tabs[i := see_all (tabs ! i)])) = map fst (tab_entries tabs)"
    by (simp add: es us see_all_facts del: tab_entries_simps)
  show "map entry_terminal (tab_entries (tabs[i := see_all (tabs ! i)])) = map entry_terminal (tab_entries tabs)"
    by (simp add: es us see_all_facts del: tab_entries_simps)
qed

lemma switch_tab_wf:
  assumes wf: "workspace_wf ks ws"
  shows "workspace_wf ks (switch_tab idx ws)" and "live_panes (switch_tab idx ws) = live_panes ws"
    and "ws_tabs ws \<noteq> [] \<Longrightarrow> ws_tabs (switch_tab idx ws) \<noteq> []"
    and "numbers_step ctr ws (switch_tab idx ws)"
proof -
  note d = workspace_wfD [OF wf]
  have "workspace_wf ks (switch_tab idx ws) \<and> live_panes (switch_tab idx ws) = live_panes ws"
  proof (cases "idx < length (ws_tabs ws)")
    case False
    with wf show ?thesis by (simp add: switch_tab_def)
  next
    case True
    note es = see_all_entries [OF True]
    have f: "fst ` set (tab_entries ((ws_tabs ws)[idx := see_all (ws_tabs ws ! idx)])) = live_panes ws"
      using es(1) by (metis list.set_map)
    have "tab_inv (ws_tabs ws ! idx)" using d(1) True by (simp add: list_all_length)
    then have "list_all tab_inv ((ws_tabs ws)[idx := see_all (ws_tabs ws ! idx)])"
      using d(1) by (intro list_all_update see_all_facts)
    with d True es f tab_numbers_update [OF d(3) True, of "see_all (ws_tabs ws ! idx)"]
    show ?thesis
      by (auto simp: switch_tab_def workspace_wf_def see_all_facts entries_ok_terminals [OF es])
  qed
  then show "workspace_wf ks (switch_tab idx ws)" "live_panes (switch_tab idx ws) = live_panes ws" by auto
  show "numbers_step ctr ws (switch_tab idx ws)"
    using numbers_of_update [of idx "ws_tabs ws" "see_all (ws_tabs ws ! idx)"]
    by (intro numbers_step_same) (auto simp: switch_tab_def see_all_facts)
qed (simp add: switch_tab_def)

lemma move_tab_wf:
  assumes wf: "workspace_wf ks ws"
  shows "workspace_wf ks (fst (move_tab s t ws))" and "live_panes (fst (move_tab s t ws)) = live_panes ws"
    and "mset (ws_tabs (fst (move_tab s t ws))) = mset (ws_tabs ws)"
    and "numbers_step ctr ws (fst (move_tab s t ws))"
proof -
  note d = workspace_wfD [OF wf]
  define tgt where "tgt = min (if s < t then t - 1 else t) (length (ws_tabs ws) - 1)"
  define tabs where "tabs = vec_insert tgt (ws_tabs ws ! s) (vec_remove s (ws_tabs ws))"
  define act where "act = unwrap_or (Option.bind (map_option tb_root_pane (active_tab ws))
      (\<lambda>r. position (\<lambda>tb. tb_root_pane tb = r) tabs)) tgt"
  have eq: "fst (move_tab s t ws) =
      (if length (ws_tabs ws) \<le> s \<or> length (ws_tabs ws) < t \<or> s = tgt then ws
       else ws\<lparr>ws_tabs := tabs, ws_active_tab := act\<rparr>)"
    by (simp add: move_tab_def tgt_def tabs_def act_def Let_def)
  show perm: "mset (ws_tabs (fst (move_tab s t ws))) = mset (ws_tabs ws)"
    using mset_vec_remove [of s "ws_tabs ws"] by (simp add: eq tabs_def mset_vec_insert)
  show "numbers_step ctr ws (fst (move_tab s t ws))"
    using mset_eq_setD [OF perm] by (intro numbers_step_same) (simp_all add: eq)
  show "workspace_wf ks (fst (move_tab s t ws))" "live_panes (fst (move_tab s t ws)) = live_panes ws"
  proof (atomize (full), cases "length (ws_tabs ws) \<le> s \<or> length (ws_tabs ws) < t \<or> s = tgt")
    case True
    with wf show "workspace_wf ks (fst (move_tab s t ws)) \<and> live_panes (fst (move_tab s t ws)) = live_panes ws"
      by (simp add: eq)
  next
    case False
    then have m: "mset tabs = mset (ws_tabs ws)"
      using mset_vec_remove [of s "ws_tabs ws"] by (simp add: tabs_def mset_vec_insert)
    then have len: "length tabs = length (ws_tabs ws)" by (metis size_mset)
    have es: "mset (tab_entries tabs) = mset (live_entries ws)" by (rule tab_entries_cong [OF m])
    have "act < length tabs"
    proof (cases "Option.bind (map_option tb_root_pane (active_tab ws)) (\<lambda>r. position (\<lambda>tb. tb_root_pane tb = r) tabs)")
      case None
      then show ?thesis using False by (auto simp: act_def tgt_def len)
    next
      case (Some k)
      then show ?thesis by (auto simp: act_def bind_eq_Some_conv dest: position_SomeD)
    qed
    moreover have "tabs \<noteq> []" using False len by (cases tabs) auto
    ultimately show "workspace_wf ks (fst (move_tab s t ws)) \<and> live_panes (fst (move_tab s t ws)) = live_panes ws"
      using d False set_entries_mset [OF es] mset_eq_setD [OF m] entries_ok_cong [OF es]
        tab_numbers_cong [OF m]
      by (simp add: eq workspace_wf_def list_all_iff)
  qed
qed

section \<open>Closing tabs and panes\<close>

lemma fold_unregister:
  "ws_public_pane_numbers (fold unregister_pane ps ws) = fold hm_remove ps (ws_public_pane_numbers ws)"
  "ws_next_public_pane_number (fold unregister_pane ps ws) = ws_next_public_pane_number ws"
  "ws_next_public_tab_number (fold unregister_pane ps ws) = ws_next_public_tab_number ws"
  "ws_tabs (fold unregister_pane ps ws) = ws_tabs ws"
  "ws_active_tab (fold unregister_pane ps ws) = ws_active_tab ws"
  by (induction ps arbitrary: ws) (simp_all add: unregister_pane_def)

lemma closing_is_drop:
  assumes "vec_remove idx (ws_tabs ws) \<noteq> []"
  shows "(let ws1 = fold unregister_pane ps (ws\<lparr>ws_tabs := vec_remove idx (ws_tabs ws)\<rparr>)
     in if length (ws_tabs ws1) \<le> ws_active_tab ws1 then ws1\<lparr>ws_active_tab := length (ws_tabs ws1) - 1\<rparr>
        else if idx \<le> ws_active_tab ws1 \<and> 0 < ws_active_tab ws1
          then ws1\<lparr>ws_active_tab := ws_active_tab ws1 - 1\<rparr>
        else ws1) = fold unregister_pane ps (drop_tab idx ws)"
proof -
  have "unregister_pane p (w\<lparr>ws_active_tab := a\<rparr>) = (unregister_pane p w)\<lparr>ws_active_tab := a\<rparr>" for p w a
    by (cases w) (simp add: unregister_pane_def)
  then have comm: "fold unregister_pane ps (w\<lparr>ws_active_tab := a\<rparr>) = (fold unregister_pane ps w)\<lparr>ws_active_tab := a\<rparr>" for w a
    by (induction ps arbitrary: w) simp_all
  show ?thesis using assms
    by (simp add: drop_tab_def adjust_active_tab_after_removal_def Let_def fold_unregister comm)
qed

lemma close_tab_eq:
  "close_tab idx ws =
     (if length (ws_tabs ws) \<le> 1 \<or> length (ws_tabs ws) \<le> idx then (ws, False)
      else (fold unregister_pane (hm_keys (tb_panes (ws_tabs ws ! idx))) (drop_tab idx ws), True))"
proof (cases "length (ws_tabs ws) \<le> 1 \<or> length (ws_tabs ws) \<le> idx")
  case True
  then show ?thesis by (simp add: close_tab_def)
next
  case False
  then have "vec_remove idx (ws_tabs ws) \<noteq> []" by (intro vec_remove_nonempty) auto
  from closing_is_drop [OF this] False show ?thesis by (simp add: close_tab_def Let_def)
qed

lemma drop_unregister_wf:
  assumes wf: "workspace_wf ks ws" and i: "i < length (ws_tabs ws)"
  shows "workspace_wf ks (fold unregister_pane (hm_keys (tb_panes (ws_tabs ws ! i))) (drop_tab i ws))"
    and "ws_tabs (fold unregister_pane (hm_keys (tb_panes (ws_tabs ws ! i))) (drop_tab i ws)) = vec_remove i (ws_tabs ws)"
    and "ws_active_tab (fold unregister_pane (hm_keys (tb_panes (ws_tabs ws ! i))) (drop_tab i ws)) =
      ws_active_tab (drop_tab i ws)"
proof -
  note dw = drop_tab_wf [OF wf i]
  define ps where "ps = hm_keys (tb_panes (ws_tabs ws ! i))"
  have ps: "set ps = fst ` set (tb_panes (ws_tabs ws ! i))" by (simp add: ps_def hm_keys_def)
  have dis: "set ps \<inter> live_panes (drop_tab i ws) = {}" unfolding dw(2) ps by blast
  have "set ps \<subseteq> live_panes ws"
    using tab_entries_member [OF nth_mem [OF i]] by (auto simp: ps)
  then have "(set ps \<union> ks) - set ps = ks" using workspace_wfD(5) [OF wf] by blast
  with unregister_all_wf [OF dw(1) [folded ps] dis] dw(3)
  show "workspace_wf ks (fold unregister_pane (hm_keys (tb_panes (ws_tabs ws ! i))) (drop_tab i ws))"
    "ws_tabs (fold unregister_pane (hm_keys (tb_panes (ws_tabs ws ! i))) (drop_tab i ws)) = vec_remove i (ws_tabs ws)"
    "ws_active_tab (fold unregister_pane (hm_keys (tb_panes (ws_tabs ws ! i))) (drop_tab i ws)) =
      ws_active_tab (drop_tab i ws)"
    unfolding ps_def by simp_all
qed

lemma vec_remove_entries: "set (tab_entries (vec_remove i tabs)) \<subseteq> set (tab_entries tabs)"
  using set_vec_remove_subset [of i tabs] by (auto simp: tab_entries_def)

lemma close_tab_wf:
  assumes wf: "workspace_wf ks ws"
  shows "workspace_wf ks (fst (close_tab idx ws))" and "live_panes (fst (close_tab idx ws)) \<subseteq> live_panes ws"
    and "ws_tabs ws \<noteq> [] \<Longrightarrow> ws_tabs (fst (close_tab idx ws)) \<noteq> []"
    and "numbers_step ctr ws (fst (close_tab idx ws))"
proof -
  have "workspace_wf ks (fst (close_tab idx ws)) \<and> live_panes (fst (close_tab idx ws)) \<subseteq> live_panes ws \<and>
    (ws_tabs ws \<noteq> [] \<longrightarrow> ws_tabs (fst (close_tab idx ws)) \<noteq> [])"
  proof (cases "length (ws_tabs ws) \<le> 1 \<or> length (ws_tabs ws) \<le> idx")
    case True
    with wf show ?thesis by (simp add: close_tab_eq)
  next
    case False
    then have i: "idx < length (ws_tabs ws)" by auto
    with False have "vec_remove idx (ws_tabs ws) \<noteq> []" by (intro vec_remove_nonempty) auto
    with False drop_unregister_wf [OF wf i] vec_remove_entries [of idx "ws_tabs ws"]
    show ?thesis by (auto simp: close_tab_eq)
  qed
  then show "workspace_wf ks (fst (close_tab idx ws))" "live_panes (fst (close_tab idx ws)) \<subseteq> live_panes ws"
    "ws_tabs ws \<noteq> [] \<Longrightarrow> ws_tabs (fst (close_tab idx ws)) \<noteq> []" by auto
  show "numbers_step ctr ws (fst (close_tab idx ws))"
  proof (cases "length (ws_tabs ws) \<le> 1 \<or> length (ws_tabs ws) \<le> idx")
    case True
    then show ?thesis by (simp add: close_tab_eq)
  next
    case False
    from numbers_step_removed [OF drop_tab_numbers] False show ?thesis by (simp add: close_tab_eq fold_unregister)
  qed
qed

end
