(* ===== verification/Workspace_Panes.thy ===== *)
theory Workspace_Panes
  imports Workspace_Ops
begin

text \<open>
  The operations of a workspace on panes keep its invariant: closing, creating tabs, splitting, and
  the parts a move between tabs and workspaces is made of.
\<close>

section \<open>Closing panes\<close>

lemma close_pane_is_remove_pane: "ws_close_pane i ws = ws_remove_pane i ws"
  unfolding ws_close_pane_def ws_remove_pane_def tab_close_pane_def tab_remove_pane_def ..

text \<open>The only pane of a tab: the tab has exactly its entry.\<close>

lemma single_pane:
  assumes inv: "tab_inv tb" and one: "tl_pane_count (tb_layout tb) \<le> 1" and get: "hm_get (tb_panes tb) i = Some pane"
  shows "tb_panes tb = [(i, pane)]"
proof -
  have "length (tl_pane_ids (tb_layout tb)) = 1"
    using one collect_ids_nonempty [of "tl_root (tb_layout tb)"]
    by (cases "collect_ids (tl_root (tb_layout tb))")
      (simp_all add: tl_pane_count_def tl_pane_ids_def count_panes_length)
  then have "card (set (hm_keys (tb_panes tb))) = 1"
    using inv by (simp add: tab_inv_def layout_wf_def distinct_card)
  moreover have "card (set (hm_keys (tb_panes tb))) = length (hm_keys (tb_panes tb))"
    using inv by (intro distinct_card) (simp add: tab_inv_def hm_wf_def)
  ultimately have "length (tb_panes tb) = 1" by (simp add: hm_keys_def)
  then show ?thesis using hm_get_mem [OF get] by (cases "tb_panes tb") auto
qed

lemma remove_pane_eq:
  "ws_remove_pane i ws =
     (case find_tab_index_for_pane ws i of
        None \<Rightarrow> Some (ws, False)
      | Some k \<Rightarrow>
          if tl_pane_count (tb_layout (ws_tabs ws ! k)) \<le> 1
          then if length (ws_tabs ws) \<le> 1 then Some (ws, True) else Some (unregister_pane i (drop_tab k ws), False)
          else map_option (\<lambda>(tb, removed).
                 (case removed of None \<Rightarrow> ws\<lparr>ws_tabs := (ws_tabs ws)[k := tb]\<rparr>
                  | Some (j, _) \<Rightarrow> unregister_pane j (ws\<lparr>ws_tabs := (ws_tabs ws)[k := tb]\<rparr>), False))
               (detach_pane i (ws_tabs ws ! k)))"
proof (cases "find_tab_index_for_pane ws i")
  case None
  then show ?thesis by (simp add: ws_remove_pane_def)
next
  case (Some k)
  then have k: "k < length (ws_tabs ws)"
    using position_SomeD unfolding find_tab_index_for_pane_def by fastforce
  show ?thesis
  proof (cases "length (ws_tabs ws) \<le> 1")
    case True
    with Some show ?thesis by (simp add: ws_remove_pane_def tab_remove_pane_def Let_def)
  next
    case False
    from closing_is_drop [OF vec_remove_nonempty [OF this k], of "[i]"] Some False
    show ?thesis by (simp add: ws_remove_pane_def tab_remove_pane_def Let_def cong: if_cong)
  qed
qed

text \<open>What is left of a workspace when a pane of a tab with several panes is gone.\<close>

lemma lose_from_tab:
  assumes wf: "workspace_wf ks ws" and k: "k < length (ws_tabs ws)" and inv: "tab_inv tb"
    and num: "tb_number tb = tb_number (ws_tabs ws ! k)"
    and get: "hm_get (tb_panes (ws_tabs ws ! k)) i = Some pane"
    and panes: "tb_panes tb = hm_remove i (tb_panes (ws_tabs ws ! k))"
  shows "workspace_wf (insert i ks) (ws\<lparr>ws_tabs := (ws_tabs ws)[k := tb]\<rparr>)"
    and "live_panes (ws\<lparr>ws_tabs := (ws_tabs ws)[k := tb]\<rparr>) = live_panes ws - {i}"
proof -
  have "hm_wf (tb_panes (ws_tabs ws ! k))"
    using workspace_wfD(1) [OF wf] k by (simp add: list_all_length tab_inv_def)
  from mset_hm_remove [OF this get] have "add_mset (i, pane) (mset (tb_panes tb)) = mset (tb_panes (ws_tabs ws ! k))"
    by (simp add: panes)
  from lose_pane [OF wf k inv num this]
  show "workspace_wf (insert i ks) (ws\<lparr>ws_tabs := (ws_tabs ws)[k := tb]\<rparr>)"
    "live_panes (ws\<lparr>ws_tabs := (ws_tabs ws)[k := tb]\<rparr>) = live_panes ws - {i}" by blast+
qed

lemma live_not_taken: "workspace_wf ks ws \<Longrightarrow> i \<in> live_panes ws \<Longrightarrow> insert i ks - {i} = ks"
  using workspace_wfD(5) [of ks ws] by auto

lemma tab_pane_live:
  "k < length (ws_tabs ws) \<Longrightarrow> hm_get (tb_panes (ws_tabs ws ! k)) i = Some pane \<Longrightarrow> i \<in> live_panes ws"
  using tab_keys_live [of k ws i] hm_get_mem [of "tb_panes (ws_tabs ws ! k)" i pane] by (force simp: hm_keys_def)

lemma mset_swapped:
  fixes rest :: "'a multiset"
  assumes "new + old = all + rest" and "add_mset e rest = old"
  shows "add_mset e new = all"
proof -
  have "add_mset e new + rest = all + rest" using assms by auto
  then show ?thesis by (rule add_right_imp_eq)
qed

lemma remove_pane_wf:
  assumes wf: "workspace_wf ks ws"
  shows "\<exists>ws' b. ws_remove_pane i ws = Some (ws', b) \<and> workspace_wf ks ws' \<and>
    (ws_tabs ws \<noteq> [] \<longrightarrow> ws_tabs ws' \<noteq> []) \<and>
    live_panes ws' = (if b then live_panes ws else live_panes ws - {i}) \<and>
    (b \<longrightarrow> ws' = ws \<and> (\<exists>pane. live_entries ws = [(i, pane)])) \<and> numbers_step ctr ws ws' \<and>
    ws_id ws' = ws_id ws \<and>
    (i \<in> live_panes ws \<longrightarrow> \<not> b \<longrightarrow>
       (\<exists>pane. add_mset (i, pane) (mset (live_entries ws')) = mset (live_entries ws)))"
proof (cases "find_tab_index_for_pane ws i")
  case None
  then have "i \<notin> live_panes ws" using find_tab_None by blast
  moreover have "ws_remove_pane i ws = Some (ws, False)" using None by (simp add: remove_pane_eq)
  ultimately show ?thesis using wf by auto
next
  case (Some k)
  from find_tab_SomeD [OF Some wf] obtain pane where k: "k < length (ws_tabs ws)" "tab_inv (ws_tabs ws ! k)"
    "hm_get (tb_panes (ws_tabs ws ! k)) i = Some pane" by blast
  note live = tab_pane_live [OF k(1,3)]
  show ?thesis
  proof (cases "tl_pane_count (tb_layout (ws_tabs ws ! k)) \<le> 1")
    case True
    note single = single_pane [OF k(2) True k(3)]
    show ?thesis
    proof (cases "length (ws_tabs ws) \<le> 1")
      case one: True
      then have "ws_tabs ws = [ws_tabs ws ! k]" using k(1) by (cases "ws_tabs ws") auto
      then have "live_entries ws = [(i, pane)]" by (metis single append_Nil2 tab_entries_simps(1,2))
      moreover have "ws_remove_pane i ws = Some (ws, True)" using Some True one by (simp add: remove_pane_eq)
      ultimately show ?thesis using wf by auto
    next
      case False
      note dw = drop_tab_wf [OF wf k(1), unfolded single, simplified]
      have "workspace_wf ks (unregister_pane i (drop_tab k ws))"
        using unregister_wf [OF dw(1), of i] dw(2) live_not_taken [OF wf live] by simp
      moreover have "ws_remove_pane i ws = Some (unregister_pane i (drop_tab k ws), False)"
        using Some True False by (simp add: remove_pane_eq)
      moreover have "add_mset (i, pane) (mset (live_entries (unregister_pane i (drop_tab k ws)))) = mset (live_entries ws)"
        using entries_remove [OF k(1)] by (simp add: dw(3) single)
      moreover have "ws_id (unregister_pane i (drop_tab k ws)) = ws_id ws"
        by (simp add: unregister_pane_def drop_tab_def adjust_active_tab_after_removal_def)
      moreover have "numbers_step ctr ws (unregister_pane i (drop_tab k ws))"
        by (rule numbers_step_removed [OF drop_tab_numbers, of _ "[i]"]) (simp_all add: unregister_pane_def)
      ultimately show ?thesis using dw(2,3) vec_remove_nonempty [OF False k(1)] by auto
    qed
  next
    case False
    from detach_facts [OF k(2) False k(3)] obtain tb where
      tb: "detach_pane i (ws_tabs ws ! k) = Some (tb, Some (i, pn_attached_terminal_id pane))" "tab_inv tb"
        "tb_panes tb = hm_remove i (tb_panes (ws_tabs ws ! k))" "tb_number tb = tb_number (ws_tabs ws ! k)"
      by blast
    note lw = lose_from_tab [OF wf k(1) tb(2,4) k(3) tb(3)]
    have "workspace_wf ks (unregister_pane i (ws\<lparr>ws_tabs := (ws_tabs ws)[k := tb]\<rparr>))"
      using unregister_wf [OF lw(1), of i] lw(2) live_not_taken [OF wf live] by simp
    moreover have "ws_remove_pane i ws = Some (unregister_pane i (ws\<lparr>ws_tabs := (ws_tabs ws)[k := tb]\<rparr>), False)"
      using Some False tb(1) by (simp add: remove_pane_eq)
    moreover have "hm_wf (tb_panes (ws_tabs ws ! k))" using k(2) by (simp add: tab_inv_def)
    from mset_hm_remove [OF this k(3)] entries_update [OF k(1), of tb]
    have "add_mset (i, pane) (mset (live_entries (unregister_pane i (ws\<lparr>ws_tabs := (ws_tabs ws)[k := tb]\<rparr>)))) =
        mset (live_entries ws)"
      unfolding tb(3) by (simp add: unregister_pane_def) (rule mset_swapped)
    moreover have "ws_id (unregister_pane i (ws\<lparr>ws_tabs := (ws_tabs ws)[k := tb]\<rparr>)) = ws_id ws"
      by (simp add: unregister_pane_def)
    moreover have "numbers_step ctr ws (unregister_pane i (ws\<lparr>ws_tabs := (ws_tabs ws)[k := tb]\<rparr>))"
      by (rule numbers_step_removed [OF set_tab_numbers [OF k(1) tb(4)], of _ "[i]"])
        (simp_all add: unregister_pane_def)
    ultimately show ?thesis using lw(2) by auto
  qed
qed

section \<open>Creating tabs and splitting\<close>

lemma register_simps [simp]:
  "ws_tabs (register_new_pane_with_number p n ws) = ws_tabs ws"
  "ws_active_tab (register_new_pane_with_number p n ws) = ws_active_tab ws"
  "ws_next_public_tab_number (register_new_pane_with_number p n ws) = ws_next_public_tab_number ws"
  "ws_public_pane_numbers (register_new_pane_with_number p n ws) = hm_insert p n (ws_public_pane_numbers ws)"
  "ws_next_public_pane_number (register_new_pane_with_number p n ws) =
     max (ws_next_public_pane_number ws) (usize_add n 1)"
  by (simp_all add: register_new_pane_with_number_def)

lemma create_tab_wf:
  assumes wf: "workspace_wf ks ws" and ne: "ws_tabs ws \<noteq> []" and left: "numbers_left ws"
    and fresh: "fresh_for host ctr ks ws"
  shows "\<exists>ws' res ctr'. create_tab_with_runtime host cwd argv extra ws ctr = Some (ws', res, ctr') \<and>
    workspace_wf ks ws' \<and> ws_tabs ws' \<noteq> [] \<and> pane_progress ctr ctr' (live_panes ws) (live_panes ws') \<and>
    numbers_step ctr ws ws'"
proof -
  define ws1 where "ws1 = ws\<lparr>ws_next_public_tab_number := usize_add (ws_next_public_tab_number ws) 1\<rparr>"
  have act: "ws_active_tab ws < length (ws_tabs ws)" using workspace_wfD(6) [OF wf, of 0] ne by simp
  then have a: "active_tab ws1 = Some (ws_tabs ws ! ws_active_tab ws)"
    by (simp add: ws1_def active_tab_def nth_opt_def)
  define env where "env = launch_env_for_new_pane ws1 (ws_next_public_tab_number ws)
      (ws_next_public_pane_number ws) extra"
  define made where "made = tab_new_with_runtime host (ws_next_public_tab_number ws) cwd env argv ctr"
  have eq: "create_tab_with_runtime host cwd argv extra ws ctr =
     (case made of
        (Inl e, ctr1) \<Rightarrow> Some (ws1, Inl e, ctr1)
      | (Inr (tb, terminal, runtime), ctr1) \<Rightarrow>
          let ws2 = register_new_pane_with_number (tb_root_pane tb) (ws_next_public_pane_number ws) ws1;
              ws3 = ws2\<lparr>ws_tabs := ws_tabs ws2 @ [tb]\<rparr>
          in Some (ws3, Inr (length (ws_tabs ws3) - 1, terminal, runtime), ctr1))"
    using a by (cases argv) (simp_all add: create_tab_with_runtime_def ws1_def made_def env_def tab_new_def
        tab_new_argv_command_def Let_def split: prod.split sum.split)
  obtain out ctr1 where made: "made = (out, ctr1)" by fastforce
  then have ctr1: "ic_next_pane ctr1 = ic_next_pane ctr + 1" unfolding made_def by (rule tab_new_counter)
  show ?thesis
  proof (cases out)
    case (Inl e)
    with made have "create_tab_with_runtime host cwd argv extra ws ctr = Some (ws1, Inl e, ctr1)" by (simp add: eq)
    moreover have "workspace_wf ks ws1" unfolding ws1_def
      using bumped_tab_number_wf [OF wf] left by (simp add: numbers_left_def)
    moreover have "numbers_step ctr ws ws1" using left
      by (auto simp: numbers_step_def ws1_def numbers_left_def usize_add_no_wrap)
    ultimately show ?thesis using ne ctr1 by (auto simp: ws1_def pane_progress_def)
  next
    case (Inr q)
    obtain tb t rt where q: "q = (tb, t, rt)" by (cases q)
    note tb = tab_new_facts [OF made [unfolded made_def Inr q]]
    define ws3 where "ws3 = (register_new_pane_with_number (tb_root_pane tb) (ws_next_public_pane_number ws) ws1)
      \<lparr>ws_tabs := ws_tabs ws @ [tb]\<rparr>"
    have res: "create_tab_with_runtime host cwd argv extra ws ctr =
        Some (ws3, Inr (length (ws_tabs ws), t, rt), ctr1)"
      using made Inr q by (simp add: eq ws3_def Let_def ws1_def)
    have "workspace_wf ks ws3" and "live_entries ws3 =
        live_entries ws @ [(ic_next_pane ctr, pane_state_new (next_terminal_id host ctr))]"
      by (rule append_tab_wf [OF wf tb(1) tb(2) _ tb(4)];
          use left fresh in \<open>simp add: numbers_left_def fresh_for_def pane_state_new_def ws3_def ws1_def tb(3)\<close>)+
    moreover have "numbers_step ctr ws ws3"
      using tb(2,3) left by (auto simp: numbers_step_def numbers_left_def ws3_def ws1_def usize_add_no_wrap)
    ultimately show ?thesis using res ctr1 by (auto simp: ws3_def pane_progress_def)
  qed
qed

text \<open>Splitting a pane of one tab.\<close>

lemma split_tab_wf:
  assumes wf: "workspace_wf ks ws" and k: "k < length (ws_tabs ws)" and left: "numbers_left ws"
    and fresh: "fresh_for host ctr ks ws" and ok: "split_ok host (ws_tabs ws ! k) ctr tb res ctr'"
  defines "ws1 \<equiv> ws\<lparr>ws_tabs := (ws_tabs ws)[k := tb]\<rparr>"
  shows "case res of
      Inl e \<Rightarrow> ws1 = ws \<and> pane_progress ctr ctr' (live_panes ws) (live_panes ws)
    | Inr np \<Rightarrow> workspace_wf ks (register_new_pane_with_number (np_pane_id np) (ws_next_public_pane_number ws) ws1) \<and>
        pane_progress ctr ctr' (live_panes ws) (live_panes ws1) \<and>
        numbers_step ctr ws (register_new_pane_with_number (np_pane_id np) (ws_next_public_pane_number ws) ws1)"
proof (cases res)
  case (Inl e)
  have "ws\<lparr>ws_tabs := ws_tabs ws\<rparr> = ws" by (cases ws) simp
  with Inl ok show ?thesis by (auto simp: split_ok_def ws1_def pane_progress_def)
next
  case (Inr np)
  define p where "p = ic_next_pane ctr"
  define st where "st = pane_state_new (next_terminal_id host ctr)"
  have tb: "tab_inv tb" "tb_number tb = tb_number (ws_tabs ws ! k)" "np_pane_id np = p"
    "tb_panes tb = tb_panes (ws_tabs ws ! k) @ [(p, st)]" "ic_next_pane ctr' = ic_next_pane ctr + 1"
    using ok Inr by (simp_all add: split_ok_def p_def st_def)
  have new: "p \<notin> live_panes ws" "pn_attached_terminal_id st \<notin> entry_terminal ` set (live_entries ws)" "p \<notin> ks"
    using fresh by (simp_all add: fresh_for_def p_def st_def pane_state_new_def)
  have "ws_next_public_pane_number ws < usize_max" using left by (simp add: numbers_left_def)
  from gain_pane(3) [OF wf k tb(1,2,4) new this]
  have "workspace_wf ks (register_new_pane_with_number (np_pane_id np) (ws_next_public_pane_number ws) ws1)"
    by (simp add: tb(3) ws1_def)
  moreover have "set (live_entries ws1) = insert (p, st) (set (live_entries ws))"
    using gain_pane(1) [OF wf k tb(1,2,4) new(1,2)] set_entries_mset [of "live_entries ws1" "(p, st) # live_entries ws"]
    by (simp add: ws1_def)
  moreover have "numbers_step ctr ws
      (register_new_pane_with_number (np_pane_id np) (ws_next_public_pane_number ws) ws1)"
    using numbers_of_update [OF k tb(2)] by (auto simp: numbers_step_def tb(3) p_def ws1_def)
  ultimately show ?thesis using tb(5) by (auto simp: Inr pane_progress_def p_def)
qed

lemma split_pane_wf:
  assumes wf: "workspace_wf ks ws" and left: "numbers_left ws" and fresh: "fresh_for host ctr ks ws"
  shows "\<exists>ws' res ctr'. ws_split_pane_with_runtime host i dir ratio cwd extra foc argv ws ctr = Some (ws', res, ctr') \<and>
    workspace_wf ks ws' \<and> (ws_tabs ws \<noteq> [] \<longrightarrow> ws_tabs ws' \<noteq> []) \<and>
    pane_progress ctr ctr' (live_panes ws) (live_panes ws') \<and> numbers_step ctr ws ws' \<and>
    (case res of
       None \<Rightarrow> ws' = ws
     | Some (Inl _) \<Rightarrow> ws' = ws
     | Some (Inr (k, np)) \<Rightarrow>
         find_tab_index_for_pane ws i = Some k \<and> np_pane_id np = ic_next_pane ctr \<and>
         ws_public_pane_numbers ws' =
           hm_insert (np_pane_id np) (ws_next_public_pane_number ws) (ws_public_pane_numbers ws))"
proof (cases "find_tab_index_for_pane ws i")
  case None
  with wf show ?thesis by (simp add: ws_split_pane_with_runtime_def pane_progress_refl)
next
  case (Some k)
  note k = find_tab_SomeD [OF Some wf]
  define env where "env = launch_env_for_new_pane ws (tb_number (ws_tabs ws ! k)) (ws_next_public_pane_number ws) extra"
  have "ic_next_pane ctr \<notin> set (hm_keys (tb_panes (ws_tabs ws ! k)))"
    using tab_keys_live [OF k(1)] fresh by (simp add: fresh_for_def)
  then obtain tb res ctr' where tb: "tab_split_pane_with_runtime host i foc dir ratio cwd env
      (case argv of Some a \<Rightarrow> SpawnArgv a | None \<Rightarrow> SpawnDefault) (ws_tabs ws ! k) ctr = Some (tb, res, ctr')"
    "split_ok host (ws_tabs ws ! k) ctr tb res ctr'"
    using tab_split_facts [OF k(2)] by metis
  define ws1 where "ws1 = ws\<lparr>ws_tabs := (ws_tabs ws)[k := tb]\<rparr>"
  have eq: "ws_split_pane_with_runtime host i dir ratio cwd extra foc argv ws ctr =
      Some (case res of Inl e \<Rightarrow> (ws1, Some (Inl e), ctr')
        | Inr np \<Rightarrow> (register_new_pane_with_number (np_pane_id np) (ws_next_public_pane_number ws) ws1,
            Some (Inr (k, np)), ctr'))"
    using Some tb(1) by (cases argv) (simp_all add: ws_split_pane_with_runtime_def env_def ws1_def
        tab_split_pane_shell_def tab_split_pane_argv_def Let_def split: sum.split)
  show ?thesis
    using split_tab_wf [OF wf k(1) left fresh tb(2)] wf k(1) Some tb(2) unfolding ws1_def [symmetric]
    by (cases res) (auto simp: eq split_ok_def, simp_all add: ws1_def)
qed

lemma split_focused_wf:
  assumes wf: "workspace_wf ks ws" and ne: "ws_tabs ws \<noteq> []" and left: "numbers_left ws"
    and fresh: "fresh_for host ctr ks ws"
  shows "\<exists>ws' res ctr'. ws_split_focused_command host dir cwd cmd extra ws ctr = Some (ws', res, ctr') \<and>
    workspace_wf ks ws' \<and> ws_tabs ws' \<noteq> [] \<and> pane_progress ctr ctr' (live_panes ws) (live_panes ws') \<and>
    numbers_step ctr ws ws' \<and> (case res of Inl _ \<Rightarrow> ws' = ws | Inr _ \<Rightarrow> True)"
proof -
  define k where "k = ws_active_tab ws"
  have k: "k < length (ws_tabs ws)" using workspace_wfD(6) [OF wf, of 0] ne by (simp add: k_def)
  then have inv: "tab_inv (ws_tabs ws ! k)" using workspace_wfD(1) [OF wf] by (simp add: list_all_length)
  have act: "active_tab ws = Some (ws_tabs ws ! k)" using k by (simp add: active_tab_def nth_opt_def k_def)
  define env where "env = launch_env_for_new_pane ws (tb_number (ws_tabs ws ! k)) (ws_next_public_pane_number ws) extra"
  have "ic_next_pane ctr \<notin> set (hm_keys (tb_panes (ws_tabs ws ! k)))"
    using tab_keys_live [OF k] fresh by (simp add: fresh_for_def)
  then obtain tb res ctr' where tb: "tab_split_focused_command host dir cwd cmd env (ws_tabs ws ! k) ctr =
      Some (tb, res, ctr')" "split_ok host (ws_tabs ws ! k) ctr tb res ctr'"
    using tab_split_facts [OF inv] unfolding tab_split_focused_command_def by metis
  define ws1 where "ws1 = ws\<lparr>ws_tabs := (ws_tabs ws)[k := tb]\<rparr>"
  have eq: "ws_split_focused_command host dir cwd cmd extra ws ctr =
      Some (case res of Inl e \<Rightarrow> (ws1, Inl e, ctr')
        | Inr np \<Rightarrow> (register_new_pane_with_number (np_pane_id np) (ws_next_public_pane_number ws) ws1,
            Inr np, ctr'))"
    using act tb(1) by (simp add: ws_split_focused_command_def env_def ws1_def k_def Let_def split: sum.split)
  show ?thesis
    using split_tab_wf [OF wf k left fresh tb(2)] wf ne unfolding ws1_def [symmetric]
    by (cases res) (auto simp: eq, simp_all add: ws1_def)
qed

section \<open>Moving panes\<close>

lemma take_pane_none: "i \<notin> live_panes ws \<Longrightarrow> ws_take_pane_for_move i ws = Some (ws, None)"
  using find_tab_None [of ws i] by (simp add: ws_take_pane_for_move_def)

lemma take_pane_wf:
  assumes wf: "workspace_wf ks ws" and live: "i \<in> live_panes ws"
  shows "\<exists>ws' tp. ws_take_pane_for_move i ws = Some (ws', Some tp) \<and> mp_pane_id (tp_moved tp) = i \<and>
    workspace_wf (insert i ks) ws' \<and> live_panes ws' = live_panes ws - {i} \<and>
    add_mset (i, mp_pane_state (tp_moved tp)) (mset (live_entries ws')) = mset (live_entries ws) \<and>
    (tp_workspace_empty tp \<longleftrightarrow> ws_tabs ws' = []) \<and>
    ws_public_pane_numbers ws' = ws_public_pane_numbers ws \<and>
    ws_next_public_pane_number ws' = ws_next_public_pane_number ws \<and>
    ws_next_public_tab_number ws' = ws_next_public_tab_number ws \<and>
    tb_number ` set (ws_tabs ws') \<subseteq> tb_number ` set (ws_tabs ws)"
proof -
  from live obtain k where Some: "find_tab_index_for_pane ws i = Some k"
    using find_tab_None [of ws i] by blast
  from find_tab_SomeD [OF Some wf] obtain pane where k: "k < length (ws_tabs ws)" "tab_inv (ws_tabs ws ! k)"
    "hm_get (tb_panes (ws_tabs ws ! k)) i = Some pane" by blast
  have ne: "ws_tabs ws \<noteq> []" using k(1) by auto
  from take_facts [OF k(2,3)] obtain tb where
    tb: "tab_take_pane_for_move i (ws_tabs ws ! k) = Some (tb, Some \<lparr>mp_pane_id = i, mp_pane_state = pane\<rparr>)"
      "tb_panes tb = hm_remove i (tb_panes (ws_tabs ws ! k))" "tb_number tb = tb_number (ws_tabs ws ! k)"
      "\<not> tl_pane_count (tb_layout (ws_tabs ws ! k)) \<le> 1 \<Longrightarrow> tab_inv tb" by blast
  show ?thesis
  proof (cases "tl_pane_count (tb_layout (ws_tabs ws ! k)) \<le> 1")
    case True
    note single = single_pane [OF k(2) True k(3)]
    note dw = drop_tab_wf [OF wf k(1), unfolded single, simplified]
    have mem: "add_mset (i, pane) (mset (live_entries (drop_tab k ws))) = mset (live_entries ws)"
      using entries_remove [OF k(1)] by (simp add: dw(3) single)
    have "ws_take_pane_for_move i ws = Some (drop_tab k ws,
        Some \<lparr>tp_moved = \<lparr>mp_pane_id = i, mp_pane_state = pane\<rparr>, tp_removed_tab_idx = Some k,
          tp_workspace_empty = (ws_tabs (drop_tab k ws) = [])\<rparr>)"
      using Some True tb(1) by (simp add: ws_take_pane_for_move_def drop_tab_def Let_def)
    moreover have "ws_public_pane_numbers (drop_tab k ws) = ws_public_pane_numbers ws"
      "ws_next_public_pane_number (drop_tab k ws) = ws_next_public_pane_number ws"
      "ws_next_public_tab_number (drop_tab k ws) = ws_next_public_tab_number ws"
      by (simp_all add: drop_tab_def)
    moreover have "tb_number ` set (ws_tabs (drop_tab k ws)) \<subseteq> tb_number ` set (ws_tabs ws)"
      using set_vec_remove_subset [of k "ws_tabs ws"] by (auto simp: dw(3))
    ultimately show ?thesis using dw mem by auto
  next
    case False
    note lw = lose_from_tab [OF wf k(1) tb(4) [OF False] tb(3) k(3) tb(2)]
    have "hm_wf (tb_panes (ws_tabs ws ! k))" using k(2) by (simp add: tab_inv_def)
    from mset_hm_remove [OF this k(3)] entries_update [OF k(1), of tb]
    have mem: "add_mset (i, pane) (mset (tab_entries ((ws_tabs ws)[k := tb]))) = mset (live_entries ws)"
      unfolding tb(2) by (rule mset_swapped [rotated])
    have "ws_take_pane_for_move i ws = Some (ws\<lparr>ws_tabs := (ws_tabs ws)[k := tb]\<rparr>,
        Some \<lparr>tp_moved = \<lparr>mp_pane_id = i, mp_pane_state = pane\<rparr>, tp_removed_tab_idx = None,
          tp_workspace_empty = False\<rparr>)"
      using Some False tb(1) by (simp add: ws_take_pane_for_move_def Let_def)
    with lw ne mem numbers_of_update [OF k(1) tb(3)] show ?thesis by auto
  qed
qed

text \<open>A pane that is inserted owns its number already, or gets the next one.\<close>

definition pane_arrives :: "pane_id set \<Rightarrow> moved_pane \<Rightarrow> workspace \<Rightarrow> bool" where
  "pane_arrives ks moved ws \<longleftrightarrow>
     mp_pane_id moved \<notin> live_panes ws \<and>
     pn_attached_terminal_id (mp_pane_state moved) \<notin> entry_terminal ` set (live_entries ws) \<and>
     (mp_pane_id moved \<in> ks \<or> ws_next_public_pane_number ws < usize_max)"

lemma numbered_iff:
  assumes "workspace_wf ks ws" and "i \<notin> live_panes ws"
  shows "hm_contains (ws_public_pane_numbers ws) i \<longleftrightarrow> i \<in> ks"
  using workspace_wfD(4) [OF assms(1)] assms(2) by (auto simp: public_ok_def hm_contains_iff)

lemma insert_moved_wf:
  assumes wf: "workspace_wf ks ws" and ok: "pane_arrives ks moved ws"
    and res: "insert_moved_pane_into_tab idx target moved dir ratio foc ws = (ws', out)"
  shows "case out of
      Inl m \<Rightarrow> ws' = ws \<and> m = moved
    | Inr i \<Rightarrow> i = mp_pane_id moved \<and> workspace_wf (ks - {i}) ws' \<and>
        mset (live_entries ws') = add_mset (i, mp_pane_state moved) (mset (live_entries ws)) \<and>
        ws_tabs ws' \<noteq> [] \<and> (i \<in> ks \<longrightarrow> numbers_step ctr ws ws' \<and>
          ws_public_pane_numbers ws' = ws_public_pane_numbers ws)"
proof (cases "idx < length (ws_tabs ws)")
  case False
  with res show ?thesis by (auto simp: insert_moved_pane_into_tab_def nth_opt_def)
next
  case True
  define tb where "tb = ws_tabs ws ! idx"
  obtain tb' r where tr: "tab_insert_existing_pane target moved dir ratio foc tb = (tb', r)" by fastforce
  have "tab_inv tb" using workspace_wfD(1) [OF wf] True by (simp add: tb_def list_all_length)
  note ins = insert_facts [OF this _ tr]
  have "mp_pane_id moved \<notin> set (hm_keys (tb_panes tb))"
    using tab_keys_live [OF True] ok by (simp add: pane_arrives_def tb_def)
  note ins = ins [OF this]
  show ?thesis
  proof (cases r)
    case (Inl m)
    have "ws\<lparr>ws_tabs := ws_tabs ws\<rparr> = ws" by (cases ws) simp
    with res Inl ins tr True show ?thesis
      by (auto simp: insert_moved_pane_into_tab_def nth_opt_def tb_def)
  next
    case (Inr i)
    define ws1 where "ws1 = ws\<lparr>ws_tabs := (ws_tabs ws)[idx := tb']\<rparr>"
    have t: "i = mp_pane_id moved" "tab_inv tb'" "tb_number tb' = tb_number (ws_tabs ws ! idx)"
      "tb_panes tb' = tb_panes (ws_tabs ws ! idx) @ [(i, mp_pane_state moved)]"
      using ins Inr by (auto simp: tb_def)
    have new: "i \<notin> live_panes ws"
        "pn_attached_terminal_id (mp_pane_state moved) \<notin> entry_terminal ` set (live_entries ws)"
      using ok t(1) by (simp_all add: pane_arrives_def)
    note g = gain_pane [OF wf True t(2,3,4) new, folded ws1_def]
    have "ws_next_public_pane_number ws < usize_max" if "i \<notin> ks"
      using ok that t(1) by (simp add: pane_arrives_def)
    moreover have "out = Inr i" and ws': "ws' = (if i \<in> ks then ws1
        else register_new_pane_with_number i (ws_next_public_pane_number ws) ws1)"
      using res True tr Inr numbered_iff [OF wf new(1)]
      by (auto simp: insert_moved_pane_into_tab_def nth_opt_def tb_def [symmetric] ws1_def split: if_splits)
    ultimately show ?thesis using g t(1) True set_tab_numbers [OF True t(3)] by (auto simp: ws1_def)
  qed
qed

lemma create_from_existing_wf:
  assumes wf: "workspace_wf ks ws" and ok: "pane_arrives ks moved ws"
    and left: "ws_next_public_tab_number ws < usize_max"
    and res: "create_tab_from_existing_pane moved label ws = (ws', idx)"
  shows "workspace_wf (ks - {mp_pane_id moved}) ws'"
    and "live_entries ws' = live_entries ws @ [(mp_pane_id moved, mp_pane_state moved)]"
    and "ws_tabs ws' \<noteq> []" and "idx = length (ws_tabs ws)"
    and "mp_pane_id moved \<in> ks \<Longrightarrow> numbers_step ctr ws ws' \<and> ws_public_pane_numbers ws' = ws_public_pane_numbers ws"
proof -
  define i where "i = mp_pane_id moved"
  define tb where "tb = tab_from_existing_pane (ws_next_public_tab_number ws) label moved"
  define ws1 where "ws1 = ws\<lparr>ws_next_public_tab_number := usize_add (ws_next_public_tab_number ws) 1\<rparr>"
  have new: "i \<notin> live_panes ws"
      "pn_attached_terminal_id (mp_pane_state moved) \<notin> entry_terminal ` set (live_entries ws)"
    using ok by (simp_all add: pane_arrives_def i_def)
  have ws': "ws' = (if i \<in> ks then ws1 else register_new_pane_with_number i (ws_next_public_pane_number ws) ws1)
      \<lparr>ws_tabs := ws_tabs ws @ [tb]\<rparr>" and "idx = length (ws_tabs ws)"
    using res numbered_iff [OF wf new(1)]
    by (auto simp: create_tab_from_existing_pane_def ws1_def i_def tb_def Let_def)
  then show "idx = length (ws_tabs ws)" by simp
  have "ws_next_public_pane_number ws < usize_max" if "i \<notin> ks"
    using ok that by (simp add: pane_arrives_def i_def)
  then have "workspace_wf (ks - {i}) ws'"
    by (intro append_tab_wf(1) [OF wf _ _ left _ new, of tb];
        auto simp: ws' ws1_def tb_def i_def tab_from_existing_inv)
  moreover have "live_entries ws' = live_entries ws @ [(i, mp_pane_state moved)]"
    by (simp add: ws' tb_def i_def)
  ultimately show "workspace_wf (ks - {mp_pane_id moved}) ws'"
    "live_entries ws' = live_entries ws @ [(mp_pane_id moved, mp_pane_state moved)]" by (simp_all add: i_def)
  show "ws_tabs ws' \<noteq> []" by (simp add: ws')
  show "numbers_step ctr ws ws' \<and> ws_public_pane_numbers ws' = ws_public_pane_numbers ws" if "mp_pane_id moved \<in> ks"
    using that left usize_add_no_wrap [of "ws_next_public_tab_number ws" 1]
    by (auto simp: ws' ws1_def numbers_step_def i_def tb_def tab_from_existing_pane_def)
qed

lemma numbers_step_seq:
  assumes "numbers_step ctr ws ws2"
    and "ws_public_pane_numbers ws = ws_public_pane_numbers ws1"
    and "ws_next_public_pane_number ws = ws_next_public_pane_number ws1"
    and "ws_next_public_tab_number ws = ws_next_public_tab_number ws1"
    and "tb_number ` set (ws_tabs ws) \<subseteq> tb_number ` set (ws_tabs ws1)"
  shows "numbers_step ctr ws1 ws2"
proof -
  have "tb_number ` set (ws_tabs ws2) \<subseteq> insert (ws_next_public_tab_number ws1) (tb_number ` set (ws_tabs ws1))"
    using assms by (simp add: numbers_step_def) blast
  with assms show ?thesis by (simp add: numbers_step_def)
qed

end
