(* ===== verification/Workspace_Calls.thy ===== *)
theory Workspace_Calls
  imports Workspace_Panes
begin

text \<open>
  The machine of all operations of a workspace: no operation panics or breaks the invariant
  (\<open>op_machine\<close> interpreted), and every step gives public numbers only once.
\<close>

section \<open>The machine\<close>

text \<open>
  Moving a pane inside its workspace as the API does it: the pane is taken out and inserted; when it
  cannot be inserted it gets a tab of its own.
\<close>

definition move_pane_to_tab ::
  "pane_id \<Rightarrow> nat \<Rightarrow> pane_id \<Rightarrow> direction \<Rightarrow> f32 \<Rightarrow> bool \<Rightarrow> string option \<Rightarrow> workspace \<Rightarrow> workspace option" where
  "move_pane_to_tab i tab_idx target direction ratio do_focus label ws =
     map_option (\<lambda>(ws1, taken). case taken of
         None \<Rightarrow> ws1
       | Some tp \<Rightarrow>
           (case insert_moved_pane_into_tab tab_idx target (tp_moved tp) direction ratio do_focus ws1 of
              (ws2, Inr _) \<Rightarrow> ws2
            | (ws2, Inl moved) \<Rightarrow> fst (create_tab_from_existing_pane moved label ws2)))
       (ws_take_pane_for_move i ws)"

definition move_pane_to_new_tab :: "pane_id \<Rightarrow> string option \<Rightarrow> workspace \<Rightarrow> workspace option" where
  "move_pane_to_new_tab i label ws =
     map_option (\<lambda>(ws1, taken). case taken of
         None \<Rightarrow> ws1
       | Some tp \<Rightarrow> fst (create_tab_from_existing_pane (tp_moved tp) label ws1))
       (ws_take_pane_for_move i ws)"

datatype ('e, 'rt) workspace_op =
    OpCreateTab "('e, 'rt) host" string "string list option" "(string \<times> string) list"
  | OpSplitFocused "('e, 'rt) host" direction "string option" string "(string \<times> string) list"
  | OpSplitPane "('e, 'rt) host" pane_id direction "f32 option" "string option" "(string \<times> string) list"
      bool "string list option"
  | OpCloseTab nat
  | OpMoveTab nat nat
  | OpSwitchTab nat
  | OpRemovePane pane_id
  | OpClosePane pane_id
  | OpMoveToTab pane_id nat pane_id direction f32 bool "string option"
  | OpMoveToNewTab pane_id "string option"

fun workspace_step :: "workspace \<times> id_counters \<Rightarrow> ('e, 'rt) workspace_op \<Rightarrow> (workspace \<times> id_counters) option" where
  "workspace_step (ws, ctr) (OpCreateTab host cwd argv extra) =
     map_option (\<lambda>(ws', _, ctr'). (ws', ctr')) (create_tab_with_runtime host cwd argv extra ws ctr)"
| "workspace_step (ws, ctr) (OpSplitFocused host dir cwd cmd extra) =
     map_option (\<lambda>(ws', _, ctr'). (ws', ctr')) (ws_split_focused_command host dir cwd cmd extra ws ctr)"
| "workspace_step (ws, ctr) (OpSplitPane host i dir ratio cwd extra foc argv) =
     map_option (\<lambda>(ws', _, ctr'). (ws', ctr'))
       (ws_split_pane_with_runtime host i dir ratio cwd extra foc argv ws ctr)"
| "workspace_step (ws, ctr) (OpCloseTab idx) = Some (fst (close_tab idx ws), ctr)"
| "workspace_step (ws, ctr) (OpMoveTab s t) = Some (fst (move_tab s t ws), ctr)"
| "workspace_step (ws, ctr) (OpSwitchTab idx) = Some (switch_tab idx ws, ctr)"
| "workspace_step (ws, ctr) (OpRemovePane i) = map_option (\<lambda>(ws', _). (ws', ctr)) (ws_remove_pane i ws)"
| "workspace_step (ws, ctr) (OpClosePane i) = map_option (\<lambda>(ws', _). (ws', ctr)) (ws_close_pane i ws)"
| "workspace_step (ws, ctr) (OpMoveToTab i idx target dir ratio foc label) =
     map_option (\<lambda>ws'. (ws', ctr)) (move_pane_to_tab i idx target dir ratio foc label ws)"
| "workspace_step (ws, ctr) (OpMoveToNewTab i label) =
     map_option (\<lambda>ws'. (ws', ctr)) (move_pane_to_new_tab i label ws)"

text \<open>
  What the calls rely on: the counters have not reached the end of their range, and the id of a new
  terminal differs from the attached ones.
\<close>

fun workspace_op_ok :: "workspace \<times> id_counters \<Rightarrow> ('e, 'rt) workspace_op \<Rightarrow> bool" where
  "workspace_op_ok (ws, ctr) p \<longleftrightarrow>
     numbers_left ws \<and> unat (ic_next_pane ctr) + 1 < 2 ^ 32 \<and>
     (case p of
        OpCreateTab host _ _ _ \<Rightarrow> next_terminal_id host ctr \<notin> entry_terminal ` set (live_entries ws)
      | OpSplitFocused host _ _ _ _ \<Rightarrow> next_terminal_id host ctr \<notin> entry_terminal ` set (live_entries ws)
      | OpSplitPane host _ _ _ _ _ _ _ \<Rightarrow> next_terminal_id host ctr \<notin> entry_terminal ` set (live_entries ws)
      | _ \<Rightarrow> True)"

fun workspace_state_inv :: "workspace \<times> id_counters \<Rightarrow> bool" where
  "workspace_state_inv (ws, ctr) \<longleftrightarrow>
     workspace_inv ws \<and> (\<forall>p \<in> live_panes ws. unat p < unat (ic_next_pane ctr))"

text \<open>What a move inside a workspace keeps.\<close>

definition moved_inside :: "id_counters \<Rightarrow> pane_id \<Rightarrow> workspace \<Rightarrow> workspace \<Rightarrow> bool" where
  "moved_inside ctr i ws ws' \<longleftrightarrow>
     workspace_wf {} ws' \<and> ws_tabs ws' \<noteq> [] \<and> mset (live_entries ws') = mset (live_entries ws) \<and>
     numbers_step ctr ws ws' \<and> ws_public_pane_numbers ws' = ws_public_pane_numbers ws"

lemma taken_pane_arrives:
  assumes wf: "workspace_wf {} ws" and live: "i \<in> live_panes ws"
  shows "\<exists>ws1 tp. ws_take_pane_for_move i ws = Some (ws1, Some tp) \<and> mp_pane_id (tp_moved tp) = i \<and>
    workspace_wf {i} ws1 \<and> pane_arrives {i} (tp_moved tp) ws1 \<and>
    add_mset (i, mp_pane_state (tp_moved tp)) (mset (live_entries ws1)) = mset (live_entries ws) \<and>
    (\<forall>ws2. numbers_step ctr ws1 ws2 \<longrightarrow> numbers_step ctr ws ws2) \<and>
    ws_public_pane_numbers ws1 = ws_public_pane_numbers ws \<and>
    ws_next_public_tab_number ws1 = ws_next_public_tab_number ws"
proof -
  from take_pane_wf [OF wf live] obtain ws1 tp where
    t: "ws_take_pane_for_move i ws = Some (ws1, Some tp)" "mp_pane_id (tp_moved tp) = i" "workspace_wf {i} ws1"
      "live_panes ws1 = live_panes ws - {i}"
      "add_mset (i, mp_pane_state (tp_moved tp)) (mset (live_entries ws1)) = mset (live_entries ws)"
      "ws_public_pane_numbers ws1 = ws_public_pane_numbers ws"
      "ws_next_public_pane_number ws1 = ws_next_public_pane_number ws"
      "ws_next_public_tab_number ws1 = ws_next_public_tab_number ws"
      "tb_number ` set (ws_tabs ws1) \<subseteq> tb_number ` set (ws_tabs ws)" by auto
  have "entries_ok (live_entries ws)" using workspace_wfD(2) [OF wf] .
  then have "pane_arrives {i} (tp_moved tp) ws1"
    using entries_ok_add [OF t(5) [symmetric]] t(2) by (simp add: pane_arrives_def entry_terminal_def)
  moreover have "\<forall>ws2. numbers_step ctr ws1 ws2 \<longrightarrow> numbers_step ctr ws ws2"
    using numbers_step_seq [OF _ t(6-9)] by blast
  ultimately show ?thesis by (intro exI [of _ ws1] exI [of _ tp] conjI) (rule t | assumption)+
qed

lemma insert_taken:
  assumes wf: "workspace_wf {i} ws1" and ok: "pane_arrives {i} mp ws1" and i: "mp_pane_id mp = i"
    and left: "ws_next_public_tab_number ws1 < usize_max"
    and res: "ws' = fst (create_tab_from_existing_pane mp label ws1) \<or>
      (\<exists>idx target dir ratio foc j. insert_moved_pane_into_tab idx target mp dir ratio foc ws1 = (ws', Inr j))"
  shows "workspace_wf {} ws' \<and> ws_tabs ws' \<noteq> [] \<and>
    mset (live_entries ws') = add_mset (i, mp_pane_state mp) (mset (live_entries ws1)) \<and>
    numbers_step ctr ws1 ws' \<and> ws_public_pane_numbers ws' = ws_public_pane_numbers ws1"
  using res
proof (elim disjE exE)
  assume "ws' = fst (create_tab_from_existing_pane mp label ws1)"
  then obtain idx where "create_tab_from_existing_pane mp label ws1 = (ws', idx)" by (metis prod.collapse)
  note c = create_from_existing_wf [OF wf ok left this]
  from c(1-3) c(5) [of ctr] i show ?thesis by simp
next
  fix idx target dir ratio foc j
  assume "insert_moved_pane_into_tab idx target mp dir ratio foc ws1 = (ws', Inr j)"
  from insert_moved_wf [OF wf ok this, where ctr = ctr] i show ?thesis by auto
qed

lemma move_to_tab_wf:
  assumes wf: "workspace_wf {} ws" and live: "i \<in> live_panes ws" and left: "numbers_left ws"
  shows "\<exists>ws'. move_pane_to_tab i idx target dir ratio foc label ws = Some ws' \<and> moved_inside ctr i ws ws'"
proof -
  from taken_pane_arrives [OF wf live, of ctr] obtain ws1 tp where
    t: "ws_take_pane_for_move i ws = Some (ws1, Some tp)" "mp_pane_id (tp_moved tp) = i" "workspace_wf {i} ws1"
      "pane_arrives {i} (tp_moved tp) ws1"
      "add_mset (i, mp_pane_state (tp_moved tp)) (mset (live_entries ws1)) = mset (live_entries ws)"
      "\<And>ws2. numbers_step ctr ws1 ws2 \<Longrightarrow> numbers_step ctr ws ws2"
      "ws_public_pane_numbers ws1 = ws_public_pane_numbers ws"
      "ws_next_public_tab_number ws1 = ws_next_public_tab_number ws" by auto
  obtain ws2 out where ins: "insert_moved_pane_into_tab idx target (tp_moved tp) dir ratio foc ws1 = (ws2, out)"
    by fastforce
  define ws' where "ws' = (case out of Inr _ \<Rightarrow> ws2 | Inl m \<Rightarrow> fst (create_tab_from_existing_pane m label ws2))"
  have "move_pane_to_tab i idx target dir ratio foc label ws = Some ws'"
    by (simp add: move_pane_to_tab_def t(1) ins ws'_def)
  moreover have "ws' = fst (create_tab_from_existing_pane (tp_moved tp) label ws1) \<or>
      (\<exists>idx target dir ratio foc j. insert_moved_pane_into_tab idx target (tp_moved tp) dir ratio foc ws1 = (ws', Inr j))"
    using insert_moved_wf [OF t(3,4) ins] ins by (cases out) (auto simp: ws'_def)
  from insert_taken [OF t(3,4,2) _ this] t left have "moved_inside ctr i ws ws'"
    by (simp add: numbers_left_def moved_inside_def)
  ultimately show ?thesis by blast
qed

lemma move_to_new_tab_wf:
  assumes wf: "workspace_wf {} ws" and live: "i \<in> live_panes ws" and left: "numbers_left ws"
  shows "\<exists>ws'. move_pane_to_new_tab i label ws = Some ws' \<and> moved_inside ctr i ws ws'"
proof -
  from taken_pane_arrives [OF wf live, of ctr] obtain ws1 tp where
    t: "ws_take_pane_for_move i ws = Some (ws1, Some tp)" "mp_pane_id (tp_moved tp) = i" "workspace_wf {i} ws1"
      "pane_arrives {i} (tp_moved tp) ws1"
      "add_mset (i, mp_pane_state (tp_moved tp)) (mset (live_entries ws1)) = mset (live_entries ws)"
      "\<And>ws2. numbers_step ctr ws1 ws2 \<Longrightarrow> numbers_step ctr ws ws2"
      "ws_public_pane_numbers ws1 = ws_public_pane_numbers ws"
      "ws_next_public_tab_number ws1 = ws_next_public_tab_number ws" by auto
  define ws' where "ws' = fst (create_tab_from_existing_pane (tp_moved tp) label ws1)"
  have "move_pane_to_new_tab i label ws = Some ws'" by (simp add: move_pane_to_new_tab_def t(1) ws'_def)
  moreover from insert_taken [OF t(3,4,2) _ disjI1 [OF ws'_def]] t left have "moved_inside ctr i ws ws'"
    by (simp add: numbers_left_def moved_inside_def)
  ultimately show ?thesis by blast
qed


section \<open>Every step\<close>

text \<open>The ids and numbers given after \<open>s\<close> are new.\<close>

fun numbers_fresh :: "workspace \<times> id_counters \<Rightarrow> workspace \<times> id_counters \<Rightarrow> bool" where
  "numbers_fresh (ws, ctr) (ws', ctr') \<longleftrightarrow>
     unat (ic_next_pane ctr) \<le> unat (ic_next_pane ctr') \<and>
     ws_next_public_pane_number ws \<le> ws_next_public_pane_number ws' \<and>
     ws_next_public_tab_number ws \<le> ws_next_public_tab_number ws' \<and>
     (\<forall>i n. hm_get (ws_public_pane_numbers ws') i = Some n \<longrightarrow>
        hm_get (ws_public_pane_numbers ws) i = Some n \<or>
        ws_next_public_pane_number ws \<le> n \<and> unat (ic_next_pane ctr) \<le> unat i) \<and>
     tb_number ` set (ws_tabs ws') \<subseteq>
       tb_number ` set (ws_tabs ws) \<union> {n. ws_next_public_tab_number ws \<le> n}"

lemma numbers_fresh_refl: "numbers_fresh s s"
  by (cases s) auto

lemma numbers_fresh_trans: "numbers_fresh a b \<Longrightarrow> numbers_fresh b c \<Longrightarrow> numbers_fresh a c"
proof -
  obtain wa ca wb cb wc cc where s: "a = (wa, ca)" "b = (wb, cb)" "c = (wc, cc)" by (cases a; cases b; cases c)
  assume ab: "numbers_fresh a b" and bc: "numbers_fresh b c"
  have le: "unat (ic_next_pane ca) \<le> unat (ic_next_pane cb)" "unat (ic_next_pane cb) \<le> unat (ic_next_pane cc)"
    "ws_next_public_pane_number wa \<le> ws_next_public_pane_number wb"
    "ws_next_public_pane_number wb \<le> ws_next_public_pane_number wc"
    "ws_next_public_tab_number wa \<le> ws_next_public_tab_number wb"
    "ws_next_public_tab_number wb \<le> ws_next_public_tab_number wc" using ab bc by (simp_all add: s)
  have "hm_get (ws_public_pane_numbers wa) i = Some n \<or>
      ws_next_public_pane_number wa \<le> n \<and> unat (ic_next_pane ca) \<le> unat i"
    if "hm_get (ws_public_pane_numbers wc) i = Some n" for i n
  proof (cases "hm_get (ws_public_pane_numbers wb) i = Some n")
    case True
    then show ?thesis using ab by (simp add: s)
  next
    case False
    then show ?thesis using bc that le by (auto simp: s intro: le_trans)
  qed
  moreover have "tb_number ` set (ws_tabs wc) \<subseteq>
      tb_number ` set (ws_tabs wa) \<union> {n. ws_next_public_tab_number wa \<le> n}"
    using ab bc le(5) by (simp add: s) (blast intro: le_trans)
  ultimately show ?thesis using le by (simp add: s)
qed

lemma next_pane_unat:
  "unat (n :: u32) + 1 < 2 ^ 32 \<Longrightarrow> unat (n + 1) = unat n + 1"
  by (simp add: unat_word_ariths)

lemma numbers_fresh_step:
  assumes "numbers_step ctr ws ws'" and "unat (ic_next_pane ctr) \<le> unat (ic_next_pane ctr')"
  shows "numbers_fresh (ws, ctr) (ws', ctr')"
  using assms by (auto simp: numbers_step_def)

lemma progress_bound:
  assumes "pane_progress ctr ctr' old new" and "\<forall>p \<in> old. unat p < unat (ic_next_pane ctr)"
    and "unat (ic_next_pane ctr) + 1 < 2 ^ 32"
  shows "(\<forall>p \<in> new. unat p < unat (ic_next_pane ctr')) \<and> unat (ic_next_pane ctr) \<le> unat (ic_next_pane ctr')"
  using assms(1) unfolding pane_progress_def
proof (elim disjE conjE)
  assume "ic_next_pane ctr' = ic_next_pane ctr" "new \<subseteq> old"
  with assms(2) show ?thesis by auto
next
  assume n: "ic_next_pane ctr' = ic_next_pane ctr + 1" "new \<subseteq> insert (ic_next_pane ctr) old"
  then have "unat (ic_next_pane ctr') = unat (ic_next_pane ctr) + 1" using next_pane_unat [OF assms(3)] by simp
  moreover from this have "\<forall>p \<in> insert (ic_next_pane ctr) old. unat p < unat (ic_next_pane ctr')"
    using assms(2) by (simp add: less_SucI)
  ultimately show ?thesis using n(2) by fastforce
qed

text \<open>The facts of an operation, as the machine needs them.\<close>

lemma stepped:
  assumes inv: "workspace_state_inv (ws, ctr)" and bound: "unat (ic_next_pane ctr) + 1 < 2 ^ 32"
    and "workspace_wf {} ws'" and "ws_tabs ws \<noteq> [] \<longrightarrow> ws_tabs ws' \<noteq> []"
    and "pane_progress ctr ctr' (live_panes ws) (live_panes ws')" and "numbers_step ctr ws ws'"
  shows "workspace_state_inv (ws', ctr') \<and> numbers_fresh (ws, ctr) (ws', ctr')"
proof -
  have "\<forall>p \<in> live_panes ws. unat p < unat (ic_next_pane ctr)" using inv by simp
  from progress_bound [OF assms(5) this bound] numbers_fresh_step [OF assms(6)] assms(3,4) inv
  show ?thesis by (simp add: workspace_inv_def del: numbers_fresh.simps)
qed

lemma move_step:
  assumes "workspace_state_inv (ws, ctr)" and "workspace_op_ok (ws, ctr) p"
    and "(\<forall>ctr. i \<in> live_panes ws \<longrightarrow> (\<exists>ws'. f ws = Some ws' \<and> moved_inside ctr i ws ws'))"
    and "i \<notin> live_panes ws \<longrightarrow> f ws = Some ws"
  shows "\<exists>ws'. f ws = Some ws' \<and> workspace_state_inv (ws', ctr) \<and> numbers_fresh (ws, ctr) (ws', ctr)"
proof (cases "i \<in> live_panes ws")
  case False
  with assms numbers_fresh_refl show ?thesis by blast
next
  case True
  with assms(3) obtain ws' where ws': "f ws = Some ws'" "moved_inside ctr i ws ws'" by blast
  then have "live_panes ws' = live_panes ws" using set_entries_mset by (metis moved_inside_def)
  with ws'(2) stepped [OF assms(1), of ws' ctr] assms(2) show ?thesis
    by (auto simp: ws'(1) moved_inside_def pane_progress_refl simp del: workspace_state_inv.simps numbers_fresh.simps)
qed

lemma workspace_step_facts:
  assumes inv: "workspace_state_inv s" and ok: "workspace_op_ok s p"
  shows "\<exists>s'. workspace_step s p = Some s' \<and> workspace_state_inv s' \<and> numbers_fresh s s'"
proof -
  obtain ws ctr where s: "s = (ws, ctr)" by fastforce
  have wf: "workspace_wf {} ws" and ne: "ws_tabs ws \<noteq> []" and inv': "workspace_state_inv (ws, ctr)"
    using inv by (simp_all add: s workspace_inv_def)
  have left: "numbers_left ws" and bound: "unat (ic_next_pane ctr) + 1 < 2 ^ 32"
    and ok': "workspace_op_ok (ws, ctr) p" using ok by (simp_all add: s)
  note stp = stepped [OF inv' bound]
  have new: "fresh_for host ctr {} ws" if "next_terminal_id host ctr \<notin> entry_terminal ` set (live_entries ws)"
    for host :: "('a, 'b) host" using that inv by (auto simp: s fresh_for_def)
  show ?thesis
  proof (cases p)
    case (OpCreateTab host cwd argv extra)
    then have "fresh_for host ctr {} ws" using new ok' by simp
    from create_tab_wf [OF wf ne left this, of cwd argv extra] stp OpCreateTab show ?thesis
      by (auto simp: s simp del: workspace_state_inv.simps numbers_fresh.simps)
  next
    case (OpSplitFocused host dir cwd cmd extra)
    then have "fresh_for host ctr {} ws" using new ok' by simp
    from split_focused_wf [OF wf ne left this, of dir cwd cmd extra] stp OpSplitFocused show ?thesis
      by (auto simp: s simp del: workspace_state_inv.simps numbers_fresh.simps)
  next
    case (OpSplitPane host i dir ratio cwd extra foc argv)
    then have "fresh_for host ctr {} ws" using new ok' by simp
    from split_pane_wf [OF wf left this, of i dir ratio cwd extra foc argv] stp ne OpSplitPane show ?thesis
      by (auto simp: s simp del: workspace_state_inv.simps numbers_fresh.simps)
  next
    case (OpCloseTab idx)
    with stp [OF close_tab_wf(1) [OF wf, of idx] _ pane_progress_refl [OF close_tab_wf(2) [OF wf]]
        close_tab_wf(4) [OF wf]] close_tab_wf(3) [OF wf]
    show ?thesis by (auto simp: s simp del: workspace_state_inv.simps numbers_fresh.simps)
  next
    case (OpMoveTab a b)
    have "ws_tabs (fst (move_tab a b ws)) \<noteq> []" using move_tab_wf(3) [OF wf, of a b] ne by fastforce
    with stp [OF move_tab_wf(1) [OF wf, of a b] _ pane_progress_refl [OF equalityD1 [OF move_tab_wf(2) [OF wf]]]
        move_tab_wf(4) [OF wf]] OpMoveTab
    show ?thesis by (auto simp: s simp del: workspace_state_inv.simps numbers_fresh.simps)
  next
    case (OpSwitchTab idx)
    with stp [OF switch_tab_wf(1) [OF wf, of idx] _ pane_progress_refl [OF equalityD1 [OF switch_tab_wf(2) [OF wf]]]
        switch_tab_wf(4) [OF wf]] switch_tab_wf(3) [OF wf]
    show ?thesis by (auto simp: s simp del: workspace_state_inv.simps numbers_fresh.simps)
  next
    case (OpRemovePane i)
    from remove_pane_wf [OF wf, of i ctr] obtain ws' b where r: "ws_remove_pane i ws = Some (ws', b)"
      "workspace_wf {} ws'" "ws_tabs ws \<noteq> [] \<longrightarrow> ws_tabs ws' \<noteq> []" "live_panes ws' \<subseteq> live_panes ws"
      "numbers_step ctr ws ws'" by (auto split: if_splits)
    from stp [OF r(2,3) pane_progress_refl [OF r(4)] r(5)] r(1) OpRemovePane show ?thesis
      by (simp add: s del: workspace_state_inv.simps numbers_fresh.simps)
  next
    case (OpClosePane i)
    from remove_pane_wf [OF wf, of i ctr] obtain ws' b where r: "ws_remove_pane i ws = Some (ws', b)"
      "workspace_wf {} ws'" "ws_tabs ws \<noteq> [] \<longrightarrow> ws_tabs ws' \<noteq> []" "live_panes ws' \<subseteq> live_panes ws"
      "numbers_step ctr ws ws'" by (auto split: if_splits)
    from stp [OF r(2,3) pane_progress_refl [OF r(4)] r(5)] r(1) OpClosePane show ?thesis
      by (simp add: s close_pane_is_remove_pane del: workspace_state_inv.simps numbers_fresh.simps)
  next
    case (OpMoveToTab i idx target dir ratio foc label)
    have "i \<notin> live_panes ws \<longrightarrow> move_pane_to_tab i idx target dir ratio foc label ws = Some ws"
      by (simp add: move_pane_to_tab_def take_pane_none)
    with move_step [OF inv' ok'] move_to_tab_wf [OF wf _ left] OpMoveToTab show ?thesis
      by (simp add: s del: workspace_state_inv.simps numbers_fresh.simps workspace_op_ok.simps) blast
  next
    case (OpMoveToNewTab i label)
    have "i \<notin> live_panes ws \<longrightarrow> move_pane_to_new_tab i label ws = Some ws"
      by (simp add: move_pane_to_new_tab_def take_pane_none)
    with move_step [OF inv' ok'] move_to_new_tab_wf [OF wf _ left] OpMoveToNewTab show ?thesis
      by (simp add: s del: workspace_state_inv.simps numbers_fresh.simps workspace_op_ok.simps) blast
  qed
qed

interpretation workspace_machine: op_machine workspace_step workspace_op_ok workspace_state_inv
  by unfold_locales (use workspace_step_facts in blast)

lemma workspace_run_fresh:
  assumes "workspace_state_inv s" and "run_guarded workspace_step workspace_op_ok s ps"
    and "run_ops workspace_step s ps = Some s'"
  shows "numbers_fresh s s'"
proof (rule workspace_machine.run_rel [OF numbers_fresh_refl numbers_fresh_trans _ assms])
  fix s s' and p :: "('a, 'b) workspace_op"
  assume "workspace_state_inv s" "workspace_op_ok s p" "workspace_step s p = Some s'"
  then show "numbers_fresh s s'" using workspace_step_facts [of s p] by auto
qed

end
