(* ===== verification/Workspace_View.thy ===== *)
theory Workspace_View
  imports Workspaces Rust_Str
begin

text \<open>
  What a workspace shows: the names of its tabs and its own, and the aggregation of the states of its
  terminals (\<open>workspace.rs\<close>, \<open>workspace/aggregate.rs\<close>, \<open>fallback_label_from_cwd\<close> of
  \<open>workspace/git/discovery.rs\<close>).
\<close>

section \<open>Paths\<close>

text \<open>The components of a \<open>Path\<close> on Unix; two paths are equal when their components are.\<close>

datatype path_component = RootDir | CurDir | ParentDir | NormalDir string

definition part_components :: "string \<Rightarrow> path_component list" where
  "part_components s =
     (if s = '''' \<or> s = ''.'' then [] else if s = ''..'' then [ParentDir] else [NormalDir s])"

definition path_components :: "string \<Rightarrow> path_component list" where
  "path_components p =
     (let parts = split_on (\<lambda>c. c = CHR ''/'') p
      in (if starts_with p ''/'' then [RootDir] else if hd parts = ''.'' then [CurDir] else [])
         @ concat (map part_components parts))"

definition path_eq :: "string \<Rightarrow> string \<Rightarrow> bool" where
  "path_eq p q \<longleftrightarrow> path_components p = path_components q"

definition path_file_name :: "string \<Rightarrow> string option" where
  "path_file_name p =
     (case rev (path_components p) of NormalDir s # _ \<Rightarrow> Some s | _ \<Rightarrow> None)"

text \<open>\<open>home\<close> is the variable \<open>HOME\<close>; paths are valid UTF-8.\<close>

definition fallback_label_from_cwd :: "string option \<Rightarrow> string \<Rightarrow> string" where
  "fallback_label_from_cwd home cwd =
     (if is_some_and home (path_eq cwd) then ''~''
      else unwrap_or (opt_filter (\<lambda>s. s \<noteq> []) (path_file_name cwd)) cwd)"

section \<open>Names\<close>

definition tab_display_name :: "workspace \<Rightarrow> nat \<Rightarrow> string option" where
  "tab_display_name ws tab_idx =
     map_option (\<lambda>tb. unwrap_or (tb_custom_name tb) (decimal (tab_idx + 1))) (nth_opt (ws_tabs ws) tab_idx)"

definition active_tab_display_name :: "workspace \<Rightarrow> string option" where
  "active_tab_display_name ws = tab_display_name ws (ws_active_tab ws)"

definition automatic_display_name_for_cwd :: "string option \<Rightarrow> workspace \<Rightarrow> string \<Rightarrow> string" where
  "automatic_display_name_for_cwd home ws cwd =
     (if path_eq cwd (ws_cached_identity_cwd ws) then ws_cached_auto_label ws
      else fallback_label_from_cwd home cwd)"

definition display_name_from_terminals ::
  "string option \<Rightarrow> (string, terminal_state) hashmap \<Rightarrow> workspace \<Rightarrow> string" where
  "display_name_from_terminals home terminals ws =
     (case ws_custom_name ws of
        Some name \<Rightarrow> name
      | None \<Rightarrow>
          automatic_display_name_for_cwd home ws
            (unwrap_or
               (Option.bind (nth_opt (ws_tabs ws) 0) (\<lambda>tb.
                Option.bind (tab_terminal_id tb (tb_root_pane tb)) (\<lambda>terminal_id.
                map_option ts_cwd (hm_get terminals terminal_id))))
               (ws_identity_cwd ws)))"

definition display_name_from ::
  "string option \<Rightarrow> (string \<Rightarrow> string option) \<Rightarrow> (string, terminal_state) hashmap \<Rightarrow> workspace \<Rightarrow> string" where
  "display_name_from home runtime_cwd terminals ws =
     (case ws_custom_name ws of
        Some name \<Rightarrow> name
      | None \<Rightarrow> unwrap_or
          (map_option (automatic_display_name_for_cwd home ws)
             (resolved_identity_cwd_from runtime_cwd terminals ws)) ''workspace'')"

section \<open>Aggregation\<close>

fun pane_attention_priority :: "agent_state \<Rightarrow> bool \<Rightarrow> nat" where
  "pane_attention_priority Blocked _ = 4"
| "pane_attention_priority Idle False = 3"
| "pane_attention_priority Working _ = 2"
| "pane_attention_priority Idle True = 1"
| "pane_attention_priority Unknown _ = 0"

text \<open>The states of the panes whose terminal exists, in the order of the tables.\<close>

definition pane_views :: "(string, terminal_state) hashmap \<Rightarrow> workspace \<Rightarrow> (agent_state \<times> bool) list" where
  "pane_views terminals ws =
     List.map_filter (\<lambda>pane. map_option (\<lambda>t. (ts_state t, pn_seen pane))
         (hm_get terminals (pn_attached_terminal_id pane)))
       (concat (map (\<lambda>tb. hm_values (tb_panes tb)) (ws_tabs ws)))"

definition aggregate_state :: "(string, terminal_state) hashmap \<Rightarrow> workspace \<Rightarrow> agent_state \<times> bool" where
  "aggregate_state terminals ws =
     unwrap_or (max_by_key (\<lambda>(st, seen). pane_attention_priority st seen) (pane_views terminals ws))
       (Unknown, True)"

record pane_detail =
  pd_pane_id :: pane_id
  pd_tab_idx :: nat
  pd_agent_kind_label :: "string option"
  pd_state :: agent_state
  pd_seen :: bool
  pd_last_agent_state_change_seq :: "u64 option"
  pd_tokens :: "(string, string) hashmap"

definition tab_pane_details :: "(string, terminal_state) hashmap \<Rightarrow> nat \<Rightarrow> tab \<Rightarrow> pane_detail list" where
  "tab_pane_details terminals tab_idx tb =
     List.map_filter (\<lambda>i.
       Option.bind (hm_get (tb_panes tb) i) (\<lambda>pane.
       Option.bind (hm_get terminals (pn_attached_terminal_id pane)) (\<lambda>t.
       let agent_kind_label = effective_agent_label t
       in if ts_agent_name t = None \<and> agent_kind_label = None then None
          else Some \<lparr>pd_pane_id = i, pd_tab_idx = tab_idx, pd_agent_kind_label = agent_kind_label,
            pd_state = ts_state t, pd_seen = pn_seen pane,
            pd_last_agent_state_change_seq = ts_last_agent_state_change_seq t,
            pd_tokens = tokens_values (ts_metadata_tokens t)\<rparr>)))
       (tl_pane_ids (tb_layout tb))"

definition pane_details :: "(string, terminal_state) hashmap \<Rightarrow> workspace \<Rightarrow> pane_detail list" where
  "pane_details terminals ws =
     concat (map (\<lambda>(tab_idx, tb). tab_pane_details terminals tab_idx tb) (enumerate 0 (ws_tabs ws)))"

end
