(* ===== verification/Workspace_Properties.thy ===== *)
theory Workspace_Properties
  imports Workspace_Calls Workspace_View
begin

text \<open>
  The properties of workspaces: no sequence of operations panics or breaks the invariant, public
  numbers are never given twice, and what closing, moving and splitting do to the active tab.
\<close>

section \<open>A concrete workspace\<close>

definition demo_host :: "(nat, nat) host" where
  "demo_host = \<lparr>ho_spawn = (\<lambda>_ _ _ _. Inr 0), ho_micros = (\<lambda>_. 500), ho_current_dir = None,
     ho_git_space = (\<lambda>_. None), ho_git_label = (\<lambda>_ _. ''x''), ho_git_status_key = (\<lambda>_ _. ''x''),
     ho_git_branch = (\<lambda>_. None)\<rparr>"

definition demo_counters :: id_counters where
  "demo_counters = \<lparr>ic_next_pane = 1, ic_next_terminal = 5, ic_next_workspace = 1\<rparr>"

definition demo_tab :: tab where
  "demo_tab = \<lparr>tb_custom_name = None, tb_number = 1, tb_root_pane = 1,
     tb_layout = \<lparr>tl_root = Pane 1, tl_focus = 1, tl_prev_focus = None\<rparr>,
     tb_panes = [(1, pane_state_new ''term_1f45'')], tb_zoomed = False\<rparr>"

definition demo_created :: workspace where
  "demo_created = fresh_workspace demo_host ''w1'' None ''/'' demo_tab"

lemmas demo_workspace_simps =
  demo_host_def demo_counters_def demo_tab_def demo_created_def fresh_workspace_def HEX_DIGITS_def lower_hex.simps
  usize_add_def pane_state_new_def hm_insert_def

lemma demo_created_eq:
  "ws_new_with_tab demo_host ''/'' None [] demo_counters =
     (Inr (demo_created, ts_new ''term_1f45'' ''/'', 0), \<lparr>ic_next_pane = 2, ic_next_terminal = 6, ic_next_workspace = 2\<rparr>)"
  by (simp add: ws_new_with_tab_def demo_workspace_simps counted_workspace_id_def generate_workspace_id_def
      encode_public_number_def encode_loop.simps PUBLIC_ID_ALPHABET_def tab_new_def tab_new_with_runtime_def
      tl_new_def pane_id_alloc_def host_terminal_id_def terminal_id_alloc_def)

definition demo_counters2 :: id_counters where
  "demo_counters2 = \<lparr>ic_next_pane = 2, ic_next_terminal = 6, ic_next_workspace = 2\<rparr>"

definition demo_tab2 :: tab where
  "demo_tab2 = \<lparr>tb_custom_name = None, tb_number = 2, tb_root_pane = 2,
     tb_layout = \<lparr>tl_root = Pane 2, tl_focus = 2, tl_prev_focus = None\<rparr>,
     tb_panes = [(2, pane_state_new ''term_1f46'')], tb_zoomed = False\<rparr>"

definition demo_two :: workspace where
  "demo_two = demo_created\<lparr>ws_tabs := [demo_tab, demo_tab2], ws_public_pane_numbers := [(1, 1), (2, 2)],
     ws_next_public_pane_number := 3, ws_next_public_tab_number := 3\<rparr>"

lemma demo_two_simps [simp]:
  "ws_tabs demo_two = [demo_tab, demo_tab2]" "ws_active_tab demo_two = 0" "active_tab demo_two = Some demo_tab"
  by (simp_all add: demo_two_def demo_created_def fresh_workspace_def active_tab_def nth_opt_def Let_def)

definition demo_create_tab :: "(nat, nat) workspace_op" where
  "demo_create_tab = OpCreateTab demo_host ''/'' None []"

lemma demo_create_step:
  "workspace_step (demo_created, demo_counters2) demo_create_tab =
     Some (demo_two, \<lparr>ic_next_pane = 3, ic_next_terminal = 7, ic_next_workspace = 2\<rparr>)"
  by (simp add: demo_create_tab_def create_tab_with_runtime_def tab_new_def tab_new_with_runtime_def tl_new_def
      pane_id_alloc_def host_terminal_id_def terminal_id_alloc_def register_new_pane_with_number_def
      active_tab_def nth_opt_def demo_counters2_def demo_tab2_def demo_two_def demo_workspace_simps)

lemma demo_create_ok: "workspace_op_ok (demo_created, demo_counters2) demo_create_tab"
  by (simp add: demo_create_tab_def numbers_left_def usize_max_def demo_counters2_def next_terminal_id_def
      host_terminal_id_def terminal_id_alloc_def demo_workspace_simps entry_terminal_def)

definition demo_ops :: "(nat, nat) workspace_op list" where
  "demo_ops = [demo_create_tab, OpMoveTab 0 2, OpCloseTab 1]"

lemma demo_guarded: "run_guarded workspace_step workspace_op_ok (demo_created, demo_counters2) demo_ops"
proof -
  have "numbers_left (fst (move_tab 0 2 demo_two))" "numbers_left demo_two"
    by (simp_all add: numbers_left_def usize_max_def demo_two_def move_tab_def Let_def)
  then show ?thesis
    by (simp add: demo_ops_def demo_create_step demo_create_ok del: One_nat_def workspace_step.simps(1) workspace_op_ok.simps)
      (simp add: numbers_left_def)
qed

section \<open>Runs\<close>

lemma fresh_workspace_inv:
  assumes "tab_inv tb" and "tb_panes tb = [(tb_root_pane tb, st)]" and "tb_number tb = 1"
  shows "workspace_inv (fresh_workspace host i label cwd tb)"
  using assms
  by (simp add: workspace_inv_def workspace_wf_def fresh_workspace_def entries_ok_def public_ok_def
      tab_numbers_ok_def hm_insert_def hm_wf_def hm_values_def hm_keys_def Let_def)

lemma created_workspace_inv:
  assumes "ws_new_with_tab host cwd argv extra ctr = (Inr (ws, t, rt), ctr')"
    and "unat (ic_next_pane ctr) + 1 < 2 ^ 32"
  shows "workspace_state_inv (ws, ctr')"
proof -
  obtain i ctr1 where i: "counted_workspace_id ctr = (i, ctr1)" by fastforce
  then have ctr1: "ic_next_pane ctr1 = ic_next_pane ctr"
    by (auto simp: counted_workspace_id_def split: prod.splits)
  obtain env tb where made: "tab_new_with_runtime host 1 cwd env argv ctr1 = (Inr (tb, t, rt), ctr')"
    and ws: "ws = fresh_workspace host i None cwd tb"
    using assms(1) i
    by (auto simp: ws_new_with_tab_def tab_new_def tab_new_argv_command_def Let_def
        split: prod.splits sum.splits option.splits)
  note tb = tab_new_facts [OF made]
  have "workspace_inv ws" unfolding ws by (rule fresh_workspace_inv [OF tb(1) _ tb(2)]) (simp add: tb)
  moreover have "live_panes ws = {ic_next_pane ctr}" by (simp add: ws fresh_workspace_def tb ctr1 Let_def)
  ultimately show ?thesis
    using tab_new_counter [OF made] next_pane_unat [OF assms(2)] by (simp add: ctr1)
qed

text \<open>
  C12: A workspace created with one tab stays consistent: whatever tabs are created, closed, moved and
  switched, and whatever panes are split, closed and moved between tabs, in whatever order, no
  operation panics, and after all of them every tab's layout and pane table agree, panes and terminals
  are in one place only, the active tab exists, and public numbers are unique and below the next one
  (\<open>assert_invariants_for_test\<close>). The operations are assumed to have ids left to hand out.
\<close>

theorem workspace_run_consistent:
  assumes "ws_new_with_tab host cwd argv extra ctr = (Inr (ws, t, rt), ctr1)"
    and "unat (ic_next_pane ctr) + 1 < 2 ^ 32"
    and "run_guarded workspace_step workspace_op_ok (ws, ctr1) ps"
  shows "\<exists>ws' ctr'. run_ops workspace_step (ws, ctr1) ps = Some (ws', ctr') \<and> workspace_inv ws'"
  using workspace_machine.run_inv [OF created_workspace_inv [OF assms(1,2)] assms(3)] by auto

theorem workspace_run_consistent_witness:
  "\<exists>ws' ctr'. run_ops workspace_step (demo_created, demo_counters2) demo_ops = Some (ws', ctr') \<and> workspace_inv ws'"
  by (rule workspace_run_consistent [OF demo_created_eq _ demo_guarded [unfolded demo_counters2_def],
        folded demo_counters2_def]) (simp add: demo_counters_def)

lemma demo_created_inv: "workspace_state_inv (demo_created, demo_counters2)"
  using created_workspace_inv [OF demo_created_eq] by (simp add: demo_counters_def demo_counters2_def)

lemma demo_two_inv: "workspace_inv demo_two"
proof -
  have "run_guarded workspace_step workspace_op_ok (demo_created, demo_counters2) [demo_create_tab]"
    using demo_create_ok by (simp add: demo_create_step del: workspace_op_ok.simps)
  from workspace_machine.run_inv [OF demo_created_inv this] show ?thesis
    by (simp add: demo_create_step)
qed

text \<open>
  C13: Public numbers are never given twice. After any run of operations a pane that was there before
  has the number it had, a pane that was not has a number the workspace had not given out before, and
  every tab is an old one or has a number not given out before; so an id such as \<open>w1:p3\<close> a client holds
  never comes to mean another pane.
\<close>

theorem public_numbers_never_reused:
  assumes "workspace_state_inv (ws, ctr)" and "run_guarded workspace_step workspace_op_ok (ws, ctr) ps"
    and "run_ops workspace_step (ws, ctr) ps = Some (ws', ctr')"
  shows "(\<forall>i n. public_pane_number ws' i = Some n \<longrightarrow>
      (if i \<in> live_panes ws then public_pane_number ws i = Some n else ws_next_public_pane_number ws \<le> n)) \<and>
    (\<forall>tb \<in> set (ws_tabs ws').
      tb_number tb \<in> tb_number ` set (ws_tabs ws) \<or> ws_next_public_tab_number ws \<le> tb_number tb)"
proof -
  have fresh: "numbers_fresh (ws, ctr) (ws', ctr')" by (rule workspace_run_fresh [OF assms])
  have keys: "set (hm_keys (ws_public_pane_numbers ws)) = live_panes ws"
    and bound: "\<forall>p \<in> live_panes ws. unat p < unat (ic_next_pane ctr)"
    using assms(1) workspace_wfD(4) [of "{}" ws] by (simp_all add: workspace_inv_def public_ok_def)
  have "if i \<in> live_panes ws then public_pane_number ws i = Some n else ws_next_public_pane_number ws \<le> n"
    if n: "public_pane_number ws' i = Some n" for i n
  proof (cases "i \<in> live_panes ws")
    case True
    then have "\<not> unat (ic_next_pane ctr) \<le> unat i" using bound by (meson not_le)
    with True fresh n show ?thesis by (simp add: public_pane_number_def) blast
  next
    case False
    then have "hm_get (ws_public_pane_numbers ws) i = None" using keys hm_contains_iff
      by (metis hm_contains_def)
    with False fresh n show ?thesis by (simp add: public_pane_number_def) (metis option.distinct(1))
  qed
  moreover have "\<forall>tb \<in> set (ws_tabs ws').
      tb_number tb \<in> tb_number ` set (ws_tabs ws) \<or> ws_next_public_tab_number ws \<le> tb_number tb"
    using fresh by auto
  ultimately show ?thesis by blast
qed

theorem public_numbers_never_reused_witness:
  "public_pane_number demo_created 1 = Some 1 \<and> ws_next_public_pane_number demo_created \<le> 2"
proof -
  have "run_ops workspace_step (demo_created, demo_counters2) [demo_create_tab] =
      Some (demo_two, \<lparr>ic_next_pane = 3, ic_next_terminal = 7, ic_next_workspace = 2\<rparr>)"
    "run_guarded workspace_step workspace_op_ok (demo_created, demo_counters2) [demo_create_tab]"
    by (simp_all add: demo_create_step demo_create_ok del: workspace_op_ok.simps)
  note numbers = conjunct1 [OF public_numbers_never_reused [OF demo_created_inv this(2,1)]]
  have "live_panes demo_created = {1}" by (simp add: demo_created_def fresh_workspace_def demo_tab_def Let_def)
  moreover have "public_pane_number demo_two 1 = Some 1" "public_pane_number demo_two 2 = Some 2"
    by (simp_all add: public_pane_number_def demo_two_def hm_get_def)
  ultimately show ?thesis using numbers by fastforce
qed

section \<open>The active tab\<close>

text \<open>
  Closing a tab. The other tabs stay as they are and in order. When another tab was active it stays
  active; when the active one is closed, its left neighbour becomes active, or the right one for the
  first tab. The last tab is not closed, nor a tab that does not exist.
\<close>

lemma close_tab_active:
  assumes inv: "workspace_inv ws" and res: "close_tab idx ws = (ws', did)"
  shows "if 1 < length (ws_tabs ws) \<and> idx < length (ws_tabs ws)
    then did \<and> ws_tabs ws' = vec_remove idx (ws_tabs ws) \<and>
      active_tab ws' = nth_opt (ws_tabs ws)
        (if idx \<noteq> ws_active_tab ws then ws_active_tab ws else if idx = 0 then 1 else idx - 1)
    else \<not> did \<and> ws' = ws"
proof -
  have wf: "workspace_wf {} ws" and act: "ws_active_tab ws < length (ws_tabs ws)"
    using inv workspace_wfD(6) [of "{}" ws 0] by (simp_all add: workspace_inv_def)
  show ?thesis
  proof (cases "1 < length (ws_tabs ws) \<and> idx < length (ws_tabs ws)")
    case False
    with res show ?thesis by (auto simp: close_tab_eq)
  next
    case True
    note du = drop_unregister_wf [OF wf, of idx]
    have "did" and ws': "ws_tabs ws' = vec_remove idx (ws_tabs ws)"
      "ws_active_tab ws' = (if idx \<le> ws_active_tab ws \<and> 0 < ws_active_tab ws then ws_active_tab ws - 1
        else ws_active_tab ws)"
      using res True du(2,3) drop_tab_active [OF _ act, of idx] by (auto simp: close_tab_eq)
    moreover have "active_tab ws' = nth_opt (ws_tabs ws)
        (if idx \<noteq> ws_active_tab ws then ws_active_tab ws else if idx = 0 then 1 else idx - 1)"
      using True act ws' nth_vec_remove [of idx "ws_tabs ws"]
      by (auto simp: active_tab_def nth_opt_def length_vec_remove)
    ultimately show ?thesis using True by simp
  qed
qed

lemma close_tab_active_witness:
  "active_tab (fst (close_tab 0 demo_two)) = Some demo_tab2"
  using close_tab_active [OF demo_two_inv, of 0 "fst (close_tab 0 demo_two)" "snd (close_tab 0 demo_two)"]
  by (simp add: nth_opt_def)

text \<open>Roots are panes, so no two tabs have the same.\<close>

lemma roots_distinct:
  assumes wf: "workspace_wf ks ws" and "i < length (ws_tabs ws)" and "j < length (ws_tabs ws)"
    and "tb_root_pane (ws_tabs ws ! i) = tb_root_pane (ws_tabs ws ! j)"
  shows "i = j"
proof (rule ccontr)
  assume "i \<noteq> j"
  define r where "r = tb_root_pane (ws_tabs ws ! i)"
  have root: "r \<in> fst ` set (tb_panes (ws_tabs ws ! k))" if "k = i \<or> k = j" for k
    using workspace_wfD(1) [OF wf] assms that by (auto simp: list_all_length tab_inv_def hm_keys_def r_def)
  have "i < j \<and> j < length (ws_tabs ws) \<or> j < i \<and> i < length (ws_tabs ws)" using assms \<open>i \<noteq> j\<close> by auto
  then obtain a b where ab: "a < b" "b < length (ws_tabs ws)" "{a, b} = {i, j}" by blast
  have "ws_tabs ws = take b (ws_tabs ws) @ ws_tabs ws ! b # drop (Suc b) (ws_tabs ws)"
    using ab(2) by (rule id_take_nth_drop)
  then have "live_entries ws = tab_entries (take b (ws_tabs ws)) @ tb_panes (ws_tabs ws ! b) @
      tab_entries (drop (Suc b) (ws_tabs ws))" by (metis tab_entries_simps(2,3))
  moreover have "ws_tabs ws ! a \<in> set (take b (ws_tabs ws))"
    using ab by (auto simp: in_set_conv_nth intro!: exI [of _ a])
  then have "r \<in> fst ` set (tab_entries (take b (ws_tabs ws)))"
    using root [of a] ab(3) tab_entries_member by blast
  moreover have "r \<in> fst ` set (tb_panes (ws_tabs ws ! b))" using root [of b] ab(3) by blast
  ultimately show False using workspace_wfD(2) [OF wf] by (auto simp: entries_ok_def)
qed

text \<open>
  Moving a tab. The tab lands at the insertion point, which counts the tabs before the move, the
  order of the others is kept, and the tab that was active is active afterwards, wherever it now is.
  An insertion point on either side of the tab changes nothing.
\<close>

lemma move_tab_reorders:
  assumes inv: "workspace_inv ws" and s: "s < length (ws_tabs ws)" and t: "t \<le> length (ws_tabs ws)"
    and res: "move_tab s t ws = (ws', moved)"
  shows "ws_tabs ws' = vec_insert (if s < t then t - 1 else t) (ws_tabs ws ! s) (vec_remove s (ws_tabs ws)) \<and>
    active_tab ws' = active_tab ws \<and> (moved \<longleftrightarrow> t \<noteq> s \<and> t \<noteq> s + 1)"
proof -
  define tgt where "tgt = (if s < t then t - 1 else t)"
  have tgt: "tgt < length (ws_tabs ws)" and m: "min tgt (length (ws_tabs ws) - 1) = tgt"
    using s t by (auto simp: tgt_def)
  have wf: "workspace_wf {} ws" and act: "ws_active_tab ws < length (ws_tabs ws)"
    using inv workspace_wfD(6) [of "{}" ws 0] by (simp_all add: workspace_inv_def)
  define tabs where "tabs = vec_insert tgt (ws_tabs ws ! s) (vec_remove s (ws_tabs ws))"
  define r where "r = tb_root_pane (ws_tabs ws ! ws_active_tab ws)"
  have perm: "mset tabs = mset (ws_tabs ws)"
    using mset_vec_remove [OF s] by (simp add: tabs_def mset_vec_insert)
  show ?thesis
  proof (cases "s = tgt")
    case True
    then have "ws' = ws" "\<not> moved" using res s t m by (auto simp: move_tab_def tgt_def Let_def)
    moreover have "t = s \<or> t = s + 1" using True by (auto simp: tgt_def split: if_splits)
    ultimately show ?thesis
      unfolding tgt_def [symmetric] True [symmetric] using vec_insert_removed [OF s] by auto
  next
    case False
    have "ws_tabs ws ! ws_active_tab ws \<in> set tabs"
      using act mset_eq_setD [OF perm] by (metis nth_mem)
    then have "position (\<lambda>tb. tb_root_pane tb = r) tabs \<noteq> None" by (auto simp: position_None_iff r_def list_all_iff)
    then obtain k where k: "position (\<lambda>tb. tb_root_pane tb = r) tabs = Some k" by blast
    note kp = position_SomeD [OF k]
    then have "tabs ! k \<in> set (ws_tabs ws)" using mset_eq_setD [OF perm] by (metis nth_mem)
    then obtain j where "j < length (ws_tabs ws)" "tabs ! k = ws_tabs ws ! j" by (metis in_set_conv_nth)
    with kp roots_distinct [OF wf this(1) act] have "tabs ! k = ws_tabs ws ! ws_active_tab ws" by (simp add: r_def)
    moreover have "ws' = ws\<lparr>ws_tabs := tabs, ws_active_tab := k\<rparr>" "moved"
      using res s t m False act k
      by (auto simp: move_tab_def tgt_def [symmetric] tabs_def [symmetric] Let_def active_tab_def nth_opt_def r_def)
    ultimately show ?thesis using kp act False by (auto simp: active_tab_def nth_opt_def tabs_def tgt_def)
  qed
qed

lemma move_tab_reorders_witness:
  "ws_tabs (fst (move_tab 0 2 demo_two)) = [demo_tab2, demo_tab] \<and>
     active_tab (fst (move_tab 0 2 demo_two)) = Some demo_tab \<and> snd (move_tab 0 2 demo_two)"
  using move_tab_reorders [OF demo_two_inv, of 0 2 "fst (move_tab 0 2 demo_two)" "snd (move_tab 0 2 demo_two)"]
  by (simp add: vec_insert_def vec_remove_def)

section \<open>Splitting and moving panes\<close>

text \<open>
  Splitting a pane of a workspace either succeeds or changes nothing: for a pane the workspace does
  not have, a pane missing in its layout, or a process that does not start, the workspace is left exactly
  as it was. On success the workspace has its old panes with their numbers and the new pane, which got
  the next number, and its tab is that of the split pane.
\<close>

lemma split_pane_all_or_nothing:
  assumes "workspace_inv ws" and "numbers_left ws" and "fresh_for host ctr {} ws"
  shows "\<exists>ws' res ctr'. ws_split_pane_with_runtime host i dir ratio cwd extra foc argv ws ctr =
      Some (ws', res, ctr') \<and> workspace_inv ws' \<and>
    (case res of
       Some (Inr (k, np)) \<Rightarrow>
         find_tab_index_for_pane ws i = Some k \<and> live_panes ws' = insert (np_pane_id np) (live_panes ws) \<and>
         np_pane_id np \<notin> live_panes ws \<and>
         (\<forall>p. public_pane_number ws' p = (if p = np_pane_id np then Some (ws_next_public_pane_number ws)
            else public_pane_number ws p))
     | _ \<Rightarrow> ws' = ws)"
proof -
  have wf: "workspace_wf {} ws" and ne: "ws_tabs ws \<noteq> []" using assms(1) by (simp_all add: workspace_inv_def)
  from split_pane_wf [OF wf assms(2,3), of i dir ratio cwd extra foc argv] obtain ws' res ctr' where
    eq: "ws_split_pane_with_runtime host i dir ratio cwd extra foc argv ws ctr = Some (ws', res, ctr')" and
    sp: "workspace_wf {} ws'" "ws_tabs ws' \<noteq> []"
      "case res of
       None \<Rightarrow> ws' = ws
     | Some (Inl _) \<Rightarrow> ws' = ws
     | Some (Inr (k, np)) \<Rightarrow>
         find_tab_index_for_pane ws i = Some k \<and> np_pane_id np = ic_next_pane ctr \<and>
         ws_public_pane_numbers ws' =
           hm_insert (np_pane_id np) (ws_next_public_pane_number ws) (ws_public_pane_numbers ws)"
    using ne by blast
  have keys: "set (hm_keys (ws_public_pane_numbers w)) = live_panes w" if "workspace_wf {} w" for w
    using workspace_wfD(4) [OF that] by (simp add: public_ok_def)
  have "workspace_inv ws'" using sp by (simp add: workspace_inv_def)
  moreover have "ic_next_pane ctr \<notin> live_panes ws" using assms(3) by (simp add: fresh_for_def)
  ultimately show ?thesis
    using eq sp(3) keys [OF wf] keys [OF sp(1)]
    by (auto simp: public_pane_number_def split: option.splits sum.splits prod.splits)
qed

lemma split_pane_all_or_nothing_witness:
  "\<exists>ws' res ctr'. ws_split_pane_with_runtime demo_host 1 Horizontal None None [] True None demo_created
     demo_counters2 = Some (ws', res, ctr') \<and> workspace_inv ws'"
proof -
  have "fresh_for demo_host demo_counters2 {} demo_created" "numbers_left demo_created"
    by (simp_all add: fresh_for_def numbers_left_def usize_max_def demo_counters2_def next_terminal_id_def
      host_terminal_id_def terminal_id_alloc_def demo_workspace_simps entry_terminal_def)
  moreover have "workspace_inv demo_created" using demo_created_inv by simp
  ultimately show ?thesis using split_pane_all_or_nothing by blast
qed

text \<open>
  Moving a pane to another tab of its workspace, or to a tab of its own, neither loses nor doubles
  anything: the workspace stays consistent, has the same panes with the same terminals as before, and
  every pane keeps its public number. When the target is gone the pane still gets a tab of its own.
\<close>

lemma moved_pane_kept:
  assumes "workspace_inv ws" and "numbers_left ws" and "i \<in> live_panes ws"
  shows "\<exists>ws1 ws2. move_pane_to_tab i idx target dir ratio foc label ws = Some ws1 \<and>
    move_pane_to_new_tab i label ws = Some ws2 \<and>
    list_all (\<lambda>ws'. workspace_inv ws' \<and> mset (live_entries ws') = mset (live_entries ws) \<and>
      ws_public_pane_numbers ws' = ws_public_pane_numbers ws) [ws1, ws2]"
proof -
  have wf: "workspace_wf {} ws" using assms(1) by (simp add: workspace_inv_def)
  from move_to_tab_wf [OF wf assms(3,2), of idx target dir ratio foc label undefined] obtain ws1 where
    "move_pane_to_tab i idx target dir ratio foc label ws = Some ws1" "moved_inside undefined i ws ws1" by blast
  moreover from move_to_new_tab_wf [OF wf assms(3,2), of label undefined] obtain ws2 where
    "move_pane_to_new_tab i label ws = Some ws2" "moved_inside undefined i ws ws2" by blast
  ultimately show ?thesis by (simp add: moved_inside_def workspace_inv_def)
qed

lemma moved_pane_kept_witness:
  "\<exists>ws1. move_pane_to_tab 1 1 2 Horizontal (f32_of_rat (1 / 2)) True None demo_two = Some ws1 \<and> workspace_inv ws1 \<and>
     public_pane_number ws1 1 = Some 1"
proof -
  have "numbers_left demo_two" "1 \<in> live_panes demo_two"
    by (simp_all add: numbers_left_def usize_max_def demo_two_def demo_tab_def)
  from moved_pane_kept [OF demo_two_inv this, where idx = 1 and target = 2 and dir = Horizontal and
      ratio = "f32_of_rat (1 / 2)" and foc = True and label = None]
  obtain ws1 where "move_pane_to_tab 1 1 2 Horizontal (f32_of_rat (1 / 2)) True None demo_two = Some ws1"
    "workspace_inv ws1" "ws_public_pane_numbers ws1 = ws_public_pane_numbers demo_two" by auto
  then show ?thesis by (auto simp: public_pane_number_def demo_two_def hm_get_def)
qed

section \<open>Aggregation\<close>

lemma attention_decides_state:
  "pane_attention_priority a b = pane_attention_priority c d \<Longrightarrow> a = c \<and> (a = Idle \<longrightarrow> b = d)"
  by (cases a; cases b; cases c; cases d) simp_all

text \<open>
  The aggregated state of a workspace is the most urgent one of its panes, blocked before finished
  and unseen before working before idle before unknown, and \<open>Unknown\<close> when no pane has a terminal. The
  state does not depend on the order in which hash tables list the panes, nor does the mark of an idle
  one.
\<close>

lemma aggregate_state_most_urgent:
  assumes "aggregate_state terminals ws = (st, seen)"
  shows "(if pane_views terminals ws = [] then st = Unknown \<and> seen
      else (st, seen) \<in> set (pane_views terminals ws) \<and>
        (\<forall>(st', seen') \<in> set (pane_views terminals ws).
           pane_attention_priority st' seen' \<le> pane_attention_priority st seen)) \<and>
    (\<forall>ws'. mset (pane_views terminals ws') = mset (pane_views terminals ws) \<longrightarrow>
       fst (aggregate_state terminals ws') = st \<and>
       (st = Idle \<longrightarrow> snd (aggregate_state terminals ws') = seen))"
proof -
  define prio where "prio = (\<lambda>(st, seen). pane_attention_priority st seen)"
  have agg: "(if pane_views terminals w = [] then v = (Unknown, True)
      else v \<in> set (pane_views terminals w) \<and> (\<forall>v' \<in> set (pane_views terminals w). prio v' \<le> prio v))"
    if "aggregate_state terminals w = v" for w v
  proof (cases "max_by_key prio (pane_views terminals w)")
    case None
    with that show ?thesis by (auto simp: aggregate_state_def prio_def [symmetric])
  next
    case (Some u)
    with that have "v = u" by (simp add: aggregate_state_def prio_def [symmetric])
    with max_by_key_SomeD [OF Some] Some show ?thesis by auto
  qed
  have same: "fst v = fst v' \<and> (fst v = Idle \<longrightarrow> snd v = snd v')" if "prio v = prio v'" for v v'
    using that attention_decides_state by (cases v; cases v') (auto simp: prio_def)
  have "fst (aggregate_state terminals ws') = st \<and> (st = Idle \<longrightarrow> snd (aggregate_state terminals ws') = seen)"
    if m: "mset (pane_views terminals ws') = mset (pane_views terminals ws)" for ws'
  proof (cases "pane_views terminals ws = []")
    case True
    with m have "pane_views terminals ws' = []" by simp
    with True agg [OF assms] agg [OF refl, of ws'] show ?thesis by auto
  next
    case False
    with m have "pane_views terminals ws' \<noteq> []" by auto
    with False agg [OF assms] agg [OF refl, of ws'] mset_eq_setD [OF m]
    have "prio (aggregate_state terminals ws') = prio (st, seen)" by (auto intro: antisym)
    from same [OF this] show ?thesis by auto
  qed
  with agg [OF assms] show ?thesis by (auto simp: prio_def)
qed

lemma aggregate_state_most_urgent_witness:
  "let terminals = [(''term_1f45'', (ts_new ''term_1f45'' ''/'')\<lparr>ts_state := Blocked\<rparr>),
         (''term_1f46'', (ts_new ''term_1f46'' ''/'')\<lparr>ts_state := Working\<rparr>)]
   in aggregate_state terminals demo_two = (Blocked, True) \<and>
      fst (aggregate_state terminals (fst (move_tab 0 2 demo_two))) = Blocked"
proof -
  define terminals where "terminals = [(''term_1f45'', (ts_new ''term_1f45'' ''/'')\<lparr>ts_state := Blocked\<rparr>),
         (''term_1f46'', (ts_new ''term_1f46'' ''/'')\<lparr>ts_state := Working\<rparr>)]"
  have views: "pane_views terminals demo_two = [(Blocked, True), (Working, True)]"
    by (simp add: pane_views_def terminals_def demo_tab_def demo_tab2_def hm_values_def hm_get_def
        pane_state_new_def List.map_filter_simps)
  then have agg: "aggregate_state terminals demo_two = (Blocked, True)" by (simp add: aggregate_state_def)
  have "mset (pane_views terminals (fst (move_tab 0 2 demo_two))) = mset (pane_views terminals demo_two)"
    by (simp add: pane_views_def terminals_def demo_tab_def demo_tab2_def hm_values_def hm_get_def
        pane_state_new_def List.map_filter_simps move_tab_def vec_insert_def vec_remove_def Let_def)
  with aggregate_state_most_urgent [OF agg] agg show ?thesis unfolding terminals_def [symmetric] Let_def by blast
qed

end
