(* ===== verification/App_State.thy ===== *)
theory App_State
  imports Workspace_Calls Workspace_View Terminal_Calls
begin

text \<open>
  The state of the server (\<open>AppState\<close> of \<open>app/state.rs\<close>), without the settings of the user interface,
  themes and plugins that the modelled operations do not use, and its queries and operations on focus
  and on the list of workspaces (\<open>app/actions.rs\<close>). Indexing a list out of range is a panic, \<open>None\<close>.
\<close>

section \<open>Records\<close>

datatype app_mode = NavigateMode | TerminalMode

datatype toast_kind = NeedsAttention | Finished | UpdateInstalled

datatype toast_delivery = DeliverOff | DeliverOsade | DeliverTerminal | DeliverSystem

datatype toast_position = TopLeft | TopRight | BottomLeft | BottomRight

datatype sound = SoundDone | SoundRequest

datatype sound_setting = SoundDefault | SoundOn | SoundOff

text \<open>
  The settings of the single agents; two agents have none (\<open>config/sound.rs\<close>). The paths of the sound
  files, and of the settings of toasts the positions, are left out.
\<close>

record sound_config =
  so_enabled :: bool
  so_agents :: "agent \<Rightarrow> sound_setting"

fun for_agent :: "(agent \<Rightarrow> sound_setting) \<Rightarrow> agent option \<Rightarrow> sound_setting" where
  "for_agent settings None = SoundDefault"
| "for_agent settings (Some Omp) = SoundDefault"
| "for_agent settings (Some Mastracode) = SoundDefault"
| "for_agent settings (Some a) = settings a"

definition sound_allows :: "sound_config \<Rightarrow> agent option \<Rightarrow> bool" where
  "sound_allows cfg a =
     (if \<not> so_enabled cfg then False else for_agent (so_agents cfg) a \<noteq> SoundOff)"

record toast_config =
  to_delivery :: toast_delivery
  to_delay_seconds :: nat

definition MAX_TOAST_DELAY_SECONDS :: nat where
  "MAX_TOAST_DELAY_SECONDS = 3600"

record focus_target =
  ft_workspace_id :: string
  ft_pane_id :: pane_id

record toast_notification =
  tn_kind :: toast_kind
  tn_title :: string
  tn_context :: string
  tn_position :: "toast_position option"
  tn_target :: "focus_target option"

record pending_notification =
  pg_pane_id :: pane_id
  pg_workspace_id :: string
  pg_agent_label :: string
  pg_known_agent :: "agent option"
  pg_kind :: toast_kind
  pg_state :: agent_state
  pg_deadline :: instant

record plugin_pane =
  pp_plugin_id :: string
  pp_entrypoint :: string

record app_state =
  ap_terminals :: "(string, terminal_state) hashmap"
  ap_pane_id_aliases :: "(u32, pane_id) hashmap"
  ap_public_pane_id_aliases :: "(string, pane_id) hashmap"
  ap_workspaces :: "workspace list"
  ap_active :: "nat option"
  ap_previous_pane_focus :: "focus_target option"
  ap_selected :: nat
  ap_mode :: app_mode
  ap_update_available :: "string option"
  ap_update_install_command :: string
  ap_latest_release_notes_available :: bool
  ap_update_dismissed :: bool
  ap_toast :: "toast_notification option"
  ap_pending_agent_notifications :: "(pane_id, pending_notification) hashmap"
  ap_outer_terminal_focus :: "bool option"
  ap_next_agent_state_change_seq :: u64
  ap_confirm_close :: bool
  ap_sound :: sound_config
  ap_toast_config :: toast_config
  ap_plugin_panes :: "(pane_id, plugin_pane) hashmap"
  ap_session_dirty :: bool
  ap_terminal_runtime_shutdowns :: "string list"

definition mark_session_dirty :: "app_state \<Rightarrow> app_state" where
  "mark_session_dirty st = st\<lparr>ap_session_dirty := True\<rparr>"

definition remove_alias_shadowed_by_new_pane :: "pane_id \<Rightarrow> app_state \<Rightarrow> app_state" where
  "remove_alias_shadowed_by_new_pane i st =
     st\<lparr>ap_pane_id_aliases := hm_remove i (ap_pane_id_aliases st)\<rparr>"

section \<open>Focus\<close>

definition current_pane_focus_target :: "app_state \<Rightarrow> focus_target option" where
  "current_pane_focus_target st =
     Option.bind (ap_active st) (\<lambda>ws_idx.
     Option.bind (nth_opt (ap_workspaces st) ws_idx) (\<lambda>ws.
     map_option (\<lambda>i. \<lparr>ft_workspace_id = ws_id ws, ft_pane_id = i\<rparr>) (focused_pane_id ws)))"

definition record_pane_focus_change :: "focus_target option \<Rightarrow> nat \<Rightarrow> pane_id \<Rightarrow> app_state \<Rightarrow> app_state" where
  "record_pane_focus_change previous ws_idx i st =
     (case nth_opt (ap_workspaces st) ws_idx of
        None \<Rightarrow> st
      | Some ws \<Rightarrow>
          if previous \<noteq> Some \<lparr>ft_workspace_id = ws_id ws, ft_pane_id = i\<rparr>
          then st\<lparr>ap_previous_pane_focus := previous\<rparr> else st)"

definition record_pane_focus_after_navigation :: "focus_target option \<Rightarrow> app_state \<Rightarrow> app_state" where
  "record_pane_focus_after_navigation previous st =
     (if previous \<noteq> current_pane_focus_target st then st\<lparr>ap_previous_pane_focus := previous\<rparr> else st)"

definition switch_workspace :: "nat \<Rightarrow> app_state \<Rightarrow> app_state" where
  "switch_workspace idx st =
     (if idx < length (ap_workspaces st)
      then let previous_focus = current_pane_focus_target st;
               st1 = mark_session_dirty (st\<lparr>ap_active := Some idx, ap_selected := idx\<rparr>);
               ws = ap_workspaces st1 ! idx;
               st2 = st1\<lparr>ap_workspaces := (ap_workspaces st1)[idx := switch_tab (ws_active_tab ws) ws]\<rparr>
           in record_pane_focus_after_navigation previous_focus st2
      else st)"

definition switch_workspace_tab :: "nat \<Rightarrow> nat \<Rightarrow> app_state \<Rightarrow> app_state \<times> bool" where
  "switch_workspace_tab ws_idx tab_idx st =
     (if length (ap_workspaces st) \<le> ws_idx then (st, False)
      else if is_none_or (nth_opt (ap_workspaces st) ws_idx) (\<lambda>ws. length (ws_tabs ws) \<le> tab_idx) then (st, False)
      else let previous_focus = current_pane_focus_target st;
               st1 = mark_session_dirty (st\<lparr>ap_active := Some ws_idx, ap_selected := ws_idx\<rparr>);
               st2 = st1\<lparr>ap_workspaces := (ap_workspaces st1)[ws_idx := switch_tab tab_idx (ap_workspaces st1 ! ws_idx)]\<rparr>
           in (record_pane_focus_after_navigation previous_focus st2, True))"

text \<open>The layout of one tab changes.\<close>

definition update_layout :: "nat \<Rightarrow> (tile_layout \<Rightarrow> tile_layout) \<Rightarrow> workspace \<Rightarrow> workspace" where
  "update_layout tab_idx f ws =
     ws\<lparr>ws_tabs := (ws_tabs ws)[tab_idx := (ws_tabs ws ! tab_idx)\<lparr>tb_layout := f (tb_layout (ws_tabs ws ! tab_idx))\<rparr>]\<rparr>"

definition focus_pane_in_workspace :: "nat \<Rightarrow> pane_id \<Rightarrow> app_state \<Rightarrow> app_state \<times> bool" where
  "focus_pane_in_workspace ws_idx i st =
     (case nth_opt (ap_workspaces st) ws_idx of
        None \<Rightarrow> (st, False)
      | Some ws \<Rightarrow>
          (case find_tab_index_for_pane ws i of
             None \<Rightarrow> (st, False)
           | Some tab_idx \<Rightarrow>
               let previous = current_pane_focus_target st
               in if previous = Some \<lparr>ft_workspace_id = ws_id ws, ft_pane_id = i\<rparr> then (st, False)
                  else let st1 = fst (switch_workspace_tab ws_idx tab_idx st)
                       in case Option.bind (nth_opt (ap_workspaces st1) ws_idx)
                                 (\<lambda>ws1. nth_opt (ws_tabs ws1) tab_idx) of
                            None \<Rightarrow> (st1, False)
                          | Some _ \<Rightarrow>
                              (mark_session_dirty
                                 (st1\<lparr>ap_workspaces := (ap_workspaces st1)[ws_idx :=
                                        update_layout tab_idx (focus_pane i) (ap_workspaces st1 ! ws_idx)],
                                      ap_previous_pane_focus := previous\<rparr>), True)))"

definition pane_is_in_active_tab :: "nat \<Rightarrow> pane_id \<Rightarrow> app_state \<Rightarrow> bool option" where
  "pane_is_in_active_tab ws_idx i st =
     (case ap_active st of
        None \<Rightarrow> Some False
      | Some active_ws_idx \<Rightarrow>
          if active_ws_idx \<noteq> ws_idx then Some False
          else map_option (\<lambda>ws. is_some_and (find_tab_index_for_pane ws i) (\<lambda>tab_idx. tab_idx = ws_active_tab ws))
                 (nth_opt (ap_workspaces st) ws_idx))"

definition mark_active_tab_seen :: "app_state \<Rightarrow> app_state \<times> bool" where
  "mark_active_tab_seen st =
     (case Option.bind (ap_active st) (\<lambda>ws_idx. map_option (Pair ws_idx) (nth_opt (ap_workspaces st) ws_idx)) of
        None \<Rightarrow> (st, False)
      | Some (ws_idx, ws) \<Rightarrow>
          (case active_tab ws of
             None \<Rightarrow> (st, False)
           | Some tb \<Rightarrow>
               (st\<lparr>ap_workspaces := (ap_workspaces st)[ws_idx :=
                    ws\<lparr>ws_tabs := (ws_tabs ws)[ws_active_tab ws := see_all tb]\<rparr>]\<rparr>,
                list_ex (\<lambda>pane. \<not> pn_seen pane) (hm_values (tb_panes tb)))))"

section \<open>The list of workspaces\<close>

text \<open>The workspace with an id, and the index it is at.\<close>

definition workspace_position :: "workspace list \<Rightarrow> string \<Rightarrow> nat option" where
  "workspace_position wss i = position (\<lambda>ws. ws_id ws = i) wss"

definition move_workspace :: "nat \<Rightarrow> nat \<Rightarrow> app_state \<Rightarrow> (app_state \<times> bool) option" where
  "move_workspace source_idx insert_idx st =
     (if length (ap_workspaces st) \<le> source_idx \<or> length (ap_workspaces st) < insert_idx then Some (st, False)
      else let target_idx = (if source_idx < insert_idx then insert_idx - 1 else insert_idx)
           in if source_idx = target_idx then Some (st, False)
              else
                let st1 = mark_session_dirty st;
                    wss = ap_workspaces st1;
                    selected_id = map_option ws_id (nth_opt wss (ap_selected st1))
                in Option.bind (case ap_active st1 of None \<Rightarrow> Some None
                      | Some idx \<Rightarrow> map_option (\<lambda>ws. Some (ws_id ws)) (nth_opt wss idx)) (\<lambda>active_id.
                   let wss' = vec_insert target_idx (wss ! source_idx) (vec_remove source_idx wss)
                   in Some (st1\<lparr>ap_workspaces := wss',
                         ap_active := Option.bind active_id (workspace_position wss'),
                         ap_selected := unwrap_or (Option.bind selected_id (workspace_position wss')) 0\<rparr>, True)))"

text \<open>The stable sort by the position among the desired ids, \<open>usize::MAX\<close> for an id not among them.\<close>

definition desired_positions :: "string list \<Rightarrow> (string, nat) hashmap" where
  "desired_positions ids = fold (\<lambda>(index, i). hm_insert i index) (enumerate 0 ids) []"

definition move_workspace_block :: "string list \<Rightarrow> string option \<Rightarrow> app_state \<Rightarrow> (app_state \<times> bool) option" where
  "move_workspace_block workspace_ids before_workspace_id st =
     (let wss = ap_workspaces st
      in if workspace_ids = [] \<or> \<not> distinct workspace_ids \<or>
            \<not> list_all (\<lambda>i. list_ex (\<lambda>ws. ws_id ws = i) wss) workspace_ids \<or>
            is_some_and before_workspace_id (\<lambda>i. i \<in> set workspace_ids \<or> \<not> list_ex (\<lambda>ws. ws_id ws = i) wss)
         then Some (st, False)
         else
           let rest = filter (\<lambda>i. i \<notin> set workspace_ids) (map ws_id wss);
               insert_idx = unwrap_or (Option.bind before_workspace_id (\<lambda>i. position (\<lambda>c. c = i) rest)) (length rest);
               desired_ids = take insert_idx rest @ workspace_ids @ drop insert_idx rest
           in if map ws_id wss = desired_ids then Some (st, False)
              else
                let selected_id = map_option ws_id (nth_opt wss (ap_selected st))
                in Option.bind (case ap_active st of None \<Rightarrow> Some None
                      | Some idx \<Rightarrow> map_option (\<lambda>ws. Some (ws_id ws)) (nth_opt wss idx)) (\<lambda>active_id.
                   let wss' = sort_key (\<lambda>ws. unwrap_or (hm_get (desired_positions desired_ids) (ws_id ws)) usize_max) wss
                   in Some ((mark_session_dirty st)\<lparr>ap_workspaces := wss',
                         ap_active := Option.bind active_id (workspace_position wss'),
                         ap_selected := unwrap_or (Option.bind selected_id (workspace_position wss')) 0\<rparr>, True)))"

section \<open>Terminals of workspaces and tabs\<close>

definition terminal_ids_for_workspace :: "nat \<Rightarrow> app_state \<Rightarrow> string list" where
  "terminal_ids_for_workspace ws_idx st =
     (case nth_opt (ap_workspaces st) ws_idx of
        None \<Rightarrow> []
      | Some ws \<Rightarrow> concat (map (\<lambda>tb. map pn_attached_terminal_id (hm_values (tb_panes tb))) (ws_tabs ws)))"

definition pane_ids_for_workspace :: "nat \<Rightarrow> app_state \<Rightarrow> pane_id list" where
  "pane_ids_for_workspace ws_idx st =
     (case nth_opt (ap_workspaces st) ws_idx of
        None \<Rightarrow> []
      | Some ws \<Rightarrow> concat (map (\<lambda>tb. tl_pane_ids (tb_layout tb)) (ws_tabs ws)))"

definition terminal_ids_for_tab :: "nat \<Rightarrow> nat \<Rightarrow> app_state \<Rightarrow> string list" where
  "terminal_ids_for_tab ws_idx tab_idx st =
     (case Option.bind (nth_opt (ap_workspaces st) ws_idx) (\<lambda>ws. nth_opt (ws_tabs ws) tab_idx) of
        None \<Rightarrow> []
      | Some tb \<Rightarrow> map pn_attached_terminal_id (hm_values (tb_panes tb)))"

definition pane_ids_for_tab :: "nat \<Rightarrow> nat \<Rightarrow> app_state \<Rightarrow> pane_id list" where
  "pane_ids_for_tab ws_idx tab_idx st =
     (case Option.bind (nth_opt (ap_workspaces st) ws_idx) (\<lambda>ws. nth_opt (ws_tabs ws) tab_idx) of
        None \<Rightarrow> []
      | Some tb \<Rightarrow> tl_pane_ids (tb_layout tb))"

definition terminal_id_for_pane :: "nat \<Rightarrow> pane_id \<Rightarrow> app_state \<Rightarrow> string option" where
  "terminal_id_for_pane ws_idx i st =
     Option.bind (nth_opt (ap_workspaces st) ws_idx) (\<lambda>ws.
     map_option pn_attached_terminal_id (ws_pane_state ws i))"

definition terminal_attached :: "workspace list \<Rightarrow> string \<Rightarrow> bool" where
  "terminal_attached wss terminal_id \<longleftrightarrow>
     list_ex (\<lambda>ws. list_ex (\<lambda>tb. list_ex (\<lambda>pane. pn_attached_terminal_id pane = terminal_id)
       (hm_values (tb_panes tb))) (ws_tabs ws)) wss"

definition remove_unattached_terminal_id :: "string \<Rightarrow> app_state \<Rightarrow> app_state" where
  "remove_unattached_terminal_id terminal_id st =
     (if terminal_attached (ap_workspaces st) terminal_id then st
      else let st1 = st\<lparr>ap_terminals := hm_remove terminal_id (ap_terminals st)\<rparr>
           in if hm_contains (ap_terminals st) terminal_id \<and> terminal_id \<notin> set (ap_terminal_runtime_shutdowns st)
              then st1\<lparr>ap_terminal_runtime_shutdowns := ap_terminal_runtime_shutdowns st @ [terminal_id]\<rparr>
              else st1)"

definition remove_unattached_terminal_ids :: "string list \<Rightarrow> app_state \<Rightarrow> app_state" where
  "remove_unattached_terminal_ids terminal_ids st = fold remove_unattached_terminal_id terminal_ids st"

definition remove_plugin_pane_records :: "pane_id list \<Rightarrow> app_state \<Rightarrow> app_state" where
  "remove_plugin_pane_records pane_ids st =
     (let st1 = (if is_some_and (ap_previous_pane_focus st) (\<lambda>f. ft_pane_id f \<in> set pane_ids)
                 then st\<lparr>ap_previous_pane_focus := None\<rparr> else st)
      in st1\<lparr>ap_plugin_panes := fold hm_remove pane_ids (ap_plugin_panes st1)\<rparr>)"

section \<open>Closing workspaces\<close>

definition workspace_close_indices :: "nat \<Rightarrow> app_state \<Rightarrow> nat list" where
  "workspace_close_indices ws_idx st =
     unwrap_or
       (opt_filter (\<lambda>indices. 2 \<le> length indices)
          (map_option (\<lambda>space.
               List.map_filter (\<lambda>(idx, ws).
                   if is_some_and (ws_worktree_space ws) (\<lambda>member. sp_key member = sp_key space)
                   then Some idx else None)
                 (enumerate 0 (ap_workspaces st)))
             (opt_filter (\<lambda>space. \<not> sp_is_linked_worktree space)
                (Option.bind (nth_opt (ap_workspaces st) ws_idx) ws_worktree_space))))
       [ws_idx]"

definition workspace_close_would_close_worktree_group :: "nat \<Rightarrow> app_state \<Rightarrow> bool" where
  "workspace_close_would_close_worktree_group ws_idx st \<longleftrightarrow> 2 \<le> length (workspace_close_indices ws_idx st)"

definition confirm_implicit_worktree_group_close :: "nat \<Rightarrow> app_state \<Rightarrow> bool" where
  "confirm_implicit_worktree_group_close ws_idx st \<longleftrightarrow>
     ap_confirm_close st \<and> workspace_close_would_close_worktree_group ws_idx st"

definition close_pane_would_close_workspace :: "nat \<Rightarrow> pane_id \<Rightarrow> app_state \<Rightarrow> bool" where
  "close_pane_would_close_workspace ws_idx i st \<longleftrightarrow>
     is_some_and (nth_opt (ap_workspaces st) ws_idx) (\<lambda>ws.
       is_some_and (find_tab_index_for_pane ws i) (\<lambda>tab_idx.
         tl_pane_count (tb_layout (ws_tabs ws ! tab_idx)) \<le> 1 \<and> length (ws_tabs ws) \<le> 1))"

text \<open>\<open>Vec::remove\<close> of an index out of range is a panic.\<close>

definition vec_remove_checked :: "nat \<Rightarrow> 'a list \<Rightarrow> 'a list option" where
  "vec_remove_checked i xs = (if i < length xs then Some (vec_remove i xs) else None)"

fun remove_workspaces :: "nat list \<Rightarrow> workspace list \<Rightarrow> workspace list option" where
  "remove_workspaces [] wss = Some wss"
| "remove_workspaces (i # is) wss = Option.bind (vec_remove_checked i wss) (remove_workspaces is)"

definition close_selected_workspace :: "app_state \<Rightarrow> app_state option" where
  "close_selected_workspace st =
     (if ap_workspaces st = [] then Some st
      else
        let st1 = mark_session_dirty st;
            close_indices = workspace_close_indices (ap_selected st1) st1;
            terminal_ids = concat (map (\<lambda>idx. terminal_ids_for_workspace idx st1) close_indices);
            pane_ids = concat (map (\<lambda>idx. pane_ids_for_workspace idx st1) close_indices);
            active_workspace_id = map_option ws_id (Option.bind (ap_active st1) (nth_opt (ap_workspaces st1)));
            st2 = remove_plugin_pane_records pane_ids st1
        in map_option (\<lambda>wss.
             let st3 = remove_unattached_terminal_ids terminal_ids (st2\<lparr>ap_workspaces := wss\<rparr>)
             in if ap_workspaces st3 = [] then st3\<lparr>ap_active := None, ap_selected := 0\<rparr>
                else let selected1 = unwrap_or (Option.bind active_workspace_id
                           (workspace_position (ap_workspaces st3))) (ap_selected st3);
                         selected2 = (if length (ap_workspaces st3) \<le> selected1
                           then length (ap_workspaces st3) - 1 else selected1)
                     in st3\<lparr>ap_active := Some selected2, ap_selected := selected2\<rparr>)
             (remove_workspaces (rev close_indices) (ap_workspaces st2)))"

section \<open>Zooming\<close>

datatype zoom_command = ZoomToggle | ZoomOn | ZoomOff

datatype zoom_noop_reason = SinglePane | AlreadyZoomed | AlreadyUnzoomed

record zoom_outcome =
  zo_changed :: bool
  zo_focus_changed :: bool
  zo_reason :: "zoom_noop_reason option"
  zo_zoomed :: bool

fun zoom_reason :: "zoom_command \<Rightarrow> bool \<Rightarrow> zoom_noop_reason option" where
  "zoom_reason ZoomOn True = Some AlreadyZoomed"
| "zoom_reason ZoomOff False = Some AlreadyUnzoomed"
| "zoom_reason _ _ = None"

fun desired_zoom :: "zoom_command \<Rightarrow> bool \<Rightarrow> bool" where
  "desired_zoom ZoomToggle zoomed = (\<not> zoomed)"
| "desired_zoom ZoomOn _ = True"
| "desired_zoom ZoomOff _ = False"

definition set_zoomed :: "nat \<Rightarrow> bool \<Rightarrow> workspace \<Rightarrow> workspace" where
  "set_zoomed tab_idx zoomed ws =
     ws\<lparr>ws_tabs := (ws_tabs ws)[tab_idx := (ws_tabs ws ! tab_idx)\<lparr>tb_zoomed := zoomed\<rparr>]\<rparr>"

definition apply_pane_zoom :: "nat \<Rightarrow> pane_id \<Rightarrow> zoom_command \<Rightarrow> app_state \<Rightarrow> app_state \<times> zoom_outcome option" where
  "apply_pane_zoom ws_idx i command st =
     (case Option.bind (nth_opt (ap_workspaces st) ws_idx) (\<lambda>ws. find_tab_index_for_pane ws i) of
        None \<Rightarrow> (st, None)
      | Some tab_idx \<Rightarrow>
          let (st1, focus_changed) = focus_pane_in_workspace ws_idx i st
          in case Option.bind (nth_opt (ap_workspaces st1) ws_idx) (\<lambda>ws. nth_opt (ws_tabs ws) tab_idx) of
               None \<Rightarrow> (st1, None)
             | Some tb \<Rightarrow>
                 if tl_pane_count (tb_layout tb) \<le> 1
                 then (st1, Some \<lparr>zo_changed = False, zo_focus_changed = focus_changed,
                                  zo_reason = Some SinglePane, zo_zoomed = tb_zoomed tb\<rparr>)
                 else let reason = zoom_reason command (tb_zoomed tb)
                      in if reason \<noteq> None
                         then (st1, Some \<lparr>zo_changed = False, zo_focus_changed = focus_changed,
                                          zo_reason = reason, zo_zoomed = tb_zoomed tb\<rparr>)
                         else let desired = desired_zoom command (tb_zoomed tb)
                              in (mark_session_dirty (st1\<lparr>ap_workspaces := (ap_workspaces st1)[ws_idx :=
                                     set_zoomed tab_idx desired (ap_workspaces st1 ! ws_idx)]\<rparr>),
                                  Some \<lparr>zo_changed = True, zo_focus_changed = focus_changed,
                                        zo_reason = None, zo_zoomed = desired\<rparr>))"

end
