(* ===== verification/App_Notify.thy ===== *)
theory App_Notify
  imports App_State
begin

text \<open>
  Notifications about agents (\<open>app/actions.rs\<close>): which change of state raises a sound or a toast, how a
  notification is delayed, delivered or dropped, and the mark of panes that finished in the background.
\<close>

section \<open>Transitions\<close>

definition is_background_completion_transition :: "agent_state \<Rightarrow> agent_state \<Rightarrow> bool" where
  "is_background_completion_transition prev_state new_state \<longleftrightarrow>
     new_state = Idle \<and> (prev_state = Working \<or> prev_state = Blocked)"

definition is_completion_transition_parts ::
  "agent_state \<Rightarrow> agent_state \<Rightarrow> string option \<Rightarrow> string option \<Rightarrow> bool" where
  "is_completion_transition_parts prev_state state prev_label label \<longleftrightarrow>
     is_background_completion_transition prev_state state \<or>
     prev_state = Unknown \<and> state = Idle \<and> prev_label \<noteq> None \<and> prev_label = label"

definition is_completion_transition :: "effective_state_change \<Rightarrow> bool" where
  "is_completion_transition change \<longleftrightarrow>
     is_completion_transition_parts (ec_previous_state change) (ec_state change)
       (ec_previous_agent_label change) (ec_agent_label change)"

definition active_tab_suppresses_notifications :: "bool \<Rightarrow> bool option \<Rightarrow> bool" where
  "active_tab_suppresses_notifications is_active_tab outer_terminal_focus \<longleftrightarrow>
     is_active_tab \<and> outer_terminal_focus \<noteq> Some False"

definition notification_sound_for_state_change_with_agent_labels ::
  "bool \<Rightarrow> agent_state \<Rightarrow> agent_state \<Rightarrow> string option \<Rightarrow> string option \<Rightarrow> sound option" where
  "notification_sound_for_state_change_with_agent_labels suppress prev_state new_state prev_label label =
     (if new_state = prev_state then None
      else case new_state of
        Blocked \<Rightarrow> Some SoundRequest
      | Idle \<Rightarrow> if is_completion_transition_parts prev_state new_state prev_label label \<and> \<not> suppress
                then Some SoundDone else None
      | _ \<Rightarrow> None)"

definition notification_sound_for_effective_state_change ::
  "bool \<Rightarrow> effective_state_change \<Rightarrow> sound option" where
  "notification_sound_for_effective_state_change suppress change =
     (if ec_state change = ec_previous_state change then None
      else case ec_state change of
        Blocked \<Rightarrow> Some SoundRequest
      | Idle \<Rightarrow> if is_completion_transition change \<and> \<not> suppress then Some SoundDone else None
      | _ \<Rightarrow> None)"

definition notification_toast_for_state_change_with_agent_labels ::
  "bool \<Rightarrow> agent_state \<Rightarrow> agent_state \<Rightarrow> string option \<Rightarrow> string option \<Rightarrow> toast_kind option" where
  "notification_toast_for_state_change_with_agent_labels suppress prev_state new_state prev_label label =
     (if suppress \<or> new_state = prev_state then None
      else case new_state of
        Blocked \<Rightarrow> Some NeedsAttention
      | Idle \<Rightarrow> if is_completion_transition_parts prev_state new_state prev_label label
                then Some Finished else None
      | _ \<Rightarrow> None)"

definition notification_toast_for_effective_state_change ::
  "bool \<Rightarrow> effective_state_change \<Rightarrow> toast_kind option" where
  "notification_toast_for_effective_state_change suppress change =
     (if suppress \<or> ec_state change = ec_previous_state change then None
      else case ec_state change of
        Blocked \<Rightarrow> Some NeedsAttention
      | Idle \<Rightarrow> if is_completion_transition change then Some Finished else None
      | _ \<Rightarrow> None)"

fun toast_event_text :: "toast_kind \<Rightarrow> string" where
  "toast_event_text NeedsAttention = ''needs attention''"
| "toast_event_text Finished = ''finished''"
| "toast_event_text UpdateInstalled = ''updated''"

definition toast_agent_label :: "string \<Rightarrow> string" where
  "toast_agent_label l = l"

definition sound_for_toast_kind :: "toast_kind \<Rightarrow> bool \<Rightarrow> sound option" where
  "sound_for_toast_kind kind suppress =
     (case kind of
        NeedsAttention \<Rightarrow> Some SoundRequest
      | Finished \<Rightarrow> if \<not> suppress then Some SoundDone else None
      | UpdateInstalled \<Rightarrow> None)"

text \<open>The separator is a middle dot, two bytes in UTF-8.\<close>

definition middle_dot :: string where
  "middle_dot = '' '' @ [CHR 0xC2, CHR 0xB7] @ '' ''"

definition notification_context :: "workspace \<Rightarrow> string \<Rightarrow> nat \<Rightarrow> pane_id \<Rightarrow> string" where
  "notification_context ws workspace_label ws_idx i =
     workspace_label @ middle_dot @ decimal (ws_idx + 1) @
     (if 1 < length (ws_tabs ws)
      then case Option.bind (find_tab_index_for_pane ws i) (tab_display_name ws) of
             Some label \<Rightarrow> middle_dot @ label
           | None \<Rightarrow> ''''
      else '''')"

section \<open>Deliveries\<close>

record notification_delivery =
  nd_pane_id :: pane_id
  nd_workspace_id :: string
  nd_agent_label :: string
  nd_known_agent :: "agent option"
  nd_kind :: toast_kind
  nd_toast :: "toast_notification option"
  nd_client_notification :: "toast_notification option"
  nd_sound :: "sound option"

definition agent_toast ::
  "string option \<Rightarrow> nat \<Rightarrow> pane_id \<Rightarrow> string \<Rightarrow> string \<Rightarrow> toast_kind \<Rightarrow> workspace \<Rightarrow> app_state \<Rightarrow>
    toast_notification" where
  "agent_toast home ws_idx i workspace_id label kind ws st =
     \<lparr>tn_kind = kind, tn_title = toast_agent_label label @ '' '' @ toast_event_text kind,
      tn_context = notification_context ws (display_name_from_terminals home (ap_terminals st) ws) ws_idx i,
      tn_position = None, tn_target = Some \<lparr>ft_workspace_id = workspace_id, ft_pane_id = i\<rparr>\<rparr>"

text \<open>\<open>home\<close> is the variable \<open>HOME\<close>; the outer option is a panic.\<close>

definition agent_notification_delivery ::
  "string option \<Rightarrow> nat \<Rightarrow> pane_id \<Rightarrow> string \<Rightarrow> string \<Rightarrow> agent option \<Rightarrow> toast_kind \<Rightarrow> agent_state \<Rightarrow>
    app_state \<Rightarrow> notification_delivery option option" where
  "agent_notification_delivery home ws_idx i workspace_id label known kind expected_state st =
     (case nth_opt (ap_workspaces st) ws_idx of
        None \<Rightarrow> Some None
      | Some ws \<Rightarrow>
        (case Option.bind (ws_pane_state ws i) (\<lambda>pane. hm_get (ap_terminals st) (pn_attached_terminal_id pane)) of
           None \<Rightarrow> Some None
         | Some t \<Rightarrow>
             if ts_state t \<noteq> expected_state then Some None
             else if is_some_and (effective_agent_label t) (\<lambda>current. current \<noteq> label) then Some None
             else map_option (\<lambda>is_active_tab.
                 let suppress = active_tab_suppresses_notifications is_active_tab (ap_outer_terminal_focus st);
                     snd' = opt_filter (\<lambda>_. sound_allows (ap_sound st) known) (sound_for_toast_kind kind suppress);
                     built = agent_toast home ws_idx i workspace_id label kind ws st;
                     toast = (if \<not> is_active_tab then Some built else None);
                     client = (if \<not> suppress then Some built else None)
                 in if toast = None \<and> client = None \<and> snd' = None then None
                    else Some \<lparr>nd_pane_id = i, nd_workspace_id = workspace_id, nd_agent_label = label,
                      nd_known_agent = known, nd_kind = kind, nd_toast = toast,
                      nd_client_notification = client, nd_sound = snd'\<rparr>)
               (pane_is_in_active_tab ws_idx i st)))"

definition apply_agent_notification_delivery :: "notification_delivery \<Rightarrow> app_state \<Rightarrow> app_state" where
  "apply_agent_notification_delivery delivery st =
     (if to_delivery (ap_toast_config st) = DeliverOsade
      then case nd_toast delivery of Some toast \<Rightarrow> st\<lparr>ap_toast := Some toast\<rparr> | None \<Rightarrow> st
      else st)"

definition notification_deadline :: "instant \<Rightarrow> toast_config \<Rightarrow> instant" where
  "notification_deadline now cfg =
     unwrap_or (checked_add now (min (to_delay_seconds cfg) MAX_TOAST_DELAY_SECONDS * 1000000000)) now"

text \<open>\<open>now\<close> is the reading of the clock for the deadline.\<close>

definition record_or_deliver_agent_notification ::
  "string option \<Rightarrow> instant \<Rightarrow> nat \<Rightarrow> pane_id \<Rightarrow> effective_state_change \<Rightarrow> app_state \<Rightarrow>
    (app_state \<times> notification_delivery option) option" where
  "record_or_deliver_agent_notification home now ws_idx i change st =
     (let st1 = st\<lparr>ap_pending_agent_notifications := hm_remove i (ap_pending_agent_notifications st)\<rparr>
      in Option.bind (pane_is_in_active_tab ws_idx i st1) (\<lambda>is_active_tab.
         let suppress = active_tab_suppresses_notifications is_active_tab (ap_outer_terminal_focus st1);
             client_kind = notification_toast_for_effective_state_change suppress change;
             snd' = notification_sound_for_effective_state_change suppress change
         in if client_kind = None \<and> snd' = None then Some (st1, None)
            else case or_else (ec_agent_label change) (ec_previous_agent_label change) of
                None \<Rightarrow> Some (st1, None)
              | Some label \<Rightarrow>
                  let known = or_else (ec_known_agent change) (ec_previous_known_agent change);
                      kind = unwrap_or client_kind
                        (case snd' of Some SoundRequest \<Rightarrow> NeedsAttention | _ \<Rightarrow> Finished)
                  in Option.bind (nth_opt (ap_workspaces st1) ws_idx) (\<lambda>ws.
                     if to_delay_seconds (ap_toast_config st1) = 0
                     then map_option (Pair st1) (agent_notification_delivery home ws_idx i (ws_id ws) label known
                            kind (ec_state change) st1)
                     else Some (st1\<lparr>ap_pending_agent_notifications :=
                            hm_insert i \<lparr>pg_pane_id = i, pg_workspace_id = ws_id ws, pg_agent_label = label,
                                pg_known_agent = known, pg_kind = kind, pg_state = ec_state change,
                                pg_deadline = notification_deadline now (ap_toast_config st1)\<rparr>
                              (ap_pending_agent_notifications st1)\<rparr>, None))))"

definition next_pending_agent_notification_deadline :: "app_state \<Rightarrow> instant option" where
  "next_pending_agent_notification_deadline st =
     option_min (map pg_deadline (hm_values (ap_pending_agent_notifications st)))"

definition deliver_due :: "string option \<Rightarrow> pane_id \<Rightarrow> app_state \<Rightarrow>
    (app_state \<times> notification_delivery option) option" where
  "deliver_due home i st =
     (case hm_get (ap_pending_agent_notifications st) i of
        None \<Rightarrow> Some (st, None)
      | Some pending \<Rightarrow>
          let st1 = st\<lparr>ap_pending_agent_notifications := hm_remove i (ap_pending_agent_notifications st)\<rparr>
          in case workspace_position (ap_workspaces st1) (pg_workspace_id pending) of
               None \<Rightarrow> Some (st1, None)
             | Some ws_idx \<Rightarrow>
                 map_option (\<lambda>delivery. case delivery of
                     None \<Rightarrow> (st1, None)
                   | Some d \<Rightarrow> (apply_agent_notification_delivery d st1, Some d))
                   (agent_notification_delivery home ws_idx (pg_pane_id pending) (pg_workspace_id pending)
                     (pg_agent_label pending) (pg_known_agent pending) (pg_kind pending) (pg_state pending) st1))"

fun deliver_all :: "string option \<Rightarrow> pane_id list \<Rightarrow> app_state \<Rightarrow> (app_state \<times> notification_delivery list) option" where
  "deliver_all home [] st = Some (st, [])"
| "deliver_all home (i # is) st =
     Option.bind (deliver_due home i st) (\<lambda>(st1, d).
     map_option (\<lambda>(st2, ds). (st2, (case d of Some x \<Rightarrow> x # ds | None \<Rightarrow> ds))) (deliver_all home is st1))"

definition due_panes :: "instant \<Rightarrow> app_state \<Rightarrow> pane_id list" where
  "due_panes now st =
     List.map_filter (\<lambda>(i, pending). if pg_deadline pending \<le> now then Some i else None)
       (ap_pending_agent_notifications st)"

definition drain_due_agent_notifications ::
  "string option \<Rightarrow> instant \<Rightarrow> app_state \<Rightarrow> (app_state \<times> notification_delivery list) option" where
  "drain_due_agent_notifications home now st = deliver_all home (due_panes now st) st"

section \<open>Changes of a pane\<close>

definition set_pane_seen :: "nat \<Rightarrow> nat \<Rightarrow> pane_id \<Rightarrow> bool \<Rightarrow> app_state \<Rightarrow> app_state" where
  "set_pane_seen ws_idx tab_idx i seen st =
     (let ws = ap_workspaces st ! ws_idx; tb = ws_tabs ws ! tab_idx
      in st\<lparr>ap_workspaces := (ap_workspaces st)[ws_idx := ws\<lparr>ws_tabs := (ws_tabs ws)[tab_idx :=
           tb\<lparr>tb_panes := hm_modify i (\<lambda>pane. pane\<lparr>pn_seen := seen\<rparr>) (tb_panes tb)\<rparr>]\<rparr>]\<rparr>)"

text \<open>The outer option is a panic, the inner one a pane that is gone.\<close>

definition apply_pane_state_change ::
  "string option \<Rightarrow> instant \<Rightarrow> nat \<Rightarrow> pane_id \<Rightarrow> effective_state_change \<Rightarrow> bool \<Rightarrow> app_state \<Rightarrow>
    (app_state \<times> bool option) option" where
  "apply_pane_state_change home now ws_idx i change suppress_completion st =
     Option.bind (pane_is_in_active_tab ws_idx i st) (\<lambda>is_active_tab.
     Option.bind (nth_opt (ap_workspaces st) ws_idx) (\<lambda>ws.
       let suppress = active_tab_suppresses_notifications is_active_tab (ap_outer_terminal_focus st)
       in case Option.bind (find_tab_index_for_pane ws i) (\<lambda>tab_idx.
             map_option (Pair tab_idx) (hm_get (tb_panes (ws_tabs ws ! tab_idx)) i)) of
            None \<Rightarrow> Some (st, None)
          | Some (tab_idx, pane) \<Rightarrow>
              let seen = (if ec_state change \<noteq> Idle then True
                          else if \<not> suppress_completion \<and> is_completion_transition change then suppress
                          else pn_seen pane);
                  st1 = set_pane_seen ws_idx tab_idx i seen st
              in if suppress_completion then Some (st1, Some seen)
                 else map_option (\<lambda>(st2, delivery).
                        ((case delivery of Some d \<Rightarrow> apply_agent_notification_delivery d st2 | None \<Rightarrow> st2),
                         Some seen))
                      (record_or_deliver_agent_notification home now ws_idx i change st1)))"

end
