(* ===== verification/App_Events.thy ===== *)
theory App_Events
  imports App_Notify
begin

text \<open>
  The events the server handles (\<open>handle_app_event\<close> of \<open>app/actions.rs\<close>): reports about the terminal of
  a pane, the death of a pane, expiry of metadata, git statuses.
\<close>

section \<open>Updates of a terminal\<close>

datatype agent_status = StatusIdle | StatusWorking | StatusBlocked | StatusDone | StatusUnknown

fun pane_agent_status :: "agent_state \<Rightarrow> bool \<Rightarrow> agent_status" where
  "pane_agent_status Idle False = StatusDone"
| "pane_agent_status Idle True = StatusIdle"
| "pane_agent_status Working _ = StatusWorking"
| "pane_agent_status Blocked _ = StatusBlocked"
| "pane_agent_status Unknown _ = StatusUnknown"

record pane_state_update =
  pu_pane_id :: pane_id
  pu_ws_idx :: nat
  pu_previous_agent_label :: "string option"
  pu_previous_known_agent :: "agent option"
  pu_previous_state :: agent_state
  pu_previous_seen :: bool
  pu_previous_presentation :: effective_presentation
  pu_agent_label :: "string option"
  pu_known_agent :: "agent option"
  pu_state :: agent_state
  pu_seen :: bool
  pu_presentation :: effective_presentation
  pu_agent_name_changed :: bool
  pu_agent_released :: bool
  pu_agent_release_status :: "agent_status option"
  pu_suppress_completion :: bool

definition notification_toast_for_pane_state_update :: "bool \<Rightarrow> pane_state_update \<Rightarrow> toast_kind option" where
  "notification_toast_for_pane_state_update suppress u =
     (if pu_suppress_completion u \<or> suppress \<or> pu_state u = pu_previous_state u then None
      else notification_toast_for_state_change_with_agent_labels suppress (pu_previous_state u) (pu_state u)
             (pu_previous_agent_label u) (pu_agent_label u))"

text \<open>
  The block that works on the terminal: the update, the reconciliation of a managed agent and the end of
  an acquisition. \<open>None\<close> when the update returns no mutation.
\<close>

record terminal_outcome =
  tr_mutation :: state_mutation
  tr_managed_changed :: bool
  tr_agent_name_changed :: bool
  tr_unchanged_change :: "effective_state_change option"
  tr_managed_launch_pending :: bool
  tr_suppress_acquisition_completion :: bool

definition run_terminal_update ::
  "(terminal_state \<Rightarrow> terminal_state \<times> state_mutation option) \<Rightarrow> instant \<Rightarrow> terminal_state \<Rightarrow>
    terminal_state \<times> terminal_outcome option" where
  "run_terminal_update upd now t =
     (let previous_agent_name = ts_agent_name t;
          launch_pending = managed_agent_launch_pending t;
          (t1, mutation) = upd t
      in case mutation of
           None \<Rightarrow> (t1, None)
         | Some mut \<Rightarrow>
             let (t2, managed_changed) = reconcile_managed_agent_at now False t1;
                 (t3, suppress_acquisition) = finish_agent_process_acquisition t2;
                 name_changed = (ts_agent_name t3 \<noteq> previous_agent_name)
             in (t3, Some \<lparr>tr_mutation = mut, tr_managed_changed = managed_changed,
                   tr_agent_name_changed = name_changed,
                   tr_unchanged_change = (if sm_agent_released mut \<or> name_changed
                     then Some (unchanged_effective_state_change_at t3 now) else None),
                   tr_managed_launch_pending = launch_pending,
                   tr_suppress_acquisition_completion = suppress_acquisition\<rparr>))"

definition put_terminal :: "string \<Rightarrow> terminal_state \<Rightarrow> app_state \<Rightarrow> app_state" where
  "put_terminal terminal_id t st = st\<lparr>ap_terminals := hm_modify terminal_id (\<lambda>_. t) (ap_terminals st)\<rparr>"

definition record_state_change_seq :: "string \<Rightarrow> effective_state_change \<Rightarrow> app_state \<Rightarrow> app_state" where
  "record_state_change_seq terminal_id change st =
     (if ec_previous_state change \<noteq> ec_state change
      then let seq = ap_next_agent_state_change_seq st + 1
           in st\<lparr>ap_next_agent_state_change_seq := seq,
                 ap_terminals := hm_modify terminal_id (\<lambda>t. t\<lparr>ts_last_agent_state_change_seq := Some seq\<rparr>)
                   (ap_terminals st)\<rparr>
      else st)"

definition pane_update_of ::
  "pane_id \<Rightarrow> nat \<Rightarrow> bool \<Rightarrow> effective_state_change \<Rightarrow> terminal_outcome \<Rightarrow> bool \<Rightarrow> bool \<Rightarrow> pane_state_update" where
  "pane_update_of i ws_idx previous_seen change out suppress_completion seen =
     (let released = sm_agent_released (tr_mutation out)
      in \<lparr>pu_pane_id = i, pu_ws_idx = ws_idx, pu_previous_agent_label = ec_previous_agent_label change,
          pu_previous_known_agent = ec_previous_known_agent change,
          pu_previous_state = ec_previous_state change, pu_previous_seen = previous_seen,
          pu_previous_presentation = ec_previous_presentation change,
          pu_agent_label = (if released then ec_previous_agent_label change else ec_agent_label change),
          pu_known_agent = (if released then ec_previous_known_agent change else ec_known_agent change),
          pu_state = ec_state change, pu_seen = seen, pu_presentation = ec_presentation change,
          pu_agent_name_changed = tr_agent_name_changed out, pu_agent_released = released,
          pu_agent_release_status =
            (if released then Some (pane_agent_status (ec_state change) seen) else None),
          pu_suppress_completion = suppress_completion\<rparr>)"

text \<open>
  \<open>now\<close> is the reading at the start, \<open>clk\<close> the one for a notification's deadline. The outer option is
  a panic.
\<close>

definition update_terminal_state_with_completion_policy ::
  "string option \<Rightarrow> instant \<Rightarrow> instant \<Rightarrow> pane_id \<Rightarrow> bool \<Rightarrow>
    (terminal_state \<Rightarrow> terminal_state \<times> state_mutation option) \<Rightarrow> app_state \<Rightarrow>
    (app_state \<times> pane_state_update option) option" where
  "update_terminal_state_with_completion_policy home now clk i force_suppress upd st =
     (case position (\<lambda>ws. ws_pane_state ws i \<noteq> None) (ap_workspaces st) of
        None \<Rightarrow> Some (st, None)
      | Some ws_idx \<Rightarrow>
        (case ws_pane_state (ap_workspaces st ! ws_idx) i of
           None \<Rightarrow> Some (st, None)
         | Some pane \<Rightarrow>
           (let terminal_id = pn_attached_terminal_id pane
            in case hm_get (ap_terminals st) terminal_id of
                 None \<Rightarrow> Some (st, None)
               | Some t \<Rightarrow>
                 (let (t', outcome) = run_terminal_update upd now t;
                      st1 = put_terminal terminal_id t' st
                  in case outcome of
                       None \<Rightarrow> Some (st1, None)
                     | Some out \<Rightarrow>
                       (let st2 = (if sm_session_ref_changed (tr_mutation out) \<or> tr_managed_changed out \<or>
                                      tr_agent_name_changed out then mark_session_dirty st1 else st1)
                        in case or_else (sm_effective_state_change (tr_mutation out)) (tr_unchanged_change out) of
                             None \<Rightarrow> Some (st2, None)
                           | Some change \<Rightarrow>
                             (let suppress = (force_suppress \<or> ec_state change = Idle \<and>
                                    (tr_managed_launch_pending out \<or> tr_suppress_acquisition_completion out));
                                  st3 = record_state_change_seq terminal_id change st2
                              in map_option (\<lambda>(st4, seen). (st4,
                                     map_option (pane_update_of i ws_idx (pn_seen pane) change out suppress) seen))
                                   (apply_pane_state_change home clk ws_idx i change suppress st3)))))))"

definition update_terminal_state ::
  "string option \<Rightarrow> instant \<Rightarrow> instant \<Rightarrow> pane_id \<Rightarrow>
    (terminal_state \<Rightarrow> terminal_state \<times> state_mutation option) \<Rightarrow> app_state \<Rightarrow>
    (app_state \<times> pane_state_update option) option" where
  "update_terminal_state home now clk i upd st =
     update_terminal_state_with_completion_policy home now clk i False upd st"

text \<open>\<open>observed_at\<close> is read before, \<open>clk0\<close> inside the terminal.\<close>

definition exit_update :: "instant \<Rightarrow> instant \<Rightarrow> terminal_state \<Rightarrow> terminal_state \<times> state_mutation option" where
  "exit_update observed_at clk0 t =
     (let a = or_else (effective_known_agent t) (ts_detected_agent t)
      in if a = None \<and> \<not> full_lifecycle_hook_authority_active t then (t, None)
         else perform_call (Detect a Idle False True False True observed_at clk0) t)"

definition publish_pane_process_exit_if_agent ::
  "string option \<Rightarrow> instant \<Rightarrow> instant \<Rightarrow> instant \<Rightarrow> instant \<Rightarrow> pane_id \<Rightarrow> bool \<Rightarrow> app_state \<Rightarrow>
    (app_state \<times> pane_state_update option) option" where
  "publish_pane_process_exit_if_agent home observed_at clk0 now clk i suppress_completion st =
     map_option (\<lambda>(st', u). (st', opt_filter pu_agent_released u))
       (update_terminal_state_with_completion_policy home now clk i suppress_completion
         (exit_update observed_at clk0) st)"

section \<open>Deadlines\<close>

definition next_agent_metadata_expiry_of_all :: "instant \<Rightarrow> app_state \<Rightarrow> instant option" where
  "next_agent_metadata_expiry_of_all now st =
     option_min
       (List.map_filter (\<lambda>t. next_agent_metadata_expiry t now) (hm_values (ap_terminals st))
        @ List.map_filter (\<lambda>t. tokens_next_expiry (ts_metadata_tokens t)) (hm_values (ap_terminals st))
        @ List.map_filter (\<lambda>ws. tokens_next_expiry (ws_metadata_tokens ws)) (ap_workspaces st))"

definition next_managed_agent_deadline_of_all :: "app_state \<Rightarrow> instant option" where
  "next_managed_agent_deadline_of_all st =
     option_min (List.map_filter next_managed_agent_deadline (hm_values (ap_terminals st)))"

text \<open>The panes of all layouts with the index of their workspace and their terminal.\<close>

definition pane_terminals :: "app_state \<Rightarrow> (nat \<times> pane_id \<times> string) list" where
  "pane_terminals st =
     concat (map (\<lambda>(ws_idx, ws).
       concat (map (\<lambda>tb.
         List.map_filter (\<lambda>i. map_option (\<lambda>pane. (ws_idx, i, pn_attached_terminal_id pane)) (ws_pane_state ws i))
           (tl_pane_ids (tb_layout tb))) (ws_tabs ws)))
       (enumerate 0 (ap_workspaces st)))"

definition expire_pane_metadata ::
  "string option \<Rightarrow> instant \<Rightarrow> instant \<Rightarrow> instant \<Rightarrow> nat \<times> pane_id \<times> string \<Rightarrow> app_state \<Rightarrow>
    (app_state \<times> pane_state_update option) option" where
  "expire_pane_metadata home scheduled_deadline now clk e st =
     (let (ws_idx, i, terminal_id) = e
      in Option.bind (nth_opt (ap_workspaces st) ws_idx) (\<lambda>ws.
         case Option.bind (ws_pane_state ws i) (\<lambda>pane. map_option (Pair pane) (hm_get (ap_terminals st) terminal_id)) of
           None \<Rightarrow> Some (st, None)
         | Some (pane, t) \<Rightarrow>
             let (t', mutation) = expire_agent_metadata_at scheduled_deadline now t;
                 st1 = put_terminal terminal_id t' st
             in case Option.bind mutation sm_effective_state_change of
                  None \<Rightarrow> Some (st1, None)
                | Some change \<Rightarrow>
                    map_option (\<lambda>(st2, seen). (st2, map_option (\<lambda>sn.
                        \<lparr>pu_pane_id = i, pu_ws_idx = ws_idx,
                         pu_previous_agent_label = ec_previous_agent_label change,
                         pu_previous_known_agent = ec_previous_known_agent change,
                         pu_previous_state = ec_previous_state change, pu_previous_seen = pn_seen pane,
                         pu_previous_presentation = ec_previous_presentation change,
                         pu_agent_label = ec_agent_label change, pu_known_agent = ec_known_agent change,
                         pu_state = ec_state change, pu_seen = sn, pu_presentation = ec_presentation change,
                         pu_agent_name_changed = False, pu_agent_released = False,
                         pu_agent_release_status = None, pu_suppress_completion = False\<rparr>) seen))
                      (apply_pane_state_change home clk ws_idx i change False st1)))"

fun expire_panes ::
  "string option \<Rightarrow> instant \<Rightarrow> instant \<Rightarrow> instant \<Rightarrow> (nat \<times> pane_id \<times> string) list \<Rightarrow> app_state \<Rightarrow>
    (app_state \<times> pane_state_update list) option" where
  "expire_panes home scheduled_deadline now clk [] st = Some (st, [])"
| "expire_panes home scheduled_deadline now clk (e # es) st =
     Option.bind (expire_pane_metadata home scheduled_deadline now clk e st) (\<lambda>(st1, u).
     map_option (\<lambda>(st2, us). (st2, (case u of Some x \<Rightarrow> x # us | None \<Rightarrow> us)))
       (expire_panes home scheduled_deadline now clk es st1))"

definition expire_agent_metadata_of_all ::
  "string option \<Rightarrow> instant \<Rightarrow> instant \<Rightarrow> instant \<Rightarrow> app_state \<Rightarrow> (app_state \<times> pane_state_update list) option" where
  "expire_agent_metadata_of_all home scheduled_deadline now clk st =
     expire_panes home scheduled_deadline now clk (pane_terminals st) st"

definition u64_saturating_succ :: "u64 \<Rightarrow> u64" where
  "u64_saturating_succ n = (if n = - 1 then n else n + 1)"

definition expire_pane_tokens ::
  "instant \<Rightarrow> nat \<times> pane_id \<times> string \<Rightarrow> app_state \<times> (nat \<times> pane_id) list \<Rightarrow> app_state \<times> (nat \<times> pane_id) list" where
  "expire_pane_tokens now e acc =
     (let (ws_idx, i, terminal_id) = e; (st, changed) = acc
      in case hm_get (ap_terminals st) terminal_id of
           None \<Rightarrow> acc
         | Some t \<Rightarrow>
             let (tokens, expired) = tokens_expire_at (ts_metadata_tokens t) now;
                 t1 = t\<lparr>ts_metadata_tokens := tokens\<rparr>
             in if expired
                then (put_terminal terminal_id (t1\<lparr>ts_revision := u64_saturating_succ (ts_revision t1)\<rparr>) st,
                      changed @ [(ws_idx, i)])
                else (put_terminal terminal_id t1 st, changed))"

definition expire_workspace_tokens :: "instant \<Rightarrow> workspace \<Rightarrow> workspace \<times> bool" where
  "expire_workspace_tokens now ws =
     (let (tokens, expired) = tokens_expire_at (ws_metadata_tokens ws) now
      in (ws\<lparr>ws_metadata_tokens := tokens\<rparr>, expired))"

definition expire_metadata_tokens :: "instant \<Rightarrow> app_state \<Rightarrow> app_state \<times> (nat \<times> pane_id) list \<times> nat list" where
  "expire_metadata_tokens now st =
     (let (st1, changed_panes) = fold (expire_pane_tokens now) (pane_terminals st) (st, []);
          results = map (expire_workspace_tokens now) (ap_workspaces st1)
      in (st1\<lparr>ap_workspaces := map fst results\<rparr>, changed_panes,
          List.map_filter (\<lambda>(ws_idx, expired). if expired then Some ws_idx else None)
            (enumerate 0 (map snd results))))"

end
