(* ===== verification/App_Handlers.thy ===== *)
theory App_Handlers
  imports App_Events
begin

text \<open>
  The handlers of the server's events (\<open>handle_app_event\<close>), of the death of a pane and of git statuses
  (\<open>app/actions.rs\<close>).
\<close>

section \<open>The death of a pane\<close>

definition forget_aliases :: "pane_id \<Rightarrow> app_state \<Rightarrow> app_state" where
  "forget_aliases i st =
     st\<lparr>ap_pane_id_aliases := hm_retain (\<lambda>_ alias. alias \<noteq> i) (ap_pane_id_aliases st),
        ap_public_pane_id_aliases := hm_retain (\<lambda>_ alias. alias \<noteq> i) (ap_public_pane_id_aliases st)\<rparr>"

text \<open>The workspace of the last pane goes with it; the focused and the selected one stay by their ids.\<close>

definition close_workspace_of_dead_pane :: "nat \<Rightarrow> string list \<Rightarrow> app_state \<Rightarrow> app_state" where
  "close_workspace_of_dead_pane ws_idx workspace_terminal_ids st =
     (let active_workspace_id = map_option ws_id (Option.bind (ap_active st) (nth_opt (ap_workspaces st)));
          selected_workspace_id = map_option ws_id (nth_opt (ap_workspaces st) (ap_selected st));
          st1 = remove_unattached_terminal_ids workspace_terminal_ids
            (st\<lparr>ap_workspaces := vec_remove ws_idx (ap_workspaces st)\<rparr>);
          wss = ap_workspaces st1
      in if wss = []
         then st1\<lparr>ap_active := None, ap_selected := 0,
                  ap_mode := (if ap_mode st1 = TerminalMode then NavigateMode else ap_mode st1)\<rparr>
         else let active1 = (case Option.bind active_workspace_id (workspace_position wss) of
                      Some idx \<Rightarrow> Some idx | None \<Rightarrow> ap_active st1);
                  active2 = (case active1 of
                      Some a \<Rightarrow> if length wss \<le> a then Some (length wss - 1) else Some a
                    | None \<Rightarrow> None);
                  selected1 = unwrap_or (Option.bind selected_workspace_id (workspace_position wss)) (ap_selected st1);
                  selected2 = (if length wss \<le> selected1 then length wss - 1 else selected1)
              in st1\<lparr>ap_active := active2, ap_selected := selected2\<rparr>)"

definition handle_pane_died :: "pane_id \<Rightarrow> app_state \<Rightarrow> app_state option" where
  "handle_pane_died i st =
     (let st1 = remove_plugin_pane_records [i]
            (st\<lparr>ap_pending_agent_notifications := hm_remove i (ap_pending_agent_notifications st)\<rparr>)
      in case position (\<lambda>ws. find_tab_index_for_pane ws i \<noteq> None) (ap_workspaces st1) of
           None \<Rightarrow> Some st1
         | Some ws_idx \<Rightarrow>
             let pane_terminal_id = terminal_id_for_pane ws_idx i st1;
                 workspace_terminal_ids = terminal_ids_for_workspace ws_idx st1;
                 st2 = forget_aliases i st1
             in map_option (\<lambda>(ws, should_close).
                  let st3 = mark_session_dirty (st2\<lparr>ap_workspaces := (ap_workspaces st2)[ws_idx := ws]\<rparr>)
                  in if should_close then close_workspace_of_dead_pane ws_idx workspace_terminal_ids st3
                     else remove_unattached_terminal_ids
                       (case pane_terminal_id of Some t \<Rightarrow> [t] | None \<Rightarrow> []) st3)
                (ws_remove_pane i (ap_workspaces st2 ! ws_idx)))"

section \<open>Git statuses\<close>

record git_demand =
  gd_branch :: bool
  gd_ahead_behind :: bool

record workspace_git_status =
  wg_workspace_id :: string
  wg_resolved_identity_cwd :: string
  wg_status_cache_key :: string
  wg_demand :: git_demand
  wg_auto_label :: string
  wg_branch :: "string option"
  wg_ahead_behind :: "(usize \<times> usize) option"
  wg_space :: "git_space option"

text \<open>
  Fields that differ are overwritten; paths are compared by their components. \<open>gs_key\<close> and the other
  fields of a git space that are paths are compared as strings.
\<close>

definition apply_git_status :: "workspace_git_status \<Rightarrow> workspace \<Rightarrow> workspace \<times> bool" where
  "apply_git_status r ws =
     (let label_changed = (ws_cached_auto_label ws \<noteq> wg_auto_label r);
          branch_changed = (gd_branch (wg_demand r) \<and> ws_cached_git_branch ws \<noteq> wg_branch r);
          ahead_changed = (gd_ahead_behind (wg_demand r) \<and> ws_cached_git_ahead_behind ws \<noteq> wg_ahead_behind r);
          space_changed = (ws_cached_git_space ws \<noteq> wg_space r)
      in (ws\<lparr>ws_cached_identity_cwd := (if path_eq (ws_cached_identity_cwd ws) (wg_resolved_identity_cwd r)
               then ws_cached_identity_cwd ws else wg_resolved_identity_cwd r),
             ws_cached_auto_label := wg_auto_label r,
             ws_cached_git_status_key := (if path_eq (ws_cached_git_status_key ws) (wg_status_cache_key r)
               then ws_cached_git_status_key ws else wg_status_cache_key r),
             ws_cached_git_branch := (if branch_changed then wg_branch r else ws_cached_git_branch ws),
             ws_cached_git_ahead_behind := (if ahead_changed then wg_ahead_behind r else ws_cached_git_ahead_behind ws),
             ws_cached_git_space := wg_space r\<rparr>,
          label_changed \<and> ws_custom_name ws = None \<or> branch_changed \<or> ahead_changed \<or> space_changed))"

definition apply_workspace_git_status ::
  "(string \<Rightarrow> string option) \<Rightarrow> workspace_git_status \<Rightarrow> app_state \<times> bool \<Rightarrow> app_state \<times> bool" where
  "apply_workspace_git_status runtime_cwd r acc =
     (let (st, changed) = acc
      in case workspace_position (ap_workspaces st) (wg_workspace_id r) of
           None \<Rightarrow> acc
         | Some ws_idx \<Rightarrow>
             let ws = ap_workspaces st ! ws_idx
             in if is_none_or (resolved_identity_cwd_from runtime_cwd (ap_terminals st) ws)
                     (\<lambda>cwd. \<not> path_eq cwd (wg_resolved_identity_cwd r)) then acc
                else let (ws', c) = apply_git_status r ws
                     in (st\<lparr>ap_workspaces := (ap_workspaces st)[ws_idx := ws']\<rparr>, changed \<or> c))"

definition apply_workspace_git_statuses ::
  "(string \<Rightarrow> string option) \<Rightarrow> workspace_git_status list \<Rightarrow> app_state \<Rightarrow> app_state \<times> bool" where
  "apply_workspace_git_statuses runtime_cwd results st =
     fold (apply_workspace_git_status runtime_cwd) results (st, False)"

section \<open>Events\<close>

text \<open>
  The events that concern the modelled state; a version of a manifest is given as it is printed, and the
  status and the summaries of the manifests are not part of the modelled state. The instants in a report are the readings inside the terminal.
\<close>

datatype app_event =
    PaneDied pane_id
  | UpdateReady string string
  | ManifestsUpdated "(agent \<times> string) list"
  | AgentProcessDetected pane_id agent instant
  | StateChanged pane_id "agent option" agent_state bool bool bool instant
  | HookStateReported pane_id string string agent_state "string option" "u64 option" "session_ref option"
  | AgentSessionReported pane_id string string "u64 option" "session_ref option" "string option"
  | HookMetadataReported pane_id agent_metadata_report
  | HookAuthorityCleared pane_id "string option" "u64 option"
  | HookAgentReleased pane_id string string "u64 option"
  | TerminalCwdReported pane_id string
  | OtherEvent

definition update_install_instruction :: "string \<Rightarrow> string" where
  "update_install_instruction command =
     (if command = ''osade update''
      then ''detach, run `osade update`, then run Osade again to reconnect''
      else if command = ''brew update && brew upgrade osade''
      then ''detach, run `brew update && brew upgrade osade`, then run Osade again to reconnect''
      else if command = ''mise upgrade osade''
      then ''detach, run `mise upgrade osade`, then run Osade again to reconnect''
      else if command = ''update through Nix''
      then ''detach, update through Nix, then run Osade again to reconnect''
      else ''detach, run `'' @ command @ ''`, then run Osade again to reconnect'')"

fun join_with :: "string \<Rightarrow> string list \<Rightarrow> string" where
  "join_with sep [] = ''''"
| "join_with sep [s] = s"
| "join_with sep (s # t # ss) = s @ sep @ join_with sep (t # ss)"

definition show_update_toast :: "string \<Rightarrow> string \<Rightarrow> app_state \<Rightarrow> app_state" where
  "show_update_toast title context st =
     st\<lparr>ap_toast := Some \<lparr>tn_kind = UpdateInstalled, tn_title = title, tn_context = context,
        tn_position = None, tn_target = None\<rparr>\<rparr>"

definition handle_update_ready :: "string \<Rightarrow> string \<Rightarrow> app_state \<Rightarrow> app_state" where
  "handle_update_ready version install_command st =
     (let st1 = st\<lparr>ap_update_available := Some version, ap_update_install_command := install_command,
            ap_latest_release_notes_available := True, ap_update_dismissed := True\<rparr>
      in if to_delivery (ap_toast_config st1) = DeliverOsade
         then show_update_toast (''v'' @ version @ '' available'') (update_install_instruction install_command) st1
         else st1)"

definition handle_manifests_updated :: "(agent \<times> string) list \<Rightarrow> app_state \<Rightarrow> app_state" where
  "handle_manifests_updated updated st =
     (if updated \<noteq> [] \<and> to_delivery (ap_toast_config st) = DeliverOsade
      then show_update_toast ''Agent detection rules updated''
             (join_with '', '' (map (\<lambda>(a, v). agent_label a @ '' '' @ v) updated)) st
      else st)"

definition handle_cwd_reported :: "(string \<Rightarrow> bool) \<Rightarrow> pane_id \<Rightarrow> string \<Rightarrow> app_state \<Rightarrow> app_state" where
  "handle_cwd_reported is_dir i cwd st =
     (if \<not> starts_with cwd ''/'' \<or> \<not> is_dir cwd then st
      else case find_map (\<lambda>ws. map_option pn_attached_terminal_id (ws_pane_state ws i)) (ap_workspaces st) of
             None \<Rightarrow> st
           | Some terminal_id \<Rightarrow>
               (case hm_get (ap_terminals st) terminal_id of
                  None \<Rightarrow> st
                | Some t \<Rightarrow> if \<not> path_eq (ts_cwd t) cwd
                            then mark_session_dirty (put_terminal terminal_id (t\<lparr>ts_cwd := cwd\<rparr>) st) else st))"

text \<open>
  \<open>clocks\<close> are the readings of the clock during the event: at the start of the update, inside the
  terminal (two), and for a notification.
\<close>

record event_clocks =
  cl_update :: instant
  cl_call :: instant
  cl_later :: instant
  cl_notify :: instant

definition event_call :: "event_clocks \<Rightarrow> app_event \<Rightarrow> (pane_id \<times> terminal_call) option" where
  "event_call clocks ev =
     (case ev of
        AgentProcessDetected i a observed_at \<Rightarrow> Some (i, DetectProcess a observed_at (cl_call clocks))
      | StateChanged i a st vb vw exited observed_at \<Rightarrow>
          Some (i, Detect a st vb False vw exited observed_at (cl_call clocks))
      | HookStateReported i source label st msg seq r \<Rightarrow>
          Some (i, if is_reserved_native_state_source source label
                   then SessionReport source label r seq None (cl_call clocks) (cl_later clocks)
                   else HookReport source label st msg r seq (cl_call clocks) (cl_later clocks))
      | AgentSessionReported i source label seq r start \<Rightarrow>
          Some (i, SessionReport source label r seq start (cl_call clocks) (cl_later clocks))
      | HookMetadataReported i report \<Rightarrow> Some (i, MetadataReport report (cl_call clocks))
      | HookAuthorityCleared i source seq \<Rightarrow> Some (i, ClearHook source seq (cl_call clocks) (cl_later clocks))
      | HookAgentReleased i source label seq \<Rightarrow>
          if is_official_agent_source source label then None
          else Some (i, ReleaseAgent source label seq (cl_call clocks) (cl_later clocks))
      | _ \<Rightarrow> None)"

definition handle_app_event ::
  "string option \<Rightarrow> (string \<Rightarrow> bool) \<Rightarrow> event_clocks \<Rightarrow> app_event \<Rightarrow> app_state \<Rightarrow>
    (app_state \<times> pane_state_update list) option" where
  "handle_app_event home is_dir clocks ev st =
     (case ev of
        PaneDied i \<Rightarrow> map_option (\<lambda>st'. (st', [])) (handle_pane_died i st)
      | UpdateReady version command \<Rightarrow> Some (handle_update_ready version command st, [])
      | ManifestsUpdated updated \<Rightarrow> Some (handle_manifests_updated updated st, [])
      | TerminalCwdReported i cwd \<Rightarrow> Some (handle_cwd_reported is_dir i cwd st, [])
      | _ \<Rightarrow>
          (case event_call clocks ev of
             None \<Rightarrow> Some (st, [])
           | Some (i, c) \<Rightarrow>
               map_option (\<lambda>(st', u). (st', case u of Some x \<Rightarrow> [x] | None \<Rightarrow> []))
                 (update_terminal_state home (cl_update clocks) (cl_notify clocks) i (perform_call c) st)))"

end
