(* ===== verification/App_Facts.thy ===== *)
theory App_Facts
  imports App_Handlers
begin

text \<open>
  The invariant of the server's state and its preservation by the operations on focus, on the list of
  workspaces and on terminals.
\<close>

section \<open>The invariant\<close>

text \<open>All panes of all workspaces, with their states.\<close>

definition all_entries :: "workspace list \<Rightarrow> (pane_id \<times> pane_state) list" where
  "all_entries wss = concat (map (\<lambda>ws. tab_entries (ws_tabs ws)) wss)"

definition workspaces_ok :: "workspace list \<Rightarrow> bool" where
  "workspaces_ok wss \<longleftrightarrow>
     list_all workspace_inv wss \<and> distinct (map ws_id wss) \<and> entries_ok (all_entries wss)"

definition terminals_ok :: "(string, terminal_state) hashmap \<Rightarrow> bool" where
  "terminals_ok terminals \<longleftrightarrow> hm_wf terminals \<and> list_all terminal_inv (hm_values terminals)"

definition selection_ok :: "nat \<Rightarrow> nat option \<Rightarrow> nat \<Rightarrow> bool" where
  "selection_ok n active selected \<longleftrightarrow>
     is_none_or active (\<lambda>a. a < n) \<and> (if n = 0 then selected = 0 else selected < n)"

definition pending_ok :: "(pane_id, pending_notification) hashmap \<Rightarrow> bool" where
  "pending_ok pending \<longleftrightarrow> hm_wf pending \<and> list_all (\<lambda>(i, p). pg_pane_id p = i) pending"

text \<open>
  Workspaces are consistent, no pane, terminal or workspace id occurs twice in the whole state, every
  pane's terminal exists, terminals are arbitrated, and the active and the selected workspace exist.
\<close>

definition app_inv :: "app_state \<Rightarrow> bool" where
  "app_inv st \<longleftrightarrow>
     workspaces_ok (ap_workspaces st) \<and> terminals_ok (ap_terminals st) \<and>
     entry_terminal ` set (all_entries (ap_workspaces st)) \<subseteq> set (hm_keys (ap_terminals st)) \<and>
     selection_ok (length (ap_workspaces st)) (ap_active st) (ap_selected st) \<and>
     pending_ok (ap_pending_agent_notifications st)"

lemma app_invD:
  assumes "app_inv st"
  shows "workspaces_ok (ap_workspaces st)" and "terminals_ok (ap_terminals st)"
    and "entry_terminal ` set (all_entries (ap_workspaces st)) \<subseteq> set (hm_keys (ap_terminals st))"
    and "selection_ok (length (ap_workspaces st)) (ap_active st) (ap_selected st)"
    and "pending_ok (ap_pending_agent_notifications st)"
  using assms by (simp_all add: app_inv_def)

lemma app_inv_frame:
  "app_inv st \<Longrightarrow> ap_workspaces st' = ap_workspaces st \<Longrightarrow> ap_terminals st' = ap_terminals st \<Longrightarrow>
     ap_active st' = ap_active st \<Longrightarrow> ap_selected st' = ap_selected st \<Longrightarrow>
     ap_pending_agent_notifications st' = ap_pending_agent_notifications st \<Longrightarrow> app_inv st'"
  by (simp add: app_inv_def)

section \<open>Lists of workspaces\<close>

lemma all_entries_simps [simp]:
  "all_entries [] = []" "all_entries (ws # wss) = live_entries ws @ all_entries wss"
  "all_entries (wss @ wss') = all_entries wss @ all_entries wss'"
  by (simp_all add: all_entries_def)

lemma all_entries_mset: "mset (all_entries wss) = \<Sum>\<^sub># (image_mset (\<lambda>ws. mset (live_entries ws)) (mset wss))"
  by (induction wss) simp_all

lemma all_entries_cong: "mset wss = mset wss' \<Longrightarrow> mset (all_entries wss) = mset (all_entries wss')"
  by (simp add: all_entries_mset)

lemma all_entries_member: "ws \<in> set wss \<Longrightarrow> set (live_entries ws) \<subseteq> set (all_entries wss)"
  by (auto simp: all_entries_def)

lemma all_entries_remove:
  "k < length wss \<Longrightarrow> mset (all_entries (vec_remove k wss)) + mset (live_entries (wss ! k)) = mset (all_entries wss)"
  using all_entries_cong [of "wss ! k # vec_remove k wss" wss] mset_vec_remove [of k wss]
  by (simp add: ac_simps)

lemma all_entries_update:
  assumes "k < length wss"
  shows "mset (all_entries (wss[k := ws])) + mset (live_entries (wss ! k)) =
    mset (all_entries wss) + mset (live_entries ws)"
proof -
  have "all_entries wss = all_entries (take k wss) @ live_entries (wss ! k) @ all_entries (drop (Suc k) wss)"
    using id_take_nth_drop [OF assms] all_entries_simps(2,3) by metis
  moreover have "wss[k := ws] = take k wss @ ws # drop (Suc k) wss" using assms by (rule upd_conv_take_nth_drop)
  ultimately show ?thesis by simp
qed

lemma workspaces_ok_cong:
  assumes m: "mset wss = mset wss'"
  shows "workspaces_ok wss = workspaces_ok wss'"
proof -
  have "mset (map ws_id wss) = mset (map ws_id wss')" using m by simp
  then have "distinct (map ws_id wss) = distinct (map ws_id wss')" by (rule mset_eq_imp_distinct_iff)
  with mset_eq_setD [OF m] entries_ok_cong [OF all_entries_cong [OF m]] show ?thesis
    by (simp add: workspaces_ok_def list_all_iff)
qed

lemma workspaces_ok_remove:
  assumes "workspaces_ok wss" and "k < length wss"
  shows "workspaces_ok (vec_remove k wss)"
proof -
  have m: "mset (wss ! k # vec_remove k wss) = mset wss" using mset_vec_remove [OF assms(2)] by simp
  have "workspaces_ok (wss ! k # vec_remove k wss)" using workspaces_ok_cong [OF m] assms(1) by simp
  then show ?thesis by (simp add: workspaces_ok_def entries_ok_def)
qed

text \<open>A workspace with the same id, panes and terminals, and still consistent.\<close>

definition workspace_like :: "workspace \<Rightarrow> workspace \<Rightarrow> bool" where
  "workspace_like ws ws' \<longleftrightarrow>
     ws_id ws' = ws_id ws \<and> map fst (live_entries ws') = map fst (live_entries ws) \<and>
     map entry_terminal (live_entries ws') = map entry_terminal (live_entries ws) \<and>
     (workspace_inv ws \<longrightarrow> workspace_inv ws')"

lemma workspace_like_refl [simp]: "workspace_like ws ws"
  by (simp add: workspace_like_def)

lemma workspace_like_trans: "workspace_like a b \<Longrightarrow> workspace_like b c \<Longrightarrow> workspace_like a c"
  by (simp add: workspace_like_def)

lemma workspaces_ok_like:
  assumes "workspaces_ok wss" and "list_all2 workspace_like wss wss'"
  shows "workspaces_ok wss'" and "map entry_terminal (all_entries wss') = map entry_terminal (all_entries wss)"
    and "map fst (all_entries wss') = map fst (all_entries wss)"
proof -
  have maps: "map ws_id wss' = map ws_id wss" "map entry_terminal (all_entries wss') = map entry_terminal (all_entries wss)"
    "map fst (all_entries wss') = map fst (all_entries wss)"
    using assms(2) by (induction wss wss' rule: list_all2_induct) (simp_all add: workspace_like_def)
  have "list_all workspace_inv wss'"
    using assms by (simp add: workspaces_ok_def workspace_like_def list_all_length list_all2_conv_all_nth)
  with maps assms(1) show "workspaces_ok wss'"
    "map entry_terminal (all_entries wss') = map entry_terminal (all_entries wss)"
    "map fst (all_entries wss') = map fst (all_entries wss)"
    by (simp_all add: workspaces_ok_def entries_ok_terminals [OF maps(3,2)])
qed

lemma list_all2_update_like:
  "workspace_like (wss ! k) ws \<Longrightarrow> list_all2 workspace_like wss (wss[k := ws])"
  by (cases "k < length wss") (auto simp: list_all2_conv_all_nth nth_list_update)

lemma app_inv_like:
  assumes "app_inv st" and "list_all2 workspace_like (ap_workspaces st) (ap_workspaces st')"
    and "ap_terminals st' = ap_terminals st" and "ap_active st' = ap_active st" and "ap_selected st' = ap_selected st"
    and "ap_pending_agent_notifications st' = ap_pending_agent_notifications st"
  shows "app_inv st'"
proof -
  note like = workspaces_ok_like [OF app_invD(1) [OF assms(1)] assms(2)]
  have "entry_terminal ` set (all_entries (ap_workspaces st')) = entry_terminal ` set (all_entries (ap_workspaces st))"
    using like(2) by (metis list.set_map)
  with like(1) assms list_all2_lengthD [OF assms(2)] show ?thesis by (simp add: app_inv_def)
qed

section \<open>Changes inside a workspace\<close>

text \<open>One tab is replaced by one with the same panes.\<close>

lemma tab_replaced_like:
  assumes inv: "tab_inv (ws_tabs ws ! k) \<Longrightarrow> tab_inv tb" and num: "tb_number tb = tb_number (ws_tabs ws ! k)"
    and k: "k < length (ws_tabs ws)"
    and fsts: "map fst (tb_panes tb) = map fst (tb_panes (ws_tabs ws ! k))"
    and terms: "map entry_terminal (tb_panes tb) = map entry_terminal (tb_panes (ws_tabs ws ! k))"
    and ws': "ws' = ws\<lparr>ws_tabs := (ws_tabs ws)[k := tb], ws_active_tab := a\<rparr>" and a: "a < length (ws_tabs ws)"
  shows "workspace_like ws ws'"
proof -
  have "ws_tabs ws = take k (ws_tabs ws) @ ws_tabs ws ! k # drop (Suc k) (ws_tabs ws)"
    using k by (rule id_take_nth_drop)
  then have es: "live_entries ws = tab_entries (take k (ws_tabs ws)) @ tb_panes (ws_tabs ws ! k) @
      tab_entries (drop (Suc k) (ws_tabs ws))" by (metis tab_entries_simps(2,3))
  have es': "live_entries ws' = tab_entries (take k (ws_tabs ws)) @ tb_panes tb @ tab_entries (drop (Suc k) (ws_tabs ws))"
    using k by (simp add: ws' upd_conv_take_nth_drop)
  have maps: "map fst (live_entries ws') = map fst (live_entries ws)"
    "map entry_terminal (live_entries ws') = map entry_terminal (live_entries ws)"
    unfolding es es' using fsts terms by simp_all
  have live: "live_panes ws' = live_panes ws" using maps(1) by (metis list.set_map)
  have "workspace_inv ws'" if "workspace_inv ws"
  proof -
    have d: "list_all tab_inv (ws_tabs ws)" "tab_numbers_ok (ws_tabs ws) (ws_next_public_tab_number ws)"
      "entries_ok (live_entries ws)"
      "public_ok (ws_public_pane_numbers ws) (ws_next_public_pane_number ws) (live_panes ws)"
      using that workspace_wfD(1-4) [of "{}" ws] by (simp_all add: workspace_inv_def)
    have "tab_inv (ws_tabs ws ! k)" using d(1) k by (simp add: list_all_length)
    then have "list_all tab_inv ((ws_tabs ws)[k := tb])" using d(1) inv by (intro list_all_update) auto
    moreover have "tab_numbers_ok (ws_tabs ws') (ws_next_public_tab_number ws)"
      using tab_numbers_update [OF d(2) k num] by (simp add: ws')
    ultimately show ?thesis
      using d k a live entries_ok_terminals [OF maps]
      by (auto simp: workspace_inv_def workspace_wf_def ws')
  qed
  with maps show ?thesis by (simp add: workspace_like_def ws')
qed

lemma map_values_entries:
  assumes "\<And>i pane. pn_attached_terminal_id (f i pane) = pn_attached_terminal_id pane"
  shows "map fst (hm_map_values f m) = map fst m"
    and "map entry_terminal (hm_map_values f m) = map entry_terminal m"
  using assms by (induction m) (auto simp: hm_map_values_def entry_terminal_def)

lemma insert_existing:
  "hm_get m i = Some v \<Longrightarrow> g (i, w) = g (i, v) \<Longrightarrow> map g (hm_insert i w m) = map g m"
  by (induction m) (auto simp: hm_get_def hm_insert_def split: if_splits)

lemma modify_entries:
  assumes "\<And>pane. pn_attached_terminal_id (f pane) = pn_attached_terminal_id pane"
  shows "map fst (hm_modify i f m) = map fst m"
    and "map entry_terminal (hm_modify i f m) = map entry_terminal m"
  using assms by (auto simp: hm_modify_def entry_terminal_def intro!: insert_existing split: option.split)

lemma focus_pane_wf:
  assumes "layout_wf l"
  shows "layout_wf (focus_pane i l)" and "tl_pane_ids (focus_pane i l) = tl_pane_ids l"
  using assms by (auto simp: focus_pane_def set_focus_def layout_wf_def tl_pane_ids_def split: option.splits)

lemma same_active: "ws\<lparr>ws_tabs := tabs\<rparr> = ws\<lparr>ws_tabs := tabs, ws_active_tab := ws_active_tab ws\<rparr>"
  by (cases ws) simp

lemma workspace_active_lt: "workspace_inv ws \<Longrightarrow> ws_active_tab ws < length (ws_tabs ws)"
  using workspace_wfD(6) [of "{}" ws 0] by (simp add: workspace_inv_def)

lemma switch_tab_like:
  assumes "k < length (ws_tabs ws)"
  shows "workspace_like ws (switch_tab k ws)"
proof (rule tab_replaced_like [OF see_all_facts(1) _ assms])
  show "switch_tab k ws = ws\<lparr>ws_tabs := (ws_tabs ws)[k := see_all (ws_tabs ws ! k)], ws_active_tab := k\<rparr>"
    using assms by (cases ws) (simp add: switch_tab_def)
qed (use assms in \<open>simp_all add: see_all_facts see_all_def map_values_entries\<close>)

text \<open>A change of one tab that keeps its layout's panes and its table's panes and terminals.\<close>

lemma tab_set_like:
  assumes "workspace_inv ws" and "k < length (ws_tabs ws)"
    and "tab_inv (ws_tabs ws ! k) \<Longrightarrow> tab_inv tb" and "tb_number tb = tb_number (ws_tabs ws ! k)"
    and "map fst (tb_panes tb) = map fst (tb_panes (ws_tabs ws ! k))"
    and "map entry_terminal (tb_panes tb) = map entry_terminal (tb_panes (ws_tabs ws ! k))"
  shows "workspace_like ws (ws\<lparr>ws_tabs := (ws_tabs ws)[k := tb]\<rparr>)"
  by (rule tab_replaced_like [OF assms(3,4,2,5,6) same_active workspace_active_lt [OF assms(1)]])

lemma update_layout_like:
  assumes "workspace_inv ws" and "k < length (ws_tabs ws)"
  shows "workspace_like ws (update_layout k (focus_pane i) ws)"
  unfolding update_layout_def
  by (rule tab_set_like [OF assms]) (simp_all add: tab_inv_def focus_pane_wf)

lemma set_zoomed_like:
  assumes "workspace_inv ws" and "k < length (ws_tabs ws)"
  shows "workspace_like ws (set_zoomed k z ws)"
  unfolding set_zoomed_def by (rule tab_set_like [OF assms]) (simp_all add: tab_inv_def)

lemma see_all_like:
  assumes "workspace_inv ws" and "k < length (ws_tabs ws)"
  shows "workspace_like ws (ws\<lparr>ws_tabs := (ws_tabs ws)[k := see_all (ws_tabs ws ! k)]\<rparr>)"
proof (rule tab_set_like [OF assms see_all_facts(1)])
qed (simp_all add: see_all_facts see_all_def map_values_entries)

lemma seen_like:
  assumes "workspace_inv ws" and "k < length (ws_tabs ws)"
  shows "workspace_like ws (ws\<lparr>ws_tabs := (ws_tabs ws)[k := (ws_tabs ws ! k)
     \<lparr>tb_panes := hm_modify i (\<lambda>pane. pane\<lparr>pn_seen := b\<rparr>) (tb_panes (ws_tabs ws ! k))\<rparr>]\<rparr>)"
proof -
  have keys: "hm_keys (hm_modify i f m) = hm_keys m" if "\<And>pane. pn_attached_terminal_id (f pane) = pn_attached_terminal_id pane"
    for f and m :: "(pane_id, pane_state) hashmap"
    unfolding hm_keys_def by (rule modify_entries(1) [OF that])
  show ?thesis by (rule tab_set_like [OF assms]) (simp_all add: tab_inv_def keys modify_entries)
qed

text \<open>Workspaces of a consistent state.\<close>

lemma nth_workspace_inv: "app_inv st \<Longrightarrow> k < length (ap_workspaces st) \<Longrightarrow> workspace_inv (ap_workspaces st ! k)"
  by (simp add: app_inv_def workspaces_ok_def list_all_length)

lemma app_inv_update:
  assumes "app_inv st" and "workspace_like (ap_workspaces st ! k) ws"
    and "ap_workspaces st' = (ap_workspaces st)[k := ws]" and "ap_terminals st' = ap_terminals st"
    and "ap_active st' = ap_active st" and "ap_selected st' = ap_selected st"
    and "ap_pending_agent_notifications st' = ap_pending_agent_notifications st"
  shows "app_inv st'"
  by (rule app_inv_like [OF assms(1) _ assms(4-7)]) (simp add: assms(2,3) list_all2_update_like)

lemma app_inv_select:
  assumes "app_inv st" and "k < length (ap_workspaces st)"
    and "ap_workspaces st' = ap_workspaces st" and "ap_terminals st' = ap_terminals st"
    and "ap_active st' = Some k" and "ap_selected st' = k"
    and "ap_pending_agent_notifications st' = ap_pending_agent_notifications st"
  shows "app_inv st'"
  using assms by (auto simp: app_inv_def selection_ok_def)

section \<open>Focus\<close>

lemma mark_dirty_simps [simp]:
  "ap_workspaces (mark_session_dirty st) = ap_workspaces st" "ap_terminals (mark_session_dirty st) = ap_terminals st"
  "ap_active (mark_session_dirty st) = ap_active st" "ap_selected (mark_session_dirty st) = ap_selected st"
  "ap_pending_agent_notifications (mark_session_dirty st) = ap_pending_agent_notifications st"
  "ap_previous_pane_focus (mark_session_dirty st) = ap_previous_pane_focus st"
  "ap_next_agent_state_change_seq (mark_session_dirty st) = ap_next_agent_state_change_seq st"
  "ap_outer_terminal_focus (mark_session_dirty st) = ap_outer_terminal_focus st"
  "ap_terminal_runtime_shutdowns (mark_session_dirty st) = ap_terminal_runtime_shutdowns st"
  by (simp_all add: mark_session_dirty_def)

lemma app_inv_dirty [simp]: "app_inv (mark_session_dirty st) = app_inv st"
  by (simp add: app_inv_def)

lemma record_focus_simps [simp]:
  "ap_workspaces (record_pane_focus_after_navigation p st) = ap_workspaces st"
  "ap_terminals (record_pane_focus_after_navigation p st) = ap_terminals st"
  "ap_active (record_pane_focus_after_navigation p st) = ap_active st"
  "ap_selected (record_pane_focus_after_navigation p st) = ap_selected st"
  "ap_pending_agent_notifications (record_pane_focus_after_navigation p st) = ap_pending_agent_notifications st"
  by (simp_all add: record_pane_focus_after_navigation_def)

lemma switch_workspace_inv: "app_inv st \<Longrightarrow> app_inv (switch_workspace idx st)"
proof (cases "idx < length (ap_workspaces st)")
  case True
  assume inv: "app_inv st"
  define st1 where "st1 = mark_session_dirty (st\<lparr>ap_active := Some idx, ap_selected := idx\<rparr>)"
  have inv1: "app_inv st1" by (rule app_inv_select [OF inv True]) (simp_all add: st1_def)
  have "workspace_like (ap_workspaces st1 ! idx) (switch_tab (ws_active_tab (ap_workspaces st ! idx)) (ap_workspaces st ! idx))"
    using switch_tab_like [OF workspace_active_lt [OF nth_workspace_inv [OF inv True]]] by (simp add: st1_def)
  then show ?thesis by (rule app_inv_update [OF inv1]) (simp_all add: switch_workspace_def True st1_def Let_def)
qed (simp add: switch_workspace_def)

lemma switch_workspace_tab_inv:
  assumes inv: "app_inv st"
  shows "app_inv (fst (switch_workspace_tab ws_idx tab_idx st))"
proof (cases "ws_idx < length (ap_workspaces st) \<and> tab_idx < length (ws_tabs (ap_workspaces st ! ws_idx))")
  case True
  define st1 where "st1 = mark_session_dirty (st\<lparr>ap_active := Some ws_idx, ap_selected := ws_idx\<rparr>)"
  have inv1: "app_inv st1" by (rule app_inv_select [OF inv conjunct1 [OF True]]) (simp_all add: st1_def)
  have "workspace_like (ap_workspaces st1 ! ws_idx) (switch_tab tab_idx (ap_workspaces st ! ws_idx))"
    using switch_tab_like True by (simp add: st1_def)
  then show ?thesis
    by (rule app_inv_update [OF inv1])
      (use True in \<open>simp_all add: switch_workspace_tab_def st1_def Let_def nth_opt_def\<close>)
next
  case False
  then have "switch_workspace_tab ws_idx tab_idx st = (st, False)"
    by (auto simp: switch_workspace_tab_def nth_opt_def)
  with inv show ?thesis by simp
qed

end
