(* ===== verification/App_Lists.thy ===== *)
theory App_Lists
  imports App_Facts
begin

text \<open>
  Focusing and zooming panes, and the operations on the list of workspaces, keep the invariant of the
  server's state.
\<close>

section \<open>Focusing, seeing and zooming\<close>

lemma find_tab_lt: "find_tab_index_for_pane ws i = Some k \<Longrightarrow> k < length (ws_tabs ws)"
  using position_SomeD unfolding find_tab_index_for_pane_def by fastforce

lemma switch_workspace_tab_tabs:
  assumes "ws_idx < length (ap_workspaces st)"
  shows "length (ap_workspaces (fst (switch_workspace_tab ws_idx tab_idx st))) = length (ap_workspaces st)"
    and "length (ws_tabs (ap_workspaces (fst (switch_workspace_tab ws_idx tab_idx st)) ! ws_idx)) =
      length (ws_tabs (ap_workspaces st ! ws_idx))"
  using assms by (simp_all add: switch_workspace_tab_def Let_def nth_opt_def switch_tab_def)

lemma focus_pane_eq:
  assumes "ws_idx < length (ap_workspaces st)" and "find_tab_index_for_pane (ap_workspaces st ! ws_idx) i = Some k"
  shows "focus_pane_in_workspace ws_idx i st =
    (if current_pane_focus_target st = Some \<lparr>ft_workspace_id = ws_id (ap_workspaces st ! ws_idx), ft_pane_id = i\<rparr>
     then (st, False)
     else let st1 = fst (switch_workspace_tab ws_idx k st)
          in (mark_session_dirty (st1\<lparr>ap_workspaces := (ap_workspaces st1)[ws_idx :=
                update_layout k (focus_pane i) (ap_workspaces st1 ! ws_idx)],
              ap_previous_pane_focus := current_pane_focus_target st\<rparr>), True))"
  using assms find_tab_lt [OF assms(2)] switch_workspace_tab_tabs [OF assms(1), of k]
  by (simp add: focus_pane_in_workspace_def nth_opt_def Let_def)

lemma focus_pane_none:
  "\<not> (ws_idx < length (ap_workspaces st) \<and> find_tab_index_for_pane (ap_workspaces st ! ws_idx) i \<noteq> None) \<Longrightarrow>
     focus_pane_in_workspace ws_idx i st = (st, False)"
  by (auto simp: focus_pane_in_workspace_def nth_opt_def)

lemma focus_pane_inv:
  assumes inv: "app_inv st"
  shows "app_inv (fst (focus_pane_in_workspace ws_idx i st))"
    and "length (ap_workspaces (fst (focus_pane_in_workspace ws_idx i st))) = length (ap_workspaces st)"
proof -
  have "app_inv (fst (focus_pane_in_workspace ws_idx i st)) \<and>
    length (ap_workspaces (fst (focus_pane_in_workspace ws_idx i st))) = length (ap_workspaces st)"
  proof (cases "ws_idx < length (ap_workspaces st) \<and> find_tab_index_for_pane (ap_workspaces st ! ws_idx) i \<noteq> None")
    case False
    with focus_pane_none inv show ?thesis by fastforce
  next
    case True
    then obtain k where k: "ws_idx < length (ap_workspaces st)"
        "find_tab_index_for_pane (ap_workspaces st ! ws_idx) i = Some k" by blast
    define st1 where "st1 = fst (switch_workspace_tab ws_idx k st)"
    have inv1: "app_inv st1" unfolding st1_def by (rule switch_workspace_tab_inv [OF inv])
    note lens = switch_workspace_tab_tabs [OF k(1), of k, folded st1_def]
    have like: "workspace_like (ap_workspaces st1 ! ws_idx) (update_layout k (focus_pane i) (ap_workspaces st1 ! ws_idx))"
      using lens k find_tab_lt [OF k(2)] nth_workspace_inv [OF inv1] by (intro update_layout_like) simp_all
    have "app_inv (mark_session_dirty (st1\<lparr>ap_workspaces := (ap_workspaces st1)[ws_idx :=
        update_layout k (focus_pane i) (ap_workspaces st1 ! ws_idx)],
        ap_previous_pane_focus := current_pane_focus_target st\<rparr>))"
      by (rule app_inv_update [OF inv1 like]) simp_all
    with lens inv show ?thesis by (simp add: focus_pane_eq [OF k] st1_def Let_def)
  qed
  then show "app_inv (fst (focus_pane_in_workspace ws_idx i st))"
    "length (ap_workspaces (fst (focus_pane_in_workspace ws_idx i st))) = length (ap_workspaces st)" by auto
qed

lemma mark_seen_inv:
  assumes inv: "app_inv st"
  shows "app_inv (fst (mark_active_tab_seen st))"
proof (cases "Option.bind (ap_active st) (\<lambda>ws_idx. map_option (Pair ws_idx) (nth_opt (ap_workspaces st) ws_idx))")
  case None
  with inv show ?thesis by (simp add: mark_active_tab_seen_def)
next
  case (Some p)
  obtain k ws where p: "p = (k, ws)" by fastforce
  with Some have k: "k < length (ap_workspaces st)" "ws = ap_workspaces st ! k"
    by (auto simp: nth_opt_def bind_eq_Some_conv split: if_splits)
  have wi: "workspace_inv ws" using nth_workspace_inv [OF inv k(1)] k(2) by simp
  have act: "active_tab ws = Some (ws_tabs ws ! ws_active_tab ws)"
    using workspace_active_lt [OF wi] by (simp add: active_tab_def nth_opt_def)
  from see_all_like [OF wi workspace_active_lt [OF wi]]
  have like: "workspace_like (ap_workspaces st ! k)
      (ws\<lparr>ws_tabs := (ws_tabs ws)[ws_active_tab ws := see_all (ws_tabs ws ! ws_active_tab ws)]\<rparr>)" by (simp add: k(2))
  show ?thesis by (rule app_inv_update [OF inv like]) (simp_all add: mark_active_tab_seen_def Some p act)
qed

lemma apply_pane_zoom_inv:
  assumes inv: "app_inv st"
  shows "app_inv (fst (apply_pane_zoom ws_idx i command st))"
proof (cases "Option.bind (nth_opt (ap_workspaces st) ws_idx) (\<lambda>ws. find_tab_index_for_pane ws i)")
  case None
  with inv show ?thesis by (simp add: apply_pane_zoom_def)
next
  case (Some k)
  obtain st1 fc where f: "focus_pane_in_workspace ws_idx i st = (st1, fc)" by fastforce
  have inv1: "app_inv st1" using focus_pane_inv(1) [OF inv, of ws_idx i] by (simp add: f)
  show ?thesis
  proof (cases "ws_idx < length (ap_workspaces st1) \<and> k < length (ws_tabs (ap_workspaces st1 ! ws_idx))")
    case False
    with Some f inv1 show ?thesis by (auto simp: apply_pane_zoom_def nth_opt_def)
  next
    case True
    have "app_inv (mark_session_dirty (st1\<lparr>ap_workspaces := (ap_workspaces st1)[ws_idx :=
        set_zoomed k z (ap_workspaces st1 ! ws_idx)]\<rparr>))" for z
      using True nth_workspace_inv [OF inv1]
      by (intro app_inv_update [OF inv1 set_zoomed_like]) simp_all
    with Some f inv1 True show ?thesis by (simp add: apply_pane_zoom_def nth_opt_def Let_def)
  qed
qed

section \<open>Moving workspaces\<close>

lemma workspace_position_SomeD:
  "workspace_position wss i = Some k \<Longrightarrow> k < length wss \<and> ws_id (wss ! k) = i"
  unfolding workspace_position_def using position_SomeD by fastforce

lemma workspace_position_iff:
  assumes "distinct (map ws_id wss)"
  shows "workspace_position wss i = Some k \<longleftrightarrow> k < length wss \<and> ws_id (wss ! k) = i"
proof
  assume k: "k < length wss \<and> ws_id (wss ! k) = i"
  then have "workspace_position wss i \<noteq> None"
    unfolding workspace_position_def position_None_iff by (auto simp: list_all_iff)
  then obtain j where j: "workspace_position wss i = Some j" by blast
  from workspace_position_SomeD [OF j] k have "map ws_id wss ! j = map ws_id wss ! k" by simp
  with assms workspace_position_SomeD [OF j] k have "j = k"
    using nth_eq_iff_index_eq [of "map ws_id wss" j k] by auto
  with j show "workspace_position wss i = Some k" by simp
qed (rule workspace_position_SomeD)

lemma workspace_position_mem: "ws \<in> set wss \<Longrightarrow> \<exists>k. workspace_position wss (ws_id ws) = Some k"
  using position_None_iff [of "\<lambda>w. ws_id w = ws_id ws" wss]
  by (cases "workspace_position wss (ws_id ws)") (auto simp: workspace_position_def list_all_iff)

text \<open>A permutation of the workspaces that looks the active and the selected one up by their ids.\<close>

definition reordered :: "app_state \<Rightarrow> workspace list \<Rightarrow> app_state \<Rightarrow> bool" where
  "reordered st wss st' \<longleftrightarrow>
     ap_workspaces st' = wss \<and> ap_terminals st' = ap_terminals st \<and>
     ap_pending_agent_notifications st' = ap_pending_agent_notifications st \<and>
     ap_active st' = Option.bind (ap_active st) (\<lambda>a. workspace_position wss (ws_id (ap_workspaces st ! a))) \<and>
     ap_selected st' = (if ap_workspaces st = [] then 0
       else the (workspace_position wss (ws_id (ap_workspaces st ! ap_selected st))))"

lemma reordered_inv:
  assumes inv: "app_inv st" and m: "mset wss = mset (ap_workspaces st)" and re: "reordered st wss st'"
  shows "app_inv st'"
    and "a < length (ap_workspaces st) \<Longrightarrow> ap_active st = Some a \<Longrightarrow>
      \<exists>a'. ap_active st' = Some a' \<and> a' < length wss \<and> wss ! a' = ap_workspaces st ! a"
    and "ap_workspaces st \<noteq> [] \<Longrightarrow> ap_selected st' < length wss \<and>
      wss ! ap_selected st' = ap_workspaces st ! ap_selected st"
proof -
  note d = app_invD [OF inv]
  have len: "length wss = length (ap_workspaces st)" using m by (metis size_mset)
  have ok: "workspaces_ok wss" using workspaces_ok_cong [OF m] d(1) by simp
  then have dis: "distinct (map ws_id wss)" by (simp add: workspaces_ok_def)
  have found: "\<exists>a'. workspace_position wss (ws_id (ap_workspaces st ! a)) = Some a' \<and> a' < length wss \<and>
      wss ! a' = ap_workspaces st ! a" if "a < length (ap_workspaces st)" for a
  proof -
    have "ap_workspaces st ! a \<in> set wss" using that mset_eq_setD [OF m] by simp
    then obtain a' where a': "a' < length wss" "wss ! a' = ap_workspaces st ! a" by (metis in_set_conv_nth)
    then have "workspace_position wss (ws_id (ap_workspaces st ! a)) = Some a'"
      using workspace_position_iff [OF dis] by simp
    with a' show ?thesis by blast
  qed
  show act: "\<exists>a'. ap_active st' = Some a' \<and> a' < length wss \<and> wss ! a' = ap_workspaces st ! a"
    if "a < length (ap_workspaces st)" "ap_active st = Some a" for a
    using found [OF that(1)] that(2) re by (auto simp: reordered_def)
  show sel: "ap_selected st' < length wss \<and> wss ! ap_selected st' = ap_workspaces st ! ap_selected st"
    if "ap_workspaces st \<noteq> []"
    using found [of "ap_selected st"] d(4) that re by (auto simp: reordered_def selection_ok_def)
  have "selection_ok (length wss) (ap_active st') (ap_selected st')"
  proof (cases "ap_active st")
    case None
    then have "ap_active st' = None" using re by (simp add: reordered_def)
    with sel re len show ?thesis by (auto simp: selection_ok_def reordered_def)
  next
    case (Some a)
    then have "a < length (ap_workspaces st)" using d(4) by (simp add: selection_ok_def)
    from act [OF this Some] sel len show ?thesis by (auto simp: selection_ok_def)
  qed
  with ok d(2,3,5) re mset_eq_setD [OF all_entries_cong [OF m]] show "app_inv st'"
    by (simp add: app_inv_def reordered_def)
qed

lemma reorder_is_reordered:
  assumes inv: "app_inv st" and m: "mset wss = mset (ap_workspaces st)"
  shows "reordered st wss ((mark_session_dirty st)\<lparr>ap_workspaces := wss,
      ap_active := Option.bind (map_option (\<lambda>a. ws_id (ap_workspaces st ! a)) (ap_active st)) (workspace_position wss),
      ap_selected := unwrap_or (Option.bind (map_option ws_id (nth_opt (ap_workspaces st) (ap_selected st)))
        (workspace_position wss)) 0\<rparr>)"
proof (cases "ap_workspaces st = []")
  case True
  then show ?thesis by (cases "ap_active st") (simp_all add: reordered_def nth_opt_def)
next
  case False
  then have sel: "ap_selected st < length (ap_workspaces st)" using app_invD(4) [OF inv] by (simp add: selection_ok_def)
  then have "ap_workspaces st ! ap_selected st \<in> set wss" using mset_eq_setD [OF m] by simp
  from workspace_position_mem [OF this] sel False show ?thesis
    by (cases "ap_active st") (auto simp: reordered_def nth_opt_def)
qed

lemma move_workspace_spec:
  assumes inv: "app_inv st"
  shows "\<exists>st' moved. move_workspace s t st = Some (st', moved) \<and> app_inv st' \<and>
    (if s < length (ap_workspaces st) \<and> t \<le> length (ap_workspaces st) \<and> t \<noteq> s \<and> t \<noteq> s + 1
     then moved \<and> reordered st (vec_insert (if s < t then t - 1 else t) (ap_workspaces st ! s)
            (vec_remove s (ap_workspaces st))) st'
     else \<not> moved \<and> st' = st)"
proof (cases "s < length (ap_workspaces st) \<and> t \<le> length (ap_workspaces st) \<and> t \<noteq> s \<and> t \<noteq> s + 1")
  case False
  then have "move_workspace s t st = Some (st, False)" by (auto simp: move_workspace_def Let_def)
  with inv show ?thesis using False by auto
next
  case True
  define wss where "wss = vec_insert (if s < t then t - 1 else t) (ap_workspaces st ! s) (vec_remove s (ap_workspaces st))"
  have m: "mset wss = mset (ap_workspaces st)"
    using True mset_vec_remove [of s "ap_workspaces st"] by (simp add: wss_def mset_vec_insert)
  note re = reorder_is_reordered [OF inv m]
  have "s \<noteq> (if s < t then t - 1 else t)" using True by auto
  then have "move_workspace s t st = Some ((mark_session_dirty st)\<lparr>ap_workspaces := wss,
      ap_active := Option.bind (map_option (\<lambda>a. ws_id (ap_workspaces st ! a)) (ap_active st)) (workspace_position wss),
      ap_selected := unwrap_or (Option.bind (map_option ws_id (nth_opt (ap_workspaces st) (ap_selected st)))
        (workspace_position wss)) 0\<rparr>, True)"
    using True app_invD(4) [OF inv]
    by (cases "ap_active st") (auto simp: move_workspace_def wss_def Let_def selection_ok_def nth_opt_def)
  with re reordered_inv(1) [OF inv m re] True show ?thesis by (auto simp: wss_def)
qed

text \<open>A block of workspaces before another one, or at the end.\<close>

definition block_order :: "string list \<Rightarrow> string option \<Rightarrow> string list \<Rightarrow> string list" where
  "block_order block before ids =
     (let rest = filter (\<lambda>i. i \<notin> set block) ids;
          k = unwrap_or (Option.bind before (\<lambda>i. position (\<lambda>c. c = i) rest)) (length rest)
      in take k rest @ block @ drop k rest)"

lemma fold_positions:
  "distinct ids \<Longrightarrow> hm_get (fold (\<lambda>(index, i). hm_insert i index) (enumerate n ids) m) i =
     (case position (\<lambda>c. c = i) ids of Some k \<Rightarrow> Some (n + k) | None \<Rightarrow> hm_get m i)"
proof (induction ids arbitrary: n m)
  case Nil
  then show ?case by simp
next
  case (Cons x xs)
  have "position (\<lambda>c. c = x) xs = None" using Cons.prems by (auto simp: position_None_iff list_all_iff)
  with Cons show ?case by (auto simp: split: option.split)
qed

lemma desired_positions_get: "distinct ids \<Longrightarrow> hm_get (desired_positions ids) i = position (\<lambda>c. c = i) ids"
  by (simp add: desired_positions_def fold_positions split: option.split)

lemma position_nth: "distinct ids \<Longrightarrow> k < length ids \<Longrightarrow> position (\<lambda>c. c = ids ! k) ids = Some k"
proof (induction ids arbitrary: k)
  case (Cons x xs)
  then show ?case by (cases k) auto
qed simp

text \<open>Sorting by the position among all ids puts the elements in the order of the ids.\<close>

lemma sort_by_position:
  fixes wss :: "workspace list"
  assumes dis: "distinct ids" and perm: "mset ids = mset (map ws_id wss)"
  shows "map ws_id (sort_key (\<lambda>ws. unwrap_or (hm_get (desired_positions ids) (ws_id ws)) usize_max) wss) = ids"
proof -
  define f where "f = (\<lambda>ws :: workspace. unwrap_or (hm_get (desired_positions ids) (ws_id ws)) usize_max)"
  define sorted_wss where "sorted_wss = sort_key f wss"
  have set: "set ids = ws_id ` set sorted_wss" using mset_eq_setD [OF perm] by (simp add: sorted_wss_def)
  have f: "f ws < length ids \<and> ids ! f ws = ws_id ws" if "ws \<in> set sorted_wss" for ws
  proof -
    have "ws_id ws \<in> set ids" using that set by simp
    then obtain k where "k < length ids" "ids ! k = ws_id ws" by (metis in_set_conv_nth)
    then show ?thesis using position_nth [OF dis, of k] by (simp add: f_def desired_positions_get [OF dis])
  qed
  have len: "length sorted_wss = length ids" using perm by (metis length_map length_sort size_mset sorted_wss_def)
  have "distinct (map ws_id wss)" using dis mset_eq_imp_distinct_iff [OF perm] by simp
  then have "inj_on ws_id (set sorted_wss)" "distinct sorted_wss"
    by (simp_all add: distinct_map sorted_wss_def)
  then have "distinct (map f sorted_wss)" unfolding distinct_map inj_on_def using f by metis
  moreover have "sorted (map f sorted_wss)" by (simp add: sorted_wss_def)
  moreover have "set (map f sorted_wss) = {0..<length ids}"
  proof (rule card_subset_eq)
    show "set (map f sorted_wss) \<subseteq> {0..<length ids}" using f by auto
    show "card (set (map f sorted_wss)) = card {0..<length ids}"
      using distinct_card [OF \<open>distinct (map f sorted_wss)\<close>] len by simp
  qed simp
  ultimately have "map f sorted_wss = [0..<length ids]"
    by (intro sorted_distinct_set_unique) simp_all
  then have "f (sorted_wss ! k) = k" if "k < length ids" for k
    using that len by (metis add.left_neutral diff_zero nth_map nth_upt)
  with f len have "map ws_id sorted_wss = ids"
    by (intro nth_equalityI [where xs = "map ws_id sorted_wss"]) (simp, metis length_map nth_map nth_mem)
  then show ?thesis by (simp add: sorted_wss_def f_def)
qed

lemma block_order_perm:
  assumes "distinct ids" and "distinct block" and "set block \<subseteq> set ids"
  shows "mset (block_order block before ids) = mset ids" and "distinct (block_order block before ids)"
proof -
  define rest where "rest = filter (\<lambda>i. i \<notin> set block) ids"
  define k where "k = unwrap_or (Option.bind before (\<lambda>i. position (\<lambda>c. c = i) rest)) (length rest)"
  have "mset (take k rest) + mset (drop k rest) = mset rest" by (metis append_take_drop_id mset_append)
  then have m: "mset (block_order block before ids) = mset block + mset rest"
    by (simp add: block_order_def rest_def [symmetric] k_def [symmetric] Let_def ac_simps)
  have "mset (filter (\<lambda>i. i \<in> set block) ids) = mset block"
    using assms by (intro iffD1 [OF set_eq_iff_mset_eq_distinct]) auto
  then have "mset block + mset rest = mset ids"
    unfolding rest_def by (metis mset_filter multiset_partition)
  with m show "mset (block_order block before ids) = mset ids" by simp
  from mset_eq_imp_distinct_iff [OF this] assms(1) show "distinct (block_order block before ids)" by simp
qed

lemma move_workspace_block_spec:
  assumes inv: "app_inv st"
  shows "\<exists>st' moved. move_workspace_block block before st = Some (st', moved) \<and> app_inv st' \<and>
    (if moved then mset (ap_workspaces st') = mset (ap_workspaces st) \<and> reordered st (ap_workspaces st') st' \<and>
       map ws_id (ap_workspaces st') = block_order block before (map ws_id (ap_workspaces st))
     else st' = st)"
proof -
  define wss where "wss = ap_workspaces st"
  define desired where "desired = block_order block before (map ws_id wss)"
  define wss' where "wss' = sort_key (\<lambda>ws. unwrap_or (hm_get (desired_positions desired) (ws_id ws)) usize_max) wss"
  define bad where "bad \<longleftrightarrow> block = [] \<or> \<not> distinct block \<or>
      \<not> list_all (\<lambda>i. list_ex (\<lambda>ws. ws_id ws = i) wss) block \<or>
      is_some_and before (\<lambda>i. i \<in> set block \<or> \<not> list_ex (\<lambda>ws. ws_id ws = i) wss)"
  have eq: "move_workspace_block block before st =
      (if bad then Some (st, False) else if map ws_id wss = desired then Some (st, False)
       else Option.bind (case ap_active st of None \<Rightarrow> Some None
              | Some idx \<Rightarrow> map_option (\<lambda>ws. Some (ws_id ws)) (nth_opt wss idx)) (\<lambda>active_id.
          Some ((mark_session_dirty st)\<lparr>ap_workspaces := wss',
            ap_active := Option.bind active_id (workspace_position wss'),
            ap_selected := unwrap_or (Option.bind (map_option ws_id (nth_opt wss (ap_selected st)))
              (workspace_position wss')) 0\<rparr>, True)))"
    unfolding move_workspace_block_def bad_def desired_def block_order_def wss_def wss'_def Let_def ..
  have act: "(case ap_active st of None \<Rightarrow> Some None
      | Some idx \<Rightarrow> map_option (\<lambda>ws. Some (ws_id ws)) (nth_opt wss idx)) =
      Some (map_option (\<lambda>a. ws_id (ap_workspaces st ! a)) (ap_active st))"
    using app_invD(4) [OF inv] by (auto simp: selection_ok_def nth_opt_def wss_def split: option.splits)
  show ?thesis
  proof (cases "bad \<or> map ws_id wss = desired")
    case True
    then have "move_workspace_block block before st = Some (st, False)" unfolding eq by auto
    with inv show ?thesis by auto
  next
    case False
    have "distinct (map ws_id wss)" using app_invD(1) [OF inv] by (simp add: workspaces_ok_def wss_def)
    moreover have "distinct block" "set block \<subseteq> set (map ws_id wss)"
      using False by (auto simp: bad_def list_all_iff list_ex_iff)
    ultimately have perm: "mset desired = mset (map ws_id wss)" "distinct desired"
      unfolding desired_def by (rule block_order_perm)+
    have m: "mset wss' = mset (ap_workspaces st)" by (simp add: wss'_def wss_def)
    define st' where "st' = (mark_session_dirty st)\<lparr>ap_workspaces := wss',
        ap_active := Option.bind (map_option (\<lambda>a. ws_id (ap_workspaces st ! a)) (ap_active st)) (workspace_position wss'),
        ap_selected := unwrap_or (Option.bind (map_option ws_id (nth_opt (ap_workspaces st) (ap_selected st)))
          (workspace_position wss')) 0\<rparr>"
    have re: "reordered st wss' st'" unfolding st'_def by (rule reorder_is_reordered [OF inv m])
    then have wss'_eq: "ap_workspaces st' = wss'" by (simp add: reordered_def)
    have ord: "map ws_id wss' = desired" unfolding wss'_def by (rule sort_by_position [OF perm(2,1)])
    have "move_workspace_block block before st = Some (st', True)"
      unfolding eq act st'_def using False by (simp add: wss_def)
    moreover have "app_inv st'" by (rule reordered_inv(1) [OF inv m re])
    ultimately show ?thesis
      using m re ord by (intro exI [of _ st'] exI [of _ True]) (simp add: wss'_eq desired_def wss_def)
  qed
qed

end
