(* ===== verification/App_Close.thy ===== *)
theory App_Close
  imports App_Lists
begin

text \<open>
  Closing workspaces and the death of a pane keep the invariant, and remove exactly the terminals that
  no pane is attached to any more.
\<close>

section \<open>Terminals that are no longer attached\<close>

definition attached :: "workspace list \<Rightarrow> string set" where
  "attached wss = entry_terminal ` set (all_entries wss)"

lemma terminal_attached_iff: "terminal_attached wss t \<longleftrightarrow> t \<in> attached wss"
  by (auto simp: terminal_attached_def attached_def all_entries_def tab_entries_def list_ex_iff hm_values_def
      entry_terminal_def intro: rev_image_eqI)

lemma attached_cong: "mset wss = mset wss' \<Longrightarrow> attached wss = attached wss'"
  unfolding attached_def using mset_eq_setD [OF all_entries_cong] by blast

lemma attached_append [simp]: "attached (wss @ wss') = attached wss \<union> attached wss'"
  by (auto simp: attached_def)

lemma attached_Cons [simp]: "attached (ws # wss) = entry_terminal ` set (live_entries ws) \<union> attached wss"
  by (auto simp: attached_def)

lemma attached_Nil [simp]: "attached [] = {}"
  by (simp add: attached_def)

lemma terminals_ok_remove: "terminals_ok m \<Longrightarrow> terminals_ok (hm_remove k m)"
proof -
  assume ok: "terminals_ok m"
  have "set (hm_remove k m) \<subseteq> set m" by (auto simp: hm_remove_def AList.delete_eq)
  then have "set (hm_values (hm_remove k m)) \<subseteq> set (hm_values m)" by (auto simp: hm_values_def)
  with ok show ?thesis by (auto simp: terminals_ok_def list_all_iff)
qed

text \<open>What a removal leaves: everything but the terminals, and the shutdowns it queues.\<close>

definition released :: "string set \<Rightarrow> app_state \<Rightarrow> app_state \<Rightarrow> bool" where
  "released gone st st' \<longleftrightarrow>
     (\<exists>terminals shutdowns. st' = st\<lparr>ap_terminals := terminals, ap_terminal_runtime_shutdowns := shutdowns\<rparr>) \<and>
     (terminals_ok (ap_terminals st) \<longrightarrow> terminals_ok (ap_terminals st')) \<and>
     (\<forall>k. hm_get (ap_terminals st') k = (if k \<in> gone then None else hm_get (ap_terminals st) k)) \<and>
     set (ap_terminal_runtime_shutdowns st') =
       set (ap_terminal_runtime_shutdowns st) \<union> (gone \<inter> set (hm_keys (ap_terminals st))) \<and>
     (distinct (ap_terminal_runtime_shutdowns st) \<longrightarrow> distinct (ap_terminal_runtime_shutdowns st'))"

lemma released_fields:
  assumes "released gone st st'"
  shows "ap_workspaces st' = ap_workspaces st" and "ap_active st' = ap_active st" and "ap_selected st' = ap_selected st"
    and "ap_pending_agent_notifications st' = ap_pending_agent_notifications st" and "ap_mode st' = ap_mode st"
    and "ap_next_agent_state_change_seq st' = ap_next_agent_state_change_seq st"
  using assms by (auto simp: released_def)

lemma keys_iff_get: "k \<in> set (hm_keys m) \<longleftrightarrow> hm_get m k \<noteq> None"
  using hm_contains_iff [of m k] by (simp add: hm_contains_def)

lemma released_step:
  "released (if t \<in> attached (ap_workspaces st) then {} else {t}) st (remove_unattached_terminal_id t st)"
proof (cases "t \<in> attached (ap_workspaces st)")
  case True
  have "\<exists>terminals shutdowns. st = st\<lparr>ap_terminals := terminals, ap_terminal_runtime_shutdowns := shutdowns\<rparr>"
    by (intro exI [of _ "ap_terminals st"] exI [of _ "ap_terminal_runtime_shutdowns st"]) simp
  with True show ?thesis by (simp add: released_def remove_unattached_terminal_id_def terminal_attached_iff)
next
  case False
  show ?thesis
  proof (cases "hm_contains (ap_terminals st) t \<and> t \<notin> set (ap_terminal_runtime_shutdowns st)")
    case True
    then have "remove_unattached_terminal_id t st = st\<lparr>ap_terminals := hm_remove t (ap_terminals st),
        ap_terminal_runtime_shutdowns := ap_terminal_runtime_shutdowns st @ [t]\<rparr>"
      using False by (simp add: remove_unattached_terminal_id_def terminal_attached_iff Let_def)
    with False True show ?thesis by (auto simp: released_def terminals_ok_remove hm_contains_iff)
  next
    case kept: False
    then have eq: "remove_unattached_terminal_id t st = st\<lparr>ap_terminals := hm_remove t (ap_terminals st)\<rparr>"
      using False by (auto simp: remove_unattached_terminal_id_def terminal_attached_iff Let_def)
    have "\<exists>terminals shutdowns. st\<lparr>ap_terminals := hm_remove t (ap_terminals st)\<rparr> =
        st\<lparr>ap_terminals := terminals, ap_terminal_runtime_shutdowns := shutdowns\<rparr>"
      by (intro exI [of _ "hm_remove t (ap_terminals st)"] exI [of _ "ap_terminal_runtime_shutdowns st"]) simp
    with False kept show ?thesis by (auto simp: eq released_def terminals_ok_remove hm_contains_iff)
  qed
qed

lemma released_trans:
  assumes "released a st st'" and "released b st' st''"
  shows "released (a \<union> b) st st''"
proof -
  have "\<exists>terminals shutdowns. st'' = st\<lparr>ap_terminals := terminals, ap_terminal_runtime_shutdowns := shutdowns\<rparr>"
    using assms by (auto simp: released_def) blast+
  moreover have "b \<inter> set (hm_keys (ap_terminals st')) \<union> a \<inter> set (hm_keys (ap_terminals st)) =
      (a \<union> b) \<inter> set (hm_keys (ap_terminals st))"
    using assms(1) unfolding released_def keys_iff_get set_eq_iff Un_iff Int_iff by (auto split: if_splits)
  ultimately show ?thesis using assms unfolding released_def by (auto split: if_splits)
qed

lemma remove_unattached_released:
  "released (set ts - attached (ap_workspaces st)) st (remove_unattached_terminal_ids ts st)"
proof (induction ts arbitrary: st)
  case Nil
  have "\<exists>terminals shutdowns. st = st\<lparr>ap_terminals := terminals, ap_terminal_runtime_shutdowns := shutdowns\<rparr>"
    by (intro exI [of _ "ap_terminals st"] exI [of _ "ap_terminal_runtime_shutdowns st"]) simp
  then show ?case by (simp add: released_def remove_unattached_terminal_ids_def)
next
  case (Cons t ts)
  define st1 where "st1 = remove_unattached_terminal_id t st"
  note step = released_step [of t st, folded st1_def]
  have "released (set ts - attached (ap_workspaces st)) st1 (remove_unattached_terminal_ids ts st1)"
    using Cons.IH [of st1] by (simp add: released_fields(1) [OF step])
  from released_trans [OF step this] show ?case
    by (cases "t \<in> attached (ap_workspaces st)")
      (simp_all add: remove_unattached_terminal_ids_def st1_def insert_Diff_if)
qed

text \<open>Removing what is not attached keeps every pane's terminal.\<close>

lemma app_inv_released:
  assumes rel: "released gone st st'" and gone: "gone \<inter> attached (ap_workspaces st) = {}"
    and "workspaces_ok (ap_workspaces st)" and "terminals_ok (ap_terminals st)"
    and "attached (ap_workspaces st) \<subseteq> set (hm_keys (ap_terminals st))"
    and "pending_ok (ap_pending_agent_notifications st)"
    and "ap_workspaces st'' = ap_workspaces st'" and "ap_terminals st'' = ap_terminals st'"
    and "ap_pending_agent_notifications st'' = ap_pending_agent_notifications st'"
    and "selection_ok (length (ap_workspaces st)) (ap_active st'') (ap_selected st'')"
  shows "app_inv st''"
proof -
  have "terminals_ok (ap_terminals st')" using rel assms(4) by (simp add: released_def)
  moreover have "attached (ap_workspaces st) \<subseteq> set (hm_keys (ap_terminals st'))"
  proof
    fix k assume k: "k \<in> attached (ap_workspaces st)"
    then have "k \<notin> gone" using gone by blast
    then have "hm_get (ap_terminals st') k = hm_get (ap_terminals st) k" using rel by (simp add: released_def)
    with k assms(5) show "k \<in> set (hm_keys (ap_terminals st'))" by (auto simp: keys_iff_get)
  qed
  ultimately show ?thesis
    using assms released_fields [OF rel] by (simp add: app_inv_def attached_def)
qed

section \<open>Removing several workspaces\<close>

lemma nths_agree:
  "\<forall>i < length xs. i \<in> A \<longleftrightarrow> i \<in> B \<Longrightarrow> nths xs A = nths xs B"
  unfolding nths_def by (rule arg_cong [of _ _ "map fst"], rule filter_cong) (auto dest: set_zip_rightD)

lemma map_filter_enumerate:
  "List.map_filter (\<lambda>(i, x). if P x then Some i else None) (enumerate 0 xs) = filter (\<lambda>i. P (xs ! i)) [0..<length xs]"
proof -
  have "enumerate 0 xs = map (\<lambda>i. (i, xs ! i)) [0..<length xs]"
    by (intro nth_equalityI) (simp_all add: nth_enumerate_eq)
  moreover have "map (the \<circ> (\<lambda>i. if P (xs ! i) then Some i else None)) (filter (\<lambda>i. P (xs ! i)) is) =
      filter (\<lambda>i. P (xs ! i)) is" for "is"
    by (rule map_idI) auto
  ultimately show ?thesis
    by (simp add: List.map_filter_def filter_map comp_def cong: if_cong filter_cong) 
qed

lemma vec_remove_nths:
  assumes "j < length xs" and "\<forall>i \<in> A. i < j"
  shows "nths (vec_remove j xs) (- A) = nths xs (- insert j A)"
proof -
  define ys where "ys = take j xs" define zs where "zs = drop (Suc j) xs"
  have xs: "xs = ys @ xs ! j # zs" unfolding ys_def zs_def by (rule id_take_nth_drop [OF assms(1)])
  have len: "length ys = j" using assms(1) by (simp add: ys_def)
  have "nths ys (- A) = nths ys (- insert j A)"
    by (rule nths_agree) (use len in auto)
  moreover have "{i. i + length ys \<in> - A} = UNIV" "{i. Suc i + length ys \<in> - insert j A} = UNIV"
    using assms(2) len by fastforce+
  moreover have "vec_remove j xs = ys @ zs" by (simp add: vec_remove_def ys_def zs_def)
  ultimately show ?thesis
    by (subst (2) xs) (simp add: nths_append nths_Cons len)
qed

lemma remove_workspaces_eq:
  "sorted idxs \<Longrightarrow> distinct idxs \<Longrightarrow> \<forall>i \<in> set idxs. i < length wss \<Longrightarrow>
     remove_workspaces (rev idxs) wss = Some (nths wss (- set idxs))"
proof (induction idxs arbitrary: wss rule: rev_induct)
  case Nil
  then show ?case by (simp add: nths_all)
next
  case (snoc j js)
  then have j: "j < length wss" "\<forall>i \<in> set js. i < j" by (auto simp: sorted_append order_less_le)
  have "remove_workspaces (rev (js @ [j])) wss = remove_workspaces (rev js) (vec_remove j wss)"
    using j(1) by (simp add: vec_remove_checked_def)
  also have "\<dots> = Some (nths (vec_remove j wss) (- set js))"
    using snoc j by (intro snoc.IH) (auto simp: sorted_append length_vec_remove)
  finally show ?case using vec_remove_nths [OF j] by simp
qed

lemma mset_nths: "mset (nths xs A) + mset (nths xs (- A)) = mset xs"
proof (induction xs arbitrary: A)
  case (Cons x xs)
  have "{j. Suc j \<in> - A} = - {j. Suc j \<in> A}" by auto
  with Cons.IH [of "{j. Suc j \<in> A}"] show ?case by (auto simp: nths_Cons)
qed simp

lemma workspaces_ok_sub:
  assumes "workspaces_ok wss" and "mset wss' + mset rest = mset wss"
  shows "workspaces_ok wss'" and "attached wss' \<inter> attached rest = {}" and "attached wss = attached wss' \<union> attached rest"
proof -
  have m: "mset (wss' @ rest) = mset wss" using assms(2) by simp
  have ok: "workspaces_ok (wss' @ rest)" using workspaces_ok_cong [OF m] assms(1) by simp
  then show "workspaces_ok wss'" "attached wss' \<inter> attached rest = {}"
    by (auto simp: workspaces_ok_def entries_ok_def attached_def)
  show "attached wss = attached wss' \<union> attached rest" using attached_cong [OF m] by simp
qed

lemma close_indices_ok:
  assumes "k < length (ap_workspaces st)"
  shows "sorted (workspace_close_indices k st)" and "distinct (workspace_close_indices k st)"
    and "\<forall>i \<in> set (workspace_close_indices k st). i < length (ap_workspaces st)"
    and "k \<in> set (workspace_close_indices k st)"
proof -
  define members where "members = (\<lambda>key. List.map_filter (\<lambda>(idx, ws).
      if is_some_and (ws_worktree_space ws) (\<lambda>member. sp_key member = key) then Some idx else None)
      (enumerate 0 (ap_workspaces st)))"
  have mem: "members key = filter (\<lambda>i. is_some_and (ws_worktree_space (ap_workspaces st ! i)) (\<lambda>m. sp_key m = key))
      [0..<length (ap_workspaces st)]" for key
    unfolding members_def by (rule map_filter_enumerate)
  consider "workspace_close_indices k st = [k]"
    | space where "ws_worktree_space (ap_workspaces st ! k) = Some space" "workspace_close_indices k st = members (sp_key space)"
  proof (cases "ws_worktree_space (ap_workspaces st ! k)")
    case None
    with assms have "workspace_close_indices k st = [k]"
      by (simp add: workspace_close_indices_def nth_opt_def opt_filter_def)
    then show ?thesis by (rule that(1))
  next
    case (Some space)
    show ?thesis
    proof (cases "\<not> sp_is_linked_worktree space \<and> 2 \<le> length (members (sp_key space))")
      case True
      with Some assms have "workspace_close_indices k st = members (sp_key space)"
        by (simp add: workspace_close_indices_def nth_opt_def opt_filter_def members_def)
      with Some show ?thesis by (rule that(2))
    next
      case False
      with Some assms have "workspace_close_indices k st = [k]"
        by (cases "sp_is_linked_worktree space")
          (simp_all add: workspace_close_indices_def nth_opt_def opt_filter_def members_def)
      then show ?thesis by (rule that(1))
    qed
  qed
  then have "sorted (workspace_close_indices k st) \<and> distinct (workspace_close_indices k st) \<and>
    (\<forall>i \<in> set (workspace_close_indices k st). i < length (ap_workspaces st)) \<and> k \<in> set (workspace_close_indices k st)"
  proof cases
    case 1
    with assms show ?thesis by simp
  next
    case (2 space)
    with assms show ?thesis by (simp add: mem sorted_wrt_filter)
  qed
  then show "sorted (workspace_close_indices k st)" "distinct (workspace_close_indices k st)"
    "\<forall>i \<in> set (workspace_close_indices k st). i < length (ap_workspaces st)"
    "k \<in> set (workspace_close_indices k st)" by auto
qed

section \<open>Closing the selected workspace\<close>

lemma plugin_records_simps [simp]:
  "ap_workspaces (remove_plugin_pane_records is st) = ap_workspaces st"
  "ap_terminals (remove_plugin_pane_records is st) = ap_terminals st"
  "ap_active (remove_plugin_pane_records is st) = ap_active st"
  "ap_selected (remove_plugin_pane_records is st) = ap_selected st"
  "ap_pending_agent_notifications (remove_plugin_pane_records is st) = ap_pending_agent_notifications st"
  "ap_terminal_runtime_shutdowns (remove_plugin_pane_records is st) = ap_terminal_runtime_shutdowns st"
  "ap_next_agent_state_change_seq (remove_plugin_pane_records is st) = ap_next_agent_state_change_seq st"
  by (simp_all add: remove_plugin_pane_records_def Let_def)

lemma terminal_ids_of_workspace:
  "k < length (ap_workspaces st) \<Longrightarrow>
     set (terminal_ids_for_workspace k st) = entry_terminal ` set (live_entries (ap_workspaces st ! k))"
  by (auto simp: terminal_ids_for_workspace_def nth_opt_def tab_entries_def hm_values_def entry_terminal_def
      intro: rev_image_eqI)

lemma nths_members: "set (nths xs A) = {xs ! i | i. i < length xs \<and> i \<in> A}"
  by (rule set_nths)

lemma closed_terminals:
  assumes "\<forall>i \<in> set idxs. i < length (ap_workspaces st)"
  shows "set (concat (map (\<lambda>idx. terminal_ids_for_workspace idx st) idxs)) =
    attached (nths (ap_workspaces st) (set idxs))"
proof -
  have "set (concat (map (\<lambda>idx. terminal_ids_for_workspace idx st) idxs)) =
      (\<Union>i \<in> set idxs. entry_terminal ` set (live_entries (ap_workspaces st ! i)))"
    using assms terminal_ids_of_workspace by simp
  also have "\<dots> = attached (nths (ap_workspaces st) (set idxs))"
    using assms by (auto simp: attached_def all_entries_def nths_members)
  finally show ?thesis .
qed

lemma close_selected_spec:
  assumes inv: "app_inv st" and ne: "ap_workspaces st \<noteq> []"
  defines "idxs \<equiv> workspace_close_indices (ap_selected st) st"
  defines "rest \<equiv> nths (ap_workspaces st) (- set idxs)"
  shows "\<exists>st'. close_selected_workspace st = Some st' \<and> app_inv st' \<and> ap_workspaces st' = rest \<and>
    (\<forall>k. hm_get (ap_terminals st') k =
       (if k \<in> attached (nths (ap_workspaces st) (set idxs)) then None else hm_get (ap_terminals st) k)) \<and>
    set (ap_terminal_runtime_shutdowns st') =
      set (ap_terminal_runtime_shutdowns st) \<union> attached (nths (ap_workspaces st) (set idxs)) \<and>
    (\<forall>a ws. ap_active st = Some a \<longrightarrow> ap_workspaces st ! a = ws \<longrightarrow> ws \<in> set rest \<longrightarrow>
       (\<exists>a'. ap_active st' = Some a' \<and> rest ! a' = ws))"
proof -
  note d = app_invD [OF inv]
  have sel: "ap_selected st < length (ap_workspaces st)" using d(4) ne by (simp add: selection_ok_def)
  note ci = close_indices_ok [OF sel, folded idxs_def]
  define st1 where "st1 = mark_session_dirty st"
  have idxs1: "workspace_close_indices (ap_selected st1) st1 = idxs"
    by (simp add: st1_def idxs_def workspace_close_indices_def)
  define ts where "ts = concat (map (\<lambda>idx. terminal_ids_for_workspace idx st1) idxs)"
  define st2 where "st2 = remove_plugin_pane_records (concat (map (\<lambda>idx. pane_ids_for_workspace idx st1) idxs)) st1"
  define st3 where "st3 = remove_unattached_terminal_ids ts (st2\<lparr>ap_workspaces := rest\<rparr>)"
  define sel1 where "sel1 = unwrap_or (Option.bind (map_option ws_id (Option.bind (ap_active st) (nth_opt (ap_workspaces st))))
      (workspace_position rest)) (ap_selected st)"
  define sel2 where "sel2 = (if length rest \<le> sel1 then length rest - 1 else sel1)"
  define st' where "st' = (if rest = [] then st3\<lparr>ap_active := None, ap_selected := 0\<rparr>
      else st3\<lparr>ap_active := Some sel2, ap_selected := sel2\<rparr>)"
  have ts: "set ts = attached (nths (ap_workspaces st) (set idxs))"
    using closed_terminals [of idxs st1] ci(3) by (simp add: ts_def st1_def)
  have m: "mset rest + mset (nths (ap_workspaces st) (set idxs)) = mset (ap_workspaces st)"
    using mset_nths [of "ap_workspaces st" "set idxs"] by (simp add: rest_def ac_simps)
  note sub = workspaces_ok_sub [OF d(1) m]
  have rel: "released (attached (nths (ap_workspaces st) (set idxs))) (st2\<lparr>ap_workspaces := rest\<rparr>) st3"
  proof -
    have "set ts - attached rest = attached (nths (ap_workspaces st) (set idxs))" using sub(2) ts by blast
    with remove_unattached_released [of ts "st2\<lparr>ap_workspaces := rest\<rparr>"] show ?thesis by (simp add: st3_def)
  qed
  note f = released_fields [OF rel, simplified]
  have removed: "remove_workspaces (rev idxs) (ap_workspaces st2) = Some rest"
    using remove_workspaces_eq [OF ci(1,2,3)] by (simp add: st2_def st1_def rest_def)
  have fields: "ap_active st1 = ap_active st" "ap_workspaces st1 = ap_workspaces st" "ap_selected st2 = ap_selected st"
    by (simp_all add: st1_def st2_def)
  have "close_selected_workspace st = Some st'"
    unfolding close_selected_workspace_def Let_def st1_def [symmetric] idxs1 ts_def [symmetric] st2_def [symmetric] removed
    using ne by (simp only: st3_def [symmetric] if_False option.map) (simp add: st'_def f fields sel1_def sel2_def)
  moreover have "app_inv st'"
  proof (rule app_inv_released [OF rel])
    show "attached (nths (ap_workspaces st) (set idxs)) \<inter> attached (ap_workspaces (st2\<lparr>ap_workspaces := rest\<rparr>)) = {}"
      using sub(2) by auto
    show "workspaces_ok (ap_workspaces (st2\<lparr>ap_workspaces := rest\<rparr>))" using sub(1) by simp
    show "attached (ap_workspaces (st2\<lparr>ap_workspaces := rest\<rparr>)) \<subseteq> set (hm_keys (ap_terminals (st2\<lparr>ap_workspaces := rest\<rparr>)))"
      using d(3) sub(3) by (simp add: st2_def st1_def attached_def)
    show "selection_ok (length (ap_workspaces (st2\<lparr>ap_workspaces := rest\<rparr>))) (ap_active st') (ap_selected st')"
      by (cases rest) (auto simp: selection_ok_def st'_def sel2_def)
  qed (use d(2,5) in \<open>simp_all add: st2_def st1_def st'_def\<close>)
  moreover have "ap_workspaces st' = rest" "ap_terminals st' = ap_terminals st3"
    "ap_terminal_runtime_shutdowns st' = ap_terminal_runtime_shutdowns st3" by (simp_all add: st'_def f)
  moreover have "hm_get (ap_terminals st3) k =
      (if k \<in> attached (nths (ap_workspaces st) (set idxs)) then None else hm_get (ap_terminals st) k)" for k
    using rel by (simp add: released_def st2_def st1_def)
  moreover have "set (ap_terminal_runtime_shutdowns st3) =
      set (ap_terminal_runtime_shutdowns st) \<union> attached (nths (ap_workspaces st) (set idxs))"
    using rel d(3) sub(3) by (auto simp: released_def st2_def st1_def attached_def)
  moreover have "\<exists>a'. ap_active st' = Some a' \<and> rest ! a' = ws"
    if a: "ap_active st = Some a" "ap_workspaces st ! a = ws" "ws \<in> set rest" for a ws
  proof -
    have "a < length (ap_workspaces st)" using d(4) a(1) by (simp add: selection_ok_def)
    obtain k where k: "k < length rest" "rest ! k = ws" using a(3) by (auto simp: in_set_conv_nth)
    have "workspace_position rest (ws_id ws) = Some k"
      using sub(1) k by (subst workspace_position_iff) (auto simp: workspaces_ok_def)
    then have "sel2 = k" using a \<open>a < length (ap_workspaces st)\<close> k(1)
      by (simp add: sel2_def sel1_def nth_opt_def)
    with k show ?thesis by (auto simp: st'_def)
  qed
  ultimately show ?thesis by auto
qed

end
