(* ===== verification/App_Died.thy ===== *)
theory App_Died
  imports App_Close
begin

text \<open>The death of a pane: what is left of the server's state.\<close>

lemma find_pane_workspace:
  assumes "position (\<lambda>ws. find_tab_index_for_pane ws i \<noteq> None) wss = Some k"
  shows "k < length wss" and "i \<in> live_panes (wss ! k)"
  using position_SomeD [OF assms] find_tab_None [of "wss ! k" i] by auto

lemma no_pane_workspace:
  "position (\<lambda>ws. find_tab_index_for_pane ws i \<noteq> None) wss = None \<longleftrightarrow> i \<notin> fst ` set (all_entries wss)"
proof -
  have "position (\<lambda>ws. find_tab_index_for_pane ws i \<noteq> None) wss = None \<longleftrightarrow> (\<forall>ws \<in> set wss. i \<notin> live_panes ws)"
    using find_tab_None by (auto simp: position_None_iff list_all_iff)
  also have "\<dots> \<longleftrightarrow> i \<notin> fst ` set (all_entries wss)" by (auto simp: all_entries_def)
  finally show ?thesis .
qed

text \<open>The entry of a pane in its workspace names its terminal.\<close>

lemma find_map_entries:
  assumes "distinct (map fst (tab_entries tabs))"
  shows "find_map (\<lambda>tb. hm_get (tb_panes tb) i) tabs = hm_get (tab_entries tabs) i"
  using assms
proof (induction tabs)
  case Nil
  then show ?case by (simp add: hm_get_def)
next
  case (Cons tb tabs)
  then show ?case by (auto simp: hm_get_def map_add_def split: option.splits)
qed

lemma ws_pane_state_entry:
  assumes "workspace_wf ks ws"
  shows "ws_pane_state ws i = Some pane \<longleftrightarrow> (i, pane) \<in> set (live_entries ws)"
proof -
  have "distinct (map fst (live_entries ws))" using workspace_wfD(2) [OF assms] by (simp add: entries_ok_def)
  then show ?thesis
    using find_map_entries [of "ws_tabs ws" i]
    by (simp add: ws_pane_state_def hm_get_def map_of_eq_Some_iff)
qed

text \<open>Removing one pane from one workspace of the state.\<close>

lemma entries_after_update:
  assumes "k < length wss" and "add_mset e (mset (live_entries ws)) = mset (live_entries (wss ! k))"
  shows "add_mset e (mset (all_entries (wss[k := ws]))) = mset (all_entries wss)"
proof -
  have "add_mset e (mset (all_entries (wss[k := ws]))) + mset (live_entries (wss ! k)) =
      mset (all_entries wss) + add_mset e (mset (live_entries ws))"
    using all_entries_update [OF assms(1), of ws] by simp
  also have "\<dots> = mset (all_entries wss) + mset (live_entries (wss ! k))" using assms(2) by simp
  finally show ?thesis by (rule add_right_imp_eq)
qed

lemma entry_gone:
  assumes "entries_ok es" and "add_mset (i, pane) (mset es') = mset es"
  shows "entries_ok es'" and "fst ` set es' = fst ` set es - {i}"
    and "entry_terminal ` set es' = entry_terminal ` set es - {pn_attached_terminal_id pane}"
    and "pn_attached_terminal_id pane \<in> entry_terminal ` set es"
proof -
  have m: "mset es = add_mset (i, pane) (mset es')" using assms(2) by simp
  note ok = iffD1 [OF entries_ok_add [OF m] assms(1)]
  then show "entries_ok es'" by simp
  have "set es = insert (i, pane) (set es')" using mset_eq_setD [of es "(i, pane) # es'"] m by simp
  with ok show "fst ` set es' = fst ` set es - {i}"
    "entry_terminal ` set es' = entry_terminal ` set es - {pn_attached_terminal_id pane}"
    "pn_attached_terminal_id pane \<in> entry_terminal ` set es"
    by (auto simp: entry_terminal_def)
qed

text \<open>What the death of a pane leaves.\<close>

definition pane_gone :: "pane_id \<Rightarrow> string \<Rightarrow> app_state \<Rightarrow> app_state \<Rightarrow> bool" where
  "pane_gone i terminal_id st st' \<longleftrightarrow>
     fst ` set (all_entries (ap_workspaces st')) = fst ` set (all_entries (ap_workspaces st)) - {i} \<and>
     (\<forall>k. hm_get (ap_terminals st') k = (if k = terminal_id then None else hm_get (ap_terminals st) k)) \<and>
     set (ap_terminal_runtime_shutdowns st') = insert terminal_id (set (ap_terminal_runtime_shutdowns st)) \<and>
     (\<forall>a ws. ap_active st = Some a \<longrightarrow> ap_workspaces st ! a = ws \<longrightarrow>
        ws_id ws \<in> set (map ws_id (ap_workspaces st')) \<longrightarrow>
        (\<exists>a'. ap_active st' = Some a' \<and> ws_id (ap_workspaces st' ! a') = ws_id ws))"

lemma pane_died_kept:
  assumes st1: "workspaces_ok (ap_workspaces st1)" "terminals_ok (ap_terminals st1)"
      "attached (ap_workspaces st1) \<subseteq> set (hm_keys (ap_terminals st1))"
      "selection_ok (length (ap_workspaces st1)) (ap_active st1) (ap_selected st1)"
      "pending_ok (ap_pending_agent_notifications st1)"
    and k: "k < length (ap_workspaces st1)" and wf: "workspace_inv ws" and id: "ws_id ws = ws_id (ap_workspaces st1 ! k)"
    and es: "add_mset (i, pane) (mset (live_entries ws)) = mset (live_entries (ap_workspaces st1 ! k))"
  defines "st' \<equiv> remove_unattached_terminal_ids [pn_attached_terminal_id pane]
      (mark_session_dirty (st1\<lparr>ap_workspaces := (ap_workspaces st1)[k := ws]\<rparr>))"
  shows "app_inv st'" and "pane_gone i (pn_attached_terminal_id pane) st1 st'"
proof -
  define t where "t = pn_attached_terminal_id pane"
  define st2 where "st2 = mark_session_dirty (st1\<lparr>ap_workspaces := (ap_workspaces st1)[k := ws]\<rparr>)"
  note all = entries_after_update [OF k es]
  have ok: "entries_ok (all_entries (ap_workspaces st1))" using st1(1) by (simp add: workspaces_ok_def)
  note gone = entry_gone [OF ok all, folded t_def]
  have ids: "map ws_id ((ap_workspaces st1)[k := ws]) = map ws_id (ap_workspaces st1)"
    using k id list_update_id [of "map ws_id (ap_workspaces st1)" k] by (simp add: map_update)
  have ok2: "workspaces_ok ((ap_workspaces st1)[k := ws])"
    using st1(1) gone(1) ids wf by (simp add: workspaces_ok_def list_all_update)
  have att: "attached ((ap_workspaces st1)[k := ws]) = attached (ap_workspaces st1) - {t}"
    using gone(3) by (simp add: attached_def)
  have rel: "released {t} st2 st'"
  proof -
    have "set [t] - attached (ap_workspaces st2) = {t}" using att by (auto simp: st2_def)
    with remove_unattached_released [of "[t]" st2] show ?thesis
      unfolding st'_def st2_def [symmetric] t_def [symmetric] by simp
  qed
  note f = released_fields [OF rel, unfolded st2_def, simplified]
  show "app_inv st'"
    by (rule app_inv_released [OF rel]; use att ok2 st1 f in \<open>auto simp: st2_def\<close>)
  show "pane_gone i (pn_attached_terminal_id pane) st1 st'"
  proof -
    have "t \<in> set (hm_keys (ap_terminals st1))" using gone(4) st1(3) by (auto simp: attached_def)
    then have "set (ap_terminal_runtime_shutdowns st') = insert t (set (ap_terminal_runtime_shutdowns st1))"
      using rel by (auto simp: released_def st2_def)
    moreover have "ws_id (ap_workspaces st' ! a) = ws_id (ap_workspaces st1 ! a)" if "ap_active st1 = Some a" for a
    proof -
      have "a < length (ap_workspaces st1)" using st1(4) that by (simp add: selection_ok_def)
      then show ?thesis using f(1) k id by (simp add: nth_list_update)
    qed
    ultimately show ?thesis
      using gone(2) f rel unfolding pane_gone_def t_def [symmetric] by (auto simp: released_def st2_def)
  qed
qed

text \<open>The workspace of the last pane goes with the pane.\<close>

lemma attached_remove:
  assumes "workspaces_ok wss" and "k < length wss"
  shows "attached (vec_remove k wss) = attached wss - entry_terminal ` set (live_entries (wss ! k))"
    and "fst ` set (all_entries (vec_remove k wss)) = fst ` set (all_entries wss) - live_panes (wss ! k)"
    and "workspaces_ok (vec_remove k wss)"
proof -
  have m: "mset (wss ! k # vec_remove k wss) = mset wss" using mset_vec_remove [OF assms(2)] by simp
  have ok: "workspaces_ok (wss ! k # vec_remove k wss)" using workspaces_ok_cong [OF m] assms(1) by simp
  have es: "set (all_entries wss) = set (live_entries (wss ! k)) \<union> set (all_entries (vec_remove k wss))"
    using mset_eq_setD [OF all_entries_cong [OF m]] by simp
  show "attached (vec_remove k wss) = attached wss - entry_terminal ` set (live_entries (wss ! k))"
    "fst ` set (all_entries (vec_remove k wss)) = fst ` set (all_entries wss) - live_panes (wss ! k)"
    using ok unfolding attached_def es by (auto simp: workspaces_ok_def entries_ok_def image_Un)
  show "workspaces_ok (vec_remove k wss)" by (rule workspaces_ok_remove [OF assms])
qed

lemma pane_died_closed:
  assumes inv: "app_inv st1" and k: "k < length (ap_workspaces st1)"
    and es: "live_entries (ap_workspaces st1 ! k) = [(i, pane)]"
    and ts: "set ts = {pn_attached_terminal_id pane}"
  defines "st' \<equiv> close_workspace_of_dead_pane k ts (mark_session_dirty st1)"
  shows "app_inv st'" and "pane_gone i (pn_attached_terminal_id pane) st1 st'"
proof -
  note d = app_invD [OF inv]
  define t where "t = pn_attached_terminal_id pane"
  define st2 where "st2 = mark_session_dirty st1\<lparr>ap_workspaces := vec_remove k (ap_workspaces st1)\<rparr>"
  define st3 where "st3 = remove_unattached_terminal_ids ts st2"
  define wss where "wss = vec_remove k (ap_workspaces st1)"
  note rem = attached_remove [OF d(1) k, folded wss_def, unfolded es, simplified]
  have rel: "released {t} st2 st3"
  proof -
    have "set ts - attached (ap_workspaces st2) = {t}"
      using rem(1) ts by (auto simp: st2_def t_def wss_def [symmetric] entry_terminal_def)
    with remove_unattached_released [of ts st2] show ?thesis by (simp add: st3_def)
  qed
  note f = released_fields [OF rel, unfolded st2_def, simplified, folded wss_def]
  have t: "t \<in> set (hm_keys (ap_terminals st1))"
    using d(3) all_entries_member [of "ap_workspaces st1 ! k" "ap_workspaces st1"] k es
    by (auto simp: t_def entry_terminal_def)
  have terms: "ap_terminals st' = ap_terminals st3" "ap_workspaces st' = wss"
    "ap_pending_agent_notifications st' = ap_pending_agent_notifications st3"
    "ap_terminal_runtime_shutdowns st' = ap_terminal_runtime_shutdowns st3"
    by (simp_all add: st'_def close_workspace_of_dead_pane_def Let_def st2_def [symmetric] st3_def [symmetric] f)
  have active: "ap_active st' = (if wss = [] then None else
      (case (case Option.bind (map_option ws_id (Option.bind (ap_active st1) (nth_opt (ap_workspaces st1))))
          (workspace_position wss) of Some idx \<Rightarrow> Some idx | None \<Rightarrow> ap_active st1) of
        Some a \<Rightarrow> Some (if length wss \<le> a then length wss - 1 else a) | None \<Rightarrow> None))"
    by (auto simp: st'_def close_workspace_of_dead_pane_def Let_def st2_def [symmetric] st3_def [symmetric] f
        split: option.split)
  have selected: "ap_selected st' = (if wss = [] then 0 else
      (let s = unwrap_or (Option.bind (map_option ws_id (nth_opt (ap_workspaces st1) (ap_selected st1)))
          (workspace_position wss)) (ap_selected st1) in if length wss \<le> s then length wss - 1 else s))"
    by (simp add: st'_def close_workspace_of_dead_pane_def Let_def st2_def [symmetric] st3_def [symmetric] f)
  show "app_inv st'"
  proof (rule app_inv_released [OF rel])
    show "{t} \<inter> attached (ap_workspaces st2) = {}"
      using rem(1) by (simp add: st2_def wss_def [symmetric] t_def entry_terminal_def)
    show "selection_ok (length (ap_workspaces st2)) (ap_active st') (ap_selected st')"
      unfolding active selected by (auto simp: st2_def wss_def [symmetric] selection_ok_def Let_def split: option.split)
    show "attached (ap_workspaces st2) \<subseteq> set (hm_keys (ap_terminals st2))"
      using rem(1) d(3) by (auto simp: st2_def wss_def [symmetric] attached_def)
  qed (use d rem(3) terms f in \<open>simp_all add: st2_def wss_def\<close>)
  have "\<exists>a'. ap_active st' = Some a' \<and> ws_id (wss ! a') = ws_id (ap_workspaces st1 ! a)"
    if a: "ap_active st1 = Some a" and m: "ws_id (ap_workspaces st1 ! a) \<in> set (map ws_id wss)" for a
  proof -
    have lt: "a < length (ap_workspaces st1)" using d(4) a by (simp add: selection_ok_def)
    obtain w where w: "w \<in> set wss" "ws_id w = ws_id (ap_workspaces st1 ! a)" using m by auto
    obtain p where p: "workspace_position wss (ws_id (ap_workspaces st1 ! a)) = Some p"
      using workspace_position_mem [OF w(1)] w(2) by auto
    show ?thesis
      using a lt p w(1) workspace_position_SomeD [OF p] unfolding active by (auto simp: nth_opt_def)
  qed
  moreover have "set (ap_terminal_runtime_shutdowns st') = insert t (set (ap_terminal_runtime_shutdowns st1))"
    using rel t by (auto simp: released_def terms st2_def)
  moreover have "hm_get (ap_terminals st') k = (if k = t then None else hm_get (ap_terminals st1) k)" for k
    using rel by (simp add: released_def terms st2_def)
  ultimately show "pane_gone i (pn_attached_terminal_id pane) st1 st'"
    using rem(2) by (simp add: pane_gone_def terms t_def [symmetric])
qed

text \<open>A pane that is unknown leaves the workspaces and the terminals alone.\<close>

lemma pending_ok_remove: "pending_ok m \<Longrightarrow> pending_ok (hm_remove i m)"
  by (auto simp: pending_ok_def hm_remove_def AList.delete_eq list_all_iff)

definition pane_of :: "app_state \<Rightarrow> pane_id \<Rightarrow> pane_state option" where
  "pane_of st i = find_map (\<lambda>ws. ws_pane_state ws i) (ap_workspaces st)"

lemma pane_of_iff:
  assumes "workspaces_ok (ap_workspaces st)"
  shows "pane_of st i = Some pane \<longleftrightarrow> (i, pane) \<in> set (all_entries (ap_workspaces st))"
proof -
  have "find_map (\<lambda>ws. ws_pane_state ws i) wss = hm_get (all_entries wss) i" if "workspaces_ok wss" for wss
    using that
  proof (induction wss)
    case Nil
    then show ?case by (simp add: hm_get_def)
  next
    case (Cons ws wss)
    then have "workspace_wf {} ws" by (simp add: workspaces_ok_def workspace_inv_def)
    then have "ws_pane_state ws i = hm_get (live_entries ws) i"
      using workspace_wfD(2) by (simp add: ws_pane_state_def find_map_entries entries_ok_def)
    with Cons show ?case
      by (auto simp: hm_get_def map_add_def workspaces_ok_def entries_ok_def split: option.splits)
  qed
  with assms show ?thesis
    by (simp add: pane_of_def hm_get_def map_of_eq_Some_iff workspaces_ok_def entries_ok_def)
qed

text \<open>The whole handler.\<close>

lemma handle_pane_died_spec:
  assumes inv: "app_inv st"
  shows "\<exists>st'. handle_pane_died i st = Some st' \<and> app_inv st' \<and>
    (case pane_of st i of
       None \<Rightarrow> ap_workspaces st' = ap_workspaces st \<and> ap_terminals st' = ap_terminals st \<and> ap_active st' = ap_active st
     | Some pane \<Rightarrow> pane_gone i (pn_attached_terminal_id pane) st st')"
proof -
  note d = app_invD [OF inv]
  define st1 where "st1 = remove_plugin_pane_records [i]
      (st\<lparr>ap_pending_agent_notifications := hm_remove i (ap_pending_agent_notifications st)\<rparr>)"
  have f1: "ap_workspaces st1 = ap_workspaces st" "ap_terminals st1 = ap_terminals st" "ap_active st1 = ap_active st"
    "ap_selected st1 = ap_selected st"
    "ap_pending_agent_notifications st1 = hm_remove i (ap_pending_agent_notifications st)"
    "ap_terminal_runtime_shutdowns st1 = ap_terminal_runtime_shutdowns st"
    by (simp_all add: st1_def)
  have inv1: "app_inv st1" using d by (simp add: app_inv_def f1 pending_ok_remove)
  show ?thesis
  proof (cases "position (\<lambda>ws. find_tab_index_for_pane ws i \<noteq> None) (ap_workspaces st)")
    case None
    then have absent: "i \<notin> fst ` set (all_entries (ap_workspaces st))" using no_pane_workspace by blast
    have "pane_of st i = None"
    proof (rule ccontr)
      assume "pane_of st i \<noteq> None"
      then obtain pane where "(i, pane) \<in> set (all_entries (ap_workspaces st))" using pane_of_iff [OF d(1)] by blast
      with absent show False by force
    qed
    moreover have "handle_pane_died i st = Some st1"
      using None by (simp add: handle_pane_died_def st1_def [symmetric] Let_def f1)
    ultimately show ?thesis using inv1 f1 by simp
  next
    case (Some k)
    note k = find_pane_workspace [OF Some]
    define ws where "ws = ap_workspaces st ! k"
    have wf: "workspace_wf {} ws" "ws_tabs ws \<noteq> []"
      using nth_workspace_inv [OF inv k(1)] by (simp_all add: workspace_inv_def ws_def)
    define st2 where "st2 = forget_aliases i st1"
    have inv2: "app_inv st2" by (rule app_inv_frame [OF inv1]) (simp_all add: st2_def forget_aliases_def)
    have f2: "ap_workspaces st2 = ap_workspaces st" "ap_terminals st2 = ap_terminals st" "ap_active st2 = ap_active st"
      "ap_terminal_runtime_shutdowns st2 = ap_terminal_runtime_shutdowns st"
      by (simp_all add: st2_def forget_aliases_def f1)
    obtain pane where pane: "ws_pane_state ws i = Some pane"
      using ws_pane_state_entry [OF wf(1), of i] k(2) by (auto simp: ws_def)
    then have mem: "(i, pane) \<in> set (live_entries ws)" using ws_pane_state_entry [OF wf(1)] by simp
    have "ws \<in> set (ap_workspaces st)" using k(1) by (simp add: ws_def)
    then have of: "pane_of st i = Some pane"
      using pane_of_iff [OF d(1)] all_entries_member mem by blast
    have gone_st: "pane_gone i t st st'" if "pane_gone i t st2 st'" for t st'
      using that by (simp add: pane_gone_def f2)
    from remove_pane_wf [OF wf(1), of i undefined] obtain ws' b where rm:
      "ws_remove_pane i ws = Some (ws', b)" "workspace_wf {} ws'" "ws_tabs ws' \<noteq> []"
      "b \<longrightarrow> ws' = ws \<and> (\<exists>pane. live_entries ws = [(i, pane)])" "ws_id ws' = ws_id ws"
      "\<not> b \<longrightarrow> (\<exists>pane. add_mset (i, pane) (mset (live_entries ws')) = mset (live_entries ws))"
      using wf(2) k(2) by (auto simp: ws_def)
    define st3 where "st3 = mark_session_dirty (st2\<lparr>ap_workspaces := (ap_workspaces st2)[k := ws']\<rparr>)"
    have eq: "handle_pane_died i st = Some (if b
        then close_workspace_of_dead_pane k (terminal_ids_for_workspace k st1) st3
        else remove_unattached_terminal_ids [pn_attached_terminal_id pane] st3)"
      using Some rm(1) pane k(1)
      by (simp add: handle_pane_died_def st1_def [symmetric] Let_def f1 f2 st2_def [symmetric] st3_def
          terminal_id_for_pane_def nth_opt_def ws_def [symmetric])
    show ?thesis
    proof (cases b)
      case True
      with rm(4) mem have b: "ws' = ws" "live_entries (ap_workspaces st2 ! k) = [(i, pane)]"
        by (auto simp: f2 ws_def [symmetric])
      have "set (terminal_ids_for_workspace k st1) = {pn_attached_terminal_id pane}"
        using terminal_ids_of_workspace [of k st1] k(1) b(2) by (simp add: f1 f2 entry_terminal_def)
      moreover have "st3 = mark_session_dirty st2"
        using b(1) by (simp add: st3_def ws_def f2 [symmetric])
      ultimately show ?thesis
        using pane_died_closed [OF inv2 _ b(2)] k(1) True eq of gone_st by (simp add: f2)
    next
      case False
      with rm(6) obtain pane' where es: "add_mset (i, pane') (mset (live_entries ws')) = mset (live_entries ws)" by blast
      have "distinct (map fst (live_entries ws))" using workspace_wfD(2) [OF wf(1)] by (simp add: entries_ok_def)
      moreover have "(i, pane') \<in> set (live_entries ws)" using mset_eq_setD [of "(i, pane') # live_entries ws'"] es by auto
      ultimately have same: "pane' = pane" using mem by (metis map_of_is_SomeI option.inject)
      have "workspace_inv ws'" using rm(2,3) by (simp add: workspace_inv_def)
      from pane_died_kept [OF app_invD [OF inv2, folded attached_def], of k ws' i pane] this show ?thesis
        using k(1) es same rm(5) False eq of gone_st by (simp add: f2 ws_def [symmetric] st3_def)
    qed
  qed
qed

end
