(* ===== verification/App_Changes.thy ===== *)
theory App_Changes
  imports App_Died
begin

text \<open>
  What an update of a terminal does to the server's state: the terminal and the mark of its pane change,
  a notification is queued or shown, and nothing else.
\<close>

section \<open>States with the same panes\<close>

text \<open>The workspaces, panes, terminals and the focus stay what they are, and stay consistent.\<close>

definition app_kept :: "app_state \<Rightarrow> app_state \<Rightarrow> bool" where
  "app_kept st st' \<longleftrightarrow>
     ap_active st' = ap_active st \<and> ap_selected st' = ap_selected st \<and>
     set (hm_keys (ap_terminals st')) = set (hm_keys (ap_terminals st)) \<and>
     (app_inv st \<longrightarrow> list_all2 workspace_like (ap_workspaces st) (ap_workspaces st') \<and>
        terminals_ok (ap_terminals st') \<and> pending_ok (ap_pending_agent_notifications st'))"

lemma app_kept_inv: "app_inv st \<Longrightarrow> app_kept st st' \<Longrightarrow> app_inv st'"
proof -
  assume inv: "app_inv st" and kept: "app_kept st st'"
  note d = app_invD [OF inv]
  have like: "list_all2 workspace_like (ap_workspaces st) (ap_workspaces st')" using inv kept by (simp add: app_kept_def)
  note l = workspaces_ok_like [OF d(1) like]
  have "entry_terminal ` set (all_entries (ap_workspaces st')) = entry_terminal ` set (all_entries (ap_workspaces st))"
    using l(2) by (metis list.set_map)
  with l(1) kept inv d(3,4) list_all2_lengthD [OF like] show ?thesis by (simp add: app_inv_def app_kept_def)
qed

lemma app_kept_refl [simp]: "app_kept st st"
  by (simp add: app_kept_def app_inv_def list_all2_refl)

lemma app_kept_trans: "app_kept a b \<Longrightarrow> app_kept b c \<Longrightarrow> app_kept a c"
proof -
  assume ab: "app_kept a b" and bc: "app_kept b c"
  have "list_all2 workspace_like (ap_workspaces a) (ap_workspaces c) \<and> terminals_ok (ap_terminals c) \<and>
      pending_ok (ap_pending_agent_notifications c)" if "app_inv a"
  proof (intro conjI)
    have l: "list_all2 workspace_like (ap_workspaces a) (ap_workspaces b)" using ab that by (simp add: app_kept_def)
    have "app_inv b" by (rule app_kept_inv [OF that ab])
    with bc have m: "list_all2 workspace_like (ap_workspaces b) (ap_workspaces c)"
      "terminals_ok (ap_terminals c)" "pending_ok (ap_pending_agent_notifications c)" by (simp_all add: app_kept_def)
    then show "terminals_ok (ap_terminals c)" "pending_ok (ap_pending_agent_notifications c)" by simp_all
    show "list_all2 workspace_like (ap_workspaces a) (ap_workspaces c)"
      by (rule list_all2_trans [OF workspace_like_trans l m(1)])
  qed
  then show ?thesis using ab bc unfolding app_kept_def by simp
qed

text \<open>Everything but the terminals, the workspaces, the notifications, their counter and the dirty flag.\<close>

definition app_rest :: "app_state \<Rightarrow> app_state" where
  "app_rest st = st\<lparr>ap_terminals := [], ap_workspaces := [], ap_toast := None,
     ap_pending_agent_notifications := [], ap_next_agent_state_change_seq := 0, ap_session_dirty := False\<rparr>"

lemma app_rest_simps [simp]:
  "app_rest (st\<lparr>ap_terminals := m\<rparr>) = app_rest st" "app_rest (st\<lparr>ap_workspaces := wss\<rparr>) = app_rest st"
  "app_rest (st\<lparr>ap_toast := toast\<rparr>) = app_rest st"
  "app_rest (st\<lparr>ap_pending_agent_notifications := pending\<rparr>) = app_rest st"
  "app_rest (st\<lparr>ap_next_agent_state_change_seq := n\<rparr>) = app_rest st"
  "app_rest (st\<lparr>ap_session_dirty := b\<rparr>) = app_rest st"
  by (simp_all add: app_rest_def)

text \<open>Only the notifications change.\<close>

definition quiet :: "app_state \<Rightarrow> app_state \<Rightarrow> bool" where
  "quiet st st' \<longleftrightarrow>
     ap_workspaces st' = ap_workspaces st \<and> ap_terminals st' = ap_terminals st \<and>
     ap_active st' = ap_active st \<and> ap_selected st' = ap_selected st \<and>
     ap_next_agent_state_change_seq st' = ap_next_agent_state_change_seq st \<and>
     ap_toast_config st' = ap_toast_config st \<and> app_rest st' = app_rest st \<and>
     (pending_ok (ap_pending_agent_notifications st) \<longrightarrow> pending_ok (ap_pending_agent_notifications st'))"

lemma quiet_kept: "quiet st st' \<Longrightarrow> app_kept st st'"
  by (simp add: quiet_def app_kept_def app_inv_def list_all2_refl)

lemma quiet_refl [simp]: "quiet st st"
  by (simp add: quiet_def)

lemma quiet_trans: "quiet a b \<Longrightarrow> quiet b c \<Longrightarrow> quiet a c"
  by (simp add: quiet_def)

lemma apply_delivery_quiet: "quiet st (apply_agent_notification_delivery d st)"
  by (simp add: apply_agent_notification_delivery_def quiet_def split: option.split)

lemma in_active_tab_Some:
  "ws_idx < length (ap_workspaces st) \<Longrightarrow> \<exists>b. pane_is_in_active_tab ws_idx i st = Some b"
  by (auto simp: pane_is_in_active_tab_def nth_opt_def split: option.split)

lemma delivery_total:
  assumes "ws_idx < length (ap_workspaces st)"
  shows "\<exists>d. agent_notification_delivery home ws_idx i w l k kind s st = Some d"
  using in_active_tab_Some [OF assms, of i]
  by (auto simp: agent_notification_delivery_def split: option.split)

lemma insert_members: "set (hm_insert k v m) \<subseteq> insert (k, v) (set m)"
  by (induction m) (auto simp: hm_insert_def)

lemma pending_ok_insert: "pending_ok m \<Longrightarrow> pg_pane_id p = i \<Longrightarrow> pending_ok (hm_insert i p m)"
  using insert_members [of i p m] by (auto simp: pending_ok_def list_all_iff)

lemma record_or_deliver_quiet:
  assumes "ws_idx < length (ap_workspaces st)"
  shows "\<exists>st' d. record_or_deliver_agent_notification home now ws_idx i change st = Some (st', d) \<and> quiet st st'"
proof -
  define st1 where "st1 = st\<lparr>ap_pending_agent_notifications := hm_remove i (ap_pending_agent_notifications st)\<rparr>"
  have len: "ws_idx < length (ap_workspaces st1)" using assms by (simp add: st1_def)
  have q: "quiet st st1" by (simp add: quiet_def st1_def pending_ok_remove)
  obtain b where b: "pane_is_in_active_tab ws_idx i st1 = Some b" using in_active_tab_Some [OF len] by blast
  have q2: "quiet st (st1\<lparr>ap_pending_agent_notifications := hm_insert i p (ap_pending_agent_notifications st1)\<rparr>)"
    if "pg_pane_id p = i" for p
    using that by (auto simp: quiet_def st1_def intro!: pending_ok_insert pending_ok_remove)
  obtain d where "agent_notification_delivery home ws_idx i w l k kind s st1 = Some (d w l k kind s)" for w l k kind s
    using delivery_total [OF len] by metis
  with b len q q2 show ?thesis
    unfolding record_or_deliver_agent_notification_def st1_def [symmetric] Let_def
    by (simp add: nth_opt_def split: option.split)
qed

section \<open>The mark of a pane\<close>

definition mark_entry :: "pane_id \<Rightarrow> bool \<Rightarrow> pane_id \<times> pane_state \<Rightarrow> pane_id \<times> pane_state" where
  "mark_entry i b e = (if fst e = i then (i, (snd e)\<lparr>pn_seen := b\<rparr>) else e)"

lemma mark_absent: "i \<notin> fst ` set es \<Longrightarrow> map (mark_entry i b) es = es"
  by (intro map_idI) (auto simp: mark_entry_def)

lemma modify_mark:
  "distinct (map fst m) \<Longrightarrow> hm_modify i (\<lambda>pane. pane\<lparr>pn_seen := b\<rparr>) m = map (mark_entry i b) m"
proof (induction m)
  case (Cons e m)
  then show ?case
  proof (cases "fst e = i")
    case True
    with Cons.prems have "map (mark_entry i b) m = m" by (intro mark_absent) auto
    moreover obtain pane where "e = (i, pane)" using True by (cases e) auto
    moreover have "mark_entry i b (i, pane) = (i, pane\<lparr>pn_seen := b\<rparr>)" for pane by (simp add: mark_entry_def)
    ultimately show ?thesis by (simp add: hm_modify_def hm_get_def hm_insert_def)
  next
    case False
    with Cons show ?thesis
      by (cases e) (simp add: hm_modify_def hm_get_def hm_insert_def mark_entry_def split: option.split_asm option.split)
  qed
qed (simp add: hm_modify_def hm_get_def)

text \<open>The mark of one pane in a tab and in a workspace; everything else stays.\<close>

definition mark_tab :: "pane_id \<Rightarrow> bool \<Rightarrow> tab \<Rightarrow> tab" where
  "mark_tab i b tb = tb\<lparr>tb_panes := map (mark_entry i b) (tb_panes tb)\<rparr>"

definition mark_workspace :: "pane_id \<Rightarrow> bool \<Rightarrow> workspace \<Rightarrow> workspace" where
  "mark_workspace i b ws = ws\<lparr>ws_tabs := map (mark_tab i b) (ws_tabs ws)\<rparr>"

lemma mark_tab_entries: "tab_entries (map (mark_tab i b) tabs) = map (mark_entry i b) (tab_entries tabs)"
  by (induction tabs) (simp_all add: mark_tab_def)

lemma mark_all_entries:
  "all_entries (map (mark_workspace i b) wss) = map (mark_entry i b) (all_entries wss)"
  by (induction wss) (simp_all add: mark_workspace_def mark_tab_entries)

lemma mark_tabs_same:
  "map (mark_entry i b) (tab_entries tabs) = tab_entries tabs \<Longrightarrow> map (mark_tab i b) tabs = tabs"
proof (induction tabs)
  case (Cons tb tabs)
  then have "map (mark_entry i b) (tb_panes tb) = tb_panes tb"
    "map (mark_entry i b) (tab_entries tabs) = tab_entries tabs" by simp_all
  with Cons.IH show ?case by (simp add: mark_tab_def)
qed simp

lemma mark_workspaces_same:
  "map (mark_entry i b) (all_entries wss) = all_entries wss \<Longrightarrow> map (mark_workspace i b) wss = wss"
proof (induction wss)
  case (Cons ws wss)
  then have "map (mark_entry i b) (live_entries ws) = live_entries ws"
    "map (mark_entry i b) (all_entries wss) = all_entries wss" by simp_all
  with Cons.IH mark_tabs_same [of i b "ws_tabs ws"] show ?case by (simp add: mark_workspace_def)
qed simp

lemma mark_tabs:
  assumes d: "distinct (map fst (tab_entries tabs))" and k: "k < length tabs"
    and i: "i \<in> fst ` set (tb_panes (tabs ! k))"
  shows "tabs[k := (tabs ! k)\<lparr>tb_panes := hm_modify i (\<lambda>pane. pane\<lparr>pn_seen := b\<rparr>) (tb_panes (tabs ! k))\<rparr>] =
    map (mark_tab i b) tabs"
proof -
  have split: "tabs = take k tabs @ tabs ! k # drop (Suc k) tabs" using k by (rule id_take_nth_drop)
  then have es: "tab_entries tabs = tab_entries (take k tabs) @ tb_panes (tabs ! k) @ tab_entries (drop (Suc k) tabs)"
    by (metis tab_entries_simps(2,3))
  have "i \<notin> fst ` set (tab_entries (take k tabs))" "i \<notin> fst ` set (tab_entries (drop (Suc k) tabs))"
    and panes: "distinct (map fst (tb_panes (tabs ! k)))"
    using d i unfolding es by (auto simp: distinct_map)
  then have rest: "map (mark_tab i b) (take k tabs) = take k tabs"
    "map (mark_tab i b) (drop (Suc k) tabs) = drop (Suc k) tabs"
    by (simp_all add: mark_tabs_same mark_absent)
  have "map (mark_tab i b) tabs = take k tabs @ mark_tab i b (tabs ! k) # drop (Suc k) tabs"
    by (subst split) (simp add: rest del: take_map drop_map)
  then show ?thesis
    using k by (simp add: upd_conv_take_nth_drop mark_tab_def modify_mark [OF panes])
qed

lemma set_pane_seen_marks:
  assumes ok: "workspaces_ok (ap_workspaces st)" and w: "ws_idx < length (ap_workspaces st)"
    and k: "find_tab_index_for_pane (ap_workspaces st ! ws_idx) i = Some k"
  shows "ap_workspaces (set_pane_seen ws_idx k i b st) = map (mark_workspace i b) (ap_workspaces st)"
proof -
  define wss where "wss = ap_workspaces st" define ws where "ws = wss ! ws_idx"
  have wf: "workspace_wf {} ws" using ok w by (simp add: workspaces_ok_def workspace_inv_def list_all_length wss_def ws_def)
  obtain pane where f: "k < length (ws_tabs ws)" "hm_get (tb_panes (ws_tabs ws ! k)) i = Some pane"
    using find_tab_SomeD [OF k [folded wss_def, folded ws_def] wf] by blast
  define ws' where "ws' = ws\<lparr>ws_tabs := (ws_tabs ws)[k := (ws_tabs ws ! k)
     \<lparr>tb_panes := hm_modify i (\<lambda>pane. pane\<lparr>pn_seen := b\<rparr>) (tb_panes (ws_tabs ws ! k))\<rparr>]\<rparr>"
  have "distinct (map fst (live_entries ws))" using workspace_wfD(2) [OF wf] by (simp add: entries_ok_def)
  moreover have "i \<in> fst ` set (tb_panes (ws_tabs ws ! k))"
    using f(2) by (auto simp: hm_get_def dest!: map_of_SomeD intro: rev_image_eqI)
  ultimately have ws': "ws' = mark_workspace i b ws"
    using mark_tabs f(1) by (simp add: ws'_def mark_workspace_def)
  have split: "wss = take ws_idx wss @ ws # drop (Suc ws_idx) wss"
    using w unfolding ws_def wss_def by (rule id_take_nth_drop)
  then have es: "all_entries wss = all_entries (take ws_idx wss) @ live_entries ws @ all_entries (drop (Suc ws_idx) wss)"
    by (metis all_entries_simps(2,3))
  have "i \<in> live_panes ws" using k find_tab_None [of ws i] by (simp add: ws_def wss_def)
  moreover have "distinct (map fst (all_entries wss))" using ok by (simp add: workspaces_ok_def entries_ok_def wss_def)
  ultimately have "i \<notin> fst ` set (all_entries (take ws_idx wss))" "i \<notin> fst ` set (all_entries (drop (Suc ws_idx) wss))"
    unfolding es by auto
  then have rest: "map (mark_workspace i b) (take ws_idx wss) = take ws_idx wss"
    "map (mark_workspace i b) (drop (Suc ws_idx) wss) = drop (Suc ws_idx) wss"
    by (simp_all add: mark_workspaces_same mark_absent)
  have "map (mark_workspace i b) wss = take ws_idx wss @ ws' # drop (Suc ws_idx) wss"
    unfolding ws' by (subst split) (simp add: rest del: take_map drop_map)
  moreover have "ap_workspaces (set_pane_seen ws_idx k i b st) = wss[ws_idx := ws']"
    by (simp add: set_pane_seen_def Let_def wss_def ws_def ws'_def)
  ultimately show ?thesis using w by (simp add: wss_def upd_conv_take_nth_drop)
qed

lemma set_pane_seen_kept:
  assumes w: "ws_idx < length (ap_workspaces st)" and k: "k < length (ws_tabs (ap_workspaces st ! ws_idx))"
  shows "app_kept st (set_pane_seen ws_idx k i b st)"
proof -
  have "workspace_like (ap_workspaces st ! ws_idx) ((ap_workspaces (set_pane_seen ws_idx k i b st)) ! ws_idx)"
    if "app_inv st"
    using seen_like [OF nth_workspace_inv [OF that w] k] w by (simp add: set_pane_seen_def Let_def)
  then show ?thesis
    using list_all2_update_like w by (simp add: app_kept_def set_pane_seen_def Let_def app_inv_def)
qed

end
