(* ===== verification/App_Updates.thy ===== *)
theory App_Updates
  imports App_Changes
begin

text \<open>
  Updates of a terminal as the server applies them, the expiry of metadata and due notifications: what
  they return and what they leave alone.
\<close>

section \<open>A change of one pane's state\<close>

definition seen_after :: "pane_id \<Rightarrow> effective_state_change \<Rightarrow> bool \<Rightarrow> bool \<Rightarrow> app_state \<Rightarrow> bool \<Rightarrow> bool" where
  "seen_after i change suppress_completion is_active_tab st before =
     (if ec_state change \<noteq> Idle then True
      else if \<not> suppress_completion \<and> is_completion_transition change
      then active_tab_suppresses_notifications is_active_tab (ap_outer_terminal_focus st)
      else before)"

lemma apply_change_spec:
  assumes inv: "app_inv st" and w: "ws_idx < length (ap_workspaces st)"
    and pane: "ws_pane_state (ap_workspaces st ! ws_idx) i = Some pane"
  shows "\<exists>st' active. apply_pane_state_change home now ws_idx i change suppress st =
      Some (st', Some (seen_after i change suppress active st (pn_seen pane))) \<and>
    pane_is_in_active_tab ws_idx i st = Some active \<and> app_kept st st' \<and>
    ap_workspaces st' =
      map (mark_workspace i (seen_after i change suppress active st (pn_seen pane))) (ap_workspaces st) \<and>
    app_rest st' = app_rest st \<and> ap_terminals st' = ap_terminals st \<and> ap_next_agent_state_change_seq st' = ap_next_agent_state_change_seq st"
proof -
  define ws where "ws = ap_workspaces st ! ws_idx"
  have wf: "workspace_wf {} ws" using nth_workspace_inv [OF inv w] by (simp add: workspace_inv_def ws_def)
  obtain k where k: "find_tab_index_for_pane ws i = Some k"
    using find_tab_None [of ws i] ws_pane_state_entry [OF wf, of i pane] pane
    by (cases "find_tab_index_for_pane ws i") (force simp: ws_def)+
  obtain pane' where p: "k < length (ws_tabs ws)" "hm_get (tb_panes (ws_tabs ws ! k)) i = Some pane'"
    using find_tab_SomeD [OF k wf] by blast
  have "(i, pane') \<in> set (live_entries ws)"
    using p tab_entries_member [of "ws_tabs ws ! k" "ws_tabs ws"] by (auto simp: hm_get_def dest: map_of_SomeD)
  then have same: "pane' = pane" using ws_pane_state_entry [OF wf, of i pane'] pane by (simp add: ws_def)
  obtain active where a: "pane_is_in_active_tab ws_idx i st = Some active" using in_active_tab_Some [OF w] by blast
  define seen where "seen = seen_after i change suppress active st (pn_seen pane)"
  define st1 where "st1 = set_pane_seen ws_idx k i seen st"
  have kept: "app_kept st st1" using set_pane_seen_kept [OF w] p(1) by (simp add: st1_def ws_def)
  have es: "ap_workspaces st1 = map (mark_workspace i seen) (ap_workspaces st)"
    using set_pane_seen_marks [OF app_invD(1) [OF inv] w] k by (simp add: st1_def ws_def)
  have f: "ap_terminals st1 = ap_terminals st" "ap_next_agent_state_change_seq st1 = ap_next_agent_state_change_seq st"
    "length (ap_workspaces st1) = length (ap_workspaces st)" "app_rest st1 = app_rest st"
    by (simp_all add: st1_def set_pane_seen_def Let_def)
  obtain st2 d where r: "record_or_deliver_agent_notification home now ws_idx i change st1 = Some (st2, d)" "quiet st1 st2"
    using record_or_deliver_quiet w f(3) by metis
  define st3 where "st3 = (if suppress then st1
      else case d of Some d \<Rightarrow> apply_agent_notification_delivery d st2 | None \<Rightarrow> st2)"
  have q: "quiet st1 st3"
    using r(2) quiet_trans [OF r(2) apply_delivery_quiet] by (simp add: st3_def split: option.split)
  have "apply_pane_state_change home now ws_idx i change suppress st = Some (st3, Some seen)"
    using a k p(2) w r(1)
    by (simp add: apply_pane_state_change_def nth_opt_def Let_def ws_def [symmetric] same
        seen_def seen_after_def st1_def st3_def)
  then show ?thesis
    using a es q f app_kept_trans [OF kept quiet_kept [OF q]] unfolding seen_def [symmetric]
    by (intro exI [of _ st3] exI [of _ active]) (simp add: seen_def quiet_def)
qed

section \<open>An update of a terminal\<close>

lemma put_terminal_fields [simp]:
  "ap_workspaces (put_terminal k t st) = ap_workspaces st" "ap_active (put_terminal k t st) = ap_active st"
  "ap_selected (put_terminal k t st) = ap_selected st"
  "ap_pending_agent_notifications (put_terminal k t st) = ap_pending_agent_notifications st"
  "ap_outer_terminal_focus (put_terminal k t st) = ap_outer_terminal_focus st"
  "ap_next_agent_state_change_seq (put_terminal k t st) = ap_next_agent_state_change_seq st"
  "app_rest (put_terminal k t st) = app_rest st"
  by (simp_all add: put_terminal_def)

lemma modify_keys: "set (hm_keys (hm_modify k f m)) = set (hm_keys m)"
  by (auto simp: keys_iff_get split: if_splits)

lemma modify_terminals_ok:
  assumes "terminals_ok m" and "\<And>t. hm_get m k = Some t \<Longrightarrow> terminal_inv (f t)"
  shows "terminals_ok (hm_modify k f m)"
proof (cases "hm_get m k")
  case None
  with assms show ?thesis by (simp add: hm_modify_def)
next
  case (Some t)
  have "set (hm_values (hm_insert k (f t) m)) \<subseteq> insert (f t) (set (hm_values m))"
    using insert_members [of k "f t" m] by (auto simp: hm_values_def)
  with assms Some show ?thesis by (auto simp: terminals_ok_def hm_modify_def list_all_iff)
qed

lemma put_terminal_kept:
  assumes "terminal_inv t"
  shows "app_kept st (put_terminal k t st)"
  using modify_terminals_ok [of "ap_terminals st" k "\<lambda>_. t"] assms
  by (simp add: app_kept_def put_terminal_def modify_keys app_inv_def list_all2_refl)

lemma terminal_inv_seq: "terminal_inv (t\<lparr>ts_last_agent_state_change_seq := s\<rparr>) = terminal_inv t"
  using arbitration_inputs_determine(1) [of "t\<lparr>ts_last_agent_state_change_seq := s\<rparr>" t]
  by (simp add: terminal_inv_def terminal_wf_def arbitration_inputs_def)

lemma terminal_of_inv: "app_inv st \<Longrightarrow> hm_get (ap_terminals st) k = Some t \<Longrightarrow> terminal_inv t"
  using app_invD(2) [of st]
  by (force simp: terminals_ok_def list_all_iff hm_values_def hm_get_def dest: map_of_SomeD)

lemma record_seq_kept: "app_kept st (record_state_change_seq k change st)"
  using modify_terminals_ok [of "ap_terminals st" k] terminal_of_inv [of st k]
  by (auto simp: app_kept_def record_state_change_seq_def Let_def modify_keys app_inv_def list_all2_refl
      terminal_inv_seq)

lemma record_seq_fields [simp]:
  "ap_workspaces (record_state_change_seq k change st) = ap_workspaces st"
  "ap_outer_terminal_focus (record_state_change_seq k change st) = ap_outer_terminal_focus st"
  "ap_active (record_state_change_seq k change st) = ap_active st"
  "app_rest (record_state_change_seq k change st) = app_rest st"
  by (simp_all add: record_state_change_seq_def Let_def)

lemma run_update_inv:
  assumes "terminal_inv t" and "terminal_inv (fst (upd t))"
  shows "terminal_inv (fst (run_terminal_update upd now t))"
  using assms by (auto simp: run_terminal_update_def Let_def split_beta finish_agent_process_acquisition_def
      terminal_inv_frame_fields split: option.split)

lemma in_active_tab_cong:
  "ap_workspaces st' = ap_workspaces st \<Longrightarrow> ap_active st' = ap_active st \<Longrightarrow>
     pane_is_in_active_tab ws_idx i st' = pane_is_in_active_tab ws_idx i st"
  by (simp add: pane_is_in_active_tab_def split: option.split)

text \<open>
  What an update may do: another terminal in the place of the pane's, the mark of the pane, and the
  notifications with their counter. The workspaces are the same but for the mark.
\<close>

definition one_pane_changed :: "pane_id \<Rightarrow> string \<Rightarrow> app_state \<Rightarrow> app_state \<Rightarrow> bool" where
  "one_pane_changed i terminal_id st st' \<longleftrightarrow>
     app_kept st st' \<and> app_rest st' = app_rest st \<and>
     (\<forall>k. k \<noteq> terminal_id \<longrightarrow> hm_get (ap_terminals st') k = hm_get (ap_terminals st) k) \<and>
     (\<exists>b. ap_workspaces st' = map (mark_workspace i b) (ap_workspaces st))"

text \<open>
  A pane loses its mark only when its agent finished while it was not in the active tab, or while the
  client's window had lost the focus. To finish is to become idle after working or being blocked, or
  after an unknown state of the same agent.
\<close>

definition marked_rightly :: "pane_id \<Rightarrow> app_state \<Rightarrow> pane_state_update \<Rightarrow> bool" where
  "marked_rightly i st u \<longleftrightarrow>
     (pu_previous_seen u \<and> \<not> pu_seen u \<longrightarrow>
        pu_state u = Idle \<and> \<not> pu_suppress_completion u \<and>
        (pu_previous_state u = Working \<or> pu_previous_state u = Blocked \<or>
         pu_previous_state u = Unknown \<and> pu_agent_label u \<noteq> None \<and>
           pu_agent_label u = pu_previous_agent_label u) \<and>
        (pane_is_in_active_tab (pu_ws_idx u) i st = Some False \<or> ap_outer_terminal_focus st = Some False)) \<and>
     (pu_state u \<noteq> Idle \<longrightarrow> pu_seen u)"

lemma mark_same:
  assumes "workspaces_ok (ap_workspaces st)" and "(i, pane) \<in> set (all_entries (ap_workspaces st))"
  shows "map (mark_entry i (pn_seen pane)) (all_entries (ap_workspaces st)) = all_entries (ap_workspaces st)"
proof (intro map_idI)
  fix e assume e: "e \<in> set (all_entries (ap_workspaces st))"
  have d: "distinct (map fst (all_entries (ap_workspaces st)))"
    using assms(1) by (simp add: workspaces_ok_def entries_ok_def)
  have "snd e = pane" if "fst e = i"
  proof -
    have "(i, snd e) \<in> set (all_entries (ap_workspaces st))" using e that surjective_pairing [of e] by simp
    from map_of_is_SomeI [OF d this] map_of_is_SomeI [OF d assms(2)] show ?thesis by simp
  qed
  then show "mark_entry i (pn_seen pane) e = e" by (cases e) (auto simp: mark_entry_def)
qed

lemma pane_of_position:
  "find_map (\<lambda>ws. ws_pane_state ws i) wss = Some pane \<Longrightarrow>
     \<exists>k. position (\<lambda>ws. ws_pane_state ws i \<noteq> None) wss = Some k \<and> k < length wss \<and> ws_pane_state (wss ! k) i = Some pane"
proof (induction wss)
  case (Cons ws wss)
  then show ?case by (cases "ws_pane_state ws i") auto
qed simp

lemma pane_terminal_present:
  assumes "app_inv st" and "pane_of st i = Some pane"
  shows "\<exists>t. hm_get (ap_terminals st) (pn_attached_terminal_id pane) = Some t \<and> terminal_inv t"
proof -
  have "(i, pane) \<in> set (all_entries (ap_workspaces st))" using pane_of_iff [OF app_invD(1) [OF assms(1)]] assms(2) by simp
  then have "pn_attached_terminal_id pane \<in> set (hm_keys (ap_terminals st))"
    using app_invD(3) [OF assms(1)] by (force simp: entry_terminal_def)
  then show ?thesis using terminal_of_inv [OF assms(1)] by (auto simp: keys_iff_get)
qed

definition state_changed :: "pane_state_update option \<Rightarrow> bool" where
  "state_changed u \<longleftrightarrow> is_some_and u (\<lambda>u. pu_previous_state u \<noteq> pu_state u)"

definition numbered_rightly :: "string \<Rightarrow> app_state \<Rightarrow> app_state \<Rightarrow> pane_state_update option \<Rightarrow> bool" where
  "numbered_rightly terminal_id st st' u \<longleftrightarrow>
     (if state_changed u
      then ap_next_agent_state_change_seq st' = ap_next_agent_state_change_seq st + 1 \<and>
        map_option ts_last_agent_state_change_seq (hm_get (ap_terminals st') terminal_id) =
          Some (Some (ap_next_agent_state_change_seq st'))
      else ap_next_agent_state_change_seq st' = ap_next_agent_state_change_seq st)"

lemma marked_rightlyI:
  assumes "pane_is_in_active_tab ws_idx i st = Some active"
  shows "marked_rightly i st (pane_update_of i ws_idx before change out suppress
    (seen_after i change suppress active st before))"
  using assms by (auto simp: marked_rightly_def pane_update_of_def Let_def seen_after_def
      active_tab_suppresses_notifications_def is_completion_transition_def
      is_completion_transition_parts_def is_background_completion_transition_def split: if_splits) metis+

lemma update_terminal_spec:
  assumes inv: "app_inv st" and upd: "\<And>t. terminal_inv t \<Longrightarrow> terminal_inv (fst (upd t))"
    and pane: "pane_of st i = Some pane"
  shows "\<exists>st' u. update_terminal_state_with_completion_policy home now clk i force upd st = Some (st', u) \<and>
    one_pane_changed i (pn_attached_terminal_id pane) st st' \<and> is_none_or u (marked_rightly i st) \<and>
    numbered_rightly (pn_attached_terminal_id pane) st st' u"
proof -
  define terminal_id where "terminal_id = pn_attached_terminal_id pane"
  note d = app_invD [OF inv]
  obtain k where k: "position (\<lambda>ws. ws_pane_state ws i \<noteq> None) (ap_workspaces st) = Some k"
    "k < length (ap_workspaces st)" "ws_pane_state (ap_workspaces st ! k) i = Some pane"
    using pane_of_position pane unfolding pane_of_def by blast
  obtain t where t: "hm_get (ap_terminals st) terminal_id = Some t" "terminal_inv t"
    using pane_terminal_present [OF inv pane] by (auto simp: terminal_id_def)
  obtain t' outcome where r: "run_terminal_update upd now t = (t', outcome)" by (cases "run_terminal_update upd now t")
  have t': "terminal_inv t'" using run_update_inv [where upd = upd and t = t and now = now, OF t(2) upd [OF t(2)]] r by simp
  define st1 where "st1 = put_terminal terminal_id t' st"
  have kept1: "app_kept st st1" unfolding st1_def by (rule put_terminal_kept [OF t'])
  have get1: "\<forall>k. k \<noteq> terminal_id \<longrightarrow> hm_get (ap_terminals st1) k = hm_get (ap_terminals st) k"
    by (simp add: st1_def put_terminal_def)
  have "map (mark_workspace i (pn_seen pane)) (ap_workspaces st) = ap_workspaces st"
    using mark_workspaces_same mark_same [OF d(1)] pane_of_iff [OF d(1), of i pane] pane by blast
  then have es: "\<exists>b. ap_workspaces st = map (mark_workspace i b) (ap_workspaces st)" by metis
  show ?thesis
  proof (cases outcome)
    case None
    then have "update_terminal_state_with_completion_policy home now clk i force upd st = Some (st1, None)"
      using k t(1) r by (simp add: update_terminal_state_with_completion_policy_def Let_def terminal_id_def st1_def)
    then show ?thesis using kept1 get1 es unfolding terminal_id_def [symmetric]
      by (simp add: one_pane_changed_def numbered_rightly_def state_changed_def st1_def)
  next
    case (Some out)
    define st2 where "st2 = (if sm_session_ref_changed (tr_mutation out) \<or> tr_managed_changed out \<or>
        tr_agent_name_changed out then mark_session_dirty st1 else st1)"
    have f2: "ap_workspaces st2 = ap_workspaces st" "ap_terminals st2 = ap_terminals st1" "ap_active st2 = ap_active st"
      "ap_outer_terminal_focus st2 = ap_outer_terminal_focus st"
      "ap_next_agent_state_change_seq st2 = ap_next_agent_state_change_seq st" "app_rest st2 = app_rest st"
      by (simp_all add: st2_def st1_def mark_session_dirty_def)
    have kept2: "app_kept st st2" using kept1 by (simp add: st2_def app_kept_def)
    show ?thesis
    proof (cases "or_else (sm_effective_state_change (tr_mutation out)) (tr_unchanged_change out)")
      case None
      then have "update_terminal_state_with_completion_policy home now clk i force upd st = Some (st2, None)"
        using k t(1) r Some
        by (simp add: update_terminal_state_with_completion_policy_def Let_def terminal_id_def st1_def st2_def)
      then show ?thesis using kept2 get1 es unfolding terminal_id_def [symmetric]
        by (simp add: one_pane_changed_def numbered_rightly_def state_changed_def f2)
    next
      case change: (Some change)
      define st3 where "st3 = record_state_change_seq terminal_id change st2"
      define suppress where "suppress = (force \<or> ec_state change = Idle \<and>
        (tr_managed_launch_pending out \<or> tr_suppress_acquisition_completion out))"
      have kept3: "app_kept st st3" unfolding st3_def by (rule app_kept_trans [OF kept2 record_seq_kept])
      have f3: "ap_workspaces st3 = ap_workspaces st" "ap_active st3 = ap_active st"
        "ap_outer_terminal_focus st3 = ap_outer_terminal_focus st" "app_rest st3 = app_rest st"
        by (simp_all add: st3_def f2)
      obtain st4 active where a:
        "apply_pane_state_change home clk k i change suppress st3 =
          Some (st4, Some (seen_after i change suppress active st3 (pn_seen pane)))"
        "pane_is_in_active_tab k i st3 = Some active" "app_kept st3 st4"
        "ap_workspaces st4 =
          map (mark_workspace i (seen_after i change suppress active st3 (pn_seen pane))) (ap_workspaces st3)"
        "ap_terminals st4 = ap_terminals st3" "app_rest st4 = app_rest st3" "ap_next_agent_state_change_seq st4 = ap_next_agent_state_change_seq st3"
        using apply_change_spec [OF app_kept_inv [OF inv kept3], of k i pane] k f3(1) by metis
      define u where "u = pane_update_of i k (pn_seen pane) change out suppress
        (seen_after i change suppress active st (pn_seen pane))"
      have same: "seen_after i change suppress active st3 b = seen_after i change suppress active st b" for b
        by (simp add: seen_after_def f3)
      have "update_terminal_state_with_completion_policy home now clk i force upd st = Some (st4, Some u)"
        using k t(1) r Some change a(1)
        by (simp add: update_terminal_state_with_completion_policy_def Let_def terminal_id_def [symmetric]
            st3_def [unfolded st2_def st1_def, symmetric] suppress_def [symmetric] u_def same
            split del: if_split)
      moreover have "one_pane_changed i terminal_id st st4"
        using app_kept_trans [OF kept3 a(3)] a(4,5,6) get1 f3(4) unfolding f3(1)
        by (auto simp: one_pane_changed_def st3_def record_state_change_seq_def Let_def f2)
      moreover have "marked_rightly i st u"
        unfolding u_def by (rule marked_rightlyI) (use a(2) in_active_tab_cong [OF f3(1,2)] in simp)
      moreover have "hm_get (ap_terminals st1) terminal_id = Some t'" using t(1) by (simp add: st1_def put_terminal_def)
      then have "numbered_rightly terminal_id st st4 (Some u)"
        using a(5,7) by (simp add: numbered_rightly_def state_changed_def u_def pane_update_of_def Let_def
            st3_def record_state_change_seq_def f2)
      ultimately show ?thesis by (simp add: terminal_id_def)
    qed
  qed
qed

end
