(* ===== verification/App_Upkeep.thy ===== *)
theory App_Upkeep
  imports App_Updates
begin

text \<open>
  The server's upkeep: due notifications, expiry of metadata and of tokens, git statuses and reported
  directories. Each of them keeps panes, terminals and focus.
\<close>

section \<open>Due notifications\<close>

text \<open>A delivered notification was pending, and its pane's terminal still is in the state it announces.\<close>

definition still_true :: "app_state \<Rightarrow> pending_notification \<Rightarrow> bool" where
  "still_true st p \<longleftrightarrow>
     (\<exists>pane t. pane_of st (pg_pane_id p) = Some pane \<and>
        hm_get (ap_terminals st) (pn_attached_terminal_id pane) = Some t \<and> ts_state t = pg_state p \<and>
        pg_workspace_id p \<in> set (map ws_id (ap_workspaces st)))"

lemma delivery_true:
  assumes "agent_notification_delivery home ws_idx i w l k kind s st = Some (Some d)"
    and "workspaces_ok (ap_workspaces st)"
  shows "nd_pane_id d = i \<and> (\<exists>pane t. pane_of st i = Some pane \<and>
    hm_get (ap_terminals st) (pn_attached_terminal_id pane) = Some t \<and> ts_state t = s)"
proof -
  obtain ws where ws: "ws_idx < length (ap_workspaces st)" "ap_workspaces st ! ws_idx = ws"
    using assms(1) by (auto simp: agent_notification_delivery_def nth_opt_def split: if_splits)
  obtain pane t where p: "ws_pane_state ws i = Some pane"
    "hm_get (ap_terminals st) (pn_attached_terminal_id pane) = Some t" "ts_state t = s" "nd_pane_id d = i"
    using assms(1) ws by (auto simp: agent_notification_delivery_def nth_opt_def Let_def Option.bind_eq_Some_conv
        split: option.splits if_splits)
  have wf: "workspace_wf {} ws" using assms(2) ws by (auto simp: workspaces_ok_def workspace_inv_def list_all_length)
  have "ws \<in> set (ap_workspaces st)" using ws by auto
  then have "(i, pane) \<in> set (all_entries (ap_workspaces st))"
    using p(1) ws_pane_state_entry [OF wf] all_entries_member by blast
  then have "pane_of st i = Some pane" using pane_of_iff [OF assms(2)] by simp
  with p show ?thesis by blast
qed

lemma deliver_due_spec:
  assumes ok: "workspaces_ok (ap_workspaces st)" and pend: "pending_ok (ap_pending_agent_notifications st)"
  shows "\<exists>st' d. deliver_due home i st = Some (st', d) \<and> quiet st st' \<and>
    ap_pending_agent_notifications st' = hm_remove i (ap_pending_agent_notifications st) \<and>
    (\<forall>x. d = Some x \<longrightarrow> nd_pane_id x = i \<and>
       is_some_and (hm_get (ap_pending_agent_notifications st) i) (still_true st))"
proof (cases "hm_get (ap_pending_agent_notifications st) i")
  case None
  then have "hm_remove i (ap_pending_agent_notifications st) = ap_pending_agent_notifications st"
    by (simp add: hm_remove_def delete_id hm_get_def map_of_eq_None_iff)
  with None show ?thesis by (simp add: deliver_due_def)
next
  case (Some p)
  have id: "pg_pane_id p = i" using Some pend by (auto simp: pending_ok_def list_all_iff hm_get_def dest: map_of_SomeD)
  define st1 where "st1 = st\<lparr>ap_pending_agent_notifications := hm_remove i (ap_pending_agent_notifications st)\<rparr>"
  have f: "ap_workspaces st1 = ap_workspaces st" "ap_terminals st1 = ap_terminals st"
    "ap_pending_agent_notifications st1 = hm_remove i (ap_pending_agent_notifications st)" by (simp_all add: st1_def)
  have q: "quiet st st1" by (simp add: quiet_def st1_def pending_ok_remove)
  show ?thesis
  proof (cases "workspace_position (ap_workspaces st) (pg_workspace_id p)")
    case None
    with Some q f(3) show ?thesis by (simp add: deliver_due_def Let_def st1_def)
  next
    case w: (Some ws_idx)
    note lt = workspace_position_SomeD [OF w]
    obtain d where d: "agent_notification_delivery home ws_idx i (pg_workspace_id p) (pg_agent_label p)
        (pg_known_agent p) (pg_kind p) (pg_state p) st1 = Some d" using delivery_total lt f(1) by metis
    have true: "still_true st p \<and> nd_pane_id x = i" if "d = Some x" for x
    proof -
      have "workspaces_ok (ap_workspaces st1)" using ok f(1) by simp
      from delivery_true [OF d [unfolded that] this] obtain pane t where "nd_pane_id x = i" "pane_of st i = Some pane"
        "hm_get (ap_terminals st) (pn_attached_terminal_id pane) = Some t" "ts_state t = pg_state p"
        by (auto simp: pane_of_def f)
      moreover have "pg_workspace_id p \<in> set (map ws_id (ap_workspaces st))" 
        using lt by (metis (no_types) length_map nth_map nth_mem)
      ultimately show ?thesis using id by (auto simp: still_true_def)
    qed
    have pend: "ap_pending_agent_notifications (apply_agent_notification_delivery x st1) = ap_pending_agent_notifications st1" for x
      by (simp add: apply_agent_notification_delivery_def split: option.split)
    show ?thesis
      using Some w d true q f pend quiet_trans [OF q apply_delivery_quiet]
      by (cases d) (simp_all add: deliver_due_def Let_def st1_def [symmetric] id)
  qed
qed

lemma deliver_all_spec:
  "workspaces_ok (ap_workspaces st) \<Longrightarrow> pending_ok (ap_pending_agent_notifications st) \<Longrightarrow>
     \<exists>st' ds. deliver_all home is st = Some (st', ds) \<and> quiet st st' \<and>
       (\<forall>i. hm_get (ap_pending_agent_notifications st') i =
          (if i \<in> set is then None else hm_get (ap_pending_agent_notifications st) i)) \<and>
       (\<forall>x \<in> set ds. nd_pane_id x \<in> set is \<and>
          is_some_and (hm_get (ap_pending_agent_notifications st) (nd_pane_id x)) (still_true st))"
proof (induction "is" arbitrary: st)
  case (Cons i "is")
  obtain st1 d where s: "deliver_due home i st = Some (st1, d)" "quiet st st1"
    "ap_pending_agent_notifications st1 = hm_remove i (ap_pending_agent_notifications st)"
    "\<forall>x. d = Some x \<longrightarrow> nd_pane_id x = i \<and>
       is_some_and (hm_get (ap_pending_agent_notifications st) i) (still_true st)"
    using deliver_due_spec [OF Cons.prems, of home i] by blast
  have same: "still_true st1 = still_true st" using s(2) by (simp add: still_true_def pane_of_def quiet_def fun_eq_iff)
  have ok1: "workspaces_ok (ap_workspaces st1)" "pending_ok (ap_pending_agent_notifications st1)"
    using Cons.prems s(2) by (simp_all add: quiet_def)
  obtain st2 ds where r: "deliver_all home is st1 = Some (st2, ds)" "quiet st1 st2"
    "\<forall>i. hm_get (ap_pending_agent_notifications st2) i =
       (if i \<in> set is then None else hm_get (ap_pending_agent_notifications st1) i)"
    "\<forall>x \<in> set ds. nd_pane_id x \<in> set is \<and>
       is_some_and (hm_get (ap_pending_agent_notifications st1) (nd_pane_id x)) (still_true st)"
    using Cons.IH [OF ok1, unfolded same] by blast
  have "\<forall>x \<in> set (case d of Some x \<Rightarrow> x # ds | None \<Rightarrow> ds). nd_pane_id x \<in> set (i # is) \<and>
      is_some_and (hm_get (ap_pending_agent_notifications st) (nd_pane_id x)) (still_true st)"
    using r(4) s(3,4) by (auto split: option.splits if_splits)
  then show ?case using s(1-3) r(1-3) quiet_trans [OF s(2) r(2)]
    by (auto split: option.splits)
qed simp

lemma due_panes_iff:
  assumes "pending_ok (ap_pending_agent_notifications st)"
  shows "i \<in> set (due_panes now st) \<longleftrightarrow>
    is_some_and (hm_get (ap_pending_agent_notifications st) i) (\<lambda>p. pg_deadline p \<le> now)"
proof -
  have d: "distinct (map fst (ap_pending_agent_notifications st))"
    using assms by (simp add: pending_ok_def hm_wf_def hm_keys_def)
  have "i \<in> set (due_panes now st) \<longleftrightarrow> (\<exists>p. (i, p) \<in> set (ap_pending_agent_notifications st) \<and> pg_deadline p \<le> now)"
    by (force simp: due_panes_def List.map_filter_def split: if_splits)
  also have "\<dots> \<longleftrightarrow> (\<exists>p. hm_get (ap_pending_agent_notifications st) i = Some p \<and> pg_deadline p \<le> now)"
    using d by (simp add: hm_get_def map_of_eq_Some_iff)
  finally show ?thesis by (cases "hm_get (ap_pending_agent_notifications st) i") auto
qed

lemma drain_spec:
  assumes "app_inv st"
  shows "\<exists>st' ds. drain_due_agent_notifications home now st = Some (st', ds) \<and> quiet st st' \<and>
    (\<forall>i. hm_get (ap_pending_agent_notifications st') i =
       opt_filter (\<lambda>p. now < pg_deadline p) (hm_get (ap_pending_agent_notifications st) i)) \<and>
    (\<forall>x \<in> set ds. is_some_and (hm_get (ap_pending_agent_notifications st) (nd_pane_id x))
       (\<lambda>p. pg_deadline p \<le> now \<and> still_true st p))"
proof -
  note d = app_invD(1,5) [OF assms]
  obtain st' ds where r: "deliver_all home (due_panes now st) st = Some (st', ds)" "quiet st st'"
    "\<forall>i. hm_get (ap_pending_agent_notifications st') i =
       (if i \<in> set (due_panes now st) then None else hm_get (ap_pending_agent_notifications st) i)"
    "\<forall>x \<in> set ds. nd_pane_id x \<in> set (due_panes now st) \<and>
       is_some_and (hm_get (ap_pending_agent_notifications st) (nd_pane_id x)) (still_true st)"
    using deliver_all_spec [OF d, of home "due_panes now st"] by blast
  have "hm_get (ap_pending_agent_notifications st') i =
      opt_filter (\<lambda>p. now < pg_deadline p) (hm_get (ap_pending_agent_notifications st) i)" for i
    using r(3) due_panes_iff [OF d(2), of i now]
    by (cases "hm_get (ap_pending_agent_notifications st) i") (auto simp: opt_filter_def)
  moreover have "is_some_and (hm_get (ap_pending_agent_notifications st) (nd_pane_id x))
      (\<lambda>p. pg_deadline p \<le> now \<and> still_true st p)" if "x \<in> set ds" for x
    using r(4) that due_panes_iff [OF d(2), of "nd_pane_id x" now]
    by (cases "hm_get (ap_pending_agent_notifications st) (nd_pane_id x)") auto
  ultimately show ?thesis using r(1,2) by (auto simp: drain_due_agent_notifications_def)
qed

section \<open>Expiry\<close>

lemma in_pane_terminals: "(k, i, terminal_id) \<in> set (pane_terminals st) \<Longrightarrow> k < length (ap_workspaces st)"
  by (auto simp: pane_terminals_def in_set_enumerate_eq List.map_filter_def)

lemma ws_pane_state_like:
  assumes "workspace_like ws ws'" and "workspace_inv ws" and "ws_pane_state ws i = Some pane"
  shows "\<exists>pane'. ws_pane_state ws' i = Some pane'"
proof -
  have wf: "workspace_wf {} ws" "workspace_wf {} ws'" using assms(1,2) by (simp_all add: workspace_like_def workspace_inv_def)
  have "i \<in> set (map fst (live_entries ws'))"
    using assms ws_pane_state_entry [OF wf(1)] by (force simp: workspace_like_def)
  then show ?thesis using ws_pane_state_entry [OF wf(2), of i] by auto
qed

lemma expire_pane_kept:
  assumes inv: "app_inv st" and k: "fst e < length (ap_workspaces st)"
  shows "\<exists>st' u. expire_pane_metadata home deadline now clk e st = Some (st', u) \<and> app_kept st st'"
proof -
  obtain ws_idx i terminal_id where e: "e = (ws_idx, i, terminal_id)" by (cases e)
  define ws where "ws = ap_workspaces st ! ws_idx"
  have w: "ws_idx < length (ap_workspaces st)" using k e by simp
  show ?thesis
  proof (cases "Option.bind (ws_pane_state ws i) (\<lambda>pane. map_option (Pair pane) (hm_get (ap_terminals st) terminal_id))")
    case None
    with w show ?thesis
      by (intro exI [of _ st] exI [of _ None]) (simp add: e expire_pane_metadata_def nth_opt_def ws_def)
  next
    case (Some pt)
    then obtain pane t where p: "ws_pane_state ws i = Some pane" "hm_get (ap_terminals st) terminal_id = Some t" "pt = (pane, t)"
      by (auto simp: Option.bind_eq_Some_conv)
    obtain t' mut where t': "expire_agent_metadata_at deadline now t = (t', mut)" by (cases "expire_agent_metadata_at deadline now t")
    have "terminal_inv t'" using perform_call_inv [of t "ExpireMetadata deadline now"] terminal_of_inv [OF inv p(2)] t' by simp
    define st1 where "st1 = put_terminal terminal_id t' st"
    have kept: "app_kept st st1" unfolding st1_def by (rule put_terminal_kept) fact
    have f: "ap_workspaces st1 = ap_workspaces st" by (simp add: st1_def)
    have a: "\<exists>st2 sn. apply_pane_state_change home clk ws_idx i change False st1 = Some (st2, Some sn) \<and>
        app_kept st1 st2" for change
      using apply_change_spec [OF app_kept_inv [OF inv kept], of ws_idx i pane home clk change False] w p(1)
      unfolding f ws_def by blast
    note eq = expire_pane_metadata_def [of home deadline now clk "(ws_idx, i, terminal_id)" st]
    show ?thesis
    proof (cases "Option.bind mut sm_effective_state_change")
      case None
      with Some w p t' kept show ?thesis
        by (simp add: eq e nth_opt_def ws_def [symmetric] Let_def st1_def [symmetric])
    next
      case change: (Some change)
      obtain st2 sn where "apply_pane_state_change home clk ws_idx i change False st1 = Some (st2, Some sn)"
        "app_kept st1 st2" using a by blast
      with Some w p t' change app_kept_trans [OF kept] show ?thesis
        by (simp add: eq e nth_opt_def ws_def [symmetric] Let_def st1_def [symmetric])
    qed
  qed
qed

lemma app_kept_length: "app_inv st \<Longrightarrow> app_kept st st' \<Longrightarrow> length (ap_workspaces st') = length (ap_workspaces st)"
  using list_all2_lengthD by (force simp: app_kept_def)

lemma expire_panes_kept:
  "app_inv st \<Longrightarrow> \<forall>e \<in> set es. fst e < length (ap_workspaces st) \<Longrightarrow>
     \<exists>st' us. expire_panes home deadline now clk es st = Some (st', us) \<and> app_kept st st'"
proof (induction es arbitrary: st)
  case (Cons e es)
  obtain st1 u where s: "expire_pane_metadata home deadline now clk e st = Some (st1, u)" "app_kept st st1"
    using expire_pane_kept [OF Cons.prems(1), of e home deadline now clk] Cons.prems(2) by (meson list.set_intros(1))
  have "\<forall>e \<in> set es. fst e < length (ap_workspaces st1)"
    using Cons.prems(2) app_kept_length [OF Cons.prems(1) s(2)] by simp
  from Cons.IH [OF app_kept_inv [OF Cons.prems(1) s(2)] this] obtain st2 us where
    r: "expire_panes home deadline now clk es st1 = Some (st2, us)" "app_kept st1 st2" by blast
  with s app_kept_trans [OF s(2) r(2)] show ?case by simp
qed simp

lemma expire_all_kept:
  assumes "app_inv st"
  shows "\<exists>st' us. expire_agent_metadata_of_all home deadline now clk st = Some (st', us) \<and> app_kept st st'"
  unfolding expire_agent_metadata_of_all_def
  by (rule expire_panes_kept [OF assms]) (auto dest: in_pane_terminals)

lemma terminal_inv_tokens:
  "terminal_inv (t\<lparr>ts_metadata_tokens := m\<rparr>) = terminal_inv t"
  "terminal_inv (t\<lparr>ts_revision := n\<rparr>) = terminal_inv t"
  "terminal_inv (t\<lparr>ts_cwd := dir\<rparr>) = terminal_inv t"
  using arbitration_inputs_determine(1) [of "t\<lparr>ts_metadata_tokens := m\<rparr>" t]
    arbitration_inputs_determine(1) [of "t\<lparr>ts_revision := n\<rparr>" t]
    arbitration_inputs_determine(1) [of "t\<lparr>ts_cwd := dir\<rparr>" t]
  by (simp_all add: terminal_inv_def terminal_wf_def arbitration_inputs_def)

text \<open>Putting a terminal that some existing one was changed into.\<close>

lemma put_changed_kept:
  assumes "hm_get (ap_terminals st) k = Some t" and "terminal_inv t \<Longrightarrow> terminal_inv t'"
  shows "app_kept st (put_terminal k t' st)"
  using modify_terminals_ok [of "ap_terminals st" k "\<lambda>_. t'"] assms terminal_of_inv [of st k t]
  by (auto simp: app_kept_def put_terminal_def modify_keys app_inv_def list_all2_refl)

lemma expire_pane_tokens_kept: "app_kept st (fst (expire_pane_tokens now e (st, changed)))"
proof -
  obtain ws_idx i k where e: "e = (ws_idx, i, k)" by (cases e)
  show ?thesis
  proof (cases "hm_get (ap_terminals st) k")
    case None
    then show ?thesis by (simp add: expire_pane_tokens_def e)
  next
    case (Some t)
    then show ?thesis
      using put_changed_kept [OF Some] by (simp add: expire_pane_tokens_def e split_beta Let_def terminal_inv_tokens)
  qed
qed

lemma fold_expire_tokens_kept: "app_kept st (fst (fold (expire_pane_tokens now) es (st, changed)))"
proof (induction es arbitrary: st changed)
  case (Cons e es)
  obtain st1 ch where s: "expire_pane_tokens now e (st, changed) = (st1, ch)" by (cases "expire_pane_tokens now e (st, changed)")
  with expire_pane_tokens_kept [of st now e changed] Cons.IH [of st1 ch] show ?case
    by (simp add: app_kept_trans)
qed simp

lemma workspace_frame_like:
  assumes "ws_tabs ws' = ws_tabs ws" and "ws_id ws' = ws_id ws" and "ws_active_tab ws' = ws_active_tab ws"
    and "ws_public_pane_numbers ws' = ws_public_pane_numbers ws"
    and "ws_next_public_pane_number ws' = ws_next_public_pane_number ws"
    and "ws_next_public_tab_number ws' = ws_next_public_tab_number ws"
  shows "workspace_like ws ws'"
  using assms by (simp add: workspace_like_def workspace_inv_def workspace_wf_def)

lemma workspaces_kept:
  assumes "list_all2 workspace_like (ap_workspaces st) wss"
  shows "app_kept st (st\<lparr>ap_workspaces := wss\<rparr>)"
  using assms by (simp add: app_kept_def app_inv_def)

lemma expire_metadata_tokens_kept: "app_kept st (fst (expire_metadata_tokens now st))"
proof -
  obtain st1 ch where s: "fold (expire_pane_tokens now) (pane_terminals st) (st, []) = (st1, ch)"
    by (cases "fold (expire_pane_tokens now) (pane_terminals st) (st, [])")
  have "workspace_like ws (fst (expire_workspace_tokens now ws))" for ws
    by (rule workspace_frame_like) (simp_all add: expire_workspace_tokens_def split_beta Let_def)
  then have "list_all2 workspace_like (ap_workspaces st1) (map fst (map (expire_workspace_tokens now) (ap_workspaces st1)))"
    by (simp add: list_all2_conv_all_nth)
  from workspaces_kept [OF this] fold_expire_tokens_kept [of st now "pane_terminals st" "[]"] s show ?thesis
    by (simp add: expire_metadata_tokens_def app_kept_trans)
qed

section \<open>Git statuses and directories\<close>

lemma apply_git_like: "workspace_like ws (fst (apply_git_status r ws))"
  by (rule workspace_frame_like) (simp_all add: apply_git_status_def Let_def)

lemma git_status_kept: "app_kept st (fst (apply_workspace_git_status rt r (st, b)))"
proof -
  have "app_kept st (st\<lparr>ap_workspaces := (ap_workspaces st)[k := fst (apply_git_status r (ap_workspaces st ! k))]\<rparr>)" for k
    by (rule workspaces_kept, rule list_all2_update_like, rule apply_git_like)
  then show ?thesis by (simp add: apply_workspace_git_status_def Let_def split_beta split: option.split)
qed

lemma git_statuses_kept: "app_kept st (fst (apply_workspace_git_statuses rt results st))"
proof -
  have "app_kept st (fst (fold (apply_workspace_git_status rt) results (st, b)))" for b
  proof (induction results arbitrary: st b)
    case (Cons r results)
    obtain st1 c where s: "apply_workspace_git_status rt r (st, b) = (st1, c)" by (cases "apply_workspace_git_status rt r (st, b)")
    with git_status_kept [of st rt r b] Cons.IH [of st1 c] show ?case by (simp add: app_kept_trans)
  qed simp
  then show ?thesis by (simp add: apply_workspace_git_statuses_def)
qed

lemma app_kept_dirty [simp]: "app_kept st (mark_session_dirty st') = app_kept st st'"
  by (simp add: app_kept_def)

lemma cwd_kept: "app_kept st (handle_cwd_reported is_dir i dir st)"
  using put_changed_kept by (auto simp: handle_cwd_reported_def Let_def terminal_inv_tokens split: option.split)

lemma updates_kept:
  "app_kept st (handle_update_ready v c st)" "app_kept st (handle_manifests_updated ms st)"
  by (simp_all add: handle_update_ready_def handle_manifests_updated_def show_update_toast_def Let_def
      app_kept_def app_inv_def list_all2_refl)

end
