(* ===== verification/App_Machine.thy ===== *)
theory App_Machine
  imports App_Upkeep
begin

text \<open>
  The server's state as a machine: navigation, the order of the workspaces, closing, the events of
  \<open>handle_app_event\<close> and the upkeep. Every operation is total on a consistent state and leaves a
  consistent state (\<open>op_machine\<close> interpreted).
\<close>

section \<open>Unknown panes\<close>

lemma position_of_pane:
  "position (\<lambda>ws. ws_pane_state ws i \<noteq> None) wss = Some k \<Longrightarrow> \<exists>pane. find_map (\<lambda>ws. ws_pane_state ws i) wss = Some pane"
proof (induction wss arbitrary: k)
  case (Cons ws wss)
  then show ?case by (cases "ws_pane_state ws i") auto
qed simp

lemma update_unknown:
  "pane_of st i = None \<Longrightarrow>
     update_terminal_state_with_completion_policy home now clk i force upd st = Some (st, None)"
  using position_of_pane [of i "ap_workspaces st"]
  by (cases "position (\<lambda>ws. ws_pane_state ws i \<noteq> None) (ap_workspaces st)")
    (auto simp: update_terminal_state_with_completion_policy_def pane_of_def)

text \<open>An update never panics, and keeps everything but the pane and its terminal.\<close>

lemma update_total:
  assumes "app_inv st" and "\<And>t. terminal_inv t \<Longrightarrow> terminal_inv (fst (upd t))"
  shows "\<exists>st' u. update_terminal_state_with_completion_policy home now clk i force upd st = Some (st', u) \<and>
    app_kept st st'"
proof (cases "pane_of st i")
  case None
  then show ?thesis by (simp add: update_unknown)
next
  case (Some pane)
  obtain st' u where "update_terminal_state_with_completion_policy home now clk i force upd st = Some (st', u)"
    "one_pane_changed i (pn_attached_terminal_id pane) st st'"
    using update_terminal_spec [where upd = upd, OF assms Some] by blast
  then show ?thesis by (auto simp: one_pane_changed_def)
qed

lemma exit_update_inv: "terminal_inv t \<Longrightarrow> terminal_inv (fst (exit_update observed_at clk t))"
  using perform_call_inv [of t "Detect a Idle False True False True observed_at clk" for a]
  by (simp add: exit_update_def Let_def)

section \<open>Events\<close>

text \<open>The labels of a reported metadata update are a map.\<close>

fun event_ok :: "app_event \<Rightarrow> bool" where
  "event_ok (HookMetadataReported i report) = hm_wf (mr_state_labels report)"
| "event_ok ev = True"

lemma event_call_ok: "event_call clocks ev = Some (i, c) \<Longrightarrow> event_ok ev \<Longrightarrow> terminal_op_ok t (Call c)"
  by (cases ev) (auto simp: event_call_def split: if_splits)

definition event_pane :: "app_event \<Rightarrow> pane_id option" where
  "event_pane ev = (case ev of PaneDied i \<Rightarrow> Some i | _ \<Rightarrow> None)"

lemma handle_event_kept:
  assumes inv: "app_inv st" and ok: "event_ok ev" and alive: "event_pane ev = None"
  shows "\<exists>st' us. handle_app_event home is_dir clocks ev st = Some (st', us) \<and> app_kept st st'"
proof -
  have calls: "\<exists>st' us. (case event_call clocks ev of
        None \<Rightarrow> Some (st, [])
      | Some (i, c) \<Rightarrow> map_option (\<lambda>(st', u). (st', case u of Some x \<Rightarrow> [x] | None \<Rightarrow> []))
          (update_terminal_state home (cl_update clocks) (cl_notify clocks) i (perform_call c) st)) = Some (st', us) \<and>
      app_kept st st'"
  proof (cases "event_call clocks ev")
    case (Some ic)
    obtain i c where ic: "ic = (i, c)" by (cases ic)
    have "terminal_inv (fst (perform_call c t))" if "terminal_inv t" for t
      by (rule perform_call_inv [OF that event_call_ok [OF Some [unfolded ic] ok]])
    from update_total [where upd = "perform_call c", OF inv this] show ?thesis
      using Some ic by (fastforce simp: update_terminal_state_def)
  qed simp
  show ?thesis
    using calls alive updates_kept cwd_kept by (cases ev) (simp_all add: handle_app_event_def event_pane_def)
qed

lemma handle_event_inv:
  assumes inv: "app_inv st" and ok: "event_ok ev"
  shows "\<exists>st' us. handle_app_event home is_dir clocks ev st = Some (st', us) \<and> app_inv st'"
proof (cases "event_pane ev")
  case None
  then show ?thesis using handle_event_kept [OF inv ok] app_kept_inv [OF inv] by blast
next
  case (Some i)
  then have ev: "ev = PaneDied i" by (cases ev) (simp_all add: event_pane_def)
  then show ?thesis using handle_pane_died_spec [OF inv, of i] by (auto simp: handle_app_event_def)
qed

section \<open>The machine\<close>

text \<open>The readings of the clock, the environment and the checks of the file system are arguments.\<close>

datatype app_op =
    OpSwitchWorkspace nat
  | OpSwitchWorkspaceTab nat nat
  | OpFocusPane nat pane_id
  | OpMarkSeen
  | OpZoom nat pane_id zoom_command
  | OpMoveWorkspace nat nat
  | OpMoveWorkspaceBlock "string list" "string option"
  | OpCloseSelected
  | OpEvent "string option" "string \<Rightarrow> bool" event_clocks app_event
  | OpProcessExit "string option" instant instant instant instant pane_id bool
  | OpDrain "string option" instant
  | OpExpireMetadata "string option" instant instant instant
  | OpExpireTokens instant
  | OpGitStatuses "string \<Rightarrow> string option" "workspace_git_status list"

fun app_step :: "app_state \<Rightarrow> app_op \<Rightarrow> app_state option" where
  "app_step st (OpSwitchWorkspace idx) = Some (switch_workspace idx st)"
| "app_step st (OpSwitchWorkspaceTab w t) = Some (fst (switch_workspace_tab w t st))"
| "app_step st (OpFocusPane w i) = Some (fst (focus_pane_in_workspace w i st))"
| "app_step st OpMarkSeen = Some (fst (mark_active_tab_seen st))"
| "app_step st (OpZoom w i cmd) = Some (fst (apply_pane_zoom w i cmd st))"
| "app_step st (OpMoveWorkspace s t) = map_option fst (move_workspace s t st)"
| "app_step st (OpMoveWorkspaceBlock ids before) = map_option fst (move_workspace_block ids before st)"
| "app_step st OpCloseSelected = close_selected_workspace st"
| "app_step st (OpEvent home is_dir clocks ev) = map_option fst (handle_app_event home is_dir clocks ev st)"
| "app_step st (OpProcessExit home observed_at clk0 now clk i suppress) =
     map_option fst (publish_pane_process_exit_if_agent home observed_at clk0 now clk i suppress st)"
| "app_step st (OpDrain home now) = map_option fst (drain_due_agent_notifications home now st)"
| "app_step st (OpExpireMetadata home deadline now clk) =
     map_option fst (expire_agent_metadata_of_all home deadline now clk st)"
| "app_step st (OpExpireTokens now) = Some (fst (expire_metadata_tokens now st))"
| "app_step st (OpGitStatuses rt results) = Some (fst (apply_workspace_git_statuses rt results st))"

fun app_op_ok :: "app_state \<Rightarrow> app_op \<Rightarrow> bool" where
  "app_op_ok st (OpEvent home is_dir clocks ev) = event_ok ev"
| "app_op_ok st p = True"

lemma close_selected_inv: "app_inv st \<Longrightarrow> \<exists>st'. close_selected_workspace st = Some st' \<and> app_inv st'"
  using close_selected_spec [of st]
  by (cases "ap_workspaces st = []") (auto simp: close_selected_workspace_def)

lemma publish_exit_inv:
  assumes "app_inv st"
  shows "\<exists>st' u. publish_pane_process_exit_if_agent home observed_at clk0 now clk i s st = Some (st', u) \<and> app_kept st st'"
  using update_total [where upd = "exit_update observed_at clk0" and i = i and home = home and now = now
      and clk = clk and force = s, OF assms exit_update_inv]
  by (auto simp: publish_pane_process_exit_if_agent_def)

lemma app_step_inv:
  assumes inv: "app_inv st" and ok: "app_op_ok st p"
  shows "\<exists>st'. app_step st p = Some st' \<and> app_inv st'"
proof (cases p)
  case (OpMoveWorkspace s t)
  then show ?thesis using move_workspace_spec [OF inv, of s t] by auto
next
  case (OpMoveWorkspaceBlock ids before)
  then show ?thesis using move_workspace_block_spec [OF inv, of ids before] by auto
next
  case (OpEvent home is_dir clocks ev)
  then show ?thesis using handle_event_inv [OF inv, of ev home is_dir clocks] ok by auto
next
  case (OpProcessExit home observed_at clk0 now clk i s)
  then show ?thesis
    using publish_exit_inv [OF inv, of home observed_at clk0 now clk i s] app_kept_inv [OF inv] by auto
next
  case (OpDrain home now)
  then show ?thesis using drain_spec [OF inv, of home now] app_kept_inv [OF inv] quiet_kept by auto
next
  case (OpExpireMetadata home deadline now clk)
  then show ?thesis using expire_all_kept [OF inv, of home deadline now clk] app_kept_inv [OF inv] by auto
next
  case (OpExpireTokens now)
  then show ?thesis using app_kept_inv [OF inv expire_metadata_tokens_kept] by simp
next
  case (OpGitStatuses rt results)
  then show ?thesis using app_kept_inv [OF inv git_statuses_kept] by simp
qed (use inv in \<open>simp_all add: switch_workspace_inv switch_workspace_tab_inv focus_pane_inv mark_seen_inv
  apply_pane_zoom_inv close_selected_inv\<close>)

interpretation app_machine: op_machine app_step app_op_ok app_inv
  by unfold_locales (rule app_step_inv)

end
