(* ===== verification/App_Properties.thy ===== *)
theory App_Properties
  imports App_Machine
begin

text \<open>
  The properties of the server's state: it stays consistent in every run, nothing is leaked when a pane
  dies or a workspace is closed, focus is kept by identity, an update touches one pane only, and
  notifications are delivered when they are due and still true.
\<close>

section \<open>A concrete state\<close>

definition demo_ws :: "string \<Rightarrow> pane_id \<Rightarrow> string \<Rightarrow> workspace" where
  "demo_ws i p terminal_id =
     \<lparr>ws_id = i, ws_custom_name = None, ws_identity_cwd = ''/'', ws_cached_identity_cwd = ''/'',
      ws_cached_auto_label = ''x'', ws_cached_git_status_key = ''/'', ws_cached_git_branch = None,
      ws_cached_git_ahead_behind = None, ws_cached_git_space = None, ws_worktree_space = None,
      ws_metadata_tokens = [], ws_metadata_token_sequences = [],
      ws_public_pane_numbers = [(p, 1)], ws_next_public_pane_number = 2, ws_next_public_tab_number = 2,
      ws_tabs = [\<lparr>tb_custom_name = None, tb_number = 1, tb_root_pane = p,
        tb_layout = \<lparr>tl_root = Pane p, tl_focus = p, tl_prev_focus = None\<rparr>,
        tb_panes = [(p, pane_state_new terminal_id)], tb_zoomed = False\<rparr>],
      ws_active_tab = 0\<rparr>"

definition demo_app :: app_state where
  "demo_app =
     \<lparr>ap_terminals = [(''t1'', ts_new ''t1'' ''/''), (''t2'', ts_new ''t2'' ''/'')],
      ap_pane_id_aliases = [], ap_public_pane_id_aliases = [],
      ap_workspaces = [demo_ws ''w1'' 1 ''t1'', demo_ws ''w2'' 2 ''t2''],
      ap_active = Some 1, ap_previous_pane_focus = None, ap_selected = 0, ap_mode = TerminalMode,
      ap_update_available = None, ap_update_install_command = '''', ap_latest_release_notes_available = False,
      ap_update_dismissed = False, ap_toast = None,
      ap_pending_agent_notifications = [(2, \<lparr>pg_pane_id = 2, pg_workspace_id = ''w2'', pg_agent_label = ''pi'',
        pg_known_agent = None, pg_kind = Finished, pg_state = Unknown, pg_deadline = 10\<rparr>)],
      ap_outer_terminal_focus = None, ap_next_agent_state_change_seq = 0, ap_confirm_close = True,
      ap_sound = \<lparr>so_enabled = False, so_agents = (\<lambda>_. SoundDefault)\<rparr>,
      ap_toast_config = \<lparr>to_delivery = DeliverOsade, to_delay_seconds = 1\<rparr>,
      ap_plugin_panes = [], ap_session_dirty = False, ap_terminal_runtime_shutdowns = []\<rparr>"

definition clk :: event_clocks where
  "clk = \<lparr>cl_update = 1, cl_call = 2, cl_later = 3, cl_notify = 4\<rparr>"

lemmas demo_app_simps = demo_app_def demo_ws_def pane_state_new_def

lemma demo_ws_inv: "workspace_inv (demo_ws i p t)"
  by (simp add: workspace_inv_def workspace_wf_def demo_ws_def tab_inv_def layout_wf_def tl_pane_ids_def
      hm_wf_def hm_keys_def tab_entries_def entries_ok_def tab_numbers_ok_def public_ok_def hm_values_def)

lemma demo_app_inv: "app_inv demo_app"
proof -
  have "live_entries (demo_ws i p t) = [(p, pane_state_new t)]" "ws_id (demo_ws i p t) = i" for i p t
    by (simp_all add: demo_ws_def tab_entries_def)
  then show ?thesis
    using demo_ws_inv terminal_new_inv
    by (simp add: app_inv_def demo_app_def workspaces_ok_def entries_ok_def entry_terminal_def
        pane_state_new_def terminals_ok_def hm_wf_def hm_keys_def hm_values_def selection_ok_def pending_ok_def)
qed

section \<open>Runs\<close>

text \<open>
  C14: The server's state stays consistent in every run: whatever is focused, zoomed, moved and closed,
  whatever the terminals report, whichever panes die and whenever metadata, tokens and notifications
  expire, no operation panics, and afterwards all workspaces are consistent, no pane, terminal or
  workspace id occurs twice, every pane has its terminal, every terminal its arbitrated state, and the
  active and the selected workspace exist.
\<close>

theorem app_run_consistent:
  assumes "app_inv st" and "run_guarded app_step app_op_ok st ps"
  shows "\<exists>st'. run_ops app_step st ps = Some st' \<and> app_inv st'"
  by (rule app_machine.run_inv [OF assms])

definition demo_app_ops :: "app_op list" where
  "demo_app_ops = [OpFocusPane 0 1, OpEvent None (\<lambda>_. True) clk (PaneDied 2)]"

lemma demo_app_guarded: "run_guarded app_step app_op_ok demo_app demo_app_ops"
  by (rule run_guarded_always) (auto simp: demo_app_ops_def)

theorem app_run_consistent_witness: "\<exists>st'. run_ops app_step demo_app demo_app_ops = Some st' \<and> app_inv st'"
  by (rule app_run_consistent [OF demo_app_inv demo_app_guarded])

section \<open>Panes and workspaces that go\<close>

text \<open>
  C15: When a pane dies, exactly that pane disappears from the workspaces, exactly its terminal is removed
  and its runtime is queued for shutdown, and the workspace the user works in stays the active one
  unless it is the one that goes with its last pane.
\<close>

theorem dead_pane_leaves_nothing:
  assumes "app_inv st" and "pane_of st i = Some pane"
  shows "\<exists>st'. handle_pane_died i st = Some st' \<and> app_inv st' \<and> pane_gone i (pn_attached_terminal_id pane) st st'"
  using handle_pane_died_spec [OF assms(1), of i] assms(2) by auto

theorem dead_pane_leaves_nothing_witness:
  "\<exists>st'. handle_pane_died 1 demo_app = Some st' \<and> app_inv st' \<and> pane_gone 1 ''t1'' demo_app st'"
  using dead_pane_leaves_nothing [OF demo_app_inv, of 1 "pane_state_new ''t1''"]
  by (simp add: pane_of_def demo_app_simps ws_pane_state_def hm_get_def)




section \<open>Focus\<close>

text \<open>
  Focusing a pane makes its workspace the active and selected one, its tab the active one and the
  pane the focused one, and remembers the pane that had the focus before; when it has the focus already,
  nothing changes.
\<close>

lemma focus_pane_moves_focus:
  assumes "app_inv st" and "ws_idx < length (ap_workspaces st)" and "i \<in> live_panes (ap_workspaces st ! ws_idx)"
  defines "target \<equiv> \<lparr>ft_workspace_id = ws_id (ap_workspaces st ! ws_idx), ft_pane_id = i\<rparr>"
  defines "r \<equiv> focus_pane_in_workspace ws_idx i st"
  shows "current_pane_focus_target (fst r) = Some target \<and>
    (if current_pane_focus_target st = Some target then fst r = st \<and> \<not> snd r
     else snd r \<and> ap_active (fst r) = Some ws_idx \<and> ap_selected (fst r) = ws_idx \<and>
       ap_previous_pane_focus (fst r) = current_pane_focus_target st)"
proof -
  define ws where "ws = ap_workspaces st ! ws_idx"
  have wf: "workspace_wf {} ws" using nth_workspace_inv [OF assms(1,2)] by (simp add: ws_def workspace_inv_def)
  obtain k where k: "find_tab_index_for_pane ws i = Some k"
    using find_tab_None [of ws i] assms(3) by (cases "find_tab_index_for_pane ws i") (auto simp: ws_def)
  obtain pane where p: "k < length (ws_tabs ws)" "hm_get (tb_panes (ws_tabs ws ! k)) i = Some pane" "tab_inv (ws_tabs ws ! k)"
    using find_tab_SomeD [OF k wf] by blast
  have mem: "i \<in> set (tl_pane_ids (tb_layout (ws_tabs ws ! k)))"
    using p(2,3) by (auto simp: tab_inv_def keys_iff_get)
  note eq = focus_pane_eq [OF assms(2) k [unfolded ws_def]]
  show ?thesis
  proof (cases "current_pane_focus_target st = Some target")
    case True
    then show ?thesis using eq by (simp add: r_def target_def)
  next
    case False
    define st1 where "st1 = fst (switch_workspace_tab ws_idx k st)"
    have st1: "ap_workspaces st1 = (ap_workspaces st)[ws_idx := switch_tab k ws]" "ap_active st1 = Some ws_idx"
      "ap_selected st1 = ws_idx"
      using assms(2) p(1) by (simp_all add: st1_def switch_workspace_tab_def nth_opt_def Let_def ws_def)
    define ws' where "ws' = update_layout k (focus_pane i) (switch_tab k ws)"
    have ws': "ws_id ws' = ws_id ws" "focused_pane_id ws' = Some i"
      using p(1) mem by (simp_all add: ws'_def switch_tab_def update_layout_def see_all_def focused_pane_id_def
          active_tab_def nth_opt_def focus_pane_def set_focus_def)
    have r: "r = (mark_session_dirty (st1\<lparr>ap_workspaces := (ap_workspaces st)[ws_idx := ws'],
        ap_previous_pane_focus := current_pane_focus_target st\<rparr>), True)"
      using eq False assms(2) unfolding r_def target_def st1_def [symmetric] ws'_def
      by (simp add: Let_def st1(1))
    then have "current_pane_focus_target (fst r) = Some target"
      using assms(2) ws' st1(2) by (simp add: current_pane_focus_target_def nth_opt_def target_def ws_def)
    with r False st1 show ?thesis by simp
  qed
qed

lemma focus_pane_moves_focus_witness:
  "current_pane_focus_target (fst (focus_pane_in_workspace 0 1 demo_app)) =
     Some \<lparr>ft_workspace_id = ''w1'', ft_pane_id = 1\<rparr>"
proof -
  have "0 < length (ap_workspaces demo_app)" "1 \<in> live_panes (ap_workspaces demo_app ! 0)"
    by (simp_all add: demo_app_simps tab_entries_def)
  from focus_pane_moves_focus [OF demo_app_inv this] show ?thesis by (simp add: demo_app_simps)
qed

section \<open>The order of the workspaces\<close>

text \<open>
  Moving a workspace takes it to the insertion point and keeps the order of the others; the active
  and the selected workspace stay the same workspaces at their new places. A move to where it is, or out
  of range, changes nothing.
\<close>

lemma move_workspace_keeps_focus:
  assumes "app_inv st"
  shows "\<exists>st' moved. move_workspace s t st = Some (st', moved) \<and> app_inv st' \<and>
    (if s < length (ap_workspaces st) \<and> t \<le> length (ap_workspaces st) \<and> t \<noteq> s \<and> t \<noteq> s + 1
     then moved \<and> reordered st (vec_insert (if s < t then t - 1 else t) (ap_workspaces st ! s)
            (vec_remove s (ap_workspaces st))) st'
     else \<not> moved \<and> st' = st)"
  by (rule move_workspace_spec [OF assms])

lemma move_workspace_keeps_focus_witness:
  "\<exists>st' moved. move_workspace 0 2 demo_app = Some (st', moved) \<and>
     ap_workspaces st' = [demo_ws ''w2'' 2 ''t2'', demo_ws ''w1'' 1 ''t1''] \<and> ap_active st' = Some 0 \<and>
     ap_selected st' = 1"
proof -
  have "ap_workspaces demo_app = [demo_ws ''w1'' 1 ''t1'', demo_ws ''w2'' 2 ''t2'']" "ap_active demo_app = Some 1"
    "ap_selected demo_app = 0" "ws_id (demo_ws i p t) = i" for i p t by (simp_all add: demo_app_def demo_ws_def)
  then show ?thesis
    using move_workspace_keeps_focus [OF demo_app_inv, of 0 2]
    by (auto simp: reordered_def vec_insert_def vec_remove_def workspace_position_def)
qed

text \<open>
  Moving a block of workspaces changes nothing, or puts exactly the block, in the order it is given,
  before the named workspace or at the end, keeps the order of the others, loses no workspace, and keeps
  the active and the selected workspace.
\<close>

lemma move_block_orders_workspaces:
  assumes "app_inv st"
  shows "\<exists>st' moved. move_workspace_block block before st = Some (st', moved) \<and> app_inv st' \<and>
    (if moved then mset (ap_workspaces st') = mset (ap_workspaces st) \<and> reordered st (ap_workspaces st') st' \<and>
       map ws_id (ap_workspaces st') = block_order block before (map ws_id (ap_workspaces st))
     else st' = st)"
  by (rule move_workspace_block_spec [OF assms])

lemma move_block_orders_workspaces_witness:
  "\<exists>st' moved. move_workspace_block [''w2''] (Some ''w1'') demo_app = Some (st', moved) \<and> app_inv st'"
  using move_block_orders_workspaces [OF demo_app_inv, of "[''w2'']" "Some ''w1''"] by blast

section \<open>Events\<close>

text \<open>The report of an event, and what it says.\<close>

lemma handle_event_spec:
  assumes inv: "app_inv st" and ok: "event_ok ev" and call: "event_call clocks ev = Some (i, c)"
    and pane: "pane_of st i = Some pane"
  shows "\<exists>st' u. handle_app_event home is_dir clocks ev st = Some (st', case u of Some x \<Rightarrow> [x] | None \<Rightarrow> []) \<and>
    one_pane_changed i (pn_attached_terminal_id pane) st st' \<and> is_none_or u (marked_rightly i st) \<and>
    numbered_rightly (pn_attached_terminal_id pane) st st' u"
proof -
  have keep: "terminal_inv (fst (perform_call c t))" if "terminal_inv t" for t
    by (rule perform_call_inv [OF that event_call_ok [OF call ok]])
  obtain st' u where u: "update_terminal_state home (cl_update clocks) (cl_notify clocks) i (perform_call c) st = Some (st', u)"
    "one_pane_changed i (pn_attached_terminal_id pane) st st'" "is_none_or u (marked_rightly i st)"
    "numbered_rightly (pn_attached_terminal_id pane) st st' u"
    using update_terminal_spec [where upd = "perform_call c" and home = home and now = "cl_update clocks"
        and clk = "cl_notify clocks" and force = False, OF inv keep pane]
    unfolding update_terminal_state_def by blast
  have "handle_app_event home is_dir clocks ev st = Some (st', case u of Some x \<Rightarrow> [x] | None \<Rightarrow> [])"
    using u(1) call by (cases ev) (simp_all add: handle_app_event_def event_call_def split: if_splits)
  with u show ?thesis by blast
qed

text \<open>
  C17: An event about a pane's terminal changes that terminal and at most the mark of that pane. Every
  other terminal stays, the workspaces are the same with their tabs, layouts, names and focus but for
  the mark, and of the rest of the state only the toast, the queued notifications, the counter of changes
  and the dirty flag may change.
\<close>

theorem event_touches_one_pane:
  assumes "app_inv st" and "event_ok ev" and "event_call clocks ev = Some (i, c)" and "pane_of st i = Some pane"
  shows "\<exists>st' us. handle_app_event home is_dir clocks ev st = Some (st', us) \<and>
    one_pane_changed i (pn_attached_terminal_id pane) st st'"
  using handle_event_spec [OF assms, of home is_dir] by blast

definition demo_event :: app_event where
  "demo_event = StateChanged 1 (Some Pi) Working False True False 1"

lemma demo_event_call: "event_call clk demo_event = Some (1, Detect (Some Pi) Working False False True False 1 2)"
  "event_ok demo_event" "pane_of demo_app 1 = Some (pane_state_new ''t1'')"
  by (simp_all add: event_call_def demo_event_def clk_def pane_of_def demo_app_simps ws_pane_state_def hm_get_def)

theorem event_touches_one_pane_witness:
  "\<exists>st' us. handle_app_event None (\<lambda>_. True) clk demo_event demo_app = Some (st', us) \<and>
     one_pane_changed 1 ''t1'' demo_app st'"
  using event_touches_one_pane [OF demo_app_inv demo_event_call(2,1,3), of None "\<lambda>_. True"]
  by (simp add: pane_state_new_def)

text \<open>
  C18: A pane is marked as done only when its agent has finished, the completion is not suppressed, and
  the user was not looking: the pane is not in the active tab, or the window has lost the focus. To
  finish is to become idle after working or being blocked, or after an unknown state of the same agent;
  the first idle state of an agent does not mark the pane. A pane whose agent is not idle never is marked.
\<close>

theorem done_mark_only_in_background:
  assumes "app_inv st" and "event_ok ev" and "event_call clocks ev = Some (i, c)" and "pane_of st i = Some pane"
  shows "\<exists>st' us. handle_app_event home is_dir clocks ev st = Some (st', us) \<and> list_all (marked_rightly i st) us"
proof -
  obtain st' u where "handle_app_event home is_dir clocks ev st = Some (st', case u of Some x \<Rightarrow> [x] | None \<Rightarrow> [])"
    "is_none_or u (marked_rightly i st)"
    using handle_event_spec [OF assms, of home is_dir] by blast
  then show ?thesis by (cases u) auto
qed

theorem done_mark_only_in_background_witness:
  "\<exists>st' us. handle_app_event None (\<lambda>_. True) clk demo_event demo_app = Some (st', us) \<and>
     list_all (marked_rightly 1 demo_app) us"
  by (rule done_mark_only_in_background [OF demo_app_inv demo_event_call(2,1,3)])

text \<open>
  C19: Changes of state are numbered: an event that changes the state of a pane takes the next number,
  which is larger than all before it as long as the 64-bit counter has not wrapped around, and stores it
  in the terminal; any other event leaves the counter as it is.
\<close>

theorem state_changes_numbered:
  assumes "app_inv st" and "event_ok ev" and "event_call clocks ev = Some (i, c)" and "pane_of st i = Some pane"
    and "unat (ap_next_agent_state_change_seq st) + 1 < 2 ^ 64"
  shows "\<exists>st' us. handle_app_event home is_dir clocks ev st = Some (st', us) \<and>
    (if list_ex (\<lambda>u. pu_previous_state u \<noteq> pu_state u) us
     then unat (ap_next_agent_state_change_seq st') = unat (ap_next_agent_state_change_seq st) + 1 \<and>
       map_option ts_last_agent_state_change_seq (hm_get (ap_terminals st') (pn_attached_terminal_id pane)) =
         Some (Some (ap_next_agent_state_change_seq st'))
     else ap_next_agent_state_change_seq st' = ap_next_agent_state_change_seq st)"
proof -
  obtain st' u where e: "handle_app_event home is_dir clocks ev st = Some (st', case u of Some x \<Rightarrow> [x] | None \<Rightarrow> [])"
    "numbered_rightly (pn_attached_terminal_id pane) st st' u"
    using handle_event_spec [OF assms(1-4), of home is_dir] by blast
  have "unat (ap_next_agent_state_change_seq st + 1) = unat (ap_next_agent_state_change_seq st) + 1"
    using assms(5) by (subst unat_add_lem [THEN iffD1]) simp_all
  with e show ?thesis by (cases u) (auto simp: numbered_rightly_def state_changed_def split: if_splits)
qed

theorem state_changes_numbered_witness:
  "\<exists>st' us. handle_app_event None (\<lambda>_. True) clk demo_event demo_app = Some (st', us) \<and>
     unat (ap_next_agent_state_change_seq st') \<le> 1"
proof -
  have "ap_next_agent_state_change_seq demo_app = 0" by (simp add: demo_app_def)
  then obtain st' us where e: "handle_app_event None (\<lambda>_. True) clk demo_event demo_app = Some (st', us)"
    "if list_ex (\<lambda>u. pu_previous_state u \<noteq> pu_state u) us
     then unat (ap_next_agent_state_change_seq st') = 0 + 1 \<and>
       map_option ts_last_agent_state_change_seq (hm_get (ap_terminals st') (pn_attached_terminal_id (pane_state_new ''t1''))) =
         Some (Some (ap_next_agent_state_change_seq st'))
     else ap_next_agent_state_change_seq st' = 0"
    using state_changes_numbered [OF demo_app_inv demo_event_call(2,1,3), of None "\<lambda>_. True"] by auto
  then have "unat (ap_next_agent_state_change_seq st') \<le> 1" by (simp split: if_splits)
  with e(1) show ?thesis by blast
qed

section \<open>Due notifications\<close>



end
