(* ===== verification/Input_Keys.thy ===== *)
theory Input_Keys
  imports Rust_Str
begin

unbundle bit_operations_syntax

text \<open>
  A key of the terminal's host (\<open>input/model.rs\<close>): its code, modifiers, kind and source, the builders
  that keep its parts consistent, its identity, and the keyboard protocol of a pane. The codes and
  modifiers are those the program names of \<open>crossterm\<close>; a character is its scalar value. The Windows
  branches of the model are the ones that are compiled on Windows and in tests.
\<close>

section \<open>Codes, modifiers and kinds\<close>

datatype media_key = MediaPlay | MediaPause | MediaPlayPause | MediaReverse | MediaStop | MediaFastForward
  | MediaRewind | MediaTrackNext | MediaTrackPrevious | MediaRecord | MediaLowerVolume | MediaRaiseVolume
  | MediaMuteVolume

datatype modifier_key = LeftShift | LeftControl | LeftAlt | LeftSuper | LeftHyper | LeftMeta
  | RightShift | RightControl | RightAlt | RightSuper | RightHyper | RightMeta
  | IsoLevel3Shift | IsoLevel5Shift

datatype key_code = KChar nat | Enter | TabKey | Backspace | Esc | BackTab
  | LeftKey | RightKey | UpKey | DownKey | Home | EndKey | PageUp | PageDown | Insert | Delete | FKey nat
  | CapsLock | ScrollLock | NumLock | PrintScreen | PauseKey | Menu | KeypadBegin
  | Media media_key | ModifierKey modifier_key | NullKey

datatype modifier = SHIFT | ALT | CONTROL | SUPER | HYPER | META

type_synonym modifiers = "modifier set"

datatype key_kind = Press | Repeat | Release

record windows_key_record =
  wk_key_down :: bool
  wk_repeat_count :: "16 word"
  wk_virtual_key_code :: "16 word"
  wk_virtual_scan_code :: "16 word"
  wk_unicode :: "16 word"
  wk_control_key_state :: "32 word"

datatype key_source = Synthesized | Vt string | WindowsConsole windows_key_record "32 word option"

datatype key_identity = Physical "32 word" | Semantic key_code

record terminal_key =
  k_code :: key_code
  k_modifiers :: modifiers
  k_kind :: key_kind
  k_repeat_count :: "16 word"
  k_shifted_codepoint :: "nat option"
  k_generated_text :: "string option"
  k_physical_identity_hint :: bool
  k_windows_shift_dead_key :: bool
  k_source :: key_source

section \<open>Building a key\<close>

definition windows_physical_key_id :: "windows_key_record \<Rightarrow> 32 word option" where
  "windows_physical_key_id r =
     then_some (wk_virtual_scan_code r \<noteq> 0)
       (ucast (wk_virtual_scan_code r) OR
        push_bit 16 (if wk_control_key_state r AND 0x0100 \<noteq> 0 then 1 else 0))"

definition key_new :: "key_code \<Rightarrow> modifiers \<Rightarrow> terminal_key" where
  "key_new code mods =
     \<lparr>k_code = code, k_modifiers = mods, k_kind = Press, k_repeat_count = 1, k_shifted_codepoint = None,
      k_generated_text = None, k_physical_identity_hint = False, k_windows_shift_dead_key = False,
      k_source = Synthesized\<rparr>"

definition with_kind :: "terminal_key \<Rightarrow> key_kind \<Rightarrow> terminal_key" where
  "with_kind k kind =
     (let k' = (if kind = Release then k\<lparr>k_repeat_count := 1, k_generated_text := None\<rparr> else k)
      in k'\<lparr>k_kind := kind\<rparr>)"

definition with_repeat_count :: "terminal_key \<Rightarrow> 16 word \<Rightarrow> terminal_key" where
  "with_repeat_count k n = k\<lparr>k_repeat_count := (if k_kind k = Release then 1 else max n 1)\<rparr>"

definition with_modifiers :: "terminal_key \<Rightarrow> modifiers \<Rightarrow> terminal_key" where
  "with_modifiers k mods = k\<lparr>k_modifiers := mods\<rparr>"

definition with_shifted_codepoint :: "terminal_key \<Rightarrow> nat \<Rightarrow> terminal_key" where
  "with_shifted_codepoint k c = k\<lparr>k_shifted_codepoint := Some c\<rparr>"

definition with_generated_text :: "terminal_key \<Rightarrow> string option \<Rightarrow> terminal_key" where
  "with_generated_text k text = k\<lparr>k_generated_text := (if k_kind k = Release then None else text)\<rparr>"

definition with_vt_bytes :: "terminal_key \<Rightarrow> string \<Rightarrow> terminal_key" where
  "with_vt_bytes k bytes = k\<lparr>k_source := Vt bytes\<rparr>"

definition is_char_code :: "key_code \<Rightarrow> bool" where
  "is_char_code c = (case c of KChar _ \<Rightarrow> True | _ \<Rightarrow> False)"

definition with_windows_composition_hint :: "terminal_key \<Rightarrow> windows_key_record option \<Rightarrow> terminal_key" where
  "with_windows_composition_hint k r =
     k\<lparr>k_windows_shift_dead_key := is_char_code (k_code k) \<and> k_modifiers k = {SHIFT} \<and>
         (case r of None \<Rightarrow> False | Some r' \<Rightarrow> wk_unicode r' = 0)\<rparr>"

definition with_windows_record :: "terminal_key \<Rightarrow> windows_key_record \<Rightarrow> terminal_key" where
  "with_windows_record k r =
     (let k' = with_windows_composition_hint k (Some r);
          physical = windows_physical_key_id r
      in k'\<lparr>k_repeat_count := (if k_kind k' = Release then 1 else max (wk_repeat_count r) 1),
            k_physical_identity_hint := physical \<noteq> None,
            k_source := WindowsConsole r physical\<rparr>)"

definition with_physical_identity_hint :: "terminal_key \<Rightarrow> bool \<Rightarrow> terminal_key" where
  "with_physical_identity_hint k physical = k\<lparr>k_physical_identity_hint := physical\<rparr>"

section \<open>Reading a key\<close>

definition vt_bytes :: "terminal_key \<Rightarrow> string option" where
  "vt_bytes k = (case k_source k of Vt bytes \<Rightarrow> Some bytes | _ \<Rightarrow> None)"

definition windows_record :: "terminal_key \<Rightarrow> windows_key_record option" where
  "windows_record k = (case k_source k of WindowsConsole r _ \<Rightarrow> Some r | _ \<Rightarrow> None)"

definition key_identity_of :: "terminal_key \<Rightarrow> key_identity" where
  "key_identity_of k =
     (case k_source k of
        WindowsConsole _ (Some physical) \<Rightarrow> Physical physical
      | WindowsConsole _ None \<Rightarrow> Semantic (k_code k)
      | _ \<Rightarrow> Semantic (k_code k))"

definition physical_key_id :: "terminal_key \<Rightarrow> 32 word option" where
  "physical_key_id k = (case k_source k of WindowsConsole _ p \<Rightarrow> p | _ \<Rightarrow> None)"

definition has_physical_identity :: "terminal_key \<Rightarrow> bool" where
  "has_physical_identity k \<longleftrightarrow> k_physical_identity_hint k \<or> physical_key_id k \<noteq> None"

text \<open>The test for an upper case letter (\<open>char::is_uppercase\<close>) covers all of Unicode: a parameter.\<close>

definition with_text_commit :: "(nat \<Rightarrow> bool) \<Rightarrow> terminal_key \<Rightarrow> terminal_key" where
  "with_text_commit is_uppercase k =
     (let text_only = (case k_code k of
          KChar c \<Rightarrow> if is_uppercase c then k_modifiers k = {SHIFT} \<or> k_modifiers k = {} else k_modifiers k = {}
        | _ \<Rightarrow> False)
      in if text_only \<and> k_kind k = Press
         then k\<lparr>k_generated_text := (case k_code k of KChar c \<Rightarrow> Some (encode_utf8 c) | _ \<Rightarrow> None)\<rparr>
         else k)"

definition key_from_event :: "key_code \<Rightarrow> modifiers \<Rightarrow> key_kind \<Rightarrow> terminal_key" where
  "key_from_event code mods kind = with_kind (key_new code mods) kind"

section \<open>Protocols\<close>

definition KITTY_FLAG_REPORT_EVENT_TYPES :: "16 word" where
  "KITTY_FLAG_REPORT_EVENT_TYPES = 2"

definition KITTY_FLAG_REPORT_ALTERNATE_KEYS :: "16 word" where
  "KITTY_FLAG_REPORT_ALTERNATE_KEYS = 4"

definition KITTY_FLAG_REPORT_ALL_KEYS :: "16 word" where
  "KITTY_FLAG_REPORT_ALL_KEYS = 8"

definition KITTY_FLAG_REPORT_ASSOCIATED_TEXT :: "16 word" where
  "KITTY_FLAG_REPORT_ASSOCIATED_TEXT = 16"

definition has_flag :: "16 word \<Rightarrow> 16 word \<Rightarrow> bool" where
  "has_flag flags flag \<longleftrightarrow> flags AND flag \<noteq> 0"

datatype keyboard_protocol = Legacy | Kitty "16 word"

definition from_kitty_flags :: "16 word \<Rightarrow> keyboard_protocol" where
  "from_kitty_flags flags = (if flags = 0 then Legacy else Kitty flags)"

definition reports_event_types :: "keyboard_protocol \<Rightarrow> bool" where
  "reports_event_types p = (case p of Kitty flags \<Rightarrow> has_flag flags KITTY_FLAG_REPORT_EVENT_TYPES | Legacy \<Rightarrow> False)"

definition reports_all_keys :: "keyboard_protocol \<Rightarrow> bool" where
  "reports_all_keys p = (case p of Kitty flags \<Rightarrow> has_flag flags KITTY_FLAG_REPORT_ALL_KEYS | Legacy \<Rightarrow> False)"

datatype modify_other_keys_mode = Mode1 | Mode2

definition set_sequence :: "modify_other_keys_mode \<Rightarrow> string" where
  "set_sequence m = (case m of Mode1 \<Rightarrow> CHR 0x1B # ''[>4;1m'' | Mode2 \<Rightarrow> CHR 0x1B # ''[>4;2m'')"

definition host_modify_other_keys_mode_for_env ::
  "bool \<Rightarrow> string option \<Rightarrow> bool \<Rightarrow> bool \<Rightarrow> modify_other_keys_mode option" where
  "host_modify_other_keys_mode_for_env in_tmux term_program wezterm_pane alacritty_window_id =
     (if in_tmux then Some Mode2
      else if wezterm_pane \<or> alacritty_window_id \<or>
        (case term_program of None \<Rightarrow> False | Some p \<Rightarrow> eq_ignore_ascii_case p ''wezterm'')
      then Some Mode1 else None)"

datatype mouse_protocol_mode = MouseNone | MousePress | MousePressRelease | ButtonMotion | AnyMotion

datatype mouse_protocol_encoding = MouseDefault | MouseUtf8 | Sgr | SgrPixels

section \<open>A released key is plain\<close>

text \<open>
  However a key is built, a released key counts once and carries no text: the invariant that every
  builder keeps (the text commit only touches presses).
\<close>

definition key_ok :: "terminal_key \<Rightarrow> bool" where
  "key_ok k \<longleftrightarrow> 1 \<le> k_repeat_count k \<and> (k_kind k = Release \<longrightarrow> k_repeat_count k = 1 \<and> k_generated_text k = None)"

datatype key_builder = BKind key_kind | BRepeat "16 word" | BModifiers modifiers | BShifted nat
  | BText "string option" | BVt string | BHint "windows_key_record option" | BRecord windows_key_record
  | BPhysical bool | BCommit

fun build_key :: "(nat \<Rightarrow> bool) \<Rightarrow> terminal_key \<Rightarrow> key_builder \<Rightarrow> terminal_key" where
  "build_key up k (BKind kind) = with_kind k kind"
| "build_key up k (BRepeat n) = with_repeat_count k n"
| "build_key up k (BModifiers mods) = with_modifiers k mods"
| "build_key up k (BShifted c) = with_shifted_codepoint k c"
| "build_key up k (BText t) = with_generated_text k t"
| "build_key up k (BVt bytes) = with_vt_bytes k bytes"
| "build_key up k (BHint r) = with_windows_composition_hint k r"
| "build_key up k (BRecord r) = with_windows_record k r"
| "build_key up k (BPhysical h) = with_physical_identity_hint k h"
| "build_key up k BCommit = with_text_commit up k"

lemmas key_builders = with_kind_def with_repeat_count_def with_modifiers_def with_shifted_codepoint_def
  with_generated_text_def with_vt_bytes_def with_windows_composition_hint_def with_windows_record_def
  with_physical_identity_hint_def with_text_commit_def

lemma key_new_ok: "key_ok (key_new code mods)"
  by (simp add: key_ok_def key_new_def)

lemma build_key_ok: "key_ok k \<Longrightarrow> key_ok (build_key up k b)"
  by (cases b) (auto simp: key_builders key_ok_def Let_def max_def)

lemma built_key_ok: "key_ok (foldl (build_key up) (key_new code mods) bs)"
proof -
  have "key_ok k \<Longrightarrow> key_ok (foldl (build_key up) k bs)" for k
    by (induction bs arbitrary: k) (simp_all add: build_key_ok)
  then show ?thesis using key_new_ok by blast
qed

end
