(* ===== verification/Input_Encode.thy ===== *)
theory Input_Encode
  imports Input_Keys
begin

text \<open>
  Keys and mouse events as the bytes of a pane's child (\<open>input/encode.rs\<close>): the text of a key, the kitty
  protocol's \<open>CSI u\<close> sequences, the legacy sequences with their xterm modifiers, and the mouse reports
  of the four encodings.
\<close>

abbreviation (input) ESC :: char where
  "ESC \<equiv> CHR 0x1B"

section \<open>ASCII characters as scalar values\<close>

definition is_upper_code :: "nat \<Rightarrow> bool" where
  "is_upper_code c \<longleftrightarrow> 65 \<le> c \<and> c \<le> 90"

definition is_lower_code :: "nat \<Rightarrow> bool" where
  "is_lower_code c \<longleftrightarrow> 97 \<le> c \<and> c \<le> 122"

definition upper_code :: "nat \<Rightarrow> nat" where
  "upper_code c = (if is_lower_code c then c - 32 else c)"

definition lower_code :: "nat \<Rightarrow> nat" where
  "lower_code c = (if is_upper_code c then c + 32 else c)"

text \<open>\<open>char::is_control\<close>: the Unicode category \<open>Cc\<close>.\<close>

definition is_control_code :: "nat \<Rightarrow> bool" where
  "is_control_code c \<longleftrightarrow> c < 32 \<or> 127 \<le> c \<and> c < 160"

section \<open>Modifiers\<close>

definition xterm_modifier :: "modifiers \<Rightarrow> nat" where
  "xterm_modifier mods =
     1 + (if SHIFT \<in> mods then 1 else 0) + (if ALT \<in> mods then 2 else 0) + (if CONTROL \<in> mods then 4 else 0)"

definition kitty_modifier :: "modifiers \<Rightarrow> nat" where
  "kitty_modifier mods =
     xterm_modifier mods + (if SUPER \<in> mods then 8 else 0) + (if HYPER \<in> mods then 16 else 0) +
       (if META \<in> mods then 32 else 0)"

section \<open>Text\<close>

definition is_shifted_ascii_punctuation :: "nat \<Rightarrow> bool" where
  "is_shifted_ascii_punctuation c \<longleftrightarrow> c \<in> set (map byte ''!@#$%^&*()_+{}|:<>?~'') \<or> c = 34"

definition shifted_text_char :: "terminal_key \<Rightarrow> nat \<Rightarrow> nat option" where
  "shifted_text_char k c =
     (case Option.bind (k_shifted_codepoint k) char_from_u32 of
        Some shifted \<Rightarrow> Some shifted
      | None \<Rightarrow>
          if is_upper_code c then Some c
          else if is_lower_code c then Some (upper_code c)
          else if is_shifted_ascii_punctuation c then Some c else None)"

definition text_char_for_key :: "terminal_key \<Rightarrow> nat option" where
  "text_char_for_key k =
     (if k_kind k = Release then None
      else case k_code k of
        KChar c \<Rightarrow> if k_modifiers k = {} then Some c
                   else if k_modifiers k = {SHIFT} then shifted_text_char k c else None
      | _ \<Rightarrow> None)"

definition text_codepoint_for_key :: "terminal_key \<Rightarrow> nat option" where
  "text_codepoint_for_key k = Option.bind (text_char_for_key k) (\<lambda>c. then_some (\<not> is_control_code c) c)"

definition encode_text_input :: "terminal_key \<Rightarrow> string option" where
  "encode_text_input k = map_option encode_utf8 (text_char_for_key k)"

section \<open>The kitty protocol\<close>

definition canonical_kitty_char :: "nat \<Rightarrow> modifiers \<Rightarrow> nat" where
  "canonical_kitty_char c mods = (if SHIFT \<in> mods \<and> is_upper_code c then lower_code c else c)"

definition alternate_shifted_codepoint :: "terminal_key \<Rightarrow> 16 word \<Rightarrow> nat option" where
  "alternate_shifted_codepoint k flags =
     (if \<not> has_flag flags KITTY_FLAG_REPORT_ALTERNATE_KEYS then None
      else case k_shifted_codepoint k of
        Some shifted \<Rightarrow> Some shifted
      | None \<Rightarrow> (case k_code k of
            KChar c \<Rightarrow> if SHIFT \<in> k_modifiers k \<and> is_upper_code c then Some c else None
          | _ \<Rightarrow> None))"

definition kitty_event_suffix :: "terminal_key \<Rightarrow> 16 word \<Rightarrow> nat option" where
  "kitty_event_suffix k flags =
     (if \<not> has_flag flags KITTY_FLAG_REPORT_EVENT_TYPES then None
      else Some (case k_kind k of Press \<Rightarrow> 1 | Repeat \<Rightarrow> 2 | Release \<Rightarrow> 3))"

definition legacy_special :: "key_code \<Rightarrow> bool" where
  "legacy_special code =
     (case code of
        UpKey \<Rightarrow> True | DownKey \<Rightarrow> True | LeftKey \<Rightarrow> True | RightKey \<Rightarrow> True | Home \<Rightarrow> True | EndKey \<Rightarrow> True
      | PageUp \<Rightarrow> True | PageDown \<Rightarrow> True | Insert \<Rightarrow> True | Delete \<Rightarrow> True | FKey _ \<Rightarrow> True | _ \<Rightarrow> False)"

definition kitty_codepoint :: "terminal_key \<Rightarrow> 16 word \<Rightarrow> (nat \<times> nat option) option" where
  "kitty_codepoint k flags =
     (case k_code k of
        KChar c \<Rightarrow> Some (canonical_kitty_char c (k_modifiers k), alternate_shifted_codepoint k flags)
      | Enter \<Rightarrow> Some (13, None)
      | TabKey \<Rightarrow> Some (9, None)
      | Backspace \<Rightarrow> Some (127, None)
      | Esc \<Rightarrow> Some (27, None)
      | LeftKey \<Rightarrow> Some (57417, None)
      | RightKey \<Rightarrow> Some (57418, None)
      | UpKey \<Rightarrow> Some (57419, None)
      | DownKey \<Rightarrow> Some (57420, None)
      | PageUp \<Rightarrow> Some (57421, None)
      | PageDown \<Rightarrow> Some (57422, None)
      | Home \<Rightarrow> Some (57423, None)
      | EndKey \<Rightarrow> Some (57424, None)
      | Insert \<Rightarrow> Some (57425, None)
      | Delete \<Rightarrow> Some (57426, None)
      | _ \<Rightarrow> None)"

definition try_encode_csi_u :: "terminal_key \<Rightarrow> 16 word \<Rightarrow> string option" where
  "try_encode_csi_u k flags =
     (let mods = k_modifiers k;
          event_suffix = kitty_event_suffix k flags;
          report_all_keys = has_flag flags KITTY_FLAG_REPORT_ALL_KEYS
      in if \<not> report_all_keys \<and> mods = {} \<and> k_code k \<in> {Enter, TabKey, Backspace} then None
         else if mods = {} \<and> event_suffix = None \<and> \<not> report_all_keys then None
         else if legacy_special (k_code k) \<and> event_suffix = None \<and> \<not> report_all_keys then None
         else
           map_option (\<lambda>(codepoint, alternate_shifted).
             ESC # ''['' @ decimal codepoint @
             (case alternate_shifted of Some shifted \<Rightarrow> '':'' @ decimal shifted | None \<Rightarrow> []) @
             '';'' @ decimal (kitty_modifier mods) @
             (case event_suffix of Some event \<Rightarrow> '':'' @ decimal event | None \<Rightarrow> []) @
             (if has_flag flags KITTY_FLAG_REPORT_ASSOCIATED_TEXT
              then case text_codepoint_for_key k of Some text \<Rightarrow> '';'' @ decimal text | None \<Rightarrow> []
              else []) @ ''u'')
           (kitty_codepoint k flags))"

section \<open>Legacy sequences\<close>

definition encode_f_key :: "nat \<Rightarrow> string" where
  "encode_f_key n =
     (if n = 1 then ESC # ''OP'' else if n = 2 then ESC # ''OQ'' else if n = 3 then ESC # ''OR''
      else if n = 4 then ESC # ''OS'' else if n = 5 then ESC # ''[15~'' else if n = 6 then ESC # ''[17~''
      else if n = 7 then ESC # ''[18~'' else if n = 8 then ESC # ''[19~'' else if n = 9 then ESC # ''[20~''
      else if n = 10 then ESC # ''[21~'' else if n = 11 then ESC # ''[23~''
      else if n = 12 then ESC # ''[24~'' else [])"

definition control_byte :: "nat \<Rightarrow> nat" where
  "control_byte c =
     (let upper = upper_code c
      in if 65 \<le> upper \<and> upper \<le> 90 then upper - 64
         else if upper \<in> {32, 64, 50} then 0
         else if upper \<in> {91, 51} then 27
         else if upper \<in> {92, 52} then 28
         else if upper \<in> {93, 53} then 29
         else if upper \<in> {94, 54} then 30
         else if upper \<in> {95, 47, 55, 45} then 31
         else c mod 256)"

definition encode_legacy_inner :: "terminal_key \<Rightarrow> string" where
  "encode_legacy_inner k =
     (case k_code k of
        KChar c \<Rightarrow>
          if CONTROL \<in> k_modifiers k then [char_of (control_byte c)]
          else encode_utf8 (if k_modifiers k = {SHIFT}
                 then (case shifted_text_char k c of Some s \<Rightarrow> s | None \<Rightarrow> c) else c)
      | Enter \<Rightarrow> [CHR 0x0D]
      | Backspace \<Rightarrow> [CHR 0x7F]
      | TabKey \<Rightarrow> [CHR 0x09]
      | BackTab \<Rightarrow> ESC # ''[Z''
      | Esc \<Rightarrow> [ESC]
      | LeftKey \<Rightarrow> ESC # ''[D''
      | RightKey \<Rightarrow> ESC # ''[C''
      | UpKey \<Rightarrow> ESC # ''[A''
      | DownKey \<Rightarrow> ESC # ''[B''
      | Home \<Rightarrow> ESC # ''[H''
      | EndKey \<Rightarrow> ESC # ''[F''
      | PageUp \<Rightarrow> ESC # ''[5~''
      | PageDown \<Rightarrow> ESC # ''[6~''
      | Delete \<Rightarrow> ESC # ''[3~''
      | Insert \<Rightarrow> ESC # ''[2~''
      | FKey n \<Rightarrow> encode_f_key n
      | _ \<Rightarrow> [])"

definition csi_letter :: "nat \<Rightarrow> string \<Rightarrow> string" where
  "csi_letter modifier letter = ESC # ''[1;'' @ decimal modifier @ letter"

definition csi_tilde :: "string \<Rightarrow> nat \<Rightarrow> string" where
  "csi_tilde code modifier = ESC # ''['' @ code @ '';'' @ decimal modifier @ ''~''"

definition encode_modified_f_key :: "nat \<Rightarrow> nat \<Rightarrow> string option" where
  "encode_modified_f_key n m =
     (if n = 1 then Some (csi_letter m ''P'') else if n = 2 then Some (csi_letter m ''Q'')
      else if n = 3 then Some (csi_letter m ''R'') else if n = 4 then Some (csi_letter m ''S'')
      else if n = 5 then Some (csi_tilde ''15'' m) else if n = 6 then Some (csi_tilde ''17'' m)
      else if n = 7 then Some (csi_tilde ''18'' m) else if n = 8 then Some (csi_tilde ''19'' m)
      else if n = 9 then Some (csi_tilde ''20'' m) else if n = 10 then Some (csi_tilde ''21'' m)
      else if n = 11 then Some (csi_tilde ''23'' m) else if n = 12 then Some (csi_tilde ''24'' m) else None)"

definition encode_modified_special :: "key_code \<Rightarrow> modifiers \<Rightarrow> string option" where
  "encode_modified_special code mods =
     (let m = xterm_modifier mods
      in if m \<le> 1 then None
         else case code of
           UpKey \<Rightarrow> Some (csi_letter m ''A'')
         | DownKey \<Rightarrow> Some (csi_letter m ''B'')
         | RightKey \<Rightarrow> Some (csi_letter m ''C'')
         | LeftKey \<Rightarrow> Some (csi_letter m ''D'')
         | Home \<Rightarrow> Some (csi_letter m ''H'')
         | EndKey \<Rightarrow> Some (csi_letter m ''F'')
         | Insert \<Rightarrow> Some (csi_tilde ''2'' m)
         | Delete \<Rightarrow> Some (csi_tilde ''3'' m)
         | PageUp \<Rightarrow> Some (csi_tilde ''5'' m)
         | PageDown \<Rightarrow> Some (csi_tilde ''6'' m)
         | FKey n \<Rightarrow> encode_modified_f_key n m
         | _ \<Rightarrow> None)"

definition encode_legacy :: "terminal_key \<Rightarrow> string" where
  "encode_legacy k =
     (let mods = k_modifiers k
      in case (if mods \<noteq> {} then encode_modified_special (k_code k) mods else None) of
           Some bytes \<Rightarrow> bytes
         | None \<Rightarrow>
             if ALT \<in> mods then ESC # encode_legacy_inner (with_modifiers k (mods - {ALT}))
             else encode_legacy_inner k)"

section \<open>A key of a pane\<close>

definition encode_terminal_key :: "terminal_key \<Rightarrow> keyboard_protocol \<Rightarrow> string" where
  "encode_terminal_key k protocol =
     (let csi_u = (case protocol of Kitty flags \<Rightarrow> try_encode_csi_u k flags | Legacy \<Rightarrow> None);
          preserve_physical_key = has_physical_identity k \<and> reports_all_keys protocol;
          kitty_first = reports_all_keys protocol \<or> k_kind k = Release \<and> reports_event_types protocol
      in if protocol \<noteq> Legacy \<and> k_windows_shift_dead_key k then []
         else if \<not> preserve_physical_key \<and> k_kind k \<noteq> Release \<and> k_generated_text k \<noteq> None
         then the (k_generated_text k)
         else if k_kind k = Release \<and> \<not> reports_event_types protocol then []
         else if kitty_first \<and> csi_u \<noteq> None then the csi_u
         else case encode_text_input k of
           Some bytes \<Rightarrow> bytes
         | None \<Rightarrow>
             if \<not> kitty_first \<and> csi_u \<noteq> None then the csi_u
             else if k_kind k = Release \<and> reports_event_types protocol then []
             else encode_legacy k)"

definition encode_key :: "key_code \<Rightarrow> modifiers \<Rightarrow> key_kind \<Rightarrow> keyboard_protocol \<Rightarrow> string" where
  "encode_key code mods kind protocol = encode_terminal_key (key_from_event code mods kind) protocol"

definition encode_cursor_key :: "key_code \<Rightarrow> bool \<Rightarrow> string" where
  "encode_cursor_key code application_cursor =
     (case (code, application_cursor) of
        (UpKey, True) \<Rightarrow> ESC # ''OA''
      | (DownKey, True) \<Rightarrow> ESC # ''OB''
      | (RightKey, True) \<Rightarrow> ESC # ''OC''
      | (LeftKey, True) \<Rightarrow> ESC # ''OD''
      | (UpKey, False) \<Rightarrow> ESC # ''[A''
      | (DownKey, False) \<Rightarrow> ESC # ''[B''
      | (RightKey, False) \<Rightarrow> ESC # ''[C''
      | (LeftKey, False) \<Rightarrow> ESC # ''[D''
      | _ \<Rightarrow> encode_legacy (key_from_event code {} Press))"

section \<open>Mouse events\<close>

datatype mouse_button = LeftButton | MiddleButton | RightButton

datatype mouse_kind = Down mouse_button | Up mouse_button | Drag mouse_button | Moved
  | ScrollUp | ScrollDown | ScrollLeft | ScrollRight

definition push_mouse_codepoint :: "string \<Rightarrow> nat \<Rightarrow> string option" where
  "push_mouse_codepoint bytes v = map_option (\<lambda>c. bytes @ encode_utf8 c) (char_from_u32 v)"

definition u8_of :: "nat \<Rightarrow> nat option" where
  "u8_of n = then_some (n < 256) n"

definition mouse_cb :: "nat \<Rightarrow> bool \<Rightarrow> modifiers \<Rightarrow> mouse_protocol_encoding \<Rightarrow> nat" where
  "mouse_cb base_button release mods encoding =
     (if release \<and> encoding \<noteq> Sgr \<and> encoding \<noteq> SgrPixels then 3 else base_button) +
     (if SHIFT \<in> mods then 4 else 0) + (if ALT \<in> mods then 8 else 0) + (if CONTROL \<in> mods then 16 else 0)"

definition encode_mouse_cb ::
  "nat \<Rightarrow> bool \<Rightarrow> nat \<Rightarrow> nat \<Rightarrow> modifiers \<Rightarrow> mouse_protocol_encoding \<Rightarrow> string option" where
  "encode_mouse_cb base_button release column row mods encoding =
     (let cb = mouse_cb base_button release mods encoding;
          column' = column + 1; row' = row + 1;
          sgr = ESC # ''[<'' @ decimal cb @ '';'' @ decimal column' @ '';'' @ decimal row' @
            (if release then ''m'' else ''M'')
      in case encoding of
           Sgr \<Rightarrow> Some sgr
         | SgrPixels \<Rightarrow> Some sgr
         | MouseDefault \<Rightarrow>
             Option.bind (u8_of (cb + 32)) (\<lambda>b. Option.bind (u8_of (column' + 32)) (\<lambda>c.
             map_option (\<lambda>r. ESC # ''[M'' @ [char_of b, char_of c, char_of r]) (u8_of (row' + 32))))
         | MouseUtf8 \<Rightarrow>
             Option.bind (push_mouse_codepoint (ESC # ''[M'') (cb + 32)) (\<lambda>bytes.
             Option.bind (push_mouse_codepoint bytes (column' + 32)) (\<lambda>bytes.
             push_mouse_codepoint bytes (row' + 32))))"

definition encode_mouse_scroll ::
  "mouse_kind \<Rightarrow> nat \<Rightarrow> nat \<Rightarrow> modifiers \<Rightarrow> mouse_protocol_encoding \<Rightarrow> string option" where
  "encode_mouse_scroll kind column row mods encoding =
     Option.bind
       (case kind of ScrollUp \<Rightarrow> Some 64 | ScrollDown \<Rightarrow> Some 65 | ScrollLeft \<Rightarrow> Some 66 | ScrollRight \<Rightarrow> Some 67
        | _ \<Rightarrow> None)
       (\<lambda>button. encode_mouse_cb button False column row mods encoding)"

fun button_index :: "mouse_button \<Rightarrow> nat" where
  "button_index LeftButton = 0"
| "button_index MiddleButton = 1"
| "button_index RightButton = 2"

definition encode_mouse_button ::
  "mouse_kind \<Rightarrow> nat \<Rightarrow> nat \<Rightarrow> modifiers \<Rightarrow> mouse_protocol_encoding \<Rightarrow> string option" where
  "encode_mouse_button kind column row mods encoding =
     Option.bind
       (case kind of
          Down b \<Rightarrow> Some (button_index b, False)
        | Up b \<Rightarrow> Some (button_index b, True)
        | Drag b \<Rightarrow> Some (32 + button_index b, False)
        | _ \<Rightarrow> None)
       (\<lambda>(button, release). encode_mouse_cb button release column row mods encoding)"

end
