(* ===== verification/Input_Parse.thy ===== *)
theory Input_Parse
  imports Input_Encode
begin

text \<open>
  Reading a key back from the host's terminal (\<open>input/parse.rs\<close>): the kitty protocol's sequences, xterm's
  \<open>modifyOtherKeys\<close> sequences, and the legacy sequences and bytes. A sequence is a string of UTF-8 bytes.
  With it, the encoder of a pane (\<open>pane/terminal.rs\<close>, \<open>pane/input.rs\<close>) on Unix, which lets Ghostty encode
  a key where it keeps the kind of the event, and falls back on \<open>input/encode.rs\<close>. Ghostty's encoder is a
  parameter: the bytes it gives for an event, or \<open>None\<close> where the event or the bytes cannot be had.
\<close>

definition u8_max :: nat where
  "u8_max = 255"

definition codepoint_max :: nat where
  "codepoint_max = 2 ^ 32 - 1"

section \<open>Parts of a sequence\<close>

definition key_modifiers_from_u8 :: "nat \<Rightarrow> modifiers" where
  "key_modifiers_from_u8 m =
     (if odd m then {SHIFT} else {}) \<union> (if odd (m div 2) then {ALT} else {}) \<union>
     (if odd (m div 4) then {CONTROL} else {}) \<union> (if odd (m div 8) then {SUPER} else {}) \<union>
     (if odd (m div 16) then {HYPER} else {}) \<union> (if odd (m div 32) then {META} else {})"

definition is_kitty_functional_codepoint :: "nat \<Rightarrow> bool" where
  "is_kitty_functional_codepoint c \<longleftrightarrow> 57358 \<le> c \<and> c \<le> 57454"

text \<open>The functional keys from \<open>57399\<close> on, in the order of their code points.\<close>

definition kitty_keys_from_57399 :: "key_code list" where
  "kitty_keys_from_57399 =
     map (KChar \<circ> byte) ''0123456789./*-+'' @ [Enter, KChar 61, KChar 44] @
     [LeftKey, RightKey, UpKey, DownKey, PageUp, PageDown, Home, EndKey, Insert, Delete, KeypadBegin] @
     map Media [MediaPlay, MediaPause, MediaPlayPause, MediaReverse, MediaStop, MediaFastForward, MediaRewind,
       MediaTrackNext, MediaTrackPrevious, MediaRecord, MediaLowerVolume, MediaRaiseVolume, MediaMuteVolume] @
     map ModifierKey [LeftShift, LeftControl, LeftAlt, LeftSuper, LeftHyper, LeftMeta,
       RightShift, RightControl, RightAlt, RightSuper, RightHyper, RightMeta, IsoLevel3Shift, IsoLevel5Shift]"

definition kitty_codepoint_to_keycode :: "nat \<Rightarrow> key_code option" where
  "kitty_codepoint_to_keycode c =
     (if c = 8 \<or> c = 127 then Some Backspace
      else if c = 9 then Some TabKey
      else if c = 13 then Some Enter
      else if c = 27 then Some Esc
      else if 57358 \<le> c \<and> c \<le> 57363
      then Some ([CapsLock, ScrollLock, NumLock, PrintScreen, PauseKey, Menu] ! (c - 57358))
      else if 57376 \<le> c \<and> c \<le> 57398 then Some (FKey ((c - 57376 + 13) mod 256))
      else if 57399 \<le> c \<and> c \<le> 57454 then Some (kitty_keys_from_57399 ! (c - 57399))
      else if is_kitty_functional_codepoint c then None
      else map_option KChar (char_from_u32 c))"

definition parse_kitty_event_type :: "string option \<Rightarrow> key_kind option" where
  "parse_kitty_event_type v =
     (let s = (case v of Some s \<Rightarrow> s | None \<Rightarrow> ''1'')
      in if s = ''1'' then Some Press else if s = ''2'' then Some Repeat
         else if s = ''3'' then Some Release else None)"

definition split_modifier_and_event :: "string \<Rightarrow> string \<times> string option" where
  "split_modifier_and_event s =
     (case split_once CHR '':'' s of
        Some (modifier, event) \<Rightarrow> if modifier \<noteq> [] then (modifier, Some event) else (s, None)
      | None \<Rightarrow> (s, None))"

fun parse_text_codepoints :: "string list \<Rightarrow> string \<Rightarrow> string option" where
  "parse_text_codepoints [] text = Some text"
| "parse_text_codepoints (f # fs) text =
     Option.bind (Option.bind (parse_uint codepoint_max f) char_from_u32) (\<lambda>c.
     if is_control_code c then None else parse_text_codepoints fs (text @ encode_utf8 c))"

definition parse_kitty_associated_text :: "string \<Rightarrow> string option" where
  "parse_kitty_associated_text v =
     opt_filter (\<lambda>t. t \<noteq> []) (parse_text_codepoints (split_on (\<lambda>c. c = CHR '':'') v) [])"

definition parse_modifier :: "string \<Rightarrow> nat option" where
  "parse_modifier s = Option.bind (parse_uint u8_max s) (\<lambda>m. if 1 \<le> m then Some (m - 1) else None)"

section \<open>Kitty sequences\<close>

definition parse_kitty_key ::
  "string \<Rightarrow> string \<Rightarrow> string option \<Rightarrow> terminal_key option" where
  "parse_kitty_key key_part modifier_part associated_text =
     (let (modifier_text, event_type) = split_modifier_and_event modifier_part;
          key_fields = split_on (\<lambda>c. c = CHR '':'') key_part
      in Option.bind (parse_modifier modifier_text) (\<lambda>modifier.
         Option.bind (parse_uint codepoint_max (hd key_fields)) (\<lambda>codepoint.
         let shifted =
           (case tl key_fields of
              f # _ \<Rightarrow> if f \<noteq> [] then parse_uint codepoint_max f else None
            | [] \<Rightarrow> None)
         in Option.bind (kitty_codepoint_to_keycode codepoint) (\<lambda>code.
            Option.bind (parse_kitty_event_type event_type) (\<lambda>kind.
            let contradicts = (case shifted of
                  Some s \<Rightarrow> is_char_code code \<and> s \<noteq> codepoint \<and> char_from_u32 s \<noteq> None
                | None \<Rightarrow> False);
                mods = key_modifiers_from_u8 modifier \<union> (if contradicts then {SHIFT} else {});
                key = with_kind (key_new code mods) kind;
                key' = (case shifted of Some s \<Rightarrow> with_shifted_codepoint key s | None \<Rightarrow> key)
            in Some (with_generated_text key' associated_text))))))"

definition parse_kitty_key_sequence :: "string \<Rightarrow> terminal_key option" where
  "parse_kitty_key_sequence data =
     Option.bind (strip_prefix data (ESC # ''['')) (\<lambda>rest.
     Option.bind (strip_suffix rest ''u'') (\<lambda>body.
     case split_on (\<lambda>c. c = CHR '';'') body of
       [key_part] \<Rightarrow> parse_kitty_key key_part ''1'' None
     | [key_part, m] \<Rightarrow> parse_kitty_key key_part (if m \<noteq> [] then m else ''1'') None
     | [key_part, m, text] \<Rightarrow>
         Option.bind (parse_kitty_associated_text text) (\<lambda>t.
         parse_kitty_key key_part (if m \<noteq> [] then m else ''1'') (Some t))
     | _ \<Rightarrow> None))"

section \<open>modifyOtherKeys sequences\<close>

definition parse_modify_other_keys_sequence :: "string \<Rightarrow> terminal_key option" where
  "parse_modify_other_keys_sequence data =
     Option.bind (strip_prefix data (ESC # ''[27;'')) (\<lambda>rest.
     Option.bind (strip_suffix rest ''~'') (\<lambda>body.
     Option.bind (split_once CHR '';'' body) (\<lambda>(modifier_part, codepoint_part).
     Option.bind (parse_modifier modifier_part) (\<lambda>modifier.
     Option.bind (parse_uint codepoint_max codepoint_part) (\<lambda>codepoint.
     map_option (\<lambda>code. key_new code (key_modifiers_from_u8 modifier))
       (kitty_codepoint_to_keycode codepoint))))))"

section \<open>Legacy sequences\<close>

definition split_xterm_modifier_and_event :: "string \<Rightarrow> (string \<times> string option) option" where
  "split_xterm_modifier_and_event input =
     map_option split_modifier_and_event
       (case split_once CHR '';'' input of
          Some (modifier_and_event, text) \<Rightarrow>
            map_option (\<lambda>_. modifier_and_event) (parse_kitty_associated_text text)
        | None \<Rightarrow> Some input)"

definition xterm_letter_keys :: "(char \<times> key_code) list" where
  "xterm_letter_keys =
     [(CHR ''A'', UpKey), (CHR ''B'', DownKey), (CHR ''C'', RightKey), (CHR ''D'', LeftKey), (CHR ''H'', Home),
      (CHR ''F'', EndKey), (CHR ''P'', FKey 1), (CHR ''Q'', FKey 2), (CHR ''R'', FKey 3), (CHR ''S'', FKey 4)]"

definition xterm_tilde_keys :: "(string \<times> key_code) list" where
  "xterm_tilde_keys =
     [(''2'', Insert), (''3'', Delete), (''5'', PageUp), (''6'', PageDown), (''15'', FKey 5), (''17'', FKey 6),
      (''18'', FKey 7), (''19'', FKey 8), (''20'', FKey 9), (''21'', FKey 10), (''23'', FKey 11), (''24'', FKey 12)]"

definition xterm_key :: "string \<Rightarrow> key_code option \<Rightarrow> terminal_key option" where
  "xterm_key modifier_and_event code =
     Option.bind (split_xterm_modifier_and_event modifier_and_event) (\<lambda>(modifier_text, event_type).
     Option.bind (parse_modifier modifier_text) (\<lambda>modifier.
     Option.bind code (\<lambda>c.
     map_option (with_kind (key_new c (key_modifiers_from_u8 modifier))) (parse_kitty_event_type event_type))))"

definition is_ascii_letter :: "char \<Rightarrow> bool" where
  "is_ascii_letter c \<longleftrightarrow> is_upper_code (byte c) \<or> is_lower_code (byte c)"

definition parse_xterm_tilde :: "string \<Rightarrow> terminal_key option" where
  "parse_xterm_tilde body =
     Option.bind (strip_suffix body ''~'') (\<lambda>tilde_body.
     Option.bind (split_once CHR '';'' tilde_body) (\<lambda>(code_part, modifier_part).
     xterm_key modifier_part (map_of xterm_tilde_keys code_part)))"

definition parse_xterm_modified_special_sequence :: "string \<Rightarrow> terminal_key option" where
  "parse_xterm_modified_special_sequence data =
     Option.bind (strip_prefix data (ESC # ''['')) (\<lambda>body.
     case strip_prefix body ''1;'' of
       Some rest \<Rightarrow>
         if rest = [] then None
         else if is_ascii_letter (last rest) then xterm_key (butlast rest) (map_of xterm_letter_keys (last rest))
         else parse_xterm_tilde body
     | None \<Rightarrow> parse_xterm_tilde body)"

text \<open>Sequences without a modifier, with the key and the modifiers they stand for.\<close>

definition legacy_special_sequences :: "(string \<times> key_code \<times> modifiers) list" where
  "legacy_special_sequences = map (\<lambda>(s, c, mods). (ESC # s, c, mods))
     ([(ESC # ''[A'', UpKey, {ALT}), (ESC # ''[B'', DownKey, {ALT}),
       (ESC # ''[C'', RightKey, {ALT}), (ESC # ''[D'', LeftKey, {ALT}),
       (''[A'', UpKey, {}), (''OA'', UpKey, {}), (''[B'', DownKey, {}), (''OB'', DownKey, {}),
       (''[C'', RightKey, {}), (''OC'', RightKey, {}), (''[D'', LeftKey, {}), (''OD'', LeftKey, {}),
       (''[H'', Home, {}), (''OH'', Home, {}), (''[1~'', Home, {}), (''[7~'', Home, {}),
       (''[F'', EndKey, {}), (''OF'', EndKey, {}), (''[4~'', EndKey, {}), (''[8~'', EndKey, {}),
       (''[5~'', PageUp, {}), (''[6~'', PageDown, {}), (''[2~'', Insert, {}), (''[3~'', Delete, {})] @
      map (\<lambda>(f, c). (CHR ''O'' # [f], KChar (byte c), {}))
        [(CHR ''p'', CHR ''0''), (CHR ''q'', CHR ''1''), (CHR ''r'', CHR ''2''), (CHR ''s'', CHR ''3''),
         (CHR ''t'', CHR ''4''), (CHR ''u'', CHR ''5''), (CHR ''v'', CHR ''6''), (CHR ''w'', CHR ''7''),
         (CHR ''x'', CHR ''8''), (CHR ''y'', CHR ''9''), (CHR ''n'', CHR ''.''), (CHR ''l'', CHR '',''),
         (CHR ''m'', CHR ''-''), (CHR ''k'', CHR ''+''), (CHR ''j'', CHR ''*''), (CHR ''o'', CHR ''/'')] @
      [(''OM'', Enter, {}), (''OP'', FKey 1, {}), (''[11~'', FKey 1, {}), (''OQ'', FKey 2, {}), (''[12~'', FKey 2, {}),
       (''OR'', FKey 3, {}), (''[13~'', FKey 3, {}), (''OS'', FKey 4, {}), (''[14~'', FKey 4, {}),
       (''[15~'', FKey 5, {}), (''[17~'', FKey 6, {}), (''[18~'', FKey 7, {}), (''[19~'', FKey 8, {}),
       (''[20~'', FKey 9, {}), (''[21~'', FKey 10, {}), (''[23~'', FKey 11, {}), (''[24~'', FKey 12, {}),
       (''[Z'', BackTab, {SHIFT})])"

definition parse_legacy_special_sequence :: "string \<Rightarrow> terminal_key option" where
  "parse_legacy_special_sequence data =
     (case map_of legacy_special_sequences data of
        Some (code, mods) \<Rightarrow> Some (key_new code mods)
      | None \<Rightarrow> parse_xterm_modified_special_sequence data)"

definition parse_legacy_ctrl_char :: "nat \<Rightarrow> terminal_key option" where
  "parse_legacy_ctrl_char c =
     (if c = 0 then Some (key_new (KChar 32) {CONTROL})
      else if c \<le> 26 then map_option (\<lambda>d. key_new (KChar d) {CONTROL}) (char_from_u32 (c + 96))
      else if c \<le> 31 then Some (key_new (KChar ([91, 92, 93, 94, 95] ! (c - 27))) {CONTROL})
      else None)"

definition single_char_key :: "nat \<Rightarrow> terminal_key option" where
  "single_char_key c =
     (case parse_legacy_ctrl_char c of
        Some k \<Rightarrow> Some k
      | None \<Rightarrow> Some (key_new (KChar c) (if is_upper_code c then {SHIFT} else {})))"

fun parse_legacy_key_sequence :: "string \<Rightarrow> terminal_key option" where
  "parse_legacy_key_sequence data =
     (case parse_legacy_special_sequence data of
        Some k \<Rightarrow> Some k
      | None \<Rightarrow>
          if data = [CHR 0x0D] then Some (key_new Enter {})
          else if data = [CHR 0x09] then Some (key_new TabKey {})
          else if data = [ESC] then Some (key_new Esc {})
          else if data = [ESC, CHR 0x7F] then Some (key_new Backspace {ALT})
          else if data = [CHR 0x7F] then Some (key_new Backspace {})
          else
            (case data of
               [] \<Rightarrow> None
             | d # rest \<Rightarrow>
                 if d = ESC
                 then if length (utf8_chars rest) = 1
                   then map_option (\<lambda>k. k\<lparr>k_modifiers := k_modifiers k \<union> {ALT}\<rparr>) (parse_legacy_key_sequence rest)
                   else None
                 else if length (utf8_chars data) = 1 then single_char_key (hd (utf8_chars data))
                 else None))"

declare parse_legacy_key_sequence.simps [simp del]

section \<open>A key of the host\<close>

definition parse_terminal_key_sequence :: "string \<Rightarrow> terminal_key option" where
  "parse_terminal_key_sequence data =
     (case parse_kitty_key_sequence data of
        Some k \<Rightarrow> Some k
      | None \<Rightarrow> (case parse_modify_other_keys_sequence data of
            Some k \<Rightarrow> Some k
          | None \<Rightarrow> parse_legacy_key_sequence data))"

section \<open>The event that Ghostty encodes\<close>

text \<open>The numbers of actions, modifiers and keys are the constants of \<open>ghostty/bindings.rs\<close>.\<close>

record ghostty_key_event =
  gk_action :: nat
  gk_mods :: "16 word"
  gk_key :: nat
  gk_utf8 :: string
  gk_unshifted_codepoint :: "nat option"

definition ghostty_mods_from_key_modifiers :: "modifiers \<Rightarrow> 16 word" where
  "ghostty_mods_from_key_modifiers mods =
     (if SHIFT \<in> mods then 1 else 0) OR (if CONTROL \<in> mods then 2 else 0) OR
     (if ALT \<in> mods then 4 else 0) OR (if SUPER \<in> mods then 8 else 0)"

definition ghostty_unshifted_ascii_pair :: "nat \<Rightarrow> nat option" where
  "ghostty_unshifted_ascii_pair c =
     map_of [(33, 49), (64, 50), (35, 51), (36, 52), (37, 53), (94, 54), (38, 55), (42, 56), (40, 57), (41, 48),
       (95, 45), (43, 61), (123, 91), (125, 93), (124, 92), (58, 59), (34, 39), (60, 44), (62, 46), (63, 47),
       (126, 96)] c"

definition ghostty_key_from_char :: "nat \<Rightarrow> nat option \<Rightarrow> nat option" where
  "ghostty_key_from_char c shifted_codepoint =
     (let base = (case Option.bind shifted_codepoint char_from_u32 of
            Some shifted \<Rightarrow> unwrap_or (ghostty_unshifted_ascii_pair shifted) c
          | None \<Rightarrow> c);
          b = lower_code base
      in if is_lower_code b then Some (20 + (b - 97))
         else if 48 \<le> b \<and> b \<le> 57 then Some (6 + (b - 48))
         else map_of [(96, 1), (92, 2), (91, 3), (93, 4), (44, 5), (61, 16), (45, 46), (46, 47), (39, 48),
           (59, 49), (47, 50), (32, 63)] b)"

definition ghostty_key_from_crossterm_key_code :: "key_code \<Rightarrow> nat option \<Rightarrow> nat option" where
  "ghostty_key_from_crossterm_key_code code shifted_codepoint =
     (case code of
        Backspace \<Rightarrow> Some 53 | Enter \<Rightarrow> Some 58 | LeftKey \<Rightarrow> Some 76 | RightKey \<Rightarrow> Some 77 | UpKey \<Rightarrow> Some 78
      | DownKey \<Rightarrow> Some 75 | Home \<Rightarrow> Some 71 | EndKey \<Rightarrow> Some 69 | PageUp \<Rightarrow> Some 74 | PageDown \<Rightarrow> Some 73
      | TabKey \<Rightarrow> Some 64 | BackTab \<Rightarrow> Some 64 | Delete \<Rightarrow> Some 68 | Insert \<Rightarrow> Some 72 | Esc \<Rightarrow> Some 120
      | FKey n \<Rightarrow> if 1 \<le> n \<and> n \<le> 12 then Some (120 + n) else None
      | KChar c \<Rightarrow> ghostty_key_from_char c shifted_codepoint
      | _ \<Rightarrow> None)"

definition ghostty_key_text :: "terminal_key \<Rightarrow> string option" where
  "ghostty_key_text k =
     (case k_code k of
        KChar c \<Rightarrow> Some (encode_utf8 (unwrap_or (Option.bind (k_shifted_codepoint k) char_from_u32) c))
      | _ \<Rightarrow> None)"

definition ghostty_unshifted_codepoint :: "terminal_key \<Rightarrow> nat option" where
  "ghostty_unshifted_codepoint k = (case k_code k of KChar c \<Rightarrow> Some c | _ \<Rightarrow> None)"

definition ghostty_key_event_from_terminal_key :: "terminal_key \<Rightarrow> ghostty_key_event option" where
  "ghostty_key_event_from_terminal_key k =
     map_option (\<lambda>key.
       \<lparr>gk_action = (case k_kind k of Press \<Rightarrow> 1 | Release \<Rightarrow> 0 | Repeat \<Rightarrow> 2),
        gk_mods = ghostty_mods_from_key_modifiers (k_modifiers k) OR (if k_code k = BackTab then 1 else 0),
        gk_key = key, gk_utf8 = unwrap_or (ghostty_key_text k) [],
        gk_unshifted_codepoint = ghostty_unshifted_codepoint k\<rparr>)
     (ghostty_key_from_crossterm_key_code (k_code k) (k_shifted_codepoint k))"

definition ghostty_prefers_osade_text_encoding :: "terminal_key \<Rightarrow> bool" where
  "ghostty_prefers_osade_text_encoding k \<longleftrightarrow> (case k_code k of KChar _ \<Rightarrow> True | _ \<Rightarrow> False)"

section \<open>The encoder of a pane\<close>

text \<open>\<open>str::from_utf8\<close>: the bytes are the encodings of their characters.\<close>

definition valid_utf8 :: "string \<Rightarrow> bool" where
  "valid_utf8 s \<longleftrightarrow> list_all is_scalar (utf8_chars s) \<and> concat (map encode_utf8 (utf8_chars s)) = s"

lemma utf8_chars_encoded: "list_all is_scalar cs \<Longrightarrow> utf8_chars (concat (map encode_utf8 cs)) = cs"
  by (induction cs) (simp_all add: utf8_roundtrip)

lemma valid_utf8_iff: "valid_utf8 s \<longleftrightarrow> (\<exists>cs. list_all is_scalar cs \<and> s = concat (map encode_utf8 cs))"
  using utf8_chars_encoded by (auto simp: valid_utf8_def)

definition encoded_key_preserves_event_kind :: "string \<Rightarrow> terminal_key \<Rightarrow> keyboard_protocol \<Rightarrow> bool" where
  "encoded_key_preserves_event_kind bytes k protocol =
     (if \<not> reports_event_types protocol \<or> k_kind k = Press then True
      else is_some_and (if valid_utf8 bytes then parse_terminal_key_sequence bytes else None)
        (\<lambda>parsed. k_code parsed = k_code k \<and> k_modifiers parsed = k_modifiers k \<and> k_kind parsed = k_kind k))"

definition pane_encode_terminal_key_once ::
  "(ghostty_key_event \<Rightarrow> string option) \<Rightarrow> terminal_key \<Rightarrow> keyboard_protocol \<Rightarrow> string" where
  "pane_encode_terminal_key_once ghostty k protocol =
     (if protocol = Legacy \<and> k_code k = TabKey \<and> k_modifiers k = {CONTROL} then encode_terminal_key k protocol
      else if ghostty_prefers_osade_text_encoding k then encode_terminal_key k protocol
      else case ghostty_key_event_from_terminal_key k of
          None \<Rightarrow> encode_terminal_key k protocol
        | Some event \<Rightarrow>
            (case ghostty event of
               Some bytes \<Rightarrow>
                 if bytes \<noteq> [] \<and> encoded_key_preserves_event_kind bytes k protocol then bytes
                 else encode_terminal_key k protocol
             | None \<Rightarrow> encode_terminal_key k protocol))"

text \<open>A key that counts \<open>n\<close> times is written once as it is and \<open>n - 1\<close> times as a repeat.\<close>

definition pane_encode_terminal_key ::
  "(ghostty_key_event \<Rightarrow> string option) \<Rightarrow> terminal_key \<Rightarrow> keyboard_protocol \<Rightarrow> string" where
  "pane_encode_terminal_key ghostty k protocol =
     (let repeat_count = k_repeat_count k;
          first = with_repeat_count k 1;
          bytes = pane_encode_terminal_key_once ghostty first protocol
      in if 1 < repeat_count \<and> k_kind first \<noteq> Release
         then bytes @ concat (replicate (unat repeat_count - 1)
                (pane_encode_terminal_key_once ghostty (with_kind first Repeat) protocol))
         else bytes)"

end
