(* ===== verification/Input_Mouse.thy ===== *)
theory Input_Mouse
  imports Rust_Str Layout
begin

text \<open>
  Mouse reports in pixels (\<open>input/mouse.rs\<close>): the cell of the host's screen a pixel lies in, the pixel of
  a pane it is mapped to, and the text of a report. Numbers are natural numbers with the width of their
  type written out; products are taken in \<open>u64\<close>, where they do not overflow.
\<close>

section \<open>Checked arithmetic\<close>

definition checked_sub :: "nat \<Rightarrow> nat \<Rightarrow> nat option" where
  "checked_sub a b = (if b \<le> a then Some (a - b) else None)"

definition checked_add_u16 :: "nat \<Rightarrow> nat \<Rightarrow> nat option" where
  "checked_add_u16 a b = (if a + b < 2 ^ 16 then Some (a + b) else None)"

definition checked_add_u32 :: "nat \<Rightarrow> nat \<Rightarrow> nat option" where
  "checked_add_u32 a b = (if a + b < 2 ^ 32 then Some (a + b) else None)"

section \<open>Cells and pixels\<close>

datatype mouse_position = CellPosition nat nat | PixelPosition nat nat

record host_geometry =
  hg_cols :: nat
  hg_rows :: nat
  hg_width_px :: nat
  hg_height_px :: nat

record host_pixels =
  hx_x :: nat
  hx_y :: nat
  hx_geometry :: host_geometry

definition host_geometry_new :: "nat \<Rightarrow> nat \<Rightarrow> nat \<Rightarrow> nat \<Rightarrow> host_geometry option" where
  "host_geometry_new cols rows width_px height_px =
     then_some (0 < cols \<and> 0 < rows \<and> 0 < width_px \<and> 0 < height_px)
       \<lparr>hg_cols = cols, hg_rows = rows, hg_width_px = width_px, hg_height_px = height_px\<rparr>"

definition boundary :: "nat \<Rightarrow> nat \<Rightarrow> nat \<Rightarrow> nat option" where
  "boundary index cells extent =
     (if 0 < cells \<and> index \<le> cells \<and> 0 < extent then Some (index * extent div cells mod 2 ^ 32) else None)"

definition grid_cell :: "nat \<Rightarrow> nat \<Rightarrow> nat \<Rightarrow> nat option" where
  "grid_cell pixel cells extent =
     (if cells = 0 \<or> extent = 0 \<or> extent \<le> pixel then None
      else let cell = ((pixel + 1) * cells - 1) div extent
           in if cell < 2 ^ 16 \<and> cell < cells then Some cell else None)"

definition scale :: "nat \<Rightarrow> nat \<Rightarrow> nat \<Rightarrow> nat" where
  "scale pixel source target = min (pixel * target div source) (target - 1) mod 2 ^ 32"

text \<open>Pixels of a report count from one.\<close>

definition host_cell :: "host_geometry \<Rightarrow> nat \<Rightarrow> nat \<Rightarrow> (nat \<times> nat) option" where
  "host_cell g x y =
     Option.bind (checked_sub x 1) (\<lambda>px. Option.bind (grid_cell px (hg_cols g) (hg_width_px g)) (\<lambda>column.
     Option.bind (checked_sub y 1) (\<lambda>py. Option.bind (grid_cell py (hg_rows g) (hg_height_px g)) (\<lambda>row.
     Some (column, row)))))"

definition map_axis_within_cell ::
  "nat \<Rightarrow> nat \<Rightarrow> nat \<Rightarrow> nat \<Rightarrow> nat \<Rightarrow> nat \<Rightarrow> nat \<Rightarrow> nat option" where
  "map_axis_within_cell pixel hcell pane_start pane_cells host_cells host_extent child_extent =
     Option.bind (checked_sub hcell pane_start) (\<lambda>local_cell.
     if pane_cells \<le> local_cell then None
     else
       Option.bind (boundary hcell host_cells host_extent) (\<lambda>source_start.
       Option.bind (checked_add_u16 hcell 1) (\<lambda>next_host.
       Option.bind (boundary next_host host_cells host_extent) (\<lambda>source_end.
       Option.bind (boundary local_cell pane_cells child_extent) (\<lambda>target_start.
       Option.bind (checked_add_u16 local_cell 1) (\<lambda>next_local.
       Option.bind (boundary next_local pane_cells child_extent) (\<lambda>target_end.
       Option.bind (checked_sub source_end source_start) (\<lambda>source_width.
       Option.bind (checked_sub target_end target_start) (\<lambda>target_width.
       Option.bind (Option.bind (checked_sub pixel 1) (\<lambda>p. checked_sub p source_start)) (\<lambda>offset.
       if source_width = 0 \<or> target_width = 0 \<or> source_width \<le> offset then None
       else Option.bind (checked_add_u32 target_start (scale offset source_width target_width))
              (\<lambda>p. checked_add_u32 p 1)))))))))))"

definition pane_position :: "host_pixels \<Rightarrow> rect \<Rightarrow> nat \<Rightarrow> nat \<Rightarrow> mouse_position option" where
  "pane_position px inner child_width_px child_height_px =
     (let g = hx_geometry px; x0 = unat (rx inner); y0 = unat (ry inner);
          w = unat (rwidth inner); h = unat (rheight inner)
      in Option.bind (host_cell g (hx_x px) (hx_y px)) (\<lambda>(column, row).
         Option.bind (checked_add_u16 x0 w) (\<lambda>end_column.
         Option.bind (checked_add_u16 y0 h) (\<lambda>end_row.
         if column < x0 \<or> end_column \<le> column \<or> row < y0 \<or> end_row \<le> row then None
         else
           Option.bind (map_axis_within_cell (hx_x px) column x0 w (hg_cols g) (hg_width_px g) child_width_px) (\<lambda>x.
           Option.bind (map_axis_within_cell (hx_y px) row y0 h (hg_rows g) (hg_height_px g) child_height_px) (\<lambda>y.
           Some (PixelPosition x y)))))))"

section \<open>Reports\<close>

text \<open>A report is bytes; the bytes of the buttons are written back when they are UTF-8 (\<open>valid\<close>).\<close>

definition u32_max :: nat where
  "u32_max = 2 ^ 32 - 1"

definition parse_number :: "string \<Rightarrow> nat option" where
  "parse_number s = (if s \<noteq> [] \<and> list_all is_ascii_digit s then parse_uint u32_max s else None)"

definition parse_report :: "string \<Rightarrow> (nat \<times> nat) option" where
  "parse_report s =
     Option.bind (strip_prefix s (CHR 0x1B # ''[<'')) (\<lambda>body.
     Option.bind (or_else (strip_suffix body ''M'') (strip_suffix body ''m'')) (\<lambda>body'.
     case split_on (\<lambda>c. c = CHR '';'') body' of
       [buttons, x, y] \<Rightarrow>
         Option.bind (parse_number buttons) (\<lambda>_. Option.bind (parse_number x) (\<lambda>x'. map_option (Pair x') (parse_number y)))
     | _ \<Rightarrow> None))"

definition report_at_cell :: "(string \<Rightarrow> bool) \<Rightarrow> string \<Rightarrow> nat \<Rightarrow> nat \<Rightarrow> string option" where
  "report_at_cell valid s column row =
     Option.bind (strip_prefix s (CHR 0x1B # ''[<'')) (\<lambda>body.
       let suffix = (if ends_with body ''M'' then ''M'' else ''m'')
       in Option.bind (strip_suffix body suffix) (\<lambda>body'.
          let buttons = hd (split_on (\<lambda>c. c = CHR '';'') body')
          in then_some (valid buttons)
               (CHR 0x1B # ''[<'' @ buttons @ '';'' @ decimal (column + 1) @ '';'' @ decimal (row + 1) @ suffix)))"

section \<open>Cells partition the pixels\<close>

lemma boundary_eq:
  "0 < cells \<Longrightarrow> index \<le> cells \<Longrightarrow> 0 < extent \<Longrightarrow> extent < 2 ^ 32 \<Longrightarrow>
     boundary index cells extent = Some (index * extent div cells)"
proof -
  assume a: "0 < cells" "index \<le> cells" "0 < extent" "extent < 2 ^ 32"
  have "index * extent div cells \<le> cells * extent div cells" using a(2) by (intro div_le_mono mult_le_mono1)
  with a show ?thesis by (simp add: boundary_def)
qed

text \<open>The cell of a pixel is the one whose boundaries enclose it.\<close>

lemma grid_cell_bounds:
  fixes cells extent pixel :: nat
  assumes "0 < cells" and "0 < extent" and "pixel < extent"
  defines "c \<equiv> ((pixel + 1) * cells - 1) div extent"
  shows "c < cells" and "c * extent div cells \<le> pixel" and "pixel < (c + 1) * extent div cells"
proof -
  have pos: "1 \<le> (pixel + 1) * cells" using assms(1) by (simp add: Suc_le_eq)
  have "(pixel + 1) * cells - 1 < cells * extent"
  proof -
    have "(pixel + 1) * cells \<le> extent * cells" using assms(3) by (intro mult_le_mono1) simp
    with pos show ?thesis by (simp add: mult.commute)
  qed
  then show "c < cells" unfolding c_def using assms(2) by (simp add: less_mult_imp_div_less)
  have "c * extent \<le> (pixel + 1) * cells - 1" unfolding c_def by simp
  with pos have "c * extent < (pixel + 1) * cells" by linarith
  then show "c * extent div cells \<le> pixel" using less_mult_imp_div_less [of "c * extent" "pixel + 1" cells] by simp
  have "(pixel + 1) * cells - 1 < (c + 1) * extent"
    unfolding c_def using assms(2) dividend_less_times_div [of extent "(pixel + 1) * cells - 1"] by (simp add: algebra_simps)
  then have "(pixel + 1) * cells \<le> (c + 1) * extent" using pos by linarith
  then have "(pixel + 1) * cells div cells \<le> (c + 1) * extent div cells" by (rule div_le_mono)
  then show "pixel < (c + 1) * extent div cells" using assms(1) by simp
qed

lemma boundary_mono: "a \<le> b \<Longrightarrow> a * extent div cells \<le> b * extent div (cells :: nat)"
  by (intro div_le_mono mult_le_mono1)

lemma grid_cell_unique:
  assumes "0 < cells" and "cells < 2 ^ 16" and "0 < extent" and "c < cells"
    and "c * extent div cells \<le> pixel" and "pixel < (c + 1) * extent div cells"
  shows "grid_cell pixel cells extent = Some c"
proof -
  define d where "d = ((pixel + 1) * cells - 1) div extent"
  have "(c + 1) * extent div cells \<le> cells * extent div cells" using assms(4) by (intro boundary_mono) simp
  then have p: "pixel < extent" using assms(1,6) by simp
  note b = grid_cell_bounds [OF assms(1,3) p, folded d_def]
  have "\<not> c < d"
  proof
    assume "c < d"
    then have "(c + 1) * extent div cells \<le> d * extent div cells" by (intro boundary_mono) simp
    with assms(6) b(2) show False by simp
  qed
  moreover have "\<not> d < c"
  proof
    assume "d < c"
    then have "(d + 1) * extent div cells \<le> c * extent div cells" by (intro boundary_mono) simp
    with assms(5) b(3) show False by simp
  qed
  ultimately have "d = c" by simp
  then show ?thesis
    using assms p b(1) unfolding grid_cell_def d_def [symmetric] by (simp add: Let_def)
qed

lemma grid_cell_SomeD:
  assumes "grid_cell pixel cells extent = Some c"
  shows "0 < cells" and "0 < extent" and "pixel < extent" and "c < cells"
    and "c * extent div cells \<le> pixel" and "pixel < (c + 1) * extent div cells"
proof -
  show a: "0 < cells" "0 < extent" "pixel < extent"
    using assms by (auto simp: grid_cell_def split: if_splits)
  have "c = ((pixel + 1) * cells - 1) div extent"
    using assms by (auto simp: grid_cell_def Let_def split: if_splits)
  with grid_cell_bounds [OF a] show "c < cells" "c * extent div cells \<le> pixel" "pixel < (c + 1) * extent div cells"
    by simp_all
qed

section \<open>Mapping a pixel\<close>

lemma scale_within:
  assumes "offset < source" and "0 < target" and "target < 2 ^ 32"
  shows "scale offset source target < target"
proof -
  have "min (offset * target div source) (target - 1) < target" using assms(2) by simp
  with assms(3) show ?thesis by (simp add: scale_def)
qed

text \<open>
  A pixel of a host cell is mapped into the pane's cell, when the pane has a pixel for each of its cells.
\<close>

lemma map_axis_spec:
  assumes host: "grid_cell (pixel - 1) host_cells host_extent = Some hcell" and pixel: "1 \<le> pixel"
    and size: "host_extent < 2 ^ 32" "child_extent < 2 ^ 32" "host_cells < 2 ^ 16" "pane_cells < 2 ^ 16"
    and inside: "pane_start \<le> hcell" "hcell < pane_start + pane_cells" and room: "pane_cells \<le> child_extent"
  shows "\<exists>v. map_axis_within_cell pixel hcell pane_start pane_cells host_cells host_extent child_extent = Some v \<and>
    1 \<le> v \<and> grid_cell (v - 1) pane_cells child_extent = Some (hcell - pane_start)"
proof -
  note h = grid_cell_SomeD [OF host]
  define l where "l = hcell - pane_start"
  have l: "l < pane_cells" "0 < pane_cells" "0 < child_extent" using inside room by (auto simp: l_def)
  define t where "t = l * child_extent div pane_cells"
  define u where "u = (l + 1) * child_extent div pane_cells"
  have "l * child_extent + pane_cells \<le> (l + 1) * child_extent" using room by simp
  then have "(l * child_extent + pane_cells) div pane_cells \<le> u" unfolding u_def by (rule div_le_mono)
  then have tu: "t + 1 \<le> u" using l(2) by (simp add: t_def)
  have "u \<le> pane_cells * child_extent div pane_cells" unfolding u_def using l(1) by (intro boundary_mono) simp
  then have u: "u \<le> child_extent" using l(2) by simp
  define a where "a = hcell * host_extent div host_cells"
  define b where "b = (hcell + 1) * host_extent div host_cells"
  have ab: "a \<le> pixel - 1" "pixel - 1 < b" using h(5,6) by (simp_all add: a_def b_def)
  define s where "s = scale (pixel - Suc a) (b - a) (u - t)"
  have off: "pixel - Suc a < b - a" "Suc a \<le> pixel" using ab pixel by simp_all
  have s: "s < u - t" unfolding s_def using off(1) tu u size(2) by (intro scale_within) simp_all
  have fits: "t + s < 2 ^ 32 - 1" "a < b" "\<not> u \<le> t" "t \<le> u" "\<not> b - a \<le> pixel - Suc a" "a \<le> pixel - Suc 0"
    using s u size(2) tu off ab by simp_all
  have bounds: "boundary hcell host_cells host_extent = Some a" "boundary (hcell + 1) host_cells host_extent = Some b"
    "boundary l pane_cells child_extent = Some t" "boundary (l + 1) pane_cells child_extent = Some u"
    using h(1,2,4) l size unfolding a_def b_def t_def u_def by (intro boundary_eq; simp)+
  have "map_axis_within_cell pixel hcell pane_start pane_cells host_cells host_extent child_extent = Some (t + s + 1)"
    using bounds l(1) inside h(4) size fits off(2)
    by (simp add: map_axis_within_cell_def checked_sub_def checked_add_u16_def checked_add_u32_def
        l_def [symmetric] s_def [symmetric])
  moreover have "grid_cell (t + s) pane_cells child_extent = Some l"
    using l size(4) s by (intro grid_cell_unique) (simp_all add: t_def u_def)
  ultimately show ?thesis by (simp add: l_def)
qed

definition inside_pane :: "rect \<Rightarrow> nat \<Rightarrow> nat \<Rightarrow> bool" where
  "inside_pane inner column row \<longleftrightarrow>
     unat (rx inner) \<le> column \<and> column < unat (rx inner) + unat (rwidth inner) \<and>
     unat (ry inner) \<le> row \<and> row < unat (ry inner) + unat (rheight inner)"

definition geometry_ok :: "host_geometry \<Rightarrow> bool" where
  "geometry_ok g \<longleftrightarrow> hg_cols g < 2 ^ 16 \<and> hg_rows g < 2 ^ 16 \<and> hg_width_px g < 2 ^ 32 \<and> hg_height_px g < 2 ^ 32"

lemma host_cell_SomeD:
  assumes "host_cell g x y = Some (c, r)"
  shows "1 \<le> x" and "grid_cell (x - 1) (hg_cols g) (hg_width_px g) = Some c"
    and "1 \<le> y" and "grid_cell (y - 1) (hg_rows g) (hg_height_px g) = Some r"
  using assms by (auto simp: host_cell_def checked_sub_def Option.bind_eq_Some_conv split: if_splits)

text \<open>
  C30: A pixel that the host reports is mapped to a pixel of the pane exactly when its cell lies in the pane,
  and then to a pixel of the corresponding cell of the pane: the cell of the mapped pixel on the pane's own
  grid is the host's cell relative to the pane. The pane has at least one pixel for each cell.
\<close>

theorem mapped_pixel_keeps_cell:
  assumes "geometry_ok (hx_geometry px)" and "child_width_px < 2 ^ 32" and "child_height_px < 2 ^ 32"
    and "unat (rwidth inner) \<le> child_width_px" and "unat (rheight inner) \<le> child_height_px"
    and "unat (rx inner) + unat (rwidth inner) < 2 ^ 16" and "unat (ry inner) + unat (rheight inner) < 2 ^ 16"
    and "host_cell (hx_geometry px) (hx_x px) (hx_y px) = Some (c, r)"
  shows "if inside_pane inner c r
    then \<exists>x y. pane_position px inner child_width_px child_height_px = Some (PixelPosition x y) \<and>
      host_cell \<lparr>hg_cols = unat (rwidth inner), hg_rows = unat (rheight inner),
          hg_width_px = child_width_px, hg_height_px = child_height_px\<rparr> x y =
        Some (c - unat (rx inner), r - unat (ry inner))
    else pane_position px inner child_width_px child_height_px = None"
proof (cases "inside_pane inner c r")
  case False
  then show ?thesis
    using assms(6-8) by (auto simp: inside_pane_def pane_position_def Let_def checked_add_u16_def)
next
  case True
  note h = host_cell_SomeD [OF assms(8)]
  have w: "unat (rwidth inner) < 2 ^ 16" "unat (rheight inner) < 2 ^ 16" using assms(6,7) by simp_all
  obtain x where x: "map_axis_within_cell (hx_x px) c (unat (rx inner)) (unat (rwidth inner))
      (hg_cols (hx_geometry px)) (hg_width_px (hx_geometry px)) child_width_px = Some x"
    "1 \<le> x" "grid_cell (x - 1) (unat (rwidth inner)) child_width_px = Some (c - unat (rx inner))"
    using map_axis_spec [OF h(2,1), of child_width_px "unat (rwidth inner)" "unat (rx inner)"] assms(1-7) True w
    unfolding geometry_ok_def inside_pane_def by blast
  obtain y where y: "map_axis_within_cell (hx_y px) r (unat (ry inner)) (unat (rheight inner))
      (hg_rows (hx_geometry px)) (hg_height_px (hx_geometry px)) child_height_px = Some y"
    "1 \<le> y" "grid_cell (y - 1) (unat (rheight inner)) child_height_px = Some (r - unat (ry inner))"
    using map_axis_spec [OF h(4,3), of child_height_px "unat (rheight inner)" "unat (ry inner)"] assms(1-7) True w
    unfolding geometry_ok_def inside_pane_def by blast
  have "pane_position px inner child_width_px child_height_px = Some (PixelPosition x y)"
    using assms(6-8) x(1) y(1) True by (simp add: pane_position_def Let_def checked_add_u16_def inside_pane_def)
  with x y True show ?thesis by (simp add: host_cell_def checked_sub_def)
qed

definition demo_pixels :: host_pixels where
  "demo_pixels = \<lparr>hx_x = 45, hx_y = 31,
     hx_geometry = \<lparr>hg_cols = 10, hg_rows = 5, hg_width_px = 100, hg_height_px = 100\<rparr>\<rparr>"

definition demo_inner :: rect where
  "demo_inner = \<lparr>rx = 2, ry = 1, rwidth = 4, rheight = 3\<rparr>"

theorem mapped_pixel_keeps_cell_witness:
  "\<exists>x y. pane_position demo_pixels demo_inner 80 60 = Some (PixelPosition x y) \<and>
     host_cell \<lparr>hg_cols = 4, hg_rows = 3, hg_width_px = 80, hg_height_px = 60\<rparr> x y = Some (2, 0)"
proof -
  have "host_cell (hx_geometry demo_pixels) (hx_x demo_pixels) (hx_y demo_pixels) = Some (4, 1)"
    by (simp add: demo_pixels_def host_cell_def checked_sub_def grid_cell_def)
  moreover have "geometry_ok (hx_geometry demo_pixels)" by (simp add: demo_pixels_def geometry_ok_def)
  ultimately show ?thesis
    using mapped_pixel_keeps_cell [of demo_pixels 80 60 demo_inner 4 1] by (simp add: demo_inner_def inside_pane_def)
qed

end
