(* ===== verification/Input_Roundtrip.thy ===== *)
theory Input_Roundtrip
  imports Input_Parse Input_Mouse
begin

text \<open>
  What is encoded is read back: the facts behind the round trips of kitty sequences, legacy sequences and
  mouse reports.
\<close>

section \<open>Numbers and separators\<close>

lemma decimal_no: "\<not> is_ascii_digit d \<Longrightarrow> d \<notin> set (decimal n)"
  using decimal_members by blast

lemma not_digits [simp]:
  "\<not> is_ascii_digit CHR '';''" "\<not> is_ascii_digit CHR '':''" "\<not> is_ascii_digit CHR ''u''"
  by (simp_all add: digit_range byte_def)

lemma decimal_small: "n < 10 \<Longrightarrow> decimal n = [char_of (48 + n)]"
  by (subst decimal.simps) simp

lemma split_on_absent: "\<forall>c \<in> set a. \<not> P c \<Longrightarrow> split_on P a = [a]"
  by (induction a) auto

lemma split_semicolons:
  "CHR '';'' \<notin> set a \<Longrightarrow> split_on (\<lambda>c. c = CHR '';'') (a @ CHR '';'' # b) = a # split_on (\<lambda>c. c = CHR '';'') b"
  "CHR '';'' \<notin> set a \<Longrightarrow> split_on (\<lambda>c. c = CHR '';'') a = [a]"
  by (rule split_on_append; auto) (rule split_on_absent; auto)

lemma split_colons:
  "CHR '':'' \<notin> set a \<Longrightarrow> split_on (\<lambda>c. c = CHR '':'') (a @ CHR '':'' # b) = a # split_on (\<lambda>c. c = CHR '':'') b"
  "CHR '':'' \<notin> set a \<Longrightarrow> split_on (\<lambda>c. c = CHR '':'') a = [a]"
  by (rule split_on_append; auto) (rule split_on_absent; auto)

section \<open>Modifiers\<close>

lemma kitty_modifier_range: "1 \<le> kitty_modifier mods" "kitty_modifier mods \<le> 64"
  by (simp_all add: kitty_modifier_def xterm_modifier_def)

lemma modifiers_of_bits:
  fixes a b c d e f :: bool
  defines "m \<equiv> of_bool a + 2 * of_bool b + 4 * of_bool c + 8 * of_bool d + 16 * of_bool e + 32 * of_bool f :: nat"
  shows "key_modifiers_from_u8 m =
    (if a then {SHIFT} else {}) \<union> (if b then {ALT} else {}) \<union> (if c then {CONTROL} else {}) \<union>
    (if d then {SUPER} else {}) \<union> (if e then {HYPER} else {}) \<union> (if f then {META} else {})"
  unfolding m_def key_modifiers_from_u8_def
  by (cases a; cases b; cases c; cases d; cases e; cases f; simp)

lemma kitty_modifiers_back [simp]: "key_modifiers_from_u8 (kitty_modifier mods - Suc 0) = mods"
proof -
  have eq: "kitty_modifier mods - Suc 0 = of_bool (SHIFT \<in> mods) + 2 * of_bool (ALT \<in> mods) + 4 * of_bool (CONTROL \<in> mods) +
      8 * of_bool (SUPER \<in> mods) + 16 * of_bool (HYPER \<in> mods) + 32 * of_bool (META \<in> mods)"
    by (simp add: kitty_modifier_def xterm_modifier_def)
  have "x \<in> key_modifiers_from_u8 (kitty_modifier mods - Suc 0) \<longleftrightarrow> x \<in> mods" for x
    unfolding eq modifiers_of_bits by (cases x) simp_all
  then show ?thesis by blast
qed

lemma parse_modifier_decimal: "parse_modifier (decimal (kitty_modifier mods)) = Some (kitty_modifier mods - 1)"
  using kitty_modifier_range [of mods] by (simp add: parse_modifier_def u8_max_def)

section \<open>Kitty sequences\<close>

lemma parse_associated_decimal:
  assumes "is_scalar t" and "\<not> is_control_code t"
  shows "parse_kitty_associated_text (decimal t) = Some (encode_utf8 t)"
proof -
  have "t \<le> codepoint_max" using assms(1) by (auto simp: is_scalar_def codepoint_max_def)
  moreover have "encode_utf8 t \<noteq> []" by (simp add: encode_utf8_def)
  ultimately show ?thesis
    using assms
    by (simp add: parse_kitty_associated_text_def split_colons decimal_no char_from_u32_def then_some_def opt_filter_def)
qed

lemma text_codepoint_scalar:
  assumes "text_codepoint_for_key k = Some t" and "\<forall>c. k_code k = KChar c \<longrightarrow> is_scalar c"
  shows "is_scalar t" and "\<not> is_control_code t"
proof -
  obtain c where c: "text_char_for_key k = Some c" "\<not> is_control_code c" "t = c"
    using assms(1) by (auto simp: text_codepoint_for_key_def then_some_def Option.bind_eq_Some_conv split: if_splits)
  then show "\<not> is_control_code t" by simp
  have upper: "is_scalar (upper_code d)" if "is_scalar d" for d
    using that by (auto simp: is_scalar_def upper_code_def is_lower_code_def)
  show "is_scalar t"
    using c(1) assms(2) upper unfolding c(3) text_char_for_key_def shifted_text_char_def
    by (auto simp: char_from_u32_def then_some_def Option.bind_eq_Some_conv
        split: if_splits key_code.splits option.splits)
qed

text \<open>The codes with a kitty code point that stands for them alone.\<close>

definition kitty_code :: "key_code \<Rightarrow> bool" where
  "kitty_code code =
     (case code of
        KChar c \<Rightarrow> is_scalar c \<and> c \<notin> {8, 9, 13, 27, 127} \<and> \<not> is_kitty_functional_codepoint c
      | Enter \<Rightarrow> True | TabKey \<Rightarrow> True | Backspace \<Rightarrow> True | Esc \<Rightarrow> True
      | LeftKey \<Rightarrow> True | RightKey \<Rightarrow> True | UpKey \<Rightarrow> True | DownKey \<Rightarrow> True
      | PageUp \<Rightarrow> True | PageDown \<Rightarrow> True | Home \<Rightarrow> True | EndKey \<Rightarrow> True
      | Insert \<Rightarrow> True | Delete \<Rightarrow> True | _ \<Rightarrow> False)"

text \<open>An upper case letter is sent as the lower case one, with the shift modifier.\<close>

definition canonical_code :: "key_code \<Rightarrow> modifiers \<Rightarrow> key_code" where
  "canonical_code code mods = (case code of KChar c \<Rightarrow> KChar (canonical_kitty_char c mods) | _ \<Rightarrow> code)"

text \<open>A shifted code point comes with the shift modifier and fits its type.\<close>

definition shift_consistent :: "terminal_key \<Rightarrow> bool" where
  "shift_consistent k =
     (case k_shifted_codepoint k of None \<Rightarrow> True | Some s \<Rightarrow> s < 2 ^ 32 \<and> SHIFT \<in> k_modifiers k)"

lemma keycode_of_char:
  "is_scalar c \<Longrightarrow> c \<notin> {8, 9, 13, 27, 127} \<Longrightarrow> \<not> is_kitty_functional_codepoint c \<Longrightarrow>
     kitty_codepoint_to_keycode c = Some (KChar c)"
  by (auto simp: kitty_codepoint_to_keycode_def is_kitty_functional_codepoint_def char_from_u32_def then_some_def)

lemma kitty_codepoint_back:
  assumes "kitty_code (k_code k)" and "shift_consistent k"
  obtains cp alt where "kitty_codepoint k flags = Some (cp, alt)" and "cp \<le> codepoint_max"
    and "kitty_codepoint_to_keycode cp = Some (canonical_code (k_code k) (k_modifiers k))"
    and "\<forall>s. alt = Some s \<longrightarrow> s \<le> codepoint_max \<and> SHIFT \<in> k_modifiers k"
proof (cases "k_code k")
  case (KChar c)
  let ?d = "canonical_kitty_char c (k_modifiers k)"
  have c: "is_scalar c" "c \<notin> {8, 9, 13, 27, 127}" "\<not> is_kitty_functional_codepoint c"
    using assms(1) KChar by (simp_all add: kitty_code_def)
  have "is_scalar ?d" "?d \<notin> {8, 9, 13, 27, 127}" "\<not> is_kitty_functional_codepoint ?d"
    using c by (auto simp: canonical_kitty_char_def lower_code_def is_upper_code_def is_scalar_def
        is_kitty_functional_codepoint_def)
  then have "kitty_codepoint_to_keycode ?d = Some (KChar ?d)" "?d \<le> codepoint_max"
    by (rule keycode_of_char, auto simp: is_scalar_def codepoint_max_def)
  moreover have "\<forall>s. alternate_shifted_codepoint k flags = Some s \<longrightarrow> s \<le> codepoint_max \<and> SHIFT \<in> k_modifiers k"
    using assms(2) KChar
    by (auto simp: alternate_shifted_codepoint_def shift_consistent_def codepoint_max_def is_upper_code_def
        split: option.splits if_splits)
  ultimately show thesis
    using that [of ?d "alternate_shifted_codepoint k flags"] KChar by (simp add: kitty_codepoint_def canonical_code_def)
qed (use assms(1) that in \<open>simp_all add: kitty_code_def kitty_codepoint_def canonical_code_def codepoint_max_def
    kitty_codepoint_to_keycode_def kitty_keys_from_57399_def nth_append\<close>)

lemma decimal_digit_chars:
  "decimal (Suc 0) = ''1''" "decimal 2 = ''2''" "decimal 3 = ''3''"
  by code_simp+

lemma event_type_back:
  "kitty_event_suffix k flags = Some e \<Longrightarrow> parse_kitty_event_type (Some (decimal e)) = Some (k_kind k)"
  by (cases "k_kind k")
    (auto simp: kitty_event_suffix_def parse_kitty_event_type_def decimal_digit_chars split: if_splits)

definition kitty_key_part :: "nat \<Rightarrow> nat option \<Rightarrow> string" where
  "kitty_key_part cp alt = decimal cp @ (case alt of Some s \<Rightarrow> '':'' @ decimal s | None \<Rightarrow> [])"

lemma parse_kitty_key_back:
  assumes "cp \<le> codepoint_max" and "kitty_codepoint_to_keycode cp = Some code"
    and "\<forall>s. alt = Some s \<longrightarrow> s \<le> codepoint_max \<and> SHIFT \<in> mods"
    and "parse_kitty_event_type (Some ev) = Some kind"
  shows "\<exists>k'. parse_kitty_key (kitty_key_part cp alt) (decimal (kitty_modifier mods) @ CHR '':'' # ev) t = Some k' \<and>
    k_code k' = code \<and> k_modifiers k' = mods \<and> k_kind k' = kind"
proof -
  have split: "split_modifier_and_event (decimal (kitty_modifier mods) @ CHR '':'' # ev) =
      (decimal (kitty_modifier mods), Some ev)"
    by (simp add: split_modifier_and_event_def split_once_append decimal_no)
  have parts: "split_on (\<lambda>c. c = CHR '':'') (kitty_key_part cp alt) =
      decimal cp # (case alt of Some s \<Rightarrow> [decimal s] | None \<Rightarrow> [])"
    by (simp add: kitty_key_part_def split_colons decimal_no split: option.split)
  show ?thesis
    using assms unfolding parse_kitty_key_def split parts
    by (auto simp: Let_def parse_modifier_decimal kitty_modifiers_back with_kind_def key_new_def
        with_shifted_codepoint_def with_generated_text_def insert_absorb split: option.split)
qed

lemma parse_kitty_sequence_back:
  assumes "CHR '';'' \<notin> set key_part" and "CHR '';'' \<notin> set m" and "m \<noteq> []"
    and "text = None \<or> (\<exists>t s. text = Some t \<and> CHR '';'' \<notin> set t \<and> parse_kitty_associated_text t = Some s)"
  shows "\<exists>t. parse_kitty_key_sequence
      (ESC # ''['' @ key_part @ '';'' @ m @ (case text of Some t \<Rightarrow> '';'' @ t | None \<Rightarrow> []) @ ''u'') =
    parse_kitty_key key_part m t"
proof -
  let ?body = "key_part @ '';'' @ m @ (case text of Some t \<Rightarrow> '';'' @ t | None \<Rightarrow> [])"
  have p: "strip_prefix (ESC # ''['' @ ?body @ ''u'') (ESC # ''['') = Some (?body @ ''u'')"
    using strip_prefix_append [of "ESC # ''[''" "?body @ ''u''"] by simp
  have s: "strip_suffix (?body @ ''u'') ''u'' = Some ?body" by (rule strip_suffix_append)
  have eq: "ESC # ''['' @ key_part @ '';'' @ m @ (case text of Some t \<Rightarrow> '';'' @ t | None \<Rightarrow> []) @ ''u'' =
      ESC # ''['' @ ?body @ ''u''" by simp
  show ?thesis
    unfolding parse_kitty_key_sequence_def eq p using s assms
    by (auto simp: split_semicolons simp del: append_assoc split: option.split)
qed

section \<open>Legacy sequences\<close>

text \<open>The keys with a legacy sequence of their own.\<close>

definition legacy_key :: "key_code \<Rightarrow> modifiers \<Rightarrow> bool" where
  "legacy_key code mods =
     (case code of
        KChar c \<Rightarrow>
          is_scalar c \<and> 32 \<le> c \<and> c \<noteq> 127 \<and> mods = (if is_upper_code c then {SHIFT} else {}) \<or>
          is_lower_code c \<and> c \<noteq> 105 \<and> c \<noteq> 109 \<and> mods = {CONTROL}
      | Enter \<Rightarrow> mods = {} | TabKey \<Rightarrow> mods = {} | Esc \<Rightarrow> mods = {} | Backspace \<Rightarrow> mods = {}
      | BackTab \<Rightarrow> mods = {SHIFT}
      | FKey n \<Rightarrow> 1 \<le> n \<and> n \<le> 12 \<and> mods \<subseteq> {SHIFT, ALT, CONTROL}
      | _ \<Rightarrow> legacy_special code \<and> mods \<subseteq> {SHIFT, ALT, CONTROL})"

definition reads_back :: "key_code \<Rightarrow> modifiers \<Rightarrow> bool" where
  "reads_back code mods \<longleftrightarrow>
     parse_terminal_key_sequence (encode_key code mods Press Legacy) = Some (key_new code mods)"

lemma xterm_modifiers_back:
  assumes "mods \<subseteq> {SHIFT, ALT, CONTROL}"
  shows "key_modifiers_from_u8 (xterm_modifier mods - Suc 0) = mods"
    and "parse_modifier (decimal (xterm_modifier mods)) = Some (xterm_modifier mods - 1)"
proof -
  have "SUPER \<notin> mods" "HYPER \<notin> mods" "META \<notin> mods" using assms by blast+
  then have eq: "xterm_modifier mods = kitty_modifier mods" by (simp add: kitty_modifier_def)
  show "key_modifiers_from_u8 (xterm_modifier mods - Suc 0) = mods"
    "parse_modifier (decimal (xterm_modifier mods)) = Some (xterm_modifier mods - 1)"
    unfolding eq by (simp, rule parse_modifier_decimal)
qed

lemma xterm_modifier_digit:
  obtains d where "decimal (xterm_modifier mods) = [d]" and "is_ascii_digit d"
proof -
  have "xterm_modifier mods < 10" by (simp add: xterm_modifier_def)
  then have "decimal (xterm_modifier mods) = [char_of (48 + xterm_modifier mods)]" by (rule decimal_small)
  then show thesis using that decimal_members [of _ "xterm_modifier mods"] by simp
qed

lemma xterm_key_back:
  "mods \<subseteq> {SHIFT, ALT, CONTROL} \<Longrightarrow> xterm_key (decimal (xterm_modifier mods)) (Some c) = Some (key_new c mods)"
  by (simp add: xterm_key_def split_xterm_modifier_and_event_def split_modifier_and_event_def split_once_none
      decimal_no parse_kitty_event_type_def xterm_modifiers_back with_kind_def key_new_def)

text \<open>A sequence that is neither a kitty nor a \<open>modifyOtherKeys\<close> one, nor in the table.\<close>

lemma table_lengths: "list_all (\<lambda>p. length (fst p) \<le> 5) legacy_special_sequences"
  by (simp add: legacy_special_sequences_def)

lemma not_in_table: "5 < length s \<Longrightarrow> map_of legacy_special_sequences s = None"
  using table_lengths by (force simp: map_of_eq_None_iff list_all_iff)

lemma not_kitty: "c \<noteq> CHR ''u'' \<Longrightarrow> parse_kitty_key_sequence (s @ [c]) = None"
  by (auto simp: parse_kitty_key_sequence_def strip_prefix_def strip_suffix_def ends_with_def starts_with_def then_some_def
      Option.bind_eq_None_conv)

lemma not_modify_other:
  "length s < 6 \<Longrightarrow> parse_modify_other_keys_sequence s = None"
  "parse_modify_other_keys_sequence (ESC # CHR ''['' # a # CHR '';'' # t) = None"
  "a \<noteq> CHR ''2'' \<or> b \<noteq> CHR ''7'' \<Longrightarrow> parse_modify_other_keys_sequence (ESC # CHR ''['' # a # b # t) = None"
  by (auto simp: parse_modify_other_keys_sequence_def strip_prefix_def strip_suffix_def starts_with_def ends_with_def
      then_some_def Option.bind_eq_None_conv)

lemma read_special:
  assumes "parse_legacy_special_sequence s = Some k" and "s \<noteq> []" and "last s \<noteq> CHR ''u''"
    and "parse_modify_other_keys_sequence s = None"
  shows "parse_terminal_key_sequence s = Some k"
proof -
  have "parse_kitty_key_sequence s = None" using not_kitty [of "last s" "butlast s"] assms(2,3) by simp
  then show ?thesis using assms(1,4) by (simp add: parse_terminal_key_sequence_def parse_legacy_key_sequence.simps)
qed

lemma read_table:
  assumes "map_of legacy_special_sequences s = Some (code, mods)" and "s \<noteq> []" and "last s \<noteq> CHR ''u''"
  shows "parse_terminal_key_sequence s = Some (key_new code mods)"
proof (rule read_special [OF _ assms(2,3)])
  show "parse_legacy_special_sequence s = Some (key_new code mods)"
    using assms(1) by (simp add: parse_legacy_special_sequence_def)
  have "length s < 6" using not_in_table [of s] assms(1) by (cases "length s \<le> 5") auto
  then show "parse_modify_other_keys_sequence s = None" by (rule not_modify_other)
qed

lemma read_letter:
  assumes "mods \<subseteq> {SHIFT, ALT, CONTROL}" and "map_of xterm_letter_keys c = Some code"
  shows "parse_terminal_key_sequence (csi_letter (xterm_modifier mods) [c]) = Some (key_new code mods)"
proof -
  obtain d where d: "decimal (xterm_modifier mods) = [d]" "is_ascii_digit d" by (rule xterm_modifier_digit)
  have c: "is_ascii_letter c" "c \<noteq> CHR ''u''"
    using assms(2) by (auto simp: xterm_letter_keys_def is_ascii_letter_def is_upper_code_def byte_def split: if_splits)
  have s: "csi_letter (xterm_modifier mods) [c] = ESC # ''[1;'' @ [d, c]" by (simp add: csi_letter_def d(1))
  have "parse_xterm_modified_special_sequence (ESC # ''[1;'' @ [d, c]) = xterm_key [d] (Some code)"
    using c assms(2)
    by (simp add: parse_xterm_modified_special_sequence_def strip_prefix_def starts_with_def then_some_def)
  then have "parse_legacy_special_sequence (ESC # ''[1;'' @ [d, c]) = Some (key_new code mods)"
    using xterm_key_back [OF assms(1)] unfolding d(1)
    by (simp add: parse_legacy_special_sequence_def not_in_table)
  then show ?thesis unfolding s using c by (intro read_special) (simp_all add: not_modify_other)
qed

lemma read_tilde:
  assumes "mods \<subseteq> {SHIFT, ALT, CONTROL}" and "map_of xterm_tilde_keys p = Some code"
  shows "parse_terminal_key_sequence (csi_tilde p (xterm_modifier mods)) = Some (key_new code mods)"
proof -
  obtain d where d: "decimal (xterm_modifier mods) = [d]" "is_ascii_digit d" by (rule xterm_modifier_digit)
  have p: "CHR '';'' \<notin> set p" "p \<in> set (map fst xterm_tilde_keys)"
    using assms(2) by (auto simp: xterm_tilde_keys_def split: if_splits)
  have s: "csi_tilde p (xterm_modifier mods) = ESC # CHR ''['' # p @ CHR '';'' # d # ''~''" by (simp add: csi_tilde_def d(1))
  have one: "strip_prefix (p @ CHR '';'' # d # ''~'') ''1;'' = None"
    using p(2) by (auto simp: xterm_tilde_keys_def strip_prefix_def starts_with_def then_some_def)
  have "parse_xterm_tilde (p @ CHR '';'' # d # ''~'') = xterm_key [d] (Some code)"
    using strip_suffix_append [of "p @ CHR '';'' # [d]" "''~''"] p(1) assms(2)
    by (simp add: parse_xterm_tilde_def split_once_append)
  then have "parse_xterm_modified_special_sequence (ESC # CHR ''['' # p @ CHR '';'' # d # ''~'') = Some (key_new code mods)"
    using one xterm_key_back [OF assms(1)] strip_prefix_append [of "ESC # ''[''" "p @ CHR '';'' # d # ''~''"]
    unfolding d(1) by (simp add: parse_xterm_modified_special_sequence_def)
  moreover have len: "5 < length (ESC # CHR ''['' # p @ CHR '';'' # d # ''~'')"
    using p(2) by (auto simp: xterm_tilde_keys_def)
  ultimately have "parse_legacy_special_sequence (ESC # CHR ''['' # p @ CHR '';'' # d # ''~'') = Some (key_new code mods)"
    by (simp add: parse_legacy_special_sequence_def not_in_table)
  moreover have "parse_modify_other_keys_sequence (ESC # CHR ''['' # p @ CHR '';'' # d # ''~'') = None"
    using p(2) by (auto simp: xterm_tilde_keys_def not_modify_other)
  ultimately show ?thesis unfolding s by (intro read_special) simp_all
qed

section \<open>Characters\<close>

lemma encode_utf8_first:
  assumes "32 \<le> c" and "c \<noteq> 127" and "is_scalar c"
  obtains a s where "encode_utf8 c = a # s" and "32 \<le> byte a" and "byte a \<noteq> 127"
proof -
  have c: "c < 0x110000" using assms(3) by (auto simp: is_scalar_def)
  have "c div 64 < 32" if "c < 0x800" using that by simp
  moreover have "c div 4096 < 16" if "c < 0x10000" using that by simp
  moreover have "c div 262144 < 5" using c by simp
  ultimately have "\<exists>a s. encode_utf8 c = a # s \<and> 32 \<le> byte a \<and> byte a \<noteq> 127"
    using assms(1,2) by (auto simp: encode_utf8_def byte_char_of)
  then show thesis using that by blast
qed

lemma table_starts: "list_all (\<lambda>p. fst p \<noteq> [] \<and> hd (fst p) = ESC) legacy_special_sequences"
  by (simp add: legacy_special_sequences_def)

lemma not_escape:
  assumes "a \<noteq> ESC"
  shows "parse_kitty_key_sequence (a # s) = None" and "parse_modify_other_keys_sequence (a # s) = None"
    and "parse_legacy_special_sequence (a # s) = None"
proof -
  have prefix: "strip_prefix (a # s) (ESC # t) = None" for t
    using assms by (simp add: strip_prefix_def starts_with_def then_some_def)
  have "map_of legacy_special_sequences (a # s) = None"
    using table_starts assms by (force simp: map_of_eq_None_iff list_all_iff)
  then show "parse_kitty_key_sequence (a # s) = None" "parse_modify_other_keys_sequence (a # s) = None"
    "parse_legacy_special_sequence (a # s) = None"
    by (simp_all add: parse_kitty_key_sequence_def parse_modify_other_keys_sequence_def parse_legacy_special_sequence_def
        parse_xterm_modified_special_sequence_def prefix)
qed

lemma read_char:
  assumes "byte a \<noteq> 27" and "byte a \<noteq> 13" and "byte a \<noteq> 9" and "byte a \<noteq> 127" and "utf8_chars (a # s) = [c]"
  shows "parse_terminal_key_sequence (a # s) = single_char_key c"
proof -
  have neq: "a \<noteq> ESC" "a \<noteq> CHR 0x0D" "a \<noteq> CHR 0x09" "a \<noteq> CHR 0x7F" using assms(1-4) by (auto simp: byte_def)
  then have "parse_legacy_key_sequence (a # s) = single_char_key c"
    using assms(5) by (subst parse_legacy_key_sequence.simps) (simp add: not_escape del: utf8_chars.simps)
  then show ?thesis using neq(1) by (simp add: parse_terminal_key_sequence_def not_escape)
qed

lemma text_key_reads_back:
  assumes "is_scalar c" and "32 \<le> c" and "c \<noteq> 127"
  shows "reads_back (KChar c) (if is_upper_code c then {SHIFT} else {})"
proof -
  obtain a s where a: "encode_utf8 c = a # s" "32 \<le> byte a" "byte a \<noteq> 127"
    by (rule encode_utf8_first [OF assms(2,3,1)])
  have "utf8_chars (a # s) = [c]" using utf8_roundtrip [OF assms(1), of "[]"] a(1) by simp
  then have "parse_terminal_key_sequence (encode_utf8 c) = single_char_key c"
    unfolding a(1) using a(2,3) by (intro read_char) auto
  moreover have "encode_key (KChar c) (if is_upper_code c then {SHIFT} else {}) Press Legacy = encode_utf8 c"
    by (simp add: encode_key_def encode_terminal_key_def key_from_event_def with_kind_def key_new_def
        has_physical_identity_def physical_key_id_def encode_text_input_def text_char_for_key_def shifted_text_char_def)
  ultimately show ?thesis
    using assms(2) by (simp add: reads_back_def single_char_key_def parse_legacy_ctrl_char_def)
qed

lemma control_byte_lower:
  assumes "is_lower_code c"
  shows "control_byte c = c - 96"
proof -
  obtain k where "c = 97 + k" "k < 26" using assms that [of "c - 97"] by (auto simp: is_lower_code_def)
  then show ?thesis by (simp add: control_byte_def upper_code_def is_lower_code_def Let_def)
qed

lemma control_key_reads_back:
  assumes "is_lower_code c" and "c \<noteq> 105" and "c \<noteq> 109"
  shows "reads_back (KChar c) {CONTROL}"
proof -
  have c: "97 \<le> c" "c \<le> 122" using assms(1) by (simp_all add: is_lower_code_def)
  have b: "byte (char_of (c - 96)) = c - 96" using c by (intro byte_char_of) simp
  have "parse_terminal_key_sequence [char_of (c - 96)] = single_char_key (c - 96)"
    using c assms(2,3) b by (intro read_char) (auto simp: b)
  moreover have "encode_key (KChar c) {CONTROL} Press Legacy = [char_of (c - 96)]"
    using control_byte_lower [OF assms(1)]
    by (simp add: encode_key_def encode_terminal_key_def key_from_event_def with_kind_def key_new_def
        has_physical_identity_def physical_key_id_def encode_text_input_def text_char_for_key_def encode_legacy_def
        encode_modified_special_def encode_legacy_inner_def Let_def xterm_modifier_def)
  moreover have "c - 96 + 96 = c" "is_scalar c" using c by (simp_all add: is_scalar_def)
  ultimately show ?thesis
    using c by (simp add: reads_back_def single_char_key_def parse_legacy_ctrl_char_def char_from_u32_def then_some_def)
qed

section \<open>Special keys\<close>

lemma encode_plain:
  "\<not> is_char_code code \<Longrightarrow> encode_key code {} Press Legacy = encode_legacy_inner (key_new code {})"
  by (cases code)
    (simp_all add: encode_key_def encode_terminal_key_def key_from_event_def with_kind_def key_new_def is_char_code_def
      has_physical_identity_def physical_key_id_def encode_text_input_def text_char_for_key_def encode_legacy_def Let_def)

lemma encode_modified:
  "\<not> is_char_code code \<Longrightarrow> mods \<noteq> {} \<Longrightarrow> encode_modified_special code mods = Some s \<Longrightarrow>
     encode_key code mods Press Legacy = s"
  by (cases code)
    (simp_all add: encode_key_def encode_terminal_key_def key_from_event_def with_kind_def key_new_def is_char_code_def
      has_physical_identity_def physical_key_id_def encode_text_input_def text_char_for_key_def encode_legacy_def Let_def)

lemma plain_reads_back:
  assumes "\<not> is_char_code code" and "s = encode_legacy_inner (key_new code {})"
    and "map_of legacy_special_sequences s = Some (code, {})" and "s \<noteq> []" and "last s \<noteq> CHR ''u''"
  shows "reads_back code {}"
  unfolding reads_back_def encode_plain [OF assms(1)] assms(2) [symmetric] by (rule read_table [OF assms(3-5)])

lemma xterm_modifier_many: "mods \<noteq> {} \<Longrightarrow> mods \<subseteq> {SHIFT, ALT, CONTROL} \<Longrightarrow> \<not> xterm_modifier mods \<le> 1"
  by (auto simp: xterm_modifier_def)

lemma letter_reads_back:
  assumes "\<not> is_char_code code" and "mods \<noteq> {}" and "mods \<subseteq> {SHIFT, ALT, CONTROL}"
    and "map_of xterm_letter_keys c = Some code"
  shows "reads_back code mods"
proof -
  have "encode_modified_special code mods = Some (csi_letter (xterm_modifier mods) [c])"
    using xterm_modifier_many [OF assms(2,3)] assms(4)
    by (auto simp: encode_modified_special_def encode_modified_f_key_def xterm_letter_keys_def Let_def split: if_splits)
  then have "encode_key code mods Press Legacy = csi_letter (xterm_modifier mods) [c]"
    by (rule encode_modified [OF assms(1,2)])
  then show ?thesis unfolding reads_back_def using read_letter [OF assms(3,4)] by simp
qed

lemma tilde_reads_back:
  assumes "\<not> is_char_code code" and "mods \<noteq> {}" and "mods \<subseteq> {SHIFT, ALT, CONTROL}"
    and "map_of xterm_tilde_keys p = Some code"
  shows "reads_back code mods"
proof -
  have "encode_modified_special code mods = Some (csi_tilde p (xterm_modifier mods))"
    using xterm_modifier_many [OF assms(2,3)] assms(4)
    by (auto simp: encode_modified_special_def encode_modified_f_key_def xterm_tilde_keys_def Let_def split: if_splits)
  then have "encode_key code mods Press Legacy = csi_tilde p (xterm_modifier mods)"
    by (rule encode_modified [OF assms(1,2)])
  then show ?thesis unfolding reads_back_def using read_tilde [OF assms(3,4)] by simp
qed

lemma f_key_numbers: "1 \<le> n \<Longrightarrow> n \<le> 12 \<Longrightarrow> n \<in> {1, 2, 3, 4, 5, 6, 7, 8, 9, 10, 11, 12 :: nat}"
  unfolding insert_iff empty_iff by presburger

lemma special_plain_reads_back:
  assumes "legacy_special code" and "\<forall>n. code = FKey n \<longrightarrow> 1 \<le> n \<and> n \<le> 12"
  shows "reads_back code {}"
proof (cases code)
  case (FKey n)
  then have "n \<in> {1, 2, 3, 4, 5, 6, 7, 8, 9, 10, 11, 12}" using assms(2) f_key_numbers by blast
  then show ?thesis unfolding FKey
    by (intro plain_reads_back [where s = "encode_f_key n"])
      (auto simp: is_char_code_def encode_legacy_inner_def key_new_def encode_f_key_def legacy_special_sequences_def)
qed (use assms(1) in \<open>simp_all add: legacy_special_def\<close>,
  (rule plain_reads_back [OF _ refl]; simp add: is_char_code_def encode_legacy_inner_def key_new_def legacy_special_sequences_def)+)

lemma value_has_key: "distinct (map fst t) \<Longrightarrow> v \<in> set (map snd t) \<Longrightarrow> \<exists>k. map_of t k = Some v"
  by (force simp: set_map)

lemma xterm_tables_distinct: "distinct (map fst xterm_letter_keys)" "distinct (map fst xterm_tilde_keys)"
  by (simp_all add: xterm_letter_keys_def xterm_tilde_keys_def)

lemma special_modified_reads_back:
  assumes "legacy_special code" and "\<forall>n. code = FKey n \<longrightarrow> 1 \<le> n \<and> n \<le> 12"
    and "mods \<noteq> {}" and "mods \<subseteq> {SHIFT, ALT, CONTROL}"
  shows "reads_back code mods"
proof -
  have c: "\<not> is_char_code code" using assms(1) by (auto simp: legacy_special_def is_char_code_def split: key_code.splits)
  have n: "n \<in> {1, 2, 3, 4, 5, 6, 7, 8, 9, 10, 11, 12}" if "code = FKey n" for n using assms(2) that f_key_numbers by blast
  have "code \<in> set (map snd xterm_letter_keys) \<or> code \<in> set (map snd xterm_tilde_keys)"
  proof (cases code)
    case (FKey n)
    have sub: "FKey ` {1, 2, 3, 4, 5, 6, 7, 8, 9, 10, 11, 12} \<subseteq> set (map snd xterm_letter_keys) \<union> set (map snd xterm_tilde_keys)"
      by (simp add: xterm_letter_keys_def xterm_tilde_keys_def)
    show ?thesis unfolding FKey Un_iff [symmetric] by (rule subsetD [OF sub imageI [OF n [OF FKey]]])
  qed (use assms(1) in \<open>simp_all add: legacy_special_def xterm_letter_keys_def xterm_tilde_keys_def\<close>)
  then have "(\<exists>l. map_of xterm_letter_keys l = Some code) \<or> (\<exists>p. map_of xterm_tilde_keys p = Some code)"
    by (elim disj_forward) (erule value_has_key [OF xterm_tables_distinct(1)], erule value_has_key [OF xterm_tables_distinct(2)])
  then show ?thesis
    by (elim disjE exE) (erule letter_reads_back [OF c assms(3,4)], erule tilde_reads_back [OF c assms(3,4)])
qed

lemma simple_reads_back:
  "reads_back Enter {}" "reads_back TabKey {}" "reads_back Esc {}" "reads_back Backspace {}" "reads_back BackTab {SHIFT}"
proof -
  have byte_key: "parse_terminal_key_sequence [a] = parse_legacy_key_sequence [a]" for a
    by (simp add: parse_terminal_key_sequence_def parse_kitty_key_sequence_def parse_modify_other_keys_sequence_def
        strip_prefix_def starts_with_def then_some_def)
  have none: "parse_legacy_special_sequence [a] = None" for a
    by (simp add: parse_legacy_special_sequence_def parse_xterm_modified_special_sequence_def legacy_special_sequences_def
        strip_prefix_def starts_with_def then_some_def)
  show "reads_back Enter {}" "reads_back TabKey {}" "reads_back Esc {}" "reads_back Backspace {}"
    by (simp_all add: reads_back_def encode_plain is_char_code_def encode_legacy_inner_def key_new_def byte_key none
        parse_legacy_key_sequence.simps)
  have "encode_key BackTab {SHIFT} Press Legacy = ESC # ''[Z''"
    by (simp add: encode_key_def encode_terminal_key_def key_from_event_def with_kind_def key_new_def
        has_physical_identity_def physical_key_id_def encode_text_input_def text_char_for_key_def encode_legacy_def
        encode_modified_special_def encode_legacy_inner_def Let_def)
  moreover have "parse_terminal_key_sequence (ESC # ''[Z'') = Some (key_new BackTab {SHIFT})"
    by (rule read_table) (simp_all add: legacy_special_sequences_def)
  ultimately show "reads_back BackTab {SHIFT}" by (simp add: reads_back_def)
qed

lemma text_keys_read_back:
  "is_scalar c \<Longrightarrow> 32 \<le> c \<Longrightarrow> c \<noteq> 127 \<Longrightarrow> \<not> is_upper_code c \<Longrightarrow> reads_back (KChar c) {}"
  "is_scalar c \<Longrightarrow> 32 \<le> c \<Longrightarrow> c \<noteq> 127 \<Longrightarrow> is_upper_code c \<Longrightarrow> reads_back (KChar c) {SHIFT}"
  using text_key_reads_back [of c] by simp_all

lemma legacy_key_reads_back: "legacy_key code mods \<Longrightarrow> reads_back code mods"
  using special_plain_reads_back [of code] special_modified_reads_back [of code mods]
    text_keys_read_back
  by (cases code; cases "mods = {}")
    (auto simp: legacy_key_def legacy_special_def simple_reads_back control_key_reads_back
      split: if_splits)

section \<open>Mouse reports\<close>

lemma parse_number_decimal: "n \<le> u32_max \<Longrightarrow> parse_number (decimal n) = Some n"
  by (simp add: parse_number_def)

lemma report_body:
  "or_else (strip_suffix (body @ (if release then ''m'' else ''M'')) ''M'')
     (strip_suffix (body @ (if release then ''m'' else ''M'')) ''m'') = Some body"
  by (simp add: strip_suffix_last)

lemma sgr_prefix: "strip_prefix (ESC # CHR ''['' # CHR ''<'' # s) [ESC, CHR ''['', CHR ''<''] = Some s"
  by (simp add: strip_prefix_def starts_with_def then_some_def)

lemma report_parses:
  assumes "cb \<le> u32_max" and "column < 2 ^ 16" and "row < 2 ^ 16"
  shows "parse_report (ESC # ''[<'' @ decimal cb @ '';'' @ decimal (column + 1) @ '';'' @ decimal (row + 1) @
      (if release then ''m'' else ''M'')) = Some (column + 1, row + 1)"
proof -
  let ?body = "decimal cb @ CHR '';'' # decimal (column + 1) @ CHR '';'' # decimal (row + 1)"
  have b: "or_else (strip_suffix (?body @ (if release then ''m'' else ''M'')) ''M'')
      (strip_suffix (?body @ (if release then ''m'' else ''M'')) ''m'') = Some ?body" by (rule report_body)
  have n: "column + 1 \<le> u32_max" "row + 1 \<le> u32_max" using assms(2,3) by (simp_all add: u32_max_def)
  have fields: "split_on (\<lambda>c. c = CHR '';'') ?body = [decimal cb, decimal (column + 1), decimal (row + 1)]"
    by (simp add: split_semicolons decimal_no)
  show ?thesis
    using b fields parse_number_decimal [OF assms(1)] n [THEN parse_number_decimal]
    by (simp add: parse_report_def sgr_prefix)
qed

lemma report_moved:
  "report_at_cell (\<lambda>_. True) (ESC # ''[<'' @ decimal cb @ '';'' @ c @ '';'' @ r @ (if release then ''m'' else ''M'')) column row =
     Some (ESC # ''[<'' @ decimal cb @ '';'' @ decimal (column + 1) @ '';'' @ decimal (row + 1) @
       (if release then ''m'' else ''M''))"
proof -
  let ?body = "decimal cb @ CHR '';'' # c @ CHR '';'' # r"
  have e: "ends_with (?body @ (if release then ''m'' else ''M'')) ''M'' \<longleftrightarrow> \<not> release"
    by (simp add: ends_with_def)
  have s: "strip_suffix (?body @ (if release then ''m'' else ''M'')) (if release then ''m'' else ''M'') = Some ?body"
    by (rule strip_suffix_append)
  have h: "hd (split_on (\<lambda>c. c = CHR '';'') ?body) = decimal cb" by (simp add: split_semicolons decimal_no)
  show ?thesis
    using e s h by (cases release) (simp_all add: report_at_cell_def sgr_prefix Let_def then_some_def)
qed

end
