(* ===== verification/Input_Lease.thy ===== *)
theory Input_Lease
  imports Input_Keys
begin

text \<open>
  Input leases (\<open>input/lease.rs\<close>): while a key is held, its repeats and its release go where its press
  went. The table maps a key (its source and identity) to a lease: the press was forwarded to a target,
  or it was consumed, and its repeats are then either interpreted again while the context of the press
  lasts, or suppressed. Sources, contexts and targets are type parameters of the table.
\<close>

section \<open>The table\<close>

record 's lease_key =
  lk_source :: 's
  lk_identity :: key_identity

record 't forwarded_lease =
  fl_target :: 't
  fl_key :: terminal_key

datatype 'c consumed_lease = ReprocessRepeats 'c | SuppressRepeats

datatype ('c, 't) lease = Forwarded "'t forwarded_lease" | Consumed "'c consumed_lease"

datatype ('c, 't) repeat_plan = PlanForwarded 't | Reprocess 'c "16 word" bool | Ignore

type_synonym ('s, 'c, 't) leases = "'s lease_key \<rightharpoonup> ('c, 't) lease"

definition lease_key_new :: "'s \<Rightarrow> terminal_key \<Rightarrow> 's lease_key" where
  "lease_key_new s k = \<lparr>lk_source = s, lk_identity = key_identity_of k\<rparr>"

definition text_only_key :: "terminal_key \<Rightarrow> bool" where
  "text_only_key k \<longleftrightarrow> k_generated_text k \<noteq> None \<and> \<not> has_physical_identity k"

definition insert_forwarded :: "('s, 'c, 't) leases \<Rightarrow> 's lease_key \<Rightarrow> 't \<Rightarrow> terminal_key \<Rightarrow> ('s, 'c, 't) leases" where
  "insert_forwarded m key target original = m(key \<mapsto> Forwarded \<lparr>fl_target = target, fl_key = original\<rparr>)"

definition insert_consumed :: "('s, 'c, 't) leases \<Rightarrow> 's lease_key \<Rightarrow> 'c consumed_lease \<Rightarrow> ('s, 'c, 't) leases" where
  "insert_consumed m key disposition = m(key \<mapsto> Consumed disposition)"

section \<open>Presses and repeats\<close>

definition normalize_press :: "('s, 'c, 't) leases \<Rightarrow> 's lease_key \<Rightarrow> terminal_key \<Rightarrow> ('s, 'c, 't) leases \<times> terminal_key" where
  "normalize_press m lk k =
     (if k_kind k \<noteq> Press \<or> text_only_key k then (m, k)
      else if has_physical_identity k \<and> m lk \<noteq> None then (m, with_kind k Repeat)
      else (m(lk := None), k))"

definition complete_press ::
  "('s, 'c, 't) leases \<Rightarrow> 's lease_key \<Rightarrow> terminal_key \<Rightarrow> 'c option \<Rightarrow> 'c option \<Rightarrow> 't option \<Rightarrow>
   ('s, 'c, 't) leases \<times> ('c, 't) repeat_plan" where
  "complete_press m lk k initial resulting target =
     (if text_only_key k then (m, Ignore)
      else case target of
        Some t \<Rightarrow> (insert_forwarded m lk t k, Ignore)
      | None \<Rightarrow>
          let m' =
            (if m lk \<noteq> None then m
             else insert_consumed m lk
               (case (initial, resulting) of
                  (Some i, Some r) \<Rightarrow> if i = r then ReprocessRepeats i else SuppressRepeats
                | _ \<Rightarrow> SuppressRepeats))
          in (m', case m' lk of
                Some (Consumed (ReprocessRepeats c)) \<Rightarrow>
                  if 1 < k_repeat_count k then Reprocess c (k_repeat_count k - 1) True else Ignore
              | _ \<Rightarrow> Ignore))"

definition plan_repeat ::
  "('s, 'c, 't) leases \<Rightarrow> 's lease_key \<Rightarrow> terminal_key \<Rightarrow> 'c option \<Rightarrow>
   ('s, 'c, 't) leases \<times> ('c, 't) repeat_plan" where
  "plan_repeat m lk k current =
     (case m lk of
        Some (Forwarded l) \<Rightarrow> (m, PlanForwarded (fl_target l))
      | Some (Consumed (ReprocessRepeats c)) \<Rightarrow>
          if current = Some c then (m, Reprocess c (k_repeat_count k) True)
          else (insert_consumed m lk SuppressRepeats, Ignore)
      | Some (Consumed SuppressRepeats) \<Rightarrow> (m, Ignore)
      | None \<Rightarrow> (m, case current of Some c \<Rightarrow> Reprocess c (k_repeat_count k) False | None \<Rightarrow> Ignore))"

definition reprocess_allowed ::
  "('s, 'c, 't) leases \<Rightarrow> 's lease_key \<Rightarrow> 'c \<Rightarrow> 'c option \<Rightarrow> bool \<Rightarrow> ('s, 'c, 't) leases \<times> bool" where
  "reprocess_allowed m lk expected current tracked =
     (let allowed = (current = Some expected)
      in (if tracked \<and> \<not> allowed then insert_consumed m lk SuppressRepeats else m, allowed))"

section \<open>Removal\<close>

definition forwarded_of :: "('c, 't) lease option \<Rightarrow> 't forwarded_lease option" where
  "forwarded_of l = (case l of Some (Forwarded f) \<Rightarrow> Some f | _ \<Rightarrow> None)"

lemma forwarded_of_Some [simp]: "forwarded_of (Some (Forwarded f)) = Some f"
  by (simp add: forwarded_of_def)

definition remove_lease :: "('s, 'c, 't) leases \<Rightarrow> 's lease_key \<Rightarrow> ('s, 'c, 't) leases \<times> ('c, 't) lease option" where
  "remove_lease m lk = (m(lk := None), m lk)"

definition remove_forwarded :: "('s, 'c, 't) leases \<Rightarrow> 's lease_key \<Rightarrow> ('s, 'c, 't) leases \<times> 't forwarded_lease option" where
  "remove_forwarded m lk = (m(lk := None), forwarded_of (m lk))"

fun remove_keys :: "('s, 'c, 't) leases \<Rightarrow> 's lease_key list \<Rightarrow> ('s, 'c, 't) leases \<times> 't forwarded_lease list" where
  "remove_keys m [] = (m, [])"
| "remove_keys m (lk # keys) =
     (let (m', rest) = remove_keys (m(lk := None)) keys
      in (m', case forwarded_of (m lk) of Some f \<Rightarrow> f # rest | None \<Rightarrow> rest))"

text \<open>The keys of the hash table come in an order of its own: a list \<open>order\<close> of them is a parameter.\<close>

definition remove_source :: "'s lease_key list \<Rightarrow> ('s, 'c, 't) leases \<Rightarrow> 's \<Rightarrow> ('s, 'c, 't) leases \<times> 't forwarded_lease list" where
  "remove_source order m s = remove_keys m (filter (\<lambda>lk. lk_source lk = s) order)"

definition remove_target :: "'s lease_key list \<Rightarrow> ('s, 'c, 't) leases \<Rightarrow> 't \<Rightarrow> ('s, 'c, 't) leases \<times> 't forwarded_lease list" where
  "remove_target order m t =
     remove_keys m (filter (\<lambda>lk. case m lk of Some (Forwarded l) \<Rightarrow> fl_target l = t | _ \<Rightarrow> False) order)"

section \<open>Removal takes exactly the keys\<close>

lemma remove_keys_fst: "fst (remove_keys m keys) = (\<lambda>lk. if lk \<in> set keys then None else m lk)"
  by (induction keys arbitrary: m) (auto simp: Let_def split_beta)

lemma remove_keys_snd:
  "distinct keys \<Longrightarrow> snd (remove_keys m keys) = List.map_filter (\<lambda>lk. forwarded_of (m lk)) keys"
proof (induction keys arbitrary: m)
  case (Cons lk keys)
  then have "List.map_filter (\<lambda>a. forwarded_of ((m(lk := None)) a)) keys = List.map_filter (\<lambda>a. forwarded_of (m a)) keys"
    by (auto simp: List.map_filter_def intro!: map_cong filter_cong)
  with Cons show ?case by (simp add: Let_def split_beta List.map_filter_simps split: option.split)
qed simp

text \<open>A lease to the target, or of the source.\<close>

definition aims_at :: "('c, 't) lease option \<Rightarrow> 't \<Rightarrow> bool" where
  "aims_at l t \<longleftrightarrow> (\<exists>f. l = Some (Forwarded f) \<and> fl_target f = t)"

lemma remove_target_spec:
  assumes "distinct order" and "set order = dom m"
  shows "fst (remove_target order m t) = (\<lambda>lk. if aims_at (m lk) t then None else m lk)"
    and "set (snd (remove_target order m t)) = {f. fl_target f = t \<and> (\<exists>lk. m lk = Some (Forwarded f))}"
    and "length (snd (remove_target order m t)) = card {lk. aims_at (m lk) t}"
proof -
  let ?P = "\<lambda>lk. case m lk of Some (Forwarded l) \<Rightarrow> fl_target l = t | _ \<Rightarrow> False"
  have P: "?P lk \<longleftrightarrow> aims_at (m lk) t" for lk
    by (auto simp: aims_at_def split: option.split lease.split)
  have keys: "set (filter ?P order) = {lk. aims_at (m lk) t}"
    using assms(2) unfolding P by (auto simp: aims_at_def)
  have d: "distinct (filter ?P order)" using assms(1) by simp
  have snd: "snd (remove_target order m t) = List.map_filter (\<lambda>lk. forwarded_of (m lk)) (filter ?P order)"
    unfolding remove_target_def by (rule remove_keys_snd [OF d])
  show "fst (remove_target order m t) = (\<lambda>lk. if aims_at (m lk) t then None else m lk)"
    unfolding remove_target_def remove_keys_fst keys by simp
  have all: "filter (\<lambda>lk. forwarded_of (m lk) \<noteq> None) (filter ?P order) = filter ?P order"
    by (rule filter_True) (use keys in \<open>auto simp: aims_at_def\<close>)
  have snd': "snd (remove_target order m t) = map (\<lambda>lk. the (forwarded_of (m lk))) (filter ?P order)"
    unfolding snd List.map_filter_def comp_def all ..
  show "set (snd (remove_target order m t)) = {f. fl_target f = t \<and> (\<exists>lk. m lk = Some (Forwarded f))}"
  proof -
    have "(\<lambda>lk. the (forwarded_of (m lk))) ` {lk. aims_at (m lk) t} = {f. \<exists>lk. m lk = Some (Forwarded f) \<and> fl_target f = t}"
      by (force simp: aims_at_def image_iff)
    then show ?thesis unfolding snd' set_map keys by auto
  qed
  show "length (snd (remove_target order m t)) = card {lk. aims_at (m lk) t}"
    unfolding snd' length_map by (metis d distinct_card keys)
qed

lemma remove_source_fst:
  assumes "set order = dom m"
  shows "fst (remove_source order m s) = (\<lambda>lk. if lk_source lk = s then None else m lk)"
  unfolding remove_source_def remove_keys_fst using assms by (auto simp: fun_eq_iff)

section \<open>The life of a held key\<close>

text \<open>What happens to the lease of one key: repeats are planned, re-checked, and other keys are handled.\<close>

datatype ('s, 'c) held_event = PlanRepeat "'s lease_key" terminal_key "'c option"
  | Recheck "'s lease_key" 'c "'c option" bool

fun held_step :: "('s, 'c, 't) leases \<Rightarrow> ('s, 'c) held_event \<Rightarrow> ('s, 'c, 't) leases" where
  "held_step m (PlanRepeat lk k current) = fst (plan_repeat m lk k current)"
| "held_step m (Recheck lk c current tracked) = fst (reprocess_allowed m lk c current tracked)"

lemma plan_repeat_forwarded_kept:
  "m lk = Some (Forwarded l) \<Longrightarrow> fst (plan_repeat m lk' k current) lk = Some (Forwarded l)"
  by (auto simp: plan_repeat_def insert_consumed_def split: option.split lease.split consumed_lease.split)

lemma plan_repeat_suppressed_kept:
  "m lk = Some (Consumed SuppressRepeats) \<Longrightarrow> fst (plan_repeat m lk' k current) lk = Some (Consumed SuppressRepeats)"
  by (auto simp: plan_repeat_def insert_consumed_def split: option.split lease.split consumed_lease.split)

lemma reprocess_allowed_suppressed_kept:
  "m lk = Some (Consumed SuppressRepeats) \<Longrightarrow>
     fst (reprocess_allowed m lk' c current tracked) lk = Some (Consumed SuppressRepeats)"
  by (auto simp: reprocess_allowed_def insert_consumed_def Let_def)

lemma suppressed_kept:
  "m lk = Some (Consumed SuppressRepeats) \<Longrightarrow> foldl held_step m es lk = Some (Consumed SuppressRepeats)"
proof (induction es arbitrary: m)
  case (Cons e es)
  then have "held_step m e lk = Some (Consumed SuppressRepeats)"
    by (cases e) (simp_all add: plan_repeat_suppressed_kept reprocess_allowed_suppressed_kept)
  then show ?case using Cons.IH by simp
qed simp

end
