(* ===== verification/Client_Keys.thy ===== *)
theory Client_Keys
  imports Input_Lease
begin

text \<open>
  How the client shell handles a key (\<open>client/shell/input.rs\<close>): a press is routed, forwarded to its
  target or consumed, and leased; repeats follow the lease; a release goes to the target of its press.
  The rest of the shell (overlays, modes, panes) is a state of type \<open>'u\<close> with the operations this code
  calls on it, the fields of \<open>shell_ops\<close>. The keys pushed to targets are recorded in order.
\<close>

section \<open>State\<close>

record ('u, 'c, 't) shell_ops =
  so_context :: "'u \<Rightarrow> 'c"
  so_route :: "'u \<Rightarrow> terminal_key \<Rightarrow> 'u \<times> 't option"
  so_in_flight :: "'u \<Rightarrow> bool"
  so_enqueue :: "'u \<Rightarrow> terminal_key \<Rightarrow> 'u"
  so_popup_blocks :: "'u \<Rightarrow> 't \<Rightarrow> bool"
  so_has_event :: "terminal_key \<Rightarrow> bool"

record ('u, 'c, 't) client_state =
  cs_shell :: 'u
  cs_leases :: "(nat, 'c, 't) leases"
  cs_pushed :: "('t \<times> terminal_key) list"

definition LOCAL_INPUT_SOURCE :: nat where
  "LOCAL_INPUT_SOURCE = 0"

text \<open>Only a key with an event of the wire is pushed.\<close>

definition push_pane_key ::
  "('u, 'c, 't) shell_ops \<Rightarrow> ('u, 'c, 't) client_state \<Rightarrow> 't \<Rightarrow> terminal_key \<Rightarrow> ('u, 'c, 't) client_state" where
  "push_pane_key ops s t k = (if so_has_event ops k then s\<lparr>cs_pushed := cs_pushed s @ [(t, k)]\<rparr> else s)"

section \<open>Plans\<close>

fun reprocess_key ::
  "('u, 'c, 't) shell_ops \<Rightarrow> nat lease_key \<Rightarrow> terminal_key \<Rightarrow> 'c \<Rightarrow> bool \<Rightarrow> nat \<Rightarrow>
   ('u, 'c, 't) client_state \<Rightarrow> ('u, 'c, 't) client_state" where
  "reprocess_key ops lk k c tracked 0 s = s"
| "reprocess_key ops lk k c tracked (Suc n) s =
     (let (m, allowed) = reprocess_allowed (cs_leases s) lk c (Some (so_context ops (cs_shell s))) tracked;
          s1 = s\<lparr>cs_leases := m\<rparr>
      in if \<not> allowed then s1
         else
           let repeated = with_kind (with_repeat_count k 1) Repeat;
               (u, target) = so_route ops (cs_shell s1) repeated;
               s2 = s1\<lparr>cs_shell := u\<rparr>
           in reprocess_key ops lk k c tracked n
                (case target of Some t \<Rightarrow> push_pane_key ops s2 t repeated | None \<Rightarrow> s2))"

definition execute_repeat_plan ::
  "('u, 'c, 't) shell_ops \<Rightarrow> nat lease_key \<Rightarrow> terminal_key \<Rightarrow> ('c, 't) repeat_plan \<Rightarrow>
   ('u, 'c, 't) client_state \<Rightarrow> ('u, 'c, 't) client_state" where
  "execute_repeat_plan ops lk k plan s =
     (case plan of
        PlanForwarded t \<Rightarrow> if so_popup_blocks ops (cs_shell s) t then s else push_pane_key ops s t k
      | Reprocess c repetitions tracked \<Rightarrow> reprocess_key ops lk k c tracked (unat repetitions) s
      | Ignore \<Rightarrow> s)"

section \<open>Handling a key\<close>

definition handle_press ::
  "('u, 'c, 't) shell_ops \<Rightarrow> nat lease_key \<Rightarrow> terminal_key \<Rightarrow> ('u, 'c, 't) client_state \<Rightarrow> ('u, 'c, 't) client_state" where
  "handle_press ops lk k s =
     (let initial = so_context ops (cs_shell s);
          (u, target) = so_route ops (cs_shell s) k;
          s1 = s\<lparr>cs_shell := u\<rparr>;
          s2 = (case target of Some t \<Rightarrow> push_pane_key ops s1 t k | None \<Rightarrow> s1);
          resulting = so_context ops (cs_shell s2);
          (m, plan) = complete_press (cs_leases s2) lk k (Some initial) (Some resulting) target
      in execute_repeat_plan ops lk k plan (s2\<lparr>cs_leases := m\<rparr>))"

definition handle_repeat ::
  "('u, 'c, 't) shell_ops \<Rightarrow> nat lease_key \<Rightarrow> terminal_key \<Rightarrow> ('u, 'c, 't) client_state \<Rightarrow> ('u, 'c, 't) client_state" where
  "handle_repeat ops lk k s =
     (let (m, plan) = plan_repeat (cs_leases s) lk k (Some (so_context ops (cs_shell s)))
      in execute_repeat_plan ops lk k plan (s\<lparr>cs_leases := m\<rparr>))"

definition handle_release ::
  "('u, 'c, 't) shell_ops \<Rightarrow> nat lease_key \<Rightarrow> terminal_key \<Rightarrow> ('u, 'c, 't) client_state \<Rightarrow> ('u, 'c, 't) client_state" where
  "handle_release ops lk k s =
     (case remove_forwarded (cs_leases s) lk of
        (m, Some l) \<Rightarrow>
          push_pane_key ops (s\<lparr>cs_leases := m\<rparr>) (fl_target l)
            (with_kind (with_modifiers (fl_key l) (k_modifiers k)) Release)
      | (m, None) \<Rightarrow> s\<lparr>cs_leases := fst (remove_lease m lk)\<rparr>)"

definition handle_key ::
  "('u, 'c, 't) shell_ops \<Rightarrow> ('u, 'c, 't) client_state \<Rightarrow> terminal_key \<Rightarrow> ('u, 'c, 't) client_state" where
  "handle_key ops s key =
     (if so_in_flight ops (cs_shell s) then s\<lparr>cs_shell := so_enqueue ops (cs_shell s) key\<rparr>
      else
        let lk = lease_key_new LOCAL_INPUT_SOURCE key;
            (m, k) = normalize_press (cs_leases s) lk key;
            s1 = s\<lparr>cs_leases := m\<rparr>
        in case k_kind k of
             Press \<Rightarrow> handle_press ops lk k s1
           | Repeat \<Rightarrow> handle_repeat ops lk k s1
           | Release \<Rightarrow> handle_release ops lk k s1)"

text \<open>When the client loses the focus, every forwarded key is released; the rest of the shell is \<open>forget\<close>.\<close>

definition release_input_leases ::
  "('u, 'c, 't) shell_ops \<Rightarrow> nat lease_key list \<Rightarrow> ('u \<Rightarrow> 'u) \<Rightarrow> ('u, 'c, 't) client_state \<Rightarrow> ('u, 'c, 't) client_state" where
  "release_input_leases ops order forget s =
     (let (m, forwarded) = remove_source order (cs_leases s) LOCAL_INPUT_SOURCE;
          s1 = foldl (\<lambda>s l. push_pane_key ops s (fl_target l) (with_kind (fl_key l) Release)) (s\<lparr>cs_leases := m\<rparr>) forwarded
      in s1\<lparr>cs_shell := forget (cs_shell s1)\<rparr>)"

section \<open>What happens to a lease\<close>

lemma push_pane_key_leases [simp]: "cs_leases (push_pane_key ops s t k) = cs_leases s"
  by (simp add: push_pane_key_def)

lemma push_pane_key_shell [simp]: "cs_shell (push_pane_key ops s t k) = cs_shell s"
  by (simp add: push_pane_key_def)

lemma push_opt_leases [simp]:
  "cs_leases (case target of Some t \<Rightarrow> push_pane_key ops s t k | None \<Rightarrow> s) = cs_leases s"
  by (simp split: option.split)

text \<open>The lease of another key is never touched.\<close>

lemma reprocess_key_other:
  "lk' \<noteq> lk \<Longrightarrow> cs_leases (reprocess_key ops lk k c tracked n s) lk' = cs_leases s lk'"
proof (induction ops lk k c tracked n s rule: reprocess_key.induct)
  case (2 ops lk k c tracked n s)
  then show ?case
    by (auto simp: Let_def reprocess_allowed_def insert_consumed_def split: prod.split)
qed simp

lemma execute_repeat_plan_other:
  "lk' \<noteq> lk \<Longrightarrow> cs_leases (execute_repeat_plan ops lk k plan s) lk' = cs_leases s lk'"
  by (simp add: execute_repeat_plan_def reprocess_key_other split: repeat_plan.split)

lemma handle_press_other: "lk' \<noteq> lk \<Longrightarrow> cs_leases (handle_press ops lk k s) lk' = cs_leases s lk'"
  by (auto simp: handle_press_def Let_def complete_press_def insert_forwarded_def insert_consumed_def
      execute_repeat_plan_other split: prod.split option.split)

lemma handle_repeat_other: "lk' \<noteq> lk \<Longrightarrow> cs_leases (handle_repeat ops lk k s) lk' = cs_leases s lk'"
  by (auto simp: handle_repeat_def Let_def plan_repeat_def insert_consumed_def execute_repeat_plan_other
      split: prod.split option.split lease.split consumed_lease.split)

lemma handle_release_leases: "cs_leases (handle_release ops lk k s) = (cs_leases s)(lk := None)"
  by (simp add: handle_release_def remove_forwarded_def remove_lease_def split: option.split)

text \<open>A repeat of a forwarded key is pushed to the lease's target, unless a popup is in the way.\<close>

lemma handle_repeat_forwarded:
  "cs_leases s lk = Some (Forwarded l) \<Longrightarrow>
     handle_repeat ops lk k s =
       (if so_popup_blocks ops (cs_shell s) (fl_target l) then s else push_pane_key ops s (fl_target l) k)"
  by (simp add: handle_repeat_def plan_repeat_def execute_repeat_plan_def)

lemma normalize_press_kind:
  "k_kind k = Repeat \<Longrightarrow> normalize_press m lk k = (m, k)"
  "k_kind k = Release \<Longrightarrow> normalize_press m lk k = (m, k)"
  by (simp_all add: normalize_press_def)

lemma with_kind_kind [simp]: "k_kind (with_kind k kind) = kind"
  by (simp add: with_kind_def Let_def)

lemma normalize_press_other: "lk' \<noteq> lk \<Longrightarrow> fst (normalize_press m lk k) lk' = m lk'"
  by (simp add: normalize_press_def)

lemma handle_key_other:
  assumes "lease_key_new LOCAL_INPUT_SOURCE key \<noteq> lk"
  shows "cs_leases (handle_key ops s key) lk = cs_leases s lk"
proof -
  have other: "lk \<noteq> lease_key_new LOCAL_INPUT_SOURCE key" using assms by simp
  show ?thesis
    using normalize_press_other [OF other, of "cs_leases s" key]
    by (auto simp: handle_key_def Let_def handle_press_other [OF other] handle_repeat_other [OF other]
        handle_release_leases other split: prod.split key_kind.split)
qed

text \<open>A repeat keeps the lease of a forwarded key, and so does a second press of a physical key.\<close>

definition keeps_lease :: "nat lease_key \<Rightarrow> terminal_key \<Rightarrow> bool" where
  "keeps_lease lk key \<longleftrightarrow>
     lease_key_new LOCAL_INPUT_SOURCE key \<noteq> lk \<or> k_kind key = Repeat \<or> k_kind key = Press \<and> has_physical_identity key"

lemma with_kind_text_only: "text_only_key key \<Longrightarrow> \<not> has_physical_identity key"
  by (simp add: text_only_key_def)

lemma handle_key_keeps:
  assumes "keeps_lease lk key" and "cs_leases s lk = Some (Forwarded l)"
  shows "cs_leases (handle_key ops s key) lk = Some (Forwarded l)"
proof (cases "lease_key_new LOCAL_INPUT_SOURCE key = lk")
  case False
  then show ?thesis using handle_key_other assms(2) by metis
next
  case True
  then consider "k_kind key = Repeat" | "k_kind key = Press" "has_physical_identity key"
    using assms(1) by (auto simp: keeps_lease_def)
  then show ?thesis
  proof cases
    case 1
    then show ?thesis
      using assms(2) True by (simp add: handle_key_def Let_def normalize_press_kind handle_repeat_forwarded)
  next
    case 2
    then have "normalize_press (cs_leases s) lk key = (cs_leases s, with_kind key Repeat)"
      using assms(2) by (auto simp: normalize_press_def dest: with_kind_text_only)
    then show ?thesis
      using assms(2) True by (simp add: handle_key_def Let_def handle_repeat_forwarded)
  qed
qed

lemma handle_keys_keep:
  assumes "list_all (keeps_lease lk) keys" and "cs_leases s lk = Some (Forwarded l)"
  shows "cs_leases (foldl (handle_key ops) s keys) lk = Some (Forwarded l)"
  using assms by (induction keys arbitrary: s) (simp_all add: handle_key_keeps)

lemma handle_key_forwards:
  assumes "\<not> so_in_flight ops (cs_shell s)" and "k_kind key = Press" and "\<not> text_only_key key"
    and "\<not> (has_physical_identity key \<and> cs_leases s (lease_key_new LOCAL_INPUT_SOURCE key) \<noteq> None)"
    and "so_route ops (cs_shell s) key = (u, Some t)"
  shows "cs_leases (handle_key ops s key) (lease_key_new LOCAL_INPUT_SOURCE key) =
      Some (Forwarded \<lparr>fl_target = t, fl_key = key\<rparr>)"
proof -
  have "normalize_press (cs_leases s) (lease_key_new LOCAL_INPUT_SOURCE key) key =
      ((cs_leases s)(lease_key_new LOCAL_INPUT_SOURCE key := None), key)"
    using assms(2-4) by (auto simp: normalize_press_def)
  then show ?thesis
    using assms(1-3,5)
    by (simp add: handle_key_def Let_def handle_press_def complete_press_def insert_forwarded_def
        execute_repeat_plan_def)
qed

lemma handle_key_release:
  assumes "\<not> so_in_flight ops (cs_shell s)" and "k_kind key = Release"
    and "cs_leases s (lease_key_new LOCAL_INPUT_SOURCE key) = Some (Forwarded l)"
  shows "handle_key ops s key =
      push_pane_key ops (s\<lparr>cs_leases := (cs_leases s)(lease_key_new LOCAL_INPUT_SOURCE key := None)\<rparr>) (fl_target l)
        (with_kind (with_modifiers (fl_key l) (k_modifiers key)) Release)"
  using assms by (simp add: handle_key_def Let_def normalize_press_kind handle_release_def remove_forwarded_def forwarded_of_def)

section \<open>Losing the focus\<close>

lemma fold_push:
  "foldl (\<lambda>s l. push_pane_key ops s (fl_target l) (with_kind (fl_key l) Release)) s ls =
     s\<lparr>cs_pushed := cs_pushed s @
        filter (\<lambda>(t, k). so_has_event ops k) (map (\<lambda>l. (fl_target l, with_kind (fl_key l) Release)) ls)\<rparr>"
  by (induction ls arbitrary: s) (auto simp: push_pane_key_def)

lemma in_map_filter: "y \<in> set (List.map_filter g xs) \<longleftrightarrow> (\<exists>x \<in> set xs. g x = Some y)"
  by (induction xs) (auto simp: List.map_filter_simps split: option.split)

lemma forwarded_of_iff: "forwarded_of l = Some f \<longleftrightarrow> l = Some (Forwarded f)"
  by (auto simp: forwarded_of_def split: option.splits lease.splits)

lemma remove_source_snd:
  assumes "distinct order"
  shows "set (snd (remove_source order m s)) = {f. \<exists>lk \<in> set order. lk_source lk = s \<and> m lk = Some (Forwarded f)}"
proof -
  have "snd (remove_source order m s) = List.map_filter (\<lambda>lk. forwarded_of (m lk)) (filter (\<lambda>lk. lk_source lk = s) order)"
    unfolding remove_source_def using assms by (intro remove_keys_snd) simp
  then show ?thesis by (auto simp: in_map_filter forwarded_of_iff)
qed

end
