(* ===== verification/Selection.thy ===== *)
theory Selection
  imports Layout
begin

text \<open>
  A text selection in a pane (\<open>selection.rs\<close>): the anchor and the cursor in rows of the screen's buffer,
  the phases of the gesture, clamping the mouse to the pane, and the cells the selection contains.
  \<open>clamp\<close> panics when its bounds are out of order, which is \<open>None\<close>; the rows of the buffer are \<open>u32\<close>.
\<close>

section \<open>Rows\<close>

record scroll_metrics =
  sm_offset_from_bottom :: nat
  sm_max_offset_from_bottom :: nat
  sm_viewport_rows :: nat

definition viewport_top_row :: "scroll_metrics option \<Rightarrow> 32 word" where
  "viewport_top_row metrics =
     of_nat (case metrics of Some m \<Rightarrow> sm_max_offset_from_bottom m - sm_offset_from_bottom m | None \<Rightarrow> 0)"

definition absolute_row_for_viewport_row :: "u16 \<Rightarrow> scroll_metrics option \<Rightarrow> 32 word" where
  "absolute_row_for_viewport_row row metrics = viewport_top_row metrics + ucast row"

definition viewport_row_for_absolute_row :: "32 word \<Rightarrow> scroll_metrics option \<Rightarrow> u16" where
  "viewport_row_for_absolute_row row metrics =
     (let n = unat row - unat (viewport_top_row metrics) in if n < 2 ^ 16 then of_nat n else 0)"

definition clamp_u16 :: "u16 \<Rightarrow> u16 \<Rightarrow> u16 \<Rightarrow> u16 option" where
  "clamp_u16 lo hi v = (if lo \<le> hi then Some (if v < lo then lo else if hi < v then hi else v) else None)"

text \<open>The row and the column of the pane.\<close>

definition clamp_to_pane :: "u16 \<Rightarrow> u16 \<Rightarrow> rect \<Rightarrow> (u16 \<times> u16) option" where
  "clamp_to_pane screen_col screen_row inner =
     Option.bind (clamp_u16 (rx inner) (rx inner + sat_sub (rwidth inner) 1) screen_col) (\<lambda>col.
     Option.bind (clamp_u16 (ry inner) (ry inner + sat_sub (rheight inner) 1) screen_row) (\<lambda>row.
     Some (row - ry inner, col - rx inner)))"

section \<open>Selections\<close>

datatype phase = Anchored | Dragging | Done

type_synonym position = "32 word \<times> u16"

record 'p selection =
  sel_pane_id :: 'p
  sel_anchor :: position
  sel_cursor :: position
  sel_phase :: phase

definition selection_anchor :: "'p \<Rightarrow> u16 \<Rightarrow> u16 \<Rightarrow> scroll_metrics option \<Rightarrow> 'p selection" where
  "selection_anchor pane row col metrics =
     (let anchor = (absolute_row_for_viewport_row row metrics, col)
      in \<lparr>sel_pane_id = pane, sel_anchor = anchor, sel_cursor = anchor, sel_phase = Anchored\<rparr>)"

definition absolute_anchor :: "'p \<Rightarrow> position \<Rightarrow> 'p selection" where
  "absolute_anchor pane anchor =
     \<lparr>sel_pane_id = pane, sel_anchor = anchor, sel_cursor = anchor, sel_phase = Anchored\<rparr>"

definition absolute_range :: "'p \<Rightarrow> position \<Rightarrow> position \<Rightarrow> 'p selection" where
  "absolute_range pane anchor cursor =
     \<lparr>sel_pane_id = pane, sel_anchor = anchor, sel_cursor = cursor, sel_phase = Dragging\<rparr>"

definition line_range :: "'p \<Rightarrow> 32 word \<Rightarrow> 32 word \<Rightarrow> u16 \<Rightarrow> 'p selection" where
  "line_range pane anchor_row cursor_row end_col =
     (let (anchor_col, cursor_col) = (if anchor_row \<le> cursor_row then (0, end_col) else (end_col, 0))
      in \<lparr>sel_pane_id = pane, sel_anchor = (anchor_row, anchor_col), sel_cursor = (cursor_row, cursor_col),
          sel_phase = Dragging\<rparr>)"

definition anchor_screen_pos :: "'p selection \<Rightarrow> rect \<Rightarrow> scroll_metrics option \<Rightarrow> (u16 \<times> u16) option" where
  "anchor_screen_pos s inner metrics =
     (let viewport_row = viewport_row_for_absolute_row (fst (sel_anchor s)) metrics
      in Option.bind (clamp_u16 (ry inner) (ry inner + sat_sub (rheight inner) 1) (sat_add viewport_row (ry inner))) (\<lambda>row.
         Option.bind (clamp_u16 (rx inner) (rx inner + sat_sub (rwidth inner) 1) (sat_add (snd (sel_anchor s)) (rx inner)))
           (\<lambda>col. Some (row, col))))"

definition drag :: "'p selection \<Rightarrow> u16 \<Rightarrow> u16 \<Rightarrow> rect \<Rightarrow> scroll_metrics option \<Rightarrow> 'p selection option" where
  "drag s screen_col screen_row inner metrics =
     Option.bind (clamp_to_pane screen_col screen_row inner) (\<lambda>(row, col).
       let s' = s\<lparr>sel_cursor := (absolute_row_for_viewport_row row metrics, col)\<rparr>
       in Some (if sel_cursor s' \<noteq> sel_anchor s' then s'\<lparr>sel_phase := Dragging\<rparr> else s'))"

definition finish :: "'p selection \<Rightarrow> 'p selection \<times> bool" where
  "finish s = (if sel_phase s = Dragging then (s\<lparr>sel_phase := Done\<rparr>, True) else (s, False))"

definition is_visible :: "'p selection \<Rightarrow> bool" where
  "is_visible s \<longleftrightarrow> sel_phase s = Dragging \<or> sel_phase s = Done"

definition is_just_click :: "'p selection \<Rightarrow> bool" where
  "is_just_click s \<longleftrightarrow> sel_phase s = Anchored"

definition force_dragging :: "'p selection \<Rightarrow> 'p selection" where
  "force_dragging s = (if sel_phase s = Anchored then s\<lparr>sel_phase := Dragging\<rparr> else s)"

definition is_in_progress :: "'p selection \<Rightarrow> bool" where
  "is_in_progress s \<longleftrightarrow> sel_phase s = Anchored \<or> sel_phase s = Dragging"

definition is_dragging :: "'p selection \<Rightarrow> bool" where
  "is_dragging s \<longleftrightarrow> sel_phase s = Dragging"

definition ordered :: "'p selection \<Rightarrow> position \<times> position" where
  "ordered s =
     (let (ar, ac) = sel_anchor s; (cr, cc) = sel_cursor s
      in if ar < cr \<or> ar = cr \<and> ac \<le> cc then ((ar, ac), (cr, cc)) else ((cr, cc), (ar, ac)))"

definition contains :: "'p selection \<Rightarrow> u16 \<Rightarrow> u16 \<Rightarrow> scroll_metrics option \<Rightarrow> bool" where
  "contains s viewport_row col metrics =
     (if \<not> is_visible s then False
      else
        let row = absolute_row_for_viewport_row viewport_row metrics;
            ((sr, sc), (er, ec)) = ordered s
        in if row < sr \<or> er < row then False
           else if sr = er then sc \<le> col \<and> col \<le> ec
           else if row = sr then sc \<le> col
           else if row = er then col \<le> ec
           else True)"

section \<open>Reading order\<close>

text \<open>The reading order of positions: by row, then by column.\<close>

definition reads_before :: "position \<Rightarrow> position \<Rightarrow> bool" where
  "reads_before p q \<longleftrightarrow> fst p < fst q \<or> fst p = fst q \<and> snd p \<le> snd q"

definition first_of :: "position \<Rightarrow> position \<Rightarrow> position" where
  "first_of p q = (if reads_before p q then p else q)"

definition last_of :: "position \<Rightarrow> position \<Rightarrow> position" where
  "last_of p q = (if reads_before p q then q else p)"

lemma reads_before_refl [simp]: "reads_before p p"
  by (simp add: reads_before_def)

lemma reads_before_total: "reads_before p q \<or> reads_before q p"
  by (auto simp: reads_before_def)

lemma reads_before_antisym: "reads_before p q \<Longrightarrow> reads_before q p \<Longrightarrow> p = q"
  by (auto simp: reads_before_def prod_eq_iff)

lemma ordered_eq: "ordered s = (first_of (sel_anchor s) (sel_cursor s), last_of (sel_anchor s) (sel_cursor s))"
  by (auto simp: ordered_def first_of_def last_of_def reads_before_def split: prod.split)

section \<open>Clamping\<close>

text \<open>The pane lies on a screen of \<open>u16\<close> cells: its last row and column do not wrap.\<close>

definition on_screen :: "rect \<Rightarrow> bool" where
  "on_screen r \<longleftrightarrow> unat (rx r) + (unat (rwidth r) - 1) < 2 ^ 16 \<and> unat (ry r) + (unat (rheight r) - 1) < 2 ^ 16"

lemma unat_last: "unat a + (unat n - 1) < 2 ^ 16 \<Longrightarrow> unat (a + sat_sub n 1 :: u16) = unat a + (unat n - 1)"
  by (simp add: unat_word_ariths unat_sat_sub)

lemma clamp_u16_unat:
  assumes "unat a + (unat n - 1) < 2 ^ 16"
  obtains c where "clamp_u16 a (a + sat_sub n 1) v = Some c" and "unat a \<le> unat c"
    and "unat c = max (unat a) (min (unat v) (unat a + (unat n - 1)))"
proof -
  note l = unat_last [OF assms]
  have "a \<le> a + sat_sub n 1" using l by (simp add: word_le_nat_alt)
  then show thesis using that l
    by (auto simp: clamp_u16_def word_less_nat_alt split: if_splits)
qed

lemma clamped_offset: "max a (min v (a + m)) - a = min (v - a) (m :: nat)"
  by (auto simp: min_def max_def)

lemma clamp_to_pane_unat:
  assumes "on_screen r"
  obtains row col where "clamp_to_pane x y r = Some (row, col)"
    and "unat row = min (unat y - unat (ry r)) (unat (rheight r) - 1)"
    and "unat col = min (unat x - unat (rx r)) (unat (rwidth r) - 1)"
proof -
  obtain c where c: "clamp_u16 (rx r) (rx r + sat_sub (rwidth r) 1) x = Some c" "unat (rx r) \<le> unat c"
    "unat c = max (unat (rx r)) (min (unat x) (unat (rx r) + (unat (rwidth r) - 1)))"
    using clamp_u16_unat assms unfolding on_screen_def by blast
  obtain d where d: "clamp_u16 (ry r) (ry r + sat_sub (rheight r) 1) y = Some d" "unat (ry r) \<le> unat d"
    "unat d = max (unat (ry r)) (min (unat y) (unat (ry r) + (unat (rheight r) - 1)))"
    using clamp_u16_unat assms unfolding on_screen_def by blast
  have "clamp_to_pane x y r = Some (d - ry r, c - rx r)" using c(1) d(1) by (simp add: clamp_to_pane_def)
  moreover have "unat (c - rx r) = unat c - unat (rx r)" "unat (d - ry r) = unat d - unat (ry r)"
    using c(2) d(2) by (simp_all add: unat_sub word_le_nat_alt)
  ultimately show thesis using that by (simp add: c(3) d(3) clamped_offset)
qed

lemma unat_absolute_row:
  assumes "unat (viewport_top_row metrics) + unat row < 2 ^ 32"
  shows "unat (absolute_row_for_viewport_row row metrics) = unat (viewport_top_row metrics) + unat row"
proof -
  have "unat row < 2 ^ 32" using u16_bound [of row] by (simp add: u16_max_def)
  then have "unat (ucast row :: 32 word) = unat row" by (simp add: unsigned_ucast_eq take_bit_eq_mod)
  with assms show ?thesis by (simp add: absolute_row_for_viewport_row_def unat_word_ariths)
qed

end
