(* ===== verification/Wire_Input.thy ===== *)
theory Wire_Input
  imports Input_Parse
begin

text \<open>
  Keys and mouse events on the wire between client and server (\<open>protocol/wire.rs\<close>): the client sends a
  pane's input as an event, the server turns the event back into a key. The bits of the modifiers are
  those of \<open>crossterm\<close>'s \<open>KeyModifiers\<close> (\<open>bits\<close> and \<open>from_bits_truncate\<close>), which are parameters.
\<close>

section \<open>Codes, kinds and buttons\<close>

datatype client_key_code = CBackspace | CEnter | CLeft | CRight | CUp | CDown | CHome | CEnd | CPageUp | CPageDown
  | CTab | CBackTab | CDelete | CInsert | CEsc | CChar nat | CF nat | CNull

datatype client_key_kind = CPress | CRepeat | CRelease

datatype client_mouse_button = CLeftButton | CRightButton | CMiddleButton

datatype client_mouse_kind = CButtonDown client_mouse_button | CButtonUp client_mouse_button
  | CButtonDrag client_mouse_button
  | CMoved | CScrollUp | CScrollDown | CScrollLeft | CScrollRight

datatype client_mouse_position = CCell u16 u16 | CPixels u32 u32 u16 u16

record client_mouse_geometry =
  cg_cols :: u16
  cg_rows :: u16
  cg_width_px :: u32
  cg_height_px :: u32

record client_key_event =
  ce_code :: client_key_code
  ce_modifiers :: "8 word"
  ce_kind :: client_key_kind
  ce_repeat_count :: u16
  ce_shifted_codepoint :: "nat option"
  ce_generated_text :: "string option"
  ce_tracks_release :: bool
  ce_physical_key_id :: "u32 option"
  ce_windows_record :: "windows_key_record option"

record client_mouse_event =
  cm_kind :: client_mouse_kind
  cm_position :: client_mouse_position
  cm_geometry :: "client_mouse_geometry option"
  cm_modifiers :: "8 word"
  cm_lines :: u16

datatype client_pane_input_event = KeyEvent client_key_event | TextCommitEvent string
  | MouseInput client_mouse_event | PasteEvent string

record mouse_event =
  me_kind :: mouse_kind
  me_column :: u16
  me_row :: u16
  me_modifiers :: modifiers

datatype raw_input_event = RawKey terminal_key | RawText string | RawMouse mouse_event | RawPaste string

fun kind_from_crossterm :: "key_kind \<Rightarrow> client_key_kind" where
  "kind_from_crossterm Press = CPress"
| "kind_from_crossterm Repeat = CRepeat"
| "kind_from_crossterm Release = CRelease"

fun kind_to_crossterm :: "client_key_kind \<Rightarrow> key_kind" where
  "kind_to_crossterm CPress = Press"
| "kind_to_crossterm CRepeat = Repeat"
| "kind_to_crossterm CRelease = Release"

definition code_from_crossterm :: "key_code \<Rightarrow> client_key_code option" where
  "code_from_crossterm code =
     (case code of
        Backspace \<Rightarrow> Some CBackspace | Enter \<Rightarrow> Some CEnter | LeftKey \<Rightarrow> Some CLeft | RightKey \<Rightarrow> Some CRight
      | UpKey \<Rightarrow> Some CUp | DownKey \<Rightarrow> Some CDown | Home \<Rightarrow> Some CHome | EndKey \<Rightarrow> Some CEnd
      | PageUp \<Rightarrow> Some CPageUp | PageDown \<Rightarrow> Some CPageDown | TabKey \<Rightarrow> Some CTab | BackTab \<Rightarrow> Some CBackTab
      | Delete \<Rightarrow> Some CDelete | Insert \<Rightarrow> Some CInsert | Esc \<Rightarrow> Some CEsc | KChar c \<Rightarrow> Some (CChar c)
      | FKey n \<Rightarrow> Some (CF n) | NullKey \<Rightarrow> Some CNull | _ \<Rightarrow> None)"

fun code_to_crossterm :: "client_key_code \<Rightarrow> key_code" where
  "code_to_crossterm CBackspace = Backspace"
| "code_to_crossterm CEnter = Enter"
| "code_to_crossterm CLeft = LeftKey"
| "code_to_crossterm CRight = RightKey"
| "code_to_crossterm CUp = UpKey"
| "code_to_crossterm CDown = DownKey"
| "code_to_crossterm CHome = Home"
| "code_to_crossterm CEnd = EndKey"
| "code_to_crossterm CPageUp = PageUp"
| "code_to_crossterm CPageDown = PageDown"
| "code_to_crossterm CTab = TabKey"
| "code_to_crossterm CBackTab = BackTab"
| "code_to_crossterm CDelete = Delete"
| "code_to_crossterm CInsert = Insert"
| "code_to_crossterm CEsc = Esc"
| "code_to_crossterm (CChar c) = KChar c"
| "code_to_crossterm (CF n) = FKey n"
| "code_to_crossterm CNull = NullKey"

fun button_from_crossterm :: "mouse_button \<Rightarrow> client_mouse_button" where
  "button_from_crossterm LeftButton = CLeftButton"
| "button_from_crossterm RightButton = CRightButton"
| "button_from_crossterm MiddleButton = CMiddleButton"

fun button_to_crossterm :: "client_mouse_button \<Rightarrow> mouse_button" where
  "button_to_crossterm CLeftButton = LeftButton"
| "button_to_crossterm CRightButton = RightButton"
| "button_to_crossterm CMiddleButton = MiddleButton"

fun mouse_from_crossterm :: "mouse_kind \<Rightarrow> client_mouse_kind option" where
  "mouse_from_crossterm (Down b) = Some (CButtonDown (button_from_crossterm b))"
| "mouse_from_crossterm (Up b) = Some (CButtonUp (button_from_crossterm b))"
| "mouse_from_crossterm (Drag b) = Some (CButtonDrag (button_from_crossterm b))"
| "mouse_from_crossterm Moved = Some CMoved"
| "mouse_from_crossterm ScrollUp = Some CScrollUp"
| "mouse_from_crossterm ScrollDown = Some CScrollDown"
| "mouse_from_crossterm ScrollLeft = Some CScrollLeft"
| "mouse_from_crossterm ScrollRight = Some CScrollRight"

fun mouse_to_crossterm :: "client_mouse_kind \<Rightarrow> mouse_kind" where
  "mouse_to_crossterm (CButtonDown b) = Down (button_to_crossterm b)"
| "mouse_to_crossterm (CButtonUp b) = Up (button_to_crossterm b)"
| "mouse_to_crossterm (CButtonDrag b) = Drag (button_to_crossterm b)"
| "mouse_to_crossterm CMoved = Moved"
| "mouse_to_crossterm CScrollUp = ScrollUp"
| "mouse_to_crossterm CScrollDown = ScrollDown"
| "mouse_to_crossterm CScrollLeft = ScrollLeft"
| "mouse_to_crossterm CScrollRight = ScrollRight"

section \<open>Events\<close>

definition from_terminal_key :: "(modifiers \<Rightarrow> 8 word) \<Rightarrow> terminal_key \<Rightarrow> client_pane_input_event option" where
  "from_terminal_key bits k =
     (let tracks_release = k_generated_text k = None \<or> has_physical_identity k
      in map_option (\<lambda>code. KeyEvent
           \<lparr>ce_code = code, ce_modifiers = bits (k_modifiers k), ce_kind = kind_from_crossterm (k_kind k),
            ce_repeat_count = k_repeat_count k, ce_shifted_codepoint = k_shifted_codepoint k,
            ce_generated_text = k_generated_text k, ce_tracks_release = tracks_release,
            ce_physical_key_id = physical_key_id k, ce_windows_record = windows_record k\<rparr>)
         (code_from_crossterm (k_code k)))"

text \<open>The record of a Windows console is attached to the key on Windows only (\<open>attach_windows_source\<close>).\<close>

definition key_of_event :: "(8 word \<Rightarrow> modifiers) \<Rightarrow> bool \<Rightarrow> client_key_event \<Rightarrow> terminal_key" where
  "key_of_event from_bits attach_windows_source e =
     (let k = with_windows_composition_hint
           (with_physical_identity_hint
             (with_generated_text
               (with_repeat_count
                 (with_kind (key_new (code_to_crossterm (ce_code e)) (from_bits (ce_modifiers e)))
                   (kind_to_crossterm (ce_kind e)))
                 (ce_repeat_count e))
               (ce_generated_text e))
             (ce_tracks_release e \<and> ce_generated_text e \<noteq> None))
           (ce_windows_record e);
          k1 = (case ce_shifted_codepoint e of Some s \<Rightarrow> with_shifted_codepoint k s | None \<Rightarrow> k)
      in if attach_windows_source
         then case ce_windows_record e of Some r \<Rightarrow> with_windows_record k1 r | None \<Rightarrow> k1
         else k1)"

definition to_raw_input_event ::
  "(8 word \<Rightarrow> modifiers) \<Rightarrow> bool \<Rightarrow> client_pane_input_event \<Rightarrow> raw_input_event" where
  "to_raw_input_event from_bits attach_windows_source event =
     (case event of
        KeyEvent e \<Rightarrow> RawKey (key_of_event from_bits attach_windows_source e)
      | TextCommitEvent t \<Rightarrow> RawText t
      | MouseInput m \<Rightarrow>
          let (column, row) = (case cm_position m of CCell c r \<Rightarrow> (c, r) | CPixels x y c r \<Rightarrow> (c, r))
          in RawMouse \<lparr>me_kind = mouse_to_crossterm (cm_kind m), me_column = column, me_row = row,
               me_modifiers = from_bits (cm_modifiers m)\<rparr>
      | PasteEvent t \<Rightarrow> RawPaste t)"

section \<open>Conversions are inverse\<close>

lemma kind_roundtrip [simp]: "kind_to_crossterm (kind_from_crossterm k) = k"
  by (cases k) simp_all

lemma code_roundtrip: "code_from_crossterm c = Some d \<Longrightarrow> code_to_crossterm d = c"
  by (cases c) (auto simp: code_from_crossterm_def)

lemma button_roundtrip [simp]: "button_to_crossterm (button_from_crossterm b) = b"
  by (cases b) simp_all

lemma mouse_roundtrip: "mouse_from_crossterm k = Some m \<Longrightarrow> mouse_to_crossterm m = k"
  by (cases k) auto

text \<open>
  The dead key mark and the identity of a key are those its Windows record gives, as the builder that
  attaches the record sets them.
\<close>

definition record_ok :: "terminal_key \<Rightarrow> bool" where
  "record_ok k \<longleftrightarrow>
     k_windows_shift_dead_key k = k_windows_shift_dead_key (with_windows_composition_hint k (windows_record k)) \<and>
     (case k_source k of
        WindowsConsole r p \<Rightarrow> p = windows_physical_key_id r \<and> k_physical_identity_hint k = (p \<noteq> None)
      | _ \<Rightarrow> True)"

lemma with_windows_record_ok: "record_ok (with_windows_record k r)"
  by (simp add: record_ok_def with_windows_record_def with_windows_composition_hint_def windows_record_def Let_def)

text \<open>What the encoder sees of a key: everything but its source, its identity and its count.\<close>

definition pane_view :: "terminal_key \<Rightarrow> key_code \<times> modifiers \<times> key_kind \<times> nat option \<times> string option \<times> bool" where
  "pane_view k = (k_code k, k_modifiers k, k_kind k, k_shifted_codepoint k, k_generated_text k,
     k_windows_shift_dead_key k)"

text \<open>The encoder looks at the identity of a key only when the key has text.\<close>

definition text_identity :: "terminal_key \<Rightarrow> bool" where
  "text_identity k \<longleftrightarrow> k_generated_text k \<noteq> None \<and> has_physical_identity k"

lemma pane_viewD:
  assumes "pane_view a = pane_view b"
  shows "k_code a = k_code b" "k_modifiers a = k_modifiers b" "k_kind a = k_kind b"
    "k_shifted_codepoint a = k_shifted_codepoint b" "k_generated_text a = k_generated_text b"
    "k_windows_shift_dead_key a = k_windows_shift_dead_key b"
  using assms by (simp_all add: pane_view_def)

lemma shifted_text_char_cong:
  "k_shifted_codepoint a = k_shifted_codepoint b \<Longrightarrow> shifted_text_char a = shifted_text_char b"
  by (simp add: shifted_text_char_def fun_eq_iff)

lemma text_char_cong: "pane_view a = pane_view b \<Longrightarrow> text_char_for_key a = text_char_for_key b"
  unfolding text_char_for_key_def
  by (simp only: pane_viewD [of a b] shifted_text_char_cong [of a b, OF pane_viewD(4)])

lemma csi_u_cong:
  assumes "pane_view a = pane_view b"
  shows "try_encode_csi_u a flags = try_encode_csi_u b flags"
proof -
  note v = pane_viewD [OF assms]
  have e: "kitty_event_suffix a flags = kitty_event_suffix b flags" unfolding kitty_event_suffix_def v ..
  have alt: "alternate_shifted_codepoint a flags = alternate_shifted_codepoint b flags"
    unfolding alternate_shifted_codepoint_def v ..
  have cp: "kitty_codepoint a flags = kitty_codepoint b flags" unfolding kitty_codepoint_def v alt ..
  have t: "text_codepoint_for_key a = text_codepoint_for_key b"
    by (simp add: text_codepoint_for_key_def text_char_cong [OF assms])
  show ?thesis unfolding try_encode_csi_u_def e cp t v ..
qed

lemma legacy_inner_cong:
  assumes "k_code a = k_code b" and "k_modifiers a = k_modifiers b" and "k_shifted_codepoint a = k_shifted_codepoint b"
  shows "encode_legacy_inner a = encode_legacy_inner b"
  unfolding encode_legacy_inner_def assms(1,2) shifted_text_char_cong [OF assms(3)] ..

lemma legacy_cong:
  assumes "pane_view a = pane_view b"
  shows "encode_legacy a = encode_legacy b"
proof -
  note v = pane_viewD [OF assms]
  have i: "encode_legacy_inner a = encode_legacy_inner b"
    "encode_legacy_inner (with_modifiers a m) = encode_legacy_inner (with_modifiers b m)" for m
    by (rule legacy_inner_cong; simp add: v with_modifiers_def)+
  show ?thesis unfolding encode_legacy_def v i ..
qed

lemma encode_terminal_key_cong:
  assumes "pane_view a = pane_view b" and "text_identity a = text_identity b"
  shows "encode_terminal_key a p = encode_terminal_key b p"
proof -
  note v = pane_viewD [OF assms(1)]
  have t: "encode_text_input a = encode_text_input b" by (simp add: encode_text_input_def text_char_cong [OF assms(1)])
  have c: "try_encode_csi_u a = try_encode_csi_u b" using csi_u_cong [OF assms(1)] by blast
  have i: "\<not> (has_physical_identity a \<and> reports_all_keys p) \<and> k_kind a \<noteq> Release \<and> k_generated_text a \<noteq> None \<longleftrightarrow>
      \<not> (has_physical_identity b \<and> reports_all_keys p) \<and> k_kind b \<noteq> Release \<and> k_generated_text b \<noteq> None"
    using assms(2) v(3,5) by (auto simp: text_identity_def)
  show ?thesis unfolding encode_terminal_key_def Let_def i unfolding t c legacy_cong [OF assms(1)] v ..
qed

text \<open>The encoder of a pane looks at the same, and at the count.\<close>

lemma pane_encode_once_cong:
  assumes "pane_view a = pane_view b" and "text_identity a = text_identity b"
  shows "pane_encode_terminal_key_once ghostty a p = pane_encode_terminal_key_once ghostty b p"
proof -
  note v = pane_viewD [OF assms(1)]
  have event: "ghostty_key_event_from_terminal_key a = ghostty_key_event_from_terminal_key b"
    unfolding ghostty_key_event_from_terminal_key_def ghostty_key_text_def ghostty_unshifted_codepoint_def v ..
  have kind: "encoded_key_preserves_event_kind bytes a p = encoded_key_preserves_event_kind bytes b p" for bytes
    unfolding encoded_key_preserves_event_kind_def v ..
  show ?thesis
    unfolding pane_encode_terminal_key_once_def ghostty_prefers_osade_text_encoding_def event kind
      encode_terminal_key_cong [OF assms] v ..
qed

lemma pane_encode_cong:
  assumes "pane_view a = pane_view b" and "text_identity a = text_identity b"
    and "k_repeat_count a = k_repeat_count b"
  shows "pane_encode_terminal_key ghostty a p = pane_encode_terminal_key ghostty b p"
proof -
  let ?first = "\<lambda>k. with_repeat_count k 1" and ?repeat = "\<lambda>k. with_kind (with_repeat_count k 1) Repeat"
  have same: "text_identity (?first k) = text_identity k"
    "text_identity (?repeat k) = text_identity k" for k
    by (simp_all add: text_identity_def has_physical_identity_def physical_key_id_def
        with_repeat_count_def with_kind_def)
  have views: "pane_view (?repeat a) = pane_view (?repeat b)" "pane_view (?first a) = pane_view (?first b)"
    using assms(1) by (simp_all add: pane_view_def with_repeat_count_def with_kind_def)
  have identities: "text_identity (?repeat a) = text_identity (?repeat b)" "text_identity (?first a) = text_identity (?first b)"
    using assms(2) by (simp_all add: same)
  have "pane_encode_terminal_key_once ghostty (?repeat a) p = pane_encode_terminal_key_once ghostty (?repeat b) p"
    "pane_encode_terminal_key_once ghostty (?first a) p = pane_encode_terminal_key_once ghostty (?first b) p"
    by (rule pane_encode_once_cong [OF views(1) identities(1)], rule pane_encode_once_cong [OF views(2) identities(2)])
  moreover have "k_kind (?first a) = k_kind (?first b)"
    using pane_viewD(3) [OF assms(1)] by (simp add: with_repeat_count_def)
  ultimately show ?thesis unfolding pane_encode_terminal_key_def Let_def assms(3) by simp
qed

end
