(* ===== verification/Wire_Framing.thy ===== *)
theory Wire_Framing
  imports Rust_Str
begin

text \<open>
  Frames of the wire protocol (\<open>protocol/wire.rs\<close>): a message is its \<open>bincode\<close> payload behind its length as
  a little-endian \<open>u32\<close>. The serialiser is \<open>bincode\<close>, a parameter: \<open>encode\<close> gives the payload of a message or
  an error, \<open>decode\<close> the message at the start of a payload and the bytes it took. A reader holds the bytes
  that are still to come, after which the stream ends or fails; bytes are \<open>8 word\<close>.
\<close>

type_synonym bytes = "8 word list"

section \<open>Constants\<close>

definition PROTOCOL_VERSION :: nat where
  "PROTOCOL_VERSION = 22"

definition MAX_FRAME_SIZE :: nat where
  "MAX_FRAME_SIZE = 2 * 1024 * 1024"

definition MAX_GRAPHICS_FRAME_SIZE :: nat where
  "MAX_GRAPHICS_FRAME_SIZE = 32 * 1024 * 1024"

definition LENGTH_PREFIX_BYTES :: nat where
  "LENGTH_PREFIX_BYTES = 4"

section \<open>Little-endian numbers\<close>

fun to_le_bytes :: "nat \<Rightarrow> nat \<Rightarrow> bytes" where
  "to_le_bytes 0 n = []"
| "to_le_bytes (Suc k) n = of_nat (n mod 256) # to_le_bytes k (n div 256)"

fun from_le_bytes :: "bytes \<Rightarrow> nat" where
  "from_le_bytes [] = 0"
| "from_le_bytes (b # bs) = unat b + 256 * from_le_bytes bs"

lemma to_le_bytes_length [simp]: "length (to_le_bytes k n) = k"
  by (induction k n rule: to_le_bytes.induct) simp_all

lemma from_to_le_bytes: "n < 256 ^ k \<Longrightarrow> from_le_bytes (to_le_bytes k n) = n"
proof (induction k n rule: to_le_bytes.induct)
  case (2 k n)
  then have "n div 256 < 256 ^ k" by (simp add: less_mult_imp_div_less mult.commute)
  with 2 show ?case by (simp add: unat_of_nat)
qed simp

section \<open>Readers and errors\<close>

datatype 'e framing_error = Oversized nat nat | Io 'e | Bincode string | UnexpectedEof

record 'e reader =
  rd_bytes :: bytes
  rd_failure :: "'e option"

text \<open>
  \<open>read_exact\<close>, which reads the bytes however they arrive; a reader that ends early has lost its bytes.
\<close>

definition read_exact_or_eof :: "'e reader \<Rightarrow> nat \<Rightarrow> 'e framing_error + bytes \<times> 'e reader" where
  "read_exact_or_eof r n =
     (if n \<le> length (rd_bytes r) then Inr (take n (rd_bytes r), r\<lparr>rd_bytes := drop n (rd_bytes r)\<rparr>)
      else case rd_failure r of Some e \<Rightarrow> Inl (Io e) | None \<Rightarrow> Inl UnexpectedEof)"

section \<open>Messages\<close>

definition frame :: "bytes \<Rightarrow> bytes" where
  "frame payload = to_le_bytes LENGTH_PREFIX_BYTES (length payload) @ payload"

text \<open>A writer holds the bytes written so far, and the error of the stream once it is broken.\<close>

record 'e writer =
  wr_bytes :: bytes
  wr_failure :: "'e option"

definition write_all :: "'e writer \<Rightarrow> bytes \<Rightarrow> 'e framing_error + 'e writer" where
  "write_all w bs =
     (case wr_failure w of Some e \<Rightarrow> Inl (Io e) | None \<Rightarrow> Inr (w\<lparr>wr_bytes := wr_bytes w @ bs\<rparr>))"

definition write_message :: "('m \<Rightarrow> string + bytes) \<Rightarrow> 'e writer \<Rightarrow> 'm \<Rightarrow> 'e framing_error + 'e writer" where
  "write_message encode w msg =
     (case encode msg of
        Inl e \<Rightarrow> Inl (Bincode e)
      | Inr payload \<Rightarrow>
          if 2 ^ 32 - 1 < length payload then Inl (Bincode (''payload length '' @ decimal (length payload) @
            '' exceeds u32::MAX ('' @ decimal (2 ^ 32 - 1) @ ''), would be truncated by length prefix''))
          else case write_all w (to_le_bytes LENGTH_PREFIX_BYTES (length payload)) of
              Inl e \<Rightarrow> Inl e
            | Inr w1 \<Rightarrow> write_all w1 payload)"

definition read_message ::
  "(bytes \<Rightarrow> string + 'm \<times> nat) \<Rightarrow> 'e reader \<Rightarrow> nat \<Rightarrow> 'e framing_error + 'm \<times> 'e reader" where
  "read_message decode r max_frame_size =
     (case read_exact_or_eof r LENGTH_PREFIX_BYTES of
        Inl e \<Rightarrow> Inl e
      | Inr (len_buf, r1) \<Rightarrow>
          let claimed = from_le_bytes len_buf
          in if max_frame_size < claimed then Inl (Oversized claimed max_frame_size)
             else case read_exact_or_eof r1 claimed of
                 Inl e \<Rightarrow> Inl e
               | Inr (payload, r2) \<Rightarrow>
                   (case decode payload of
                      Inl e \<Rightarrow> Inl (Bincode e)
                    | Inr (msg, consumed) \<Rightarrow>
                        if consumed \<noteq> claimed then Inl (Bincode (''decoded '' @ decimal consumed @
                          '' bytes but payload length was '' @ decimal claimed @
                          ''; trailing bytes are not allowed''))
                        else Inr (msg, r2)))"

section \<open>Versions\<close>

datatype version_check = Compatible | Incompatible string

definition check_client_version :: "nat \<Rightarrow> version_check" where
  "check_client_version v =
     (if v = 0 then Incompatible ''pre-persistence client (version 0) is not supported''
      else if v = PROTOCOL_VERSION then Compatible
      else if v < PROTOCOL_VERSION then Incompatible (''client version '' @ decimal v @
        '' is older than server version '' @ decimal PROTOCOL_VERSION @ ''; please upgrade your osade client'')
      else Incompatible (''client version '' @ decimal v @ '' is newer than server version '' @
        decimal PROTOCOL_VERSION @ ''; please upgrade the osade server''))"

section \<open>Streams\<close>

text \<open>Messages written one after another, and the messages read until the stream ends.\<close>

fun write_messages :: "('m \<Rightarrow> string + bytes) \<Rightarrow> 'e writer \<Rightarrow> 'm list \<Rightarrow> 'e framing_error + 'e writer" where
  "write_messages encode w [] = Inr w"
| "write_messages encode w (m # ms) =
     (case write_message encode w m of Inl e \<Rightarrow> Inl e | Inr w' \<Rightarrow> write_messages encode w' ms)"

fun read_messages ::
  "(bytes \<Rightarrow> string + 'm \<times> nat) \<Rightarrow> 'e reader \<Rightarrow> nat \<Rightarrow> nat \<Rightarrow> 'e framing_error + 'm list \<times> 'e reader" where
  "read_messages decode r limit 0 = Inr ([], r)"
| "read_messages decode r limit (Suc n) =
     (case read_message decode r limit of
        Inl e \<Rightarrow> Inl e
      | Inr (m, r') \<Rightarrow>
          (case read_messages decode r' limit n of Inl e \<Rightarrow> Inl e | Inr (ms, r'') \<Rightarrow> Inr (m # ms, r'')))"

text \<open>A payload that the serialiser reads back whole.\<close>

definition reads_whole :: "(bytes \<Rightarrow> string + 'm \<times> nat) \<Rightarrow> ('m \<Rightarrow> string + bytes) \<Rightarrow> nat \<Rightarrow> 'm \<Rightarrow> bool" where
  "reads_whole decode encode limit m \<longleftrightarrow>
     (case encode m of
        Inl _ \<Rightarrow> False
      | Inr payload \<Rightarrow> length payload \<le> limit \<and> length payload < 2 ^ 32 \<and> decode payload = Inr (m, length payload))"

lemma read_exact_append:
  "read_exact_or_eof \<lparr>rd_bytes = a @ b, rd_failure = f\<rparr> (length a) = Inr (a, \<lparr>rd_bytes = b, rd_failure = f\<rparr>)"
  by (simp add: read_exact_or_eof_def)

lemma read_frame:
  assumes "length payload < 2 ^ 32"
  shows "read_message decode \<lparr>rd_bytes = frame payload @ rest, rd_failure = f\<rparr> limit =
    (if limit < length payload then Inl (Oversized (length payload) limit)
     else case decode payload of
         Inl e \<Rightarrow> Inl (Bincode e)
       | Inr (msg, consumed) \<Rightarrow>
           if consumed \<noteq> length payload then Inl (Bincode (''decoded '' @ decimal consumed @
             '' bytes but payload length was '' @ decimal (length payload) @ ''; trailing bytes are not allowed''))
           else Inr (msg, \<lparr>rd_bytes = rest, rd_failure = f\<rparr>))"
proof -
  have len: "from_le_bytes (to_le_bytes LENGTH_PREFIX_BYTES (length payload)) = length payload"
    using assms by (intro from_to_le_bytes) (simp add: LENGTH_PREFIX_BYTES_def)
  have "read_exact_or_eof \<lparr>rd_bytes = frame payload @ rest, rd_failure = f\<rparr> LENGTH_PREFIX_BYTES =
      Inr (to_le_bytes LENGTH_PREFIX_BYTES (length payload), \<lparr>rd_bytes = payload @ rest, rd_failure = f\<rparr>)"
    using read_exact_append [of "to_le_bytes LENGTH_PREFIX_BYTES (length payload)" "payload @ rest" f]
    by (simp add: frame_def)
  then show ?thesis
    unfolding read_message_def by (simp only: sum.case prod.case Let_def len read_exact_append)
qed

lemma write_read_message:
  assumes "reads_whole decode encode limit m"
  obtains payload where
    "\<And>out. write_message encode \<lparr>wr_bytes = out, wr_failure = None\<rparr> m =
      (Inr \<lparr>wr_bytes = out @ frame payload, wr_failure = None\<rparr> :: 'e framing_error + 'e writer)"
    and "\<And>rest (f :: 'f option). read_message decode \<lparr>rd_bytes = frame payload @ rest, rd_failure = f\<rparr> limit =
      Inr (m, \<lparr>rd_bytes = rest, rd_failure = f\<rparr>)"
proof -
  obtain payload where p: "encode m = Inr payload" "length payload \<le> limit" "length payload < 2 ^ 32"
    "decode payload = Inr (m, length payload)"
    using assms by (auto simp: reads_whole_def split: sum.splits)
  have "write_message encode \<lparr>wr_bytes = out, wr_failure = None\<rparr> m =
      (Inr \<lparr>wr_bytes = out @ frame payload, wr_failure = None\<rparr> :: 'e framing_error + 'e writer)" for out
    using p by (simp add: write_message_def write_all_def frame_def)
  moreover have "read_message decode \<lparr>rd_bytes = frame payload @ rest, rd_failure = f\<rparr> limit =
      Inr (m, \<lparr>rd_bytes = rest, rd_failure = f\<rparr>)" for rest and f :: "'f option"
    using p by (simp add: read_frame)
  ultimately show thesis by (rule that)
qed

lemma write_read_messages:
  assumes "list_all (reads_whole decode encode limit) ms"
  shows "\<exists>stream. write_messages encode \<lparr>wr_bytes = out, wr_failure = None\<rparr> ms =
      (Inr \<lparr>wr_bytes = out @ stream, wr_failure = None\<rparr> :: 'e framing_error + 'e writer) \<and>
    (\<forall>rest (f :: 'f option). read_messages decode \<lparr>rd_bytes = stream @ rest, rd_failure = f\<rparr> limit (length ms) =
      Inr (ms, \<lparr>rd_bytes = rest, rd_failure = f\<rparr>))"
  using assms
proof (induction ms arbitrary: out)
  case (Cons m ms)
  then have whole: "reads_whole decode encode limit m" "list_all (reads_whole decode encode limit) ms" by simp_all
  obtain payload where p: "write_message encode \<lparr>wr_bytes = out, wr_failure = None\<rparr> m =
      (Inr \<lparr>wr_bytes = out @ frame payload, wr_failure = None\<rparr> :: 'e framing_error + 'e writer)"
    "\<And>rest (f :: 'f option). read_message decode \<lparr>rd_bytes = frame payload @ rest, rd_failure = f\<rparr> limit =
      Inr (m, \<lparr>rd_bytes = rest, rd_failure = f\<rparr>)"
    using write_read_message [OF whole(1), where ?'e = 'e and ?'f = 'f] by metis
  obtain stream where s: "write_messages encode \<lparr>wr_bytes = out @ frame payload, wr_failure = None\<rparr> ms =
      (Inr \<lparr>wr_bytes = (out @ frame payload) @ stream, wr_failure = None\<rparr> :: 'e framing_error + 'e writer)"
    "\<forall>rest (f :: 'f option). read_messages decode \<lparr>rd_bytes = stream @ rest, rd_failure = f\<rparr> limit (length ms) =
      Inr (ms, \<lparr>rd_bytes = rest, rd_failure = f\<rparr>)"
    using Cons.IH [OF whole(2)] by metis
  have "write_messages encode \<lparr>wr_bytes = out, wr_failure = None\<rparr> (m # ms) =
      (Inr \<lparr>wr_bytes = out @ frame payload @ stream, wr_failure = None\<rparr> :: 'e framing_error + 'e writer)"
    using p(1) s(1) by simp
  moreover have "\<forall>rest (f :: 'f option). read_messages decode \<lparr>rd_bytes = (frame payload @ stream) @ rest, rd_failure = f\<rparr>
      limit (length (m # ms)) = Inr (m # ms, \<lparr>rd_bytes = rest, rd_failure = f\<rparr>)"
    using p(2) s(2) by simp
  ultimately show ?case by blast
qed simp

text \<open>A frame that is cut off is an error, whatever the serialiser does.\<close>

lemma read_truncated:
  assumes "length payload < 2 ^ 32" and "length payload \<le> limit" and "n < length (frame payload)"
  shows "read_message decode \<lparr>rd_bytes = take n (frame payload), rd_failure = f\<rparr> limit =
    Inl (case f of Some e \<Rightarrow> Io e | None \<Rightarrow> UnexpectedEof)"
proof (cases "n < LENGTH_PREFIX_BYTES")
  case True
  then show ?thesis
    using assms(3) by (simp add: read_message_def read_exact_or_eof_def split: option.split)
next
  case False
  let ?l = "to_le_bytes LENGTH_PREFIX_BYTES (length payload)"
  have len: "from_le_bytes ?l = length payload"
    using assms(1) by (intro from_to_le_bytes) (simp add: LENGTH_PREFIX_BYTES_def)
  have t: "take n (frame payload) = ?l @ take (n - LENGTH_PREFIX_BYTES) payload"
    using False by (simp add: frame_def)
  have "read_exact_or_eof \<lparr>rd_bytes = take n (frame payload), rd_failure = f\<rparr> LENGTH_PREFIX_BYTES =
      Inr (?l, \<lparr>rd_bytes = take (n - LENGTH_PREFIX_BYTES) payload, rd_failure = f\<rparr>)"
    unfolding t using read_exact_append [of ?l] by simp
  moreover have "n - LENGTH_PREFIX_BYTES < length payload" using False assms(3) by (simp add: frame_def)
  ultimately show ?thesis
    using assms(2) by (simp add: read_message_def len read_exact_or_eof_def [of _ "length payload"] Let_def split: option.split)
qed

text \<open>An oversized frame is refused from its length.\<close>

lemma read_oversized:
  assumes "length payload < 2 ^ 32" and "limit < length payload"
  shows "read_message decode
      \<lparr>rd_bytes = to_le_bytes LENGTH_PREFIX_BYTES (length payload) @ rest, rd_failure = f\<rparr> limit =
    Inl (Oversized (length payload) limit)"
proof -
  let ?l = "to_le_bytes LENGTH_PREFIX_BYTES (length payload)"
  have len: "from_le_bytes ?l = length payload"
    using assms(1) by (intro from_to_le_bytes) (simp add: LENGTH_PREFIX_BYTES_def)
  show ?thesis using read_exact_append [of ?l rest f] assms(2) by (simp add: read_message_def len Let_def)
qed

end
