(* ===== verification/Input_Properties.thy ===== *)
theory Input_Properties
  imports Input_Roundtrip Client_Keys Selection Wire_Input Wire_Framing
begin

text \<open>
  The properties of the input path: keys are built, leased, sent over the wire, encoded for a pane's child
  and read back; mouse reports, selections and frames.
\<close>

section \<open>Held keys\<close>

text \<open>
  C25: While a key is held it belongs to the target of its press: whatever other keys are handled in between
  and however often the key repeats, and wherever the shell would route it now, its release is pushed to the
  target the press was forwarded to, as the press with the modifiers of the release, and its lease is gone.
\<close>

theorem held_key_released_where_pressed:
  assumes "\<not> so_in_flight ops (cs_shell s)" and "k_kind press = Press" and "\<not> text_only_key press"
    and "cs_leases s (lease_key_new LOCAL_INPUT_SOURCE press) = None"
    and "so_route ops (cs_shell s) press = (u, Some t)"
    and "list_all (keeps_lease (lease_key_new LOCAL_INPUT_SOURCE press)) keys"
    and "k_kind release = Release" and "lease_key_new LOCAL_INPUT_SOURCE release = lease_key_new LOCAL_INPUT_SOURCE press"
    and "s1 = foldl (handle_key ops) (handle_key ops s press) keys" and "\<not> so_in_flight ops (cs_shell s1)"
    and "so_has_event ops (with_kind (with_modifiers press (k_modifiers release)) Release)"
  shows "cs_pushed (handle_key ops s1 release) =
      cs_pushed s1 @ [(t, with_kind (with_modifiers press (k_modifiers release)) Release)] \<and>
    cs_leases (handle_key ops s1 release) (lease_key_new LOCAL_INPUT_SOURCE press) = None"
proof -
  have "cs_leases (handle_key ops s press) (lease_key_new LOCAL_INPUT_SOURCE press) =
      Some (Forwarded \<lparr>fl_target = t, fl_key = press\<rparr>)"
    using assms(1-5) by (intro handle_key_forwards) simp_all
  then have "cs_leases s1 (lease_key_new LOCAL_INPUT_SOURCE press) = Some (Forwarded \<lparr>fl_target = t, fl_key = press\<rparr>)"
    unfolding assms(9) by (rule handle_keys_keep [OF assms(6)])
  then show ?thesis
    using handle_key_release [OF assms(10,7), of "\<lparr>fl_target = t, fl_key = press\<rparr>"] assms(8,11)
    by (simp add: push_pane_key_def)
qed

definition demo_ops :: "(nat, nat, nat) shell_ops" where
  "demo_ops = \<lparr>so_context = (\<lambda>u. 0), so_route = (\<lambda>u k. (u + 1, Some u)), so_in_flight = (\<lambda>u. False),
     so_enqueue = (\<lambda>u k. u), so_popup_blocks = (\<lambda>u t. False), so_has_event = (\<lambda>k. True)\<rparr>"

definition demo_client :: "(nat, nat, nat) client_state" where
  "demo_client = \<lparr>cs_shell = 7, cs_leases = (\<lambda>lk. None), cs_pushed = []\<rparr>"

definition demo_key :: "nat \<Rightarrow> key_kind \<Rightarrow> terminal_key" where
  "demo_key c kind = key_from_event (KChar c) {} kind"

theorem held_key_released_where_pressed_witness:
  "last (cs_pushed (foldl (handle_key demo_ops) demo_client
     [demo_key 97 Press, demo_key 97 Repeat, demo_key 98 Press, demo_key 97 Release])) = (7, demo_key 97 Release)"
  using held_key_released_where_pressed [of demo_ops demo_client "demo_key 97 Press" 8 7
      "[demo_key 97 Repeat, demo_key 98 Press]" "demo_key 97 Release"]
  by (simp add: demo_ops_def demo_client_def demo_key_def key_from_event_def with_kind_def with_modifiers_def key_new_def
      text_only_key_def lease_key_new_def key_identity_of_def keeps_lease_def)

text \<open>
  C26: When the client loses the focus no key of it stays held: its leases are gone, and the keys pushed are
  exactly the releases of the forwarded ones, each to its own target.
\<close>

theorem focus_loss_releases_all:
  assumes "distinct order" and "set order = dom (cs_leases s)" and "s' = release_input_leases ops order forget s"
  shows "(\<forall>lk. lk_source lk = LOCAL_INPUT_SOURCE \<longrightarrow> cs_leases s' lk = None) \<and>
    (\<exists>released. cs_pushed s' = cs_pushed s @ released \<and>
      set released = {(fl_target f, with_kind (fl_key f) Release) | f.
        (\<exists>lk. lk_source lk = LOCAL_INPUT_SOURCE \<and> cs_leases s lk = Some (Forwarded f)) \<and>
        so_has_event ops (with_kind (fl_key f) Release)})"
proof -
  let ?m = "fst (remove_source order (cs_leases s) LOCAL_INPUT_SOURCE)"
  let ?fs = "snd (remove_source order (cs_leases s) LOCAL_INPUT_SOURCE)"
  let ?released = "filter (\<lambda>(t, k). so_has_event ops k) (map (\<lambda>l. (fl_target l, with_kind (fl_key l) Release)) ?fs)"
  have s': "cs_leases s' = ?m" "cs_pushed s' = cs_pushed s @ ?released"
    unfolding assms(3) release_input_leases_def Let_def split_beta fold_push by simp_all
  have fs: "set ?fs = {f. \<exists>lk. lk_source lk = LOCAL_INPUT_SOURCE \<and> cs_leases s lk = Some (Forwarded f)}"
    unfolding remove_source_snd [OF assms(1)] using assms(2) by (auto simp: dom_def)
  have released: "set ?released = {(fl_target f, with_kind (fl_key f) Release) | f.
      (\<exists>lk. lk_source lk = LOCAL_INPUT_SOURCE \<and> cs_leases s lk = Some (Forwarded f)) \<and>
      so_has_event ops (with_kind (fl_key f) Release)}"
    unfolding set_filter set_map fs by auto
  have "\<forall>lk. lk_source lk = LOCAL_INPUT_SOURCE \<longrightarrow> cs_leases s' lk = None"
    unfolding s'(1) remove_source_fst [OF assms(2)] by simp
  with s'(2) released show ?thesis by blast
qed

definition demo_held :: "(nat, nat, nat) client_state" where
  "demo_held = demo_client\<lparr>cs_leases :=
     [lease_key_new 0 (demo_key 97 Press) \<mapsto> Forwarded \<lparr>fl_target = 4, fl_key = demo_key 97 Press\<rparr>]\<rparr>"

theorem focus_loss_releases_all_witness:
  "(\<exists>released. cs_pushed (release_input_leases demo_ops [lease_key_new 0 (demo_key 97 Press)] id demo_held) = released \<and>
     (4, with_kind (demo_key 97 Press) Release) \<in> set released)"
proof -
  have "set [lease_key_new 0 (demo_key 97 Press)] = dom (cs_leases demo_held)" by (simp add: demo_held_def)
  moreover have "cs_leases demo_held (lease_key_new 0 (demo_key 97 Press)) =
      Some (Forwarded \<lparr>fl_target = 4, fl_key = demo_key 97 Press\<rparr>)" by (simp add: demo_held_def)
  moreover have "lk_source (lease_key_new 0 (demo_key 97 Press)) = LOCAL_INPUT_SOURCE"
    by (simp add: lease_key_new_def LOCAL_INPUT_SOURCE_def)
  moreover have "so_has_event demo_ops k" for k by (simp add: demo_ops_def)
  ultimately show ?thesis
    using focus_loss_releases_all [of "[lease_key_new 0 (demo_key 97 Press)]" demo_held
        "release_input_leases demo_ops [lease_key_new 0 (demo_key 97 Press)] id demo_held" demo_ops id]
    by force
qed

text \<open>
  When a target goes away, exactly the leases that forward to it are removed and returned, one for each
  held key; every other lease stays as it was.
\<close>

lemma removed_target_returns_its_leases:
  assumes "distinct order" and "set order = dom m"
  shows "fst (remove_target order m t) = (\<lambda>lk. if aims_at (m lk) t then None else m lk) \<and>
    set (snd (remove_target order m t)) = {f. fl_target f = t \<and> (\<exists>lk. m lk = Some (Forwarded f))} \<and>
    length (snd (remove_target order m t)) = card {lk. aims_at (m lk) t}"
  using remove_target_spec [OF assms] by blast

lemma removed_target_returns_its_leases_witness:
  "fl_target (hd (snd (remove_target [lease_key_new 0 (demo_key 97 Press)] (cs_leases demo_held) 4))) = 4"
proof -
  let ?r = "snd (remove_target [lease_key_new 0 (demo_key 97 Press)] (cs_leases demo_held) 4)"
  have r: "set ?r = {f. fl_target f = 4 \<and> (\<exists>lk. cs_leases demo_held lk = Some (Forwarded f))}"
    using removed_target_returns_its_leases [of "[lease_key_new 0 (demo_key 97 Press)]" "cs_leases demo_held" 4]
    by (simp add: demo_held_def)
  have "\<lparr>fl_target = 4, fl_key = demo_key 97 Press\<rparr> \<in> set ?r"
    unfolding r by (auto simp: demo_held_def split: if_splits)
  then have "hd ?r \<in> set ?r" by (intro hd_in_set) auto
  then show ?thesis unfolding r by blast
qed

section \<open>Keys\<close>

text \<open>
  However a key is built, it counts at least once, and a released key counts once and carries no text.
\<close>

lemma built_key_well_formed:
  "key_ok (foldl (build_key is_uppercase) (key_new code mods) builders)"
  by (rule built_key_ok)

text \<open>The key an event turns back into: what the encoder sees of it is what it sees of the key sent.\<close>

lemma wire_keeps_view:
  assumes "key_ok k" and "record_ok k" and "from_bits (bits (k_modifiers k)) = k_modifiers k"
    and "from_terminal_key bits k = Some event"
  obtains e where "event = KeyEvent e" and "pane_view (key_of_event from_bits attach e) = pane_view k"
    and "text_identity (key_of_event from_bits attach e) = text_identity k"
    and "\<not> attach \<Longrightarrow> k_repeat_count (key_of_event from_bits attach e) = k_repeat_count k"
proof -
  obtain code where code: "code_from_crossterm (k_code k) = Some code"
    using assms(4) by (auto simp: from_terminal_key_def Let_def)
  obtain e where e: "event = KeyEvent e" and fields: "ce_code e = code" "ce_modifiers e = bits (k_modifiers k)"
    "ce_kind e = kind_from_crossterm (k_kind k)" "ce_repeat_count e = k_repeat_count k"
    "ce_shifted_codepoint e = k_shifted_codepoint k" "ce_generated_text e = k_generated_text k"
    "ce_tracks_release e \<longleftrightarrow> k_generated_text k = None \<or> has_physical_identity k" "ce_windows_record e = windows_record k"
    using assms(4) code by (auto simp: from_terminal_key_def Let_def)
  let ?k = "key_of_event from_bits attach e"
  have "pane_view ?k = pane_view k"
    using assms(1-3) code_roundtrip [OF code]
    by (auto simp: pane_view_def key_of_event_def fields Let_def key_builders key_new_def key_ok_def record_ok_def
        split: option.split)
  moreover have "text_identity ?k = text_identity k"
    using assms(1,2)
    by (auto simp: text_identity_def has_physical_identity_def physical_key_id_def key_of_event_def fields Let_def
        key_builders key_new_def key_ok_def record_ok_def windows_record_def split: option.split key_source.splits)
  moreover have "k_repeat_count ?k = k_repeat_count k" if "\<not> attach"
    using assms(1) that
    by (auto simp: key_of_event_def fields Let_def key_builders key_new_def key_ok_def max_def
        split: option.split)
  ultimately show ?thesis using that e by blast
qed

text \<open>
  C27: A pane's child on Unix gets the same bytes for a key that was sent over the wire as for the key itself,
  under every keyboard protocol and whatever Ghostty's encoder gives for an event: as many repetitions as the
  key counts, and nothing of what the wire changes shows, the source of the key and its identity.
  The key is as the builders leave it: a release counts once and has no text, and the dead key mark and the
  identity of a key from a Windows console are those of its record. The bits of the modifiers can be read back.
\<close>

theorem wire_keeps_key_bytes:
  assumes "key_ok k" and "record_ok k" and "from_bits (bits (k_modifiers k)) = k_modifiers k"
    and "from_terminal_key bits k = Some event"
  shows "\<exists>k'. to_raw_input_event from_bits False event = RawKey k' \<and>
    pane_encode_terminal_key ghostty k' protocol = pane_encode_terminal_key ghostty k protocol"
proof -
  from wire_keeps_view [where from_bits = from_bits and bits = bits, OF assms, of False] obtain e where e: "event = KeyEvent e"
    "pane_view (key_of_event from_bits False e) = pane_view k"
    "text_identity (key_of_event from_bits False e) = text_identity k"
    "k_repeat_count (key_of_event from_bits False e) = k_repeat_count k" by auto
  show ?thesis using pane_encode_cong [OF e(2-4)] by (simp add: to_raw_input_event_def e(1))
qed

text \<open>On every platform the fallback encoder gives the same bytes.\<close>

lemma wire_keeps_fallback_bytes:
  assumes "key_ok k" and "record_ok k" and "from_bits (bits (k_modifiers k)) = k_modifiers k"
    and "from_terminal_key bits k = Some event"
  shows "\<exists>k'. to_raw_input_event from_bits attach event = RawKey k' \<and>
    encode_terminal_key k' protocol = encode_terminal_key k protocol"
proof -
  from wire_keeps_view [where from_bits = from_bits and bits = bits, OF assms, of attach] obtain e where e: "event = KeyEvent e"
    "pane_view (key_of_event from_bits attach e) = pane_view k"
    "text_identity (key_of_event from_bits attach e) = text_identity k" by auto
  show ?thesis using encode_terminal_key_cong [OF e(2,3)] by (simp add: to_raw_input_event_def e(1))
qed

definition demo_bits :: "modifiers \<Rightarrow> 8 word" where
  "demo_bits m = (if SHIFT \<in> m then 1 else 0)"

definition demo_from_bits :: "8 word \<Rightarrow> modifiers" where
  "demo_from_bits b = (if b = 1 then {SHIFT} else {})"

definition demo_windows_key :: terminal_key where
  "demo_windows_key = with_generated_text (with_windows_record (key_new (KChar 97) {SHIFT})
     \<lparr>wk_key_down = True, wk_repeat_count = 1, wk_virtual_key_code = 65, wk_virtual_scan_code = 30,
      wk_unicode = 65, wk_control_key_state = 16\<rparr>) (Some ''A'')"

definition demo_repeated_key :: terminal_key where
  "demo_repeated_key = with_repeat_count (key_new LeftKey {SHIFT}) 3"

definition demo_ghostty :: "ghostty_key_event \<Rightarrow> string option" where
  "demo_ghostty event = (if gk_key event = 76 then Some (ESC # ''[1;2D'') else None)"

theorem wire_keeps_key_bytes_witness:
  "\<exists>event k'. from_terminal_key demo_bits demo_repeated_key = Some event \<and>
     to_raw_input_event demo_from_bits False event = RawKey k' \<and>
     pane_encode_terminal_key demo_ghostty k' Legacy =
       concat (replicate 3 (ESC # ''[1;2D''))"
proof -
  have ok: "key_ok demo_repeated_key" "record_ok demo_repeated_key"
    "demo_from_bits (demo_bits (k_modifiers demo_repeated_key)) = k_modifiers demo_repeated_key"
    by (simp_all add: demo_repeated_key_def key_builders key_new_def key_ok_def record_ok_def windows_record_def
        demo_bits_def demo_from_bits_def is_char_code_def)
  have "from_terminal_key demo_bits demo_repeated_key \<noteq> None"
    by (simp add: from_terminal_key_def demo_repeated_key_def key_builders key_new_def code_from_crossterm_def Let_def)
  then obtain event where event: "from_terminal_key demo_bits demo_repeated_key = Some event" by blast
  have "pane_encode_terminal_key demo_ghostty demo_repeated_key Legacy = concat (replicate 3 (ESC # ''[1;2D''))"
    by (simp add: pane_encode_terminal_key_def pane_encode_terminal_key_once_def Let_def demo_repeated_key_def
        key_builders key_new_def ghostty_prefers_osade_text_encoding_def ghostty_key_event_from_terminal_key_def
        ghostty_key_from_crossterm_key_code_def demo_ghostty_def encoded_key_preserves_event_kind_def
        reports_event_types_def) (simp add: numeral_eq_Suc)
  with wire_keeps_key_bytes [where from_bits = demo_from_bits and bits = demo_bits, OF ok event, of demo_ghostty Legacy]
    event show ?thesis by auto
qed

text \<open>
  A key release writes nothing to the child of a pane that does not ask for event types: a key is never
  doubled by its release.
\<close>

lemma release_silent_without_event_types:
  assumes "k_kind k = Release" and "\<not> reports_event_types protocol"
  shows "encode_terminal_key k protocol = []"
  using assms by (simp add: encode_terminal_key_def Let_def)

lemma release_silent_without_event_types_witness:
  "encode_terminal_key (demo_key 97 Release) (Kitty 8) = []"
  using release_silent_without_event_types [of "demo_key 97 Release" "Kitty 8"]
  by (simp add: demo_key_def key_from_event_def reports_event_types_def has_flag_def KITTY_FLAG_REPORT_EVENT_TYPES_def)

section \<open>Round trips of keys\<close>

text \<open>
  C28: Under a kitty protocol that reports all keys and event types, the sequence of a key that has a codepoint
  of its own in the protocol (a character that the codepoint stands for, Enter, Tab, Backspace, Esc, and the
  arrow and editing keys; not the function, BackTab, lock and media keys) is read back as the same key: its
  code (an upper case letter as its lower case key), all six modifiers, and press, repeat or release. Not
  covered are keys that are sent as the text they generate and dead keys, which are not sent as a sequence,
  and a shifted codepoint without the shift modifier.
\<close>

theorem kitty_key_roundtrip:
  assumes "has_flag flags KITTY_FLAG_REPORT_ALL_KEYS" and "has_flag flags KITTY_FLAG_REPORT_EVENT_TYPES"
    and "kitty_code (k_code k)" and "shift_consistent k" and "\<not> k_windows_shift_dead_key k"
    and "k_generated_text k = None \<or> has_physical_identity k \<or> k_kind k = Release"
  shows "\<exists>k'. parse_terminal_key_sequence (encode_terminal_key k (Kitty flags)) = Some k' \<and>
    k_code k' = canonical_code (k_code k) (k_modifiers k) \<and> k_modifiers k' = k_modifiers k \<and> k_kind k' = k_kind k"
proof -
  obtain cp alt where cp: "kitty_codepoint k flags = Some (cp, alt)" "cp \<le> codepoint_max"
    "kitty_codepoint_to_keycode cp = Some (canonical_code (k_code k) (k_modifiers k))"
    "\<forall>s. alt = Some s \<longrightarrow> s \<le> codepoint_max \<and> SHIFT \<in> k_modifiers k"
    using kitty_codepoint_back [OF assms(3,4), of flags] by metis
  obtain ev where ev: "kitty_event_suffix k flags = Some ev" using assms(2) by (simp add: kitty_event_suffix_def)
  let ?m = "decimal (kitty_modifier (k_modifiers k)) @ CHR '':'' # decimal ev"
  let ?text = "(if has_flag flags KITTY_FLAG_REPORT_ASSOCIATED_TEXT then map_option decimal (text_codepoint_for_key k) else None)"
  have csi: "try_encode_csi_u k flags = Some (ESC # ''['' @ kitty_key_part cp alt @ '';'' @ ?m @
      (case ?text of Some t \<Rightarrow> '';'' @ t | None \<Rightarrow> []) @ ''u'')"
    using assms(1) cp(1) ev by (auto simp: try_encode_csi_u_def kitty_key_part_def Let_def split: option.split)
  then have bytes: "encode_terminal_key k (Kitty flags) = the (try_encode_csi_u k flags)"
    using assms by (auto simp: encode_terminal_key_def reports_all_keys_def reports_event_types_def Let_def)
  have scalar: "\<forall>c. k_code k = KChar c \<longrightarrow> is_scalar c" using assms(3) by (auto simp: kitty_code_def)
  have associated: "?text = None \<or> (\<exists>t s. ?text = Some t \<and> CHR '';'' \<notin> set t \<and> parse_kitty_associated_text t = Some s)"
    using parse_associated_decimal [OF text_codepoint_scalar [OF _ scalar]]
    by (cases "text_codepoint_for_key k") (simp_all add: decimal_no)
  have parts: "CHR '';'' \<notin> set (kitty_key_part cp alt)" "CHR '';'' \<notin> set ?m" "?m \<noteq> []"
    by (auto simp: kitty_key_part_def decimal_no split: option.splits)
  obtain t where t: "parse_kitty_key_sequence (encode_terminal_key k (Kitty flags)) = parse_kitty_key (kitty_key_part cp alt) ?m t"
    using parse_kitty_sequence_back [OF parts associated] unfolding bytes csi option.sel by blast
  obtain k' where "parse_kitty_key (kitty_key_part cp alt) ?m t = Some k'"
    "k_code k' = canonical_code (k_code k) (k_modifiers k)" "k_modifiers k' = k_modifiers k" "k_kind k' = k_kind k"
    using parse_kitty_key_back [OF cp(2-4) event_type_back [OF ev]] by blast
  with t show ?thesis by (simp add: parse_terminal_key_sequence_def)
qed

theorem kitty_key_roundtrip_witness:
  "\<exists>k'. parse_terminal_key_sequence (encode_terminal_key (key_from_event (KChar 65) {SHIFT, ALT} Repeat) (Kitty 31)) = Some k' \<and>
     k_code k' = KChar 97 \<and> k_modifiers k' = {SHIFT, ALT} \<and> k_kind k' = Repeat"
  using kitty_key_roundtrip [of 31 "key_from_event (KChar 65) {SHIFT, ALT} Repeat"]
  by (simp add: has_flag_def KITTY_FLAG_REPORT_ALL_KEYS_def KITTY_FLAG_REPORT_EVENT_TYPES_def key_from_event_def
      with_kind_def key_new_def kitty_code_def is_scalar_def is_kitty_functional_codepoint_def shift_consistent_def
      canonical_code_def canonical_kitty_char_def is_upper_code_def lower_code_def)

text \<open>
  C29: Under the legacy protocol the bytes of a key that has a sequence of its own (printable characters,
  control letters, the cursor, editing and function keys with shift, alt and control) are read back as exactly
  that key.
\<close>

theorem legacy_key_roundtrip:
  assumes "legacy_key code mods"
  shows "parse_terminal_key_sequence (encode_key code mods Press Legacy) = Some (key_new code mods)"
  using legacy_key_reads_back [OF assms] by (simp add: reads_back_def)

theorem legacy_key_roundtrip_witness:
  "parse_terminal_key_sequence (encode_key (FKey 5) {SHIFT, CONTROL} Press Legacy) = Some (key_new (FKey 5) {SHIFT, CONTROL})"
  by (rule legacy_key_roundtrip) (simp add: legacy_key_def)

section \<open>Mouse reports\<close>

text \<open>
  In the SGR encodings the report of a button is read back with the cell it was made for, counted from one,
  and moving it to another cell of the screen gives a report of that cell.
\<close>

lemma mouse_report_roundtrip:
  assumes "encoding = Sgr \<or> encoding = SgrPixels" and "encode_mouse_cb base release column row mods encoding = Some data"
    and "base < 128" and "column < 2 ^ 16" and "row < 2 ^ 16" and "column' < 2 ^ 16" and "row' < 2 ^ 16"
  shows "parse_report data = Some (column + 1, row + 1) \<and>
    Option.bind (report_at_cell (\<lambda>_. True) data column' row') parse_report = Some (column' + 1, row' + 1)"
proof -
  let ?r = "\<lambda>c r. ESC # ''[<'' @ decimal (mouse_cb base release mods encoding) @ '';'' @ decimal (c + 1) @ '';'' @
      decimal (r + 1) @ (if release then ''m'' else ''M'')"
  have data: "data = ?r column row" using assms(1,2) by (auto simp: encode_mouse_cb_def Let_def)
  have cb: "mouse_cb base release mods encoding \<le> u32_max" using assms(3) by (simp add: mouse_cb_def u32_max_def)
  show ?thesis
    unfolding data using report_parses [OF cb] report_moved assms(4-7) by simp
qed

lemma mouse_report_roundtrip_witness:
  "\<exists>data. encode_mouse_cb 0 True 11 4 {CONTROL} Sgr = Some data \<and> parse_report data = Some (12, 5)"
proof -
  have "encode_mouse_cb 0 True 11 4 {CONTROL} Sgr \<noteq> None" by (simp add: encode_mouse_cb_def Let_def)
  then obtain data where "encode_mouse_cb 0 True 11 4 {CONTROL} Sgr = Some data" by blast
  with mouse_report_roundtrip [of Sgr 0 True 11 4 "{CONTROL}" data 0 0] show ?thesis by simp
qed

section \<open>Selections\<close>

text \<open>
  C31: Wherever the mouse is dragged to, the cursor of a selection stays inside the pane: it is the cell of the
  pane nearest to the mouse, in rows of the buffer; the anchor stays, and the selection shows once the
  cursor leaves the anchor. Nothing panics.
\<close>

theorem drag_stays_in_pane:
  assumes "on_screen inner" and "unat (viewport_top_row metrics) + unat (rheight inner) < 2 ^ 32"
  shows "\<exists>s'. drag s x y inner metrics = Some s' \<and> sel_anchor s' = sel_anchor s \<and>
    unat (fst (sel_cursor s')) =
      unat (viewport_top_row metrics) + min (unat y - unat (ry inner)) (unat (rheight inner) - 1) \<and>
    unat (snd (sel_cursor s')) = min (unat x - unat (rx inner)) (unat (rwidth inner) - 1) \<and>
    (is_visible s' \<longleftrightarrow> is_visible s \<or> sel_cursor s' \<noteq> sel_anchor s')"
proof -
  obtain row col where c: "clamp_to_pane x y inner = Some (row, col)"
    "unat row = min (unat y - unat (ry inner)) (unat (rheight inner) - 1)"
    "unat col = min (unat x - unat (rx inner)) (unat (rwidth inner) - 1)"
    using clamp_to_pane_unat [OF assms(1)] by metis
  have "unat (viewport_top_row metrics) + unat row < 2 ^ 32" unfolding c(2) using assms(2) by linarith
  then have "unat (absolute_row_for_viewport_row row metrics) = unat (viewport_top_row metrics) + unat row"
    by (rule unat_absolute_row)
  with c show ?thesis
    by (cases "(absolute_row_for_viewport_row row metrics, col) = sel_anchor s")
      (simp_all add: drag_def Let_def is_visible_def prod_eq_iff)
qed

definition demo_selection :: "nat selection" where
  "demo_selection = selection_anchor 3 2 5 None"

theorem drag_stays_in_pane_witness:
  "\<exists>s'. drag demo_selection 500 900 \<lparr>rx = 10, ry = 4, rwidth = 80, rheight = 20\<rparr> None = Some s' \<and>
     unat (fst (sel_cursor s')) = 19 \<and> unat (snd (sel_cursor s')) = 79"
  using drag_stays_in_pane [of "\<lparr>rx = 10, ry = 4, rwidth = 80, rheight = 20\<rparr>" None demo_selection 500 900]
  by (auto simp: on_screen_def viewport_top_row_def)

text \<open>
  C32: The cells of a visible selection are exactly those between its ends in reading order, whichever end is
  the anchor: the row by row test of the code is the interval of positions.
\<close>

theorem selection_is_reading_interval:
  "contains s row col metrics \<longleftrightarrow>
     is_visible s \<and>
     reads_before (first_of (sel_anchor s) (sel_cursor s)) (absolute_row_for_viewport_row row metrics, col) \<and>
     reads_before (absolute_row_for_viewport_row row metrics, col) (last_of (sel_anchor s) (sel_cursor s))"
proof -
  have le: "reads_before (first_of p q) (last_of p q)" for p q
    using reads_before_total [of p q] by (auto simp: first_of_def last_of_def)
  show ?thesis
    using le [of "sel_anchor s" "sel_cursor s"]
    unfolding contains_def ordered_eq by (auto simp: reads_before_def Let_def split: prod.split)
qed

section \<open>Frames\<close>

text \<open>
  C33: Messages that are written one after another are read back in order, with nothing left over and whatever
  follows them untouched, when the serialiser reads each payload back and each fits the reader's limit.
\<close>

theorem message_stream_roundtrip:
  assumes "list_all (reads_whole decode encode limit) msgs"
    and "write_messages encode \<lparr>wr_bytes = [], wr_failure = None\<rparr> msgs = (Inr w :: 'e framing_error + 'e writer)"
  shows "read_messages decode \<lparr>rd_bytes = wr_bytes w @ rest, rd_failure = (f :: 'f option)\<rparr> limit (length msgs) =
    Inr (msgs, \<lparr>rd_bytes = rest, rd_failure = f\<rparr>)"
proof -
  obtain stream where "write_messages encode \<lparr>wr_bytes = [], wr_failure = None\<rparr> msgs =
      (Inr \<lparr>wr_bytes = [] @ stream, wr_failure = None\<rparr> :: 'e framing_error + 'e writer)"
    "\<forall>rest (f :: 'f option). read_messages decode \<lparr>rd_bytes = stream @ rest, rd_failure = f\<rparr> limit (length msgs) =
      Inr (msgs, \<lparr>rd_bytes = rest, rd_failure = f\<rparr>)"
    using write_read_messages [OF assms(1), where ?'e = 'e and ?'f = 'f] by metis
  with assms(2) show ?thesis by auto
qed

definition demo_encode :: "nat \<Rightarrow> string + bytes" where
  "demo_encode m = (if m < 256 then Inr [of_nat m] else Inl ''too large'')"

definition demo_decode :: "bytes \<Rightarrow> string + nat \<times> nat" where
  "demo_decode bs = (case bs of [] \<Rightarrow> Inl ''empty'' | b # _ \<Rightarrow> Inr (unat b, 1))"

theorem message_stream_roundtrip_witness:
  "\<exists>w. write_messages demo_encode \<lparr>wr_bytes = [], wr_failure = None :: unit option\<rparr> [7, 9] = Inr w \<and>
     read_messages demo_decode \<lparr>rd_bytes = wr_bytes w @ [1, 2], rd_failure = Some ()\<rparr> MAX_FRAME_SIZE 2 =
       Inr ([7, 9], \<lparr>rd_bytes = [1, 2], rd_failure = Some ()\<rparr>)"
proof -
  have ok: "list_all (reads_whole demo_decode demo_encode MAX_FRAME_SIZE) [7, 9]"
    by (simp add: reads_whole_def demo_decode_def demo_encode_def MAX_FRAME_SIZE_def)
  obtain w where "write_messages demo_encode \<lparr>wr_bytes = [], wr_failure = None :: unit option\<rparr> [7, 9] = Inr w"
    by (simp add: write_message_def write_all_def demo_encode_def)
  with message_stream_roundtrip [OF ok this, of "[1, 2]" "Some ()"] show ?thesis
    by (simp del: read_messages.simps write_messages.simps add: numeral_2_eq_2 [symmetric])
qed

text \<open>
  C34: A frame is all or nothing: one that is cut off anywhere gives no message but the error of the stream,
  and an oversized one is refused from its length alone, before any of its payload is read.
\<close>

theorem bad_frame_gives_no_message:
  assumes "length payload < 2 ^ 32" and "n < length (frame payload)"
  shows "read_message decode
      \<lparr>rd_bytes = (if limit < length payload then to_le_bytes LENGTH_PREFIX_BYTES (length payload) @ rest
         else take n (frame payload)), rd_failure = f\<rparr> limit =
    Inl (if limit < length payload then Oversized (length payload) limit
      else case f of Some e \<Rightarrow> Io e | None \<Rightarrow> UnexpectedEof)"
  using read_truncated [OF assms(1) _ assms(2), of limit decode f] read_oversized [OF assms(1), of limit decode rest f]
  by (cases "limit < length payload") simp_all

theorem bad_frame_gives_no_message_witness:
  "read_message demo_decode \<lparr>rd_bytes = take 6 (frame [1, 2, 3]), rd_failure = None :: unit option\<rparr> MAX_FRAME_SIZE =
     Inl UnexpectedEof"
  using bad_frame_gives_no_message [of "[1, 2, 3]" 6 demo_decode MAX_FRAME_SIZE "[]" "None :: unit option"]
  by (simp add: frame_def MAX_FRAME_SIZE_def LENGTH_PREFIX_BYTES_def)

end
