(* ===== verification/Detect_Regions.thy ===== *)
theory Detect_Regions
  imports Rust_Str
begin

text \<open>
  Regions of the screen that the rules of a manifest look at (\<open>detect/manifest.rs\<close>): the lines of a
  string, their offsets, and the parts of the screen between prompts, boxes and rules. A string is its
  UTF-8 bytes; slicing it off a boundary of a character panics, which is \<open>None\<close>.
\<close>

section \<open>Lines and slices\<close>

abbreviation (input) newline :: char where
  "newline \<equiv> CHR 0x0A"

abbreviation (input) carriage_return :: char where
  "carriage_return \<equiv> CHR 0x0D"

text \<open>\<open>str::lines\<close>: the pieces up to each line feed, without it and without a carriage return before it.\<close>

fun raw_lines :: "string \<Rightarrow> string list" where
  "raw_lines [] = []"
| "raw_lines (c # s) =
     (if c = newline then [c] # raw_lines s
      else case raw_lines s of [] \<Rightarrow> [[c]] | l # ls \<Rightarrow> (c # l) # ls)"

definition line_text :: "string \<Rightarrow> string" where
  "line_text raw =
     (case strip_suffix raw [newline] of
        None \<Rightarrow> raw
      | Some l \<Rightarrow> (case strip_suffix l [carriage_return] of None \<Rightarrow> l | Some l' \<Rightarrow> l'))"

definition str_lines :: "string \<Rightarrow> string list" where
  "str_lines s = map line_text (raw_lines s)"

definition is_continuation :: "char \<Rightarrow> bool" where
  "is_continuation c \<longleftrightarrow> 0x80 \<le> byte c \<and> byte c < 0xC0"

definition is_char_boundary :: "string \<Rightarrow> nat \<Rightarrow> bool" where
  "is_char_boundary s i \<longleftrightarrow> i = 0 \<or> i = length s \<or> i < length s \<and> \<not> is_continuation (s ! i)"

definition str_slice :: "string \<Rightarrow> nat \<Rightarrow> nat \<Rightarrow> string option" where
  "str_slice s i j =
     (if i \<le> j \<and> is_char_boundary s i \<and> is_char_boundary s j then Some (take (j - i) (drop i s)) else None)"

definition line_start_offset :: "string \<Rightarrow> string list \<Rightarrow> nat \<Rightarrow> nat" where
  "line_start_offset content ls index =
     min (sum_list (map (\<lambda>l. length l + 1) (take (min index (length ls)) ls))) (length content)"

definition slice_from_line_index :: "string \<Rightarrow> string list \<Rightarrow> nat \<Rightarrow> string option" where
  "slice_from_line_index content ls index =
     str_slice content (min (line_start_offset content ls index) (length content)) (length content)"

definition rposition :: "('a \<Rightarrow> bool) \<Rightarrow> 'a list \<Rightarrow> nat option" where
  "rposition P xs = (case filter (\<lambda>i. P (xs ! i)) (rev [0..<length xs]) of [] \<Rightarrow> None | i # _ \<Rightarrow> Some i)"

definition position :: "('a \<Rightarrow> bool) \<Rightarrow> 'a list \<Rightarrow> nat option" where
  "position P xs = (case filter (\<lambda>i. P (xs ! i)) [0..<length xs] of [] \<Rightarrow> None | i # _ \<Rightarrow> Some i)"

section \<open>Kinds of lines\<close>

definition blank :: "string \<Rightarrow> bool" where
  "blank l \<longleftrightarrow> trim l = []"

text \<open>The marks of the screens: the characters of the prompt, of the blocks, and of a horizontal rule.\<close>

definition prompt_mark :: string where
  "prompt_mark = map char_of [0xE2, 0x80, 0xBA :: nat]"

definition block_marks :: "string list" where
  "block_marks = map (map char_of)
     [[0xE2, 0x80, 0xA2], [0xE2, 0x96, 0xA0], [0xE2, 0x9C, 0x97], [0xE2, 0x9C, 0x93 :: nat]]"

definition rule_mark :: string where
  "rule_mark = map char_of [0xE2, 0x94, 0x80 :: nat]"

definition codex_prompt_line :: "string \<Rightarrow> bool" where
  "codex_prompt_line l \<longleftrightarrow> l = prompt_mark \<or> starts_with l (prompt_mark @ '' '')"

definition codex_block_marker_line :: "string \<Rightarrow> bool" where
  "codex_block_marker_line l \<longleftrightarrow> list_ex (starts_with l) block_marks"

text \<open>The marks a string starts with, counted, and the rest of the string.\<close>

function rule_prefix :: "string \<Rightarrow> nat \<times> string" where
  "rule_prefix s =
     (if starts_with s rule_mark then let (n, rest) = rule_prefix (drop 3 s) in (Suc n, rest) else (0, s))"
  by pat_completeness auto
termination
proof (relation "measure length")
  fix s assume "starts_with s rule_mark"
  then have "s \<noteq> []" by (auto simp: starts_with_def rule_mark_def)
  then show "(drop 3 s, s) \<in> measure length" by simp
qed simp

declare rule_prefix.simps [simp del]

definition is_horizontal_rule :: "string \<Rightarrow> bool" where
  "is_horizontal_rule l =
     (let trimmed = trim l
      in if trimmed = [] then False
         else let (rule_chars, rest) = rule_prefix trimmed
              in if rule_chars = 0 then False else trim_start rest = [] \<or> 3 \<le> rule_chars)"

section \<open>Regions\<close>

definition bottom_lines :: "string \<Rightarrow> nat \<Rightarrow> string option" where
  "bottom_lines content n =
     (let ls = str_lines content in slice_from_line_index content ls (length ls - n))"

definition non_empty_indices :: "string list \<Rightarrow> nat list" where
  "non_empty_indices ls = filter (\<lambda>i. \<not> blank (ls ! i)) [0..<length ls]"

definition bottom_non_empty_lines :: "string \<Rightarrow> nat \<Rightarrow> string option" where
  "bottom_non_empty_lines content n =
     (let ls = str_lines content
      in case take n (rev (non_empty_indices ls)) of
           [] \<Rightarrow> Some []
         | taken \<Rightarrow> slice_from_line_index content ls (last taken))"

definition top_non_empty_lines :: "string \<Rightarrow> nat \<Rightarrow> string option" where
  "top_non_empty_lines content n =
     (let ls = str_lines content
      in case take n (non_empty_indices ls) of
           [] \<Rightarrow> Some []
         | taken \<Rightarrow> str_slice content 0 (line_start_offset content ls (last taken + 1)))"

definition after_last_prompt_marker :: "string \<Rightarrow> string option" where
  "after_last_prompt_marker content =
     (let ls = str_lines content
      in case rposition codex_prompt_line ls of
           None \<Rightarrow> Some content
         | Some i \<Rightarrow> slice_from_line_index content ls (i + 1))"

definition current_codex_prompt_index :: "string list \<Rightarrow> nat option" where
  "current_codex_prompt_index ls =
     Option.bind (rposition codex_prompt_line ls) (\<lambda>i.
     if list_ex codex_block_marker_line (drop (i + 1) ls) then None else Some i)"

definition before_current_prompt_marker :: "string \<Rightarrow> string option" where
  "before_current_prompt_marker content =
     (let ls = str_lines content
      in case current_codex_prompt_index ls of
           None \<Rightarrow> Some content
         | Some i \<Rightarrow> str_slice content 0 (min (sum_list (map (\<lambda>l. length l + 1) (take i ls))) (length content)))"

definition whole_recent_without_current_prompt_marker :: "string \<Rightarrow> string" where
  "whole_recent_without_current_prompt_marker content =
     (if current_codex_prompt_index (str_lines content) \<noteq> None then [] else content)"

definition current_prompt_block_marker :: "string \<Rightarrow> string option" where
  "current_prompt_block_marker content =
     (let ls = str_lines content
      in Option.bind (current_codex_prompt_index ls) (\<lambda>i. find codex_block_marker_line (rev (take i ls))))"

text \<open>The outer option is the code's, the inner one a panic.\<close>

definition after_current_prompt_block_marker :: "string \<Rightarrow> string option option" where
  "after_current_prompt_block_marker content =
     (let ls = str_lines content
      in Option.bind (current_codex_prompt_index ls) (\<lambda>i.
         map_option (slice_from_line_index content ls) (rposition codex_block_marker_line (take i ls))))"

fun second_border :: "string list \<Rightarrow> nat list \<Rightarrow> nat \<Rightarrow> nat option" where
  "second_border ls [] n = None"
| "second_border ls (i # is) n =
     (if is_horizontal_rule (ls ! i)
      then if n + 1 = 2 then Some i else second_border ls is (n + 1)
      else second_border ls is n)"

definition prompt_box_top_border_index :: "string list \<Rightarrow> nat option" where
  "prompt_box_top_border_index ls = second_border ls (rev [0..<length ls]) 0"

definition prompt_box_body :: "string \<Rightarrow> string option option" where
  "prompt_box_body content =
     (let ls = str_lines content
      in map_option (\<lambda>border.
           let start = line_start_offset content ls (border + 1);
               end_index = (case position is_horizontal_rule (drop (border + 1) ls) of
                   Some relative \<Rightarrow> border + 1 + relative
                 | None \<Rightarrow> length ls);
               end_offset = line_start_offset content ls end_index
           in str_slice content (min start (length content)) (min end_offset (length content)))
         (prompt_box_top_border_index ls))"

definition above_prompt_box :: "string \<Rightarrow> string option" where
  "above_prompt_box content =
     (let ls = str_lines content
      in case prompt_box_top_border_index ls of
           None \<Rightarrow> Some content
         | Some border \<Rightarrow> str_slice content 0 (min (line_start_offset content ls border) (length content)))"

fun last_rule_end :: "nat \<Rightarrow> string list \<Rightarrow> nat \<Rightarrow> nat \<Rightarrow> nat" where
  "last_rule_end extent [] offset rule_end = rule_end"
| "last_rule_end extent (l # ls) offset rule_end =
     (let next_offset = offset + length l + 1
      in last_rule_end extent ls next_offset (if is_horizontal_rule l then min next_offset extent else rule_end))"

definition after_last_horizontal_rule :: "string \<Rightarrow> string option" where
  "after_last_horizontal_rule content =
     str_slice content (last_rule_end (length content) (str_lines content) 0 0) (length content)"

definition last_non_empty_line :: "string \<Rightarrow> string" where
  "last_non_empty_line content =
     (case find (\<lambda>l. \<not> blank l) (rev (str_lines content)) of Some l \<Rightarrow> l | None \<Rightarrow> [])"

section \<open>Names of regions\<close>

definition usize_limit :: nat where
  "usize_limit = 2 ^ 64 - 1"

definition MAX_TOP_REGION_LINE_COUNT :: nat where
  "MAX_TOP_REGION_LINE_COUNT = 2 ^ 16 - 1"

definition region_count :: "string \<Rightarrow> string \<Rightarrow> nat option" where
  "region_count spec name =
     Option.bind (strip_prefix spec name) (\<lambda>rest.
     Option.bind (strip_prefix rest ''('') (\<lambda>rest.
     Option.bind (strip_suffix rest '')'') (parse_uint usize_limit)))"

definition top_region_count :: "string \<Rightarrow> nat option" where
  "top_region_count spec =
     Option.bind (strip_prefix spec ''top_non_empty_lines'') (\<lambda>rest.
     Option.bind (strip_prefix rest ''('') (\<lambda>rest.
     Option.bind (strip_suffix rest '')'') (\<lambda>digits.
     if starts_with digits ''0'' \<or> \<not> list_all is_ascii_digit digits then None
     else opt_filter (\<lambda>n. n \<le> MAX_TOP_REGION_LINE_COUNT) (parse_uint usize_limit digits))))"

record detection_input =
  di_screen :: string
  di_osc_title :: string
  di_osc_progress :: string

definition counted_region :: "string \<Rightarrow> string \<Rightarrow> string option" where
  "counted_region content spec =
     (case region_count spec ''bottom_lines'' of
        Some n \<Rightarrow> bottom_lines content n
      | None \<Rightarrow> (case region_count spec ''bottom_non_empty_lines'' of
            Some n \<Rightarrow> bottom_non_empty_lines content n
          | None \<Rightarrow> (case top_region_count spec of
                Some n \<Rightarrow> top_non_empty_lines content n
              | None \<Rightarrow> Some [])))"

definition region :: "detection_input \<Rightarrow> string \<Rightarrow> string option" where
  "region input spec =
     (let trimmed = trim spec; content = di_screen input
      in if trimmed = ''osc_title'' then Some (di_osc_title input)
         else if trimmed = ''osc_progress'' then Some (di_osc_progress input)
         else if trimmed = ''whole_recent'' then Some content
         else if trimmed = ''after_last_prompt_marker'' then after_last_prompt_marker content
         else if trimmed = ''before_current_prompt_marker'' then before_current_prompt_marker content
         else if trimmed = ''whole_recent_without_current_prompt_marker''
         then Some (whole_recent_without_current_prompt_marker content)
         else if trimmed = ''current_prompt_block_marker''
         then Some (case current_prompt_block_marker content of Some l \<Rightarrow> l | None \<Rightarrow> [])
         else if trimmed = ''after_current_prompt_block_marker''
         then (case after_current_prompt_block_marker content of Some r \<Rightarrow> r | None \<Rightarrow> Some [])
         else if trimmed = ''prompt_box_body''
         then (case prompt_box_body content of Some r \<Rightarrow> r | None \<Rightarrow> Some [])
         else if trimmed = ''above_prompt_box'' then above_prompt_box content
         else if trimmed = ''last_non_empty_above_prompt_box''
         then map_option last_non_empty_line (above_prompt_box content)
         else if trimmed = ''after_last_horizontal_rule'' then after_last_horizontal_rule content
         else counted_region content trimmed)"

definition region_names :: "string list" where
  "region_names = [''whole_recent'', ''after_last_prompt_marker'', ''before_current_prompt_marker'',
     ''whole_recent_without_current_prompt_marker'', ''current_prompt_block_marker'',
     ''after_current_prompt_block_marker'', ''prompt_box_body'', ''above_prompt_box'',
     ''last_non_empty_above_prompt_box'', ''after_last_horizontal_rule'', ''osc_title'', ''osc_progress'']"

definition validate_region_name :: "string \<Rightarrow> string + unit" where
  "validate_region_name spec =
     (let trimmed = trim spec
      in if trimmed \<in> set region_names then Inr ()
         else if region_count trimmed ''bottom_lines'' \<noteq> None \<or>
           region_count trimmed ''bottom_non_empty_lines'' \<noteq> None \<or> top_region_count trimmed \<noteq> None
         then Inr () else Inl trimmed)"

end
