(* ===== verification/Detect_Manifest.thy ===== *)
theory Detect_Manifest
  imports Agents Detect_Regions "HOL-Library.Sublist"
begin

text \<open>
  Screen detection by manifests (\<open>detect/manifest.rs\<close>): the rules of a manifest with their gates of
  matchers, the validation that bounds them, their compilation, and the evaluation of a screen. Regular
  expressions (the \<open>regex\<close> crate), \<open>str::to_lowercase\<close> and the debug form of a string are the fields of
  \<open>text_engine\<close>. A panic is \<open>None\<close>, an error \<open>Inl\<close>. Then where the manifest
  of an agent comes from, with the versions of \<open>detect/manifest_update.rs\<close>: the override of the user, the
  manifest downloaded last, or the one in the program; and the cache. Files, paths and the TOML parser are
  the fields of \<open>manifest_env\<close>; the manifests in the program are data.
\<close>

record 'r text_engine =
  te_regex :: "string \<Rightarrow> string + 'r"
  te_is_match :: "'r \<Rightarrow> string \<Rightarrow> bool"
  te_lowercase :: "string \<Rightarrow> string"
  te_debug :: "string \<Rightarrow> string"

section \<open>Results\<close>

text \<open>Collecting results, and threading a state through checks, up to the first error.\<close>

fun collect_results :: "('a \<Rightarrow> string + 'b) \<Rightarrow> 'a list \<Rightarrow> string + 'b list" where
  "collect_results f [] = Inr []"
| "collect_results f (x # xs) =
     (case f x of Inl e \<Rightarrow> Inl e
      | Inr y \<Rightarrow> (case collect_results f xs of Inl e \<Rightarrow> Inl e | Inr ys \<Rightarrow> Inr (y # ys)))"

fun check_each :: "('a \<Rightarrow> 's \<Rightarrow> string + 's) \<Rightarrow> 'a list \<Rightarrow> 's \<Rightarrow> string + 's" where
  "check_each f [] s = Inr s"
| "check_each f (x # xs) s = (case f x s of Inl e \<Rightarrow> Inl e | Inr s' \<Rightarrow> check_each f xs s')"

definition and_then :: "string + 's \<Rightarrow> ('s \<Rightarrow> string + 't) \<Rightarrow> string + 't" where
  "and_then r f = (case r of Inl e \<Rightarrow> Inl e | Inr s \<Rightarrow> f s)"

lemma collect_results_cong [fundef_cong]:
  "xs = ys \<Longrightarrow> (\<And>x. x \<in> set ys \<Longrightarrow> f x = g x) \<Longrightarrow> collect_results f xs = collect_results g ys"
  by (induction ys arbitrary: xs) (auto split: sum.split)

lemma check_each_cong [fundef_cong]:
  "xs = ys \<Longrightarrow> s = t \<Longrightarrow> (\<And>x s. x \<in> set ys \<Longrightarrow> f x s = g x s) \<Longrightarrow> check_each f xs s = check_each g ys t"
  by (induction ys arbitrary: xs s t) (auto split: sum.split)

lemma and_then_simps [simp]: "and_then (Inl e) f = Inl e" "and_then (Inr s) f = f s"
  by (simp_all add: and_then_def)

lemma and_then_Inr: "and_then r f = Inr t \<longleftrightarrow> (\<exists>s. r = Inr s \<and> f s = Inr t)"
  by (cases r) auto

lemma and_then_cong [fundef_cong]:
  "r = r' \<Longrightarrow> (\<And>s. r' = Inr s \<Longrightarrow> f s = g s) \<Longrightarrow> and_then r f = and_then r' g"
  by (cases r') auto

section \<open>Manifests\<close>

datatype gate = Gate (g_all: "gate list") (g_any: "gate list") (g_not: "gate list")
  (g_contains: "string list") (g_regex: "string list") (g_line_regex: "string list")

datatype 'r compiled_gate = CompiledGate (cg_all: "'r compiled_gate list") (cg_any: "'r compiled_gate list")
  (cg_not: "'r compiled_gate list") (cg_contains: "string list") (cg_regex: "'r list") (cg_line_regex: "'r list")

datatype manifest_state = MIdle | MWorking | MBlocked | MUnknown

fun agent_state_of :: "manifest_state \<Rightarrow> agent_state" where
  "agent_state_of MIdle = Idle"
| "agent_state_of MWorking = Working"
| "agent_state_of MBlocked = Blocked"
| "agent_state_of MUnknown = Unknown"

record manifest_rule =
  mr_id :: string
  mr_state :: "manifest_state option"
  mr_priority :: int
  mr_region :: string
  mr_visible_idle :: bool
  mr_visible_blocker :: bool
  mr_visible_working :: bool
  mr_skip_state_update :: bool
  mr_all :: "gate list"
  mr_any :: "gate list"
  mr_not :: "gate list"
  mr_contains :: "string list"
  mr_regex :: "string list"
  mr_line_regex :: "string list"

record agent_manifest =
  am_id :: string
  am_version :: "string option"
  am_min_engine_version :: "nat option"
  am_updated_at :: "string option"
  am_aliases :: "string list"
  am_rules :: "manifest_rule list"

definition default_region :: string where
  "default_region = ''whole_recent''"

definition manifest_gate_from_rule :: "manifest_rule \<Rightarrow> gate" where
  "manifest_gate_from_rule r = Gate (mr_all r) (mr_any r) (mr_not r) (mr_contains r) (mr_regex r) (mr_line_regex r)"

section \<open>Validation\<close>

definition MAX_RULES_PER_MANIFEST :: nat where "MAX_RULES_PER_MANIFEST = 128"

definition MAX_GATE_DEPTH :: nat where "MAX_GATE_DEPTH = 8"

definition MAX_TOTAL_GATES :: nat where "MAX_TOTAL_GATES = 512"

definition MAX_MATCHERS_PER_GATE :: nat where "MAX_MATCHERS_PER_GATE = 32"

definition MAX_TOTAL_MATCHERS :: nat where "MAX_TOTAL_MATCHERS = 1024"

definition MAX_MATCHER_CHARS :: nat where "MAX_MATCHER_CHARS = 512"

definition TOP_NON_EMPTY_LINES_ENGINE_VERSION :: nat where "TOP_NON_EMPTY_LINES_ENGINE_VERSION = 3"

record manifest_complexity =
  mc_total_gates :: nat
  mc_total_matchers :: nat

definition gate_matchers :: "gate \<Rightarrow> string list" where
  "gate_matchers g = g_contains g @ g_regex g @ g_line_regex g"

definition gate_has_positive_matcher :: "gate \<Rightarrow> bool" where
  "gate_has_positive_matcher g \<longleftrightarrow>
     g_contains g \<noteq> [] \<or> g_regex g \<noteq> [] \<or> g_line_regex g \<noteq> [] \<or> g_all g \<noteq> [] \<or> g_any g \<noteq> []"

definition gate_has_any_matcher :: "gate \<Rightarrow> bool" where
  "gate_has_any_matcher g \<longleftrightarrow> gate_has_positive_matcher g \<or> g_not g \<noteq> []"

definition validate_matcher_limits :: "gate \<Rightarrow> string \<Rightarrow> manifest_complexity \<Rightarrow> string + manifest_complexity" where
  "validate_matcher_limits g ctx c =
     (let matcher_count = length (gate_matchers g)
      in if MAX_MATCHERS_PER_GATE < matcher_count
         then Inl (ctx @ '' has '' @ decimal matcher_count @ '' direct matchers, max is '' @ decimal MAX_MATCHERS_PER_GATE)
         else
           let c' = c\<lparr>mc_total_matchers := mc_total_matchers c + matcher_count\<rparr>
           in if MAX_TOTAL_MATCHERS < mc_total_matchers c'
              then Inl (''manifest exceeds max matcher count '' @ decimal MAX_TOTAL_MATCHERS)
              else if list_ex (\<lambda>v. MAX_MATCHER_CHARS < length (utf8_chars v)) (gate_matchers g)
              then Inl (ctx @ '' matcher exceeds max length '' @ decimal MAX_MATCHER_CHARS)
              else Inr c')"

definition validate_regex_patterns :: "'r text_engine \<Rightarrow> string list \<Rightarrow> string \<Rightarrow> string \<Rightarrow> 's \<Rightarrow> string + 's" where
  "validate_regex_patterns te patterns ctx field s =
     check_each (\<lambda>p s. case te_regex te p of
         Inl e \<Rightarrow> Inl (ctx @ '' contains invalid '' @ field @ '' pattern '' @ te_debug te p @ '': '' @ e)
       | Inr _ \<Rightarrow> Inr s) patterns s"

definition count_gate :: "string \<Rightarrow> nat \<Rightarrow> manifest_complexity \<Rightarrow> string + manifest_complexity" where
  "count_gate ctx depth c =
     (if MAX_GATE_DEPTH < depth then Inl (ctx @ '' exceeds max gate depth '' @ decimal MAX_GATE_DEPTH)
      else
        let c' = c\<lparr>mc_total_gates := mc_total_gates c + 1\<rparr>
        in if MAX_TOTAL_GATES < mc_total_gates c'
           then Inl (''manifest exceeds max gate count '' @ decimal MAX_TOTAL_GATES) else Inr c')"

text \<open>The two checks call each other: a gate under \<open>not\<close> need not hold a positive matcher.\<close>

fun validate_gate :: "'r text_engine \<Rightarrow> string \<Rightarrow> nat \<Rightarrow> gate \<Rightarrow> manifest_complexity \<Rightarrow> string + manifest_complexity"
  and validate_not_gate :: "'r text_engine \<Rightarrow> nat \<Rightarrow> gate \<Rightarrow> manifest_complexity \<Rightarrow> string + manifest_complexity"
where
  "validate_gate te ctx depth (Gate alls anys nots cs rs lrs) c =
     and_then (count_gate ctx depth c) (\<lambda>c.
     and_then (validate_matcher_limits (Gate alls anys nots cs rs lrs) ctx c) (\<lambda>c.
     if \<not> gate_has_positive_matcher (Gate alls anys nots cs rs lrs)
     then Inl (ctx @ '' must contain a positive matcher'')
     else
       and_then (validate_regex_patterns te rs ctx ''regex'' c) (\<lambda>c.
       and_then (validate_regex_patterns te lrs ctx ''line_regex'' c) (\<lambda>c.
       and_then (check_each (\<lambda>g. validate_gate te ''all gate'' (depth + 1) g) alls c) (\<lambda>c.
       and_then (check_each (\<lambda>g. validate_gate te ''any gate'' (depth + 1) g) anys c) (\<lambda>c.
       check_each (\<lambda>g c.
         if \<not> gate_has_any_matcher g then Inl (ctx @ '' contains an empty not gate'')
         else validate_not_gate te (depth + 1) g c) nots c))))))"
| "validate_not_gate te depth (Gate alls anys nots cs rs lrs) c =
     and_then (count_gate ''not gate'' depth c) (\<lambda>c.
     and_then (validate_matcher_limits (Gate alls anys nots cs rs lrs) ''not gate'' c) (\<lambda>c.
     if \<not> gate_has_any_matcher (Gate alls anys nots cs rs lrs) then Inl ''not gate must contain a matcher''
     else
       and_then (validate_regex_patterns te rs ''not gate'' ''regex'' c) (\<lambda>c.
       and_then (validate_regex_patterns te lrs ''not gate'' ''line_regex'' c) (\<lambda>c.
       and_then (check_each (\<lambda>g. validate_gate te ''not all gate'' (depth + 1) g) alls c) (\<lambda>c.
       and_then (check_each (\<lambda>g. validate_gate te ''not any gate'' (depth + 1) g) anys c) (\<lambda>c.
       check_each (\<lambda>g. validate_not_gate te (depth + 1) g) nots c))))))"

definition validate_rule :: "'r text_engine \<Rightarrow> nat option \<Rightarrow> manifest_rule \<Rightarrow> manifest_complexity \<Rightarrow> string + manifest_complexity" where
  "validate_rule te min_engine_version r c =
     (if trim (mr_id r) = [] then Inl ''manifest rule id must not be empty''
      else if mr_skip_state_update r \<and> mr_state r \<noteq> Some MUnknown
      then Inl (''rule '' @ mr_id r @ '' uses skip_state_update without state = '' @ [CHR 0x22] @ ''unknown'' @ [CHR 0x22])
      else if mr_skip_state_update r \<and> (mr_visible_idle r \<or> mr_visible_blocker r \<or> mr_visible_working r)
      then Inl (''rule '' @ mr_id r @ '' uses skip_state_update with visible state evidence'')
      else case validate_region_name (mr_region r) of
        Inl e \<Rightarrow> Inl (''rule '' @ mr_id r @ '' uses invalid region: '' @ e)
      | Inr _ \<Rightarrow>
          if starts_with (trim (mr_region r)) ''top_non_empty_lines('' \<and>
             is_some_and min_engine_version (\<lambda>v. v < TOP_NON_EMPTY_LINES_ENGINE_VERSION)
          then Inl (''rule '' @ mr_id r @ '' uses top_non_empty_lines but min_engine_version is below '' @
            decimal TOP_NON_EMPTY_LINES_ENGINE_VERSION)
          else case validate_gate te ''rule'' 0 (manifest_gate_from_rule r) c of
            Inl e \<Rightarrow> Inl (''rule '' @ mr_id r @ '' has invalid matcher gates: '' @ e)
          | Inr c' \<Rightarrow> Inr c')"

definition validate_manifest :: "'r text_engine \<Rightarrow> agent_manifest \<Rightarrow> string + unit" where
  "validate_manifest te m =
     (if am_rules m = [] then Inl ''manifest must contain at least one rule''
      else if MAX_RULES_PER_MANIFEST < length (am_rules m)
      then Inl (''manifest contains '' @ decimal (length (am_rules m)) @ '' rules, max is '' @ decimal MAX_RULES_PER_MANIFEST)
      else and_then (check_each (validate_rule te (am_min_engine_version m)) (am_rules m)
             \<lparr>mc_total_gates = 0, mc_total_matchers = 0\<rparr>) (\<lambda>_. Inr ()))"

section \<open>Compilation\<close>

fun compile_gate :: "'r text_engine \<Rightarrow> gate \<Rightarrow> string + 'r compiled_gate" where
  "compile_gate te (Gate alls anys nots cs rs lrs) =
     and_then (collect_results (compile_gate te) alls) (\<lambda>alls'.
     and_then (collect_results (compile_gate te) anys) (\<lambda>anys'.
     and_then (collect_results (compile_gate te) nots) (\<lambda>nots'.
     and_then (collect_results (te_regex te) rs) (\<lambda>rs'.
     and_then (collect_results (te_regex te) lrs) (\<lambda>lrs'.
     Inr (CompiledGate alls' anys' nots' (map (te_lowercase te) cs) rs' lrs'))))))"

record 'r compiled_rule =
  cr_gate :: "'r compiled_gate"

definition compile_manifest :: "'r text_engine \<Rightarrow> agent_manifest \<Rightarrow> string + 'r compiled_rule list" where
  "compile_manifest te m =
     collect_results (\<lambda>r. case compile_gate te (manifest_gate_from_rule r) of
         Inl e \<Rightarrow> Inl (''rule '' @ mr_id r @ '' could not be compiled: '' @ e)
       | Inr g \<Rightarrow> Inr \<lparr>cr_gate = g\<rparr>) (am_rules m)"

section \<open>Matching\<close>

fun compiled_gate_matches :: "'r text_engine \<Rightarrow> 'r compiled_gate \<Rightarrow> string \<Rightarrow> string \<Rightarrow> bool" where
  "compiled_gate_matches te (CompiledGate alls anys nots cs rs lrs) t lower_text =
     (if \<not> list_all (\<lambda>needle. sublist needle lower_text) cs then False
      else if \<not> list_all (\<lambda>r. te_is_match te r t) rs then False
      else if \<not> list_all (\<lambda>r. list_ex (te_is_match te r) (str_lines t)) lrs then False
      else if \<not> list_all (\<lambda>g. compiled_gate_matches te g t lower_text) alls then False
      else if anys \<noteq> [] \<and> \<not> list_ex (\<lambda>g. compiled_gate_matches te g t lower_text) anys then False
      else \<not> list_ex (\<lambda>g. compiled_gate_matches te g t lower_text) nots)"

definition compiled_rule_matches :: "'r text_engine \<Rightarrow> 'r compiled_rule \<Rightarrow> string \<Rightarrow> bool" where
  "compiled_rule_matches te r t = compiled_gate_matches te (cr_gate r) t (te_lowercase te t)"

record rule_evidence =
  ev_contains :: "string list"
  ev_regex :: "string list"
  ev_line_regex :: "string list"
  ev_all_count :: nat
  ev_any_count :: nat
  ev_not_count :: nat
  ev_region_bytes :: nat
  ev_region_preview :: string

definition bounded_preview :: "string \<Rightarrow> string" where
  "bounded_preview t =
     concat (map encode_utf8 (take 240 (utf8_chars t))) @
       (if 240 < length (utf8_chars t) then ''...'' else [])"

definition rule_evidence_of :: "manifest_rule \<Rightarrow> string \<Rightarrow> rule_evidence" where
  "rule_evidence_of r region_text =
     \<lparr>ev_contains = mr_contains r, ev_regex = mr_regex r, ev_line_regex = mr_line_regex r,
      ev_all_count = length (mr_all r), ev_any_count = length (mr_any r), ev_not_count = length (mr_not r),
      ev_region_bytes = length region_text, ev_region_preview = bounded_preview region_text\<rparr>"

section \<open>Evaluation\<close>

datatype manifest_source = Bundled | Remote string string | Override string

definition source_label :: "manifest_source \<Rightarrow> string" where
  "source_label s = (case s of Bundled \<Rightarrow> ''bundled'' | Remote path v \<Rightarrow> ''remote:'' @ path | Override path \<Rightarrow> path)"

definition source_kind :: "manifest_source \<Rightarrow> string" where
  "source_kind s =
     (case s of Bundled \<Rightarrow> ''bundled'' | Remote path v \<Rightarrow> ''remote'' | Override path \<Rightarrow> ''local override'')"

record 'r loaded_manifest =
  lm_manifest :: agent_manifest
  lm_compiled_rules :: "'r compiled_rule list"
  lm_source :: manifest_source
  lm_warning :: "string option"
  lm_cached_remote_version :: "string option"
  lm_local_override_shadowing_remote :: bool

record matched_rule =
  ma_id :: string
  ma_priority :: int
  ma_region :: string
  ma_state :: agent_state

record evaluated_rule =
  er_id :: string
  er_priority :: int
  er_region :: string
  er_evidence :: rule_evidence
  er_state :: agent_state
  er_matched :: bool

record detection_explain =
  ex_agent :: "string option"
  ex_state :: agent_state
  ex_source :: "manifest_source option"
  ex_matched_rule :: "matched_rule option"
  ex_screen_detection_skipped :: bool
  ex_visible_idle :: bool
  ex_visible_blocker :: bool
  ex_visible_working :: bool
  ex_skip_state_update :: bool
  ex_skipped_update_reason :: "string option"
  ex_fallback_reason :: "string option"
  ex_evaluated_rules :: "evaluated_rule list"
  ex_warning :: "string option"
  ex_manifest_version :: "string option"
  ex_cached_remote_version :: "string option"
  ex_local_override_shadowing_remote :: bool
  ex_remote_update_status :: "string option"
  ex_remote_update_error :: "string option"

definition DEFAULT_KNOWN_AGENT_IDLE_FALLBACK :: string where
  "DEFAULT_KNOWN_AGENT_IDLE_FALLBACK = ''default_known_agent_idle_fallback''"

definition rule_state :: "manifest_rule \<Rightarrow> agent_state" where
  "rule_state r = (case mr_state r of Some s \<Rightarrow> agent_state_of s | None \<Rightarrow> Unknown)"

text \<open>The last update of an agent's manifest: its result and its error.\<close>

type_synonym update_status = "agent \<Rightarrow> (string \<times> string option) option"

definition fallback_explain ::
  "update_status \<Rightarrow> agent option \<Rightarrow> ('r loaded_manifest \<times> evaluated_rule list) option \<Rightarrow> bool \<Rightarrow> detection_explain" where
  "fallback_explain status a ctx include_update_status =
     (let update = (if include_update_status then Option.bind a status else None)
      in \<lparr>ex_agent = map_option agent_label a, ex_state = (if a \<noteq> None then Idle else Unknown),
          ex_source = map_option (\<lambda>(l, _). lm_source l) ctx, ex_matched_rule = None,
          ex_screen_detection_skipped = False, ex_visible_idle = False, ex_visible_blocker = False,
          ex_visible_working = False, ex_skip_state_update = False, ex_skipped_update_reason = None,
          ex_fallback_reason = (if a \<noteq> None then Some DEFAULT_KNOWN_AGENT_IDLE_FALLBACK else None),
          ex_evaluated_rules = (case ctx of Some (_, evaluated) \<Rightarrow> evaluated | None \<Rightarrow> []),
          ex_warning = Option.bind ctx (\<lambda>(l, _). lm_warning l),
          ex_manifest_version = Option.bind ctx (\<lambda>(l, _). am_version (lm_manifest l)),
          ex_cached_remote_version = Option.bind ctx (\<lambda>(l, _). lm_cached_remote_version l),
          ex_local_override_shadowing_remote =
            (case ctx of Some (l, _) \<Rightarrow> lm_local_override_shadowing_remote l | None \<Rightarrow> False),
          ex_remote_update_status = map_option fst update,
          ex_remote_update_error = Option.bind update snd\<rparr>)"

text \<open>The loop over the rules: the matched rule so far and the rules evaluated so far.\<close>

fun evaluate_rules ::
  "'r text_engine \<Rightarrow> detection_input \<Rightarrow> (manifest_rule \<times> 'r compiled_rule) list \<Rightarrow> manifest_rule option \<Rightarrow>
   evaluated_rule list \<Rightarrow> (manifest_rule option \<times> evaluated_rule list) option" where
  "evaluate_rules te input [] matched evaluated = Some (matched, evaluated)"
| "evaluate_rules te input ((r, compiled) # rules) matched evaluated =
     Option.bind (region input (mr_region r)) (\<lambda>region_text.
       let hit = compiled_rule_matches te compiled region_text;
           evaluated' = evaluated @
             [\<lparr>er_id = mr_id r, er_priority = mr_priority r, er_region = mr_region r,
               er_evidence = rule_evidence_of r region_text, er_state = rule_state r, er_matched = hit\<rparr>];
           matched' =
             (if \<not> hit then matched
              else case matched of
                Some previous \<Rightarrow> if mr_priority r \<le> mr_priority previous then matched else Some r
              | None \<Rightarrow> Some r)
       in evaluate_rules te input rules matched' evaluated')"

definition evaluate_loaded_manifest ::
  "'r text_engine \<Rightarrow> update_status \<Rightarrow> agent \<Rightarrow> detection_input \<Rightarrow> 'r loaded_manifest \<Rightarrow> bool \<Rightarrow> detection_explain option" where
  "evaluate_loaded_manifest te status a input loaded include_update_status =
     map_option (\<lambda>(matched, evaluated).
       case matched of
         None \<Rightarrow> fallback_explain status (Some a) (Some (loaded, evaluated)) include_update_status
       | Some r \<Rightarrow>
           let state = rule_state r;
               update = (if include_update_status then status a else None)
           in \<lparr>ex_agent = Some (agent_label a), ex_state = state, ex_source = Some (lm_source loaded),
               ex_matched_rule = Some \<lparr>ma_id = mr_id r, ma_priority = mr_priority r, ma_region = mr_region r, ma_state = state\<rparr>,
               ex_screen_detection_skipped = False,
               ex_visible_idle = (mr_visible_idle r \<and> state = Idle),
               ex_visible_blocker = (mr_visible_blocker r \<and> state = Blocked),
               ex_visible_working = (mr_visible_working r \<and> state = Working),
               ex_skip_state_update = mr_skip_state_update r,
               ex_skipped_update_reason = (if mr_skip_state_update r then Some (''matched_rule:'' @ mr_id r) else None),
               ex_fallback_reason = None, ex_evaluated_rules = evaluated, ex_warning = lm_warning loaded,
               ex_manifest_version = am_version (lm_manifest loaded),
               ex_cached_remote_version = lm_cached_remote_version loaded,
               ex_local_override_shadowing_remote = lm_local_override_shadowing_remote loaded,
               ex_remote_update_status = map_option fst update,
               ex_remote_update_error = Option.bind update snd\<rparr>)
       (evaluate_rules te input (zip (am_rules (lm_manifest loaded)) (lm_compiled_rules loaded)) None [])"

definition into_detection :: "detection_explain \<Rightarrow> agent_detection" where
  "into_detection ex =
     \<lparr>ad_state = ex_state ex, ad_skip_state_update = ex_skip_state_update ex, ad_visible_idle = ex_visible_idle ex,
      ad_visible_blocker = ex_visible_blocker ex, ad_visible_working = ex_visible_working ex\<rparr>"

text \<open>The manifest of an agent is the entry of the cache, \<open>loaded\<close>.\<close>

definition detect_with_osc ::
  "'r text_engine \<Rightarrow> update_status \<Rightarrow> 'r loaded_manifest option \<Rightarrow> agent \<Rightarrow> detection_input \<Rightarrow> agent_detection option" where
  "detect_with_osc te status loaded a input =
     (case loaded of
        None \<Rightarrow> Some (into_detection (fallback_explain status (Some a) (None :: ('r loaded_manifest \<times> evaluated_rule list) option) False))
      | Some l \<Rightarrow> map_option into_detection (evaluate_loaded_manifest te status a input l False))"

definition explain_with_input ::
  "'r text_engine \<Rightarrow> update_status \<Rightarrow> 'r loaded_manifest option \<Rightarrow> agent \<Rightarrow> detection_input \<Rightarrow> detection_explain option" where
  "explain_with_input te status loaded a input =
     (case loaded of
        None \<Rightarrow> Some (fallback_explain status (Some a) (None :: ('r loaded_manifest \<times> evaluated_rule list) option) True)
      | Some l \<Rightarrow> evaluate_loaded_manifest te status a input l True)"

definition screen_input :: "string \<Rightarrow> detection_input" where
  "screen_input screen = \<lparr>di_screen = screen, di_osc_title = [], di_osc_progress = []\<rparr>"

definition detect :: "'r text_engine \<Rightarrow> update_status \<Rightarrow> 'r loaded_manifest option \<Rightarrow> agent \<Rightarrow> string \<Rightarrow> agent_detection option" where
  "detect te status loaded a screen = detect_with_osc te status loaded a (screen_input screen)"

definition explain :: "'r text_engine \<Rightarrow> update_status \<Rightarrow> 'r loaded_manifest option \<Rightarrow> agent \<Rightarrow> string \<Rightarrow> detection_explain option" where
  "explain te status loaded a screen = explain_with_input te status loaded a (screen_input screen)"

definition explain_for_label ::
  "'r text_engine \<Rightarrow> update_status \<Rightarrow> (agent \<Rightarrow> 'r loaded_manifest option) \<Rightarrow> string \<Rightarrow> string \<Rightarrow> detection_explain option" where
  "explain_for_label te status load label screen =
     (case parse_agent_label label of
        None \<Rightarrow> Some \<lparr>ex_agent = Some label, ex_state = Unknown, ex_source = None, ex_matched_rule = None,
          ex_screen_detection_skipped = False, ex_visible_idle = False, ex_visible_blocker = False,
          ex_visible_working = False, ex_skip_state_update = False, ex_skipped_update_reason = None,
          ex_fallback_reason = Some ''unknown_agent'', ex_evaluated_rules = [], ex_warning = None,
          ex_manifest_version = None, ex_cached_remote_version = None, ex_local_override_shadowing_remote = False,
          ex_remote_update_status = None, ex_remote_update_error = None\<rparr>
      | Some a \<Rightarrow> explain te status (load a) a screen)"

definition should_skip_state_update ::
  "'r text_engine \<Rightarrow> update_status \<Rightarrow> 'r loaded_manifest option \<Rightarrow> agent \<Rightarrow> string \<Rightarrow> bool option" where
  "should_skip_state_update te status loaded a screen =
     (case loaded of
        None \<Rightarrow> Some False
      | Some l \<Rightarrow> map_option ex_skip_state_update (evaluate_loaded_manifest te status a (screen_input screen) l False))"

definition detect_agent_with_osc ::
  "'r text_engine \<Rightarrow> update_status \<Rightarrow> (agent \<Rightarrow> 'r loaded_manifest option) \<Rightarrow> agent option \<Rightarrow> detection_input \<Rightarrow>
   agent_detection option" where
  "detect_agent_with_osc te status load a input =
     (case a of
        None \<Rightarrow> Some \<lparr>ad_state = Unknown, ad_skip_state_update = False, ad_visible_idle = False,
            ad_visible_blocker = False, ad_visible_working = False\<rparr>
      | Some a' \<Rightarrow> detect_with_osc te status (load a') a' input)"

definition agent_state_label :: "agent_state \<Rightarrow> string" where
  "agent_state_label s =
     (case s of Idle \<Rightarrow> ''idle'' | Working \<Rightarrow> ''working'' | Blocked \<Rightarrow> ''blocked'' | Unknown \<Rightarrow> ''unknown'')"

section \<open>Versions\<close>

datatype version_order = VLess | VEqual | VGreater

definition segment_value :: "string \<Rightarrow> nat" where
  "segment_value s = (case parse_uint usize_limit s of Some n \<Rightarrow> n | None \<Rightarrow> 0)"

fun compare_segments :: "string list \<Rightarrow> string list \<Rightarrow> version_order" where
  "compare_segments (a # as) (b # bs) =
     (if segment_value a < segment_value b then VLess
      else if segment_value b < segment_value a then VGreater
      else compare_segments as bs)"
| "compare_segments (a # as) [] = (if segment_value a = 0 then compare_segments as [] else VGreater)"
| "compare_segments [] (b # bs) = (if segment_value b = 0 then compare_segments [] bs else VLess)"
| "compare_segments [] [] = VEqual"

definition version_segments :: "string \<Rightarrow> string list" where
  "version_segments v = split_on (\<lambda>c. c = CHR ''.'') v"

definition version_cmp :: "string \<Rightarrow> string \<Rightarrow> version_order" where
  "version_cmp a b = compare_segments (version_segments a) (version_segments b)"

definition manifest_version_parse :: "(string \<Rightarrow> string) \<Rightarrow> string \<Rightarrow> string + string" where
  "manifest_version_parse debug v =
     (let trimmed = trim v
      in if trimmed = [] then Inl ''version must not be empty''
         else and_then
           (check_each (\<lambda>segment _.
              if segment = [] then Inl (''version '' @ debug trimmed @ '' contains an empty segment'')
              else if \<not> list_all is_ascii_digit segment then Inl (''version '' @ debug trimmed @ '' must be dotted numeric'')
              else if parse_uint usize_limit segment = None
              then Inl (''version '' @ debug trimmed @ '' contains an oversized segment'')
              else Inr ()) (version_segments trimmed) ())
           (\<lambda>_. Inr trimmed))"

definition MANIFEST_ENGINE_VERSION :: nat where
  "MANIFEST_ENGINE_VERSION = 3"

section \<open>Parsing\<close>

record 'r manifest_env =
  en_engine :: "'r text_engine"
  en_bundled :: "(string \<times> string) list"
  en_toml :: "string \<Rightarrow> string + agent_manifest"
  en_exists :: "string \<Rightarrow> bool"
  en_read :: "string \<Rightarrow> string + string"
  en_remote_path :: "agent \<Rightarrow> string"
  en_override_path :: "agent \<Rightarrow> string option"

definition parse_manifest :: "'r manifest_env \<Rightarrow> string \<Rightarrow> string + agent_manifest" where
  "parse_manifest env content =
     and_then (en_toml env content) (\<lambda>m. and_then (validate_manifest (en_engine env) m) (\<lambda>_. Inr m))"

definition manifest_matches_agent :: "agent_manifest \<Rightarrow> agent \<Rightarrow> bool" where
  "manifest_matches_agent m a \<longleftrightarrow>
     am_id m = agent_label a \<or> list_ex (\<lambda>alias. alias = agent_label a) (am_aliases m) \<or>
     parse_agent_label (am_id m) = Some a \<or> list_ex (\<lambda>alias. parse_agent_label alias = Some a) (am_aliases m)"

definition parse_remote_manifest_for_agent ::
  "'r manifest_env \<Rightarrow> agent \<Rightarrow> string \<Rightarrow> string + agent_manifest \<times> string" where
  "parse_remote_manifest_for_agent env a content =
     and_then (parse_manifest env content) (\<lambda>m.
       if \<not> manifest_matches_agent m a then Inl (''manifest id '' @ am_id m @ '' does not match '' @ agent_label a)
       else case am_version m of
         None \<Rightarrow> Inl ''remote manifest must include version''
       | Some v \<Rightarrow> (case am_min_engine_version m of
             None \<Rightarrow> Inl ''remote manifest must include min_engine_version''
           | Some n \<Rightarrow>
               if MANIFEST_ENGINE_VERSION < n
               then Inl (''manifest requires engine '' @ decimal n @ '', current engine is '' @ decimal MANIFEST_ENGINE_VERSION)
               else Inr (m, v)))"

section \<open>Loading\<close>

definition load_manifest_as ::
  "'r manifest_env \<Rightarrow> agent_manifest \<Rightarrow> manifest_source \<Rightarrow> string option \<Rightarrow> string option \<Rightarrow> bool \<Rightarrow> string + 'r loaded_manifest" where
  "load_manifest_as env m source warning cached_remote_version shadowing =
     and_then (compile_manifest (en_engine env) m) (\<lambda>compiled.
       Inr \<lparr>lm_manifest = m, lm_compiled_rules = compiled, lm_source = source, lm_warning = warning,
         lm_cached_remote_version = cached_remote_version, lm_local_override_shadowing_remote = shadowing\<rparr>)"

text \<open>A bundled manifest that does not compile, or is not valid, panics.\<close>

definition bundled_loaded_manifest ::
  "'r manifest_env \<Rightarrow> agent_manifest \<Rightarrow> string option \<Rightarrow> string option \<Rightarrow> bool \<Rightarrow> 'r loaded_manifest option" where
  "bundled_loaded_manifest env m warning cached_remote_version shadowing =
     (case load_manifest_as env m Bundled warning cached_remote_version shadowing of Inr l \<Rightarrow> Some l | Inl _ \<Rightarrow> None)"

definition bundled_manifest :: "'r manifest_env \<Rightarrow> agent \<Rightarrow> agent_manifest option option" where
  "bundled_manifest env a =
     (case find (\<lambda>(i, _). i = agent_label a) (en_bundled env) of
        None \<Rightarrow> Some None
      | Some (_, content) \<Rightarrow> (case parse_manifest env content of Inr m \<Rightarrow> Some (Some m) | Inl _ \<Rightarrow> None))"

definition read_override_manifest :: "'r manifest_env \<Rightarrow> string \<Rightarrow> string + agent_manifest" where
  "read_override_manifest env path = and_then (en_read env path) (parse_manifest env)"

definition read_remote_manifest ::
  "'r manifest_env \<Rightarrow> agent \<Rightarrow> agent_manifest \<Rightarrow> 'r loaded_manifest option option" where
  "read_remote_manifest env a bundled =
     (let path = en_remote_path env a
      in if \<not> en_exists env path then Some None
         else case and_then (en_read env path) (\<lambda>content. and_then (parse_remote_manifest_for_agent env a content) (\<lambda>(m, _). Inr m)) of
           Inl e \<Rightarrow>
             map_option Some (bundled_loaded_manifest env bundled
               (Some (''ignored remote manifest '' @ path @ '' because it could not be loaded: '' @ e)) None False)
         | Inr m \<Rightarrow>
             let version = (case am_version m of Some v \<Rightarrow> v | None \<Rightarrow> ''unknown'')
             in case (am_version m, am_version bundled) of
                  (Some remote_version, Some bundled_version) \<Rightarrow>
                    if version_cmp remote_version bundled_version = VLess
                    then map_option Some (bundled_loaded_manifest env bundled
                      (Some (''ignored remote manifest '' @ path @ '' because cached version '' @ remote_version @
                        '' is older than bundled '' @ bundled_version)) (Some remote_version) False)
                    else (case load_manifest_as env m (Remote path version) None None False of
                        Inr l \<Rightarrow> Some (Some l)
                      | Inl e \<Rightarrow> map_option Some (bundled_loaded_manifest env bundled
                          (Some (''ignored remote manifest '' @ path @ '' because it could not be compiled: '' @ e)) None False))
                | _ \<Rightarrow> (case load_manifest_as env m (Remote path version) None None False of
                        Inr l \<Rightarrow> Some (Some l)
                      | Inl e \<Rightarrow> map_option Some (bundled_loaded_manifest env bundled
                          (Some (''ignored remote manifest '' @ path @ '' because it could not be compiled: '' @ e)) None False)))"

definition remote_version_of :: "'r loaded_manifest \<Rightarrow> string option" where
  "remote_version_of l =
     (if lm_cached_remote_version l \<noteq> None then lm_cached_remote_version l
      else case lm_source l of Remote _ v \<Rightarrow> Some v | _ \<Rightarrow> None)"

text \<open>What is used when there is no usable override, with the warning about the one that was ignored.\<close>

definition remote_or_bundled ::
  "'r manifest_env \<Rightarrow> agent_manifest \<Rightarrow> 'r loaded_manifest option \<Rightarrow> string option \<Rightarrow> bool \<Rightarrow> 'r loaded_manifest option" where
  "remote_or_bundled env bundled remote cached_remote_version shadowing =
     (case remote of
        Some l \<Rightarrow> Some l
      | None \<Rightarrow> bundled_loaded_manifest env bundled None cached_remote_version shadowing)"

definition with_warning :: "string \<Rightarrow> 'r loaded_manifest \<Rightarrow> 'r loaded_manifest" where
  "with_warning w l = l\<lparr>lm_warning := Some w\<rparr>"

definition apply_override ::
  "'r manifest_env \<Rightarrow> agent \<Rightarrow> string \<Rightarrow> 'r loaded_manifest option \<Rightarrow> string option \<Rightarrow> bool \<Rightarrow> 'r loaded_manifest option" where
  "apply_override env a path otherwise cached_remote_version shadowing =
     (case read_override_manifest env path of
        Inr m \<Rightarrow>
          if manifest_matches_agent m a
          then (case load_manifest_as env m (Override path) None cached_remote_version shadowing of
              Inr l \<Rightarrow> Some l
            | Inl e \<Rightarrow> map_option (with_warning (''ignored override '' @ path @ '' because it could not be compiled: '' @ e)) otherwise)
          else map_option (with_warning (''ignored override '' @ path @ '' because manifest id '' @ am_id m @
                 '' does not match '' @ agent_label a)) otherwise
      | Inl e \<Rightarrow> map_option (with_warning (''ignored override '' @ path @ '' because it could not be loaded: '' @ e)) otherwise)"

definition load_manifest_uncached :: "'r manifest_env \<Rightarrow> agent \<Rightarrow> 'r loaded_manifest option option" where
  "load_manifest_uncached env a =
     Option.bind (bundled_manifest env a) (\<lambda>b. case b of
       None \<Rightarrow> Some None
     | Some bundled \<Rightarrow>
         Option.bind (read_remote_manifest env a bundled) (\<lambda>remote.
         let cached_remote_version = Option.bind remote remote_version_of
         in case en_override_path env a of
              None \<Rightarrow>
                map_option Some (remote_or_bundled env bundled
                  (map_option (\<lambda>l. l\<lparr>lm_cached_remote_version := cached_remote_version\<rparr>) remote) cached_remote_version False)
            | Some path \<Rightarrow>
                let shadowing = (en_exists env path \<and> cached_remote_version \<noteq> None);
                    remote' = map_option (\<lambda>l. l\<lparr>lm_cached_remote_version := cached_remote_version,
                      lm_local_override_shadowing_remote := shadowing\<rparr>) remote;
                    otherwise = remote_or_bundled env bundled remote' cached_remote_version shadowing
                in map_option Some
                     (if \<not> en_exists env path then otherwise
                      else apply_override env a path otherwise cached_remote_version shadowing)))"

section \<open>The cache\<close>

type_synonym 'r manifest_cache = "(agent \<times> 'r loaded_manifest option) list"

fun collect_options :: "('a \<Rightarrow> 'b option) \<Rightarrow> 'a list \<Rightarrow> 'b list option" where
  "collect_options f [] = Some []"
| "collect_options f (x # xs) = Option.bind (f x) (\<lambda>y. map_option ((#) y) (collect_options f xs))"

definition build_manifest_cache :: "'r manifest_env \<Rightarrow> 'r manifest_cache option" where
  "build_manifest_cache env =
     collect_options (\<lambda>a. map_option (Pair a) (load_manifest_uncached env a)) SCREEN_MANIFEST_AGENTS"

definition cached_manifest :: "'r manifest_cache \<Rightarrow> agent \<Rightarrow> 'r loaded_manifest option" where
  "cached_manifest cache a = Option.bind (find (\<lambda>(b, _). b = a) cache) snd"

definition replace_cached :: "'r manifest_cache \<Rightarrow> agent \<times> 'r loaded_manifest option \<Rightarrow> 'r manifest_cache" where
  "replace_cached cache entry =
     (case position (\<lambda>(b, _). b = fst entry) cache of
        Some i \<Rightarrow> cache[i := (fst (cache ! i), snd entry)]
      | None \<Rightarrow> cache)"

definition reload_manifests_for_agents :: "'r manifest_env \<Rightarrow> agent list \<Rightarrow> 'r manifest_cache \<Rightarrow> 'r manifest_cache option" where
  "reload_manifests_for_agents env agents cache =
     (if agents = [] then Some cache
      else map_option (foldl replace_cached cache)
        (collect_options (\<lambda>a. map_option (Pair a) (load_manifest_uncached env a))
          (filter (\<lambda>a. a \<in> set agents) SCREEN_MANIFEST_AGENTS)))"

record agent_manifest_summary =
  su_agent :: agent
  su_active_source :: manifest_source
  su_active_version :: "string option"
  su_cached_remote_version :: "string option"
  su_local_override_shadowing_remote :: bool
  su_warning :: "string option"

definition manifest_summary_from_loaded :: "agent \<Rightarrow> 'r loaded_manifest \<Rightarrow> agent_manifest_summary" where
  "manifest_summary_from_loaded a l =
     \<lparr>su_agent = a, su_active_source = lm_source l, su_active_version = am_version (lm_manifest l),
      su_cached_remote_version = lm_cached_remote_version l,
      su_local_override_shadowing_remote = lm_local_override_shadowing_remote l, su_warning = lm_warning l\<rparr>"

definition manifest_summaries_from_cache :: "'r manifest_cache \<Rightarrow> agent_manifest_summary list" where
  "manifest_summaries_from_cache cache =
     List.map_filter (\<lambda>(a, loaded). map_option (manifest_summary_from_loaded a) loaded) cache"

definition reload_manifests :: "'r manifest_env \<Rightarrow> (agent_manifest_summary list \<times> 'r manifest_cache) option" where
  "reload_manifests env =
     map_option (\<lambda>cache. (manifest_summaries_from_cache cache, cache)) (build_manifest_cache env)"

end
