(* ===== verification/Detect_Region_Facts.thy ===== *)
theory Detect_Region_Facts
  imports Detect_Regions "HOL-Library.Sublist"
begin

text \<open>
  On a screen of valid UTF-8 without carriage returns, the offsets of the code are those of the lines, so
  that every slice is at a boundary and every region is a range of whole lines.
\<close>

section \<open>Valid text\<close>

definition is_utf8 :: "string \<Rightarrow> bool" where
  "is_utf8 s \<longleftrightarrow> (\<exists>cs. list_all is_scalar cs \<and> s = concat (map encode_utf8 cs))"

definition plain_text :: "string \<Rightarrow> bool" where
  "plain_text s \<longleftrightarrow> is_utf8 s \<and> carriage_return \<notin> set s"

definition starts_char :: "string \<Rightarrow> bool" where
  "starts_char s \<longleftrightarrow> s = [] \<or> \<not> is_continuation (hd s)"

fun follow_ok :: "string \<Rightarrow> bool" where
  "follow_ok [] = True"
| "follow_ok (c # s) = ((c = newline \<longrightarrow> starts_char s) \<and> follow_ok s)"

lemma follow_ok_append: "newline \<notin> set u \<Longrightarrow> follow_ok s \<Longrightarrow> follow_ok (u @ s)"
  by (induction u) auto

lemma follow_okD: "follow_ok (a @ newline # s) \<Longrightarrow> starts_char s"
  by (induction a) auto

lemma newline_byte: "c = newline \<Longrightarrow> byte c = 10"
  by (simp add: byte_def)

lemma encode_utf8_bytes:
  assumes "is_scalar c"
  shows "starts_char (encode_utf8 c @ s)" and "c < 128 \<or> newline \<notin> set (encode_utf8 c)"
proof -
  have c: "c < 0x110000" using assms by (auto simp: is_scalar_def)
  have b: "c div 64 < 32 \<or> 0x800 \<le> c" "c div 4096 < 16 \<or> 0x10000 \<le> c" "c div 262144 < 5" using c by auto
  show "starts_char (encode_utf8 c @ s)"
    using b by (auto simp: starts_char_def encode_utf8_def is_continuation_def byte_char_of)
  have m: "n mod 64 < 64" for n :: nat by simp
  have high: "newline \<noteq> char_of (k + n)" if "0x80 \<le> k" "k + n < 256" for k n :: nat
    using newline_byte [of "char_of (k + n)"] byte_char_of [of "k + n"] that by auto
  have cont: "newline \<noteq> char_of (0x80 + n mod 64)" for n :: nat using m [of n] by (intro high) auto
  have "newline \<notin> set (encode_utf8 c)" if "128 \<le> c"
  proof -
    consider "c < 0x800" | "0x800 \<le> c" "c < 0x10000" | "0x10000 \<le> c" by linarith
    then show ?thesis
    proof cases
      case 1
      then have "newline \<noteq> char_of (0xC0 + c div 64)" by (intro high) auto
      with cont [of c] 1 that show ?thesis by (simp add: encode_utf8_def)
    next
      case 2
      then have "newline \<noteq> char_of (0xE0 + c div 4096)" by (intro high) auto
      with cont [of c] cont [of "c div 64"] 2 show ?thesis by (simp add: encode_utf8_def)
    next
      case 3
      have "newline \<noteq> char_of (0xF0 + c div 262144)" using b(3) by (intro high) auto
      with cont [of c] cont [of "c div 64"] cont [of "c div 4096"] 3 show ?thesis by (simp add: encode_utf8_def)
    qed
  qed
  then show "c < 128 \<or> newline \<notin> set (encode_utf8 c)" by linarith
qed

lemma utf8_follow:
  assumes "list_all is_scalar cs"
  shows "follow_ok (concat (map encode_utf8 cs)) \<and> starts_char (concat (map encode_utf8 cs))"
  using assms
proof (induction cs)
  case (Cons c cs)
  then have c: "is_scalar c" and s: "follow_ok (concat (map encode_utf8 cs))" "starts_char (concat (map encode_utf8 cs))"
    by simp_all
  have "follow_ok (encode_utf8 c @ concat (map encode_utf8 cs))"
  proof (cases "c < 128")
    case True
    then show ?thesis using s by (simp add: encode_utf8_def)
  next
    case False
    then show ?thesis using encode_utf8_bytes(2) [OF c] s(1) follow_ok_append by blast
  qed
  then show ?case using encode_utf8_bytes(1) [OF c] by simp
qed (simp add: starts_char_def)

lemma is_utf8_follow: "is_utf8 s \<Longrightarrow> follow_ok s"
  using utf8_follow by (auto simp: is_utf8_def)

section \<open>Raw lines\<close>

lemma concat_raw_lines [simp]: "concat (raw_lines s) = s"
  by (induction s) (auto split: list.split)

lemma raw_lines_nonempty: "[] \<notin> set (raw_lines s)"
  by (induction s) (auto split: list.splits)

definition terminated :: "string \<Rightarrow> bool" where
  "terminated l \<longleftrightarrow> l \<noteq> [] \<and> last l = newline"

fun raw_ok :: "string list \<Rightarrow> bool" where
  "raw_ok [] = True"
| "raw_ok [l] = (l \<noteq> [] \<and> (terminated l \<or> newline \<notin> set l))"
| "raw_ok (l # l' # ls) = (terminated l \<and> raw_ok (l' # ls))"

lemma raw_ok_Cons: "terminated l \<Longrightarrow> raw_ok ls \<Longrightarrow> raw_ok (l # ls)"
  by (cases ls) (auto simp: terminated_def)

lemma raw_ok_extend: "c \<noteq> newline \<Longrightarrow> raw_ok (l # ls) \<Longrightarrow> raw_ok ((c # l) # ls)"
  by (cases ls) (auto simp: terminated_def)

lemma raw_ok_raw_lines: "raw_ok (raw_lines s)"
proof (induction s)
  case (Cons c s)
  then show ?case
    by (auto simp: terminated_def intro: raw_ok_Cons raw_ok_extend split: list.splits)
qed simp

lemma line_text_terminated:
  assumes "terminated l" and "carriage_return \<notin> set l"
  shows "length (line_text l) + 1 = length l"
proof -
  obtain t where l: "l = t @ [newline]" using assms(1) by (metis append_butlast_last_id terminated_def)
  have "strip_suffix t [carriage_return] = None"
    using assms(2) by (cases t rule: rev_cases)
      (auto simp: l strip_suffix_last strip_suffix_def ends_with_def then_some_def)
  then show ?thesis by (simp add: l line_text_def)
qed

lemma line_text_open: "newline \<notin> set l \<Longrightarrow> line_text l = l"
  by (cases l rule: rev_cases) (auto simp: line_text_def strip_suffix_last strip_suffix_def ends_with_def then_some_def)

lemma offset_raw:
  assumes "raw_ok ls" and "\<forall>l \<in> set ls. carriage_return \<notin> set l"
  shows "min (sum_list (map (\<lambda>l. length (line_text l) + 1) (take k ls))) (length (concat ls)) = length (concat (take k ls))"
  using assms
proof (induction ls arbitrary: k rule: raw_ok.induct)
  case (2 l)
  then show ?case using line_text_terminated [of l] line_text_open [of l] by (cases k) auto
next
  case (3 l l' ls)
  then have l: "length (line_text l) + 1 = length l" using line_text_terminated [of l] by simp
  show ?case
  proof (cases k)
    case (Suc n)
    let ?S = "sum_list (map (\<lambda>l. length (line_text l) + 1) (take n (l' # ls)))" and ?L = "length (concat (l' # ls))"
    have "min ?S ?L = length (concat (take n (l' # ls)))" using 3 by simp
    then have "min (length l + ?S) (length l + ?L) = length l + length (concat (take n (l' # ls)))"
      by (simp only: min_add_distrib_right)
    then show ?thesis unfolding Suc using l by (simp only: take_Suc_Cons list.map sum_list.Cons concat.simps length_append)
  qed simp
qed simp

definition line_range :: "string \<Rightarrow> nat \<Rightarrow> nat \<Rightarrow> string" where
  "line_range s i j = concat (take (j - i) (drop i (raw_lines s)))"

lemma raw_lines_members: "l \<in> set (raw_lines s) \<Longrightarrow> set l \<subseteq> set s"
  using concat_raw_lines [of s] by (metis UN_upper set_concat)

lemma sum_offset:
  assumes "carriage_return \<notin> set s"
  shows "min (sum_list (map (\<lambda>l. length l + 1) (take k (str_lines s)))) (length s) = length (concat (take k (raw_lines s)))"
proof -
  have "\<forall>l \<in> set (raw_lines s). carriage_return \<notin> set l" using assms raw_lines_members by blast
  from offset_raw [OF raw_ok_raw_lines this, of k] show ?thesis
    by (simp add: str_lines_def take_map comp_def)
qed

lemma length_str_lines [simp]: "length (str_lines s) = length (raw_lines s)"
  by (simp add: str_lines_def)

lemma line_start_offset_eq:
  assumes "carriage_return \<notin> set s"
  shows "line_start_offset s (str_lines s) k = length (concat (take k (raw_lines s)))"
proof -
  have "take (min k (length (str_lines s))) (str_lines s) = take k (str_lines s)" by (simp add: min_def)
  then show ?thesis using sum_offset [OF assms, of k] by (simp add: line_start_offset_def)
qed

lemma raw_ok_terminated: "raw_ok ls \<Longrightarrow> Suc k < length ls \<Longrightarrow> terminated (ls ! k)"
proof (induction ls arbitrary: k rule: raw_ok.induct)
  case (3 l l' ls)
  then show ?case by (cases k) auto
qed simp_all

lemma boundary_at_line:
  assumes "is_utf8 s"
  shows "is_char_boundary s (length (concat (take k (raw_lines s))))"
proof (cases "k = 0 \<or> length (raw_lines s) \<le> k")
  case True
  then show ?thesis by (auto simp: is_char_boundary_def)
next
  case False
  then obtain j where k: "k = Suc j" "Suc j < length (raw_lines s)" by (cases k) auto
  let ?a = "concat (take k (raw_lines s))" and ?b = "concat (drop k (raw_lines s))"
  have s: "s = ?a @ ?b" using concat_raw_lines [of s] by (metis append_take_drop_id concat_append)
  have "terminated (raw_lines s ! j)" using raw_ok_terminated [OF raw_ok_raw_lines] k by simp
  then obtain t where "raw_lines s ! j = t @ [newline]" by (metis append_butlast_last_id terminated_def)
  then have a: "?a = (concat (take j (raw_lines s)) @ t) @ [newline]" using k by (simp add: take_Suc_conv_app_nth)
  have "follow_ok ((concat (take j (raw_lines s)) @ t) @ newline # ?b)"
    using is_utf8_follow [OF assms] s a by (metis append.assoc append_Cons append_Nil)
  then have "starts_char ?b" by (rule follow_okD)
  moreover have "?b \<noteq> []"
  proof -
    have "drop k (raw_lines s) = raw_lines s ! k # drop (Suc k) (raw_lines s)" using k by (simp add: Cons_nth_drop_Suc)
    moreover have "raw_lines s ! k \<noteq> []" using raw_lines_nonempty k by (metis nth_mem)
    ultimately show ?thesis by simp
  qed
  ultimately have "length ?a < length s \<and> \<not> is_continuation (s ! length ?a)"
    using s by (metis add_less_cancel_left add.right_neutral hd_conv_nth length_append length_greater_0_conv nth_append_length_plus starts_char_def)
  then show ?thesis by (simp add: is_char_boundary_def)
qed

lemma slice_lines:
  assumes "plain_text s" and "i \<le> j"
  shows "str_slice s (length (concat (take i (raw_lines s)))) (length (concat (take j (raw_lines s)))) = Some (line_range s i j)"
proof -
  let ?r = "raw_lines s"
  have b: "is_char_boundary s (length (concat (take k ?r)))" for k
    using boundary_at_line assms(1) by (simp add: plain_text_def)
  have j: "take j ?r = take i ?r @ take (j - i) (drop i ?r)"
    using assms(2) by (metis le_add_diff_inverse take_add)
  have s: "s = concat (take i ?r) @ concat (take (j - i) (drop i ?r)) @ concat (drop (j - i) (drop i ?r))"
    by (metis append_take_drop_id concat_append concat_raw_lines)
  have "take (length (concat (take (j - i) (drop i ?r)))) (drop (length (concat (take i ?r))) s) = line_range s i j"
    by (subst (2) s) (simp add: line_range_def)
  then show ?thesis using b [of i] b [of j] by (simp add: str_slice_def j)
qed

lemma slice_from_line:
  assumes "plain_text s"
  shows "slice_from_line_index s (str_lines s) i = Some (concat (drop i (raw_lines s)))"
proof -
  have cr: "carriage_return \<notin> set s" using assms by (simp add: plain_text_def)
  let ?n = "max i (length (raw_lines s))"
  have le: "length (concat (take i (raw_lines s))) \<le> length s"
    using line_start_offset_eq [OF cr, of i] by (simp add: line_start_offset_def)
  have full: "length (concat (take ?n (raw_lines s))) = length s" by simp
  have "str_slice s (length (concat (take i (raw_lines s)))) (length s) = Some (line_range s i ?n)"
    using slice_lines [OF assms, of i ?n] full by simp
  moreover have "line_range s i ?n = concat (drop i (raw_lines s))" by (simp add: line_range_def)
  ultimately show ?thesis using le by (simp add: slice_from_line_index_def line_start_offset_eq [OF cr] min_def)
qed

section \<open>Regions are ranges of lines\<close>

lemma line_range_sublist: "sublist (line_range s i j) s"
proof -
  let ?r = "raw_lines s"
  have "s = concat (take i ?r) @ line_range s i j @ concat (drop (j - i) (drop i ?r))"
    unfolding line_range_def by (metis append_take_drop_id concat_append concat_raw_lines)
  then show ?thesis by (metis sublist_appendI)
qed

lemma drop_sublist: "sublist (concat (drop i (raw_lines s))) s"
proof -
  have "s = concat (take i (raw_lines s)) @ concat (drop i (raw_lines s))"
    by (metis append_take_drop_id concat_append concat_raw_lines)
  then show ?thesis by (metis sublist_appendI append_Nil2)
qed

lemma line_text_prefix: "prefix (line_text l) l"
  by (auto simp: line_text_def strip_suffix_def then_some_def take_is_prefix prefix_order.trans
      split: option.splits if_splits)

lemma line_sublist: "l \<in> set (str_lines s) \<Longrightarrow> sublist l s"
proof -
  assume "l \<in> set (str_lines s)"
  then obtain r where r: "r \<in> set (raw_lines s)" "l = line_text r" by (auto simp: str_lines_def)
  have "sublist r (concat (raw_lines s))"
    using r(1) by (metis concat.simps(2) concat_append split_list sublist_appendI)
  moreover have "sublist l r" using line_text_prefix r(2) by simp
  ultimately show ?thesis using sublist_order.order.trans by simp
qed

text \<open>A region that does not panic and lies in the screen.\<close>

definition part_of :: "string option \<Rightarrow> string \<Rightarrow> bool" where
  "part_of r s = (case r of Some t \<Rightarrow> sublist t s | None \<Rightarrow> False)"

lemma part_of_simps [simp]: "part_of (Some t) s = sublist t s" "part_of None s = False"
  by (simp_all add: part_of_def)

lemma slice_from_part: "plain_text s \<Longrightarrow> part_of (slice_from_line_index s (str_lines s) i) s"
  by (simp add: slice_from_line drop_sublist)

lemma slice_lines_offsets:
  assumes "plain_text s" and "i \<le> j"
  shows "part_of (str_slice s (min (line_start_offset s (str_lines s) i) (length s)) (min (line_start_offset s (str_lines s) j) (length s))) s"
proof -
  have cr: "carriage_return \<notin> set s" using assms(1) by (simp add: plain_text_def)
  have "line_start_offset s (str_lines s) k \<le> length s" for k by (simp add: line_start_offset_def)
  then show ?thesis
    using slice_lines [OF assms] line_range_sublist by (simp add: line_start_offset_eq [OF cr] min_absorb1)
qed

lemma str_slice_start: "plain_text s \<Longrightarrow> part_of (str_slice s 0 (length (concat (take j (raw_lines s))))) s"
  using slice_lines [of s 0 j] line_range_sublist by simp

lemma bottom_lines_part: "plain_text s \<Longrightarrow> part_of (bottom_lines s n) s"
  by (simp add: bottom_lines_def slice_from_part Let_def)

lemma bottom_non_empty_lines_part: "plain_text s \<Longrightarrow> part_of (bottom_non_empty_lines s n) s"
  by (simp add: bottom_non_empty_lines_def Let_def slice_from_part split: list.split)

lemma top_non_empty_lines_part: "plain_text s \<Longrightarrow> part_of (top_non_empty_lines s n) s"
  by (auto simp: top_non_empty_lines_def Let_def line_start_offset_eq plain_text_def intro!: str_slice_start split: list.split)

lemma after_last_prompt_marker_part: "plain_text s \<Longrightarrow> part_of (after_last_prompt_marker s) s"
  by (simp add: after_last_prompt_marker_def Let_def slice_from_part split: option.split)

lemma before_current_prompt_marker_part: "plain_text s \<Longrightarrow> part_of (before_current_prompt_marker s) s"
  using sum_offset [of s]
  by (auto simp: before_current_prompt_marker_def Let_def plain_text_def intro!: str_slice_start split: option.split)

lemma after_current_prompt_block_marker_part:
  "plain_text s \<Longrightarrow> part_of (case after_current_prompt_block_marker s of Some r \<Rightarrow> r | None \<Rightarrow> Some []) s"
  by (auto simp: after_current_prompt_block_marker_def Let_def slice_from_part Option.bind_eq_Some_conv split: option.split)

lemma prompt_box_body_part:
  "plain_text s \<Longrightarrow> part_of (case prompt_box_body s of Some r \<Rightarrow> r | None \<Rightarrow> Some []) s"
proof -
  assume s: "plain_text s"
  have le: "border + 1 \<le> (case position P (drop (border + 1) ls) of Some r \<Rightarrow> border + 1 + r | None \<Rightarrow> length ls)"
    if "border < length ls" for border P and ls :: "string list"
    using that by (simp split: option.split)
  have bound: "second_border ls is n = Some i \<Longrightarrow> i \<in> set is" for ls "is" n i
    by (induction ls "is" n rule: second_border.induct) (auto split: if_splits)
  have "border < length (str_lines s)" if "prompt_box_top_border_index (str_lines s) = Some border" for border
    using bound that unfolding prompt_box_top_border_index_def by fastforce
  then show ?thesis
    unfolding prompt_box_body_def Let_def using slice_lines_offsets [OF s] le by (auto split: option.split)
qed

lemma above_prompt_box_part: "plain_text s \<Longrightarrow> part_of (above_prompt_box s) s"
  using slice_lines_offsets [of s 0]
  by (auto simp: above_prompt_box_def Let_def line_start_offset_def [of _ _ 0] split: option.split)

lemma last_rule_end_eq:
  assumes "raw_ok (raw_lines s)" and "carriage_return \<notin> set s"
    and "raw_lines s = done_lines @ ls" and "e = length (concat (take k (raw_lines s)))"
    and "offset = sum_list (map (\<lambda>l. length (line_text l) + 1) done_lines)"
  shows "\<exists>j. last_rule_end (length s) (map line_text ls) offset e = length (concat (take j (raw_lines s)))"
  using assms(3-5)
proof (induction ls arbitrary: done_lines offset e k)
  case (Cons l ls)
  have "min (offset + length (line_text l) + 1) (length s) = length (concat (take (Suc (length done_lines)) (raw_lines s)))"
    using sum_offset [OF assms(2), of "Suc (length done_lines)"] Cons.prems(1,3)
    by (simp add: str_lines_def comp_def ac_simps)
  then obtain k' where k': "(if is_horizontal_rule (line_text l) then min (offset + length (line_text l) + 1) (length s) else e) =
      length (concat (take k' (raw_lines s)))"
    using Cons.prems(2) by (metis (full_types))
  have "\<exists>j. last_rule_end (length s) (map line_text ls) (offset + length (line_text l) + 1)
      (if is_horizontal_rule (line_text l) then min (offset + length (line_text l) + 1) (length s) else e) =
    length (concat (take j (raw_lines s)))"
    by (rule Cons.IH [of "done_lines @ [l]", OF _ k']) (use Cons.prems in simp_all)
  then show ?case by (simp only: list.map last_rule_end.simps Let_def)
qed auto

lemma after_last_horizontal_rule_part:
  assumes "plain_text s"
  shows "part_of (after_last_horizontal_rule s) s"
proof -
  have cr: "carriage_return \<notin> set s" using assms by (simp add: plain_text_def)
  obtain j where j: "last_rule_end (length s) (str_lines s) 0 0 = length (concat (take j (raw_lines s)))"
    using last_rule_end_eq [OF raw_ok_raw_lines cr, of "[]" "raw_lines s" 0 0 0] by (auto simp: str_lines_def)
  have "slice_from_line_index s (str_lines s) j = str_slice s (length (concat (take j (raw_lines s)))) (length s)"
    using line_start_offset_eq [OF cr, of j] by (simp add: slice_from_line_index_def line_start_offset_def)
  then show ?thesis using slice_from_part [OF assms, of j] by (simp add: after_last_horizontal_rule_def j)
qed

lemma find_member: "find P xs = Some x \<Longrightarrow> x \<in> set xs"
  by (auto simp: find_Some_iff)

lemma current_prompt_block_marker_part:
  "sublist (case current_prompt_block_marker s of Some l \<Rightarrow> l | None \<Rightarrow> []) s"
  by (auto simp: current_prompt_block_marker_def Let_def dest!: find_member in_set_takeD intro: line_sublist
      split: option.split bind_splits)

lemma last_non_empty_line_part: "sublist (last_non_empty_line s) s"
  by (auto simp: last_non_empty_line_def dest!: find_member intro: line_sublist split: option.split)

lemma above_last_line_part: "plain_text s \<Longrightarrow> part_of (map_option last_non_empty_line (above_prompt_box s)) s"
  using above_prompt_box_part [of s] last_non_empty_line_part
  by (cases "above_prompt_box s") (auto intro: sublist_order.order.trans)

lemma counted_region_part: "plain_text s \<Longrightarrow> part_of (counted_region s spec) s"
  by (simp add: counted_region_def bottom_lines_part bottom_non_empty_lines_part top_non_empty_lines_part split: option.split)

lemmas region_parts = after_last_prompt_marker_part before_current_prompt_marker_part
  after_current_prompt_block_marker_part prompt_box_body_part above_prompt_box_part above_last_line_part
  after_last_horizontal_rule_part counted_region_part

lemma region_part:
  assumes "plain_text (di_screen input)"
  shows "region input spec = Some (di_osc_title input) \<or> region input spec = Some (di_osc_progress input) \<or>
    part_of (region input spec) (di_screen input)"
  using region_parts [OF assms] current_prompt_block_marker_part [of "di_screen input"]
  unfolding region_def Let_def by (simp add: whole_recent_without_current_prompt_marker_def)

section \<open>The last lines that are not blank\<close>

definition non_blank_count :: "string list \<Rightarrow> nat" where
  "non_blank_count ls = length (filter (\<lambda>l. \<not> blank l) ls)"

lemma filter_indices: "length (filter (\<lambda>i. P (ls ! i)) [i..<length ls]) = length (filter P (drop i ls))"
proof -
  have "map ((!) ls) [i..<length ls] = drop i ls" by (rule nth_equalityI) auto
  then show ?thesis by (metis comp_apply filter_cong filter_map length_map)
qed

lemma index_rank:
  assumes "k < length (non_empty_indices ls)" and "non_empty_indices ls ! k = i"
  shows "i < length ls" and "\<not> blank (ls ! i)" and "non_blank_count (drop i ls) = length (non_empty_indices ls) - k"
proof -
  let ?P = "\<lambda>i. \<not> blank (ls ! i)"
  have "i \<in> set (non_empty_indices ls)" using assms nth_mem by blast
  then show i: "i < length ls" "?P i" by (auto simp: non_empty_indices_def)
  have split: "non_empty_indices ls = filter ?P [0..<i] @ filter ?P [i..<length ls]"
  proof -
    have "[0..<length ls] = [0..<i] @ [i..<length ls]" using i(1) upt_add_eq_append [of 0 i "length ls - i"] by simp
    then show ?thesis by (simp add: non_empty_indices_def)
  qed
  have "[i..<length ls] = i # [Suc i..<length ls]" using i(1) by (simp add: upt_conv_Cons)
  then have "non_empty_indices ls ! length (filter ?P [0..<i]) = i" unfolding split using i(2) by (simp add: nth_append)
  moreover have "length (filter ?P [0..<i]) < length (non_empty_indices ls)"
    unfolding split using i by (simp add: upt_conv_Cons)
  moreover have "distinct (non_empty_indices ls)" by (simp add: non_empty_indices_def)
  ultimately have "length (filter ?P [0..<i]) = k" using assms nth_eq_iff_index_eq by metis
  then have "length (filter ?P [i..<length ls]) = length (non_empty_indices ls) - k" unfolding split by simp
  then show "non_blank_count (drop i ls) = length (non_empty_indices ls) - k"
    using filter_indices [of "\<lambda>l. \<not> blank l"] by (simp add: non_blank_count_def)
qed

lemma non_empty_indices_count: "length (non_empty_indices ls) = non_blank_count ls"
  using filter_indices [of "\<lambda>l. \<not> blank l" ls 0] by (simp add: non_empty_indices_def non_blank_count_def)

lemma bottom_non_empty_lines_spec:
  assumes "plain_text s"
  shows "\<exists>i. bottom_non_empty_lines s n = Some (concat (drop i (raw_lines s))) \<and>
    non_blank_count (drop i (str_lines s)) = min n (non_blank_count (str_lines s)) \<and>
    (i < length (str_lines s) \<longrightarrow> \<not> blank (str_lines s ! i))"
proof -
  let ?ls = "str_lines s"
  let ?nei = "non_empty_indices ?ls"
  define m where "m = min n (length ?nei)"
  show ?thesis
  proof (cases "m = 0")
    case True
    then have "n = 0 \<or> ?nei = []" by (auto simp: m_def min_def split: if_splits)
    then have "take n (rev ?nei) = []" by auto
    then show ?thesis
      using True by (intro exI [of _ "length ?ls"])
        (auto simp: bottom_non_empty_lines_def m_def non_empty_indices_count non_blank_count_def)
  next
    case False
    then have k: "length ?nei - m < length ?nei" by (auto simp: m_def)
    have taken: "take n (rev ?nei) \<noteq> []" using False by (auto simp: m_def)
    have "last (take n (rev ?nei)) = rev ?nei ! (m - 1)"
      using taken False by (auto simp: last_conv_nth m_def min.commute min_def)
    also have "\<dots> = ?nei ! (length ?nei - m)"
    proof -
      have "0 < m" "m \<le> length ?nei" using False by (auto simp: m_def)
      then have "m - 1 < length ?nei" "length ?nei - Suc (m - 1) = length ?nei - m" by simp_all
      then show ?thesis by (simp only: rev_nth)
    qed
    finally have l: "last (take n (rev ?nei)) = ?nei ! (length ?nei - m)" .
    have "bottom_non_empty_lines s n = slice_from_line_index s ?ls (?nei ! (length ?nei - m))"
      using taken unfolding l [symmetric] by (auto simp: bottom_non_empty_lines_def Let_def split: list.split)
    moreover note index_rank [OF k refl]
    moreover have "length ?nei - (length ?nei - m) = min n (non_blank_count ?ls)"
      by (simp add: m_def flip: non_empty_indices_count)
    ultimately show ?thesis using slice_from_line [OF assms] by metis
  qed
qed

section \<open>Carriage returns\<close>

text \<open>
  A line that ends in a carriage return and a line feed loses two bytes but counts for one: the offsets fall
  behind, and a slice can start inside a character. Reading such a text with \<open>osade agent explain --file\<close>
  panics.
\<close>

definition crlf_screen :: string where
  "crlf_screen = [carriage_return, newline, carriage_return, newline] @ encode_utf8 0xE9 @ [newline] @ ''z''"

lemma code_chars: "char_of (13 :: nat) = carriage_return" "char_of (10 :: nat) = newline" "char_of (122 :: nat) = CHR ''z''"
  by code_simp+

lemma crlf_screen_utf8: "is_utf8 crlf_screen"
  unfolding is_utf8_def
  by (rule exI [of _ "[13, 10, 13, 10, 0xE9, 10, 122]"])
    (simp add: crlf_screen_def encode_utf8_def is_scalar_def code_chars)

lemma crlf_screen_panics: "bottom_lines crlf_screen 1 = None" "bottom_non_empty_lines crlf_screen 1 = None"
  by code_simp+

end
