(* ===== verification/Detect_Facts.thy ===== *)
theory Detect_Facts
  imports Detect_Manifest Detect_Region_Facts
begin

text \<open>
  Validation makes a manifest compile and bounds its gates and matchers; a compiled gate holds where the gate
  of the manifest holds; and the rule that decides a screen is the first of the highest priority among the
  rules that hold.
\<close>

section \<open>Checks and results\<close>

lemma check_each_member: "check_each f xs s = Inr t \<Longrightarrow> x \<in> set xs \<Longrightarrow> \<exists>s t. f x s = Inr t"
  by (induction xs arbitrary: s) (auto split: sum.splits)

lemma check_each_invariant:
  assumes "check_each f xs s = Inr t" and "P s" and "\<And>x s t. x \<in> set xs \<Longrightarrow> P s \<Longrightarrow> f x s = Inr t \<Longrightarrow> P t"
  shows "P t"
  using assms
proof (induction xs arbitrary: s)
  case (Cons x xs)
  from Cons.prems(1) obtain u where u: "f x s = Inr u" "check_each f xs u = Inr t" by (auto split: sum.splits)
  show ?case by (rule Cons.IH [OF u(2)]) (use Cons.prems(2,3) u(1) in \<open>auto intro: Cons.prems(3)\<close>)
qed simp

lemma check_each_sum:
  fixes w :: "'s \<Rightarrow> nat"
  assumes "check_each f xs s = Inr t" and "\<And>x s t. x \<in> set xs \<Longrightarrow> f x s = Inr t \<Longrightarrow> w t = w s + v x"
  shows "w t = w s + sum_list (map v xs)"
  using assms by (induction xs arbitrary: s) (fastforce split: sum.splits)+

lemma collect_results_Inr: "\<forall>x \<in> set xs. \<exists>y. f x = Inr y \<Longrightarrow> \<exists>ys. collect_results f xs = Inr ys"
  by (induction xs) (auto split: sum.split)

lemma collect_results_all: "collect_results f xs = Inr ys \<Longrightarrow> list_all2 (\<lambda>x y. f x = Inr y) xs ys"
  by (induction xs arbitrary: ys) (auto split: sum.splits)

section \<open>A valid manifest compiles\<close>

lemma regex_patterns_ok: "validate_regex_patterns te ps ctx field s = Inr t \<Longrightarrow> \<exists>rs. collect_results (te_regex te) ps = Inr rs"
  by (rule collect_results_Inr)
    (auto simp: validate_regex_patterns_def dest!: check_each_member split: sum.splits)

lemma regex_patterns_same: "validate_regex_patterns te ps ctx field s = Inr t \<Longrightarrow> t = s"
  unfolding validate_regex_patterns_def
  by (rule check_each_invariant [where P = "\<lambda>t. t = s"]) (auto split: sum.splits)

definition regexes_ok :: "'r text_engine \<Rightarrow> string list \<Rightarrow> bool" where
  "regexes_ok te ps \<longleftrightarrow> (\<exists>rs. collect_results (te_regex te) ps = Inr rs)"

lemma validate_gate_parts:
  assumes "validate_gate te ctx d (Gate alls anys nots cs rs lrs) c = Inr c'"
  shows "\<forall>g \<in> set (alls @ anys). \<exists>ctx d s t. validate_gate te ctx d g s = Inr t"
    and "\<forall>g \<in> set nots. \<exists>d s t. validate_not_gate te d g s = Inr t"
    and "regexes_ok te rs" and "regexes_ok te lrs"
proof -
  from assms obtain c1 c2 c3 c4 c5 c6 where p: "validate_regex_patterns te rs ctx ''regex'' c1 = Inr c2"
    "validate_regex_patterns te lrs ctx ''line_regex'' c2 = Inr c3"
    "check_each (\<lambda>g. validate_gate te ''all gate'' (d + 1) g) alls c3 = Inr c4"
    "check_each (\<lambda>g. validate_gate te ''any gate'' (d + 1) g) anys c4 = Inr c5"
    "check_each (\<lambda>g c. if \<not> gate_has_any_matcher g then Inl (ctx @ '' contains an empty not gate'')
         else validate_not_gate te (d + 1) g c) nots c5 = Inr c6"
    unfolding validate_gate.simps and_then_Inr by (auto split: if_splits simp: and_then_Inr)
  show "regexes_ok te rs" "regexes_ok te lrs"
    by (simp_all add: regexes_ok_def regex_patterns_ok [OF p(1)] regex_patterns_ok [OF p(2)])
  show "\<forall>g \<in> set (alls @ anys). \<exists>ctx d s t. validate_gate te ctx d g s = Inr t"
    using check_each_member [OF p(3)] check_each_member [OF p(4)] by (auto, blast+)
  show "\<forall>g \<in> set nots. \<exists>d s t. validate_not_gate te d g s = Inr t"
    using check_each_member [OF p(5)] by (metis sum.distinct(1))
qed

lemma validate_not_gate_parts:
  assumes "validate_not_gate te d (Gate alls anys nots cs rs lrs) c = Inr c'"
  shows "\<forall>g \<in> set (alls @ anys). \<exists>ctx d s t. validate_gate te ctx d g s = Inr t"
    and "\<forall>g \<in> set nots. \<exists>d s t. validate_not_gate te d g s = Inr t"
    and "regexes_ok te rs" and "regexes_ok te lrs"
proof -
  from assms obtain c1 c2 c3 c4 c5 c6 where p: "validate_regex_patterns te rs ''not gate'' ''regex'' c1 = Inr c2"
    "validate_regex_patterns te lrs ''not gate'' ''line_regex'' c2 = Inr c3"
    "check_each (\<lambda>g. validate_gate te ''not all gate'' (d + 1) g) alls c3 = Inr c4"
    "check_each (\<lambda>g. validate_gate te ''not any gate'' (d + 1) g) anys c4 = Inr c5"
    "check_each (\<lambda>g. validate_not_gate te (d + 1) g) nots c5 = Inr c6"
    unfolding validate_not_gate.simps and_then_Inr by (auto split: if_splits simp: and_then_Inr)
  show "regexes_ok te rs" "regexes_ok te lrs"
    by (simp_all add: regexes_ok_def regex_patterns_ok [OF p(1)] regex_patterns_ok [OF p(2)])
  show "\<forall>g \<in> set (alls @ anys). \<exists>ctx d s t. validate_gate te ctx d g s = Inr t"
    using check_each_member [OF p(3)] check_each_member [OF p(4)] by (auto, blast+)
  show "\<forall>g \<in> set nots. \<exists>d s t. validate_not_gate te d g s = Inr t"
    using check_each_member [OF p(5)] by blast
qed

definition compiles :: "'r text_engine \<Rightarrow> gate \<Rightarrow> bool" where
  "compiles te g \<longleftrightarrow> (\<exists>g'. compile_gate te g = Inr g')"

lemma parts_compile:
  assumes "\<forall>g \<in> set (alls @ anys). compiles te g" and "\<forall>g \<in> set nots. compiles te g"
    and "regexes_ok te rs" and "regexes_ok te lrs"
  shows "compiles te (Gate alls anys nots cs rs lrs)"
proof -
  obtain a where "collect_results (compile_gate te) alls = Inr a"
    using collect_results_Inr [of alls "compile_gate te"] assms(1) by (auto simp: compiles_def)
  moreover obtain b where "collect_results (compile_gate te) anys = Inr b"
    using collect_results_Inr [of anys "compile_gate te"] assms(1) by (auto simp: compiles_def)
  moreover obtain n where "collect_results (compile_gate te) nots = Inr n"
    using collect_results_Inr [of nots "compile_gate te"] assms(2) by (auto simp: compiles_def)
  ultimately show ?thesis using assms(3,4) by (auto simp: compiles_def regexes_ok_def)
qed

lemma gate_compiles:
  "(\<forall>ctx d s t. validate_gate te ctx d g s = Inr t \<longrightarrow> compiles te g) \<and>
   (\<forall>d s t. validate_not_gate te d g s = Inr t \<longrightarrow> compiles te g)"
proof (induction g)
  case (Gate alls anys nots cs rs lrs)
  have sub: "compiles te g" if mem: "g \<in> set (alls @ anys)" and ok: "\<exists>ctx d s t. validate_gate te ctx d g s = Inr t" for g
  proof -
    from mem consider "g \<in> set alls" | "g \<in> set anys" by (simp, blast)
    then show ?thesis using ok Gate.IH(1,2) [of g] by cases blast+
  qed
  have neg: "compiles te g" if "g \<in> set nots" "\<exists>d s t. validate_not_gate te d g s = Inr t" for g
    using that(2) Gate.IH(3) [OF that(1)] by blast
  show ?case
  proof (intro conjI allI impI)
    fix ctx d s t
    assume "validate_gate te ctx d (Gate alls anys nots cs rs lrs) s = Inr t"
    from validate_gate_parts [OF this] show "compiles te (Gate alls anys nots cs rs lrs)"
      by (intro parts_compile) (use sub neg in blast)+
  next
    fix d s t
    assume "validate_not_gate te d (Gate alls anys nots cs rs lrs) s = Inr t"
    from validate_not_gate_parts [OF this] show "compiles te (Gate alls anys nots cs rs lrs)"
      by (intro parts_compile) (use sub neg in blast)+
  qed
qed

lemma validate_manifest_rules:
  assumes "validate_manifest te m = Inr ()"
  obtains c where "length (am_rules m) \<le> MAX_RULES_PER_MANIFEST"
    and "check_each (validate_rule te (am_min_engine_version m)) (am_rules m) \<lparr>mc_total_gates = 0, mc_total_matchers = 0\<rparr> = Inr c"
  using assms unfolding validate_manifest_def by (auto simp: and_then_Inr split: if_splits)

lemma validate_rule_gate:
  assumes "validate_rule te v r s = Inr t"
  shows "validate_gate te ''rule'' 0 (manifest_gate_from_rule r) s = Inr t"
  using assms unfolding validate_rule_def by (simp split: if_splits sum.splits)

lemma validate_rule_skip: "validate_rule te v r s = Inr t \<Longrightarrow> mr_skip_state_update r \<Longrightarrow> mr_state r = Some MUnknown"
  by (rule ccontr) (simp add: validate_rule_def split: if_splits)

lemma validate_rule_region: "validate_rule te v r s = Inr t \<Longrightarrow> \<exists>u. validate_region_name (mr_region r) = Inr u"
  unfolding validate_rule_def by (simp split: if_splits sum.splits)

lemma validated_rules:
  assumes "validate_manifest te m = Inr ()" and "r \<in> set (am_rules m)"
  obtains s t where "validate_rule te (am_min_engine_version m) r s = Inr t"
proof -
  obtain c where "check_each (validate_rule te (am_min_engine_version m)) (am_rules m)
      \<lparr>mc_total_gates = 0, mc_total_matchers = 0\<rparr> = Inr c"
    using assms(1) by (rule validate_manifest_rules)
  from check_each_member [OF this assms(2)] show ?thesis using that by blast
qed

lemma validated_compiles:
  assumes "validate_manifest te m = Inr ()"
  shows "\<exists>rules. compile_manifest te m = Inr rules"
proof -
  have "\<exists>g. compile_gate te (manifest_gate_from_rule r) = Inr g" if "r \<in> set (am_rules m)" for r
  proof -
    note rule = that
    obtain s t where "validate_rule te (am_min_engine_version m) r s = Inr t" by (rule validated_rules [OF assms rule])
    from validate_rule_gate [OF this] gate_compiles [of te "manifest_gate_from_rule r"]
    show ?thesis unfolding compiles_def by blast
  qed
  then show ?thesis
    unfolding compile_manifest_def by (intro collect_results_Inr ballI) fastforce
qed

lemma parse_manifest_compiles:
  "parse_manifest env content = Inr m \<Longrightarrow> \<exists>rules. compile_manifest (en_engine env) m = Inr rules"
  using validated_compiles by (auto simp: parse_manifest_def and_then_Inr)

fun gate_size :: "gate \<Rightarrow> nat" where
  "gate_size (Gate alls anys nots cs rs lrs) =
     Suc (sum_list (map gate_size alls) + sum_list (map gate_size anys) + sum_list (map gate_size nots))"

fun gate_matcher_count :: "gate \<Rightarrow> nat" where
  "gate_matcher_count (Gate alls anys nots cs rs lrs) =
     length cs + length rs + length lrs +
       (sum_list (map gate_matcher_count alls) + sum_list (map gate_matcher_count anys) +
        sum_list (map gate_matcher_count nots))"

text \<open>No gate lies more than \<open>n\<close> gates below this one.\<close>

fun gate_within :: "nat \<Rightarrow> gate \<Rightarrow> bool" where
  "gate_within n (Gate alls anys nots cs rs lrs) \<longleftrightarrow>
     list_all (\<lambda>g. 0 < n \<and> gate_within (n - 1) g) (alls @ anys @ nots)"

definition within_limits :: "manifest_complexity \<Rightarrow> bool" where
  "within_limits c \<longleftrightarrow> mc_total_gates c \<le> MAX_TOTAL_GATES \<and> mc_total_matchers c \<le> MAX_TOTAL_MATCHERS"

definition counts :: "nat \<Rightarrow> gate \<Rightarrow> manifest_complexity \<Rightarrow> manifest_complexity \<Rightarrow> bool" where
  "counts d g s t \<longleftrightarrow>
     mc_total_gates t = mc_total_gates s + gate_size g \<and>
     mc_total_matchers t = mc_total_matchers s + gate_matcher_count g \<and>
     within_limits t \<and> d \<le> MAX_GATE_DEPTH \<and> gate_within (MAX_GATE_DEPTH - d) g"

section \<open>The checks of one gate\<close>

lemma counted_gate:
  assumes "count_gate ctx d c = Inr c1" and "validate_matcher_limits g ctx c1 = Inr c2"
  shows "mc_total_gates c2 = mc_total_gates c + 1"
    and "mc_total_matchers c2 = mc_total_matchers c + length (gate_matchers g)"
    and "within_limits c2" and "d \<le> MAX_GATE_DEPTH"
  using assms unfolding count_gate_def validate_matcher_limits_def within_limits_def Let_def
  by (auto split: if_splits)

lemma counted_gates:
  assumes "check_each f gs s = Inr t" and "\<forall>g \<in> set gs. \<forall>s t. f g s = Inr t \<longrightarrow> counts (Suc d) g s t"
    and "within_limits s"
  shows "mc_total_gates t = mc_total_gates s + sum_list (map gate_size gs)"
    and "mc_total_matchers t = mc_total_matchers s + sum_list (map gate_matcher_count gs)"
    and "within_limits t" and "\<forall>g \<in> set gs. Suc d \<le> MAX_GATE_DEPTH \<and> gate_within (MAX_GATE_DEPTH - Suc d) g"
proof -
  show "mc_total_gates t = mc_total_gates s + sum_list (map gate_size gs)"
    by (rule check_each_sum [OF assms(1)]) (use assms(2) in \<open>auto simp: counts_def\<close>)
  show "mc_total_matchers t = mc_total_matchers s + sum_list (map gate_matcher_count gs)"
    by (rule check_each_sum [OF assms(1)]) (use assms(2) in \<open>auto simp: counts_def\<close>)
  show "within_limits t"
    by (rule check_each_invariant [where P = within_limits, OF assms(1,3)]) (use assms(2) in \<open>auto simp: counts_def\<close>)
  show "\<forall>g \<in> set gs. Suc d \<le> MAX_GATE_DEPTH \<and> gate_within (MAX_GATE_DEPTH - Suc d) g"
    using check_each_member [OF assms(1)] assms(2) by (meson counts_def)
qed

lemma counts_parts:
  assumes head: "count_gate ctx d c = Inr c1" "validate_matcher_limits (Gate alls anys nots cs rs lrs) ctx c1 = Inr c2"
    and alls: "check_each f alls c2 = Inr c3" "\<forall>g \<in> set alls. \<forall>s t. f g s = Inr t \<longrightarrow> counts (Suc d) g s t"
    and anys: "check_each h anys c3 = Inr c4" "\<forall>g \<in> set anys. \<forall>s t. h g s = Inr t \<longrightarrow> counts (Suc d) g s t"
    and nots: "check_each k nots c4 = Inr c5" "\<forall>g \<in> set nots. \<forall>s t. k g s = Inr t \<longrightarrow> counts (Suc d) g s t"
  shows "counts d (Gate alls anys nots cs rs lrs) c c5"
proof -
  note start = counted_gate [OF head]
  note a = counted_gates [OF alls start(3)]
  note b = counted_gates [OF anys a(3)]
  note n = counted_gates [OF nots b(3)]
  have "\<forall>g \<in> set (alls @ anys @ nots). Suc d \<le> MAX_GATE_DEPTH \<and> gate_within (MAX_GATE_DEPTH - Suc d) g"
    unfolding set_append ball_Un by (intro conjI a(4) b(4) n(4))
  then have depth: "gate_within (MAX_GATE_DEPTH - d) (Gate alls anys nots cs rs lrs)"
    by (auto simp only: gate_within.simps list_all_iff diff_diff_left Suc_eq_plus1 zero_less_diff Suc_le_eq)
  have gates: "mc_total_gates c5 = mc_total_gates c + gate_size (Gate alls anys nots cs rs lrs)"
    unfolding n(1) b(1) a(1) start(1) by simp
  have matchers: "mc_total_matchers c5 = mc_total_matchers c + gate_matcher_count (Gate alls anys nots cs rs lrs)"
    unfolding n(2) b(2) a(2) start(2) by (simp add: gate_matchers_def)
  show ?thesis unfolding counts_def by (intro conjI gates matchers n(3) start(4) depth)
qed

lemma validated_gate_counts:
  "(\<forall>ctx d s t. validate_gate te ctx d g s = Inr t \<longrightarrow> counts d g s t) \<and>
   (\<forall>d s t. validate_not_gate te d g s = Inr t \<longrightarrow> counts d g s t)"
proof (induction g)
  case (Gate alls anys nots cs rs lrs)
  have sub: "counts d g s t" if "g \<in> set alls \<or> g \<in> set anys" "validate_gate te ctx d g s = Inr t" for g ctx d s t
    using that(1) by (elim disjE) (use that(2) Gate.IH(1,2) [of g] in blast)+
  have neg: "counts d g s t" if "g \<in> set nots" "validate_not_gate te d g s = Inr t" for g d s t
    using that(2) Gate.IH(3) [OF that(1)] by blast
  show ?case
  proof (intro conjI allI impI)
    fix ctx d s t
    assume "validate_gate te ctx d (Gate alls anys nots cs rs lrs) s = Inr t"
    then obtain c1 c2 c3 c4 where p: "count_gate ctx d s = Inr c1"
      "validate_matcher_limits (Gate alls anys nots cs rs lrs) ctx c1 = Inr c2"
      "check_each (\<lambda>g. validate_gate te ''all gate'' (d + 1) g) alls c2 = Inr c3"
      "check_each (\<lambda>g. validate_gate te ''any gate'' (d + 1) g) anys c3 = Inr c4"
      "check_each (\<lambda>g c. if \<not> gate_has_any_matcher g then Inl (ctx @ '' contains an empty not gate'')
           else validate_not_gate te (d + 1) g c) nots c4 = Inr t"
      unfolding validate_gate.simps and_then_Inr
      by (auto split: if_splits simp: and_then_Inr dest!: regex_patterns_same)
    show "counts d (Gate alls anys nots cs rs lrs) s t"
      by (rule counts_parts [OF p(1,2) p(3) _ p(4) _ p(5)]) (auto intro: sub neg split: if_splits)
  next
    fix d s t
    assume "validate_not_gate te d (Gate alls anys nots cs rs lrs) s = Inr t"
    then obtain c1 c2 c3 c4 where p: "count_gate ''not gate'' d s = Inr c1"
      "validate_matcher_limits (Gate alls anys nots cs rs lrs) ''not gate'' c1 = Inr c2"
      "check_each (\<lambda>g. validate_gate te ''not all gate'' (d + 1) g) alls c2 = Inr c3"
      "check_each (\<lambda>g. validate_gate te ''not any gate'' (d + 1) g) anys c3 = Inr c4"
      "check_each (\<lambda>g. validate_not_gate te (d + 1) g) nots c4 = Inr t"
      unfolding validate_not_gate.simps and_then_Inr
      by (auto split: if_splits simp: and_then_Inr dest!: regex_patterns_same)
    show "counts d (Gate alls anys nots cs rs lrs) s t"
      by (rule counts_parts [OF p(1,2) p(3) _ p(4) _ p(5)]) (auto intro: sub neg)
  qed
qed

section \<open>A manifest\<close>

definition rule_gates :: "agent_manifest \<Rightarrow> gate list" where
  "rule_gates m = map manifest_gate_from_rule (am_rules m)"

lemma validated_rule_counts: "validate_rule te v r s = Inr t \<Longrightarrow> counts 0 (manifest_gate_from_rule r) s t"
  using validated_gate_counts validate_rule_gate by blast

lemma validated_manifest_counts:
  assumes "validate_manifest te m = Inr ()"
  shows "length (am_rules m) \<le> MAX_RULES_PER_MANIFEST"
    and "sum_list (map gate_size (rule_gates m)) \<le> MAX_TOTAL_GATES"
    and "sum_list (map gate_matcher_count (rule_gates m)) \<le> MAX_TOTAL_MATCHERS"
    and "list_all (gate_within MAX_GATE_DEPTH) (rule_gates m)"
proof -
  let ?s = "\<lparr>mc_total_gates = 0, mc_total_matchers = 0\<rparr>"
  obtain c where n: "length (am_rules m) \<le> MAX_RULES_PER_MANIFEST"
    and c: "check_each (validate_rule te (am_min_engine_version m)) (am_rules m) ?s = Inr c"
    using assms by (rule validate_manifest_rules)
  show "length (am_rules m) \<le> MAX_RULES_PER_MANIFEST" by (rule n)
  have "within_limits ?s" by (simp add: within_limits_def MAX_TOTAL_GATES_def MAX_TOTAL_MATCHERS_def)
  then have limits: "within_limits c"
    by (rule check_each_invariant [where P = within_limits, OF c]) (drule validated_rule_counts, simp add: counts_def)
  have "mc_total_gates c = mc_total_gates ?s + sum_list (map (\<lambda>r. gate_size (manifest_gate_from_rule r)) (am_rules m))"
    by (rule check_each_sum [OF c]) (drule validated_rule_counts, simp add: counts_def)
  then show "sum_list (map gate_size (rule_gates m)) \<le> MAX_TOTAL_GATES"
    using limits by (simp add: rule_gates_def within_limits_def comp_def)
  have "mc_total_matchers c =
      mc_total_matchers ?s + sum_list (map (\<lambda>r. gate_matcher_count (manifest_gate_from_rule r)) (am_rules m))"
    by (rule check_each_sum [OF c]) (drule validated_rule_counts, simp add: counts_def)
  then show "sum_list (map gate_matcher_count (rule_gates m)) \<le> MAX_TOTAL_MATCHERS"
    using limits by (simp add: rule_gates_def within_limits_def comp_def)
  show "list_all (gate_within MAX_GATE_DEPTH) (rule_gates m)"
    using check_each_member [OF c] validated_rule_counts
    by (fastforce simp: rule_gates_def list_all_iff counts_def)
qed

section \<open>The meaning of a gate\<close>

definition pattern_matches :: "'r text_engine \<Rightarrow> string \<Rightarrow> string \<Rightarrow> bool" where
  "pattern_matches te p t = (case te_regex te p of Inr r \<Rightarrow> te_is_match te r t | Inl _ \<Rightarrow> False)"

fun gate_holds :: "'r text_engine \<Rightarrow> gate \<Rightarrow> string \<Rightarrow> bool" where
  "gate_holds te (Gate alls anys nots cs rs lrs) t \<longleftrightarrow>
     list_all (\<lambda>needle. sublist (te_lowercase te needle) (te_lowercase te t)) cs \<and>
     list_all (\<lambda>p. pattern_matches te p t) rs \<and>
     list_all (\<lambda>p. list_ex (pattern_matches te p) (str_lines t)) lrs \<and>
     list_all (\<lambda>g. gate_holds te g t) alls \<and>
     (anys = [] \<or> list_ex (\<lambda>g. gate_holds te g t) anys) \<and>
     \<not> list_ex (\<lambda>g. gate_holds te g t) nots"

lemma compiled_members:
  assumes "collect_results f gs = Inr cs" and "\<And>g c. g \<in> set gs \<Longrightarrow> f g = Inr c \<Longrightarrow> P c = Q g"
  shows "list_all P cs = list_all Q gs" and "list_ex P cs = list_ex Q gs" and "(cs = []) = (gs = [])"
proof -
  have same: "map P cs = map Q gs"
    using collect_results_all [OF assms(1)] assms(2)
    by (auto simp: list_all2_conv_all_nth intro!: nth_equalityI) (metis nth_mem)+
  have "list_all P cs = list_all id (map P cs)" "list_ex P cs = list_ex id (map P cs)"
    by (simp_all add: list_all_iff list_ex_iff)
  then show "list_all P cs = list_all Q gs" "list_ex P cs = list_ex Q gs"
    unfolding same by (simp_all add: list_all_iff list_ex_iff)
  show "(cs = []) = (gs = [])" using same by (metis map_is_Nil_conv)
qed

lemma compiled_patterns:
  assumes "collect_results (te_regex te) ps = Inr rs"
  shows "list_all (\<lambda>r. P (te_is_match te r)) rs = list_all (\<lambda>p. P (pattern_matches te p)) ps"
proof (rule compiled_members(1) [OF assms])
  fix p r
  assume "te_regex te p = Inr r"
  then have "pattern_matches te p = te_is_match te r" by (simp add: pattern_matches_def fun_eq_iff)
  then show "P (te_is_match te r) = P (pattern_matches te p)" by simp
qed

lemma compiled_gate_holds:
  "compile_gate te g = Inr c \<Longrightarrow> compiled_gate_matches te c t (te_lowercase te t) = gate_holds te g t"
proof (induction g arbitrary: c)
  case (Gate alls anys nots cs rs lrs)
  from Gate.prems obtain a b n r l where p: "collect_results (compile_gate te) alls = Inr a"
    "collect_results (compile_gate te) anys = Inr b" "collect_results (compile_gate te) nots = Inr n"
    "collect_results (te_regex te) rs = Inr r" "collect_results (te_regex te) lrs = Inr l"
    and c: "c = CompiledGate a b n (map (te_lowercase te) cs) r l" by (auto simp: and_then_Inr)
  note alls = compiled_members [OF p(1) Gate.IH(1)]
  note anys = compiled_members [OF p(2) Gate.IH(2)]
  note nots = compiled_members [OF p(3) Gate.IH(3)]
  note regexes = compiled_patterns [OF p(4), of "\<lambda>f. f t"] compiled_patterns [OF p(5), of "\<lambda>f. list_ex f (str_lines t)"]
  show ?case by (simp add: c alls(1) anys(2,3) nots(2) regexes list.pred_map comp_def)
qed

section \<open>The rule that decides\<close>

definition best_rule :: "manifest_rule list \<Rightarrow> manifest_rule option" where
  "best_rule rs = find (\<lambda>r. list_all (\<lambda>q. mr_priority q \<le> mr_priority r) rs) rs"

definition rule_holds :: "'r text_engine \<Rightarrow> detection_input \<Rightarrow> manifest_rule \<Rightarrow> bool" where
  "rule_holds te input r =
     (case region input (mr_region r) of Some t \<Rightarrow> gate_holds te (manifest_gate_from_rule r) t | None \<Rightarrow> False)"

lemma best_rule_Nil [simp]: "best_rule [] = None"
  by (simp add: best_rule_def)

lemma find_append: "find P (xs @ ys) = (case find P xs of Some x \<Rightarrow> Some x | None \<Rightarrow> find P ys)"
  by (induction xs) auto

lemma best_rule_Some:
  "best_rule rs = Some r \<Longrightarrow> r \<in> set rs \<and> (\<forall>q \<in> set rs. mr_priority q \<le> mr_priority r)"
  by (auto simp: best_rule_def find_Some_iff list_all_iff)

lemma best_rule_None: "best_rule rs = None \<longleftrightarrow> rs = []"
proof
  assume none: "best_rule rs = None"
  show "rs = []"
  proof (rule ccontr)
    assume "rs \<noteq> []"
    then have "Max (mr_priority ` set rs) \<in> mr_priority ` set rs" by simp
    then obtain r where r: "r \<in> set rs" "mr_priority r = Max (mr_priority ` set rs)" by (metis imageE)
    then have "\<forall>q \<in> set rs. mr_priority q \<le> mr_priority r" by simp
    with none r(1) show False by (auto simp: best_rule_def find_None_iff list_all_iff)
  qed
qed simp

lemma best_rule_snoc:
  "best_rule (rs @ [r]) =
     (case best_rule rs of Some p \<Rightarrow> if mr_priority r \<le> mr_priority p then Some p else Some r | None \<Rightarrow> Some r)"
proof (cases "best_rule rs")
  case None
  then show ?thesis by (simp add: best_rule_None) (simp add: best_rule_def)
next
  case (Some p)
  from best_rule_Some [OF Some] have p: "p \<in> set rs" "\<And>q. q \<in> set rs \<Longrightarrow> mr_priority q \<le> mr_priority p" by auto
  show ?thesis
  proof (cases "mr_priority r \<le> mr_priority p")
    case True
    have "list_all (\<lambda>q. mr_priority q \<le> mr_priority x) (rs @ [r]) = list_all (\<lambda>q. mr_priority q \<le> mr_priority x) rs"
      for x :: manifest_rule
      using True p(1) by (auto simp: list_all_iff)
    then have "best_rule (rs @ [r]) = (case best_rule rs of Some x \<Rightarrow> Some x
        | None \<Rightarrow> find (\<lambda>x. list_all (\<lambda>q. mr_priority q \<le> mr_priority x) rs) [r])"
      unfolding best_rule_def by (simp only: find_append)
    with True Some show ?thesis by simp
  next
    case False
    have "find (\<lambda>x. list_all (\<lambda>q. mr_priority q \<le> mr_priority x) (rs @ [r])) rs = None"
      using False p by (fastforce simp: find_None_iff list_all_iff)
    moreover have "list_all (\<lambda>q. mr_priority q \<le> mr_priority r) (rs @ [r])"
      using False p by (fastforce simp: list_all_iff)
    ultimately show ?thesis using False Some by (simp add: best_rule_def find_append)
  qed
qed

lemma evaluate_rules_best:
  assumes "list_all2 (\<lambda>r c. compile_gate te (manifest_gate_from_rule r) = Inr (cr_gate c)) rs cs"
    and "\<forall>r \<in> set rs. region input (mr_region r) \<noteq> None"
  shows "\<exists>evaluated. evaluate_rules te input (zip rs cs) (best_rule seen) ev =
     Some (best_rule (seen @ filter (rule_holds te input) rs), evaluated)"
  using assms
proof (induction arbitrary: seen ev rule: list_all2_induct)
  case (Cons r rs c cs)
  from Cons.prems obtain t where t: "region input (mr_region r) = Some t" by auto
  have hit: "compiled_rule_matches te c t = rule_holds te input r"
    using compiled_gate_holds [OF Cons.hyps(1)] by (simp add: compiled_rule_matches_def rule_holds_def t)
  have rest: "\<forall>r \<in> set rs. region input (mr_region r) \<noteq> None" using Cons.prems by simp
  show ?case
    using Cons.IH [OF rest, of "seen @ (if rule_holds te input r then [r] else [])"]
    by (cases "rule_holds te input r"; cases "best_rule seen") (simp_all add: t hit best_rule_snoc Let_def)
qed simp

lemma compile_manifest_all2:
  "compile_manifest te m = Inr cs \<Longrightarrow>
   list_all2 (\<lambda>r c. compile_gate te (manifest_gate_from_rule r) = Inr (cr_gate c)) (am_rules m) cs"
  unfolding compile_manifest_def
  by (drule collect_results_all, erule list_all2_mono) (auto split: sum.splits)

lemma evaluate_compiled_manifest:
  assumes "compile_manifest te m = Inr cs"
    and "plain_text (di_screen input)"
  shows "\<exists>evaluated. evaluate_rules te input (zip (am_rules m) cs) None [] =
     Some (best_rule (filter (rule_holds te input) (am_rules m)), evaluated)"
proof -
  have "region input spec \<noteq> None" for spec
    using region_part [OF assms(2), of spec] by (auto simp: part_of_def split: option.splits)
  then show ?thesis
    using evaluate_rules_best [OF compile_manifest_all2 [OF assms(1)], where seen = "[]"] by simp
qed

end
