(* ===== verification/Detect_Load_Facts.thy ===== *)
theory Detect_Load_Facts
  imports Detect_Facts
begin

text \<open>
  Which manifest of an agent is loaded, that it is valid and compiled, what the cache holds, and the order of
  versions.
\<close>

section \<open>Loaded manifests\<close>

definition loaded_valid :: "'r text_engine \<Rightarrow> 'r loaded_manifest \<Rightarrow> bool" where
  "loaded_valid te l \<longleftrightarrow>
     validate_manifest te (lm_manifest l) = Inr () \<and> compile_manifest te (lm_manifest l) = Inr (lm_compiled_rules l)"

definition loaded_from :: "'r text_engine \<Rightarrow> manifest_source \<times> agent_manifest \<Rightarrow> 'r loaded_manifest \<Rightarrow> bool" where
  "loaded_from te choice l \<longleftrightarrow> loaded_valid te l \<and> (lm_source l, lm_manifest l) = choice"

lemma loaded_from_update [simp]:
  "loaded_from te ch (l\<lparr>lm_warning := w\<rparr>) = loaded_from te ch l"
  "loaded_from te ch (l\<lparr>lm_cached_remote_version := v\<rparr>) = loaded_from te ch l"
  "loaded_from te ch (l\<lparr>lm_local_override_shadowing_remote := s\<rparr>) = loaded_from te ch l"
  "loaded_from te ch (with_warning w' l) = loaded_from te ch l"
  by (simp_all add: loaded_from_def loaded_valid_def with_warning_def)

lemma parsed_valid: "parse_manifest env content = Inr m \<Longrightarrow> validate_manifest (en_engine env) m = Inr ()"
  by (simp add: parse_manifest_def and_then_Inr)

lemma load_valid_manifest:
  assumes "validate_manifest (en_engine env) m = Inr ()"
  obtains l where "load_manifest_as env m s w c sh = Inr l" and "loaded_from (en_engine env) (s, m) l"
  using validated_compiles [OF assms] assms
  by (auto simp: load_manifest_as_def loaded_from_def loaded_valid_def)

lemma bundled_loads:
  assumes "validate_manifest (en_engine env) m = Inr ()"
  obtains l where "bundled_loaded_manifest env m w c sh = Some l" and "loaded_from (en_engine env) (Bundled, m) l"
  using load_valid_manifest [OF assms, where s = Bundled] by (metis bundled_loaded_manifest_def sum.simps(6))

section \<open>Which manifest is used\<close>

definition older_than :: "agent_manifest \<Rightarrow> agent_manifest \<Rightarrow> bool" where
  "older_than m bundled =
     (case (am_version m, am_version bundled) of (Some r, Some b) \<Rightarrow> version_cmp r b = VLess | _ \<Rightarrow> False)"

definition remote_candidate :: "'r manifest_env \<Rightarrow> agent \<Rightarrow> string + agent_manifest" where
  "remote_candidate env a =
     and_then (en_read env (en_remote_path env a))
       (\<lambda>content. and_then (parse_remote_manifest_for_agent env a content) (\<lambda>(m, _). Inr m))"

definition usable_remote :: "'r manifest_env \<Rightarrow> agent \<Rightarrow> agent_manifest \<Rightarrow> agent_manifest option" where
  "usable_remote env a bundled =
     (if en_exists env (en_remote_path env a)
      then case remote_candidate env a of Inr m \<Rightarrow> if older_than m bundled then None else Some m | Inl _ \<Rightarrow> None
      else None)"

definition usable_override :: "'r manifest_env \<Rightarrow> agent \<Rightarrow> (string \<times> agent_manifest) option" where
  "usable_override env a =
     (case en_override_path env a of
        None \<Rightarrow> None
      | Some path \<Rightarrow>
          if en_exists env path
          then case read_override_manifest env path of
              Inr m \<Rightarrow> if manifest_matches_agent m a then Some (path, m) else None
            | Inl _ \<Rightarrow> None
          else None)"

definition remote_choice :: "'r manifest_env \<Rightarrow> agent \<Rightarrow> agent_manifest \<Rightarrow> manifest_source \<times> agent_manifest" where
  "remote_choice env a bundled =
     (case usable_remote env a bundled of
        Some m \<Rightarrow> (Remote (en_remote_path env a) (case am_version m of Some v \<Rightarrow> v | None \<Rightarrow> ''unknown''), m)
      | None \<Rightarrow> (Bundled, bundled))"

definition chosen_manifest :: "'r manifest_env \<Rightarrow> agent \<Rightarrow> agent_manifest \<Rightarrow> manifest_source \<times> agent_manifest" where
  "chosen_manifest env a bundled =
     (case usable_override env a of Some (path, m) \<Rightarrow> (Override path, m) | None \<Rightarrow> remote_choice env a bundled)"

lemma remote_candidate_valid: "remote_candidate env a = Inr m \<Longrightarrow> validate_manifest (en_engine env) m = Inr ()"
  by (auto simp: remote_candidate_def parse_remote_manifest_for_agent_def and_then_Inr parsed_valid
      split: if_splits option.splits)

lemma read_remote_manifest_eq:
  "read_remote_manifest env a bundled =
     (if \<not> en_exists env (en_remote_path env a) then Some None
      else case remote_candidate env a of
        Inl e \<Rightarrow> map_option Some (bundled_loaded_manifest env bundled
          (Some (''ignored remote manifest '' @ en_remote_path env a @ '' because it could not be loaded: '' @ e)) None False)
      | Inr m \<Rightarrow>
          if older_than m bundled
          then map_option Some (bundled_loaded_manifest env bundled
            (Some (''ignored remote manifest '' @ en_remote_path env a @ '' because cached version '' @
              the (am_version m) @ '' is older than bundled '' @ the (am_version bundled))) (am_version m) False)
          else (case load_manifest_as env m
                   (Remote (en_remote_path env a) (case am_version m of Some v \<Rightarrow> v | None \<Rightarrow> ''unknown'')) None None False of
              Inr l \<Rightarrow> Some (Some l)
            | Inl e \<Rightarrow> map_option Some (bundled_loaded_manifest env bundled
                (Some (''ignored remote manifest '' @ en_remote_path env a @ '' because it could not be compiled: '' @ e)) None False)))"
  unfolding read_remote_manifest_def remote_candidate_def older_than_def Let_def
  by (auto split: sum.split option.split)

lemma read_remote_chooses:
  assumes "validate_manifest (en_engine env) bundled = Inr ()"
  obtains r where "read_remote_manifest env a bundled = Some r"
    and "case r of None \<Rightarrow> usable_remote env a bundled = None
         | Some l \<Rightarrow> loaded_from (en_engine env) (remote_choice env a bundled) l"
proof (cases "en_exists env (en_remote_path env a)")
  case False
  then show ?thesis using that [of None] by (simp add: read_remote_manifest_eq usable_remote_def)
next
  case True
  note unfold = read_remote_manifest_eq usable_remote_def remote_choice_def
  show ?thesis
  proof (cases "remote_candidate env a")
    case (Inl e)
    obtain l where "bundled_loaded_manifest env bundled (Some (''ignored remote manifest '' @ en_remote_path env a @
        '' because it could not be loaded: '' @ e)) None False = Some l" "loaded_from (en_engine env) (Bundled, bundled) l"
      by (rule bundled_loads [OF assms])
    then show ?thesis using that [of "Some l"] True Inl by (simp add: unfold)
  next
    case (Inr m)
    show ?thesis
    proof (cases "older_than m bundled")
      case older: True
      obtain l where "bundled_loaded_manifest env bundled (Some (''ignored remote manifest '' @ en_remote_path env a @
          '' because cached version '' @ the (am_version m) @ '' is older than bundled '' @ the (am_version bundled)))
          (am_version m) False = Some l" "loaded_from (en_engine env) (Bundled, bundled) l"
        by (rule bundled_loads [OF assms])
      then show ?thesis using that [of "Some l"] True Inr older by (simp add: unfold)
    next
      case False
      let ?source = "Remote (en_remote_path env a) (case am_version m of Some v \<Rightarrow> v | None \<Rightarrow> ''unknown'')"
      obtain l where "load_manifest_as env m ?source None None False = Inr l" "loaded_from (en_engine env) (?source, m) l"
        by (rule load_valid_manifest [OF remote_candidate_valid [OF Inr]])
      then show ?thesis using that [of "Some l"] True Inr False by (simp add: unfold)
    qed
  qed
qed

lemma remote_or_bundled_chooses:
  assumes "validate_manifest (en_engine env) bundled = Inr ()"
    and "case r of None \<Rightarrow> usable_remote env a bundled = None
         | Some l \<Rightarrow> loaded_from (en_engine env) (remote_choice env a bundled) l"
  obtains l where "remote_or_bundled env bundled r v sh = Some l" and "loaded_from (en_engine env) (remote_choice env a bundled) l"
proof (cases r)
  case None
  with assms(2) have "remote_choice env a bundled = (Bundled, bundled)" by (simp add: remote_choice_def)
  then show ?thesis
    using bundled_loads [OF assms(1), of None v sh] that None by (auto simp: remote_or_bundled_def)
next
  case (Some l)
  then show ?thesis using that assms(2) by (simp add: remote_or_bundled_def)
qed

lemma apply_override_chooses:
  assumes "otherwise = Some l" and "loaded_from (en_engine env) (remote_choice env a bundled) l"
    and path: "en_override_path env a = Some path" "en_exists env path"
  obtains l' where "apply_override env a path otherwise v sh = Some l'"
    and "loaded_from (en_engine env) (chosen_manifest env a bundled) l'"
proof (cases "read_override_manifest env path")
  case (Inl e)
  then show ?thesis
    using that assms by (simp add: apply_override_def chosen_manifest_def usable_override_def)
next
  case (Inr m)
  show ?thesis
  proof (cases "manifest_matches_agent m a")
    case True
    have "validate_manifest (en_engine env) m = Inr ()"
      using Inr by (auto simp: read_override_manifest_def and_then_Inr parsed_valid)
    then obtain l' where "load_manifest_as env m (Override path) None v sh = Inr l'"
      "loaded_from (en_engine env) (Override path, m) l'" by (rule load_valid_manifest)
    then show ?thesis
      using that Inr True path by (simp add: apply_override_def chosen_manifest_def usable_override_def)
  next
    case False
    then show ?thesis
      using that assms Inr by (simp add: apply_override_def chosen_manifest_def usable_override_def)
  qed
qed

lemma load_chooses:
  assumes "bundled_manifest env a = Some (Some bundled)"
  shows "\<exists>l. load_manifest_uncached env a = Some (Some l) \<and> loaded_from (en_engine env) (chosen_manifest env a bundled) l"
proof -
  have valid: "validate_manifest (en_engine env) bundled = Inr ()"
    using assms by (auto simp: bundled_manifest_def parsed_valid split: option.splits prod.splits sum.splits)
  obtain r where r: "read_remote_manifest env a bundled = Some r"
    and rc: "case r of None \<Rightarrow> usable_remote env a bundled = None
      | Some l \<Rightarrow> loaded_from (en_engine env) (remote_choice env a bundled) l"
    by (rule read_remote_chooses [OF valid])
  define v where "v = Option.bind r remote_version_of"
  note parts = assms r v_def [symmetric]
  show ?thesis
  proof (cases "en_override_path env a")
    case None
    let ?r = "map_option (\<lambda>l. l\<lparr>lm_cached_remote_version := v\<rparr>) r"
    have "case ?r of None \<Rightarrow> usable_remote env a bundled = None
      | Some l \<Rightarrow> loaded_from (en_engine env) (remote_choice env a bundled) l" using rc by (cases r) simp_all
    then obtain l where "remote_or_bundled env bundled ?r v False = Some l"
      "loaded_from (en_engine env) (remote_choice env a bundled) l" by (rule remote_or_bundled_chooses [OF valid])
    then show ?thesis
      using None by (simp add: load_manifest_uncached_def parts Let_def chosen_manifest_def usable_override_def)
  next
    case (Some path)
    let ?sh = "en_exists env path \<and> v \<noteq> None"
    let ?r = "map_option (\<lambda>l. l\<lparr>lm_cached_remote_version := v, lm_local_override_shadowing_remote := ?sh\<rparr>) r"
    have "case ?r of None \<Rightarrow> usable_remote env a bundled = None
      | Some l \<Rightarrow> loaded_from (en_engine env) (remote_choice env a bundled) l" using rc by (cases r) simp_all
    then obtain l where l: "remote_or_bundled env bundled ?r v ?sh = Some l"
      "loaded_from (en_engine env) (remote_choice env a bundled) l" by (rule remote_or_bundled_chooses [OF valid])
    show ?thesis
    proof (cases "en_exists env path")
      case True
      with l have l': "remote_or_bundled env bundled
          (map_option (\<lambda>l. l\<lparr>lm_cached_remote_version := v, lm_local_override_shadowing_remote := v \<noteq> None\<rparr>) r) v (v \<noteq> None) = Some l"
        by simp
      obtain l'' where "apply_override env a path (Some l) v (v \<noteq> None) = Some l''"
        "loaded_from (en_engine env) (chosen_manifest env a bundled) l''"
        by (rule apply_override_chooses [OF refl l(2) Some True])
      then show ?thesis using Some True l' by (simp add: load_manifest_uncached_def parts Let_def)
    next
      case False
      then show ?thesis
        using Some l by (simp add: load_manifest_uncached_def parts Let_def chosen_manifest_def usable_override_def)
    qed
  qed
qed

section \<open>The cache\<close>

lemma collect_pairs:
  "collect_options (\<lambda>a. map_option (Pair a) (g a)) xs = Some ys \<Longrightarrow>
   ys = map (\<lambda>a. (a, the (g a))) xs \<and> (\<forall>a \<in> set xs. g a \<noteq> None)"
  by (induction xs arbitrary: ys) (auto simp: bind_eq_Some_conv)

lemma find_pair_map:
  "a \<in> set xs \<Longrightarrow> find (\<lambda>(b, _). b = a) (map (\<lambda>x. (x, f x)) xs) = Some (a, f a)"
  by (induction xs) auto

lemma build_cache_entries:
  assumes "build_manifest_cache env = Some cache" and "a \<in> set SCREEN_MANIFEST_AGENTS"
  shows "load_manifest_uncached env a = Some (cached_manifest cache a)"
proof -
  have cache: "cache = map (\<lambda>a. (a, the (load_manifest_uncached env a))) SCREEN_MANIFEST_AGENTS"
    and loads: "\<forall>a \<in> set SCREEN_MANIFEST_AGENTS. load_manifest_uncached env a \<noteq> None"
    using collect_pairs [OF assms(1) [unfolded build_manifest_cache_def]] by simp_all
  obtain l where l: "load_manifest_uncached env a = Some l" using loads assms(2) by auto
  then show ?thesis unfolding cache cached_manifest_def by (simp add: find_pair_map [OF assms(2)])
qed

lemma build_cache_other:
  assumes "build_manifest_cache env = Some cache" and "a \<notin> set SCREEN_MANIFEST_AGENTS"
  shows "cached_manifest cache a = None"
proof -
  have "cache = map (\<lambda>a. (a, the (load_manifest_uncached env a))) SCREEN_MANIFEST_AGENTS"
    using collect_pairs [OF assms(1) [unfolded build_manifest_cache_def]] by simp
  then have "find (\<lambda>(b, _). b = a) cache = None" using assms(2) by (auto simp: find_None_iff)
  then show ?thesis by (simp add: cached_manifest_def)
qed

lemma loaded_bundled:
  "load_manifest_uncached env a = Some (Some l) \<Longrightarrow> \<exists>b. bundled_manifest env a = Some (Some b)"
  by (auto simp: load_manifest_uncached_def bind_eq_Some_conv split: option.splits)

lemma cached_valid:
  assumes "build_manifest_cache env = Some cache" and "cached_manifest cache a = Some l"
  shows "loaded_valid (en_engine env) l"
proof -
  have "a \<in> set SCREEN_MANIFEST_AGENTS" using build_cache_other [OF assms(1)] assms(2) by fastforce
  then have l: "load_manifest_uncached env a = Some (Some l)"
    using build_cache_entries [OF assms(1)] assms(2) by simp
  then obtain b where "bundled_manifest env a = Some (Some b)" using loaded_bundled by blast
  from load_chooses [OF this] l show ?thesis by (auto simp: loaded_from_def)
qed

text \<open>The bundled manifests are in the program: when they are valid the cache is built.\<close>

lemma collect_options_total: "\<forall>x \<in> set xs. f x \<noteq> None \<Longrightarrow> collect_options f xs \<noteq> None"
  by (induction xs) auto

lemma build_cache_total:
  assumes "\<forall>a \<in> set SCREEN_MANIFEST_AGENTS. bundled_manifest env a \<noteq> None"
  shows "build_manifest_cache env \<noteq> None"
  unfolding build_manifest_cache_def
proof (rule collect_options_total, rule ballI)
  fix a
  assume "a \<in> set SCREEN_MANIFEST_AGENTS"
  with assms obtain b where b: "bundled_manifest env a = Some b" by auto
  show "map_option (Pair a) (load_manifest_uncached env a) \<noteq> None"
  proof (cases b)
    case None
    then show ?thesis using b by (simp add: load_manifest_uncached_def)
  next
    case (Some m)
    then show ?thesis using load_chooses [of env a m] b by auto
  qed
qed

section \<open>Versions\<close>

definition significant_segments :: "nat list \<Rightarrow> nat list" where
  "significant_segments ns = rev (dropWhile (\<lambda>n. n = 0) (rev ns))"

definition version_value :: "string \<Rightarrow> nat list" where
  "version_value v = significant_segments (map segment_value (version_segments v))"

lemma significant_Cons:
  "significant_segments (n # ns) =
     (if n = 0 \<and> significant_segments ns = [] then [] else n # significant_segments ns)"
  by (auto simp: significant_segments_def dropWhile_append dropWhile_eq_Nil_conv)

lemma significant_Nil [simp]: "significant_segments [] = []"
  by (simp add: significant_segments_def)

lemma compare_segments_equal:
  "compare_segments as bs = VEqual \<longleftrightarrow>
     significant_segments (map segment_value as) = significant_segments (map segment_value bs)"
  by (induction as bs rule: compare_segments.induct) (auto simp: significant_Cons)

lemma compare_segments_less:
  "compare_segments as bs = VLess \<longleftrightarrow>
     (significant_segments (map segment_value as), significant_segments (map segment_value bs)) \<in> lexord less_than"
  by (induction as bs rule: compare_segments.induct) (auto simp: significant_Cons neq_Nil_conv)

lemma compare_segments_flip: "compare_segments as bs = VGreater \<longleftrightarrow> compare_segments bs as = VLess"
  by (induction as bs rule: compare_segments.induct) auto

end
