(* ===== verification/Detect_Properties.thy ===== *)
theory Detect_Properties
  imports Detect_Load_Facts
begin

text \<open>
  The properties of screen detection: the verdict on a screen, the regions its rules read, the bounds of a
  manifest, where a manifest comes from and the order of versions.
\<close>

section \<open>A manifest for the instances\<close>

definition demo_rule :: "string \<Rightarrow> manifest_state \<Rightarrow> int \<Rightarrow> string \<Rightarrow> manifest_rule" where
  "demo_rule i s p needle = \<lparr>mr_id = i, mr_state = Some s, mr_priority = p, mr_region = default_region,
     mr_visible_idle = False, mr_visible_blocker = (s = MBlocked), mr_visible_working = False,
     mr_skip_state_update = (s = MUnknown), mr_all = [], mr_any = [], mr_not = [Gate [] [] [] [''quit''] [] []],
     mr_contains = [needle], mr_regex = [], mr_line_regex = []\<rparr>"

definition demo_manifest :: agent_manifest where
  "demo_manifest = \<lparr>am_id = ''codex'', am_version = Some ''1.2'', am_min_engine_version = Some 1, am_updated_at = None,
     am_aliases = [], am_rules = [demo_rule ''working'' MWorking 1 ''run'', demo_rule ''ask'' MBlocked 5 ''ask'',
       demo_rule ''late'' MIdle 5 ''ask'', demo_rule ''menu'' MUnknown 9 ''menu'']\<rparr>"

definition demo_engine :: "string text_engine" where
  "demo_engine = \<lparr>te_regex = Inr, te_is_match = sublist, te_lowercase = id, te_debug = id\<rparr>"

definition demo_env :: "string manifest_env" where
  "demo_env = \<lparr>en_engine = demo_engine, en_bundled = [(''codex'', ''bundled'')],
     en_toml = (\<lambda>content. Inr (if content = ''remote'' then demo_manifest\<lparr>am_version := Some ''1.10''\<rparr> else demo_manifest)),
     en_exists = (\<lambda>path. path = ''cache''), en_read = (\<lambda>path. Inr ''remote''), en_remote_path = (\<lambda>a. ''cache''),
     en_override_path = (\<lambda>a. Some ''local'')\<rparr>"

lemma demo_region: "validate_region_name default_region = Inr ()"
  by code_simp

lemma demo_id: "trim ''working'' = ''working''" "trim ''ask'' = ''ask''" "trim ''late'' = ''late''" "trim ''menu'' = ''menu''"
 "trim default_region = default_region"
  by code_simp+

lemma demo_chars: "length (utf8_chars ''quit'') = 4" "length (utf8_chars ''ask'') = 3" "length (utf8_chars ''run'') = 3" "length (utf8_chars ''menu'') = 4"
  by code_simp+


definition demo_gate :: "string \<Rightarrow> gate" where
  "demo_gate needle = Gate [] [] [Gate [] [] [] [''quit''] [] []] [needle] [] []"

lemma demo_limits:
  "count_gate ctx d \<lparr>mc_total_gates = n, mc_total_matchers = k\<rparr> = Inr \<lparr>mc_total_gates = n + 1, mc_total_matchers = k\<rparr>" if "d < 3" "n < 100" for d n k
  using that by (simp add: count_gate_def MAX_GATE_DEPTH_def MAX_TOTAL_GATES_def)

lemma demo_limits2:
  "validate_matcher_limits g ctx \<lparr>mc_total_gates = n, mc_total_matchers = k\<rparr> = Inr \<lparr>mc_total_gates = n, mc_total_matchers = Suc k\<rparr>"
  if "gate_matchers g = [x]" "length (utf8_chars x) < 5" "k < 100" for n k
  using that by (simp add: validate_matcher_limits_def Let_def MAX_MATCHERS_PER_GATE_def MAX_TOTAL_MATCHERS_def MAX_MATCHER_CHARS_def)

lemma demo_gate_valid:
  assumes "length (utf8_chars x) < 5" "n < 90" "k < 90"
  shows "validate_gate te ctx 0 (demo_gate x) \<lparr>mc_total_gates = n, mc_total_matchers = k\<rparr> = Inr \<lparr>mc_total_gates = n + 2, mc_total_matchers = k + 2\<rparr>"
  using assms by (simp add: demo_gate_def demo_limits demo_limits2 [where x = x] demo_limits2 [where x = "''quit''"] demo_chars gate_matchers_def gate_has_positive_matcher_def gate_has_any_matcher_def validate_regex_patterns_def)

lemma demo_rule_valid:
  assumes "trim i = i" "i \<noteq> []" "length (utf8_chars x) < 5" "n < 90" "k < 90"
  shows "validate_rule te v (demo_rule i st p x) \<lparr>mc_total_gates = n, mc_total_matchers = k\<rparr> = Inr \<lparr>mc_total_gates = n + 2, mc_total_matchers = k + 2\<rparr>"
proof -
  have "manifest_gate_from_rule (demo_rule i st p x) = demo_gate x"
    by (simp add: manifest_gate_from_rule_def demo_rule_def demo_gate_def)
  moreover have "validate_region_name (mr_region (demo_rule i st p x)) = Inr ()" by (simp add: demo_rule_def demo_region)
  moreover have "\<not> starts_with (trim (mr_region (demo_rule i st p x))) ''top_non_empty_lines(''"
    unfolding demo_rule_def by (simp add: demo_id) code_simp
  moreover have "trim (mr_id (demo_rule i st p x)) \<noteq> []" using assms(1,2) by (simp add: demo_rule_def)
  moreover have "mr_skip_state_update (demo_rule i st p x) \<Longrightarrow> mr_state (demo_rule i st p x) = Some MUnknown"
    "mr_skip_state_update (demo_rule i st p x) \<Longrightarrow> \<not> (mr_visible_idle (demo_rule i st p x) \<or>
       mr_visible_blocker (demo_rule i st p x) \<or> mr_visible_working (demo_rule i st p x))"
    by (simp_all add: demo_rule_def)
  ultimately show ?thesis
    unfolding validate_rule_def using demo_gate_valid [OF assms(3-5), of te "''rule''"] by (auto split: sum.split)
qed

lemma demo_manifest_valid: "validate_manifest te (demo_manifest\<lparr>am_version := v\<rparr>) = Inr ()"
  by (simp add: validate_manifest_def demo_manifest_def demo_rule_valid demo_id demo_chars MAX_RULES_PER_MANIFEST_def)

lemma demo_manifest_parse: "parse_manifest demo_env content =
    Inr (if content = ''remote'' then demo_manifest\<lparr>am_version := Some ''1.10''\<rparr> else demo_manifest)"
  using demo_manifest_valid [of demo_engine "am_version demo_manifest"] demo_manifest_valid [of demo_engine "Some ''1.10''"]
  by (simp add: parse_manifest_def demo_env_def)

lemma demo_bundled: "bundled_manifest demo_env a = Some (if a = Codex then Some demo_manifest else None)"
  unfolding bundled_manifest_def demo_manifest_parse by (cases a) (simp_all add: demo_env_def)

lemma demo_versions: "version_segments ''1.2'' = [''1'', ''2'']" "version_segments ''1.10'' = [''1'', ''10'']"
  "digits_value ''1'' = 1" "digits_value ''2'' = 2" "digits_value ''10'' = 10" 
  "list_all is_ascii_digit ''1''" "list_all is_ascii_digit ''2''" "list_all is_ascii_digit ''10''"
  by code_simp+

lemma demo_segments: "segment_value ''1'' = 1" "segment_value ''2'' = 2" "segment_value ''10'' = 10"
  by (simp_all add: segment_value_def usize_limit_def demo_versions(3-5)
      parse_uint_digits [OF _ demo_versions(6)] parse_uint_digits [OF _ demo_versions(7)] parse_uint_digits [OF _ demo_versions(8)])

lemma demo_choice: "chosen_manifest demo_env Codex demo_manifest = (Remote ''cache'' ''1.10'', demo_manifest\<lparr>am_version := Some ''1.10''\<rparr>)"
proof -
  have "manifest_matches_agent (demo_manifest\<lparr>am_version := Some ''1.10''\<rparr>) Codex"
    by (simp add: manifest_matches_agent_def demo_manifest_def)
  moreover have "version_cmp ''1.10'' ''1.2'' = VGreater"
    by (simp add: version_cmp_def demo_versions(1,2) demo_segments)
  ultimately show ?thesis
    unfolding chosen_manifest_def usable_override_def remote_choice_def usable_remote_def remote_candidate_def
      parse_remote_manifest_for_agent_def demo_manifest_parse older_than_def
    by (simp add: demo_env_def demo_manifest_def MANIFEST_ENGINE_VERSION_def)
qed

lemma ascii_plain:
  assumes "list_all (\<lambda>c. byte c < 0x80) s" and "carriage_return \<notin> set s"
  shows "plain_text s"
proof -
  have "s = concat (map encode_utf8 (map byte s))"
    using assms(1) by (induction s) (simp_all add: encode_utf8_def byte_def)
  moreover have "list_all is_scalar (map byte s)"
    using assms(1) by (auto simp: list_all_iff is_scalar_def)
  ultimately show ?thesis using assms(2) by (auto simp: plain_text_def is_utf8_def)
qed

lemma demo_screens: "plain_text ''run ask''" "plain_text ''menu''" "plain_text (''ask'' @ [newline] @ ''quit'')"
  by (rule ascii_plain; code_simp)+

section \<open>The verdict\<close>

definition cached_rules :: "'r manifest_cache \<Rightarrow> agent \<Rightarrow> manifest_rule list" where
  "cached_rules cache a = (case cached_manifest cache a of Some l \<Rightarrow> am_rules (lm_manifest l) | None \<Rightarrow> [])"

definition verdict :: "manifest_rule option \<Rightarrow> agent_detection" where
  "verdict r =
     (case r of
        None \<Rightarrow> \<lparr>ad_state = Idle, ad_skip_state_update = False, ad_visible_idle = False,
          ad_visible_blocker = False, ad_visible_working = False\<rparr>
      | Some r \<Rightarrow> \<lparr>ad_state = rule_state r, ad_skip_state_update = mr_skip_state_update r,
          ad_visible_idle = (mr_visible_idle r \<and> rule_state r = Idle),
          ad_visible_blocker = (mr_visible_blocker r \<and> rule_state r = Blocked),
          ad_visible_working = (mr_visible_working r \<and> rule_state r = Working)\<rparr>)"

lemma detected_verdict:
  assumes "build_manifest_cache env = Some cache" and "plain_text (di_screen input)"
  shows "detect_agent_with_osc (en_engine env) status (cached_manifest cache) (Some a) input =
    Some (verdict (best_rule (filter (rule_holds (en_engine env) input) (cached_rules cache a))))"
proof (cases "cached_manifest cache a")
  case None
  then show ?thesis
    by (simp add: detect_agent_with_osc_def detect_with_osc_def into_detection_def fallback_explain_def
        verdict_def cached_rules_def)
next
  case (Some l)
  have "compile_manifest (en_engine env) (lm_manifest l) = Inr (lm_compiled_rules l)"
    using cached_valid [OF assms(1) Some] by (simp add: loaded_valid_def)
  from evaluate_compiled_manifest [OF this assms(2)] obtain evaluated where
    "evaluate_rules (en_engine env) input (zip (am_rules (lm_manifest l)) (lm_compiled_rules l)) None [] =
      Some (best_rule (filter (rule_holds (en_engine env) input) (am_rules (lm_manifest l))), evaluated)" by blast
  then show ?thesis
    by (simp add: detect_agent_with_osc_def detect_with_osc_def evaluate_loaded_manifest_def Some cached_rules_def
        verdict_def into_detection_def fallback_explain_def Let_def split: option.split)
qed

text \<open>
  C35: With the manifests the program caches, the detection of an agent on any screen of UTF-8 text without
  carriage returns does not panic, and its verdict is the one of the first rule of the highest priority among
  the rules that hold, in the meaning of the manifest's source; when none holds the agent is idle.
\<close>

theorem verdict_is_best_rule:
  assumes "build_manifest_cache env = Some cache" and "plain_text (di_screen input)"
  shows "detect_agent_with_osc (en_engine env) status (cached_manifest cache) (Some a) input =
    Some (verdict (best_rule (filter (rule_holds (en_engine env) input) (cached_rules cache a))))"
  using assms by (rule detected_verdict)

lemma demo_cached: "\<exists>cache. build_manifest_cache demo_env = Some cache \<and> cached_rules cache Codex = am_rules demo_manifest"
proof -
  obtain cache where cache: "build_manifest_cache demo_env = Some cache"
    using build_cache_total [of demo_env] by (auto simp: demo_bundled)
  obtain l where l: "load_manifest_uncached demo_env Codex = Some (Some l)"
    "loaded_from (en_engine demo_env) (chosen_manifest demo_env Codex demo_manifest) l"
    using load_chooses [of demo_env Codex demo_manifest] by (auto simp: demo_bundled)
  have "cached_manifest cache Codex = Some l"
    using build_cache_entries [OF cache, of Codex] l(1) by (simp add: SCREEN_MANIFEST_AGENTS_def)
  then show ?thesis
    using cache l(2) by (auto simp: cached_rules_def loaded_from_def demo_choice)
qed

lemma demo_verdicts:
  "best_rule (filter (rule_holds demo_engine (screen_input ''run ask'')) (am_rules demo_manifest)) =
     Some (demo_rule ''ask'' MBlocked 5 ''ask'')"
  "best_rule (filter (rule_holds demo_engine (screen_input ''menu'')) (am_rules demo_manifest)) =
     Some (demo_rule ''menu'' MUnknown 9 ''menu'')"
  by code_simp+

theorem verdict_is_best_rule_witness:
  "\<exists>cache. build_manifest_cache demo_env = Some cache \<and>
     detect_agent_with_osc demo_engine (\<lambda>_. None) (cached_manifest cache) (Some Codex) (screen_input ''run ask'') =
       Some \<lparr>ad_state = Blocked, ad_skip_state_update = False, ad_visible_idle = False, ad_visible_blocker = True,
         ad_visible_working = False\<rparr>"
proof -
  obtain cache where cache: "build_manifest_cache demo_env = Some cache" "cached_rules cache Codex = am_rules demo_manifest"
    using demo_cached by blast
  have "detect_agent_with_osc (en_engine demo_env) (\<lambda>_. None) (cached_manifest cache) (Some Codex) (screen_input ''run ask'') =
      Some (verdict (best_rule (filter (rule_holds (en_engine demo_env) (screen_input ''run ask'')) (cached_rules cache Codex))))"
    by (rule verdict_is_best_rule [OF cache(1)]) (simp add: screen_input_def demo_screens)
  moreover have "en_engine demo_env = demo_engine" by (simp add: demo_env_def)
  ultimately show ?thesis
    using cache by (simp add: demo_verdicts verdict_def demo_rule_def rule_state_def)
qed

text \<open>
  C36: A verdict is well formed: a visible sign is reported only for the state it is a sign of, so at most one
  sign is, and a verdict that asks to keep the state as it is says nothing else: its state is unknown and it
  shows no sign.
\<close>

theorem verdict_well_formed:
  assumes "build_manifest_cache env = Some cache" and "plain_text (di_screen input)"
    and "detect_agent_with_osc (en_engine env) status (cached_manifest cache) (Some a) input = Some d"
  shows "(ad_visible_idle d \<longrightarrow> ad_state d = Idle) \<and> (ad_visible_blocker d \<longrightarrow> ad_state d = Blocked) \<and>
    (ad_visible_working d \<longrightarrow> ad_state d = Working) \<and>
    (ad_skip_state_update d \<longrightarrow> ad_state d = Unknown \<and>
      \<not> (ad_visible_idle d \<or> ad_visible_blocker d \<or> ad_visible_working d))"
proof -
  define r where "r = best_rule (filter (rule_holds (en_engine env) input) (cached_rules cache a))"
  have d: "d = verdict r" using detected_verdict [OF assms(1,2), of status a] assms(3) by (simp add: r_def)
  have "mr_state q = Some MUnknown" if q: "r = Some q" "mr_skip_state_update q" for q
  proof -
    from q(1) have "q \<in> set (cached_rules cache a)" using best_rule_Some unfolding r_def by fastforce
    then obtain l where l: "cached_manifest cache a = Some l" "q \<in> set (am_rules (lm_manifest l))"
      by (cases "cached_manifest cache a") (auto simp: cached_rules_def)
    from cached_valid [OF assms(1) l(1)] have "validate_manifest (en_engine env) (lm_manifest l) = Inr ()"
      by (simp add: loaded_valid_def)
    then obtain s t where "validate_rule (en_engine env) (am_min_engine_version (lm_manifest l)) q s = Inr t"
      using l(2) by (rule validated_rules)
    then show ?thesis using q(2) by (rule validate_rule_skip)
  qed
  then show ?thesis
    by (cases r) (auto simp: d verdict_def rule_state_def)
qed

theorem verdict_well_formed_witness:
  "\<exists>d. ad_skip_state_update d \<and> ad_state d = Unknown \<and> \<not> ad_visible_idle d \<and>
     Some (Some d) = map_option (\<lambda>cache. detect_agent_with_osc demo_engine (\<lambda>_. None) (cached_manifest cache) (Some Codex)
       (screen_input ''menu'')) (build_manifest_cache demo_env)"
proof -
  obtain cache where cache: "build_manifest_cache demo_env = Some cache" "cached_rules cache Codex = am_rules demo_manifest"
    using demo_cached by blast
  let ?d = "verdict (Some (demo_rule ''menu'' MUnknown 9 ''menu''))"
  have engine: "en_engine demo_env = demo_engine" by (simp add: demo_env_def)
  have d: "detect_agent_with_osc (en_engine demo_env) (\<lambda>_. None) (cached_manifest cache) (Some Codex) (screen_input ''menu'') = Some ?d"
    using detected_verdict [OF cache(1), of "screen_input ''menu''" "\<lambda>_. None" Codex]
    by (simp add: screen_input_def [of "''menu''"] demo_screens engine cache(2) demo_verdicts [unfolded screen_input_def])
  have "ad_skip_state_update ?d" by (simp add: verdict_def demo_rule_def)
  then show ?thesis
    using verdict_well_formed [OF cache(1) _ d] d cache(1) demo_screens
    by (intro exI [of _ ?d]) (simp add: screen_input_def engine)
qed

section \<open>Regions\<close>

text \<open>
  C37: Whatever region a rule names, reading it from a screen of UTF-8 text without carriage returns does not
  panic, and it is the title or the progress the terminal reports or a part of the screen.
\<close>

theorem region_never_leaves_screen:
  assumes "plain_text (di_screen input)"
  shows "\<exists>t. region input spec = Some t \<and> (sublist t (di_screen input) \<or> t = di_osc_title input \<or> t = di_osc_progress input)"
  using region_part [OF assms, of spec] by (auto simp: part_of_def split: option.splits)

theorem region_never_leaves_screen_witness:
  "\<exists>t. region (screen_input (''ask'' @ [newline] @ ''quit'')) ''bottom_lines(1)'' = Some t \<and>
     t \<in> {t. sublist t (''ask'' @ [newline] @ ''quit'') \<or> t = []}"
  using region_never_leaves_screen [of "screen_input (''ask'' @ [newline] @ ''quit'')" "''bottom_lines(1)''"] demo_screens
  by (simp add: screen_input_def)

section \<open>Bounds\<close>

text \<open>
  C38: A manifest that is accepted has at most 128 rules, 512 gates and 1024 matchers, no gate lies more than
  8 gates below its rule, and all its rules compile.
\<close>

theorem accepted_manifest_bounded:
  assumes "parse_manifest env content = Inr m"
  shows "length (am_rules m) \<le> 128 \<and> sum_list (map gate_size (rule_gates m)) \<le> 512 \<and>
    sum_list (map gate_matcher_count (rule_gates m)) \<le> 1024 \<and> list_all (gate_within 8) (rule_gates m) \<and>
    (\<exists>rules. compile_manifest (en_engine env) m = Inr rules)"
  using validated_manifest_counts [OF parsed_valid [OF assms]] parse_manifest_compiles [OF assms]
  by (simp add: MAX_RULES_PER_MANIFEST_def MAX_TOTAL_GATES_def MAX_TOTAL_MATCHERS_def MAX_GATE_DEPTH_def)

theorem accepted_manifest_bounded_witness:
  "length (am_rules demo_manifest) = 4 \<and> sum_list (map gate_size (rule_gates demo_manifest)) \<le> 512 \<and>
    list_all (gate_within 8) (rule_gates demo_manifest)"
  using accepted_manifest_bounded [of demo_env "''bundled''" demo_manifest]
  by (simp add: demo_manifest_parse) (simp add: demo_manifest_def)

section \<open>Where a manifest comes from\<close>

text \<open>
  C39: For an agent with a bundled manifest the loading does not panic and the loaded manifest, valid and
  compiled, is the override of the user when there is one that is valid and is of this agent; else the
  downloaded one when it is valid, of this agent, made for this engine and not older than the bundled one;
  and else the bundled one.
\<close>

theorem manifest_by_precedence:
  assumes "bundled_manifest env a = Some (Some bundled)"
  shows "\<exists>l. load_manifest_uncached env a = Some (Some l) \<and> loaded_valid (en_engine env) l \<and>
    (lm_source l, lm_manifest l) = chosen_manifest env a bundled"
  using load_chooses [OF assms] by (simp add: loaded_from_def)

theorem manifest_by_precedence_witness:
  "\<exists>l. load_manifest_uncached demo_env Codex = Some (Some l) \<and> lm_source l = Remote ''cache'' ''1.10''"
  using manifest_by_precedence [of demo_env Codex demo_manifest] by (auto simp: demo_bundled demo_choice)

text \<open>
  C40: Versions are ordered by their numbers, segment by segment and not as text, where zeros at the end do not
  count.
\<close>

theorem versions_ordered_by_numbers:
  "version_cmp a b =
     (if version_value a = version_value b then VEqual
      else if (version_value a, version_value b) \<in> lexord less_than then VLess else VGreater)"
  unfolding version_cmp_def version_value_def
  using compare_segments_equal [of "version_segments a" "version_segments b"]
    compare_segments_less [of "version_segments a" "version_segments b"]
  by (cases "compare_segments (version_segments a) (version_segments b)") simp_all

end
