(* ===== verification/Spec2Isabelle.thy ===== *)
theory Spec2Isabelle
  imports Layout_Properties Managed_Properties Restart_Properties Metadata_Properties Restore_Properties
    Workspace_Properties App_Properties Input_Properties Detect_Properties
begin

text \<open>
  A verification development for the backend of Osade, a server that runs coding agents in
  terminals tiled over a screen (\<open>src/backend/src\<close>).

  \<^bold>\<open>The program.\<close> The server owns \<^emph>\<open>terminals\<close> (\<open>terminal/\<close>), each a pseudo terminal that may run an
  agent. A terminal learns about its agent in two ways: the process table and the screen are
  scanned (\<open>detect/\<close>), and integrations installed in the agents send \<^emph>\<open>hook reports\<close> about state
  and session over the API. \<open>terminal/state.rs\<close> arbitrates between them; \<open>terminal/metadata.rs\<close>
  holds titles and labels the integrations attach, \<open>metadata_tokens.rs\<close> the tokens of a whole
  workspace, \<open>agent_resume.rs\<close> the sessions that can be resumed after a restart. The panes that
  show the terminals form a binary tree of splits per tab (\<open>layout.rs\<close>); tabs belong to workspaces
  (\<open>workspace.rs\<close>, \<open>workspace/\<close>), which give panes and tabs the public numbers clients name them
  by. A client (\<open>client/\<close>) reads keys and mouse reports of its terminal, sends them over the wire
  (\<open>protocol/wire.rs\<close>) to the pane they belong to, where they are encoded for the program in the
  pane (\<open>input/\<close>). When the server stops, its workspaces are captured in a snapshot and restored from it at the
  next start (\<open>persist/\<close>).

  \<^bold>\<open>Theories.\<close>
  \<^item> \<open>Osade_Base\<close>: Rust's saturating integers, \<open>Option\<close> combinators, \<open>Instant\<close>, \<open>HashMap\<close> (an
    association list whose order is the iteration order), iterator minima, and the interfaces
    \<open>hash_map\<close>, \<open>sequence_gate\<close> (numbered reports, old ones dropped) and \<open>op_machine\<close> (operations
    that keep an invariant and do not panic).
  \<^item> \<open>Float32\<close>, \<open>Rust_Str\<close>: binary32 arithmetic with its rounding, and strings as UTF-8 bytes,
    with decimal numbers and characters.
  \<^item> \<open>Layout\<close>, \<open>Layout_Facts\<close>, \<open>Layout_Machine\<close>, \<open>Layout_Tiling\<close>, \<open>Layout_Properties\<close>: \<open>layout.rs\<close>.
  \<^item> \<open>Agents\<close>, \<open>Agent_Sessions\<close>, \<open>Metadata_Tokens\<close>: the tables of \<open>detect/mod.rs\<close>,
    \<open>agent_resume.rs\<close> and \<open>metadata_tokens.rs\<close>.
  \<^item> \<open>Terminal_Types\<close>: the records of \<open>state.rs\<close>, \<open>metadata.rs\<close> and \<open>title.rs\<close>. \<open>Terminal_View\<close>: the
    arbitration of label, state and presentation. \<open>Terminal_Hooks\<close>: routing, suppression, stale
    sessions and session conflicts. \<open>Terminal_Reports\<close>: the calls of the integrations.
    \<open>Terminal_Detect\<close>: detection and process exit. \<open>Terminal_Managed\<close>: agents the server starts.
    \<open>Terminal_Metadata\<close>: \<open>metadata.rs\<close>.
  \<^item> \<open>Terminal_Facts\<close>, \<open>Terminal_Machine\<close>, \<open>Terminal_Ops\<close>: the invariant of a terminal and its
    preservation. \<open>Terminal_Calls\<close>: the machine of all operations, with the interpretations of
    \<open>op_machine\<close> and of \<open>sequence_gate\<close>. \<open>Terminal_Mutations\<close>: what a returned mutation says.
  \<^item> \<open>Terminal_Properties\<close>, \<open>Exit_Properties\<close>, \<open>Restart_Properties\<close>, \<open>Managed_Properties\<close>,
    \<open>Metadata_Properties\<close>: the properties of terminals. \<open>Hook_Runs\<close>: what stays out over whole runs
    after a process has exited or a session has been replaced.

  \<^item> \<open>Public_Ids\<close>: public numbers and the ids of workspaces and terminals. \<open>Session_Snapshot\<close>: the
    records of tabs and workspaces, the snapshot and its capture. \<open>Session_Restore\<close>: restoring panes
    and tabs; \<open>Workspace_Restore\<close>: workspaces, sessions and the strict variant of a handoff.
    \<open>Restore_Facts\<close>, \<open>Restore_Panes\<close>, \<open>Restore_Sessions\<close>, \<open>Restore_Roundtrip\<close>, \<open>Restore_Numbers\<close>,
    \<open>Restore_Properties\<close>: their lemmas and properties.
  \<^item> \<open>Tabs\<close>, \<open>Workspaces\<close>, \<open>Workspace_View\<close>: the operations of \<open>workspace/tab.rs\<close> and \<open>workspace.rs\<close>,
    names and \<open>workspace/aggregate.rs\<close>. \<open>Workspace_Facts\<close>, \<open>Tab_Facts\<close>, \<open>Workspace_Machine\<close>,
    \<open>Workspace_Ops\<close>, \<open>Workspace_Panes\<close>: the invariant of a workspace and its preservation.
    \<open>Workspace_Calls\<close>: the machine of all operations as an interpretation of \<open>op_machine\<close>.
    \<open>Workspace_Properties\<close>: the properties.
  \<^item> \<open>App_State\<close>, \<open>App_Notify\<close>, \<open>App_Events\<close>, \<open>App_Handlers\<close>: the server's state and its operations
    (\<open>app/state.rs\<close>, \<open>app/actions.rs\<close>): focus and the order of workspaces, notifications, the
    updates of terminals, and the handlers of events. \<open>App_Facts\<close>, \<open>App_Lists\<close>, \<open>App_Close\<close>,
    \<open>App_Died\<close>, \<open>App_Changes\<close>, \<open>App_Updates\<close>, \<open>App_Upkeep\<close>: its invariant, which composes those of
    workspaces and terminals, and what each operation keeps of it. \<open>App_Machine\<close>: the machine of the
    operations. \<open>App_Properties\<close>: the properties.
  \<^item> \<open>Input_Keys\<close>, \<open>Input_Encode\<close>, \<open>Input_Parse\<close>, \<open>Input_Mouse\<close>, \<open>Input_Lease\<close>: the modules of \<open>input/\<close>;
    \<open>Input_Parse\<close> also holds the encoder of a pane (\<open>pane/terminal.rs\<close>, \<open>pane/input.rs\<close>), which reads
    back what Ghostty gives. \<open>Client_Keys\<close>: the client's handling of a key (\<open>client/shell/input.rs\<close>). \<open>Selection\<close>: \<open>selection.rs\<close>. \<open>Wire_Input\<close>, \<open>Wire_Framing\<close>: the input
    events and the frames of \<open>protocol/wire.rs\<close>. \<open>Input_Roundtrip\<close>: the lemmas behind the round trips.
    \<open>Input_Properties\<close>: the properties.
  \<^item> \<open>Detect_Regions\<close>, \<open>Detect_Manifest\<close>: screen detection (\<open>detect/manifest.rs\<close>, versions of
    \<open>detect/manifest_update.rs\<close>): the regions of a screen, manifests of rules with their validation,
    compilation and evaluation, and the choice and the cache of manifests. \<open>Detect_Region_Facts\<close>,
    \<open>Detect_Facts\<close>, \<open>Detect_Load_Facts\<close>: their lemmas. \<open>Detect_Properties\<close>: the properties.

  \<^bold>\<open>How the model corresponds to the code.\<close> A Rust \<open>struct\<close> is a record with a prefix of its own for
  its fields, an \<open>enum\<close> a datatype. A method with \<open>&mut self\<close> takes the state last and returns it
  with its result; the name is the method's. Long methods are cut at their comments and blocks
  into definitions of their own (the blocks of a process exit are \<open>exit_suppressions\<close>,
  \<open>exit_official_session\<close>, \<open>exit_authority\<close>, \<open>exit_persisted_session\<close> and \<open>exit_metadata\<close>). An
  \<open>Instant\<close> is a natural number of nanoseconds. Where the code calls \<open>Instant::now()\<close> itself the
  reading is an argument (\<open>now\<close>, and \<open>clk\<close> for a later reading in the same call); nothing is
  assumed about the order of readings, apart from \<open>clock_steady\<close> in the properties of a restore that
  name it. Global counters (\<open>id_counters\<close>, \<open>restore_state\<close>) are arguments and results. Starting
  a process, the clock of terminal ids and git metadata are the fields of the record \<open>host\<close>, files
  and runtimes at a restore those of \<open>restore_env\<close>; code chosen at compile time is modelled for
  Unix, keys with the records of a Windows console besides. The rest of the client's shell is the
  record \<open>shell_ops\<close>, regular expressions and lower case those of \<open>text_engine\<close>, the TOML parser and the
  files of manifests those of \<open>manifest_env\<close>, \<open>bincode\<close> a pair of functions, the bits of \<open>crossterm\<close>'s modifiers another. Sequence numbers are 64-bit words, sizes of the screen
  16-bit words. A panic is \<open>None\<close>.

  \<^bold>\<open>What the properties show.\<close> The layout tiles the screen, no sequence of operations on it panics,
  splitting and closing are inverse, and navigation and resizing do what they say. The stored
  state of a terminal is the arbitration of its inputs after every operation, and the mutation
  every call returns is exact. Reports are taken in order of their numbers. The reports of a
  full-lifecycle integration that was cleared are not taken for the cleared session; those of one whose
  process has exited stay out in every run until a live process is detected, the pane is respawned or
  the session is restored; those of a replaced session until a session report names it again or the
  pane is respawned. A live integration is not overruled by the screen, and a restarted agent takes
  effect even when its reports overtake its detection. A launch of a managed agent that was seen neither
  idle nor blocked by its deadline is given up, an active one was seen idle, a blocked one blocked and
  not idle since, and the timers make progress.
  Metadata expires exactly. A restored session is consistent with fresh ids, resumes every agent session once,
  and gives tabs, focus and public numbers back. No sequence of operations on a workspace panics
  or makes its layouts, pane tables and numbers disagree, a public number is never given twice,
  and closing, moving and splitting tabs and panes do what they say. The server's state stays
  consistent in every run of its operations; a dead pane or a closed workspace leaves no terminal
  behind, the active workspace is kept by identity, an event changes one terminal and the mark of one
  pane only, only a completion the user did not see sets that mark, and a notification is delivered when it is due and only while it is true. A key keeps the bytes a pane on Unix
  writes for it, and their number, on its way over the wire, the sequences that stand for a key are read back, a held key is released where it was pressed,
  messages come out of a stream as they were written, and a pixel, a drag and a selection stay
  with the cells they mean. Screen detection does not panic on UTF-8 text without carriage returns
  (with them it can, \<open>crlf_screen_panics\<close>) and follows the first rule of the highest priority that
  holds in the meaning of the manifest; an accepted manifest is bounded and compiles, and the manifest
  in use is the override, else the download that is not older, else the bundled one.

  \<^bold>\<open>Bounds.\<close> No fuel is used: every recursion is structural or has a termination proof. \<open>Rect::new\<close> of the \<open>ratatui\<close> crate,
  which limits the area of a rectangle, is a parameter of the layout with its documented
  behaviour as a hypothesis, and both a plain and a limiting instance are given. Ghostty's encoder of
  keys is a parameter of the pane's encoder, on which nothing is assumed.

  \<^bold>\<open>Not modelled.\<close> Process identification from command lines, the download of manifests, the
  session file, git metadata, key bindings, the clipboard, the messages of the wire protocol
  other than the input of a pane, the server's sockets and threads, the API, the emulator bindings
  and the user interface: they are input and output, calls of external libraries, or data for
  \<open>serde\<close>. The order of a \<open>HashMap\<close> is an arbitrary list, kept by updates; the code's may change when
  the map grows.
\<close>

end
